(* ===== verification/Go_Prelude.thy ===== *)
theory Go_Prelude
  imports Main "HOL-Library.List_Lexorder" "HOL-Library.Char_ord"
begin

text \<open>
  What every component of the model shares: Go's nil-or-error results as options, the
  early-return sequence of a validation function, the "seen map" loop that rejects a
  repeated identity, and the list facts the components use.

  A Go function that returns \<open>error\<close> is a function into \<open>'e option\<close>: \<open>None\<close> is nil.
  A Go function that returns a value and an error is a function into \<open>'e + 'a\<close>.
\<close>

named_theorems go_simps \<open>unfolding rules for the small Go idioms\<close>

section \<open>Errors and early returns\<close>

text \<open>\<open>if b { return e }\<close>: the error when the guard holds, nil otherwise.\<close>

definition refuse :: "bool \<Rightarrow> 'e \<Rightarrow> 'e option" where
  "refuse b e = (if b then Some e else None)"

text \<open>A sequence of early returns: the first error of the list, in the order of the code.\<close>

fun first_error :: "'e option list \<Rightarrow> 'e option" where
  "first_error [] = None"
| "first_error (None # rest) = first_error rest"
| "first_error (Some e # rest) = Some e"

lemma refuse_None [simp]: "refuse b e = None \<longleftrightarrow> \<not> b"
  by (simp add: refuse_def)

lemma refuse_Some [simp]: "refuse b e = Some e' \<longleftrightarrow> b \<and> e = e'"
  by (auto simp: refuse_def)

lemma first_error_None_iff: "first_error es = None \<longleftrightarrow> (\<forall>e \<in> set es. e = None)"
  by (induction es rule: first_error.induct) auto

lemma first_error_Cons_None [simp]:
  "first_error (e # es) = None \<longleftrightarrow> e = None \<and> first_error es = None"
  by (cases e) auto

lemma first_error_append_None [simp]:
  "first_error (es @ fs) = None \<longleftrightarrow> first_error es = None \<and> first_error fs = None"
  by (induction es rule: first_error.induct) auto

lemma first_error_map_None [simp]:
  "first_error (map f xs) = None \<longleftrightarrow> (\<forall>x \<in> set xs. f x = None)"
  by (induction xs) auto

lemma first_error_Some_mem: "first_error es = Some e \<Longrightarrow> Some e \<in> set es"
  by (induction es rule: first_error.induct) auto

lemma map_option_None_iff [simp]: "map_option f x = None \<longleftrightarrow> x = None"
  by (cases x) auto

text \<open>Continue with the value of a successful call, pass its error on.\<close>

fun and_then :: "'e + 'a \<Rightarrow> ('a \<Rightarrow> 'e + 'b) \<Rightarrow> 'e + 'b" where
  "and_then (Inl e) f = Inl e"
| "and_then (Inr x) f = f x"

fun with_check :: "'e option \<Rightarrow> 'e + 'a \<Rightarrow> 'e + 'a" where
  "with_check (Some e) r = Inl e"
| "with_check None r = r"

lemma and_then_Inr_iff [simp]: "and_then r f = Inr y \<longleftrightarrow> (\<exists>x. r = Inr x \<and> f x = Inr y)"
  by (cases r) auto

lemma and_then_Inl_iff:
  "and_then r f = Inl e \<longleftrightarrow> r = Inl e \<or> (\<exists>x. r = Inr x \<and> f x = Inl e)"
  by (cases r) auto

lemma with_check_Inr_iff [simp]: "with_check e r = Inr y \<longleftrightarrow> e = None \<and> r = Inr y"
  by (cases e) auto

section \<open>The seen-map loop\<close>

text \<open>
  The shape of most validation loops of the program:
  \<^verbatim>\<open>
  seen := make(map[string]struct{})
  for index, item := range items {
      if err := item.validate(); err != nil { return wrap(index, err) }
      identity := key(item)
      if _, exists := seen[identity]; exists { return duplicate(index, item) }
      seen[identity] = struct{}{}
  }
  \<close>
  \<open>seen\<close> is the list of the keys stored so far: only membership is ever asked.
\<close>

fun unique_scan ::
  "('a \<Rightarrow> 'f option) \<Rightarrow> (nat \<Rightarrow> 'f \<Rightarrow> 'e) \<Rightarrow> ('a \<Rightarrow> 'k) \<Rightarrow> (nat \<Rightarrow> 'a \<Rightarrow> 'e)
    \<Rightarrow> nat \<Rightarrow> 'k list \<Rightarrow> 'a list \<Rightarrow> 'e option" where
  "unique_scan check wrap key dup i seen [] = None"
| "unique_scan check wrap key dup i seen (x # xs) =
     (case check x of
        Some f \<Rightarrow> Some (wrap i f)
      | None \<Rightarrow>
          (if List.member seen (key x) then Some (dup i x)
           else unique_scan check wrap key dup (Suc i) (key x # seen) xs))"

lemma unique_scan_None_iff:
  "unique_scan check wrap key dup i seen xs = None \<longleftrightarrow>
     (\<forall>x \<in> set xs. check x = None) \<and> distinct (map key xs) \<and> key ` set xs \<inter> set seen = {}"
  by (induction xs arbitrary: i seen) (auto split: option.splits)

lemma unique_scan_ok:
  "unique_scan check wrap key dup i [] xs = None \<longleftrightarrow>
     (\<forall>x \<in> set xs. check x = None) \<and> distinct (map key xs)"
  by (simp add: unique_scan_None_iff)

section \<open>Lists and association lists\<close>

lemma distinct_map_finer:
  assumes "distinct (map g xs)" and "\<And>x y. f x = f y \<Longrightarrow> g x = g y"
  shows "distinct (map f xs)"
  using assms(1) by (induction xs) (auto dest: assms(2))

lemma distinct_map_finer_on:
  assumes "distinct (map g xs)"
    and "\<And>x y. x \<in> set xs \<Longrightarrow> y \<in> set xs \<Longrightarrow> f x = f y \<Longrightarrow> g x = g y"
  shows "distinct (map f xs)"
  using assms unfolding distinct_map inj_on_def by blast

lemma distinct_map_eq:
  "distinct (map f xs) \<Longrightarrow> x \<in> set xs \<Longrightarrow> y \<in> set xs \<Longrightarrow> f x = f y \<Longrightarrow> x = y"
  by (simp add: distinct_map inj_on_def)

text \<open>Assignment \<open>m[k] = v\<close> of a Go map kept as an association list in insertion order.\<close>

fun map_set :: "'k \<Rightarrow> 'v \<Rightarrow> ('k \<times> 'v) list \<Rightarrow> ('k \<times> 'v) list" where
  "map_set k v [] = [(k, v)]"
| "map_set k v ((k', v') # m) = (if k = k' then (k, v) # m else (k', v') # map_set k v m)"

lemma map_of_map_set [simp]: "map_of (map_set k v m) = (map_of m)(k \<mapsto> v)"
  by (induction k v m rule: map_set.induct) (auto simp: fun_eq_iff)

lemma set_keys_map_set [simp]: "fst ` set (map_set k v m) = insert k (fst ` set m)"
  by (induction k v m rule: map_set.induct) auto

lemma distinct_map_set [simp]:
  "distinct (map fst (map_set k v m)) = distinct (map fst m)"
proof (induction k v m rule: map_set.induct)
  case (2 k v k' v' m)
  have "k' \<in> fst ` set (map_set k v m) \<longleftrightarrow> k' = k \<or> k' \<in> fst ` set m"
    by simp
  with 2 show ?case by (auto simp: image_iff)
qed simp

end
