(* ===== verification/Go_Strings.thy ===== *)
theory Go_Strings
  imports Go_Prelude
begin

text \<open>
  Go strings and the standard-library functions on them that the program calls
  (packages strings, strconv, unicode/utf8). A Go string is a sequence of bytes: a HOL
  \<open>string\<close> whose \<open>char\<close>s are its bytes. A rune is an \<open>int\<close>; \<open>runes\<close> is the decoding
  \<open>range s\<close> and the unicode-aware functions use, one pair of rune and bytes per step.
\<close>

section \<open>Prefixes, suffixes, separators\<close>

definition has_prefix :: "string \<Rightarrow> string \<Rightarrow> bool" where
  "has_prefix s p \<longleftrightarrow> take (length p) s = p"

definition has_suffix :: "string \<Rightarrow> string \<Rightarrow> bool" where
  "has_suffix s p \<longleftrightarrow> has_prefix (rev s) (rev p)"

definition trim_prefix :: "string \<Rightarrow> string \<Rightarrow> string" where
  "trim_prefix s p = (if has_prefix s p then drop (length p) s else s)"

definition trim_suffix :: "string \<Rightarrow> string \<Rightarrow> string" where
  "trim_suffix s p = (if has_suffix s p then take (length s - length p) s else s)"

text \<open>\<open>strings.Cut(s, sep)\<close>: the parts before and after the first \<open>sep\<close>, if there is one.\<close>

fun cut_at :: "string \<Rightarrow> string \<Rightarrow> (string \<times> string) option" where
  "cut_at [] sep = (if sep = [] then Some ([], []) else None)"
| "cut_at (c # s) sep =
     (if has_prefix (c # s) sep then Some ([], drop (length sep) (c # s))
      else map_option (\<lambda>(a, b). (c # a, b)) (cut_at s sep))"

definition contains_str :: "string \<Rightarrow> string \<Rightarrow> bool" where
  "contains_str s t \<longleftrightarrow> cut_at s t \<noteq> None"

text \<open>\<open>strings.ContainsAny\<close> with a cutset of ASCII characters.\<close>

definition contains_any :: "string \<Rightarrow> string \<Rightarrow> bool" where
  "contains_any s cs \<longleftrightarrow> list_ex (\<lambda>c. List.member cs c) s"

text \<open>Every byte of \<open>s\<close> is one of the ASCII characters \<open>cs\<close>: a loop over the runes with
  \<open>strings.ContainsRune\<close>. A byte above 127 belongs to a rune that no ASCII set holds.\<close>

definition all_in :: "string \<Rightarrow> string \<Rightarrow> bool" where
  "all_in cs s \<longleftrightarrow> list_all (\<lambda>c. List.member cs c) s"

fun split_on :: "char \<Rightarrow> string \<Rightarrow> string list" where
  "split_on sep [] = [[]]"
| "split_on sep (c # s) =
     (if c = sep then [] # split_on sep s
      else (case split_on sep s of [] \<Rightarrow> [[c]] | w # ws \<Rightarrow> (c # w) # ws))"

fun join_with :: "string \<Rightarrow> string list \<Rightarrow> string" where
  "join_with sep [] = []"
| "join_with sep [w] = w"
| "join_with sep (w # v # ws) = w @ sep @ join_with sep (v # ws)"

text \<open>\<open>strings.LastIndexByte\<close>: the text before and after the last \<open>c\<close>, if there is one.\<close>

fun cut_last :: "char \<Rightarrow> string \<Rightarrow> (string \<times> string) option" where
  "cut_last c [] = None"
| "cut_last c (x # s) =
     (case cut_last c s of
        Some (a, b) \<Rightarrow> Some (x # a, b)
      | None \<Rightarrow> (if x = c then Some ([], s) else None))"

lemma has_prefix_iff: "has_prefix s p \<longleftrightarrow> (\<exists>t. s = p @ t)"
  unfolding has_prefix_def by (metis append_eq_conv_conj append_take_drop_id)

lemma has_prefix_append [simp]: "has_prefix (p @ t) p"
  by (simp add: has_prefix_def)

lemma has_prefix_Nil [simp]: "has_prefix s []"
  by (simp add: has_prefix_def)

lemma has_suffix_iff: "has_suffix s p \<longleftrightarrow> (\<exists>t. s = t @ p)"
  unfolding has_suffix_def has_prefix_iff
  by (metis rev_append rev_rev_ident)

lemma trim_prefix_append [simp]: "trim_prefix (p @ s) p = s"
  by (simp add: trim_prefix_def)

lemma split_on_nonempty [simp]: "split_on sep s \<noteq> []"
  by (induction s) (auto split: list.splits)

lemma split_on_no_sep: "w \<in> set (split_on sep s) \<Longrightarrow> sep \<notin> set w"
  by (induction s arbitrary: w) (auto split: if_splits list.splits)

lemma join_split [simp]: "join_with [sep] (split_on sep s) = s"
proof (induction s)
  case (Cons c s)
  obtain w ws where "split_on sep s = w # ws"
    by (cases "split_on sep s") auto
  with Cons show ?case by (cases ws) auto
qed simp

lemma split_on_plain: "sep \<notin> set w \<Longrightarrow> split_on sep w = [w]"
  by (induction w) auto

lemma split_on_append_sep: "sep \<notin> set w \<Longrightarrow> split_on sep (w @ sep # s) = w # split_on sep s"
  by (induction w) (auto split: list.splits)

lemma split_join:
  "ws \<noteq> [] \<Longrightarrow> \<forall>w \<in> set ws. sep \<notin> set w \<Longrightarrow> split_on sep (join_with [sep] ws) = ws"
proof (induction ws rule: induct_list012)
  case (2 w)
  then show ?case by (simp add: split_on_plain)
next
  case (3 w v ws)
  then show ?case by (simp add: split_on_append_sep)
qed simp

lemma join_with_inj:
  assumes "join_with [sep] us = join_with [sep] ws" and "us \<noteq> []" and "ws \<noteq> []"
    and "\<forall>w \<in> set us. sep \<notin> set w" and "\<forall>w \<in> set ws. sep \<notin> set w"
  shows "us = ws"
  using assms by (metis split_join)

text \<open>Two words joined by a separator the second part never contains are read off uniquely.\<close>

lemma sep_pair_inj_left:
  assumes "a @ sep # b = c @ sep # d" and "sep \<notin> set a" and "sep \<notin> set c"
  shows "a = c \<and> b = d"
  using assms
proof (induction a arbitrary: c)
  case Nil
  then show ?case by (cases c) auto
next
  case (Cons x a)
  then show ?case by (cases c) auto
qed

lemma sep_pair_inj:
  assumes "a @ sep # b = c @ sep # d" and "sep \<notin> set b" and "sep \<notin> set d"
  shows "a = c \<and> b = d"
proof -
  have "rev (a @ sep # b) = rev (c @ sep # d)"
    using assms(1) by (rule arg_cong)
  then have "rev b @ sep # rev a = rev d @ sep # rev c"
    by simp
  from sep_pair_inj_left [OF this] assms(2,3) show ?thesis by simp
qed

section \<open>Runes and white space\<close>

definition is_cont :: "int \<Rightarrow> bool" where
  "is_cont b \<longleftrightarrow> 128 \<le> b \<and> b < 192"

text \<open>
  \<open>utf8.DecodeRuneInString\<close>: the rune and its width. An invalid or truncated encoding
  (overlong forms and surrogates included) is the rune U+FFFD of width 1.
\<close>

fun decode_rune :: "int list \<Rightarrow> int \<times> nat" where
  "decode_rune [] = (65533, 0)"
| "decode_rune (b0 # bs) =
     (if b0 < 128 then (b0, 1)
      else if 194 \<le> b0 \<and> b0 < 224 then
        (case bs of
           b1 # _ \<Rightarrow> (if is_cont b1 then ((b0 - 192) * 64 + (b1 - 128), 2) else (65533, 1))
         | [] \<Rightarrow> (65533, 1))
      else if 224 \<le> b0 \<and> b0 < 240 then
        (case bs of
           b1 # b2 # _ \<Rightarrow>
             (if is_cont b1 \<and> is_cont b2 \<and> (b0 = 224 \<longrightarrow> 160 \<le> b1) \<and> (b0 = 237 \<longrightarrow> b1 < 160)
              then ((b0 - 224) * 4096 + (b1 - 128) * 64 + (b2 - 128), 3) else (65533, 1))
         | _ \<Rightarrow> (65533, 1))
      else if 240 \<le> b0 \<and> b0 < 245 then
        (case bs of
           b1 # b2 # b3 # _ \<Rightarrow>
             (if is_cont b1 \<and> is_cont b2 \<and> is_cont b3 \<and>
                 (b0 = 240 \<longrightarrow> 144 \<le> b1) \<and> (b0 = 244 \<longrightarrow> b1 < 144)
              then ((b0 - 240) * 262144 + (b1 - 128) * 4096 + (b2 - 128) * 64 + (b3 - 128), 4)
              else (65533, 1))
         | _ \<Rightarrow> (65533, 1))
      else (65533, 1))"

lemma decode_rune_width: "0 < snd (decode_rune (b # bs))"
  by (simp split: list.splits)

function runes :: "string \<Rightarrow> (int \<times> string) list" where
  "runes [] = []"
| "runes (c # s) =
     (let (r, w) = decode_rune (map of_char (take 4 (c # s)))
      in (r, take w (c # s)) # runes (drop w (c # s)))"
  by pat_completeness auto
termination
proof (relation "measure length")
  fix c :: char and s :: string and x r w
  assume "x = decode_rune (map of_char (take 4 (c # s)))" and "(r, w) = x"
  then have "0 < w"
    using decode_rune_width [of "of_char c" "map of_char (take 3 s)"]
    by (metis eval_nat_numeral(2) list.simps(9) numeral_3_eq_3 semiring_norm(26,27) snd_conv
        take_Suc_Cons numeral_eq_Suc pred_numeral_simps(2) eval_nat_numeral(3))
  then show "(drop w (c # s), c # s) \<in> measure length" by simp
qed simp

text \<open>\<open>unicode.IsSpace\<close> and \<open>unicode.IsControl\<close>.\<close>

definition is_space_rune :: "int \<Rightarrow> bool" where
  "is_space_rune r \<longleftrightarrow> (9 \<le> r \<and> r \<le> 13) \<or> r = 32 \<or> r = 133 \<or> r = 160 \<or> r = 5760 \<or>
     (8192 \<le> r \<and> r \<le> 8202) \<or> r = 8232 \<or> r = 8233 \<or> r = 8239 \<or> r = 8287 \<or> r = 12288"

definition is_control_rune :: "int \<Rightarrow> bool" where
  "is_control_rune r \<longleftrightarrow> r < 32 \<or> (127 \<le> r \<and> r < 160)"

definition valid_utf8 :: "string \<Rightarrow> bool" where
  "valid_utf8 s \<longleftrightarrow> list_all (\<lambda>(r, b). \<not> (r = 65533 \<and> length b = 1)) (runes s)"

text \<open>\<open>strings.TrimSpace\<close> and \<open>strings.Fields\<close>.\<close>

definition trim_space :: "string \<Rightarrow> string" where
  "trim_space s =
     concat (map snd (rev (dropWhile (is_space_rune \<circ> fst)
       (rev (dropWhile (is_space_rune \<circ> fst) (runes s))))))"

definition is_blank :: "string \<Rightarrow> bool" where
  "is_blank s \<longleftrightarrow> trim_space s = []"

fun fields_of :: "string \<Rightarrow> (int \<times> string) list \<Rightarrow> string list" where
  "fields_of acc [] = (if acc = [] then [] else [acc])"
| "fields_of acc ((r, b) # rs) =
     (if is_space_rune r then (if acc = [] then fields_of [] rs else acc # fields_of [] rs)
      else fields_of (acc @ b) rs)"

definition fields_str :: "string \<Rightarrow> string list" where
  "fields_str s = fields_of [] (runes s)"

lemma runes_ascii:
  assumes "(of_char c :: int) < 128"
  shows "runes (c # s) = (of_char c, [c]) # runes s"
  using assms by (simp add: runes.simps(2) decode_rune.simps(2))

lemma concat_runes [simp]: "concat (map snd (runes s)) = s"
proof (induction s rule: runes.induct)
  case (2 c s)
  obtain r w where rw: "decode_rune (map of_char (take 4 (c # s))) = (r, w)"
    by fastforce
  with 2 have "concat (map snd (runes (drop w (c # s)))) = drop w (c # s)"
    by metis
  with rw show ?case
    by (simp only: runes.simps(2) Let_def case_prod_conv list.map concat.simps snd_conv
        append_take_drop_id)
qed simp

declare decode_rune.simps [simp del] runes.simps(2) [simp del]

section \<open>Numbers in text\<close>

definition is_digit :: "char \<Rightarrow> bool" where
  "is_digit c \<longleftrightarrow> CHR ''0'' \<le> c \<and> c \<le> CHR ''9''"

definition digits1 :: "string \<Rightarrow> bool" where
  "digits1 s \<longleftrightarrow> s \<noteq> [] \<and> list_all is_digit s"

definition dec_value :: "string \<Rightarrow> nat" where
  "dec_value s = foldl (\<lambda>v c. 10 * v + (of_char c - 48)) 0 s"

text \<open>\<open>strconv.ParseUint(s, 10, 64)\<close> and \<open>strconv.Atoi(s)\<close> where \<open>int\<close> has 64 bits.\<close>

definition parse_uint64 :: "string \<Rightarrow> nat option" where
  "parse_uint64 s = (if digits1 s \<and> int (dec_value s) < 2 ^ 64 then Some (dec_value s) else None)"

definition atoi :: "string \<Rightarrow> int option" where
  "atoi s =
     (let neg = has_prefix s ''-'';
          ds = (if neg \<or> has_prefix s ''+'' then drop 1 s else s);
          v = (if neg then - int (dec_value ds) else int (dec_value ds))
      in if digits1 ds \<and> - (2 ^ 63) \<le> v \<and> v < 2 ^ 63 then Some v else None)"

text \<open>The decimal text \<open>%d\<close> prints.\<close>

fun dec_nat :: "nat \<Rightarrow> string" where
  "dec_nat n = (if n < 10 then [char_of (48 + n)] else dec_nat (n div 10) @ [char_of (48 + n mod 10)])"

declare dec_nat.simps [simp del]

definition dec_int :: "int \<Rightarrow> string" where
  "dec_int i = (if i < 0 then CHR ''-'' # dec_nat (nat (- i)) else dec_nat (nat i))"

lemma dec_nat_digits: "c \<in> set (dec_nat n) \<Longrightarrow> is_digit c"
proof (induction n arbitrary: c rule: dec_nat.induct)
  case (1 n)
  have d: "is_digit (char_of (48 + m))" if "m < 10" for m :: nat
  proof -
    from that have "m \<in> {0, 1, 2, 3, 4, 5, 6, 7, 8, 9}" by auto
    then show ?thesis by (auto simp: is_digit_def less_eq_char_def)
  qed
  show ?case
  proof (cases "n < 10")
    case True
    with 1 d show ?thesis by (auto simp: dec_nat.simps [of n])
  next
    case False
    with 1 d show ?thesis by (auto simp: dec_nat.simps [of n])
  qed
qed

lemma dec_nat_nonempty [simp]: "dec_nat n \<noteq> []"
  by (simp add: dec_nat.simps [of n])

lemma dec_value_snoc: "dec_value (s @ [c]) = 10 * dec_value s + (of_char c - 48)"
  by (simp add: dec_value_def)

lemma dec_value_dec_nat [simp]: "dec_value (dec_nat n) = n"
proof (induction n rule: dec_nat.induct)
  case (1 n)
  have v: "of_char (char_of (48 + m) :: char) - 48 = m" if "m < 10" for m :: nat
    using that by simp
  show ?case
  proof (cases "n < 10")
    case True
    then show ?thesis using v [of n] by (simp add: dec_nat.simps [of n] dec_value_def)
  next
    case False
    then show ?thesis
      using 1 v [of "n mod 10"] by (simp add: dec_nat.simps [of n] dec_value_snoc)
  qed
qed

lemma dec_nat_inj [simp]: "dec_nat m = dec_nat n \<longleftrightarrow> m = n"
  by (metis dec_value_dec_nat)

lemma dec_int_nonneg_inj: "0 \<le> i \<Longrightarrow> 0 \<le> j \<Longrightarrow> dec_int i = dec_int j \<longleftrightarrow> i = j"
  by (simp add: dec_int_def nat_eq_iff)

lemma dec_int_no_nul: "CHR 0x00 \<notin> set (dec_int i)"
  by (auto simp: dec_int_def is_digit_def less_eq_char_def dest!: dec_nat_digits)

section \<open>Quoted text\<close>

text \<open>\<open>strconv.QuoteToASCII\<close> without its two quotes: one rune at a time. \<open>hex_digits w n\<close> are
  the last \<open>w\<close> lower-case hexadecimal digits of \<open>n\<close>.\<close>

definition hex_digit :: "int \<Rightarrow> char" where
  "hex_digit d = (if d < 10 then char_of (48 + d) else char_of (87 + d))"

fun hex_digits :: "nat \<Rightarrow> int \<Rightarrow> string" where
  "hex_digits 0 n = []"
| "hex_digits (Suc w) n = hex_digits w (n div 16) @ [hex_digit (n mod 16)]"

definition short_escape :: "int \<Rightarrow> char option" where
  "short_escape r =
     map_of [(7, CHR ''a''), (8, CHR ''b''), (12, CHR ''f''), (10, CHR ''n''), (13, CHR ''r''),
             (9, CHR ''t''), (11, CHR ''v'')] r"

definition escape_rune :: "int \<times> string \<Rightarrow> string" where
  "escape_rune = (\<lambda>(r, b).
     if r = 65533 \<and> length b = 1 then [CHR 0x5C, CHR ''x''] @ hex_digits 2 (of_char (hd b))
     else if r = 34 \<or> r = 92 then [CHR 0x5C, char_of r]
     else if 32 \<le> r \<and> r < 127 then [char_of r]
     else (case short_escape r of
             Some c \<Rightarrow> [CHR 0x5C, c]
           | None \<Rightarrow>
               if r < 32 \<or> r = 127 then [CHR 0x5C, CHR ''x''] @ hex_digits 2 r
               else if r < 65536 then [CHR 0x5C, CHR ''u''] @ hex_digits 4 r
               else [CHR 0x5C, CHR ''U''] @ hex_digits 8 r))"

definition quoted_ascii :: "string \<Rightarrow> string" where
  "quoted_ascii s = concat (map escape_rune (runes s))"

definition printable :: "char \<Rightarrow> bool" where
  "printable c \<longleftrightarrow> (32 :: int) \<le> of_char c \<and> of_char c < (127 :: int)"

lemma hex_digit_printable: "0 \<le> d \<Longrightarrow> d < 16 \<Longrightarrow> printable (hex_digit d)"
  by (simp add: hex_digit_def printable_def)

lemma hex_digits_printable: "list_all printable (hex_digits w n)"
  by (induction w n rule: hex_digits.induct) (auto simp: hex_digit_printable)

lemma short_escape_printable: "short_escape r = Some c \<Longrightarrow> printable c"
  by (auto simp: short_escape_def printable_def split: if_splits)

lemma escape_rune_printable: "list_all printable (escape_rune rb)"
proof -
  have "printable (CHR 0x5C)" "printable (CHR ''x'')" "printable (CHR ''u'')" "printable (CHR ''U'')"
    by (simp_all add: printable_def)
  moreover have "printable (char_of r)" if "32 \<le> r" "r < (127 :: int)" for r
    using that by (simp add: printable_def)
  ultimately show ?thesis
    by (auto simp: escape_rune_def hex_digits_printable split: prod.splits option.splits
        dest: short_escape_printable)
qed

lemma quoted_ascii_printable: "list_all printable (quoted_ascii s)"
  using escape_rune_printable by (auto simp: quoted_ascii_def list_all_iff)

end
