(* ===== verification/Go_Path.thy ===== *)
theory Go_Path
  imports Go_Strings
begin

text \<open>
  The lexical path functions of Go's packages path and path/filepath on a Unix system
  (the two agree there), and \<open>fs.ValidPath\<close>. \<open>path_clean\<close> processes the slash-separated
  elements from left to right over a stack of the elements kept so far.

  The last section gives the meaning the confinement checks of the program rely on: where
  a relative path leads when it is walked from a root directory, element by element.
\<close>

section \<open>Clean, Dir, Base, Ext, Join\<close>

definition is_abs :: "string \<Rightarrow> bool" where
  "is_abs p \<longleftrightarrow> has_prefix p ''/''"

text \<open>One element: empty and current-directory elements vanish, a parent element removes the
  element before it, unless there is none or it is itself a kept parent element.\<close>

definition clean_step :: "bool \<Rightarrow> string list \<Rightarrow> string \<Rightarrow> string list" where
  "clean_step rooted stack c =
     (if c = [] \<or> c = ''.'' then stack
      else if c = ''..'' then
        (case stack of
           [] \<Rightarrow> (if rooted then [] else [''..''])
         | kept # rest \<Rightarrow> (if kept = ''..'' then ''..'' # stack else rest))
      else c # stack)"

definition clean_elems :: "bool \<Rightarrow> string list \<Rightarrow> string list" where
  "clean_elems rooted cs = rev (foldl (clean_step rooted) [] cs)"

definition path_clean :: "string \<Rightarrow> string" where
  "path_clean p =
     (let es = clean_elems (is_abs p) (split_on CHR ''/'' p)
      in if is_abs p then CHR ''/'' # join_with ''/'' es
         else if es = [] then ''.'' else join_with ''/'' es)"

definition path_dir :: "string \<Rightarrow> string" where
  "path_dir p =
     path_clean (case cut_last CHR ''/'' p of None \<Rightarrow> [] | Some (a, b) \<Rightarrow> a @ ''/'')"

definition path_base :: "string \<Rightarrow> string" where
  "path_base p =
     (if p = [] then ''.''
      else (let q = rev (dropWhile (\<lambda>c. c = CHR ''/'') (rev p));
                b = (case cut_last CHR ''/'' q of None \<Rightarrow> q | Some (a, r) \<Rightarrow> r)
            in if b = [] then ''/'' else b))"

definition path_ext :: "string \<Rightarrow> string" where
  "path_ext p =
     (let e = (case cut_last CHR ''/'' p of None \<Rightarrow> p | Some (a, r) \<Rightarrow> r)
      in (case cut_last CHR ''.'' e of None \<Rightarrow> [] | Some (a, x) \<Rightarrow> CHR ''.'' # x))"

definition path_join :: "string list \<Rightarrow> string" where
  "path_join ps =
     (case filter (\<lambda>p. p \<noteq> []) ps of
        [] \<Rightarrow> []
      | qs \<Rightarrow> path_clean (join_with ''/'' qs))"

definition valid_path :: "string \<Rightarrow> bool" where
  "valid_path p \<longleftrightarrow> valid_utf8 p \<and>
     (p = ''.'' \<or> list_all (\<lambda>e. e \<noteq> [] \<and> e \<noteq> ''.'' \<and> e \<noteq> ''..'') (split_on CHR ''/'' p))"

section \<open>What Clean leaves\<close>

definition plain_elem :: "string \<Rightarrow> bool" where
  "plain_elem c \<longleftrightarrow> c \<noteq> [] \<and> c \<noteq> ''.'' \<and> c \<noteq> ''..''"

text \<open>A stack is the plain elements on top of the parent elements that nothing cancelled.\<close>

definition clean_stack :: "bool \<Rightarrow> string list \<Rightarrow> bool" where
  "clean_stack rooted st \<longleftrightarrow>
     (\<exists>es n. st = es @ replicate n ''..'' \<and> list_all plain_elem es \<and> (rooted \<longrightarrow> n = 0))"

lemma clean_stackI:
  "list_all plain_elem es \<Longrightarrow> (rooted \<longrightarrow> n = 0) \<Longrightarrow> clean_stack rooted (es @ replicate n ''..'')"
  by (auto simp: clean_stack_def)

lemma clean_step_stack:
  assumes "clean_stack rooted st"
  shows "clean_stack rooted (clean_step rooted st c)"
proof -
  from assms obtain es n where st: "st = es @ replicate n ''..''" "list_all plain_elem es"
    "rooted \<longrightarrow> n = 0"
    by (auto simp: clean_stack_def)
  consider "c = [] \<or> c = ''.''" | "c = ''..''" | "plain_elem c"
    by (auto simp: plain_elem_def)
  then show ?thesis
  proof cases
    case 1
    with assms show ?thesis by (simp add: clean_step_def)
  next
    case 2
    show ?thesis
    proof (cases es)
      case Nil
      show ?thesis
      proof (cases n)
        case 0
        with Nil 2 st show ?thesis
          using clean_stackI [of "[]" rooted 1] clean_stackI [of "[]" rooted 0]
          by (cases rooted) (simp_all add: clean_step_def)
      next
        case (Suc m)
        with Nil 2 st show ?thesis
          using clean_stackI [of "[]" rooted "Suc (Suc m)"] by (simp add: clean_step_def)
      qed
    next
      case (Cons e es')
      with 2 st show ?thesis
        using clean_stackI [of es' rooted n] by (simp add: clean_step_def plain_elem_def)
    qed
  next
    case 3
    with st show ?thesis
      using clean_stackI [of "c # es" rooted n] by (simp add: clean_step_def plain_elem_def)
  qed
qed

lemma clean_fold_stack:
  "clean_stack rooted st \<Longrightarrow> clean_stack rooted (foldl (clean_step rooted) st cs)"
  by (induction cs arbitrary: st) (auto simp: clean_step_stack)

lemma clean_elems_shape:
  obtains n es where "clean_elems rooted cs = replicate n ''..'' @ es" "list_all plain_elem es"
    "rooted \<longrightarrow> n = 0"
proof -
  have "clean_stack rooted (foldl (clean_step rooted) [] cs)"
    using clean_fold_stack [of rooted "[]" cs] clean_stackI [of "[]" rooted 0] by simp
  then obtain es n where "foldl (clean_step rooted) [] cs = es @ replicate n ''..''"
    "list_all plain_elem es" "rooted \<longrightarrow> n = 0"
    by (auto simp: clean_stack_def)
  then show thesis
    using that [of n "rev es"] by (simp add: clean_elems_def)
qed

lemma clean_fold_plain:
  "list_all plain_elem es \<Longrightarrow> foldl (clean_step rooted) st es = rev es @ st"
  by (induction es arbitrary: st) (auto simp: clean_step_def plain_elem_def)

lemma clean_fold_ups:
  "foldl (clean_step False) (replicate m ''..'') (replicate n ''..'') = replicate (m + n) ''..''"
proof (induction n arbitrary: m)
  case (Suc n)
  have "clean_step False (replicate m ''..'') ''..'' = replicate (Suc m) ''..''"
    by (cases m) (auto simp: clean_step_def)
  with Suc [of "Suc m"] show ?case by simp
qed simp

lemma clean_elems_idem: "clean_elems rooted (clean_elems rooted cs) = clean_elems rooted cs"
proof -
  obtain n es where s: "clean_elems rooted cs = replicate n ''..'' @ es" "list_all plain_elem es"
    "rooted \<longrightarrow> n = 0"
    by (rule clean_elems_shape)
  show ?thesis
  proof (cases rooted)
    case True
    with s show ?thesis by (simp add: clean_elems_def [of _ es] clean_fold_plain)
  next
    case False
    have "foldl (clean_step False) [] (replicate n ''..'') = replicate n ''..''"
      using clean_fold_ups [of 0 n] by simp
    with False s show ?thesis
      by (simp add: clean_elems_def [of _ "replicate n ''..'' @ es"] clean_fold_plain)
  qed
qed

lemma clean_elems_no_slash:
  assumes "\<forall>c \<in> set cs. CHR ''/'' \<notin> set c"
  shows "\<forall>c \<in> set (clean_elems rooted cs). CHR ''/'' \<notin> set c"
proof -
  have "\<forall>c \<in> set (foldl (clean_step rooted) st cs). CHR ''/'' \<notin> set c"
    if "\<forall>c \<in> set st. CHR ''/'' \<notin> set c" for st
    using assms that
  proof (induction cs arbitrary: st)
    case (Cons c cs)
    have "\<forall>d \<in> set (clean_step rooted st c). CHR ''/'' \<notin> set d"
      using Cons.prems by (auto simp: clean_step_def split: list.splits if_splits)
    with Cons show ?case by simp
  qed simp
  from this [of "[]"] show ?thesis by (simp add: clean_elems_def)
qed

lemma has_prefix_Cons [simp]: "has_prefix (c # s) (d # p) \<longleftrightarrow> c = d \<and> has_prefix s p"
  by (auto simp: has_prefix_def)

lemma has_prefix_of_Nil [simp]: "has_prefix [] p \<longleftrightarrow> p = []"
  by (auto simp: has_prefix_def)

lemma join_Cons_eq: "join_with sep (w # ws) = w @ (if ws = [] then [] else sep @ join_with sep ws)"
  by (cases ws) auto

lemma join_head_not_slash:
  assumes "es \<noteq> []" and "\<forall>e \<in> set es. CHR ''/'' \<notin> set e" and "\<forall>e \<in> set es. e \<noteq> []"
  shows "\<not> is_abs (join_with ''/'' es) \<and> join_with ''/'' es \<noteq> []"
proof -
  obtain e es' where es: "es = e # es'" using assms(1) by (cases es) auto
  obtain c e' where e: "e = c # e'" using assms(3) es by (cases e) auto
  have "c \<noteq> CHR ''/''" using assms(2) es e by auto
  then show ?thesis by (simp add: es e is_abs_def join_Cons_eq)
qed

lemma clean_elems_nonempty: "\<forall>e \<in> set (clean_elems rooted cs). e \<noteq> [] \<and> e \<noteq> ''.''"
proof
  fix e
  assume e: "e \<in> set (clean_elems rooted cs)"
  obtain n es where s: "clean_elems rooted cs = replicate n ''..'' @ es" "list_all plain_elem es"
    "rooted \<longrightarrow> n = 0"
    by (rule clean_elems_shape)
  from e have "e = ''..'' \<or> e \<in> set es" by (auto simp: s(1))
  with s(2) show "e \<noteq> [] \<and> e \<noteq> ''.''"
    by (elim disjE) (simp_all add: list_all_iff plain_elem_def)
qed

lemma clean_elems_skip: "clean_elems rooted ([] # cs) = clean_elems rooted cs"
  by (simp add: clean_elems_def clean_step_def)

text \<open>A cleaned path splits back into the elements it was joined from.\<close>

lemma path_clean_split:
  "clean_elems (is_abs p) (split_on CHR ''/'' (path_clean p)) = clean_elems (is_abs p) (split_on CHR ''/'' p)"
  "is_abs (path_clean p) = is_abs p"
proof -
  let ?es = "clean_elems (is_abs p) (split_on CHR ''/'' p)"
  have ns: "\<forall>e \<in> set ?es. CHR ''/'' \<notin> set e"
    by (rule clean_elems_no_slash) (auto dest: split_on_no_sep)
  have ne: "\<forall>e \<in> set ?es. e \<noteq> []"
    using clean_elems_nonempty by auto
  have split: "clean_elems r (split_on CHR ''/'' (join_with ''/'' ?es)) = clean_elems r ?es" for r
  proof (cases "?es = []")
    case True
    then show ?thesis by (simp add: clean_elems_def clean_step_def)
  next
    case False
    with ns show ?thesis by (simp add: split_join)
  qed
  have "clean_elems (is_abs p) (split_on CHR ''/'' (path_clean p)) = ?es \<and> is_abs (path_clean p) = is_abs p"
  proof (cases "is_abs p")
    case True
    then show ?thesis
      using split [of True] clean_elems_idem [of True "split_on CHR ''/'' p"]
      by (simp add: path_clean_def clean_elems_skip) (simp add: is_abs_def)
  next
    case False
    show ?thesis
    proof (cases "?es = []")
      case True
      with False show ?thesis
        by (simp add: path_clean_def is_abs_def clean_elems_def clean_step_def)
    next
      case ne': False
      then show ?thesis
        using False split [of False] clean_elems_idem [of False "split_on CHR ''/'' p"]
          join_head_not_slash [OF ne' ns ne]
        by (simp add: path_clean_def)
    qed
  qed
  then show "clean_elems (is_abs p) (split_on CHR ''/'' (path_clean p)) = ?es"
    "is_abs (path_clean p) = is_abs p" by auto
qed

lemma path_clean_idem: "path_clean (path_clean p) = path_clean p"
  by (simp add: path_clean_def [of "path_clean p"] path_clean_split) (simp add: path_clean_def)

text \<open>Joining a plain element below an absolute directory appends it, cleaned or not.\<close>

lemma split_on_append: "split_on sep (a @ sep # b) = split_on sep a @ split_on sep b"
  by (induction a) (auto split: list.splits)

lemma clean_elems_snoc: "plain_elem x \<Longrightarrow> clean_elems rooted (cs @ [x]) = clean_elems rooted cs @ [x]"
  by (simp add: clean_elems_def clean_step_def plain_elem_def)

lemma join_snoc: "join_with sep (es @ [x]) = (if es = [] then x else join_with sep es @ sep @ x)"
proof (induction es)
  case (Cons e es)
  then show ?case by (cases es) (auto simp: join_Cons_eq)
qed simp

text \<open>Paths joined below the same directory with different last elements are different.\<close>

lemma clean_last:
  assumes "plain_elem x" and "CHR ''/'' \<notin> set x" and "d = [] \<or> last d = CHR ''/''"
  shows "last (clean_elems (is_abs (d @ x)) (split_on CHR ''/'' (path_clean (d @ x)))) = x"
proof (cases "d = []")
  case True
  with assms show ?thesis
    using clean_elems_snoc [OF assms(1), of _ "[]"] by (simp add: path_clean_split(1) split_on_plain)
next
  case False
  then obtain c where "d = c @ [CHR ''/'']" using assms(3) by (cases d rule: rev_cases) auto
  with assms show ?thesis by (simp add: path_clean_split(1) split_on_append split_on_plain clean_elems_snoc)
qed

lemma path_clean_distinct:
  assumes "plain_elem x" "plain_elem y" "CHR ''/'' \<notin> set x" "CHR ''/'' \<notin> set y" "x \<noteq> y"
    and "d = [] \<or> last d = CHR ''/''" and "e = [] \<or> last e = CHR ''/''"
  shows "path_clean (d @ x) \<noteq> path_clean (e @ y)"
proof
  assume eq: "path_clean (d @ x) = path_clean (e @ y)"
  then have "is_abs (d @ x) = is_abs (e @ y)" by (metis path_clean_split(2))
  with eq have "x = y" using clean_last [OF assms(1,3,6)] clean_last [OF assms(2,4,7)] by simp
  with assms(5) show False by blast
qed

lemma path_clean_child:
  assumes "is_abs d" and "plain_elem x" and "CHR ''/'' \<notin> set x"
  shows "path_clean (d @ CHR ''/'' # x) =
    CHR ''/'' # join_with ''/'' (clean_elems True (split_on CHR ''/'' d) @ [x])"
proof -
  have "is_abs (d @ CHR ''/'' # x)" using assms(1) by (auto simp: is_abs_def has_prefix_iff)
  then show ?thesis
    using assms by (simp add: path_clean_def split_on_append split_on_plain clean_elems_snoc)
qed

lemma path_clean_child_clean:
  assumes "is_abs d" and "plain_elem x" and "CHR ''/'' \<notin> set x"
  shows "path_clean (path_clean d @ CHR ''/'' # x) = path_clean (d @ CHR ''/'' # x)"
proof -
  have "is_abs (path_clean d)" using assms(1) by (simp add: path_clean_split)
  then show ?thesis
    using path_clean_split(1) [of d] assms by (simp add: path_clean_child)
qed

lemma path_clean_child_last:
  assumes "is_abs d" and "plain_elem x" and "CHR ''/'' \<notin> set x"
  shows "last (path_clean (d @ CHR ''/'' # x)) = last x"
proof -
  have "x \<noteq> []" using assms(2) by (simp add: plain_elem_def)
  then show ?thesis by (simp add: path_clean_child [OF assms] join_snoc)
qed

section \<open>Where a path leads\<close>

text \<open>
  The reference for confinement. A position is how many levels above the starting
  directory the walk has climbed, and the elements below that point. The walk knows
  nothing of \<open>path_clean\<close>; symbolic links are outside a lexical check and are refused
  by the readers of the repositoryfile package.
\<close>

fun walk :: "nat \<times> string list \<Rightarrow> string list \<Rightarrow> nat \<times> string list" where
  "walk pos [] = pos"
| "walk (up, below) (c # cs) =
     (if c = [] \<or> c = ''.'' then walk (up, below) cs
      else if c = ''..'' then
        (case below of [] \<Rightarrow> walk (Suc up, []) cs | b # bs \<Rightarrow> walk (up, bs) cs)
      else walk (up, c # below) cs)"

definition leads_outside :: "string \<Rightarrow> bool" where
  "leads_outside p \<longleftrightarrow> 0 < fst (walk (0, []) (split_on CHR ''/'' p))"

definition confined :: "string \<Rightarrow> bool" where
  "confined p \<longleftrightarrow> p \<noteq> [] \<and> \<not> is_abs p \<and> \<not> leads_outside p"

lemma walk_clean:
  "list_all plain_elem below \<Longrightarrow>
   foldl (clean_step False) (below @ replicate up ''..'') cs =
     (case walk (up, below) cs of (u, b) \<Rightarrow> b @ replicate u ''..'')
   \<and> list_all plain_elem (snd (walk (up, below) cs))"
proof (induction "(up, below)" cs arbitrary: up below rule: walk.induct)
  case (2 up below c cs)
  have dots: "clean_step False (replicate up ''..'') ''..'' = replicate (Suc up) ''..''"
    by (cases up) (auto simp: clean_step_def)
  show ?case
  proof (cases below)
    case Nil
    with 2 dots show ?thesis
      by (auto simp: clean_step_def plain_elem_def split: prod.splits)
  next
    case (Cons b bs)
    with 2 show ?thesis
      by (auto simp: clean_step_def plain_elem_def split: prod.splits)
  qed
qed simp

lemma clean_elems_walk:
  "clean_elems False cs = (case walk (0, []) cs of (u, b) \<Rightarrow> replicate u ''..'' @ rev b)"
  using walk_clean [of "[]" 0 cs] by (simp add: clean_elems_def split: prod.splits)

lemma walk_plain: "list_all plain_elem (snd (walk (0, []) cs))"
  using walk_clean [of "[]" 0 cs] by simp

text \<open>The program's test on the cleaned path decides whether the walk leaves the root.\<close>

lemma clean_dotdot_iff:
  assumes "\<not> is_abs p"
  shows "path_clean p = ''..'' \<or> has_prefix (path_clean p) ''../'' \<longleftrightarrow> leads_outside p"
proof -
  let ?cs = "split_on CHR ''/'' p"
  obtain u b where w: "walk (0, []) ?cs = (u, b)" by fastforce
  have plain: "list_all plain_elem b" using walk_plain [of ?cs] w by simp
  let ?es = "replicate u ''..'' @ rev b"
  have es: "clean_elems False ?cs = ?es" using w by (simp add: clean_elems_walk)
  have out: "leads_outside p \<longleftrightarrow> 0 < u" using w by (simp add: leads_outside_def)
  have ns: "\<forall>e \<in> set ?es. CHR ''/'' \<notin> set e"
    unfolding es [symmetric] by (rule clean_elems_no_slash) (auto dest: split_on_no_sep)
  show ?thesis
  proof (cases u)
    case (Suc m)
    then have "path_clean p = ''..'' \<or> has_prefix (path_clean p) ''../''"
      using assms es by (cases "replicate m ''..'' @ rev b") (auto simp: path_clean_def Let_def)
    with Suc out show ?thesis by simp
  next
    case 0
    have "\<not> (path_clean p = ''..'' \<or> has_prefix (path_clean p) ''../'')"
    proof (cases "rev b")
      case Nil
      with 0 assms es show ?thesis by (simp add: path_clean_def)
    next
      case (Cons e es')
      then have e: "plain_elem e" "CHR ''/'' \<notin> set e"
        using plain ns by (metis list.pred_set list.set_intros(1) set_rev) (metis Cons Un_iff list.set_intros(1) ns set_append)
      have pc: "path_clean p = e @ (if es' = [] then [] else CHR ''/'' # join_with ''/'' es')"
        using 0 Cons assms es by (simp add: path_clean_def join_Cons_eq)
      show ?thesis
      proof
        assume a: "path_clean p = ''..'' \<or> has_prefix (path_clean p) ''../''"
        then have "split_on CHR ''/'' (path_clean p) = ''..'' # tl (split_on CHR ''/'' (path_clean p))"
          by (auto simp: has_prefix_iff)
        moreover have "hd (split_on CHR ''/'' (path_clean p)) = e"
          using e(2) pc by (auto simp: split_on_plain split_on_append_sep)
        ultimately have "e = ''..''" by (metis list.sel(1))
        with e(1) show False by (simp add: plain_elem_def)
      qed
    qed
    with 0 out show ?thesis by simp
  qed
qed

end
