(* ===== verification/Config_Policy.thy ===== *)
theory Config_Policy
  imports Go_Path
begin

text \<open>
  internal/config/config.go: the strict repository policy \<open>.golib.yaml\<close>. The records have
  the fields of the Go structs; a Go \<open>int\<close> and a \<open>time.Duration\<close> (nanoseconds) are \<open>int\<close>.

  Arguments of the model, because their code is not in the repository or is not a
  function of exact integers: \<open>dur\<close> is \<open>time.ParseDuration\<close> (it rounds through floating
  point), \<open>rx\<close> is \<open>regexp/syntax.Parse\<close> in Perl mode, \<open>yaml\<close> is the YAML decoder. Nothing
  is assumed of them: every lemma holds for every choice of these functions.
\<close>

section \<open>The policy\<close>

record manifests =
  m_modules :: string
  m_packages :: string

record mutation_import =
  mi_module :: string
  mi_archive :: string
  mi_ledger :: string

record mutation_policy =
  mp_root :: string
  mp_max_workers :: int
  mp_imports :: "mutation_import list"

record coverage_module =
  cm_module :: string
  cm_mode :: string

record api_baseline =
  ab_module :: string
  ab_mode :: string
  ab_path :: string
  ab_packages :: "string list"

record runtimes =
  rt_deno :: string
  rt_zsh :: string

record step =
  st_type :: string
  st_makefile :: string
  st_target :: string
  st_packages :: "string list"
  st_run :: string
  st_benchmark :: string
  st_fuzz :: string
  st_budget :: string
  st_count :: int
  st_race :: bool
  st_timeout :: string

record operation =
  op_module :: string
  op_gate :: string
  op_steps :: "step list"

record config =
  cf_schema_version :: int
  cf_tool_version :: string
  cf_tool_checksums :: string
  cf_manifests :: manifests
  cf_evidence_root :: string
  cf_mutation :: mutation_policy
  cf_coverage :: "coverage_module list"
  cf_api :: "api_baseline list"
  cf_runtimes :: runtimes
  cf_operations :: "operation list"

section \<open>Defaults\<close>

definition default_str :: "string \<Rightarrow> string \<Rightarrow> string" where
  "default_str d v = (if v = [] then d else v)"

text \<open>The two budget assignments in order: the fuzz default first, the benchmark default only
  if the budget is still empty.\<close>

definition default_budget :: "step \<Rightarrow> string" where
  "default_budget s =
     (let b = (if st_budget s = [] \<and> st_fuzz s \<noteq> [] then ''10000x'' else st_budget s)
      in if b = [] \<and> st_benchmark s \<noteq> [] then ''100ms'' else b)"

definition step_defaults :: "step \<Rightarrow> step" where
  "step_defaults s =
     (let s = s\<lparr>st_timeout := default_str ''20m'' (st_timeout s)\<rparr>
      in if st_type s = ''go-test''
         then s\<lparr>st_packages := (if st_packages s = [] then [''./...''] else st_packages s),
                st_count := (if st_count s = 0 then 1 else st_count s),
                st_budget := default_budget s\<rparr>
         else s)"

definition operation_defaults :: "operation \<Rightarrow> operation" where
  "operation_defaults op = op\<lparr>op_steps := map step_defaults (op_steps op)\<rparr>"

definition apply_defaults :: "config \<Rightarrow> config" where
  "apply_defaults c = c\<lparr>
     cf_manifests := \<lparr>m_modules = default_str ''modules.json'' (m_modules (cf_manifests c)),
                      m_packages = default_str ''packages.json'' (m_packages (cf_manifests c))\<rparr>,
     cf_evidence_root := default_str ''.verification'' (cf_evidence_root c),
     cf_mutation := (cf_mutation c)\<lparr>mp_root := default_str ''.verification/mutation'' (mp_root (cf_mutation c))\<rparr>,
     cf_operations := map operation_defaults (cf_operations c)\<rparr>"

section \<open>Lexical checks\<close>

text \<open>The regular expressions \<open>versionRE\<close> and \<open>makeTargetRE\<close>.\<close>

definition three_numbers :: "string \<Rightarrow> bool" where
  "three_numbers s \<longleftrightarrow>
     (case split_on CHR ''.'' s of [a, b, c] \<Rightarrow> digits1 a \<and> digits1 b \<and> digits1 c | _ \<Rightarrow> False)"

definition version_re :: "string \<Rightarrow> bool" where
  "version_re s \<longleftrightarrow> has_prefix s ''v'' \<and> three_numbers (drop 1 s)"

definition is_alnum :: "char \<Rightarrow> bool" where
  "is_alnum c \<longleftrightarrow> is_digit c \<or> (CHR ''A'' \<le> c \<and> c \<le> CHR ''Z'') \<or> (CHR ''a'' \<le> c \<and> c \<le> CHR ''z'')"

definition make_target_re :: "string \<Rightarrow> bool" where
  "make_target_re s \<longleftrightarrow>
     (case s of
        [] \<Rightarrow> False
      | c # cs \<Rightarrow> is_alnum c \<and> list_all (\<lambda>d. is_alnum d \<or> List.member ''_.:/-'' d) cs)"

definition is_lower_hex_digest :: "string \<Rightarrow> bool" where
  "is_lower_hex_digest s \<longleftrightarrow> length s = 64 \<and> all_in ''0123456789abcdef'' s"

datatype path_error = Path_not_relative | Path_escapes

definition validate_relative_path :: "string \<Rightarrow> path_error option" where
  "validate_relative_path p =
     (if p = [] \<or> is_abs p then Some Path_not_relative
      else (let clean = path_clean p
            in refuse (clean = ''..'' \<or> has_prefix clean ''../'') Path_escapes))"

datatype pattern_error = Pattern_not_local | Pattern_bad_segment | Pattern_wildcard_not_final

fun pattern_segments :: "string list \<Rightarrow> pattern_error option" where
  "pattern_segments [] = None"
| "pattern_segments (seg # rest) =
     (if seg = [] \<or> seg = ''.'' \<or> seg = ''..'' then Some Pattern_bad_segment
      else if seg = ''...'' \<and> rest \<noteq> [] then Some Pattern_wildcard_not_final
      else pattern_segments rest)"

definition validate_package_pattern :: "string \<Rightarrow> pattern_error option" where
  "validate_package_pattern v =
     (if v = ''.'' then None
      else if \<not> has_prefix v ''./'' \<or> v = ''./'' \<or> contains_any v [CHR 0x5C, CHR 0x00]
      then Some Pattern_not_local
      else pattern_segments (split_on CHR ''/'' (trim_prefix v ''./'')))"

type_synonym duration_parser = "string \<Rightarrow> int option"

text \<open>\<open>validateBudget\<close>: its single error is the value \<open>False\<close> here.\<close>

definition budget_ok :: "duration_parser \<Rightarrow> string \<Rightarrow> bool" where
  "budget_ok dur v =
     (if has_suffix v ''x''
      then (case parse_uint64 (trim_suffix v ''x'') of None \<Rightarrow> False | Some n \<Rightarrow> n \<noteq> 0)
      else (case dur v of None \<Rightarrow> False | Some d \<Rightarrow> 0 < d))"

section \<open>Steps\<close>

datatype step_error =
    Timeout_unparsable | Timeout_not_positive | Count_negative
  | Race_with_campaign | Test_has_makefile | Test_has_target | Too_many_selectors
  | Budget_without_campaign | Budget_malformed | Bad_package string pattern_error
  | Make_has_race | Makefile_missing | Makefile_not_local | Makefile_is_root | Target_malformed
  | Make_has_packages | Make_has_run | Make_has_benchmark | Make_has_fuzz | Make_has_budget
  | Make_has_count | Unsupported_type string

definition go_test_validate :: "duration_parser \<Rightarrow> step \<Rightarrow> step_error option" where
  "go_test_validate dur s = first_error (
     [refuse (st_race s \<and> (st_benchmark s \<noteq> [] \<or> st_fuzz s \<noteq> [])) Race_with_campaign,
      refuse (st_makefile s \<noteq> []) Test_has_makefile,
      refuse (st_target s \<noteq> []) Test_has_target,
      refuse (1 < length (filter (\<lambda>v. v \<noteq> []) [st_run s, st_benchmark s, st_fuzz s])) Too_many_selectors,
      refuse (st_budget s \<noteq> [] \<and> st_benchmark s = [] \<and> st_fuzz s = []) Budget_without_campaign,
      refuse (st_budget s \<noteq> [] \<and> \<not> budget_ok dur (st_budget s)) Budget_malformed]
     @ map (\<lambda>p. map_option (Bad_package p) (validate_package_pattern p)) (st_packages s))"

definition make_validate :: "step \<Rightarrow> step_error option" where
  "make_validate s = first_error
     [refuse (st_race s) Make_has_race,
      refuse (st_makefile s = []) Makefile_missing,
      refuse (validate_relative_path (st_makefile s) \<noteq> None) Makefile_not_local,
      refuse (path_clean (st_makefile s) = ''.'') Makefile_is_root,
      refuse (\<not> make_target_re (st_target s)) Target_malformed,
      refuse (st_packages s \<noteq> []) Make_has_packages,
      refuse (st_run s \<noteq> []) Make_has_run,
      refuse (st_benchmark s \<noteq> []) Make_has_benchmark,
      refuse (st_fuzz s \<noteq> []) Make_has_fuzz,
      refuse (st_budget s \<noteq> []) Make_has_budget,
      refuse (st_count s \<noteq> 0) Make_has_count]"

definition step_validate :: "duration_parser \<Rightarrow> step \<Rightarrow> step_error option" where
  "step_validate dur s =
     (case dur (st_timeout s) of
        None \<Rightarrow> Some Timeout_unparsable
      | Some timeout \<Rightarrow> first_error
          [refuse (timeout \<le> 0) Timeout_not_positive,
           refuse (st_count s < 0) Count_negative,
           (if st_type s = ''go-test'' then go_test_validate dur s
            else if st_type s = ''make'' then make_validate s
            else Some (Unsupported_type (st_type s)))])"

section \<open>Operations\<close>

text \<open>What \<open>LocalTestBudget\<close> reads of a parsed regular expression.\<close>

datatype syntax_op = Op_concat | Op_begin_text | Op_end_text | Op_literal | Op_other

datatype syntax_regexp = Regexp (rx_op: syntax_op) (rx_rune: string) (rx_sub: "syntax_regexp list")

type_synonym regexp_parser = "string \<Rightarrow> syntax_regexp option"

definition maximum_local_test_budget :: int where
  "maximum_local_test_budget = 3 * 60 * 1000000000"

datatype operation_error =
    Op_module_missing | Op_module_bad path_error | Gate_not_customizable string | No_steps
  | Local_step_count | Step_bad nat step_error | Local_not_focused | Local_not_anchored
  | Local_selector_invalid | Local_not_whole | Local_budget_exceeded | Test_not_run nat

definition focused_step :: "step \<Rightarrow> bool" where
  "focused_step s \<longleftrightarrow>
     \<not> (st_type s \<noteq> ''go-test'' \<or> length (st_packages s) \<noteq> 1 \<or>
        contains_str (hd (st_packages s)) ''...'' \<or> st_count s \<noteq> 1 \<or>
        st_fuzz s \<noteq> [] \<or> st_benchmark s \<noteq> [] \<or> st_budget s \<noteq> [])"

definition anchored_run :: "string \<Rightarrow> bool" where
  "anchored_run r \<longleftrightarrow>
     \<not> (256 < int (length r) \<or> \<not> has_prefix r ''^Test'' \<or> \<not> has_suffix r ''$'' \<or> contains_str r ''/'')"

definition whole_selector :: "syntax_regexp \<Rightarrow> bool" where
  "whole_selector x \<longleftrightarrow>
     rx_op x = Op_concat \<and> 3 \<le> length (rx_sub x) \<and>
     rx_op (rx_sub x ! 0) = Op_begin_text \<and> rx_op (last (rx_sub x)) = Op_end_text \<and>
     rx_op (rx_sub x ! 1) = Op_literal \<and> has_prefix (rx_rune (rx_sub x ! 1)) ''Test''"

fun local_budget_loop ::
  "duration_parser \<Rightarrow> regexp_parser \<Rightarrow> nat \<Rightarrow> int \<Rightarrow> step list \<Rightarrow> operation_error + int" where
  "local_budget_loop dur rx i budget [] = Inr budget"
| "local_budget_loop dur rx i budget (s # ss) =
     (case step_validate dur s of
        Some e \<Rightarrow> Inl (Step_bad i e)
      | None \<Rightarrow>
          if \<not> focused_step s then Inl Local_not_focused
          else if \<not> anchored_run (st_run s) then Inl Local_not_anchored
          else (case rx (st_run s) of
                  None \<Rightarrow> Inl Local_selector_invalid
                | Some selector \<Rightarrow>
                    if \<not> whole_selector selector then Inl Local_not_whole
                    else (let timeout = (case dur (st_timeout s) of None \<Rightarrow> 0 | Some d \<Rightarrow> d)
                          in if maximum_local_test_budget - budget < timeout
                             then Inl Local_budget_exceeded
                             else local_budget_loop dur rx (Suc i) (budget + timeout) ss)))"

definition local_test_budget ::
  "duration_parser \<Rightarrow> regexp_parser \<Rightarrow> operation \<Rightarrow> operation_error + int" where
  "local_test_budget dur rx op =
     (if op_gate op \<noteq> ''local-test'' \<or> op_steps op = [] \<or> 8 < length (op_steps op)
      then Inl Local_step_count
      else local_budget_loop dur rx 0 0 (op_steps op))"

definition custom_gates :: "string list" where
  "custom_gates = [''api'', ''benchmark'', ''conformance'', ''docs'', ''fuzz'', ''interoperability'',
     ''test'', ''local-test'']"

fun operation_steps ::
  "duration_parser \<Rightarrow> string \<Rightarrow> nat \<Rightarrow> step list \<Rightarrow> operation_error option" where
  "operation_steps dur gate i [] = None"
| "operation_steps dur gate i (s # ss) =
     (case step_validate dur s of
        Some e \<Rightarrow> Some (Step_bad i e)
      | None \<Rightarrow>
          if gate = ''test'' \<and> (st_benchmark s \<noteq> [] \<or> st_fuzz s \<noteq> []) then Some (Test_not_run i)
          else operation_steps dur gate (Suc i) ss)"

text \<open>The module check both validations make: present, and relative unless it is the root.\<close>

definition operation_validate ::
  "duration_parser \<Rightarrow> regexp_parser \<Rightarrow> operation \<Rightarrow> operation_error option" where
  "operation_validate dur rx op =
     (if op_module op = [] then Some Op_module_missing
      else if validate_relative_path (op_module op) \<noteq> None \<and> op_module op \<noteq> ''.''
      then map_option Op_module_bad (validate_relative_path (op_module op))
      else if \<not> List.member custom_gates (op_gate op) then Some (Gate_not_customizable (op_gate op))
      else if op_steps op = [] then Some No_steps
      else if op_gate op = ''local-test''
      then (case local_test_budget dur rx op of Inl e \<Rightarrow> Some e | Inr _ \<Rightarrow> None)
      else operation_steps dur (op_gate op) 0 (op_steps op))"

section \<open>Baselines\<close>

datatype baseline_error =
    Bl_module_missing | Bl_module_bad path_error | Bl_path_bad path_error | Bl_path_is_root
  | Apidiff_has_packages | Godoc_no_packages | Godoc_package_bad string pattern_error
  | Godoc_recursive string | Bl_mode_unsupported string

fun godoc_packages :: "string list \<Rightarrow> baseline_error option" where
  "godoc_packages [] = None"
| "godoc_packages (p # ps) =
     (case validate_package_pattern p of
        Some e \<Rightarrow> Some (Godoc_package_bad p e)
      | None \<Rightarrow> if has_suffix p ''/...'' then Some (Godoc_recursive p) else godoc_packages ps)"

definition baseline_validate :: "api_baseline \<Rightarrow> baseline_error option" where
  "baseline_validate b =
     (if ab_module b = [] then Some Bl_module_missing
      else if validate_relative_path (ab_module b) \<noteq> None \<and> ab_module b \<noteq> ''.''
      then map_option Bl_module_bad (validate_relative_path (ab_module b))
      else if validate_relative_path (ab_path b) \<noteq> None
      then map_option Bl_path_bad (validate_relative_path (ab_path b))
      else if path_clean (ab_path b) = ''.'' then Some Bl_path_is_root
      else if ab_mode b = ''apidiff'' then refuse (ab_packages b \<noteq> []) Apidiff_has_packages
      else if ab_mode b = ''go-doc''
      then (if ab_packages b = [] then Some Godoc_no_packages else godoc_packages (ab_packages b))
      else Some (Bl_mode_unsupported (ab_mode b)))"

section \<open>The whole policy\<close>

datatype import_error = Imp_module_bad | Imp_archive_bad | Imp_ledger_bad

definition module_ref_bad :: "string \<Rightarrow> bool" where
  "module_ref_bad m \<longleftrightarrow> m = [] \<or> (m \<noteq> ''.'' \<and> validate_relative_path m \<noteq> None)"

definition file_ref_bad :: "string \<Rightarrow> bool" where
  "file_ref_bad p \<longleftrightarrow> validate_relative_path p \<noteq> None \<or> path_clean p = ''.''"

definition import_validate :: "mutation_import \<Rightarrow> import_error option" where
  "import_validate m = first_error
     [refuse (module_ref_bad (mi_module m)) Imp_module_bad,
      refuse (file_ref_bad (mi_archive m)) Imp_archive_bad,
      refuse (file_ref_bad (mi_ledger m)) Imp_ledger_bad]"

datatype acceptance_error = Acc_module_bad | Acc_mode_bad

definition acceptance_validate :: "coverage_module \<Rightarrow> acceptance_error option" where
  "acceptance_validate a = first_error
     [refuse (module_ref_bad (cm_module a)) Acc_module_bad,
      refuse (cm_mode a \<noteq> ''exact'' \<and> cm_mode a \<noteq> ''evidence'') Acc_mode_bad]"

datatype config_error =
    Schema_version_not_1 | Tool_version_bad | Tool_checksums_bad | Config_path string path_error
  | Deno_bad | Zsh_bad | Max_workers_bad
  | Import_bad nat import_error | Import_duplicate nat
  | Acceptance_bad nat acceptance_error | Acceptance_duplicate nat
  | Baseline_bad nat baseline_error | Baseline_duplicate nat
  | Operation_bad nat operation_error | Operation_duplicate nat

definition operation_identity :: "operation \<Rightarrow> string" where
  "operation_identity op = op_module op @ CHR 0x00 # op_gate op"

definition config_paths :: "config \<Rightarrow> (string \<times> string) list" where
  "config_paths c =
     [(''manifest.modules'', m_modules (cf_manifests c)),
      (''manifest.packages'', m_packages (cf_manifests c)),
      (''evidence.root'', cf_evidence_root c),
      (''mutation.root'', mp_root (cf_mutation c))]"

definition config_validate ::
  "duration_parser \<Rightarrow> regexp_parser \<Rightarrow> config \<Rightarrow> config_error option" where
  "config_validate dur rx c = first_error (
     [refuse (cf_schema_version c \<noteq> 1) Schema_version_not_1,
      refuse (\<not> version_re (cf_tool_version c)) Tool_version_bad,
      refuse (cf_tool_checksums c \<noteq> [] \<and> \<not> is_lower_hex_digest (cf_tool_checksums c)) Tool_checksums_bad]
     @ map (\<lambda>(name, p). map_option (Config_path name) (validate_relative_path p)) (config_paths c)
     @ [refuse (rt_deno (cf_runtimes c) \<noteq> [] \<and> \<not> version_re (CHR ''v'' # rt_deno (cf_runtimes c))) Deno_bad,
        refuse (rt_zsh (cf_runtimes c) \<noteq> [] \<and> rt_zsh (cf_runtimes c) \<noteq> ''5.9'') Zsh_bad,
        refuse (mp_max_workers (cf_mutation c) < 0 \<or> 4 < mp_max_workers (cf_mutation c)) Max_workers_bad,
        unique_scan import_validate Import_bad mi_module (\<lambda>i _. Import_duplicate i) 0 []
          (mp_imports (cf_mutation c)),
        unique_scan acceptance_validate Acceptance_bad cm_module (\<lambda>i _. Acceptance_duplicate i) 0 []
          (cf_coverage c),
        unique_scan baseline_validate Baseline_bad ab_module (\<lambda>i _. Baseline_duplicate i) 0 []
          (cf_api c),
        unique_scan (operation_validate dur rx) Operation_bad operation_identity
          (\<lambda>i _. Operation_duplicate i) 0 [] (cf_operations c)])"

datatype 'a yaml_next = Yaml_doc 'a | Yaml_end | Yaml_failure

datatype load_error = Too_large | Undecodable | Trailing_undecodable | Multiple_documents
  | Invalid config_error

definition maximum_size :: int where
  "maximum_size = 1048576"

definition ensure_single_document :: "unit yaml_next \<Rightarrow> load_error option" where
  "ensure_single_document next_doc =
     (case next_doc of
        Yaml_end \<Rightarrow> None
      | Yaml_failure \<Rightarrow> Some Trailing_undecodable
      | Yaml_doc _ \<Rightarrow> Some Multiple_documents)"

text \<open>\<open>Decode\<close>; \<open>yaml\<close> gives what the strict decoder returns for the first document and
  for a second call on the same input.\<close>

definition decode_config ::
  "(string \<Rightarrow> config yaml_next \<times> unit yaml_next) \<Rightarrow> duration_parser \<Rightarrow> regexp_parser \<Rightarrow> string
    \<Rightarrow> load_error + config" where
  "decode_config yaml dur rx data =
     (if maximum_size < int (length data) then Inl Too_large
      else (case fst (yaml data) of
              Yaml_doc c \<Rightarrow>
                with_check (ensure_single_document (snd (yaml data)))
                  (let result = apply_defaults c
                   in case config_validate dur rx result of
                        Some e \<Rightarrow> Inl (Invalid e)
                      | None \<Rightarrow> Inr result)
            | _ \<Rightarrow> Inl Undecodable))"

end
