(* ===== verification/Config_Facts.thy ===== *)
theory Config_Facts
  imports Config_Policy
begin

text \<open>
  What an admitted policy guarantees to the packages that read it: confined references,
  unique owners, bounded local tests, and operation recipes none of whose arguments a
  command line could read as a flag. The lemmas of the first section are the rules the
  properties are assembled from.
\<close>

section \<open>Lemmas on the checks\<close>

lemma validate_relative_path_iff: "validate_relative_path p = None \<longleftrightarrow> confined p"
  by (auto simp: validate_relative_path_def confined_def Let_def clean_dotdot_iff)

lemma module_ref_ok: "\<not> module_ref_bad m \<longleftrightarrow> m = ''.'' \<or> confined m"
  by (auto simp: module_ref_bad_def validate_relative_path_iff confined_def)

lemma file_ref_ok: "\<not> file_ref_bad p \<longleftrightarrow> confined p \<and> path_clean p \<noteq> ''.''"
  by (auto simp: file_ref_bad_def validate_relative_path_iff)

lemma walk_no_parent: "''..'' \<notin> set cs \<Longrightarrow> fst (walk (u, b) cs) = u"
  by (induction "(u, b)" cs arbitrary: u b rule: walk.induct) auto

lemma pattern_segments_ok:
  "pattern_segments cs = None \<Longrightarrow> list_all plain_elem cs \<and> ''...'' \<notin> set (butlast cs)"
  by (induction cs) (auto simp: plain_elem_def split: if_splits)

definition local_pattern :: "string \<Rightarrow> bool" where
  "local_pattern p \<longleftrightarrow> confined p \<and> has_prefix p ''.'' \<and> ''..'' \<notin> set (split_on CHR ''/'' p)"

lemma package_pattern_local: 
  assumes "validate_package_pattern p = None"
  shows "local_pattern p"
proof (cases "p = ''.''")
  case True
  then show ?thesis
    by (simp add: local_pattern_def confined_def is_abs_def leads_outside_def)
next
  case False
  then have "has_prefix p ''./''" and seg: "pattern_segments (split_on CHR ''/'' (trim_prefix p ''./'')) = None"
    using assms by (auto simp: validate_package_pattern_def split: if_splits)
  then obtain t where p: "p = ''./'' @ t" by (auto simp: has_prefix_iff)
  have "list_all plain_elem (split_on CHR ''/'' t)"
    using pattern_segments_ok [OF seg] p by (simp add: trim_prefix_def)
  then have "''..'' \<notin> set (split_on CHR ''/'' t)"
    by (auto simp: list_all_iff plain_elem_def)
  then have "''..'' \<notin> set (split_on CHR ''/'' p)"
    by (simp add: p)
  with p show ?thesis
    by (simp add: local_pattern_def confined_def is_abs_def leads_outside_def walk_no_parent)
qed

lemma make_target_head:
  "make_target_re t \<Longrightarrow> t \<noteq> [] \<and> is_alnum (hd t)"
  by (cases t) (auto simp: make_target_re_def)

text \<open>The two kinds of recipe, as a validated step has them.\<close>

definition go_test_step :: "duration_parser \<Rightarrow> step \<Rightarrow> bool" where
  "go_test_step dur s \<longleftrightarrow>
     st_type s = ''go-test'' \<and> st_makefile s = [] \<and> st_target s = [] \<and>
     length (filter (\<lambda>v. v \<noteq> []) [st_run s, st_benchmark s, st_fuzz s]) \<le> 1 \<and>
     (st_race s \<longrightarrow> st_benchmark s = [] \<and> st_fuzz s = []) \<and>
     (st_budget s \<noteq> [] \<longrightarrow> budget_ok dur (st_budget s) \<and> (st_benchmark s \<noteq> [] \<or> st_fuzz s \<noteq> [])) \<and>
     list_all local_pattern (st_packages s)"

definition make_step :: "step \<Rightarrow> bool" where
  "make_step s \<longleftrightarrow>
     st_type s = ''make'' \<and> confined (st_makefile s) \<and> path_clean (st_makefile s) \<noteq> ''.'' \<and>
     make_target_re (st_target s) \<and> st_packages s = [] \<and> st_run s = [] \<and> st_benchmark s = [] \<and>
     st_fuzz s = [] \<and> st_budget s = [] \<and> st_count s = 0 \<and> \<not> st_race s"

lemma go_test_validate_ok:
  "st_type s = ''go-test'' \<Longrightarrow> go_test_validate dur s = None \<Longrightarrow> go_test_step dur s"
  unfolding go_test_validate_def go_test_step_def
  by (auto simp: list_all_iff intro: package_pattern_local)

lemma make_validate_ok: "st_type s = ''make'' \<Longrightarrow> make_validate s = None \<Longrightarrow> make_step s"
  unfolding make_validate_def make_step_def
  by (simp add: validate_relative_path_iff)

lemma step_validate_ok:
  assumes "step_validate dur s = None"
  shows "\<exists>d. dur (st_timeout s) = Some d \<and> 0 < d" and "0 \<le> st_count s"
    and "go_test_step dur s \<or> make_step s"
  using assms
  by (auto simp: step_validate_def not_le not_less split: option.splits if_splits
      intro: go_test_validate_ok make_validate_ok)

lemma operation_steps_ok:
  "operation_steps dur gate i ss = None \<Longrightarrow> \<forall>s \<in> set ss. step_validate dur s = None"
  by (induction ss arbitrary: i) (auto split: option.splits if_splits)

definition timeout_of :: "duration_parser \<Rightarrow> step \<Rightarrow> int" where
  "timeout_of dur s = (case dur (st_timeout s) of None \<Rightarrow> 0 | Some d \<Rightarrow> d)"

lemma local_budget_loop_ok:
  assumes "local_budget_loop dur rx i b ss = Inr t" and "b \<le> maximum_local_test_budget"
  shows "t = b + sum_list (map (timeout_of dur) ss) \<and> t \<le> maximum_local_test_budget \<and>
    (\<forall>s \<in> set ss. step_validate dur s = None \<and> focused_step s \<and> anchored_run (st_run s) \<and>
       0 < timeout_of dur s \<and> (\<exists>x. rx (st_run s) = Some x \<and> whole_selector x))"
  using assms
proof (induction ss arbitrary: i b)
  case (Cons s ss)
  then have v: "step_validate dur s = None"
    by (auto split: option.splits)
  then obtain d where d: "dur (st_timeout s) = Some d" "0 < d"
    using step_validate_ok(1) by blast
  with v Cons.prems obtain x where x: "focused_step s" "anchored_run (st_run s)"
      "rx (st_run s) = Some x" "whole_selector x" "d \<le> maximum_local_test_budget - b"
      "local_budget_loop dur rx (Suc i) (b + d) ss = Inr t"
    by (simp add: Let_def split: option.splits if_splits)
  moreover have "timeout_of dur s = d" using d by (simp add: timeout_of_def)
  ultimately show ?case
    using Cons.IH [OF x(6)] v d by auto
qed simp

lemma operation_validate_ok:
  assumes "operation_validate dur rx op = None"
  shows "op_module op = ''.'' \<or> confined (op_module op)" and "op_gate op \<in> set custom_gates"
    and "\<forall>s \<in> set (op_steps op). step_validate dur s = None" and "op_steps op \<noteq> []"
proof -
  show "op_module op = ''.'' \<or> confined (op_module op)" "op_gate op \<in> set custom_gates" "op_steps op \<noteq> []"
    using assms by (auto simp: operation_validate_def validate_relative_path_iff split: if_splits)
  have "maximum_local_test_budget \<ge> 0" by (simp add: maximum_local_test_budget_def)
  then show "\<forall>s \<in> set (op_steps op). step_validate dur s = None"
    using assms
    by (auto simp: operation_validate_def local_test_budget_def split: if_splits sum.splits
        dest: operation_steps_ok local_budget_loop_ok)
qed

lemma gate_no_nul: "g \<in> set custom_gates \<Longrightarrow> CHR 0x00 \<notin> set g"
  by (auto simp: custom_gates_def)

lemma operation_scan_iff:
  "unique_scan (operation_validate dur rx) Operation_bad operation_identity dup i [] ops = None \<longleftrightarrow>
     (\<forall>op \<in> set ops. operation_validate dur rx op = None) \<and>
     distinct (map (\<lambda>op. (op_module op, op_gate op)) ops)"
proof -
  have "distinct (map operation_identity ops) \<longleftrightarrow> distinct (map (\<lambda>op. (op_module op, op_gate op)) ops)"
    if "\<forall>op \<in> set ops. operation_validate dur rx op = None"
  proof -
    have "(op_module x, op_gate x) = (op_module y, op_gate y) \<longleftrightarrow> operation_identity x = operation_identity y"
      if "x \<in> set ops" "y \<in> set ops" for x y
    proof -
      have "op_gate x \<in> set custom_gates" "op_gate y \<in> set custom_gates"
        using \<open>\<forall>op \<in> set ops. _\<close> that operation_validate_ok(2) by blast+
      then have "CHR 0x00 \<notin> set (op_gate x)" "CHR 0x00 \<notin> set (op_gate y)"
        by (blast dest: gate_no_nul)+
      note nul = this
      show ?thesis
      proof
        assume "operation_identity x = operation_identity y"
        then have "op_module x @ CHR 0x00 # op_gate x = op_module y @ CHR 0x00 # op_gate y"
          by (simp add: operation_identity_def)
        from sep_pair_inj [OF this nul] show "(op_module x, op_gate x) = (op_module y, op_gate y)"
          by simp
      qed (simp add: operation_identity_def)
    qed
    then show ?thesis by (auto simp: distinct_map inj_on_def)
  qed
  then show ?thesis by (auto simp: unique_scan_ok)
qed

lemma default_str_nonempty [simp]: "d \<noteq> [] \<Longrightarrow> default_str d v \<noteq> []"
  by (simp add: default_str_def)

lemma default_str_idem [simp]: "default_str d (default_str d v) = default_str d v"
  by (simp add: default_str_def)

lemma default_budget_cases:
  "default_budget s =
     (if st_budget s \<noteq> [] then st_budget s
      else if st_fuzz s \<noteq> [] then ''10000x''
      else if st_benchmark s \<noteq> [] then ''100ms'' else [])"
  unfolding default_budget_def Let_def
  by (cases "st_budget s"; cases "st_fuzz s"; cases "st_benchmark s") simp_all

lemma default_budget_again:
  assumes "st_budget t = default_budget s" "st_fuzz t = st_fuzz s" "st_benchmark t = st_benchmark s"
  shows "default_budget t = default_budget s"
  unfolding default_budget_cases [of t] assms by (simp add: default_budget_cases [of s])

lemma step_defaults_idem: "step_defaults (step_defaults s) = step_defaults s"
proof (cases "st_type s = ''go-test''")
  case True
  let ?t = "step_defaults s"
  have f: "st_type ?t = ''go-test''" "st_timeout ?t = default_str ''20m'' (st_timeout s)"
    "st_packages ?t = (if st_packages s = [] then [''./...''] else st_packages s)"
    "st_count ?t = (if st_count s = 0 then 1 else st_count s)"
    "st_fuzz ?t = st_fuzz s" "st_benchmark ?t = st_benchmark s"
    using True by (simp_all add: step_defaults_def Let_def)
  have b: "st_budget ?t = default_budget (s\<lparr>st_timeout := default_str ''20m'' (st_timeout s)\<rparr>)"
    using True by (simp add: step_defaults_def Let_def)
  have "default_budget (?t\<lparr>st_timeout := default_str ''20m'' (st_timeout ?t)\<rparr>) = st_budget ?t"
    unfolding b by (rule default_budget_again) (simp_all add: b f)
  then show ?thesis
    unfolding step_defaults_def [of ?t] using f by (simp add: Let_def)
next
  case False
  then show ?thesis by (simp add: step_defaults_def Let_def)
qed

lemma operation_defaults_idem: "operation_defaults (operation_defaults op) = operation_defaults op"
  by (simp add: operation_defaults_def step_defaults_idem)

lemma step_defaults_filled:
  "st_timeout (step_defaults s) \<noteq> [] \<and>
   (st_type (step_defaults s) = ''go-test'' \<longrightarrow> st_packages (step_defaults s) \<noteq> [] \<and> st_count (step_defaults s) \<noteq> 0)"
  by (simp add: step_defaults_def default_str_def Let_def)

lemma config_validate_ok:
  assumes "config_validate dur rx c = None"
  shows "\<forall>(name, p) \<in> set (config_paths c). confined p"
    and "0 \<le> mp_max_workers (cf_mutation c) \<and> mp_max_workers (cf_mutation c) \<le> 4"
    and "distinct (map mi_module (mp_imports (cf_mutation c)))"
    and "\<forall>m \<in> set (mp_imports (cf_mutation c)). (mi_module m = ''.'' \<or> confined (mi_module m)) \<and>
           confined (mi_archive m) \<and> confined (mi_ledger m)"
    and "distinct (map cm_module (cf_coverage c))"
    and "\<forall>a \<in> set (cf_coverage c). cm_mode a = ''exact'' \<or> cm_mode a = ''evidence''"
    and "distinct (map ab_module (cf_api c))"
    and "\<forall>op \<in> set (cf_operations c). operation_validate dur rx op = None"
    and "distinct (map (\<lambda>op. (op_module op, op_gate op)) (cf_operations c))"
    and "cf_schema_version c = 1" and "version_re (cf_tool_version c)"
    and "cf_tool_checksums c = [] \<or> is_lower_hex_digest (cf_tool_checksums c)"
    and "\<forall>m \<in> set (mp_imports (cf_mutation c)). path_clean (mi_archive m) \<noteq> ''.'' \<and> path_clean (mi_ledger m) \<noteq> ''.''"
    and "\<forall>a \<in> set (cf_coverage c). cm_module a = ''.'' \<or> confined (cm_module a)"
    and "\<forall>b \<in> set (cf_api c). baseline_validate b = None"
proof -
  have "\<forall>e \<in> set (config_paths c). case e of (name, p) \<Rightarrow> validate_relative_path p = None"
    using assms by (fastforce simp: config_validate_def)
  then show "\<forall>(name, p) \<in> set (config_paths c). confined p"
    by (simp add: validate_relative_path_iff)
  have "(\<forall>op \<in> set (cf_operations c). operation_validate dur rx op = None) \<and>
        distinct (map (\<lambda>op. (op_module op, op_gate op)) (cf_operations c))"
    using assms unfolding config_validate_def by (simp add: operation_scan_iff)
  then show "\<forall>op \<in> set (cf_operations c). operation_validate dur rx op = None"
    "distinct (map (\<lambda>op. (op_module op, op_gate op)) (cf_operations c))" by auto
qed (use assms in \<open>auto simp: config_validate_def unique_scan_ok import_validate_def
      acceptance_validate_def module_ref_ok file_ref_ok\<close>)

section \<open>Properties\<close>

text \<open>\<open>validateRelativePath\<close> accepts exactly the paths whose element-by-element walk
  from the repository root never ends outside it: the test on the cleaned text decides
  confinement, with no false accept and no false reject.\<close>

theorem relative_path_confined:
  "validate_relative_path p = None \<longleftrightarrow>
     p \<noteq> [] \<and> \<not> is_abs p \<and> fst (walk (0, []) (split_on CHR ''/'' p)) = 0"
  by (simp add: validate_relative_path_iff confined_def leads_outside_def)

text \<open>The contract of an admitted policy.\<close>

definition recipe_admitted :: "duration_parser \<Rightarrow> step \<Rightarrow> bool" where
  "recipe_admitted dur s \<longleftrightarrow>
     (\<exists>d. dur (st_timeout s) = Some d \<and> 0 < d) \<and> 0 \<le> st_count s \<and>
     (if st_type s = ''go-test''
      then st_packages s \<noteq> [] \<and> st_count s \<noteq> 0 \<and> go_test_step dur s
      else make_step s \<and> is_alnum (hd (st_target s)))"

definition module_admitted :: "string \<Rightarrow> bool" where
  "module_admitted m \<longleftrightarrow> m = ''.'' \<or> confined m"

definition file_admitted :: "string \<Rightarrow> bool" where
  "file_admitted p \<longleftrightarrow> confined p \<and> path_clean p \<noteq> ''.''"

definition baseline_admitted :: "api_baseline \<Rightarrow> bool" where
  "baseline_admitted b \<longleftrightarrow>
     module_admitted (ab_module b) \<and> file_admitted (ab_path b) \<and>
     (if ab_mode b = ''apidiff'' then ab_packages b = []
      else ab_mode b = ''go-doc'' \<and> ab_packages b \<noteq> [] \<and>
        list_all (\<lambda>p. local_pattern p \<and> \<not> has_suffix p ''/...'') (ab_packages b))"

lemma godoc_packages_ok:
  "godoc_packages ps = None \<Longrightarrow> list_all (\<lambda>p. local_pattern p \<and> \<not> has_suffix p ''/...'') ps"
  by (induction ps) (auto intro: package_pattern_local split: option.splits if_splits)

lemma baseline_admittedI: "baseline_validate b = None \<Longrightarrow> baseline_admitted b"
  by (auto simp: baseline_validate_def baseline_admitted_def module_admitted_def file_admitted_def
      validate_relative_path_iff dest: godoc_packages_ok split: if_splits)

definition policy_admitted :: "duration_parser \<Rightarrow> config \<Rightarrow> bool" where
  "policy_admitted dur c \<longleftrightarrow>
     cf_schema_version c = 1 \<and> version_re (cf_tool_version c) \<and>
     (cf_tool_checksums c = [] \<or> is_lower_hex_digest (cf_tool_checksums c)) \<and>
     list_all confined [m_modules (cf_manifests c), m_packages (cf_manifests c), cf_evidence_root c, mp_root (cf_mutation c)] \<and>
     0 \<le> mp_max_workers (cf_mutation c) \<and> mp_max_workers (cf_mutation c) \<le> 4 \<and>
     distinct (map mi_module (mp_imports (cf_mutation c))) \<and>
     list_all (\<lambda>m. module_admitted (mi_module m) \<and> file_admitted (mi_archive m) \<and> file_admitted (mi_ledger m))
       (mp_imports (cf_mutation c)) \<and>
     distinct (map cm_module (cf_coverage c)) \<and>
     list_all (\<lambda>a. module_admitted (cm_module a) \<and> cm_mode a \<in> {''exact'', ''evidence''}) (cf_coverage c) \<and>
     distinct (map ab_module (cf_api c)) \<and> list_all baseline_admitted (cf_api c) \<and>
     distinct (map (\<lambda>op. (op_module op, op_gate op)) (cf_operations c)) \<and>
     list_all (\<lambda>op. module_admitted (op_module op) \<and>
         op_gate op \<in> {''api'', ''benchmark'', ''conformance'', ''docs'', ''fuzz'', ''interoperability'', ''test'', ''local-test''} \<and>
         op_steps op \<noteq> [] \<and> list_all (recipe_admitted dur) (op_steps op)) (cf_operations c)"

lemma recipe_admittedI:
  assumes "step_validate dur (step_defaults s) = None"
  shows "recipe_admitted dur (step_defaults s)"
proof -
  have "go_test_step dur t \<Longrightarrow> st_type t = ''go-test''" and "make_step t \<Longrightarrow> st_type t = ''make'' \<and> is_alnum (hd (st_target t))" for t
    by (simp_all add: go_test_step_def make_step_def make_target_head)
  then show ?thesis
    using step_validate_ok [OF assms] step_defaults_filled [of s] unfolding recipe_admitted_def by auto
qed

text \<open>C36: whatever the YAML decoder delivers, a policy \<open>Decode\<close> returns is confined: the manifests, the
  evidence and mutation roots, the modules, archives and ledgers of imports, the modules of
  coverage and operations, the modules and files of API baselines and the makefiles of recipes
  stay in the repository. It is bounded (0 to 4 workers), owns each module and each module/gate pair
  at most once, and holds only recipes with a positive timeout and command arguments no flag
  parser can take for a flag.\<close>

theorem decode_config_admitted:
  assumes "decode_config yaml dur rx data = Inr c"
  shows "policy_admitted dur c"
proof -
  from assms obtain c0 where c: "c = apply_defaults c0" "config_validate dur rx c = None"
    by (auto simp: decode_config_def Let_def split: if_splits yaml_next.splits option.splits)
  note ok = config_validate_ok [OF c(2)]
  have "recipe_admitted dur s" if "op \<in> set (cf_operations c)" "s \<in> set (op_steps op)" for op s
  proof -
    from that(1) obtain op0 where "op = operation_defaults op0" by (auto simp: c(1) apply_defaults_def)
    with that(2) obtain s0 where "s = step_defaults s0" by (auto simp: operation_defaults_def)
    moreover have "step_validate dur s = None" using ok(8) that operation_validate_ok(3) by blast
    ultimately show ?thesis using recipe_admittedI by simp
  qed
  then show ?thesis
    using ok operation_validate_ok [of dur rx]
    by (auto simp: policy_admitted_def list_all_iff config_paths_def module_admitted_def file_admitted_def custom_gates_def baseline_admittedI)
qed

definition sample_step :: step where
  "sample_step = \<lparr>st_type = ''go-test'', st_makefile = [], st_target = [], st_packages = [''./a''],
     st_run = ''^TestA$'', st_benchmark = [], st_fuzz = [], st_budget = [], st_count = 0,
     st_race = True, st_timeout = []\<rparr>"

definition sample_config :: config where
  "sample_config = \<lparr>cf_schema_version = 1, cf_tool_version = ''v2.2.0'', cf_tool_checksums = [],
     cf_manifests = \<lparr>m_modules = [], m_packages = []\<rparr>, cf_evidence_root = [],
     cf_mutation = \<lparr>mp_root = [], mp_max_workers = 2, mp_imports = []\<rparr>,
     cf_coverage = [\<lparr>cm_module = ''.'', cm_mode = ''exact''\<rparr>], cf_api = [],
     cf_runtimes = \<lparr>rt_deno = [], rt_zsh = []\<rparr>,
     cf_operations = [\<lparr>op_module = ''.'', op_gate = ''test'', op_steps = [sample_step]\<rparr>]\<rparr>"

definition sample_durations :: duration_parser where
  "sample_durations v = (if v = ''20m'' then Some 1200000000000 else None)"

definition sample_regexp :: regexp_parser where
  "sample_regexp r = Some (Regexp Op_concat [] [Regexp Op_begin_text [] [],
     Regexp Op_literal ''TestA'' [], Regexp Op_end_text [] []])"

theorem decode_config_admitted_witness:
  "decode_config (\<lambda>_. (Yaml_doc sample_config, Yaml_end)) sample_durations sample_regexp [] =
     Inr (apply_defaults sample_config) \<and>
   policy_admitted sample_durations (apply_defaults sample_config)"
proof -
  have d: "decode_config (\<lambda>_. (Yaml_doc sample_config, Yaml_end)) sample_durations sample_regexp [] =
     Inr (apply_defaults sample_config)"
    by code_simp
  show ?thesis using d decode_config_admitted [OF d] by simp
qed

text \<open>defaults are stable: applying \<open>applyDefaults\<close> to a defaulted policy changes nothing,
  so decoding a policy printed after decoding keeps its meaning.\<close>

theorem apply_defaults_idem: "apply_defaults (apply_defaults c) = apply_defaults c"
  by (simp add: apply_defaults_def operation_defaults_idem)

text \<open>the local-test budget is exact and bounded: when \<open>LocalTestBudget\<close> returns a value,
  it is the sum of the steps' deadlines, each positive, at most eight of them and at most
  three minutes in all, so the accumulation of 64-bit durations never wraps; every step
  is one anchored Test selector over one explicit package.\<close>

theorem local_test_budget_bounded:
  assumes "local_test_budget dur rx op = Inr budget"
  shows "budget = sum_list (map (timeout_of dur) (op_steps op)) \<and>
    0 < budget \<and> budget \<le> 180000000000 \<and> length (op_steps op) \<le> 8 \<and>
    (\<forall>s \<in> set (op_steps op). 0 < timeout_of dur s \<and> focused_step s \<and> anchored_run (st_run s))"
proof -
  from assms have ne: "op_steps op \<noteq> []" "length (op_steps op) \<le> 8"
    and l: "local_budget_loop dur rx 0 0 (op_steps op) = Inr budget"
    by (auto simp: local_test_budget_def split: if_splits)
  have "0 \<le> maximum_local_test_budget" by (simp add: maximum_local_test_budget_def)
  from local_budget_loop_ok [OF l this]
  have b: "budget = sum_list (map (timeout_of dur) (op_steps op))" "budget \<le> 180000000000"
    and s: "\<forall>s \<in> set (op_steps op). 0 < timeout_of dur s \<and> focused_step s \<and> anchored_run (st_run s)"
    by (auto simp: maximum_local_test_budget_def)
  have "0 < sum_list (map (timeout_of dur) ss)" if "ss \<noteq> []" "\<forall>s \<in> set ss. 0 < timeout_of dur s" for ss
    using that by (induction ss rule: list_nonempty_induct) auto
  with ne b s show ?thesis by simp
qed

definition sample_local :: operation where
  "sample_local = \<lparr>op_module = ''.'', op_gate = ''local-test'',
     op_steps = [step_defaults (sample_step\<lparr>st_race := False\<rparr>)]\<rparr>"

definition sample_minute :: duration_parser where
  "sample_minute v = Some 60000000000"

theorem local_test_budget_bounded_witness:
  "local_test_budget sample_minute sample_regexp sample_local = Inr 60000000000 \<and>
   (60000000000 :: int) \<le> 180000000000"
proof -
  have d: "local_test_budget sample_minute sample_regexp sample_local = Inr 60000000000"
    by code_simp
  show ?thesis using d local_test_budget_bounded [OF d] by simp
qed

end
