(* ===== verification/Strict_Json.thy ===== *)
theory Strict_Json
  imports Go_Strings
begin

text \<open>
  The generic JSON values of encoding/json (what \<open>any\<close> holds after \<open>Unmarshal\<close>). An object
  is an association list: Go's map, whose order no code below depends on.
\<close>

datatype json =
    J_null
  | J_bool bool
  | J_number string
  | J_string string
  | J_array "json list"
  | J_object "(string \<times> json) list"

text \<open>What one call of \<open>decoder.Decode\<close> delivers: a value, \<open>io.EOF\<close>, or another error.\<close>

datatype 'a json_next = Json_value 'a | Json_eof | Json_failure

text \<open>\<open>delete(m, k)\<close> for each of several keys.\<close>

definition drop_keys :: "string list \<Rightarrow> (string \<times> 'v) list \<Rightarrow> (string \<times> 'v) list" where
  "drop_keys ks m = filter (\<lambda>(k, v). \<not> List.member ks k) m"

lemma map_of_drop_keys [simp]:
  "map_of (drop_keys ks m) k = (if k \<in> set ks then None else map_of m k)"
  by (induction m) (auto simp: drop_keys_def)

lemma drop_keys_idem [simp]: "drop_keys ks (drop_keys ks m) = drop_keys ks m"
  by (simp add: drop_keys_def)

lemma map_of_update_value:
  "map_of (map (\<lambda>(k, v). (k, if k = a then f v else v)) m) k =
     (if k = a then map_option f (map_of m k) else map_of m k)"
  by (induction m) auto

text \<open>
  internal/mutation/bootstrap.go, \<open>decodeStrict\<close>: every evidence file of the mutation
  component is read by it. A first pass over the decoder's tokens refuses an object with a
  repeated key at any depth (encoding/json would silently keep the last one), a second one
  decodes the one value. The tokens of \<open>decoder.Token\<close> and the typed result of
  \<open>decoder.Decode\<close> are arguments: a token list that ends where the decoder reports an error
  or the end of the input.
\<close>

datatype json_token =
    Tok_open_object | Tok_close_object | Tok_open_array | Tok_close_array
  | Tok_string string | Tok_scalar

datatype scan_error = Scan_failed | Scan_duplicate | Scan_panic | Scan_fuel

datatype strict_error = Duplicate_object_key | Strict_decode_failure | Strict_multiple | Strict_trailing | Strict_panic

text \<open>\<open>decoder.More()\<close>: there is a next token and it closes nothing. At the end of the tokens
  the answer does not matter: either branch then fails on the missing token.\<close>

definition tokens_more :: "json_token list \<Rightarrow> bool" where
  "tokens_more ts = (case ts of [] \<Rightarrow> False | t # _ \<Rightarrow> t \<noteq> Tok_close_object \<and> t \<noteq> Tok_close_array)"

text \<open>\<open>_, err = decoder.Token()\<close>\<close>

definition skip_token :: "json_token list \<Rightarrow> scan_error + json_token list" where
  "skip_token ts = (case ts of [] \<Rightarrow> Inl Scan_failed | _ # ts \<Rightarrow> Inr ts)"

definition object_key :: "json_token \<Rightarrow> scan_error + string" where
  "object_key t = (case t of Tok_string s \<Rightarrow> Inr s | _ \<Rightarrow> Inl Scan_panic)"

fun scan_value :: "nat \<Rightarrow> json_token list \<Rightarrow> scan_error + json_token list"
  and scan_members :: "nat \<Rightarrow> string list \<Rightarrow> json_token list \<Rightarrow> scan_error + json_token list"
  and scan_elements :: "nat \<Rightarrow> json_token list \<Rightarrow> scan_error + json_token list" where
  "scan_value 0 ts = Inl Scan_fuel"
| "scan_value (Suc fuel) ts =
     (case ts of
        [] \<Rightarrow> Inl Scan_failed
      | Tok_string _ # ts \<Rightarrow> Inr ts
      | Tok_scalar # ts \<Rightarrow> Inr ts
      | Tok_open_object # ts \<Rightarrow> and_then (scan_members fuel [] ts) skip_token
      | _ # ts \<Rightarrow> and_then (scan_elements fuel ts) skip_token)"
| "scan_members 0 seen ts = Inl Scan_fuel"
| "scan_members (Suc fuel) seen ts =
     (if \<not> tokens_more ts then Inr ts
      else (case ts of
              [] \<Rightarrow> Inl Scan_failed
            | t # ts \<Rightarrow>
                (case object_key t of
                   Inl e \<Rightarrow> Inl e
                 | Inr key \<Rightarrow>
                     if List.member seen key then Inl Scan_duplicate
                     else (case scan_value fuel ts of
                             Inl e \<Rightarrow> Inl e
                           | Inr ts \<Rightarrow> scan_members fuel (key # seen) ts))))"
| "scan_elements 0 ts = Inl Scan_fuel"
| "scan_elements (Suc fuel) ts =
     (if \<not> tokens_more ts then Inr ts
      else (case scan_value fuel ts of
              Inl e \<Rightarrow> Inl e
            | Inr ts \<Rightarrow> scan_elements fuel ts))"

text \<open>The recursion consumes a token every second call: \<open>scan_fuel\<close> is enough (lemma \<open>scan_total\<close>).\<close>

definition scan_fuel :: "json_token list \<Rightarrow> nat" where
  "scan_fuel ts = 2 * length ts + 1"

definition reject_duplicate_keys :: "json_token list \<Rightarrow> strict_error option" where
  "reject_duplicate_keys ts =
     (case scan_value (scan_fuel ts) ts of
        Inl Scan_duplicate \<Rightarrow> Some Duplicate_object_key
      | Inl Scan_panic \<Rightarrow> Some Strict_panic
      | Inl _ \<Rightarrow> Some Strict_decode_failure
      | Inr _ \<Rightarrow> None)"

text \<open>What the decoder does with one input: its tokens, the typed value, and what follows it.\<close>

type_synonym 'a strict_decoder = "string \<Rightarrow> json_token list \<times> 'a json_next \<times> unit json_next"

definition decode_strict :: "'a strict_decoder \<Rightarrow> string \<Rightarrow> strict_error + 'a" where
  "decode_strict decoder data =
     (case decoder data of (tokens, first, extra) \<Rightarrow>
        with_check (reject_duplicate_keys tokens)
          (case first of
             Json_value v \<Rightarrow>
               (case extra of
                  Json_eof \<Rightarrow> Inr v
                | Json_value _ \<Rightarrow> Inl Strict_multiple
                | Json_failure \<Rightarrow> Inl Strict_trailing)
           | _ \<Rightarrow> Inl Strict_decode_failure))"

lemma decode_strict_ok:
  "decode_strict decoder data = Inr v \<longleftrightarrow>
     (\<exists>tokens. decoder data = (tokens, Json_value v, Json_eof) \<and> reject_duplicate_keys tokens = None)"
  by (auto simp: decode_strict_def split: prod.splits json_next.splits)

section \<open>Which values the first pass accepts\<close>

text \<open>The tokens of a JSON value, and the values without a repeated key in any object.\<close>

fun json_tokens :: "json \<Rightarrow> json_token list"
  and member_tokens :: "(string \<times> json) list \<Rightarrow> json_token list"
  and element_tokens :: "json list \<Rightarrow> json_token list" where
  "json_tokens (J_string s) = [Tok_string s]"
| "json_tokens (J_array vs) = Tok_open_array # element_tokens vs @ [Tok_close_array]"
| "json_tokens (J_object ms) = Tok_open_object # member_tokens ms @ [Tok_close_object]"
| "json_tokens J_null = [Tok_scalar]"
| "json_tokens (J_bool b) = [Tok_scalar]"
| "json_tokens (J_number n) = [Tok_scalar]"
| "member_tokens [] = []"
| "member_tokens ((k, v) # ms) = Tok_string k # json_tokens v @ member_tokens ms"
| "element_tokens [] = []"
| "element_tokens (v # vs) = json_tokens v @ element_tokens vs"

fun unique_keys :: "json \<Rightarrow> bool"
  and unique_members :: "string list \<Rightarrow> (string \<times> json) list \<Rightarrow> bool"
  and unique_elements :: "json list \<Rightarrow> bool" where
  "unique_keys (J_object ms) = unique_members [] ms"
| "unique_keys (J_array vs) = unique_elements vs"
| "unique_keys (J_string s) = True"
| "unique_keys J_null = True"
| "unique_keys (J_bool b) = True"
| "unique_keys (J_number n) = True"
| "unique_members seen [] = True"
| "unique_members seen ((k, v) # ms) \<longleftrightarrow> k \<notin> set seen \<and> unique_keys v \<and> unique_members (k # seen) ms"
| "unique_elements [] = True"
| "unique_elements (v # vs) \<longleftrightarrow> unique_keys v \<and> unique_elements vs"

lemma unique_members_iff:
  "unique_members seen ms \<longleftrightarrow>
     distinct (map fst ms) \<and> fst ` set ms \<inter> set seen = {} \<and> (\<forall>(k, v) \<in> set ms. unique_keys v)"
proof (induction ms arbitrary: seen)
  case (Cons kv ms)
  obtain k v where "kv = (k, v)" by (cases kv)
  then show ?case using Cons.IH [of "k # seen"] by auto
qed simp

lemma unique_elements_iff: "unique_elements vs \<longleftrightarrow> (\<forall>v \<in> set vs. unique_keys v)"
  by (induction vs) auto

lemma json_tokens_head: "\<exists>t ts. json_tokens v = t # ts \<and> t \<noteq> Tok_close_object \<and> t \<noteq> Tok_close_array"
  by (cases v) auto

lemma json_tokens_more [simp]: "tokens_more (json_tokens v @ ts)"
  using json_tokens_head [of v] by (auto simp: tokens_more_def)

lemma json_tokens_length: "0 < length (json_tokens v)"
  using json_tokens_head [of v] by auto

lemma tokens_more_simps [simp]:
  "\<not> tokens_more (Tok_close_object # ts)" "\<not> tokens_more (Tok_close_array # ts)" "tokens_more (Tok_string k # ts)"
  by (simp_all add: tokens_more_def)

lemma scan_leaf:
  "0 < fuel \<Longrightarrow> scan_value fuel (Tok_string s # ts) = Inr ts"
  "0 < fuel \<Longrightarrow> scan_value fuel (Tok_scalar # ts) = Inr ts"
  by (cases fuel; simp)+

lemma skip_token_result:
  assumes "r \<noteq> Inl Scan_fuel" and "\<forall>ts'. r = Inr ts' \<longrightarrow> length ts' \<le> n"
  shows "and_then r skip_token \<noteq> Inl Scan_fuel \<and> (\<forall>ts'. and_then r skip_token = Inr ts' \<longrightarrow> length ts' < Suc n)"
proof (cases r)
  case (Inr ts)
  with assms show ?thesis by (cases ts) (auto simp: skip_token_def)
qed (use assms in auto)

lemma scan_of_value:
  "2 * length (json_tokens v) \<le> fuel \<Longrightarrow>
     scan_value fuel (json_tokens v @ rest) = (if unique_keys v then Inr rest else Inl Scan_duplicate)"
  "2 * length (member_tokens ms) < fuel \<Longrightarrow>
     scan_members fuel seen (member_tokens ms @ Tok_close_object # rest) =
       (if unique_members seen ms then Inr (Tok_close_object # rest) else Inl Scan_duplicate)"
  "2 * length (element_tokens vs) < fuel \<Longrightarrow>
     scan_elements fuel (element_tokens vs @ Tok_close_array # rest) =
       (if unique_elements vs then Inr (Tok_close_array # rest) else Inl Scan_duplicate)"
proof (induction v and ms and vs arbitrary: fuel rest and fuel seen rest and fuel rest
    rule: json_tokens_member_tokens_element_tokens.induct)
  case (2 vs)
  then obtain f where "fuel = Suc f" by (cases fuel) auto
  with 2 show ?case by (simp add: skip_token_def)
next
  case (3 ms)
  then obtain f where "fuel = Suc f" by (cases fuel) auto
  with 3 show ?case by (simp add: skip_token_def)
next
  case (7)
  then show ?case by (cases fuel) auto
next
  case (8 k v ms)
  then obtain f where f: "fuel = Suc f" by (cases fuel) auto
  have "2 * length (json_tokens v) \<le> f" "2 * length (member_tokens ms) < f"
    using 8(3) f by simp_all
  then show ?case using 8(1,2) by (simp add: f object_key_def)
next
  case 9
  then show ?case by (cases fuel) auto
next
  case (10 v vs)
  then obtain f where f: "fuel = Suc f" by (cases fuel) auto
  have l: "0 < length (json_tokens v)" by (rule json_tokens_length)
  have "2 * length (json_tokens v) \<le> f" "2 * length (element_tokens vs) < f"
    using 10(3) f l by (simp_all del: length_greater_0_conv)
  then show ?case using 10(1,2) by (simp add: f)
qed (simp_all add: scan_leaf)

text \<open>The fuel is enough on every token list, well-formed or not.\<close>

lemma scan_total:
  "(2 * length ts + 1 \<le> fuel \<longrightarrow> scan_value fuel ts \<noteq> Inl Scan_fuel) \<and>
     (\<forall>ts'. scan_value fuel ts = Inr ts' \<longrightarrow> length ts' < length ts)"
  "(2 * length ts + 2 \<le> fuel \<longrightarrow> scan_members fuel seen ts \<noteq> Inl Scan_fuel) \<and>
     (\<forall>ts'. scan_members fuel seen ts = Inr ts' \<longrightarrow> length ts' \<le> length ts)"
  "(2 * length ts + 2 \<le> fuel \<longrightarrow> scan_elements fuel ts \<noteq> Inl Scan_fuel) \<and>
     (\<forall>ts'. scan_elements fuel ts = Inr ts' \<longrightarrow> length ts' \<le> length ts)"
proof (induction fuel ts and fuel seen ts and fuel ts rule: scan_value_scan_members_scan_elements.induct)
  case (2 fuel ts)
  show ?case
  proof (cases ts)
    case (Cons t us)
    let ?P = "\<lambda>r. (2 * length us + 2 \<le> fuel \<longrightarrow> r \<noteq> Inl Scan_fuel) \<and> (\<forall>ts'. r = Inr ts' \<longrightarrow> length ts' \<le> length us)"
    have P: ?thesis if "?P r" and "scan_value (Suc fuel) ts = and_then r skip_token" for r
    proof (cases "r = Inl Scan_fuel")
      case True
      with that Cons show ?thesis by simp
    next
      case False
      with skip_token_result [OF False, of "length us"] that Cons show ?thesis by simp
    qed
    show ?thesis
    proof (cases t)
      case Tok_open_object
      with Cons 2 show ?thesis by (intro P [of "scan_members fuel [] us"]) simp_all
    next
      case Tok_open_array
      with Cons 2 show ?thesis by (intro P [of "scan_elements fuel us"]) simp_all
    next
      case Tok_close_object
      with Cons 2 show ?thesis by (intro P [of "scan_elements fuel us"]) simp_all
    next
      case Tok_close_array
      with Cons 2 show ?thesis by (intro P [of "scan_elements fuel us"]) simp_all
    qed (simp_all add: Cons)
  qed simp
next
  case (4 fuel seen ts)
  show ?case
  proof (cases "tokens_more ts")
    case more: True
    then obtain t us where ts: "ts = t # us" by (auto simp: tokens_more_def split: list.splits)
    show ?thesis
    proof (cases "object_key t")
      case (Inl e)
      then have "e = Scan_panic" by (auto simp: object_key_def split: json_token.splits)
      with Inl more ts show ?thesis by simp
    next
      case key: (Inr key)
      show ?thesis
      proof (cases "List.member seen key")
        case True
        with key more ts show ?thesis by simp
      next
        case new: False
        have nm: "\<not> \<not> tokens_more ts" using more by simp
        note v = 4(1) [OF nm ts key new]
        show ?thesis
        proof (cases "scan_value fuel us")
          case (Inl e)
          with v key new more ts show ?thesis by simp
        next
          case (Inr vs)
          with v 4(2) [OF nm ts key new Inr] key new more ts show ?thesis by fastforce
        qed
      qed
    qed
  qed simp
next
  case (6 fuel ts)
  show ?case
  proof (cases "tokens_more ts")
    case more: True
    then have nm: "\<not> \<not> tokens_more ts" by simp
    note v = 6(1) [OF nm]
    show ?thesis
    proof (cases "scan_value fuel ts")
      case (Inl e)
      with v more show ?thesis by simp
    next
      case (Inr vs)
      with v 6(2) [OF nm Inr] more show ?thesis by fastforce
    qed
  qed simp
qed auto

end
