(* ===== verification/Inventory.thy ===== *)
theory Inventory
  imports Config_Policy Strict_Json
begin

text \<open>
  internal/inventory/inventory.go: the repository catalog, two JSON manifests that must
  agree. The records have the fields of the Go structs; a slice is a list, a Go map is an
  association list. \<open>Package.BuildTags\<close> and \<open>Inventory.Modules\<close> are options, because
  \<open>reflect.DeepEqual\<close> and \<open>LoadSnapshot\<close> tell a nil slice from an empty one.

  Arguments of the model, gathered in \<open>manifest_env\<close>: reading a repository file, what
  encoding/json delivers for each destination type, the two JSON schemas, and
  \<open>CheckImportPath\<close> and \<open>SplitPathVersion\<close> of golang.org/x/mod. Nothing is assumed of them.
\<close>

section \<open>The catalog\<close>

record package_policy =
  pk_module_directory :: string
  pk_directory :: string
  pk_name :: string
  pk_import_path :: string
  pk_kind :: string
  pk_production :: bool
  pk_executable :: bool
  pk_coverage_required :: bool
  pk_build_required :: bool
  pk_build_tags :: "string list option"

record goal_evidence =
  ge_file :: string
  ge_requirements_sha256 :: string
  ge_implementation_evidence :: "string list"
  ge_verification_gates :: "string list"
  ge_implementation_status :: string

record delivery =
  dl_implementation :: string
  dl_hardening :: string
  dl_release :: string

record documentation =
  dc_readme :: "string option"
  dc_api :: "string option"
  dc_adoption :: "string option"
  dc_security :: "string option"
  dc_compatibility :: "string option"
  dc_performance :: "string option"
  dc_examples :: "string option"
  dc_faq :: "string option"
  dc_changelog :: "string option"
  dc_pkg_go_dev :: "string option"
  dc_ecosystem_index :: "string option"

record supported_go =
  sg_minimum :: string
  sg_tested :: "string list"

record ownership =
  ow_configuration :: string
  ow_mutable_inputs :: "string list"
  ow_runtime_resources :: string
  ow_background_work :: string

record cohesion =
  co_family :: string
  co_secondary_capabilities :: "string list"
  co_responsibility :: string
  co_non_goals :: "string list"
  co_public_package_identifier :: string
  co_primary_entry_packages :: "string list"
  co_package_selection :: "(string \<times> string) list"
  co_lifecycle_status :: string
  co_maturity :: string
  co_construction_styles :: "string list"
  co_lifecycle_styles :: "string list"
  co_ownership :: ownership
  co_optional_owned_dependencies :: "string list"
  co_adapters :: "string list"
  co_companions :: "string list"
  co_supported_go :: supported_go
  co_supported_platforms :: "string list"
  co_supported_backends :: "string list"
  co_supported_protocols :: "string list"
  co_documentation :: documentation
  co_known_good_compatibility_sets :: "string list"
  co_delivery :: delivery

record module_policy =
  md_directory :: string
  md_module_path :: string
  md_go_version :: string
  md_kind :: string
  md_purpose :: string
  md_lifecycle :: string
  md_releasable :: bool
  md_version :: string
  md_tag_prefix :: string
  md_gates :: "(string \<times> bool) list"
  md_test_tags :: "string list"
  md_build_tags :: "string list"
  md_required_services :: "string list"
  md_external_runtime_dependencies :: "string list"
  md_interoperability_tools :: "string list"
  md_conformance_corpora :: "string list"
  md_specifications :: "string list"
  md_owned_dependencies :: "string list"
  md_reverse_owned_dependencies :: "string list"
  md_packages :: "package_policy list"
  md_family :: string
  md_family_label :: string
  md_family_description :: string
  md_family_order :: int
  md_goal_status :: string
  md_goal_files :: "string list"
  md_goal_evidence :: "goal_evidence list"
  md_provenance :: string
  md_cohesion :: "cohesion option"

record inventory =
  iv_schema_id :: string
  iv_schema_version :: int
  iv_repository :: string
  iv_go_version :: string
  iv_modules :: "module_policy list option"

record package_inventory =
  pi_schema_version :: int
  pi_repository :: string
  pi_packages :: "package_policy list"

definition no_inventory :: inventory where
  "no_inventory = \<lparr>iv_schema_id = [], iv_schema_version = 0, iv_repository = [],
     iv_go_version = [], iv_modules = None\<rparr>"

text \<open>A slice read by \<open>range\<close>: nil has no elements.\<close>

definition inv_modules :: "inventory \<Rightarrow> module_policy list" where
  "inv_modules c = (case iv_modules c of None \<Rightarrow> [] | Some ms \<Rightarrow> ms)"

text \<open>\<open>module.Gates[gate]\<close>: a missing key reads as \<open>false\<close>.\<close>

definition gate_on :: "module_policy \<Rightarrow> string \<Rightarrow> bool" where
  "gate_on md g \<longleftrightarrow> map_of (md_gates md) g = Some True"

section \<open>What the JSON libraries deliver\<close>

record manifest_env =
  env_read :: "string \<Rightarrow> int \<Rightarrow> string option"
  env_header :: "string \<Rightarrow> (int \<times> bool list) option"
  env_identities :: "string \<Rightarrow> (string \<times> (string \<times> string) list list) option"
  env_string :: "string \<Rightarrow> string option"
  env_schema_document :: "string \<Rightarrow> bool"
  env_schema_v3 :: "string \<Rightarrow> bool"
  env_inventory :: "string \<Rightarrow> inventory json_next \<times> unit json_next"
  env_packages :: "string \<Rightarrow> package_inventory json_next \<times> unit json_next"
  env_package_raws :: "string \<Rightarrow> string list option option"
  env_package_schema :: "string \<Rightarrow> bool"
  env_check_import_path :: "string \<Rightarrow> bool"
  env_split_path_version :: "string \<Rightarrow> (string \<times> string) option"

datatype inventory_error =
    Manifest_bytes_bad | Module_unreadable | Module_undecodable | Invalid_manifest
  | Too_many_modules | Invalid_module_directory | Invalid_module_path | Schema_v3_rejected
  | Package_unreadable | Package_undecodable | Schema_versions | Schema_id_present
  | Cohesion_in_v1 | Repository_differs | No_modules | Duplicate_directory string
  | Derivation_not_array | Derived_record_bad nat | Canonical_unknown_module
  | Duplicate_import string | Package_wrong_module string string | Duplicate_module_import string
  | Not_in_packages_manifest string | Package_differs string | Not_in_module_manifest
  | Coverage_unknown nat string | Coverage_disabled nat string
  | Mutation_unknown nat string | Mutation_disabled nat string
  | Api_unknown nat string | Api_disabled nat string
  | Operation_unknown nat string | Operation_disabled nat string string | Two_api_owners string
  | Operation_required string string | Index_panic

text \<open>\<open>decodeData\<close>: the first value, and the end of the input after it.\<close>

definition decode_data :: "'a json_next \<times> unit json_next \<Rightarrow> 'a option" where
  "decode_data d =
     (case fst d of
        Json_value v \<Rightarrow> (if snd d = Json_eof then Some v else None)
      | _ \<Rightarrow> None)"

section \<open>Raw module identities\<close>

definition maximum_manifest_size :: int where
  "maximum_manifest_size = 33554432"

definition maximum_modules :: int where
  "maximum_modules = 64"

definition module_alphabet :: string where
  "module_alphabet = ''abcdefghijklmnopqrstuvwxyz0123456789-./''"

definition contains_rune :: "string \<Rightarrow> int \<Rightarrow> bool" where
  "contains_rune cs r \<longleftrightarrow> list_ex (\<lambda>c. of_char c = r) cs"

definition valid_module_directory :: "string \<Rightarrow> bool" where
  "valid_module_directory d \<longleftrightarrow>
     d = ''.'' \<or>
     \<not> (contains_str d [CHR 0x5C] \<or> is_abs d \<or> path_clean d \<noteq> d \<or> \<not> valid_path d) \<and>
     list_all (\<lambda>(r, b). \<not> (is_space_rune r \<or> \<not> contains_rune module_alphabet r)) (runes d)"

definition valid_module_path_characters :: "string \<Rightarrow> bool" where
  "valid_module_path_characters p \<longleftrightarrow>
     list_all (\<lambda>(r, b). contains_rune module_alphabet r) (runes p)"

definition root_module_path_matches_repository :: "manifest_env \<Rightarrow> string \<Rightarrow> string \<Rightarrow> bool" where
  "root_module_path_matches_repository env p repository \<longleftrightarrow>
     p = repository \<or>
     (case env_split_path_version env p of
        None \<Rightarrow> False
      | Some (prefix, version) \<Rightarrow> prefix = repository \<and> version \<noteq> [])"

definition identity_string :: "manifest_env \<Rightarrow> (string \<times> string) list \<Rightarrow> string \<Rightarrow> string option" where
  "identity_string env candidate field =
     (case map_of candidate field of
        None \<Rightarrow> None
      | Some raw \<Rightarrow>
          (case env_string env raw of
             None \<Rightarrow> None
           | Some v \<Rightarrow>
               if v = [] \<or> list_ex (\<lambda>(r, b). is_control_rune r) (runes v) then None else Some v))"

definition candidate_error ::
  "manifest_env \<Rightarrow> string \<Rightarrow> (string \<times> string) list \<Rightarrow> inventory_error option" where
  "candidate_error env repository candidate =
     (case identity_string env candidate ''directory'' of
        None \<Rightarrow> Some Invalid_module_directory
      | Some directory \<Rightarrow>
          if \<not> valid_module_directory directory then Some Invalid_module_directory
          else (case identity_string env candidate ''module_path'' of
                  None \<Rightarrow> Some Invalid_module_path
                | Some p \<Rightarrow>
                    if \<not> env_check_import_path env p \<or> \<not> valid_module_path_characters p
                    then Some Invalid_module_path
                    else refuse (repository \<noteq> [] \<and> directory = ''.'' \<and>
                                 \<not> root_module_path_matches_repository env p repository)
                           Invalid_module_path))"

definition validate_module_identities :: "manifest_env \<Rightarrow> string \<Rightarrow> inventory_error option" where
  "validate_module_identities env manifest =
     (case env_identities env manifest of
        None \<Rightarrow> Some Invalid_manifest
      | Some (repository, candidates) \<Rightarrow>
          if maximum_modules < int (length candidates) then Some Too_many_modules
          else first_error (map (candidate_error env repository) candidates))"

definition validate_schema_v3_manifest :: "manifest_env \<Rightarrow> string \<Rightarrow> inventory_error option" where
  "validate_schema_v3_manifest env manifest =
     (if \<not> env_schema_document env manifest then Some Module_undecodable
      else refuse (\<not> env_schema_v3 env manifest) Schema_v3_rejected)"

definition validate_decoded_module_identities ::
  "manifest_env \<Rightarrow> inventory \<Rightarrow> inventory_error option" where
  "validate_decoded_module_identities env catalog =
     first_error (map (\<lambda>candidate.
       refuse (\<not> (has_prefix (md_directory candidate) ''testdata/'' \<or>
                  root_module_path_matches_repository env (md_module_path candidate) (iv_repository catalog) \<or>
                  has_prefix (md_module_path candidate) (iv_repository catalog @ ''/'')))
         Invalid_module_path) (inv_modules catalog))"

section \<open>Packages\<close>

definition validate_derived_package_records ::
  "manifest_env \<Rightarrow> string \<Rightarrow> package_policy list \<Rightarrow> string list \<Rightarrow> inventory_error option" where
  "validate_derived_package_records env manifest canonical derived =
     (if derived = [] then None
      else (case env_package_raws env manifest of
              Some (Some raws) \<Rightarrow>
                first_error (map (\<lambda>(index, p).
                  if \<not> List.member derived (pk_module_directory p) then None
                  else if length raws \<le> index then Some Index_panic
                  else refuse (\<not> env_package_schema env (raws ! index)) (Derived_record_bad index))
                  (enumerate 0 canonical))
            | _ \<Rightarrow> Some Derivation_not_array))"

text \<open>The canonical packages by import path: \<open>byImportPath\<close>, or the duplicate.\<close>

fun by_import_path ::
  "(string \<times> package_policy) list \<Rightarrow> package_policy list \<Rightarrow> string + (string \<times> package_policy) list" where
  "by_import_path m [] = Inr m"
| "by_import_path m (p # ps) =
     (if map_of m (pk_import_path p) \<noteq> None then Inl (pk_import_path p)
      else by_import_path ((pk_import_path p, p) # m) ps)"

text \<open>The inner loop over the packages of one module: the import paths seen so far, or the
  first error.\<close>

fun module_packages_scan ::
  "(string \<times> package_policy) list \<Rightarrow> string \<Rightarrow> string list \<Rightarrow> package_policy list
    \<Rightarrow> inventory_error + string list" where
  "module_packages_scan stored directory seen [] = Inr seen"
| "module_packages_scan stored directory seen (p # ps) =
     (if pk_module_directory p \<noteq> directory then Inl (Package_wrong_module (pk_import_path p) directory)
      else if List.member seen (pk_import_path p) then Inl (Duplicate_module_import (pk_import_path p))
      else (case map_of stored (pk_import_path p) of
              None \<Rightarrow> Inl (Not_in_packages_manifest (pk_import_path p))
            | Some q \<Rightarrow>
                if q \<noteq> p then Inl (Package_differs (pk_import_path p))
                else module_packages_scan stored directory (pk_import_path p # seen) ps))"

fun modules_scan ::
  "(string \<times> package_policy) list \<Rightarrow> string list \<Rightarrow> module_policy list
    \<Rightarrow> inventory_error + string list" where
  "modules_scan stored seen [] = Inr seen"
| "modules_scan stored seen (md # mds) =
     and_then (module_packages_scan stored (md_directory md) seen (md_packages md))
       (\<lambda>seen'. modules_scan stored seen' mds)"

text \<open>The last loop ranges over a Go map: which missing path its error names is not
  determined, so the error carries none.\<close>

definition validate_packages ::
  "module_policy list \<Rightarrow> package_policy list \<Rightarrow> inventory_error option" where
  "validate_packages mds canonical =
     (case by_import_path [] canonical of
        Inl p \<Rightarrow> Some (Duplicate_import p)
      | Inr stored \<Rightarrow>
          (case modules_scan stored [] mds of
             Inl e \<Rightarrow> Some e
           | Inr seen \<Rightarrow>
               refuse (list_ex (\<lambda>(p, _). \<not> List.member seen p) stored) Not_in_module_manifest))"

section \<open>Loading\<close>

definition header_checks :: "inventory \<Rightarrow> package_inventory \<Rightarrow> inventory_error option" where
  "header_checks c ps = first_error
     [refuse ((iv_schema_version c \<noteq> 1 \<and> iv_schema_version c \<noteq> 2 \<and> iv_schema_version c \<noteq> 3) \<or>
              pi_schema_version ps \<noteq> 1) Schema_versions,
      refuse (iv_schema_version c < 3 \<and> iv_schema_id c \<noteq> []) Schema_id_present,
      refuse (iv_schema_version c = 1 \<and> list_ex (\<lambda>md. md_cohesion md \<noteq> None) (inv_modules c))
        Cohesion_in_v1,
      refuse (iv_repository c = [] \<or> iv_repository c \<noteq> pi_repository ps) Repository_differs]"

text \<open>The first loop over the modules: unique directories, and the directories whose module
  has no \<open>packages\<close> field. \<open>present\<close> is \<open>header.Modules[i].Packages != nil\<close>.\<close>

fun directory_scan ::
  "bool list \<Rightarrow> string list \<Rightarrow> string list \<Rightarrow> module_policy list \<Rightarrow> inventory_error + string list" where
  "directory_scan present seen derived [] = Inr derived"
| "directory_scan present seen derived (md # mds) =
     (if List.member seen (md_directory md) then Inl (Duplicate_directory (md_directory md))
      else (case present of
              [] \<Rightarrow> Inl Index_panic
            | here # present' \<Rightarrow>
                directory_scan present' (md_directory md # seen)
                  (if here then derived else md_directory md # derived) mds))"

text \<open>The derivation loop: a module without the field takes its canonical packages.\<close>

fun derive_packages :: "package_policy list \<Rightarrow> bool list \<Rightarrow> module_policy list \<Rightarrow> module_policy list" where
  "derive_packages canonical (here # present) (md # mds) =
     (if here then md
      else md\<lparr>md_packages := filter (\<lambda>p. pk_module_directory p = md_directory md) canonical\<rparr>)
     # derive_packages canonical present mds"
| "derive_packages canonical _ mds = mds"

definition find_module :: "module_policy list \<Rightarrow> string \<Rightarrow> module_policy option" where
  "find_module mds d = find (\<lambda>md. md_directory md = d) mds"

definition enabled_reference ::
  "module_policy list \<Rightarrow> (module_policy \<Rightarrow> bool) \<Rightarrow> string \<Rightarrow> inventory_error \<Rightarrow> inventory_error
    \<Rightarrow> inventory_error option" where
  "enabled_reference mds enabled d unknown disabled =
     (case find_module mds d of
        None \<Rightarrow> Some unknown
      | Some md \<Rightarrow> refuse (\<not> enabled md) disabled)"

definition gate_key :: "string \<Rightarrow> string" where
  "gate_key gate =
     (if gate = ''api'' then ''api_compatibility''
      else if gate = ''benchmark'' then ''benchmarks''
      else if gate = ''conformance'' then ''conformance''
      else if gate = ''docs'' then ''documentation''
      else if gate = ''fuzz'' then ''fuzz''
      else if gate = ''test'' then ''tests'' else [])"

definition operation_enabled :: "string \<Rightarrow> module_policy \<Rightarrow> bool" where
  "operation_enabled gate md =
     (if gate \<noteq> ''interoperability'' \<and> gate \<noteq> ''local-test'' then gate_on md (gate_key gate)
      else gate = ''local-test'' \<or> (gate = ''interoperability'' \<and> md_interoperability_tools md \<noteq> []))"

definition operation_reference ::
  "module_policy list \<Rightarrow> string list \<Rightarrow> nat \<Rightarrow> operation \<Rightarrow> inventory_error option" where
  "operation_reference mds api_owners i op = first_error
     [enabled_reference mds (operation_enabled (op_gate op)) (op_module op)
        (Operation_unknown i (op_module op)) (Operation_disabled i (op_gate op) (op_module op)),
      refuse (op_gate op = ''api'' \<and> List.member api_owners (op_module op)) (Two_api_owners (op_module op))]"

definition required_operations :: "module_policy \<Rightarrow> string list" where
  "required_operations md =
     map fst (filter (\<lambda>(_, manifest). gate_on md manifest)
       [(''benchmark'', ''benchmarks''), (''conformance'', ''conformance''), (''fuzz'', ''fuzz'')]) @
     (if md_interoperability_tools md \<noteq> [] then [''interoperability''] else [])"

definition ownership_checks :: "config \<Rightarrow> module_policy list \<Rightarrow> inventory_error option" where
  "ownership_checks policy mds = first_error (
     map (\<lambda>(i, a). enabled_reference mds (\<lambda>md. gate_on md ''coverage'') (cm_module a)
            (Coverage_unknown i (cm_module a)) (Coverage_disabled i (cm_module a)))
       (enumerate 0 (cf_coverage policy))
     @ map (\<lambda>(i, a). enabled_reference mds (\<lambda>md. gate_on md ''mutation'') (mi_module a)
              (Mutation_unknown i (mi_module a)) (Mutation_disabled i (mi_module a)))
         (enumerate 0 (mp_imports (cf_mutation policy)))
     @ map (\<lambda>(i, b). enabled_reference mds (\<lambda>md. gate_on md ''api_compatibility'') (ab_module b)
              (Api_unknown i (ab_module b)) (Api_disabled i (ab_module b)))
         (enumerate 0 (cf_api policy))
     @ map (\<lambda>(i, op). operation_reference mds (map ab_module (cf_api policy)) i op)
         (enumerate 0 (cf_operations policy))
     @ concat (map (\<lambda>md. map (\<lambda>gate.
           refuse (\<not> List.member (map operation_identity (cf_operations policy))
                       (md_directory md @ CHR 0x00 # gate))
             (Operation_required (md_directory md) gate)) (required_operations md)) mds))"

text \<open>From the decoded manifests on. A Go pair of value and error: both are returned.\<close>

definition check_catalog ::
  "manifest_env \<Rightarrow> config \<Rightarrow> bool list \<Rightarrow> inventory \<Rightarrow> string \<Rightarrow> package_inventory
    \<Rightarrow> inventory \<times> inventory_error option" where
  "check_catalog env policy present c package_manifest ps =
     (case header_checks c ps of
        Some e \<Rightarrow> (c, Some e)
      | None \<Rightarrow>
     (case validate_decoded_module_identities env c of
        Some e \<Rightarrow> (no_inventory, Some e)
      | None \<Rightarrow>
     if inv_modules c = [] then (c, Some No_modules)
     else
     (case directory_scan present [] [] (inv_modules c) of
        Inl e \<Rightarrow> (c, Some e)
      | Inr derived \<Rightarrow>
     (case validate_derived_package_records env package_manifest (pi_packages ps) derived of
        Some e \<Rightarrow> (c, Some e)
      | None \<Rightarrow>
     if list_ex (\<lambda>p. find_module (inv_modules c) (pk_module_directory p) = None) (pi_packages ps)
     then (c, Some Canonical_unknown_module)
     else
       (let c' = c\<lparr>iv_modules := Some (derive_packages (pi_packages ps) present (inv_modules c))\<rparr>
        in (c', first_error
              [validate_packages (inv_modules c') (pi_packages ps),
               ownership_checks policy (inv_modules c')]))))))"

definition load_manifests ::
  "manifest_env \<Rightarrow> config \<Rightarrow> string option \<Rightarrow> string option \<Rightarrow> inventory \<times> inventory_error option" where
  "load_manifests env policy module_manifest package_manifest =
     (case (case module_manifest of
              None \<Rightarrow> env_read env (m_modules (cf_manifests policy)) maximum_manifest_size
            | Some mb \<Rightarrow> Some mb) of
        None \<Rightarrow> (no_inventory, Some Module_unreadable)
      | Some mb \<Rightarrow>
     (case env_header env mb of
        None \<Rightarrow> (no_inventory, Some Module_undecodable)
      | Some (version, present) \<Rightarrow>
     (case first_error
             [validate_module_identities env mb,
              (if version = 3 then validate_schema_v3_manifest env mb else None)] of
        Some e \<Rightarrow> (no_inventory, Some e)
      | None \<Rightarrow>
     (case decode_data (env_inventory env mb) of
        None \<Rightarrow> (no_inventory, Some Module_undecodable)
      | Some c \<Rightarrow>
     (case (case package_manifest of
              None \<Rightarrow> env_read env (m_packages (cf_manifests policy)) maximum_manifest_size
            | Some pb \<Rightarrow> Some pb) of
        None \<Rightarrow> (c, Some Package_unreadable)
      | Some pb \<Rightarrow>
     (case decode_data (env_packages env pb) of
        None \<Rightarrow> (c, Some Package_undecodable)
      | Some ps \<Rightarrow> check_catalog env policy present c pb ps))))))"

definition load_inventory :: "manifest_env \<Rightarrow> config \<Rightarrow> inventory_error + inventory" where
  "load_inventory env policy =
     (case load_manifests env policy None None of
        (c, None) \<Rightarrow> Inr c
      | (_, Some e) \<Rightarrow> Inl e)"

definition load_snapshot ::
  "manifest_env \<Rightarrow> config \<Rightarrow> inventory \<times> string option \<times> inventory_error option" where
  "load_snapshot env policy =
     (case env_read env (m_modules (cf_manifests policy)) maximum_manifest_size of
        None \<Rightarrow> (no_inventory, None, Some Module_unreadable)
      | Some mb \<Rightarrow>
          (case load_manifests env policy (Some mb) None of
             (c, None) \<Rightarrow> (c, Some mb, None)
           | (c, Some e) \<Rightarrow>
               if iv_schema_version c = 0 \<and> iv_repository c = [] \<and> iv_modules c = None
               then (no_inventory, None, Some e) else (c, Some mb, Some e)))"

definition decode_inventory ::
  "manifest_env \<Rightarrow> config \<Rightarrow> string \<Rightarrow> string \<Rightarrow> inventory \<times> inventory_error option" where
  "decode_inventory env policy module_manifest package_manifest =
     (if module_manifest = [] \<or> package_manifest = [] \<or>
         maximum_manifest_size < int (length module_manifest) \<or>
         maximum_manifest_size < int (length package_manifest)
      then (no_inventory, Some Manifest_bytes_bad)
      else load_manifests env policy (Some module_manifest) (Some package_manifest))"

section \<open>The schema-v3 projection\<close>

datatype project_error = Modules_not_array | Module_not_object

definition legacy_fields :: "string list" where
  "legacy_fields = [''goal_status'', ''goal_files'', ''goal_evidence'', ''provenance'']"

definition project_cohesion :: "json \<Rightarrow> json" where
  "project_cohesion v =
     (case v of J_object metadata \<Rightarrow> J_object (drop_keys [''delivery''] metadata) | _ \<Rightarrow> v)"

text \<open>One module: the legacy fields go, and the delivery states of its cohesion object.\<close>

definition project_module :: "json \<Rightarrow> project_error + json" where
  "project_module raw =
     (case raw of
        J_object md \<Rightarrow> Inr (J_object
          (map (\<lambda>(k, v). (k, if k = ''cohesion'' then project_cohesion v else v))
             (drop_keys legacy_fields md)))
      | _ \<Rightarrow> Inl Module_not_object)"

fun project_modules :: "json list \<Rightarrow> project_error + json list" where
  "project_modules [] = Inr []"
| "project_modules (raw # raws) =
     and_then (project_module raw) (\<lambda>md. and_then (project_modules raws) (\<lambda>mds. Inr (md # mds)))"

definition project_schema_v3 :: "(string \<times> json) list \<Rightarrow> project_error + (string \<times> json) list" where
  "project_schema_v3 document =
     (case map_of document ''modules'' of
        Some (J_array raws) \<Rightarrow>
          and_then (project_modules raws) (\<lambda>mds.
            Inr (map (\<lambda>(k, v). (k, if k = ''modules'' then J_array mds else v)) document))
      | _ \<Rightarrow> Inl Modules_not_array)"

end
