(* ===== verification/Inventory_Facts.thy ===== *)
theory Inventory_Facts
  imports Inventory Config_Facts "HOL-Library.Multiset"
begin

text \<open>
  What a loaded catalog guarantees: the two manifests describe the same packages, each
  once and each in its own module; directories are unique and stay in the repository;
  every reference of the policy points at a module that enables it.
\<close>

section \<open>The package scans\<close>

abbreviation keyed :: "package_policy list \<Rightarrow> (string \<times> package_policy) list" where
  "keyed ps \<equiv> map (\<lambda>p. (pk_import_path p, p)) ps"

lemma by_import_path_ok:
  "by_import_path m ps = Inr m' \<longleftrightarrow>
     distinct (map pk_import_path ps) \<and> fst ` set m \<inter> pk_import_path ` set ps = {} \<and>
     m' = rev (keyed ps) @ m"
proof (induction m ps rule: by_import_path.induct)
  case (2 m p ps)
  have "map_of m (pk_import_path p) \<noteq> None \<longleftrightarrow> pk_import_path p \<in> fst ` set m"
    by (auto simp: map_of_eq_None_iff)
  with 2 show ?case by (cases "pk_import_path p \<in> fst ` set m") auto
qed auto

lemma module_packages_scan_ok:
  "module_packages_scan stored d seen ps = Inr seen' \<longleftrightarrow>
     (\<forall>p \<in> set ps. pk_module_directory p = d \<and> map_of stored (pk_import_path p) = Some p) \<and>
     distinct (map pk_import_path ps) \<and> set seen \<inter> pk_import_path ` set ps = {} \<and>
     seen' = rev (map pk_import_path ps) @ seen"
  by (induction stored d seen ps rule: module_packages_scan.induct) (auto split: option.splits)

lemma distinct_seen_append:
  "distinct (xs @ ys) \<and> S \<inter> (set xs \<union> set ys) = {} \<longleftrightarrow>
     distinct xs \<and> S \<inter> set xs = {} \<and> distinct ys \<and> (set xs \<union> S) \<inter> set ys = {}"
  by auto

definition owns_stored :: "(string \<times> package_policy) list \<Rightarrow> module_policy \<Rightarrow> bool" where
  "owns_stored stored md \<longleftrightarrow> (\<forall>p \<in> set (md_packages md).
     pk_module_directory p = md_directory md \<and> map_of stored (pk_import_path p) = Some p)"

abbreviation import_paths :: "module_policy list \<Rightarrow> string list" where
  "import_paths mds \<equiv> concat (map (\<lambda>md. map pk_import_path (md_packages md)) mds)"

lemma modules_scan_ok:
  "modules_scan stored seen mds = Inr seen' \<longleftrightarrow>
     list_all (owns_stored stored) mds \<and>
     (distinct (import_paths mds) \<and> set seen \<inter> set (import_paths mds) = {}) \<and>
     seen' = rev (import_paths mds) @ seen"
proof (induction mds arbitrary: seen)
  case (Cons md mds)
  let ?a = "map pk_import_path (md_packages md)" and ?b = "import_paths mds"
  have "modules_scan stored seen (md # mds) = Inr seen' \<longleftrightarrow>
     (owns_stored stored md \<and> distinct ?a \<and> set seen \<inter> set ?a = {}) \<and>
     list_all (owns_stored stored) mds \<and>
     (distinct ?b \<and> set (rev ?a @ seen) \<inter> set ?b = {}) \<and> seen' = rev ?b @ rev ?a @ seen"
    unfolding modules_scan.simps and_then_Inr_iff module_packages_scan_ok Cons.IH owns_stored_def
    by (simp only: set_map) blast
  also have "\<dots> \<longleftrightarrow> list_all (owns_stored stored) (md # mds) \<and>
     (distinct ?a \<and> set seen \<inter> set ?a = {} \<and> distinct ?b \<and> (set ?a \<union> set seen) \<inter> set ?b = {}) \<and>
     seen' = rev ?b @ rev ?a @ seen"
    by (simp only: set_append set_rev list.pred_inject(2)) blast
  also have "\<dots> \<longleftrightarrow> list_all (owns_stored stored) (md # mds) \<and>
     (distinct (import_paths (md # mds)) \<and> set seen \<inter> set (import_paths (md # mds)) = {}) \<and>
     seen' = rev (import_paths (md # mds)) @ seen"
    by (simp only: distinct_seen_append [symmetric] list.map concat.simps rev_append append_assoc set_append)
  finally show ?case .
qed auto

lemma import_paths_map: "import_paths mds = map pk_import_path (concat (map md_packages mds))"
  by (simp add: map_concat comp_def)

lemma map_of_keyed:
  "distinct (map pk_import_path ps) \<Longrightarrow>
     map_of (rev (keyed ps)) i = Some p \<longleftrightarrow> p \<in> set ps \<and> pk_import_path p = i"
  by (subst map_of_eq_Some_iff) (auto simp: rev_map [symmetric] comp_def)

lemma mset_eq_if_keys:
  assumes "distinct (map f xs)" "distinct (map f ys)" "set xs \<subseteq> set ys" "f ` set ys \<subseteq> f ` set xs"
  shows "mset xs = mset ys"
proof -
  have "set ys \<subseteq> set xs"
    using assms unfolding distinct_map inj_on_def by blast
  with assms have "set xs = set ys" by blast
  moreover have "distinct xs" "distinct ys" using assms by (auto simp: distinct_map)
  ultimately show ?thesis by (simp add: set_eq_iff_mset_eq_distinct)
qed

text \<open>C40: the cross-validation of the two manifests is exact: it accepts if and only if the
  canonical import paths are distinct, every module lists only its own packages, and the
  modules together list exactly the canonical packages, each once and field for field.\<close>

theorem packages_agree_iff:
  "validate_packages mds canonical = None \<longleftrightarrow>
     distinct (map pk_import_path canonical) \<and>
     list_all (\<lambda>md. list_all (\<lambda>p. pk_module_directory p = md_directory md) (md_packages md)) mds \<and>
     mset (concat (map md_packages mds)) = mset canonical"
  (is "?L \<longleftrightarrow> ?R")
proof
  assume ?L
  then obtain stored seen where b: "by_import_path [] canonical = Inr stored"
    and s: "modules_scan stored [] mds = Inr seen"
    and all: "\<forall>p \<in> fst ` set stored. p \<in> set seen"
    by (fastforce simp: validate_packages_def list_ex_iff split: sum.splits)
  from b have d: "distinct (map pk_import_path canonical)" and st: "stored = rev (keyed canonical)"
    by (auto simp: by_import_path_ok)
  have "mset (concat (map md_packages mds)) = mset canonical"
  proof (rule mset_eq_if_keys [where f = pk_import_path])
    show "set (concat (map md_packages mds)) \<subseteq> set canonical"
      using s d by (auto simp: modules_scan_ok st map_of_keyed list_all_iff owns_stored_def)
    show "pk_import_path ` set canonical \<subseteq> pk_import_path ` set (concat (map md_packages mds))"
      using s all by (force simp: modules_scan_ok st)
  qed (use s d in \<open>auto simp: modules_scan_ok import_paths_map\<close>)
  with s d show ?R by (auto simp: modules_scan_ok list_all_iff owns_stored_def)
next
  assume r: ?R
  let ?ps = "concat (map md_packages mds)"
  from r have m: "mset ?ps = mset canonical" by blast
  then have s: "set ?ps = set canonical" by (rule mset_eq_setD)
  have dp: "distinct (map pk_import_path ?ps)"
    using r m by (metis mset_eq_imp_distinct_iff mset_map)
  have "by_import_path [] canonical = Inr (rev (keyed canonical))"
    using r by (simp add: by_import_path_ok)
  moreover have "modules_scan (rev (keyed canonical)) [] mds = Inr (rev (map pk_import_path ?ps))"
  proof -
    have "map_of (rev (keyed canonical)) (pk_import_path p) = Some p"
      if "md \<in> set mds" "p \<in> set (md_packages md)" for md p
    proof -
      from that s have "p \<in> set canonical" by auto
      with r show ?thesis by (simp add: map_of_keyed)
    qed
    with r have "list_all (owns_stored (rev (keyed canonical))) mds"
      by (simp add: list_all_iff owns_stored_def)
    with dp show ?thesis by (simp add: modules_scan_ok import_paths_map del: map_concat)
  qed
  moreover have "pk_import_path ` set canonical = pk_import_path ` set ?ps"
    by (simp only: s)
  ultimately show ?L
    by (auto simp: validate_packages_def list_ex_iff)
qed

section \<open>Loading\<close>

lemma directory_scan_ok:
  "directory_scan present seen derived mds = Inr derived' \<Longrightarrow>
     distinct (map md_directory mds) \<and> md_directory ` set mds \<inter> set seen = {} \<and>
     length mds \<le> length present"
  by (induction present seen derived mds rule: directory_scan.induct)
    (auto split: list.splits if_splits)

lemma derive_packages_same:
  "map md_directory (derive_packages canonical present mds) = map md_directory mds"
  "map md_gates (derive_packages canonical present mds) = map md_gates mds"
  "map md_interoperability_tools (derive_packages canonical present mds) = map md_interoperability_tools mds"
  by (induction canonical present mds rule: derive_packages.induct) auto

lemma find_module_Some:
  "find_module mds d = Some md \<Longrightarrow> md \<in> set mds \<and> md_directory md = d"
  by (auto simp: find_module_def find_Some_iff)

lemma enabled_reference_ok:
  "enabled_reference mds en d u x = None \<longleftrightarrow> (\<exists>md. find_module mds d = Some md \<and> en md)"
  by (auto simp: enabled_reference_def split: option.splits)

lemma first_error_enumerate:
  "first_error (map (\<lambda>(i, x). f i x) (enumerate n xs)) = None \<Longrightarrow> x \<in> set xs \<Longrightarrow> \<exists>i. f i x = None"
proof (induction xs arbitrary: n)
  case (Cons y ys)
  then show ?case by auto
qed simp

lemma ownership_checks_ok:
  assumes "ownership_checks policy mds = None"
  shows "a \<in> set (cf_coverage policy) \<Longrightarrow>
      \<exists>md \<in> set mds. md_directory md = cm_module a \<and> gate_on md ''coverage''"
    and "im \<in> set (mp_imports (cf_mutation policy)) \<Longrightarrow>
      \<exists>md \<in> set mds. md_directory md = mi_module im \<and> gate_on md ''mutation''"
    and "b \<in> set (cf_api policy) \<Longrightarrow>
      \<exists>md \<in> set mds. md_directory md = ab_module b \<and> gate_on md ''api_compatibility''"
    and "op \<in> set (cf_operations policy) \<Longrightarrow>
      (\<exists>md \<in> set mds. md_directory md = op_module op \<and> operation_enabled (op_gate op) md) \<and>
      \<not> (op_gate op = ''api'' \<and> op_module op \<in> ab_module ` set (cf_api policy))"
    and "md \<in> set mds \<Longrightarrow> gate \<in> set (required_operations md) \<Longrightarrow>
      md_directory md @ CHR 0x00 # gate \<in> operation_identity ` set (cf_operations policy)"
proof -
  have c: "first_error (map (\<lambda>(i, a). enabled_reference mds (\<lambda>md. gate_on md ''coverage'') (cm_module a)
            (Coverage_unknown i (cm_module a)) (Coverage_disabled i (cm_module a)))
       (enumerate 0 (cf_coverage policy))) = None"
    and m: "first_error (map (\<lambda>(i, a). enabled_reference mds (\<lambda>md. gate_on md ''mutation'') (mi_module a)
              (Mutation_unknown i (mi_module a)) (Mutation_disabled i (mi_module a)))
         (enumerate 0 (mp_imports (cf_mutation policy)))) = None"
    and b: "first_error (map (\<lambda>(i, b). enabled_reference mds (\<lambda>md. gate_on md ''api_compatibility'') (ab_module b)
              (Api_unknown i (ab_module b)) (Api_disabled i (ab_module b)))
         (enumerate 0 (cf_api policy))) = None"
    and o: "first_error (map (\<lambda>(i, op). operation_reference mds (map ab_module (cf_api policy)) i op)
         (enumerate 0 (cf_operations policy))) = None"
    and r: "first_error (concat (map (\<lambda>md. map (\<lambda>gate.
           refuse (\<not> List.member (map operation_identity (cf_operations policy))
                       (md_directory md @ CHR 0x00 # gate))
             (Operation_required (md_directory md) gate)) (required_operations md)) mds)) = None"
    using assms by (simp_all only: ownership_checks_def first_error_append_None)
  show "\<exists>md \<in> set mds. md_directory md = cm_module a \<and> gate_on md ''coverage''"
    if "a \<in> set (cf_coverage policy)" for a
    using first_error_enumerate [OF c that] by (auto simp: enabled_reference_ok dest: find_module_Some)
  show "\<exists>md \<in> set mds. md_directory md = mi_module a \<and> gate_on md ''mutation''"
    if "a \<in> set (mp_imports (cf_mutation policy))" for a
    using first_error_enumerate [OF m that] by (auto simp: enabled_reference_ok dest: find_module_Some)
  show "\<exists>md \<in> set mds. md_directory md = ab_module a \<and> gate_on md ''api_compatibility''"
    if "a \<in> set (cf_api policy)" for a
    using first_error_enumerate [OF b that] by (auto simp: enabled_reference_ok dest: find_module_Some)
  show "(\<exists>md \<in> set mds. md_directory md = op_module op \<and> operation_enabled (op_gate op) md) \<and>
      \<not> (op_gate op = ''api'' \<and> op_module op \<in> ab_module ` set (cf_api policy))"
    if "op \<in> set (cf_operations policy)" for op
    using first_error_enumerate [OF o that]
    by (auto simp: operation_reference_def enabled_reference_ok dest: find_module_Some)
  show "md_directory md @ CHR 0x00 # gate \<in> operation_identity ` set (cf_operations policy)"
    if "md \<in> set mds" "gate \<in> set (required_operations md)" for md gate
    using r that by (fastforce simp: first_error_None_iff)
qed

lemma header_checks_ok:
  "header_checks c ps = None \<Longrightarrow>
     iv_schema_version c \<in> {1, 2, 3} \<and> pi_schema_version ps = 1 \<and>
     iv_repository c \<noteq> [] \<and> iv_repository c = pi_repository ps"
  by (auto simp: header_checks_def)

text \<open>A catalog check that succeeds passed every stage, on the derived modules it returns.\<close>

lemma check_catalog_ok:
  assumes "check_catalog env policy present c0 pb ps = (c, None)"
  shows "header_checks c0 ps = None" and "inv_modules c0 \<noteq> []"
    and "validate_decoded_module_identities env c0 = None"
    and "distinct (map md_directory (inv_modules c))"
    and "c = c0\<lparr>iv_modules := Some (derive_packages (pi_packages ps) present (inv_modules c0))\<rparr>"
    and "validate_packages (inv_modules c) (pi_packages ps) = None"
    and "ownership_checks policy (inv_modules c) = None"
proof -
  let ?c = "c0\<lparr>iv_modules := Some (derive_packages (pi_packages ps) present (inv_modules c0))\<rparr>"
  from assms obtain derived where ok: "header_checks c0 ps = None" "inv_modules c0 \<noteq> []"
      "validate_decoded_module_identities env c0 = None"
      "directory_scan present [] [] (inv_modules c0) = Inr derived" "c = ?c"
      "validate_packages (inv_modules c) (pi_packages ps) = None"
      "ownership_checks policy (inv_modules c) = None"
    by (auto simp: check_catalog_def Let_def split: option.splits sum.splits if_splits)
  have "map md_directory (inv_modules c) = map md_directory (inv_modules c0)"
    by (simp add: ok(5) inv_modules_def [of ?c] derive_packages_same)
  with directory_scan_ok [OF ok(4)] show "distinct (map md_directory (inv_modules c))"
    by simp
  show "header_checks c0 ps = None" "inv_modules c0 \<noteq> []"
    "validate_decoded_module_identities env c0 = None"  "c = ?c"
    "validate_packages (inv_modules c) (pi_packages ps) = None"
      "ownership_checks policy (inv_modules c) = None"
    by (fact ok)+
qed

lemma load_manifests_ok:
  assumes "load_manifests env policy (Some mb) (Some pb) = (c, None)"
  shows "\<exists>c0 present ps. decode_data (env_inventory env mb) = Some c0 \<and>
    decode_data (env_packages env pb) = Some ps \<and>
    validate_module_identities env mb = None \<and>
    check_catalog env policy present c0 pb ps = (c, None)"
  using assms unfolding load_manifests_def by (auto split: option.splits prod.splits)

lemma decode_inventory_ok:
  assumes "decode_inventory env policy mb pb = (c, None)"
  shows "\<exists>c0 present ps. decode_data (env_inventory env mb) = Some c0 \<and>
    decode_data (env_packages env pb) = Some ps \<and>
    validate_module_identities env mb = None \<and>
    check_catalog env policy present c0 pb ps = (c, None)"
  using assms load_manifests_ok [of env policy mb pb c]
  by (auto simp: decode_inventory_def split: if_splits)

lemma mset_partition:
  "distinct ds \<Longrightarrow> f ` set ps \<subseteq> set ds \<Longrightarrow>
     mset (concat (map (\<lambda>d. filter (\<lambda>p. f p = d) ps) ds)) = mset ps"
proof (induction ds arbitrary: ps)
  case (Cons d ds)
  let ?rest = "filter (\<lambda>p. f p \<noteq> d) ps"
  have "filter (\<lambda>p. f p = e) ?rest = filter (\<lambda>p. f p = e) ps" if "e \<in> set ds" for e
    using that Cons.prems(1) by (auto intro: filter_cong)
  then have "map (\<lambda>d. filter (\<lambda>p. f p = d) ?rest) ds = map (\<lambda>d. filter (\<lambda>p. f p = d) ps) ds"
    by (intro map_cong refl)
  moreover have "mset (concat (map (\<lambda>d. filter (\<lambda>p. f p = d) ?rest) ds)) = mset ?rest"
    using Cons.prems by (intro Cons.IH) auto
  ultimately have "mset (concat (map (\<lambda>d. filter (\<lambda>p. f p = d) ps) ds)) = mset ?rest"
    by (simp only:)
  then show ?case
    using multiset_partition [of "mset ps" "\<lambda>p. f p = d"] by (simp add: mset_filter)
qed auto

lemma derive_all:
  "derive_packages canonical (replicate (length mds) False) mds =
     map (\<lambda>md. md\<lparr>md_packages := filter (\<lambda>p. pk_module_directory p = md_directory md) canonical\<rparr>) mds"
  by (induction mds) auto

text \<open>omitting every module's package list is always consistent: the lists derived from
  the canonical manifest pass the cross-validation exactly when the import paths are
  distinct, so derivation itself never loses, duplicates or misplaces a package.\<close>

theorem derivation_agrees:
  assumes "distinct (map md_directory mds)"
    and "pk_module_directory ` set canonical \<subseteq> md_directory ` set mds"
  shows "validate_packages (derive_packages canonical (replicate (length mds) False) mds) canonical = None
     \<longleftrightarrow> distinct (map pk_import_path canonical)"
proof -
  have "mset (concat (map (\<lambda>d. filter (\<lambda>p. pk_module_directory p = d) canonical) (map md_directory mds)))
      = mset canonical"
    using assms by (intro mset_partition) auto
  then show ?thesis
    by (simp add: packages_agree_iff derive_all comp_def list_all_iff)
qed

definition sample_package :: package_policy where
  "sample_package = \<lparr>pk_module_directory = ''.'', pk_directory = ''.'', pk_name = ''lib'',
     pk_import_path = ''example.org/lib'', pk_kind = ''public'', pk_production = True,
     pk_executable = True, pk_coverage_required = True, pk_build_required = True, pk_build_tags = None\<rparr>"

definition sample_module :: module_policy where
  "sample_module = \<lparr>md_directory = ''.'', md_module_path = ''example.org/lib'', md_go_version = ''1.24.0'',
     md_kind = ''library'', md_purpose = ''sample'', md_lifecycle = ''active'', md_releasable = False,
     md_version = [], md_tag_prefix = [], md_gates = [(''fuzz'', True), (''coverage'', True)],
     md_test_tags = [], md_build_tags = [], md_required_services = [],
     md_external_runtime_dependencies = [], md_interoperability_tools = [], md_conformance_corpora = [],
     md_specifications = [], md_owned_dependencies = [], md_reverse_owned_dependencies = [],
     md_packages = [], md_family = [], md_family_label = [], md_family_description = [],
     md_family_order = 0, md_goal_status = [], md_goal_files = [], md_goal_evidence = [],
     md_provenance = [], md_cohesion = None\<rparr>"

theorem derivation_agrees_witness:
  "validate_packages (derive_packages [sample_package] [False] [sample_module]) [sample_package] = None"
  using derivation_agrees [of "[sample_module]" "[sample_package]"]
  by (simp add: sample_module_def sample_package_def)

text \<open>a decoded catalog is the canonical one: whatever the JSON decoder delivers, the
  modules it returns have distinct directories, share the repository identity of the
  package manifest, and together list exactly its packages, each once.\<close>

theorem decoded_catalog_mirrors:
  assumes "decode_inventory env policy mb pb = (c, None)"
  shows "\<exists>ps. decode_data (env_packages env pb) = Some ps \<and> iv_repository c = pi_repository ps \<and>
    inv_modules c \<noteq> [] \<and> distinct (map md_directory (inv_modules c)) \<and>
    distinct (map pk_import_path (pi_packages ps)) \<and>
    mset (concat (map md_packages (inv_modules c))) = mset (pi_packages ps)"
proof -
  from decode_inventory_ok [OF assms] obtain c0 present ps where
    ps: "decode_data (env_packages env pb) = Some ps"
    and k: "check_catalog env policy present c0 pb ps = (c, None)" by blast
  note ok = check_catalog_ok [OF k]
  have "iv_repository c = pi_repository ps"
    using header_checks_ok [OF ok(1)] by (simp add: ok(5))
  moreover have "map md_directory (inv_modules c) = map md_directory (inv_modules c0)"
    unfolding ok(5) inv_modules_def by (simp add: derive_packages_same)
  then have "inv_modules c \<noteq> []" using ok(2) by (metis map_is_Nil_conv)
  ultimately show ?thesis
    using ps ok(4) ok(6) unfolding packages_agree_iff by blast
qed

definition sample_env :: manifest_env where
  "sample_env = \<lparr>env_read = (\<lambda>p n. Some ''m''),
     env_header = (\<lambda>m. Some (1, [False])),
     env_identities = (\<lambda>m. Some (''example.org/lib'', [[(''directory'', ''.''), (''module_path'', ''example.org/lib'')]])),
     env_string = Some, env_schema_document = (\<lambda>m. True), env_schema_v3 = (\<lambda>m. True),
     env_inventory = (\<lambda>m. (Json_value \<lparr>iv_schema_id = [], iv_schema_version = 1,
        iv_repository = ''example.org/lib'', iv_go_version = ''1.24.0'',
        iv_modules = Some [sample_module]\<rparr>, Json_eof)),
     env_packages = (\<lambda>m. (Json_value \<lparr>pi_schema_version = 1, pi_repository = ''example.org/lib'',
        pi_packages = [sample_package]\<rparr>, Json_eof)),
     env_package_raws = (\<lambda>m. Some (Some [''p''])), env_package_schema = (\<lambda>m. True),
     env_check_import_path = (\<lambda>p. True), env_split_path_version = (\<lambda>p. Some (p, []))\<rparr>"

definition sample_fuzz_step :: step where
  "sample_fuzz_step = sample_step\<lparr>st_run := [], st_fuzz := ''FuzzA'', st_race := False\<rparr>"

definition sample_fuzz_config :: config where
  "sample_fuzz_config = sample_config\<lparr>cf_operations :=
     [\<lparr>op_module = ''.'', op_gate = ''fuzz'', op_steps = [sample_fuzz_step]\<rparr>]\<rparr>"

definition sample_catalog :: inventory where
  "sample_catalog = fst (decode_inventory sample_env sample_fuzz_config ''m'' ''p'')"

lemma sample_decodes:
  "decode_inventory sample_env sample_fuzz_config ''m'' ''p'' = (sample_catalog, None)"
proof -
  have "snd (decode_inventory sample_env sample_fuzz_config ''m'' ''p'') = None" by code_simp
  then show ?thesis by (simp add: sample_catalog_def prod_eq_iff)
qed

theorem decoded_catalog_mirrors_witness:
  "decode_inventory sample_env sample_fuzz_config ''m'' ''p'' = (sample_catalog, None) \<and>
   (\<exists>ps. decode_data (env_packages sample_env ''p'') = Some ps \<and>
      mset (concat (map md_packages (inv_modules sample_catalog))) = mset (pi_packages ps))"
  using sample_decodes decoded_catalog_mirrors [OF sample_decodes] by blast

text \<open>every operation a catalog enables has exactly one recipe: with a decoded policy and a
  decoded catalog, each module and each gate the module must run owns one operation of the
  policy, and only one.\<close>

theorem one_recipe_per_gate:
  assumes "decode_config yaml dur rx data = Inr policy"
    and "decode_inventory env policy mb pb = (c, None)"
    and "md \<in> set (inv_modules c)" and "gate \<in> set (required_operations md)"
  shows "\<exists>!op. op \<in> set (cf_operations policy) \<and> op_module op = md_directory md \<and> op_gate op = gate"
proof -
  obtain c0 where "config_validate dur rx policy = None"
    using assms(1) by (auto simp: decode_config_def Let_def split: if_splits yaml_next.splits option.splits)
  note policy = config_validate_ok [OF this]
  from decode_inventory_ok [OF assms(2)] check_catalog_ok(7)
  have own: "ownership_checks policy (inv_modules c) = None" by blast
  from ownership_checks_ok(5) [OF own assms(3,4)] obtain op where op: "op \<in> set (cf_operations policy)"
    and i: "md_directory md @ CHR 0x00 # gate = op_module op @ CHR 0x00 # op_gate op"
    by (auto simp: operation_identity_def)
  have "CHR 0x00 \<notin> set (op_gate op)"
    using op policy(8) operation_validate_ok(2) gate_no_nul by blast
  moreover have "CHR 0x00 \<notin> set gate"
    using assms(4) by (auto simp: required_operations_def split: if_splits)
  ultimately have "md_directory md = op_module op \<and> gate = op_gate op"
    using sep_pair_inj [OF i] by blast
  moreover have "op' = op" if "op' \<in> set (cf_operations policy)"
      "op_module op' = op_module op" "op_gate op' = op_gate op" for op'
    using distinct_map_eq [OF policy(9) that(1) op] that by simp
  ultimately show ?thesis using op by metis
qed

theorem one_recipe_per_gate_witness:
  "\<exists>!op. op \<in> set (cf_operations (apply_defaults sample_fuzz_config)) \<and> op_module op = ''.'' \<and> op_gate op = ''fuzz''"
proof -
  let ?p = "apply_defaults sample_fuzz_config"
  have d: "decode_config (\<lambda>_. (Yaml_doc sample_fuzz_config, Yaml_end)) sample_durations sample_regexp [] = Inr ?p"
    by code_simp
  have "snd (decode_inventory sample_env ?p ''m'' ''p'') = None" by code_simp
  then have c: "decode_inventory sample_env ?p ''m'' ''p'' = (fst (decode_inventory sample_env ?p ''m'' ''p''), None)"
    by (simp add: prod_eq_iff)
  let ?md = "sample_module\<lparr>md_packages := [sample_package]\<rparr>"
  have m: "inv_modules (fst (decode_inventory sample_env ?p ''m'' ''p'')) = [?md]" by code_simp
  have r: "required_operations ?md = [''fuzz'']" by code_simp
  have i: "?md \<in> set (inv_modules (fst (decode_inventory sample_env ?p ''m'' ''p'')))"
    unfolding m by simp
  have g: "''fuzz'' \<in> set (required_operations ?md)" unfolding r by simp
  have "md_directory ?md = ''.''" by (simp add: sample_module_def)
  then show ?thesis using one_recipe_per_gate [OF d c i g] by (simp only:)
qed

text \<open>no policy reference dangles: with a decoded catalog every coverage acceptance, mutation
  import, API baseline and operation of the policy names a module of the catalog that
  enables the gate, and no module has both an API baseline and an API operation.\<close>

theorem policy_references_enabled:
  assumes "decode_inventory env policy mb pb = (c, None)"
  shows "list_all (\<lambda>a. list_ex (\<lambda>md. md_directory md = cm_module a \<and> gate_on md ''coverage'') (inv_modules c))
      (cf_coverage policy) \<and>
    list_all (\<lambda>im. list_ex (\<lambda>md. md_directory md = mi_module im \<and> gate_on md ''mutation'') (inv_modules c))
      (mp_imports (cf_mutation policy)) \<and>
    list_all (\<lambda>b. list_ex (\<lambda>md. md_directory md = ab_module b \<and> gate_on md ''api_compatibility'') (inv_modules c))
      (cf_api policy) \<and>
    list_all (\<lambda>op. list_ex (\<lambda>md. md_directory md = op_module op \<and> operation_enabled (op_gate op) md) (inv_modules c) \<and>
      \<not> (op_gate op = ''api'' \<and> op_module op \<in> ab_module ` set (cf_api policy))) (cf_operations policy)"
proof -
  from decode_inventory_ok [OF assms] check_catalog_ok(7)
  have own: "ownership_checks policy (inv_modules c) = None" by blast
  note o = ownership_checks_ok [OF own]
  show ?thesis
    unfolding list_all_iff list_ex_iff using o(1) o(2) o(3) o(4) by blast
qed

theorem policy_references_enabled_witness:
  "decode_inventory sample_env sample_fuzz_config ''m'' ''p'' = (sample_catalog, None) \<and>
   list_ex (\<lambda>md. md_directory md = ''.'' \<and> gate_on md ''coverage'') (inv_modules sample_catalog)"
  using sample_decodes policy_references_enabled [OF sample_decodes]
  by (simp add: sample_fuzz_config_def sample_config_def)

section \<open>Module directories\<close>

text \<open>The typed catalog and the raw identities are two decodings of one document. They agree
  on a document whose object keys are the exact field names, each once: encoding/json
  matches the keys of a struct without regard to case, the keys of a map exactly.\<close>

definition raw_identity :: "manifest_env \<Rightarrow> (string \<times> string) list \<Rightarrow> string option \<times> string option" where
  "raw_identity env candidate =
     (Option.bind (map_of candidate ''directory'') (env_string env),
      Option.bind (map_of candidate ''module_path'') (env_string env))"

definition exact_field_names :: "manifest_env \<Rightarrow> string \<Rightarrow> bool" where
  "exact_field_names env mb =
     (case (decode_data (env_inventory env mb), env_identities env mb) of
        (Some c, Some (repository, candidates)) \<Rightarrow>
          iv_repository c = repository \<and>
          map (\<lambda>md. (Some (md_directory md), Some (md_module_path md))) (inv_modules c) =
          map (raw_identity env) candidates
      | _ \<Rightarrow> True)"

lemma identity_string_raw:
  "identity_string env candidate f = Some v \<Longrightarrow> Option.bind (map_of candidate f) (env_string env) = Some v"
  by (auto simp: identity_string_def split: option.splits if_splits)

lemma valid_module_directory_ok:
  assumes "valid_module_directory d"
  shows "d = ''.'' \<or> confined d \<and> list_all plain_elem (split_on CHR ''/'' d)"
proof (cases "d = ''.''")
  case False
  with assms have p: "\<not> is_abs d" "list_all plain_elem (split_on CHR ''/'' d)"
    by (auto simp: valid_module_directory_def valid_path_def list_all_iff plain_elem_def)
  then have "''..'' \<notin> set (split_on CHR ''/'' d)"
    by (auto simp: list_all_iff plain_elem_def)
  moreover have "d \<noteq> []" using p by (auto simp: plain_elem_def)
  ultimately show ?thesis
    using p by (simp add: confined_def leads_outside_def walk_no_parent)
qed simp

lemma candidate_error_ok:
  "candidate_error env repository candidate = None \<Longrightarrow>
     \<exists>d p. raw_identity env candidate = (Some d, Some p) \<and> valid_module_directory d \<and>
       env_check_import_path env p"
  by (auto simp: candidate_error_def raw_identity_def split: option.splits if_splits
      dest!: identity_string_raw)

text \<open>for a manifest with exact field names, an accepted catalog has at most 64 modules, and
  each module directory is the root or a path of plain elements inside the repository.\<close>

theorem module_directories_confined:
  assumes "decode_inventory env policy mb pb = (c, None)" and "exact_field_names env mb"
  shows "length (inv_modules c) \<le> 64 \<and>
    list_all (\<lambda>md. md_directory md = ''.'' \<or>
       confined (md_directory md) \<and> list_all plain_elem (split_on CHR ''/'' (md_directory md))) (inv_modules c)"
proof -
  from decode_inventory_ok [OF assms(1)] obtain c0 present ps where
    d: "decode_data (env_inventory env mb) = Some c0" and v: "validate_module_identities env mb = None"
    and k: "check_catalog env policy present c0 pb ps = (c, None)" by blast
  from v obtain repository cands where i: "env_identities env mb = Some (repository, cands)"
    and n: "length cands \<le> 64" and ce: "\<forall>x \<in> set cands. candidate_error env repository x = None"
    by (auto simp: validate_module_identities_def maximum_modules_def split: option.splits if_splits)
  have dirs: "map md_directory (inv_modules c) = map md_directory (inv_modules c0)"
    unfolding check_catalog_ok(5) [OF k] inv_modules_def by (simp add: derive_packages_same)
  have e: "map (\<lambda>md. (Some (md_directory md), Some (md_module_path md))) (inv_modules c0) = map (raw_identity env) cands"
    using assms(2) by (simp add: exact_field_names_def d i)
  have "valid_module_directory (md_directory md)" if "md \<in> set (inv_modules c0)" for md
  proof -
    from that e have "(Some (md_directory md), Some (md_module_path md)) \<in> raw_identity env ` set cands"
      by (metis (no_types, lifting) image_eqI list.set_map)
    with ce show ?thesis by (force dest: candidate_error_ok)
  qed
  then have "\<forall>d \<in> set (map md_directory (inv_modules c0)). valid_module_directory d" by simp
  then have "\<forall>md \<in> set (inv_modules c). valid_module_directory (md_directory md)"
    unfolding dirs [symmetric] by simp
  moreover have "length (inv_modules c) = length cands"
    using dirs e by (metis length_map)
  ultimately show ?thesis
    using n valid_module_directory_ok by (auto simp: list_all_iff)
qed

theorem module_directories_confined_witness:
  "decode_inventory sample_env sample_fuzz_config ''m'' ''p'' = (sample_catalog, None) \<and>
   exact_field_names sample_env ''m'' \<and> length (inv_modules sample_catalog) \<le> 64"
proof -
  have e: "exact_field_names sample_env ''m''" by code_simp
  show ?thesis using sample_decodes e module_directories_confined [OF sample_decodes e] by simp
qed

section \<open>The schema-v3 projection\<close>

text \<open>What a projected module keeps: every field but the legacy ones, with the delivery states
  taken out of its cohesion object.\<close>

definition projected :: "json \<Rightarrow> json \<Rightarrow> bool" where
  "projected raw r \<longleftrightarrow> (\<exists>md md'. raw = J_object md \<and> r = J_object md' \<and>
     (\<forall>k. map_of md' k =
        (if k \<in> set legacy_fields then None
         else if k = ''cohesion'' then map_option project_cohesion (map_of md k) else map_of md k)))"

lemma project_module_ok: "project_module raw = Inr r \<Longrightarrow> projected raw r"
  by (cases raw) (auto simp: project_module_def projected_def map_of_update_value legacy_fields_def)

lemma project_modules_ok:
  "project_modules raws = Inr rs \<longleftrightarrow> list_all2 (\<lambda>raw r. project_module raw = Inr r) raws rs"
  by (induction raws arbitrary: rs) (auto simp: list_all2_Cons1)

text \<open>the schema-v3 output drops exactly the legacy fields of each module and the delivery
  states of its cohesion object; every other field, of the modules and of the document, is
  the one that was marshalled.\<close>

theorem projection_exact:
  assumes "project_schema_v3 document = Inr document'"
  shows "\<exists>raws rs. map_of document ''modules'' = Some (J_array raws) \<and>
    map_of document' ''modules'' = Some (J_array rs) \<and> list_all2 projected raws rs \<and>
    (\<forall>k. k = ''modules'' \<or> map_of document' k = map_of document k)"
proof -
  from assms obtain raws rs where r: "map_of document ''modules'' = Some (J_array raws)"
    "project_modules raws = Inr rs"
    "document' = map (\<lambda>(k, v). (k, if k = ''modules'' then J_array rs else v)) document"
    by (auto simp: project_schema_v3_def split: option.splits json.splits)
  have "list_all2 projected raws rs"
    using r(2) unfolding project_modules_ok by (rule list_all2_mono) (rule project_module_ok)
  with r show ?thesis by (auto simp: map_of_update_value)
qed

definition sample_document :: "(string \<times> json) list" where
  "sample_document = [(''repository'', J_string ''r''), (''modules'', J_array [J_object
     [(''directory'', J_string ''.''), (''goal_status'', J_string ''done''),
      (''cohesion'', J_object [(''family'', J_string ''f''), (''delivery'', J_null)])]])]"

theorem projection_exact_witness:
  "project_schema_v3 sample_document = Inr [(''repository'', J_string ''r''), (''modules'', J_array [J_object
     [(''directory'', J_string ''.''), (''cohesion'', J_object [(''family'', J_string ''f'')])]])]
   \<and> map_of sample_document ''modules'' \<noteq> None"
proof -
  have p: "project_schema_v3 sample_document = Inr [(''repository'', J_string ''r''), (''modules'', J_array [J_object
     [(''directory'', J_string ''.''), (''cohesion'', J_object [(''family'', J_string ''f'')])]])]"
    by code_simp
  show ?thesis using p projection_exact [OF p] by auto
qed

end
