(* ===== verification/Coverage.thy ===== *)
theory Coverage
  imports Go_Path
begin

text \<open>
  internal/coverage/profile.go: the accounting of a Go coverage profile against the
  expected packages, and the bounded report of an incomplete one.

  Go ranges over a map in an unspecified order: the two loops over \<open>blocks\<close> go over
  \<open>order1 blocks\<close> and \<open>order2 blocks\<close>, where the orders are arguments of the model. A Go
  \<open>int\<close> has 64 bits and is an \<open>int\<close> here, with the overflow test written out.
\<close>

section \<open>Reading the profile\<close>

record block =
  bl_package :: string
  bl_statements :: int
  bl_covered :: bool

record totals =
  tt_covered :: int
  tt_total :: int

datatype coverage_error =
    Mode_unknown | Expected_empty | Header_missing | Header_unsupported
  | Line_invalid int | Statement_count_invalid int | Execution_count_invalid int
  | Duplicate_inconsistent int | Read_failed | Total_overflows string
  | Missing_evidence string | No_executed string | Below_exact string

definition scanner_limit :: int where
  "scanner_limit = 1048576"

definition max_int :: int where
  "max_int = 9223372036854775807"

text \<open>
  \<open>bufio.Scanner\<close> with \<open>ScanLines\<close> over a reader that delivers \<open>data\<close> and then either ends
  or fails: the lines without their line ends, and whether \<open>Err\<close> is not nil afterwards. A
  line that fills the buffer stops the scan. Text after the last newline is a line unless
  it is empty.
\<close>

definition drop_cr :: "string \<Rightarrow> string" where
  "drop_cr l = trim_suffix l [CHR 0x0D]"

fun scan_tokens :: "string list \<Rightarrow> string list \<times> bool" where
  "scan_tokens [] = ([], False)"
| "scan_tokens (l # ls) =
     (if ls = [] \<and> l = [] then ([], False)
      else if scanner_limit \<le> int (length l) then ([], True)
      else map_prod ((#) (drop_cr l)) id (scan_tokens ls))"

definition scan_profile :: "string \<Rightarrow> bool \<Rightarrow> string list \<times> bool" where
  "scan_profile data failed =
     (let (ls, too_long) = scan_tokens (split_on CHR 0x0A data) in (ls, too_long \<or> failed))"

definition digits_dot_digits :: "string \<Rightarrow> bool" where
  "digits_dot_digits s \<longleftrightarrow>
     (case split_on CHR ''.'' s of [a, b] \<Rightarrow> digits1 a \<and> digits1 b | _ \<Rightarrow> False)"

text \<open>\<open>^[0-9]+\.[0-9]+,[0-9]+\.[0-9]+$\<close>\<close>

definition source_coordinates :: "string \<Rightarrow> bool" where
  "source_coordinates s \<longleftrightarrow>
     (case split_on CHR '','' s of
        [a, b] \<Rightarrow> digits_dot_digits a \<and> digits_dot_digits b | _ \<Rightarrow> False)"

text \<open>One profile line: the block identity, its package, statement and execution counts.\<close>

definition parse_line ::
  "string \<Rightarrow> int \<Rightarrow> string \<Rightarrow> coverage_error + (string \<times> string \<times> int \<times> nat)" where
  "parse_line mode n text =
     (case fields_str text of
        [identity, statements, count] \<Rightarrow>
          (case cut_last CHR '':'' identity of
             None \<Rightarrow> Inl (Line_invalid n)
           | Some (file, coordinates) \<Rightarrow>
               if file = [] \<or> (mode = ''evidence'' \<and> \<not> source_coordinates coordinates)
               then Inl (Line_invalid n)
               else (case atoi statements of
                       None \<Rightarrow> Inl (Statement_count_invalid n)
                     | Some s \<Rightarrow>
                         if s < 0 then Inl (Statement_count_invalid n)
                         else (case parse_uint64 count of
                                 None \<Rightarrow> Inl (Execution_count_invalid n)
                               | Some k \<Rightarrow> Inr (identity, path_dir file, s, k))))
      | _ \<Rightarrow> Inl (Line_invalid n))"

definition record_block ::
  "(string \<times> block) list \<Rightarrow> int \<Rightarrow> string \<times> string \<times> int \<times> nat \<Rightarrow> coverage_error + (string \<times> block) list" where
  "record_block blocks n = (\<lambda>(identity, package, statements, count).
     let known = map_of blocks identity;
         seen = (case known of None \<Rightarrow> False | Some v \<Rightarrow> bl_covered v)
     in if (case known of None \<Rightarrow> False
            | Some v \<Rightarrow> bl_package v \<noteq> package \<or> bl_statements v \<noteq> statements)
        then Inl (Duplicate_inconsistent n)
        else Inr (map_set identity
               \<lparr>bl_package = package, bl_statements = statements, bl_covered = seen \<or> 0 < count\<rparr> blocks))"

fun read_blocks ::
  "string \<Rightarrow> int \<Rightarrow> (string \<times> block) list \<Rightarrow> string list \<Rightarrow> coverage_error + (string \<times> block) list" where
  "read_blocks mode n blocks [] = Inr blocks"
| "read_blocks mode n blocks (l # ls) =
     and_then (parse_line mode (n + 1) l) (\<lambda>r.
       and_then (record_block blocks (n + 1) r) (\<lambda>blocks'. read_blocks mode (n + 1) blocks' ls))"

section \<open>Accounting\<close>

definition totals_at :: "(string \<times> totals) list \<Rightarrow> string \<Rightarrow> totals" where
  "totals_at packages p = (case map_of packages p of None \<Rightarrow> \<lparr>tt_covered = 0, tt_total = 0\<rparr> | Some v \<Rightarrow> v)"

fun account :: "(string \<times> totals) list \<Rightarrow> (string \<times> block) list \<Rightarrow> coverage_error + (string \<times> totals) list" where
  "account packages [] = Inr packages"
| "account packages ((_, b) # bs) =
     (let v = totals_at packages (bl_package b)
      in if max_int - tt_total v < bl_statements b then Inl (Total_overflows (bl_package b))
         else account (map_set (bl_package b)
                \<lparr>tt_covered = (if bl_covered b then tt_covered v + bl_statements b else tt_covered v),
                 tt_total = tt_total v + bl_statements b\<rparr> packages) bs)"

record package_failure =
  pf_package :: string
  pf_missing :: bool

text \<open>The loop over the expected packages: the failures in order and the first error, or the
  early return of the evidence mode.\<close>

fun judge ::
  "string \<Rightarrow> (string \<times> totals) list \<Rightarrow> package_failure list \<Rightarrow> coverage_error option \<Rightarrow> string list
    \<Rightarrow> coverage_error + package_failure list \<times> coverage_error option" where
  "judge mode packages failures first [] = Inr (failures, first)"
| "judge mode packages failures first (p # ps) =
     (let v = totals_at packages p
      in if map_of packages p = None \<or> tt_total v = 0
         then judge mode packages (failures @ [\<lparr>pf_package = p, pf_missing = True\<rparr>])
                (if first = None then Some (Missing_evidence p) else first) ps
         else if mode = ''evidence'' \<and> tt_covered v = 0 then Inl (No_executed p)
         else if mode = ''exact'' \<and> tt_covered v \<noteq> tt_total v
         then judge mode packages (failures @ [\<lparr>pf_package = p, pf_missing = False\<rparr>])
                (if first = None then Some (Below_exact p) else first) ps
         else judge mode packages failures first ps)"

section \<open>The report of an incomplete profile\<close>

datatype diagnostic_location = Diagnostic_location (loc_package: string) (loc_location: string)

instantiation diagnostic_location :: linorder
begin

definition less_eq_diagnostic_location :: "diagnostic_location \<Rightarrow> diagnostic_location \<Rightarrow> bool" where
  "less_eq_diagnostic_location a b \<longleftrightarrow>
     loc_package a < loc_package b \<or> (loc_package a = loc_package b \<and> loc_location a \<le> loc_location b)"

definition less_diagnostic_location :: "diagnostic_location \<Rightarrow> diagnostic_location \<Rightarrow> bool" where
  "less_diagnostic_location a b \<longleftrightarrow>
     loc_package a < loc_package b \<or> (loc_package a = loc_package b \<and> loc_location a < loc_location b)"

instance
  by standard (auto simp: less_eq_diagnostic_location_def less_diagnostic_location_def
      intro: diagnostic_location.expand)

end

record diagnostic_limits =
  lim_blocks :: nat
  lim_bytes :: int

definition diagnostic_location_byte_limit :: int where
  "diagnostic_location_byte_limit = 160"

text \<open>\<open>sort.Search(n, f)\<close>: binary search in \<open>[i, j)\<close>.\<close>

function search_from :: "(nat \<Rightarrow> bool) \<Rightarrow> nat \<Rightarrow> nat \<Rightarrow> nat" where
  "search_from f i j =
     (if i < j then (let h = (i + j) div 2
                     in if f h then search_from f i h else search_from f (Suc h) j)
      else i)"
  by pat_completeness auto
termination by (relation "measure (\<lambda>(f, i, j). j - i)") auto

declare search_from.simps [simp del]

text \<open>\<open>index\<close> of the insertion, and the insertion: grow by one cell unless full, shift the
  cells from \<open>index\<close> on to the right (the last one falls out), store.\<close>

definition insertion_index :: "diagnostic_location list \<Rightarrow> diagnostic_location \<Rightarrow> nat" where
  "insertion_index locations candidate =
     search_from (\<lambda>i. loc_package candidate < loc_package (locations ! i) \<or>
        (loc_package (locations ! i) = loc_package candidate \<and>
         loc_location candidate \<le> loc_location (locations ! i))) 0 (length locations)"

definition insert_location ::
  "nat \<Rightarrow> diagnostic_location list \<Rightarrow> diagnostic_location \<Rightarrow> diagnostic_location list" where
  "insert_location limit locations candidate =
     (let index = insertion_index locations candidate
      in if limit \<le> index then locations
         else (let grown = (if length locations < limit
                            then locations @ [Diagnostic_location [] []] else locations);
                   shifted = take (Suc index) grown @ drop index (butlast grown)
               in shifted[index := candidate]))"

text \<open>The location of an uncovered block, if it can be shown.\<close>

definition block_location :: "string \<Rightarrow> block \<Rightarrow> diagnostic_location option" where
  "block_location identity b =
     (case cut_last CHR '':'' identity of
        None \<Rightarrow> None
      | Some (filename, coordinates) \<Rightarrow>
          if is_abs filename \<or> contains_any filename [CHR 0x5C, CHR '':''] \<or>
             filename \<noteq> bl_package b @ ''/'' @ path_base filename \<or> \<not> has_suffix filename ''.go'' \<or>
             \<not> source_coordinates coordinates
          then None
          else (let location = quoted_ascii (path_base filename @ '':'' @ coordinates)
                in if diagnostic_location_byte_limit < int (length location) then None
                   else Some (Diagnostic_location (bl_package b) location)))"

definition uncovered_block :: "package_failure list \<Rightarrow> block \<Rightarrow> bool" where
  "uncovered_block failures b \<longleftrightarrow>
     \<not> (\<not> List.member (map pf_package failures) (bl_package b) \<or> bl_statements b = 0 \<or> bl_covered b)"

fun collect_locations ::
  "package_failure list \<Rightarrow> nat \<Rightarrow> int \<times> diagnostic_location list \<Rightarrow> (string \<times> block) list
    \<Rightarrow> int \<times> diagnostic_location list" where
  "collect_locations failures limit (uncovered, locations) [] = (uncovered, locations)"
| "collect_locations failures limit (uncovered, locations) ((identity, b) # bs) =
     (if \<not> uncovered_block failures b then collect_locations failures limit (uncovered, locations) bs
      else collect_locations failures limit
             (uncovered + 1,
              (case block_location identity b of
                 None \<Rightarrow> locations | Some c \<Rightarrow> insert_location limit locations c)) bs)"

text \<open>\<open>write\<close>: append the text if its allowance still has room.\<close>

definition write_report :: "diagnostic_limits \<Rightarrow> bool \<Rightarrow> string \<Rightarrow> string \<Rightarrow> string \<times> bool" where
  "write_report limits footer text report =
     (let maximum = (if footer then lim_bytes limits else max 0 (lim_bytes limits - 128))
      in if maximum - int (length report) < int (length text) then (report, False)
         else (report @ text, True))"

fun write_locations ::
  "diagnostic_limits \<Rightarrow> string \<Rightarrow> int \<times> string \<Rightarrow> diagnostic_location list \<Rightarrow> int \<times> string" where
  "write_locations limits indent (printed, report) [] = (printed, report)"
| "write_locations limits indent (printed, report) (l # ls) =
     (let (report', ok) = write_report limits False (indent @ loc_location l @ [CHR 0x0A]) report
      in write_locations limits indent (if ok then printed + 1 else printed, report') ls)"

definition package_label :: "string \<Rightarrow> string" where
  "package_label p =
     (if int (length p) \<le> diagnostic_location_byte_limit \<and> \<not> is_abs p \<and> path_clean p = p \<and>
         \<not> contains_any p [CHR 0x5C, CHR '':'']
      then (if int (length (quoted_ascii p)) \<le> diagnostic_location_byte_limit then quoted_ascii p else [])
      else [])"

text \<open>The loop over several failed packages: what is left of the locations, the counters
  and the report.\<close>

fun write_packages ::
  "diagnostic_limits \<Rightarrow> diagnostic_location list \<Rightarrow> int \<times> int \<times> string \<Rightarrow> package_failure list
    \<Rightarrow> int \<times> int \<times> string" where
  "write_packages limits locations (printed, omitted, report) [] = (printed, omitted, report)"
| "write_packages limits locations (printed, omitted, report) (f # fs) =
     (let label = package_label (pf_package f);
          status = (if pf_missing f then '' missing executable coverage evidence'' @ [CHR 0x0A]
                    else '' is below exact 100% coverage'' @ [CHR 0x0A]);
          (report', admitted) =
            (if label = [] then (report, False)
             else write_report limits False (''  '' @ label @ status) report);
          own = takeWhile (\<lambda>l. loc_package l = pf_package f) locations;
          rest = dropWhile (\<lambda>l. loc_package l = pf_package f) locations;
          (printed', report'') =
            (if admitted then write_locations limits ''    '' (printed, report') own
             else (printed, report'))
      in write_packages limits rest (printed', if admitted then omitted else omitted + 1, report'') fs)"

definition incomplete_report ::
  "(string \<times> block) list \<Rightarrow> package_failure list \<Rightarrow> diagnostic_limits \<Rightarrow> string" where
  "incomplete_report blocks failures limits =
     (case failures of
        [f] \<Rightarrow>
          if pf_missing f then []
          else
            (let (uncovered, locations) = collect_locations failures (lim_blocks limits) (0, []) blocks;
                 (report, _) = write_report limits False (''uncovered production blocks:'' @ [CHR 0x0A]) [];
                 (printed, report) = write_locations limits ''  '' (0, report) locations
             in if 0 < uncovered - printed
                then fst (write_report limits True
                       (''  ('' @ dec_int (uncovered - printed) @ '' additional blocks omitted)'' @ [CHR 0x0A]) report)
                else report)
      | _ \<Rightarrow>
          (let (uncovered, locations) = collect_locations failures (lim_blocks limits) (0, []) blocks;
               (report, _) = write_report limits False (''incomplete production coverage:'' @ [CHR 0x0A]) [];
               (printed, omitted, report) = write_packages limits locations (0, 0, report) failures;
               report = (if 0 < uncovered - printed
                 then fst (write_report limits True
                        (''  ('' @ dec_int (uncovered - printed) @ '' additional blocks omitted)'' @ [CHR 0x0A]) report)
                 else report)
           in if 0 < omitted
              then fst (write_report limits True
                     (''  ('' @ dec_int omitted @ '' additional packages omitted)'' @ [CHR 0x0A]) report)
              else report))"

section \<open>Verify\<close>

definition default_limits :: diagnostic_limits where
  "default_limits = \<lparr>lim_blocks = 512, lim_bytes = 85000\<rparr>"

definition package_line :: "(string \<times> totals) list \<Rightarrow> string \<Rightarrow> string" where
  "package_line packages p =
     p @ '' '' @ dec_int (tt_covered (totals_at packages p)) @ ''/'' @
       dec_int (tt_total (totals_at packages p)) @ '' statements'' @ [CHR 0x0A]"

type_synonym block_order = "(string \<times> block) list \<Rightarrow> (string \<times> block) list"

text \<open>From the collected blocks on.\<close>

definition verify_blocks ::
  "block_order \<Rightarrow> block_order \<Rightarrow> (string \<times> block) list \<Rightarrow> string list \<Rightarrow> string
    \<Rightarrow> string \<times> coverage_error option" where
  "verify_blocks order1 order2 blocks expected mode =
     (case account [] (order1 blocks) of
        Inl e \<Rightarrow> ([], Some e)
      | Inr packages \<Rightarrow>
          (let ordered = sort (remdups expected)
           in case judge mode packages [] None ordered of
                Inl e \<Rightarrow> ([], Some e)
              | Inr (failures, Some e) \<Rightarrow>
                  (if mode = ''evidence'' then []
                   else incomplete_report (order2 blocks) failures default_limits, Some e)
              | Inr (failures, None) \<Rightarrow> (concat (map (package_line packages) ordered), None)))"

definition verify_with_mode ::
  "block_order \<Rightarrow> block_order \<Rightarrow> string \<Rightarrow> bool \<Rightarrow> string list \<Rightarrow> string
    \<Rightarrow> string \<times> coverage_error option" where
  "verify_with_mode order1 order2 data failed expected mode =
     (if mode \<noteq> ''exact'' \<and> mode \<noteq> ''evidence'' then ([], Some Mode_unknown)
      else if expected = [] then ([], Some Expected_empty)
      else (case scan_profile data failed of
              ([], _) \<Rightarrow> ([], Some Header_missing)
            | (header # ls, bad) \<Rightarrow>
                if \<not> has_prefix header ''mode: '' then ([], Some Header_missing)
                else if mode = ''evidence'' \<and> header \<noteq> ''mode: atomic'' \<and> header \<noteq> ''mode: count'' \<and>
                        header \<noteq> ''mode: set''
                then ([], Some Header_unsupported)
                else (case read_blocks mode 1 [] ls of
                        Inl e \<Rightarrow> ([], Some e)
                      | Inr blocks \<Rightarrow>
                          if bad then ([], Some Read_failed)
                          else verify_blocks order1 order2 blocks expected mode)))"

definition verify ::
  "block_order \<Rightarrow> block_order \<Rightarrow> string \<Rightarrow> bool \<Rightarrow> string list \<Rightarrow> string \<times> coverage_error option" where
  "verify order1 order2 data failed expected = verify_with_mode order1 order2 data failed expected ''exact''"

end
