(* ===== verification/Coverage_Facts.thy ===== *)
theory Coverage_Facts
  imports Coverage "HOL-Library.Multiset"
begin

text \<open>
  The coverage verdict in terms of the profile records, its independence of the order in
  which Go ranges over the block map, and the bounded, printable failure report.
\<close>

section \<open>Bounded sorted insertion\<close>

lemma search_from_spec:
  assumes "\<And>k l. i \<le> k \<Longrightarrow> k \<le> l \<Longrightarrow> l < j \<Longrightarrow> f k \<Longrightarrow> f l" and "i \<le> j"
  shows "i \<le> search_from f i j \<and> search_from f i j \<le> j \<and>
    (\<forall>k. i \<le> k \<and> k < search_from f i j \<longrightarrow> \<not> f k) \<and> (\<forall>k. search_from f i j \<le> k \<and> k < j \<longrightarrow> f k)"
  using assms
proof (induction f i j rule: search_from.induct)
  case (1 f i j)
  show ?case
  proof (cases "i < j")
    case True
    define h where "h = (i + j) div 2"
    have h: "i \<le> h" "h < j" using True by (auto simp: h_def)
    have step: "search_from f i j = (if f h then search_from f i h else search_from f (Suc h) j)"
      using True by (simp add: search_from.simps [of f i j] h_def Let_def)
    have mono: "f l" if "i \<le> k" "k \<le> l" "l < j" "f k" for k l using 1(3) that by blast
    show ?thesis
    proof (cases "f h")
      case fh: True
      have r: "i \<le> search_from f i h \<and> search_from f i h \<le> h \<and>
        (\<forall>k. i \<le> k \<and> k < search_from f i h \<longrightarrow> \<not> f k) \<and> (\<forall>k. search_from f i h \<le> k \<and> k < h \<longrightarrow> f k)"
      proof (rule 1(1) [OF True h_def fh])
        show "f l" if "i \<le> k" "k \<le> l" "l < h" "f k" for k l
          by (rule mono [OF that(1,2) _ that(4)]) (use that(3) h in simp)
      qed (rule h)
      have "f k" if "h \<le> k" "k < j" for k using mono [OF h(1) that fh] .
      then have "f k" if "search_from f i h \<le> k" "k < j" for k
        using r that by (cases "k < h") auto
      with r h show ?thesis by (simp add: step fh)
    next
      case fh: False
      have r: "Suc h \<le> search_from f (Suc h) j \<and> search_from f (Suc h) j \<le> j \<and>
        (\<forall>k. Suc h \<le> k \<and> k < search_from f (Suc h) j \<longrightarrow> \<not> f k) \<and>
        (\<forall>k. search_from f (Suc h) j \<le> k \<and> k < j \<longrightarrow> f k)"
      proof (rule 1(2) [OF True h_def fh])
        show "f l" if "Suc h \<le> k" "k \<le> l" "l < j" "f k" for k l
          by (rule mono [OF _ that(2-4)]) (use that(1) h in simp)
      qed (use h in simp)
      have "\<not> f k" if "i \<le> k" "k \<le> h" for k using mono [OF that h(2)] fh by blast
      then have "\<not> f k" if "i \<le> k" "k < search_from f (Suc h) j" for k
        using r that by (cases "k \<le> h") auto
      with r h show ?thesis by (simp add: step fh)
    qed
  next
    case False
    with 1(4) have "i = j" by simp
    then have "search_from f i j = i" by (simp add: search_from.simps [of f j j])
    with \<open>i = j\<close> show ?thesis by auto
  qed
qed

lemma insort_split:
  "insort c xs = takeWhile (\<lambda>y. y < c) xs @ c # dropWhile (\<lambda>y. y < c) xs"
  by (induction xs) auto

lemma insertion_index_sorted:
  assumes "sorted xs"
  shows "insertion_index xs c = length (takeWhile (\<lambda>y. y < c) xs)"
proof -
  let ?f = "\<lambda>i. loc_package c < loc_package (xs ! i) \<or>
        (loc_package (xs ! i) = loc_package c \<and> loc_location c \<le> loc_location (xs ! i))"
  have f: "?f i \<longleftrightarrow> c \<le> xs ! i" for i by (auto simp: less_eq_diagnostic_location_def)
  have s: "insertion_index xs c = search_from (\<lambda>i. c \<le> xs ! i) 0 (length xs)"
    by (simp only: insertion_index_def f)
  define r where "r = search_from (\<lambda>i. c \<le> xs ! i) 0 (length xs)"
  have r: "0 \<le> r \<and> r \<le> length xs \<and> (\<forall>k. 0 \<le> k \<and> k < r \<longrightarrow> \<not> c \<le> xs ! k) \<and>
    (\<forall>k. r \<le> k \<and> k < length xs \<longrightarrow> c \<le> xs ! k)"
    unfolding r_def
  proof (rule search_from_spec)
    show "c \<le> xs ! l" if "k \<le> l" "l < length xs" "c \<le> xs ! k" for k l
      using that(3) sorted_nth_mono [OF assms that(1,2)] by (rule order_trans)
  qed simp
  have "takeWhile (\<lambda>y. y < c) xs = take r xs"
  proof (rule takeWhile_eq_take_P_nth)
    show "xs ! i < c" if "i < r" for i using r that by (simp add: not_le)
    show "\<not> xs ! r < c" if "r < length xs" using r that by (simp add: not_less)
  qed
  with r have "length (takeWhile (\<lambda>y. y < c) xs) = r" by simp
  then show ?thesis by (simp add: s r_def)
qed

lemma insert_location_sorted:
  assumes "sorted xs" and "length xs \<le> k"
  shows "insert_location k xs c = take k (insort c xs)"
proof -
  define a b where "a = takeWhile (\<lambda>y. y < c) xs" and "b = dropWhile (\<lambda>y. y < c) xs"
  have xs: "xs = a @ b" by (simp add: a_def b_def)
  have i: "insertion_index xs c = length a" using assms(1) by (simp add: insertion_index_sorted a_def)
  have s: "insort c xs = a @ c # b" by (simp add: insort_split a_def b_def)
  show ?thesis
  proof (cases "k \<le> length a")
    case True
    with assms(2) have "b = []" "k = length a" by (cases b; simp add: xs)+
    then show ?thesis by (simp add: insert_location_def i s) (simp add: xs)
  next
    case room: False
    show ?thesis
    proof (cases "length xs < k")
      case True
      then have "insert_location k xs c = (take (Suc (length a)) (xs @ [Diagnostic_location [] []])
          @ drop (length a) xs)[length a := c]"
        using room by (simp add: insert_location_def i Let_def butlast_append)
      also have "\<dots> = a @ c # b"
        by (cases b) (simp_all add: xs list_update_append)
      finally have e: "insert_location k xs c = a @ c # b" .
      have "length (a @ c # b) \<le> k" using True by (simp add: xs)
      then show ?thesis unfolding e s by simp
    next
      case False
      with assms(2) room have b: "b \<noteq> []" "length xs = k" by (auto simp: xs)
      then obtain d b' where bd: "b = d # b'" by (cases b) auto
      have "insert_location k xs c = (take (Suc (length a)) xs @ drop (length a) (butlast xs))[length a := c]"
        using room False by (simp add: insert_location_def i Let_def)
      also have "\<dots> = a @ c # butlast b"
        using b(1) by (simp add: xs butlast_append bd list_update_append)
      finally have e: "insert_location k xs c = a @ c # butlast b" .
      have k: "k = length a + length b" using b(2) by (simp add: xs)
      have "take (Suc (length b')) (c # b) = c # butlast b" by (simp add: bd butlast_conv_take)
      then show ?thesis unfolding e s by (simp add: k bd)
    qed
  qed
qed

lemma take_insort: "take k (insort x (take k xs)) = take k (insort x xs)"
proof (induction xs arbitrary: k)
  case (Cons y ys)
  then show ?case by (cases k) (auto simp: take_Cons')
qed simp

text \<open>The locations the report may show, in the order the map is visited.\<close>

definition shown_blocks :: "package_failure list \<Rightarrow> (string \<times> block) list \<Rightarrow> (string \<times> block) list" where
  "shown_blocks failures blocks = filter (\<lambda>(i, b). uncovered_block failures b) blocks"

definition candidates :: "package_failure list \<Rightarrow> (string \<times> block) list \<Rightarrow> diagnostic_location list" where
  "candidates failures blocks = List.map_filter (\<lambda>(i, b). block_location i b) (shown_blocks failures blocks)"

lemma collect_locations_sorted:
  assumes "sorted ys" and "locations = take k ys"
  shows "collect_locations failures k (n, locations) blocks =
    (n + int (length (shown_blocks failures blocks)),
     take k (fold insort (candidates failures blocks) ys))"
  using assms
proof (induction blocks arbitrary: n locations ys)
  case Nil
  then show ?case by (simp add: shown_blocks_def candidates_def map_filter_simps)
next
  case (Cons ib blocks)
  obtain i b where ib: "ib = (i, b)" by (cases ib)
  have ins: "insert_location k locations c = take k (insort c ys)" for c
    using Cons.prems insert_location_sorted [of locations k c]
    by (simp add: take_insort sorted_wrt_take)
  show ?case
  proof (cases "uncovered_block failures b \<and> block_location i b \<noteq> None")
    case True
    then obtain c where c: "block_location i b = Some c" by auto
    have "sorted (insort c ys)" using Cons.prems by (simp add: sorted_insort)
    from Cons.IH [OF this ins] True c show ?thesis
      by (simp add: ib shown_blocks_def candidates_def map_filter_simps)
  next
    case False
    then show ?thesis
      using Cons.IH [OF Cons.prems]
      by (auto simp: ib shown_blocks_def candidates_def map_filter_simps)
  qed
qed

lemma fold_insort: "fold insort cs [] = sort cs"
proof -
  have "fold insort cs [] = foldr insort (rev cs) []" by (simp add: foldr_conv_fold)
  also have "\<dots> = sort (rev cs)" by (simp add: sort_key_def)
  finally show ?thesis by (metis mset_rev mset_sort properties_for_sort sorted_sort)
qed

lemma collect_locations_eq:
  "collect_locations failures k (0, []) blocks =
     (int (length (shown_blocks failures blocks)), take k (sort (candidates failures blocks)))"
  using collect_locations_sorted [of "[]" "[]" k failures 0 blocks]
  by (simp add: fold_insort [unfolded id_def])

lemma map_filter_mset:
  "mset (List.map_filter f xs) = image_mset (the \<circ> f) (filter_mset (\<lambda>x. f x \<noteq> None) (mset xs))"
  by (simp add: List.map_filter_def)

lemma candidates_order:
  "mset blocks = mset blocks' \<Longrightarrow>
     sort (candidates failures blocks) = sort (candidates failures blocks') \<and>
     length (shown_blocks failures blocks) = length (shown_blocks failures blocks')"
proof -
  assume m: "mset blocks = mset blocks'"
  then have s: "mset (shown_blocks failures blocks) = mset (shown_blocks failures blocks')"
    by (simp add: shown_blocks_def)
  then have "mset (candidates failures blocks) = mset (candidates failures blocks')"
    by (simp add: candidates_def map_filter_mset)
  with s show ?thesis
    by (metis mset_eq_length properties_for_sort mset_sort sorted_sort)
qed

lemma incomplete_report_order:
  assumes "mset blocks = mset blocks'"
  shows "incomplete_report blocks failures limits = incomplete_report blocks' failures limits"
  unfolding incomplete_report_def collect_locations_eq
  by (simp only: candidates_order [OF assms, THEN conjunct1] candidates_order [OF assms, THEN conjunct2])

section \<open>Accounting\<close>

definition block_sum :: "(block \<Rightarrow> bool) \<Rightarrow> (string \<times> block) list \<Rightarrow> int" where
  "block_sum P bs = sum_list (map (bl_statements \<circ> snd) (filter (\<lambda>ib. P (snd ib)) bs))"

lemma block_sum_simps [simp]:
  "block_sum P [] = 0"
  "block_sum P (ib # bs) = (if P (snd ib) then bl_statements (snd ib) else 0) + block_sum P bs"
  by (simp_all add: block_sum_def)

lemma block_sum_mset: "mset bs = mset bs' \<Longrightarrow> block_sum P bs = block_sum P bs'"
proof -
  assume "mset bs = mset bs'"
  then have "sum_mset (mset (map (bl_statements \<circ> snd) (filter (\<lambda>ib. P (snd ib)) bs))) =
      sum_mset (mset (map (bl_statements \<circ> snd) (filter (\<lambda>ib. P (snd ib)) bs')))"
    by simp
  then show ?thesis unfolding sum_mset_sum_list block_sum_def .
qed

abbreviation nonnegative :: "(string \<times> block) list \<Rightarrow> bool" where
  "nonnegative bs \<equiv> \<forall>ib \<in> set bs. 0 \<le> bl_statements (snd ib)"

lemma block_sum_nonneg: "nonnegative bs \<Longrightarrow> 0 \<le> block_sum P bs"
  by (induction bs) auto

lemma block_sum_zero:
  "nonnegative bs \<Longrightarrow> block_sum P bs = 0 \<longleftrightarrow> (\<forall>ib \<in> set bs. P (snd ib) \<longrightarrow> bl_statements (snd ib) = 0)"
proof (induction bs)
  case (Cons ib bs)
  then have "0 \<le> block_sum P bs" "0 \<le> bl_statements (snd ib)" by (simp_all add: block_sum_nonneg)
  with Cons show ?case by (cases "P (snd ib)") (simp_all add: add_nonneg_eq_0_iff)
qed simp

lemma block_sum_split:
  "block_sum P bs = block_sum (\<lambda>b. P b \<and> Q b) bs + block_sum (\<lambda>b. P b \<and> \<not> Q b) bs"
  by (induction bs) auto

definition of_package :: "string \<Rightarrow> block \<Rightarrow> bool" where
  "of_package p b \<longleftrightarrow> bl_package b = p"

definition covered_of :: "string \<Rightarrow> block \<Rightarrow> bool" where
  "covered_of p b \<longleftrightarrow> bl_package b = p \<and> bl_covered b"

lemma totals_at_map_set [simp]: "totals_at (map_set q t m) p = (if p = q then t else totals_at m p)"
  by (simp add: totals_at_def)

lemma account_ok:
  assumes "account packages bs = Inr m"
  shows "map_of m p =
    (if p \<in> (bl_package \<circ> snd) ` set bs
     then Some \<lparr>tt_covered = tt_covered (totals_at packages p) + block_sum (covered_of p) bs,
                tt_total = tt_total (totals_at packages p) + block_sum (of_package p) bs\<rparr>
     else map_of packages p)"
  using assms
proof (induction packages bs arbitrary: m rule: account.induct)
  case (2 packages i b bs)
  let ?v = "totals_at packages (bl_package b)"
  let ?m = "map_set (bl_package b)
     \<lparr>tt_covered = (if bl_covered b then tt_covered ?v + bl_statements b else tt_covered ?v),
      tt_total = tt_total ?v + bl_statements b\<rparr> packages"
  from 2(2) have g: "\<not> max_int - tt_total ?v < bl_statements b" and r: "account ?m bs = Inr m"
    by (auto simp: Let_def split: if_splits)
  note ih = 2(1) [OF refl g r]
  have z: "block_sum (covered_of p) bs = 0 \<and> block_sum (of_package p) bs = 0"
    if "p \<notin> (bl_package \<circ> snd) ` set bs"
    using that by (induction bs) (auto simp: covered_of_def of_package_def)
  show ?case
    unfolding ih using z
    by (cases "p = bl_package b"; cases "p \<in> (bl_package \<circ> snd) ` set bs")
      (simp_all add: covered_of_def of_package_def)
qed auto

lemma account_total:
  assumes "nonnegative bs" and "\<forall>p. tt_total (totals_at packages p) \<le> max_int"
  shows "(\<exists>m. account packages bs = Inr m) \<longleftrightarrow>
    (\<forall>p. tt_total (totals_at packages p) + block_sum (of_package p) bs \<le> max_int)"
  using assms
proof (induction packages bs rule: account.induct)
  case (2 packages i b bs)
  let ?v = "totals_at packages (bl_package b)"
  let ?t = "\<lparr>tt_covered = (if bl_covered b then tt_covered ?v + bl_statements b else tt_covered ?v),
      tt_total = tt_total ?v + bl_statements b\<rparr>"
  let ?m = "map_set (bl_package b) ?t packages"
  have n: "nonnegative bs" "0 \<le> bl_statements b" using 2(2) by auto
  have m: "tt_total (totals_at ?m p) = (if p = bl_package b then tt_total ?v + bl_statements b
       else tt_total (totals_at packages p))" for p
    by simp
  show ?case
  proof (cases "max_int - tt_total ?v < bl_statements b")
    case True
    then have "max_int < tt_total ?v + block_sum (of_package (bl_package b)) ((i, b) # bs)"
      using block_sum_nonneg [OF n(1), of "of_package (bl_package b)"] by (simp add: of_package_def)
    then have "\<not> (\<forall>p. tt_total (totals_at packages p) + block_sum (of_package p) ((i, b) # bs) \<le> max_int)"
      using not_less by blast
    with True show ?thesis by (simp add: Let_def)
  next
    case False
    then have "account packages ((i, b) # bs) = account ?m bs" by (simp add: Let_def)
    moreover have "(\<exists>r. account ?m bs = Inr r) \<longleftrightarrow>
      (\<forall>p. tt_total (totals_at ?m p) + block_sum (of_package p) bs \<le> max_int)"
    proof (rule 2(1) [OF refl False n(1)])
      show "\<forall>p. tt_total (totals_at ?m p) \<le> max_int" using 2(3) False unfolding m by auto
    qed
    moreover have "tt_total (totals_at ?m p) + block_sum (of_package p) bs =
        tt_total (totals_at packages p) + block_sum (of_package p) ((i, b) # bs)" for p
      unfolding m by (simp add: of_package_def)
    ultimately show ?thesis by (simp only:)
  qed
qed auto

lemma totals_at_Nil [simp]: "totals_at [] p = \<lparr>tt_covered = 0, tt_total = 0\<rparr>"
  by (simp add: totals_at_def)

lemma account_order:
  assumes "mset bs = mset bs'" and "nonnegative bs"
  shows "(\<exists>p q. account [] bs = Inl (Total_overflows p) \<and> account [] bs' = Inl (Total_overflows q)) \<or>
    (\<exists>m m'. account [] bs = Inr m \<and> account [] bs' = Inr m' \<and> map_of m = map_of m')"
proof -
  have s: "set bs = set bs'" using assms(1) by (rule mset_eq_setD)
  have n': "nonnegative bs'" using assms(2) s by simp
  have o: "\<exists>p. account packages cs = Inl (Total_overflows p)" if "\<nexists>m. account packages cs = Inr m" for packages cs
    using that by (induction packages cs rule: account.induct) (auto simp: Let_def split: if_splits)
  have z: "\<forall>p. tt_total (totals_at [] p) \<le> max_int" by (simp add: max_int_def)
  show ?thesis
  proof (cases "\<exists>m. account [] bs = Inr m")
    case True
    then have "\<exists>m. account [] bs' = Inr m"
      unfolding account_total [OF assms(2) z] account_total [OF n' z] block_sum_mset [OF assms(1)] .
    with True obtain m m' where m: "account [] bs = Inr m" "account [] bs' = Inr m'" by blast
    have "map_of m p = map_of m' p" for p
      unfolding account_ok [OF m(1)] account_ok [OF m(2)] s block_sum_mset [OF assms(1)] ..
    with m show ?thesis by blast
  next
    case False
    then have "\<nexists>m. account [] bs' = Inr m"
      unfolding account_total [OF assms(2) z] account_total [OF n' z] block_sum_mset [OF assms(1)] .
    with False o show ?thesis by blast
  qed
qed

lemma judge_cong: "map_of m = map_of m' \<Longrightarrow> judge mode m fs e ps = judge mode m' fs e ps"
  by (induction mode m fs e ps rule: judge.induct) (simp add: totals_at_def Let_def)+

lemma package_line_cong: "map_of m = map_of m' \<Longrightarrow> package_line m p = package_line m' p"
  by (simp add: package_line_def totals_at_def)

lemma verify_blocks_order:
  assumes "mset (o1 blocks) = mset blocks" "mset (o2 blocks) = mset blocks"
    and "mset (o1' blocks) = mset blocks" "mset (o2' blocks) = mset blocks" and "nonnegative blocks"
  shows "verify_blocks o1 o2 blocks expected mode = verify_blocks o1' o2' blocks expected mode \<or>
    (\<exists>p q. verify_blocks o1 o2 blocks expected mode = ([], Some (Total_overflows p)) \<and>
           verify_blocks o1' o2' blocks expected mode = ([], Some (Total_overflows q)))"
proof -
  have "nonnegative (o1 blocks)" using assms(1,5) mset_eq_setD by metis
  moreover have "mset (o1 blocks) = mset (o1' blocks)" using assms by simp
  ultimately consider (over) p q where "account [] (o1 blocks) = Inl (Total_overflows p)"
      "account [] (o1' blocks) = Inl (Total_overflows q)"
    | (ok) m m' where "account [] (o1 blocks) = Inr m" "account [] (o1' blocks) = Inr m'" "map_of m = map_of m'"
    using account_order by blast
  then show ?thesis
  proof cases
    case over
    then show ?thesis by (simp add: verify_blocks_def)
  next
    case ok
    have "package_line m = package_line m'" using package_line_cong [OF ok(3)] by blast
    moreover have "incomplete_report (o2 blocks) fs lim = incomplete_report (o2' blocks) fs lim" for fs lim
      using assms by (intro incomplete_report_order) simp
    ultimately have "verify_blocks o1 o2 blocks expected mode = verify_blocks o1' o2' blocks expected mode"
      by (simp only: verify_blocks_def ok(1,2) sum.case judge_cong [OF ok(3)])
    then show ?thesis ..
  qed
qed

section \<open>The records of a profile\<close>

type_synonym profile_record = "string \<times> string \<times> int \<times> nat"

definition line_record :: "string \<Rightarrow> string \<Rightarrow> profile_record option" where
  "line_record mode l = (case parse_line mode 0 l of Inl e \<Rightarrow> None | Inr r \<Rightarrow> Some r)"

lemma parse_line_record: "parse_line mode n l = Inr r \<longleftrightarrow> line_record mode l = Some r"
  unfolding line_record_def parse_line_def
  by (simp split: list.split option.split sum.split prod.split)

lemma line_record_nonneg: "line_record mode l = Some (i, q, s, k) \<Longrightarrow> 0 \<le> s"
  unfolding line_record_def parse_line_def
  by (auto split: list.splits option.splits if_splits)

definition profile_records :: "string \<Rightarrow> string \<Rightarrow> bool \<Rightarrow> profile_record list" where
  "profile_records mode data failed = List.map_filter (line_record mode) (tl (fst (scan_profile data failed)))"

text \<open>What the block map says of the records read so far.\<close>

definition reflects :: "(string \<times> block) list \<Rightarrow> profile_record list \<Rightarrow> bool" where
  "reflects blocks rs \<longleftrightarrow> distinct (map fst blocks) \<and>
     (\<forall>(i, b) \<in> set blocks. 0 \<le> bl_statements b \<and>
        (\<exists>k. (i, bl_package b, bl_statements b, k) \<in> set rs) \<and>
        (bl_covered b \<longleftrightarrow> (\<exists>q s k. (i, q, s, k) \<in> set rs \<and> 0 < k))) \<and>
     (\<forall>(i, q, s, k) \<in> set rs. \<exists>b. (i, b) \<in> set blocks \<and> bl_package b = q \<and> bl_statements b = s)"

lemma reflects_record:
  "reflects blocks rs \<Longrightarrow> (i, q, s, k) \<in> set rs \<Longrightarrow>
     \<exists>b. (i, b) \<in> set blocks \<and> bl_package b = q \<and> bl_statements b = s"
  unfolding reflects_def by blast

lemma reflects_block:
  "reflects blocks rs \<Longrightarrow> (i, b) \<in> set blocks \<Longrightarrow>
     0 \<le> bl_statements b \<and> (\<exists>k. (i, bl_package b, bl_statements b, k) \<in> set rs) \<and>
     (bl_covered b \<longleftrightarrow> (\<exists>q s k. (i, q, s, k) \<in> set rs \<and> 0 < k))"
  unfolding reflects_def by blast

lemma set_map_set:
  "distinct (map fst m) \<Longrightarrow> set (map_set k v m) = {(k', v') \<in> set m. k' \<noteq> k} \<union> {(k, v)}"
  by (induction k v m rule: map_set.induct) (auto simp: rev_image_eqI)

lemma record_block_reflects:
  assumes "reflects blocks rs" and "record_block blocks n r = Inr blocks'" and "0 \<le> fst (snd (snd r))"
  shows "reflects blocks' (r # rs)"
proof -
  obtain i q s k where r: "r = (i, q, s, k)" by (cases r) auto
  let ?seen = "case map_of blocks i of None \<Rightarrow> False | Some v \<Rightarrow> bl_covered v"
  have d: "distinct (map fst blocks)" using assms(1) by (simp add: reflects_def)
  have b': "blocks' = map_set i \<lparr>bl_package = q, bl_statements = s, bl_covered = ?seen \<or> 0 < k\<rparr> blocks"
    and same: "map_of blocks i = Some v \<Longrightarrow> bl_package v = q \<and> bl_statements v = s" for v
    using assms(2) by (auto simp: record_block_def r Let_def split: if_splits)
  have known: "map_of blocks j = Some v \<longleftrightarrow> (j, v) \<in> set blocks" for j v
    using d by (rule map_of_eq_Some_iff)
  have none: "(i, q', s', k') \<notin> set rs" if "map_of blocks i = None" for q' s' k'
    using reflects_record [OF assms(1)] that by (force simp: map_of_eq_None_iff)
  have seen: "?seen \<longleftrightarrow> (\<exists>q s k. (i, q, s, k) \<in> set rs \<and> 0 < k)"
  proof (cases "map_of blocks i")
    case None
    with none show ?thesis by simp
  next
    case (Some v)
    with known have "(i, v) \<in> set blocks" by blast
    with Some reflects_block [OF assms(1)] show ?thesis by simp
  qed
  show ?thesis
    unfolding reflects_def b' r
  proof (intro conjI)
    show "distinct (map fst (map_set i \<lparr>bl_package = q, bl_statements = s, bl_covered = ?seen \<or> 0 < k\<rparr> blocks))"
      using d by simp
    show "\<forall>(j, b) \<in> set (map_set i \<lparr>bl_package = q, bl_statements = s, bl_covered = ?seen \<or> 0 < k\<rparr> blocks).
        0 \<le> bl_statements b \<and> (\<exists>k'. (j, bl_package b, bl_statements b, k') \<in> set ((i, q, s, k) # rs)) \<and>
        (bl_covered b \<longleftrightarrow> (\<exists>q' s' k'. (j, q', s', k') \<in> set ((i, q, s, k) # rs) \<and> 0 < k'))"
    proof -
      have "0 \<le> bl_statements b \<and> (\<exists>k'. (j, bl_package b, bl_statements b, k') \<in> set ((i, q, s, k) # rs)) \<and>
        (bl_covered b \<longleftrightarrow> (\<exists>q' s' k'. (j, q', s', k') \<in> set ((i, q, s, k) # rs) \<and> 0 < k'))"
        if "(j, b) \<in> set blocks" "j \<noteq> i" for j b
        using reflects_block [OF assms(1) that(1)] that(2) by auto
      moreover have "0 \<le> s" using assms(3) r by simp
      ultimately show ?thesis unfolding set_map_set [OF d] seen by auto
    qed
    show "\<forall>(j, q', s', k') \<in> set ((i, q, s, k) # rs). \<exists>b. (j, b) \<in> set (map_set i
        \<lparr>bl_package = q, bl_statements = s, bl_covered = ?seen \<or> 0 < k\<rparr> blocks) \<and> bl_package b = q' \<and> bl_statements b = s'"
    proof -
      have "\<exists>b. (j, b) \<in> set (map_set i
        \<lparr>bl_package = q, bl_statements = s, bl_covered = ?seen \<or> 0 < k\<rparr> blocks) \<and> bl_package b = q' \<and> bl_statements b = s'"
        if "(j, q', s', k') \<in> set rs" for j q' s' k'
      proof -
        from reflects_record [OF assms(1) that] obtain b where
          b: "(j, b) \<in> set blocks" "bl_package b = q'" "bl_statements b = s'" by blast
        show ?thesis
        proof (cases "j = i")
          case True
          with b known same have "q' = q" "s' = s" by blast+
          with True show ?thesis by (auto simp: set_map_set [OF d])
        qed (use b in \<open>auto simp: set_map_set [OF d]\<close>)
      qed
      then show ?thesis by (auto simp: set_map_set [OF d])
    qed
  qed
qed

lemma read_blocks_reflects:
  assumes "read_blocks mode n blocks ls = Inr blocks'" and "reflects blocks rs"
  shows "reflects blocks' (rev (List.map_filter (line_record mode) ls) @ rs)"
  using assms
proof (induction ls arbitrary: n blocks rs)
  case Nil
  then show ?case by (simp add: map_filter_simps)
next
  case (Cons l ls)
  then obtain r b where l: "line_record mode l = Some r" and b: "record_block blocks (n + 1) r = Inr b"
    and rest: "read_blocks mode (n + 1) b ls = Inr blocks'"
    by (auto simp: parse_line_record)
  have "0 \<le> fst (snd (snd r))" using l line_record_nonneg by (cases r) auto
  with record_block_reflects [OF Cons.prems(2) b] Cons.IH [OF rest] l show ?case
    by (simp add: map_filter_simps)
qed

section \<open>The verdict\<close>

definition fully_executed :: "profile_record list \<Rightarrow> string \<Rightarrow> bool" where
  "fully_executed rs p \<longleftrightarrow>
     (\<exists>(i, q, s, k) \<in> set rs. q = p \<and> 0 < s) \<and>
     (\<forall>(i, q, s, k) \<in> set rs. q = p \<and> 0 < s \<longrightarrow> (\<exists>(i', q', s', k') \<in> set rs. i' = i \<and> 0 < k'))"

definition package_exact :: "(string \<times> block) list \<Rightarrow> string \<Rightarrow> bool" where
  "package_exact blocks p \<longleftrightarrow> block_sum (of_package p) blocks \<noteq> 0 \<and>
     block_sum (covered_of p) blocks = block_sum (of_package p) blocks"

lemma package_exact_records:
  assumes "reflects blocks rs"
  shows "package_exact blocks p \<longleftrightarrow> fully_executed rs p"
proof -
  have n: "nonnegative blocks" using reflects_block [OF assms] by auto
  have split: "block_sum (of_package p) blocks = block_sum (covered_of p) blocks +
      block_sum (\<lambda>b. of_package p b \<and> \<not> bl_covered b) blocks"
    using block_sum_split [of "of_package p" blocks bl_covered]
    by (simp add: covered_of_def [abs_def] of_package_def)
  have "block_sum (of_package p) blocks \<noteq> 0 \<longleftrightarrow>
      (\<exists>(i, b) \<in> set blocks. bl_package b = p \<and> 0 < bl_statements b)"
    unfolding block_sum_zero [OF n] using n by (fastforce simp: of_package_def)
  also have "\<dots> \<longleftrightarrow> (\<exists>(i, q, s, k) \<in> set rs. q = p \<and> 0 < s)"
    using reflects_block [OF assms] reflects_record [OF assms] by fast
  finally have some: "block_sum (of_package p) blocks \<noteq> 0 \<longleftrightarrow> (\<exists>(i, q, s, k) \<in> set rs. q = p \<and> 0 < s)" .
  have "block_sum (covered_of p) blocks = block_sum (of_package p) blocks \<longleftrightarrow>
      (\<forall>(i, b) \<in> set blocks. bl_package b = p \<and> 0 < bl_statements b \<longrightarrow> bl_covered b)"
  proof -
    have "block_sum (\<lambda>b. of_package p b \<and> \<not> bl_covered b) blocks = 0 \<longleftrightarrow>
      (\<forall>(i, b) \<in> set blocks. bl_package b = p \<and> 0 < bl_statements b \<longrightarrow> bl_covered b)"
      unfolding block_sum_zero [OF n] using n by (fastforce simp: of_package_def)
    then show ?thesis unfolding split by simp
  qed
  also have "\<dots> \<longleftrightarrow> (\<forall>(i, q, s, k) \<in> set rs. q = p \<and> 0 < s \<longrightarrow> (\<exists>(i', q', s', k') \<in> set rs. i' = i \<and> 0 < k'))"
    (is "?L \<longleftrightarrow> ?R")
  proof
    assume l: ?L
    have "\<exists>q s k. (i, q, s, k) \<in> set rs \<and> 0 < k" if r: "(i, p, s, k) \<in> set rs" "0 < s" for i s k
    proof -
      from reflects_record [OF assms r(1)] obtain b where "(i, b) \<in> set blocks" "bl_package b = p"
        "bl_statements b = s" by blast
      with l r(2) reflects_block [OF assms] show ?thesis by blast
    qed
    then show ?R by fast
  next
    assume r: ?R
    have "bl_covered b" if b: "(i, b) \<in> set blocks" "bl_package b = p" "0 < bl_statements b" for i b
      using reflects_block [OF assms b(1)] r b(2,3) by fast
    then show ?L by fast
  qed
  finally show ?thesis using some by (simp only: package_exact_def fully_executed_def)
qed

text \<open>In the exact mode the loop over the packages finds no error exactly when each is exact.\<close>

definition exact_at :: "(string \<times> totals) list \<Rightarrow> string \<Rightarrow> bool" where
  "exact_at m p \<longleftrightarrow> map_of m p \<noteq> None \<and> tt_total (totals_at m p) \<noteq> 0 \<and>
     tt_covered (totals_at m p) = tt_total (totals_at m p)"

lemma judge_exact:
  "\<exists>fs' e'. judge ''exact'' m fs e ps = Inr (fs', e') \<and>
     (e' = None \<longleftrightarrow> e = None \<and> (\<forall>p \<in> set ps. exact_at m p))"
  by (induction "''exact''" m fs e ps rule: judge.induct) (auto simp: Let_def exact_at_def)

lemma exact_at_account:
  assumes "account [] bs = Inr m" and "nonnegative bs"
  shows "exact_at m p \<longleftrightarrow> package_exact bs p"
proof -
  have z: "p \<notin> (bl_package \<circ> snd) ` set bs \<Longrightarrow> block_sum (of_package p) bs = 0"
    unfolding block_sum_zero [OF assms(2)] by (auto simp: of_package_def)
  show ?thesis
    using z by (auto simp: exact_at_def package_exact_def totals_at_def account_ok [OF assms(1)])
qed

lemma verify_blocks_exact:
  assumes "nonnegative (o1 blocks)" and "\<exists>m. account [] (o1 blocks) = Inr m"
  shows "snd (verify_blocks o1 o2 blocks expected ''exact'') = None \<longleftrightarrow>
    (\<forall>p \<in> set expected. package_exact (o1 blocks) p)"
proof -
  from assms(2) obtain m where m: "account [] (o1 blocks) = Inr m" by blast
  from judge_exact [of m "[]" None "sort (remdups expected)"]
  obtain fs e where j: "judge ''exact'' m [] None (sort (remdups expected)) = Inr (fs, e)"
    "e = None \<longleftrightarrow> (\<forall>p \<in> set expected. exact_at m p)" by auto
  then show ?thesis
    unfolding exact_at_account [OF m assms(1), symmetric]
    by (cases e) (simp_all add: verify_blocks_def m)
qed

lemma verify_stages:
  assumes "verify_with_mode o1 o2 data failed expected mode = (report, e)"
    and "e = None \<or> (\<exists>p. e = Some (Missing_evidence p) \<or> e = Some (Below_exact p) \<or> e = Some (Total_overflows p))"
  obtains blocks where "read_blocks mode 1 [] (tl (fst (scan_profile data failed))) = Inr blocks"
    and "verify_blocks o1 o2 blocks expected mode = (report, e)" and "expected \<noteq> []"
proof -
  have pl: "parse_line mode n l \<noteq> Inl (Missing_evidence p)" "parse_line mode n l \<noteq> Inl (Below_exact p)"
    "parse_line mode n l \<noteq> Inl (Total_overflows p)" for n l p
    unfolding parse_line_def by (simp_all split: list.split option.split prod.split)
  have rb: "record_block bs n r \<noteq> Inl (Missing_evidence p)" "record_block bs n r \<noteq> Inl (Below_exact p)"
    "record_block bs n r \<noteq> Inl (Total_overflows p)" for bs n r p
    unfolding record_block_def by (simp_all add: Let_def split: prod.split option.split)
  have rd: "read_blocks mode n bs ls \<noteq> Inl (Missing_evidence p) \<and> read_blocks mode n bs ls \<noteq> Inl (Below_exact p) \<and>
    read_blocks mode n bs ls \<noteq> Inl (Total_overflows p)" for n bs ls p
  proof (induction ls arbitrary: n bs)
    case (Cons l ls)
    then show ?case
      using pl [of "n + 1" l p] rb by (auto simp: and_then_Inl_iff)
  qed simp
  show thesis
    using assms that rd unfolding verify_with_mode_def
    by (auto split: if_splits prod.splits list.splits sum.splits)
qed

section \<open>The report is bounded and printable\<close>

definition safe_char :: "char \<Rightarrow> bool" where
  "safe_char c \<longleftrightarrow> printable c \<or> c = CHR 0x0A"

definition report_ok :: "diagnostic_limits \<Rightarrow> string \<Rightarrow> bool" where
  "report_ok limits r \<longleftrightarrow> int (length r) \<le> lim_bytes limits \<and> list_all safe_char r"

lemma safe_quoted: "list_all safe_char (quoted_ascii s)"
  using quoted_ascii_printable [of s] by (auto simp: list_all_iff safe_char_def)

lemma safe_dec: "list_all safe_char (dec_int i)"
proof -
  have "safe_char c" if "is_digit c" for c
    using that of_nat_of_char [of c, where 'a = int]
    by (auto simp: is_digit_def safe_char_def printable_def less_eq_char_def)
  then show ?thesis
    by (auto simp: dec_int_def list_all_iff safe_char_def printable_def dest: dec_nat_digits)
qed

lemma write_report_ok:
  assumes "report_ok limits r" and "list_all safe_char text"
  shows "report_ok limits (fst (write_report limits footer text r))"
  using assms by (auto simp: write_report_def report_ok_def Let_def split: if_splits)

lemma write_locations_ok:
  "report_ok limits r \<Longrightarrow> list_all safe_char indent \<Longrightarrow> \<forall>l \<in> set ls. list_all safe_char (loc_location l) \<Longrightarrow>
     report_ok limits (snd (write_locations limits indent (n, r) ls))"
proof (induction limits indent "(n, r)" ls arbitrary: n r rule: write_locations.induct)
  case (2 limits indent n r l ls)
  have "report_ok limits (fst (write_report limits False (indent @ loc_location l @ [CHR 0x0A]) r))"
    using 2(2,3,4) by (intro write_report_ok) (auto simp: safe_char_def)
  with 2 show ?case by (simp add: split_def Let_def)
qed simp

lemma safe_label: "list_all safe_char (package_label p)"
  by (simp add: package_label_def safe_quoted)

lemma write_packages_ok:
  "report_ok limits r \<Longrightarrow> \<forall>l \<in> set ls. list_all safe_char (loc_location l) \<Longrightarrow>
     report_ok limits (snd (snd (write_packages limits ls (n, k, r) fs)))"
proof (induction fs arbitrary: ls n k r)
  case (Cons f fs)
  have own: "\<forall>l \<in> set (takeWhile P ls). list_all safe_char (loc_location l)"
    "\<forall>l \<in> set (dropWhile P ls). list_all safe_char (loc_location l)" for P
    using Cons.prems(2) by (auto dest: set_takeWhileD set_dropWhileD)
  have line: "list_all safe_char (''  '' @ package_label (pf_package f) @
     (if pf_missing f then '' missing executable coverage evidence'' @ [CHR 0x0A]
                    else '' is below exact 100% coverage'' @ [CHR 0x0A]))"
    using safe_label by (simp add: safe_char_def printable_def)
  have w: "report_ok limits (fst (write_report limits False (''  '' @ package_label (pf_package f) @
     (if pf_missing f then '' missing executable coverage evidence'' @ [CHR 0x0A]
                    else '' is below exact 100% coverage'' @ [CHR 0x0A])) r))"
    by (rule write_report_ok [OF Cons.prems(1) line])
  have i: "list_all safe_char ''    ''" by (simp add: safe_char_def printable_def)
  show ?case
    unfolding write_packages.simps Let_def split_def
    by (rule Cons.IH) (use Cons.prems w own write_locations_ok [OF w i own(1)] in auto)
qed simp

lemma block_location_safe: "block_location i b = Some c \<Longrightarrow> list_all safe_char (loc_location c)"
  by (auto simp: block_location_def Let_def safe_quoted split: option.splits if_splits)

lemma candidates_safe: "\<forall>l \<in> set (take k (sort (candidates failures blocks))). list_all safe_char (loc_location l)"
proof
  fix l assume "l \<in> set (take k (sort (candidates failures blocks)))"
  then have "l \<in> set (candidates failures blocks)" by (auto dest: in_set_takeD)
  then obtain i b where "block_location i b = Some l"
    by (auto simp: candidates_def List.map_filter_def)
  then show "list_all safe_char (loc_location l)" by (rule block_location_safe)
qed

lemma incomplete_report_ok:
  assumes "0 \<le> lim_bytes limits"
  shows "report_ok limits (incomplete_report blocks failures limits)"
proof -
  have e: "report_ok limits []" using assms by (simp add: report_ok_def)
  have h: "list_all safe_char (''uncovered production blocks:'' @ [CHR 0x0A])"
    "list_all safe_char (''incomplete production coverage:'' @ [CHR 0x0A])"
    "list_all safe_char ''  ''"
    by (simp_all add: safe_char_def printable_def)
  have f: "list_all safe_char (''  ('' @ dec_int i @ '' additional blocks omitted)'' @ [CHR 0x0A])"
    "list_all safe_char (''  ('' @ dec_int i @ '' additional packages omitted)'' @ [CHR 0x0A])" for i
    using safe_dec by (simp_all add: safe_char_def printable_def)
  note w = write_report_ok [OF e h(1), of False] write_report_ok [OF e h(2), of False]
  note l = write_locations_ok [OF w(1) h(3) candidates_safe]
  note p = write_packages_ok [OF w(2) candidates_safe]
  have one: "report_ok limits (incomplete_report blocks [f] limits)" for f
    unfolding incomplete_report_def collect_locations_eq split_def Let_def list.case
    using e l write_report_ok [OF l f(1)] by simp
  have many: "report_ok limits (let (uncovered, locations) = collect_locations failures (lim_blocks limits) (0, []) blocks;
               (report, _) = write_report limits False (''incomplete production coverage:'' @ [CHR 0x0A]) [];
               (printed, omitted, report) = write_packages limits locations (0, 0, report) failures;
               report = (if 0 < uncovered - printed
                 then fst (write_report limits True
                        (''  ('' @ dec_int (uncovered - printed) @ '' additional blocks omitted)'' @ [CHR 0x0A]) report)
                 else report)
           in if 0 < omitted
              then fst (write_report limits True
                     (''  ('' @ dec_int omitted @ '' additional packages omitted)'' @ [CHR 0x0A]) report)
              else report)"
    unfolding collect_locations_eq split_def Let_def prod.sel
    using p write_report_ok [OF p f(1)] write_report_ok [OF p f(2)]
      write_report_ok [OF write_report_ok [OF p f(1)] f(2)] by simp
  show ?thesis
  proof (cases failures)
    case Nil
    show ?thesis using many unfolding incomplete_report_def Nil by simp
  next
    case (Cons g gs)
    show ?thesis
    proof (cases gs)
      case Nil
      then show ?thesis using one Cons by simp
    next
      case (Cons g' gs')
      then show ?thesis
        using many unfolding incomplete_report_def \<open>failures = g # gs\<close> Cons by simp
    qed
  qed
qed

section \<open>Properties\<close>

text \<open>C31: the exact verdict is the intended one: when \<open>Verify\<close> gets as far as judging the
  packages, it accepts if and only if every expected package has a record with
  statements, and every block of it with statements has a record with a positive
  execution count, however the profile splits, orders and repeats its records.\<close>

theorem exact_verdict:
  assumes "verify o1 o2 data failed expected = (report, e)"
    and "e = None \<or> (\<exists>p. e = Some (Missing_evidence p) \<or> e = Some (Below_exact p))"
    and "\<And>bs. mset (o1 bs) = mset bs"
  shows "e = None \<longleftrightarrow> list_all (fully_executed (profile_records ''exact'' data failed)) expected"
proof -
  have "e = None \<or> (\<exists>p. e = Some (Missing_evidence p) \<or> e = Some (Below_exact p) \<or> e = Some (Total_overflows p))"
    using assms(2) by blast
  from verify_stages [OF assms(1) [unfolded verify_def] this] obtain blocks where
    r: "read_blocks ''exact'' 1 [] (tl (fst (scan_profile data failed))) = Inr blocks"
    and v: "verify_blocks o1 o2 blocks expected ''exact'' = (report, e)" by blast
  have b: "reflects blocks (rev (profile_records ''exact'' data failed))"
    using read_blocks_reflects [OF r, of "[]"] by (simp add: reflects_def profile_records_def)
  have s: "set (o1 blocks) = set blocks" using assms(3) by (rule mset_eq_setD)
  then have n: "nonnegative (o1 blocks)" using reflects_block [OF b] by auto
  have "\<exists>m. account [] (o1 blocks) = Inr m"
  proof (rule ccontr)
    assume "\<nexists>m. account [] (o1 blocks) = Inr m"
    then obtain p where "account [] (o1 blocks) = Inl (Total_overflows p)"
      using account_order [OF refl n] by auto
    with v assms(2) show False by (auto simp: verify_blocks_def)
  qed
  from verify_blocks_exact [of o1 blocks o2 expected, OF n this] v
  have "e = None \<longleftrightarrow> (\<forall>p \<in> set expected. package_exact (o1 blocks) p)" by simp
  also have "\<dots> \<longleftrightarrow> (\<forall>p \<in> set expected. package_exact blocks p)"
    unfolding package_exact_def block_sum_mset [OF assms(3)] ..
  also have "\<dots> \<longleftrightarrow> (\<forall>p \<in> set expected. fully_executed (profile_records ''exact'' data failed) p)"
    unfolding package_exact_records [OF b] fully_executed_def by simp
  finally show ?thesis by (simp add: list_all_iff)
qed

definition sample_profile :: string where
  "sample_profile = ''mode: set'' @ [CHR 0x0A] @ ''m/p/a.go:1.1,2.2 3 0'' @ [CHR 0x0A] @
     ''m/p/a.go:1.1,2.2 3 7'' @ [CHR 0x0A]"

theorem exact_verdict_witness:
  "verify id rev sample_profile False [''m/p''] = (''m/p 3/3 statements'' @ [CHR 0x0A], None) \<and>
   list_all (fully_executed (profile_records ''exact'' sample_profile False)) [''m/p'']"
proof -
  have v: "verify id rev sample_profile False [''m/p''] = (''m/p 3/3 statements'' @ [CHR 0x0A], None)"
    by code_simp
  from exact_verdict [OF v] show ?thesis by (simp add: v)
qed

text \<open>the report does not depend on Go's map order: for any two orders in which the two loops
  may visit the block map, the verification returns the same report and the same error,
  except that when statement totals overflow the package the error names may differ.\<close>

theorem map_order_irrelevant:
  assumes "\<And>bs. mset (o1 bs) = mset bs" "\<And>bs. mset (o2 bs) = mset bs"
    and "\<And>bs. mset (o1' bs) = mset bs" "\<And>bs. mset (o2' bs) = mset bs"
  shows "verify_with_mode o1 o2 data failed expected mode = verify_with_mode o1' o2' data failed expected mode \<or>
    (\<exists>p q. verify_with_mode o1 o2 data failed expected mode = ([], Some (Total_overflows p)) \<and>
       verify_with_mode o1' o2' data failed expected mode = ([], Some (Total_overflows q)))"
proof -
  have n: "nonnegative blocks" if "read_blocks mode 1 [] ls = Inr blocks" for ls blocks
    using reflects_block [OF read_blocks_reflects [OF that, of "[]"]] by (auto simp: reflects_def)
  have "verify_blocks o1 o2 blocks expected mode = verify_blocks o1' o2' blocks expected mode \<or>
    (\<exists>p q. verify_blocks o1 o2 blocks expected mode = ([], Some (Total_overflows p)) \<and>
           verify_blocks o1' o2' blocks expected mode = ([], Some (Total_overflows q)))"
    if "read_blocks mode 1 [] ls = Inr blocks" for ls blocks
    by (rule verify_blocks_order) (use assms n [OF that] in auto)
  then show ?thesis
    unfolding verify_with_mode_def by (auto split: list.splits prod.splits sum.splits)
qed

theorem map_order_irrelevant_witness:
  "verify_with_mode id id sample_profile False [''m/p''] ''exact'' =
     verify_with_mode rev rev sample_profile False [''m/p''] ''exact''"
proof -
  have "snd (verify_with_mode id id sample_profile False [''m/p''] ''exact'') = None" by code_simp
  with map_order_irrelevant [of id id rev rev sample_profile False "[''m/p'']" "''exact''"] show ?thesis
    by auto
qed

text \<open>a failure report is at most 85000 bytes of printable ASCII and newlines, whatever bytes
  the profile holds, so it can neither flood nor control the terminal it is printed on.\<close>

theorem failure_report_safe:
  assumes "verify_with_mode o1 o2 data failed expected mode = (report, Some e)"
  shows "int (length report) \<le> 85000 \<and> list_all (\<lambda>c. printable c \<or> c = CHR 0x0A) report"
proof -
  have "report_ok default_limits (incomplete_report blocks failures default_limits)" for blocks failures
    by (rule incomplete_report_ok) (simp add: default_limits_def)
  moreover have "report_ok default_limits []" by (simp add: report_ok_def default_limits_def)
  moreover have "report = [] \<or> (\<exists>blocks failures. report = incomplete_report blocks failures default_limits)"
    using assms by (auto simp: verify_with_mode_def verify_blocks_def Let_def
        split: if_splits list.splits prod.splits sum.splits option.splits)
  ultimately have "report_ok default_limits report" by auto
  then show ?thesis by (simp add: report_ok_def default_limits_def safe_char_def [abs_def])
qed

definition sample_gap :: string where
  "sample_gap = ''mode: set'' @ [CHR 0x0A] @ ''m/p/a.go:1.1,2.2 3 0'' @ [CHR 0x0A]"

theorem failure_report_safe_witness:
  "verify_with_mode id id sample_gap False [''m/p''] ''exact'' =
     (''uncovered production blocks:'' @ [CHR 0x0A] @ ''  a.go:1.1,2.2'' @ [CHR 0x0A], Some (Below_exact ''m/p'')) \<and>
   list_all (\<lambda>c. printable c \<or> c = CHR 0x0A)
     (''uncovered production blocks:'' @ [CHR 0x0A] @ ''  a.go:1.1,2.2'' @ [CHR 0x0A])"
proof -
  have v: "verify_with_mode id id sample_gap False [''m/p''] ''exact'' =
     (''uncovered production blocks:'' @ [CHR 0x0A] @ ''  a.go:1.1,2.2'' @ [CHR 0x0A], Some (Below_exact ''m/p''))"
    by code_simp
  from failure_report_safe [OF v] v show ?thesis by blast
qed

end
