(* ===== verification/Affected.thy ===== *)
theory Affected
  imports Inventory
begin

text \<open>
  internal/gates/affected.go: which modules a range of commits affects. Arguments of the
  model: \<open>git\<close> runs a git command in the repository (its standard output, or nothing when
  the command fails or exceeds its output limit), \<open>read\<close> reads a repository file,
  \<open>parse_mod\<close> is \<open>modfile.Parse\<close> of golang.org/x/mod, and \<open>done\<close> tells at which of the
  program points that poll the context it is already cancelled.
\<close>

datatype poll = Poll_git nat | Poll_git_end nat | Poll_changes | Poll_change nat | Poll_module nat | Poll_result

datatype affected_error =
    Cardinality_invalid | Context_done | Base_not_sha | Git_failed | Git_paths_malformed
  | Go_mod_unreadable | Go_mod_unparsable

record go_mod =
  gm_module :: "string option"
  gm_require :: "string list"
  gm_replace :: "(string \<times> string) list"

section \<open>Committed changes\<close>

definition change_git ::
  "(string list \<Rightarrow> string option) \<Rightarrow> (poll \<Rightarrow> bool) \<Rightarrow> nat \<Rightarrow> string list \<Rightarrow> affected_error + string" where
  "change_git git done call args =
     (if done (Poll_git call) then Inl Context_done
      else (case git ([''--no-replace-objects'', ''-c'', ''core.fsmonitor=false''] @ args) of
              None \<Rightarrow> Inl Git_failed
            | Some out \<Rightarrow> if done (Poll_git_end call) then Inl Context_done else Inr out))"

definition is_commit_sha :: "string \<Rightarrow> bool" where
  "is_commit_sha base \<longleftrightarrow> length base = 40 \<and> all_in ''0123456789abcdef'' base"

definition change_path_ok :: "string \<Rightarrow> bool" where
  "change_path_ok name \<longleftrightarrow> \<not> (\<not> valid_path name \<or> path_clean name \<noteq> name \<or> name = ''.'')"

definition committed_changes ::
  "(string list \<Rightarrow> string option) \<Rightarrow> (poll \<Rightarrow> bool) \<Rightarrow> string \<Rightarrow> string \<Rightarrow> affected_error + string list" where
  "committed_changes git done base head =
     (if \<not> is_commit_sha base then Inl Base_not_sha
      else and_then (change_git git done 0 [''cat-file'', ''-e'', base @ ''^{commit}'']) (\<lambda>_.
        and_then (change_git git done 1 [''diff'', ''--no-ext-diff'', ''--no-textconv'', ''--no-renames'',
            ''--name-only'', ''-z'', base, head, ''--'']) (\<lambda>diff.
          if diff = [] then Inr []
          else if \<not> has_suffix diff [CHR 0x00] then Inl Git_paths_malformed
          else (let changes = split_on CHR 0x00 (trim_suffix diff [CHR 0x00])
                in if list_ex (\<lambda>name. \<not> change_path_ok name) changes then Inl Git_paths_malformed
                   else if done Poll_changes then Inl Context_done
                   else Inr changes))))"

section \<open>Owners\<close>

text \<open>The longest module directory that contains the path.\<close>

definition directory_owner :: "module_policy list \<Rightarrow> string \<Rightarrow> string" where
  "directory_owner mds name = foldl (\<lambda>owner md.
     if md_directory md \<noteq> ''.'' \<and> has_prefix name (md_directory md @ ''/'') \<and>
        length owner < length (md_directory md)
     then md_directory md else owner) [] mds"

text \<open>Only explicit root source and package ownership permits narrowing.\<close>

definition root_owner :: "module_policy list \<Rightarrow> string \<Rightarrow> string" where
  "root_owner mds name = foldl (\<lambda>owner md.
     if md_directory md \<noteq> ''.'' then owner
     else if (\<not> contains_str name ''/'' \<and> has_suffix name ''.go'') \<or>
             list_ex (\<lambda>pkg. pk_directory pkg \<noteq> ''.'' \<and> has_prefix name (pk_directory pkg @ ''/''))
               (md_packages md)
          then ''.'' else owner) [] mds"

definition change_owner :: "module_policy list \<Rightarrow> string \<Rightarrow> string" where
  "change_owner mds name =
     (let owner = directory_owner mds name in if owner = [] then root_owner mds name else owner)"

definition shared_fixture :: "module_policy list \<Rightarrow> string \<Rightarrow> bool" where
  "shared_fixture mds owner \<longleftrightarrow> list_ex (\<lambda>md. md_directory md = owner \<and> md_kind md = ''fixture'') mds"

text \<open>The loop over the changes: the selected owners, and whether every module is selected.\<close>

fun change_scan ::
  "(poll \<Rightarrow> bool) \<Rightarrow> module_policy list \<Rightarrow> nat \<Rightarrow> string list \<Rightarrow> bool \<Rightarrow> string list
    \<Rightarrow> affected_error + string list \<times> bool" where
  "change_scan done mds i selected all_mods [] = Inr (selected, all_mods)"
| "change_scan done mds i selected all_mods (name # names) =
     (if done (Poll_change i) then Inl Context_done
      else if all_mods then Inr (selected, all_mods)
      else (let owner = change_owner mds name
            in if owner = [] \<or> shared_fixture mds owner
               then change_scan done mds (Suc i) selected True names
               else change_scan done mds (Suc i) (owner # selected) False names))"

section \<open>Dependencies\<close>

definition replaced_dependencies :: "module_policy list \<Rightarrow> module_policy \<Rightarrow> go_mod \<Rightarrow> string list" where
  "replaced_dependencies mds md file = concat (map (\<lambda>(version, new).
     if version \<noteq> [] then []
     else map md_module_path
            (filter (\<lambda>owner. path_clean (path_join [md_directory md, new]) = md_directory owner) mds))
     (gm_replace file))"

text \<open>What the module requires: its declared edges, its requirements, its local replacements.\<close>

definition module_dependencies ::
  "(string \<Rightarrow> int \<Rightarrow> string option) \<Rightarrow> (string \<Rightarrow> go_mod option) \<Rightarrow> module_policy list \<Rightarrow> module_policy
    \<Rightarrow> affected_error + string list" where
  "module_dependencies read parse_mod mds md =
     (case read (path_join [md_directory md, ''go.mod'']) 1048576 of
        None \<Rightarrow> Inl Go_mod_unreadable
      | Some data \<Rightarrow>
          (case parse_mod data of
             None \<Rightarrow> Inl Go_mod_unparsable
           | Some file \<Rightarrow>
               if gm_module file \<noteq> Some (md_module_path md) then Inl Go_mod_unparsable
               else Inr (md_owned_dependencies md @ gm_require file @ replaced_dependencies mds md file)))"

fun all_dependencies ::
  "(poll \<Rightarrow> bool) \<Rightarrow> (string \<Rightarrow> int \<Rightarrow> string option) \<Rightarrow> (string \<Rightarrow> go_mod option) \<Rightarrow> module_policy list
    \<Rightarrow> nat \<Rightarrow> module_policy list \<Rightarrow> affected_error + (string \<times> string list) list" where
  "all_dependencies done read parse_mod mds i [] = Inr []"
| "all_dependencies done read parse_mod mds i (md # rest) =
     (if done (Poll_module i) then Inl Context_done
      else and_then (module_dependencies read parse_mod mds md) (\<lambda>ds.
        and_then (all_dependencies done read parse_mod mds (Suc i) rest) (\<lambda>m.
          Inr (m @ [(md_directory md, ds)]))))"

definition depends_on :: "(string \<times> string list) list \<Rightarrow> string \<Rightarrow> string \<Rightarrow> bool" where
  "depends_on deps d p \<longleftrightarrow> (case map_of deps d of None \<Rightarrow> False | Some ps \<Rightarrow> List.member ps p)"

section \<open>Reverse closure\<close>

text \<open>One pass over the catalog, selecting as it goes. The Go map \<open>selected\<close> is the list of
  the selected directories. In \<open>deps\<close> a later module comes first: a later assignment wins.\<close>

fun closure_pass ::
  "(string \<times> string list) list \<Rightarrow> module_policy list \<Rightarrow> string list \<Rightarrow> module_policy list \<Rightarrow> string list" where
  "closure_pass deps mds selected [] = selected"
| "closure_pass deps mds selected (md # rest) =
     (if List.member selected (md_directory md) then closure_pass deps mds selected rest
      else if list_ex (\<lambda>dependency. List.member selected (md_directory dependency) \<and>
                depends_on deps (md_directory md) (md_module_path dependency)) mds
      then closure_pass deps mds (md_directory md # selected) rest
      else closure_pass deps mds selected rest)"

definition unselected :: "module_policy list \<Rightarrow> string list \<Rightarrow> module_policy list" where
  "unselected mds selected = filter (\<lambda>md. \<not> List.member selected (md_directory md)) mds"

text \<open>\<open>for added := true; added;\<close>: a pass that added something leaves fewer modules.\<close>

lemma closure_pass_grows: "set selected \<subseteq> set (closure_pass deps mds selected rest)"
  by (induction deps mds selected rest rule: closure_pass.induct) auto

lemma closure_pass_length: "length selected \<le> length (closure_pass deps mds selected rest)"
  by (induction deps mds selected rest rule: closure_pass.induct) (auto intro: Suc_leD)

lemma closure_pass_new:
  "length selected < length (closure_pass deps mds selected rest) \<Longrightarrow>
     \<exists>md \<in> set rest. md_directory md \<notin> set selected \<and>
       md_directory md \<in> set (closure_pass deps mds selected rest)"
proof (induction deps mds selected rest rule: closure_pass.induct)
  case (2 deps mds selected md rest)
  show ?case
  proof (cases "md_directory md \<in> set selected")
    case True
    with 2 show ?thesis by auto
  next
    case False
    show ?thesis
    proof (cases "list_ex (\<lambda>dependency. List.member selected (md_directory dependency) \<and>
                depends_on deps (md_directory md) (md_module_path dependency)) mds")
      case True
      have "md_directory md \<in> set (closure_pass deps mds (md_directory md # selected) rest)"
        using closure_pass_grows [of "md_directory md # selected" deps mds rest] by auto
      with True False show ?thesis by auto
    next
      case no: False
      with 2 False show ?thesis by auto
    qed
  qed
qed simp

lemma unselected_less:
  assumes "md \<in> set mds" "md_directory md \<notin> set selected" "md_directory md \<in> set selected'"
    "set selected \<subseteq> set selected'"
  shows "length (unselected mds selected') < length (unselected mds selected)"
proof -
  have "unselected mds selected' = filter (\<lambda>md. md_directory md \<notin> set selected') (unselected mds selected)"
    using assms(4) by (auto simp: unselected_def intro!: filter_cong)
  moreover have "length (filter (\<lambda>md. md_directory md \<notin> set selected') (unselected mds selected))
      < length (unselected mds selected)"
    using assms(1-3) by (intro length_filter_less [of md]) (auto simp: unselected_def)
  ultimately show ?thesis by simp
qed

function reverse_closure ::
  "(string \<times> string list) list \<Rightarrow> module_policy list \<Rightarrow> string list \<Rightarrow> string list" where
  "reverse_closure deps mds selected =
     (let selected' = closure_pass deps mds selected mds
      in if length selected < length selected' then reverse_closure deps mds selected' else selected)"
  by pat_completeness auto
termination
proof (relation "measure (\<lambda>(deps, mds, selected). length (unselected mds selected))")
  fix deps :: "(string \<times> string list) list" and mds :: "module_policy list" and selected selected'
  assume s: "selected' = closure_pass deps mds selected mds" "length selected < length selected'"
  then obtain md where "md \<in> set mds" "md_directory md \<notin> set selected" "md_directory md \<in> set selected'"
    using closure_pass_new by blast
  with s closure_pass_grows [of selected deps mds mds]
  show "((deps, mds, selected'), deps, mds, selected)
      \<in> measure (\<lambda>(deps, mds, selected). length (unselected mds selected))"
    by (simp add: unselected_less)
qed simp

declare reverse_closure.simps [simp del]

section \<open>ChangedModules\<close>

definition changed_modules ::
  "(string list \<Rightarrow> string option) \<Rightarrow> (string \<Rightarrow> int \<Rightarrow> string option) \<Rightarrow> (string \<Rightarrow> go_mod option)
    \<Rightarrow> (poll \<Rightarrow> bool) \<Rightarrow> inventory \<Rightarrow> string \<Rightarrow> affected_error + module_policy list" where
  "changed_modules git read parse_mod done catalog base =
     (let mds = inv_modules catalog
      in if mds = [] \<or> maximum_modules < int (length mds) then Inl Cardinality_invalid
         else and_then (committed_changes git done base ''HEAD'') (\<lambda>changes.
           and_then (change_scan done mds 0 [] (changes = []) changes) (\<lambda>(selected, all_mods).
             if all_mods then (if done Poll_result then Inl Context_done else Inr mds)
             else and_then (all_dependencies done read parse_mod mds 0 mds) (\<lambda>deps.
               (if done Poll_result then Inl Context_done
                else Inr (filter (\<lambda>md. List.member (reverse_closure deps mds selected) (md_directory md)) mds))))))"

end
