(* ===== verification/Affected_Facts.thy ===== *)
theory Affected_Facts
  imports Affected Inventory_Facts
begin

text \<open>
  The affected modules are exactly those that can reach a changed module along the
  dependency edges: the fixed-point loop against an inductive definition of reachability.
\<close>

section \<open>Reachability\<close>

inductive affected ::
  "(string \<times> string list) list \<Rightarrow> module_policy list \<Rightarrow> string list \<Rightarrow> string \<Rightarrow> bool"
  for deps mds seeds where
  changed: "d \<in> set seeds \<Longrightarrow> affected deps mds seeds d"
| consumer: "affected deps mds seeds (md_directory dependency) \<Longrightarrow> dependency \<in> set mds \<Longrightarrow> md \<in> set mds \<Longrightarrow>
    depends_on deps (md_directory md) (md_module_path dependency) \<Longrightarrow> affected deps mds seeds (md_directory md)"

inductive_cases affectedE: "affected deps mds seeds d"

lemma affected_trans:
  assumes "affected deps mds seeds' d" and "\<And>s. s \<in> set seeds' \<Longrightarrow> affected deps mds seeds s"
  shows "affected deps mds seeds d"
  using assms(1) by (induction rule: affected.induct) (auto intro: assms(2) affected.consumer)

lemma closure_pass_affected:
  assumes "set rest \<subseteq> set mds"
  shows "d \<in> set (closure_pass deps mds selected rest) \<Longrightarrow> affected deps mds selected d"
  using assms
proof (induction deps mds selected rest arbitrary: d rule: closure_pass.induct)
  case (1 deps mds selected)
  then show ?case by (simp add: affected.changed)
next
  case (2 deps mds selected md rest)
  show ?case
  proof (cases "md_directory md \<in> set selected")
    case True
    with 2 show ?thesis by simp
  next
    case False
    show ?thesis
    proof (cases "list_ex (\<lambda>dependency. List.member selected (md_directory dependency) \<and>
                depends_on deps (md_directory md) (md_module_path dependency)) mds")
      case True
      with 2(4,5) False have "affected deps mds (md_directory md # selected) d"
        using 2(2) by simp
      moreover have "affected deps mds selected (md_directory md)"
        using True 2(5) by (auto simp: list_ex_iff intro: affected.intros)
      then have "affected deps mds selected s" if "s \<in> set (md_directory md # selected)" for s
        using that by (auto intro: affected.changed)
      ultimately show ?thesis by (rule affected_trans)
    next
      case no: False
      with 2 False show ?thesis by simp
    qed
  qed
qed

lemma reverse_closure_grows: "set selected \<subseteq> set (reverse_closure deps mds selected)"
proof (induction deps mds selected rule: reverse_closure.induct)
  case (1 deps mds selected)
  then show ?case
    using closure_pass_grows [of selected deps mds mds]
    by (subst reverse_closure.simps) (auto simp: Let_def)
qed

lemma reverse_closure_sound: "d \<in> set (reverse_closure deps mds selected) \<Longrightarrow> affected deps mds selected d"
proof (induction deps mds selected arbitrary: d rule: reverse_closure.induct)
  case (1 deps mds selected)
  show ?case
  proof (cases "length selected < length (closure_pass deps mds selected mds)")
    case True
    with 1 have "affected deps mds (closure_pass deps mds selected mds) d"
      by (simp add: reverse_closure.simps [of deps mds selected] Let_def)
    then show ?thesis by (rule affected_trans) (rule closure_pass_affected [OF subset_refl])
  next
    case False
    with 1(2) show ?thesis
      by (simp add: reverse_closure.simps [of deps mds selected] Let_def affected.changed)
  qed
qed

text \<open>A pass that adds nothing found no consumer of a selected module.\<close>

lemma closure_pass_stable:
  assumes "\<not> length selected < length (closure_pass deps mds selected rest)" and "md \<in> set rest"
    and "dependency \<in> set mds" and "md_directory dependency \<in> set selected"
    and "depends_on deps (md_directory md) (md_module_path dependency)"
  shows "md_directory md \<in> set selected"
  using assms
proof (induction deps mds selected rest rule: closure_pass.induct)
  case (2 deps mds selected m rest)
  have "length selected < length (closure_pass deps mds (md_directory m # selected) rest)"
    using closure_pass_length [of "md_directory m # selected" deps mds rest] by simp
  with 2 show ?case by (auto simp: list_ex_iff split: if_splits)
qed simp

lemma reverse_closure_closed:
  assumes "md \<in> set mds" "dependency \<in> set mds" "md_directory dependency \<in> set (reverse_closure deps mds selected)"
    "depends_on deps (md_directory md) (md_module_path dependency)"
  shows "md_directory md \<in> set (reverse_closure deps mds selected)"
  using assms
proof (induction deps mds selected rule: reverse_closure.induct)
  case (1 deps mds selected)
  show ?case
  proof (cases "length selected < length (closure_pass deps mds selected mds)")
    case True
    then have "reverse_closure deps mds selected = reverse_closure deps mds (closure_pass deps mds selected mds)"
      by (simp add: reverse_closure.simps [of deps mds selected] Let_def)
    with 1 True show ?thesis by metis
  next
    case False
    then have "reverse_closure deps mds selected = selected"
      by (simp add: reverse_closure.simps [of deps mds selected] Let_def)
    with 1 closure_pass_stable [OF False] show ?thesis by metis
  qed
qed

text \<open>the fixed-point loop computes reachability: a directory is selected if and only if it
  was selected at the start or depends, through modules of the catalog, on one that was.\<close>

theorem reverse_closure_exact:
  "d \<in> set (reverse_closure deps mds seeds) \<longleftrightarrow> affected deps mds seeds d"
proof
  assume "affected deps mds seeds d"
  then show "d \<in> set (reverse_closure deps mds seeds)"
    by (induction rule: affected.induct)
      (use reverse_closure_grows in \<open>auto intro: reverse_closure_closed\<close>)
qed (rule reverse_closure_sound)

section \<open>Owners\<close>

definition contains_path :: "string \<Rightarrow> module_policy \<Rightarrow> bool" where
  "contains_path name md \<longleftrightarrow> md_directory md \<noteq> ''.'' \<and> has_prefix name (md_directory md @ ''/'')"

lemma directory_owner_fold:
  assumes "owner = foldl (\<lambda>owner md.
     if md_directory md \<noteq> ''.'' \<and> has_prefix name (md_directory md @ ''/'') \<and> length owner < length (md_directory md)
     then md_directory md else owner) start mds"
  shows "(owner = start \<or> (\<exists>md \<in> set mds. contains_path name md \<and> md_directory md = owner)) \<and>
    length start \<le> length owner \<and>
    (\<forall>md \<in> set mds. contains_path name md \<longrightarrow> length (md_directory md) \<le> length owner)"
  using assms
proof (induction mds arbitrary: start)
  case (Cons md mds)
  let ?start = "if md_directory md \<noteq> ''.'' \<and> has_prefix name (md_directory md @ ''/'') \<and>
      length start < length (md_directory md) then md_directory md else start"
  have "owner = foldl (\<lambda>owner md.
     if md_directory md \<noteq> ''.'' \<and> has_prefix name (md_directory md @ ''/'') \<and> length owner < length (md_directory md)
     then md_directory md else owner) ?start mds"
    using Cons.prems by simp
  note ih = Cons.IH [OF this]
  have s: "?start = start \<or> contains_path name md \<and> ?start = md_directory md"
    "length start \<le> length ?start" "contains_path name md \<longrightarrow> length (md_directory md) \<le> length ?start"
    by (auto simp: contains_path_def)
  from ih s(1) have "owner = start \<or> (\<exists>m \<in> set (md # mds). contains_path name m \<and> md_directory m = owner)"
    by auto
  moreover from ih s(2) have "length start \<le> length owner" by (blast intro: le_trans)
  moreover from ih s(3) have "\<forall>m \<in> set (md # mds). contains_path name m \<longrightarrow> length (md_directory m) \<le> length owner"
    by (auto intro: le_trans)
  ultimately show ?case by blast
qed simp

lemma prefix_same_length:
  "has_prefix name (a @ ''/'') \<Longrightarrow> has_prefix name (b @ ''/'') \<Longrightarrow> length a = length b \<Longrightarrow> a = b"
  by (auto simp: has_prefix_iff)

text \<open>The owner is the deepest module directory that contains the path.\<close>

lemma directory_owner_deepest:
  assumes "md \<in> set mds" "contains_path name md"
    "\<forall>other \<in> set mds. contains_path name other \<longrightarrow> length (md_directory other) \<le> length (md_directory md)"
    "md_directory md \<noteq> []"
  shows "directory_owner mds name = md_directory md"
proof -
  note f = directory_owner_fold [OF directory_owner_def, of mds name]
  then have l: "length (md_directory md) \<le> length (directory_owner mds name)" using assms(1,2) by blast
  then have "directory_owner mds name \<noteq> []" using assms(4) by auto
  with f obtain other where o: "other \<in> set mds" "contains_path name other"
    "md_directory other = directory_owner mds name" by metis
  with assms(3) l have "length (md_directory other) = length (md_directory md)" by (metis le_antisym)
  with o assms(2) show ?thesis by (metis contains_path_def prefix_same_length)
qed

lemma change_scan_narrow:
  assumes "change_scan done mds i selected False names = Inr (selected', False)"
  shows "set selected' = set selected \<union> change_owner mds ` set names \<and>
    (\<forall>name \<in> set names. change_owner mds name \<noteq> [] \<and> \<not> shared_fixture mds (change_owner mds name))"
  using assms
proof (induction names arbitrary: i selected)
  case (Cons name names)
  have wide: "change_scan done mds j sel True ns \<noteq> Inr (s, False)" for j sel ns s
    by (cases ns) auto
  from Cons.prems wide have "change_owner mds name \<noteq> []" "\<not> shared_fixture mds (change_owner mds name)"
    "change_scan done mds (Suc i) (change_owner mds name # selected) False names = Inr (selected', False)"
    by (auto simp: Let_def split: if_splits)
  with Cons.IH show ?case by auto
qed auto

section \<open>Properties\<close>

text \<open>C32: \<open>ChangedModules\<close> selects every module, or exactly the modules reachable, along the
  dependencies read from the repository, from the owners of the changed paths; it narrows
  only if there are changes and each of them has an owner that is not a fixture.\<close>

theorem changed_modules_exact:
  assumes "changed_modules git read parse_mod done catalog base = Inr result"
  shows "result = inv_modules catalog \<or>
    (\<exists>changes deps. committed_changes git done base ''HEAD'' = Inr changes \<and> changes \<noteq> [] \<and>
       list_all (\<lambda>name. change_owner (inv_modules catalog) name \<noteq> [] \<and>
         \<not> shared_fixture (inv_modules catalog) (change_owner (inv_modules catalog) name)) changes \<and>
       all_dependencies done read parse_mod (inv_modules catalog) 0 (inv_modules catalog) = Inr deps \<and>
       result = filter (\<lambda>md. affected deps (inv_modules catalog)
         (map (change_owner (inv_modules catalog)) changes) (md_directory md)) (inv_modules catalog))"
proof (cases "result = inv_modules catalog")
  case False
  let ?mds = "inv_modules catalog"
  from assms False obtain changes selected deps where c: "committed_changes git done base ''HEAD'' = Inr changes"
    and s: "change_scan done ?mds 0 [] (changes = []) changes = Inr (selected, False)"
    and d: "all_dependencies done read parse_mod ?mds 0 ?mds = Inr deps"
    and r: "result = filter (\<lambda>md. md_directory md \<in> set (reverse_closure deps ?mds selected)) ?mds"
    by (auto simp: changed_modules_def Let_def split: if_splits)
  have nonempty: "changes \<noteq> []" using s by auto
  with s have narrow: "set selected = set (map (change_owner ?mds) changes)"
    "\<forall>name \<in> set changes. change_owner ?mds name \<noteq> [] \<and> \<not> shared_fixture ?mds (change_owner ?mds name)"
    using change_scan_narrow [of "done" ?mds 0 "[]" changes selected] by auto
  have seeds: "affected deps ?mds selected x = affected deps ?mds (map (change_owner ?mds) changes) x" for x
  proof
    show "affected deps ?mds (map (change_owner ?mds) changes) x" if "affected deps ?mds selected x"
      by (rule affected_trans [OF that]) (use narrow(1) in \<open>blast intro: affected.changed\<close>)
    show "affected deps ?mds selected x" if "affected deps ?mds (map (change_owner ?mds) changes) x"
      by (rule affected_trans [OF that]) (use narrow(1) in \<open>blast intro: affected.changed\<close>)
  qed
  show ?thesis
    using c d nonempty narrow(2) r unfolding reverse_closure_exact seeds by (auto simp: list_all_iff)
qed simp

definition sample_at :: "string \<Rightarrow> string \<Rightarrow> string list \<Rightarrow> module_policy" where
  "sample_at d p owned = sample_module\<lparr>md_directory := d, md_module_path := p, md_owned_dependencies := owned\<rparr>"

definition sample_trio :: inventory where
  "sample_trio = no_inventory\<lparr>iv_modules := Some
     [sample_at ''b'' ''r/b'' [''r/a''], sample_at ''a'' ''r/a'' [], sample_at ''c'' ''r/c'' []]\<rparr>"

definition sample_git :: "string list \<Rightarrow> string option" where
  "sample_git args = Some (if List.member args ''diff'' then ''a/x.go'' @ [CHR 0x00] else [])"

definition sample_parse :: "string \<Rightarrow> go_mod option" where
  "sample_parse d = Some \<lparr>gm_module = Some d, gm_require = [], gm_replace = []\<rparr>"

definition sample_read :: "string \<Rightarrow> int \<Rightarrow> string option" where
  "sample_read p n = Some (''r/'' @ path_dir p)"

definition sample_sha :: string where
  "sample_sha = replicate 40 CHR ''0''"

lemma sample_affected:
  "changed_modules sample_git sample_read sample_parse (\<lambda>_. False) sample_trio sample_sha =
     Inr [sample_at ''b'' ''r/b'' [''r/a''], sample_at ''a'' ''r/a'' []]"
  by code_simp

theorem changed_modules_exact_witness:
  "[sample_at ''b'' ''r/b'' [''r/a''], sample_at ''a'' ''r/a'' []] \<noteq> inv_modules sample_trio \<and>
   (\<exists>deps. all_dependencies (\<lambda>_. False) sample_read sample_parse (inv_modules sample_trio) 0 (inv_modules sample_trio) = Inr deps \<and>
      [sample_at ''b'' ''r/b'' [''r/a''], sample_at ''a'' ''r/a'' []] =
        filter (\<lambda>md. affected deps (inv_modules sample_trio) [''a''] (md_directory md)) (inv_modules sample_trio))"
proof -
  have c: "committed_changes sample_git (\<lambda>_. False) sample_sha ''HEAD'' = Inr [''a/x.go'']" by code_simp
  have o: "change_owner (inv_modules sample_trio) ''a/x.go'' = ''a''" by code_simp
  have "[sample_at ''b'' ''r/b'' [''r/a''], sample_at ''a'' ''r/a'' []] \<noteq> inv_modules sample_trio" by code_simp
  with changed_modules_exact [OF sample_affected] c o show ?thesis by auto
qed

text \<open>no changed module is missed: the deepest module that contains a changed path is in the
  result.\<close>

theorem changed_modules_complete:
  assumes "changed_modules git read parse_mod done catalog base = Inr result"
    and "committed_changes git done base ''HEAD'' = Inr changes" and "name \<in> set changes"
    and "md \<in> set (inv_modules catalog)" and "contains_path name md" and "md_directory md \<noteq> []"
    and "list_all (\<lambda>other. contains_path name other \<longrightarrow> length (md_directory other) \<le> length (md_directory md))
      (inv_modules catalog)"
  shows "md \<in> set result"
  using changed_modules_exact [OF assms(1)]
proof
  assume "\<exists>changes deps. committed_changes git done base ''HEAD'' = Inr changes \<and> changes \<noteq> [] \<and>
       list_all (\<lambda>name. change_owner (inv_modules catalog) name \<noteq> [] \<and>
         \<not> shared_fixture (inv_modules catalog) (change_owner (inv_modules catalog) name)) changes \<and>
       all_dependencies done read parse_mod (inv_modules catalog) 0 (inv_modules catalog) = Inr deps \<and>
       result = filter (\<lambda>md. affected deps (inv_modules catalog)
         (map (change_owner (inv_modules catalog)) changes) (md_directory md)) (inv_modules catalog)"
  then obtain deps where r: "result = filter (\<lambda>md. affected deps (inv_modules catalog)
         (map (change_owner (inv_modules catalog)) changes) (md_directory md)) (inv_modules catalog)"
    using assms(2) by auto
  have "change_owner (inv_modules catalog) name = md_directory md"
    using directory_owner_deepest [OF assms(4,5) _ assms(6)] assms(6,7)
    by (simp add: change_owner_def list_all_iff)
  with assms(3) have "md_directory md \<in> set (map (change_owner (inv_modules catalog)) changes)"
    by (metis image_eqI list.set_map)
  then have "affected deps (inv_modules catalog) (map (change_owner (inv_modules catalog)) changes) (md_directory md)"
    by (rule affected.changed)
  with r assms(4) show ?thesis by simp
qed (use assms(4) in simp)

theorem changed_modules_complete_witness:
  "sample_at ''a'' ''r/a'' [] \<in> set [sample_at ''b'' ''r/b'' [''r/a''], sample_at ''a'' ''r/a'' []]"
proof -
  have c: "committed_changes sample_git (\<lambda>_. False) sample_sha ''HEAD'' = Inr [''a/x.go'']" by code_simp
  have m: "sample_at ''a'' ''r/a'' [] \<in> set (inv_modules sample_trio)" by code_simp
  have p: "contains_path ''a/x.go'' (sample_at ''a'' ''r/a'' [])" by code_simp
  have d: "list_all (\<lambda>other. contains_path ''a/x.go'' other \<longrightarrow>
      length (md_directory other) \<le> length (md_directory (sample_at ''a'' ''r/a'' []))) (inv_modules sample_trio)"
    by code_simp
  have n: "md_directory (sample_at ''a'' ''r/a'' []) \<noteq> []" by code_simp
  show ?thesis
    by (rule changed_modules_complete [OF sample_affected c _ m p n d]) simp
qed

end
