(* ===== verification/Go_Files.thy ===== *)
theory Go_Files
  imports Go_Path
begin

text \<open>
  The part of a Unix file system that the publishing code uses, as explicit state: the
  nodes by path, and a script of what happens at each system call. One entry of the
  script says whether the call fails with an I/O error, how many bytes a failing write
  still wrote, and which new names other processes create just before the call (an entry
  for a name that exists has no effect: the other publishers follow the same protocol and
  never replace a file). An exhausted script means no fault and no interference.
\<close>

datatype node = File string | Directory | Symlink string

datatype io_error = Err_exist | Err_not_exist | Err_other

record sys_event =
  ev_fault :: bool
  ev_partial :: nat
  ev_others :: "(string \<times> node) list"

record world =
  w_nodes :: "(string \<times> node) list"
  w_script :: "sys_event list"

definition node_at :: "world \<Rightarrow> string \<Rightarrow> node option" where
  "node_at w p = map_of (w_nodes w) p"

definition add_node :: "string \<Rightarrow> node \<Rightarrow> world \<Rightarrow> world" where
  "add_node p n w = w\<lparr>w_nodes := (p, n) # w_nodes w\<rparr>"

definition remove_node :: "string \<Rightarrow> world \<Rightarrow> world" where
  "remove_node p w = w\<lparr>w_nodes := filter (\<lambda>(q, n). q \<noteq> p) (w_nodes w)\<rparr>"

definition add_others :: "(string \<times> node) list \<Rightarrow> world \<Rightarrow> world" where
  "add_others others w =
     foldl (\<lambda>w (p, n). if node_at w p = None then add_node p n w else w) w others"

definition no_event :: sys_event where
  "no_event = \<lparr>ev_fault = False, ev_partial = 0, ev_others = []\<rparr>"

text \<open>The event of the next system call, after the other processes had their turn.\<close>

definition next_event :: "world \<Rightarrow> sys_event \<times> world" where
  "next_event w =
     (case w_script w of
        [] \<Rightarrow> (no_event, w)
      | e # es \<Rightarrow> (e, add_others (ev_others e) (w\<lparr>w_script := es\<rparr>)))"

text \<open>Following symbolic links at the last element, with the kernel's bound of 40.\<close>

fun resolve :: "nat \<Rightarrow> world \<Rightarrow> string \<Rightarrow> node option" where
  "resolve 0 w p = None"
| "resolve (Suc fuel) w p =
     (case node_at w p of
        Some (Symlink t) \<Rightarrow> resolve fuel w (if is_abs t then path_clean t else path_join [path_dir p, t])
      | r \<Rightarrow> r)"

definition is_directory :: "world \<Rightarrow> string \<Rightarrow> bool" where
  "is_directory w p \<longleftrightarrow> p = ''/'' \<or> resolve 40 w p = Some Directory"

section \<open>System calls\<close>

definition sys_mkdir :: "string \<Rightarrow> world \<Rightarrow> world \<times> io_error option" where
  "sys_mkdir p w0 =
     (let (e, w) = next_event w0
      in if ev_fault e then (w, Some Err_other)
         else if node_at w p \<noteq> None \<or> p = ''/'' then (w, Some Err_exist)
         else if \<not> is_directory w (path_dir p) then (w, Some Err_not_exist)
         else (add_node p Directory w, None))"

definition sys_lstat :: "string \<Rightarrow> world \<Rightarrow> world \<times> (io_error + node)" where
  "sys_lstat p w0 =
     (let (e, w) = next_event w0
      in if ev_fault e then (w, Inl Err_other)
         else (w, case node_at w p of
                    None \<Rightarrow> if p = ''/'' then Inr Directory else Inl Err_not_exist
                  | Some n \<Rightarrow> Inr n))"

text \<open>\<open>os.MkdirAll\<close>: nothing to do for a directory, otherwise the parents first.\<close>

fun sys_mkdir_all :: "nat \<Rightarrow> string \<Rightarrow> world \<Rightarrow> world \<times> io_error option" where
  "sys_mkdir_all 0 p w = (w, Some Err_other)"
| "sys_mkdir_all (Suc fuel) p w =
     (if is_directory w p then (w, None)
      else if node_at w p \<noteq> None then (w, Some Err_other)
      else (let (w, e) = sys_mkdir_all fuel (path_dir p) w
            in case e of
                 Some f \<Rightarrow> (w, Some f)
               | None \<Rightarrow>
                   (let (w, e) = sys_mkdir p w
                    in (w, if e \<noteq> None \<and> is_directory w p then None else e))))"

definition temporary_name :: "string \<Rightarrow> string \<Rightarrow> nat \<Rightarrow> string" where
  "temporary_name directory prefix k = directory @ ''/'' @ prefix @ dec_nat k"

text \<open>\<open>os.CreateTemp\<close> opens a name that did not exist, exclusively.\<close>

definition sys_create_temp :: "string \<Rightarrow> string \<Rightarrow> world \<Rightarrow> world \<times> (io_error + string)" where
  "sys_create_temp directory prefix w0 =
     (let (e, w) = next_event w0
      in if ev_fault e \<or> \<not> is_directory w directory then (w, Inl Err_other)
         else (case find (\<lambda>k. node_at w (temporary_name directory prefix k) = None)
                     [0..<Suc (length (w_nodes w))] of
                 None \<Rightarrow> (w, Inl Err_exist)
               | Some k \<Rightarrow>
                   (add_node (temporary_name directory prefix k) (File []) w,
                    Inr (temporary_name directory prefix k))))"

definition file_content :: "world \<Rightarrow> string \<Rightarrow> string" where
  "file_content w p = (case node_at w p of Some (File c) \<Rightarrow> c | _ \<Rightarrow> [])"

text \<open>Writing to the open temporary file; a failed write may have written some bytes.\<close>

definition sys_write :: "string \<Rightarrow> string \<Rightarrow> world \<Rightarrow> world \<times> io_error option" where
  "sys_write p data w0 =
     (let (e, w) = next_event w0;
          written = (if ev_fault e then take (ev_partial e) data else data)
      in (add_node p (File (file_content w p @ written)) w, if ev_fault e then Some Err_other else None))"

text \<open>\<open>Sync\<close> and \<open>Close\<close> change no name.\<close>

definition sys_flush :: "world \<Rightarrow> world \<times> io_error option" where
  "sys_flush w0 = (let (e, w) = next_event w0 in (w, if ev_fault e then Some Err_other else None))"

text \<open>\<open>os.Link\<close> never replaces: any node at the new name refuses it.\<close>

definition sys_link :: "string \<Rightarrow> string \<Rightarrow> world \<Rightarrow> world \<times> io_error option" where
  "sys_link old new w0 =
     (let (e, w) = next_event w0
      in if ev_fault e then (w, Some Err_other)
         else if node_at w new \<noteq> None then (w, Some Err_exist)
         else (case node_at w old of
                 None \<Rightarrow> (w, Some Err_not_exist)
               | Some n \<Rightarrow> (add_node new n w, None)))"

definition sys_read_file :: "string \<Rightarrow> world \<Rightarrow> world \<times> (io_error + string)" where
  "sys_read_file p w0 =
     (let (e, w) = next_event w0
      in if ev_fault e then (w, Inl Err_other)
         else (w, case resolve 40 w p of
                    Some (File c) \<Rightarrow> Inr c
                  | None \<Rightarrow> Inl Err_not_exist
                  | _ \<Rightarrow> Inl Err_other))"

definition sys_remove :: "string \<Rightarrow> world \<Rightarrow> world" where
  "sys_remove p w0 =
     (let (e, w) = next_event w0 in if ev_fault e then w else remove_node p w)"

text \<open>The same with the error, which \<open>os.Remove\<close> returns for a missing name too.\<close>

definition sys_unlink :: "string \<Rightarrow> world \<Rightarrow> world \<times> io_error option" where
  "sys_unlink p w0 =
     (let (e, w) = next_event w0
      in if ev_fault e then (w, Some Err_other)
         else if node_at w p = None then (w, Some Err_not_exist)
         else (remove_node p w, None))"

text \<open>\<open>os.Rename\<close> of a file replaces another file in one step, or changes nothing.\<close>

definition sys_rename :: "string \<Rightarrow> string \<Rightarrow> world \<Rightarrow> world \<times> io_error option" where
  "sys_rename old new w0 =
     (let (e, w) = next_event w0
      in if ev_fault e \<or> node_at w new = Some Directory then (w, Some Err_other)
         else (case node_at w old of
                 None \<Rightarrow> (w, Some Err_not_exist)
               | Some n \<Rightarrow> (add_node new n (remove_node old w), None)))"

section \<open>What the calls keep\<close>

text \<open>\<open>keeps T w w'\<close>: every name outside \<open>T\<close> that existed still has the same node.\<close>

definition keeps :: "string set \<Rightarrow> world \<Rightarrow> world \<Rightarrow> bool" where
  "keeps T w w' \<longleftrightarrow> (\<forall>p n. p \<notin> T \<longrightarrow> node_at w p = Some n \<longrightarrow> node_at w' p = Some n)"

named_theorems keeps_intros \<open>what each system call keeps\<close>

lemma keeps_refl [simp, keeps_intros]: "keeps T w w"
  by (simp add: keeps_def)

lemma keeps_trans [trans]: "keeps T w w' \<Longrightarrow> keeps T w' w'' \<Longrightarrow> keeps T w w''"
  by (simp add: keeps_def)

lemma keeps_mono: "keeps T w w' \<Longrightarrow> T \<subseteq> U \<Longrightarrow> keeps U w w'"
  by (auto simp: keeps_def)

lemma keepsD: "keeps T w w' \<Longrightarrow> node_at w p = Some n \<Longrightarrow> p \<notin> T \<Longrightarrow> node_at w' p = Some n"
  by (simp add: keeps_def)

lemma node_at_add [simp]: "node_at (add_node p n w) q = (if q = p then Some n else node_at w q)"
  by (simp add: node_at_def add_node_def)

lemma node_at_remove [simp]: "node_at (remove_node p w) q = (if q = p then None else node_at w q)"
proof -
  have "map_of (filter (\<lambda>(q, n). q \<noteq> p) m) q = (if q = p then None else map_of m q)" for m :: "(string \<times> node) list"
    by (induction m) auto
  then show ?thesis by (simp add: node_at_def remove_node_def)
qed

lemma node_at_script [simp]: "node_at (w\<lparr>w_script := es\<rparr>) p = node_at w p"
  by (simp add: node_at_def)

lemma add_others_keeps: "keeps {} w (add_others others w)"
  unfolding add_others_def
proof (induction others arbitrary: w)
  case (Cons pn others)
  obtain p n where pn: "pn = (p, n)" by (cases pn)
  have "keeps {} w (if node_at w p = None then add_node p n w else w)"
    by (auto simp: keeps_def)
  from keeps_trans [OF this Cons.IH] show ?case by (simp add: pn)
qed simp

lemma next_event_keeps: "next_event w = (e, w') \<Longrightarrow> keeps {} w w'"
  using add_others_keeps [of "w\<lparr>w_script := es\<rparr>" for es]
  by (auto simp: next_event_def keeps_def split: list.splits)

lemma sys_mkdir_keeps [keeps_intros]: "sys_mkdir p w = (w', r) \<Longrightarrow> keeps {} w w'"
  by (auto simp: sys_mkdir_def Let_def keeps_def split: if_splits prod.splits
      dest!: next_event_keeps)

lemma sys_lstat_keeps [keeps_intros]: "sys_lstat p w = (w', r) \<Longrightarrow> keeps {} w w'"
  by (auto simp: sys_lstat_def Let_def split: if_splits prod.splits dest!: next_event_keeps)

lemma sys_mkdir_all_keeps [keeps_intros]: "sys_mkdir_all fuel p w = (w', r) \<Longrightarrow> keeps {} w w'"
proof (induction fuel p w arbitrary: w' r rule: sys_mkdir_all.induct)
  case (2 fuel p w)
  then show ?case
    by (auto split: if_splits prod.splits option.splits dest!: sys_mkdir_keeps intro: keeps_trans)
qed simp

lemma sys_create_temp_keeps [keeps_intros]: "sys_create_temp d pre w = (w', r) \<Longrightarrow> keeps {} w w'"
  by (auto simp: sys_create_temp_def Let_def keeps_def find_Some_iff split: if_splits prod.splits option.splits
      dest!: next_event_keeps)

lemma sys_create_temp_ok:
  assumes "sys_create_temp d pre w = (w', Inr t)"
  obtains k where "t = temporary_name d pre k" and "node_at w' t = Some (File [])" and "node_at w t = None"
proof -
  obtain e v where n: "next_event w = (e, v)" by fastforce
  with assms obtain k where "find (\<lambda>k. node_at v (temporary_name d pre k) = None) [0..<Suc (length (w_nodes v))] = Some k"
    "t = temporary_name d pre k" "w' = add_node t (File []) v"
    by (auto simp: sys_create_temp_def split: if_splits option.splits)
  moreover from this have "node_at v t = None" by (auto simp: find_Some_iff)
  then have "node_at w t = None"
    using next_event_keeps [OF n] by (cases "node_at w t") (auto dest: keepsD)
  ultimately show thesis using that by simp
qed

lemma sys_write_keeps [keeps_intros]: "sys_write p d w = (w', r) \<Longrightarrow> keeps {p} w w'"
  by (auto simp: sys_write_def Let_def keeps_def split: prod.splits dest!: next_event_keeps)

lemma sys_write_ok:
  assumes "sys_write p d w = (w', None)" and "node_at w p = Some (File [])"
  shows "node_at w' p = Some (File d)"
proof -
  obtain ev v where v: "next_event w = (ev, v)" by fastforce
  then have "node_at v p = Some (File [])" using assms(2) next_event_keeps keepsD by blast
  then show ?thesis using assms(1) v by (auto simp: sys_write_def file_content_def split: if_splits)
qed

lemma sys_flush_keeps [keeps_intros]: "sys_flush w = (w', r) \<Longrightarrow> keeps {} w w'"
  by (auto simp: sys_flush_def Let_def split: prod.splits dest!: next_event_keeps)

lemma sys_link_keeps [keeps_intros]: "sys_link old new w = (w', r) \<Longrightarrow> keeps {} w w'"
  by (auto simp: sys_link_def Let_def keeps_def split: if_splits prod.splits option.splits
      dest!: next_event_keeps)

lemma sys_link_ok:
  assumes "sys_link old new w = (w', None)" and "node_at w old = Some n"
  shows "node_at w' new = Some n"
proof -
  obtain e v where v: "next_event w = (e, v)" by fastforce
  then have "node_at v old = Some n" using assms(2) next_event_keeps keepsD by blast
  with assms(1) v show ?thesis by (auto simp: sys_link_def split: if_splits)
qed

lemma sys_link_exists:
  assumes "sys_link old new w = (w', Some Err_exist)"
  shows "node_at w' new \<noteq> None"
  using assms by (auto simp: sys_link_def Let_def split: if_splits prod.splits option.splits)

lemma sys_read_file_keeps [keeps_intros]: "sys_read_file p w = (w', r) \<Longrightarrow> keeps {} w w'"
  by (auto simp: sys_read_file_def Let_def split: if_splits prod.splits dest!: next_event_keeps)

lemma sys_read_file_ok:
  assumes "sys_read_file p w = (w', Inr c)" and "node_at w' p = Some (File d)"
  shows "c = d"
  using assms
  by (auto simp: sys_read_file_def Let_def eval_nat_numeral split: if_splits prod.splits option.splits node.splits)

lemma sys_remove_keeps [keeps_intros]: "keeps {p} w (sys_remove p w)"
  by (auto simp: sys_remove_def Let_def keeps_def split: prod.splits dest!: next_event_keeps)

lemma sys_unlink_keeps [keeps_intros]: "sys_unlink p w = (w', r) \<Longrightarrow> keeps {p} w w'"
  by (auto simp: sys_unlink_def Let_def keeps_def split: if_splits prod.splits dest!: next_event_keeps)

lemma sys_unlink_failed: "sys_unlink p w = (w', Some e) \<Longrightarrow> keeps {} w w'"
  by (auto simp: sys_unlink_def Let_def split: if_splits prod.splits dest!: next_event_keeps)

lemma sys_rename_keeps [keeps_intros]: "sys_rename old new w = (w', r) \<Longrightarrow> keeps {old, new} w w'"
  by (auto simp: sys_rename_def Let_def keeps_def split: if_splits prod.splits option.splits
      dest!: next_event_keeps)

lemma sys_rename_failed: "sys_rename old new w = (w', Some e) \<Longrightarrow> keeps {} w w'"
  by (auto simp: sys_rename_def Let_def split: if_splits prod.splits option.splits dest!: next_event_keeps)

lemma sys_rename_ok:
  assumes "sys_rename old new w = (w', None)" and "node_at w old = Some n"
  shows "node_at w' new = Some n"
proof -
  obtain e v where v: "next_event w = (e, v)" by fastforce
  then have "node_at v old = Some n" using assms(2) next_event_keeps keepsD by blast
  with assms(1) v show ?thesis by (auto simp: sys_rename_def split: if_splits)
qed

section \<open>Writing a file durably\<close>

text \<open>The sequence \<open>Write\<close>, \<open>Sync\<close>, \<open>Close\<close> both stores use: the first error wins, the file is
  closed in any case.\<close>

definition write_durable :: "string \<Rightarrow> string \<Rightarrow> world \<Rightarrow> world \<times> io_error option" where
  "write_durable temporary data w =
     (let (w1, e1) = sys_write temporary data w;
          (w2, e2) = (if e1 = None then sys_flush w1 else (w1, e1));
          (w3, e3) = sys_flush w2
      in (w3, if e2 = None then e3 else e2))"

lemma write_durable_keeps [keeps_intros]:
  assumes "write_durable t d w = (w', r)" shows "keeps {t} w w'"
proof -
  obtain w1 e1 where 1: "sys_write t d w = (w1, e1)" by fastforce
  obtain w2 e2 where 2: "(if e1 = None then sys_flush w1 else (w1, e1)) = (w2, e2)" by fastforce
  obtain w3 e3 where 3: "sys_flush w2 = (w3, e3)" by fastforce
  have "keeps {t} w w1" using 1 by (rule sys_write_keeps)
  also have "keeps {t} w1 w2" using 2 sys_flush_keeps [of w1 w2 e2]
    by (auto split: if_splits elim: keeps_mono)
  also have "keeps {t} w2 w3" using 3 sys_flush_keeps keeps_mono by blast
  finally show ?thesis using assms by (simp add: write_durable_def 1 2 3)
qed

lemma write_durable_ok:
  assumes "write_durable t d w = (w', None)" and "node_at w t = Some (File [])"
  shows "node_at w' t = Some (File d)"
proof -
  obtain w1 e1 where 1: "sys_write t d w = (w1, e1)" by fastforce
  obtain w2 e2 where 2: "(if e1 = None then sys_flush w1 else (w1, e1)) = (w2, e2)" by fastforce
  obtain w3 e3 where 3: "sys_flush w2 = (w3, e3)" by fastforce
  have e: "e2 = None" "w' = w3" using assms(1) by (auto simp: write_durable_def 1 2 3 split: if_splits)
  then have e1: "e1 = None" using 2 by (auto split: if_splits)
  have "node_at w1 t = Some (File d)" using sys_write_ok [OF 1 [unfolded e1] assms(2)] .
  moreover have "keeps {} w1 w2" "keeps {} w2 w3" using 2 3 e1 sys_flush_keeps by auto
  ultimately show ?thesis using e keepsD by (metis empty_iff)
qed

text \<open>The sequence \<open>Chmod\<close>, \<open>Write\<close>, \<open>Sync\<close>, \<open>Close\<close> of a replacement: at an error the file is closed and
  the error returned. Mode bits are not modelled: \<open>Chmod\<close> is a call that may fail. A short write
  without an error does not happen for \<open>os.File\<close>.\<close>

definition write_temporary :: "string \<Rightarrow> string \<Rightarrow> world \<Rightarrow> world \<times> io_error option" where
  "write_temporary temporary content w =
     (let (w, chmod) = sys_flush w
      in if chmod \<noteq> None then (fst (sys_flush w), chmod)
         else (let (w, written) = sys_write temporary content w
               in if written \<noteq> None then (fst (sys_flush w), written)
                  else (let (w, synced) = sys_flush w
                        in if synced \<noteq> None then (fst (sys_flush w), synced) else sys_flush w)))"

lemma flush_within: "sys_flush w = (w', r) \<Longrightarrow> keeps T w w'"
  using sys_flush_keeps keeps_mono by blast

lemma flush_discard: "keeps T w (fst (sys_flush w))"
  using flush_within [of w "fst (sys_flush w)" "snd (sys_flush w)"] by simp

lemma write_temporary_spec:
  assumes "write_temporary t c w = (w', r)"
  shows "keeps {t} w w' \<and> (r = None \<longrightarrow> node_at w t = Some (File []) \<longrightarrow> node_at w' t = Some (File c))"
proof -
  obtain w1 e1 where 1: "sys_flush w = (w1, e1)" by fastforce
  obtain w2 e2 where 2: "sys_write t c w1 = (w2, e2)" by fastforce
  obtain w3 e3 where 3: "sys_flush w2 = (w3, e3)" by fastforce
  obtain w4 e4 where 4: "sys_flush w3 = (w4, e4)" by fastforce
  note k1 = flush_within [OF 1, of "{t}"]
  note k2 = keeps_trans [OF k1 sys_write_keeps [OF 2]]
  note k3 = keeps_trans [OF k2 flush_within [OF 3]]
  note k4 = keeps_trans [OF k3 flush_within [OF 4]]
  note r = assms [unfolded write_temporary_def Let_def 1 2 3 4 prod.case]
  have "keeps {t} w w'"
    using r keeps_trans [OF k1 flush_discard] keeps_trans [OF k2 flush_discard] keeps_trans [OF k3 flush_discard] k3 k4
    by (auto split: if_splits)
  moreover have "node_at w' t = Some (File c)" if "r = None" "node_at w t = Some (File [])"
  proof -
    have e: "e1 = None" "e2 = None" "w' = w4" using r that(1) by (auto split: if_splits)
    have "node_at w1 t = Some (File [])" using keepsD [OF flush_within [OF 1, of "{}"] that(2)] by simp
    then have "node_at w2 t = Some (File c)" using sys_write_ok 2 e(2) by blast
    then show ?thesis
      using keepsD [OF flush_within [OF 3, of "{}"]] keepsD [OF flush_within [OF 4, of "{}"]] e(3) by simp
  qed
  ultimately show ?thesis by blast
qed

lemma keeps_fresh: "keeps (insert t T) w w' \<Longrightarrow> node_at w t = None \<Longrightarrow> keeps T w w'"
  by (auto simp: keeps_def) (metis option.distinct(1))

end
