(* ===== verification/Immutable_Store.thy ===== *)
theory Immutable_Store
  imports Go_Files
begin

text \<open>
  Publication without replacement. \<open>publish_immutable\<close> is the sequence the evidence store
  (internal/evidence/evidence.go, \<open>store\<close>) and the mutation report store
  (internal/mutation/report_store.go, \<open>publishReport\<close>) both perform: a private temporary
  file, write, sync, close, a hard link to the destination, and, if the destination
  exists, a comparison with what is there. The locale states what a client may rely on;
  the two stores interpret it in their own theories.
\<close>

datatype publish_error =
    Temp_failed | Write_failed | Link_failed | Read_failed | Content_conflict

text \<open>The link, or the match with the content another publisher left, which it then returns.\<close>

definition link_or_match ::
  "string \<Rightarrow> string \<Rightarrow> (string \<Rightarrow> bool) \<Rightarrow> world \<Rightarrow> world \<times> (publish_error + string option)" where
  "link_or_match temporary destination matches w =
     (case sys_link temporary destination w of
        (w, None) \<Rightarrow> (w, Inr None)
      | (w, Some Err_exist) \<Rightarrow>
          (case sys_read_file destination w of
             (w, Inl e) \<Rightarrow> (w, Inl Read_failed)
           | (w, Inr existing) \<Rightarrow> (w, if matches existing then Inr (Some existing) else Inl Content_conflict))
      | (w, Some e) \<Rightarrow> (w, Inl Link_failed))"

definition publish_immutable ::
  "string \<Rightarrow> string \<Rightarrow> string \<Rightarrow> string \<Rightarrow> (string \<Rightarrow> bool) \<Rightarrow> world \<Rightarrow> world \<times> (publish_error + string option)" where
  "publish_immutable directory prefix destination data matches w =
     (case sys_create_temp directory prefix w of
        (w, Inl e) \<Rightarrow> (w, Inl Temp_failed)
      | (w, Inr temporary) \<Rightarrow>
          (case write_durable temporary data w of
             (w, Some e) \<Rightarrow> (sys_remove temporary w, Inl Write_failed)
           | (w, None) \<Rightarrow>
               (let (w, r) = link_or_match temporary destination matches w
                in (sys_remove temporary w, r))))"

lemma link_or_match_keeps: "link_or_match t d m w = (w', r) \<Longrightarrow> keeps {} w w'"
  by (auto simp: link_or_match_def split: prod.splits option.splits io_error.splits sum.splits if_splits
      dest: sys_link_keeps sys_read_file_keeps intro: keeps_trans)

lemma link_or_match_fresh:
  "link_or_match t d m w = (w', Inr None) \<Longrightarrow> node_at w t = Some n \<Longrightarrow> node_at w' d = Some n"
  by (auto simp: link_or_match_def split: prod.splits option.splits io_error.splits sum.splits if_splits
      dest: sys_link_ok)

lemma link_or_match_reused:
  assumes "link_or_match t d m w = (w', Inr (Some c))"
  shows "\<exists>n. node_at w' d = Some n \<and> m c \<and> (\<forall>c'. n = File c' \<longrightarrow> c' = c)"
proof -
  from assms obtain w1 where l: "sys_link t d w = (w1, Some Err_exist)"
    and r: "sys_read_file d w1 = (w', Inr c)" and m: "m c"
    by (auto simp: link_or_match_def split: prod.splits option.splits io_error.splits sum.splits if_splits)
  from sys_link_exists [OF l] obtain n where "node_at w1 d = Some n" by blast
  then have n: "node_at w' d = Some n" using sys_read_file_keeps [OF r] keepsD by blast
  have "c' = c" if "n = File c'" for c'
    using sys_read_file_ok [OF r] n that by simp
  with n m show ?thesis by blast
qed

text \<open>Everything but the temporary name survives, and the temporary name did not exist.\<close>

lemma publish_immutable_keeps:
  assumes "publish_immutable dir pre dest data m w = (w', r)"
  shows "\<exists>T. keeps T w w' \<and> (\<forall>t \<in> T. node_at w t = None \<and> (\<exists>k. t = temporary_name dir pre k))"
proof -
  obtain w1 c where c: "sys_create_temp dir pre w = (w1, c)" by fastforce
  show ?thesis
  proof (cases c)
    case (Inl e)
    with assms c have "w' = w1" by (simp add: publish_immutable_def)
    with sys_create_temp_keeps [OF c] show ?thesis by blast
  next
    case (Inr t)
    obtain w2 e where d: "write_durable t data w1 = (w2, e)" by fastforce
    obtain w3 r3 where l: "link_or_match t dest m w2 = (w3, r3)" by fastforce
    have t: "node_at w t = None" "\<exists>k. t = temporary_name dir pre k"
      using sys_create_temp_ok c Inr by metis+
    have "w' = sys_remove t w2 \<or> w' = sys_remove t w3"
      using assms c Inr d l by (cases e) (auto simp: publish_immutable_def)
    moreover have "keeps {t} w w2"
      using sys_create_temp_keeps [OF c] write_durable_keeps [OF d] keeps_mono keeps_trans by blast
    moreover have "keeps {t} w2 w3" using link_or_match_keeps [OF l] keeps_mono by blast
    ultimately have "keeps {t} w w'" using sys_remove_keeps keeps_trans by metis
    with t show ?thesis by blast
  qed
qed

lemma publish_immutable_ok:
  assumes "publish_immutable dir pre dest data m w = (w', Inr found)"
    and "\<And>k. temporary_name dir pre k \<noteq> dest"
  shows "\<exists>n. node_at w' dest = Some n \<and>
    (case found of None \<Rightarrow> n = File data | Some c \<Rightarrow> m c \<and> (\<forall>c'. n = File c' \<longrightarrow> c' = c))"
proof -
  obtain w1 c where c: "sys_create_temp dir pre w = (w1, c)" by fastforce
  with assms(1) obtain t where t: "c = Inr t" by (cases c) (auto simp: publish_immutable_def)
  obtain w2 e where d: "write_durable t data w1 = (w2, e)" by fastforce
  obtain w3 r3 where l: "link_or_match t dest m w2 = (w3, r3)" by fastforce
  from assms(1) c t d l have e: "e = None" "r3 = Inr found" "w' = sys_remove t w3"
    by (cases e; auto simp: publish_immutable_def)+
  have f: "node_at w1 t = Some (File [])" "t \<noteq> dest"
    using sys_create_temp_ok [OF c [unfolded t]] assms(2) by metis+
  have "\<exists>n. node_at w3 dest = Some n \<and>
    (case found of None \<Rightarrow> n = File data | Some c \<Rightarrow> m c \<and> (\<forall>c'. n = File c' \<longrightarrow> c' = c))"
  proof (cases found)
    case (Some x)
    then show ?thesis using link_or_match_reused l e(2) by auto
  next
    case None
    then have "link_or_match t dest m w2 = (w3, Inr None)" using l e(2) by simp
    with None show ?thesis
      using link_or_match_fresh write_durable_ok [OF d [unfolded e(1)] f(1)]
      by simp
  qed
  moreover have "node_at w3 dest = Some n \<Longrightarrow> node_at w' dest = Some n" for n
    unfolding e(3) using keepsD [OF sys_remove_keeps] f(2) by fastforce
  ultimately show ?thesis by metis
qed

section \<open>The contract\<close>

text \<open>
  A publisher of one destination: \<open>run\<close> publishes \<open>content\<close>, or finds content it \<open>admits\<close>.
  It never changes a destination that exists, and its success says what is there.
\<close>

locale immutable_store =
  fixes run :: "world \<Rightarrow> world \<times> ('e + string \<times> bool)"
    and destination content :: string
    and admits :: "string \<Rightarrow> bool"
  assumes never_replaces: "run w = (w', r) \<Longrightarrow> node_at w destination = Some n \<Longrightarrow> node_at w' destination = Some n"
    and published: "run w = (w', Inr (p, reused)) \<Longrightarrow>
      p = destination \<and> (\<exists>n. node_at w' destination = Some n \<and>
        (if reused then \<forall>c. n = File c \<longrightarrow> admits c else n = File content))"
begin

lemma success_present: "run w = (w', Inr (p, reused)) \<Longrightarrow> \<exists>n. node_at w' destination = Some n"
  using published by blast

lemma success_content:
  assumes "run w = (w', Inr (p, reused))" and "node_at w' destination = Some (File c)"
  shows "c = content \<or> admits c"
  using published [OF assms(1)] assms(2) by (auto split: if_splits)

text \<open>What the first publisher left is there after any number of further runs.\<close>

lemma runs_keep:
  "node_at w destination = Some n \<Longrightarrow> node_at (((\<lambda>w. fst (run w)) ^^ k) w) destination = Some n"
proof (induction k)
  case (Suc k)
  let ?w = "((\<lambda>w. fst (run w)) ^^ k) w"
  have "node_at (fst (run ?w)) destination = Some n"
    using never_replaces [of ?w "fst (run ?w)" "snd (run ?w)"] Suc by simp
  then show ?case by simp
qed simp

end

text \<open>Two publishers of one destination: whatever each of them published, both agree with the
  one content that stays there.\<close>

locale competing_stores =
  first: immutable_store run1 destination content1 admits1 +
  second: immutable_store run2 destination content2 admits2
  for run1 :: "world \<Rightarrow> world \<times> ('e + string \<times> bool)" and run2 :: "world \<Rightarrow> world \<times> ('f + string \<times> bool)"
    and destination content1 content2 admits1 admits2
begin

lemma both_agree:
  assumes "run1 w = (w1, Inr (p, b))" and "run2 w1 = (w2, Inr (q, d))" and "node_at w2 destination = Some (File c)"
  shows "(c = content1 \<or> admits1 c) \<and> (c = content2 \<or> admits2 c)"
proof -
  from first.success_present [OF assms(1)] obtain n where n: "node_at w1 destination = Some n" by blast
  with second.never_replaces [OF assms(2)] have "node_at w2 destination = Some n" by simp
  with assms(3) n have "node_at w1 destination = Some (File c)" by simp
  with first.success_content [OF assms(1)] second.success_content [OF assms(2,3)] show ?thesis by blast
qed

lemma fresh_then_reused:
  assumes "run1 w = (w1, Inr (p, False))" and "run2 w1 = (w2, Inr (q, d))"
  shows "node_at w2 destination = Some (File content1) \<and> (content1 = content2 \<or> admits2 content1)"
proof -
  have "node_at w1 destination = Some (File content1)" using first.published [OF assms(1)] by auto
  with second.never_replaces [OF assms(2)] have "node_at w2 destination = Some (File content1)" by simp
  with second.success_content [OF assms(2)] show ?thesis by blast
qed

end

end
