(* ===== verification/Evidence.thy ===== *)
theory Evidence
  imports Immutable_Store Strict_Json
begin

text \<open>
  internal/evidence: content-addressed verification records, their strict parsing, the
  store that publishes them, and the inspection of a store. Arguments of the model:
  \<open>encode\<close> and \<open>decode\<close> are encoding/json on a record (\<open>decode\<close> also tells what follows
  the first value), \<open>sha256\<close> is the hash function.

  A completion time is an option: \<open>None\<close> is the zero time.
\<close>

section \<open>Records\<close>

record evidence_record =
  er_schema_version :: int
  er_repository :: string
  er_module :: string
  er_package :: string
  er_gate :: string
  er_input_digest :: string
  er_verifier_digest :: string
  er_result :: string
  er_report_digest :: string
  er_environment :: "(string \<times> string) list"
  er_completed_at :: "int option"

datatype evidence_error =
    Location_malformed | Inspect_failed io_error | Not_regular | Open_failed io_error | Close_failed
  | Path_mismatch | Read_failure | Record_too_large | Decode_failure | Multiple_values
  | Trailing_data | Schema_version_bad | Owner_missing | Gate_invalid | Digest_invalid
  | Result_invalid | Completed_missing | Environment_key_empty
  | Root_not_absolute | Directory_failed | Directory_not_real | Publish_failed publish_error
  | Walk_failed | Tree_symlink string | Path_malformed string | Repository_mismatch string
  | Unknown_module | Duplicate_identity string string

definition evidence_schema_version :: int where
  "evidence_schema_version = 1"

definition evidence_maximum_size :: int where
  "evidence_maximum_size = 1048576"

text \<open>\<open>^sha256:[0-9a-f]{64}$\<close> and \<open>^[a-z][a-z0-9-]*$\<close>\<close>

definition digest_re :: "string \<Rightarrow> bool" where
  "digest_re s \<longleftrightarrow> has_prefix s ''sha256:'' \<and> int (length s) = 71 \<and>
     all_in ''0123456789abcdef'' (trim_prefix s ''sha256:'')"

definition gate_re :: "string \<Rightarrow> bool" where
  "gate_re s \<longleftrightarrow> s \<noteq> [] \<and> List.member ''abcdefghijklmnopqrstuvwxyz'' (hd s) \<and>
     all_in ''abcdefghijklmnopqrstuvwxyz0123456789-'' (tl s)"

definition record_validate :: "evidence_record \<Rightarrow> evidence_error option" where
  "record_validate r = first_error
     [refuse (er_schema_version r \<noteq> evidence_schema_version) Schema_version_bad,
      refuse (er_repository r = [] \<or> er_module r = []) Owner_missing,
      refuse (\<not> gate_re (er_gate r)) Gate_invalid,
      refuse (list_ex (\<lambda>d. \<not> digest_re d) [er_input_digest r, er_verifier_digest r, er_report_digest r])
        Digest_invalid,
      refuse (er_result r \<noteq> ''passed'' \<and> er_result r \<noteq> ''advisory'' \<and>
              er_result r \<noteq> ''not_applicable'' \<and> er_result r \<noteq> ''failed'') Result_invalid,
      refuse (er_completed_at r = None) Completed_missing,
      refuse (list_ex (\<lambda>(k, v). is_blank k) (er_environment r)) Environment_key_empty]"

text \<open>\<open>maps.Equal\<close> on two maps, each key once.\<close>

definition maps_equal :: "(string \<times> string) list \<Rightarrow> (string \<times> string) list \<Rightarrow> bool" where
  "maps_equal l r \<longleftrightarrow> length l = length r \<and> list_all (\<lambda>(k, v). map_of r k = Some v) l"

definition equivalent :: "evidence_record \<Rightarrow> evidence_record \<Rightarrow> bool" where
  "equivalent l r \<longleftrightarrow>
     er_schema_version l = er_schema_version r \<and> er_repository l = er_repository r \<and>
     er_module l = er_module r \<and> er_package l = er_package r \<and> er_gate l = er_gate r \<and>
     er_input_digest l = er_input_digest r \<and> er_verifier_digest l = er_verifier_digest r \<and>
     er_result l = er_result r \<and> er_report_digest l = er_report_digest r \<and>
     maps_equal (er_environment l) (er_environment r)"

type_synonym record_decoder = "string \<Rightarrow> evidence_record json_next \<times> unit json_next"

definition require_eof :: "unit json_next \<Rightarrow> evidence_error option" where
  "require_eof n = (case n of Json_eof \<Rightarrow> None | Json_value _ \<Rightarrow> Some Multiple_values | Json_failure \<Rightarrow> Some Trailing_data)"

text \<open>\<open>Parse\<close> on a reader that delivers \<open>data\<close> and then ends or fails. The limit reader stops
  one byte beyond the bound: a failure behind it is never seen.\<close>

definition parse_record :: "record_decoder \<Rightarrow> string \<Rightarrow> bool \<Rightarrow> evidence_error + evidence_record" where
  "parse_record decode data failed =
     (if evidence_maximum_size < int (length data) then Inl Record_too_large
      else if failed then Inl Read_failure
      else (case fst (decode data) of
              Json_value r \<Rightarrow>
                with_check (first_error [require_eof (snd (decode data)), record_validate r]) (Inr r)
            | _ \<Rightarrow> Inl Decode_failure))"

definition marshal_record :: "(evidence_record \<Rightarrow> string) \<Rightarrow> evidence_record \<Rightarrow> evidence_error + string" where
  "marshal_record encode r = with_check (record_validate r) (Inr (encode r @ [CHR 0x0A]))"

section \<open>Digest\<close>

text \<open>The big-endian 64-bit length, then the value.\<close>

definition be64 :: "int \<Rightarrow> string" where
  "be64 n = map (\<lambda>k. char_of (n div 256 ^ k mod 256)) [7, 6, 5, 4, 3, 2, 1, 0]"

definition write_part :: "string \<Rightarrow> string" where
  "write_part v = be64 (int (length v)) @ v"

definition digest_input :: "string \<Rightarrow> (string \<times> string) list \<Rightarrow> string" where
  "digest_input semantic content =
     write_part semantic @
     concat (map (\<lambda>name. write_part name @ write_part (case map_of content name of None \<Rightarrow> [] | Some v \<Rightarrow> v))
       (sort (map fst content)))"

definition evidence_digest :: "(string \<Rightarrow> string) \<Rightarrow> string \<Rightarrow> (string \<times> string) list \<Rightarrow> string" where
  "evidence_digest sha256 semantic content = ''sha256:'' @ sha256 (digest_input semantic content)"

section \<open>The store\<close>

definition record_path :: "string \<Rightarrow> string \<Rightarrow> string \<Rightarrow> string" where
  "record_path root gate input_digest =
     path_join [path_join [root, ''by-input'', gate], trim_prefix input_digest ''sha256:'' @ ''.json'']"

fun prepare_each :: "string list \<Rightarrow> world \<Rightarrow> world \<times> evidence_error option" where
  "prepare_each [] w = (w, None)"
| "prepare_each (d # ds) w =
     (case sys_mkdir d w of
        (w, Some Err_not_exist) \<Rightarrow> (w, Some Directory_failed)
      | (w, Some Err_other) \<Rightarrow> (w, Some Directory_failed)
      | (w, _) \<Rightarrow>
          (case sys_lstat d w of
             (w, Inl e) \<Rightarrow> (w, Some (Inspect_failed e))
           | (w, Inr Directory) \<Rightarrow> prepare_each ds w
           | (w, Inr _) \<Rightarrow> (w, Some Directory_not_real)))"

definition prepare_directories :: "string \<Rightarrow> string \<Rightarrow> world \<Rightarrow> world \<times> evidence_error option" where
  "prepare_directories root gate w =
     (if \<not> is_abs root then (w, Some Root_not_absolute)
      else prepare_each [root, path_join [root, ''by-input''], path_join [root, ''by-input'', gate]] w)"

definition matches_record :: "record_decoder \<Rightarrow> evidence_record \<Rightarrow> string \<Rightarrow> bool" where
  "matches_record decode r existing =
     (case parse_record decode existing False of
        Inl e \<Rightarrow> False
      | Inr known \<Rightarrow> equivalent known r)"

definition store_files ::
  "(evidence_record \<Rightarrow> string) \<Rightarrow> record_decoder \<Rightarrow> string \<Rightarrow> evidence_record \<Rightarrow> world
    \<Rightarrow> world \<times> (evidence_error + string \<times> bool)" where
  "store_files encode decode root r w =
     (case marshal_record encode r of
        Inl e \<Rightarrow> (w, Inl e)
      | Inr data \<Rightarrow>
          (let directory = path_join [root, ''by-input'', er_gate r];
               destination = record_path root (er_gate r) (er_input_digest r)
           in case sys_mkdir_all (Suc (length directory)) directory w of
                (w, Some e) \<Rightarrow> (w, Inl Directory_failed)
              | (w, None) \<Rightarrow>
                  (case publish_immutable directory ''.evidence-'' destination data (matches_record decode r) w of
                     (w, Inl e) \<Rightarrow> (w, Inl (Publish_failed e))
                   | (w, Inr found) \<Rightarrow> (w, Inr (destination, found \<noteq> None)))))"

definition store_evidence ::
  "(evidence_record \<Rightarrow> string) \<Rightarrow> record_decoder \<Rightarrow> string \<Rightarrow> evidence_record \<Rightarrow> world
    \<Rightarrow> world \<times> (evidence_error + string \<times> bool)" where
  "store_evidence encode decode root r w =
     (case record_validate r of
        Some e \<Rightarrow> (w, Inl e)
      | None \<Rightarrow>
          (case prepare_directories root (er_gate r) w of
             (w, Some e) \<Rightarrow> (w, Inl e)
           | (w, None) \<Rightarrow> store_files encode decode root r w))"

text \<open>\<open>Load\<close>: each of \<open>Lstat\<close>, \<open>Open\<close>, the reading and \<open>Close\<close> may fail.\<close>

definition load_evidence ::
  "record_decoder \<Rightarrow> string \<Rightarrow> string \<Rightarrow> string \<Rightarrow> world \<Rightarrow> world \<times> (evidence_error + evidence_record)" where
  "load_evidence decode root gate input_digest w =
     (if \<not> is_abs root \<or> \<not> gate_re gate \<or> \<not> digest_re input_digest then (w, Inl Location_malformed)
      else
        (let path = path_join [root, ''by-input'', gate, trim_prefix input_digest ''sha256:'' @ ''.json'']
         in case sys_lstat path w of
              (w, Inl e) \<Rightarrow> (w, Inl (Inspect_failed e))
            | (w, Inr (File _)) \<Rightarrow>
                (case sys_read_file path w of
                   (w, Inl e) \<Rightarrow> (w, Inl (Open_failed e))
                 | (w, Inr data) \<Rightarrow>
                     (let (w, read_error) = sys_flush w; (w, close_error) = sys_flush w
                      in (w, and_then (parse_record decode data (read_error \<noteq> None)) (\<lambda>r.
                           with_check (first_error
                             [refuse (close_error \<noteq> None) Close_failed,
                              refuse (er_gate r \<noteq> gate \<or> er_input_digest r \<noteq> input_digest) Path_mismatch])
                             (Inr r)))))
            | (w, Inr _) \<Rightarrow> (w, Inl Not_regular)))"

section \<open>Inspection\<close>

text \<open>
  What \<open>WalkDir\<close> hands to the visitor, in its order: a path relative to the walked root,
  and an error, a symbolic link, a directory, or another file with the outcome of
  opening, reading and closing it.
\<close>

datatype visit =
    Visit_error | Visit_symlink string | Visit_directory string
  | Visit_file string "string option" bool bool

definition record_key :: "evidence_record \<Rightarrow> string" where
  "record_key r = er_module r @ [CHR 0x00] @ er_package r @ [CHR 0x00] @ er_gate r @ [CHR 0x00] @ er_input_digest r"

definition index_of :: "string \<Rightarrow> string list \<Rightarrow> nat option" where
  "index_of x xs = find (\<lambda>i. xs ! i = x) [0..<length xs]"

definition known_record ::
  "string \<Rightarrow> string list \<Rightarrow> string \<Rightarrow> string list \<Rightarrow> nat \<Rightarrow> evidence_record \<Rightarrow> evidence_error option" where
  "known_record repository mods relative parts by_input r = first_error
     [refuse (parts ! (by_input + 1) \<noteq> er_gate r \<or>
              parts ! (by_input + 2) \<noteq> trim_prefix (er_input_digest r) ''sha256:'' @ ''.json'')
        Path_mismatch,
      refuse (er_repository r \<noteq> repository) (Repository_mismatch relative),
      refuse (\<not> List.member mods (er_module r)) Unknown_module]"

text \<open>One visited file: nothing to record, or its record.\<close>

definition inspect_file ::
  "record_decoder \<Rightarrow> string \<Rightarrow> string list \<Rightarrow> string \<Rightarrow> string option \<Rightarrow> bool \<Rightarrow> bool
    \<Rightarrow> evidence_error + evidence_record option" where
  "inspect_file decode repository mods relative content read_failed close_failed =
     (if path_ext relative \<noteq> ''.json'' then Inr None
      else (let parts = split_on CHR ''/'' relative
            in case index_of ''by-input'' parts of
                 None \<Rightarrow> Inr None
               | Some by_input \<Rightarrow>
                   if length parts \<noteq> by_input + 3 then Inl (Path_malformed relative)
                   else (case content of
                           None \<Rightarrow> Inl (Open_failed Err_other)
                         | Some data \<Rightarrow>
                             and_then (parse_record decode data read_failed) (\<lambda>r.
                               with_check (refuse close_failed Close_failed)
                                 (with_check (known_record repository mods relative parts by_input r)
                                    (Inr (Some r)))))))"

fun inspect_visits ::
  "record_decoder \<Rightarrow> string \<Rightarrow> string list \<Rightarrow> (string \<times> string) list \<Rightarrow> evidence_record list \<Rightarrow> visit list
    \<Rightarrow> evidence_error + evidence_record list" where
  "inspect_visits decode repository mods seen records [] = Inr records"
| "inspect_visits decode repository mods seen records (Visit_error # vs) = Inl Walk_failed"
| "inspect_visits decode repository mods seen records (Visit_symlink p # vs) = Inl (Tree_symlink p)"
| "inspect_visits decode repository mods seen records (Visit_directory p # vs) =
     inspect_visits decode repository mods seen records vs"
| "inspect_visits decode repository mods seen records (Visit_file p content rf cf # vs) =
     and_then (inspect_file decode repository mods p content rf cf) (\<lambda>r.
       case r of
         None \<Rightarrow> inspect_visits decode repository mods seen records vs
       | Some r \<Rightarrow>
           (case map_of seen (record_key r) of
              Some previous \<Rightarrow> Inl (Duplicate_identity previous p)
            | None \<Rightarrow> inspect_visits decode repository mods ((record_key r, p) # seen) (records @ [r]) vs))"

text \<open>\<open>inspect\<close>; \<open>root_info\<close> is what \<open>Lstat\<close> says of the evidence root.\<close>

definition inspect_evidence ::
  "record_decoder \<Rightarrow> string \<Rightarrow> string list \<Rightarrow> io_error + node \<Rightarrow> visit list
    \<Rightarrow> evidence_error + evidence_record list" where
  "inspect_evidence decode repository mods root_info visits =
     (case root_info of
        Inl Err_not_exist \<Rightarrow> Inr []
      | Inl e \<Rightarrow> Inl (Inspect_failed e)
      | Inr Directory \<Rightarrow>
          and_then (inspect_visits decode repository mods [] [] visits) (\<lambda>records.
            Inr (sort_key record_key records))
      | Inr _ \<Rightarrow> Inl Directory_not_real)"

end
