(* ===== verification/Evidence_Facts.thy ===== *)
theory Evidence_Facts
  imports Evidence "HOL-Library.Multiset"
begin

text \<open>
  The evidence store publishes each identity once: the interpretation of the store
  contract, and what follows for competing stores, for loading after storing, for the
  content digest and for the inspection of a whole store.
\<close>

section \<open>Identities and paths\<close>

lemma hex_all: "all_in ''0123456789abcdef'' h \<Longrightarrow> c \<in> set h \<Longrightarrow> c \<in> set ''0123456789abcdef''"
  by (auto simp: all_in_def list_all_iff)

lemma digest_re_ok:
  assumes "digest_re d"
  obtains h where "d = ''sha256:'' @ h" and "length h = 64" and "all_in ''0123456789abcdef'' h"
    and "trim_prefix d ''sha256:'' = h"
proof -
  from assms obtain h where h: "d = ''sha256:'' @ h" by (auto simp: digest_re_def has_prefix_iff)
  have t: "trim_prefix d ''sha256:'' = h" unfolding h by (rule trim_prefix_append)
  from assms have "int (length d) = 71" "all_in ''0123456789abcdef'' h" by (simp_all add: digest_re_def t)
  with h that t show thesis by simp
qed

lemma digest_no_nul: "digest_re d \<Longrightarrow> CHR 0x00 \<notin> set d"
  by (erule digest_re_ok) (auto dest: hex_all)

lemma gate_excludes:
  assumes "gate_re g" and "c \<notin> set ''abcdefghijklmnopqrstuvwxyz''"
    and "c \<notin> set ''abcdefghijklmnopqrstuvwxyz0123456789-''"
  shows "c \<notin> set g"
proof -
  have "hd g \<in> set ''abcdefghijklmnopqrstuvwxyz'' \<and>
    (\<forall>x \<in> set (tl g). x \<in> set ''abcdefghijklmnopqrstuvwxyz0123456789-'')" and ne: "g \<noteq> []"
    using assms(1) unfolding gate_re_def all_in_def list_all_iff by simp_all
  with assms(2,3) have "c \<noteq> hd g" "c \<notin> set (tl g)" by metis+
  with ne show ?thesis by (cases g) auto
qed

lemma gate_re_no_nul: "gate_re g \<Longrightarrow> CHR 0x00 \<notin> set g"
  by (erule gate_excludes) simp_all

lemma gate_re_plain: "gate_re g \<Longrightarrow> plain_elem g \<and> CHR ''/'' \<notin> set g"
proof -
  assume g: "gate_re g"
  have "CHR ''/'' \<notin> set g" "CHR ''.'' \<notin> set g" using gate_excludes [OF g] by simp_all
  moreover have "g \<noteq> []" using g by (simp add: gate_re_def)
  ultimately show ?thesis by (auto simp: plain_elem_def)
qed

lemma record_file_plain:
  assumes "digest_re d"
  shows "plain_elem (trim_prefix d ''sha256:'' @ ''.json'') \<and>
    CHR ''/'' \<notin> set (trim_prefix d ''sha256:'' @ ''.json'') \<and>
    last (trim_prefix d ''sha256:'' @ ''.json'') = CHR ''n''"
  using assms by (elim digest_re_ok) (auto simp: plain_elem_def dest: hex_all)

lemma path_join_abs: "is_abs root \<Longrightarrow> ps = filter (\<lambda>p. p \<noteq> []) ps \<Longrightarrow>
    path_join (root # ps) = path_clean (join_with ''/'' (root # ps))"
  by (cases root) (auto simp: path_join_def is_abs_def)

lemma record_path_eq:
  assumes "is_abs root" and "gate_re gate" and "digest_re digest"
  shows "record_path root gate digest = path_join [root, ''by-input'', gate, trim_prefix digest ''sha256:'' @ ''.json'']"
    and "record_path root gate digest = path_clean (path_join [root, ''by-input'', gate] @ CHR ''/'' #
      (trim_prefix digest ''sha256:'' @ ''.json''))"
    and "last (record_path root gate digest) = CHR ''n''" and "is_abs (path_join [root, ''by-input'', gate])"
proof -
  let ?x = "trim_prefix digest ''sha256:'' @ ''.json''" and ?d = "root @ ''/by-input/'' @ gate"
  have g: "gate \<noteq> []" using assms(2) by (simp add: gate_re_def)
  have r: "root \<noteq> []" using assms(1) by (auto simp: is_abs_def)
  have d: "path_join [root, ''by-input'', gate] = path_clean ?d"
    using g r by (simp add: path_join_def)
  have a: "is_abs ?d" "is_abs (path_clean ?d)"
    using assms(1) by (auto simp: path_clean_split) (auto simp: is_abs_def has_prefix_iff)
  then show "is_abs (path_join [root, ''by-input'', gate])" using d by simp
  have "path_clean ?d \<noteq> []" using a(2) by (auto simp: is_abs_def)
  then show c: "record_path root gate digest = path_clean (path_join [root, ''by-input'', gate] @ CHR ''/'' # ?x)"
    by (simp add: record_path_def d path_join_def [of "[path_clean _, _]"])
  note x = record_file_plain [OF assms(3)]
  have l: "record_path root gate digest = path_clean (?d @ CHR ''/'' # ?x)"
    unfolding c d using path_clean_child_clean [of ?d ?x] a x by blast
  also have "\<dots> = path_join [root, ''by-input'', gate, ?x]"
    using g r by (simp add: path_join_def)
  finally show "record_path root gate digest = path_join [root, ''by-input'', gate, ?x]" .
  show "last (record_path root gate digest) = CHR ''n''"
    unfolding l using path_clean_child_last [of ?d ?x] a x by simp
qed

lemma temporary_last: "is_digit (last (temporary_name d pre k))"
proof -
  have "last (temporary_name d pre k) = last (dec_nat k)" by (simp add: temporary_name_def)
  also have "last (dec_nat k) \<in> set (dec_nat k)" by (rule last_in_set) simp
  then have "is_digit (last (dec_nat k))" by (rule dec_nat_digits)
  finally show ?thesis .
qed

lemma record_path_not_temporary:
  assumes "is_abs root" and "gate_re gate" and "digest_re digest"
  shows "temporary_name d pre k \<noteq> record_path root gate digest"
  using temporary_last [of d pre k] record_path_eq(3) [OF assms]
  by (auto simp: is_digit_def less_eq_char_def)

section \<open>Parsing and equivalence\<close>

lemma record_validate_ok:
  "record_validate r = None \<Longrightarrow> gate_re (er_gate r) \<and> digest_re (er_input_digest r) \<and>
     digest_re (er_verifier_digest r) \<and> digest_re (er_report_digest r) \<and>
     er_repository r \<noteq> [] \<and> er_module r \<noteq> [] \<and> er_completed_at r \<noteq> None"
  by (simp add: record_validate_def)

lemma parse_record_ok:
  "parse_record decode data failed = Inr r \<longleftrightarrow>
     int (length data) \<le> evidence_maximum_size \<and> \<not> failed \<and> fst (decode data) = Json_value r \<and>
     snd (decode data) = Json_eof \<and> record_validate r = None"
  by (auto simp: parse_record_def require_eof_def not_less split: json_next.splits)

lemma maps_equal_iff:
  assumes "distinct (map fst l)" and "distinct (map fst r)"
  shows "maps_equal l r \<longleftrightarrow> map_of l = map_of r"
proof
  assume e: "maps_equal l r"
  have s: "set l \<subseteq> set r" using e by (auto simp: maps_equal_def list_all_iff dest: map_of_SomeD)
  have "card (set l) = card (set r)"
    using assms e by (simp add: distinct_map distinct_card maps_equal_def)
  with s have "set l = set r" by (simp add: card_subset_eq)
  with assms show "map_of l = map_of r" by (simp add: map_of_inject_set)
next
  assume m: "map_of l = map_of r"
  then have "set l = set r" using assms by (simp add: map_of_inject_set)
  then have "length l = length r"
    using assms distinct_card [of l] distinct_card [of r] by (simp add: distinct_map)
  moreover have "map_of r k = Some v" if "(k, v) \<in> set l" for k v
    using that assms(1) m by (metis map_of_is_SomeI)
  ultimately show "maps_equal l r" by (auto simp: maps_equal_def list_all_iff)
qed

definition proper_environment :: "evidence_record \<Rightarrow> bool" where
  "proper_environment r \<longleftrightarrow> distinct (map fst (er_environment r))"

definition same_meaning :: "evidence_record \<Rightarrow> evidence_record \<Rightarrow> bool" where
  "same_meaning l r \<longleftrightarrow>
     l\<lparr>er_environment := [], er_completed_at := None\<rparr> = r\<lparr>er_environment := [], er_completed_at := None\<rparr> \<and>
     map_of (er_environment l) = map_of (er_environment r)"

lemma equivalent_iff:
  "proper_environment l \<Longrightarrow> proper_environment r \<Longrightarrow> equivalent l r \<longleftrightarrow> same_meaning l r"
  by (cases l; cases r) (auto simp: equivalent_def same_meaning_def proper_environment_def maps_equal_iff)

lemma same_meaning_equiv:
  "same_meaning r r" "same_meaning l r \<Longrightarrow> same_meaning r l"
  "same_meaning l r \<Longrightarrow> same_meaning r s \<Longrightarrow> same_meaning l s"
  by (simp_all add: same_meaning_def)

section \<open>The store keeps its contract\<close>

lemma prepare_each_keeps: "prepare_each ds w = (w', r) \<Longrightarrow> keeps {} w w'"
  by (induction ds arbitrary: w)
    (auto split: prod.splits option.splits io_error.splits sum.splits node.splits
      dest!: sys_mkdir_keeps sys_lstat_keeps intro: keeps_trans)

lemma prepare_directories_keeps: "prepare_directories root gate w = (w', r) \<Longrightarrow> keeps {} w w'"
  by (simp add: prepare_directories_def del: prepare_each.simps split: if_splits)
    (blast dest: prepare_each_keeps)

lemma store_files_stages:
  assumes "store_files encode decode root r w = (w', res)"
  obtains (refused) e where "w' = w" "res = Inl e"
    | (directory) w1 e where "keeps {} w w1" "w' = w1" "res = Inl e"
    | (publish) w1 p where "keeps {} w w1" "record_validate r = None"
      "publish_immutable (path_join [root, ''by-input'', er_gate r]) ''.evidence-''
         (record_path root (er_gate r) (er_input_digest r)) (encode r @ [CHR 0x0A]) (matches_record decode r) w1 = (w', p)"
      "res = (case p of Inl e \<Rightarrow> Inl (Publish_failed e)
         | Inr found \<Rightarrow> Inr (record_path root (er_gate r) (er_input_digest r), found \<noteq> None))"
proof (cases "record_validate r")
  case (Some e)
  with assms show thesis by (intro refused [of e]) (auto simp: store_files_def marshal_record_def)
next
  case None
  let ?d = "path_join [root, ''by-input'', er_gate r]"
  obtain w1 e where m: "sys_mkdir_all (Suc (length ?d)) ?d w = (w1, e)" by fastforce
  have k: "keeps {} w w1" using m by (rule sys_mkdir_all_keeps)
  show thesis
  proof (cases e)
    case (Some f)
    with assms None m show thesis
      by (intro directory [OF k, of Directory_failed]) (auto simp: store_files_def marshal_record_def Let_def)
  next
    case no: None
    obtain w2 p where p: "publish_immutable ?d ''.evidence-''
         (record_path root (er_gate r) (er_input_digest r)) (encode r @ [CHR 0x0A]) (matches_record decode r) w1 = (w2, p)"
      by fastforce
    with assms None m no show thesis
      by (intro publish [OF k None, of p]) (auto simp: store_files_def marshal_record_def Let_def split: sum.splits)
  qed
qed

lemma store_evidence_stages:
  assumes "store_evidence encode decode root r w = (w', res)"
  obtains (refused) e where "keeps {} w w'" "res = Inl e"
    | (publish) w1 p where "keeps {} w w1" "record_validate r = None" "is_abs root"
      "publish_immutable (path_join [root, ''by-input'', er_gate r]) ''.evidence-''
         (record_path root (er_gate r) (er_input_digest r)) (encode r @ [CHR 0x0A]) (matches_record decode r) w1 = (w', p)"
      "res = (case p of Inl e \<Rightarrow> Inl (Publish_failed e)
         | Inr found \<Rightarrow> Inr (record_path root (er_gate r) (er_input_digest r), found \<noteq> None))"
proof (cases "record_validate r")
  case (Some e)
  with assms show thesis by (intro refused [of e]) (auto simp: store_evidence_def)
next
  case None
  obtain w1 e where p: "prepare_directories root (er_gate r) w = (w1, e)" by fastforce
  have k: "keeps {} w w1" using p by (rule prepare_directories_keeps)
  show thesis
  proof (cases e)
    case (Some f)
    with assms None p k show thesis by (intro refused [of f]) (auto simp: store_evidence_def)
  next
    case no: None
    then have a: "is_abs root" using p by (auto simp: prepare_directories_def simp del: prepare_each.simps split: if_splits)
    have s: "store_files encode decode root r w1 = (w', res)"
      using assms None p no by (simp add: store_evidence_def)
    then show thesis
    proof (cases rule: store_files_stages)
      case (refused e)
      with k that(1) show thesis by blast
    next
      case (directory w2 e)
      with k that(1) keeps_trans show thesis by blast
    next
      case (publish w2 p)
      with k a that(2) keeps_trans show thesis by blast
    qed
  qed
qed

text \<open>Names that exist are kept: a temporary name is one that did not exist.\<close>

lemma store_evidence_keeps:
  assumes "store_evidence encode decode root r w = (w', res)" and "node_at w p = Some n"
  shows "node_at w' p = Some n"
  using assms(1)
proof (cases rule: store_evidence_stages)
  case (refused e)
  with assms(2) keepsD show ?thesis by blast
next
  case (publish w1 q)
  have p: "node_at w1 p = Some n" using publish(1) assms(2) keepsD by blast
  obtain T where T: "keeps T w1 w'" "\<forall>t \<in> T. node_at w1 t = None"
    using publish_immutable_keeps [OF publish(4)] by blast
  have "p \<notin> T" using T(2) p by auto
  with T(1) p keepsD show ?thesis by blast
qed

lemma store_evidence_ok:
  assumes "store_evidence encode decode root r w = (w', Inr (p, reused))"
  shows "record_validate r = None \<and> is_abs root \<and> p = record_path root (er_gate r) (er_input_digest r) \<and>
    (\<exists>n. node_at w' p = Some n \<and>
       (if reused then \<forall>c. n = File c \<longrightarrow> matches_record decode r c else n = File (encode r @ [CHR 0x0A])))"
  using assms
proof (cases rule: store_evidence_stages)
  case (publish w1 q)
  then obtain found where q: "q = Inr found" "reused = (found \<noteq> None)" and p: "p = record_path root (er_gate r) (er_input_digest r)"
    by (auto split: sum.splits)
  have "temporary_name d pre k \<noteq> record_path root (er_gate r) (er_input_digest r)" for d pre k
    using record_path_not_temporary record_validate_ok publish(2,3) by blast
  from publish_immutable_ok [OF publish(4) [unfolded q(1)] this] publish(2,3) p q(2) show ?thesis
    by (cases found) fastforce+
qed simp

interpretation evidence_store: immutable_store
  "store_evidence encode decode root r" "record_path root (er_gate r) (er_input_digest r)"
  "encode r @ [CHR 0x0A]" "matches_record decode r"
  for encode :: "evidence_record \<Rightarrow> string" and decode :: record_decoder and root r
proof unfold_locales
  show "node_at w' (record_path root (er_gate r) (er_input_digest r)) = Some n"
    if "store_evidence encode decode root r w = (w', res)"
      "node_at w (record_path root (er_gate r) (er_input_digest r)) = Some n" for w w' res n
    using store_evidence_keeps [OF that] .
  show "p = record_path root (er_gate r) (er_input_digest r) \<and>
      (\<exists>n. node_at w' (record_path root (er_gate r) (er_input_digest r)) = Some n \<and>
        (if reused then \<forall>c. n = File c \<longrightarrow> matches_record decode r c else n = File (encode r @ [CHR 0x0A])))"
    if "store_evidence encode decode root r w = (w', Inr (p, reused))" for w w' p reused
    using store_evidence_ok [OF that] by auto
qed

text \<open>Two records of one identity compete for one destination.\<close>

definition at_identity :: "string \<Rightarrow> string \<Rightarrow> evidence_record \<Rightarrow> evidence_record" where
  "at_identity gate digest r = r\<lparr>er_gate := gate, er_input_digest := digest\<rparr>"

interpretation competing_evidence: competing_stores
  "store_evidence encode decode root (at_identity gate digest r1)"
  "store_evidence encode decode root (at_identity gate digest r2)"
  "record_path root gate digest"
  "encode (at_identity gate digest r1) @ [CHR 0x0A]" "encode (at_identity gate digest r2) @ [CHR 0x0A]"
  "matches_record decode (at_identity gate digest r1)" "matches_record decode (at_identity gate digest r2)"
  for encode :: "evidence_record \<Rightarrow> string" and decode :: record_decoder and root gate digest r1 r2
  using evidence_store.immutable_store_axioms [of encode decode root "at_identity gate digest r1"]
    evidence_store.immutable_store_axioms [of encode decode root "at_identity gate digest r2"]
  by (intro competing_stores.intro) (simp_all add: at_identity_def)

section \<open>Length-prefixed parts\<close>

lemma base256:
  fixes n m :: int
  assumes "\<forall>j < k. n div 256 ^ j mod 256 = m div 256 ^ j mod 256"
  shows "n mod 256 ^ k = m mod 256 ^ k"
  using assms
proof (induction k)
  case (Suc k)
  have split: "x mod 256 ^ Suc k = 256 ^ k * (x div 256 ^ k mod 256) + x mod 256 ^ k" for x :: int
    unfolding power_Suc2 by (rule zmod_zmult2_eq) simp
  from Suc have "n mod 256 ^ k = m mod 256 ^ k" "n div 256 ^ k mod 256 = m div 256 ^ k mod 256" by auto
  then show ?case unfolding split by simp
qed simp

lemma char_of_256: "char_of (n mod 256) = (char_of (m mod 256) :: char) \<Longrightarrow> n mod 256 = m mod 256" for n m :: int
proof -
  assume "char_of (n mod 256) = (char_of (m mod 256) :: char)"
  then have "(of_char (char_of (n mod 256)) :: int) = of_char (char_of (m mod 256))" by (rule arg_cong)
  then show ?thesis by simp
qed

lemma be64_inj:
  assumes "be64 n = be64 m" and "0 \<le> n" "n < 2 ^ 64" "0 \<le> m" "m < 2 ^ 64"
  shows "n = m"
proof -
  have "n div 256 ^ j mod 256 = m div 256 ^ j mod 256" if "j < 8" for j :: nat
  proof (rule char_of_256)
    from that have "j \<in> set [7, 6, 5, 4, 3, 2, 1, 0]" by auto
    have "\<forall>j \<in> set [7, 6, 5, 4, 3, 2, 1, 0 :: nat].
        char_of (n div 256 ^ j mod 256) = (char_of (m div 256 ^ j mod 256) :: char)"
      using assms(1) unfolding be64_def map_eq_conv .
    from this \<open>j \<in> _\<close> show "char_of (n div 256 ^ j mod 256) = (char_of (m div 256 ^ j mod 256) :: char)"
      by (rule bspec)
  qed
  then have "n mod 256 ^ 8 = m mod 256 ^ 8" by (intro base256) blast
  with assms show ?thesis by simp
qed

lemma be64_length [simp]: "length (be64 n) = 8"
  by (simp add: be64_def)

definition short :: "string \<Rightarrow> bool" where
  "short v \<longleftrightarrow> int (length v) < 2 ^ 64"

lemma write_part_inj:
  assumes "write_part a @ x = write_part b @ y" and "short a" "short b"
  shows "a = b \<and> x = y"
proof -
  have e: "be64 (int (length a)) @ (a @ x) = be64 (int (length b)) @ (b @ y)"
    using assms(1) by (simp add: write_part_def)
  then have "be64 (int (length a)) = be64 (int (length b))" "a @ x = b @ y"
    using append_eq_append_conv [of "be64 (int (length a))" "be64 (int (length b))"] by simp_all
  moreover from this have "length a = length b"
    using be64_inj [of "int (length a)" "int (length b)"] assms(2,3) by (simp add: short_def)
  ultimately show ?thesis by simp
qed

lemma write_part_nonempty: "write_part a \<noteq> []"
proof
  assume "write_part a = []"
  then have "length (write_part a) = 0" by simp
  then show False by (simp add: write_part_def)
qed

lemma parts_inj:
  "concat (map write_part xs) = concat (map write_part ys) \<Longrightarrow> list_all short xs \<Longrightarrow> list_all short ys \<Longrightarrow> xs = ys"
proof (induction xs arbitrary: ys)
  case Nil
  then show ?case using write_part_nonempty by (cases ys) auto
next
  case (Cons x xs)
  show ?case
  proof (cases ys)
    case Nil
    with Cons.prems(1) write_part_nonempty show ?thesis by auto
  next
    case (Cons y ys')
    with Cons.prems write_part_inj [of x _ y] have "x = y" "concat (map write_part xs) = concat (map write_part ys')"
      by auto
    with Cons.IH [of ys'] Cons.prems Cons show ?thesis by simp
  qed
qed

definition digest_parts :: "string \<Rightarrow> (string \<times> string) list \<Rightarrow> string list" where
  "digest_parts semantic content = semantic # concat (map (\<lambda>name.
     [name, case map_of content name of None \<Rightarrow> [] | Some v \<Rightarrow> v]) (sort (map fst content)))"

lemma concat_pairs:
  "concat (map h (concat (map (\<lambda>n. [f n, g n]) ns))) = concat (map (\<lambda>n. h (f n) @ h (g n)) ns)"
  by (induction ns) auto

lemma digest_input_parts: "digest_input s c = concat (map write_part (digest_parts s c))"
  by (simp add: digest_input_def digest_parts_def concat_pairs del: map_concat)

lemma flatten_inj:
  "concat (map (\<lambda>n. [n, f n]) ns) = concat (map (\<lambda>n. [n, g n]) ms) \<Longrightarrow> ns = ms \<and> (\<forall>n \<in> set ns. f n = g n)"
proof (induction ns arbitrary: ms)
  case Nil
  then show ?case by (cases ms) auto
next
  case (Cons n ns)
  then obtain m ms' where "ms = m # ms'" by (cases ms) auto
  with Cons show ?case by auto
qed

lemma digest_parts_short:
  "short s \<Longrightarrow> list_all (\<lambda>(k, v). short k \<and> short v) c \<Longrightarrow> list_all short (digest_parts s c)"
  by (auto simp: digest_parts_def list_all_iff short_def split: option.splits dest!: map_of_SomeD)

lemma same_map_same_keys:
  assumes "map_of c = map_of c'" "distinct (map fst c)" "distinct (map fst c')"
  shows "sort (map fst c) = sort (map fst c')"
proof -
  have "fst ` set c = fst ` set c'" using assms(1) by (metis dom_map_of_conv_image_fst)
  then have "mset (map fst c) = mset (map fst c')"
    using assms(2,3) by (metis list.set_map set_eq_iff_mset_eq_distinct)
  then show ?thesis by (metis mset_sort properties_for_sort sorted_sort)
qed

section \<open>Properties\<close>

text \<open>C33: the content digest is unambiguous: two pairs of a semantic identity and named contents
  feed the hash with the same bytes only if the identities and the contents agree.\<close>

theorem digest_unambiguous:
  assumes "distinct (map fst c)" "distinct (map fst c')"
    and "short s" "list_all (\<lambda>(k, v). short k \<and> short v) c"
    and "short s'" "list_all (\<lambda>(k, v). short k \<and> short v) c'"
  shows "digest_input s c = digest_input s' c' \<longleftrightarrow> s = s' \<and> map_of c = map_of c'"
proof
  assume "digest_input s c = digest_input s' c'"
  then have p: "digest_parts s c = digest_parts s' c'"
    unfolding digest_input_parts by (rule parts_inj) (simp_all add: digest_parts_short assms)
  then have s: "s = s'" and
    f: "concat (map (\<lambda>n. [n, case map_of c n of None \<Rightarrow> [] | Some v \<Rightarrow> v]) (sort (map fst c))) =
        concat (map (\<lambda>n. [n, case map_of c' n of None \<Rightarrow> [] | Some v \<Rightarrow> v]) (sort (map fst c')))"
    by (simp_all add: digest_parts_def)
  note fl = flatten_inj [OF f]
  note v = conjunct2 [OF fl]
  from conjunct1 [OF fl] have "set (sort (map fst c)) = set (sort (map fst c'))" by (rule arg_cong)
  then have keys: "fst ` set c = fst ` set c'" by simp
  have vals: "\<forall>n \<in> fst ` set c. (case map_of c n of None \<Rightarrow> [] | Some v \<Rightarrow> v) = (case map_of c' n of None \<Rightarrow> [] | Some v \<Rightarrow> v)"
    using v by simp
  have "map_of c n = map_of c' n" for n
  proof (cases "n \<in> fst ` set c")
    case True
    then have "map_of c n \<noteq> None" "map_of c' n \<noteq> None" using keys by (auto simp: map_of_eq_None_iff)
    with vals True show ?thesis by auto
  next
    case False
    with keys have "map_of c n = None" "map_of c' n = None" by (simp_all add: map_of_eq_None_iff)
    then show ?thesis by simp
  qed
  with s show "s = s' \<and> map_of c = map_of c'" by auto
next
  assume e: "s = s' \<and> map_of c = map_of c'"
  with same_map_same_keys [of c c'] assms(1,2) show "digest_input s c = digest_input s' c'"
    by (simp add: digest_input_def)
qed

theorem digest_unambiguous_witness:
  "digest_input ''v'' [(''a'', ''b''), (''c'', [])] \<noteq> digest_input ''v'' [(''a'', ''bc'')]"
  using digest_unambiguous [of "[(''a'', ''b''), (''c'', [])]" "[(''a'', ''bc'')]" "''v''" "''v''"]
  by (simp add: short_def fun_eq_iff) (metis option.distinct(1))

text \<open>C26: \<open>Store\<close> never replaces anything: whatever calls fail and whatever other publishers do
  in between, every file that existed keeps its content, and a success means that the
  record's own path holds either exactly its encoding or a record equivalent to it.\<close>

theorem store_publishes_once:
  assumes "store_evidence encode decode root r w = (w', res)"
  shows "(\<forall>p n. node_at w p = Some n \<longrightarrow> node_at w' p = Some n) \<and>
    (case res of
       Inl e \<Rightarrow> True
     | Inr (p, reused) \<Rightarrow> p = record_path root (er_gate r) (er_input_digest r) \<and>
         (\<exists>n. node_at w' p = Some n \<and>
           (if reused then \<forall>c. n = File c \<longrightarrow> matches_record decode r c else n = File (encode r @ [CHR 0x0A]))))"
proof -
  have keep: "\<forall>p n. node_at w p = Some n \<longrightarrow> node_at w' p = Some n"
    using store_evidence_keeps [OF assms] by blast
  have ok: "p = record_path root (er_gate r) (er_input_digest r) \<and>
      (\<exists>n. node_at w' p = Some n \<and>
         (if reused then \<forall>c. n = File c \<longrightarrow> matches_record decode r c else n = File (encode r @ [CHR 0x0A])))"
    if "res = Inr (p, reused)" for p reused
    using evidence_store.published [OF assms [unfolded that]] by auto
  show ?thesis
  proof (cases res)
    case (Inr pr)
    obtain p reused where pr: "pr = (p, reused)" by (cases pr)
    then have "res = Inr (p, reused)" using Inr by simp
    with keep ok [OF this] show ?thesis unfolding Inr pr sum.case prod.case by blast
  qed (use keep in simp)
qed

definition sample_digest :: string where
  "sample_digest = ''sha256:'' @ replicate 64 CHR ''a''"

definition sample_record :: evidence_record where
  "sample_record = \<lparr>er_schema_version = 1, er_repository = ''r'', er_module = ''m'', er_package = [],
     er_gate = ''mutation'', er_input_digest = sample_digest, er_verifier_digest = sample_digest,
     er_result = ''passed'', er_report_digest = sample_digest, er_environment = [(''GOOS'', ''linux'')],
     er_completed_at = Some 1\<rparr>"

definition sample_encode :: "evidence_record \<Rightarrow> string" where
  "sample_encode r = er_repository r @ dec_nat (length (er_environment r))"

definition sample_decode :: record_decoder where
  "sample_decode d = (if d = ''r1'' @ [CHR 0x0A] then (Json_value sample_record, Json_eof) else (Json_failure, Json_eof))"

text \<open>An empty disk, no fault and no other process.\<close>

definition sample_world :: world where
  "sample_world = \<lparr>w_nodes = [], w_script = []\<rparr>"

definition stored_world :: world where
  "stored_world = fst (store_evidence sample_encode sample_decode ''/e'' sample_record sample_world)"

lemma sample_stored:
  "store_evidence sample_encode sample_decode ''/e'' sample_record sample_world =
     (stored_world, Inr (record_path ''/e'' ''mutation'' sample_digest, False))"
proof -
  have "snd (store_evidence sample_encode sample_decode ''/e'' sample_record sample_world) =
    Inr (record_path ''/e'' ''mutation'' sample_digest, False)"
    by code_simp
  then show ?thesis by (simp add: stored_world_def prod_eq_iff)
qed

theorem store_publishes_once_witness:
  "node_at stored_world (record_path ''/e'' ''mutation'' sample_digest) = Some (File (''r1'' @ [CHR 0x0A]))"
proof -
  have "sample_encode sample_record = ''r1''" by code_simp
  with store_publishes_once [OF sample_stored] show ?thesis
    by (simp add: sample_record_def)
qed

text \<open>What the code relies on of encoding/json: a record decodes to itself, and the decoded
  environment is a map.\<close>

definition roundtrips :: "(evidence_record \<Rightarrow> string) \<Rightarrow> record_decoder \<Rightarrow> evidence_record \<Rightarrow> bool" where
  "roundtrips encode decode r \<longleftrightarrow>
     decode (encode r @ [CHR 0x0A]) = (Json_value r, Json_eof) \<and> proper_environment r"

definition proper_decoder :: "record_decoder \<Rightarrow> bool" where
  "proper_decoder decode \<longleftrightarrow> (\<forall>d r. fst (decode d) = Json_value r \<longrightarrow> proper_environment r)"

lemma matches_known:
  assumes "matches_record decode r c" and "proper_decoder decode" and "proper_environment r"
  shows "\<exists>k. fst (decode c) = Json_value k \<and> same_meaning k r"
  using assms equivalent_iff
  by (auto simp: matches_record_def parse_record_ok proper_decoder_def split: sum.splits)

text \<open>an identity has one meaning: if two records for the same gate and input digest are
  both stored successfully, by any publishers at any times, they agree in everything but
  the completion time.\<close>

theorem stored_records_agree:
  assumes "store_evidence encode decode root r1 w = (w1, Inr (p1, reused1))"
    and "store_evidence encode decode root r2 w1 = (w2, Inr (p2, reused2))"
    and "er_gate r1 = er_gate r2" and "er_input_digest r1 = er_input_digest r2"
    and "node_at w2 p2 = Some (File c)"
    and "roundtrips encode decode r1" and "roundtrips encode decode r2" and "proper_decoder decode"
  shows "same_meaning r1 r2"
proof -
  let ?g = "er_gate r1" and ?d = "er_input_digest r1"
  have i: "at_identity ?g ?d r1 = r1" "at_identity ?g ?d r2 = r2"
    using assms(3,4) by (simp_all add: at_identity_def)
  have p: "p2 = record_path root ?g ?d"
    using evidence_store.published [OF assms(2)] assms(3,4) by simp
  have "(c = encode r1 @ [CHR 0x0A] \<or> matches_record decode r1 c) \<and>
        (c = encode r2 @ [CHR 0x0A] \<or> matches_record decode r2 c)"
    using competing_evidence.both_agree [of encode decode root ?g ?d r1 w w1 p1 reused1 r2 w2 p2 reused2 c]
      assms(1,2,5) unfolding i p by blast
  moreover have "\<exists>k. fst (decode c) = Json_value k \<and> same_meaning k r"
    if "c = encode r @ [CHR 0x0A] \<or> matches_record decode r c" "roundtrips encode decode r" for r
    using that matches_known [OF _ assms(8)] same_meaning_equiv(1) by (auto simp: roundtrips_def)
  ultimately obtain k1 k2 where "fst (decode c) = Json_value k1" "same_meaning k1 r1"
    "fst (decode c) = Json_value k2" "same_meaning k2 r2"
    using assms(6,7) by metis
  then show ?thesis using same_meaning_equiv(2,3) by (metis json_next.inject)
qed

definition later_record :: evidence_record where
  "later_record = sample_record\<lparr>er_completed_at := Some 2\<rparr>"

text \<open>A decoder that reads the time the encoder wrote last.\<close>

definition timed_encode :: "evidence_record \<Rightarrow> string" where
  "timed_encode r = (if er_completed_at r = Some 1 then ''one'' else ''two'')"

definition timed_decode :: record_decoder where
  "timed_decode d = (if d = ''one'' @ [CHR 0x0A] then (Json_value sample_record, Json_eof)
     else if d = ''two'' @ [CHR 0x0A] then (Json_value later_record, Json_eof) else (Json_failure, Json_eof))"

theorem stored_records_agree_witness:
  "same_meaning sample_record later_record \<and> sample_record \<noteq> later_record"
proof -
  let ?run1 = "store_evidence timed_encode timed_decode ''/e'' sample_record sample_world"
  let ?run2 = "store_evidence timed_encode timed_decode ''/e'' later_record (fst ?run1)"
  let ?p = "record_path ''/e'' ''mutation'' sample_digest"
  have "snd ?run1 = Inr (?p, False)" by code_simp
  then have 1: "?run1 = (fst ?run1, Inr (?p, False))" by (simp add: prod_eq_iff)
  have "snd ?run2 = Inr (?p, True)" by code_simp
  then have 2: "?run2 = (fst ?run2, Inr (?p, True))" by (simp add: prod_eq_iff)
  have n: "node_at (fst ?run2) ?p = Some (File (''one'' @ [CHR 0x0A]))" by code_simp
  have g: "er_gate sample_record = er_gate later_record" "er_input_digest sample_record = er_input_digest later_record"
    by (simp_all add: later_record_def)
  have e: "proper_environment sample_record" "proper_environment later_record"
    by (simp_all add: proper_environment_def later_record_def sample_record_def)
  have "roundtrips timed_encode timed_decode sample_record" "roundtrips timed_encode timed_decode later_record"
    using e by (simp_all add: roundtrips_def timed_encode_def timed_decode_def later_record_def sample_record_def)
  moreover have "proper_decoder timed_decode"
    using e by (auto simp: proper_decoder_def timed_decode_def)
  ultimately have "same_meaning sample_record later_record"
    using stored_records_agree [OF 1 2 g n] by blast
  then show ?thesis by (simp add: later_record_def sample_record_def)
qed

text \<open>Loading a record file when no call fails.\<close>

lemma quiet_event: "w_script w = [] \<Longrightarrow> next_event w = (no_event, w)"
  by (simp add: next_event_def)

lemma quiet_read:
  "w_script w = [] \<Longrightarrow> node_at w p = Some (File c) \<Longrightarrow> sys_read_file p w = (w, Inr c)"
  by (simp add: sys_read_file_def quiet_event no_event_def eval_nat_numeral)

lemma load_stored:
  assumes "is_abs root" "gate_re g" "digest_re d" and "node_at w (record_path root g d) = Some (File c)"
    and "w_script w = []" and "parse_record decode c False = Inr k" "er_gate k = g" "er_input_digest k = d"
  shows "load_evidence decode root g d w = (w, Inr k)"
proof -
  let ?p = "record_path root g d"
  have path: "path_join [root, ''by-input'', g, trim_prefix d ''sha256:'' @ ''.json''] = ?p"
    using record_path_eq(1) [OF assms(1-3)] by simp
  have l: "sys_lstat ?p w = (w, Inr (File c))"
    using assms(4,5) by (simp add: sys_lstat_def quiet_event no_event_def)
  have f: "sys_flush w = (w, None)" using assms(5) by (simp add: sys_flush_def quiet_event no_event_def)
  show ?thesis
    using assms by (simp add: load_evidence_def path l quiet_read f Let_def)
qed

lemma stored_parses:
  assumes "store_evidence encode decode root r w = (w1, Inr (p, reused))"
    and "node_at w1 p = Some (File c)" and "int (length c) \<le> evidence_maximum_size"
    and "roundtrips encode decode r" and "proper_decoder decode"
  obtains k where "parse_record decode c False = Inr k" "same_meaning k r" "er_gate k = er_gate r"
    "er_input_digest k = er_input_digest r"
proof -
  from store_evidence_ok [OF assms(1)] have v: "record_validate r = None"
    and n: "if reused then matches_record decode r c else c = encode r @ [CHR 0x0A]"
    using assms(2) by auto
  show thesis
  proof (cases reused)
    case True
    with n obtain k where k: "parse_record decode c False = Inr k" "equivalent k r"
      by (auto simp: matches_record_def split: sum.splits)
    then have "proper_environment k" using assms(5) unfolding proper_decoder_def parse_record_ok by blast
    with k assms(4) have "same_meaning k r" by (simp add: equivalent_iff roundtrips_def)
    with k that show thesis by (auto simp: equivalent_def)
  next
    case False
    with n assms(3,4) v that show thesis by (simp add: parse_record_ok roundtrips_def same_meaning_equiv(1))
  qed
qed

text \<open>A stored file over the size limit is refused, whatever it holds.\<close>

lemma load_oversized:
  assumes "is_abs root" "gate_re g" "digest_re d" and "node_at w (record_path root g d) = Some (File c)"
    and "w_script w = []" and "evidence_maximum_size < int (length c)"
  shows "load_evidence decode root g d w = (w, Inl Record_too_large)"
proof -
  let ?p = "record_path root g d"
  have path: "path_join [root, ''by-input'', g, trim_prefix d ''sha256:'' @ ''.json''] = ?p"
    using record_path_eq(1) [OF assms(1-3)] by simp
  have l: "sys_lstat ?p w = (w, Inr (File c))"
    using assms(4,5) by (simp add: sys_lstat_def quiet_event no_event_def)
  have f: "sys_flush w = (w, None)" using assms(5) by (simp add: sys_flush_def quiet_event no_event_def)
  show ?thesis
    using assms by (simp add: load_evidence_def path l quiet_read f Let_def parse_record_def)
qed

text \<open>C37: what was stored within the size limit can be loaded. After a successful \<open>Store\<close>, if the
  destination is a regular file, the JSON codec returns the record it encoded and decodes only
  environments that it could have encoded, then \<open>Load\<close> at the record's gate and input digest, when no
  call fails, returns a record that agrees with the stored one in everything but the completion
  time when the stored file has at most 1 MiB, and refuses a larger one as too large: \<open>Store\<close> itself
  does not check the size.\<close>

theorem load_after_store:
  assumes "store_evidence encode decode root r w = (w1, Inr (p, reused))"
    and "node_at w1 p = Some (File c)"
    and "roundtrips encode decode r" and "proper_decoder decode"
  shows "case load_evidence decode root (er_gate r) (er_input_digest r) (w1\<lparr>w_script := []\<rparr>) of (w2, loaded) \<Rightarrow>
    if int (length c) \<le> evidence_maximum_size then \<exists>k. loaded = Inr k \<and> same_meaning k r
    else loaded = Inl Record_too_large"
proof -
  from store_evidence_ok [OF assms(1)] have v: "record_validate r = None" and a: "is_abs root"
    and p: "p = record_path root (er_gate r) (er_input_digest r)" by auto
  note loads = load_stored [OF a] load_oversized [OF a]
  show ?thesis
  proof (cases "int (length c) \<le> evidence_maximum_size")
    case True
    obtain k where k: "parse_record decode c False = Inr k" "same_meaning k r" "er_gate k = er_gate r"
      "er_input_digest k = er_input_digest r"
      using stored_parses [OF assms(1,2) True assms(3,4)] .
    have "load_evidence decode root (er_gate r) (er_input_digest r) (w1\<lparr>w_script := []\<rparr>) = (w1\<lparr>w_script := []\<rparr>, Inr k)"
      by (rule loads(1) [OF _ _ _ _ k(1,3,4)]) (use record_validate_ok [OF v] assms(2) p in simp_all)
    with k(2) True show ?thesis by simp
  next
    case False
    have "load_evidence decode root (er_gate r) (er_input_digest r) (w1\<lparr>w_script := []\<rparr>) =
        (w1\<lparr>w_script := []\<rparr>, Inl Record_too_large)"
      by (rule loads(2)) (use record_validate_ok [OF v] assms(2) p False in \<open>simp_all add: not_le\<close>)
    with False show ?thesis by simp
  qed
qed

theorem load_after_store_witness:
  "\<exists>w2 k. load_evidence sample_decode ''/e'' ''mutation'' sample_digest (stored_world\<lparr>w_script := []\<rparr>) = (w2, Inr k) \<and>
    same_meaning k sample_record"
proof -
  have n: "node_at stored_world (record_path ''/e'' ''mutation'' sample_digest) = Some (File (''r1'' @ [CHR 0x0A]))"
    by code_simp
  have s: "int (length (''r1'' @ [CHR 0x0A])) \<le> evidence_maximum_size"
    by (simp add: evidence_maximum_size_def)
  have e: "proper_environment sample_record" by (simp add: proper_environment_def sample_record_def)
  have "sample_encode sample_record = ''r1''" by code_simp
  then have r: "roundtrips sample_encode sample_decode sample_record"
    using e by (simp add: roundtrips_def sample_decode_def)
  have d: "proper_decoder sample_decode" using e by (simp add: proper_decoder_def sample_decode_def)
  have "er_gate sample_record = ''mutation''" "er_input_digest sample_record = sample_digest"
    by (simp_all add: sample_record_def)
  with load_after_store [OF sample_stored n r d] s show ?thesis by (auto split: prod.splits)
qed

section \<open>Inspecting a store\<close>

definition inspected :: "string \<Rightarrow> string list \<Rightarrow> evidence_record \<Rightarrow> bool" where
  "inspected repository mods r \<longleftrightarrow>
     record_validate r = None \<and> er_repository r = repository \<and> er_module r \<in> set mods"

lemma inspect_file_ok:
  "inspect_file decode repository mods p content rf cf = Inr (Some r) \<Longrightarrow> inspected repository mods r"
  by (auto simp: inspect_file_def inspected_def known_record_def parse_record_ok Let_def
      split: if_splits option.splits)

lemma inspect_visits_ok:
  assumes "inspect_visits decode repository mods seen records vs = Inr out"
    and "fst ` set seen = record_key ` set records" and "distinct (map record_key records)"
    and "\<forall>r \<in> set records. inspected repository mods r"
  shows "distinct (map record_key out) \<and> (\<forall>r \<in> set out. inspected repository mods r) \<and> set records \<subseteq> set out \<and>
    (\<forall>p content rf cf. Visit_file p content rf cf \<in> set vs \<longrightarrow>
       (\<exists>r. inspect_file decode repository mods p content rf cf = Inr r \<and> (\<forall>x. r = Some x \<longrightarrow> x \<in> set out)))"
  using assms
proof (induction vs arbitrary: seen records)
  case (Cons v vs)
  show ?case
  proof (cases v)
    case (Visit_file p content rf cf)
    from Cons.prems(1) Visit_file obtain r where i: "inspect_file decode repository mods p content rf cf = Inr r"
      by (cases "inspect_file decode repository mods p content rf cf") auto
    show ?thesis
    proof (cases r)
      case None
      with Cons.prems(1) Visit_file i have "inspect_visits decode repository mods seen records vs = Inr out" by simp
      from Cons.IH [OF this Cons.prems(2-4)] i None Visit_file show ?thesis by auto
    next
      case (Some x)
      with Cons.prems(1) Visit_file i have new: "map_of seen (record_key x) = None"
        and rest: "inspect_visits decode repository mods ((record_key x, p) # seen) (records @ [x]) vs = Inr out"
        by (auto split: option.splits)
      have "record_key x \<notin> record_key ` set records"
        using new Cons.prems(2) by (simp add: map_of_eq_None_iff)
      with Cons.IH [OF rest] Cons.prems(2-4) inspect_file_ok [OF i [unfolded Some]] i Some Visit_file
      show ?thesis by auto
    qed
  qed (use Cons in auto)
qed auto

text \<open>\<open>Inspect\<close> is all or nothing: its inventory is strictly sorted by identity, every record
  of it is valid, of the right repository and of a known module, and every file below a
  by-input directory has its record in it; one bad file refuses the whole inventory.\<close>

theorem inspect_complete:
  assumes "inspect_evidence decode repository mods (Inr Directory) visits = Inr out"
  shows "sorted_wrt (<) (map record_key out) \<and> list_all (inspected repository mods) out \<and>
    (\<forall>p content rf cf. Visit_file p content rf cf \<in> set visits \<longrightarrow>
       (\<exists>r. inspect_file decode repository mods p content rf cf = Inr r \<and> (\<forall>x. r = Some x \<longrightarrow> x \<in> set out)))"
proof -
  from assms obtain records where r: "inspect_visits decode repository mods [] [] visits = Inr records"
    and o: "out = sort_key record_key records"
    by (auto simp: inspect_evidence_def)
  note ok = inspect_visits_ok [OF r]
  have d: "distinct (map record_key records)" using ok by simp
  have "sorted (map record_key out)" by (simp add: o)
  moreover have "distinct (map record_key out)"
    using d unfolding o by (metis mset_eq_imp_distinct_iff mset_map mset_sort)
  ultimately have "sorted_wrt (<) (map record_key out)" by (simp add: strict_sorted_iff)
  moreover have "set out = set records" by (simp add: o)
  ultimately show ?thesis using ok by (simp add: list_all_iff)
qed

theorem inspect_complete_witness:
  "inspect_evidence sample_decode ''r'' [''m''] (Inr Directory)
     [Visit_directory ''by-input'', Visit_file (''by-input/mutation/'' @ replicate 64 CHR ''a'' @ ''.json'')
        (Some (''r1'' @ [CHR 0x0A])) False False] = Inr [sample_record] \<and>
   list_all (inspected ''r'' [''m'']) [sample_record]"
proof -
  have i: "inspect_evidence sample_decode ''r'' [''m''] (Inr Directory)
     [Visit_directory ''by-input'', Visit_file (''by-input/mutation/'' @ replicate 64 CHR ''a'' @ ''.json'')
        (Some (''r1'' @ [CHR 0x0A])) False False] = Inr [sample_record]"
    by code_simp
  show ?thesis using i inspect_complete [OF i] by blast
qed

end
