(* ===== verification/Mutation_Review.thy ===== *)
theory Mutation_Review
  imports Go_Path Strict_Json
begin

text \<open>
  internal/mutation: the reviewed exceptions to the all-killed policy. equivalent.go (exact
  reviews of surviving mutants, with the native target architecture as scope), zero.go
  (packages without viable mutants) and migration.go (the ledger that approves old
  checkpoints). Every inventory is read by \<open>decode_strict\<close>.
\<close>

section \<open>Shared formats\<close>

definition hex_text :: "int \<Rightarrow> string \<Rightarrow> bool" where
  "hex_text n s \<longleftrightarrow> int (length s) = n \<and> all_in ''0123456789abcdef'' s"

text \<open>\<open>^[0-9a-f]{64}$\<close>, \<open>^[0-9a-f]{40}$\<close> and \<open>^v[0-9]+\.[0-9]+\.[0-9]+$\<close>\<close>

definition raw_digest_re :: "string \<Rightarrow> bool" where
  "raw_digest_re s \<longleftrightarrow> hex_text 64 s"

definition revision_re :: "string \<Rightarrow> bool" where
  "revision_re s \<longleftrightarrow> hex_text 40 s"

definition engine_version_re :: "string \<Rightarrow> bool" where
  "engine_version_re s \<longleftrightarrow> has_prefix s ''v'' \<and>
     (case split_on CHR ''.'' (trim_prefix s ''v'') of
        [a, b, c] \<Rightarrow> digits1 a \<and> digits1 b \<and> digits1 c | _ \<Rightarrow> False)"

definition valid_relative :: "string \<Rightarrow> bool" where
  "valid_relative v \<longleftrightarrow>
     v = ''.'' \<or>
     (v \<noteq> [] \<and> v \<noteq> ''..'' \<and> \<not> contains_any v [CHR 0x5C, CHR 0x00] \<and> path_clean v = v \<and>
      \<not> has_prefix v ''/'' \<and> \<not> has_prefix v ''../'')"

definition line_breaks :: string where
  "line_breaks = [CHR 0x00, CHR 0x0D, CHR 0x0A]"

section \<open>Equivalent mutants\<close>

record equivalent_mutation =
  em_file_name :: string
  em_type :: string
  em_line :: int
  em_column :: int
  em_contract_domain :: string
  em_reason :: string
  em_goarchs :: "string list option"

record equivalent_review =
  eq_architecture :: string
  eq_module_directory :: string
  eq_package_directory :: string
  eq_source_digest :: string
  eq_gremlins_version :: string
  eq_verifier :: string
  eq_mutations :: "equivalent_mutation list"

record equivalent_inventory =
  ei_schema_version :: int
  ei_packages :: "equivalent_review list option"

datatype review_error =
    Review_unreadable | Review_too_large | Review_strict strict_error | Review_schema
  | Package_malformed | Scope_empty | Scope_not_canonical | Coordinate_malformed
  | Duplicate_coordinate | Package_bad nat review_error | Duplicate_package
  | Identity_changed | Scope_needs_architecture | Scope_not_admitted | Architectures_given
  | Zero_paths_bad | Zero_source_bad | Zero_verifier_bad | Zero_version_bad | Zero_reason_bad

definition supported_architecture :: "string \<Rightarrow> bool" where
  "supported_architecture arch \<longleftrightarrow> List.member
     [''386'', ''amd64'', ''arm'', ''arm64'', ''loong64'', ''mips'', ''mips64'', ''mips64le'', ''mipsle'',
      ''ppc64'', ''ppc64le'', ''riscv64'', ''s390x'', ''wasm''] arch"

definition mutation_identity :: "string \<Rightarrow> string \<Rightarrow> int \<Rightarrow> int \<Rightarrow> string" where
  "mutation_identity file kind line column =
     file @ [CHR 0x00] @ kind @ [CHR 0x00] @ dec_int line @ [CHR 0x00] @ dec_int column"

text \<open>The loop over one architecture scope: each supported, each greater than the one before.\<close>

fun scope_scan :: "string option \<Rightarrow> string list \<Rightarrow> bool" where
  "scope_scan previous [] = True"
| "scope_scan previous (arch # archs) =
     (if \<not> supported_architecture arch \<or> (case previous of None \<Rightarrow> False | Some p \<Rightarrow> arch \<le> p)
      then False else scope_scan (Some arch) archs)"

definition mutation_error :: "equivalent_mutation \<Rightarrow> review_error option" where
  "mutation_error c = first_error
     [(case em_goarchs c of
         None \<Rightarrow> None
       | Some archs \<Rightarrow> if archs = [] then Some Scope_empty else refuse (\<not> scope_scan None archs) Scope_not_canonical),
      refuse (\<not> valid_relative (em_file_name c) \<or> \<not> has_suffix (em_file_name c) ''.go'' \<or>
              em_type c = [] \<or> contains_any (em_type c) line_breaks \<or>
              em_line c \<le> 0 \<or> em_column c \<le> 0 \<or>
              int (length (trim_space (em_contract_domain c))) < 20 \<or>
              contains_any (em_contract_domain c) line_breaks \<or>
              int (length (trim_space (em_reason c))) < 40 \<or> contains_any (em_reason c) line_breaks)
        Coordinate_malformed]"

definition em_identity :: "equivalent_mutation \<Rightarrow> string" where
  "em_identity c = mutation_identity (em_file_name c) (em_type c) (em_line c) (em_column c)"

definition review_validate :: "equivalent_review \<Rightarrow> review_error option" where
  "review_validate r = first_error
     [refuse (\<not> valid_relative (eq_module_directory r) \<or> \<not> valid_relative (eq_package_directory r) \<or>
              \<not> raw_digest_re (eq_source_digest r) \<or> \<not> raw_digest_re (eq_verifier r) \<or>
              \<not> engine_version_re (eq_gremlins_version r) \<or> eq_mutations r = [])
        Package_malformed,
      unique_scan mutation_error (\<lambda>_ e. e) em_identity (\<lambda>_ _. Duplicate_coordinate) 0 [] (eq_mutations r)]"

definition package_identity :: "string \<Rightarrow> string \<Rightarrow> string" where
  "package_identity m p = m @ CHR 0x00 # p"

definition maximum_inventory_size :: int where
  "maximum_inventory_size = 1048576"

text \<open>\<open>io.ReadAll(io.LimitReader(reader, limit+1))\<close> of a reader with the content \<open>data\<close> that
  then ends or fails.\<close>

definition read_limited :: "int \<Rightarrow> string \<Rightarrow> bool \<Rightarrow> review_error option" where
  "read_limited limit data failed =
     (if limit < int (length data) then Some Review_too_large
      else refuse failed Review_unreadable)"

definition parse_equivalent_inventory ::
  "equivalent_inventory strict_decoder \<Rightarrow> string \<Rightarrow> bool \<Rightarrow> review_error + equivalent_inventory" where
  "parse_equivalent_inventory decode data failed =
     with_check (read_limited maximum_inventory_size data failed)
       (case decode_strict decode data of
          Inl e \<Rightarrow> Inl (Review_strict e)
        | Inr ei \<Rightarrow>
            (case ei_packages ei of
               None \<Rightarrow> Inl Review_schema
             | Some packages \<Rightarrow>
                 with_check (first_error
                   [refuse (ei_schema_version ei \<noteq> 1) Review_schema,
                    unique_scan review_validate Package_bad
                      (\<lambda>r. package_identity (eq_module_directory r) (eq_package_directory r))
                      (\<lambda>_ _. Duplicate_package) 0 [] packages])
                   (Inr ei)))"

text \<open>The selection of the mutations in scope for one architecture.\<close>

fun select_mutations ::
  "string \<Rightarrow> equivalent_mutation list \<Rightarrow> review_error + equivalent_mutation list" where
  "select_mutations arch [] = Inr []"
| "select_mutations arch (c # cs) =
     (case em_goarchs c of
        None \<Rightarrow> and_then (select_mutations arch cs) (\<lambda>rest. Inr (c # rest))
      | Some archs \<Rightarrow>
          if \<not> supported_architecture arch then Inl Scope_needs_architecture
          else if \<not> List.member archs arch then select_mutations arch cs
          else and_then (select_mutations arch cs) (\<lambda>rest. Inr (c # rest)))"

definition review_one ::
  "string \<Rightarrow> string \<Rightarrow> string \<Rightarrow> string \<Rightarrow> equivalent_review \<Rightarrow> review_error + equivalent_review option" where
  "review_one source version verifier arch r =
     (case review_validate r of
        Some e \<Rightarrow> Inl e
      | None \<Rightarrow>
          if eq_source_digest r \<noteq> source \<or> eq_gremlins_version r \<noteq> version \<or> eq_verifier r \<noteq> verifier
          then Inl Identity_changed
          else and_then (select_mutations arch (eq_mutations r)) (\<lambda>ms.
            Inr (if ms = [] then None else Some (r\<lparr>eq_architecture := arch, eq_mutations := ms\<rparr>))))"

text \<open>\<open>EquivalentInventory.Review\<close>: the variadic architecture is a list of at most one.\<close>

definition review_inventory ::
  "equivalent_inventory \<Rightarrow> string \<Rightarrow> string \<Rightarrow> string \<Rightarrow> string \<Rightarrow> string \<Rightarrow> string list
    \<Rightarrow> review_error + equivalent_review option" where
  "review_inventory ei m p source version verifier architecture =
     (if 1 < length architecture then Inl Architectures_given
      else (let arch = (case architecture of [] \<Rightarrow> [] | a # _ \<Rightarrow> a)
            in case find (\<lambda>r. eq_module_directory r = m \<and> eq_package_directory r = p)
                      (case ei_packages ei of None \<Rightarrow> [] | Some ps \<Rightarrow> ps) of
                 None \<Rightarrow> Inr None
               | Some r \<Rightarrow> review_one source version verifier arch r))"

definition validate_execution :: "equivalent_review \<Rightarrow> review_error option" where
  "validate_execution r = first_error
     [review_validate r,
      refuse (list_ex (\<lambda>c. case em_goarchs c of
                None \<Rightarrow> False
              | Some archs \<Rightarrow> \<not> supported_architecture (eq_architecture r) \<or>
                  \<not> List.member archs (eq_architecture r)) (eq_mutations r))
        Scope_not_admitted]"

section \<open>Packages without mutants\<close>

record zero_review =
  zr_module_directory :: string
  zr_package_directory :: string
  zr_source_digest :: string
  zr_gremlins_version :: string
  zr_verifier :: string
  zr_reason :: string

record zero_inventory =
  zi_schema_version :: int
  zi_packages :: "zero_review list"

definition zero_validate :: "zero_review \<Rightarrow> review_error option" where
  "zero_validate r = first_error
     [refuse (\<not> valid_relative (zr_module_directory r) \<or> \<not> valid_relative (zr_package_directory r)) Zero_paths_bad,
      refuse (\<not> raw_digest_re (zr_source_digest r)) Zero_source_bad,
      refuse (\<not> raw_digest_re (zr_verifier r)) Zero_verifier_bad,
      refuse (\<not> engine_version_re (zr_gremlins_version r)) Zero_version_bad,
      refuse (int (length (trim_space (zr_reason r))) < 40 \<or>
              contains_any (trim_space (zr_reason r)) line_breaks) Zero_reason_bad]"

definition parse_zero_inventory ::
  "zero_inventory strict_decoder \<Rightarrow> string \<Rightarrow> bool \<Rightarrow> review_error + zero_inventory" where
  "parse_zero_inventory decode data failed =
     with_check (read_limited maximum_inventory_size data failed)
       (case decode_strict decode data of
          Inl e \<Rightarrow> Inl (Review_strict e)
        | Inr ei \<Rightarrow>
            with_check (first_error
              [refuse (zi_schema_version ei \<noteq> 1) Review_schema,
               unique_scan zero_validate Package_bad
                 (\<lambda>r. package_identity (zr_module_directory r) (zr_package_directory r))
                 (\<lambda>_ _. Duplicate_package) 0 [] (zi_packages ei)])
              (Inr ei))"

definition zero_find ::
  "zero_inventory \<Rightarrow> string \<Rightarrow> string \<Rightarrow> string \<Rightarrow> string \<Rightarrow> string \<Rightarrow> zero_review option" where
  "zero_find ei m p source version verifier =
     find (\<lambda>r. zr_module_directory r = m \<and> zr_package_directory r = p \<and> zr_source_digest r = source \<and>
        zr_gremlins_version r = version \<and> zr_verifier r = verifier) (zi_packages ei)"

definition zero_reviewed ::
  "zero_inventory \<Rightarrow> string \<Rightarrow> string \<Rightarrow> string \<Rightarrow> string \<Rightarrow> string \<Rightarrow> bool" where
  "zero_reviewed ei m p source version verifier \<longleftrightarrow> zero_find ei m p source version verifier \<noteq> None"

text \<open>
  internal/mutation/migration.go: the ledger that approves historical checkpoints.
  \<open>legacy_digest\<close> is \<open>legacyCanonicalReportDigest\<close> (canonical JSON and SHA-256, an argument).
\<close>

record verifier_migration_review =
  vr_verifier :: string
  vr_reason :: string
  vr_reviewed_at :: string

record verifier_migration =
  vm_execution_revision :: string
  vm_gate_input_digest :: string
  vm_verifier :: string
  vm_gremlins_version :: string
  vm_module :: string
  vm_package :: string
  vm_report_sha256 :: string

record input_migration =
  im_execution_revision :: string
  im_gate_input_digest :: string
  im_replacement_input_digest :: string
  im_reason :: string
  im_verifier :: string
  im_gremlins_version :: string
  im_module :: string
  im_package :: string
  im_report_sha256 :: string

record migration_ledger =
  ml_schema_version :: int
  ml_reason :: string
  ml_review :: verifier_migration_review
  ml_verifier_migrations :: "verifier_migration list"
  ml_entries :: "input_migration list"

record checkpoint =
  cp_module :: string
  cp_package :: string
  cp_execution_revision :: string
  cp_input_digest :: string
  cp_input_lineage :: "string list"
  cp_verifier_digest :: string
  cp_binary_digest :: string
  cp_verifier_source :: string
  cp_gremlins :: string
  cp_environment :: "(string \<times> string) list"
  cp_report_digest :: string
  cp_report :: string
  cp_mutants :: int

datatype ledger_error =
    Ledger_unreadable | Ledger_too_large | Ledger_strict strict_error | Ledger_schema | Ledger_reason
  | Ledger_review_digest | Ledger_review_reason | Ledger_review_date
  | Verifier_approval_bad nat | Verifier_approval_duplicate nat
  | Input_approval_bad nat | Input_reason_bad nat | Input_approval_duplicate nat
  | Requested_malformed | Verifier_not_unique | Input_not_unique string

definition maximum_ledger_size :: int where
  "maximum_ledger_size = 4194304"

definition detailed_reason :: "string \<Rightarrow> bool" where
  "detailed_reason r \<longleftrightarrow>
     \<not> (int (length (trim_space r)) < 40 \<or> contains_any (trim_space r) line_breaks)"

text \<open>\<open>time.Parse("2006-01-02", s)\<close> succeeds: four, two and two digits, and a day of that month.\<close>

definition days_in :: "int \<Rightarrow> int \<Rightarrow> int" where
  "days_in year month =
     (if month = 2 then (if year mod 4 = 0 \<and> (year mod 100 \<noteq> 0 \<or> year mod 400 = 0) then 29 else 28)
      else if List.member [4, 6, 9, 11] month then 30 else 31)"

definition date_ok :: "string \<Rightarrow> bool" where
  "date_ok s \<longleftrightarrow>
     (case split_on CHR ''-'' s of
        [y, m, d] \<Rightarrow>
          length y = 4 \<and> length m = 2 \<and> length d = 2 \<and> digits1 y \<and> digits1 m \<and> digits1 d \<and>
          (let year = int (dec_value y); month = int (dec_value m); day = int (dec_value d)
           in 1 \<le> month \<and> month \<le> 12 \<and> 1 \<le> day \<and> day \<le> days_in year month)
      | _ \<Rightarrow> False)"

definition verifier_migration_ok :: "string \<Rightarrow> verifier_migration \<Rightarrow> bool" where
  "verifier_migration_ok expected v \<longleftrightarrow>
     \<not> (\<not> revision_re (vm_execution_revision v) \<or> \<not> raw_digest_re (vm_gate_input_digest v) \<or>
        \<not> raw_digest_re (vm_report_sha256 v) \<or> \<not> engine_version_re (vm_gremlins_version v) \<or>
        vm_verifier v \<noteq> expected \<or> \<not> valid_relative (vm_module v) \<or> \<not> valid_relative (vm_package v))"

definition input_verifier :: "string \<Rightarrow> input_migration \<Rightarrow> string" where
  "input_verifier expected i = (if im_verifier i = [] then expected else im_verifier i)"

definition input_migration_error :: "string \<Rightarrow> input_migration \<Rightarrow> (nat \<Rightarrow> ledger_error) option" where
  "input_migration_error expected i = first_error
     [refuse (\<not> revision_re (im_execution_revision i) \<or> \<not> raw_digest_re (im_gate_input_digest i) \<or>
              (im_replacement_input_digest i \<noteq> [] \<and> \<not> raw_digest_re (im_replacement_input_digest i)) \<or>
              \<not> raw_digest_re (im_report_sha256 i) \<or> \<not> engine_version_re (im_gremlins_version i) \<or>
              input_verifier expected i \<noteq> expected \<or> \<not> valid_relative (im_module i) \<or>
              \<not> valid_relative (im_package i)) Input_approval_bad,
      refuse (256 < int (length (im_reason i)) \<or> contains_any (im_reason i) line_breaks) Input_reason_bad]"

definition verifier_migration_identity :: "verifier_migration \<Rightarrow> string" where
  "verifier_migration_identity v = join_with [CHR 0x00]
     [vm_module v, vm_package v, vm_execution_revision v, vm_gate_input_digest v, vm_report_sha256 v]"

definition input_migration_identity :: "input_migration \<Rightarrow> string" where
  "input_migration_identity i = join_with [CHR 0x00]
     [im_module i, im_package i, im_execution_revision i, im_gate_input_digest i,
      im_replacement_input_digest i, im_report_sha256 i]"

definition ledger_validate :: "migration_ledger \<Rightarrow> ledger_error option" where
  "ledger_validate l = first_error
     [refuse (ml_schema_version l \<noteq> 3) Ledger_schema,
      refuse (\<not> detailed_reason (ml_reason l)) Ledger_reason,
      refuse (\<not> raw_digest_re (vr_verifier (ml_review l))) Ledger_review_digest,
      refuse (\<not> detailed_reason (vr_reason (ml_review l))) Ledger_review_reason,
      refuse (\<not> date_ok (vr_reviewed_at (ml_review l))) Ledger_review_date,
      unique_scan (\<lambda>v. refuse (\<not> verifier_migration_ok (vr_verifier (ml_review l)) v) Verifier_approval_bad)
        (\<lambda>i e. e i) verifier_migration_identity (\<lambda>i _. Verifier_approval_duplicate i) 0 []
        (ml_verifier_migrations l),
      unique_scan (input_migration_error (vr_verifier (ml_review l)))
        (\<lambda>i e. e i) input_migration_identity (\<lambda>i _. Input_approval_duplicate i) 0 [] (ml_entries l)]"

definition parse_migration_ledger ::
  "migration_ledger strict_decoder \<Rightarrow> string \<Rightarrow> bool \<Rightarrow> ledger_error + migration_ledger" where
  "parse_migration_ledger decode data failed =
     (if maximum_ledger_size < int (length data) then Inl Ledger_too_large
      else if failed then Inl Ledger_unreadable
      else (case decode_strict decode data of
              Inl e \<Rightarrow> Inl (Ledger_strict e)
            | Inr l \<Rightarrow> with_check (ledger_validate l) (Inr l)))"

section \<open>Approval\<close>

definition report_digest_approved :: "(string \<Rightarrow> string) \<Rightarrow> checkpoint \<Rightarrow> string \<Rightarrow> bool" where
  "report_digest_approved legacy_digest c approved \<longleftrightarrow>
     ''sha256:'' @ approved = cp_report_digest c \<or> ''sha256:'' @ approved = legacy_digest (cp_report c)"

definition verifier_matches :: "(string \<Rightarrow> string) \<Rightarrow> checkpoint \<Rightarrow> string \<Rightarrow> verifier_migration \<Rightarrow> bool" where
  "verifier_matches legacy_digest c expected v \<longleftrightarrow>
     vm_module v = cp_module c \<and> vm_package v = cp_package c \<and>
     vm_execution_revision v = cp_execution_revision c \<and> vm_gremlins_version v = cp_gremlins c \<and>
     vm_verifier v = expected \<and> report_digest_approved legacy_digest c (vm_report_sha256 v) \<and>
     List.member (cp_input_digest c # cp_input_lineage c) (vm_gate_input_digest v)"

definition input_matches :: "(string \<Rightarrow> string) \<Rightarrow> checkpoint \<Rightarrow> string \<Rightarrow> string \<Rightarrow> input_migration \<Rightarrow> bool" where
  "input_matches legacy_digest c input expected i \<longleftrightarrow>
     im_module i = cp_module c \<and> im_package i = cp_package c \<and>
     im_execution_revision i = cp_execution_revision c \<and> im_gate_input_digest i = cp_input_digest c \<and>
     im_replacement_input_digest i = input \<and> im_gremlins_version i = cp_gremlins c \<and>
     input_verifier expected i = expected \<and> report_digest_approved legacy_digest c (im_report_sha256 i)"

definition input_approved :: "(string \<Rightarrow> string) \<Rightarrow> migration_ledger \<Rightarrow> checkpoint \<Rightarrow> string \<Rightarrow> string \<Rightarrow> bool" where
  "input_approved legacy_digest l c input expected \<longleftrightarrow>
     cp_input_digest c = input \<or>
     length (filter (input_matches legacy_digest c input expected) (ml_entries l)) = 1"

text \<open>The loop over the alternative identities, skipping empty and repeated ones.\<close>

fun alternative_scan ::
  "(string \<Rightarrow> string) \<Rightarrow> migration_ledger \<Rightarrow> checkpoint \<Rightarrow> string \<Rightarrow> string list \<Rightarrow> string list \<Rightarrow> bool" where
  "alternative_scan legacy_digest l c expected seen [] = False"
| "alternative_scan legacy_digest l c expected seen (input # inputs) =
     (if input = [] \<or> List.member seen input then alternative_scan legacy_digest l c expected seen inputs
      else if input_approved legacy_digest l c input expected then True
      else alternative_scan legacy_digest l c expected (input # seen) inputs)"

definition ledger_approve ::
  "(string \<Rightarrow> string) \<Rightarrow> migration_ledger \<Rightarrow> checkpoint \<Rightarrow> string \<Rightarrow> string list \<Rightarrow> string
    \<Rightarrow> ledger_error option" where
  "ledger_approve legacy_digest l c current alternatives expected =
     (if \<not> raw_digest_re current \<or>
         list_ex (\<lambda>input. input \<noteq> [] \<and> \<not> raw_digest_re input) alternatives \<or> \<not> raw_digest_re expected
      then Some Requested_malformed
      else if length (filter (verifier_matches legacy_digest c expected) (ml_verifier_migrations l)) \<noteq> 1 \<or>
              (cp_verifier_digest c \<noteq> [] \<and> cp_verifier_digest c \<noteq> expected)
      then Some Verifier_not_unique
      else if input_approved legacy_digest l c current expected then None
      else if alternative_scan legacy_digest l c expected [current] alternatives then None
      else Some (Input_not_unique current))"

end
