(* ===== verification/Go_Float.thy ===== *)
theory Go_Float
  imports Go_Prelude Complex_Main "HOL-Library.Log_Nat"
begin

text \<open>
  float64 as Go computes with it: a finite value is a rational, and every operation is the
  exact result rounded to 53 significant bits, ties to even (IEEE 754). The values below
  come from JSON numbers and small counters, far from overflow and from subnormal
  numbers, so the exponent is not bounded here; JSON has no infinities and no NaN.
\<close>

text \<open>\<open>two e = 2^e\<close> for any integer exponent.\<close>

definition two :: "int \<Rightarrow> rat" where
  "two e = (if 0 \<le> e then 2 ^ nat e else 1 / 2 ^ nat (- e))"

text \<open>For positive \<open>q\<close>, the exponent with \<open>two (binade q) \<le> q < two (binade q + 1)\<close>.\<close>

definition binade :: "rat \<Rightarrow> int" where
  "binade q =
     (let (n, d) = quotient_of q;
          e = int (floorlog 2 (nat n)) - int (floorlog 2 (nat d))
      in if q < two e then e - 1 else e)"

definition round_even :: "rat \<Rightarrow> int" where
  "round_even q =
     (let f = \<lfloor>q\<rfloor>; r = q - of_int f
      in if r < 1 / 2 then f else if 1 / 2 < r then f + 1 else if even f then f else f + 1)"

definition round64 :: "rat \<Rightarrow> rat" where
  "round64 q =
     (if q = 0 then 0
      else (let e = binade \<bar>q\<bar> - 52; m = of_int (round_even (\<bar>q\<bar> / two e)) * two e
            in if q < 0 then - m else m))"

definition float_of_int :: "int \<Rightarrow> rat" where
  "float_of_int i = round64 (of_int i)"

definition float_sub :: "rat \<Rightarrow> rat \<Rightarrow> rat" where
  "float_sub a b = round64 (a - b)"

definition float_mul :: "rat \<Rightarrow> rat \<Rightarrow> rat" where
  "float_mul a b = round64 (a * b)"

definition float_div :: "rat \<Rightarrow> rat \<Rightarrow> rat" where
  "float_div a b = round64 (a / b)"

section \<open>Exactness on integers\<close>

lemma two_pos [simp]: "0 < two e" "two e \<noteq> 0" "0 \<le> two e"
  by (simp_all add: two_def)

lemma two_nat: "two (int k) = 2 ^ k"
  by (simp add: two_def)

lemma two_add: "two (a + b) = two a * two b"
proof -
  consider "0 \<le> a" "0 \<le> b" | "0 \<le> a" "b < 0" "0 \<le> a + b" | "0 \<le> a" "b < 0" "a + b < 0"
    | "a < 0" "0 \<le> b" "0 \<le> a + b" | "a < 0" "0 \<le> b" "a + b < 0" | "a < 0" "b < 0" by linarith
  then show ?thesis
  proof cases
    case 1 then show ?thesis by (simp add: two_def nat_add_distrib power_add)
  next
    case 2
    then have "nat a = nat (a + b) + nat (- b)" by linarith
    then have "(2::rat) ^ nat a = 2 ^ nat (a + b) * 2 ^ nat (- b)" by (simp add: power_add)
    with 2 show ?thesis by (simp add: two_def)
  next
    case 3
    then have "nat (- b) = nat a + nat (- (a + b))" by linarith
    then have "(2::rat) ^ nat (- b) = 2 ^ nat a * 2 ^ nat (- (a + b))" by (simp add: power_add)
    with 3 show ?thesis by (simp add: two_def)
  next
    case 4
    then have "nat b = nat (a + b) + nat (- a)" by linarith
    then have "(2::rat) ^ nat b = 2 ^ nat (a + b) * 2 ^ nat (- a)" by (simp add: power_add)
    with 4 show ?thesis by (simp add: two_def)
  next
    case 5
    then have "nat (- a) = nat b + nat (- (a + b))" by linarith
    then have "(2::rat) ^ nat (- a) = 2 ^ nat b * 2 ^ nat (- (a + b))" by (simp add: power_add)
    with 5 show ?thesis by (simp add: two_def)
  next
    case 6
    then have "nat (- (a + b)) = nat (- a) + nat (- b)" by linarith
    with 6 show ?thesis by (simp add: two_def power_add)
  qed
qed

lemma two_mono: assumes "a \<le> b" shows "two a \<le> two b"
proof -
  have "1 \<le> two (b - a)" using assms by (simp add: two_def)
  moreover have "two b = two a * two (b - a)" using two_add [of a "b - a"] by simp
  ultimately show ?thesis using two_pos(1) [of a] by simp
qed

lemma binade_bounds: assumes "0 < q" shows "two (binade q) \<le> q" and "q < two (binade q + 1)"
proof -
  obtain n d where q: "quotient_of q = (n, d)" by fastforce
  have d: "0 < d" and eq: "q = of_int n / of_int d"
    using q by (simp_all add: quotient_of_denom_pos quotient_of_div)
  have n: "0 < n" using assms d eq by (simp add: zero_less_divide_iff)
  define a where "a = floorlog 2 (nat n)"
  define b where "b = floorlog 2 (nat d)"
  have an: "2 ^ (a - 1) \<le> nat n" and bd: "nat d < 2 ^ b"
    using n d floorlog_bounds [of "nat n" 2] floorlog_bounds [of "nat d" 2] by (simp_all add: a_def b_def)
  have a1: "0 < a" using n by (simp add: a_def floorlog_def)
  have "(2::rat) ^ (a - 1) \<le> of_int n" using an n
    by (metis le_nat_iff less_imp_le of_int_le_iff of_int_numeral of_int_power of_nat_numeral of_nat_power int_nat_eq nat_le_iff zle_int)
  moreover have "of_int d \<le> (2::rat) ^ b" using bd d
    by (metis less_imp_le nat_less_iff of_int_le_iff of_int_numeral of_int_power of_nat_numeral of_nat_power)
  moreover have "(2::rat) ^ (a - 1) / 2 ^ b = two (int a - int b - 1)"
    using two_add [of "int (a - 1)" "- int b"] a1 by (simp add: two_nat two_def algebra_simps of_nat_diff split: if_splits)
  ultimately have "two (int a - int b - 1) \<le> q"
    using d unfolding eq by (metis frac_le of_int_0_less_iff of_int_0_le_iff n less_imp_le)
  then show "two (binade q) \<le> q" by (auto simp: binade_def q a_def b_def Let_def)
  have b1: "0 < b" using d by (simp add: b_def floorlog_def)
  have na: "nat n < 2 ^ a" and db: "2 ^ (b - 1) \<le> nat d"
    using n d floorlog_bounds [of "nat n" 2] floorlog_bounds [of "nat d" 2] by (simp_all add: a_def b_def)
  have "of_int n < (2::rat) ^ a" using na n
    by (metis less_imp_le nat_less_iff of_int_less_iff of_int_numeral of_int_power of_nat_numeral of_nat_power)
  moreover have "(2::rat) ^ (b - 1) \<le> of_int d" using db d
    by (metis le_nat_iff less_imp_le of_int_le_iff of_int_numeral of_int_power of_nat_numeral of_nat_power int_nat_eq nat_le_iff zle_int)
  ultimately have "q < 2 ^ a / 2 ^ (b - 1)" unfolding eq
    by (intro frac_less) (use n in auto)
  moreover have "(2::rat) ^ a / 2 ^ (b - 1) = two (int a - int b + 1)"
    using two_add [of "int a" "- int (b - 1)"] b1 by (simp add: two_nat two_def algebra_simps of_nat_diff split: if_splits)
  ultimately show "q < two (binade q + 1)" by (auto simp: binade_def q a_def b_def Let_def)
qed

lemmas binade_lower = binade_bounds(1)

lemma round_even_int [simp]: "round_even (of_int i) = i"
  by (simp add: round_even_def)

lemma two_integral: "0 \<le> e \<Longrightarrow> two e = of_int (2 ^ nat e)"
  by (simp add: two_def)

lemma round64_integral: "\<exists>j. round64 (of_int i) = of_int j"
proof (cases "i = 0")
  case False
  let ?q = "\<bar>of_int i\<bar> :: rat"
  let ?e = "binade ?q - 52"
  have "\<exists>j. of_int (round_even (?q / two ?e)) * two ?e = of_int j"
  proof (cases "0 \<le> ?e")
    case True
    then show ?thesis unfolding two_integral [OF True] by (metis of_int_mult)
  next
    case neg: False
    then have t: "two ?e = 1 / 2 ^ nat (- ?e)" by (simp only: two_def if_False)
    have "?q / two ?e = of_int (\<bar>i\<bar> * 2 ^ nat (- ?e))" by (simp add: t)
    then have "of_int (round_even (?q / two ?e)) * two ?e = ?q"
      by (simp only: round_even_int) (simp add: t)
    then show ?thesis by (metis of_int_abs)
  qed
  then obtain j where j: "of_int (round_even (?q / two ?e)) * two ?e = of_int j" by blast
  have "round64 (of_int i) = (if i < 0 then - of_int j else of_int j)"
    unfolding round64_def Let_def j using False by simp
  then have "round64 (of_int i) = of_int (if i < 0 then - j else j)" by simp
  then show ?thesis by blast
qed (metis of_int_0 round64_def)

lemma of_int_bounds:
  "\<bar>of_int i :: rat\<bar> < 2 ^ k \<longleftrightarrow> \<bar>i\<bar> < 2 ^ k"
  "2 ^ k \<le> \<bar>of_int i :: rat\<bar> \<longleftrightarrow> 2 ^ k \<le> \<bar>i\<bar>"
  "2 ^ k \<le> (of_int i :: rat) \<longleftrightarrow> 2 ^ k \<le> i"
proof -
  have a: "\<bar>of_int i :: rat\<bar> = of_int \<bar>i\<bar>" by simp
  have b: "(2::rat) ^ k = of_int (2 ^ k)" by simp
  show "\<bar>of_int i :: rat\<bar> < 2 ^ k \<longleftrightarrow> \<bar>i\<bar> < 2 ^ k" unfolding a b by (rule of_int_less_iff)
  show "2 ^ k \<le> \<bar>of_int i :: rat\<bar> \<longleftrightarrow> 2 ^ k \<le> \<bar>i\<bar>" unfolding a b by (rule of_int_le_iff)
  show "2 ^ k \<le> (of_int i :: rat) \<longleftrightarrow> 2 ^ k \<le> i" unfolding b by (rule of_int_le_iff)
qed

lemma two_numeral: "two (numeral k) = 2 ^ numeral k"
  by (simp add: two_def)

lemma round64_exact:
  assumes "\<bar>i\<bar> < 2 ^ 53" shows "round64 (of_int i) = of_int i"
proof (cases "i = 0")
  case False
  let ?q = "\<bar>of_int i\<bar> :: rat"
  let ?e = "binade ?q - 52"
  have "two (binade ?q) \<le> ?q" using False by (intro binade_lower) simp
  also have "?q < two 53" unfolding two_numeral of_int_bounds using assms .
  finally have "two (binade ?q) < two 53" .
  then have "?e \<le> 0" using two_mono [of 53 "binade ?q"] by linarith
  then have t: "two ?e = 1 / 2 ^ nat (- ?e)" by (simp add: two_def)
  have "?q / two ?e = of_int (\<bar>i\<bar> * 2 ^ nat (- ?e))" by (simp add: t)
  then have "of_int (round_even (?q / two ?e)) * two ?e = ?q"
    by (simp only: round_even_int) (simp add: t)
  then show ?thesis using False by (auto simp: round64_def Let_def)
qed (simp add: round64_def)
lemma round_even_ge: assumes "of_int k \<le> q" shows "k \<le> round_even q"
proof -
  have "k \<le> \<lfloor>q\<rfloor>" using assms by (simp add: le_floor_iff)
  also have "\<lfloor>q\<rfloor> \<le> round_even q" by (simp add: round_even_def Let_def)
  finally show ?thesis .
qed

lemma round64_large:
  assumes "2 ^ 53 \<le> \<bar>i\<bar>" shows "2 ^ 53 \<le> \<bar>round64 (of_int i)\<bar>"
proof -
  let ?q = "\<bar>of_int i\<bar> :: rat"
  let ?e = "binade ?q - 52"
  have i: "i \<noteq> 0" using assms by auto
  have "two 53 \<le> ?q" unfolding two_numeral of_int_bounds using assms .
  also have "?q < two (binade ?q + 1)" using i by (intro binade_bounds) simp
  finally have b: "53 \<le> binade ?q" using two_mono [of "binade ?q + 1" 53] by linarith
  have "two (binade ?q) = two 52 * two ?e" using two_add [of 52 ?e] by simp
  then have "2 ^ 52 * two ?e \<le> ?q" using binade_lower [of ?q] i by (simp only: two_numeral)
  then have "2 ^ 52 \<le> ?q / two ?e" by (simp only: pos_le_divide_eq two_pos)
  then have "of_int (2 ^ 52) \<le> ?q / two ?e" by simp
  then have "2 ^ 52 \<le> round_even (?q / two ?e)" by (rule round_even_ge)
  then have "(2::rat) ^ 52 \<le> of_int (round_even (?q / two ?e))"
    unfolding of_int_bounds .
  moreover have "2 \<le> two ?e" using two_mono [of 1 ?e] b by (simp add: two_def)
  ultimately have "2 ^ 52 * 2 \<le> of_int (round_even (?q / two ?e)) * two ?e"
    by (intro mult_mono) auto
  then show ?thesis using i by (auto simp: round64_def Let_def)
qed

lemma round64_small:
  assumes "0 < q" and "q < 1 / 2" shows "0 \<le> round64 q" and "round64 q < 1"
proof -
  let ?e = "binade q - 52"
  have r: "round64 q = of_int (round_even (q / two ?e)) * two ?e"
    using assms by (simp add: round64_def Let_def)
  have "0 \<le> round_even (q / two ?e)" using assms by (intro round_even_ge) simp
  then show "0 \<le> round64 q" unfolding r by simp
  have "round_even x \<le> \<lfloor>x\<rfloor> + 1" for x by (simp add: round_even_def Let_def)
  moreover have "of_int \<lfloor>x\<rfloor> \<le> x" for x :: rat by simp
  ultimately have "of_int (round_even x) \<le> x + 1" for x
    by (metis add_mono_thms_linordered_semiring(3) of_int_1 of_int_add of_int_le_iff order_trans)
  then have "of_int (round_even (q / two ?e)) * two ?e \<le> (q / two ?e + 1) * two ?e"
    by (intro mult_right_mono) simp_all
  also have "\<dots> = q + two ?e" by (simp add: field_simps)
  also have "two ?e \<le> two (binade q)" by (rule two_mono) simp
  also have "two (binade q) \<le> q" using assms(1) by (rule binade_lower)
  finally show "round64 q < 1" unfolding r using assms by simp
qed

text \<open>The comparison of two counters through float64: exact, whatever the other counter is.\<close>

lemma float_counters_close:
  assumes "\<bar>k\<bar> < 2 ^ 53" and eps: "0 \<le> eps" "eps < 1"
  shows "\<bar>float_sub (float_of_int n) (float_of_int k)\<bar> \<le> eps \<longleftrightarrow> n = k"
proof
  assume close: "\<bar>float_sub (float_of_int n) (float_of_int k)\<bar> \<le> eps"
  obtain j where j: "round64 (of_int n) = of_int j" using round64_integral by blast
  have s: "float_sub (float_of_int n) (float_of_int k) = round64 (of_int (j - k))"
    using assms by (simp add: float_sub_def float_of_int_def j round64_exact)
  obtain l where l: "round64 (of_int (j - k)) = of_int l" using round64_integral by blast
  have "\<bar>of_int l\<bar> < (1::rat)" using close s l eps by simp
  then have "of_int \<bar>l\<bar> < (of_int 1 :: rat)" by simp
  then have "\<bar>l\<bar> < 1" unfolding of_int_less_iff .
  then have z: "round64 (of_int (j - k)) = 0" using l by simp
  have "\<bar>j - k\<bar> < 2 ^ 53"
    using round64_large [of "j - k"] z by fastforce
  then have jk: "j = k" using z round64_exact [of "j - k"] by simp
  show "n = k"
  proof (cases "\<bar>n\<bar> < 2 ^ 53")
    case True
    then show ?thesis using j jk round64_exact [of n] by simp
  next
    case False
    then have "2 ^ 53 \<le> \<bar>of_int k :: rat\<bar>" using round64_large [of n] j jk by simp
    then have "2 ^ 53 \<le> \<bar>k\<bar>" unfolding of_int_bounds .
    with assms show ?thesis by simp
  qed
next
  assume "n = k"
  then show "\<bar>float_sub (float_of_int n) (float_of_int k)\<bar> \<le> eps"
    using eps by (simp add: float_sub_def round64_def)
qed

end
