(* ===== verification/Mutation_Report.thy ===== *)
theory Mutation_Report
  imports Mutation_Review Go_Float "HOL-Library.Word" "HOL-Library.Product_Lexorder"
begin

text \<open>
  internal/mutation/bootstrap.go: the admission of a mutation report (every viable mutant
  killed, but for the reviewed survivors, and counters that agree with the records), its
  canonical digest, and the strict reader of one archive of historical checkpoints.
  Arguments: the JSON decoders and encoder, SHA-256, and the entries archive/zip lists.
\<close>

section \<open>Reports\<close>

record gremlin =
  gm_type :: string
  gm_status :: string
  gm_line :: int
  gm_column :: int

record report_file =
  rf_file_name :: string
  rf_mutations :: "gremlin list"

text \<open>Raw JSON values are their text. A nil slice, pointer or raw message is \<open>None\<close>; a float64
  is the rational it stands for.\<close>

record gremlins_report =
  gr_go_module :: string
  gr_elapsed_time :: "string option"
  gr_files :: "report_file list option"
  gr_killed :: "int option"
  gr_lived :: "int option"
  gr_not_covered :: "int option"
  gr_not_viable :: "int option"
  gr_total :: "int option"
  gr_coverage :: "rat option"
  gr_statistics :: "string option"
  gr_efficacy :: "rat option"

record report_result =
  rr_digest :: string
  rr_mutants :: int
  rr_killed :: int
  rr_equivalent :: int

datatype report_error =
    Report_unreadable | Report_too_large | Report_strict strict_error | Files_not_array
  | Review_invalid review_error | File_name_empty | Duplicate_file | Location_bad
  | Duplicate_mutation | Unreviewed_survivor | Not_killed | Review_not_lived
  | Counters_incomplete | Counters_disagree

definition maximum_checkpoint_size :: int where
  "maximum_checkpoint_size = 1048576"

text \<open>The variables of the loop.\<close>

record tally =
  t_mutants :: int
  t_killed :: int
  t_equivalent :: int
  t_reviewed :: "string list"
  t_files :: "string list"
  t_identities :: "string list"

definition gremlin_identity :: "string \<Rightarrow> gremlin \<Rightarrow> string" where
  "gremlin_identity file g = mutation_identity file (gm_type g) (gm_line g) (gm_column g)"

definition tally_status :: "string \<Rightarrow> string \<Rightarrow> tally \<Rightarrow> report_error + tally" where
  "tally_status status identity t =
     (if status = ''KILLED'' then Inr (t\<lparr>t_killed := t_killed t + 1\<rparr>)
      else if status = ''LIVED'' then
        (if \<not> List.member (t_reviewed t) identity then Inl Unreviewed_survivor
         else Inr (t\<lparr>t_reviewed := removeAll identity (t_reviewed t), t_equivalent := t_equivalent t + 1\<rparr>))
      else Inl Not_killed)"

fun tally_mutations :: "string \<Rightarrow> tally \<Rightarrow> gremlin list \<Rightarrow> report_error + tally" where
  "tally_mutations file t [] = Inr t"
| "tally_mutations file t (g # gs) =
     (if gm_type g = [] \<or> gm_line g \<le> 0 \<or> gm_column g \<le> 0 then Inl Location_bad
      else if List.member (t_identities t) (gremlin_identity file g) then Inl Duplicate_mutation
      else and_then (tally_status (gm_status g) (gremlin_identity file g)
               (t\<lparr>t_identities := gremlin_identity file g # t_identities t\<rparr>))
             (\<lambda>t. tally_mutations file (t\<lparr>t_mutants := t_mutants t + 1\<rparr>) gs))"

fun tally_files :: "tally \<Rightarrow> report_file list \<Rightarrow> report_error + tally" where
  "tally_files t [] = Inr t"
| "tally_files t (f # fs) =
     (if rf_file_name f = [] then Inl File_name_empty
      else if List.member (t_files t) (rf_file_name f) then Inl Duplicate_file
      else and_then (tally_mutations (rf_file_name f) (t\<lparr>t_files := rf_file_name f # t_files t\<rparr>) (rf_mutations f))
             (\<lambda>t. tally_files t fs))"

definition present_metrics :: "gremlins_report \<Rightarrow> bool list" where
  "present_metrics r =
     [gr_killed r \<noteq> None, gr_lived r \<noteq> None, gr_not_covered r \<noteq> None, gr_not_viable r \<noteq> None,
      gr_total r \<noteq> None, gr_coverage r \<noteq> None, gr_efficacy r \<noteq> None]"

definition metric_count :: "gremlins_report \<Rightarrow> int" where
  "metric_count r = int (length (filter id (present_metrics r)))"

text \<open>\<open>math.Abs(actual-expected) > 1e-9\<close>; the constant is the float64 nearest to it.\<close>

definition float_close :: "rat \<Rightarrow> rat \<Rightarrow> bool" where
  "float_close actual expected \<longleftrightarrow> \<not> round64 (1 / 10 ^ 9) < \<bar>float_sub actual expected\<bar>"

definition expected_efficacy :: "int \<Rightarrow> int \<Rightarrow> rat" where
  "expected_efficacy killed mutants =
     (if 0 < mutants then float_div (float_mul (float_of_int killed) 100) (float_of_int mutants) else 100)"

definition metrics_agree :: "gremlins_report \<Rightarrow> tally \<Rightarrow> bool" where
  "metrics_agree r t =
     (case (gr_killed r, gr_lived r, gr_not_covered r, gr_not_viable r, gr_total r, gr_coverage r, gr_efficacy r) of
        (Some killed, Some lived, Some not_covered, Some not_viable, Some total_count, Some coverage, Some efficacy) \<Rightarrow>
          list_all2 float_close
            [float_of_int killed, float_of_int lived, float_of_int not_covered, float_of_int not_viable,
             float_of_int total_count, coverage, efficacy]
            [float_of_int (t_killed t), float_of_int (t_equivalent t), 0, 0, float_of_int (t_mutants t), 100,
             expected_efficacy (t_killed t) (t_mutants t)]
      | _ \<Rightarrow> False)"

definition reviewed_identities :: "equivalent_review option \<Rightarrow> string list" where
  "reviewed_identities review = (case review of None \<Rightarrow> [] | Some r \<Rightarrow> map em_identity (eq_mutations r))"

definition start_tally :: "equivalent_review option \<Rightarrow> tally" where
  "start_tally review =
     \<lparr>t_mutants = 0, t_killed = 0, t_equivalent = 0, t_reviewed = reviewed_identities review,
      t_files = [], t_identities = []\<rparr>"

definition account_report ::
  "gremlins_report \<Rightarrow> equivalent_review option \<Rightarrow> report_error + tally" where
  "account_report r review =
     (case gr_files r of
        None \<Rightarrow> Inl Files_not_array
      | Some files \<Rightarrow>
          (case (case review of None \<Rightarrow> None | Some v \<Rightarrow> validate_execution v) of
             Some e \<Rightarrow> Inl (Review_invalid e)
           | None \<Rightarrow>
               and_then (tally_files (start_tally review) files) (\<lambda>t.
                 with_check (first_error
                   [refuse (t_reviewed t \<noteq> []) Review_not_lived,
                    refuse ((metric_count r \<noteq> 0 \<and> metric_count r \<noteq> int (length (present_metrics r))) \<or>
                            (0 < t_equivalent t \<and> metric_count r = 0)) Counters_incomplete,
                    refuse (0 < metric_count r \<and> \<not> metrics_agree r t) Counters_disagree])
                   (Inr t))))"

section \<open>The canonical digest\<close>

definition gremlin_key :: "gremlin \<Rightarrow> string \<times> int \<times> int" where
  "gremlin_key g = (gm_type g, gm_line g, gm_column g)"

text \<open>The elapsed time is dropped, mutations and files are sorted, the statistics rewritten by the
  canonical encoder \<open>canonical_json\<close> when there are any.\<close>

definition canonical_report :: "(string \<Rightarrow> string) \<Rightarrow> gremlins_report \<Rightarrow> gremlins_report" where
  "canonical_report canonical_json r =
     r\<lparr>gr_elapsed_time := None,
       gr_files := map_option (\<lambda>fs. sort_key rf_file_name
          (map (\<lambda>f. f\<lparr>rf_mutations := sort_key gremlin_key (rf_mutations f)\<rparr>) fs)) (gr_files r),
       gr_statistics := (case gr_statistics r of
          Some s \<Rightarrow> (if s = [] then Some s else Some (canonical_json s)) | None \<Rightarrow> None)\<rparr>"

text \<open>\<open>encode\<close> is the marshalling of the report followed by the canonical re-encoding.\<close>

record report_codec =
  rc_decoder :: "gremlins_report strict_decoder"
  rc_canonical_json :: "string \<Rightarrow> string"
  rc_encode :: "gremlins_report \<Rightarrow> string"
  rc_sha256 :: "string \<Rightarrow> string"

definition canonical_report_digest :: "report_codec \<Rightarrow> gremlins_report \<Rightarrow> string" where
  "canonical_report_digest codec r =
     ''sha256:'' @ rc_sha256 codec (rc_encode codec (canonical_report (rc_canonical_json codec) r))"

definition legacy_canonical_report_digest :: "report_codec \<Rightarrow> string \<Rightarrow> string" where
  "legacy_canonical_report_digest codec data =
     ''sha256:'' @ rc_sha256 codec (rc_canonical_json codec data)"

definition validate_report_data ::
  "report_codec \<Rightarrow> string \<Rightarrow> equivalent_review option \<Rightarrow> report_error + report_result" where
  "validate_report_data codec data review =
     (case decode_strict (rc_decoder codec) data of
        Inl e \<Rightarrow> Inl (Report_strict e)
      | Inr r \<Rightarrow>
          and_then (account_report r review) (\<lambda>t.
            Inr \<lparr>rr_digest = canonical_report_digest codec r, rr_mutants = t_mutants t,
                 rr_killed = t_killed t, rr_equivalent = t_equivalent t\<rparr>))"

definition validate_report ::
  "report_codec \<Rightarrow> string \<Rightarrow> bool \<Rightarrow> equivalent_review option \<Rightarrow> report_error + report_result" where
  "validate_report codec data failed review =
     (if maximum_checkpoint_size < int (length data) then Inl Report_too_large
      else if failed then Inl Report_unreadable
      else validate_report_data codec data review)"

section \<open>Checkpoints\<close>

record legacy_checkpoint =
  lc_schema_version :: int
  lc_module :: string
  lc_package :: string
  lc_execution_revision :: string
  lc_validated_revision :: string
  lc_gate_input_digest :: string
  lc_identity_lineage :: "string list"
  lc_identity_migration :: "string option"
  lc_legacy_module_digest :: string
  lc_gremlins_version :: string
  lc_verifier_sha256 :: string
  lc_verifier_source :: string
  lc_binary_sha256 :: string
  lc_environment :: "(string \<times> string) list"
  lc_report :: string

datatype archive_error =
    Archive_size | Archive_open | Archive_entry_count | Archive_expanded | Archive_path_unsafe
  | Archive_not_regular | Archive_entry_unexpected | Checkpoint_addedbad | Checkpoint_ratio
  | Archive_entry_duplicate | Checkpoint_open | Checkpoint_read | Checkpoint_addedmismatch
  | Checkpoint_strict strict_error | Checkpoint_schema | Checkpoint_paths | Checkpoint_identity_bad
  | Checkpoint_digest_bad | Checkpoint_source_bad | Checkpoint_environment
  | Checkpoint_report report_error | Checkpoint_duplicate

definition validate_checkpoint :: "report_codec \<Rightarrow> legacy_checkpoint \<Rightarrow> archive_error + checkpoint" where
  "validate_checkpoint codec c =
     with_check (first_error
       [refuse (lc_schema_version c \<noteq> 3) Checkpoint_schema,
        refuse (\<not> valid_relative (lc_module c) \<or> \<not> valid_relative (lc_package c)) Checkpoint_paths,
        refuse (\<not> raw_digest_re (lc_gate_input_digest c) \<or> \<not> engine_version_re (lc_gremlins_version c))
          Checkpoint_identity_bad,
        refuse (list_ex (\<lambda>d. d \<noteq> [] \<and> \<not> raw_digest_re d) [lc_verifier_sha256 c, lc_binary_sha256 c])
          Checkpoint_digest_bad,
        refuse (lc_verifier_source c \<noteq> [] \<and> lc_verifier_source c \<noteq> ''executed'' \<and>
                lc_verifier_source c \<noteq> ''approved-semantic-migration'') Checkpoint_source_bad,
        refuse (lc_environment c = []) Checkpoint_environment])
     (case validate_report_data codec (lc_report c) None of
        Inl e \<Rightarrow> Inl (Checkpoint_report e)
      | Inr result \<Rightarrow>
          Inr \<lparr>cp_module = lc_module c, cp_package = lc_package c,
               cp_execution_revision = lc_execution_revision c, cp_input_digest = lc_gate_input_digest c,
               cp_input_lineage = lc_identity_lineage c, cp_verifier_digest = lc_verifier_sha256 c,
               cp_binary_digest = lc_binary_sha256 c, cp_verifier_source = lc_verifier_source c,
               cp_gremlins = lc_gremlins_version c, cp_environment = lc_environment c,
               cp_report_digest = rr_digest result, cp_report = lc_report c, cp_mutants = rr_mutants result\<rparr>)"

definition parse_checkpoint ::
  "report_codec \<Rightarrow> legacy_checkpoint strict_decoder \<Rightarrow> string \<Rightarrow> archive_error + checkpoint" where
  "parse_checkpoint codec decoder data =
     (case decode_strict decoder data of
        Inl e \<Rightarrow> Inl (Checkpoint_strict e)
      | Inr c \<Rightarrow> validate_checkpoint codec c)"

section \<open>Archives\<close>

text \<open>One entry as archive/zip presents it: its header fields, and what opening and reading it
  gives (\<open>None\<close>: it does not open; the flag: reading fails after the content).\<close>

record archive_entry =
  ae_name :: string
  ae_special :: bool
  ae_directory :: bool
  ae_uncompressed :: "64 word"
  ae_compressed :: "64 word"
  ae_content :: "(string \<times> bool) option"

definition maximum_archive_size :: int where
  "maximum_archive_size = 16777216"

definition maximum_expanded_size :: "64 word" where
  "maximum_expanded_size = 67108864"

definition maximum_checkpoint_count :: int where
  "maximum_checkpoint_count = 2048"

definition maximum_compression_ratio :: "64 word" where
  "maximum_compression_ratio = 200"

definition add_expanded :: "64 word \<Rightarrow> 64 word \<Rightarrow> archive_error + 64 word" where
  "add_expanded current added =
     (if maximum_expanded_size < added \<or> maximum_expanded_size - added < current then Inl Archive_expanded
      else Inr (current + added))"

fun add_all_expanded :: "64 word \<Rightarrow> archive_entry list \<Rightarrow> archive_error + 64 word" where
  "add_all_expanded expanded [] = Inr expanded"
| "add_all_expanded expanded (f # fs) =
     and_then (add_expanded expanded (ae_uncompressed f)) (\<lambda>expanded. add_all_expanded expanded fs)"

definition validate_archive_entry :: "archive_entry \<Rightarrow> archive_error option" where
  "validate_archive_entry f =
     (let clean = path_clean (ae_name f)
      in first_error
       [refuse (clean \<noteq> ae_name f \<or> has_prefix clean ''/'' \<or> clean = ''.'' \<or> has_prefix clean ''../'')
          Archive_path_unsafe,
        refuse (ae_special f \<or> ae_directory f) Archive_not_regular,
        refuse (\<not> has_prefix clean ''mutation-checkpoints/'' \<or> path_dir clean \<noteq> ''mutation-checkpoints'' \<or>
                path_ext clean \<noteq> ''.json'') Archive_entry_unexpected,
        refuse (ae_uncompressed f = 0 \<or> word_of_int maximum_checkpoint_size < ae_uncompressed f) Checkpoint_addedbad,
        refuse (ae_compressed f = 0 \<or> ae_compressed f * maximum_compression_ratio < ae_uncompressed f)
          Checkpoint_ratio])"

definition read_checkpoint ::
  "report_codec \<Rightarrow> legacy_checkpoint strict_decoder \<Rightarrow> 64 word \<Rightarrow> (string \<times> bool) option
    \<Rightarrow> archive_error + checkpoint" where
  "read_checkpoint codec decoder declared content =
     (case content of
        None \<Rightarrow> Inl Checkpoint_open
      | Some (data, failed) \<Rightarrow>
          if int (length data) \<le> maximum_checkpoint_size \<and> failed then Inl Checkpoint_read
          else if maximum_checkpoint_size < int (length data) \<or> word_of_int (int (length data)) \<noteq> declared
          then Inl Checkpoint_addedmismatch
          else parse_checkpoint codec decoder data)"

fun read_entries ::
  "report_codec \<Rightarrow> legacy_checkpoint strict_decoder \<Rightarrow> string list \<Rightarrow> string list \<Rightarrow> archive_entry list
    \<Rightarrow> archive_error + checkpoint list" where
  "read_entries codec decoder names identities [] = Inr []"
| "read_entries codec decoder names identities (f # fs) =
     (case validate_archive_entry f of
        Some e \<Rightarrow> Inl e
      | None \<Rightarrow>
          if List.member names (ae_name f) then Inl Archive_entry_duplicate
          else and_then (read_checkpoint codec decoder (ae_uncompressed f) (ae_content f)) (\<lambda>c.
            let identity = package_identity (cp_module c) (cp_package c)
            in if List.member identities identity then Inl Checkpoint_duplicate
               else and_then (read_entries codec decoder (ae_name f # names) (identity # identities) fs)
                      (\<lambda>cs. Inr (c # cs))))"

text \<open>\<open>ReadBootstrap\<close>: \<open>entries\<close> is \<open>None\<close> when the archive does not open.\<close>

definition read_bootstrap ::
  "report_codec \<Rightarrow> legacy_checkpoint strict_decoder \<Rightarrow> int \<Rightarrow> archive_entry list option
    \<Rightarrow> archive_error + checkpoint list" where
  "read_bootstrap codec decoder archive_size entries =
     (if archive_size \<le> 0 \<or> maximum_archive_size < archive_size then Inl Archive_size
      else (case entries of
              None \<Rightarrow> Inl Archive_open
            | Some files \<Rightarrow>
                if files = [] \<or> maximum_checkpoint_count < int (length files) then Inl Archive_entry_count
                else (let files = sort_key ae_name files
                      in and_then (add_all_expanded 0 files) (\<lambda>_. read_entries codec decoder [] [] files))))"

end
