(* ===== verification/Mutation_Report_Facts.thy ===== *)
theory Mutation_Report_Facts
  imports Mutation_Report "HOL-Library.Multiset"
begin

text \<open>
  What an admitted mutation report shows: every mutant is killed or is exactly one of the
  reviewed survivors, nothing reviewed is stale, and the counters are the true counts;
  that the canonical digest forgets the order of the records and the elapsed time; and the
  bounds of the archive reader.
\<close>

section \<open>Coordinates\<close>

definition coordinates :: "report_file list \<Rightarrow> (string \<times> gremlin) list" where
  "coordinates fs = concat (map (\<lambda>f. map (Pair (rf_file_name f)) (rf_mutations f)) fs)"

definition coordinate_identity :: "string \<times> gremlin \<Rightarrow> string" where
  "coordinate_identity = (\<lambda>(file, g). gremlin_identity file g)"

definition is_killed :: "string \<times> gremlin \<Rightarrow> bool" where
  "is_killed = (\<lambda>(file, g). gm_status g = ''KILLED'')"

definition is_lived :: "string \<times> gremlin \<Rightarrow> bool" where
  "is_lived = (\<lambda>(file, g). gm_status g = ''LIVED'')"

definition is_located :: "string \<times> gremlin \<Rightarrow> bool" where
  "is_located = (\<lambda>(file, g). gm_type g \<noteq> [] \<and> 0 < gm_line g \<and> 0 < gm_column g)"

lemma killed_not_lived [simp]: "is_killed c \<Longrightarrow> \<not> is_lived c"
  by (auto simp: is_killed_def is_lived_def)

text \<open>The identity text determines the coordinate when one of the two has no NUL byte in its
  file and type, as every reviewed coordinate has.\<close>

lemma mutation_identity_parts:
  "mutation_identity f t l c = join_with [CHR 0x00] [f, t, dec_int l, dec_int c]"
  by (simp add: mutation_identity_def)

lemma mutation_identity_inj:
  assumes eq: "mutation_identity f t l c = mutation_identity f' t' l' c'"
    and nul: "CHR 0x00 \<notin> set f" "CHR 0x00 \<notin> set t"
    and pos: "0 < l" "0 < c" "0 < l'" "0 < c'"
  shows "f = f' \<and> t = t' \<and> l = l' \<and> c = c'"
proof -
  have cnt: "length (filter ((=) CHR 0x00) (mutation_identity f t l c)) =
      length (filter ((=) CHR 0x00) f) + length (filter ((=) CHR 0x00) t) + 3" for f t l c
    using dec_int_no_nul [of l] dec_int_no_nul [of c]
    by (auto simp: mutation_identity_def filter_empty_conv)
  have "length (filter ((=) CHR 0x00) f) = 0" "length (filter ((=) CHR 0x00) t) = 0"
    using nul by (auto simp: filter_empty_conv)
  with cnt [of f t l c] cnt [of f' t' l' c'] have "filter ((=) CHR 0x00) f' = []" "filter ((=) CHR 0x00) t' = []"
    unfolding eq by simp_all
  then have nul': "CHR 0x00 \<notin> set f'" "CHR 0x00 \<notin> set t'" by (auto simp: filter_empty_conv)
  have "[f, t, dec_int l, dec_int c] = [f', t', dec_int l', dec_int c']"
    using eq nul nul' dec_int_no_nul unfolding mutation_identity_parts
    by (intro join_with_inj [of "CHR 0x00"]) auto
  with pos show ?thesis by (simp add: dec_int_nonneg_inj)
qed

section \<open>The accounting loop\<close>

text \<open>What the loop adds to its variables for a list of coordinates, and when it goes through.\<close>

definition counted :: "(string \<times> gremlin) list \<Rightarrow> tally \<Rightarrow> tally" where
  "counted cs t =
     t\<lparr>t_mutants := t_mutants t + int (length cs),
       t_killed := t_killed t + int (length (filter is_killed cs)),
       t_equivalent := t_equivalent t + int (length (filter is_lived cs)),
       t_reviewed := filter (\<lambda>i. i \<notin> coordinate_identity ` set (filter is_lived cs)) (t_reviewed t),
       t_identities := rev (map coordinate_identity cs) @ t_identities t\<rparr>"

definition admissible :: "(string \<times> gremlin) list \<Rightarrow> tally \<Rightarrow> bool" where
  "admissible cs t \<longleftrightarrow>
     (\<forall>c \<in> set cs. is_located c \<and> (is_killed c \<or> is_lived c)) \<and>
     distinct (map coordinate_identity cs) \<and>
     coordinate_identity ` set cs \<inter> set (t_identities t) = {} \<and>
     coordinate_identity ` set (filter is_lived cs) \<subseteq> set (t_reviewed t)"

lemma counted_Nil [simp]: "counted [] t = t"
  by (simp add: counted_def)

lemma admissible_Nil [simp]: "admissible [] t"
  by (simp add: admissible_def)

lemma counted_append: "counted (cs @ ds) t = counted ds (counted cs t)"
  by (cases t) (auto simp: counted_def image_Un intro!: filter_cong)

lemma admissible_append: "admissible (cs @ ds) t \<longleftrightarrow> admissible cs t \<and> admissible ds (counted cs t)"
  unfolding admissible_def by (auto simp: counted_def)

lemma counted_files [simp]:
  "t_files (counted cs t) = t_files t" "counted cs (t\<lparr>t_files := fs\<rparr>) = (counted cs t)\<lparr>t_files := fs\<rparr>"
  "admissible cs (t\<lparr>t_files := fs\<rparr>) = admissible cs t"
  by (simp_all add: counted_def admissible_def)

lemma tally_one:
  "tally_mutations file t (g # gs) = Inr t' \<longleftrightarrow>
     admissible [(file, g)] t \<and> tally_mutations file (counted [(file, g)] t) gs = Inr t'"
proof -
  have "filter (\<lambda>i. i \<noteq> x) r = removeAll x r" for x :: string and r
    by (induction r) auto
  then show ?thesis
    by (cases t) (auto simp: admissible_def counted_def tally_status_def coordinate_identity_def is_located_def
        is_killed_def is_lived_def not_le)
qed

lemma tally_mutations_ok:
  "tally_mutations file t gs = Inr t' \<longleftrightarrow>
     admissible (map (Pair file) gs) t \<and> t' = counted (map (Pair file) gs) t"
proof (induction gs arbitrary: t)
  case (Cons g gs)
  have "map (Pair file) (g # gs) = [(file, g)] @ map (Pair file) gs" by simp
  then show ?case
    unfolding tally_one Cons.IH by (simp only: counted_append admissible_append) blast
qed auto

declare tally_mutations.simps [simp del]

lemma tally_files_ok:
  "tally_files t fs = Inr t' \<longleftrightarrow>
     (\<forall>f \<in> set fs. rf_file_name f \<noteq> []) \<and> distinct (map rf_file_name fs) \<and>
     rf_file_name ` set fs \<inter> set (t_files t) = {} \<and>
     admissible (coordinates fs) t \<and>
     t' = (counted (coordinates fs) t)\<lparr>t_files := rev (map rf_file_name fs) @ t_files t\<rparr>"
proof (induction fs arbitrary: t)
  case Nil
  then show ?case by (auto simp: coordinates_def)
next
  case (Cons f fs)
  have c: "coordinates (f # fs) = map (Pair (rf_file_name f)) (rf_mutations f) @ coordinates fs"
    by (simp add: coordinates_def)
  show ?case
    unfolding c counted_append admissible_append
    by (auto simp: tally_mutations_ok Cons.IH)
qed

section \<open>Admission\<close>

text \<open>The coordinates of the reviewed survivors.\<close>

definition reviewed_coordinates :: "equivalent_review option \<Rightarrow> (string \<times> string \<times> int \<times> int) set" where
  "reviewed_coordinates review =
     (case review of None \<Rightarrow> {}
      | Some r \<Rightarrow> (\<lambda>c. (em_file_name c, em_type c, em_line c, em_column c)) ` set (eq_mutations r))"

definition mutant_coordinate :: "string \<times> gremlin \<Rightarrow> string \<times> string \<times> int \<times> int" where
  "mutant_coordinate = (\<lambda>(file, g). (file, gm_type g, gm_line g, gm_column g))"

definition review_admitted :: "equivalent_review option \<Rightarrow> bool" where
  "review_admitted review \<longleftrightarrow> (case review of None \<Rightarrow> True | Some r \<Rightarrow> validate_execution r = None)"

lemma coordinate_text:
  "coordinate_identity c = (case mutant_coordinate c of (f, t, l, k) \<Rightarrow> mutation_identity f t l k)"
  by (cases c) (simp add: coordinate_identity_def mutant_coordinate_def gremlin_identity_def)

lemma reviewed_text:
  "set (reviewed_identities review) = (\<lambda>(f, t, l, k). mutation_identity f t l k) ` reviewed_coordinates review"
  by (auto simp: reviewed_identities_def reviewed_coordinates_def em_identity_def image_image split: option.splits)

lemma valid_relative_no_nul: "valid_relative v \<Longrightarrow> CHR 0x00 \<notin> set v"
  by (auto simp: valid_relative_def contains_any_def list_ex_iff)

lemma reviewed_plain:
  assumes "review_admitted review" and "(f, t, l, k) \<in> reviewed_coordinates review"
  shows "CHR 0x00 \<notin> set f \<and> CHR 0x00 \<notin> set t \<and> 0 < l \<and> 0 < k"
proof -
  obtain r m where r: "review = Some r" "m \<in> set (eq_mutations r)"
    and c: "f = em_file_name m" "t = em_type m" "l = em_line m" "k = em_column m"
    using assms(2) by (auto simp: reviewed_coordinates_def split: option.splits)
  have "mutation_error m = None"
    using assms(1) r by (simp add: review_admitted_def validate_execution_def review_validate_def unique_scan_ok)
  then show ?thesis
    unfolding c
    by (auto simp: mutation_error_def contains_any_def list_ex_iff line_breaks_def dest!: valid_relative_no_nul)
qed

text \<open>Within one report the identities agree with the coordinates wherever a review is involved.\<close>

lemma lived_text_iff:
  assumes "review_admitted review" and "\<forall>c \<in> set cs. is_located c"
  shows "coordinate_identity ` set cs = set (reviewed_identities review) \<longleftrightarrow>
         mutant_coordinate ` set cs = reviewed_coordinates review"
proof -
  let ?i = "\<lambda>(f, t, l, k). mutation_identity f t l k"
  have texts: "coordinate_identity ` set cs = ?i ` (mutant_coordinate ` set cs)"
    by (auto simp: coordinate_text image_image case_prod_beta)
  have inj: "p = q" if "p \<in> mutant_coordinate ` set cs" "q \<in> reviewed_coordinates review" "?i p = ?i q" for p q
  proof -
    obtain f t l k where p: "p = (f, t, l, k)" by (cases p)
    obtain f' t' l' k' where q: "q = (f', t', l', k')" by (cases q)
    have "0 < l \<and> 0 < k"
      using that(1) assms(2) by (auto simp: p is_located_def mutant_coordinate_def)
    with reviewed_plain [OF assms(1)] that(2,3) show ?thesis
      using mutation_identity_inj [of f' t' l' k' f t l k] by (auto simp: p q)
  qed
  show ?thesis unfolding texts reviewed_text
  proof
    assume e: "?i ` (mutant_coordinate ` set cs) = ?i ` reviewed_coordinates review"
    show "mutant_coordinate ` set cs = reviewed_coordinates review"
    proof (rule set_eqI, rule iffI)
      fix p assume p: "p \<in> mutant_coordinate ` set cs"
      then obtain q where "q \<in> reviewed_coordinates review" "?i p = ?i q" using e by blast
      with inj p show "p \<in> reviewed_coordinates review" by blast
    next
      fix q assume q: "q \<in> reviewed_coordinates review"
      then obtain p where "p \<in> mutant_coordinate ` set cs" "?i p = ?i q" using e by (metis (no_types, lifting) imageE imageI)
      with inj q show "q \<in> mutant_coordinate ` set cs" by blast
    qed
  qed simp
qed


section \<open>Counters\<close>

lemma float_close_counters:
  "\<bar>k\<bar> < 2 ^ 53 \<Longrightarrow> float_close (float_of_int n) (float_of_int k) \<longleftrightarrow> n = k"
  using float_counters_close [of k "round64 (1 / 10 ^ 9)" n] round64_small [of "1 / 10 ^ 9"]
  by (simp add: float_close_def not_less)

lemma float_close_zero: "float_close (float_of_int n) 0 \<longleftrightarrow> n = 0"
  using float_close_counters [of 0 n] by (simp add: float_of_int_def round64_def)

text \<open>The counters of a report are absent, or each is the true count of its kind.\<close>

definition counters_true :: "gremlins_report \<Rightarrow> (string \<times> gremlin) list \<Rightarrow> bool" where
  "counters_true r cs \<longleftrightarrow>
     (let killed = int (length (filter is_killed cs)); lived = int (length (filter is_lived cs));
          mutants = int (length cs)
      in (present_metrics r = replicate 7 False \<and> lived = 0) \<or>
         (\<exists>coverage efficacy. gr_killed r = Some killed \<and> gr_lived r = Some lived \<and> gr_not_covered r = Some 0 \<and>
            gr_not_viable r = Some 0 \<and> gr_total r = Some mutants \<and>
            gr_coverage r = Some coverage \<and> float_close coverage 100 \<and>
            gr_efficacy r = Some efficacy \<and> float_close efficacy (expected_efficacy killed mutants)))"

lemma metrics_agree_iff:
  assumes "0 \<le> t_killed t" "t_killed t < 2 ^ 53" "0 \<le> t_equivalent t" "t_equivalent t < 2 ^ 53"
    "0 \<le> t_mutants t" "t_mutants t < 2 ^ 53"
  shows "metrics_agree r t \<longleftrightarrow>
    (\<exists>coverage efficacy. gr_killed r = Some (t_killed t) \<and> gr_lived r = Some (t_equivalent t) \<and>
       gr_not_covered r = Some 0 \<and> gr_not_viable r = Some 0 \<and> gr_total r = Some (t_mutants t) \<and>
       gr_coverage r = Some coverage \<and> float_close coverage 100 \<and>
       gr_efficacy r = Some efficacy \<and> float_close efficacy (expected_efficacy (t_killed t) (t_mutants t)))"
  using assms
  by (auto simp: metrics_agree_def float_close_counters float_close_zero split: option.splits)

lemma metric_count_zero: "metric_count r = 0 \<longleftrightarrow> present_metrics r = replicate 7 False"
  by (auto simp: metric_count_def present_metrics_def numeral_eq_Suc filter_empty_conv)

lemma metrics_agree_all: "metrics_agree r t \<Longrightarrow> metric_count r = 7"
  by (auto simp: metrics_agree_def metric_count_def present_metrics_def split: option.splits)

lemma counters_checked:
  assumes "int (length cs) < 2 ^ 53" and t: "t_killed t = int (length (filter is_killed cs))"
    "t_equivalent t = int (length (filter is_lived cs))" "t_mutants t = int (length cs)"
  shows "\<not> ((metric_count r \<noteq> 0 \<and> metric_count r \<noteq> int (length (present_metrics r))) \<or>
           (0 < t_equivalent t \<and> metric_count r = 0)) \<and> \<not> (0 < metric_count r \<and> \<not> metrics_agree r t)
         \<longleftrightarrow> counters_true r cs"
proof -
  have "int (length (filter is_killed cs)) \<le> int (length cs)" "int (length (filter is_lived cs)) \<le> int (length cs)"
    by simp_all
  then have "t_killed t < 2 ^ 53" "t_equivalent t < 2 ^ 53" using assms by linarith+
  with assms have m: "metrics_agree r t \<longleftrightarrow>
    (\<exists>coverage efficacy. gr_killed r = Some (t_killed t) \<and> gr_lived r = Some (t_equivalent t) \<and>
       gr_not_covered r = Some 0 \<and> gr_not_viable r = Some 0 \<and> gr_total r = Some (t_mutants t) \<and>
       gr_coverage r = Some coverage \<and> float_close coverage 100 \<and>
       gr_efficacy r = Some efficacy \<and> float_close efficacy (expected_efficacy (t_killed t) (t_mutants t)))"
    by (intro metrics_agree_iff) simp_all
  have len: "int (length (present_metrics r)) = 7" by (simp add: present_metrics_def)
  have pos: "0 \<le> metric_count r" by (simp add: metric_count_def)
  have c: "counters_true r cs \<longleftrightarrow> (metric_count r = 0 \<and> t_equivalent t = 0) \<or> metrics_agree r t"
    unfolding counters_true_def Let_def m metric_count_zero t ..
  show ?thesis unfolding len c
    using metrics_agree_all [of r t] pos t(2) by (cases "metrics_agree r t") auto
qed

section \<open>Properties\<close>

lemma account_start:
  assumes "gr_files r = Some files"
  shows "account_report r review = Inr t \<longleftrightarrow>
    review_admitted review \<and>
    (\<exists>u. tally_files (start_tally review) files = Inr u \<and> u = t \<and> t_reviewed t = [] \<and>
      \<not> ((metric_count r \<noteq> 0 \<and> metric_count r \<noteq> int (length (present_metrics r))) \<or>
           (0 < t_equivalent t \<and> metric_count r = 0)) \<and> \<not> (0 < metric_count r \<and> \<not> metrics_agree r t))"
  using assms by (auto simp: account_report_def review_admitted_def split: option.splits)

text \<open>C23: A report is accepted exactly when every file and every mutation is well formed and
  listed once, every mutation is KILLED or LIVED, the coordinates of the LIVED ones are
  exactly those of the admitted review, and the counters are all absent (only without
  survivors) or all the true counts; the result then holds these counts.\<close>

theorem report_accounts_exactly:
  assumes "gr_files r = Some files" and "int (length (coordinates files)) < 2 ^ 53"
  shows "account_report r review = Inr t \<longleftrightarrow>
    review_admitted review \<and>
    list_all (\<lambda>f. rf_file_name f \<noteq> []) files \<and> distinct (map rf_file_name files) \<and>
    list_all is_located (coordinates files) \<and> distinct (map coordinate_identity (coordinates files)) \<and>
    list_all (\<lambda>c. is_killed c \<or> is_lived c) (coordinates files) \<and>
    mutant_coordinate ` set (filter is_lived (coordinates files)) = reviewed_coordinates review \<and>
    counters_true r (coordinates files) \<and>
    t = \<lparr>t_mutants = int (length (coordinates files)),
         t_killed = int (length (filter is_killed (coordinates files))),
         t_equivalent = int (length (filter is_lived (coordinates files))),
         t_reviewed = [], t_files = rev (map rf_file_name files),
         t_identities = rev (map coordinate_identity (coordinates files))\<rparr>"
  (is "?accepted \<longleftrightarrow> ?spec")
proof -
  let ?cs = "coordinates files"
  let ?u = "(counted ?cs (start_tally review))\<lparr>t_files := rev (map rf_file_name files)\<rparr>"
  have u: "t_mutants ?u = int (length ?cs)" "t_killed ?u = int (length (filter is_killed ?cs))"
    "t_equivalent ?u = int (length (filter is_lived ?cs))"
    by (simp_all add: counted_def start_tally_def)
  note c = counters_checked [OF assms(2) u(2,3,1)]
  have none: "t_reviewed ?u = [] \<longleftrightarrow>
      set (reviewed_identities review) \<subseteq> coordinate_identity ` set (filter is_lived ?cs)"
    by (auto simp: counted_def start_tally_def filter_empty_conv)
  have adm: "admissible ?cs (start_tally review) \<longleftrightarrow>
      list_all is_located ?cs \<and> distinct (map coordinate_identity ?cs) \<and>
      list_all (\<lambda>c. is_killed c \<or> is_lived c) ?cs \<and>
      coordinate_identity ` set (filter is_lived ?cs) \<subseteq> set (reviewed_identities review)"
    by (auto simp: admissible_def start_tally_def list_all_iff)
  have lived: "(coordinate_identity ` set (filter is_lived ?cs) \<subseteq> set (reviewed_identities review) \<and>
        set (reviewed_identities review) \<subseteq> coordinate_identity ` set (filter is_lived ?cs)) \<longleftrightarrow>
      mutant_coordinate ` set (filter is_lived ?cs) = reviewed_coordinates review"
    if "review_admitted review" "list_all is_located ?cs"
    using lived_text_iff [OF that(1), of "filter is_lived ?cs"] that(2)
    unfolding set_eq_subset by (auto simp: list_all_iff)
  have tf: "tally_files (start_tally review) files = Inr v \<longleftrightarrow>
      list_all (\<lambda>f. rf_file_name f \<noteq> []) files \<and> distinct (map rf_file_name files) \<and>
      admissible ?cs (start_tally review) \<and> v = ?u" for v
    by (auto simp: tally_files_ok list_all_iff start_tally_def)
  have "?accepted \<longleftrightarrow> review_admitted review \<and>
      list_all (\<lambda>f. rf_file_name f \<noteq> []) files \<and> distinct (map rf_file_name files) \<and>
      admissible ?cs (start_tally review) \<and> t_reviewed ?u = [] \<and> counters_true r ?cs \<and> t = ?u"
    unfolding account_start [OF assms(1)] tf c [symmetric] by blast
  also have "\<dots> \<longleftrightarrow> review_admitted review \<and>
      list_all (\<lambda>f. rf_file_name f \<noteq> []) files \<and> distinct (map rf_file_name files) \<and>
      list_all is_located ?cs \<and> distinct (map coordinate_identity ?cs) \<and>
      list_all (\<lambda>c. is_killed c \<or> is_lived c) ?cs \<and>
      mutant_coordinate ` set (filter is_lived ?cs) = reviewed_coordinates review \<and>
      counters_true r ?cs \<and> t_reviewed ?u = [] \<and> t = ?u"
    unfolding adm none using lived by blast
  also have "\<dots> \<longleftrightarrow> ?spec"
  proof (cases "review_admitted review \<and> list_all is_located ?cs \<and>
      mutant_coordinate ` set (filter is_lived ?cs) = reviewed_coordinates review")
    case True
    then have e: "t_reviewed ?u = []" unfolding none using lived by blast
    moreover have "?u = \<lparr>t_mutants = int (length ?cs), t_killed = int (length (filter is_killed ?cs)),
         t_equivalent = int (length (filter is_lived ?cs)), t_reviewed = t_reviewed ?u,
         t_files = rev (map rf_file_name files), t_identities = rev (map coordinate_identity ?cs)\<rparr>"
      by (simp add: counted_def start_tally_def)
    ultimately have "?u = \<lparr>t_mutants = int (length ?cs), t_killed = int (length (filter is_killed ?cs)),
         t_equivalent = int (length (filter is_lived ?cs)), t_reviewed = [],
         t_files = rev (map rf_file_name files), t_identities = rev (map coordinate_identity ?cs)\<rparr>"
      by (simp only:)
    then show ?thesis using e by (simp only: refl simp_thms)
  next
    case False
    then show ?thesis by blast
  qed
  finally show ?thesis .
qed


definition sample_gremlin :: "string \<Rightarrow> int \<Rightarrow> gremlin" where
  "sample_gremlin status line =
     \<lparr>gm_type = ''INVERT_LOGICAL'', gm_status = status, gm_line = line, gm_column = 7\<rparr>"

definition sample_equivalent :: equivalent_mutation where
  "sample_equivalent =
     \<lparr>em_file_name = ''a.go'', em_type = ''INVERT_LOGICAL'', em_line = 4, em_column = 7,
      em_contract_domain = ''positive lengths only'',
      em_reason = ''both branches return the same value for every length'',
      em_goarchs = Some [''amd64'', ''arm64'']\<rparr>"

definition sample_review :: equivalent_review where
  "sample_review =
     \<lparr>eq_architecture = ''arm64'', eq_module_directory = ''.'', eq_package_directory = ''codec'',
      eq_source_digest = replicate 64 CHR ''a'', eq_gremlins_version = ''v0.6.0'',
      eq_verifier = replicate 64 CHR ''b'', eq_mutations = [sample_equivalent]\<rparr>"

definition sample_report :: gremlins_report where
  "sample_report =
     \<lparr>gr_go_module = ''m'', gr_elapsed_time = Some ''1.5'',
      gr_files = Some [\<lparr>rf_file_name = ''a.go'', rf_mutations = [sample_gremlin ''KILLED'' 3, sample_gremlin ''LIVED'' 4]\<rparr>],
      gr_killed = Some 1, gr_lived = Some 1, gr_not_covered = Some 0, gr_not_viable = Some 0,
      gr_total = Some 2, gr_coverage = Some 100, gr_statistics = None, gr_efficacy = Some 50\<rparr>"

definition sample_tally :: tally where
  "sample_tally =
     \<lparr>t_mutants = 2, t_killed = 1, t_equivalent = 1, t_reviewed = [], t_files = [''a.go''],
      t_identities = [gremlin_identity ''a.go'' (sample_gremlin ''LIVED'' 4),
                      gremlin_identity ''a.go'' (sample_gremlin ''KILLED'' 3)]\<rparr>"

lemma float_small: "\<bar>i\<bar> < 2 ^ 53 \<Longrightarrow> float_of_int i = of_int i"
  by (simp add: float_of_int_def round64_exact)

lemma sample_efficacy: "float_close 50 (expected_efficacy 1 2)" "float_close 100 100"
proof -
  have "float_of_int 1 = 1" "float_of_int 2 = 2" "float_of_int 50 = 50" "float_of_int 100 = 100"
    by (simp_all add: float_small)
  moreover from this have "round64 100 = 100" "round64 50 = 50" by (simp_all add: float_of_int_def)
  ultimately have "expected_efficacy 1 2 = float_of_int 50"
    by (simp add: expected_efficacy_def float_mul_def float_div_def)
  then show "float_close 50 (expected_efficacy 1 2)"
    using float_close_counters [of 50 50] \<open>float_of_int 50 = 50\<close> by simp
  show "float_close 100 100"
    using float_close_counters [of 100 100] \<open>float_of_int 100 = 100\<close> by simp
qed

lemma sample_review_admitted: "validate_execution sample_review = None"
  by code_simp

theorem report_accounts_exactly_witness:
  "account_report sample_report (Some sample_review) = Inr sample_tally"
proof -
  let ?fs = "[\<lparr>rf_file_name = ''a.go'', rf_mutations = [sample_gremlin ''KILLED'' 3, sample_gremlin ''LIVED'' 4]\<rparr>]"
  have f: "gr_files sample_report = Some ?fs" by (simp add: sample_report_def)
  have cs: "coordinates ?fs = [(''a.go'', sample_gremlin ''KILLED'' 3), (''a.go'', sample_gremlin ''LIVED'' 4)]"
    by (simp add: coordinates_def)
  have k: "filter is_killed (coordinates ?fs) = [(''a.go'', sample_gremlin ''KILLED'' 3)]"
    "filter is_lived (coordinates ?fs) = [(''a.go'', sample_gremlin ''LIVED'' 4)]"
    unfolding cs by (simp_all add: is_killed_def is_lived_def sample_gremlin_def)
  have c: "counters_true sample_report (coordinates ?fs)"
    using sample_efficacy unfolding counters_true_def Let_def k unfolding cs by (simp add: sample_report_def)
  have i: "distinct (map coordinate_identity (coordinates ?fs))" unfolding cs by code_simp
  have len: "int (length (coordinates ?fs)) < 2 ^ 53" unfolding cs by simp
  have "review_admitted (Some sample_review)" using sample_review_admitted by (simp add: review_admitted_def)
  moreover have "mutant_coordinate ` set [(''a.go'', sample_gremlin ''LIVED'' 4)] = reviewed_coordinates (Some sample_review)"
    by (simp add: mutant_coordinate_def reviewed_coordinates_def sample_review_def sample_equivalent_def sample_gremlin_def)
  moreover have "list_all is_located (coordinates ?fs)" "list_all (\<lambda>c. is_killed c \<or> is_lived c) (coordinates ?fs)"
    unfolding cs by (simp_all add: is_located_def is_killed_def is_lived_def sample_gremlin_def)
  moreover have "sample_tally = \<lparr>t_mutants = int (length (coordinates ?fs)), t_killed = int (length [(''a.go'', sample_gremlin ''KILLED'' 3)]),
      t_equivalent = int (length [(''a.go'', sample_gremlin ''LIVED'' 4)]), t_reviewed = [],
      t_files = rev (map rf_file_name ?fs), t_identities = rev (map coordinate_identity (coordinates ?fs))\<rparr>"
    unfolding cs sample_tally_def by (simp add: coordinate_identity_def)
  ultimately show ?thesis
    unfolding report_accounts_exactly [OF f len] k using c i by simp
qed

section \<open>The canonical digest\<close>

text \<open>The same records in another order, with another elapsed time.\<close>

definition same_records :: "gremlins_report \<Rightarrow> gremlins_report \<Rightarrow> bool" where
  "same_records r r' \<longleftrightarrow>
     r\<lparr>gr_elapsed_time := None, gr_files := None\<rparr> = r'\<lparr>gr_elapsed_time := None, gr_files := None\<rparr> \<and>
     (\<exists>fs fs'. gr_files r = Some fs \<and> gr_files r' = Some fs' \<and>
        image_mset (\<lambda>f. (rf_file_name f, mset (rf_mutations f))) (mset fs) =
        image_mset (\<lambda>f. (rf_file_name f, mset (rf_mutations f))) (mset fs'))"

lemma sort_by_unique_key:
  assumes "mset xs = mset ys" and "distinct (map f xs)"
  shows "sort_key f xs = sort_key f ys"
proof (rule sort_key_inj_key_eq)
  show "mset xs = mset (sort_key f ys)" using assms(1) by simp
  show "inj_on f (set xs)" using assms(2) by (simp add: distinct_map)
qed simp

definition sort_file :: "report_file \<Rightarrow> report_file" where
  "sort_file f = f\<lparr>rf_mutations := sort_key gremlin_key (rf_mutations f)\<rparr>"

lemma accepted_keys:
  assumes "tally_files t fs = Inr t'" and "f \<in> set fs"
  shows "distinct (map gremlin_key (rf_mutations f))"
proof -
  have "distinct (map coordinate_identity (coordinates fs))"
    using assms(1) by (simp add: tally_files_ok admissible_def)
  moreover obtain as bs where "fs = as @ f # bs" using assms(2) by (meson split_list)
  ultimately have "distinct (map (coordinate_identity \<circ> Pair (rf_file_name f)) (rf_mutations f))"
    by (simp add: coordinates_def)
  then show ?thesis
    by (rule distinct_map_finer) (simp add: gremlin_key_def coordinate_identity_def gremlin_identity_def)
qed

lemma sort_file_cong:
  assumes "rf_file_name f = rf_file_name g" and "mset (rf_mutations f) = mset (rf_mutations g)"
    and "distinct (map gremlin_key (rf_mutations f))"
  shows "sort_file f = sort_file g"
  using assms sort_by_unique_key [of "rf_mutations f" "rf_mutations g" gremlin_key]
  by (cases f; cases g) (simp add: sort_file_def)

lemma mset_map_transfer:
  assumes "image_mset g (mset xs) = image_mset g (mset ys)"
    and "\<And>x y. x \<in> set xs \<Longrightarrow> y \<in> set ys \<Longrightarrow> g x = g y \<Longrightarrow> h x = h y"
  shows "mset (map h xs) = mset (map h ys)"
  using assms
proof (induction xs arbitrary: ys)
  case (Cons x xs)
  have "g x \<in># image_mset g (mset ys)" using Cons.prems(1) by (metis image_mset_add_mset mset.simps(2) union_single_eq_member)
  then obtain y where y: "y \<in> set ys" "g x = g y" by auto
  then obtain zs where m: "mset ys = add_mset y (mset zs)" and sub: "set zs \<subseteq> set ys"
    using set_remove1_subset [of y ys] by (metis mset_remove1 insert_DiffM set_mset_mset)
  have "image_mset g (mset xs) = image_mset g (mset zs)" using Cons.prems(1) y(2) by (simp add: m)
  then have "mset (map h xs) = mset (map h zs)"
    using Cons.prems(2) sub by (intro Cons.IH) auto
  moreover have "h x = h y" using Cons.prems(2) y by simp
  ultimately show ?case by (simp add: m)
qed simp

text \<open>The canonical digest of an accepted report does not depend on the order of its files and
  mutations nor on the elapsed time.\<close>

theorem digest_order_free:
  assumes "account_report r review = Inr t" and "same_records r r'"
  shows "canonical_report_digest codec r = canonical_report_digest codec r'"
proof -
  from assms(2) obtain fs fs' where f: "gr_files r = Some fs" "gr_files r' = Some fs'"
    and m: "image_mset (\<lambda>f. (rf_file_name f, mset (rf_mutations f))) (mset fs) =
        image_mset (\<lambda>f. (rf_file_name f, mset (rf_mutations f))) (mset fs')"
    and e: "r\<lparr>gr_elapsed_time := None, gr_files := None\<rparr> = r'\<lparr>gr_elapsed_time := None, gr_files := None\<rparr>"
    by (auto simp: same_records_def)
  obtain u where u: "tally_files (start_tally review) fs = Inr u"
    using assms(1) account_start [OF f(1)] by blast
  have "sort_file x = sort_file y" if "x \<in> set fs" "y \<in> set fs'"
      "(rf_file_name x, mset (rf_mutations x)) = (rf_file_name y, mset (rf_mutations y))" for x y
    using that accepted_keys [OF u that(1)] by (intro sort_file_cong) auto
  then have s: "mset (map sort_file fs) = mset (map sort_file fs')"
    using m by (intro mset_map_transfer)
  have "distinct (map rf_file_name (map sort_file fs))"
    using u by (simp add: tally_files_ok sort_file_def comp_def)
  with s have "sort_key rf_file_name (map sort_file fs) = sort_key rf_file_name (map sort_file fs')"
    by (intro sort_by_unique_key)
  then have "canonical_report cj r = canonical_report cj r'" for cj
    using e unfolding canonical_report_def f sort_file_def by (cases r; cases r') simp
  then show ?thesis by (simp add: canonical_report_digest_def)
qed


definition plain_report :: "string \<Rightarrow> gremlin list \<Rightarrow> gremlins_report" where
  "plain_report elapsed gs =
     \<lparr>gr_go_module = ''m'', gr_elapsed_time = Some elapsed,
      gr_files = Some [\<lparr>rf_file_name = ''a.go'', rf_mutations = gs\<rparr>],
      gr_killed = None, gr_lived = None, gr_not_covered = None, gr_not_viable = None,
      gr_total = None, gr_coverage = None, gr_statistics = None, gr_efficacy = None\<rparr>"

definition sample_codec :: report_codec where
  "sample_codec =
     \<lparr>rc_decoder = (\<lambda>data. (json_tokens (J_object [(''files'', J_array [])]),
        Json_value (plain_report ''1'' [sample_gremlin ''KILLED'' 3]), Json_eof)),
      rc_canonical_json = (\<lambda>s. s), rc_encode = (\<lambda>r. gr_go_module r), rc_sha256 = (\<lambda>s. replicate 64 CHR ''a'')\<rparr>"

theorem digest_order_free_witness:
  "\<exists>t. account_report (plain_report ''1'' [sample_gremlin ''KILLED'' 9, sample_gremlin ''KILLED'' 3]) None = Inr t \<and>
     canonical_report_digest sample_codec (plain_report ''1'' [sample_gremlin ''KILLED'' 9, sample_gremlin ''KILLED'' 3]) =
     canonical_report_digest sample_codec (plain_report ''2'' [sample_gremlin ''KILLED'' 3, sample_gremlin ''KILLED'' 9])"
  (is "\<exists>t. account_report ?r None = Inr t \<and> canonical_report_digest sample_codec ?r = canonical_report_digest sample_codec ?s")
proof -
  have a: "account_report ?r None =
      Inr \<lparr>t_mutants = 2, t_killed = 2, t_equivalent = 0, t_reviewed = [], t_files = [''a.go''],
           t_identities = map (\<lambda>l. gremlin_identity ''a.go'' (sample_gremlin ''KILLED'' l)) [3, 9]\<rparr>"
    by code_simp
  have "same_records ?r ?s" by (simp add: same_records_def plain_report_def)
  from digest_order_free [OF a this] a show ?thesis by blast
qed

end
