(* ===== verification/Mutation_Archive_Facts.thy ===== *)
theory Mutation_Archive_Facts
  imports Mutation_Report_Facts
begin

text \<open>
  The reviewed exceptions: what a parsed inventory and a selected review guarantee, and
  when the migration ledger approves a historical checkpoint.
\<close>

section \<open>Parsed inventories\<close>

lemma package_identity_inj:
  assumes "package_identity m p = package_identity m' p'" and "valid_relative m" and "valid_relative m'"
  shows "m = m' \<and> p = p'"
  using sep_pair_inj_left [of m "CHR 0x00" p m' p'] assms valid_relative_no_nul
  by (simp add: package_identity_def)

lemma read_limited_ok [simp]:
  "read_limited limit data failed = None \<longleftrightarrow> int (length data) \<le> limit \<and> \<not> failed"
  by (simp add: read_limited_def not_less)

lemma parse_equivalent_ok:
  "parse_equivalent_inventory decode data failed = Inr ei \<longleftrightarrow>
     int (length data) \<le> maximum_inventory_size \<and> \<not> failed \<and> decode_strict decode data = Inr ei \<and>
     ei_schema_version ei = 1 \<and>
     (\<exists>ps. ei_packages ei = Some ps \<and> (\<forall>r \<in> set ps. review_validate r = None) \<and>
        distinct (map (\<lambda>r. package_identity (eq_module_directory r) (eq_package_directory r)) ps))"
  by (auto simp: parse_equivalent_inventory_def unique_scan_ok split: sum.splits option.splits)

lemma review_paths: "review_validate r = None \<Longrightarrow> valid_relative (eq_module_directory r) \<and> valid_relative (eq_package_directory r)"
  by (simp add: review_validate_def)

section \<open>The scope of a review\<close>

definition in_scope :: "string \<Rightarrow> equivalent_mutation \<Rightarrow> bool" where
  "in_scope arch c \<longleftrightarrow> (case em_goarchs c of None \<Rightarrow> True | Some archs \<Rightarrow> arch \<in> set archs)"

lemma select_mutations_ok:
  "select_mutations arch cs = Inr ms \<Longrightarrow>
     ms = filter (in_scope arch) cs \<and> (list_ex (\<lambda>c. em_goarchs c \<noteq> None) cs \<longrightarrow> supported_architecture arch)"
  by (induction cs arbitrary: ms) (auto simp: in_scope_def split: option.splits if_splits)

lemma review_one_ok:
  assumes "review_one source version verifier arch r = Inr v"
  shows "review_validate r = None \<and> eq_source_digest r = source \<and> eq_gremlins_version r = version \<and>
    eq_verifier r = verifier \<and>
    v = (if filter (in_scope arch) (eq_mutations r) = [] then None
         else Some (r\<lparr>eq_architecture := arch, eq_mutations := filter (in_scope arch) (eq_mutations r)\<rparr>)) \<and>
    (list_ex (\<lambda>c. em_goarchs c \<noteq> None) (eq_mutations r) \<longrightarrow> supported_architecture arch)"
  using assms by (auto simp: review_one_def dest!: select_mutations_ok split: option.splits if_splits)

text \<open>A selection keeps the shape a review needs.\<close>

lemma selected_validates:
  assumes "review_validate r = None" and "filter P (eq_mutations r) \<noteq> []"
  shows "review_validate (r\<lparr>eq_architecture := arch, eq_mutations := filter P (eq_mutations r)\<rparr>) = None"
  using assms by (simp add: review_validate_def unique_scan_ok distinct_map_filter)

lemma distinct_singleton: "distinct xs \<Longrightarrow> set xs = {x} \<Longrightarrow> xs = [x]"
  by (cases xs; cases "tl xs") auto

text \<open>The review an admitted inventory selects for a package is executable on the given target
  architecture, is bound to exactly the requested source, engine version and verifier, and
  carries exactly the mutations of that package's one entry that are in scope of the
  architecture.\<close>

theorem selected_review_exact:
  assumes "parse_equivalent_inventory decode data failed = Inr ei"
    and "review_inventory ei m p source version verifier [arch] = Inr (Some r)"
  shows "validate_execution r = None \<and> eq_source_digest r = source \<and> eq_gremlins_version r = version \<and>
    eq_verifier r = verifier \<and> eq_architecture r = arch \<and> eq_mutations r \<noteq> [] \<and>
    (\<exists>ps entry. ei_packages ei = Some ps \<and>
       filter (\<lambda>q. eq_module_directory q = m \<and> eq_package_directory q = p) ps = [entry] \<and>
       eq_mutations r = filter (in_scope arch) (eq_mutations entry))"
proof -
  from assms(1) obtain ps where ps: "ei_packages ei = Some ps" "\<forall>r \<in> set ps. review_validate r = None"
    and d: "distinct (map (\<lambda>r. package_identity (eq_module_directory r) (eq_package_directory r)) ps)"
    by (auto simp: parse_equivalent_ok)
  let ?P = "\<lambda>q. eq_module_directory q = m \<and> eq_package_directory q = p"
  from assms(2) obtain q where q: "find ?P ps = Some q" "review_one source version verifier arch q = Inr (Some r)"
    by (auto simp: review_inventory_def ps(1) split: option.splits)
  note one = review_one_ok [OF q(2)]
  have r: "r = q\<lparr>eq_architecture := arch, eq_mutations := filter (in_scope arch) (eq_mutations q)\<rparr>"
    and ne: "filter (in_scope arch) (eq_mutations q) \<noteq> []"
    using one by (simp_all split: if_splits)
  have qs: "q \<in> set ps" "?P q" using q(1) by (auto simp: find_Some_iff)
  have "filter ?P ps = [q]"
  proof -
    have "x = q" if "x \<in> set (filter ?P ps)" for x
      using that qs d distinct_map_eq by fastforce
    moreover have "distinct (filter ?P ps)" using d by (simp add: distinct_map)
    moreover have "q \<in> set (filter ?P ps)" using qs by simp
    ultimately show ?thesis by (intro distinct_singleton) blast+
  qed
  moreover have "validate_execution r = None"
    using one ne selected_validates [of q "in_scope arch" arch]
    by (auto simp: validate_execution_def r list_ex_iff in_scope_def split: option.splits)
  ultimately show ?thesis using one ne ps(1) by (simp add: r)
qed


definition sample_inventory :: equivalent_inventory where
  "sample_inventory = \<lparr>ei_schema_version = 1, ei_packages = Some [sample_review]\<rparr>"

theorem selected_review_exact_witness:
  "validate_execution sample_review = None \<and>
   review_inventory sample_inventory ''.'' ''codec'' (replicate 64 CHR ''a'') ''v0.6.0'' (replicate 64 CHR ''b'') [''arm64''] =
     Inr (Some sample_review)"
proof -
  let ?d = "\<lambda>s. ([Tok_scalar], Json_value sample_inventory, Json_eof)"
  have p: "parse_equivalent_inventory ?d [] False = Inr sample_inventory" by code_simp
  have r: "review_inventory sample_inventory ''.'' ''codec'' (replicate 64 CHR ''a'') ''v0.6.0'' (replicate 64 CHR ''b'')
      [''arm64''] = Inr (Some sample_review)" by code_simp
  from selected_review_exact [OF p r] r show ?thesis by blast
qed

section \<open>The migration ledger\<close>

lemma alternative_scan_iff:
  assumes "\<forall>s \<in> set seen. \<not> input_approved legacy_digest l c s expected"
  shows "alternative_scan legacy_digest l c expected seen inputs \<longleftrightarrow>
    (\<exists>i \<in> set inputs. i \<noteq> [] \<and> input_approved legacy_digest l c i expected)"
  using assms by (induction inputs arbitrary: seen) auto

definition exactly_one :: "('a \<Rightarrow> bool) \<Rightarrow> 'a list \<Rightarrow> bool" where
  "exactly_one P xs \<longleftrightarrow> (\<exists>x. filter P xs = [x])"

lemma exactly_one_length: "length (filter P xs) = 1 \<longleftrightarrow> exactly_one P xs"
  by (auto simp: exactly_one_def length_Suc_conv)

text \<open>A checkpoint is approved exactly when the request is well formed, exactly one verifier
  approval matches it, its own verifier digest is absent or the expected one, and one of the
  requested inputs (the current one, or a non-empty alternative) is its input or is the
  replacement of exactly one input approval that matches it.\<close>

theorem ledger_approval_exact:
  "ledger_approve legacy_digest l c current alternatives expected = None \<longleftrightarrow>
     raw_digest_re current \<and> list_all (\<lambda>i. i = [] \<or> raw_digest_re i) alternatives \<and> raw_digest_re expected \<and>
     exactly_one (verifier_matches legacy_digest c expected) (ml_verifier_migrations l) \<and>
     (cp_verifier_digest c = [] \<or> cp_verifier_digest c = expected) \<and>
     list_ex (\<lambda>i. cp_input_digest c = i \<or> exactly_one (input_matches legacy_digest c i expected) (ml_entries l))
       (current # filter (\<lambda>i. i \<noteq> []) alternatives)"
proof -
  have f: "list_ex (\<lambda>i. i \<noteq> [] \<and> \<not> raw_digest_re i) alternatives \<longleftrightarrow>
      \<not> list_all (\<lambda>i. i = [] \<or> raw_digest_re i) alternatives"
    by (auto simp: list_ex_iff list_all_iff)
  have a: "input_approved legacy_digest l c i expected \<longleftrightarrow>
      cp_input_digest c = i \<or> exactly_one (input_matches legacy_digest c i expected) (ml_entries l)" for i
    unfolding input_approved_def exactly_one_length ..
  show ?thesis
  proof (cases "input_approved legacy_digest l c current expected")
    case True
    then show ?thesis unfolding ledger_approve_def f exactly_one_length using a [of current] by auto
  next
    case False
    then have s: "alternative_scan legacy_digest l c expected [current] alternatives \<longleftrightarrow>
        (\<exists>i \<in> set alternatives. i \<noteq> [] \<and> input_approved legacy_digest l c i expected)"
      by (intro alternative_scan_iff) simp
    from False show ?thesis
      unfolding ledger_approve_def f exactly_one_length s
      by (auto simp: a list_ex_iff)
  qed
qed

text \<open>
  Strict decoding and the archive of historical checkpoints: which JSON values pass the
  duplicate-key scan, and the bounds, confinement and uniqueness of what \<open>ReadBootstrap\<close>
  returns, with its 64-bit size arithmetic.
\<close>

section \<open>Strict decoding\<close>

text \<open>The duplicate-key pass accepts the tokens of a JSON value exactly when no object of the
  value, at any depth, repeats a key; it reports a repeated key as such, never panics on the
  tokens of a value, and looks at nothing behind the value.\<close>

theorem duplicate_keys_rejected:
  "reject_duplicate_keys (json_tokens v @ rest) =
     (if unique_keys v then None else Some Duplicate_object_key)"
proof -
  have "2 * length (json_tokens v) \<le> scan_fuel (json_tokens v @ rest)" by (simp add: scan_fuel_def)
  from scan_of_value(1) [OF this] show ?thesis by (simp add: reject_duplicate_keys_def)
qed

section \<open>Sizes\<close>

lemma expanded_bound: "unat maximum_expanded_size = 67108864"
  by (simp add: maximum_expanded_size_def)

lemma add_expanded_ok:
  assumes "add_expanded a b = Inr c"
  shows "unat c = unat a + unat b \<and> unat c \<le> 67108864"
proof -
  have b: "b \<le> maximum_expanded_size" and a: "a \<le> maximum_expanded_size - b" and c: "c = a + b"
    using assms by (auto simp: add_expanded_def not_less split: if_splits)
  have "unat (maximum_expanded_size - b) = 67108864 - unat b"
    using b by (simp add: unat_sub expanded_bound)
  then have "unat a + unat b \<le> 67108864"
    using a b unfolding word_le_nat_alt expanded_bound by linarith
  moreover from this have "unat (a + b) = unat a + unat b"
    by (subst unat_add_lem [THEN iffD1]) simp_all
  ultimately show ?thesis using c by simp
qed

lemma add_all_expanded_ok:
  "add_all_expanded a fs = Inr c \<Longrightarrow>
     unat c = unat a + sum_list (map (\<lambda>f. unat (ae_uncompressed f)) fs) \<and> (fs \<noteq> [] \<longrightarrow> unat c \<le> 67108864)"
proof (induction fs arbitrary: a)
  case (Cons f fs)
  then obtain b where b: "add_expanded a (ae_uncompressed f) = Inr b" "add_all_expanded b fs = Inr c"
    by auto
  have "unat b = unat a + unat (ae_uncompressed f)" "unat b \<le> 67108864"
    using add_expanded_ok [OF b(1)] by simp_all
  with Cons.IH [OF b(2)] b(2) show ?case by (cases fs) auto
qed simp

text \<open>The product wraps at 64 bits; the comparison then only refuses more.\<close>

lemma ratio_bound:
  fixes u c :: "64 word"
  assumes "\<not> c * maximum_compression_ratio < u"
  shows "unat u \<le> unat c * 200"
proof -
  have "unat u \<le> unat (c * maximum_compression_ratio)" using assms by (simp add: word_le_nat_alt not_less)
  also have "\<dots> \<le> unat c * unat maximum_compression_ratio" by (simp add: unat_word_ariths(2))
  finally show ?thesis by (simp add: maximum_compression_ratio_def)
qed

section \<open>Entries\<close>

definition entry_confined :: "archive_entry \<Rightarrow> bool" where
  "entry_confined f \<longleftrightarrow>
     has_prefix (ae_name f) ''mutation-checkpoints/'' \<and> path_clean (ae_name f) = ae_name f \<and>
     path_dir (ae_name f) = ''mutation-checkpoints'' \<and> path_ext (ae_name f) = ''.json'' \<and>
     \<not> ae_special f \<and> \<not> ae_directory f"

definition entry_sized :: "archive_entry \<Rightarrow> bool" where
  "entry_sized f \<longleftrightarrow>
     0 < unat (ae_uncompressed f) \<and> unat (ae_uncompressed f) \<le> 1048576 \<and>
     unat (ae_uncompressed f) \<le> unat (ae_compressed f) * 200"

lemma validate_archive_entry_ok:
  "validate_archive_entry f = None \<Longrightarrow> entry_confined f \<and> entry_sized f"
  using ratio_bound [of "ae_compressed f" "ae_uncompressed f"]
  by (auto simp: validate_archive_entry_def Let_def entry_confined_def entry_sized_def
      maximum_checkpoint_size_def not_less word_le_nat_alt unat_gt_0)

definition checkpoint_sound :: "report_codec \<Rightarrow> checkpoint \<Rightarrow> bool" where
  "checkpoint_sound codec c \<longleftrightarrow>
     valid_relative (cp_module c) \<and> valid_relative (cp_package c) \<and> raw_digest_re (cp_input_digest c) \<and>
     engine_version_re (cp_gremlins c) \<and> cp_environment c \<noteq> [] \<and>
     (case validate_report_data codec (cp_report c) None of
        Inl e \<Rightarrow> False
      | Inr result \<Rightarrow> cp_report_digest c = rr_digest result \<and> cp_mutants c = rr_mutants result)"

lemma parse_checkpoint_sound: "parse_checkpoint codec decoder data = Inr c \<Longrightarrow> checkpoint_sound codec c"
  by (auto simp: parse_checkpoint_def validate_checkpoint_def checkpoint_sound_def split: sum.splits)

lemma read_checkpoint_ok:
  "read_checkpoint codec decoder declared content = Inr c \<Longrightarrow>
     \<exists>data. content = Some (data, False) \<and> int (length data) \<le> 1048576 \<and>
       word_of_int (int (length data)) = declared \<and> parse_checkpoint codec decoder data = Inr c"
  by (auto simp: read_checkpoint_def maximum_checkpoint_size_def split: option.splits prod.splits if_splits)

definition checkpoint_identity :: "checkpoint \<Rightarrow> string" where
  "checkpoint_identity c = package_identity (cp_module c) (cp_package c)"

lemma read_entries_ok:
  "read_entries codec decoder names ids fs = Inr cs \<Longrightarrow>
     length cs = length fs \<and> distinct (map ae_name fs) \<and> ae_name ` set fs \<inter> set names = {} \<and>
     distinct (map checkpoint_identity cs) \<and> checkpoint_identity ` set cs \<inter> set ids = {} \<and>
     (\<forall>f \<in> set fs. validate_archive_entry f = None) \<and>
     list_all2 (\<lambda>f c. read_checkpoint codec decoder (ae_uncompressed f) (ae_content f) = Inr c) fs cs"
proof (induction fs arbitrary: names ids cs)
  case (Cons f fs)
  then have v: "validate_archive_entry f = None" and n: "ae_name f \<notin> set names"
    by (auto split: option.splits if_splits)
  with Cons.prems obtain c where c: "read_checkpoint codec decoder (ae_uncompressed f) (ae_content f) = Inr c"
      "checkpoint_identity c \<notin> set ids"
    and "and_then (read_entries codec decoder (ae_name f # names) (checkpoint_identity c # ids) fs)
      (\<lambda>cs. Inr (c # cs)) = Inr cs"
    by (auto simp: Let_def checkpoint_identity_def split: if_splits)
  then obtain ds where ds: "read_entries codec decoder (ae_name f # names) (checkpoint_identity c # ids) fs = Inr ds"
    "cs = c # ds" by auto
  from Cons.IH [OF ds(1)] v n c ds(2) show ?case by auto
qed simp

text \<open>C35: The checkpoints of an accepted archive: at most 2048 of them, one per entry, from entries
  directly inside the one allowed directory, whose declared sizes add up to at most 64 MiB
  with no entry inflating more than 200 times (no 64-bit sum or product wraps into
  acceptance), with distinct names, pairwise distinct module and package, and each with the
  digest and the count of its own report, accepted without any reviewed survivor.\<close>

theorem bootstrap_bounded:
  assumes "read_bootstrap codec decoder archive_size (Some entries) = Inr cs"
  shows "0 < length cs \<and> length cs = length entries \<and> length cs \<le> 2048 \<and> archive_size \<le> 16777216 \<and>
    sum_list (map (\<lambda>f. unat (ae_uncompressed f)) entries) \<le> 67108864 \<and>
    list_all entry_confined entries \<and> list_all entry_sized entries \<and> distinct (map ae_name entries) \<and>
    distinct (map (\<lambda>c. (cp_module c, cp_package c)) cs) \<and> list_all (checkpoint_sound codec) cs"
proof -
  let ?fs = "sort_key ae_name entries"
  have ne: "entries \<noteq> []" "int (length entries) \<le> 2048" "archive_size \<le> 16777216"
    using assms by (auto simp: read_bootstrap_def maximum_archive_size_def maximum_checkpoint_count_def not_less split: if_splits)
  obtain total_size where t: "add_all_expanded 0 ?fs = Inr total_size" and r: "read_entries codec decoder [] [] ?fs = Inr cs"
    using assms by (auto simp: read_bootstrap_def Let_def split: if_splits)
  note ok = read_entries_ok [OF r]
  have m: "mset (map f ?fs) = mset (map f entries)" for f :: "archive_entry \<Rightarrow> 'x" by simp
  have "?fs \<noteq> []" using ne(1) by (metis length_0_conv length_sort)
  then have "sum_list (map (\<lambda>f. unat (ae_uncompressed f)) ?fs) \<le> 67108864"
    using add_all_expanded_ok [OF t] by simp
  then have s: "sum_list (map (\<lambda>f. unat (ae_uncompressed f)) entries) \<le> 67108864"
    unfolding sum_mset_sum_list [symmetric] m .
  have v: "validate_archive_entry f = None" if "f \<in> set entries" for f using ok that by simp
  have d: "distinct (map ae_name entries)" using ok mset_eq_imp_distinct_iff [OF m] by blast
  have "distinct (map checkpoint_identity cs)" using ok by blast
  then have p: "distinct (map (\<lambda>c. (cp_module c, cp_package c)) cs)"
    by (rule distinct_map_finer) (simp add: checkpoint_identity_def)
  have pairs: "list_all2 (\<lambda>f c. read_checkpoint codec decoder (ae_uncompressed f) (ae_content f) = Inr c) ?fs cs"
    using ok by blast
  have "checkpoint_sound codec c" if "c \<in> set cs" for c
  proof -
    from that obtain i where i: "i < length cs" "c = cs ! i" by (metis in_set_conv_nth)
    have "read_checkpoint codec decoder (ae_uncompressed (?fs ! i)) (ae_content (?fs ! i)) = Inr c"
      unfolding i(2) using pairs i(1) by (rule list_all2_nthD2)
    then show ?thesis using read_checkpoint_ok parse_checkpoint_sound by blast
  qed
  then have c: "list_all (checkpoint_sound codec) cs" by (simp add: list_all_iff)
  have e: "list_all entry_confined entries" "list_all entry_sized entries"
    using v validate_archive_entry_ok by (auto simp: list_all_iff)
  have l: "length cs = length entries" using ok by simp
  then have "0 < length cs" "length cs \<le> 2048" using ne by auto
  then show ?thesis using l ne(3) s e d p c by blast
qed


definition sample_checkpoint_decoder :: "legacy_checkpoint strict_decoder" where
  "sample_checkpoint_decoder data =
     (json_tokens (J_object [(''module'', J_string ''.'')]),
      Json_value \<lparr>lc_schema_version = 3, lc_module = ''.'', lc_package = ''codec'', lc_execution_revision = [],
        lc_validated_revision = [], lc_gate_input_digest = replicate 64 CHR ''a'', lc_identity_lineage = [],
        lc_identity_migration = None, lc_legacy_module_digest = [], lc_gremlins_version = ''v0.6.0'',
        lc_verifier_sha256 = [], lc_verifier_source = ''executed'', lc_binary_sha256 = [],
        lc_environment = [(''GOOS'', ''linux'')], lc_report = ''{}''\<rparr>, Json_eof)"

definition sample_entry :: archive_entry where
  "sample_entry =
     \<lparr>ae_name = ''mutation-checkpoints/a.json'', ae_special = False, ae_directory = False,
      ae_uncompressed = 2, ae_compressed = 2, ae_content = Some (''{}'', False)\<rparr>"

definition sample_checkpoint :: checkpoint where
  "sample_checkpoint =
     \<lparr>cp_module = ''.'', cp_package = ''codec'', cp_execution_revision = [],
      cp_input_digest = replicate 64 CHR ''a'', cp_input_lineage = [], cp_verifier_digest = [],
      cp_binary_digest = [], cp_verifier_source = ''executed'', cp_gremlins = ''v0.6.0'',
      cp_environment = [(''GOOS'', ''linux'')], cp_report_digest = ''sha256:'' @ replicate 64 CHR ''a'', cp_report = ''{}'', cp_mutants = 1\<rparr>"

theorem bootstrap_bounded_witness:
  "read_bootstrap sample_codec sample_checkpoint_decoder 200 (Some [sample_entry]) = Inr [sample_checkpoint] \<and>
   list_all entry_sized [sample_entry] \<and> list_all (checkpoint_sound sample_codec) [sample_checkpoint]"
proof -
  have r: "read_bootstrap sample_codec sample_checkpoint_decoder 200 (Some [sample_entry]) = Inr [sample_checkpoint]"
    by code_simp
  from bootstrap_bounded [OF r] r show ?thesis by blast
qed

end
