(* ===== verification/Mutation_Store.thy ===== *)
theory Mutation_Store
  imports Mutation_Report Evidence
begin

text \<open>
  internal/mutation: the store of immutable reports (report_store.go), the reuse of stored
  evidence (reuse.go), the identity of the verifier (verifier.go) and the runtime identity
  (runtime.go). The embedded verifier assets and SHA-256 (in hexadecimal) are arguments.
\<close>

section \<open>Verifier identity\<close>

definition gremlins_version :: string where
  "gremlins_version = ''v0.6.0''"

definition gremlins_sum :: string where
  "gremlins_sum = ''h1:3G2ROO0I3q4bb5bxElQIUITTuEbl1iOfVYFqunGwrJI=''"

definition gremlins_go_mod_sum :: string where
  "gremlins_go_mod_sum = ''h1:LLbvJR33CWsu1sgvQ4qMzU2rqkwYJK3Qy/Al59eHKjA=''"

definition published_verifier_digest_v1 :: string where
  "published_verifier_digest_v1 = ''9a9499ff68a8dfd49a0be7995590297a8ee563a1aa226bfd8b9361dc53058108''"

definition published_verifier_digest_v2 :: string where
  "published_verifier_digest_v2 = ''5eba124f842305aecef71fc439aea0f1056429b253fad3b2ed47468f614595a3''"

definition verifier_asset_names :: "(string \<times> string) list" where
  "verifier_asset_names =
     [(''scripts/internal/mutation-command.sh'', ''assets/mutation-command.sh''),
      (''scripts/internal/mutation-coverage.sh'', ''assets/mutation-coverage.sh''),
      (''scripts/patches/gremlins-run-all-mutants.patch'', ''assets/gremlins-run-all-mutants.patch''),
      (''scripts/patches/gremlins-shared-coverage.patch'', ''assets/gremlins-shared-coverage.patch''),
      (''scripts/patches/gremlins-module-relative-diff.patch'', ''assets/gremlins-module-relative-diff.patch''),
      (''scripts/patches/gremlins-package-path.patch'', ''assets/gremlins-package-path.patch'')]"

definition verifier_assets :: "(string \<Rightarrow> string) \<Rightarrow> (string \<times> string) list" where
  "verifier_assets embedded = map (\<lambda>(identity, name). (identity, embedded name)) verifier_asset_names"

definition verifier_manifest :: "(string \<Rightarrow> string) \<Rightarrow> (string \<Rightarrow> string) \<Rightarrow> string" where
  "verifier_manifest embedded sha256 =
     ''gremlins-version'' @ [CHR 0x09] @ gremlins_version @ [CHR 0x0A] @
     ''gremlins-sum'' @ [CHR 0x09] @ gremlins_sum @ [CHR 0x0A] @
     ''gremlins-gomod-sum'' @ [CHR 0x09] @ gremlins_go_mod_sum @ [CHR 0x0A] @
     concat (map (\<lambda>(identity, name).
       ''file'' @ [CHR 0x09] @ identity @ [CHR 0x09] @
       sha256 (case map_of (verifier_assets embedded) identity of None \<Rightarrow> [] | Some d \<Rightarrow> d) @ [CHR 0x0A])
       verifier_asset_names)"

definition legacy_verifier_digest :: "(string \<Rightarrow> string) \<Rightarrow> (string \<Rightarrow> string) \<Rightarrow> string" where
  "legacy_verifier_digest embedded sha256 = sha256 (verifier_manifest embedded sha256)"

definition historical_verifier_digest :: "string \<Rightarrow> bool" where
  "historical_verifier_digest digest \<longleftrightarrow>
     digest = published_verifier_digest_v1 \<or> digest = published_verifier_digest_v2"

definition supported_legacy_verifier_digest :: "(string \<Rightarrow> string) \<Rightarrow> (string \<Rightarrow> string) \<Rightarrow> string \<Rightarrow> bool" where
  "supported_legacy_verifier_digest embedded sha256 digest \<longleftrightarrow>
     digest = legacy_verifier_digest embedded sha256 \<or> historical_verifier_digest digest"

definition semantic_verifier_digest :: "(string \<Rightarrow> string) \<Rightarrow> (string \<Rightarrow> string) \<Rightarrow> string" where
  "semantic_verifier_digest embedded sha256 = ''sha256:'' @ legacy_verifier_digest embedded sha256"

section \<open>The report store\<close>

datatype store_error =
    Store_location | Store_invalid report_error | Prepare_failed io_error | Prepare_inspect io_error
  | Prepare_not_real | Report_publish publish_error | Report_unread io_error
  | Review_not_executable | Evidence_refused evidence_error | Evidence_identity | Architecture_changed
  | Report_digest_mismatch

fun prepare_report_directories :: "string list \<Rightarrow> world \<Rightarrow> world \<times> store_error option" where
  "prepare_report_directories [] w = (w, None)"
| "prepare_report_directories (d # ds) w =
     (let (w, made) = sys_mkdir d w
      in if made \<noteq> None \<and> made \<noteq> Some Err_exist then (w, map_option Prepare_failed made)
         else (case sys_lstat d w of
                 (w, Inl e) \<Rightarrow> (w, Some (Prepare_inspect e))
               | (w, Inr n) \<Rightarrow>
                   if n \<noteq> Directory then (w, Some Prepare_not_real)
                   else prepare_report_directories ds w))"

definition publish_report ::
  "string \<Rightarrow> string \<Rightarrow> string \<Rightarrow> string \<Rightarrow> (string \<Rightarrow> bool) \<Rightarrow> world
    \<Rightarrow> world \<times> (store_error + string \<times> bool \<times> string)" where
  "publish_report base directory destination data matches w =
     (case prepare_report_directories [base, directory] w of
        (w, Some e) \<Rightarrow> (w, Inl e)
      | (w, None) \<Rightarrow>
          (case publish_immutable directory ''.report-'' destination data matches w of
             (w, Inl e) \<Rightarrow> (w, Inl (Report_publish e))
           | (w, Inr None) \<Rightarrow> (w, Inr (destination, False, data))
           | (w, Inr (Some existing)) \<Rightarrow> (w, Inr (destination, True, existing))))"

definition report_location_ok :: "string \<Rightarrow> string \<Rightarrow> bool" where
  "report_location_ok base input \<longleftrightarrow>
     is_abs base \<and> has_prefix input ''sha256:'' \<and> raw_digest_re (trim_prefix input ''sha256:'')"

definition report_path :: "string \<Rightarrow> string \<Rightarrow> string" where
  "report_path base input = path_join [path_join [base, ''reports''], trim_prefix input ''sha256:'' @ ''.json'']"

definition same_report :: "report_codec \<Rightarrow> equivalent_review option \<Rightarrow> report_result \<Rightarrow> string \<Rightarrow> bool" where
  "same_report codec review result existing =
     (case validate_report codec existing False review of
        Inl e \<Rightarrow> False
      | Inr known \<Rightarrow> rr_digest known = rr_digest result)"

text \<open>\<open>storeReportWithReview\<close>: the path, whether it existed, the result and the stored bytes. The
  match assigns the result of the existing report to the captured variable.\<close>

definition store_report ::
  "report_codec \<Rightarrow> string \<Rightarrow> string \<Rightarrow> string \<Rightarrow> equivalent_review option \<Rightarrow> world
    \<Rightarrow> world \<times> (store_error + string \<times> bool \<times> report_result \<times> string)" where
  "store_report codec base input report review w =
     (if \<not> report_location_ok base input then (w, Inl Store_location)
      else (case validate_report codec report False review of
              Inl e \<Rightarrow> (w, Inl (Store_invalid e))
            | Inr result \<Rightarrow>
                (case publish_report base (path_join [base, ''reports'']) (report_path base input) report
                        (same_report codec review result) w of
                   (w, Inl e) \<Rightarrow> (w, Inl e)
                 | (w, Inr (p, reused, stored)) \<Rightarrow>
                     (w, Inr (p, reused,
                        (if reused then (case validate_report codec stored False review of
                                           Inr known \<Rightarrow> known | Inl e \<Rightarrow> result) else result), stored)))))"

definition load_report ::
  "report_codec \<Rightarrow> string \<Rightarrow> string \<Rightarrow> equivalent_review option \<Rightarrow> world
    \<Rightarrow> world \<times> (store_error + string \<times> report_result)" where
  "load_report codec base input review w =
     (if \<not> report_location_ok base input then (w, Inl Store_location)
      else (case sys_read_file (path_join [base, ''reports'', trim_prefix input ''sha256:'' @ ''.json'']) w of
              (w, Inl e) \<Rightarrow> (w, Inl (Report_unread e))
            | (w, Inr data) \<Rightarrow>
                (w, (case validate_report codec data False review of
                       Inl e \<Rightarrow> Inl (Store_invalid e)
                     | Inr result \<Rightarrow> Inr (data, result)))))"

section \<open>Reuse\<close>

definition legacy_package_path_compatibility :: string where
  "legacy_package_path_compatibility = ''legacy_package_path_compatibility''"

text \<open>Indexing a Go map: the zero value for an absent key.\<close>

definition env_get :: "(string \<times> string) list \<Rightarrow> string \<Rightarrow> string" where
  "env_get m k = (case map_of m k of None \<Rightarrow> [] | Some v \<Rightarrow> v)"

definition applicable_verifier_record :: "string \<Rightarrow> evidence_record \<Rightarrow> bool" where
  "applicable_verifier_record semantic r \<longleftrightarrow>
     er_verifier_digest r = semantic \<or>
     (historical_verifier_digest (trim_prefix (er_verifier_digest r) ''sha256:'') \<and>
      env_get (er_environment r) ''evidence_origin'' = ''approved_legacy_checkpoint'' \<and>
      env_get (er_environment r) legacy_package_path_compatibility = er_input_digest r)"

definition reuse_identity ::
  "string \<Rightarrow> string \<Rightarrow> string \<Rightarrow> string \<Rightarrow> equivalent_review option \<Rightarrow> evidence_record \<Rightarrow> store_error option" where
  "reuse_identity semantic repository m pkg review r = first_error
     [refuse (er_repository r \<noteq> repository \<or> er_module r \<noteq> m \<or> er_package r \<noteq> pkg \<or>
              er_result r \<noteq> ''passed'' \<or> \<not> applicable_verifier_record semantic r) Evidence_identity,
      refuse (case review of None \<Rightarrow> False
        | Some v \<Rightarrow> list_ex (\<lambda>c. em_goarchs c \<noteq> None \<and> env_get (er_environment r) ''GOARCH'' \<noteq> eq_architecture v)
            (eq_mutations v)) Architecture_changed]"

text \<open>\<open>ReuseWithReview\<close>; \<open>semantic\<close> is \<open>SemanticVerifierDigest()\<close>. A cache miss is \<open>None\<close>.\<close>

definition reuse_evidence ::
  "report_codec \<Rightarrow> record_decoder \<Rightarrow> string \<Rightarrow> string \<Rightarrow> string \<Rightarrow> string \<Rightarrow> string \<Rightarrow> string \<Rightarrow> string
    \<Rightarrow> equivalent_review option \<Rightarrow> world \<Rightarrow> world \<times> (store_error + report_result option)" where
  "reuse_evidence codec decode semantic evidence_root mutation_root repository m pkg input review w =
     (if (case review of None \<Rightarrow> False | Some v \<Rightarrow> validate_execution v \<noteq> None) then (w, Inl Review_not_executable)
      else (case load_evidence decode evidence_root ''mutation'' input w of
              (w, Inl (Inspect_failed Err_not_exist)) \<Rightarrow> (w, Inr None)
            | (w, Inl (Open_failed Err_not_exist)) \<Rightarrow> (w, Inr None)
            | (w, Inl e) \<Rightarrow> (w, Inl (Evidence_refused e))
            | (w, Inr r) \<Rightarrow>
                (case reuse_identity semantic repository m pkg review r of
                   Some e \<Rightarrow> (w, Inl e)
                 | None \<Rightarrow>
                     (case load_report codec mutation_root input review w of
                        (w, Inl e) \<Rightarrow> (w, Inl e)
                      | (w, Inr (data, result)) \<Rightarrow>
                          (w, if rr_digest result \<noteq> er_report_digest r \<and>
                                 legacy_canonical_report_digest codec data \<noteq> er_report_digest r
                              then Inl Report_digest_mismatch else Inr (Some result))))))"

section \<open>Runtime identity\<close>

record runtime_identity =
  ri_go_version :: string
  ri_goos :: string
  ri_goarch :: string
  ri_cgo_enabled :: string

datatype runtime_error =
    Runtime_unreadable | Runtime_too_large | Runtime_undecodable | Runtime_trailing | Runtime_incomplete

definition maximum_runtime_identity_size :: int where
  "maximum_runtime_identity_size = 16384"

definition parse_runtime_identity ::
  "(string \<Rightarrow> runtime_identity json_next \<times> unit json_next) \<Rightarrow> string \<Rightarrow> bool \<Rightarrow> runtime_error + runtime_identity" where
  "parse_runtime_identity decode data failed =
     (if maximum_runtime_identity_size < int (length data) then Inl Runtime_too_large
      else if failed then Inl Runtime_unreadable
      else (case fst (decode data) of
              Json_value r \<Rightarrow>
                with_check (first_error
                  [refuse (snd (decode data) \<noteq> Json_eof) Runtime_trailing,
                   refuse (ri_go_version r = [] \<or> ri_goos r = [] \<or> ri_goarch r = [] \<or> ri_cgo_enabled r = [])
                     Runtime_incomplete]) (Inr r)
            | _ \<Rightarrow> Inl Runtime_undecodable))"

end
