(* ===== verification/Mutation_Store_Facts.thy ===== *)
theory Mutation_Store_Facts
  imports Mutation_Store Mutation_Archive_Facts Evidence_Facts
begin

text \<open>
  The report store keeps the contract of \<open>Immutable_Store\<close> (it interprets the locale, as the
  evidence store does), and reuse accepts only what the current review accepts.
\<close>

section \<open>Paths\<close>

lemma raw_digest_plain:
  assumes "raw_digest_re h"
  shows "plain_elem (h @ ''.json'') \<and> CHR ''/'' \<notin> set (h @ ''.json'')"
  using assms by (auto simp: raw_digest_re_def hex_text_def plain_elem_def dest: hex_all)

lemma report_path_eq:
  assumes "report_location_ok base input"
  shows "report_path base input = path_join [base, ''reports'', trim_prefix input ''sha256:'' @ ''.json'']"
    and "last (report_path base input) = CHR ''n''"
proof -
  let ?x = "trim_prefix input ''sha256:'' @ ''.json''" and ?d = "base @ ''/reports''"
  have r: "base \<noteq> []" and b: "is_abs base" and h: "raw_digest_re (trim_prefix input ''sha256:'')"
    using assms by (auto simp: report_location_ok_def is_abs_def)
  have d: "path_join [base, ''reports''] = path_clean ?d" using r by (simp add: path_join_def)
  have a: "is_abs ?d" "is_abs (path_clean ?d)"
    using b by (auto simp: path_clean_split) (auto simp: is_abs_def has_prefix_iff)
  have "path_clean ?d \<noteq> []" using a(2) by (auto simp: is_abs_def)
  then have c: "report_path base input = path_clean (path_clean ?d @ CHR ''/'' # ?x)"
    by (simp add: report_path_def d path_join_def [of "[path_clean _, _]"])
  note x = raw_digest_plain [OF h]
  have l: "report_path base input = path_clean (?d @ CHR ''/'' # ?x)"
    unfolding c using path_clean_child_clean [of ?d ?x] a x by blast
  also have "\<dots> = path_join [base, ''reports'', ?x]" using r by (simp add: path_join_def)
  finally show "report_path base input = path_join [base, ''reports'', ?x]" .
  show "last (report_path base input) = CHR ''n''"
    unfolding l using path_clean_child_last [of ?d ?x] a x by simp
qed

lemma report_path_not_temporary:
  "report_location_ok base input \<Longrightarrow> temporary_name d pre k \<noteq> report_path base input"
  using temporary_last [of d pre k] report_path_eq(2) by (auto simp: is_digit_def less_eq_char_def)

section \<open>The contract of the report store\<close>

lemma prepare_report_directories_keeps:
  "prepare_report_directories ds w = (w', r) \<Longrightarrow> keeps {} w w'"
  by (induction ds arbitrary: w)
    (auto simp: Let_def split: prod.splits sum.splits if_splits
      dest!: sys_mkdir_keeps sys_lstat_keeps intro: keeps_trans)

declare prepare_report_directories.simps [simp del]

text \<open>The two stages of a publication: directories, then the shared protocol.\<close>

lemma publish_report_stages:
  assumes "publish_report base dir dest data m w = (w', res)"
  obtains (refused) e where "keeps {} w w'" "res = Inl e"
    | (publish) w1 p where "keeps {} w w1" "publish_immutable dir ''.report-'' dest data m w1 = (w', p)"
      "res = (case p of Inl e \<Rightarrow> Inl (Report_publish e)
         | Inr None \<Rightarrow> Inr (dest, False, data) | Inr (Some c) \<Rightarrow> Inr (dest, True, c))"
proof -
  obtain w1 e where p: "prepare_report_directories [base, dir] w = (w1, e)" by fastforce
  have k: "keeps {} w w1" using p by (rule prepare_report_directories_keeps)
  obtain w2 q where q: "publish_immutable dir ''.report-'' dest data m w1 = (w2, q)" by fastforce
  show thesis
  proof (cases e)
    case (Some f)
    with assms p k show thesis by (intro refused [of f]) (auto simp: publish_report_def)
  next
    case None
    with assms p q show thesis
      by (intro publish [OF k, of q]) (auto simp: publish_report_def split: sum.splits option.splits)
  qed
qed

lemma publish_report_keeps:
  assumes "publish_report base dir dest data m w = (w', res)" and "node_at w p = Some n"
  shows "node_at w' p = Some n"
  using assms(1)
proof (cases rule: publish_report_stages)
  case (refused e)
  with assms(2) keepsD show ?thesis by blast
next
  case (publish w1 q)
  have p: "node_at w1 p = Some n" using publish(1) assms(2) keepsD by blast
  obtain T where T: "keeps T w1 w'" "\<forall>t \<in> T. node_at w1 t = None"
    using publish_immutable_keeps [OF publish(2)] by blast
  then have "p \<notin> T" using p by auto
  with T(1) p keepsD show ?thesis by blast
qed

lemma publish_report_ok:
  assumes "publish_report base dir dest data m w = (w', Inr (p, reused, stored))"
    and "\<And>k. temporary_name dir ''.report-'' k \<noteq> dest"
  shows "p = dest \<and> (\<exists>n. node_at w' dest = Some n \<and> (\<forall>c. n = File c \<longrightarrow> c = stored) \<and>
    (if reused then m stored else n = File data \<and> stored = data))"
  using assms(1)
proof (cases rule: publish_report_stages)
  case (publish w1 q)
  then obtain found where q: "q = Inr found" by (cases q) auto
  from publish_immutable_ok [OF publish(2) [unfolded q] assms(2)] publish(3) q show ?thesis
    by (cases found) fastforce+
qed simp

lemma store_report_keeps:
  "store_report codec base input report review w = (w', res) \<Longrightarrow> node_at w p = Some n \<Longrightarrow> node_at w' p = Some n"
  using publish_report_keeps
  by (fastforce simp: store_report_def split: if_splits sum.splits prod.splits)

lemma store_report_ok:
  assumes "store_report codec base input report review w = (w', Inr (p, reused, result, stored))"
  shows "report_location_ok base input \<and> p = report_path base input \<and>
    (\<exists>fresh. validate_report codec report False review = Inr fresh \<and> rr_digest result = rr_digest fresh) \<and>
    validate_report codec stored False review = Inr result \<and>
    (\<exists>n. node_at w' p = Some n \<and> (\<forall>c. n = File c \<longrightarrow> c = stored) \<and> (\<not> reused \<longrightarrow> n = File report))"
proof -
  have l: "report_location_ok base input" using assms by (auto simp: store_report_def split: if_splits)
  obtain fresh where f: "validate_report codec report False review = Inr fresh"
    using assms l by (auto simp: store_report_def split: sum.splits)
  let ?m = "same_report codec review fresh"
  obtain r where p: "publish_report base (path_join [base, ''reports'']) (report_path base input) report ?m w
      = (w', Inr (p, reused, stored))"
    and r: "result = (if reused then (case validate_report codec stored False review of
        Inr known \<Rightarrow> known | Inl e \<Rightarrow> fresh) else fresh)"
    using assms l f by (auto simp: store_report_def split: sum.splits prod.splits)
  from publish_report_ok [OF p report_path_not_temporary [OF l]] obtain n where
    n: "p = report_path base input" "node_at w' (report_path base input) = Some n" "\<forall>c. n = File c \<longrightarrow> c = stored"
      "if reused then ?m stored else n = File report \<and> stored = report" by blast
  have "validate_report codec stored False review = Inr result \<and> rr_digest result = rr_digest fresh"
    using n(4) r f by (cases reused) (auto simp: same_report_def split: sum.splits)
  with l f n show ?thesis by auto
qed

text \<open>The outcome as the contract sees it: the path and the reuse flag.\<close>

definition store_outcome ::
  "report_codec \<Rightarrow> string \<Rightarrow> string \<Rightarrow> string \<Rightarrow> equivalent_review option \<Rightarrow> world
    \<Rightarrow> world \<times> (store_error + string \<times> bool)" where
  "store_outcome codec base input report review w =
     (case store_report codec base input report review w of
        (w, Inl e) \<Rightarrow> (w, Inl e)
      | (w, Inr (p, reused, result, stored)) \<Rightarrow> (w, Inr (p, reused)))"

definition admits_report :: "report_codec \<Rightarrow> equivalent_review option \<Rightarrow> string \<Rightarrow> string \<Rightarrow> bool" where
  "admits_report codec review report existing \<longleftrightarrow>
     (\<exists>fresh known. validate_report codec report False review = Inr fresh \<and>
        validate_report codec existing False review = Inr known \<and> rr_digest known = rr_digest fresh)"

interpretation report_store: immutable_store
  "store_outcome codec base input report review" "report_path base input" report "admits_report codec review report"
  for codec base input report review
proof unfold_locales
  show "node_at w' (report_path base input) = Some n"
    if "store_outcome codec base input report review w = (w', res)" "node_at w (report_path base input) = Some n"
    for w w' res n
    using that store_report_keeps
    by (fastforce simp: store_outcome_def split: prod.splits sum.splits)
  show "p = report_path base input \<and>
      (\<exists>n. node_at w' (report_path base input) = Some n \<and>
        (if reused then \<forall>c. n = File c \<longrightarrow> admits_report codec review report c else n = File report))"
    if "store_outcome codec base input report review w = (w', Inr (p, reused))" for w w' p reused
  proof -
    from that obtain result stored where
      "store_report codec base input report review w = (w', Inr (p, reused, result, stored))"
      by (auto simp: store_outcome_def split: prod.splits sum.splits)
    from store_report_ok [OF this] show ?thesis by (auto simp: admits_report_def)
  qed
qed

interpretation competing_reports: competing_stores
  "store_outcome codec base input report1 review1" "store_outcome codec base input report2 review2"
  "report_path base input" report1 report2 "admits_report codec review1 report1" "admits_report codec review2 report2"
  for codec base input report1 review1 report2 review2
  by unfold_locales

section \<open>Properties\<close>

text \<open>C28: A successful \<open>StoreReport\<close> leaves, at the one path of the input digest, either exactly the
  given report or an earlier one with the same canonical digest; the returned result is that
  of the stored bytes under the current review; and no file that existed is changed, whatever
  calls fail and whatever other publishers do.\<close>

theorem report_store_faithful:
  assumes "store_report codec base input report review w = (w', Inr (p, reused, result, stored))"
  shows "p = report_path base input \<and> validate_report codec stored False review = Inr result \<and>
    (\<exists>fresh. validate_report codec report False review = Inr fresh \<and> rr_digest result = rr_digest fresh) \<and>
    (\<exists>n. node_at w' p = Some n \<and> (\<forall>c. n = File c \<longrightarrow> c = stored) \<and> (\<not> reused \<longrightarrow> n = File report)) \<and>
    (\<forall>q. node_at w q = None \<or> node_at w' q = node_at w q)"
proof -
  have "\<forall>q. node_at w q = None \<or> node_at w' q = node_at w q"
  proof
    show "node_at w q = None \<or> node_at w' q = node_at w q" for q
      using store_report_keeps [OF assms] by (cases "node_at w q") auto
  qed
  with store_report_ok [OF assms] show ?thesis by metis
qed

text \<open>Two reports published for one input digest under the same review have the same canonical
  digest, whichever came first.\<close>

theorem stored_reports_agree:
  assumes "store_report codec base input report1 review w = (w1, Inr (p1, reused1, result1, stored1))"
    and "store_report codec base input report2 review w1 = (w2, Inr (p2, reused2, result2, stored2))"
    and "node_at w2 (report_path base input) = Some (File c)"
  shows "rr_digest result1 = rr_digest result2"
proof -
  have o: "store_outcome codec base input report1 review w = (w1, Inr (p1, reused1))"
    "store_outcome codec base input report2 review w1 = (w2, Inr (p2, reused2))"
    using assms(1,2) by (simp_all add: store_outcome_def)
  have "(c = report1 \<or> admits_report codec review report1 c) \<and> (c = report2 \<or> admits_report codec review report2 c)"
    using o assms(3) by (rule competing_reports.both_agree)
  moreover obtain f1 f2 where f: "validate_report codec report1 False review = Inr f1" "rr_digest result1 = rr_digest f1"
    "validate_report codec report2 False review = Inr f2" "rr_digest result2 = rr_digest f2"
    using store_report_ok [OF assms(1)] store_report_ok [OF assms(2)] by blast
  ultimately obtain k where "validate_report codec c False review = Inr k" "rr_digest k = rr_digest f1" "rr_digest k = rr_digest f2"
    unfolding admits_report_def by (metis sum.inject(2))
  with f show ?thesis by simp
qed

lemma account_without_review:
  assumes "account_report r None = Inr t"
  shows "t_equivalent t = 0 \<and> t_killed t = t_mutants t"
proof -
  obtain files where f: "gr_files r = Some files" using assms by (auto simp: account_report_def split: option.splits)
  obtain u where u: "tally_files (start_tally None) files = Inr u" "u = t" using assms account_start [OF f] by blast
  then have a: "admissible (coordinates files) (start_tally None)"
    and t: "t = (counted (coordinates files) (start_tally None))\<lparr>t_files := rev (map rf_file_name files)\<rparr>"
    by (auto simp: tally_files_ok start_tally_def)
  have e: "filter is_lived (coordinates files) = []"
    using a by (auto simp: admissible_def start_tally_def reviewed_identities_def filter_empty_conv)
  then have "is_killed c" if "c \<in> set (coordinates files)" for c
    using a that by (auto simp: admissible_def filter_empty_conv)
  then have "filter is_killed (coordinates files) = coordinates files" by (simp add: filter_id_conv)
  with e show ?thesis by (simp add: t counted_def start_tally_def)
qed

section \<open>What is read\<close>

lemma sys_read_resolved:
  "sys_read_file p w = (w', Inr c) \<Longrightarrow> resolve 40 w' p = Some (File c)"
  by (auto simp: sys_read_file_def Let_def split: if_splits prod.splits option.splits node.splits)

lemma load_keeps: "load_evidence decode base g d w = (w', r) \<Longrightarrow> keeps {} w w'"
  by (auto simp: load_evidence_def Let_def split: if_splits prod.splits sum.splits node.splits
      dest!: sys_lstat_keeps sys_read_file_keeps sys_flush_keeps intro: keeps_trans)

lemma load_report_keeps: "load_report codec base d review w = (w', r) \<Longrightarrow> keeps {} w w'"
  by (auto simp: load_report_def split: if_splits prod.splits sum.splits dest!: sys_read_file_keeps)

text \<open>What a successful load says of the file it read.\<close>

lemma load_evidence_file:
  assumes "load_evidence decode base g d w = (w', Inr r)"
  obtains c where "node_at w' (record_path base g d) = Some (File c)" "parse_record decode c False = Inr r"
    "er_gate r = g" "er_input_digest r = d" "is_abs base" "gate_re g" "digest_re d"
proof -
  have a: "is_abs base" "gate_re g" "digest_re d" using assms by (auto simp: load_evidence_def split: if_splits)
  define p where "p = record_path base g d"
  have p: "path_join [base, ''by-input'', g, trim_prefix d ''sha256:'' @ ''.json''] = p"
    using record_path_eq(1) [OF a] by (simp add: p_def)
  obtain w1 c1 where l: "sys_lstat p w = (w1, Inr (File c1))"
    using assms a by (auto simp: load_evidence_def p Let_def split: prod.splits sum.splits node.splits)
  obtain w2 c where rd: "sys_read_file p w1 = (w2, Inr c)"
    using assms a l by (auto simp: load_evidence_def p Let_def split: prod.splits sum.splits)
  obtain w3 e3 where f1: "sys_flush w2 = (w3, e3)" by fastforce
  obtain w4 e4 where f2: "sys_flush w3 = (w4, e4)" by fastforce
  have r: "parse_record decode c (e3 \<noteq> None) = Inr r" "er_gate r = g" "er_input_digest r = d" "w' = w4"
    using assms a l rd f1 f2 by (auto simp: load_evidence_def p Let_def)
  have "node_at w1 p = Some (File c1)"
    using l by (auto simp: sys_lstat_def Let_def split: if_splits prod.splits option.splits)
  then have n2: "node_at w2 p = Some (File c1)" using sys_read_file_keeps [OF rd] keepsD by blast
  have "c = c1" using sys_read_file_ok [OF rd n2] .
  moreover have "node_at w4 p = Some (File c1)"
    using n2 sys_flush_keeps [OF f1] sys_flush_keeps [OF f2] keepsD by blast
  moreover have "parse_record decode c False = Inr r" using r(1) by (simp add: parse_record_ok)
  ultimately show thesis using that a r by (simp add: p_def)
qed

text \<open>C24: Reuse is sound: a hit rests on an evidence record that is stored at its path below the evidence
  root, of exactly the requested repository, module, package and input, which passed under an
  applicable verifier and, when the review depends on the architecture, on the architecture of the
  review; and on the report stored at the path of the input below the mutation root: these bytes
  are the ones that the current review, which is executable, accepts with the returned result, and
  the record holds their digest. Without a review the report has no surviving mutant at all, so that
  withdrawing a review withdraws its results.\<close>

theorem reuse_sound:
  assumes "reuse_evidence codec decode semantic evidence_dir mutation_dir repository m pkg input review w = (w', Inr (Some result))"
  shows "\<exists>c r data.
    node_at w' (record_path evidence_dir ''mutation'' input) = Some (File c) \<and> parse_record decode c False = Inr r \<and>
    er_gate r = ''mutation'' \<and> er_repository r = repository \<and> er_module r = m \<and> er_package r = pkg \<and>
    er_input_digest r = input \<and> er_result r = ''passed'' \<and> applicable_verifier_record semantic r \<and>
    (case review of None \<Rightarrow> True
     | Some v \<Rightarrow> validate_execution v = None \<and>
         (if list_ex (\<lambda>e. em_goarchs e \<noteq> None) (eq_mutations v)
          then env_get (er_environment r) ''GOARCH'' = eq_architecture v else True)) \<and>
    resolve 40 w' (path_join [mutation_dir, ''reports'', trim_prefix input ''sha256:'' @ ''.json'']) = Some (File data) \<and>
    is_abs mutation_dir \<and> has_prefix input ''sha256:'' \<and> raw_digest_re (trim_prefix input ''sha256:'') \<and>
    validate_report codec data False review = Inr result \<and>
    (er_report_digest r = rr_digest result \<or> er_report_digest r = legacy_canonical_report_digest codec data) \<and>
    (review \<noteq> None \<or> (rr_equivalent result = 0 \<and> rr_killed result = rr_mutants result))"
proof -
  obtain w1 l where l: "load_evidence decode evidence_dir ''mutation'' input w = (w1, l)" by fastforce
  have rv: "\<not> (case review of None \<Rightarrow> False | Some v \<Rightarrow> validate_execution v \<noteq> None)"
    using assms by (auto simp: reuse_evidence_def split: if_splits)
  obtain r where r: "l = Inr r"
    using assms l rv by (cases l) (auto simp: reuse_evidence_def split: evidence_error.splits io_error.splits)
  have i: "reuse_identity semantic repository m pkg review r = None"
    using assms l rv r by (cases "reuse_identity semantic repository m pkg review r") (auto simp: reuse_evidence_def)
  obtain data where d: "load_report codec mutation_dir input review w1 = (w', Inr (data, result))"
    and g: "er_report_digest r = rr_digest result \<or> er_report_digest r = legacy_canonical_report_digest codec data"
    using assms l rv r i by (auto simp: reuse_evidence_def split: prod.splits sum.splits if_splits)
  have report: "validate_report codec data False review = Inr result" "report_location_ok mutation_dir input"
    "resolve 40 w' (path_join [mutation_dir, ''reports'', trim_prefix input ''sha256:'' @ ''.json'']) = Some (File data)"
    using d by (auto simp: load_report_def split: if_splits prod.splits sum.splits dest!: sys_read_resolved)
  obtain c where c: "node_at w1 (record_path evidence_dir ''mutation'' input) = Some (File c)"
    "parse_record decode c False = Inr r" "er_gate r = ''mutation''" "er_input_digest r = input"
    using load_evidence_file [OF l [unfolded r]] .
  have "node_at w' (record_path evidence_dir ''mutation'' input) = Some (File c)"
    using c(1) load_report_keeps [OF d] keepsD by blast
  moreover have "rr_equivalent result = 0 \<and> rr_killed result = rr_mutants result" if "review = None"
    using report(1) that account_without_review
    by (auto simp: validate_report_def validate_report_data_def split: if_splits sum.splits)
  moreover have "er_repository r = repository \<and> er_module r = m \<and> er_package r = pkg \<and>
      er_result r = ''passed'' \<and> applicable_verifier_record semantic r"
    using i by (simp add: reuse_identity_def)
  moreover have "case review of None \<Rightarrow> True
     | Some v \<Rightarrow> validate_execution v = None \<and>
         (if list_ex (\<lambda>e. em_goarchs e \<noteq> None) (eq_mutations v)
          then env_get (er_environment r) ''GOARCH'' = eq_architecture v else True)"
    using i rv by (auto simp: reuse_identity_def list_ex_iff split: option.splits)
  ultimately show ?thesis using c report g unfolding report_location_ok_def by blast
qed

section \<open>Witnesses\<close>

definition sample_result :: report_result where
  "sample_result = \<lparr>rr_digest = sample_digest, rr_mutants = 1, rr_killed = 1, rr_equivalent = 0\<rparr>"

definition reported_world :: world where
  "reported_world = fst (store_report sample_codec ''/m'' sample_digest ''{}'' None stored_world)"

lemma sample_reported:
  "store_report sample_codec ''/m'' sample_digest ''{}'' None stored_world =
     (reported_world, Inr (report_path ''/m'' sample_digest, False, sample_result, ''{}''))"
proof -
  have "snd (store_report sample_codec ''/m'' sample_digest ''{}'' None stored_world) =
      Inr (report_path ''/m'' sample_digest, False, sample_result, ''{}'')"
    by code_simp
  then show ?thesis by (simp add: reported_world_def prod_eq_iff)
qed

definition second_world :: world where
  "second_world = fst (store_report sample_codec ''/m'' sample_digest ''{ }'' None reported_world)"

lemma sample_reported_again:
  "store_report sample_codec ''/m'' sample_digest ''{ }'' None reported_world =
     (second_world, Inr (report_path ''/m'' sample_digest, True, sample_result, ''{}''))"
proof -
  have "snd (store_report sample_codec ''/m'' sample_digest ''{ }'' None reported_world) =
      Inr (report_path ''/m'' sample_digest, True, sample_result, ''{}'')"
    by code_simp
  then show ?thesis by (simp add: second_world_def prod_eq_iff)
qed

theorem report_store_faithful_witness:
  "validate_report sample_codec ''{}'' False None = Inr sample_result \<and>
   (\<exists>n. node_at second_world (report_path ''/m'' sample_digest) = Some n)"
  using report_store_faithful [OF sample_reported_again] by blast

theorem stored_reports_agree_witness:
  "node_at second_world (report_path ''/m'' sample_digest) = Some (File ''{}'') \<and>
   rr_digest sample_result = rr_digest sample_result"
proof -
  have n: "node_at second_world (report_path ''/m'' sample_digest) = Some (File ''{}'')" by code_simp
  from stored_reports_agree [OF sample_reported sample_reported_again n] n show ?thesis by blast
qed

theorem reuse_sound_witness:
  "rr_equivalent sample_result = 0 \<and>
   snd (reuse_evidence sample_codec sample_decode sample_digest ''/e'' ''/m'' ''r'' ''m'' [] sample_digest None reported_world) =
     Inr (Some sample_result)"
proof -
  let ?run = "reuse_evidence sample_codec sample_decode sample_digest ''/e'' ''/m'' ''r'' ''m'' [] sample_digest None reported_world"
  have s: "snd ?run = Inr (Some sample_result)" by code_simp
  then have "?run = (fst ?run, Inr (Some sample_result))" by (simp add: prod_eq_iff)
  from reuse_sound [OF this] s show ?thesis by blast
qed

end
