(* ===== verification/Go_Rel.thy ===== *)
theory Go_Rel
  imports Go_Path
begin

text \<open>
  \<open>filepath.Rel\<close> on a Unix system and the containment test the mutation package builds on it
  (internal/mutation/input.go, \<open>isWithin\<close>). The last lemmas give the test its meaning for
  absolute paths: the elements of the root are a prefix of the elements of the candidate.
\<close>

text \<open>The loop that skips equal elements. A parent element in the base is refused only when both
  paths still have elements.\<close>

fun rel_elems :: "string list \<Rightarrow> string list \<Rightarrow> (string list \<times> string list) option" where
  "rel_elems (b # bs) (t # ts) =
     (if b = t then rel_elems bs ts else if b = ''..'' then None else Some (b # bs, t # ts))"
| "rel_elems bs ts = Some (bs, ts)"

text \<open>The elements of a cleaned path; an empty text has none.\<close>

definition path_elems :: "string \<Rightarrow> string list" where
  "path_elems p = (if p = [] then [] else split_on CHR ''/'' p)"

definition rel_base :: "string \<Rightarrow> string" where
  "rel_base p = (let q = path_clean p in if q = ''.'' then [] else if is_abs q then tl q else q)"

definition rel_target :: "string \<Rightarrow> string" where
  "rel_target p = (let q = path_clean p in if is_abs q then tl q else q)"

definition path_rel :: "string \<Rightarrow> string \<Rightarrow> string option" where
  "path_rel base target =
     (if path_clean target = path_clean base then Some ''.''
      else if is_abs base \<noteq> is_abs target then None
      else (case rel_elems (path_elems (rel_base base)) (path_elems (rel_target target)) of
              None \<Rightarrow> None
            | Some (bs, ts) \<Rightarrow> Some (join_with ''/'' (replicate (length bs) ''..'' @ ts))))"

text \<open>internal/mutation/input.go, \<open>isWithin\<close>.\<close>

definition is_within :: "string \<Rightarrow> string \<Rightarrow> bool" where
  "is_within root candidate =
     (case path_rel root candidate of
        None \<Rightarrow> False
      | Some r \<Rightarrow> \<not> (r = ''..'' \<or> has_prefix r ''../''))"

text \<open>What the code uses when it drops the error: the empty text.\<close>

definition rel_or_empty :: "string \<Rightarrow> string \<Rightarrow> string" where
  "rel_or_empty base target = (case path_rel base target of None \<Rightarrow> [] | Some r \<Rightarrow> r)"

section \<open>Absolute paths\<close>

definition abs_elems :: "string \<Rightarrow> string list" where
  "abs_elems p = clean_elems True (split_on CHR ''/'' p)"

lemma is_abs_clean [simp]: "is_abs (path_clean p) = is_abs p"
  by (rule path_clean_split(2))

lemma abs_elems_clean [simp]: "is_abs p \<Longrightarrow> abs_elems (path_clean p) = abs_elems p"
  using path_clean_split(1) [of p] by (simp add: abs_elems_def)

lemma abs_elems_plain: "list_all (\<lambda>e. plain_elem e \<and> CHR ''/'' \<notin> set e) (abs_elems p)"
proof -
  have "\<forall>e \<in> set (abs_elems p). CHR ''/'' \<notin> set e"
    unfolding abs_elems_def by (rule clean_elems_no_slash) (auto dest: split_on_no_sep)
  moreover obtain n es where "abs_elems p = replicate n ''..'' @ es" "list_all plain_elem es" "n = 0"
    unfolding abs_elems_def by (rule clean_elems_shape [of True "split_on CHR ''/'' p"]) auto
  ultimately show ?thesis by (simp add: list_all_iff)
qed

lemma path_clean_abs: "is_abs p \<Longrightarrow> path_clean p = CHR ''/'' # join_with ''/'' (abs_elems p)"
  by (simp add: path_clean_def abs_elems_def)

lemma path_elems_join:
  assumes "list_all (\<lambda>e. plain_elem e \<and> CHR ''/'' \<notin> set e) es"
  shows "path_elems (join_with ''/'' es) = es"
proof (cases "es = []")
  case False
  moreover have "\<forall>e \<in> set es. CHR ''/'' \<notin> set e" "\<forall>e \<in> set es. e \<noteq> []"
    using assms by (auto simp: list_all_iff plain_elem_def)
  ultimately show ?thesis using join_head_not_slash [of es] by (simp add: path_elems_def split_join)
qed (simp add: path_elems_def)

lemma rel_parts:
  assumes "is_abs p"
  shows "path_elems (rel_base p) = abs_elems p" and "path_elems (rel_target p) = abs_elems p"
proof -
  have j: "path_elems (join_with ''/'' (abs_elems p)) = abs_elems p"
    by (rule path_elems_join [OF abs_elems_plain])
  have q: "is_abs (CHR ''/'' # join_with ''/'' (abs_elems p))" by (simp add: is_abs_def)
  from j q show "path_elems (rel_base p) = abs_elems p" "path_elems (rel_target p) = abs_elems p"
    by (simp_all add: rel_base_def rel_target_def path_clean_abs [OF assms])
qed

lemma rel_elems_plain:
  assumes "list_all plain_elem bs"
  obtains common bs' ts' where "rel_elems bs ts = Some (bs', ts')" "bs = common @ bs'" "ts = common @ ts'"
    "bs' \<noteq> [] \<longrightarrow> ts' \<noteq> [] \<longrightarrow> hd bs' \<noteq> hd ts'"
proof -
  have "\<exists>common bs' ts'. rel_elems bs ts = Some (bs', ts') \<and> bs = common @ bs' \<and> ts = common @ ts' \<and>
    (bs' \<noteq> [] \<longrightarrow> ts' \<noteq> [] \<longrightarrow> hd bs' \<noteq> hd ts')"
    using assms
  proof (induction bs ts rule: rel_elems.induct)
    case (1 b bs t ts)
    show ?case
    proof (cases "b = t")
      case True
      with 1 obtain common bs' ts' where c: "rel_elems bs ts = Some (bs', ts')" "bs = common @ bs'" "ts = common @ ts'"
        "bs' \<noteq> [] \<longrightarrow> ts' \<noteq> [] \<longrightarrow> hd bs' \<noteq> hd ts'" by auto
      show ?thesis by (rule exI [of _ "b # common"]) (use True c in simp)
    next
      case False
      with 1(2) show ?thesis by (simp add: plain_elem_def)
    qed
  qed auto
  then show thesis using that by blast
qed

lemma join_dotdot_iff:
  assumes "\<forall>e \<in> set es. CHR ''/'' \<notin> set e"
  shows "join_with ''/'' es = ''..'' \<or> has_prefix (join_with ''/'' es) ''../'' \<longleftrightarrow> es \<noteq> [] \<and> hd es = ''..''"
proof (cases es)
  case (Cons e es')
  have e: "CHR ''/'' \<notin> set e" using assms Cons by simp
  have "e = ''..''" if "e @ CHR ''/'' # r = ''..'' @ CHR ''/'' # t" for r t
    using sep_pair_inj_left [OF that e] by simp
  moreover have "CHR ''/'' \<in> set e" if "e = ''..'' @ CHR ''/'' # t" for t using that by simp
  moreover have "e @ CHR ''/'' # r \<noteq> ''..''" for r
  proof
    assume "e @ CHR ''/'' # r = ''..''"
    then have "CHR ''/'' \<in> set ''..''" by (metis in_set_conv_decomp)
    then show False by simp
  qed
  ultimately show ?thesis using e
    by (cases "es' = []") (auto simp: Cons join_Cons_eq has_prefix_iff)
qed simp

text \<open>For absolute paths containment is what it should be.\<close>

lemma is_within_iff:
  assumes "is_abs root"
  shows "is_within root candidate \<longleftrightarrow>
    is_abs candidate \<and> (\<exists>rest. abs_elems candidate = abs_elems root @ rest)"
proof (cases "path_clean candidate = path_clean root")
  case True
  then have "is_abs candidate" using assms is_abs_clean by metis
  moreover from this have "abs_elems candidate = abs_elems root" using True assms abs_elems_clean by metis
  ultimately show ?thesis using True by (simp add: is_within_def path_rel_def)
next
  case False
  show ?thesis
  proof (cases "is_abs candidate")
    case True
    have plain: "list_all plain_elem (abs_elems root)" using abs_elems_plain by (simp add: list_all_iff)
    obtain common bs ts where r: "rel_elems (abs_elems root) (abs_elems candidate) = Some (bs, ts)"
      and s: "abs_elems root = common @ bs" "abs_elems candidate = common @ ts"
        "bs \<noteq> [] \<longrightarrow> ts \<noteq> [] \<longrightarrow> hd bs \<noteq> hd ts"
      using rel_elems_plain [OF plain] by metis
    have p: "path_rel root candidate = Some (join_with ''/'' (replicate (length bs) ''..'' @ ts))"
      using False assms True r by (simp add: path_rel_def rel_parts)
    have t: "\<forall>e \<in> set ts. CHR ''/'' \<notin> set e \<and> e \<noteq> ''..''"
      using abs_elems_plain [of candidate] s(2) by (simp add: list_all_iff plain_elem_def)
    then have "\<forall>e \<in> set (replicate (length bs) ''..'' @ ts). CHR ''/'' \<notin> set e" by auto
    note d = join_dotdot_iff [OF this]
    have w: "is_within root candidate \<longleftrightarrow> bs = []"
    proof (cases bs)
      case Nil
      have "\<not> (ts \<noteq> [] \<and> hd ts = ''..'')" using t by (cases ts) auto
      with Nil d p show ?thesis by (simp add: is_within_def)
    next
      case (Cons b bs')
      with d p show ?thesis by (simp add: is_within_def)
    qed
    have "(\<exists>rest. common @ ts = (common @ bs) @ rest) \<longleftrightarrow> bs = []"
    proof
      assume "\<exists>rest. common @ ts = (common @ bs) @ rest"
      then obtain rest where "ts = bs @ rest" by auto
      with s(3) show "bs = []" by (cases bs) auto
    qed simp
    with w True s show ?thesis by simp
  next
    case no: False
    with assms False show ?thesis by (simp add: is_within_def path_rel_def)
  qed
qed

end
