(* ===== verification/Repository_File.thy ===== *)
theory Repository_File
  imports Go_Files
begin

text \<open>
  internal/repositoryfile: bounded reads of regular files below a root. As in the source, the
  file system is an interface: \<open>lstat\<close> and \<open>open_file\<close> are arguments, each of which may fail, or
  (a broken implementation) return nothing without an error. The context is an argument too:
  \<open>stopped k\<close> is the answer of the k-th poll of \<open>ctx.Err\<close>.
\<close>

datatype file_kind = Kind_regular | Kind_directory | Kind_symlink | Kind_other

text \<open>\<open>fi_identity\<close> is what \<open>os.SameFile\<close> compares.\<close>

record file_info =
  fi_kind :: file_kind
  fi_size :: int
  fi_identity :: nat

text \<open>An open file: what its \<open>Stat\<close> returns, its content, and whether reading fails behind it.\<close>

record opened_file =
  of_stat :: "io_error + file_info option"
  of_content :: string
  of_failed :: bool

datatype repository_error =
    Unsafe_path | Not_regular_file | Too_large_file | Context_stopped
  | Inspect_error io_error | Open_error io_error | Stat_error io_error | Read_error

type_synonym lstat_fun = "string \<Rightarrow> io_error + file_info option"
type_synonym open_fun = "string \<Rightarrow> io_error + opened_file option"

section \<open>Path inspection\<close>

fun inspect_directories :: "lstat_fun \<Rightarrow> string \<Rightarrow> string list \<Rightarrow> repository_error + string" where
  "inspect_directories lstat current [] = Inr current"
| "inspect_directories lstat current (part # parts) =
     (let current = path_join [current, part]
      in case lstat current of
           Inl e \<Rightarrow> Inl (Inspect_error e)
         | Inr None \<Rightarrow> Inl Unsafe_path
         | Inr (Some info) \<Rightarrow>
             if fi_kind info = Kind_symlink then Inl Unsafe_path
             else if fi_kind info \<noteq> Kind_directory then Inl Not_regular_file
             else inspect_directories lstat current parts)"

definition inspect_path :: "lstat_fun \<Rightarrow> string \<Rightarrow> string \<Rightarrow> repository_error + string \<times> file_info" where
  "inspect_path lstat base relative =
     (let clean = path_clean relative
      in if relative = [] \<or> is_abs relative \<or> clean = ''..'' \<or> has_prefix clean ''../'' then Inl Unsafe_path
         else (let parts = split_on CHR ''/'' clean
               in and_then (inspect_directories lstat base (butlast parts)) (\<lambda>current.
                    let current = path_join [current, last parts]
                    in case lstat current of
                         Inl e \<Rightarrow> Inl (Inspect_error e)
                       | Inr None \<Rightarrow> Inl Unsafe_path
                       | Inr (Some info) \<Rightarrow>
                           if fi_kind info = Kind_symlink then Inl Unsafe_path else Inr (current, info))))"

definition validate_directory :: "lstat_fun \<Rightarrow> string \<Rightarrow> string \<Rightarrow> repository_error option" where
  "validate_directory lstat base relative =
     (case inspect_path lstat base relative of
        Inl e \<Rightarrow> Some e
      | Inr (_, info) \<Rightarrow> refuse (fi_kind info \<noteq> Kind_directory) Not_regular_file)"

definition inspect_regular_file :: "lstat_fun \<Rightarrow> string \<Rightarrow> string \<Rightarrow> repository_error + file_info" where
  "inspect_regular_file lstat base relative =
     and_then (inspect_path lstat base relative) (\<lambda>(_, info).
       with_check (refuse (fi_kind info \<noteq> Kind_regular) Not_regular_file) (Inr info))"

definition validate_regular_file :: "lstat_fun \<Rightarrow> string \<Rightarrow> string \<Rightarrow> repository_error option" where
  "validate_regular_file lstat base relative =
     (case inspect_regular_file lstat base relative of Inl e \<Rightarrow> Some e | Inr _ \<Rightarrow> None)"

section \<open>Opening and reading\<close>

text \<open>The checks on the opened file, in the order of the code.\<close>

definition opened_error ::
  "(nat \<Rightarrow> bool) \<Rightarrow> int \<Rightarrow> file_info \<Rightarrow> opened_file \<Rightarrow> repository_error option" where
  "opened_error stopped maximum expected f =
     (if stopped 1 then Some Context_stopped
      else (case of_stat f of
              Inl e \<Rightarrow> Some (Stat_error e)
            | Inr None \<Rightarrow> Some Unsafe_path
            | Inr (Some opened) \<Rightarrow> first_error
                [refuse (fi_kind opened \<noteq> Kind_regular \<or> fi_identity expected \<noteq> fi_identity opened) Unsafe_path,
                 refuse (maximum < fi_size opened) Too_large_file,
                 refuse (stopped 2) Context_stopped]))"

definition open_admitted ::
  "(nat \<Rightarrow> bool) \<Rightarrow> int \<Rightarrow> file_info option \<Rightarrow> open_fun \<Rightarrow> string \<Rightarrow> repository_error + opened_file" where
  "open_admitted stopped maximum expected open_file path =
     (if stopped 0 then Inl Context_stopped
      else (case expected of
              None \<Rightarrow> Inl Unsafe_path
            | Some info \<Rightarrow>
                if fi_kind info \<noteq> Kind_regular then Inl Not_regular_file
                else if maximum < fi_size info then Inl Too_large_file
                else (case open_file path of
                        Inl e \<Rightarrow> Inl (Open_error e)
                      | Inr None \<Rightarrow> Inl Unsafe_path
                      | Inr (Some f) \<Rightarrow> with_check (opened_error stopped maximum info f) (Inr f))))"

text \<open>\<open>openContext\<close> polls once before it inspects; \<open>stat\<close> follows links.\<close>

definition open_context ::
  "(nat \<Rightarrow> bool) \<Rightarrow> int \<Rightarrow> lstat_fun \<Rightarrow> open_fun \<Rightarrow> string \<Rightarrow> repository_error + opened_file" where
  "open_context stopped maximum stat open_file path =
     (if stopped 0 then Inl Context_stopped
      else if maximum \<le> 0 then Inl Too_large_file
      else (case stat path of
              Inl e \<Rightarrow> Inl (Inspect_error e)
            | Inr expected \<Rightarrow> open_admitted (\<lambda>k. stopped (Suc k)) maximum expected open_file path))"

definition max_int64 :: int where
  "max_int64 = 9223372036854775807"

text \<open>\<open>Read\<close> uses the background context, which never stops.\<close>

definition read_repository_file ::
  "lstat_fun \<Rightarrow> open_fun \<Rightarrow> string \<Rightarrow> string \<Rightarrow> int \<Rightarrow> repository_error + string" where
  "read_repository_file lstat open_file base relative maximum =
     (if maximum < 0 \<or> maximum = max_int64 then Inl Too_large_file
      else and_then (inspect_path lstat base relative) (\<lambda>(current, expected).
        and_then (open_admitted (\<lambda>_. False) maximum (Some expected) open_file current) (\<lambda>f.
          if maximum < int (length (of_content f)) then Inl Too_large_file
          else if of_failed f then Inl Read_error
          else Inr (of_content f))))"

text \<open>One read of the context-aware handle: nothing is returned once the context has stopped.\<close>

datatype read_end = Read_more | Read_eof | Read_failed | Read_stopped

definition context_read :: "bool \<Rightarrow> int \<times> read_end \<Rightarrow> bool \<Rightarrow> int \<times> read_end" where
  "context_read before result after =
     (if before then (0, Read_stopped)
      else (case result of (n, e) \<Rightarrow>
              if (e = Read_more \<or> e = Read_eof) \<and> after then (0, Read_stopped) else (n, e)))"

section \<open>What an admitted read shows\<close>

definition descend :: "string \<Rightarrow> string list \<Rightarrow> string" where
  "descend base parts = foldl (\<lambda>current part. path_join [current, part]) base parts"

definition real_directory :: "lstat_fun \<Rightarrow> string \<Rightarrow> bool" where
  "real_directory lstat p \<longleftrightarrow> (case lstat p of Inr (Some info) \<Rightarrow> fi_kind info = Kind_directory | _ \<Rightarrow> False)"

lemma inspect_directories_ok:
  "inspect_directories lstat base parts = Inr current \<longleftrightarrow>
     current = descend base parts \<and> (\<forall>k \<in> {1..length parts}. real_directory lstat (descend base (take k parts)))"
proof (induction parts arbitrary: base)
  case (Cons p ps)
  have all: "(\<forall>k \<in> {1..length (p # ps)}. real_directory lstat (descend base (take k (p # ps)))) \<longleftrightarrow>
      real_directory lstat (path_join [base, p]) \<and>
      (\<forall>k \<in> {1..length ps}. real_directory lstat (descend (path_join [base, p]) (take k ps)))"
    (is "?l \<longleftrightarrow> ?r")
  proof
    assume l: ?l
    show ?r
    proof (intro conjI ballI)
      show "real_directory lstat (path_join [base, p])" using bspec [OF l, of 1] by (simp add: descend_def)
      fix k assume "k \<in> {1..length ps}"
      then show "real_directory lstat (descend (path_join [base, p]) (take k ps))"
        using bspec [OF l, of "Suc k"] by (simp add: descend_def)
    qed
  next
    assume r: ?r
    show ?l
    proof
      fix k assume "k \<in> {1..length (p # ps)}"
      then obtain j where k: "k = Suc j" "j \<le> length ps" by (cases k) auto
      show "real_directory lstat (descend base (take k (p # ps)))"
        using r k by (cases j) (auto simp: descend_def)
    qed
  qed
  show ?case unfolding all
    by (auto simp: Let_def Cons.IH descend_def real_directory_def split: sum.splits option.splits)
qed (auto simp: descend_def)

lemma descend_snoc: "descend base (ps @ [p]) = path_join [descend base ps, p]"
  by (simp add: descend_def)

text \<open>C30: What \<open>Read\<close> returns lies in the root: the path is relative and its walk never ends
  outside the root; every directory on the way is a real directory, never a symbolic link; the
  file is the very regular file that was inspected; and the data is complete and within the
  bound.\<close>

theorem read_confined:
  assumes "read_repository_file lstat open_file base relative maximum = Inr data"
  shows "confined relative \<and> int (length data) \<le> maximum \<and> 0 \<le> maximum \<and>
    (\<exists>parts expected f opened. parts = split_on CHR ''/'' (path_clean relative) \<and>
       (\<forall>k \<in> {1..<length parts}. real_directory lstat (descend base (take k parts))) \<and>
       lstat (descend base parts) = Inr (Some expected) \<and> fi_kind expected = Kind_regular \<and>
       open_file (descend base parts) = Inr (Some f) \<and> of_stat f = Inr (Some opened) \<and>
       fi_kind opened = Kind_regular \<and> fi_identity opened = fi_identity expected \<and> of_content f = data)"
proof -
  let ?parts = "split_on CHR ''/'' (path_clean relative)"
  obtain current expected f where i: "inspect_path lstat base relative = Inr (current, expected)"
    and o: "open_admitted (\<lambda>_. False) maximum (Some expected) open_file current = Inr f"
    and r: "data = of_content f" "int (length data) \<le> maximum" "0 \<le> maximum"
    using assms by (auto simp: read_repository_file_def not_less split: if_splits)
  have c: "confined relative"
    using i clean_dotdot_iff [of relative] by (auto simp: inspect_path_def Let_def confined_def split: if_splits)
  obtain above where a: "inspect_directories lstat base (butlast ?parts) = Inr above"
    and "(case lstat (path_join [above, last ?parts]) of
        Inl e \<Rightarrow> Inl (Inspect_error e) | Inr None \<Rightarrow> Inl Unsafe_path
      | Inr (Some info) \<Rightarrow> if fi_kind info = Kind_symlink then Inl Unsafe_path
          else Inr (path_join [above, last ?parts], info)) = Inr (current, expected)"
    using i by (auto simp: inspect_path_def Let_def split: if_splits)
  then have l: "current = path_join [above, last ?parts]" "lstat current = Inr (Some expected)"
    by (auto split: if_splits sum.splits option.splits)
  have parts: "?parts = butlast ?parts @ [last ?parts]" by simp
  have d: "current = descend base ?parts"
  proof -
    have "descend base ?parts = path_join [descend base (butlast ?parts), last ?parts]"
      by (subst parts) (rule descend_snoc)
    then show ?thesis using a l(1) by (simp add: inspect_directories_ok)
  qed
  have "real_directory lstat (descend base (take k ?parts))" if "k \<in> {1..<length ?parts}" for k
  proof -
    have "take k (butlast ?parts) = take k ?parts" using that by (auto simp: take_butlast)
    moreover have "k \<in> {1..length (butlast ?parts)}" using that by auto
    ultimately show ?thesis using a unfolding inspect_directories_ok by metis
  qed
  moreover obtain opened where "fi_kind expected = Kind_regular" "open_file current = Inr (Some f)"
    "of_stat f = Inr (Some opened)" "fi_kind opened = Kind_regular" "fi_identity opened = fi_identity expected"
    using o by (auto simp: open_admitted_def opened_error_def split: if_splits sum.splits option.splits)
  ultimately show ?thesis using c r l(2) unfolding d by blast
qed

definition sample_lstat :: lstat_fun where
  "sample_lstat p =
     (if p = ''/r/a/b'' then Inr (Some \<lparr>fi_kind = Kind_regular, fi_size = 2, fi_identity = 7\<rparr>)
      else Inr (Some \<lparr>fi_kind = Kind_directory, fi_size = 0, fi_identity = 1\<rparr>))"

definition sample_open :: open_fun where
  "sample_open p = Inr (Some \<lparr>of_stat = sample_lstat p, of_content = ''ok'', of_failed = False\<rparr>)"

theorem read_confined_witness:
  "confined ''a/c/../b'' \<and> read_repository_file sample_lstat sample_open ''/r'' ''a/c/../b'' 10 = Inr ''ok''"
proof -
  have r: "read_repository_file sample_lstat sample_open ''/r'' ''a/c/../b'' 10 = Inr ''ok''" by code_simp
  from read_confined [OF r] r show ?thesis by blast
qed

end
