(* ===== verification/Mutation_Source.thy ===== *)
theory Mutation_Source
  imports Go_Rel Repository_File Mutation_Store
begin

text \<open>
  internal/mutation: bounded reads of package sources (source_admission.go), the source digest
  that binds reviews to code (source.go), the selection of the production files that are
  mutated (selection.go) and the proof that a historical execution mutated the same package
  (verifier_compatibility.go).

  What the operating system shows of the source tree at one moment is a \<open>source_view\<close>, an
  argument. SHA-256 (in hexadecimal), encoding/json and go/parser are arguments too.
\<close>

record dir_entry =
  de_name :: string
  de_kind :: file_kind

text \<open>A directory delivers its entries in some order and then ends or fails.\<close>

record source_view =
  sv_lstat :: lstat_fun
  sv_open :: open_fun
  sv_directory :: "string \<Rightarrow> io_error + dir_entry list \<times> bool"
  sv_eval_symlinks :: "string \<Rightarrow> string option"
  sv_readlink :: "string \<Rightarrow> string option"

datatype source_error =
    Source_paths_bad | Source_inspect io_error | Source_no_metadata | Source_not_directory
  | Source_entry_limit | Source_total_limit | Source_directory_unread io_error | Source_read_failed
  | Source_entry_invalid | Source_symlink string | Source_empty
  | Source_file_error repository_error | Source_rel_failed

section \<open>Bounded reads\<close>

record source_limits =
  sl_entries :: int
  sl_file :: int
  sl_total :: int

definition maximum_list_size :: int where "maximum_list_size = 67108864"
definition maximum_input_file :: int where "maximum_input_file = 16777216"
definition maximum_input_total :: int where "maximum_input_total = 268435456"
definition maximum_input_files :: int where "maximum_input_files = 100000"
definition maximum_input_entries :: int where "maximum_input_entries = 100000"

definition mutation_source_limits :: source_limits where
  "mutation_source_limits =
     \<lparr>sl_entries = maximum_input_entries, sl_file = maximum_input_file, sl_total = maximum_input_total\<rparr>"

text \<open>The loop of \<open>readSourceEntries\<close>: \<open>rest\<close> are the entries the directory still delivers. A batch
  asks for one entry more than may be kept, and for at most 128.\<close>

function read_batches :: "int \<Rightarrow> dir_entry list \<Rightarrow> dir_entry list \<Rightarrow> bool \<Rightarrow> source_error + dir_entry list" where
  "read_batches maximum entries rest failed =
     (let remaining = maximum - int (length entries);
          asked = Suc (nat (min 127 remaining))
      in if rest = [] then (if failed then Inl Source_read_failed else Inr (sort_key de_name entries))
         else if remaining < int (length (take asked rest)) then Inl Source_entry_limit
         else read_batches maximum (entries @ take asked rest) (drop asked rest) failed)"
  by pat_completeness auto
termination
  by (relation "measure (\<lambda>(maximum, entries, rest, failed). length rest)") (auto simp: length_greater_0_conv [symmetric] simp del: length_greater_0_conv)

declare read_batches.simps [simp del]

definition read_source_entries :: "source_view \<Rightarrow> string \<Rightarrow> int \<Rightarrow> source_error + dir_entry list" where
  "read_source_entries view directory maximum =
     (if maximum < 0 then Inl Source_entry_limit
      else (case sv_directory view directory of
              Inl e \<Rightarrow> Inl (Source_directory_unread e)
            | Inr (entries, failed) \<Rightarrow> read_batches maximum [] entries failed))"

definition source_read_error :: "repository_error \<Rightarrow> int \<Rightarrow> int \<Rightarrow> source_error" where
  "source_read_error e per_file remaining =
     (if 0 < per_file \<and> remaining = 0 \<and> e = Too_large_file then Source_total_limit else Source_file_error e)"

definition read_source_file :: "source_view \<Rightarrow> string \<Rightarrow> string \<Rightarrow> int \<Rightarrow> int \<Rightarrow> source_error + string" where
  "read_source_file view base relative per_file remaining =
     (case inspect_regular_file (sv_lstat view) base relative of
        Inl e \<Rightarrow> Inl (Source_file_error e)
      | Inr info \<Rightarrow>
          if per_file < fi_size info then Inl (Source_file_error Too_large_file)
          else if remaining < fi_size info then Inl Source_total_limit
          else (case read_repository_file (sv_lstat view) (sv_open view) base relative (min per_file remaining) of
                  Inl e \<Rightarrow> Inl (source_read_error e per_file remaining)
                | Inr data \<Rightarrow> Inr data))"

section \<open>The source digest\<close>

text \<open>The interface \<open>sourceFileSystem\<close>, and its operating implementation. An entry of a directory
  may be nil in another implementation.\<close>

record source_files =
  sf_lstat :: lstat_fun
  sf_read_dir :: "string \<Rightarrow> int \<Rightarrow> source_error + dir_entry option list"
  sf_read_file :: "string \<Rightarrow> int \<Rightarrow> int \<Rightarrow> source_error + string"
  sf_rel :: "string \<Rightarrow> string \<Rightarrow> string option"

definition operating_source_files :: "source_view \<Rightarrow> source_files" where
  "operating_source_files view =
     \<lparr>sf_lstat = sv_lstat view,
      sf_read_dir = (\<lambda>path maximum. and_then (read_source_entries view path maximum) (\<lambda>es. Inr (map Some es))),
      sf_read_file = (\<lambda>path per_file remaining. read_source_file view (path_dir path) (path_base path) per_file remaining),
      sf_rel = path_rel\<rparr>"

fun real_source_directory :: "lstat_fun \<Rightarrow> string \<Rightarrow> string list \<Rightarrow> source_error + string" where
  "real_source_directory lstat directory [] = Inr directory"
| "real_source_directory lstat directory (component # rest) =
     (let directory = path_join [directory, component]
      in case lstat directory of
           Inl e \<Rightarrow> Inl (Source_inspect e)
         | Inr None \<Rightarrow> Inl Source_no_metadata
         | Inr (Some info) \<Rightarrow>
             if fi_kind info \<noteq> Kind_directory then Inl Source_not_directory
             else real_source_directory lstat directory rest)"

definition is_production_name :: "string \<Rightarrow> bool" where
  "is_production_name name \<longleftrightarrow> path_ext name = ''.go'' \<and> \<not> has_suffix name ''_test.go''"

fun source_names :: "dir_entry option list \<Rightarrow> source_error + string list" where
  "source_names [] = Inr []"
| "source_names (None # es) = Inl Source_entry_invalid"
| "source_names (Some e # es) =
     (if de_kind e = Kind_symlink then Inl (Source_symlink (de_name e))
      else if de_kind e \<noteq> Kind_regular \<or> \<not> is_production_name (de_name e) then source_names es
      else and_then (source_names es) (\<lambda>names. Inr (de_name e # names)))"

text \<open>The text the manifest hash receives: one line per file, each digest followed by its path.\<close>

fun source_manifest ::
  "source_files \<Rightarrow> (string \<Rightarrow> string) \<Rightarrow> string \<Rightarrow> string \<Rightarrow> int \<Rightarrow> int \<Rightarrow> string list \<Rightarrow> source_error + string" where
  "source_manifest files sha256 base directory per_file remaining [] = Inr []"
| "source_manifest files sha256 base directory per_file remaining (name # names) =
     (let absolute = path_join [directory, name]
      in and_then (sf_read_file files absolute per_file remaining) (\<lambda>data.
           case sf_rel files base absolute of
             None \<Rightarrow> Inl Source_rel_failed
           | Some relative \<Rightarrow>
               and_then (source_manifest files sha256 base directory per_file (remaining - int (length data)) names)
                 (\<lambda>rest. Inr (sha256 data @ ''  '' @ relative @ [CHR 0x0A] @ rest))))"

definition source_digest_with_limits ::
  "source_files \<Rightarrow> (string \<Rightarrow> string) \<Rightarrow> string \<Rightarrow> string \<Rightarrow> string \<Rightarrow> source_limits \<Rightarrow> source_error + string" where
  "source_digest_with_limits files sha256 base m pkg limits =
     (if \<not> is_abs base \<or> \<not> valid_relative m \<or> \<not> valid_relative pkg then Inl Source_paths_bad
      else and_then (real_source_directory (sf_lstat files) base (split_on CHR ''/'' (path_join [m, pkg]))) (\<lambda>directory.
        and_then (sf_read_dir files directory (sl_entries limits)) (\<lambda>entries.
        and_then (source_names entries) (\<lambda>names.
          if names = [] then Inl Source_empty
          else and_then (source_manifest files sha256 base directory (sl_file limits) (sl_total limits) (sort names))
                 (\<lambda>manifest. Inr (sha256 manifest))))))"

definition source_digest :: "source_view \<Rightarrow> (string \<Rightarrow> string) \<Rightarrow> string \<Rightarrow> string \<Rightarrow> string \<Rightarrow> source_error + string" where
  "source_digest view sha256 base m pkg =
     source_digest_with_limits (operating_source_files view) sha256 base m pkg mutation_source_limits"

section \<open>The production selection\<close>

record listed_module =
  lm_path :: string
  lm_version :: string
  lm_sum :: string
  lm_go_version :: string
  lm_main :: bool

record listed_package =
  lp_dir :: string
  lp_import_path :: string
  lp_for_test :: string
  lp_go_files :: "string list"
  lp_cgo_files :: "string list"
  lp_c_files :: "string list"
  lp_cxx_files :: "string list"
  lp_m_files :: "string list"
  lp_h_files :: "string list"
  lp_f_files :: "string list"
  lp_s_files :: "string list"
  lp_swig_files :: "string list"
  lp_swig_cxx_files :: "string list"
  lp_syso_files :: "string list"
  lp_embed_files :: "string list"
  lp_test_go_files :: "string list"
  lp_xtest_go_files :: "string list"
  lp_test_embed_files :: "string list"
  lp_xtest_embed_files :: "string list"
  lp_module :: "listed_module option"

datatype input_error =
    Listing_unreadable | Listing_too_large | Listing_undecodable | Listing_empty
  | Target_outside | Target_conflict | Target_names_bound | Target_missing
  | Unsafe_source_name | Invalid_source_name | Selection_source source_error
  | Root_relative | Root_unresolved | Input_policy_malformed | Service_malformed | Service_mismatch
  | Owned_malformed | Owned_duplicate string | Zero_review_mismatch | Module_conflict string
  | Listed_directory repository_error | File_escapes string | File_unread repository_error
  | Content_bounds | Data_inspect io_error | Data_not_directory | Data_walk | Data_bounds
  | Data_not_regular string | Target_unresolved | No_local_files

text \<open>\<open>parseListing\<close>: \<open>decode\<close> is the sequence of results of \<open>decoder.Decode\<close> until it ends or fails.\<close>

fun collect_packages :: "listed_package json_next list \<Rightarrow> input_error + listed_package list" where
  "collect_packages [] = Inr []"
| "collect_packages (Json_value p # ns) = and_then (collect_packages ns) (\<lambda>ps. Inr (p # ps))"
| "collect_packages (Json_eof # ns) = Inr []"
| "collect_packages (Json_failure # ns) = Inl Listing_undecodable"

definition parse_listing ::
  "(string \<Rightarrow> listed_package json_next list) \<Rightarrow> string \<Rightarrow> bool \<Rightarrow> input_error + listed_package list" where
  "parse_listing decode data failed =
     (if maximum_list_size < int (length data) then Inl Listing_too_large
      else if failed then Inl Listing_unreadable
      else and_then (collect_packages (decode data)) (\<lambda>packages.
        if packages = [] then Inl Listing_empty else Inr packages))"

record production_selection =
  ps_files :: "string list"
  ps_excluded :: "string list"

definition package_import :: "string \<Rightarrow> string \<Rightarrow> string" where
  "package_import module_path pkg = (if pkg = ''.'' then module_path else module_path @ ''/'' @ pkg)"

definition admitted_directory :: "string \<Rightarrow> string list \<Rightarrow> string \<Rightarrow> string \<Rightarrow> string \<Rightarrow> bool" where
  "admitted_directory directory aliases m pkg listed \<longleftrightarrow>
     listed = directory \<or> list_ex (\<lambda>a. listed = path_join [a, m, pkg]) aliases"

text \<open>The loop over the listed packages: the names selected so far, and whether the target was found.\<close>

fun select_targets ::
  "source_view \<Rightarrow> string \<Rightarrow> string list \<Rightarrow> string \<Rightarrow> string \<Rightarrow> string \<Rightarrow> string list \<Rightarrow> bool
    \<Rightarrow> listed_package list \<Rightarrow> input_error + string list \<times> bool" where
  "select_targets view directory aliases m pkg module_path selected found [] = Inr (selected, found)"
| "select_targets view directory aliases m pkg module_path selected found (p # ps) =
     (if lp_import_path p \<noteq> package_import module_path pkg \<or> lp_for_test p \<noteq> [] then
        select_targets view directory aliases m pkg module_path selected found ps
      else if \<not> admitted_directory directory aliases m pkg (lp_dir p) then Inl Target_outside
      else if sv_eval_symlinks view (lp_dir p) \<noteq> Some directory \<or>
              (case lp_module p of None \<Rightarrow> True | Some lm \<Rightarrow> lm_path lm \<noteq> module_path) \<or> found
      then Inl Target_conflict
      else if sl_entries mutation_source_limits < int (length (lp_go_files p)) \<or>
              sl_entries mutation_source_limits - int (length (lp_go_files p)) < int (length (lp_cgo_files p))
      then Inl Target_names_bound
      else select_targets view directory aliases m pkg module_path
             (selected @ lp_go_files p @ lp_cgo_files p) True ps)"

definition unsafe_name_chars :: string where
  "unsafe_name_chars = [CHR 0x5C, CHR 0x00, CHR 0x0D, CHR 0x0A]"

fun available_names :: "dir_entry list \<Rightarrow> input_error + string list" where
  "available_names [] = Inr []"
| "available_names (e # es) =
     (if de_kind e = Kind_regular \<and> has_suffix (de_name e) ''.go'' \<and> \<not> has_suffix (de_name e) ''_test.go'' then
        (if contains_any (de_name e) unsafe_name_chars then Inl Unsafe_source_name
         else and_then (available_names es) (\<lambda>names. Inr (de_name e # names)))
      else available_names es)"

definition select_production ::
  "source_view \<Rightarrow> string \<Rightarrow> string \<Rightarrow> string \<Rightarrow> string \<Rightarrow> listed_package list \<Rightarrow> string list
    \<Rightarrow> input_error + production_selection" where
  "select_production view base m pkg module_path packages aliases =
     (let directory = path_join [base, m, pkg]
      in and_then (select_targets view directory aliases m pkg module_path [] False packages) (\<lambda>(selected, found).
           if \<not> found \<or> selected = [] then Inl Target_missing
           else (case read_source_entries view directory (sl_entries mutation_source_limits) of
                   Inl e \<Rightarrow> Inl (Selection_source e)
                 | Inr entries \<Rightarrow>
                     and_then (available_names entries) (\<lambda>available.
                       with_check (unique_scan
                           (\<lambda>name. refuse (\<not> List.member available name \<or> path_base name \<noteq> name \<or>
                               contains_any name unsafe_name_chars) Invalid_source_name)
                           (\<lambda>_ e. e) id (\<lambda>_ _. Invalid_source_name) 0 [] selected)
                         (Inr \<lparr>ps_files = sort selected,
                               ps_excluded = sort (filter (\<lambda>n. \<not> List.member selected n) (remdups available))\<rparr>)))))"

text \<open>\<open>regexp.QuoteMeta\<close>, then the two replacements.\<close>

definition quote_meta :: "string \<Rightarrow> string" where
  "quote_meta s = concat (map (\<lambda>c.
     if List.member [CHR 0x5C, CHR ''.'', CHR ''+'', CHR ''*'', CHR ''?'', CHR ''('', CHR '')'', CHR ''|'',
       CHR ''['', CHR '']'', CHR ''{'', CHR ''}'', CHR ''^'', CHR ''$''] c then [CHR 0x5C, c] else [c]) s)"

definition escape_csv :: "string \<Rightarrow> string" where
  "escape_csv s = concat (map (\<lambda>c.
     if c = CHR '','' then [CHR 0x5C] @ ''x2c'' else if c = CHR 0x22 then [CHR 0x5C] @ ''x22'' else [c]) s)"

definition exclusion :: "production_selection \<Rightarrow> string" where
  "exclusion s =
     (if ps_excluded s = [] then ''^.+/''
      else ''^.+/|^(?:'' @ join_with ''|'' (map (\<lambda>n. escape_csv (quote_meta n)) (ps_excluded s)) @ '')$'')"

text \<open>\<open>encode\<close> is \<open>json.Marshal\<close> of the four values.\<close>

type_synonym selection_encoder =
  "string \<Rightarrow> production_selection \<Rightarrow> runtime_identity \<Rightarrow> string \<Rightarrow> string"

definition selected_input_digest ::
  "selection_encoder \<Rightarrow> (string \<Rightarrow> string) \<Rightarrow> string \<Rightarrow> production_selection \<Rightarrow> runtime_identity \<Rightarrow> string" where
  "selected_input_digest encode sha256 input selection runtime =
     ''sha256:'' @ sha256 (''golib/native-mutation-selection/v1'' @ [CHR 0x0A] @
       encode input selection runtime (exclusion selection))"

section \<open>Historical package paths\<close>

datatype history_error =
    History_directory repository_error | History_entry_bound | History_unread source_error
  | History_byte_bound | History_file source_error | History_declaration
  | History_other_package | History_empty | History_source_mismatch

text \<open>The search of the old verifier for the package directory: from the directory upward, the first
  that ends with the package name. \<open>filepath.Dir\<close> reaches a fixed point; the fuel is the length
  of the path, and every other step shortens it.\<close>

fun legacy_package :: "nat \<Rightarrow> string \<Rightarrow> string \<Rightarrow> string \<Rightarrow> string" where
  "legacy_package 0 module_path name directory = module_path"
| "legacy_package (Suc fuel) module_path name directory =
     (if has_suffix directory name then module_path @ ''/'' @ directory
      else (let parent = path_dir directory
            in if parent = directory then module_path else legacy_package fuel module_path name parent))"

text \<open>The loop over the entries: \<open>parse\<close> is the package clause go/parser reads, or nothing.\<close>

fun history_scan ::
  "source_view \<Rightarrow> (string \<Rightarrow> string) \<Rightarrow> (string \<Rightarrow> string \<Rightarrow> string option) \<Rightarrow> string \<Rightarrow> string \<Rightarrow> string \<Rightarrow> string
    \<Rightarrow> int \<Rightarrow> int \<Rightarrow> dir_entry list \<Rightarrow> history_error + nat \<times> string" where
  "history_scan view sha256 parse base relative pkg module_path per_file remaining [] = Inr (0, [])"
| "history_scan view sha256 parse base relative pkg module_path per_file remaining (e # es) =
     (let name = de_name e; path = path_join [relative, name]
      in if \<not> is_production_name name
         then history_scan view sha256 parse base relative pkg module_path per_file remaining es
         else (case read_source_file view base path per_file remaining of
                 Inl Source_total_limit \<Rightarrow> Inl History_byte_bound
               | Inl f \<Rightarrow> Inl (History_file f)
               | Inr data \<Rightarrow>
                   (case parse name data of
                      None \<Rightarrow> Inl History_declaration
                    | Some declared \<Rightarrow>
                        (let directory = path_dir (pkg @ ''/'' @ name)
                         in if legacy_package (Suc (length directory)) module_path declared directory \<noteq>
                               package_import module_path pkg
                            then Inl History_other_package
                            else and_then (history_scan view sha256 parse base relative pkg module_path per_file
                                     (remaining - int (length data)) es)
                                   (\<lambda>(files, manifest).
                                      Inr (Suc files, sha256 data @ ''  '' @ path @ [CHR 0x0A] @ manifest))))))"

definition legacy_package_paths_unchanged ::
  "source_view \<Rightarrow> (string \<Rightarrow> string) \<Rightarrow> (string \<Rightarrow> string \<Rightarrow> string option) \<Rightarrow> string \<Rightarrow> string \<Rightarrow> string \<Rightarrow> string
    \<Rightarrow> string \<Rightarrow> source_limits \<Rightarrow> history_error option" where
  "legacy_package_paths_unchanged view sha256 parse base m pkg module_path expected_source limits =
     (let relative = path_join [m, pkg]
      in case validate_directory (sv_lstat view) base relative of
           Some e \<Rightarrow> Some (History_directory e)
         | None \<Rightarrow>
             (case read_source_entries view (path_join [base, relative]) (sl_entries limits) of
                Inl Source_entry_limit \<Rightarrow> Some History_entry_bound
              | Inl e \<Rightarrow> Some (History_unread e)
              | Inr entries \<Rightarrow>
                  (case history_scan view sha256 parse base relative pkg module_path (sl_file limits) (sl_total limits) entries of
                     Inl e \<Rightarrow> Some e
                   | Inr (files, manifest) \<Rightarrow> first_error
                       [refuse (files = 0) History_empty,
                        refuse (sha256 manifest \<noteq> expected_source) History_source_mismatch])))"

end
