(* ===== verification/Mutation_Input.thy ===== *)
theory Mutation_Input
  imports Mutation_Source
begin

text \<open>
  internal/mutation/input.go: the input digest that binds mutation evidence to the local source,
  the observing tests, the fixtures, the dependency versions, the policy and the verifier.
  Arguments besides those of \<open>Mutation_Source\<close>: \<open>filepath.WalkDir\<close> as the visits it makes below a
  directory, and the order in which Go ranges over the map of relevant directories.
\<close>

record owned_module =
  om_module_path :: string
  om_directory :: string

record input_policy =
  ip_module_directory :: string
  ip_package_directory :: string
  ip_module_path :: string
  ip_go_version :: string
  ip_test_tags :: "string list"
  ip_build_tags :: "string list"
  ip_required_services :: "string list"
  ip_service_identities :: "(string \<times> string) list"
  ip_owned_modules :: "owned_module list"

section \<open>The policy\<close>

text \<open>\<open>identity, identified := policy.ServiceIdentities[service]\<close>\<close>

definition service_check :: "input_policy \<Rightarrow> string \<Rightarrow> input_error option" where
  "service_check policy service =
     (let identified = map_of (ip_service_identities policy) service;
          identity = env_get (ip_service_identities policy) service
      in refuse (service = [] \<or> identity = [] \<or> identified = None \<or> contains_any (service @ identity) line_breaks)
           Service_malformed)"

definition owned_check :: "owned_module \<Rightarrow> input_error option" where
  "owned_check o' = refuse (om_module_path o' = [] \<or> \<not> valid_relative (om_directory o')) Owned_malformed"

definition input_policy_validate :: "input_policy \<Rightarrow> input_error option" where
  "input_policy_validate policy = first_error
     [refuse (ip_module_path policy = [] \<or> ip_go_version policy = [] \<or>
              \<not> valid_relative (ip_module_directory policy) \<or> \<not> valid_relative (ip_package_directory policy))
        Input_policy_malformed,
      unique_scan (service_check policy) (\<lambda>_ e. e) id (\<lambda>_ _. Service_malformed) 0 [] (ip_required_services policy),
      refuse (length (ip_required_services policy) \<noteq> length (ip_service_identities policy)) Service_mismatch,
      unique_scan owned_check (\<lambda>_ e. e) om_module_path (\<lambda>_ o'. Owned_duplicate (om_module_path o'))
        0 [ip_module_path policy] (ip_owned_modules policy)]"

definition sorted_copy :: "string list \<Rightarrow> string list" where
  "sorted_copy values = sort (remdups values)"

definition canonical_policy :: "input_policy \<Rightarrow> input_policy" where
  "canonical_policy policy = policy\<lparr>
     ip_test_tags := sorted_copy (ip_test_tags policy),
     ip_build_tags := sorted_copy (ip_build_tags policy),
     ip_required_services := sorted_copy (ip_required_services policy),
     ip_owned_modules := sort_key om_module_path (ip_owned_modules policy)\<rparr>"

definition observed_owned :: "owned_module list \<Rightarrow> string list \<Rightarrow> owned_module list" where
  "observed_owned owned observed = filter (\<lambda>o'. List.member observed (om_module_path o')) owned"

section \<open>Content\<close>

text \<open>The content map and the running total.\<close>

type_synonym content = "(string \<times> string) list \<times> int"

definition add_content :: "string \<Rightarrow> string \<Rightarrow> content \<Rightarrow> input_error + content" where
  "add_content key data c =
     (case c of (content, used) \<Rightarrow>
        if map_of content key \<noteq> None then Inr c
        else if maximum_input_files \<le> int (length content) then Inl Content_bounds
        else if maximum_input_total < used + int (length data) then Inl Content_bounds
        else Inr (map_set key data content, used + int (length data)))"

definition content_key :: "string \<Rightarrow> owned_module \<Rightarrow> string \<Rightarrow> string" where
  "content_key base owned absolute =
     ''module:'' @ om_module_path owned @ ''/'' @ rel_or_empty (path_join [base, om_directory owned]) absolute"

definition input_absolute :: "string \<Rightarrow> string \<Rightarrow> string" where
  "input_absolute directory name = (if is_abs name then name else path_join [directory, name])"

definition add_input_file ::
  "source_view \<Rightarrow> string \<Rightarrow> owned_module \<Rightarrow> string \<Rightarrow> string \<Rightarrow> content \<Rightarrow> input_error + content" where
  "add_input_file view base owned directory name c =
     (let absolute = input_absolute directory name
      in if \<not> is_within (path_join [base, om_directory owned]) absolute then Inl (File_escapes name)
         else (case read_repository_file (sv_lstat view) (sv_open view) base (rel_or_empty base absolute) maximum_input_file of
                 Inl e \<Rightarrow> Inl (File_unread e)
               | Inr data \<Rightarrow> add_content (content_key base owned absolute) data c))"

fun add_input_files ::
  "source_view \<Rightarrow> string \<Rightarrow> owned_module \<Rightarrow> string \<Rightarrow> string list \<Rightarrow> content \<Rightarrow> input_error + content" where
  "add_input_files view base owned directory [] c = Inr c"
| "add_input_files view base owned directory (name # names) c =
     and_then (add_input_file view base owned directory name c) (add_input_files view base owned directory names)"

text \<open>One call of the visitor of \<open>WalkDir\<close>; the number of entries counts over all walks.\<close>

datatype data_visit = Data_failure | Data_entry string file_kind

definition visit_data_entry ::
  "source_view \<Rightarrow> string \<Rightarrow> owned_module \<Rightarrow> data_visit \<Rightarrow> int \<times> content \<Rightarrow> input_error + int \<times> content" where
  "visit_data_entry view base owned v s =
     (case v of
        Data_failure \<Rightarrow> Inl Data_walk
      | Data_entry path kind \<Rightarrow>
          (case s of (entries, c) \<Rightarrow>
             if maximum_input_entries < entries + 1 then Inl Data_bounds
             else if kind = Kind_symlink \<or> kind = Kind_directory then Inr (entries + 1, c)
             else if kind \<noteq> Kind_regular then Inl (Data_not_regular path)
             else and_then (add_input_file view base owned (path_dir path) (path_base path) c)
                    (\<lambda>c. Inr (entries + 1, c))))"

fun visit_data_entries ::
  "source_view \<Rightarrow> string \<Rightarrow> owned_module \<Rightarrow> data_visit list \<Rightarrow> int \<times> content \<Rightarrow> input_error + int \<times> content" where
  "visit_data_entries view base owned [] s = Inr s"
| "visit_data_entries view base owned (v # vs) s =
     and_then (visit_data_entry view base owned v s) (visit_data_entries view base owned vs)"

type_synonym data_walk = "string \<Rightarrow> data_visit list"

definition add_data_directory ::
  "source_view \<Rightarrow> data_walk \<Rightarrow> string \<Rightarrow> owned_module \<Rightarrow> string \<Rightarrow> int \<times> content \<Rightarrow> input_error + int \<times> content" where
  "add_data_directory view walk_dir base owned directory s =
     (case sv_lstat view directory of
        Inl Err_not_exist \<Rightarrow> Inr s
      | Inl e \<Rightarrow> Inl (Data_inspect e)
      | Inr None \<Rightarrow> Inl Data_not_directory
      | Inr (Some info) \<Rightarrow>
          if fi_kind info \<noteq> Kind_directory then Inl Data_not_directory
          else visit_data_entries view base owned (walk_dir directory) s)"

fun add_data_directories ::
  "source_view \<Rightarrow> data_walk \<Rightarrow> string \<Rightarrow> (string \<times> owned_module) list \<Rightarrow> int \<times> content \<Rightarrow> input_error + int \<times> content" where
  "add_data_directories view walk_dir base [] s = Inr s"
| "add_data_directories view walk_dir base ((directory, owned) # ds) s =
     and_then (add_data_directory view walk_dir base owned (path_join [directory, ''corpus'']) s) (\<lambda>s.
     and_then (add_data_directory view walk_dir base owned (path_join [directory, ''fixtures'']) s) (\<lambda>s.
     and_then (add_data_directory view walk_dir base owned (path_join [directory, ''testdata'']) s) (\<lambda>s.
       add_data_directories view walk_dir base ds s)))"

section \<open>Packages\<close>

definition production_files :: "listed_package \<Rightarrow> string list" where
  "production_files p = concat
     [lp_go_files p, lp_cgo_files p, lp_c_files p, lp_cxx_files p, lp_m_files p, lp_h_files p, lp_f_files p,
      lp_s_files p, lp_swig_files p, lp_swig_cxx_files p, lp_syso_files p, lp_embed_files p]"

definition test_files :: "listed_package \<Rightarrow> string list" where
  "test_files p = lp_test_go_files p @ lp_xtest_go_files p @ lp_test_embed_files p @ lp_xtest_embed_files p"

definition resolve_owned_root :: "string \<Rightarrow> listed_package \<Rightarrow> owned_module list \<Rightarrow> owned_module option" where
  "resolve_owned_root base p owned =
     (case lp_module p of
        None \<Rightarrow> None
      | Some lm \<Rightarrow> find (\<lambda>o'. om_module_path o' = lm_path lm \<and>
          is_within (path_join [base, om_directory o']) (lp_dir p)) owned)"

text \<open>The directory go list printed, moved below the resolved root: the loop over the listed roots.\<close>

fun rebase_directory :: "string \<Rightarrow> string list \<Rightarrow> string \<Rightarrow> string" where
  "rebase_directory base [] directory = directory"
| "rebase_directory base (r # rs) directory =
     rebase_directory base rs
       (if is_within r directory then
          (case path_rel r directory of None \<Rightarrow> directory | Some relative \<Rightarrow> path_join [base, relative])
        else directory)"

text \<open>The variables of the loop over the packages.\<close>

record input_state =
  is_content :: content
  is_modules :: "(string \<times> listed_module) list"
  is_target :: bool
  is_observed :: "string list"
  is_relevant :: "(string \<times> owned_module) list"

definition add_module_identity :: "listed_package \<Rightarrow> input_state \<Rightarrow> input_error + input_state" where
  "add_module_identity p s =
     (case lp_module p of
        None \<Rightarrow> Inr s
      | Some lm \<Rightarrow>
          if lm_path lm = [] then Inr s
          else if (case map_of (is_modules s) (lm_path lm) of None \<Rightarrow> False | Some known \<Rightarrow> known \<noteq> lm)
          then Inl (Module_conflict (lm_path lm))
          else Inr (s\<lparr>is_modules := map_set (lm_path lm) lm (is_modules s)\<rparr>))"

text \<open>\<open>strings.Cut(pkg.ImportPath, " [")\<close>\<close>

definition canonical_import :: "listed_package \<Rightarrow> string" where
  "canonical_import p = (case cut_at (lp_import_path p) '' ['' of None \<Rightarrow> lp_import_path p | Some (a, b) \<Rightarrow> a)"

definition observed_files :: "string \<Rightarrow> listed_package \<Rightarrow> string list" where
  "observed_files target p =
     production_files p @
     (if canonical_import p = target \<or> lp_for_test p = target then test_files p else [])"

definition add_local_package ::
  "source_view \<Rightarrow> string \<Rightarrow> string \<Rightarrow> owned_module \<Rightarrow> listed_package \<Rightarrow> input_state \<Rightarrow> input_error + input_state" where
  "add_local_package view base target owned p s =
     (case validate_directory (sv_lstat view) base (rel_or_empty base (lp_dir p)) of
        Some e \<Rightarrow> Inl (Listed_directory e)
      | None \<Rightarrow>
          (let s = s\<lparr>is_observed := om_module_path owned # is_observed s\<rparr>
           in if canonical_import p = target @ ''.test'' then Inr s
              else (let s = s\<lparr>is_target := is_target s \<or> canonical_import p = target\<rparr>
                    in if observed_files target p = [] then Inr s
                       else and_then (add_input_files view base owned (lp_dir p) (observed_files target p) (is_content s)) (\<lambda>c.
                              Inr (s\<lparr>is_content := c, is_relevant := map_set (lp_dir p) owned (is_relevant s)\<rparr>)))))"

definition add_package ::
  "source_view \<Rightarrow> string \<Rightarrow> string list \<Rightarrow> owned_module list \<Rightarrow> string \<Rightarrow> listed_package \<Rightarrow> input_state
    \<Rightarrow> input_error + input_state" where
  "add_package view base listed_roots owned target listed s =
     (let p = listed\<lparr>lp_dir := rebase_directory base listed_roots (lp_dir listed)\<rparr>
      in and_then (add_module_identity p s) (\<lambda>s.
           case resolve_owned_root base p owned of
             None \<Rightarrow> Inr s
           | Some o' \<Rightarrow> add_local_package view base target o' p s))"

fun add_packages ::
  "source_view \<Rightarrow> string \<Rightarrow> string list \<Rightarrow> owned_module list \<Rightarrow> string \<Rightarrow> listed_package list \<Rightarrow> input_state
    \<Rightarrow> input_error + input_state" where
  "add_packages view base listed_roots owned target [] s = Inr s"
| "add_packages view base listed_roots owned target (p # ps) s =
     and_then (add_package view base listed_roots owned target p s)
       (add_packages view base listed_roots owned target ps)"

section \<open>The digests\<close>

definition listed_roots :: "source_view \<Rightarrow> string \<Rightarrow> string list \<Rightarrow> string list" where
  "listed_roots view base aliases =
     base # map path_clean (filter is_abs aliases) @
     (case sv_readlink view base of
        None \<Rightarrow> []
      | Some t \<Rightarrow> [path_clean (if is_abs t then t else path_join [path_dir base, t])])"

definition zero_review_mismatch :: "input_policy \<Rightarrow> string \<Rightarrow> zero_review option \<Rightarrow> bool" where
  "zero_review_mismatch policy verifier review =
     (case review of
        None \<Rightarrow> False
      | Some r \<Rightarrow> zero_validate r \<noteq> None \<or>
          [zr_module_directory r, zr_package_directory r, zr_gremlins_version r, zr_verifier r] \<noteq>
          [ip_module_directory policy, ip_package_directory policy, gremlins_version, verifier])"

text \<open>\<open>encode\<close> is \<open>json.Marshal\<close> of the policy, the modules, the verifier and the review.\<close>

type_synonym input_encoder =
  "input_policy \<Rightarrow> listed_module list \<Rightarrow> string \<Rightarrow> zero_review option \<Rightarrow> string"

definition digest_semantic ::
  "input_encoder \<Rightarrow> input_policy \<Rightarrow> listed_module list \<Rightarrow> zero_review option \<Rightarrow> string \<Rightarrow> string \<Rightarrow> string" where
  "digest_semantic encode policy modules review version verifier =
     ''golib/mutation-input/'' @ version @ [CHR 0x0A] @ encode policy modules verifier review"

definition input_digest_of ::
  "input_encoder \<Rightarrow> (string \<Rightarrow> string) \<Rightarrow> input_policy \<Rightarrow> listed_module list \<Rightarrow> zero_review option
    \<Rightarrow> (string \<times> string) list \<Rightarrow> string \<Rightarrow> string \<Rightarrow> string" where
  "input_digest_of encode sha256 policy modules review content version verifier =
     evidence_digest sha256 (digest_semantic encode policy modules review version verifier) content"

record input_digests =
  id_current :: string
  id_legacy :: string

text \<open>What the digests are computed from: the canonical policy, the observed state, the content.\<close>

definition gather_inputs ::
  "source_view \<Rightarrow> data_walk \<Rightarrow> ((string \<times> owned_module) list \<Rightarrow> (string \<times> owned_module) list)
    \<Rightarrow> string \<Rightarrow> string list \<Rightarrow> input_policy \<Rightarrow> listed_package list \<Rightarrow> input_error + input_state \<times> (string \<times> string) list" where
  "gather_inputs view walk_dir range_order base roots policy packages =
     (let owned = \<lparr>om_module_path = ip_module_path policy, om_directory = ip_module_directory policy\<rparr> # ip_owned_modules policy;
          target = package_import (ip_module_path policy) (ip_package_directory policy);
          start = \<lparr>is_content = ([], 0), is_modules = [], is_target = False, is_observed = [], is_relevant = []\<rparr>
      in and_then (add_packages view base roots owned target packages start) (\<lambda>s.
           if \<not> is_target s then Inl Target_unresolved
           else and_then (add_data_directories view walk_dir base (range_order (is_relevant s)) (0, is_content s))
                  (\<lambda>(entries, content, used).
                     if content = [] then Inl No_local_files else Inr (s, content))))"

definition calculate_input_digests ::
  "source_view \<Rightarrow> data_walk \<Rightarrow> ((string \<times> owned_module) list \<Rightarrow> (string \<times> owned_module) list)
    \<Rightarrow> input_encoder \<Rightarrow> (string \<Rightarrow> string) \<Rightarrow> string \<Rightarrow> input_policy \<Rightarrow> (input_error + listed_package list)
    \<Rightarrow> zero_review option \<Rightarrow> string list \<Rightarrow> string \<Rightarrow> input_error + input_digests" where
  "calculate_input_digests view walk_dir range_order encode sha256 given policy listing review aliases verifier =
     (if \<not> is_abs given then Inl Root_relative
      else (case sv_eval_symlinks view given of
              None \<Rightarrow> Inl Root_unresolved
            | Some base \<Rightarrow>
                with_check (first_error
                  [input_policy_validate policy,
                   refuse (zero_review_mismatch policy verifier review) Zero_review_mismatch])
                  (and_then listing (\<lambda>packages.
                   let canonical = canonical_policy policy
                   in and_then (gather_inputs view walk_dir range_order base (listed_roots view given aliases) canonical packages)
                        (\<lambda>(s, content).
                         let modules = sort_key lm_path (map snd (is_modules s));
                             current = canonical\<lparr>ip_owned_modules := observed_owned (ip_owned_modules canonical) (is_observed s)\<rparr>
                         in Inr \<lparr>id_current = input_digest_of encode sha256 current modules review content ''v2'' verifier,
                                 id_legacy = input_digest_of encode sha256 canonical modules review content ''v1'' verifier\<rparr>)))))"

end
