(* ===== verification/Mutation_Tool.thy ===== *)
theory Mutation_Tool
  imports Mutation_Input
begin

text \<open>
  internal/mutation: the verifier tool (tool.go), the bounded buffers that receive the output of
  processes (tool.go, campaign.go), and the small computations of campaign.go around a
  process: its environment, its arguments and its phase timeout. A \<open>Process\<close> is an argument: it
  may change the file system, writes to its two writers, and ends with an error or without.
\<close>

datatype stream = Stdout | Stderr

record command =
  cm_program :: string
  cm_arguments :: "string list"
  cm_directory :: string
  cm_environment :: "(string \<times> string) list"

text \<open>An error with an exit code, as \<open>errors.As\<close> finds it, or another one; and whether the context
  has ended when the process returned.\<close>

datatype process_error = Exit_code int | Process_failed

record process_outcome =
  po_writes :: "(stream \<times> string) list"
  po_error :: "process_error option"
  po_cancelled :: bool

type_synonym process = "command \<Rightarrow> world \<Rightarrow> world \<times> process_outcome"

definition stdout_writes :: "process_outcome \<Rightarrow> string list" where
  "stdout_writes p = map snd (filter (\<lambda>(s, v). s = Stdout) (po_writes p))"

section \<open>Bounded output\<close>

text \<open>\<open>boundedBuffer.Write\<close>: a value that does not fit is refused whole.\<close>

definition buffer_write :: "int \<Rightarrow> string \<Rightarrow> string \<Rightarrow> string" where
  "buffer_write maximum data v = (if maximum < int (length data) + int (length v) then data else data @ v)"

definition buffered :: "int \<Rightarrow> string list \<Rightarrow> string" where
  "buffered maximum vs = foldl (buffer_write maximum) [] vs"

text \<open>\<open>boundedMutationOutput.Write\<close>: what does not fit is dropped and remembered.\<close>

definition maximum_mutation_tool_output :: int where
  "maximum_mutation_tool_output = 65536"

record mutation_output =
  mo_buffer :: string
  mo_overflow :: bool

definition mutation_output_write :: "mutation_output \<Rightarrow> string \<Rightarrow> mutation_output" where
  "mutation_output_write output v =
     (let remaining = maximum_mutation_tool_output - int (length (mo_buffer output))
      in if remaining \<le> 0 then output\<lparr>mo_overflow := True\<rparr>
         else if remaining < int (length v)
         then output\<lparr>mo_overflow := True, mo_buffer := mo_buffer output @ take (nat remaining) v\<rparr>
         else output\<lparr>mo_buffer := mo_buffer output @ v\<rparr>)"

definition captured :: "string list \<Rightarrow> mutation_output" where
  "captured vs = foldl mutation_output_write \<lparr>mo_buffer = [], mo_overflow = False\<rparr> vs"

definition no_mutation_results_signal :: string where
  "no_mutation_results_signal = ''No results to report.''"

definition confirms_no_results :: "mutation_output \<Rightarrow> bool" where
  "confirms_no_results output \<longleftrightarrow>
     \<not> mo_overflow output \<and>
     list_ex (\<lambda>line. trim_space line = no_mutation_results_signal) (split_on CHR 0x0A (mo_buffer output))"

section \<open>Arguments and environment\<close>

datatype tool_error =
    Arguments_malformed | Tool_workspace | Tool_prepare io_error | Download_failed process_error
  | Metadata_undecodable | Metadata_trailing | Checksum_mismatch | Copy_failed io_error
  | Patch_write_failed io_error | Patch_failed string process_error | Build_failed process_error
  | Binary_unreadable io_error

definition tool_arguments :: "string \<Rightarrow> string \<Rightarrow> string \<Rightarrow> bool \<Rightarrow> int \<Rightarrow> tool_error + string list" where
  "tool_arguments target output tags discover workers =
     (if \<not> ((target = ''.'' \<or> (has_prefix target ''./'' \<and> valid_relative (trim_prefix target ''./''))) \<and>
             is_abs output \<and> 1 \<le> workers \<and> workers \<le> 64 \<and> \<not> contains_any tags line_breaks)
      then Inl Arguments_malformed
      else Inr (
        [''unleash'', target, ''--integration'', ''--coverpkg'', target, ''--exclude-files'', ''^.+/'',
         ''--workers'', dec_int workers, ''--test-cpu'', ''1'', ''--timeout-coefficient'', ''1'',
         ''--threshold-efficacy'', ''100'', ''--threshold-mcover'', ''100'',
         ''--arithmetic-base'', ''--conditionals-boundary'', ''--conditionals-negation'',
         ''--invert-assignments'', ''--invert-bitwise'', ''--invert-bwassign'',
         ''--increment-decrement'', ''--invert-logical'', ''--invert-loopctrl'',
         ''--invert-negatives'', ''--remove-self-assignments'',
         ''--output-statuses'', ''lctvsr'', ''--output'', output] @
        (if tags \<noteq> [] then [''--tags'', tags] else []) @ (if discover then [''--dry-run''] else [])))"

text \<open>\<open>arguments[slices.Index(arguments, name)+1] = value\<close>\<close>

fun replace_argument :: "string \<Rightarrow> string \<Rightarrow> string list \<Rightarrow> string list" where
  "replace_argument name value (a # b # as) =
     (if a = name then a # value # as else a # replace_argument name value (b # as))"
| "replace_argument name value as = as"

definition append_tag_argument :: "string list \<Rightarrow> string list \<Rightarrow> string list" where
  "append_tag_argument arguments tags =
     (if tags = [] then arguments else arguments @ [''-tags='' @ join_with '','' tags])"

definition command_environment :: "(string \<times> string) list \<Rightarrow> (string \<times> string) list" where
  "command_environment environment =
     (let flags = filter (\<lambda>flag. \<not> has_prefix flag ''-parallel='') (fields_str (env_get environment ''GOFLAGS''))
      in map_set ''GOWORK'' ''off''
           (map_set ''GOFLAGS'' (join_with '' '' (flags @ [''-parallel=1''])) environment))"

text \<open>Durations are nanoseconds.\<close>

definition second :: int where "second = 1000000000"

definition mutation_phase_timeout :: "int \<Rightarrow> int" where
  "mutation_phase_timeout baseline =
     (let truncated = baseline - baseline mod second;
          measured = (if truncated < baseline then truncated + second else truncated)
      in max (measured + 15 * second) (60 * second))"

text \<open>\<open>Duration.String\<close> of a whole number of seconds, at least one minute.\<close>

definition duration_text :: "int \<Rightarrow> string" where
  "duration_text d =
     (let seconds = d div second; minutes = seconds div 60; hours = minutes div 60
      in (if 0 < hours then dec_int hours @ ''h'' else []) @ dec_int (minutes mod 60) @ ''m'' @
         dec_int (seconds mod 60) @ ''s'')"

section \<open>Building the verifier\<close>

record download_metadata =
  dm_directory :: string
  dm_sum :: string
  dm_go_mod_sum :: string

definition maximum_download_metadata_size :: int where
  "maximum_download_metadata_size = 1048576"

definition tool_environment :: "string \<Rightarrow> (string \<times> string) list" where
  "tool_environment workspace =
     [(''GOWORK'', ''off''), (''GOFLAGS'', ''-modcacherw''),
      (''GOCACHE'', path_join [workspace, ''go-build'']), (''GOMODCACHE'', path_join [workspace, ''go-mod'']),
      (''GOTMPDIR'', path_join [workspace, ''go-tmp'']), (''GOBIN'', path_join [workspace, ''go-bin''])]"

fun make_directories :: "string list \<Rightarrow> world \<Rightarrow> world \<times> io_error option" where
  "make_directories [] w = (w, None)"
| "make_directories (d # ds) w =
     (case sys_mkdir_all (Suc (length d)) d w of
        (w, Some e) \<Rightarrow> (w, Some e)
      | (w, None) \<Rightarrow> make_directories ds w)"

text \<open>\<open>os.WriteFile\<close>: a fault before the first byte is a failing open.\<close>

definition sys_write_file :: "string \<Rightarrow> string \<Rightarrow> world \<Rightarrow> world \<times> io_error option" where
  "sys_write_file p data w0 =
     (let (e, w) = next_event w0
      in if node_at w p = Some Directory \<or> (ev_fault e \<and> ev_partial e = 0) then (w, Some Err_other)
         else if ev_fault e then (add_node p (File (take (ev_partial e) data)) w, Some Err_other)
         else (add_node p (File data) w, None))"

record tool =
  tl_path :: string
  tl_digest :: string

text \<open>Arguments: the process, the JSON decoder, the embedded assets, \<open>os.CopyFS\<close> and SHA-256.\<close>

record tool_kit =
  tk_process :: process
  tk_metadata :: "string \<Rightarrow> download_metadata json_next \<times> unit json_next"
  tk_embedded :: "string \<Rightarrow> string"
  tk_copy_tree :: "string \<Rightarrow> string \<Rightarrow> world \<Rightarrow> world \<times> io_error option"
  tk_sha256 :: "string \<Rightarrow> string"

fun apply_patches ::
  "tool_kit \<Rightarrow> string \<Rightarrow> string \<Rightarrow> (string \<times> string) list \<Rightarrow> world \<Rightarrow> world \<times> tool_error option" where
  "apply_patches kit workspace source [] w = (w, None)"
| "apply_patches kit workspace source ((identity, embedded) # assets) w =
     (let patch_path = path_join [workspace, path_base embedded];
          data = (case map_of (verifier_assets (tk_embedded kit)) identity of None \<Rightarrow> [] | Some d \<Rightarrow> d)
      in case sys_write_file patch_path data w of
           (w, Some e) \<Rightarrow> (w, Some (Patch_write_failed e))
         | (w, None) \<Rightarrow>
             (case tk_process kit \<lparr>cm_program = ''git'',
                  cm_arguments = [''apply'', ''--unidiff-zero'', ''--whitespace=nowarn'', patch_path],
                  cm_directory = source, cm_environment = []\<rparr> w of
                (w, outcome) \<Rightarrow>
                  (case po_error outcome of
                     Some e \<Rightarrow> (w, Some (Patch_failed (path_base embedded) e))
                   | None \<Rightarrow> apply_patches kit workspace source assets w)))"

definition decode_metadata :: "tool_kit \<Rightarrow> string \<Rightarrow> tool_error + download_metadata" where
  "decode_metadata kit data =
     (case fst (tk_metadata kit data) of
        Json_value d \<Rightarrow>
          with_check (first_error
            [refuse (snd (tk_metadata kit data) \<noteq> Json_eof) Metadata_trailing,
             refuse (dm_directory d = [] \<or> dm_sum d \<noteq> gremlins_sum \<or> dm_go_mod_sum d \<noteq> gremlins_go_mod_sum)
               Checksum_mismatch]) (Inr d)
      | _ \<Rightarrow> Inl Metadata_undecodable)"

definition compile_verifier ::
  "tool_kit \<Rightarrow> string \<Rightarrow> string \<Rightarrow> (string \<times> string) list \<Rightarrow> world \<Rightarrow> world \<times> (tool_error + tool)" where
  "compile_verifier kit workspace source environment w =
     (let binary = path_join [workspace, ''golib-gremlins'']
      in case tk_process kit \<lparr>cm_program = ''go'',
             cm_arguments = [''build'', ''-trimpath'', ''-buildvcs=false'', ''-o'', binary, ''./cmd/gremlins''],
             cm_directory = source, cm_environment = environment\<rparr> w of
           (w, outcome) \<Rightarrow>
             (case po_error outcome of
                Some e \<Rightarrow> (w, Inl (Build_failed e))
              | None \<Rightarrow>
                  (case sys_read_file binary w of
                     (w, Inl e) \<Rightarrow> (w, Inl (Binary_unreadable e))
                   | (w, Inr data) \<Rightarrow>
                       (w, Inr \<lparr>tl_path = binary, tl_digest = ''sha256:'' @ tk_sha256 kit data\<rparr>))))"

definition build_verifier :: "tool_kit \<Rightarrow> string \<Rightarrow> world \<Rightarrow> world \<times> (tool_error + tool)" where
  "build_verifier kit workspace w =
     (if \<not> is_abs workspace then (w, Inl Tool_workspace)
      else (case make_directories (map snd (drop 2 (tool_environment workspace))) w of
              (w, Some e) \<Rightarrow> (w, Inl (Tool_prepare e))
            | (w, None) \<Rightarrow>
                (case tk_process kit \<lparr>cm_program = ''go'',
                     cm_arguments = [''mod'', ''download'', ''-json'', ''github.com/go-gremlins/gremlins@'' @ gremlins_version],
                     cm_directory = workspace, cm_environment = tool_environment workspace\<rparr> w of
                   (w, outcome) \<Rightarrow>
                     (case po_error outcome of
                        Some e \<Rightarrow> (w, Inl (Download_failed e))
                      | None \<Rightarrow>
                          (case decode_metadata kit (buffered maximum_download_metadata_size (stdout_writes outcome)) of
                             Inl e \<Rightarrow> (w, Inl e)
                           | Inr metadata \<Rightarrow>
                               (let source = path_join [workspace, ''gremlins-source'']
                                in case tk_copy_tree kit source (dm_directory metadata) w of
                                     (w, Some e) \<Rightarrow> (w, Inl (Copy_failed e))
                                   | (w, None) \<Rightarrow>
                                       (case apply_patches kit workspace source (drop 2 verifier_asset_names) w of
                                          (w, Some e) \<Rightarrow> (w, Inl e)
                                        | (w, None) \<Rightarrow> compile_verifier kit workspace source (tool_environment workspace) w)))))))"

end
