(* ===== verification/Mutation_Campaign.thy ===== *)
theory Mutation_Campaign
  imports Mutation_Tool
begin

text \<open>
  internal/mutation/campaign.go and campaign_diagnostic.go: the campaign that mutates the
  packages of a module, stores each admitted report and its evidence record, reuses what is
  already proved, and imports approved historical checkpoints.

  The source tree is what \<open>lib_view\<close> shows of the file system at a moment: one view per phase
  of the code (before the listing, after it, after the tool). The evidence and report stores
  work on the file system itself. Progress lines on the output are not modelled.
\<close>

record campaign_policy =
  cy_repository :: string
  cy_module_directory :: string
  cy_module_path :: string
  cy_go_version :: string
  cy_packages :: "string list"
  cy_test_tags :: "string list"
  cy_build_tags :: "string list"
  cy_required_services :: "string list"
  cy_service_identities :: "(string \<times> string) list"
  cy_owned_modules :: "owned_module list"
  cy_workers :: int

record campaign =
  cg_root :: string
  cg_evidence_root :: string
  cg_mutation_root :: string
  cg_workspace :: string
  cg_policy :: campaign_policy
  cg_zero_reviews :: zero_inventory
  cg_equivalent_reviews :: equivalent_inventory
  cg_environment :: "(string \<times> string) list"
  cg_runtime :: runtime_identity
  cg_process :: "process option"
  cg_now :: "world \<Rightarrow> int"

text \<open>What the model does not define: the operating system's view of the sources, encoding/json,
  go/parser, SHA-256, the embedded assets, \<open>os.CopyFS\<close>, the monotonic clock and the random order
  of a map loop.\<close>

record libraries =
  lib_view :: "world \<Rightarrow> source_view"
  lib_walk :: "world \<Rightarrow> data_walk"
  lib_range :: "(string \<times> owned_module) list \<Rightarrow> (string \<times> owned_module) list"
  lib_listing :: "string \<Rightarrow> listed_package json_next list"
  lib_input_encoder :: input_encoder
  lib_selection_encoder :: selection_encoder
  lib_codec :: report_codec
  lib_record_encode :: "evidence_record \<Rightarrow> string"
  lib_record_decode :: record_decoder
  lib_report_encode :: "gremlins_report \<Rightarrow> string"
  lib_metadata :: "string \<Rightarrow> download_metadata json_next \<times> unit json_next"
  lib_package_clause :: "string \<Rightarrow> string \<Rightarrow> string option"
  lib_embedded :: "string \<Rightarrow> string"
  lib_copy_tree :: "string \<Rightarrow> string \<Rightarrow> world \<Rightarrow> world \<times> io_error option"
  lib_sha256 :: "string \<Rightarrow> string"
  lib_elapsed :: "world \<Rightarrow> world \<Rightarrow> int"

datatype campaign_error =
    Campaign_malformed | Environment_key_malformed | Evidence_outside | Package_malformed_path
  | Package_duplicate string | Directory_unready string io_error | Directory_not_real_path string
  | Campaign_root_unresolved | Campaign_source source_error | Listing_process process_error
  | Campaign_input input_error | Source_changed | Campaign_review review_error
  | Campaign_store store_error | Campaign_evidence evidence_error | Campaign_tool tool_error
  | Coverage_failed process_error | Stale_report io_error | Cache_failed io_error | Campaign_cancelled
  | Tool_failed process_error | Diagnostic_failed campaign_error | Report_unread_file io_error
  | Report_refused report_error | Selection_changed | Inputs_changed
  | Checkpoints_empty | Ledger_bad ledger_error | Checkpoint_module string | Checkpoint_not_enabled string
  | Checkpoint_repeated string | Legacy_verifier_unsupported | Checkpoint_unapproved ledger_error
  | Checkpoint_identity_changed

definition legacy_digest_of :: "libraries \<Rightarrow> string" where
  "legacy_digest_of lib = legacy_verifier_digest (lib_embedded lib) (lib_sha256 lib)"

definition semantic_digest_of :: "libraries \<Rightarrow> string" where
  "semantic_digest_of lib = semantic_verifier_digest (lib_embedded lib) (lib_sha256 lib)"

section \<open>Admission of a campaign\<close>

definition campaign_shape_ok :: "campaign \<Rightarrow> bool" where
  "campaign_shape_ok c \<longleftrightarrow>
     (let p = cg_policy c; r = cg_runtime c;
          identity = concat ([cy_repository p, cy_module_path p, cy_go_version p, ri_go_version r, ri_goos r,
                              ri_goarch r, ri_cgo_enabled r] @ cy_test_tags p @ cy_build_tags p)
      in is_abs (cg_root c) \<and> is_abs (cg_evidence_root c) \<and> is_abs (cg_mutation_root c) \<and> is_abs (cg_workspace c) \<and>
         cg_process c \<noteq> None \<and> cy_repository p \<noteq> [] \<and> cy_module_path p \<noteq> [] \<and> cy_go_version p \<noteq> [] \<and>
         1 \<le> cy_workers p \<and> cy_workers p \<le> 64 \<and>
         ri_go_version r \<noteq> [] \<and> ri_goos r \<noteq> [] \<and> ri_goarch r \<noteq> [] \<and> ri_cgo_enabled r \<noteq> [] \<and>
         \<not> contains_any identity line_breaks \<and> valid_relative (cy_module_directory p) \<and> cy_packages p \<noteq> [])"

definition campaign_validate :: "campaign \<Rightarrow> campaign_error option" where
  "campaign_validate c = first_error
     [refuse (\<not> campaign_shape_ok c) Campaign_malformed,
      refuse (list_ex (\<lambda>(k, v). k = [] \<or> contains_any k (CHR ''='' # line_breaks)) (cg_environment c))
        Environment_key_malformed,
      refuse (\<not> is_within (cg_root c) (cg_evidence_root c) \<or> \<not> is_within (cg_root c) (cg_mutation_root c))
        Evidence_outside,
      unique_scan (\<lambda>p. refuse (\<not> valid_relative p) Package_malformed_path) (\<lambda>_ e. e) id
        (\<lambda>_ p. Package_duplicate p) 0 [] (cy_packages (cg_policy c))]"

fun ensure_directories :: "(string \<times> string) list \<Rightarrow> world \<Rightarrow> world \<times> campaign_error option" where
  "ensure_directories [] w = (w, None)"
| "ensure_directories ((name, d) # ds) w =
     (case sys_mkdir_all (Suc (length d)) d w of
        (w, Some e) \<Rightarrow> (w, Some (Directory_unready name e))
      | (w, None) \<Rightarrow>
          (case sys_lstat d w of
             (w, Inl e) \<Rightarrow> (w, Some (Directory_unready name e))
           | (w, Inr n) \<Rightarrow>
               if n \<noteq> Directory then (w, Some (Directory_not_real_path name)) else ensure_directories ds w))"

definition prepare_campaign :: "campaign \<Rightarrow> world \<Rightarrow> world \<times> campaign_error option" where
  "prepare_campaign c = ensure_directories
     [(''evidence'', cg_evidence_root c), (''mutation'', cg_mutation_root c), (''workspace'', cg_workspace c)]"

definition package_target :: "string \<Rightarrow> string" where
  "package_target directory = (if directory = ''.'' then ''.'' else ''./'' @ directory)"

definition package_slug :: "(string \<Rightarrow> string) \<Rightarrow> string \<Rightarrow> string" where
  "package_slug sha256 directory = (if directory = ''.'' then ''root'' else sha256 directory)"

section \<open>Package inputs\<close>

record package_inputs =
  pi_review :: "zero_review option"
  pi_current :: string
  pi_legacy :: string
  pi_unselected :: string
  pi_source :: string
  pi_selection :: production_selection

definition input_policy_of :: "campaign \<Rightarrow> string \<Rightarrow> input_policy" where
  "input_policy_of c pkg =
     (let p = cg_policy c
      in \<lparr>ip_module_directory = cy_module_directory p, ip_package_directory = pkg,
          ip_module_path = cy_module_path p, ip_go_version = cy_go_version p,
          ip_test_tags = cy_test_tags p, ip_build_tags = cy_build_tags p,
          ip_required_services = cy_required_services p, ip_service_identities = cy_service_identities p,
          ip_owned_modules = cy_owned_modules p\<rparr>)"

fun inputs_each ::
  "libraries \<Rightarrow> campaign \<Rightarrow> world \<Rightarrow> string \<Rightarrow> string \<Rightarrow> (input_error + listed_package list) \<Rightarrow> production_selection
    \<Rightarrow> string \<Rightarrow> (string \<times> package_inputs) list \<Rightarrow> string list
    \<Rightarrow> input_error + (string \<times> package_inputs) list" where
  "inputs_each lib c w base pkg listing selection source known [] = Inr known"
| "inputs_each lib c w base pkg listing selection source known (verifier # verifiers) =
     (if map_of known verifier \<noteq> None then inputs_each lib c w base pkg listing selection source known verifiers
      else (let review = zero_find (cg_zero_reviews c) (cy_module_directory (cg_policy c)) pkg source gremlins_version verifier
            in and_then (calculate_input_digests (lib_view lib w) (lib_walk lib w) (lib_range lib) (lib_input_encoder lib)
                   (lib_sha256 lib) base (input_policy_of c pkg) listing review [cg_root c] verifier) (\<lambda>d.
                 inputs_each lib c w base pkg listing selection source
                   (map_set verifier
                      \<lparr>pi_review = review,
                       pi_current = selected_input_digest (lib_selection_encoder lib) (lib_sha256 lib)
                         (id_current d) selection (cg_runtime c),
                       pi_legacy = id_legacy d, pi_unselected = id_current d, pi_source = source,
                       pi_selection = selection\<rparr> known) verifiers)))"

definition list_command :: "campaign \<Rightarrow> string \<Rightarrow> string \<Rightarrow> command" where
  "list_command c base pkg =
     \<lparr>cm_program = ''go'',
      cm_arguments = append_tag_argument [''list'', ''-deps'', ''-test'', ''-json''] (cy_test_tags (cg_policy c)) @
        [package_target pkg],
      cm_directory = path_join [base, cy_module_directory (cg_policy c)],
      cm_environment = command_environment (cg_environment c)\<rparr>"

definition run_process :: "campaign \<Rightarrow> command \<Rightarrow> world \<Rightarrow> world \<times> process_outcome" where
  "run_process c m w =
     (case cg_process c of
        None \<Rightarrow> (w, \<lparr>po_writes = [], po_error = Some Process_failed, po_cancelled = False\<rparr>)
      | Some p \<Rightarrow> p m w)"

definition package_inputs_for ::
  "libraries \<Rightarrow> campaign \<Rightarrow> string \<Rightarrow> string list \<Rightarrow> world
    \<Rightarrow> world \<times> (campaign_error + (string \<times> package_inputs) list)" where
  "package_inputs_for lib c pkg verifiers w =
     (case sv_eval_symlinks (lib_view lib w) (cg_root c) of
        None \<Rightarrow> (w, Inl Campaign_root_unresolved)
      | Some base \<Rightarrow>
          (case source_digest (lib_view lib w) (lib_sha256 lib) base (cy_module_directory (cg_policy c)) pkg of
             Inl e \<Rightarrow> (w, Inl (Campaign_source e))
           | Inr source \<Rightarrow>
               (case run_process c (list_command c base pkg) w of
                  (w, outcome) \<Rightarrow>
                    (case po_error outcome of
                       Some e \<Rightarrow> (w, Inl (Listing_process e))
                     | None \<Rightarrow>
                         (let listing = parse_listing (lib_listing lib) (buffered maximum_list_size (stdout_writes outcome)) False
                          in case and_then listing (\<lambda>packages. and_then
                                 (select_production (lib_view lib w) base (cy_module_directory (cg_policy c)) pkg
                                    (cy_module_path (cg_policy c)) packages [cg_root c]) (\<lambda>selection.
                                 inputs_each lib c w base pkg listing selection source [] verifiers)) of
                               Inl e \<Rightarrow> (w, Inl (Campaign_input e))
                             | Inr result \<Rightarrow>
                                 (case source_digest (lib_view lib w) (lib_sha256 lib) base (cy_module_directory (cg_policy c)) pkg of
                                    Inl e \<Rightarrow> (w, Inl (Campaign_source e))
                                  | Inr current_source \<Rightarrow>
                                      (w, if current_source \<noteq> source then Inl Source_changed else Inr result)))))))"

definition get_inputs :: "(string \<times> package_inputs) list \<Rightarrow> string \<Rightarrow> package_inputs" where
  "get_inputs inputs verifier =
     (case map_of inputs verifier of
        Some i \<Rightarrow> i
      | None \<Rightarrow> \<lparr>pi_review = None, pi_current = [], pi_legacy = [], pi_unselected = [], pi_source = [],
                 pi_selection = \<lparr>ps_files = [], ps_excluded = []\<rparr>\<rparr>)"

text \<open>\<open>packageInputAndSource\<close> without the review, which no caller in the campaign uses.\<close>

definition package_input_and_source ::
  "libraries \<Rightarrow> campaign \<Rightarrow> string \<Rightarrow> world \<Rightarrow> world \<times> (campaign_error + string \<times> string)" where
  "package_input_and_source lib c pkg w =
     (case package_inputs_for lib c pkg [legacy_digest_of lib] w of
        (w, Inl e) \<Rightarrow> (w, Inl e)
      | (w, Inr inputs) \<Rightarrow>
          (let i = get_inputs inputs (legacy_digest_of lib) in (w, Inr (pi_current i, pi_source i))))"

definition campaign_review :: "libraries \<Rightarrow> campaign \<Rightarrow> string \<Rightarrow> string \<Rightarrow> review_error + equivalent_review option" where
  "campaign_review lib c pkg source =
     (case ei_packages (cg_equivalent_reviews c) of
        None \<Rightarrow> Inr None
      | Some [] \<Rightarrow> Inr None
      | Some _ \<Rightarrow> review_inventory (cg_equivalent_reviews c) (cy_module_directory (cg_policy c)) pkg source
          gremlins_version (legacy_digest_of lib) [ri_goarch (cg_runtime c)])"

text \<open>\<open>equivalentSelectionEqual\<close>: the two maps from coordinates to contract domain and scope.\<close>

definition review_selection :: "equivalent_review \<Rightarrow> (string \<times> string) list" where
  "review_selection r =
     foldl (\<lambda>m c. map_set (em_identity c)
       (em_contract_domain c @ [CHR 0x00] @
        join_with [CHR 0x00] (case em_goarchs c of None \<Rightarrow> [] | Some archs \<Rightarrow> archs)) m) [] (eq_mutations r)"

definition equivalent_selection_equal :: "equivalent_review option \<Rightarrow> equivalent_review option \<Rightarrow> bool" where
  "equivalent_selection_equal left right =
     (case (left, right) of
        (Some l, Some r) \<Rightarrow>
          eq_module_directory l = eq_module_directory r \<and> eq_package_directory l = eq_package_directory r \<and>
          eq_source_digest l = eq_source_digest r \<and> eq_gremlins_version l = eq_gremlins_version r \<and>
          eq_verifier l = eq_verifier r \<and> eq_architecture l = eq_architecture r \<and>
          maps_equal (review_selection l) (review_selection r)
      | _ \<Rightarrow> left = None \<and> right = None)"

section \<open>Diagnostics of a failed run\<close>

definition native_diagnostic_type :: "string \<Rightarrow> bool" where
  "native_diagnostic_type value = List.member
     [''ARITHMETIC_BASE'', ''CONDITIONALS_BOUNDARY'', ''CONDITIONALS_NEGATION'', ''INCREMENT_DECREMENT'',
      ''INVERT_ASSIGNMENTS'', ''INVERT_BITWISE'', ''INVERT_BWASSIGN'', ''INVERT_LOGICAL'', ''INVERT_LOOPCTRL'',
      ''INVERT_NEGATIVES'', ''REMOVE_SELF_ASSIGNMENTS''] value"

definition native_diagnostic_status :: "string \<Rightarrow> bool" where
  "native_diagnostic_status value = List.member
     [''NOT COVERED'', ''RUNNABLE'', ''SKIPPED'', ''LIVED'', ''KILLED'', ''NOT VIABLE'', ''TIMED OUT''] value"

fun admitted_diagnostic_names ::
  "lstat_fun \<Rightarrow> string \<Rightarrow> string \<Rightarrow> dir_entry list \<Rightarrow> string list option" where
  "admitted_diagnostic_names lstat directory pkg [] = Some []"
| "admitted_diagnostic_names lstat directory pkg (e # es) =
     (if de_kind e \<noteq> Kind_regular \<or> \<not> is_production_name (de_name e) \<or>
         list_ex (\<lambda>(r, b). is_control_rune r) (runes (de_name e))
      then admitted_diagnostic_names lstat directory pkg es
      else if validate_regular_file lstat directory (de_name e) \<noteq> None then None
      else map_option (\<lambda>names. de_name e # path_join [pkg, de_name e] # names)
             (admitted_diagnostic_names lstat directory pkg es))"

definition diagnostic_file_ok :: "string list \<Rightarrow> report_file \<Rightarrow> bool" where
  "diagnostic_file_ok admitted f \<longleftrightarrow>
     List.member admitted (rf_file_name f) \<and>
     list_all (\<lambda>g. 0 < gm_line g \<and> 0 < gm_column g \<and> native_diagnostic_type (gm_type g) \<and>
       native_diagnostic_status (gm_status g)) (rf_mutations f)"

definition project_diagnostic :: "gremlins_report \<Rightarrow> gremlins_report" where
  "project_diagnostic r = r\<lparr>gr_go_module := [], gr_elapsed_time := None, gr_statistics := None\<rparr>"

text \<open>The projected report of a failed run, if all of it is native and local; every refusal is the
  same error.\<close>

definition failed_diagnostic_data ::
  "libraries \<Rightarrow> campaign \<Rightarrow> string \<Rightarrow> string \<Rightarrow> string \<Rightarrow> world \<Rightarrow> string option" where
  "failed_diagnostic_data lib c pkg input report_file w =
     (let view = lib_view lib w;
          package_path = path_join [cy_module_directory (cg_policy c), pkg];
          directory = path_join [cg_root c, package_path]
      in if \<not> report_location_ok (cg_mutation_root c) input then None
         else (case read_repository_file (sv_lstat view) (sv_open view) (cg_workspace c) (path_base report_file) maximum_checkpoint_size of
                 Inl e \<Rightarrow> None
               | Inr data \<Rightarrow>
                   (case decode_strict (rc_decoder (lib_codec lib)) data of
                      Inl e \<Rightarrow> None
                    | Inr r \<Rightarrow>
                        (case gr_files r of
                           None \<Rightarrow> None
                         | Some files \<Rightarrow>
                             if validate_directory (sv_lstat view) (cg_root c) package_path \<noteq> None then None
                             else (case read_source_entries view directory maximum_input_entries of
                                     Inl e \<Rightarrow> None
                                   | Inr entries \<Rightarrow>
                                       (case admitted_diagnostic_names (sv_lstat view) directory pkg entries of
                                          None \<Rightarrow> None
                                        | Some admitted \<Rightarrow>
                                            if list_all (diagnostic_file_ok admitted) files
                                            then Some (lib_report_encode lib (project_diagnostic r)) else None))))))"

definition capture_failed_diagnostic ::
  "libraries \<Rightarrow> campaign \<Rightarrow> string \<Rightarrow> string \<Rightarrow> string \<Rightarrow> world \<Rightarrow> world \<times> string option" where
  "capture_failed_diagnostic lib c pkg input report_file w =
     (case failed_diagnostic_data lib c pkg input report_file w of
        None \<Rightarrow> (w, None)
      | Some data \<Rightarrow>
          (let directory = path_join [cg_mutation_root c, ''failed-reports''];
               destination = path_join [directory, trim_prefix input ''sha256:'' @ ''-'' @ lib_sha256 lib data @ ''.json'']
           in case publish_report (cg_mutation_root c) directory destination data (\<lambda>existing. existing = data) w of
                (w, Inl e) \<Rightarrow> (w, None)
              | (w, Inr (p, reused, stored)) \<Rightarrow> (w, Some p)))"

definition failed_diagnostic ::
  "libraries \<Rightarrow> campaign \<Rightarrow> string \<Rightarrow> string \<Rightarrow> string \<Rightarrow> campaign_error \<Rightarrow> world \<Rightarrow> world \<times> campaign_error" where
  "failed_diagnostic lib c pkg input report_file failure w =
     (case capture_failed_diagnostic lib c pkg input report_file w of
        (w, None) \<Rightarrow> (w, Diagnostic_failed failure)
      | (w, Some p) \<Rightarrow> (w, failure))"

text \<open>The lines printed for a captured report: at most 16 coordinates, then how many were left out.\<close>

definition maximum_failed_coordinates :: nat where
  "maximum_failed_coordinates = 16"

definition failed_coordinates :: "gremlins_report \<Rightarrow> (string \<times> gremlin) list \<times> nat" where
  "failed_coordinates r =
     (let all = concat (map (\<lambda>f. map (\<lambda>g. (rf_file_name f, g)) (filter (\<lambda>g. gm_status g \<noteq> ''KILLED'') (rf_mutations f)))
            (case gr_files r of None \<Rightarrow> [] | Some fs \<Rightarrow> fs))
      in (take maximum_failed_coordinates all, length all - maximum_failed_coordinates))"

section \<open>Running\<close>

record campaign_state =
  cs_tool :: "tool option"
  cs_profile :: string
  cs_elapsed :: string

definition tool_kit_of :: "libraries \<Rightarrow> campaign \<Rightarrow> tool_kit" where
  "tool_kit_of lib c =
     \<lparr>tk_process = run_process c, tk_metadata = lib_metadata lib, tk_embedded = lib_embedded lib,
      tk_copy_tree = lib_copy_tree lib, tk_sha256 = lib_sha256 lib\<rparr>"

definition ensure_tool ::
  "libraries \<Rightarrow> campaign \<Rightarrow> campaign_state \<Rightarrow> world \<Rightarrow> world \<times> (campaign_error + campaign_state)" where
  "ensure_tool lib c s w =
     (case cs_tool s of
        Some t \<Rightarrow> (w, Inr s)
      | None \<Rightarrow>
          (case build_verifier (tool_kit_of lib c) (path_join [cg_workspace c, ''verifier'']) w of
             (w, Inl e) \<Rightarrow> (w, Inl (Campaign_tool e))
           | (w, Inr t) \<Rightarrow> (w, Inr (s\<lparr>cs_tool := Some t\<rparr>))))"

definition coverage_command :: "campaign \<Rightarrow> string \<Rightarrow> command" where
  "coverage_command c profile =
     \<lparr>cm_program = ''go'',
      cm_arguments = append_tag_argument
        [''test'', ''-count=1'', ''-cpu=1'', ''-timeout=20m'', ''-cover'', ''-coverpkg=./...'', ''-coverprofile='' @ profile]
        (cy_test_tags (cg_policy c)) @ [''./...''],
      cm_directory = path_join [cg_root c, cy_module_directory (cg_policy c)],
      cm_environment = command_environment (cg_environment c)\<rparr>"

text \<open>\<open>state\<close> is shared by the packages and keeps what was assigned before a failure.\<close>

definition prepare_execution ::
  "libraries \<Rightarrow> campaign \<Rightarrow> campaign_state \<Rightarrow> world \<Rightarrow> world \<times> (campaign_error + campaign_state)" where
  "prepare_execution lib c s w =
     (case ensure_tool lib c s w of
        (w, Inl e) \<Rightarrow> (w, Inl e)
      | (w, Inr s) \<Rightarrow>
          if cs_profile s \<noteq> [] then (w, Inr s)
          else (let profile = path_join [cg_workspace c, ''integration.coverage'']
                in case run_process c (coverage_command c profile) w of
                     (w', outcome) \<Rightarrow>
                       (case po_error outcome of
                          Some e \<Rightarrow> (w', Inl (Coverage_failed e))
                        | None \<Rightarrow>
                            (w', Inr (s\<lparr>cs_profile := profile,
                               cs_elapsed := duration_text (mutation_phase_timeout (lib_elapsed lib w w'))\<rparr>)))))"

definition remove_stale_report :: "string \<Rightarrow> world \<Rightarrow> world \<times> campaign_error option" where
  "remove_stale_report p w =
     (case sys_unlink p w of
        (w, None) \<Rightarrow> (w, None)
      | (w, Some Err_not_exist) \<Rightarrow> (w, None)
      | (w, Some e) \<Rightarrow> (w, Some (Stale_report e)))"

definition mutation_command ::
  "libraries \<Rightarrow> campaign \<Rightarrow> campaign_state \<Rightarrow> string \<Rightarrow> production_selection \<Rightarrow> string \<Rightarrow> tool_error + command" where
  "mutation_command lib c s pkg selection report_file =
     and_then (tool_arguments (package_target pkg) report_file (join_with '','' (cy_test_tags (cg_policy c))) False
         (cy_workers (cg_policy c))) (\<lambda>arguments.
       Inr \<lparr>cm_program = (case cs_tool s of None \<Rightarrow> [] | Some t \<Rightarrow> tl_path t),
            cm_arguments = replace_argument ''--exclude-files'' (exclusion selection) arguments,
            cm_directory = path_join [cg_root c, cy_module_directory (cg_policy c)],
            cm_environment =
              map_set ''GOCACHE'' (path_join [cg_workspace c, ''mutation-cache'', package_slug (lib_sha256 lib) pkg])
                (map_set ''GOLIB_GREMLINS_COVERAGE_ELAPSED'' (cs_elapsed s)
                  (map_set ''GOLIB_GREMLINS_COVERAGE_PROFILE'' (cs_profile s)
                    (command_environment (cg_environment c))))\<rparr>)"

text \<open>The report file, or the empty report when the tool said that there was nothing to report.\<close>

definition empty_report :: string where
  "empty_report = [CHR ''{'', CHR 0x22] @ ''files'' @ [CHR 0x22] @ '':[]}'' @ [CHR 0x0A]"

definition read_tool_report :: "string \<Rightarrow> mutation_output \<Rightarrow> world \<Rightarrow> world \<times> (campaign_error + string)" where
  "read_tool_report p output w =
     (case sys_read_file p w of
        (w, Inr data) \<Rightarrow> (w, Inr data)
      | (w, Inl e) \<Rightarrow>
          (w, if e = Err_not_exist \<and> confirms_no_results output then Inr empty_report else Inl (Report_unread_file e)))"

text \<open>From the tool to an admitted report: \<open>tool_failure\<close> is the error of the process, unless a review
  admits the exit for surviving mutants.\<close>

definition tool_failure :: "equivalent_review option \<Rightarrow> process_outcome \<Rightarrow> process_error option" where
  "tool_failure review outcome =
     (case po_error outcome of
        None \<Rightarrow> None
      | Some e \<Rightarrow> if review = None \<or> e \<noteq> Exit_code 10 then Some e else None)"

definition execute_tool ::
  "libraries \<Rightarrow> campaign \<Rightarrow> campaign_state \<Rightarrow> string \<Rightarrow> package_inputs \<Rightarrow> equivalent_review option \<Rightarrow> world
    \<Rightarrow> world \<times> (campaign_error + string)" where
  "execute_tool lib c s pkg i review w =
     (let report_file = path_join [cg_workspace c, ''report-'' @ package_slug (lib_sha256 lib) pkg @ ''.json'']
      in case remove_stale_report report_file w of
           (w, Some e) \<Rightarrow> (w, Inl e)
         | (w, None) \<Rightarrow>
             (case mutation_command lib c s pkg (pi_selection i) report_file of
                Inl e \<Rightarrow> (w, Inl (Campaign_tool e))
              | Inr cmd \<Rightarrow>
                  (let cache = env_get (cm_environment cmd) ''GOCACHE''
                   in case sys_mkdir_all (Suc (length cache)) cache w of
                        (w, Some e) \<Rightarrow> (w, Inl (Cache_failed e))
                      | (w, None) \<Rightarrow>
                          (case run_process c cmd w of
                             (w, outcome) \<Rightarrow>
                               if po_cancelled outcome then (w, Inl Campaign_cancelled)
                               else (case tool_failure review outcome of
                                       Some e \<Rightarrow>
                                         (case failed_diagnostic lib c pkg (pi_current i) report_file (Tool_failed e) w of
                                            (w, f) \<Rightarrow> (w, Inl f))
                                     | None \<Rightarrow>
                                         (case read_tool_report report_file (captured (map snd (po_writes outcome))) w of
                                            (w, Inl e) \<Rightarrow> (w, Inl e)
                                          | (w, Inr report) \<Rightarrow>
                                              (case validate_report (lib_codec lib) report False review of
                                                 Inl e \<Rightarrow>
                                                   (case failed_diagnostic lib c pkg (pi_current i) report_file (Report_refused e) w of
                                                      (w, f) \<Rightarrow> (w, Inl f))
                                               | Inr result \<Rightarrow> (w, Inr report))))))))"

text \<open>The inputs are computed again after the tool ran.\<close>

definition inputs_unchanged ::
  "libraries \<Rightarrow> campaign \<Rightarrow> string \<Rightarrow> string \<Rightarrow> equivalent_review option \<Rightarrow> world \<Rightarrow> world \<times> campaign_error option" where
  "inputs_unchanged lib c pkg input review w =
     (case package_input_and_source lib c pkg w of
        (w, Inl e) \<Rightarrow> (w, Some e)
      | (w, Inr (current, source)) \<Rightarrow>
          (w, case campaign_review lib c pkg source of
                Inl e \<Rightarrow> Some Selection_changed
              | Inr now \<Rightarrow> first_error
                  [refuse (\<not> equivalent_selection_equal review now) Selection_changed,
                   refuse (current \<noteq> input) Inputs_changed]))"

definition run_record :: "libraries \<Rightarrow> campaign \<Rightarrow> campaign_state \<Rightarrow> string \<Rightarrow> string \<Rightarrow> report_result \<Rightarrow> world \<Rightarrow> evidence_record" where
  "run_record lib c s pkg input result w =
     \<lparr>er_schema_version = evidence_schema_version, er_repository = cy_repository (cg_policy c),
      er_module = cy_module_directory (cg_policy c), er_package = pkg, er_gate = ''mutation'',
      er_input_digest = input, er_verifier_digest = semantic_digest_of lib, er_result = ''passed'',
      er_report_digest = rr_digest result,
      er_environment =
        [(''GOVERSION'', ri_go_version (cg_runtime c)), (''GOOS'', ri_goos (cg_runtime c)),
         (''GOARCH'', ri_goarch (cg_runtime c)), (''CGO_ENABLED'', ri_cgo_enabled (cg_runtime c)),
         (''gremlins_binary_sha256'', (case cs_tool s of None \<Rightarrow> [] | Some t \<Rightarrow> tl_digest t))],
      er_completed_at = Some (cg_now c w)\<rparr>"

text \<open>The last part of \<open>runPackage\<close>: the report, then the record that refers to it.\<close>

definition publish_run ::
  "libraries \<Rightarrow> campaign \<Rightarrow> campaign_state \<Rightarrow> string \<Rightarrow> string \<Rightarrow> equivalent_review option \<Rightarrow> string \<Rightarrow> world
    \<Rightarrow> world \<times> campaign_error option" where
  "publish_run lib c s pkg input review report w =
     (case store_report (lib_codec lib) (cg_mutation_root c) input report review w of
        (w, Inl e) \<Rightarrow> (w, Some (Campaign_store e))
      | (w, Inr (p, reused, stored, bytes)) \<Rightarrow>
          (case store_evidence (lib_record_encode lib) (lib_record_decode lib) (cg_evidence_root c)
                  (run_record lib c s pkg input stored w) w of
             (w, Inl e) \<Rightarrow> (w, Some (Campaign_evidence e))
           | (w, Inr r) \<Rightarrow> (w, None)))"

definition execute_package ::
  "libraries \<Rightarrow> campaign \<Rightarrow> campaign_state \<Rightarrow> string \<Rightarrow> package_inputs \<Rightarrow> equivalent_review option \<Rightarrow> world
    \<Rightarrow> world \<times> (campaign_error + campaign_state)" where
  "execute_package lib c s pkg i review w =
     (case prepare_execution lib c s w of
        (w, Inl e) \<Rightarrow> (w, Inl e)
      | (w, Inr s) \<Rightarrow>
          (case execute_tool lib c s pkg i review w of
             (w, Inl e) \<Rightarrow> (w, Inl e)
           | (w, Inr report) \<Rightarrow>
               (case inputs_unchanged lib c pkg (pi_current i) review w of
                  (w, Some e) \<Rightarrow> (w, Inl e)
                | (w, None) \<Rightarrow>
                    (case publish_run lib c s pkg (pi_current i) review report w of
                       (w, Some e) \<Rightarrow> (w, Inl e)
                     | (w, None) \<Rightarrow> (w, Inr s)))))"

definition campaign_reuse ::
  "libraries \<Rightarrow> campaign \<Rightarrow> string \<Rightarrow> string \<Rightarrow> equivalent_review option \<Rightarrow> world
    \<Rightarrow> world \<times> (store_error + report_result option)" where
  "campaign_reuse lib c pkg input review w =
     reuse_evidence (lib_codec lib) (lib_record_decode lib) (semantic_digest_of lib) (cg_evidence_root c) (cg_mutation_root c)
       (cy_repository (cg_policy c)) (cy_module_directory (cg_policy c)) pkg input review w"

definition run_package ::
  "libraries \<Rightarrow> campaign \<Rightarrow> string \<Rightarrow> campaign_state \<Rightarrow> world \<Rightarrow> world \<times> (campaign_error + campaign_state)" where
  "run_package lib c pkg s w =
     (case package_inputs_for lib c pkg [legacy_digest_of lib] w of
        (w, Inl e) \<Rightarrow> (w, Inl e)
      | (w, Inr inputs) \<Rightarrow>
          (let i = get_inputs inputs (legacy_digest_of lib)
           in case campaign_review lib c pkg (pi_source i) of
                Inl e \<Rightarrow> (w, Inl (Campaign_review e))
              | Inr review \<Rightarrow>
                  (case campaign_reuse lib c pkg (pi_current i) review w of
                     (w, Inl e) \<Rightarrow> (w, Inl (Campaign_store e))
                   | (w, Inr (Some result)) \<Rightarrow> (w, Inr s)
                   | (w, Inr None) \<Rightarrow> execute_package lib c s pkg i review w)))"

fun run_packages ::
  "libraries \<Rightarrow> campaign \<Rightarrow> string list \<Rightarrow> campaign_state \<Rightarrow> world \<Rightarrow> world \<times> campaign_error option" where
  "run_packages lib c [] s w = (w, None)"
| "run_packages lib c (pkg # pkgs) s w =
     (case run_package lib c pkg s w of
        (w, Inl e) \<Rightarrow> (w, Some e)
      | (w, Inr s) \<Rightarrow> run_packages lib c pkgs s w)"

definition run_campaign :: "libraries \<Rightarrow> campaign \<Rightarrow> world \<Rightarrow> world \<times> campaign_error option" where
  "run_campaign lib c w =
     (case campaign_validate c of
        Some e \<Rightarrow> (w, Some e)
      | None \<Rightarrow>
          (case prepare_campaign c w of
             (w, Some e) \<Rightarrow> (w, Some e)
           | (w, None) \<Rightarrow>
               run_packages lib c (sort (cy_packages (cg_policy c))) \<lparr>cs_tool = None, cs_profile = [], cs_elapsed = []\<rparr> w))"

text \<open>
  internal/mutation/campaign.go, \<open>Import\<close>: approved historical checkpoints become current
  evidence. A checkpoint whose input changed is skipped and named in the returned error; every
  other refusal ends the import. What was stored before stays.
\<close>

definition checkpoint_order :: "checkpoint \<Rightarrow> string" where
  "checkpoint_order k = cp_module k @ [CHR 0x00] @ cp_package k"

definition imported_environment :: "(string \<times> string) list \<Rightarrow> (string \<times> string) list" where
  "imported_environment environment =
     foldl (\<lambda>m k. if env_get environment k \<noteq> [] then map_set k (env_get environment k) m else m)
       [(''evidence_origin'', ''approved_legacy_checkpoint'')] [''GOVERSION'', ''GOOS'', ''GOARCH'', ''CGO_ENABLED'']"

text \<open>The guards on one checkpoint, before its inputs are computed.\<close>

definition checkpoint_guard ::
  "libraries \<Rightarrow> campaign \<Rightarrow> migration_ledger \<Rightarrow> string list \<Rightarrow> checkpoint \<Rightarrow> campaign_error option" where
  "checkpoint_guard lib c l seen k = first_error
     [refuse (cp_module k \<noteq> cy_module_directory (cg_policy c)) (Checkpoint_module (cp_module k)),
      refuse (\<not> List.member (cy_packages (cg_policy c)) (cp_package k)) (Checkpoint_not_enabled (cp_package k)),
      refuse (List.member seen (checkpoint_order k)) (Checkpoint_repeated (cp_package k)),
      refuse (\<not> supported_legacy_verifier_digest (lib_embedded lib) (lib_sha256 lib) (vr_verifier (ml_review l)))
        Legacy_verifier_unsupported]"

definition unprefixed :: "string \<Rightarrow> string" where
  "unprefixed d = trim_prefix d ''sha256:''"

text \<open>The identities the ledger may have approved instead of the current one.\<close>

definition approval_inputs :: "libraries \<Rightarrow> string \<Rightarrow> (string \<times> package_inputs) list \<Rightarrow> string list" where
  "approval_inputs lib verifier inputs =
     (let current = get_inputs inputs (legacy_digest_of lib); old = get_inputs inputs verifier
      in [unprefixed (pi_legacy current), unprefixed (pi_unselected current)] @
         (if verifier \<noteq> legacy_digest_of lib
          then [unprefixed (pi_current old), unprefixed (pi_legacy old), unprefixed (pi_unselected old)] else []))"

text \<open>Whether the checkpoint speaks for the current sources: \<open>Inr True\<close> to store it, \<open>Inr False\<close> to
  skip it as stale, or the error that ends the import.\<close>

definition checkpoint_applies ::
  "libraries \<Rightarrow> campaign \<Rightarrow> migration_ledger \<Rightarrow> checkpoint \<Rightarrow> (string \<times> package_inputs) list \<Rightarrow> world
    \<Rightarrow> campaign_error + bool" where
  "checkpoint_applies lib c l k inputs w =
     (let verifier = vr_verifier (ml_review l); current = get_inputs inputs (legacy_digest_of lib)
      in if ps_excluded (pi_selection current) \<noteq> [] \<or>
            env_get (cp_environment k) ''GOOS'' \<noteq> ri_goos (cg_runtime c) \<or>
            env_get (cp_environment k) ''GOARCH'' \<noteq> ri_goarch (cg_runtime c) then Inr False
         else (case ledger_approve (legacy_canonical_report_digest (lib_codec lib)) l k (unprefixed (pi_current current))
                 (approval_inputs lib verifier inputs) verifier of
                 Some (Input_not_unique _) \<Rightarrow> Inr False
               | Some e \<Rightarrow> Inl (Checkpoint_unapproved e)
               | None \<Rightarrow>
                   Inr (verifier = legacy_digest_of lib \<or>
                        legacy_package_paths_unchanged (lib_view lib w) (lib_sha256 lib) (lib_package_clause lib) (cg_root c)
                          (cy_module_directory (cg_policy c)) (cp_package k) (cy_module_path (cg_policy c)) (pi_source current)
                          mutation_source_limits = None)))"

definition import_record ::
  "libraries \<Rightarrow> campaign \<Rightarrow> migration_ledger \<Rightarrow> checkpoint \<Rightarrow> string \<Rightarrow> string \<Rightarrow> world \<Rightarrow> evidence_record" where
  "import_record lib c l k input report_digest w =
     (let verifier = vr_verifier (ml_review l); environment = imported_environment (cp_environment k)
      in \<lparr>er_schema_version = evidence_schema_version, er_repository = cy_repository (cg_policy c),
          er_module = cy_module_directory (cg_policy c), er_package = cp_package k, er_gate = ''mutation'',
          er_input_digest = input, er_verifier_digest = ''sha256:'' @ verifier, er_result = ''passed'',
          er_report_digest = report_digest,
          er_environment = (if verifier \<noteq> legacy_digest_of lib
             then map_set legacy_package_path_compatibility input environment else environment),
          er_completed_at = Some (cg_now c w)\<rparr>)"

text \<open>The report digest of a record that already names the historical digest of the same bytes.\<close>

definition known_report_digest ::
  "libraries \<Rightarrow> campaign \<Rightarrow> string \<Rightarrow> string \<Rightarrow> report_result \<Rightarrow> world \<Rightarrow> world \<times> (campaign_error + string)" where
  "known_report_digest lib c input stored_bytes stored w =
     (case load_evidence (lib_record_decode lib) (cg_evidence_root c) ''mutation'' input w of
        (w, Inr existing) \<Rightarrow>
          (w, Inr (if er_report_digest existing = legacy_canonical_report_digest (lib_codec lib) stored_bytes
                   then er_report_digest existing else rr_digest stored))
      | (w, Inl (Inspect_failed Err_not_exist)) \<Rightarrow> (w, Inr (rr_digest stored))
      | (w, Inl (Open_failed Err_not_exist)) \<Rightarrow> (w, Inr (rr_digest stored))
      | (w, Inl e) \<Rightarrow> (w, Inl (Campaign_evidence e)))"

definition import_store ::
  "libraries \<Rightarrow> campaign \<Rightarrow> migration_ledger \<Rightarrow> checkpoint \<Rightarrow> string \<Rightarrow> world \<Rightarrow> world \<times> campaign_error option" where
  "import_store lib c l k input w =
     (case store_report (lib_codec lib) (cg_mutation_root c) input (cp_report k) None w of
        (w, Inl e) \<Rightarrow> (w, Some (Campaign_store e))
      | (w, Inr (p, reused, stored, bytes)) \<Rightarrow>
          if rr_digest stored \<noteq> cp_report_digest k \<or> rr_mutants stored \<noteq> cp_mutants k
          then (w, Some Checkpoint_identity_changed)
          else (case known_report_digest lib c input bytes stored w of
                  (w, Inl e) \<Rightarrow> (w, Some e)
                | (w, Inr digest) \<Rightarrow>
                    (case store_evidence (lib_record_encode lib) (lib_record_decode lib) (cg_evidence_root c)
                            (import_record lib c l k input digest w) w of
                       (w, Inl e) \<Rightarrow> (w, Some (Campaign_evidence e))
                     | (w, Inr r) \<Rightarrow> (w, None))))"

text \<open>One iteration: an error, or whether the checkpoint was imported.\<close>

definition import_checkpoint ::
  "libraries \<Rightarrow> campaign \<Rightarrow> migration_ledger \<Rightarrow> string list \<Rightarrow> checkpoint \<Rightarrow> world \<Rightarrow> world \<times> (campaign_error + bool)" where
  "import_checkpoint lib c l seen k w =
     (case checkpoint_guard lib c l seen k of
        Some e \<Rightarrow> (w, Inl e)
      | None \<Rightarrow>
          (case package_inputs_for lib c (cp_package k) [legacy_digest_of lib, vr_verifier (ml_review l)] w of
             (w, Inl e) \<Rightarrow> (w, Inl e)
           | (w, Inr inputs) \<Rightarrow>
               (case checkpoint_applies lib c l k inputs w of
                  Inl e \<Rightarrow> (w, Inl e)
                | Inr False \<Rightarrow> (w, Inr False)
                | Inr True \<Rightarrow>
                    (case import_store lib c l k (pi_current (get_inputs inputs (legacy_digest_of lib))) w of
                       (w, Some e) \<Rightarrow> (w, Inl e)
                     | (w, None) \<Rightarrow> (w, Inr True)))))"

text \<open>The loop; the result lists the packages whose checkpoint was skipped.\<close>

fun import_checkpoints ::
  "libraries \<Rightarrow> campaign \<Rightarrow> migration_ledger \<Rightarrow> string list \<Rightarrow> string list \<Rightarrow> checkpoint list \<Rightarrow> world
    \<Rightarrow> world \<times> (campaign_error + string list)" where
  "import_checkpoints lib c l seen changed [] w = (w, Inr changed)"
| "import_checkpoints lib c l seen changed (k # ks) w =
     (case import_checkpoint lib c l seen k w of
        (w, Inl e) \<Rightarrow> (w, Inl e)
      | (w, Inr imported) \<Rightarrow>
          import_checkpoints lib c l (checkpoint_order k # seen)
            (if imported then changed else changed @ [cp_package k]) ks w)"

definition import_campaign ::
  "libraries \<Rightarrow> campaign \<Rightarrow> checkpoint list \<Rightarrow> migration_ledger \<Rightarrow> world \<Rightarrow> world \<times> (campaign_error + string list)" where
  "import_campaign lib c checkpoints l w =
     (case first_error [campaign_validate c, refuse (checkpoints = []) Checkpoints_empty,
             map_option Ledger_bad (ledger_validate l)] of
        Some e \<Rightarrow> (w, Inl e)
      | None \<Rightarrow>
          (case prepare_campaign c w of
             (w, Some e) \<Rightarrow> (w, Inl e)
           | (w, None) \<Rightarrow> import_checkpoints lib c l [] [] (sort_key checkpoint_order checkpoints) w))"

end
