(* ===== verification/Mutation_Input_Facts.thy ===== *)
theory Mutation_Input_Facts
  imports Mutation_Input
begin

text \<open>
  Which files a mutation campaign mutates, and which bytes its input digest covers.
\<close>

section \<open>Bounded directory reads\<close>

text \<open>Reading in batches is reading the whole directory and then checking the bound.\<close>

lemma read_batches_exact:
  assumes "int (length entries) \<le> maximum"
  shows "read_batches maximum entries rest failed =
    (if maximum < int (length entries) + int (length rest) then Inl Source_entry_limit
     else if failed then Inl Source_read_failed else Inr (sort_key de_name (entries @ rest)))"
  using assms
proof (induction maximum entries rest failed rule: read_batches.induct)
  case (1 maximum entries rest failed)
  let ?remaining = "maximum - int (length entries)"
  let ?asked = "Suc (nat (min 127 ?remaining))"
  show ?case
  proof (cases "rest = []")
    case True
    with 1(2) show ?thesis by (subst read_batches.simps) simp
  next
    case False
    show ?thesis
    proof (cases "?remaining < int (length (take ?asked rest))")
      case True
      then have "maximum < int (length entries) + int (length rest)" by simp
      with True False show ?thesis
        by (subst read_batches.simps) (simp only: Let_def if_False if_True)
    next
      case fits: False
      then have "int (length (entries @ take ?asked rest)) \<le> maximum" by simp
      note ih = 1(1) [OF refl refl False fits this]
      have "read_batches maximum entries rest failed =
          read_batches maximum (entries @ take ?asked rest) (drop ?asked rest) failed"
        using False fits by (subst read_batches.simps) (simp only: Let_def if_False)
      moreover have "length (entries @ take ?asked rest) + length (drop ?asked rest) = length entries + length rest"
        by simp
      then have "int (length (entries @ take ?asked rest)) + int (length (drop ?asked rest)) =
          int (length entries) + int (length rest)" by linarith
      moreover have "(entries @ take ?asked rest) @ drop ?asked rest = entries @ rest" by simp
      ultimately show ?thesis unfolding ih by (simp only:)
    qed
  qed
qed

lemma read_source_entries_ok:
  "read_source_entries view directory maximum = Inr es \<longleftrightarrow>
     (\<exists>entries. sv_directory view directory = Inr (entries, False) \<and>
        int (length entries) \<le> maximum \<and> es = sort_key de_name entries)"
proof (cases "maximum < 0")
  case True
  then have "\<not> int (length entries) \<le> maximum" for entries :: "dir_entry list" by linarith
  with True show ?thesis by (simp add: read_source_entries_def)
next
  case False
  then have "read_batches maximum [] entries failed =
    (if maximum < int (length entries) then Inl Source_entry_limit
     else if failed then Inl Source_read_failed else Inr (sort_key de_name entries))" for entries failed
    using read_batches_exact [of "[]" maximum entries failed] by simp
  with False show ?thesis by (auto simp: read_source_entries_def not_less split: sum.splits)
qed

section \<open>The selection\<close>

definition is_production :: "dir_entry \<Rightarrow> bool" where
  "is_production e \<longleftrightarrow> de_kind e = Kind_regular \<and> has_suffix (de_name e) ''.go'' \<and> \<not> has_suffix (de_name e) ''_test.go''"

definition is_target_package :: "string \<Rightarrow> string \<Rightarrow> listed_package \<Rightarrow> bool" where
  "is_target_package module_path pkg p \<longleftrightarrow> lp_import_path p = package_import module_path pkg \<and> lp_for_test p = []"

lemma available_names_ok:
  "available_names es = Inr names \<Longrightarrow>
     names = map de_name (filter is_production es) \<and> (\<forall>n \<in> set names. \<not> contains_any n unsafe_name_chars)"
  by (induction es arbitrary: names) (auto simp: is_production_def split: if_splits)

text \<open>There is exactly one target package, resolved to the selected directory.\<close>

lemma select_targets_found:
  "select_targets view directory aliases m pkg module_path selected True packages = Inr (names, found) \<Longrightarrow>
     filter (is_target_package module_path pkg) packages = [] \<and> names = selected \<and> found"
  by (induction packages) (auto simp: is_target_package_def split: if_splits)

lemma select_targets_ok:
  "select_targets view directory aliases m pkg module_path [] False packages = Inr (names, True) \<Longrightarrow>
     \<exists>p. filter (is_target_package module_path pkg) packages = [p] \<and> names = lp_go_files p @ lp_cgo_files p \<and>
       sv_eval_symlinks view (lp_dir p) = Some directory"
proof (induction packages)
  case (Cons p ps)
  show ?case
  proof (cases "is_target_package module_path pkg p")
    case False
    with Cons show ?thesis by (auto simp: is_target_package_def split: if_splits)
  next
    case True
    then have "select_targets view directory aliases m pkg module_path (lp_go_files p @ lp_cgo_files p) True ps =
        Inr (names, True)" and "sv_eval_symlinks view (lp_dir p) = Some directory"
      using Cons.prems by (auto simp: is_target_package_def split: if_splits)
    with select_targets_found [OF this(1)] True show ?thesis by auto
  qed
qed simp

text \<open>The selection partitions the package: the files selected for mutation and the files excluded
  from it are together exactly the production Go files of the directory, each once; the
  selected ones are exactly the native files go list reports for the one target package; and
  no name can leave the directory or break a pattern line.\<close>

theorem selection_partitions:
  assumes "select_production view base m pkg module_path packages aliases = Inr s"
  shows "\<exists>entries p. sv_directory view (path_join [base, m, pkg]) = Inr (entries, False) \<and>
    set (ps_files s) \<union> set (ps_excluded s) = de_name ` {e \<in> set entries. is_production e} \<and>
    set (ps_files s) \<inter> set (ps_excluded s) = {} \<and> distinct (ps_files s) \<and> distinct (ps_excluded s) \<and>
    sorted (ps_files s) \<and> sorted (ps_excluded s) \<and> ps_files s \<noteq> [] \<and>
    filter (is_target_package module_path pkg) packages = [p] \<and>
    ps_files s = sort (lp_go_files p @ lp_cgo_files p) \<and>
    (\<forall>n \<in> set (ps_files s) \<union> set (ps_excluded s). \<not> contains_any n unsafe_name_chars)"
proof -
  let ?d = "path_join [base, m, pkg]"
  obtain names found where t: "select_targets view ?d aliases m pkg module_path [] False packages = Inr (names, found)"
    and f: "found" "names \<noteq> []"
    using assms by (auto simp: select_production_def Let_def split: if_splits)
  obtain es where e: "read_source_entries view ?d (sl_entries mutation_source_limits) = Inr es"
    using assms t f by (auto simp: select_production_def Let_def split: sum.splits)
  obtain available where a: "available_names es = Inr available"
    and u: "unique_scan (\<lambda>name. refuse (\<not> List.member available name \<or> path_base name \<noteq> name \<or>
        contains_any name unsafe_name_chars) Invalid_source_name) (\<lambda>_ e. e) id (\<lambda>_ _. Invalid_source_name) 0 [] names = None"
    and s: "s = \<lparr>ps_files = sort names,
        ps_excluded = sort (filter (\<lambda>n. \<not> List.member names n) (remdups available))\<rparr>"
    using assms t f e by (auto simp: select_production_def Let_def)
  obtain p where p: "filter (is_target_package module_path pkg) packages = [p]" "names = lp_go_files p @ lp_cgo_files p"
    using select_targets_ok t f(1) by metis
  obtain entries where d: "sv_directory view ?d = Inr (entries, False)" "es = sort_key de_name entries"
    using e unfolding read_source_entries_ok by blast
  have av: "set available = de_name ` {e \<in> set entries. is_production e}"
    "\<forall>n \<in> set available. \<not> contains_any n unsafe_name_chars"
    using available_names_ok [OF a] d(2) by auto
  have n: "\<forall>x \<in> set names. x \<in> set available" "distinct names"
    using u by (auto simp: unique_scan_ok)
  have "set (ps_files s) \<union> set (ps_excluded s) = set available" using n(1) by (auto simp: s)
  then have "set (ps_files s) \<union> set (ps_excluded s) = de_name ` {e \<in> set entries. is_production e}"
    using av(1) by simp
  moreover have "set (ps_files s) \<inter> set (ps_excluded s) = {}" by (auto simp: s)
  moreover have "ps_files s \<noteq> []" using f(2) by (metis s production_selection.select_convs(1) set_empty set_sort)
  moreover have "\<forall>n \<in> set (ps_files s) \<union> set (ps_excluded s). \<not> contains_any n unsafe_name_chars"
    using av(2) n(1) by (auto simp: s)
  moreover have "distinct (ps_files s)" "distinct (ps_excluded s)" "sorted (ps_files s)" "sorted (ps_excluded s)"
    "ps_files s = sort (lp_go_files p @ lp_cgo_files p)"
    using n(2) p(2) by (simp_all add: s)
  ultimately show ?thesis using d(1) p(1) by blast
qed

definition sample_source_view :: source_view where
  "sample_source_view =
     \<lparr>sv_lstat = (\<lambda>p. if p = ''/r/a.go'' then Inr (Some \<lparr>fi_kind = Kind_regular, fi_size = 1, fi_identity = 7\<rparr>)
        else if p = ''/r'' then Inr (Some \<lparr>fi_kind = Kind_directory, fi_size = 0, fi_identity = 1\<rparr>)
        else Inl Err_not_exist),
      sv_open = (\<lambda>p. Inr (Some \<lparr>of_stat = Inr (Some \<lparr>fi_kind = Kind_regular, fi_size = 1, fi_identity = 7\<rparr>),
        of_content = ''p'', of_failed = False\<rparr>)),
      sv_directory = (\<lambda>p. Inr ([\<lparr>de_name = ''a.go'', de_kind = Kind_regular\<rparr>], False)),
      sv_eval_symlinks = Some, sv_readlink = (\<lambda>p. None)\<rparr>"

definition sample_listed :: listed_package where
  "sample_listed =
     \<lparr>lp_dir = ''/r'', lp_import_path = ''m'', lp_for_test = [], lp_go_files = [''a.go''], lp_cgo_files = [],
      lp_c_files = [], lp_cxx_files = [], lp_m_files = [], lp_h_files = [], lp_f_files = [], lp_s_files = [],
      lp_swig_files = [], lp_swig_cxx_files = [], lp_syso_files = [], lp_embed_files = [], lp_test_go_files = [],
      lp_xtest_go_files = [], lp_test_embed_files = [], lp_xtest_embed_files = [],
      lp_module = Some \<lparr>lm_path = ''m'', lm_version = [], lm_sum = [], lm_go_version = ''1.26'', lm_main = True\<rparr>\<rparr>"

theorem selection_partitions_witness:
  "select_production sample_source_view ''/r'' ''.'' ''.'' ''m'' [sample_listed] [] = Inr \<lparr>ps_files = [''a.go''], ps_excluded = []\<rparr> \<and>
   (\<exists>entries. set [''a.go''] \<union> set [] = de_name ` {e \<in> set entries. is_production e})"
proof -
  have s: "select_production sample_source_view ''/r'' ''.'' ''.'' ''m'' [sample_listed] [] =
      Inr \<lparr>ps_files = [''a.go''], ps_excluded = []\<rparr>"
    by code_simp
  from selection_partitions [OF s] s show ?thesis by auto
qed

section \<open>The content of the digest\<close>

lemma is_abs_join: "is_abs b \<Longrightarrow> is_abs (path_join (b # ps))"
proof -
  assume b: "is_abs b"
  then obtain t where t: "b = CHR ''/'' # t" by (auto simp: is_abs_def has_prefix_iff)
  then have "is_abs (join_with ''/'' (b # qs))" for qs by (simp add: join_Cons_eq is_abs_def)
  then show ?thesis using t by (simp add: path_join_def del: join_with.simps)
qed

lemma rel_elems_prefix: "rel_elems xs (xs @ rest) = Some ([], rest)"
  by (induction xs) auto

lemma path_rel_within:
  assumes "is_abs r" "is_abs a" "abs_elems a = abs_elems r @ rest"
  shows "path_rel r a = Some (if rest = [] then ''.'' else join_with ''/'' rest)"
proof (cases "rest = []")
  case True
  then have "path_clean a = path_clean r" using assms by (simp add: path_clean_abs)
  with True show ?thesis by (simp add: path_rel_def)
next
  case False
  then have "path_clean a \<noteq> path_clean r" using assms abs_elems_clean by (metis append_self_conv)
  with False assms show ?thesis by (simp add: path_rel_def rel_parts rel_elems_prefix)
qed

lemma path_rel_clean: "path_clean a = path_clean b \<Longrightarrow> path_rel x a = path_rel x b"
proof -
  assume c: "path_clean a = path_clean b"
  then have "is_abs a = is_abs b" using is_abs_clean by metis
  with c show ?thesis by (simp add: path_rel_def rel_target_def)
qed

text \<open>A contained path is determined by its relative form.\<close>

lemma rel_determines:
  assumes "is_abs r" "is_within r a" "is_within r b" "rel_or_empty r a = rel_or_empty r b"
  shows "path_clean a = path_clean b"
proof -
  obtain u v where u: "is_abs a" "abs_elems a = abs_elems r @ u" and v: "is_abs b" "abs_elems b = abs_elems r @ v"
    using assms(1-3) by (auto simp: is_within_iff)
  have plain: "list_all (\<lambda>e. plain_elem e \<and> CHR ''/'' \<notin> set e) u" "list_all (\<lambda>e. plain_elem e \<and> CHR ''/'' \<notin> set e) v"
    using abs_elems_plain [of a] abs_elems_plain [of b] u(2) v(2) by simp_all
  have dot: "join_with ''/'' x \<noteq> ''.''" if "list_all (\<lambda>e. plain_elem e \<and> CHR ''/'' \<notin> set e) x" for x
  proof
    assume "join_with ''/'' x = ''.''"
    then have "x = path_elems ''.''" using path_elems_join [OF that] by simp
    then have "x = [''.'']" by (simp add: path_elems_def)
    with that show False by (simp add: plain_elem_def)
  qed
  have "(if u = [] then ''.'' else join_with ''/'' u) = (if v = [] then ''.'' else join_with ''/'' v)"
    using assms(4) unfolding rel_or_empty_def path_rel_within [OF assms(1) u] path_rel_within [OF assms(1) v] option.case .
  then have "join_with ''/'' u = join_with ''/'' v"
    using dot [OF plain(1)] dot [OF plain(2)] by (cases "u = []"; cases "v = []") simp_all
  then have "u = v"
    using path_elems_join [OF plain(1)] path_elems_join [OF plain(2)] by metis
  then have "abs_elems a = abs_elems b" using u(2) v(2) by (simp only:)
  then show ?thesis unfolding path_clean_abs [OF u(1)] path_clean_abs [OF v(1)] by (simp only:)
qed

definition owned_root :: "string \<Rightarrow> owned_module \<Rightarrow> string" where
  "owned_root base o' = path_join [base, om_directory o']"

definition read_input :: "source_view \<Rightarrow> string \<Rightarrow> string \<Rightarrow> repository_error + string" where
  "read_input view base absolute =
     read_repository_file (sv_lstat view) (sv_open view) base (rel_or_empty base absolute) maximum_input_file"

text \<open>The bytes under a key are those of a file of an owned module with that very name.\<close>

definition file_origin :: "source_view \<Rightarrow> string \<Rightarrow> owned_module list \<Rightarrow> string \<Rightarrow> string \<Rightarrow> owned_module \<Rightarrow> string \<Rightarrow> bool" where
  "file_origin view base owned key data o' absolute \<longleftrightarrow>
     o' \<in> set owned \<and> key = content_key base o' absolute \<and> is_within (owned_root base o') absolute \<and>
     read_input view base absolute = Inr data"

definition content_sound :: "source_view \<Rightarrow> string \<Rightarrow> owned_module list \<Rightarrow> content \<Rightarrow> bool" where
  "content_sound view base owned c \<longleftrightarrow>
     distinct (map fst (fst c)) \<and> int (length (fst c)) \<le> maximum_input_files \<and>
     snd c = sum_list (map (\<lambda>(k, d). int (length d)) (fst c)) \<and> snd c \<le> maximum_input_total \<and>
     (\<forall>(k, d) \<in> set (fst c). \<exists>o' a. file_origin view base owned k d o' a)"

text \<open>A file is bound: its name is there with bytes of that name, and they are its own unless a file
  of another owned module has the same qualified name.\<close>

definition file_bound ::
  "source_view \<Rightarrow> string \<Rightarrow> owned_module list \<Rightarrow> (string \<times> string) list \<Rightarrow> owned_module \<Rightarrow> string \<Rightarrow> bool" where
  "file_bound view base owned content o' absolute \<longleftrightarrow>
     is_within (owned_root base o') absolute \<and>
     (\<exists>own data p b. read_input view base absolute = Inr own \<and>
        map_of content (content_key base o' absolute) = Some data \<and>
        file_origin view base owned (content_key base o' absolute) data p b \<and> (p = o' \<longrightarrow> data = own))"

definition extends :: "content \<Rightarrow> content \<Rightarrow> bool" where
  "extends c c' \<longleftrightarrow> map_of (fst c) \<subseteq>\<^sub>m map_of (fst c')"

lemma extends_trans: "extends a b \<Longrightarrow> extends b c \<Longrightarrow> extends a c"
  unfolding extends_def by (rule map_le_trans)

lemma extends_refl [simp]: "extends a a"
  by (simp add: extends_def)

lemma file_bound_extends:
  "file_bound view base owned (fst c) o' a \<Longrightarrow> extends c c' \<Longrightarrow> file_bound view base owned (fst c') o' a"
  unfolding file_bound_def extends_def map_le_def by (metis domI)

lemma map_set_fresh: "map_of m k = None \<Longrightarrow> map_set k v m = m @ [(k, v)]"
  by (induction k v m rule: map_set.induct) (auto split: if_splits)

lemma add_content_cases:
  assumes "add_content key data c = Inr c'"
  obtains (known) d where "map_of (fst c) key = Some d" "c' = c"
    | (fresh) "map_of (fst c) key = None" "c' = (fst c @ [(key, data)], snd c + int (length data))"
        "int (length (fst c)) < maximum_input_files" "snd c + int (length data) \<le> maximum_input_total"
  using assms by (cases c) (auto simp: add_content_def map_set_fresh split: if_splits)

lemma add_content_sound:
  assumes "add_content key data c = Inr c'" "content_sound view base owned c" "file_origin view base owned key data o' a"
  shows "content_sound view base owned c' \<and> extends c c' \<and> (\<exists>d. map_of (fst c') key = Some d)"
  using assms(1)
proof (cases rule: add_content_cases)
  case (known d)
  with assms(2) show ?thesis by simp
next
  case fresh
  have "key \<notin> fst ` set (fst c)" using fresh(1) by (simp add: map_of_eq_None_iff)
  then have "content_sound view base owned c'" using assms(2,3) fresh by (auto simp: content_sound_def)
  moreover have "extends c c'" using fresh by (auto simp: extends_def map_le_def map_add_def split: option.splits)
  moreover have "map_of (fst c') key = Some data" using fresh by (simp add: map_add_def)
  ultimately show ?thesis by blast
qed

lemma same_name_same_file:
  assumes "is_abs base" "is_within (owned_root base o') a" "is_within (owned_root base o') b"
    and "content_key base o' a = content_key base o' b"
  shows "read_input view base a = read_input view base b"
proof -
  have "is_abs (owned_root base o')" using assms(1) is_abs_join by (simp add: owned_root_def)
  moreover have "rel_or_empty (owned_root base o') a = rel_or_empty (owned_root base o') b"
    using assms(4) by (simp add: content_key_def owned_root_def)
  ultimately have "path_clean a = path_clean b" using assms(2,3) rel_determines by blast
  then show ?thesis using path_rel_clean [of a b base] by (simp add: read_input_def rel_or_empty_def)
qed

lemma bound_if_present:
  assumes "content_sound view base owned c" "is_abs base" "is_within (owned_root base o') a"
    and "read_input view base a = Inr own" "map_of (fst c) (content_key base o' a) = Some d"
  shows "file_bound view base owned (fst c) o' a"
proof -
  have "(content_key base o' a, d) \<in> set (fst c)" using assms(5) by (rule map_of_SomeD)
  then obtain p b where p: "file_origin view base owned (content_key base o' a) d p b"
    using assms(1) unfolding content_sound_def by blast
  have "d = own" if "p = o'"
    using p assms(3,4) same_name_same_file [OF assms(2,3), of b view] that by (simp add: file_origin_def)
  with assms(3,4,5) p show ?thesis unfolding file_bound_def by blast
qed

lemma add_input_file_sound:
  assumes "add_input_file view base o' directory name c = Inr c'" "content_sound view base owned c"
    and "is_abs base" "o' \<in> set owned"
  shows "content_sound view base owned c' \<and> extends c c' \<and>
    file_bound view base owned (fst c') o' (input_absolute directory name)"
proof -
  let ?a = "input_absolute directory name"
  obtain data where w: "is_within (owned_root base o') ?a" and r: "read_input view base ?a = Inr data"
    and a: "add_content (content_key base o' ?a) data c = Inr c'"
    using assms(1) by (auto simp: add_input_file_def Let_def owned_root_def read_input_def split: if_splits sum.splits)
  have f: "file_origin view base owned (content_key base o' ?a) data o' ?a" using assms(4) w r by (simp add: file_origin_def)
  from add_content_sound [OF a assms(2) f] obtain d where
    "content_sound view base owned c'" "extends c c'" "map_of (fst c') (content_key base o' ?a) = Some d" by blast
  with bound_if_present [OF _ assms(3) w r] show ?thesis by blast
qed

lemma add_input_files_sound:
  assumes "add_input_files view base o' directory names c = Inr c'" "content_sound view base owned c"
    and "is_abs base" "o' \<in> set owned"
  shows "content_sound view base owned c' \<and> extends c c' \<and>
    (\<forall>name \<in> set names. file_bound view base owned (fst c') o' (input_absolute directory name))"
  using assms(1,2)
proof (induction names arbitrary: c)
  case (Cons name names)
  then obtain c1 where c1: "add_input_file view base o' directory name c = Inr c1"
    "add_input_files view base o' directory names c1 = Inr c'" by auto
  note h = add_input_file_sound [OF c1(1) Cons.prems(2) assms(3,4)]
  have r: "content_sound view base owned c' \<and> extends c1 c' \<and>
    (\<forall>name \<in> set names. file_bound view base owned (fst c') o' (input_absolute directory name))"
    using Cons.IH c1(2) h by blast
  moreover have "extends c c'" using h r extends_trans by blast
  moreover have "file_bound view base owned (fst c') o' (input_absolute directory name)"
    using h r file_bound_extends by blast
  ultimately show ?case by simp
qed simp

lemma visit_data_entries_sound:
  assumes "visit_data_entries view base o' vs (n, c) = Inr (n', c')" "content_sound view base owned c"
    and "is_abs base" "o' \<in> set owned"
  shows "content_sound view base owned c' \<and> extends c c'"
  using assms(1,2)
proof (induction vs arbitrary: n c)
  case (Cons v vs)
  then obtain n1 c1 where s: "visit_data_entry view base o' v (n, c) = Inr (n1, c1)"
    "visit_data_entries view base o' vs (n1, c1) = Inr (n', c')" by auto
  have "content_sound view base owned c1 \<and> extends c c1"
  proof (cases v)
    case (Data_entry p k)
    with s(1) consider "c1 = c" | "add_input_file view base o' (path_dir p) (path_base p) c = Inr c1"
      by (auto simp: visit_data_entry_def split: if_splits)
    then show ?thesis
    proof cases
      case 1
      with Cons.prems(2) show ?thesis by simp
    next
      case 2
      from add_input_file_sound [OF this Cons.prems(2) assms(3,4)] show ?thesis by blast
    qed
  qed (use s(1) in \<open>simp add: visit_data_entry_def\<close>)
  with Cons.IH [OF s(2)] extends_trans show ?case by blast
qed simp

lemma add_data_directory_sound:
  assumes "add_data_directory view walk_dir base o' directory (n, c) = Inr (n', c')" "content_sound view base owned c"
    and "is_abs base" "o' \<in> set owned"
  shows "content_sound view base owned c' \<and> extends c c'"
proof -
  consider "c' = c" | "visit_data_entries view base o' (walk_dir directory) (n, c) = Inr (n', c')"
    using assms(1) by (auto simp: add_data_directory_def split: sum.splits io_error.splits option.splits if_splits)
  then show ?thesis
  proof cases
    case 1
    with assms(2) show ?thesis by simp
  next
    case 2
    from visit_data_entries_sound [OF this assms(2-4)] show ?thesis .
  qed
qed

lemma add_data_directories_sound:
  assumes "add_data_directories view walk_dir base ds (n, c) = Inr (n', c')" "content_sound view base owned c"
    and "is_abs base" "snd ` set ds \<subseteq> set owned"
  shows "content_sound view base owned c' \<and> extends c c'"
  using assms(1,2,4)
proof (induction ds arbitrary: n c)
  case (Cons d ds)
  obtain dir o' where d: "d = (dir, o')" by (cases d)
  have o: "o' \<in> set owned" using Cons.prems(3) d by simp
  from Cons.prems(1) obtain n1 c1 n2 c2 n3 c3 where
    s: "add_data_directory view walk_dir base o' (path_join [dir, ''corpus'']) (n, c) = Inr (n1, c1)"
      "add_data_directory view walk_dir base o' (path_join [dir, ''fixtures'']) (n1, c1) = Inr (n2, c2)"
      "add_data_directory view walk_dir base o' (path_join [dir, ''testdata'']) (n2, c2) = Inr (n3, c3)"
      "add_data_directories view walk_dir base ds (n3, c3) = Inr (n', c')"
    by (auto simp: d)
  have 1: "content_sound view base owned c1 \<and> extends c c1"
    using add_data_directory_sound [OF s(1) Cons.prems(2) assms(3) o] .
  have 2: "content_sound view base owned c2 \<and> extends c1 c2"
    using add_data_directory_sound [OF s(2) _ assms(3) o] 1 by blast
  have 3: "content_sound view base owned c3 \<and> extends c2 c3"
    using add_data_directory_sound [OF s(3) _ assms(3) o] 2 by blast
  have "content_sound view base owned c' \<and> extends c3 c'"
    using Cons.IH [OF s(4)] 3 Cons.prems(3) by simp
  with 1 2 3 extends_trans show ?case by blast
qed simp

section \<open>The packages\<close>

definition rebased :: "string \<Rightarrow> string list \<Rightarrow> listed_package \<Rightarrow> listed_package" where
  "rebased base roots p = p\<lparr>lp_dir := rebase_directory base roots (lp_dir p)\<rparr>"

text \<open>The files of a listed package that belong to the digest: the production files of a package of an
  owned module, and its test files when it is the target or tests the target.\<close>

definition observes :: "string \<Rightarrow> owned_module list \<Rightarrow> string \<Rightarrow> listed_package \<Rightarrow> owned_module \<Rightarrow> string \<Rightarrow> bool" where
  "observes base owned target p o' name \<longleftrightarrow>
     resolve_owned_root base p owned = Some o' \<and> canonical_import p \<noteq> target @ ''.test'' \<and>
     name \<in> set (observed_files target p)"

definition state_sound :: "source_view \<Rightarrow> string \<Rightarrow> owned_module list \<Rightarrow> input_state \<Rightarrow> bool" where
  "state_sound view base owned s \<longleftrightarrow>
     content_sound view base owned (is_content s) \<and> snd ` set (is_relevant s) \<subseteq> set owned"

lemma snd_map_set: "snd ` set (map_set k v m) \<subseteq> insert v (snd ` set m)"
  by (induction k v m rule: map_set.induct) auto

lemma resolved_owned: "resolve_owned_root base p owned = Some o' \<Longrightarrow> o' \<in> set owned"
  by (auto simp: resolve_owned_root_def find_Some_iff split: option.splits)

lemma add_local_package_sound:
  assumes "add_local_package view base target o' p s = Inr s'" "state_sound view base owned s"
    and "is_abs base" "o' \<in> set owned"
  shows "state_sound view base owned s' \<and> extends (is_content s) (is_content s') \<and>
    (canonical_import p \<noteq> target @ ''.test'' \<longrightarrow>
     (\<forall>name \<in> set (observed_files target p). file_bound view base owned (fst (is_content s')) o' (input_absolute (lp_dir p) name)))"
proof -
  consider (test) "canonical_import p = target @ ''.test''" "is_content s' = is_content s" "is_relevant s' = is_relevant s"
    | (none) "observed_files target p = []" "is_content s' = is_content s" "is_relevant s' = is_relevant s"
    | (files) c where "add_input_files view base o' (lp_dir p) (observed_files target p) (is_content s) = Inr c"
        "is_content s' = c" "is_relevant s' = map_set (lp_dir p) o' (is_relevant s)"
    using assms(1) by (auto simp: add_local_package_def Let_def split: option.splits if_splits)
  then show ?thesis
  proof cases
    case files
    have c: "content_sound view base owned (is_content s)" using assms(2) by (simp add: state_sound_def)
    have "snd ` set (is_relevant s') \<subseteq> set owned"
      using assms(2,4) snd_map_set [of "lp_dir p" o' "is_relevant s"] files(3) by (auto simp: state_sound_def)
    with add_input_files_sound [OF files(1) c assms(3,4)] files(2) show ?thesis by (simp add: state_sound_def)
  qed (use assms(2) in \<open>simp_all add: state_sound_def\<close>)
qed

lemma add_module_identity_keeps:
  "add_module_identity p s = Inr s' \<Longrightarrow> is_content s' = is_content s \<and> is_relevant s' = is_relevant s"
  by (auto simp: add_module_identity_def split: option.splits if_splits)

lemma add_packages_sound:
  assumes "add_packages view base roots owned target packages s = Inr s'" "state_sound view base owned s" "is_abs base"
  shows "state_sound view base owned s' \<and> extends (is_content s) (is_content s') \<and>
    (\<forall>p \<in> set packages. \<forall>o' name. observes base owned target (rebased base roots p) o' name \<longrightarrow>
       file_bound view base owned (fst (is_content s')) o' (input_absolute (lp_dir (rebased base roots p)) name))"
  using assms(1,2)
proof (induction packages arbitrary: s)
  case (Cons p ps)
  let ?p = "rebased base roots p"
  obtain s2 where s2: "add_package view base roots owned target p s = Inr s2"
    "add_packages view base roots owned target ps s2 = Inr s'"
    using Cons.prems(1) by auto
  obtain s1 where s1: "add_module_identity ?p s = Inr s1"
    and r: "(case resolve_owned_root base ?p owned of None \<Rightarrow> Inr s1 | Some o' \<Rightarrow> add_local_package view base target o' ?p s1) = Inr s2"
    using s2(1) unfolding add_package_def Let_def rebased_def [symmetric] and_then_Inr_iff by blast
  note k = add_module_identity_keeps [OF s1]
  have st: "state_sound view base owned s1" using Cons.prems(2) k by (simp add: state_sound_def)
  have one: "state_sound view base owned s2 \<and> extends (is_content s1) (is_content s2) \<and>
    (\<forall>o' name. observes base owned target ?p o' name \<longrightarrow>
       file_bound view base owned (fst (is_content s2)) o' (input_absolute (lp_dir ?p) name))"
  proof (cases "resolve_owned_root base ?p owned")
    case None
    with r st show ?thesis by (simp add: observes_def)
  next
    case (Some q)
    then have "add_local_package view base target q ?p s1 = Inr s2" using r by simp
    from add_local_package_sound [OF this st assms(3) resolved_owned [OF Some]] Some show ?thesis
      by (auto simp: observes_def)
  qed
  have rest: "state_sound view base owned s' \<and> extends (is_content s2) (is_content s') \<and>
    (\<forall>p \<in> set ps. \<forall>o' name. observes base owned target (rebased base roots p) o' name \<longrightarrow>
       file_bound view base owned (fst (is_content s')) o' (input_absolute (lp_dir (rebased base roots p)) name))"
    using Cons.IH [OF s2(2)] one by blast
  have "extends (is_content s) (is_content s')" using k one rest extends_trans by metis
  moreover have "file_bound view base owned (fst (is_content s')) o' (input_absolute (lp_dir ?p) name)"
    if "observes base owned target ?p o' name" for o' name
    using one rest that file_bound_extends by blast
  ultimately show ?case using rest by simp
qed simp

text \<open>C25: What the input digest covers: every production file of every listed package of an owned
  module, and every test file of the target's observers, is in the digested content under its
  module-qualified name, with its own bytes (or, if a file of another owned module has the very
  same qualified name, with those of the first such file); everything in the content is a file
  of an owned module, read inside the repository; and the content is bounded. This holds for
  any order in which the relevant directories are walked.\<close>

theorem inputs_bound:
  assumes "gather_inputs view walk_dir range_order base roots policy packages = Inr (s, content)" and "is_abs base"
    and "\<And>ds. set (range_order ds) = set ds"
    and "owned = \<lparr>om_module_path = ip_module_path policy, om_directory = ip_module_directory policy\<rparr> # ip_owned_modules policy"
    and "target = package_import (ip_module_path policy) (ip_package_directory policy)"
  shows "(\<forall>p \<in> set packages. \<forall>o' name. observes base owned target (rebased base roots p) o' name \<longrightarrow>
       file_bound view base owned content o' (input_absolute (lp_dir (rebased base roots p)) name)) \<and>
    distinct (map fst content) \<and> (\<forall>(k, d) \<in> set content. \<exists>o' a. file_origin view base owned k d o' a) \<and>
    int (length content) \<le> 100000 \<and> sum_list (map (\<lambda>(k, d). int (length d)) content) \<le> 268435456 \<and> content \<noteq> []"
proof -
  let ?start = "\<lparr>is_content = ([], 0), is_modules = [], is_target = False, is_observed = [], is_relevant = []\<rparr>"
  obtain n used where a: "add_packages view base roots owned target packages ?start = Inr s"
    and d: "add_data_directories view walk_dir base (range_order (is_relevant s)) (0, is_content s) = Inr (n, content, used)"
    and c: "content \<noteq> []"
    using assms(1) unfolding gather_inputs_def assms(4,5) [symmetric] Let_def
    by (auto split: if_splits)
  have st: "state_sound view base owned ?start"
    by (simp add: state_sound_def content_sound_def maximum_input_files_def maximum_input_total_def)
  note p = add_packages_sound [OF a st assms(2)]
  then have r: "snd ` set (range_order (is_relevant s)) \<subseteq> set owned" unfolding assms(3) state_sound_def by blast
  have "content_sound view base owned (is_content s)" using p by (simp add: state_sound_def)
  from add_data_directories_sound [OF d this assms(2) r]
  have e: "content_sound view base owned (content, used)" "extends (is_content s) (content, used)" by blast+
  have "file_bound view base owned content o' (input_absolute (lp_dir (rebased base roots q)) name)"
    if "q \<in> set packages" "observes base owned target (rebased base roots q) o' name" for q o' name
    using p that file_bound_extends [OF _ e(2)] by simp
  with e(1) c show ?thesis
    by (simp add: content_sound_def maximum_input_files_def maximum_input_total_def)
qed

definition sample_input_policy :: input_policy where
  "sample_input_policy =
     \<lparr>ip_module_directory = ''.'', ip_package_directory = ''.'', ip_module_path = ''m'', ip_go_version = ''1.26'',
      ip_test_tags = [], ip_build_tags = [], ip_required_services = [], ip_service_identities = [], ip_owned_modules = []\<rparr>"

theorem inputs_bound_witness:
  "\<exists>s. gather_inputs sample_source_view (\<lambda>d. []) id ''/r'' [''/r''] sample_input_policy [sample_listed] = Inr (s, [(''module:m/a.go'', ''p'')]) \<and>
    file_bound sample_source_view ''/r'' [\<lparr>om_module_path = ''m'', om_directory = ''.''\<rparr>] [(''module:m/a.go'', ''p'')]
      \<lparr>om_module_path = ''m'', om_directory = ''.''\<rparr> ''/r/a.go''"
proof -
  let ?o = "\<lparr>om_module_path = ''m'', om_directory = ''.''\<rparr>"
  let ?s = "\<lparr>is_content = ([(''module:m/a.go'', ''p'')], 1), is_modules = [(''m'', the (lp_module sample_listed))], is_target = True,
    is_observed = [''m''], is_relevant = [(''/r'', ?o)]\<rparr>"
  have g: "gather_inputs sample_source_view (\<lambda>d. []) id ''/r'' [''/r''] sample_input_policy [sample_listed] =
      Inr (?s, [(''module:m/a.go'', ''p'')])"
    by code_simp
  have a: "is_abs ''/r''" by (simp add: is_abs_def)
  have o: "[?o] = \<lparr>om_module_path = ip_module_path sample_input_policy, om_directory = ip_module_directory sample_input_policy\<rparr> #
      ip_owned_modules sample_input_policy"
    by (simp add: sample_input_policy_def)
  have t: "''m'' = package_import (ip_module_path sample_input_policy) (ip_package_directory sample_input_policy)"
    by (simp add: sample_input_policy_def package_import_def)
  have b: "observes ''/r'' [?o] ''m'' (rebased ''/r'' [''/r''] sample_listed) ?o ''a.go''" by code_simp
  have n: "input_absolute (lp_dir (rebased ''/r'' [''/r''] sample_listed)) ''a.go'' = ''/r/a.go''" by code_simp
  have "file_bound sample_source_view ''/r'' [?o] [(''module:m/a.go'', ''p'')] ?o ''/r/a.go''"
    using inputs_bound [OF g a _ o t] b unfolding n [symmetric] by simp
  with g show ?thesis by blast
qed

end
