(* ===== verification/Mutation_Campaign_Facts.thy ===== *)
theory Mutation_Campaign_Facts
  imports Mutation_Campaign Mutation_Input_Facts Mutation_Store_Facts
begin

text \<open>
  What a campaign leaves behind: the evidence of a package that ran, or of a checkpoint that was
  imported, is found again by the reuse check of the next campaign over the same inputs.
\<close>

section \<open>Reading again what is there\<close>

text \<open>Nothing that existed is replaced, so a path that led to a file still does.\<close>

lemma resolve_keeps:
  assumes "keeps {} w w'" and "resolve n w p = Some (File c)"
  shows "resolve n w' p = Some (File c)"
  using assms(2)
proof (induction n arbitrary: p)
  case (Suc n)
  show ?case
  proof (cases "node_at w p")
    case (Some m)
    then have "node_at w' p = Some m" using assms(1) keepsD by blast
    with Some Suc show ?thesis by (cases m) auto
  qed (use Suc in simp)
qed simp

lemma resolve_script [simp]: "resolve n (w\<lparr>w_script := es\<rparr>) p = resolve n w p"
  by (induction n arbitrary: p) (simp_all split: option.splits node.splits)

lemma resolve_file: "node_at w p = Some (File c) \<Longrightarrow> resolve 40 w p = Some (File c)"
  by (simp add: eval_nat_numeral)

lemma quiet_resolved: "w_script w = [] \<Longrightarrow> resolve 40 w p = Some (File c) \<Longrightarrow> sys_read_file p w = (w, Inr c)"
  by (simp add: sys_read_file_def quiet_event no_event_def)

section \<open>A hit\<close>

text \<open>What the reuse check needs to find: a record and a report that fit together.\<close>

definition reusable ::
  "report_codec \<Rightarrow> record_decoder \<Rightarrow> string \<Rightarrow> string \<Rightarrow> string \<Rightarrow> string \<Rightarrow> string \<Rightarrow> string \<Rightarrow> string
    \<Rightarrow> equivalent_review option \<Rightarrow> world \<Rightarrow> bool" where
  "reusable codec decode semantic evidence_root mutation_root repository m pkg input review w \<longleftrightarrow>
     (\<exists>d r e result. node_at w (record_path evidence_root ''mutation'' input) = Some (File d) \<and>
        is_abs evidence_root \<and> digest_re input \<and> report_location_ok mutation_root input \<and>
        parse_record decode d False = Inr r \<and> er_gate r = ''mutation'' \<and> er_input_digest r = input \<and>
        reuse_identity semantic repository m pkg review r = None \<and>
        \<not> (case review of None \<Rightarrow> False | Some v \<Rightarrow> validate_execution v \<noteq> None) \<and>
        resolve 40 w (report_path mutation_root input) = Some (File e) \<and>
        validate_report codec e False review = Inr result \<and>
        (rr_digest result = er_report_digest r \<or> legacy_canonical_report_digest codec e = er_report_digest r))"

lemma mutation_gate: "gate_re ''mutation''"
  by (simp add: gate_re_def all_in_def)

lemma reusable_hit:
  assumes "reusable codec decode semantic evidence_root mutation_root repository m pkg input review w"
    and "w_script w = []"
  shows "\<exists>result. reuse_evidence codec decode semantic evidence_root mutation_root repository m pkg input review w =
    (w, Inr (Some result))"
proof -
  from assms(1) obtain d r e result where
    n: "node_at w (record_path evidence_root ''mutation'' input) = Some (File d)" and
    a: "is_abs evidence_root" "digest_re input" and lo: "report_location_ok mutation_root input" and
    p: "parse_record decode d False = Inr r" "er_gate r = ''mutation''" "er_input_digest r = input" and
    i: "reuse_identity semantic repository m pkg review r = None" and
    v: "\<not> (case review of None \<Rightarrow> False | Some v \<Rightarrow> validate_execution v \<noteq> None)" and
    e: "resolve 40 w (report_path mutation_root input) = Some (File e)" "validate_report codec e False review = Inr result"
      "rr_digest result = er_report_digest r \<or> legacy_canonical_report_digest codec e = er_report_digest r"
    unfolding reusable_def by blast
  have l: "load_evidence decode evidence_root ''mutation'' input w = (w, Inr r)"
    by (rule load_stored [OF a(1) mutation_gate a(2) n assms(2) p])
  have rd: "load_report codec mutation_root input review w = (w, Inr (e, result))"
    using lo e(2) quiet_resolved [OF assms(2) e(1)] report_path_eq(1) [OF lo]
    by (simp add: load_report_def)
  have "reuse_evidence codec decode semantic evidence_root mutation_root repository m pkg input review w =
      (w, Inr (Some result))"
    unfolding reuse_evidence_def if_not_P [OF v] l prod.case sum.case i option.case rd
    using e(3) by auto
  then show ?thesis ..
qed

lemma reusable_keeps:
  assumes "reusable codec decode semantic evidence_root mutation_root repository m pkg input review w" and "keeps {} w w'"
  shows "reusable codec decode semantic evidence_root mutation_root repository m pkg input review w'"
proof -
  from assms(1) obtain d r e result where
    n: "node_at w (record_path evidence_root ''mutation'' input) = Some (File d)" and
    e: "resolve 40 w (report_path mutation_root input) = Some (File e)" and
    same: "is_abs evidence_root" "digest_re input" "report_location_ok mutation_root input"
      "parse_record decode d False = Inr r" "er_gate r = ''mutation''" "er_input_digest r = input"
      "reuse_identity semantic repository m pkg review r = None"
      "\<not> (case review of None \<Rightarrow> False | Some v \<Rightarrow> validate_execution v \<noteq> None)"
      "validate_report codec e False review = Inr result"
      "rr_digest result = er_report_digest r \<or> legacy_canonical_report_digest codec e = er_report_digest r"
    unfolding reusable_def by blast
  have n': "node_at w' (record_path evidence_root ''mutation'' input) = Some (File d)" using assms(2) n keepsD by blast
  have e': "resolve 40 w' (report_path mutation_root input) = Some (File e)" using resolve_keeps [OF assms(2) e] .
  show ?thesis unfolding reusable_def by (intro exI conjI) (fact n' e' same)+
qed

lemma reusable_script [simp]:
  "reusable codec decode semantic er mr repository m pkg input review (w\<lparr>w_script := es\<rparr>) =
   reusable codec decode semantic er mr repository m pkg input review w"
  by (simp add: reusable_def)

text \<open>A hit leaves the disk as it needs it.\<close>

lemma hit_reusable:
  assumes "reuse_evidence codec decode semantic evidence_root mutation_root repository m pkg input review w =
    (w', Inr (Some result))"
  shows "reusable codec decode semantic evidence_root mutation_root repository m pkg input review w'"
proof -
  obtain w1 l where l: "load_evidence decode evidence_root ''mutation'' input w = (w1, l)" by fastforce
  have v: "\<not> (case review of None \<Rightarrow> False | Some v \<Rightarrow> validate_execution v \<noteq> None)"
    using assms by (auto simp: reuse_evidence_def split: if_splits)
  obtain r where r: "l = Inr r"
    using assms l v by (cases l) (auto simp: reuse_evidence_def split: evidence_error.splits io_error.splits)
  have i: "reuse_identity semantic repository m pkg review r = None"
    using assms l v r by (cases "reuse_identity semantic repository m pkg review r") (auto simp: reuse_evidence_def)
  obtain data where d: "load_report codec mutation_root input review w1 = (w', Inr (data, result))"
    and g: "rr_digest result = er_report_digest r \<or> legacy_canonical_report_digest codec data = er_report_digest r"
    using assms l v r i by (auto simp: reuse_evidence_def split: prod.splits sum.splits if_splits)
  obtain c where c: "node_at w1 (record_path evidence_root ''mutation'' input) = Some (File c)"
    "parse_record decode c False = Inr r" "er_gate r = ''mutation''" "er_input_digest r = input"
    "is_abs evidence_root" "digest_re input"
    using load_evidence_file [OF l [unfolded r]] .
  have lo: "report_location_ok mutation_root input" using d by (auto simp: load_report_def split: if_splits)
  have "resolve 40 w' (report_path mutation_root input) = Some (File data)"
    and "validate_report codec data False review = Inr result"
    using d lo report_path_eq(1) [OF lo]
    by (auto simp: load_report_def split: prod.splits sum.splits dest!: sys_read_resolved)
  moreover have "node_at w' (record_path evidence_root ''mutation'' input) = Some (File c)"
    using c(1) load_report_keeps [OF d] keepsD by blast
  ultimately show ?thesis unfolding reusable_def using c lo i v g by blast
qed

section \<open>What a publication leaves\<close>

lemma env_get_cong: "map_of m = map_of n \<Longrightarrow> env_get m k = env_get n k"
  by (simp add: env_get_def)

lemma same_meaning_fields:
  assumes "same_meaning k r"
  shows "er_repository k = er_repository r" "er_module k = er_module r" "er_package k = er_package r"
    "er_gate k = er_gate r" "er_input_digest k = er_input_digest r" "er_verifier_digest k = er_verifier_digest r"
    "er_result k = er_result r" "er_report_digest k = er_report_digest r"
    "env_get (er_environment k) x = env_get (er_environment r) x"
  using assms by (cases k; cases r; auto simp: same_meaning_def intro: env_get_cong)+

lemma reuse_identity_meaning:
  assumes "same_meaning k r"
  shows "reuse_identity semantic repository m pkg review k = reuse_identity semantic repository m pkg review r"
  unfolding reuse_identity_def applicable_verifier_record_def same_meaning_fields [OF assms] ..

text \<open>A report and a record that names its digest, both stored, can be reused.\<close>

lemma stored_reusable:
  assumes "store_report codec mutation_root input report review w = (w2, Inr (p, reused, result, stored))"
    and "keeps {} w2 w3"
    and "store_evidence encode decode evidence_root r w3 = (w', Inr (q, again))"
    and "er_gate r = ''mutation''" "er_input_digest r = input"
    and "node_at w' (record_path evidence_root ''mutation'' input) = Some (File d)"
    and "int (length d) \<le> evidence_maximum_size"
    and "node_at w' (report_path mutation_root input) = Some (File e)"
    and "roundtrips encode decode r" "proper_decoder decode"
    and "reuse_identity semantic repository m pkg review r = None"
    and "\<not> (case review of None \<Rightarrow> False | Some v \<Rightarrow> validate_execution v \<noteq> None)"
    and "er_report_digest r = rr_digest result \<or> er_report_digest r = legacy_canonical_report_digest codec stored"
  shows "reusable codec decode semantic evidence_root mutation_root repository m pkg input review w'"
proof -
  from store_report_ok [OF assms(1)] obtain n where lo: "report_location_ok mutation_root input"
    and v: "validate_report codec stored False review = Inr result"
    and n: "node_at w2 (report_path mutation_root input) = Some n" "\<forall>c. n = File c \<longrightarrow> c = stored"
    by auto
  have "node_at w3 (report_path mutation_root input) = Some n" using n(1) assms(2) keepsD by blast
  then have "node_at w' (report_path mutation_root input) = Some n" by (rule store_evidence_keeps [OF assms(3)])
  with assms(8) n(2) have e: "e = stored" by simp
  from store_evidence_ok [OF assms(3)] have s: "record_validate r = None" "is_abs evidence_root"
    "q = record_path evidence_root ''mutation'' input"
    using assms(4,5) by auto
  have dq: "node_at w' q = Some (File d)" using assms(6) s(3) by simp
  obtain k where k: "parse_record decode d False = Inr k" "same_meaning k r" "er_gate k = er_gate r"
    "er_input_digest k = er_input_digest r"
    using stored_parses [OF assms(3) dq assms(7,9,10)] .
  have g: "digest_re input" using record_validate_ok [OF s(1)] assms(5) by simp
  have i: "reuse_identity semantic repository m pkg review k = None"
    using assms(11) by (simp add: reuse_identity_meaning [OF k(2)])
  have ev: "resolve 40 w' (report_path mutation_root input) = Some (File e)" by (rule resolve_file [OF assms(8)])
  have ve: "validate_report codec e False review = Inr result" using v e by simp
  have dg: "rr_digest result = er_report_digest k \<or> legacy_canonical_report_digest codec e = er_report_digest k"
    using assms(13) e same_meaning_fields(8) [OF k(2)] by auto
  have kg: "er_gate k = ''mutation''" "er_input_digest k = input" using k(3,4) assms(4,5) by simp_all
  show ?thesis
    unfolding reusable_def
    by (intro exI conjI) (fact assms(6) s(2) g lo k(1) kg i assms(12) ev ve dg)+
qed

section \<open>Runs\<close>

lemma review_architecture:
  assumes "campaign_review lib c pkg source = Inr (Some v)"
  shows "eq_architecture v = ri_goarch (cg_runtime c)"
  using assms
  by (auto simp: campaign_review_def review_inventory_def review_one_def Let_def
      split: option.splits list.splits if_splits)

lemma run_identity:
  assumes "campaign_review lib c pkg source = Inr review"
  shows "reuse_identity (semantic_digest_of lib) (cy_repository (cg_policy c)) (cy_module_directory (cg_policy c)) pkg review
    (run_record lib c s pkg input result w) = None"
proof -
  have a: "applicable_verifier_record (semantic_digest_of lib) (run_record lib c s pkg input result w)"
    by (simp add: applicable_verifier_record_def run_record_def)
  have g: "env_get (er_environment (run_record lib c s pkg input result w)) ''GOARCH'' = ri_goarch (cg_runtime c)"
    by (simp add: run_record_def env_get_def)
  have "eq_architecture v = ri_goarch (cg_runtime c)" if "review = Some v" for v
    using review_architecture assms that by blast
  then have "(case review of None \<Rightarrow> False
      | Some v \<Rightarrow> list_ex (\<lambda>k. em_goarchs k \<noteq> None \<and> ri_goarch (cg_runtime c) \<noteq> eq_architecture v) (eq_mutations v)) = False"
    by (cases review) (simp_all add: list_ex_iff)
  then show ?thesis unfolding reuse_identity_def g using a by (simp add: run_record_def)
qed

lemma publish_run_reusable:
  assumes "publish_run lib c s pkg input review report w = (w', None)"
    and "campaign_review lib c pkg source = Inr review"
    and "\<not> (case review of None \<Rightarrow> False | Some v \<Rightarrow> validate_execution v \<noteq> None)"
    and "node_at w' (record_path (cg_evidence_root c) ''mutation'' input) = Some (File d)"
    and "int (length d) \<le> evidence_maximum_size"
    and "node_at w' (report_path (cg_mutation_root c) input) = Some (File e)"
    and "\<And>result t. validate_report (lib_codec lib) e False review = Inr result \<Longrightarrow>
      roundtrips (lib_record_encode lib) (lib_record_decode lib) (run_record lib c s pkg input result t)"
    and "proper_decoder (lib_record_decode lib)"
  shows "reusable (lib_codec lib) (lib_record_decode lib) (semantic_digest_of lib) (cg_evidence_root c) (cg_mutation_root c)
    (cy_repository (cg_policy c)) (cy_module_directory (cg_policy c)) pkg input review w'"
proof -
  obtain w2 sr where sr: "store_report (lib_codec lib) (cg_mutation_root c) input report review w = (w2, sr)" by fastforce
  obtain p reused result stored where r: "sr = Inr (p, reused, result, stored)"
    using assms(1) sr by (cases sr) (auto simp: publish_run_def)
  let ?r = "run_record lib c s pkg input result w2"
  obtain se where se: "store_evidence (lib_record_encode lib) (lib_record_decode lib) (cg_evidence_root c) ?r w2 = (w', Inr se)"
    using assms(1) sr r by (auto simp: publish_run_def split: prod.splits sum.splits)
  obtain q again where qa: "se = (q, again)" by (cases se)
  note ok = store_report_ok [OF sr [unfolded r]]
  obtain n where n: "node_at w2 (report_path (cg_mutation_root c) input) = Some n" "\<forall>x. n = File x \<longrightarrow> x = stored"
    using ok by auto
  have "node_at w' (report_path (cg_mutation_root c) input) = Some n"
    by (rule store_evidence_keeps [OF se n(1)])
  with assms(6) n(2) have "e = stored" by simp
  then have v: "validate_report (lib_codec lib) e False review = Inr result" using ok by simp
  show ?thesis
    by (rule stored_reusable [OF sr [unfolded r] keeps_refl se [unfolded qa] _ _ assms(4,5,6) assms(7) [OF v] assms(8)
          run_identity [OF assms(2)] assms(3)])
      (simp_all add: run_record_def)
qed

text \<open>C1: A campaign is productive: after a package ran without an error, whatever calls failed and
  whatever other publishers did on the way, the reuse check over the same inputs and review
  finds its evidence (when no call fails), so that the package is not executed again. The
  records must decode to themselves, and the two destinations must be regular files.\<close>

theorem run_then_reuse:
  assumes "run_package lib c pkg s w = (w', Inr s')"
    and "package_inputs_for lib c pkg [legacy_digest_of lib] w = (w0, Inr inputs)"
    and "input = pi_current (get_inputs inputs (legacy_digest_of lib))"
    and "campaign_review lib c pkg (pi_source (get_inputs inputs (legacy_digest_of lib))) = Inr review"
    and "node_at w' (record_path (cg_evidence_root c) ''mutation'' input) = Some (File d)"
    and "int (length d) \<le> evidence_maximum_size"
    and "node_at w' (report_path (cg_mutation_root c) input) = Some (File e)"
    and "\<And>result t. validate_report (lib_codec lib) e False review = Inr result \<Longrightarrow>
      roundtrips (lib_record_encode lib) (lib_record_decode lib) (run_record lib c s' pkg input result t)"
    and "proper_decoder (lib_record_decode lib)"
  shows "\<exists>result. campaign_reuse lib c pkg input review (w'\<lparr>w_script := []\<rparr>) = (w'\<lparr>w_script := []\<rparr>, Inr (Some result))"
proof -
  let ?i = "get_inputs inputs (legacy_digest_of lib)"
  obtain w1 hit where u: "campaign_reuse lib c pkg input review w0 = (w1, hit)" by fastforce
  obtain found where f: "hit = Inr found"
    using assms(1,2,4) u by (cases hit) (auto simp: run_package_def Let_def assms(3))
  have r: "reusable (lib_codec lib) (lib_record_decode lib) (semantic_digest_of lib) (cg_evidence_root c) (cg_mutation_root c)
    (cy_repository (cg_policy c)) (cy_module_directory (cg_policy c)) pkg input review w'"
  proof (cases found)
    case (Some result)
    then have "w' = w1" using assms(1,2,4) u f by (simp add: run_package_def Let_def assms(3))
    then show ?thesis using u f Some hit_reusable unfolding campaign_reuse_def by blast
  next
    case None
    have v: "\<not> (case review of None \<Rightarrow> False | Some v \<Rightarrow> validate_execution v \<noteq> None)"
      using u f by (auto simp: campaign_reuse_def reuse_evidence_def split: if_splits)
    have x: "execute_package lib c s pkg ?i review w1 = (w', Inr s')"
      using assms(1,2,4) u f None by (simp add: run_package_def Let_def assms(3))
    obtain w2 s2 report w3 where "publish_run lib c s2 pkg input review report w3 = (w', None)" "s2 = s'"
      using x by (auto simp: execute_package_def assms(3) split: prod.splits sum.splits option.splits)
    then show ?thesis using publish_run_reusable assms(4-9) v by metis
  qed
  show ?thesis using reusable_hit r unfolding campaign_reuse_def by simp
qed

section \<open>Imports\<close>

lemma env_get_map_set: "env_get (map_set k v m) x = (if x = k then v else env_get m x)"
  by (simp add: env_get_def)

lemma imported_origin:
  "env_get (imported_environment environment) ''evidence_origin'' = ''approved_legacy_checkpoint''"
  by (simp add: imported_environment_def env_get_map_set) (simp add: env_get_def)

text \<open>The record of an import speaks for the current verifier, or for a historical one with the mark
  that the reuse check asks for.\<close>

lemma import_identity:
  assumes "checkpoint_guard lib c l seen k = None"
  shows "reuse_identity (semantic_digest_of lib) (cy_repository (cg_policy c)) (cy_module_directory (cg_policy c)) (cp_package k)
    None (import_record lib c l k input digest w) = None"
proof -
  let ?r = "import_record lib c l k input digest w" and ?v = "vr_verifier (ml_review l)"
  have "supported_legacy_verifier_digest (lib_embedded lib) (lib_sha256 lib) ?v"
    using assms by (simp add: checkpoint_guard_def)
  then have s: "?v = legacy_digest_of lib \<or> historical_verifier_digest ?v"
    by (simp add: supported_legacy_verifier_digest_def legacy_digest_of_def)
  have "applicable_verifier_record (semantic_digest_of lib) ?r"
  proof (cases "?v = legacy_digest_of lib")
    case True
    then show ?thesis
      by (simp add: applicable_verifier_record_def import_record_def Let_def semantic_digest_of_def
          semantic_verifier_digest_def legacy_digest_of_def)
  next
    case False
    have "er_verifier_digest ?r = ''sha256:'' @ ?v" by (simp add: import_record_def Let_def)
    with s False have "historical_verifier_digest (trim_prefix (er_verifier_digest ?r) ''sha256:'')"
      by (simp only: trim_prefix_append simp_thms)
    moreover have "env_get (er_environment ?r) ''evidence_origin'' = ''approved_legacy_checkpoint''"
      using False by (simp add: import_record_def Let_def env_get_map_set imported_origin legacy_package_path_compatibility_def)
    moreover have "env_get (er_environment ?r) legacy_package_path_compatibility = er_input_digest ?r"
      using False by (simp add: import_record_def Let_def env_get_map_set)
    ultimately show ?thesis by (simp add: applicable_verifier_record_def)
  qed
  then show ?thesis by (simp add: reuse_identity_def import_record_def Let_def)
qed

lemma known_report_digest_ok:
  assumes "known_report_digest lib c input bytes stored w = (w', Inr digest)"
  shows "keeps {} w w' \<and> (digest = rr_digest stored \<or> digest = legacy_canonical_report_digest (lib_codec lib) bytes)"
proof -
  obtain w1 r where l: "load_evidence (lib_record_decode lib) (cg_evidence_root c) ''mutation'' input w = (w1, r)" by fastforce
  then have "w' = w1"
    using assms by (auto simp: known_report_digest_def split: sum.splits evidence_error.splits io_error.splits)
  moreover have "digest = rr_digest stored \<or> digest = legacy_canonical_report_digest (lib_codec lib) bytes"
    using assms l by (auto simp: known_report_digest_def split: sum.splits evidence_error.splits io_error.splits if_splits)
  ultimately show ?thesis using load_keeps [OF l] by simp
qed

lemma import_store_reusable:
  assumes "import_store lib c l k input w = (w', None)" and "checkpoint_guard lib c l seen k = None"
    and "node_at w' (record_path (cg_evidence_root c) ''mutation'' input) = Some (File d)"
    and "int (length d) \<le> evidence_maximum_size"
    and "node_at w' (report_path (cg_mutation_root c) input) = Some (File e)"
    and "\<And>digest t. digest = cp_report_digest k \<or> digest = legacy_canonical_report_digest (lib_codec lib) e \<Longrightarrow>
      roundtrips (lib_record_encode lib) (lib_record_decode lib) (import_record lib c l k input digest t)"
    and "proper_decoder (lib_record_decode lib)"
  shows "reusable (lib_codec lib) (lib_record_decode lib) (semantic_digest_of lib) (cg_evidence_root c) (cg_mutation_root c)
    (cy_repository (cg_policy c)) (cy_module_directory (cg_policy c)) (cp_package k) input None w'"
proof -
  obtain w1 sr where sr: "store_report (lib_codec lib) (cg_mutation_root c) input (cp_report k) None w = (w1, sr)" by fastforce
  obtain p reused result stored where r: "sr = Inr (p, reused, result, stored)" "rr_digest result = cp_report_digest k"
    using assms(1) sr by (cases sr) (auto simp: import_store_def split: if_splits)
  have "\<not> (rr_digest result \<noteq> cp_report_digest k \<or> rr_mutants result \<noteq> cp_mutants k)"
    using assms(1) sr r(1) by (auto simp: import_store_def split: if_splits)
  then obtain w2 digest where kd: "known_report_digest lib c input stored result w1 = (w2, Inr digest)"
    using assms(1) sr r(1) by (auto simp: import_store_def split: if_splits prod.splits sum.splits)
  let ?r = "import_record lib c l k input digest w2"
  obtain se where se: "store_evidence (lib_record_encode lib) (lib_record_decode lib) (cg_evidence_root c) ?r w2 = (w', Inr se)"
    using assms(1) sr r kd by (auto simp: import_store_def split: if_splits prod.splits sum.splits)
  obtain q again where qa: "se = (q, again)" by (cases se)
  note k' = known_report_digest_ok [OF kd]
  obtain n where n: "node_at w1 (report_path (cg_mutation_root c) input) = Some n" "\<forall>x. n = File x \<longrightarrow> x = stored"
    using store_report_ok [OF sr [unfolded r(1)]] by auto
  have "node_at w2 (report_path (cg_mutation_root c) input) = Some n" using n(1) k' keepsD by blast
  then have "node_at w' (report_path (cg_mutation_root c) input) = Some n" by (rule store_evidence_keeps [OF se])
  with assms(5) n(2) have "e = stored" by simp
  then have g: "digest = cp_report_digest k \<or> digest = legacy_canonical_report_digest (lib_codec lib) e"
    using k' r(2) by simp
  have d: "er_report_digest ?r = rr_digest result \<or> er_report_digest ?r = legacy_canonical_report_digest (lib_codec lib) stored"
    using k' by (simp add: import_record_def Let_def)
  have k1: "keeps {} w1 w2" using k' by simp
  show ?thesis
    by (rule stored_reusable [OF sr [unfolded r(1)] k1 se [unfolded qa] _ _ assms(3,4,5) assms(6) [OF g] assms(7)
          import_identity [OF assms(2)] _ d]) (simp_all add: import_record_def Let_def)
qed

text \<open>C27: An imported checkpoint was approved and counts: it belongs to an enabled package of the
  campaign's module, selects every production file of the package, was executed on the
  campaign's platform, the ledger approves it for the current input or for one of the listed
  older identities of the same sources, and the evidence stored for it is what the reuse
  check of a later campaign finds.\<close>

theorem import_then_reuse:
  assumes "import_checkpoint lib c l seen k w = (w', Inr True)"
    and "package_inputs_for lib c (cp_package k) [legacy_digest_of lib, vr_verifier (ml_review l)] w = (w0, Inr inputs)"
    and "input = pi_current (get_inputs inputs (legacy_digest_of lib))"
    and "node_at w' (record_path (cg_evidence_root c) ''mutation'' input) = Some (File d)"
    and "int (length d) \<le> evidence_maximum_size"
    and "node_at w' (report_path (cg_mutation_root c) input) = Some (File e)"
    and "\<And>digest t. digest = cp_report_digest k \<or> digest = legacy_canonical_report_digest (lib_codec lib) e \<Longrightarrow>
      roundtrips (lib_record_encode lib) (lib_record_decode lib) (import_record lib c l k input digest t)"
    and "proper_decoder (lib_record_decode lib)"
  shows "cp_module k = cy_module_directory (cg_policy c) \<and> cp_package k \<in> set (cy_packages (cg_policy c)) \<and>
    ps_excluded (pi_selection (get_inputs inputs (legacy_digest_of lib))) = [] \<and>
    env_get (cp_environment k) ''GOOS'' = ri_goos (cg_runtime c) \<and>
    env_get (cp_environment k) ''GOARCH'' = ri_goarch (cg_runtime c) \<and>
    ledger_approve (legacy_canonical_report_digest (lib_codec lib)) l k (unprefixed input)
      (approval_inputs lib (vr_verifier (ml_review l)) inputs) (vr_verifier (ml_review l)) = None \<and>
    (\<exists>result. campaign_reuse lib c (cp_package k) input None (w'\<lparr>w_script := []\<rparr>) =
       (w'\<lparr>w_script := []\<rparr>, Inr (Some result)))"
proof -
  have g: "checkpoint_guard lib c l seen k = None"
    using assms(1) by (auto simp: import_checkpoint_def split: option.splits)
  have a: "checkpoint_applies lib c l k inputs w0 = Inr True"
    using assms(1,2) g by (auto simp: import_checkpoint_def split: sum.splits bool.splits)
  have s: "import_store lib c l k input w0 = (w', None)"
    using assms(1,2) g a by (auto simp: import_checkpoint_def assms(3) split: prod.splits option.splits)
  have hit: "\<exists>result. campaign_reuse lib c (cp_package k) input None (w'\<lparr>w_script := []\<rparr>) =
       (w'\<lparr>w_script := []\<rparr>, Inr (Some result))"
    using reusable_hit import_store_reusable [OF s g assms(4-8)] unfolding campaign_reuse_def by simp
  have "ps_excluded (pi_selection (get_inputs inputs (legacy_digest_of lib))) = [] \<and>
      env_get (cp_environment k) ''GOOS'' = ri_goos (cg_runtime c) \<and>
      env_get (cp_environment k) ''GOARCH'' = ri_goarch (cg_runtime c)"
    using a by (auto simp: checkpoint_applies_def Let_def split: if_splits)
  moreover from this have "ledger_approve (legacy_canonical_report_digest (lib_codec lib)) l k (unprefixed input)
      (approval_inputs lib (vr_verifier (ml_review l)) inputs) (vr_verifier (ml_review l)) = None"
    using a unfolding assms(3) by (auto simp: checkpoint_applies_def Let_def split: option.splits ledger_error.splits)
  moreover have "cp_module k = cy_module_directory (cg_policy c) \<and> cp_package k \<in> set (cy_packages (cg_policy c))"
    using g by (simp add: checkpoint_guard_def)
  ultimately show ?thesis using hit by blast
qed

section \<open>A campaign\<close>

text \<open>A module of one file, a tool that kills everything, and hashes that are all the same.\<close>

definition constant_sha256 :: "string \<Rightarrow> string" where
  "constant_sha256 d = replicate 64 CHR ''a''"

text \<open>The libraries around one record, which is what every stored record decodes to.\<close>

definition sample_libraries :: "evidence_record \<Rightarrow> libraries" where
  "sample_libraries r =
     \<lparr>lib_view = (\<lambda>w. sample_source_view), lib_walk = (\<lambda>w d. []), lib_range = id,
      lib_listing = (\<lambda>d. [Json_value sample_listed, Json_eof]),
      lib_input_encoder = (\<lambda>p ms v z. []), lib_selection_encoder = (\<lambda>i s t x. []),
      lib_codec = sample_codec, lib_record_encode = (\<lambda>r. ''r''),
      lib_record_decode = (\<lambda>d. if d = [CHR ''r'', CHR 0x0A] then (Json_value r, Json_eof) else (Json_failure, Json_eof)),
      lib_report_encode = (\<lambda>r. []),
      lib_metadata = (\<lambda>d. (Json_value \<lparr>dm_directory = ''/g'', dm_sum = gremlins_sum, dm_go_mod_sum = gremlins_go_mod_sum\<rparr>, Json_eof)),
      lib_package_clause = (\<lambda>n d. Some ''p''), lib_embedded = (\<lambda>n. []), lib_copy_tree = (\<lambda>s d w. (w, None)),
      lib_sha256 = constant_sha256, lib_elapsed = (\<lambda>v w. second)\<rparr>"

text \<open>Every process writes its name, the verifier binary and a report without mutants.\<close>

definition sample_process :: process where
  "sample_process m w =
     (add_node ''/w/verifier/golib-gremlins'' (File ''bin'') (add_node ''/w/report-root.json'' (File ''{}'') w),
      \<lparr>po_writes = [(Stdout, cm_program m)], po_error = None, po_cancelled = False\<rparr>)"

definition sample_campaign :: campaign where
  "sample_campaign =
     \<lparr>cg_root = ''/r'', cg_evidence_root = ''/r/e'', cg_mutation_root = ''/r/m'', cg_workspace = ''/w'',
      cg_policy = \<lparr>cy_repository = ''repo'', cy_module_directory = ''.'', cy_module_path = ''m'', cy_go_version = ''1.26'',
        cy_packages = [''.''], cy_test_tags = [], cy_build_tags = [], cy_required_services = [],
        cy_service_identities = [], cy_owned_modules = [], cy_workers = 1\<rparr>,
      cg_zero_reviews = \<lparr>zi_schema_version = 1, zi_packages = []\<rparr>,
      cg_equivalent_reviews = \<lparr>ei_schema_version = 1, ei_packages = None\<rparr>,
      cg_environment = [],
      cg_runtime = \<lparr>ri_go_version = ''go1.26'', ri_goos = ''linux'', ri_goarch = ''amd64'', ri_cgo_enabled = ''0''\<rparr>,
      cg_process = Some sample_process, cg_now = (\<lambda>w. 5)\<rparr>"

definition campaign_world :: world where
  "campaign_world = \<lparr>w_nodes = [(''/r'', Directory), (''/r/e'', Directory), (''/r/m'', Directory), (''/w'', Directory)],
     w_script = []\<rparr>"

definition sample_run_record :: evidence_record where
  "sample_run_record =
     \<lparr>er_schema_version = 1, er_repository = ''repo'', er_module = ''.'', er_package = ''.'', er_gate = ''mutation'',
      er_input_digest = sample_digest, er_verifier_digest = sample_digest, er_result = ''passed'',
      er_report_digest = sample_digest,
      er_environment = [(''GOVERSION'', ''go1.26''), (''GOOS'', ''linux''), (''GOARCH'', ''amd64''), (''CGO_ENABLED'', ''0''),
        (''gremlins_binary_sha256'', sample_digest)],
      er_completed_at = Some 5\<rparr>"

definition sample_started :: campaign_state where
  "sample_started = \<lparr>cs_tool = None, cs_profile = [], cs_elapsed = []\<rparr>"

definition sample_inputs :: package_inputs where
  "sample_inputs =
     \<lparr>pi_review = None, pi_current = sample_digest, pi_legacy = sample_digest, pi_unselected = sample_digest,
      pi_source = constant_sha256 [], pi_selection = \<lparr>ps_files = [''a.go''], ps_excluded = []\<rparr>\<rparr>"

abbreviation run_libraries :: libraries where
  "run_libraries \<equiv> sample_libraries sample_run_record"

lemma sample_verifier: "legacy_digest_of run_libraries = constant_sha256 []"
  by code_simp

lemma sample_package_inputs:
  "\<exists>w0. package_inputs_for run_libraries sample_campaign ''.'' [legacy_digest_of run_libraries] campaign_world =
     (w0, Inr [(legacy_digest_of run_libraries, sample_inputs)])"
proof -
  let ?run = "package_inputs_for run_libraries sample_campaign ''.'' [legacy_digest_of run_libraries] campaign_world"
  have "snd ?run = Inr [(legacy_digest_of run_libraries, sample_inputs)]" by code_simp
  then have "?run = (fst ?run, Inr [(legacy_digest_of run_libraries, sample_inputs)])" by (simp add: prod_eq_iff)
  then show ?thesis by blast
qed

lemma sample_decoder_proper:
  assumes "proper_environment r"
  shows "proper_decoder (lib_record_decode (sample_libraries r))"
    and "roundtrips (lib_record_encode (sample_libraries r)) (lib_record_decode (sample_libraries r)) r"
  using assms by (auto simp: proper_decoder_def roundtrips_def sample_libraries_def split: if_splits)

definition sample_done :: campaign_state where
  "sample_done =
     \<lparr>cs_tool = Some \<lparr>tl_path = ''/w/verifier/golib-gremlins'', tl_digest = sample_digest\<rparr>,
      cs_profile = ''/w/integration.coverage'', cs_elapsed = ''1m0s''\<rparr>"

definition run_world :: world where
  "run_world = fst (run_package run_libraries sample_campaign ''.'' sample_started campaign_world)"

lemma sample_run:
  "run_package run_libraries sample_campaign ''.'' sample_started campaign_world = (run_world, Inr sample_done)"
proof -
  have "snd (run_package run_libraries sample_campaign ''.'' sample_started campaign_world) = Inr sample_done"
    by code_simp
  then show ?thesis by (simp add: run_world_def prod_eq_iff)
qed

lemma sample_report_result:
  assumes "validate_report sample_codec ''{}'' False None = Inr result"
  shows "rr_digest result = sample_digest"
proof -
  have "validate_report sample_codec ''{}'' False None = Inr sample_result" by code_simp
  with assms have "result = sample_result" by simp
  then show ?thesis by (simp add: sample_result_def)
qed

theorem run_then_reuse_witness:
  "\<exists>result. campaign_reuse run_libraries sample_campaign ''.'' sample_digest None (run_world\<lparr>w_script := []\<rparr>) =
    (run_world\<lparr>w_script := []\<rparr>, Inr (Some result))"
proof -
  obtain w0 where i: "package_inputs_for run_libraries sample_campaign ''.'' [legacy_digest_of run_libraries] campaign_world =
     (w0, Inr [(legacy_digest_of run_libraries, sample_inputs)])"
    using sample_package_inputs by blast
  have g: "get_inputs [(legacy_digest_of run_libraries, sample_inputs)] (legacy_digest_of run_libraries) = sample_inputs"
    by (simp add: get_inputs_def)
  have d: "sample_digest = pi_current (get_inputs [(legacy_digest_of run_libraries, sample_inputs)] (legacy_digest_of run_libraries))"
    unfolding g by (simp add: sample_inputs_def)
  have r: "campaign_review run_libraries sample_campaign ''.''
      (pi_source (get_inputs [(legacy_digest_of run_libraries, sample_inputs)] (legacy_digest_of run_libraries))) = Inr None"
    by (simp add: campaign_review_def sample_campaign_def)
  have n: "node_at run_world (record_path (cg_evidence_root sample_campaign) ''mutation'' sample_digest) =
      Some (File [CHR ''r'', CHR 0x0A])"
    by code_simp
  have e: "node_at run_world (report_path (cg_mutation_root sample_campaign) sample_digest) = Some (File ''{}'')"
    by code_simp
  have p: "proper_environment sample_run_record" by (simp add: proper_environment_def sample_run_record_def)
  have c: "lib_codec run_libraries = sample_codec" by (simp add: sample_libraries_def)
  have s: "semantic_digest_of run_libraries = sample_digest" by code_simp
  have rt: "roundtrips (lib_record_encode run_libraries) (lib_record_decode run_libraries)
      (run_record run_libraries sample_campaign sample_done ''.'' sample_digest result t)"
    if "validate_report (lib_codec run_libraries) ''{}'' False None = Inr result" for result t
  proof -
    have "rr_digest result = sample_digest" using that sample_report_result unfolding c by blast
    then have "run_record run_libraries sample_campaign sample_done ''.'' sample_digest result t = sample_run_record"
      unfolding run_record_def s by (simp add: sample_campaign_def sample_done_def sample_run_record_def evidence_schema_version_def)
    then show ?thesis using sample_decoder_proper(2) [OF p] by simp
  qed
  have z: "int (length [CHR ''r'', CHR 0x0A]) \<le> evidence_maximum_size" by (simp add: evidence_maximum_size_def)
  show ?thesis
    by (rule run_then_reuse [OF sample_run i d r n z e rt sample_decoder_proper(1) [OF p]])
qed

text \<open>A checkpoint of the same package, approved by a ledger with one entry.\<close>

definition import_checkpoint_sample :: checkpoint where
  "import_checkpoint_sample =
     \<lparr>cp_module = ''.'', cp_package = ''.'', cp_execution_revision = replicate 40 CHR ''b'',
      cp_input_digest = constant_sha256 [], cp_input_lineage = [], cp_verifier_digest = [], cp_binary_digest = [],
      cp_verifier_source = [], cp_gremlins = ''v0.6.0'', cp_environment = [(''GOOS'', ''linux''), (''GOARCH'', ''amd64'')],
      cp_report_digest = sample_digest, cp_report = ''{}'', cp_mutants = 1\<rparr>"

definition import_ledger_sample :: migration_ledger where
  "import_ledger_sample =
     \<lparr>ml_schema_version = 3, ml_reason = [],
      ml_review = \<lparr>vr_verifier = constant_sha256 [], vr_reason = [], vr_reviewed_at = []\<rparr>,
      ml_verifier_migrations = [\<lparr>vm_execution_revision = replicate 40 CHR ''b'', vm_gate_input_digest = constant_sha256 [],
        vm_verifier = constant_sha256 [], vm_gremlins_version = ''v0.6.0'', vm_module = ''.'', vm_package = ''.'',
        vm_report_sha256 = constant_sha256 []\<rparr>],
      ml_entries = []\<rparr>"

definition sample_import_record :: evidence_record where
  "sample_import_record = sample_run_record\<lparr>er_environment :=
     [(''evidence_origin'', ''approved_legacy_checkpoint''), (''GOOS'', ''linux''), (''GOARCH'', ''amd64'')]\<rparr>"

abbreviation import_libraries :: libraries where
  "import_libraries \<equiv> sample_libraries sample_import_record"

definition import_world :: world where
  "import_world = fst (import_checkpoint import_libraries sample_campaign import_ledger_sample [] import_checkpoint_sample campaign_world)"

lemma sample_import:
  "import_checkpoint import_libraries sample_campaign import_ledger_sample [] import_checkpoint_sample campaign_world =
     (import_world, Inr True)"
proof -
  have "snd (import_checkpoint import_libraries sample_campaign import_ledger_sample [] import_checkpoint_sample campaign_world) = Inr True"
    by code_simp
  then show ?thesis by (simp add: import_world_def prod_eq_iff)
qed

theorem import_then_reuse_witness:
  "\<exists>result. campaign_reuse import_libraries sample_campaign ''.'' sample_digest None (import_world\<lparr>w_script := []\<rparr>) =
    (import_world\<lparr>w_script := []\<rparr>, Inr (Some result))"
proof -
  let ?v = "legacy_digest_of import_libraries" and ?k = import_checkpoint_sample and ?l = import_ledger_sample
  let ?run = "package_inputs_for import_libraries sample_campaign (cp_package ?k) [?v, vr_verifier (ml_review ?l)] campaign_world"
  have "snd ?run = Inr [(?v, sample_inputs)]" by code_simp
  then have i: "?run = (fst ?run, Inr [(?v, sample_inputs)])" by (simp add: prod_eq_iff)
  have g: "get_inputs [(?v, sample_inputs)] ?v = sample_inputs" by (simp add: get_inputs_def)
  have d: "sample_digest = pi_current (get_inputs [(?v, sample_inputs)] ?v)"
    unfolding g by (simp add: sample_inputs_def)
  have n: "node_at import_world (record_path (cg_evidence_root sample_campaign) ''mutation'' sample_digest) =
      Some (File [CHR ''r'', CHR 0x0A])"
    by code_simp
  have e: "node_at import_world (report_path (cg_mutation_root sample_campaign) sample_digest) = Some (File ''{}'')"
    by code_simp
  have p: "proper_environment sample_import_record" by (simp add: proper_environment_def sample_import_record_def)
  have l: "legacy_canonical_report_digest (lib_codec import_libraries) ''{}'' = sample_digest" by code_simp
  have v: "?v = constant_sha256 []" by code_simp
  have vl: "vr_verifier (ml_review ?l) = constant_sha256 []" by (simp add: import_ledger_sample_def)
  have rt: "roundtrips (lib_record_encode import_libraries) (lib_record_decode import_libraries)
      (import_record import_libraries sample_campaign ?l ?k sample_digest digest t)"
    if "digest = cp_report_digest ?k \<or> digest = legacy_canonical_report_digest (lib_codec import_libraries) ''{}''" for digest t
  proof -
    have "digest = sample_digest" using that l by (auto simp: import_checkpoint_sample_def)
    then have "import_record import_libraries sample_campaign ?l ?k sample_digest digest t = sample_import_record"
      unfolding import_record_def Let_def v vl
      by (simp add: import_checkpoint_sample_def sample_campaign_def sample_import_record_def sample_run_record_def evidence_schema_version_def imported_environment_def env_get_def
          sample_digest_def constant_sha256_def)
    then show ?thesis using sample_decoder_proper(2) [OF p] by simp
  qed
  have z: "int (length [CHR ''r'', CHR 0x0A]) \<le> evidence_maximum_size" by (simp add: evidence_maximum_size_def)
  have "cp_package ?k = ''.''" by (simp add: import_checkpoint_sample_def)
  with import_then_reuse [OF sample_import i d n z e rt sample_decoder_proper(1) [OF p]] show ?thesis by simp
qed

end
