(* ===== verification/Upgrade.thy ===== *)
theory Upgrade
  imports Repository_File Mutation_Review
begin

text \<open>
  internal/upgrade: the coordinated rewrite of the tooling pins in \<open>.golib.yaml\<close> and the CI
  workflow. The regular expressions are multi-line expressions anchored at both ends of a
  line and none of them can match a line break, so a match is a whole line: the model works
  on the lines of the text. Reading is an argument of \<open>build_plan\<close>, as in the source.
\<close>

section \<open>Requests and results\<close>

record upgrade_request =
  uq_version :: string
  uq_workflow_sha :: string
  uq_checksums :: string

record upgrade_file =
  uf_path :: string
  uf_changed :: bool

record upgrade_result =
  ur_schema_version :: int
  ur_request :: upgrade_request
  ur_changed :: bool
  ur_files :: "upgrade_file list"
  ur_configuration :: string
  ur_workflow :: string
  ur_original :: "(string \<times> string) list"

datatype upgrade_error =
    Request_version | Request_sha | Request_checksums | Configuration_unread repository_error
  | Workflow_unread repository_error | Version_pin_count | Digest_pin_count | Use_pin_count
  | Input_pin_count | Pins_differ | Write_configuration_failed | Write_workflow_failed "bool option"

definition maximum_upgrade_file_size :: int where
  "maximum_upgrade_file_size = 1048576"

definition configuration_path :: string where
  "configuration_path = ''.golib.yaml''"

definition workflow_path :: string where
  "workflow_path = ''.github/workflows/ci.yml''"

definition request_validate :: "upgrade_request \<Rightarrow> upgrade_error option" where
  "request_validate q = first_error
     [refuse (\<not> engine_version_re (uq_version q)) Request_version,
      refuse (\<not> revision_re (uq_workflow_sha q)) Request_sha,
      refuse (\<not> raw_digest_re (uq_checksums q)) Request_checksums]"

section \<open>The pinned lines\<close>

definition new_line :: char where
  "new_line = CHR 0x0A"

definition is_tab_space :: "char \<Rightarrow> bool" where
  "is_tab_space c \<longleftrightarrow> c = CHR '' '' \<or> c = CHR 0x09"

definition strip_end :: "string \<Rightarrow> string" where
  "strip_end s = rev (dropWhile is_tab_space (rev s))"

text \<open>A line \<open>key[ \t]*(value)[ \t]*\<close>: the text kept by \<open>${1}\<close>, and the value.\<close>

definition match_pin :: "string \<Rightarrow> (string \<Rightarrow> bool) \<Rightarrow> string \<Rightarrow> (string \<times> string) option" where
  "match_pin key ok line =
     (if \<not> has_prefix line key then None
      else (let rest = drop (length key) line; core = strip_end (dropWhile is_tab_space rest)
            in if ok core then Some (key @ takeWhile is_tab_space rest, core) else None))"

text \<open>The same behind leading blanks.\<close>

definition match_indented :: "(string \<Rightarrow> (string \<times> string) option) \<Rightarrow> string \<Rightarrow> (string \<times> string) option" where
  "match_indented matcher line =
     map_option (\<lambda>(g, v). (takeWhile is_tab_space line @ g, v)) (matcher (dropWhile is_tab_space line))"

definition config_version :: "string \<Rightarrow> (string \<times> string) option" where
  "config_version = match_pin ''tool_version:'' engine_version_re"

definition config_digest :: "string \<Rightarrow> (string \<times> string) option" where
  "config_digest = match_pin ''tool_checksums_sha256:'' raw_digest_re"

definition workflow_input :: "string \<Rightarrow> (string \<times> string) option" where
  "workflow_input = match_indented (match_pin ''tooling_sha:'' revision_re)"

definition workflow_target :: string where
  "workflow_target = ''faustbrian/go-library-tools/.github/workflows/library-ci.yml@''"

text \<open>What may follow the reference: blanks, or blanks and a comment without carriage return.\<close>

definition use_tail :: "string \<Rightarrow> bool" where
  "use_tail r \<longleftrightarrow>
     list_all is_tab_space r \<or>
     (takeWhile is_tab_space r \<noteq> [] \<and>
      (case dropWhile is_tab_space r of
         [] \<Rightarrow> False
       | c # comment \<Rightarrow> c = CHR ''#'' \<and> \<not> List.member comment CHR 0x0D))"

definition match_use :: "string \<Rightarrow> (string \<times> string) option" where
  "match_use line =
     (if \<not> has_prefix line ''uses:'' then None
      else (let rest = drop 5 line; blanks = takeWhile is_tab_space rest; target = dropWhile is_tab_space rest
            in if \<not> has_prefix target workflow_target then None
               else (let behind = drop (length workflow_target) target; sha = take 40 behind
                     in if revision_re sha \<and> use_tail (drop 40 behind)
                        then Some (''uses:'' @ blanks @ workflow_target, sha) else None)))"

definition workflow_use :: "string \<Rightarrow> (string \<times> string) option" where
  "workflow_use = match_indented match_use"

section \<open>Rewriting\<close>

definition text_lines :: "string \<Rightarrow> string list" where
  "text_lines = split_on new_line"

definition unlines :: "string list \<Rightarrow> string" where
  "unlines = join_with [new_line]"

text \<open>\<open>FindAllSubmatchIndex\<close> and \<open>ReplaceAll\<close> with \<open>${1}value\<close>.\<close>

definition matches_of :: "(string \<Rightarrow> (string \<times> string) option) \<Rightarrow> string list \<Rightarrow> (string \<times> string) list" where
  "matches_of matcher ls = List.map_filter matcher ls"

definition replace_pins :: "(string \<Rightarrow> (string \<times> string) option) \<Rightarrow> string \<Rightarrow> string list \<Rightarrow> string list" where
  "replace_pins matcher v ls = map (\<lambda>l. case matcher l of None \<Rightarrow> l | Some (g, _) \<Rightarrow> g @ v) ls"

text \<open>The insertion of a line behind the first match.\<close>

fun insert_behind :: "(string \<Rightarrow> (string \<times> string) option) \<Rightarrow> string \<Rightarrow> string list \<Rightarrow> string list" where
  "insert_behind matcher new [] = []"
| "insert_behind matcher new (l # ls) =
     (if matcher l \<noteq> None then l # new # ls else l # insert_behind matcher new ls)"

definition rewrite_configuration :: "string \<Rightarrow> upgrade_request \<Rightarrow> upgrade_error + string" where
  "rewrite_configuration content q =
     (let ls = text_lines content
      in if length (matches_of config_version ls) \<noteq> 1 then Inl Version_pin_count
         else (let updated = replace_pins config_version (uq_version q) ls
               in case matches_of config_digest updated of
                    [] \<Rightarrow> Inr (unlines (insert_behind config_version
                            (''tool_checksums_sha256: '' @ uq_checksums q) updated))
                  | [_] \<Rightarrow> Inr (unlines (replace_pins config_digest (uq_checksums q) updated))
                  | _ \<Rightarrow> Inl Digest_pin_count))"

definition rewrite_workflow :: "string \<Rightarrow> upgrade_request \<Rightarrow> upgrade_error + string" where
  "rewrite_workflow content q =
     (let ls = text_lines content
      in case matches_of workflow_use ls of
           [(_, use_sha)] \<Rightarrow>
             (case matches_of workflow_input ls of
                [(_, input_sha)] \<Rightarrow>
                  if use_sha \<noteq> input_sha then Inl Pins_differ
                  else Inr (unlines (replace_pins workflow_input (uq_workflow_sha q)
                         (replace_pins workflow_use (uq_workflow_sha q @ '' # '' @ uq_version q) ls)))
              | _ \<Rightarrow> Inl Input_pin_count)
         | _ \<Rightarrow> Inl Use_pin_count)"

definition build_plan ::
  "(string \<Rightarrow> int \<Rightarrow> repository_error + string) \<Rightarrow> upgrade_request \<Rightarrow> upgrade_error + upgrade_result" where
  "build_plan read q =
     with_check (request_validate q)
       (case read configuration_path maximum_upgrade_file_size of
          Inl e \<Rightarrow> Inl (Configuration_unread e)
        | Inr configuration \<Rightarrow>
            (case read workflow_path maximum_upgrade_file_size of
               Inl e \<Rightarrow> Inl (Workflow_unread e)
             | Inr workflow \<Rightarrow>
                 and_then (rewrite_configuration configuration q) (\<lambda>new_configuration.
                 and_then (rewrite_workflow workflow q) (\<lambda>new_workflow.
                   let changed_workflow = (workflow \<noteq> new_workflow);
                       changed_configuration = (configuration \<noteq> new_configuration)
                   in Inr \<lparr>ur_schema_version = 1, ur_request = q,
                           ur_changed = (changed_workflow \<or> changed_configuration),
                           ur_files = [\<lparr>uf_path = workflow_path, uf_changed = changed_workflow\<rparr>,
                                       \<lparr>uf_path = configuration_path, uf_changed = changed_configuration\<rparr>],
                           ur_configuration = new_configuration, ur_workflow = new_workflow,
                           ur_original = [(configuration_path, configuration), (workflow_path, workflow)]\<rparr>))))"

section \<open>Replacing the files\<close>

definition write_replacement :: "string \<Rightarrow> string \<Rightarrow> string \<Rightarrow> world \<Rightarrow> world \<times> io_error option" where
  "write_replacement temporary target content w =
     (let (w, e) = write_temporary temporary content w
      in if e \<noteq> None then (w, e) else sys_rename temporary target w)"

definition atomic_write :: "string \<Rightarrow> string \<Rightarrow> string \<Rightarrow> world \<Rightarrow> world \<times> io_error option" where
  "atomic_write base relative content w =
     (let target = path_join [base, relative]
      in case sys_lstat target w of
           (w, Inl e) \<Rightarrow> (w, Some e)
         | (w, Inr (File _)) \<Rightarrow>
             (case sys_create_temp (path_dir target) ''.golib-upgrade-'' w of
                (w, Inl e) \<Rightarrow> (w, Some e)
              | (w, Inr temporary) \<Rightarrow>
                  (let (w, r) = write_replacement temporary target content w
                   in (sys_remove temporary w, r)))
         | (w, Inr _) \<Rightarrow> (w, Some Err_other))"

definition result_changed :: "upgrade_result \<Rightarrow> nat \<Rightarrow> bool" where
  "result_changed r k \<longleftrightarrow> uf_changed (ur_files r ! k)"

definition original_content :: "upgrade_result \<Rightarrow> string \<Rightarrow> string" where
  "original_content r p = (case map_of (ur_original r) p of None \<Rightarrow> [] | Some c \<Rightarrow> c)"

text \<open>The error of a failed workflow write says whether the restoration was needed and worked.\<close>

definition apply_workflow :: "string \<Rightarrow> upgrade_result \<Rightarrow> world \<Rightarrow> world \<times> (upgrade_error + upgrade_result)" where
  "apply_workflow base r w =
     (case atomic_write base workflow_path (ur_workflow r) w of
        (w, None) \<Rightarrow> (w, Inr r)
      | (w, Some e) \<Rightarrow>
          if result_changed r 1
          then (let (w, rollback) = atomic_write base configuration_path (original_content r configuration_path) w
                in (w, Inl (Write_workflow_failed (Some (rollback = None)))))
          else (w, Inl (Write_workflow_failed None)))"

definition apply_result :: "string \<Rightarrow> upgrade_result \<Rightarrow> world \<Rightarrow> world \<times> (upgrade_error + upgrade_result)" where
  "apply_result base r w =
     (let (w, written) =
        (if result_changed r 1 then atomic_write base configuration_path (ur_configuration r) w else (w, None))
      in if written \<noteq> None then (w, Inl Write_configuration_failed)
         else if result_changed r 0 then apply_workflow base r w
         else (w, Inr r))"

text \<open>\<open>Apply\<close>: the plan from the files as they are read, then the replacement.\<close>

definition upgrade_apply ::
  "string \<Rightarrow> (string \<Rightarrow> int \<Rightarrow> repository_error + string) \<Rightarrow> upgrade_request \<Rightarrow> world \<Rightarrow> world \<times> (upgrade_error + upgrade_result)" where
  "upgrade_apply base read q w =
     (case build_plan read q of Inl e \<Rightarrow> (w, Inl e) | Inr r \<Rightarrow> apply_result base r w)"

definition human_result :: "upgrade_result \<Rightarrow> bool \<Rightarrow> string" where
  "human_result r applied =
     (if \<not> ur_changed r then ''tooling pins already current'' @ [new_line]
      else ''tooling pins '' @ (if applied then ''updated'' else ''planned'') @ '': '' @
           join_with '', '' (map uf_path (filter uf_changed (ur_files r))) @ [new_line])"

end
