(* ===== verification/Upgrade_Facts.thy ===== *)
theory Upgrade_Facts
  imports Upgrade
begin

text \<open>
  The rewrite of a pin: the locale \<open>pin\<close> states what the four line expressions have in common,
  each of them is an interpretation, and the two rewrites follow from its lemmas. Then the
  replacement of a file on disk: old or new content, whatever fails.
\<close>

section \<open>Lines\<close>

lemma lines_unlines: "ls \<noteq> [] \<Longrightarrow> \<forall>l \<in> set ls. new_line \<notin> set l \<Longrightarrow> text_lines (unlines ls) = ls"
  unfolding text_lines_def unlines_def by (rule split_join)

lemma unlines_lines [simp]: "unlines (text_lines s) = s"
  by (simp add: text_lines_def unlines_def)

lemma text_lines_plain: "l \<in> set (text_lines s) \<Longrightarrow> new_line \<notin> set l"
  unfolding text_lines_def by (rule split_on_no_sep)

lemma text_lines_nonempty [simp]: "text_lines s \<noteq> []"
  by (simp add: text_lines_def)

text \<open>Values without blanks and line breaks.\<close>

definition solid :: "string \<Rightarrow> bool" where
  "solid v \<longleftrightarrow> v \<noteq> [] \<and> list_all (\<lambda>c. \<not> is_tab_space c \<and> c \<noteq> new_line) v"

lemma solid_hex: "hex_text n s \<Longrightarrow> 0 < n \<Longrightarrow> solid s"
proof -
  assume h: "hex_text n s" "0 < n"
  have "\<not> is_tab_space c \<and> c \<noteq> new_line" if "c \<in> set ''0123456789abcdef''" for c
    using that by (auto simp: is_tab_space_def new_line_def)
  moreover have "c \<in> set ''0123456789abcdef''" if "c \<in> set s" for c
    using h(1) that unfolding hex_text_def all_in_def list_all_iff by simp
  moreover have "s \<noteq> []" using h by (auto simp: hex_text_def)
  ultimately show "solid s" unfolding solid_def list_all_iff by blast
qed

lemma solid_values [simp]: "revision_re s \<Longrightarrow> solid s" "raw_digest_re s \<Longrightarrow> solid s"
  using solid_hex [of 40 s] solid_hex [of 64 s] by (simp_all add: revision_re_def raw_digest_re_def)

lemma digit_solid: "is_digit c \<Longrightarrow> \<not> is_tab_space c \<and> c \<noteq> new_line"
  by (auto simp: is_digit_def is_tab_space_def new_line_def less_eq_char_def)

lemma version_chars:
  assumes "engine_version_re v" shows "\<exists>a b c. v = ''v'' @ a @ ''.'' @ b @ ''.'' @ c \<and> digits1 a \<and> digits1 b \<and> digits1 c"
proof -
  from assms obtain w where w: "v = ''v'' @ w" by (auto simp: engine_version_re_def has_prefix_iff)
  then have t: "trim_prefix v ''v'' = w" by (simp only: trim_prefix_append)
  from assms obtain a b c where s: "split_on CHR ''.'' w = [a, b, c]" "digits1 a" "digits1 b" "digits1 c"
    unfolding engine_version_re_def t by (auto split: list.splits)
  have "w = join_with [CHR ''.''] [a, b, c]" using join_split [of "CHR ''.''" w] s(1) by simp
  with s w show ?thesis by auto
qed

lemma solid_version [simp]: "engine_version_re v \<Longrightarrow> solid v"
proof -
  assume "engine_version_re v"
  then obtain a b c where v: "v = ''v'' @ a @ ''.'' @ b @ ''.'' @ c" "digits1 a" "digits1 b" "digits1 c"
    using version_chars by blast
  have d: "list_all (\<lambda>c. \<not> is_tab_space c \<and> c \<noteq> new_line) w" if "digits1 w" for w
    using that digit_solid by (simp add: digits1_def list_all_iff)
  show ?thesis using d v(2-4) by (simp add: solid_def v(1)) (simp add: is_tab_space_def new_line_def)
qed

lemma solid_start: "solid v \<Longrightarrow> dropWhile is_tab_space (bs @ v) = v \<and> takeWhile is_tab_space (bs @ v) = bs"
  if "list_all is_tab_space bs"
  using that by (cases v) (auto simp: solid_def list_all_iff dropWhile_append2 takeWhile_append2)

lemma solid_end: "solid v \<Longrightarrow> strip_end v = v"
proof -
  assume s: "solid v"
  then obtain u c where "v = u @ [c]" by (cases v rule: rev_cases) (auto simp: solid_def)
  with s show ?thesis by (simp add: strip_end_def solid_def)
qed

lemma set_dropWhile_subset: "set (dropWhile P xs) \<subseteq> set xs"
  by (induction xs) auto

section \<open>The contract of a pin expression\<close>

definition settled :: "(string \<Rightarrow> (string \<times> string) option) \<Rightarrow> string \<Rightarrow> string list \<Rightarrow> bool" where
  "settled matcher t ls \<longleftrightarrow> (\<forall>l \<in> set ls. \<forall>g u. matcher l = Some (g, u) \<longrightarrow> l = g @ t)"

lemma settled_replace: "settled matcher t ls \<Longrightarrow> replace_pins matcher t ls = ls"
  unfolding replace_pins_def by (rule map_idI) (auto simp: settled_def split: option.splits)

lemma matches_of_simps [simp]:
  "matches_of matcher [] = []"
  "matches_of matcher (l # ls) = (case matcher l of None \<Rightarrow> matches_of matcher ls | Some p \<Rightarrow> p # matches_of matcher ls)"
  by (simp_all add: matches_of_def map_filter_simps split: option.split)

lemma replace_pins_simps [simp]:
  "replace_pins matcher t [] = []"
  "replace_pins matcher t (l # ls) =
     (case matcher l of None \<Rightarrow> l | Some (g, _) \<Rightarrow> g @ t) # replace_pins matcher t ls"
  by (simp_all add: replace_pins_def)

lemma matches_none: "matches_of matcher ls = [] \<Longrightarrow> k \<in> set ls \<Longrightarrow> matcher k = None"
  by (induction ls) (auto split: option.splits)

text \<open>Two expressions that never match the same line.\<close>

definition apart :: "(string \<Rightarrow> (string \<times> string) option) \<Rightarrow> (string \<Rightarrow> (string \<times> string) option) \<Rightarrow> bool" where
  "apart m n \<longleftrightarrow> (\<forall>l. m l = None \<or> n l = None)"

text \<open>A matched line, its value replaced by a valid text, matches again with the same kept text.\<close>

locale pin =
  fixes matcher :: "string \<Rightarrow> (string \<times> string) option" and valid :: "string \<Rightarrow> bool" and pin_value :: "string \<Rightarrow> string"
  assumes stable: "matcher l = Some (g, u) \<Longrightarrow> valid t \<Longrightarrow> matcher (g @ t) = Some (g, pin_value t)"
    and kept: "matcher l = Some (g, u) \<Longrightarrow> set g \<subseteq> set l"
    and valid_line: "valid t \<Longrightarrow> new_line \<notin> set t"
begin

lemma matches_replace:
  "valid t \<Longrightarrow> matches_of matcher (replace_pins matcher t ls) = map (\<lambda>(g, _). (g, pin_value t)) (matches_of matcher ls)"
  by (induction ls) (auto simp: stable split: option.splits)

lemma settled_self: "valid t \<Longrightarrow> settled matcher t (replace_pins matcher t ls)"
  by (auto simp: settled_def replace_pins_def stable split: option.splits)

lemma matched_stays: "valid t \<Longrightarrow> apart matcher other \<Longrightarrow> matcher l = Some (g, u) \<Longrightarrow> other (g @ t) = None \<and> other l = None"
  using stable [of l g u t] by (auto simp: apart_def) (metis option.distinct(1))+

lemma matches_other:
  "valid t \<Longrightarrow> apart matcher other \<Longrightarrow> matches_of other (replace_pins matcher t ls) = matches_of other ls"
  by (induction ls) (auto simp: matched_stays split: option.splits)

lemma settled_other:
  "valid t \<Longrightarrow> apart matcher other \<Longrightarrow> settled other v ls \<Longrightarrow> settled other v (replace_pins matcher t ls)"
  by (auto simp: settled_def replace_pins_def matched_stays split: option.splits)

lemma replace_unmatched:
  "valid t \<Longrightarrow> filter (\<lambda>l. matcher l = None \<and> P l) (replace_pins matcher t ls) = filter (\<lambda>l. matcher l = None \<and> P l) ls"
  by (induction ls) (auto simp: stable split: option.splits)

lemma replace_lines:
  "valid t \<Longrightarrow> \<forall>l \<in> set ls. new_line \<notin> set l \<Longrightarrow> \<forall>l \<in> set (replace_pins matcher t ls). new_line \<notin> set l"
  using valid_line by (fastforce simp: replace_pins_def dest: kept split: option.splits)

end

lemma match_pin_ok:
  assumes "match_pin key ok line = Some (g, v)"
  obtains bs tail where "line = key @ bs @ v @ tail" and "g = key @ bs" and "list_all is_tab_space bs" and "ok v"
proof -
  from assms obtain rest where l: "line = key @ rest" and p: "has_prefix line key"
    by (auto simp: match_pin_def has_prefix_iff split: if_splits)
  have d: "drop (length key) line = rest" using l by simp
  have r: "g = key @ takeWhile is_tab_space rest" "v = strip_end (dropWhile is_tab_space rest)" "ok v"
    using assms p by (simp_all add: match_pin_def d Let_def split: if_splits)
  obtain tail where t: "dropWhile is_tab_space rest = v @ tail"
    using r(2) unfolding strip_end_def
    by (metis rev_append rev_rev_ident takeWhile_dropWhile_id)
  have "line = key @ takeWhile is_tab_space rest @ v @ tail"
    using l t by (metis takeWhile_dropWhile_id)
  then show thesis using that r by (auto simp: list_all_iff dest: set_takeWhileD)
qed

lemma match_pin_again:
  assumes "list_all is_tab_space bs" and "solid v" and "ok v"
  shows "match_pin key ok ((key @ bs) @ v) = Some (key @ bs, v)"
  using assms solid_start [OF assms(1)] solid_end by (simp add: match_pin_def Let_def)

lemma match_pin_prefix: "match_pin key ok l \<noteq> None \<Longrightarrow> has_prefix l key"
  by (auto simp: match_pin_def split: if_splits)

lemma pin_match_pin:
  assumes "\<And>v. ok v \<Longrightarrow> solid v" shows "pin (match_pin key ok) ok (\<lambda>v. v)"
proof unfold_locales
  show "match_pin key ok (g @ t) = Some (g, t)" if "match_pin key ok l = Some (g, u)" "ok t" for l g u t
    using that(1) by (rule match_pin_ok) (use that(2) assms match_pin_again in blast)
  show "set g \<subseteq> set l" if "match_pin key ok l = Some (g, u)" for l g u
    using that by (rule match_pin_ok) auto
  show "new_line \<notin> set t" if "ok t" for t
    using assms [OF that] by (auto simp: solid_def list_all_iff)
qed

text \<open>Leading blanks keep the contract when no match starts with a blank.\<close>

lemma pin_indented:
  assumes "pin matcher valid val" and start: "\<And>l g u. matcher l = Some (g, u) \<Longrightarrow> g \<noteq> [] \<and> \<not> is_tab_space (hd g)"
  shows "pin (match_indented matcher) valid val"
proof unfold_locales
  have shape: "\<exists>b h. b = takeWhile is_tab_space l \<and> g = b @ h \<and> list_all is_tab_space b \<and>
      matcher (dropWhile is_tab_space l) = Some (h, u)" if "match_indented matcher l = Some (g, u)" for l g u
    using that by (auto simp: match_indented_def list_all_iff dest: set_takeWhileD)
  have plain: "dropWhile is_tab_space (b @ h @ t) = h @ t \<and> takeWhile is_tab_space (b @ h @ t) = b"
    if "list_all is_tab_space b" "h \<noteq> []" "\<not> is_tab_space (hd h)" for b h t
    using that by (cases h) (auto simp: list_all_iff dropWhile_append2 takeWhile_append2)
  show "match_indented matcher (g @ t) = Some (g, val t)"
    if "match_indented matcher l = Some (g, u)" "valid t" for l g u t
  proof -
    from shape [OF that(1)] obtain b h where h: "g = b @ h" "list_all is_tab_space b"
      "matcher (dropWhile is_tab_space l) = Some (h, u)" by blast
    with plain [of b h t] start [OF h(3)] pin.stable [OF assms(1) h(3) that(2)] show ?thesis
      by (simp add: match_indented_def)
  qed
  show "set g \<subseteq> set l" if "match_indented matcher l = Some (g, u)" for l g u
  proof -
    from shape [OF that] obtain b h where h: "b = takeWhile is_tab_space l" "g = b @ h"
      "matcher (dropWhile is_tab_space l) = Some (h, u)" by blast
    have "set h \<subseteq> set (dropWhile is_tab_space l)" using pin.kept [OF assms(1) h(3)] .
    also have "set (dropWhile is_tab_space l) \<subseteq> set l" by (rule set_dropWhile_subset)
    finally show ?thesis unfolding h(1,2) by (auto dest: set_takeWhileD)
  qed
  show "new_line \<notin> set t" if "valid t" for t using pin.valid_line [OF assms(1) that] .
qed

section \<open>The four expressions\<close>

interpretation version_pin: pin config_version engine_version_re "\<lambda>v. v"
  unfolding config_version_def by (rule pin_match_pin) simp

interpretation digest_pin: pin config_digest raw_digest_re "\<lambda>v. v"
  unfolding config_digest_def by (rule pin_match_pin) simp

interpretation input_pin: pin workflow_input revision_re "\<lambda>v. v"
  unfolding workflow_input_def
  by (rule pin_indented, rule pin_match_pin) (auto elim!: match_pin_ok simp: is_tab_space_def)

text \<open>The replacement of a reference: a commit, a blank, and the version as a comment.\<close>

definition use_text :: "string \<Rightarrow> bool" where
  "use_text t \<longleftrightarrow> (\<exists>sha version. t = sha @ '' # '' @ version \<and> revision_re sha \<and> engine_version_re version)"

lemma match_use_ok:
  assumes "match_use line = Some (g, v)"
  obtains bs tail where "line = ''uses:'' @ bs @ workflow_target @ v @ tail"
    and "g = ''uses:'' @ bs @ workflow_target" and "list_all is_tab_space bs" and "revision_re v"
proof -
  let ?rest = "drop 5 line" let ?target = "dropWhile is_tab_space (drop 5 line)"
  have u: "has_prefix line ''uses:''" and w: "has_prefix ?target workflow_target"
    and g: "g = ''uses:'' @ takeWhile is_tab_space ?rest @ workflow_target"
    and v: "v = take 40 (drop (length workflow_target) ?target)" "revision_re v"
    using assms by (auto simp: match_use_def Let_def split: if_splits)
  have "line = ''uses:'' @ ?rest" using u by (auto simp: has_prefix_iff)
  also have "?rest = takeWhile is_tab_space ?rest @ ?target" by simp
  also have "?target = workflow_target @ drop (length workflow_target) ?target"
    using w by (auto simp: has_prefix_iff)
  also have "drop (length workflow_target) ?target = v @ drop 40 (drop (length workflow_target) ?target)"
    unfolding v(1) by (simp only: append_take_drop_id)
  finally have "line = ''uses:'' @ takeWhile is_tab_space ?rest @ workflow_target @ v @
      drop 40 (drop (length workflow_target) ?target)" .
  moreover have "list_all is_tab_space (takeWhile is_tab_space ?rest)"
    unfolding list_all_iff by (blast dest: set_takeWhileD)
  ultimately show thesis using that g v(2) by blast
qed

lemma version_no_return: "engine_version_re v \<Longrightarrow> CHR 0x0D \<notin> set v"
proof
  assume "engine_version_re v" "CHR 0x0D \<in> set v"
  then obtain a b c where "CHR 0x0D \<in> set a \<union> set b \<union> set c" "digits1 a" "digits1 b" "digits1 c"
    using version_chars by fastforce
  then show False by (auto simp: digits1_def list_all_iff is_digit_def less_eq_char_def)
qed

lemma match_use_again:
  assumes "list_all is_tab_space bs" and "revision_re sha" and "engine_version_re version"
  shows "match_use ((''uses:'' @ bs @ workflow_target) @ sha @ '' # '' @ version) =
    Some (''uses:'' @ bs @ workflow_target, sha)"
proof -
  have b: "dropWhile is_tab_space (bs @ workflow_target @ r) = workflow_target @ r \<and>
      takeWhile is_tab_space (bs @ workflow_target @ r) = bs" for r
    using assms(1) by (auto simp: workflow_target_def is_tab_space_def list_all_iff dropWhile_append2 takeWhile_append2)
  have len: "length sha = 40" using assms(2) by (simp add: revision_re_def hex_text_def)
  have tail: "use_tail ('' # '' @ version)"
    using version_no_return [OF assms(3)] by (simp add: use_tail_def is_tab_space_def)
  have p: "has_prefix (''uses:'' @ x) ''uses:''" for x by (rule has_prefix_append)
  have d: "drop 5 (''uses:'' @ x) = x" for x by simp
  show ?thesis unfolding append_assoc match_use_def Let_def d
    using p b tail assms(2) len by simp
qed

interpretation use_pin: pin workflow_use use_text "take 40"
  unfolding workflow_use_def
proof (rule pin_indented, unfold_locales)
  show "match_use (g @ t) = Some (g, take 40 t)" if "match_use l = Some (g, u)" "use_text t" for l g u t
  proof -
    from that(2) obtain sha version where t: "t = sha @ '' # '' @ version" "revision_re sha" "engine_version_re version"
      by (auto simp: use_text_def)
    have "length sha = 40" using t(2) by (simp add: revision_re_def hex_text_def)
    then have "take 40 t = sha" by (simp add: t(1))
    with that(1) t show ?thesis by (elim match_use_ok) (simp only: match_use_again)
  qed
  show "set g \<subseteq> set l" if "match_use l = Some (g, u)" for l g u
    using that by (rule match_use_ok) auto
  show "new_line \<notin> set t" if "use_text t" for t
    using that solid_values(1) solid_version by (fastforce simp: use_text_def solid_def list_all_iff new_line_def)
  show "g \<noteq> [] \<and> \<not> is_tab_space (hd g)" if "match_use l = Some (g, u)" for l g u
    using that by (rule match_use_ok) (simp add: is_tab_space_def)
qed


lemma config_apart: "apart config_version config_digest" "apart config_digest config_version"
proof -
  have "config_version l = None \<or> config_digest l = None" for l
    using match_pin_prefix [of "''tool_version:''" engine_version_re l]
      match_pin_prefix [of "''tool_checksums_sha256:''" raw_digest_re l]
    by (cases "config_version l"; cases "config_digest l") (auto simp: config_version_def config_digest_def has_prefix_iff)
  then show "apart config_version config_digest" "apart config_digest config_version"
    unfolding apart_def by (blast, metis)
qed

lemma workflow_apart: "apart workflow_use workflow_input" "apart workflow_input workflow_use"
proof -
  have "match_use l = None \<or> match_pin ''tooling_sha:'' revision_re l = None" for l
    using match_pin_prefix [of "''tooling_sha:''" revision_re l]
    by (cases "match_pin ''tooling_sha:'' revision_re l") (auto simp: match_use_def has_prefix_iff)
  then have "workflow_use l = None \<or> workflow_input l = None" for l
    by (simp add: workflow_use_def workflow_input_def match_indented_def)
  then show "apart workflow_use workflow_input" "apart workflow_input workflow_use"
    unfolding apart_def by (blast, metis)
qed

section \<open>The rewrites\<close>

lemma insert_behind_matches:
  assumes "n new = Some p" and "m new = None" and "matches_of n ls = []" and "matches_of m ls \<noteq> []"
  shows "matches_of n (insert_behind m new ls) = [p]" and "matches_of m (insert_behind m new ls) = matches_of m ls"
  using assms by (induction ls) (auto split: option.splits)

lemma insert_behind_members: "set (insert_behind m new ls) \<subseteq> insert new (set ls)"
  by (induction ls) auto

lemma insert_behind_filter: "\<not> P new \<Longrightarrow> filter P (insert_behind m new ls) = filter P ls"
  by (induction ls) auto

lemma insert_behind_nonempty: "ls \<noteq> [] \<Longrightarrow> insert_behind m new ls \<noteq> []"
  by (cases ls) auto

definition pins :: "(string \<Rightarrow> (string \<times> string) option) \<Rightarrow> string \<Rightarrow> string list" where
  "pins matcher content = map snd (matches_of matcher (text_lines content))"

definition free_lines :: "(string \<Rightarrow> (string \<times> string) option) \<Rightarrow> (string \<Rightarrow> (string \<times> string) option) \<Rightarrow> string \<Rightarrow> string list" where
  "free_lines m n content = filter (\<lambda>l. m l = None \<and> n l = None) (text_lines content)"

lemma digest_line:
  "raw_digest_re d \<Longrightarrow> config_digest (''tool_checksums_sha256: '' @ d) = Some (''tool_checksums_sha256: '', d) \<and>
     config_version (''tool_checksums_sha256: '' @ d) = None"
proof -
  assume d: "raw_digest_re d"
  have "match_pin ''tool_checksums_sha256:'' raw_digest_re ((''tool_checksums_sha256:'' @ '' '') @ d) =
      Some (''tool_checksums_sha256:'' @ '' '', d)"
    by (rule match_pin_again) (use d in \<open>simp_all add: is_tab_space_def\<close>)
  then have c: "config_digest (''tool_checksums_sha256: '' @ d) = Some (''tool_checksums_sha256: '', d)"
    by (simp add: config_digest_def)
  then show ?thesis using config_apart(1) unfolding apart_def
    by (metis (no_types) c option.simps(3))
qed

lemma request_formats:
  "request_validate q = None \<Longrightarrow>
     engine_version_re (uq_version q) \<and> revision_re (uq_workflow_sha q) \<and> raw_digest_re (uq_checksums q)"
  by (simp add: request_validate_def)

text \<open>What one rewrite of the configuration leaves, as lines.\<close>

lemma rewrite_configuration_lines:
  assumes "rewrite_configuration content q = Inr c" and "request_validate q = None"
  obtains ls where "c = unlines ls" and "text_lines c = ls"
    and "map snd (matches_of config_version ls) = [uq_version q]"
    and "map snd (matches_of config_digest ls) = [uq_checksums q]"
    and "settled config_version (uq_version q) ls" and "settled config_digest (uq_checksums q) ls"
    and "filter (\<lambda>l. config_version l = None \<and> config_digest l = None) ls = free_lines config_version config_digest content"
proof -
  note f = request_formats [OF assms(2)]
  let ?v = "uq_version q" and ?d = "uq_checksums q"
  let ?ls = "text_lines content" let ?up = "replace_pins config_version ?v ?ls"
  let ?new = "''tool_checksums_sha256: '' @ ?d"
  have one: "length (matches_of config_version ?ls) = 1"
    using assms(1) by (auto simp: rewrite_configuration_def Let_def split: if_splits)
  then obtain g u where g: "matches_of config_version ?ls = [(g, u)]" by (auto simp: length_Suc_conv)
  have upv: "matches_of config_version ?up = [(g, ?v)]" using f g by (simp add: version_pin.matches_replace)
  have upd: "matches_of config_digest ?up = matches_of config_digest ?ls"
    using f config_apart by (simp add: version_pin.matches_other)
  have sv: "settled config_version ?v ?up" using f by (simp add: version_pin.settled_self)
  have pl: "\<forall>l \<in> set ?up. new_line \<notin> set l" using f text_lines_plain by (intro version_pin.replace_lines) auto
  have fr: "filter (\<lambda>l. config_version l = None \<and> config_digest l = None) ?up = free_lines config_version config_digest content"
    unfolding free_lines_def using f by (intro version_pin.replace_unmatched) simp
  have ne: "?up \<noteq> []" by (simp add: replace_pins_def)
  consider (absent) "matches_of config_digest ?up = []" "c = unlines (insert_behind config_version ?new ?up)"
    | (present) p where "matches_of config_digest ?up = [p]" "c = unlines (replace_pins config_digest ?d ?up)"
    using assms(1) one by (auto simp: rewrite_configuration_def Let_def split: list.splits)
  then show thesis
  proof cases
    case absent
    let ?new_ls = "insert_behind config_version ?new ?up"
    have dl: "config_digest ?new = Some (''tool_checksums_sha256: '', ?d)" "config_version ?new = None"
      using digest_line [of ?d] f by simp_all
    have m: "matches_of config_digest ?new_ls = [(''tool_checksums_sha256: '', ?d)]" "matches_of config_version ?new_ls = [(g, ?v)]"
      using insert_behind_matches [of config_digest ?new _ config_version ?up, OF dl absent(1)] upv by simp_all
    have plain: "\<forall>l \<in> set ?new_ls. new_line \<notin> set l"
    proof
      fix l assume "l \<in> set ?new_ls"
      then consider "l = ?new" | "l \<in> set ?up" using insert_behind_members [of config_version ?new ?up] by blast
      then show "new_line \<notin> set l"
      proof cases
        case 1
        have "new_line \<notin> set ?d" using f by (rule_tac digest_pin.valid_line) simp
        with 1 show ?thesis by (simp add: new_line_def)
      next
        case 2
        with pl show ?thesis by blast
      qed
    qed
    have "settled config_version ?v ?new_ls"
      using sv dl(2) insert_behind_members [of config_version ?new ?up] by (auto simp: settled_def subset_iff)
    moreover have "settled config_digest ?d ?new_ls"
      unfolding settled_def
    proof (intro ballI allI impI)
      fix l h u assume l: "l \<in> set ?new_ls" "config_digest l = Some (h, u)"
      have "config_digest k = None" if "k \<in> set ?up" for k using absent(1) that by (rule matches_none)
      then have "l = ?new" using l insert_behind_members [of config_version ?new ?up] by fastforce
      with l(2) dl(1) show "l = h @ ?d" by simp
    qed
    ultimately show thesis
      using that [of ?new_ls] absent(2) lines_unlines [OF insert_behind_nonempty [OF ne] plain] m fr dl
      by (simp add: insert_behind_filter)
  next
    case (present p)
    let ?new_ls = "replace_pins config_digest ?d ?up"
    have m: "map snd (matches_of config_digest ?new_ls) = [?d]" "matches_of config_version ?new_ls = [(g, ?v)]"
      using f present(1) upv config_apart by (simp_all add: digest_pin.matches_replace digest_pin.matches_other case_prod_beta)
    have plain: "\<forall>l \<in> set ?new_ls. new_line \<notin> set l" using f pl by (intro digest_pin.replace_lines) auto
    have ne': "?new_ls \<noteq> []" using ne by (simp add: replace_pins_def)
    have "filter (\<lambda>l. config_digest l = None \<and> config_version l = None) ?new_ls =
        filter (\<lambda>l. config_digest l = None \<and> config_version l = None) ?up"
      using f by (intro digest_pin.replace_unmatched) simp
    then have "filter (\<lambda>l. config_version l = None \<and> config_digest l = None) ?new_ls = free_lines config_version config_digest content"
      using fr by (simp add: conj_commute)
    moreover have "settled config_version ?v ?new_ls" "settled config_digest ?d ?new_ls"
      using f sv config_apart by (simp_all add: digest_pin.settled_other digest_pin.settled_self)
    ultimately show thesis
      using that [of ?new_ls] present(2) lines_unlines [OF ne' plain] m by simp
  qed
qed


lemma rewrite_workflow_lines:
  assumes "rewrite_workflow content q = Inr c" and "request_validate q = None"
  obtains ls where "c = unlines ls" and "text_lines c = ls"
    and "map snd (matches_of workflow_use ls) = [uq_workflow_sha q]"
    and "map snd (matches_of workflow_input ls) = [uq_workflow_sha q]"
    and "settled workflow_use (uq_workflow_sha q @ '' # '' @ uq_version q) ls"
    and "settled workflow_input (uq_workflow_sha q) ls"
    and "filter (\<lambda>l. workflow_use l = None \<and> workflow_input l = None) ls = free_lines workflow_use workflow_input content"
proof -
  note f = request_formats [OF assms(2)]
  let ?s = "uq_workflow_sha q" let ?t = "?s @ '' # '' @ uq_version q"
  let ?ls = "text_lines content" let ?up = "replace_pins workflow_use ?t ?ls"
  let ?new_ls = "replace_pins workflow_input ?s ?up"
  obtain g u h where m: "matches_of workflow_use ?ls = [(g, u)]" "matches_of workflow_input ?ls = [(h, u)]"
    and c: "c = unlines ?new_ls"
    using assms(1) by (auto simp: rewrite_workflow_def Let_def split: list.splits if_splits)
  have t: "use_text ?t" "revision_re ?s" using f by (auto simp: use_text_def)
  have "take 40 ?t = ?s" using t(2) by (simp add: revision_re_def hex_text_def)
  then have new: "map snd (matches_of workflow_use ?new_ls) = [?s]" "map snd (matches_of workflow_input ?new_ls) = [?s]"
    using t m workflow_apart
    by (simp_all add: use_pin.matches_replace use_pin.matches_other input_pin.matches_replace input_pin.matches_other)
  have "\<forall>l \<in> set ?up. new_line \<notin> set l" using t text_lines_plain by (intro use_pin.replace_lines) auto
  then have plain: "\<forall>l \<in> set ?new_ls. new_line \<notin> set l" using t by (intro input_pin.replace_lines) auto
  have ne: "?new_ls \<noteq> []" by (simp add: replace_pins_def)
  have "filter (\<lambda>l. workflow_input l = None \<and> workflow_use l = None) ?new_ls =
      filter (\<lambda>l. workflow_input l = None \<and> workflow_use l = None) ?up"
    using t by (intro input_pin.replace_unmatched)
  moreover have "filter (\<lambda>l. workflow_use l = None \<and> workflow_input l = None) ?up = free_lines workflow_use workflow_input content"
    unfolding free_lines_def using t by (intro use_pin.replace_unmatched)
  ultimately have fr: "filter (\<lambda>l. workflow_use l = None \<and> workflow_input l = None) ?new_ls = free_lines workflow_use workflow_input content"
    by (simp add: conj_commute)
  have "settled workflow_use ?t ?new_ls" "settled workflow_input ?s ?new_ls"
    using t workflow_apart by (simp_all add: input_pin.settled_other input_pin.settled_self use_pin.settled_self)
  with that [of ?new_ls] c lines_unlines [OF ne plain] new fr show thesis by simp
qed

lemma rewrite_configuration_exact:
  assumes "rewrite_configuration content q = Inr c" and "request_validate q = None"
  shows "pins config_version c = [uq_version q] \<and> pins config_digest c = [uq_checksums q] \<and>
    free_lines config_version config_digest c = free_lines config_version config_digest content"
  by (rule rewrite_configuration_lines [OF assms]) (simp add: pins_def free_lines_def)

lemma rewrite_workflow_exact:
  assumes "rewrite_workflow content q = Inr c" and "request_validate q = None"
  shows "pins workflow_use c = [uq_workflow_sha q] \<and> pins workflow_input c = [uq_workflow_sha q] \<and>
    free_lines workflow_use workflow_input c = free_lines workflow_use workflow_input content"
  by (rule rewrite_workflow_lines [OF assms]) (simp add: pins_def free_lines_def)

lemma rewrite_configuration_again:
  assumes "rewrite_configuration content q = Inr c" and "request_validate q = None"
  shows "rewrite_configuration c q = Inr c"
proof (rule rewrite_configuration_lines [OF assms])
  fix ls
  assume ls: "c = unlines ls" "text_lines c = ls"
    "map snd (matches_of config_version ls) = [uq_version q]" "map snd (matches_of config_digest ls) = [uq_checksums q]"
    "settled config_version (uq_version q) ls" "settled config_digest (uq_checksums q) ls"
  obtain d where d: "matches_of config_digest ls = [d]" using ls(4) by auto
  have "length (matches_of config_version ls) = 1" using ls(3) by auto
  then show ?thesis
    using d by (simp add: rewrite_configuration_def Let_def ls(2) settled_replace [OF ls(5)] settled_replace [OF ls(6)])
      (simp add: ls(1))
qed

lemma rewrite_workflow_again:
  assumes "rewrite_workflow content q = Inr c" and "request_validate q = None"
  shows "rewrite_workflow c q = Inr c"
proof (rule rewrite_workflow_lines [OF assms])
  fix ks
  assume ks: "c = unlines ks" "text_lines c = ks"
    "map snd (matches_of workflow_use ks) = [uq_workflow_sha q]" "map snd (matches_of workflow_input ks) = [uq_workflow_sha q]"
    "settled workflow_use (uq_workflow_sha q @ '' # '' @ uq_version q) ks" "settled workflow_input (uq_workflow_sha q) ks"
  obtain g h where "matches_of workflow_use ks = [(g, uq_workflow_sha q)]" "matches_of workflow_input ks = [(h, uq_workflow_sha q)]"
    using ks(3,4) by auto
  then show ?thesis
    using settled_replace [OF ks(5)] settled_replace [OF ks(6)]
    by (simp add: rewrite_workflow_def Let_def ks(2)) (simp add: ks(1))
qed

lemma build_plan_ok:
  "build_plan read q = Inr r \<longleftrightarrow> request_validate q = None \<and>
     (\<exists>c w c' w'. read configuration_path maximum_upgrade_file_size = Inr c \<and>
        read workflow_path maximum_upgrade_file_size = Inr w \<and>
        rewrite_configuration c q = Inr c' \<and> rewrite_workflow w q = Inr w' \<and>
        r = \<lparr>ur_schema_version = 1, ur_request = q, ur_changed = (w \<noteq> w' \<or> c \<noteq> c'),
             ur_files = [\<lparr>uf_path = workflow_path, uf_changed = (w \<noteq> w')\<rparr>,
                         \<lparr>uf_path = configuration_path, uf_changed = (c \<noteq> c')\<rparr>],
             ur_configuration = c', ur_workflow = w',
             ur_original = [(configuration_path, c), (workflow_path, w)]\<rparr>)"
  by (auto simp: build_plan_def Let_def split: sum.splits)

section \<open>Replacing a file\<close>

lemma write_replacement_cases:
  assumes "write_replacement t d c w = (w', r)"
  obtains (early) "keeps {t} w w'" "r \<noteq> None"
    | (renamed) w1 where "keeps {t} w w1" "sys_rename t d w1 = (w', r)"
        "node_at w t = Some (File []) \<longrightarrow> node_at w1 t = Some (File c)"
proof -
  obtain w1 e where 1: "write_temporary t c w = (w1, e)" by fastforce
  show thesis
    using assms early renamed [of w1] write_temporary_spec [OF 1]
    by (cases e) (auto simp: write_replacement_def 1)
qed

lemma atomic_write_cases:
  assumes "atomic_write base p c w = (w', r)"
  obtains (refused) "keeps {} w w'" "r \<noteq> None"
    | (replaced) w1 t w2 w3 where "keeps {} w w1" "sys_create_temp (path_dir (path_join [base, p])) ''.golib-upgrade-'' w1 = (w2, Inr t)"
        "t \<noteq> path_join [base, p]" "node_at w t = None" "write_replacement t (path_join [base, p]) c w2 = (w3, r)"
        "w' = sys_remove t w3"
proof -
  let ?t = "path_join [base, p]"
  obtain w1 l where 1: "sys_lstat ?t w = (w1, l)" by fastforce
  obtain w2 k where 2: "sys_create_temp (path_dir ?t) ''.golib-upgrade-'' w1 = (w2, k)" by fastforce
  note k1 = sys_lstat_keeps [OF 1] and k2 = keeps_trans [OF sys_lstat_keeps [OF 1] sys_create_temp_keeps [OF 2]]
  show thesis
  proof (cases "\<exists>x t. l = Inr (File x) \<and> k = Inr t")
    case False
    then have "keeps {} w w'" "r \<noteq> None"
      using assms k1 k2 by (auto simp: atomic_write_def Let_def 1 2 split: sum.splits node.splits)
    then show thesis by (rule refused)
  next
    case True
    then obtain x t where x: "l = Inr (File x)" "k = Inr t" by blast
    obtain w3 q where 3: "write_replacement t ?t c w2 = (w3, q)" by fastforce
    have "q = r" "w' = sys_remove t w3" using assms by (simp_all add: atomic_write_def Let_def 1 2 x 3)
    moreover have n: "node_at w1 t = None" using sys_create_temp_ok 2 [unfolded x(2)] by metis
    moreover have "node_at w1 ?t \<noteq> None"
    proof -
      have "node_at w1 ?t \<noteq> None"
        using 1 x(1) by (auto simp: sys_lstat_def Let_def split: if_splits prod.splits option.splits)
      then show ?thesis .
    qed
    moreover have "node_at w t = None" using n keepsD [OF k1] by (cases "node_at w t") auto
    ultimately show thesis using replaced [OF k1 2 [unfolded x(2)]] 3 by metis
  qed
qed

lemma atomic_write_keeps:
  assumes "atomic_write base p c w = (w', r)"
  shows "keeps (if r = None then {path_join [base, p]} else {}) w w'"
using assms
proof (cases rule: atomic_write_cases)
  case refused
  then show ?thesis using keeps_mono by (cases "r = None") auto
next
  case (replaced w1 t w2 w3)
  let ?T = "if r = None then {path_join [base, p]} else {}"
  note k2 = keeps_trans [OF replaced(1) sys_create_temp_keeps [OF replaced(2)]]
  have "keeps (insert t ?T) w2 w3"
    using replaced(5)
  proof (cases rule: write_replacement_cases)
    case early
    then show ?thesis by (auto elim: keeps_mono)
  next
    case (renamed w4)
    have "keeps (insert t ?T) w4 w3"
    proof (cases r)
      case None
      then show ?thesis using sys_rename_keeps [OF renamed(2)] by simp
    next
      case (Some e)
      show ?thesis by (rule keeps_mono [OF sys_rename_failed [OF renamed(2) [unfolded Some]]]) simp
    qed
    then show ?thesis using keeps_trans keeps_mono [OF renamed(1), of "insert t ?T"] by blast
  qed
  then have "keeps (insert t ?T) w w'"
    using keeps_mono [OF k2, of "insert t ?T"] keeps_mono [OF sys_remove_keeps, of t "insert t ?T" w3] keeps_trans replaced(6)
    by blast
  then show ?thesis using replaced(4) by (rule keeps_fresh)
qed

lemma atomic_write_ok:
  assumes "atomic_write base p c w = (w', None)"
  shows "node_at w' (path_join [base, p]) = Some (File c)"
using assms
proof (cases rule: atomic_write_cases)
  case (replaced w1 t w2 w3)
  have t: "node_at w2 t = Some (File [])" using sys_create_temp_ok [OF replaced(2)] by metis
  have "node_at w3 (path_join [base, p]) = Some (File c)"
    using replaced(5)
  proof (cases rule: write_replacement_cases)
    case (renamed w4)
    then show ?thesis using t sys_rename_ok by blast
  qed simp
  then show ?thesis using keepsD [OF sys_remove_keeps] replaced(3,6) by fastforce
qed simp

lemma targets_distinct: "path_join [base, configuration_path] \<noteq> path_join [base, workflow_path]"
proof -
  let ?d = "if base = [] then [] else base @ ''/''"
  have j: "path_join [base, p] = path_clean (?d @ p)" if "p \<noteq> []" for p
    using that by (simp add: path_join_def)
  have w: "workflow_path = ''.github/workflows/'' @ ''ci.yml''" by (simp add: workflow_path_def)
  have "path_clean (?d @ ''.golib.yaml'') \<noteq> path_clean ((?d @ ''.github/workflows/'') @ ''ci.yml'')"
    by (rule path_clean_distinct) (simp_all add: plain_elem_def)
  then show ?thesis
    using j [of configuration_path] j [of workflow_path] unfolding w append_assoc
    by (simp add: configuration_path_def)
qed

section \<open>Samples\<close>

definition sample_hex :: "nat \<Rightarrow> char \<Rightarrow> string" where
  "sample_hex n c = replicate n c"

definition sample_request :: upgrade_request where
  "sample_request = \<lparr>uq_version = ''v1.2.4'', uq_workflow_sha = sample_hex 40 CHR ''b'', uq_checksums = sample_hex 64 CHR ''c''\<rparr>"

definition sample_configuration :: string where
  "sample_configuration = unlines [''schema: 1'', ''tool_version: v1.2.3'', ''# end'', '''']"

definition sample_workflow :: string where
  "sample_workflow = unlines [''jobs:'', ''    uses: '' @ workflow_target @ sample_hex 40 CHR ''a'' @ '' # v1.2.3'',
     ''    with:'', ''      tooling_sha: '' @ sample_hex 40 CHR ''a'', '''']"

definition sample_read :: "string \<Rightarrow> int \<Rightarrow> repository_error + string" where
  "sample_read p limit = Inr (if p = configuration_path then sample_configuration else sample_workflow)"

definition sample_plan :: upgrade_result where
  "sample_plan = (case build_plan sample_read sample_request of
     Inr r \<Rightarrow> r
   | Inl _ \<Rightarrow> \<lparr>ur_schema_version = 0, ur_request = sample_request, ur_changed = False, ur_files = [],
       ur_configuration = [], ur_workflow = [], ur_original = []\<rparr>)"

lemma sample_plan_eq: "build_plan sample_read sample_request = Inr sample_plan"
  by code_simp

definition planned_read :: "string \<Rightarrow> int \<Rightarrow> repository_error + string" where
  "planned_read p limit = Inr (if p = configuration_path then ur_configuration sample_plan else ur_workflow sample_plan)"

text \<open>A repository at \<open>/r\<close>, where the first call for the workflow file fails.\<close>

definition sample_repository :: world where
  "sample_repository =
     \<lparr>w_nodes = [(''/r'', Directory), (''/r/.golib.yaml'', File sample_configuration), (''/r/.github'', Directory),
        (''/r/.github/workflows'', Directory), (''/r/.github/workflows/ci.yml'', File sample_workflow)],
      w_script = replicate 8 no_event @ [\<lparr>ev_fault = True, ev_partial = 0, ev_others = []\<rparr>]\<rparr>"

section \<open>Properties of a plan\<close>

text \<open>C29: A plan moves every pin to the requested release and nothing else: the planned
  configuration has exactly one version pin and one checksum pin, the planned workflow exactly
  one reference and one input, all with the requested values, and all other lines of both
  files are kept in their order.\<close>

theorem plan_exact:
  assumes "build_plan read q = Inr r"
  shows "\<exists>c w. read configuration_path maximum_upgrade_file_size = Inr c \<and>
    read workflow_path maximum_upgrade_file_size = Inr w \<and>
    pins config_version (ur_configuration r) = [uq_version q] \<and>
    pins config_digest (ur_configuration r) = [uq_checksums q] \<and>
    free_lines config_version config_digest (ur_configuration r) = free_lines config_version config_digest c \<and>
    pins workflow_use (ur_workflow r) = [uq_workflow_sha q] \<and>
    pins workflow_input (ur_workflow r) = [uq_workflow_sha q] \<and>
    free_lines workflow_use workflow_input (ur_workflow r) = free_lines workflow_use workflow_input w"
proof -
  from assms obtain c w where v: "request_validate q = None"
    and read: "read configuration_path maximum_upgrade_file_size = Inr c" "read workflow_path maximum_upgrade_file_size = Inr w"
    and rc: "rewrite_configuration c q = Inr (ur_configuration r)" and rw: "rewrite_workflow w q = Inr (ur_workflow r)"
    by (auto simp: build_plan_ok)
  from rewrite_configuration_exact [OF rc v] rewrite_workflow_exact [OF rw v] read
  show ?thesis by blast
qed

theorem plan_exact_witness:
  "pins config_version (ur_configuration sample_plan) = [''v1.2.4''] \<and>
   free_lines config_version config_digest (ur_configuration sample_plan) = [''schema: 1'', ''# end'', '''']"
proof -
  have "free_lines config_version config_digest sample_configuration = [''schema: 1'', ''# end'', '''']"
    by code_simp
  then show ?thesis
    using plan_exact [OF sample_plan_eq] by (auto simp: sample_read_def sample_request_def)
qed

text \<open>Planning is idempotent: a second plan for the same release over the planned files succeeds
  and changes nothing.\<close>

theorem plan_idempotent:
  assumes "build_plan read q = Inr r"
    and "read2 configuration_path maximum_upgrade_file_size = Inr (ur_configuration r)"
    and "read2 workflow_path maximum_upgrade_file_size = Inr (ur_workflow r)"
  shows "\<exists>r2. build_plan read2 q = Inr r2 \<and> \<not> ur_changed r2 \<and>
    ur_configuration r2 = ur_configuration r \<and> ur_workflow r2 = ur_workflow r"
proof -
  from assms(1) obtain c w where v: "request_validate q = None"
    and rc: "rewrite_configuration c q = Inr (ur_configuration r)" and rw: "rewrite_workflow w q = Inr (ur_workflow r)"
    by (auto simp: build_plan_ok)
  from rewrite_configuration_again [OF rc v] rewrite_workflow_again [OF rw v] v assms(2,3)
  show ?thesis unfolding build_plan_ok by auto
qed

theorem plan_idempotent_witness: "\<exists>r2. build_plan planned_read sample_request = Inr r2 \<and> \<not> ur_changed r2"
proof -
  have "workflow_path \<noteq> configuration_path" by (simp add: workflow_path_def configuration_path_def)
  then show ?thesis using plan_idempotent [OF sample_plan_eq, of planned_read] by (auto simp: planned_read_def)
qed

section \<open>Properties of the replacement\<close>

text \<open>What a caller of \<open>apply\<close> finds on disk, by the error it got.\<close>

definition applied_world :: "string \<Rightarrow> upgrade_result \<Rightarrow> upgrade_error option \<Rightarrow> world \<Rightarrow> world \<Rightarrow> bool" where
  "applied_world base r e w w' \<longleftrightarrow>
     (let configuration = path_join [base, configuration_path]; workflow = path_join [base, workflow_path];
          changed = (\<lambda>k target. if result_changed r k then {target} else {})
      in case e of
           None \<Rightarrow> keeps (changed 1 configuration \<union> changed 0 workflow) w w' \<and>
             (result_changed r 1 \<longrightarrow> node_at w' configuration = Some (File (ur_configuration r))) \<and>
             (result_changed r 0 \<longrightarrow> node_at w' workflow = Some (File (ur_workflow r)))
         | Some (Write_workflow_failed (Some True)) \<Rightarrow> keeps {configuration} w w' \<and>
             node_at w' configuration = Some (File (original_content r configuration_path))
         | Some (Write_workflow_failed (Some False)) \<Rightarrow> keeps {configuration} w w' \<and>
             node_at w' configuration = Some (File (ur_configuration r))
         | Some f \<Rightarrow> keeps {} w w')"

lemma first_write:
  assumes "(if result_changed r 1 then atomic_write base configuration_path (ur_configuration r) w else (w, None)) = (w1, e)"
  shows "keeps (if e = None \<and> result_changed r 1 then {path_join [base, configuration_path]} else {}) w w1"
    and "e = None \<Longrightarrow> result_changed r 1 \<Longrightarrow> node_at w1 (path_join [base, configuration_path]) = Some (File (ur_configuration r))"
  using assms atomic_write_keeps [of base configuration_path "ur_configuration r" w w1 e]
    atomic_write_ok [of base configuration_path "ur_configuration r" w w1]
  by (auto split: if_splits)

lemma apply_workflow_cases:
  assumes "apply_workflow base r w = (w', res)"
  obtains (written) "res = Inr r" "keeps {path_join [base, workflow_path]} w w'"
      "node_at w' (path_join [base, workflow_path]) = Some (File (ur_workflow r))"
    | (alone) "res = Inl (Write_workflow_failed None)" "\<not> result_changed r 1" "keeps {} w w'"
    | (restored) "res = Inl (Write_workflow_failed (Some True))" "result_changed r 1"
        "keeps {path_join [base, configuration_path]} w w'"
        "node_at w' (path_join [base, configuration_path]) = Some (File (original_content r configuration_path))"
    | (stuck) "res = Inl (Write_workflow_failed (Some False))" "result_changed r 1" "keeps {} w w'"
proof -
  obtain w1 e where 1: "atomic_write base workflow_path (ur_workflow r) w = (w1, e)" by fastforce
  note first = 1
  obtain w2 f where 2: "atomic_write base configuration_path (original_content r configuration_path) w1 = (w2, f)" by fastforce
  note k1 = atomic_write_keeps [OF 1] and k2 = atomic_write_keeps [OF 2]
  show thesis
  proof (cases e)
    case None
    with assms k1 atomic_write_ok [OF 1 [unfolded None]] written show thesis by (simp add: apply_workflow_def 1)
  next
    case (Some x)
    with k1 have k: "keeps {} w w1" by simp
    consider "\<not> result_changed r 1" | "result_changed r 1" "f = None" | y where "result_changed r 1" "f = Some y" by blast
    then show thesis
    proof cases
      case 1
      with assms Some k alone show thesis by (simp add: apply_workflow_def first)
    next
      case a: 2
      have "keeps {path_join [base, configuration_path]} w w2"
        by (rule keeps_trans [OF keeps_mono [OF k]]) (use k2 a(2) in simp_all)
      with assms Some a atomic_write_ok [OF 2 [unfolded a(2)]] restored show thesis by (simp add: apply_workflow_def 1 2)
    next
      case a: 3
      have "keeps {} w w2" by (rule keeps_trans [OF k]) (use k2 a(2) in simp)
      with assms Some a stuck show thesis by (simp add: apply_workflow_def 1 2)
    qed
  qed
qed

text \<open>C22: Applying a plan is all or nothing up to a reported exception, whatever system calls fail
  and whatever files other processes create meanwhile: success leaves both planned contents and
  touches nothing else; a failed first write leaves every existing file as it was; a failed second
  write restores the original configuration, or reports that the restoration failed and then leaves
  the complete planned configuration, never a partial file.\<close>

theorem apply_all_or_nothing:
  assumes "apply_result base r w = (w', res)"
  shows "applied_world base r (case res of Inl e \<Rightarrow> Some e | Inr _ \<Rightarrow> None) w w' \<and> (\<forall>r'. res = Inr r' \<longrightarrow> r' = r)"
proof -
  let ?c = "path_join [base, configuration_path]" and ?wf = "path_join [base, workflow_path]"
  obtain w1 e where 1: "(if result_changed r 1 then atomic_write base configuration_path (ur_configuration r) w else (w, None)) = (w1, e)"
    by fastforce
  note first = first_write [OF 1]
  have res: "e \<noteq> None \<and> w' = w1 \<and> res = Inl Write_configuration_failed \<or>
      e = None \<and> result_changed r 0 \<and> apply_workflow base r w1 = (w', res) \<or>
      e = None \<and> \<not> result_changed r 0 \<and> w' = w1 \<and> res = Inr r"
    using assms unfolding apply_result_def Let_def 1 prod.case by (auto split: if_splits)
  then consider (failed) "e \<noteq> None" "w' = w1" "res = Inl Write_configuration_failed"
    | (both) "e = None" "result_changed r 0" "apply_workflow base r w1 = (w', res)"
    | (first) "e = None" "\<not> result_changed r 0" "w' = w1" "res = Inr r" by blast
  then show ?thesis
  proof cases
    case failed
    with first show ?thesis by (auto simp: applied_world_def Let_def)
  next
    case first
    then show ?thesis using first_write [OF 1] by (auto simp: applied_world_def Let_def)
  next
    case both
    with first have k: "keeps (if result_changed r 1 then {?c} else {}) w w1"
      and n: "result_changed r 1 \<Longrightarrow> node_at w1 ?c = Some (File (ur_configuration r))" by auto
    from both(3) show ?thesis
    proof (cases rule: apply_workflow_cases)
      case written
      have "keeps ((if result_changed r 1 then {?c} else {}) \<union> {?wf}) w w'"
        by (rule keeps_trans [OF keeps_mono [OF k] keeps_mono [OF written(2)]]) auto
      moreover have "node_at w' ?c = Some (File (ur_configuration r))" if "result_changed r 1"
        using keepsD [OF written(2) n [OF that]] targets_distinct by simp
      ultimately show ?thesis using written both(2) by (simp add: applied_world_def Let_def)
    next
      case alone
      with k show ?thesis by (simp add: applied_world_def Let_def) (rule keeps_trans)
    next
      case restored
      have "keeps {?c} w w'" by (rule keeps_trans [OF keeps_mono [OF k] restored(3)]) (simp add: restored(2))
      with restored show ?thesis by (simp add: applied_world_def Let_def)
    next
      case stuck
      have "keeps {?c} w w'" by (rule keeps_trans [OF keeps_mono [OF k] keeps_mono [OF stuck(3)]]) (simp_all add: stuck(2))
      with stuck n keepsD [OF stuck(3)] show ?thesis by (simp add: applied_world_def Let_def)
    qed
  qed
qed

theorem apply_all_or_nothing_witness:
  "applied_world ''/r'' sample_plan (Some (Write_workflow_failed (Some True))) sample_repository
     (fst (apply_result ''/r'' sample_plan sample_repository))"
proof -
  have "snd (apply_result ''/r'' sample_plan sample_repository) = Inl (Write_workflow_failed (Some True))"
    by code_simp
  then have "apply_result ''/r'' sample_plan sample_repository =
      (fst (apply_result ''/r'' sample_plan sample_repository), Inl (Write_workflow_failed (Some True)))"
    by (simp add: prod_eq_iff)
  from apply_all_or_nothing [OF this] show ?thesis by simp
qed

end
