(* ===== verification/Bounded_Output.thy ===== *)
theory Bounded_Output
  imports Mutation_Tool
begin

text \<open>
  internal/gates: the writers that receive the output of a process within a bound
  (\<open>boundedProcessOutput\<close> of runner.go, \<open>sourceInventoryOutput\<close> of gitleaks_sources.go,
  \<open>boundedBuffer\<close> of api.go, \<open>boundedSBOMBuffer\<close> of sbom.go) and the line recogniser of
  secret_metadata.go. A writer is a state and \<open>Write\<close> a function on it; the mutexes make every
  call one step. The callback of a writer is a counter of its calls.

  The locale \<open>bounded_capture\<close> is what the gates rely on in each of the capturing writers.
\<close>

section \<open>Locations of secrets (secret\_metadata.go)\<close>

definition newline :: char where "newline = CHR 0x0A"

definition lower_hex :: "nat \<Rightarrow> string \<Rightarrow> bool" where
  "lower_hex n s \<longleftrightarrow> length s = n \<and> all_in ''0123456789abcdef'' s"

definition line_number_re :: "string \<Rightarrow> bool" where
  "line_number_re s \<longleftrightarrow> s \<noteq> [] \<and> length s \<le> 7 \<and> list_all is_digit s \<and> hd s \<noteq> CHR ''0''"

text \<open>\<open>secretLocationPattern\<close>: no class of the expression contains a blank.\<close>

definition secret_location_re :: "string \<Rightarrow> bool" where
  "secret_location_re s \<longleftrightarrow>
     (case split_on CHR '' '' s of
        [file, rule, line, commit] \<Rightarrow>
          lower_hex 64 file \<and> lower_hex 64 rule \<and> line_number_re line \<and>
          (commit = ''-'' \<or> lower_hex 40 commit \<or> lower_hex 64 commit)
      | _ \<Rightarrow> False)"

definition maximum_secret_locations :: nat where "maximum_secret_locations = 32"
definition secret_line_size :: nat where "secret_line_size = 256"

text \<open>\<open>sm_line\<close> is \<open>line[:length]\<close>.\<close>

record secret_metadata =
  sm_line :: string
  sm_invalid :: bool
  sm_omitted :: bool
  sm_locations :: "string list"

definition no_metadata :: secret_metadata where
  "no_metadata = \<lparr>sm_line = [], sm_invalid = False, sm_omitted = False, sm_locations = []\<rparr>"

definition invalid_metadata :: "secret_metadata \<Rightarrow> secret_metadata" where
  "invalid_metadata m = m\<lparr>sm_invalid := True, sm_locations := [], sm_line := []\<rparr>"

definition metadata_char :: "char \<Rightarrow> secret_metadata \<Rightarrow> secret_metadata" where
  "metadata_char c m =
     (if sm_invalid m then m
      else if c \<noteq> newline
      then (if length (sm_line m) = secret_line_size then invalid_metadata m
            else m\<lparr>sm_line := sm_line m @ [c]\<rparr>)
      else if \<not> secret_location_re (sm_line m) then invalid_metadata m
      else if length (sm_locations m) < maximum_secret_locations
      then m\<lparr>sm_locations := sm_locations m @ [sm_line m], sm_line := []\<rparr>
      else m\<lparr>sm_omitted := True, sm_line := []\<rparr>)"

definition metadata_write :: "string \<Rightarrow> secret_metadata \<Rightarrow> secret_metadata" where
  "metadata_write v m = fold metadata_char v m"

definition metadata_summary :: "secret_metadata \<Rightarrow> string" where
  "metadata_summary m =
     (if sm_invalid m \<or> sm_line m \<noteq> [] \<or> sm_locations m = [] then []
      else newline # ''secret-location '' @ join_with (newline # ''secret-location '') (sm_locations m) @
           (if sm_omitted m then newline # ''additional secret locations omitted'' else []))"

section \<open>Bounded output of a process (runner.go)\<close>

text \<open>\<open>bo_watched\<close>: a callback is registered; \<open>bo_stops\<close>: how often it was called.\<close>

record bounded_output =
  bo_limit :: int
  bo_written :: int
  bo_overflow :: bool
  bo_watched :: bool
  bo_stops :: nat
  bo_terminal_line :: string
  bo_offset :: int
  bo_match :: bool
  bo_metadata :: "secret_metadata option"

definition maximum_security_process_output :: int where
  "maximum_security_process_output = 4194304"

definition bounded_output_of :: "int \<Rightarrow> string \<Rightarrow> secret_metadata option \<Rightarrow> bounded_output" where
  "bounded_output_of limit line metadata =
     \<lparr>bo_limit = limit, bo_written = 0, bo_overflow = False, bo_watched = False, bo_stops = 0,
      bo_terminal_line = line, bo_offset = 0, bo_match = False, bo_metadata = metadata\<rparr>"

definition terminal_char :: "char \<Rightarrow> 'a bounded_output_scheme \<Rightarrow> 'a bounded_output_scheme" where
  "terminal_char c b =
     (if c = newline
      then b\<lparr>bo_match := (bo_offset b = int (length (bo_terminal_line b))), bo_offset := 0\<rparr>
      else b\<lparr>bo_match := False,
             bo_offset := (if 0 \<le> bo_offset b \<and> bo_offset b < int (length (bo_terminal_line b)) \<and>
                              c = bo_terminal_line b ! nat (bo_offset b)
                           then bo_offset b + 1 else -1)\<rparr>)"

definition bounded_write :: "string \<Rightarrow> 'a bounded_output_scheme \<Rightarrow> 'a bounded_output_scheme" where
  "bounded_write v b =
     (if bo_limit b - bo_written b < int (length v)
      then b\<lparr>bo_written := bo_limit b, bo_overflow := True,
             bo_stops := (if \<not> bo_overflow b \<and> bo_watched b then Suc (bo_stops b) else bo_stops b)\<rparr>
      else (let b = b\<lparr>bo_written := bo_written b + int (length v),
                      bo_metadata := map_option (metadata_write v) (bo_metadata b)\<rparr>
            in if bo_terminal_line b \<noteq> [] then fold terminal_char v b else b))"

definition set_overflow_callback :: "'a bounded_output_scheme \<Rightarrow> 'a bounded_output_scheme" where
  "set_overflow_callback b =
     b\<lparr>bo_watched := True, bo_stops := (if bo_overflow b then Suc (bo_stops b) else bo_stops b)\<rparr>"

definition matched_terminal_line :: "'a bounded_output_scheme \<Rightarrow> bool" where
  "matched_terminal_line b \<longleftrightarrow> \<not> bo_overflow b \<and> bo_match b"

definition finding_metadata :: "'a bounded_output_scheme \<Rightarrow> string" where
  "finding_metadata b =
     (if bo_overflow b then []
      else (case bo_metadata b of None \<Rightarrow> [] | Some m \<Rightarrow> metadata_summary m))"

section \<open>Capturing writers\<close>

text \<open>\<open>sourceInventoryOutput\<close> embeds a bounded output.\<close>

record source_output = bounded_output +
  so_data :: string

definition source_output_of :: "int \<Rightarrow> source_output" where
  "source_output_of limit = bounded_output.extend (bounded_output_of limit [] None) \<lparr>so_data = []\<rparr>"

definition source_write :: "string \<Rightarrow> source_output \<Rightarrow> source_output" where
  "source_write v s =
     (let s = bounded_write v s in if bo_overflow s then s else s\<lparr>so_data := so_data s @ v\<rparr>)"

definition maximum_api_output :: int where "maximum_api_output = 4194304"

record bounded_buffer =
  bb_data :: string
  bb_overflow :: bool

definition empty_buffer :: bounded_buffer where
  "empty_buffer = \<lparr>bb_data = [], bb_overflow = False\<rparr>"

definition buffer_bounded_write :: "string \<Rightarrow> bounded_buffer \<Rightarrow> bounded_buffer" where
  "buffer_bounded_write v b =
     (let remaining = maximum_api_output - int (length (bb_data b))
      in if int (length v) \<le> remaining then b\<lparr>bb_data := bb_data b @ v\<rparr>
         else b\<lparr>bb_overflow := True, bb_data := bb_data b @ take (nat remaining) v\<rparr>)"

definition maximum_sbom_output :: int where "maximum_sbom_output = 16777216"

record sbom_buffer =
  sb_data :: string
  sb_overflow :: bool
  sb_watched :: bool
  sb_stops :: nat

definition empty_sbom_buffer :: sbom_buffer where
  "empty_sbom_buffer = \<lparr>sb_data = [], sb_overflow = False, sb_watched = False, sb_stops = 0\<rparr>"

definition sbom_write :: "string \<Rightarrow> sbom_buffer \<Rightarrow> sbom_buffer" where
  "sbom_write v b =
     (let remaining = maximum_sbom_output - int (length (sb_data b))
      in if int (length v) \<le> remaining then b\<lparr>sb_data := sb_data b @ v\<rparr>
         else b\<lparr>sb_overflow := True, sb_data := sb_data b @ take (nat remaining) v,
                sb_stops := (if \<not> sb_overflow b \<and> sb_watched b then Suc (sb_stops b) else sb_stops b)\<rparr>)"

definition sbom_set_overflow_callback :: "sbom_buffer \<Rightarrow> sbom_buffer" where
  "sbom_set_overflow_callback b =
     b\<lparr>sb_watched := True, sb_stops := (if sb_overflow b then Suc (sb_stops b) else sb_stops b)\<rparr>"

section \<open>What a capturing writer promises\<close>

locale bounded_capture =
  fixes capture_write :: "string \<Rightarrow> 's \<Rightarrow> 's"
    and captured_data :: "'s \<Rightarrow> string"
    and spilled :: "'s \<Rightarrow> bool"
    and sound :: "'s \<Rightarrow> bool"
    and capacity :: int
  assumes sound_write: "sound s \<Longrightarrow> sound (capture_write v s)"
    and within: "sound s \<Longrightarrow> int (length (captured_data s)) \<le> capacity"
    and fits: "sound s \<Longrightarrow> \<not> spilled s \<Longrightarrow> int (length (captured_data s)) + int (length v) \<le> capacity
      \<Longrightarrow> \<not> spilled (capture_write v s) \<and> captured_data (capture_write v s) = captured_data s @ v"
    and spills: "sound s \<Longrightarrow> \<not> spilled s \<Longrightarrow> capacity < int (length (captured_data s)) + int (length v)
      \<Longrightarrow> spilled (capture_write v s)"
    and stays: "sound s \<Longrightarrow> spilled s \<Longrightarrow> spilled (capture_write v s)"
begin

lemma sound_writes: "sound s \<Longrightarrow> sound (fold capture_write vs s)"
  by (induction vs arbitrary: s) (simp_all add: sound_write)

lemma stays_writes: "sound s \<Longrightarrow> spilled s \<Longrightarrow> spilled (fold capture_write vs s)"
  by (induction vs arbitrary: s) (simp_all add: sound_write stays)

lemma writes_exact:
  "sound s \<Longrightarrow> \<not> spilled s \<Longrightarrow>
     (spilled (fold capture_write vs s) \<longleftrightarrow> capacity < int (length (captured_data s @ concat vs))) \<and>
     (\<not> spilled (fold capture_write vs s) \<longrightarrow> captured_data (fold capture_write vs s) = captured_data s @ concat vs)"
proof (induction vs arbitrary: s)
  case Nil
  then show ?case using within[of s] by simp
next
  case (Cons v vs)
  show ?case
  proof (cases "int (length (captured_data s)) + int (length v) \<le> capacity")
    case True
    with Cons.prems have f: "\<not> spilled (capture_write v s)"
      "captured_data (capture_write v s) = captured_data s @ v" using fits by blast+
    show ?thesis using Cons.IH[OF sound_write[OF Cons.prems(1)] f(1)] f(2) by simp
  next
    case False
    with Cons.prems have "spilled (capture_write v s)" using spills by simp
    then have "spilled (fold capture_write vs (capture_write v s))"
      using stays_writes sound_write[OF Cons.prems(1)] by blast
    with False show ?thesis by simp
  qed
qed

lemma captures_exactly:
  assumes "sound s" and "\<not> spilled s" and "captured_data s = []"
  shows "spilled (fold capture_write vs s) \<longleftrightarrow> capacity < int (length (concat vs))"
    and "\<not> spilled (fold capture_write vs s) \<Longrightarrow> captured_data (fold capture_write vs s) = concat vs"
    and "int (length (captured_data (fold capture_write vs s))) \<le> capacity"
  using writes_exact[OF assms(1,2), of vs] assms(3) within[OF sound_writes[OF assms(1)], of vs] by auto

end

lemma bounded_write_overflow:
  "bo_overflow (bounded_write v b) \<longleftrightarrow> bo_overflow b \<or> bo_limit b - bo_written b < int (length v)"
proof -
  have "bo_overflow (fold terminal_char v b) = bo_overflow b" for b :: "'a bounded_output_scheme"
    by (induction v arbitrary: b) (simp_all add: terminal_char_def)
  then show ?thesis by (simp add: bounded_write_def Let_def)
qed

lemma terminal_chars_keep:
  "bo_limit (fold terminal_char v b) = bo_limit b \<and> bo_written (fold terminal_char v b) = bo_written b \<and>
   bo_terminal_line (fold terminal_char v b) = bo_terminal_line b \<and>
   bo_metadata (fold terminal_char v b) = bo_metadata b \<and>
   bo_watched (fold terminal_char v b) = bo_watched b \<and> bo_stops (fold terminal_char v b) = bo_stops b \<and>
   bounded_output.more (fold terminal_char v b) = bounded_output.more b"
  by (induction v arbitrary: b) (simp_all add: terminal_char_def)

lemma bounded_write_keeps:
  "bo_limit (bounded_write v b) = bo_limit b \<and> bo_terminal_line (bounded_write v b) = bo_terminal_line b \<and>
   bo_watched (bounded_write v b) = bo_watched b \<and>
   bounded_output.more (bounded_write v b) = bounded_output.more b"
  by (simp add: bounded_write_def Let_def terminal_chars_keep)

lemma bounded_write_written:
  "bo_written (bounded_write v b) =
     (if bo_limit b - bo_written b < int (length v) then bo_limit b else bo_written b + int (length v))"
  by (simp add: bounded_write_def Let_def terminal_chars_keep)

definition source_sound :: "int \<Rightarrow> source_output \<Rightarrow> bool" where
  "source_sound limit s \<longleftrightarrow>
     bo_limit s = limit \<and> int (length (so_data s)) \<le> limit \<and> bo_written s \<le> limit \<and>
     (\<not> bo_overflow s \<longrightarrow> bo_written s = int (length (so_data s)))"

lemma so_data_write: "so_data (bounded_write v (s :: source_output)) = so_data s"
proof -
  have "source_output.more (bounded_write v s) = source_output.more s" by simp
  moreover have "bounded_output.more (bounded_write v s) = bounded_output.more s"
    by (simp add: bounded_write_keeps)
  ultimately show ?thesis by (cases s; cases "bounded_write v s") simp
qed

interpretation source_capture: bounded_capture source_write so_data bo_overflow "source_sound limit" limit
  for limit
proof
  fix s :: source_output and v
  assume s: "source_sound limit s"
  show "source_sound limit (source_write v s)"
    using s by (auto simp: source_sound_def source_write_def Let_def bounded_write_keeps
        bounded_write_overflow bounded_write_written so_data_write)
  show "int (length (so_data s)) \<le> limit" using s by (simp add: source_sound_def)
  show "bo_overflow s \<Longrightarrow> bo_overflow (source_write v s)"
    by (simp add: source_write_def Let_def bounded_write_overflow)
  show "\<not> bo_overflow s \<Longrightarrow> int (length (so_data s)) + int (length v) \<le> limit
      \<Longrightarrow> \<not> bo_overflow (source_write v s) \<and> so_data (source_write v s) = so_data s @ v"
    using s by (simp add: source_sound_def source_write_def Let_def bounded_write_overflow so_data_write)
  show "\<not> bo_overflow s \<Longrightarrow> limit < int (length (so_data s)) + int (length v)
      \<Longrightarrow> bo_overflow (source_write v s)"
    using s by (simp add: source_sound_def source_write_def Let_def bounded_write_overflow)
qed

definition buffer_sound :: "bounded_buffer \<Rightarrow> bool" where
  "buffer_sound b \<longleftrightarrow> int (length (bb_data b)) \<le> maximum_api_output"

interpretation buffer_capture:
  bounded_capture buffer_bounded_write bb_data bb_overflow buffer_sound maximum_api_output
  by unfold_locales (auto simp: buffer_sound_def buffer_bounded_write_def Let_def)

definition sbom_sound :: "sbom_buffer \<Rightarrow> bool" where
  "sbom_sound b \<longleftrightarrow> int (length (sb_data b)) \<le> maximum_sbom_output"

interpretation sbom_capture:
  bounded_capture sbom_write sb_data sb_overflow sbom_sound maximum_sbom_output
  by unfold_locales (auto simp: sbom_sound_def sbom_write_def Let_def)

end
