(* ===== verification/Bounded_Output_Facts.thy ===== *)
theory Bounded_Output_Facts
  imports Bounded_Output
begin

text \<open>
  The bounded writers of internal/gates: what a whole stream leaves in them, however it was cut
  into writes.
\<close>

section \<open>The stream as one text\<close>

lemma fold_writes_overflow:
  "bo_written b \<le> bo_limit b \<Longrightarrow> \<not> bo_overflow b \<Longrightarrow>
     (bo_overflow (fold bounded_write vs b) \<longleftrightarrow> bo_limit b < bo_written b + int (length (concat vs)))"
proof (induction vs arbitrary: b)
  case (Cons v vs)
  have stays: "bo_overflow c \<Longrightarrow> bo_overflow (fold bounded_write us c)" for us and c :: "'a bounded_output_scheme"
    by (induction us arbitrary: c) (simp_all add: bounded_write_overflow)
  show ?case
  proof (cases "bo_limit b - bo_written b < int (length v)")
    case True
    then show ?thesis using stays[of "bounded_write v b" vs] by (simp add: bounded_write_overflow)
  next
    case False
    then show ?thesis
      using Cons.IH[of "bounded_write v b"] Cons.prems
      by (simp add: bounded_write_overflow bounded_write_written bounded_write_keeps algebra_simps)
  qed
qed simp

section \<open>The terminal line\<close>

text \<open>The recogniser alone: the offset in the line, and whether the line just ended matched.\<close>

definition line_step :: "string \<Rightarrow> char \<Rightarrow> int \<times> bool \<Rightarrow> int \<times> bool" where
  "line_step line c st =
     (if c = newline then (0, fst st = int (length line))
      else (if 0 \<le> fst st \<and> fst st < int (length line) \<and> c = line ! nat (fst st) then fst st + 1 else -1, False))"

definition line_state :: "'a bounded_output_scheme \<Rightarrow> int \<times> bool" where
  "line_state b = (bo_offset b, bo_match b)"

lemma line_state_chars: "line_state (fold terminal_char v b) = fold (line_step (bo_terminal_line b)) v (line_state b)"
proof (induction v arbitrary: b)
  case (Cons c v)
  have "bo_terminal_line (terminal_char c b) = bo_terminal_line b" by (simp add: terminal_char_def)
  moreover have "line_state (terminal_char c b) = line_step (bo_terminal_line b) c (line_state b)"
    by (simp add: terminal_char_def line_step_def line_state_def)
  ultimately show ?case by (simp add: Cons)
qed simp

lemma line_state_write:
  assumes "int (length v) \<le> bo_limit b - bo_written b" and "bo_terminal_line b \<noteq> []"
  shows "line_state (bounded_write v b) = fold (line_step (bo_terminal_line b)) v (line_state b)"
proof -
  let ?b = "b\<lparr>bo_written := bo_written b + int (length v), bo_metadata := map_option (metadata_write v) (bo_metadata b)\<rparr>"
  have "bounded_write v b = fold terminal_char v ?b" using assms by (simp add: bounded_write_def)
  then show ?thesis using line_state_chars[of v ?b] by (simp add: line_state_def)
qed

lemma line_state_writes:
  "bo_written b + int (length (concat vs)) \<le> bo_limit b \<Longrightarrow> bo_terminal_line b \<noteq> [] \<Longrightarrow>
     line_state (fold bounded_write vs b) = fold (line_step (bo_terminal_line b)) (concat vs) (line_state b)"
proof (induction vs arbitrary: b)
  case (Cons v vs)
  then show ?case
    using Cons.IH[of "bounded_write v b"] line_state_write[of v b]
    by (simp add: bounded_write_keeps bounded_write_written)
qed simp

text \<open>The text behind the last newline.\<close>

definition open_line :: "string \<Rightarrow> string" where
  "open_line t = rev (takeWhile (\<lambda>c. c \<noteq> newline) (rev t))"

lemma open_line_simps [simp]:
  "open_line [] = []" "open_line (t @ [newline]) = []" "c \<noteq> newline \<Longrightarrow> open_line (t @ [c]) = open_line t @ [c]"
  by (simp_all add: open_line_def)

lemma open_line_split:
  "newline \<notin> set w \<Longrightarrow> (open_line t = w \<longleftrightarrow> (\<exists>u. t = u @ w \<and> (u = [] \<or> last u = newline)))"
proof (induction w arbitrary: t rule: rev_induct)
  case Nil
  then show ?case by (cases t rule: rev_cases) (auto simp: open_line_def)
next
  case (snoc c w)
  show ?case
  proof (cases t rule: rev_cases)
    case (snoc t' d)
    with \<open>newline \<notin> set (w @ [c])\<close> snoc.IH[of t'] show ?thesis
      by (cases "d = newline") auto
  qed simp
qed

lemma line_step_offset:
  assumes "newline \<notin> set line"
  shows "fst (fold (line_step line) t (0, False)) =
           (if has_prefix line (open_line t) then int (length (open_line t)) else -1)"
proof (induction t rule: rev_induct)
  case (snoc c t)
  define p where "p = open_line t"
  show ?case
  proof (cases "c = newline")
    case False
    have "has_prefix line (p @ [c]) \<longleftrightarrow> has_prefix line p \<and> length p < length line \<and> c = line ! length p"
    proof
      assume "has_prefix line (p @ [c])"
      then show "has_prefix line p \<and> length p < length line \<and> c = line ! length p"
        by (auto simp: has_prefix_iff)
    next
      assume "has_prefix line p \<and> length p < length line \<and> c = line ! length p"
      then obtain s where "line = p @ s" and "s \<noteq> []" and "c = hd s"
        by (auto simp: has_prefix_iff nth_append hd_conv_nth)
      then show "has_prefix line (p @ [c])" by (cases s) (auto simp: has_prefix_iff)
    qed
    with False snoc show ?thesis by (auto simp: line_step_def p_def)
  qed (simp add: line_step_def)
qed simp

lemma line_step_match:
  assumes "newline \<notin> set line"
  shows "snd (fold (line_step line) t (0, False)) \<longleftrightarrow>
           (\<exists>u. t = u @ line @ [newline] \<and> (u = [] \<or> last u = newline))"
proof (cases t rule: rev_cases)
  case (snoc t' c)
  have full: "has_prefix line (open_line t') \<and> length (open_line t') = length line \<longleftrightarrow> open_line t' = line"
    by (auto simp: has_prefix_iff)
  have "fst (fold (line_step line) t' (0, False)) = int (length line) \<longleftrightarrow> open_line t' = line"
    using line_step_offset[OF assms, of t'] full by auto
  with snoc show ?thesis
    by (auto simp: line_step_def open_line_split[OF assms])
qed simp

text \<open>
  The terminal line is recognised exactly: whatever the cut of the stream into writes, the
  output of a process matches its terminal line if and only if it kept within the limit and the
  line is its last one.
\<close>

theorem terminal_line_exact:
  assumes "0 \<le> limit" and "line \<noteq> []" and "newline \<notin> set line"
  shows "matched_terminal_line (fold bounded_write vs (bounded_output_of limit line metadata)) \<longleftrightarrow>
           int (length (concat vs)) \<le> limit \<and>
           (\<exists>u. concat vs = u @ line @ [newline] \<and> (u = [] \<or> last u = newline))"
proof -
  let ?b = "bounded_output_of limit line metadata"
  have b: "bo_written ?b = 0" "bo_limit ?b = limit" "\<not> bo_overflow ?b" "bo_terminal_line ?b = line"
    "line_state ?b = (0, False)"
    by (simp_all add: bounded_output_of_def line_state_def)
  have over: "bo_overflow (fold bounded_write vs ?b) \<longleftrightarrow> limit < int (length (concat vs))"
    using fold_writes_overflow[of ?b vs] b assms(1) by simp
  show ?thesis
  proof (cases "limit < int (length (concat vs))")
    case False
    then have "line_state (fold bounded_write vs ?b) = fold (line_step line) (concat vs) (0, False)"
      using line_state_writes[of ?b vs] b assms(2) by simp
    then have "bo_match (fold bounded_write vs ?b) \<longleftrightarrow> snd (fold (line_step line) (concat vs) (0, False))"
      by (metis line_state_def snd_conv)
    with False show ?thesis using over line_step_match[OF assms(3), of "concat vs"]
      by (simp add: matched_terminal_line_def)
  qed (simp add: over matched_terminal_line_def)
qed

lemma terminal_line_exact_witness:
  "matched_terminal_line (fold bounded_write [''leak'' @ [newline], ''exit '', ''status 42'', [newline]]
     (bounded_output_of maximum_security_process_output ''exit status 42'' None))"
proof (rule iffD2[OF terminal_line_exact])
  let ?vs = "[''leak'' @ [newline], ''exit '', ''status 42'', [newline]]"
  show "int (length (concat ?vs)) \<le> maximum_security_process_output \<and>
      (\<exists>u. concat ?vs = u @ ''exit status 42'' @ [newline] \<and> (u = [] \<or> last u = newline))"
    by (intro conjI exI[of _ "''leak'' @ [newline]"]) (simp_all add: maximum_security_process_output_def)
qed (simp_all add: maximum_security_process_output_def newline_def)

section \<open>The overflow callback\<close>

lemma stops_after_overflow: "bo_overflow b \<Longrightarrow> bo_stops (fold bounded_write vs b) = bo_stops b"
proof (induction vs arbitrary: b)
  case (Cons v vs)
  have "bo_stops (bounded_write v b) = bo_stops b"
    using Cons.prems by (simp add: bounded_write_def Let_def terminal_chars_keep)
  then show ?case using Cons by (simp add: bounded_write_overflow)
qed simp

lemma stops_write:
  "\<not> bo_overflow b \<Longrightarrow> bo_stops (bounded_write v b) =
     (if bo_limit b - bo_written b < int (length v) \<and> bo_watched b then Suc (bo_stops b) else bo_stops b)"
  by (simp add: bounded_write_def Let_def terminal_chars_keep)

lemma stops_exact:
  "\<not> bo_overflow b \<Longrightarrow> bo_written b \<le> bo_limit b \<Longrightarrow> bo_stops (fold bounded_write vs b) =
     bo_stops b + (if bo_watched b \<and> bo_limit b < bo_written b + int (length (concat vs)) then 1 else 0)"
proof (induction vs arbitrary: b)
  case (Cons v vs)
  show ?case
  proof (cases "bo_limit b - bo_written b < int (length v)")
    case True
    then have "bo_overflow (bounded_write v b)" by (simp add: bounded_write_overflow)
    with True Cons.prems show ?thesis by (simp add: stops_after_overflow stops_write)
  next
    case False
    with Cons.prems Cons.IH[of "bounded_write v b"] show ?thesis
      by (simp add: stops_write bounded_write_overflow bounded_write_written bounded_write_keeps algebra_simps)
  qed
qed simp

text \<open>
  The process is stopped exactly once: with the callback registered between any two writes,
  it is called once if the whole stream exceeds the limit, and never otherwise.
\<close>

theorem limit_signalled_once:
  assumes "0 \<le> limit"
  shows "bo_stops (fold bounded_write after (set_overflow_callback
             (fold bounded_write before (bounded_output_of limit line metadata)))) =
           (if limit < int (length (concat before @ concat after)) then 1 else 0)"
proof -
  let ?b = "bounded_output_of limit line metadata"
  define m where "m = fold bounded_write before ?b"
  have b: "bo_written ?b = 0" "bo_limit ?b = limit" "\<not> bo_overflow ?b" "\<not> bo_watched ?b" "bo_stops ?b = 0"
    by (simp_all add: bounded_output_of_def)
  have over: "bo_overflow m \<longleftrightarrow> limit < int (length (concat before))"
    using fold_writes_overflow[of ?b before] b assms by (simp add: m_def)
  have stops: "bo_stops m = 0"
    using stops_exact[of ?b before] b assms by (simp add: m_def)
  have lim: "bo_limit m = limit"
    unfolding m_def using b(2) by (induction before rule: rev_induct) (simp_all add: bounded_write_keeps)
  show ?thesis
  proof (cases "bo_overflow m")
    case True
    then show ?thesis using over stops
      by (simp add: m_def[symmetric] stops_after_overflow set_overflow_callback_def)
  next
    case False
    have "bo_written (fold bounded_write vs c) = bo_written c + int (length (concat vs))"
      if "bo_written c + int (length (concat vs)) \<le> bo_limit c" for vs and c :: bounded_output
      using that by (induction vs arbitrary: c) (simp_all add: bounded_write_written bounded_write_keeps)
    then have "bo_written m = int (length (concat before))"
      using False over b by (simp add: m_def)
    with False over stops lim show ?thesis
      by (simp add: m_def[symmetric] stops_exact set_overflow_callback_def)
  qed
qed

lemma limit_signalled_once_witness:
  "bo_stops (fold bounded_write [''c''] (set_overflow_callback
     (fold bounded_write [''a'', ''b''] (bounded_output_of 2 [] None)))) = 1"
  by (subst limit_signalled_once) simp_all

section \<open>Locations of secrets\<close>

text \<open>What the summary of a complete report is, read off the whole text.\<close>

definition secret_report :: "string \<Rightarrow> string" where
  "secret_report t =
     (let rows = butlast (split_on newline t)
      in if last (split_on newline t) \<noteq> [] \<or> rows = [] \<or> \<not> list_all secret_location_re rows then []
         else newline # ''secret-location '' @
                join_with (newline # ''secret-location '') (take maximum_secret_locations rows) @
                (if maximum_secret_locations < length rows
                 then newline # ''additional secret locations omitted'' else []))"

lemma split_on_snoc:
  "split_on sep (t @ [c]) =
     (if c = sep then split_on sep t @ [[]]
      else butlast (split_on sep t) @ [last (split_on sep t) @ [c]])"
proof (induction t)
  case (Cons x t)
  obtain w ws where "split_on sep t = w # ws" by (cases "split_on sep t") auto
  with Cons show ?case by (cases ws) auto
qed simp

lemma secret_location_short:
  assumes "secret_location_re s"
  shows "length s \<le> secret_line_size"
proof -
  obtain owner rule number commit where
    parts: "split_on CHR '' '' s = [owner, rule, number, commit]"
    "lower_hex 64 owner" "lower_hex 64 rule" "line_number_re number"
    "commit = ''-'' \<or> lower_hex 40 commit \<or> lower_hex 64 commit"
    using assms by (auto simp: secret_location_re_def split: list.splits)
  have "s = join_with '' '' [owner, rule, number, commit]"
    using join_split[of "CHR '' ''" s] parts(1) by simp
  with parts show ?thesis
    by (auto simp: lower_hex_def line_number_re_def secret_line_size_def)
qed

text \<open>The state of the recogniser after a text, from the lines of the text.\<close>

definition metadata_after :: "string \<Rightarrow> secret_metadata" where
  "metadata_after t =
     (let rows = butlast (split_on newline t); partial = last (split_on newline t)
      in if list_all secret_location_re rows \<and> length partial \<le> secret_line_size
         then \<lparr>sm_line = partial, sm_invalid = False, sm_omitted = maximum_secret_locations < length rows,
               sm_locations = take maximum_secret_locations rows\<rparr>
         else \<lparr>sm_line = [], sm_invalid = True,
               sm_omitted = sm_omitted (metadata_write t no_metadata), sm_locations = []\<rparr>)"

lemma metadata_write_snoc: "metadata_write (t @ [c]) m = metadata_char c (metadata_write t m)"
  by (simp add: metadata_write_def)

lemma metadata_state: "metadata_write t no_metadata = metadata_after t"
proof (induction t rule: rev_induct)
  case Nil
  then show ?case
    by (simp add: metadata_write_def no_metadata_def metadata_after_def maximum_secret_locations_def)
next
  case (snoc c t)
  define rows where "rows = butlast (split_on newline t)"
  define partial where "partial = last (split_on newline t)"
  have split: "split_on newline t = rows @ [partial]" by (simp add: rows_def partial_def)
  have t: "metadata_write t no_metadata = metadata_after t" by (fact snoc)
  have om: "sm_omitted (metadata_write (t @ [c]) no_metadata) =
      sm_omitted (metadata_char c (metadata_write t no_metadata))"
    by (simp add: metadata_write_snoc)
  show ?case
  proof (cases "list_all secret_location_re rows \<and> length partial \<le> secret_line_size")
    case True
    then have m: "metadata_write t no_metadata =
        \<lparr>sm_line = partial, sm_invalid = False, sm_omitted = maximum_secret_locations < length rows,
         sm_locations = take maximum_secret_locations rows\<rparr>"
      using t by (simp add: metadata_after_def split)
    show ?thesis
    proof (cases "c = newline")
      case True
      with m \<open>list_all secret_location_re rows \<and> _\<close> show ?thesis
        unfolding metadata_after_def om metadata_write_snoc
        by (auto simp: split_on_snoc split metadata_char_def invalid_metadata_def secret_line_size_def butlast_append Let_def)
    next
      case False
      with m \<open>list_all secret_location_re rows \<and> _\<close> show ?thesis
        unfolding metadata_after_def om metadata_write_snoc
        by (auto simp: split_on_snoc split metadata_char_def invalid_metadata_def)
    qed
  next
    case False
    then have m: "metadata_write t no_metadata =
        \<lparr>sm_line = [], sm_invalid = True,
         sm_omitted = sm_omitted (metadata_write t no_metadata), sm_locations = []\<rparr>"
      using t by (auto simp: metadata_after_def split)
    then have inv: "sm_invalid (metadata_write t no_metadata)" by (metis secret_metadata.select_convs(2))
    have long: "\<not> (list_all secret_location_re (butlast (split_on newline (t @ [c]))) \<and>
        length (last (split_on newline (t @ [c]))) \<le> secret_line_size)"
      using False secret_location_short[of partial] by (auto simp: split_on_snoc split butlast_append)
    have "metadata_after (t @ [c]) = \<lparr>sm_line = [], sm_invalid = True,
        sm_omitted = sm_omitted (metadata_write t no_metadata), sm_locations = []\<rparr>"
      unfolding metadata_after_def om using long inv
      by (auto simp: metadata_char_def Let_def)
    moreover have "metadata_write (t @ [c]) no_metadata = metadata_write t no_metadata"
      using inv by (simp add: metadata_write_snoc metadata_char_def)
    ultimately show ?thesis using m by simp
  qed
qed

lemma metadata_report: "metadata_summary (metadata_write t no_metadata) = secret_report t"
proof -
  define rows where "rows = butlast (split_on newline t)"
  define partial where "partial = last (split_on newline t)"
  have split: "split_on newline t = rows @ [partial]" by (simp add: rows_def partial_def)
  have "metadata_summary (metadata_after t) = secret_report t"
    by (auto simp: metadata_after_def secret_report_def Let_def split metadata_summary_def
        secret_line_size_def maximum_secret_locations_def)
  then show ?thesis by (simp add: metadata_state)
qed

lemma metadata_writes:
  "bo_written b + int (length (concat vs)) \<le> bo_limit b \<Longrightarrow>
     bo_metadata (fold bounded_write vs b) = map_option (metadata_write (concat vs)) (bo_metadata b)"
proof (induction vs arbitrary: b)
  case Nil
  then show ?case by (cases "bo_metadata b") (simp_all add: metadata_write_def)
next
  case (Cons v vs)
  have "bo_metadata (bounded_write v b) = map_option (metadata_write v) (bo_metadata b)"
    using Cons.prems by (simp add: bounded_write_def Let_def terminal_chars_keep)
  then have "bo_metadata (fold bounded_write vs (bounded_write v b)) =
      map_option (metadata_write (concat vs)) (map_option (metadata_write v) (bo_metadata b))"
    using Cons.IH[of "bounded_write v b"] Cons.prems by (simp add: bounded_write_keeps bounded_write_written)
  then show ?case by (simp add: option.map_comp comp_def metadata_write_def)
qed

text \<open>
  Only locations of secrets are disclosed: what a scan reports of its findings is the first
  32 lines of its output if every line is a location and the output is complete and within the
  limit, and nothing at all otherwise, whatever the cut of the stream into writes.
\<close>

theorem secret_metadata_exact:
  assumes "0 \<le> limit"
  shows "finding_metadata (fold bounded_write vs (bounded_output_of limit line (Some no_metadata))) =
           (if limit < int (length (concat vs)) then [] else secret_report (concat vs))"
proof -
  let ?b = "bounded_output_of limit line (Some no_metadata)"
  have b: "bo_written ?b = 0" "bo_limit ?b = limit" "\<not> bo_overflow ?b" "bo_metadata ?b = Some no_metadata"
    by (simp_all add: bounded_output_of_def)
  have over: "bo_overflow (fold bounded_write vs ?b) \<longleftrightarrow> limit < int (length (concat vs))"
    using fold_writes_overflow[of ?b vs] b assms by simp
  show ?thesis
    using over b metadata_writes[of ?b vs] by (auto simp: finding_metadata_def metadata_report)
qed

lemma secret_metadata_exact_witness:
  "finding_metadata (fold bounded_write [''not a location'', [newline]]
     (bounded_output_of 100 [] (Some no_metadata))) = []"
  by (subst secret_metadata_exact) (simp_all, code_simp)

end
