(* ===== verification/Gate_Process.thy ===== *)
theory Gate_Process
  imports Bounded_Output "HOL-Library.Word"
begin

unbundle bit_operations_syntax

text \<open>
  internal/gates/process.go: the executor of external commands. Its environment gives every Go
  and lint cache a directory that the task owns, or borrows one of a caller's session, by the
  cls of the command.

  Arguments of the model: the environment of the process, the temporary directory, what
  \<open>filepath.EvalSymlinks\<close> and \<open>os.Lstat\<close> answer, the \<open>taskFileSystem\<close> interface (a record of
  functions, as in the source) and the operating system's process. \<open>order\<close> is the order in which
  Go iterates over a map. A Go map is an association list.
\<close>

section \<open>Commands (runner.go)\<close>

datatype cache_class = Repository_runtime_cache | Native_repository_cache | Verifier_cache

record gate_command = command +
  gc_class :: cache_class
  gc_build_cache :: string
  gc_scanner :: bool
  gc_stdin :: "string option"

type_synonym env_map = "(string \<times> string) list"

definition gate_command_of ::
  "cache_class \<Rightarrow> bool \<Rightarrow> string \<Rightarrow> string list \<Rightarrow> string \<Rightarrow> env_map \<Rightarrow> gate_command" where
  "gate_command_of cls scanner program arguments directory environment =
     \<lparr>cm_program = program, cm_arguments = arguments, cm_directory = directory, cm_environment = environment,
      gc_class = cls, gc_build_cache = [], gc_scanner = scanner, gc_stdin = None\<rparr>"

section \<open>Maps of the environment\<close>

text \<open>\<open>maps.Copy\<close> and \<open>delete\<close>.\<close>

definition map_copy :: "env_map \<Rightarrow> env_map \<Rightarrow> env_map" where
  "map_copy target source = foldl (\<lambda>m (k, v). map_set k v m) target source"

definition map_delete :: "string \<Rightarrow> env_map \<Rightarrow> env_map" where
  "map_delete k m = filter (\<lambda>(k', v). k' \<noteq> k) m"

definition environment_entries :: "string list \<Rightarrow> env_map" where
  "environment_entries current =
     foldl (\<lambda>m entry. case cut_at entry ''='' of None \<Rightarrow> m | Some (k, v) \<Rightarrow> map_set k v m) [] current"

definition merge_environment :: "string list \<Rightarrow> env_map list \<Rightarrow> string list" where
  "merge_environment current sets =
     (let values = foldl map_copy (environment_entries current) sets
      in map (\<lambda>k. k @ ''='' @ the (map_of values k)) (sort (map fst values)))"

section \<open>The executor\<close>

record process_executor =
  pe_environment :: env_map
  pe_runtime_caches :: env_map
  pe_borrowed :: env_map
  pe_borrowed_verifier :: env_map
  pe_task :: string

definition protected_environment :: "process_executor \<Rightarrow> gate_command \<Rightarrow> env_map" where
  "protected_environment x c =
     (let protected = map_delete ''GOBIN'' (pe_environment x)
      in if gc_class c = Verifier_cache then map_copy protected (pe_borrowed_verifier x)
         else (let protected = map_copy protected (pe_runtime_caches x);
                   protected = (if gc_class c = Native_repository_cache
                                then map_copy protected (pe_borrowed x) else protected)
               in if gc_class c = Native_repository_cache \<and> gc_build_cache c \<noteq> []
                  then map_set ''GOCACHE'' (gc_build_cache c) protected else protected))"

definition command_process_environment :: "string list \<Rightarrow> process_executor \<Rightarrow> gate_command \<Rightarrow> string list" where
  "command_process_environment os_environ x c =
     merge_environment os_environ [pe_environment x, cm_environment c, protected_environment x c]"

section \<open>A session of caches that the caller owns\<close>

record session_view =
  vw_temporary :: string
  vw_eval_symlinks :: "string \<Rightarrow> string option"
  vw_mode :: "string \<Rightarrow> io_error + file_kind \<times> 32 word"

definition private_directory :: "session_view \<Rightarrow> string \<Rightarrow> bool" where
  "private_directory view p \<longleftrightarrow>
     (case vw_mode view p of Inl e \<Rightarrow> False | Inr (kind, perm) \<Rightarrow> kind = Kind_directory \<and> perm = 448)"

definition apart_from :: "string \<Rightarrow> string \<Rightarrow> bool" where
  "apart_from base target \<longleftrightarrow>
     (case path_rel base target of
        None \<Rightarrow> False
      | Some relative \<Rightarrow> \<not> (relative = ''.'' \<or> (relative \<noteq> ''..'' \<and> \<not> has_prefix relative ''../'')))"

definition session_caches :: "string \<Rightarrow> env_map" where
  "session_caches base = [(''GOCACHE'', path_join [base, ''cache'']), (''GOMODCACHE'', path_join [base, ''mod''])]"

definition session_verifier_caches :: "string \<Rightarrow> env_map" where
  "session_verifier_caches base =
     [(''GOCACHE'', path_join [base, ''verifier-cache'']), (''GOMODCACHE'', path_join [base, ''verifier-mod'']),
      (''GOTMPDIR'', path_join [base, ''verifier-tmp''])]"

text \<open>The loop over the verifier directories: nothing for an unsafe one, else how many exist.\<close>

fun present_private :: "session_view \<Rightarrow> string list \<Rightarrow> nat option" where
  "present_private view [] = Some 0"
| "present_private view (p # ps) =
     (if vw_mode view p = Inl Err_not_exist then present_private view ps
      else if \<not> private_directory view p then None
      else map_option Suc (present_private view ps))"

definition task_cache_directories ::
  "session_view \<Rightarrow> (string list \<Rightarrow> string list) \<Rightarrow> string \<Rightarrow> string \<Rightarrow> (env_map \<times> env_map) option" where
  "task_cache_directories view order repository_root base =
     (if 4096 < length base \<or> \<not> is_abs base \<or> path_clean base \<noteq> base \<or>
         \<not> has_prefix (path_base base) ''golib-cache-session.'' then None
      else if vw_eval_symlinks view base \<noteq> Some base then None
      else if vw_eval_symlinks view (vw_temporary view) \<noteq> Some (path_dir base) then None
      else (case vw_eval_symlinks view repository_root of
              None \<Rightarrow> None
            | Some repository \<Rightarrow>
                if \<not> apart_from repository base \<or> \<not> apart_from base repository then None
                else if \<not> list_all (private_directory view) (base # map snd (session_caches base)) then None
                else (case present_private view (order (map snd (session_verifier_caches base))) of
                        None \<Rightarrow> None
                      | Some present \<Rightarrow>
                          if present = 0 then Some (session_caches base, [])
                          else if present \<noteq> length (session_verifier_caches base) then None
                          else Some (session_caches base, session_verifier_caches base))))"

section \<open>The task workspace\<close>

record task_files =
  tf_mkdir_temp :: "string \<Rightarrow> string \<Rightarrow> world \<Rightarrow> world \<times> (io_error + string)"
  tf_mkdir_all :: "string \<Rightarrow> world \<Rightarrow> world \<times> io_error option"
  tf_walk :: "string \<Rightarrow> (string \<Rightarrow> 32 word \<Rightarrow> io_error option \<Rightarrow> world \<Rightarrow> world \<times> io_error option)
    \<Rightarrow> world \<Rightarrow> world \<times> io_error option"
  tf_chmod :: "string \<Rightarrow> 32 word \<Rightarrow> world \<Rightarrow> world \<times> io_error option"
  tf_remove_all :: "string \<Rightarrow> world \<Rightarrow> world \<times> io_error option"

datatype executor_error =
    Task_workspace_failed io_error | Task_directory_failed io_error
  | Not_removable io_error | Not_removed io_error | Session_invalid

definition task_cleanup :: "task_files \<Rightarrow> string \<Rightarrow> world \<Rightarrow> world \<times> executor_error option" where
  "task_cleanup files task w =
     (case tf_walk files task
             (\<lambda>path mode failed w. case failed of Some e \<Rightarrow> (w, Some e) | None \<Rightarrow> tf_chmod files path (mode OR 128) w) w of
        (w, Some e) \<Rightarrow> (w, Some (Not_removable e))
      | (w, None) \<Rightarrow>
          (case tf_remove_all files task w of
             (w, Some e) \<Rightarrow> (w, Some (Not_removed e))
           | (w, None) \<Rightarrow> (w, None)))"

definition task_slug :: "string \<Rightarrow> string" where
  "task_slug repository_root =
     map (\<lambda>c. if c = CHR ''/'' \<or> c = CHR 0x5C then CHR ''-'' else c) (path_base repository_root)"

definition task_environment :: "string \<Rightarrow> env_map" where
  "task_environment task =
     [(''GOCACHE'', path_join [task, ''go-build'']), (''GOMODCACHE'', path_join [task, ''go-mod'']),
      (''GOTMPDIR'', path_join [task, ''go-tmp'']), (''GOBIN'', path_join [task, ''bin'']),
      (''GOLANGCI_LINT_CACHE'', path_join [task, ''golangci-lint''])]"

definition task_runtime_caches :: "string \<Rightarrow> env_map" where
  "task_runtime_caches task =
     [(''GOCACHE'', path_join [task, ''runtime-go-build'']), (''GOMODCACHE'', path_join [task, ''runtime-go-mod'']),
      (''GOLANGCI_LINT_CACHE'', path_join [task, ''runtime-lint''])]"

definition append_cache_directories :: "(string list \<Rightarrow> string list) \<Rightarrow> env_map list \<Rightarrow> string list" where
  "append_cache_directories order sets = concat (map (\<lambda>s. order (map snd s)) sets)"

fun make_task_directories ::
  "task_files \<Rightarrow> string \<Rightarrow> string list \<Rightarrow> world \<Rightarrow> world \<times> executor_error option" where
  "make_task_directories files task [] w = (w, None)"
| "make_task_directories files task (d # ds) w =
     (case tf_mkdir_all files d w of
        (w, Some e) \<Rightarrow> (case task_cleanup files task w of (w, _) \<Rightarrow> (w, Some (Task_directory_failed e)))
      | (w, None) \<Rightarrow> make_task_directories files task ds w)"

definition executor_of :: "string \<Rightarrow> process_executor" where
  "executor_of task =
     \<lparr>pe_environment = map_set ''GOLIB_TASK_CACHE_ROOT'' [] (map_set ''GOCACHEPROG'' []
        (map_set ''GOLANGCI_LINT_CACHEPROG'' [] (task_environment task))),
      pe_runtime_caches = task_runtime_caches task, pe_borrowed = [], pe_borrowed_verifier = [], pe_task = task\<rparr>"

definition new_process_executor ::
  "task_files \<Rightarrow> (string list \<Rightarrow> string list) \<Rightarrow> string \<Rightarrow> world \<Rightarrow> world \<times> (executor_error + process_executor)" where
  "new_process_executor files order repository_root w =
     (case tf_mkdir_temp files [] (''golib-'' @ task_slug repository_root @ ''-'') w of
        (w, Inl e) \<Rightarrow> (w, Inl (Task_workspace_failed e))
      | (w, Inr task) \<Rightarrow>
          (case make_task_directories files task
                  (append_cache_directories order [task_environment task, task_runtime_caches task]) w of
             (w, Some e) \<Rightarrow> (w, Inl e)
           | (w, None) \<Rightarrow> (w, Inr (executor_of task))))"

definition new_process_executor_with_task_cache ::
  "session_view \<Rightarrow> task_files \<Rightarrow> (string list \<Rightarrow> string list) \<Rightarrow> string \<Rightarrow> string \<Rightarrow> world
    \<Rightarrow> world \<times> (executor_error + process_executor)" where
  "new_process_executor_with_task_cache view files order repository_root cache_root w =
     (case task_cache_directories view order repository_root cache_root of
        None \<Rightarrow> (w, Inl Session_invalid)
      | Some (directories, verifier_directories) \<Rightarrow>
          (case new_process_executor files order repository_root w of
             (w, Inl e) \<Rightarrow> (w, Inl e)
           | (w, Inr x) \<Rightarrow>
               (w, Inr (x\<lparr>pe_borrowed := directories, pe_borrowed_verifier := verifier_directories\<rparr>))))"

section \<open>Running a command\<close>

text \<open>The operating system's process: program, arguments, directory, environment and input.\<close>

type_synonym os_process =
  "string \<Rightarrow> string list \<Rightarrow> string \<Rightarrow> string list \<Rightarrow> string option \<Rightarrow> world \<Rightarrow> world \<times> process_outcome"

definition start_process :: "string list \<Rightarrow> process_executor \<Rightarrow> os_process \<Rightarrow> gate_command \<Rightarrow> world \<Rightarrow> world \<times> process_outcome" where
  "start_process os_environ x process c w =
     process (cm_program c) (cm_arguments c) (cm_directory c) (command_process_environment os_environ x c) (gc_stdin c) w"

text \<open>\<open>boundedProcessResult\<close>: an ended context fails the command even after it has exited.\<close>

definition bounded_process_result :: "process_outcome \<Rightarrow> process_outcome" where
  "bounded_process_result outcome =
     (if po_cancelled outcome \<and> po_error outcome = None then outcome\<lparr>po_error := Some Process_failed\<rparr> else outcome)"

text \<open>\<open>runBounded\<close>: \<open>ended\<close> is the context before the start, \<open>prepared\<close> the process group.\<close>

definition run_bounded ::
  "string list \<Rightarrow> process_executor \<Rightarrow> os_process \<Rightarrow> bool \<Rightarrow> bool \<Rightarrow> gate_command \<Rightarrow> world \<Rightarrow> world \<times> process_outcome" where
  "run_bounded os_environ x process ended prepared c w =
     (if ended then (w, \<lparr>po_writes = [], po_error = Some Process_failed, po_cancelled = True\<rparr>)
      else if \<not> prepared then (w, \<lparr>po_writes = [], po_error = Some Process_failed, po_cancelled = False\<rparr>)
      else (case start_process os_environ x process c w of (w, outcome) \<Rightarrow> (w, bounded_process_result outcome)))"

definition executor_run ::
  "string list \<Rightarrow> process_executor \<Rightarrow> os_process \<Rightarrow> bool \<Rightarrow> bool \<Rightarrow> gate_command \<Rightarrow> world \<Rightarrow> world \<times> process_outcome" where
  "executor_run os_environ x process ended prepared c w =
     (if gc_scanner c then run_bounded os_environ x process ended prepared c w
      else start_process os_environ x process c w)"

end
