(* ===== verification/Gate_Source.thy ===== *)
theory Gate_Source
  imports Mutation_Input
begin

text \<open>
  internal/gates: the bounded walk over a source tree (source_walk.go) and the admission of
  security suppressions in Go comments (runner.go).

  What the operating system shows of the tree is a \<open>walk_view\<close>; the Go parser is an argument that
  delivers the comment groups of a file. The context is a budget of polls: \<open>Some k\<close> ends it at
  poll \<open>k\<close>, \<open>None\<close> never.
\<close>

section \<open>The context\<close>

type_synonym ctx = "nat option"

fun poll_ctx :: "ctx \<Rightarrow> bool \<times> ctx" where
  "poll_ctx None = (False, None)"
| "poll_ctx (Some 0) = (True, Some 0)"
| "poll_ctx (Some (Suc k)) = (False, Some k)"

section \<open>The walk (source\_walk.go)\<close>

text \<open>\<open>wv_root\<close>: the directory opens as an \<open>os.Root\<close>. \<open>wv_close\<close>: closing the file succeeds.\<close>

record walk_view = source_view +
  wv_root :: "string \<Rightarrow> bool"
  wv_close :: "string \<Rightarrow> bool"

datatype 'e visit = Visit_on | Visit_skip | Visit_failed 'e

datatype 'e walk_error =
    Walk_root | Walk_stopped | Walk_depth | Walk_unavailable | Walk_read | Walk_entries | Walk_visit 'e

record 's walk_state =
  wk_ctx :: ctx
  wk_entries :: int
  wk_visitor :: 's

type_synonym ('s, 'e) visitor = "string \<Rightarrow> dir_entry \<Rightarrow> ctx \<Rightarrow> 's \<Rightarrow> ctx \<times> 's \<times> 'e visit"

text \<open>One entry of a directory; \<open>sub\<close> walks a directory below.\<close>

definition walk_entry ::
  "('s, 'e) visitor \<Rightarrow> (string \<Rightarrow> 's walk_state \<Rightarrow> 's walk_state \<times> 'e walk_error option) \<Rightarrow> int \<Rightarrow> string
    \<Rightarrow> dir_entry \<Rightarrow> 's walk_state \<Rightarrow> 's walk_state \<times> 'e walk_error option" where
  "walk_entry visit sub limit relative entry st =
     (case poll_ctx (wk_ctx st) of
        (stop, c) \<Rightarrow>
          if stop then (st\<lparr>wk_ctx := c\<rparr>, Some Walk_stopped)
          else (let st = st\<lparr>wk_ctx := c, wk_entries := wk_entries st + 1\<rparr>
                in if limit < wk_entries st then (st, Some Walk_entries)
                   else (let name = path_join [relative, de_name entry]
                         in case visit name entry (wk_ctx st) (wk_visitor st) of
                              (c, s, verdict) \<Rightarrow>
                                (let st = st\<lparr>wk_ctx := c, wk_visitor := s\<rparr>
                                 in case verdict of
                                      Visit_failed e \<Rightarrow> (st, Some (Walk_visit e))
                                    | Visit_skip \<Rightarrow> (st, None)
                                    | Visit_on \<Rightarrow>
                                        if de_kind entry = Kind_directory then sub name st else (st, None)))))"

text \<open>One directory: its entries in the order they are delivered, then its end or a failure.\<close>

fun walk_entries ::
  "('s, 'e) visitor \<Rightarrow> (string \<Rightarrow> 's walk_state \<Rightarrow> 's walk_state \<times> 'e walk_error option) \<Rightarrow> int \<Rightarrow> string \<Rightarrow> bool
    \<Rightarrow> dir_entry list \<Rightarrow> 's walk_state \<Rightarrow> 's walk_state \<times> 'e walk_error option" where
  "walk_entries visit sub limit relative failed [] st = (st, if failed then Some Walk_read else None)"
| "walk_entries visit sub limit relative failed (entry # rest) st =
     (case walk_entry visit sub limit relative entry st of
        (st, Some e) \<Rightarrow> (st, Some e)
      | (st, None) \<Rightarrow> walk_entries visit sub limit relative failed rest st)"

text \<open>\<open>levels\<close> is 129 at the root, which has depth 0, so that a depth above 128 has none left.\<close>

fun walk_directory ::
  "walk_view \<Rightarrow> ('s, 'e) visitor \<Rightarrow> int \<Rightarrow> string \<Rightarrow> nat \<Rightarrow> string \<Rightarrow> 's walk_state
    \<Rightarrow> 's walk_state \<times> 'e walk_error option" where
  "walk_directory view visit limit source levels relative st =
     (case poll_ctx (wk_ctx st) of
        (stop, c) \<Rightarrow>
          if stop then (st\<lparr>wk_ctx := c\<rparr>, Some Walk_stopped)
          else (case levels of
             0 \<Rightarrow> (st\<lparr>wk_ctx := c\<rparr>, Some Walk_depth)
           | Suc n \<Rightarrow>
               (case sv_directory view (path_join [source, relative]) of
                  Inl e \<Rightarrow> (st\<lparr>wk_ctx := c\<rparr>, Some Walk_unavailable)
                | Inr (entries, failed) \<Rightarrow>
                    walk_entries visit (walk_directory view visit limit source n) limit relative failed entries
                      (st\<lparr>wk_ctx := c\<rparr>))))"

declare walk_directory.simps [simp del]

definition walk_security_source ::
  "walk_view \<Rightarrow> ('s, 'e) visitor \<Rightarrow> int \<Rightarrow> string \<Rightarrow> ctx \<Rightarrow> 's \<Rightarrow> 's walk_state \<times> 'e walk_error option" where
  "walk_security_source view visit limit source c s =
     (let st = \<lparr>wk_ctx = c, wk_entries = 0, wk_visitor = s\<rparr>
      in if \<not> wv_root view source then (st, Some Walk_root)
         else walk_directory view visit limit source 129 ''.'' st)"

section \<open>Suppression directives (runner.go)\<close>

text \<open>\<open>^G[0-9]{3}(?:\s*,\s*G[0-9]{3})*$\<close>: white space is allowed around the commas only.\<close>

definition regex_space :: "char \<Rightarrow> bool" where
  "regex_space c \<longleftrightarrow> List.member [CHR 0x09, CHR 0x0A, CHR 0x0C, CHR 0x0D, CHR 0x20] c"

definition rule_id_re :: "string \<Rightarrow> bool" where
  "rule_id_re s \<longleftrightarrow> length s = 4 \<and> hd s = CHR ''G'' \<and> list_all is_digit (tl s)"

definition strip_left :: "string \<Rightarrow> string" where "strip_left = dropWhile regex_space"
definition strip_right :: "string \<Rightarrow> string" where "strip_right s = rev (dropWhile regex_space (rev s))"

fun rule_list_from :: "string list \<Rightarrow> bool" where
  "rule_list_from [] = False"
| "rule_list_from [p] = rule_id_re p"
| "rule_list_from (p # q # ps) = (rule_id_re (strip_right p) \<and> rule_list_from (strip_left q # ps))"

definition security_rule_list_re :: "string \<Rightarrow> bool" where
  "security_rule_list_re s \<longleftrightarrow> rule_list_from (split_on CHR '','' s)"

datatype suppression_error = Exact_rules_required | Reason_required | Nolint_reason_required

definition trim_left_in :: "string \<Rightarrow> string \<Rightarrow> string" where
  "trim_left_in cutset s = dropWhile (\<lambda>c. List.member cutset c) s"

definition validate_native_security_directive :: "string \<Rightarrow> suppression_error option" where
  "validate_native_security_directive arguments =
     (let (rules, reason, found) =
            (case cut_at arguments ''--'' of None \<Rightarrow> (arguments, [], False) | Some (a, b) \<Rightarrow> (a, b, True));
          rules = trim_space rules
      in if \<not> security_rule_list_re rules
         then (let parts = fields_str arguments
               in if \<not> found \<and> parts \<noteq> [] \<and> security_rule_list_re (hd parts) then Some Reason_required
                  else Some Exact_rules_required)
         else refuse (\<not> found \<or> trim_space (trim_left_in ''-'' reason) = []) Reason_required)"

definition gosec_disable_directive :: "string \<Rightarrow> string option" where
  "gosec_disable_directive comment =
     (let body = trim_space comment; directive = ''//gosec:disable''
      in if body = directive \<or> has_prefix body (directive @ '' '')
         then Some (trim_space (trim_prefix body directive)) else None)"

definition native_security_directive :: "string \<Rightarrow> bool \<Rightarrow> string option" where
  "native_security_directive line allow_gosec_disable =
     (let body = trim_space line
      in if allow_gosec_disable \<and> gosec_disable_directive body \<noteq> None then gosec_disable_directive body
         else (let body = (if has_prefix body ''//'' then trim_space (trim_prefix body ''//'') else body)
               in if has_prefix body ''#nosec'' then Some (trim_space (trim_prefix body ''#nosec'')) else None))"

text \<open>A comment of the parser: its text with the comment marks, and its line.\<close>

record go_comment =
  gt_text :: string
  gt_line :: nat

fun block_directives :: "nat \<Rightarrow> string list \<Rightarrow> (string \<times> nat) list" where
  "block_directives number [] = []"
| "block_directives number (line # rest) =
     (let line = trim_space line
      in (if has_prefix line ''//'' then []
          else (case native_security_directive line False of None \<Rightarrow> [] | Some d \<Rightarrow> [(d, number)])) @
         block_directives (Suc number) rest)"

definition comment_directives :: "go_comment \<Rightarrow> (string \<times> nat) list" where
  "comment_directives comment =
     (let body = gt_text comment
      in if has_prefix body ''//''
         then (case native_security_directive body False of None \<Rightarrow> [] | Some d \<Rightarrow> [(d, gt_line comment)])
         else block_directives (gt_line comment)
                (split_on CHR 0x0A (trim_suffix (trim_prefix body ''/*'') ''*/'')))"

definition native_nosec_group_directives :: "go_comment list \<Rightarrow> (string \<times> nat) list" where
  "native_nosec_group_directives comments = concat (map comment_directives comments)"

text \<open>\<open>strings.EqualFold\<close> with an ASCII word: of its letters only \<open>s\<close> has a further fold.\<close>

definition fold_rune :: "int \<Rightarrow> int" where
  "fold_rune r = (if 65 \<le> r \<and> r \<le> 90 then r + 32 else if r = 383 then 115 else r)"

definition equal_fold_gosec :: "string \<Rightarrow> bool" where
  "equal_fold_gosec s \<longleftrightarrow> map (fold_rune \<circ> fst) (runes s) = map fst (runes ''gosec'')"

definition nolint_gosec_directive :: "string \<Rightarrow> string option" where
  "nolint_gosec_directive comment =
     (let body = trim_left_in ''/ '' comment
      in if \<not> has_prefix body ''nolint:'' then None
         else (let (directive, reason) = (case cut_at body ''//'' of None \<Rightarrow> (body, []) | Some (a, b) \<Rightarrow> (a, b))
               in if list_ex (\<lambda>linter. equal_fold_gosec (trim_space linter))
                       (split_on CHR '','' (trim_prefix directive ''nolint:''))
                  then Some reason else None))"

datatype located_error = At_line string nat suppression_error

definition comment_error :: "string \<Rightarrow> go_comment \<Rightarrow> located_error option" where
  "comment_error path comment = first_error
     [(case gosec_disable_directive (gt_text comment) of
         None \<Rightarrow> None
       | Some d \<Rightarrow> map_option (At_line path (gt_line comment)) (validate_native_security_directive d)),
      (case nolint_gosec_directive (gt_text comment) of
         None \<Rightarrow> None
       | Some reason \<Rightarrow> refuse (trim_space reason = []) (At_line path (gt_line comment) Nolint_reason_required))]"

definition group_error :: "string \<Rightarrow> go_comment list \<Rightarrow> located_error option" where
  "group_error path comments = first_error
     (map (\<lambda>(d, number). map_option (At_line path number) (validate_native_security_directive d))
        (native_nosec_group_directives comments) @
      map (comment_error path) comments)"

section \<open>Reading a source\<close>

datatype suppression_failure =
    Source_info_failed | Source_not_regular string | Source_too_large string | Source_open_failed
  | Source_unreadable | Source_unparsable string | Suppression_bad located_error

definition maximum_security_source_size :: int where "maximum_security_source_size = 4194304"
definition maximum_security_source_files :: int where "maximum_security_source_files = 100000"

text \<open>The limited reader asks for one byte more than the limit: a failure behind it is not seen.\<close>

definition read_security_suppression_source ::
  "walk_view \<Rightarrow> string \<Rightarrow> string \<Rightarrow> dir_entry \<Rightarrow> int \<Rightarrow> suppression_failure + string" where
  "read_security_suppression_source view source relative entry limit =
     (let path = path_join [source, relative]
      in case sv_lstat view path of
           Inl e \<Rightarrow> Inl Source_info_failed
         | Inr None \<Rightarrow> Inl Source_info_failed
         | Inr (Some info) \<Rightarrow>
             if fi_kind info \<noteq> Kind_regular then Inl (Source_not_regular (de_name entry))
             else if limit < fi_size info then Inl (Source_too_large (de_name entry))
             else (case sv_open view path of
                     Inl e \<Rightarrow> Inl Source_open_failed
                   | Inr None \<Rightarrow> Inl Source_open_failed
                   | Inr (Some f) \<Rightarrow>
                       if (of_failed f \<and> int (length (of_content f)) \<le> limit) \<or> \<not> wv_close view path
                       then Inl Source_unreadable
                       else if limit < int (length (of_content f)) then Inl (Source_too_large (de_name entry))
                       else Inr (of_content f)))"

definition skipped_source_directories :: "string list" where
  "skipped_source_directories = [''.git'', ''.golib-tooling'', ''vendor'']"

type_synonym comment_parser = "string \<Rightarrow> string \<Rightarrow> go_comment list list option"

definition suppression_visit ::
  "walk_view \<Rightarrow> comment_parser \<Rightarrow> string \<Rightarrow> (unit, suppression_failure) visitor" where
  "suppression_visit view parse source relative entry c s =
     (c, s,
      let path = path_join [source, relative]
      in if de_kind entry = Kind_directory
         then (if List.member skipped_source_directories (de_name entry) then Visit_skip else Visit_on)
         else if path_ext (de_name entry) \<noteq> ''.go'' then Visit_on
         else (case read_security_suppression_source view source relative entry maximum_security_source_size of
                 Inl e \<Rightarrow> Visit_failed e
               | Inr content \<Rightarrow>
                   (case parse path content of
                      None \<Rightarrow> Visit_failed (Source_unparsable path)
                    | Some groups \<Rightarrow>
                        (case first_error (map (group_error path) groups) of
                           None \<Rightarrow> Visit_on
                         | Some e \<Rightarrow> Visit_failed (Suppression_bad e)))))"

definition check_security_suppressions ::
  "walk_view \<Rightarrow> comment_parser \<Rightarrow> string \<Rightarrow> int \<Rightarrow> ctx \<Rightarrow> ctx \<times> suppression_failure walk_error option" where
  "check_security_suppressions view parse source entry_limit c =
     (if \<not> wv_root view source then (c, Some Walk_root)
      else (case walk_security_source view (suppression_visit view parse source) entry_limit source c () of
              (st, e) \<Rightarrow> (wk_ctx st, e)))"

section \<open>The repository's own ignore file\<close>

datatype ignore_error = Ignore_uninspectable | Repository_gitleaks_ignore

definition reject_repository_gitleaks_ignore :: "walk_view \<Rightarrow> string \<Rightarrow> ignore_error option" where
  "reject_repository_gitleaks_ignore view base =
     (case sv_lstat view (path_join [base, ''.gitleaksignore'']) of
        Inl Err_not_exist \<Rightarrow> None
      | Inl e \<Rightarrow> Some Ignore_uninspectable
      | Inr None \<Rightarrow> Some Ignore_uninspectable
      | Inr (Some info) \<Rightarrow> refuse (fi_kind info \<noteq> Kind_directory) Repository_gitleaks_ignore)"

end
