(* ===== verification/Gate_Gosec.thy ===== *)
theory Gate_Gosec
  imports Strict_Json Go_Rel
begin

text \<open>
  internal/gates/gosec_reporting.go: the projection of the private report of the security
  scanner. Only it leaves the process boundary: a class, counts, and for at most 64 findings the
  digest of the path, the rule and the position.

  Arguments: what encoding/json delivers for each destination, the tokens of its decoder,
  \<open>strings.ToLower\<close> and SHA-256 in hexadecimal.
\<close>

section \<open>Unambiguous documents\<close>

text \<open>The members of one composite value: \<open>sub\<close> walks a value below and consumes a token at least,
  so that a bound by the number of tokens is never reached.\<close>

fun gosec_items ::
  "(json_token list \<Rightarrow> json_token list option) \<Rightarrow> (string \<Rightarrow> string) \<Rightarrow> bool \<Rightarrow> nat \<Rightarrow> string list
    \<Rightarrow> json_token list \<Rightarrow> json_token list option" where
  "gosec_items sub lower object 0 keys ts = None"
| "gosec_items sub lower object (Suc fuel) keys ts =
     (if \<not> tokens_more ts then Some ts
      else if object
      then (case ts of
              Tok_string name # ts \<Rightarrow>
                if List.member keys (lower name) then None
                else Option.bind (sub ts) (gosec_items sub lower object fuel (lower name # keys))
            | _ \<Rightarrow> None)
      else Option.bind (sub ts) (gosec_items sub lower object fuel keys))"

text \<open>\<open>levels\<close> is 65 for the document, which has depth 0.\<close>

fun gosec_value :: "(string \<Rightarrow> string) \<Rightarrow> nat \<Rightarrow> json_token list \<Rightarrow> json_token list option" where
  "gosec_value lower 0 ts = None"
| "gosec_value lower (Suc levels) ts =
     (case ts of
        [] \<Rightarrow> None
      | Tok_string _ # ts \<Rightarrow> Some ts
      | Tok_scalar # ts \<Rightarrow> Some ts
      | Tok_open_object # ts \<Rightarrow>
          (case gosec_items (gosec_value lower levels) lower True (Suc (length ts)) [] ts of
             Some (Tok_close_object # ts) \<Rightarrow> Some ts | _ \<Rightarrow> None)
      | Tok_open_array # ts \<Rightarrow>
          (case gosec_items (gosec_value lower levels) lower False (Suc (length ts)) [] ts of
             Some (Tok_close_array # ts) \<Rightarrow> Some ts | _ \<Rightarrow> None)
      | _ \<Rightarrow> None)"

text \<open>\<open>ends\<close>: the decoder reports the end of the input behind the last token.\<close>

definition unique_gosec_json :: "(string \<Rightarrow> string) \<Rightarrow> json_token list \<Rightarrow> bool \<Rightarrow> bool" where
  "unique_gosec_json lower tokens ends \<longleftrightarrow> gosec_value lower 65 tokens = Some [] \<and> ends"

section \<open>The report\<close>

record gosec_stats =
  gt_files :: "int option"
  gt_lines :: "int option"
  gt_nosec :: "int option"
  gt_found :: "int option"

text \<open>Raw values stay texts.\<close>

record gosec_document =
  gd_errors :: "string option"
  gd_issues :: "string option"
  gd_stats :: "gosec_stats option"

record gosec_loading =
  gl_line :: int
  gl_column :: int
  gl_error :: "string option"

record gosec_issue =
  gi_rule :: string
  gi_file :: string
  gi_line :: string
  gi_column :: string
  gi_nosec :: "bool option"
  gi_suppressions :: "string option"

record gosec_codec =
  gx_tokens :: "string \<Rightarrow> json_token list \<times> bool"
  gx_document :: "string \<Rightarrow> gosec_document option"
  gx_loading :: "string \<Rightarrow> (string \<times> gosec_loading list) list option"
  gx_issues :: "string \<Rightarrow> gosec_issue list option"
  gx_suppressions :: "string \<Rightarrow> string list option"
  gx_lower :: "string \<Rightarrow> string"
  gx_sha256 :: "string \<Rightarrow> string"

definition pinned_gosec_rule :: "string \<Rightarrow> bool" where
  "pinned_gosec_rule r \<longleftrightarrow> List.member
     [''G101'', ''G102'', ''G103'', ''G104'', ''G106'', ''G107'', ''G108'', ''G109'', ''G110'', ''G111'', ''G112'',
      ''G113'', ''G114'', ''G115'', ''G116'', ''G117'', ''G118'', ''G119'', ''G120'', ''G121'', ''G122'', ''G123'', ''G124'',
      ''G201'', ''G202'', ''G203'', ''G204'', ''G301'', ''G302'', ''G303'', ''G304'', ''G305'', ''G306'', ''G307'',
      ''G401'', ''G402'', ''G403'', ''G404'', ''G405'', ''G406'', ''G407'', ''G408'', ''G501'', ''G502'', ''G503'', ''G504'',
      ''G505'', ''G506'', ''G507'', ''G601'', ''G602'',
      ''G701'', ''G702'', ''G703'', ''G704'', ''G705'', ''G706'', ''G707'', ''G708'', ''G709'', ''G710''] r"

definition decimal_gosec :: "string \<Rightarrow> bool" where
  "decimal_gosec v \<longleftrightarrow> v \<noteq> [] \<and> list_all is_digit v"

text \<open>At most nine digits: \<open>strconv.Atoi\<close> does not fail.\<close>

fun coordinate_parts :: "int \<Rightarrow> string list \<Rightarrow> bool" where
  "coordinate_parts previous [] = True"
| "coordinate_parts previous (part # parts) =
     (if \<not> decimal_gosec part \<or> 9 < length part then False
      else (let number = int (dec_value part)
            in if number < 1 \<or> 100000000 < number \<or> number < previous then False
               else coordinate_parts number parts))"

definition gosec_coordinate :: "string \<Rightarrow> bool \<Rightarrow> bool" where
  "gosec_coordinate v line \<longleftrightarrow>
     (let parts = split_on CHR ''-'' v
      in \<not> (2 < length parts \<or> (\<not> line \<and> length parts \<noteq> 1)) \<and> coordinate_parts 0 parts)"

definition stat_ok :: "int option \<Rightarrow> bool" where
  "stat_ok v \<longleftrightarrow> (case v of None \<Rightarrow> False | Some n \<Rightarrow> \<not> (n < 0 \<or> 100000000 < n))"

text \<open>The loading errors: their number, or nothing when they are not admissible.\<close>

definition loading_ok :: "gosec_loading \<Rightarrow> bool" where
  "loading_ok e \<longleftrightarrow> gl_error e \<noteq> None \<and> \<not> (gl_line e < 0 \<or> 100000000 < gl_line e \<or>
     gl_column e < 0 \<or> 100000000 < gl_column e)"

fun count_loading :: "nat \<Rightarrow> gosec_loading list list \<Rightarrow> nat option" where
  "count_loading n [] = Some n"
| "count_loading n (entries # rest) =
     (if entries = [] \<or> 4096 < n + length entries then None
      else if \<not> list_all loading_ok entries then None
      else count_loading (n + length entries) rest)"

text \<open>The path of a finding, relative to the module and below it.\<close>

definition issue_path :: "string \<Rightarrow> gosec_issue \<Rightarrow> string option" where
  "issue_path base issue =
     (let path = (if is_abs (gi_file issue) then gi_file issue else path_join [base, gi_file issue])
      in case path_rel base path of
           None \<Rightarrow> None
         | Some relative \<Rightarrow>
             if relative = ''.'' \<or> relative = ''..'' \<or> has_prefix relative ''../'' \<or> is_abs relative then None
             else Some relative)"

definition issue_ok :: "gosec_codec \<Rightarrow> gosec_issue \<Rightarrow> bool" where
  "issue_ok codec issue \<longleftrightarrow>
     gi_nosec issue = Some False \<and>
     (case gi_suppressions issue of None \<Rightarrow> False | Some raw \<Rightarrow> gx_suppressions codec raw = Some []) \<and>
     pinned_gosec_rule (gi_rule issue) \<and> gosec_coordinate (gi_line issue) True \<and>
     gosec_coordinate (gi_column issue) False \<and> gi_file issue \<noteq> []"

definition issue_location :: "gosec_codec \<Rightarrow> string \<Rightarrow> gosec_issue \<Rightarrow> string" where
  "issue_location codec relative issue =
     CHR 0x0A # ''gosec-location '' @ gx_sha256 codec relative @ '' '' @ gi_rule issue @ '' '' @ gi_line issue @
       '' '' @ gi_column issue"

text \<open>The loop over the findings: their number, and the locations of the first 64.\<close>

fun project_issues ::
  "gosec_codec \<Rightarrow> string \<Rightarrow> nat \<Rightarrow> string \<Rightarrow> gosec_issue list \<Rightarrow> (nat \<times> string) option" where
  "project_issues codec base n locations [] = Some (n, locations)"
| "project_issues codec base n locations (issue # rest) =
     (if \<not> issue_ok codec issue then None
      else (case issue_path base issue of
              None \<Rightarrow> None
            | Some relative \<Rightarrow>
                project_issues codec base (Suc n)
                  (if Suc n \<le> 64 then locations @ issue_location codec relative issue else locations) rest))"

definition gosec_unusable :: string where "gosec_unusable = ''gosec-tool-or-report-failure''"

definition maximum_gosec_report :: int where "maximum_gosec_report = 4194304"

definition project_report ::
  "gosec_codec \<Rightarrow> string option \<Rightarrow> gosec_stats \<Rightarrow> (string \<times> gosec_loading list) list \<Rightarrow> gosec_issue list
    \<Rightarrow> (string \<times> nat \<times> nat \<times> nat \<times> string) option" where
  "project_report codec base stats loading issues =
     (if 4096 < length loading \<or> 4096 < length issues then None
      else (case (count_loading 0 (map snd loading), base) of
              (Some loaded, Some base) \<Rightarrow>
                (case project_issues codec base 0 [] issues of
                   None \<Rightarrow> None
                 | Some (findings, locations) \<Rightarrow>
                     if gt_found stats \<noteq> Some (int findings) \<or>
                        (loaded = 0 \<and> (gt_files stats = Some 0 \<or> findings = 0)) then None
                     else Some (if 0 < loaded then ''gosec-loading-failure'' else ''gosec-findings'',
                            findings, length loading, loaded, locations))
            | _ \<Rightarrow> None))"

text \<open>\<open>base\<close> is the absolute directory of the module, when \<open>filepath.Abs\<close> finds one.\<close>

definition gosec_projection ::
  "gosec_codec \<Rightarrow> string option \<Rightarrow> string \<Rightarrow> (string \<times> nat \<times> nat \<times> nat \<times> string) option" where
  "gosec_projection codec base data =
     (if data = [] \<or> maximum_gosec_report < int (length data) \<or>
         \<not> (case gx_tokens codec data of (tokens, ends) \<Rightarrow> unique_gosec_json (gx_lower codec) tokens ends) then None
      else (case gx_document codec data of
              None \<Rightarrow> None
            | Some d \<Rightarrow>
                (case (gd_errors d, gd_issues d, gd_stats d) of
                   (Some raw_errors, Some raw_issues, Some stats) \<Rightarrow>
                     if \<not> list_all stat_ok [gt_files stats, gt_lines stats, gt_nosec stats, gt_found stats] then None
                     else (case (gx_loading codec raw_errors, gx_issues codec raw_issues) of
                             (Some loading, Some issues) \<Rightarrow> project_report codec base stats loading issues
                           | _ \<Rightarrow> None)
                 | _ \<Rightarrow> None)))"

definition gosec_failure_metadata :: "gosec_codec \<Rightarrow> string option \<Rightarrow> string \<Rightarrow> string" where
  "gosec_failure_metadata codec base data =
     (case gosec_projection codec base data of
        None \<Rightarrow> gosec_unusable
      | Some (cls, findings, packages, loaded, locations) \<Rightarrow>
          cls @ '' findings='' @ dec_nat findings @ '' loading_packages='' @ dec_nat packages @
            '' loading_errors='' @ dec_nat loaded @ locations)"

section \<open>The bound of the loop is never reached\<close>

lemma gosec_items_shrinks:
  assumes "\<And>ts ts'. sub ts = Some ts' \<Longrightarrow> length ts' < length ts"
  shows "gosec_items sub lower object fuel keys ts = Some ts' \<Longrightarrow> length ts' \<le> length ts"
proof (induction fuel arbitrary: keys ts)
  case (Suc fuel)
  have step: "length ts' \<le> length ts"
    if "sub us = Some vs" and "length us \<le> length ts" and "gosec_items sub lower object fuel keys' vs = Some ts'" for us vs keys'
    using that assms[of us vs] Suc.IH by fastforce
  show ?case
    using Suc.prems step
    by (auto split: if_splits list.splits json_token.splits simp: Option.bind_eq_Some_conv)
qed simp

lemma gosec_value_shrinks: "gosec_value lower levels ts = Some ts' \<Longrightarrow> length ts' < length ts"
proof (induction levels arbitrary: ts ts')
  case (Suc levels)
  note items = gosec_items_shrinks[OF Suc.IH]
  show ?case
  proof (cases ts)
    case (Cons t us)
    have "ts' = us \<or> (\<exists>object fuel t'. gosec_items (gosec_value lower levels) lower object fuel [] us = Some (t' # ts'))"
      using Suc.prems
      by (auto simp: Cons simp del: gosec_items.simps split: json_token.splits option.splits list.splits)
    then show ?thesis using items by (fastforce simp: Cons)
  qed (use Suc.prems in simp)
qed simp

lemma gosec_items_bound:
  assumes "\<And>ts ts'. sub ts = Some ts' \<Longrightarrow> length ts' < length ts"
  shows "length ts < fuel \<Longrightarrow> length ts < fuel' \<Longrightarrow>
    gosec_items sub lower object fuel keys ts = gosec_items sub lower object fuel' keys ts"
proof (induction fuel arbitrary: fuel' keys ts)
  case (Suc fuel)
  obtain fuel2 where fuel': "fuel' = Suc fuel2" using Suc.prems by (cases fuel') auto
  have step: "gosec_items sub lower object fuel keys' vs = gosec_items sub lower object fuel2 keys' vs"
    if "sub us = Some vs" and "length us \<le> length ts" for us vs keys'
    using that assms[OF that(1)] Suc.prems Suc.IH[of vs fuel2 keys'] fuel' by simp
  show ?case
    using step by (auto simp: fuel' split: list.splits json_token.splits intro!: Option.bind_cong)
qed simp

end
