(* ===== verification/Gate_Run.thy ===== *)
theory Gate_Run
  imports Gate_Process Gate_Source Gate_Gosec Mutation_Campaign Coverage Inventory
begin

text \<open>
  internal/gates: the state that a run of gates threads through its steps, and the small steps
  the gates are made of (runner.go, process.go, services.go).

  A step is a function on the state that ends with a value or an error. The state holds the file
  system, the context, the compiler tools of a security pass, and what a run shows: the lines
  written to the output, the commands given to the executor, and the temporary files made and
  removed. The last two are observations of the model; the code reads none of them back.

  \<open>gate_kit\<close> holds what the steps use and the gates do not define: the executor, the operating
  system's files, the parsers of the standard library and the other packages of the repository.
\<close>

section \<open>Errors\<close>

text \<open>An error of the gates: a message of the code, a wrapped or joined error, or the error of
  another part.\<close>

datatype gate_error =
    Stopped
  | Refused string
  | Because string gate_error
  | Joined_errors "gate_error list"
  | By_process process_error
  | By_io io_error
  | By_ignore ignore_error
  | By_walk "suppression_failure walk_error"
  | By_coverage coverage_error
  | By_operation operation_error
  | By_repository repository_error
  | By_campaign campaign_error
  | By_review review_error
  | By_archive archive_error
  | By_ledger ledger_error
  | By_runtime runtime_error
  | By_parser "string list"

section \<open>Steps\<close>

text \<open>A tool of the compiler graph (compiler\_tools.go).\<close>

record compiler_tool =
  ct_name :: string
  ct_module :: string
  ct_version :: string
  ct_command :: string

datatype event =
    Announced string string
  | Printed string
  | Ran gate_command
  | Made string
  | Made_inside string string
  | Removed string

record run =
  rn_world :: world
  rn_ctx :: ctx
  rn_events :: "event list"
  rn_binaries :: "(compiler_tool \<times> string) list option"

type_synonym 'a act = "run \<Rightarrow> run \<times> (gate_error + 'a)"

definition give :: "'a \<Rightarrow> 'a act" where "give x r = (r, Inr x)"
definition fail :: "gate_error \<Rightarrow> 'a act" where "fail e r = (r, Inl e)"

definition and_do :: "'a act \<Rightarrow> ('a \<Rightarrow> 'b act) \<Rightarrow> 'b act" where
  "and_do m f r = (case m r of (r, Inl e) \<Rightarrow> (r, Inl e) | (r, Inr x) \<Rightarrow> f x r)"

definition refuse_if :: "bool \<Rightarrow> gate_error \<Rightarrow> unit act" where
  "refuse_if b e = (if b then fail e else give ())"

definition when_gate :: "bool \<Rightarrow> unit act \<Rightarrow> unit act" where
  "when_gate b m = (if b then m else give ())"

text \<open>Steps in order, up to the first error.\<close>

fun in_order :: "unit act list \<Rightarrow> unit act" where
  "in_order [] = give ()"
| "in_order (m # ms) = and_do m (\<lambda>_. in_order ms)"

text \<open>Run a step and return its error, instead of stopping at it.\<close>

definition attempt :: "'a act \<Rightarrow> (gate_error + 'a) act" where
  "attempt m r = (case m r of (r, x) \<Rightarrow> (r, Inr x))"

definition error_of :: "gate_error + 'a \<Rightarrow> gate_error option" where
  "error_of x = (case x of Inl e \<Rightarrow> Some e | Inr _ \<Rightarrow> None)"

definition from_option :: "gate_error option \<Rightarrow> unit act" where
  "from_option e = (case e of None \<Rightarrow> give () | Some e \<Rightarrow> fail e)"

text \<open>\<open>errors.Join\<close>: nothing if every error is nil.\<close>

definition join_errors :: "gate_error option list \<Rightarrow> gate_error option" where
  "join_errors es = (case List.map_filter id es of [] \<Rightarrow> None | fs \<Rightarrow> Some (Joined_errors fs))"

text \<open>A step whose cleanup runs on every path and joins its error.\<close>

definition cleaned_up :: "'a act \<Rightarrow> unit act \<Rightarrow> 'a act" where
  "cleaned_up m cleanup r =
     (case m r of
        (r, x) \<Rightarrow>
          (case cleanup r of
             (r, y) \<Rightarrow>
               (r, case join_errors [error_of x, error_of y] of None \<Rightarrow> x | Some e \<Rightarrow> Inl e)))"

definition on_world :: "(world \<Rightarrow> world \<times> 'a) \<Rightarrow> 'a act" where
  "on_world f r = (case f (rn_world r) of (w, x) \<Rightarrow> (r\<lparr>rn_world := w\<rparr>, Inr x))"

definition see_world :: "(world \<Rightarrow> 'a) \<Rightarrow> 'a act" where
  "see_world f r = (r, Inr (f (rn_world r)))"

definition emit :: "event \<Rightarrow> unit act" where
  "emit e r = (r\<lparr>rn_events := rn_events r @ [e]\<rparr>, Inr ())"

text \<open>\<open>ctx.Err()\<close>\<close>

definition check_ctx :: "unit act" where
  "check_ctx r =
     (case poll_ctx (rn_ctx r) of (stop, c) \<Rightarrow> (r\<lparr>rn_ctx := c\<rparr>, if stop then Inl Stopped else Inr ()))"

section \<open>The kit\<close>

text \<open>The operating system's files, as the gates use them. \<open>os_create\<close> takes the directory and the
  pattern of \<open>os.CreateTemp\<close>.\<close>

record os_files =
  os_create :: "string \<Rightarrow> string \<Rightarrow> world \<Rightarrow> world \<times> (io_error + string)"
  os_write :: "string \<Rightarrow> string \<Rightarrow> world \<Rightarrow> world \<times> io_error option"
  os_close :: "string \<Rightarrow> world \<Rightarrow> world \<times> io_error option"
  os_read :: "string \<Rightarrow> world \<Rightarrow> world \<times> (io_error + string \<times> bool)"
  os_remove :: "string \<Rightarrow> world \<Rightarrow> world \<times> io_error option"
  os_mkdir_temp :: "string \<Rightarrow> string \<Rightarrow> world \<Rightarrow> world \<times> (io_error + string)"
  os_mkdir :: "string \<Rightarrow> world \<Rightarrow> world \<times> io_error option"
  os_mkdir_all :: "string \<Rightarrow> world \<Rightarrow> world \<times> io_error option"
  os_write_file :: "string \<Rightarrow> string \<Rightarrow> world \<Rightarrow> world \<times> io_error option"
  os_remove_all :: "string \<Rightarrow> world \<Rightarrow> world \<times> io_error option"
  os_rename :: "string \<Rightarrow> string \<Rightarrow> world \<Rightarrow> world \<times> io_error option"
  os_create_new :: "string \<Rightarrow> world \<Rightarrow> world \<times> io_error option"
  os_place :: "string \<Rightarrow> (string \<times> string option) list \<Rightarrow> world \<Rightarrow> world"

text \<open>Which steps of the copy of a source tree fail, by the relative path, and how often the
  content of a file is read until its end.\<close>

record copy_files =
  cf_mkdir :: "string \<Rightarrow> bool"
  cf_create :: "string \<Rightarrow> bool"
  cf_write :: "string \<Rightarrow> bool"
  cf_close :: "string \<Rightarrow> bool"
  cf_reads :: "string \<Rightarrow> nat"

text \<open>A tree as \<open>filepath.WalkDir\<close> shows it: a directory has its entries in the order of their
  names, and whether reading it failed.\<close>

datatype file_tree = Tree_leaf string file_kind | Tree_directory string "file_tree list" bool

record go_imports =
  gi_imports :: "string list"
  gi_comments :: "string list list"

text \<open>What documentation.go uses: \<open>docscheck.CheckContext\<close> and \<open>CheckWithinContext\<close>, the assets of
  the spelling tool, and the release of the link checker and its extraction.\<close>

record docs_kit =
  dk_check :: "world \<Rightarrow> string \<Rightarrow> gate_error option"
  dk_check_within :: "world \<Rightarrow> string \<Rightarrow> string \<Rightarrow> gate_error option"
  dk_assets :: "(string \<times> string) list"
  dk_release_url :: "gate_error + string"
  dk_extract :: "world \<Rightarrow> string \<Rightarrow> gate_error + string"

text \<open>What mutation.go uses of the mutation package beside its definitions here: the decoders of the
  inventories, the archive reader, and the campaign's libraries. \<open>mk_owner_only\<close> says whether a path
  is a directory with the mode 0700, \<open>mk_symlinks\<close> is \<open>filepath.EvalSymlinks\<close>.\<close>

record mutation_kit =
  mk_libraries :: libraries
  mk_zero :: "zero_inventory strict_decoder"
  mk_equivalent :: "equivalent_inventory strict_decoder"
  mk_runtime :: "string \<Rightarrow> runtime_identity json_next \<times> unit json_next"
  mk_ledger :: "migration_ledger strict_decoder"
  mk_checkpoint :: "legacy_checkpoint strict_decoder"
  mk_archive :: "string \<Rightarrow> archive_entry list option"
  mk_owner_only :: "world \<Rightarrow> string \<Rightarrow> bool"
  mk_symlinks :: "world \<Rightarrow> string \<Rightarrow> string option"
  mk_now :: "world \<Rightarrow> int"

text \<open>What services.go uses of internal/services: the parser of the image lock, and \<open>Manager.Start\<close>,
  whose lease has an environment, identities and a \<open>Close\<close>.\<close>

record service_lease =
  sl_environment :: env_map
  sl_identities :: env_map
  sl_close :: "world \<Rightarrow> world \<times> gate_error option"

record service_kit =
  sk_images :: "string \<Rightarrow> string list option"
  sk_start :: "string list \<Rightarrow> string list option \<Rightarrow> world \<Rightarrow> world \<times> (gate_error + service_lease)"

text \<open>What release.go uses of golang.org/x/mod: the escaping of paths and versions, and the creation
  of an archive (path, module path, version, source), closed, with the error of either.\<close>

record release_kit =
  rk_escape_path :: "string \<Rightarrow> string option"
  rk_escape_version :: "string \<Rightarrow> string option"
  rk_archive :: "string \<Rightarrow> string \<Rightarrow> string \<Rightarrow> string \<Rightarrow> world \<Rightarrow> world \<times> gate_error option"

text \<open>\<open>gk_listed\<close>: the directories that \<open>go list -json=Dir\<close> decodes to. \<open>gk_sbom\<close>: format and version.\<close>

record gate_kit =
  gk_executor :: "gate_command \<Rightarrow> world \<Rightarrow> world \<times> process_outcome"
  gk_os :: os_files
  gk_view :: "world \<Rightarrow> walk_view"
  gk_tree :: "world \<Rightarrow> string \<Rightarrow> file_tree option"
  gk_stat :: "world \<Rightarrow> string \<Rightarrow> io_error option"
  gk_comments :: comment_parser
  gk_imports :: "world \<Rightarrow> string \<Rightarrow> go_imports option"
  gk_duration :: duration_parser
  gk_selector_syntax :: regexp_parser
  gk_selector :: "string \<Rightarrow> (string \<Rightarrow> bool) option"
  gk_block_order :: block_order
  gk_block_order2 :: block_order
  gk_listed :: "string \<Rightarrow> string json_next list"
  gk_gosec :: gosec_codec
  gk_abs :: "string \<Rightarrow> string option"
  gk_copy :: copy_files
  gk_gitleaks_policy :: string
  gk_sbom :: "string \<Rightarrow> (string \<times> string) option"
  gk_docs :: docs_kit
  gk_mutation :: mutation_kit
  gk_services :: service_kit
  gk_release :: release_kit

section \<open>The runner\<close>

record change_range =
  cr_base :: string
  cr_head :: string
  cr_paths :: "string list"

text \<open>\<open>rn_workspace\<close> is the temporary directory when the executor is a \<open>taskWorkspace\<close>;
  \<open>rn_service_env\<close> the environment of a \<open>serviceEnvironmentExecutor\<close> around it.\<close>

record runner =
  rn_root :: string
  rn_catalog :: inventory
  rn_policy :: config
  rn_workspace :: "string option"
  rn_service_env :: "env_map option"
  rn_service_identities :: env_map
  rn_secret_changes :: "change_range option"
  rn_secrets_scanned :: bool

section \<open>Commands and output\<close>

definition merge_maps :: "env_map \<Rightarrow> env_map \<Rightarrow> env_map" where
  "merge_maps base override = map_copy (map_copy [] base) override"

definition service_command :: "runner \<Rightarrow> gate_command \<Rightarrow> gate_command" where
  "service_command rn c =
     (case rn_service_env rn of
        None \<Rightarrow> c
      | Some environment \<Rightarrow> c\<lparr>cm_environment := merge_maps environment (cm_environment c)\<rparr>)"

text \<open>\<open>Executor.Run\<close> under the context of the run, and under a context of its own deadline.\<close>

definition execute :: "gate_kit \<Rightarrow> runner \<Rightarrow> gate_command \<Rightarrow> process_outcome act" where
  "execute kit rn c r =
     (case gk_executor kit (service_command rn c) (rn_world r) of
        (w, outcome) \<Rightarrow>
          (r\<lparr>rn_world := w, rn_events := rn_events r @ [Ran (service_command rn c)],
             rn_ctx := (if po_cancelled outcome then Some 0 else rn_ctx r)\<rparr>, Inr outcome))"

definition execute_within :: "gate_kit \<Rightarrow> runner \<Rightarrow> gate_command \<Rightarrow> process_outcome act" where
  "execute_within kit rn c r =
     (case gk_executor kit (service_command rn c) (rn_world r) of
        (w, outcome) \<Rightarrow>
          (r\<lparr>rn_world := w, rn_events := rn_events r @ [Ran (service_command rn c)]\<rparr>, Inr outcome))"

definition succeed_or :: "(process_error \<Rightarrow> gate_error) \<Rightarrow> process_outcome \<Rightarrow> unit act" where
  "succeed_or wrap outcome = (case po_error outcome of None \<Rightarrow> give () | Some e \<Rightarrow> fail (wrap e))"

definition stream_writes :: "stream \<Rightarrow> process_outcome \<Rightarrow> string list" where
  "stream_writes s outcome = map snd (filter (\<lambda>(t, v). t = s) (po_writes outcome))"

definition process_output :: "string \<Rightarrow> secret_metadata option \<Rightarrow> stream \<Rightarrow> process_outcome \<Rightarrow> bounded_output" where
  "process_output line metadata s outcome =
     fold bounded_write (stream_writes s outcome)
       (bounded_output_of maximum_security_process_output line metadata)"

definition inventory_output :: "stream \<Rightarrow> process_outcome \<Rightarrow> source_output" where
  "inventory_output s outcome =
     fold source_write (stream_writes s outcome) (source_output_of maximum_security_process_output)"

definition buffer_output :: "stream \<Rightarrow> process_outcome \<Rightarrow> bounded_buffer" where
  "buffer_output s outcome = fold buffer_bounded_write (stream_writes s outcome) empty_buffer"

definition announce :: "string \<Rightarrow> string \<Rightarrow> unit act \<Rightarrow> unit act" where
  "announce md gate operation = and_do (emit (Announced md gate)) (\<lambda>_. operation)"

definition gowork_off :: env_map where "gowork_off = [(''GOWORK'', ''off'')]"

definition command_class :: "string list \<Rightarrow> cache_class" where
  "command_class arguments =
     (case arguments of
        [] \<Rightarrow> Repository_runtime_cache
      | a # as \<Rightarrow>
          if a = ''test'' \<or> a = ''mod'' then Native_repository_cache
          else if a = ''run'' \<or> a = ''vet'' then Verifier_cache
          else Repository_runtime_cache)"

definition go_command :: "gate_kit \<Rightarrow> runner \<Rightarrow> string \<Rightarrow> string \<Rightarrow> string \<Rightarrow> string list \<Rightarrow> unit act" where
  "go_command kit rn md gate directory arguments =
     announce md gate
       (and_do (execute kit rn (gate_command_of (command_class arguments) False ''go'' arguments directory gowork_off))
          (succeed_or (\<lambda>e. Because (md @ '' '' @ gate) (By_process e))))"

definition workspace_or :: "gate_error \<Rightarrow> runner \<Rightarrow> string act" where
  "workspace_or e rn =
     (case rn_workspace rn of
        None \<Rightarrow> fail e
      | Some d \<Rightarrow> if is_abs d then give d else fail e)"

section \<open>Temporary files\<close>

definition make_temporary :: "gate_kit \<Rightarrow> string \<Rightarrow> string \<Rightarrow> (io_error + string) act" where
  "make_temporary kit directory pattern =
     and_do (on_world (os_create (gk_os kit) directory pattern)) (\<lambda>x.
       case x of
         Inl e \<Rightarrow> give (Inl e)
       | Inr p \<Rightarrow> and_do (emit (Made p)) (\<lambda>_. give (Inr p)))"

definition make_temporary_directory :: "gate_kit \<Rightarrow> string \<Rightarrow> string \<Rightarrow> (io_error + string) act" where
  "make_temporary_directory kit directory pattern =
     and_do (on_world (os_mkdir_temp (gk_os kit) directory pattern)) (\<lambda>x.
       case x of
         Inl e \<Rightarrow> give (Inl e)
       | Inr p \<Rightarrow> and_do (emit (Made p)) (\<lambda>_. give (Inr p)))"

text \<open>A directory made inside another that the run has made: it has no removal of its own and goes with
  the directory that holds it.\<close>

definition make_directory_inside :: "gate_kit \<Rightarrow> string \<Rightarrow> string \<Rightarrow> (io_error + string) act" where
  "make_directory_inside kit directory pattern =
     and_do (on_world (os_mkdir_temp (gk_os kit) directory pattern)) (\<lambda>x.
       case x of
         Inl e \<Rightarrow> give (Inl e)
       | Inr p \<Rightarrow> and_do (emit (Made_inside directory p)) (\<lambda>_. give (Inr p)))"

definition remove_temporary :: "gate_kit \<Rightarrow> string \<Rightarrow> io_error option act" where
  "remove_temporary kit p =
     and_do (emit (Removed p)) (\<lambda>_. on_world (os_remove (gk_os kit) p))"

definition remove_temporary_directory :: "gate_kit \<Rightarrow> string \<Rightarrow> io_error option act" where
  "remove_temporary_directory kit p =
     and_do (emit (Removed p)) (\<lambda>_. on_world (os_remove_all (gk_os kit) p))"

definition succeed_io :: "(io_error \<Rightarrow> gate_error) \<Rightarrow> io_error option \<Rightarrow> unit act" where
  "succeed_io wrap e = (case e of None \<Rightarrow> give () | Some f \<Rightarrow> fail (wrap f))"

end
