(* ===== verification/Gate_Snapshot.thy ===== *)
theory Gate_Snapshot
  imports Gate_Run
begin

text \<open>
  internal/gates/gitleaks\_sources.go: the bounded copies of the history and of the current tree
  that the secret scanner reads, so that it never reads the repository itself.

  What is copied is a list of relative paths, a directory without and a file with its content.
  A file is copied in one step of the model; \<open>cf_reads\<close> says how often the copy polls the context.
\<close>

section \<open>Limits\<close>

record security_limits =
  ql_refs :: int
  ql_objects :: int
  ql_entries :: int
  ql_bytes :: int

definition source_security_limits :: security_limits where
  "source_security_limits =
     \<lparr>ql_refs = 10000, ql_objects = 100000, ql_entries = maximum_security_source_files, ql_bytes = 4294967296\<rparr>"

text \<open>The errors of the walk, with the messages of source\_walk.go.\<close>

definition walk_failure :: "gate_error walk_error \<Rightarrow> gate_error" where
  "walk_failure e =
     (case e of
        Walk_root \<Rightarrow> Refused ''source traversal root unavailable''
      | Walk_stopped \<Rightarrow> Stopped
      | Walk_depth \<Rightarrow> Refused ''source traversal depth limit exceeded''
      | Walk_unavailable \<Rightarrow> Refused ''source directory unavailable''
      | Walk_read \<Rightarrow> Refused ''source directory read failed''
      | Walk_entries \<Rightarrow> Refused ''source traversal entry limit exceeded''
      | Walk_visit f \<Rightarrow> f)"

text \<open>\<open>errors.Join(sourceCommandError, ctx.Err(), ...)\<close>\<close>

definition fail_joined :: "gate_error option list \<Rightarrow> 'a act" where
  "fail_joined es = (case join_errors es of None \<Rightarrow> fail (Joined_errors []) | Some e \<Rightarrow> fail e)"

definition command_error :: "string \<Rightarrow> process_error option \<Rightarrow> gate_error" where
  "command_error cls cause = (case cause of None \<Rightarrow> Refused cls | Some e \<Rightarrow> Because cls (By_process e))"

definition ctx_error :: "gate_error option act" where
  "ctx_error = and_do (attempt check_ctx) (\<lambda>x. give (error_of x))"

definition source_command_error :: "string \<Rightarrow> process_error option \<Rightarrow> 'a act" where
  "source_command_error cls cause =
     and_do ctx_error (\<lambda>stopped. fail_joined [Some (command_error cls cause), stopped])"

section \<open>The history\<close>

fun history_lines :: "bool \<Rightarrow> security_limits \<Rightarrow> int \<Rightarrow> int \<Rightarrow> string list \<Rightarrow> unit act" where
  "history_lines objects limits count used [] = give ()"
| "history_lines objects limits count used (line # rest) =
     and_do check_ctx (\<lambda>_.
       if line = [] then fail (Refused ''gitleaks history inventory is empty or malformed'')
       else if \<not> objects
       then (if \<not> has_prefix line ''refs/'' \<or> ql_refs limits < count + 1
             then fail (Refused ''gitleaks history reference limit exceeded or malformed'')
             else history_lines objects limits (count + 1) used rest)
       else (case atoi line of
               None \<Rightarrow> fail (Refused ''gitleaks history object or byte limit exceeded or malformed'')
             | Some bytes \<Rightarrow>
                 if bytes < 0 \<or> ql_objects limits < count + 1 \<or> ql_bytes limits - used < bytes
                 then fail (Refused ''gitleaks history object or byte limit exceeded or malformed'')
                 else history_lines objects limits (count + 1) (used + bytes) rest))"

definition history_arguments :: "string \<Rightarrow> bool \<Rightarrow> string list" where
  "history_arguments base objects =
     (if objects then [''-C'', base, ''cat-file'', ''--batch-all-objects'', ''--batch-check=%(objectsize)'']
      else [''-C'', base, ''for-each-ref'', ''--format=%(refname)''])"

definition preflight_inventory :: "gate_kit \<Rightarrow> runner \<Rightarrow> security_limits \<Rightarrow> bool \<Rightarrow> unit act" where
  "preflight_inventory kit rn limits objects =
     and_do check_ctx (\<lambda>_.
       and_do (execute kit rn (gate_command_of Repository_runtime_cache True ''git''
           (history_arguments (rn_root rn) objects) (rn_root rn) [])) (\<lambda>outcome.
         let stdout = inventory_output Stdout outcome
         in if po_error outcome \<noteq> None \<or> bo_overflow stdout \<or> bo_overflow (process_output [] None Stderr outcome)
            then source_command_error ''gitleaks history inventory failed or exceeded output limit'' (po_error outcome)
            else history_lines objects limits 0 0
                   (split_on CHR 0x0A (trim_suffix (so_data stdout) [CHR 0x0A]))))"

definition preflight_gitleaks_history :: "gate_kit \<Rightarrow> runner \<Rightarrow> security_limits \<Rightarrow> unit act" where
  "preflight_gitleaks_history kit rn limits =
     in_order (map (preflight_inventory kit rn limits) [False, True])"

section \<open>The bounded bundle file\<close>

text \<open>\<open>boundedSourceFile.Write\<close>, on a file that can be written. The embedded output has the limit 0
  and only remembers the overflow.\<close>

record bounded_file =
  bf_limit :: int
  bf_data :: string
  bf_overflow :: bool

definition bounded_file_write :: "string \<Rightarrow> bounded_file \<Rightarrow> bounded_file" where
  "bounded_file_write v f =
     (let remaining = bf_limit f - int (length (bf_data f))
      in if remaining < int (length v)
         then f\<lparr>bf_data := (if 0 < remaining then bf_data f @ take (nat remaining) v else bf_data f),
                bf_overflow := True\<rparr>
         else f\<lparr>bf_data := bf_data f @ v\<rparr>)"

definition bounded_file_of :: "int \<Rightarrow> string list \<Rightarrow> bounded_file" where
  "bounded_file_of limit vs = fold bounded_file_write vs \<lparr>bf_limit = limit, bf_data = [], bf_overflow = False\<rparr>"

section \<open>The current tree\<close>

text \<open>The parents of the selected paths, each poll of the context included. A valid relative path
  reaches \<open>.\<close> within as many steps as it has bytes.\<close>

fun path_ancestors :: "nat \<Rightarrow> string \<Rightarrow> string list act" where
  "path_ancestors 0 parent = give []"
| "path_ancestors (Suc fuel) parent =
     (if parent = ''.'' then give []
      else and_do check_ctx (\<lambda>_. and_do (path_ancestors fuel (path_dir parent)) (\<lambda>ps. give (parent # ps))))"

fun selected_ancestors :: "string list \<Rightarrow> string list act" where
  "selected_ancestors [] = give []"
| "selected_ancestors (name # names) =
     and_do (path_ancestors (length name) (path_dir name)) (\<lambda>ps.
       and_do (selected_ancestors names) (\<lambda>qs. give (ps @ qs)))"

record 's tree_scan =
  tn_entries :: int
  tn_bytes :: int
  tn_inner :: 's

definition entry_metadata :: "walk_view \<Rightarrow> string \<Rightarrow> string \<Rightarrow> file_info option" where
  "entry_metadata view source relative =
     (case sv_lstat view (path_join [source, relative]) of Inr (Some info) \<Rightarrow> Some info | _ \<Rightarrow> None)"

text \<open>What the visitor of the walk decides before it counts an entry.\<close>

definition tree_verdict ::
  "string list option \<Rightarrow> string list \<Rightarrow> string \<Rightarrow> dir_entry \<Rightarrow> gate_error visit option" where
  "tree_verdict selected ancestors relative entry =
     (let directory = (de_kind entry = Kind_directory)
      in if relative = ''.git'' then Some (if directory then Visit_skip else Visit_on)
         else if relative = ''.gitleaksignore'' \<and> \<not> directory then Some Visit_on
         else (case selected of
                 None \<Rightarrow> None
               | Some names \<Rightarrow>
                   if directory then (if List.member ancestors relative then None else Some Visit_skip)
                   else (if List.member names relative then None else Some Visit_on)))"

text \<open>The size of a counted entry: 0 for a directory and for a symbolic link, which is not followed.\<close>

definition entry_size :: "walk_view \<Rightarrow> string \<Rightarrow> int \<Rightarrow> string \<Rightarrow> dir_entry \<Rightarrow> gate_error + int" where
  "entry_size view source remaining relative entry =
     (case de_kind entry of
        Kind_regular \<Rightarrow>
          (case entry_metadata view source relative of
             None \<Rightarrow> Inl (Refused ''gitleaks current-tree metadata failed'')
           | Some info \<Rightarrow>
               if fi_size info < 0 \<or> remaining < fi_size info
               then Inl (Refused ''gitleaks current-tree byte limit exceeded'') else Inr (fi_size info))
      | Kind_other \<Rightarrow> Inl (Refused ''gitleaks current-tree unsupported entry type'')
      | _ \<Rightarrow> Inr 0)"

definition tree_visit ::
  "walk_view \<Rightarrow> string \<Rightarrow> security_limits \<Rightarrow> string list option \<Rightarrow> string list \<Rightarrow> ('s, gate_error) visitor
    \<Rightarrow> ('s tree_scan, gate_error) visitor" where
  "tree_visit view source limits selected ancestors inner relative entry c s =
     (case tree_verdict selected ancestors relative entry of
        Some v \<Rightarrow> (c, s, v)
      | None \<Rightarrow>
          (let s = s\<lparr>tn_entries := tn_entries s + 1\<rparr>
           in if ql_entries limits < tn_entries s
              then (c, s, Visit_failed (Refused ''gitleaks current-tree entry limit exceeded''))
              else (case entry_size view source (ql_bytes limits - tn_bytes s) relative entry of
                      Inl e \<Rightarrow> (c, s, Visit_failed e)
                    | Inr bytes \<Rightarrow>
                        (case inner relative entry c (tn_inner s) of
                           (c, i, v) \<Rightarrow> (c, s\<lparr>tn_bytes := tn_bytes s + bytes, tn_inner := i\<rparr>, v)))))"

definition inspect_tree ::
  "gate_kit \<Rightarrow> string \<Rightarrow> security_limits \<Rightarrow> string list option \<Rightarrow> ('s, gate_error) visitor \<Rightarrow> 's \<Rightarrow> 's act" where
  "inspect_tree kit source limits selected inner s =
     and_do (selected_ancestors (case selected of None \<Rightarrow> [] | Some names \<Rightarrow> names)) (\<lambda>ancestors r.
       case walk_security_source (gk_view kit (rn_world r))
              (tree_visit (gk_view kit (rn_world r)) source limits selected ancestors inner)
              (ql_entries limits + 2) source (rn_ctx r) \<lparr>tn_entries = 0, tn_bytes = 0, tn_inner = s\<rparr> of
         (st, None) \<Rightarrow> (r\<lparr>rn_ctx := wk_ctx st\<rparr>, Inr (tn_inner (wk_visitor st)))
       | (st, Some e) \<Rightarrow> (r\<lparr>rn_ctx := wk_ctx st\<rparr>, Inl (walk_failure e)))"

definition no_visit :: "(unit, gate_error) visitor" where
  "no_visit relative entry c s = (c, s, Visit_on)"

section \<open>The copy\<close>

fun poll_times :: "nat \<Rightarrow> ctx \<Rightarrow> bool \<times> ctx" where
  "poll_times 0 c = (False, c)"
| "poll_times (Suc n) c = (case poll_ctx c of (stop, c) \<Rightarrow> if stop then (True, c) else poll_times n c)"

record copy_scan =
  cn_copied :: int
  cn_placed :: "(string \<times> string option) list"

text \<open>The content of the file the reader delivers: one byte more than remains is a failure.\<close>

definition copied_content :: "int \<Rightarrow> opened_file \<Rightarrow> string option" where
  "copied_content remaining f =
     (if remaining < int (length (of_content f)) \<or> of_failed f then None else Some (of_content f))"

definition copy_visit :: "copy_files \<Rightarrow> walk_view \<Rightarrow> string \<Rightarrow> security_limits \<Rightarrow> (copy_scan, gate_error) visitor" where
  "copy_visit files view source limits relative entry c s =
     (if de_kind entry = Kind_directory
      then (if cf_mkdir files relative
            then (c, s\<lparr>cn_placed := cn_placed s @ [(relative, None)]\<rparr>, Visit_on)
            else (c, s, Visit_failed (By_io Err_other)))
      else if de_kind entry = Kind_symlink then (c, s, Visit_on)
      else (case sv_open view (path_join [source, relative]) of
              Inr (Some f) \<Rightarrow>
                if \<not> cf_create files relative
                then (c, s, Visit_failed (Refused ''gitleaks current-tree destination open failed''))
                else (case poll_times (cf_reads files relative) c of
                        (stop, c) \<Rightarrow>
                          (case copied_content (ql_bytes limits - cn_copied s) f of
                             Some content \<Rightarrow>
                               if stop \<or> \<not> cf_write files relative \<or> \<not> cf_close files relative
                               then (c, s, Visit_failed (Joined_errors
                                      (Refused ''gitleaks current-tree copy failed'' # (if stop then [Stopped] else []))))
                               else (c, s\<lparr>cn_copied := cn_copied s + int (length content),
                                         cn_placed := cn_placed s @ [(relative, Some content)]\<rparr>, Visit_on)
                           | None \<Rightarrow> (c, s, Visit_failed (Joined_errors
                                      (Refused ''gitleaks current-tree copy failed'' # (if stop then [Stopped] else []))))))
            | _ \<Rightarrow> (c, s, Visit_failed (Refused ''gitleaks current-tree source open failed''))))"

definition copy_tree_selected ::
  "gate_kit \<Rightarrow> string \<Rightarrow> string \<Rightarrow> security_limits \<Rightarrow> string list option \<Rightarrow> (string \<times> string option) list act" where
  "copy_tree_selected kit source destination limits selected =
     and_do (inspect_tree kit source limits selected no_visit ()) (\<lambda>_.
       and_do (on_world (os_mkdir (gk_os kit) destination)) (\<lambda>made.
         if made \<noteq> None then fail (Refused ''create gitleaks current-tree snapshot failed'')
         else and_do (see_world (\<lambda>w. wv_root (gk_view kit w) source)) (\<lambda>opened.
           if \<not> opened then fail (Refused ''open gitleaks current-tree source failed'')
           else and_do (see_world (\<lambda>w. wv_root (gk_view kit w) destination)) (\<lambda>opened.
             if \<not> opened then fail (Refused ''open gitleaks current-tree snapshot failed'')
             else (\<lambda>r. and_do (attempt (inspect_tree kit source limits selected
                          (copy_visit (gk_copy kit) (gk_view kit (rn_world r)) source limits)
                          \<lparr>cn_copied = 0, cn_placed = []\<rparr>)) (\<lambda>x.
                    case x of
                      Inl e \<Rightarrow> fail (Because ''create gitleaks current-tree snapshot'' e)
                    | Inr s \<Rightarrow>
                        and_do (on_world (\<lambda>w. (os_place (gk_os kit) destination (cn_placed s) w, ()))) (\<lambda>_.
                          give (cn_placed s))) r)))))"

section \<open>The sources of a scan\<close>

record gitleaks_sources =
  gs_root :: string
  gs_history :: string
  gs_current :: string
  gs_ignore_root :: string

definition gitleaks_source_command :: "gate_kit \<Rightarrow> runner \<Rightarrow> string \<Rightarrow> string list \<Rightarrow> unit act" where
  "gitleaks_source_command kit rn directory arguments =
     and_do check_ctx (\<lambda>_.
       and_do (execute kit rn (gate_command_of Repository_runtime_cache True ''git'' arguments directory [])) (\<lambda>outcome.
         if po_error outcome \<noteq> None \<or> bo_overflow (process_output [] None Stdout outcome) \<or>
            bo_overflow (process_output [] None Stderr outcome)
         then source_command_error ''gitleaks history snapshot command failed'' (po_error outcome)
         else check_ctx))"

definition bundle_arguments :: "runner \<Rightarrow> string list" where
  "bundle_arguments rn =
     (case rn_secret_changes rn of
        None \<Rightarrow> [''-C'', rn_root rn, ''bundle'', ''create'', ''-'', ''--all'']
      | Some changes \<Rightarrow>
          [''--no-replace-objects'', ''-c'', ''core.fsmonitor=false'', ''-C'', rn_root rn, ''bundle'', ''create'', ''-'', ''HEAD''])"

definition fetch_reference :: "runner \<Rightarrow> string" where
  "fetch_reference rn =
     (case rn_secret_changes rn of
        None \<Rightarrow> ''+refs/*:refs/golib-source/*'' | Some changes \<Rightarrow> ''HEAD:refs/golib-source/head'')"

text \<open>The bundle: created exclusively, filled by the process within the byte limit, closed.\<close>

definition create_bundle :: "gate_kit \<Rightarrow> runner \<Rightarrow> security_limits \<Rightarrow> string \<Rightarrow> string \<Rightarrow> unit act" where
  "create_bundle kit rn limits workspace bundle =
     and_do (on_world (os_create_new (gk_os kit) bundle)) (\<lambda>made.
       if made \<noteq> None then fail (Refused ''create bounded history bundle'')
       else and_do (execute kit rn (gate_command_of Repository_runtime_cache True ''git''
              (bundle_arguments rn) workspace [])) (\<lambda>outcome.
         let f = bounded_file_of (ql_bytes limits) (stream_writes Stdout outcome)
         in and_do (on_world (os_write (gk_os kit) bundle (bf_data f))) (\<lambda>written.
              and_do (on_world (os_close (gk_os kit) bundle)) (\<lambda>closed.
                and_do ctx_error (\<lambda>stopped.
                  if po_error outcome \<noteq> None \<or> written \<noteq> None \<or> closed \<noteq> None \<or> stopped \<noteq> None \<or> bf_overflow f \<or>
                     bo_overflow (process_output [] None Stderr outcome)
                  then fail_joined [Some (command_error ''bounded history bundle creation failed'' (po_error outcome)), stopped]
                  else give ())))))"

definition fetch_history :: "gate_kit \<Rightarrow> runner \<Rightarrow> string \<Rightarrow> string \<Rightarrow> string \<Rightarrow> unit act" where
  "fetch_history kit rn workspace bundle history =
     in_order (map (\<lambda>arguments. (\<lambda>r.
         case gitleaks_source_command kit rn workspace arguments r of
           (r, Inl e) \<Rightarrow> (r, Inl (Because ''create gitleaks history snapshot'' e))
         | (r, Inr x) \<Rightarrow> (r, Inr x)))
       [[''init'', ''--quiet'', ''--'', history],
        [''-C'', history, ''fetch'', ''--quiet'', ''--force'', ''--no-recurse-submodules'', bundle, fetch_reference rn]])"

definition check_commits :: "gate_kit \<Rightarrow> runner \<Rightarrow> string \<Rightarrow> string \<Rightarrow> unit act" where
  "check_commits kit rn workspace history =
     in_order (map (\<lambda>commit. gitleaks_source_command kit rn workspace
         [''-C'', history, ''cat-file'', ''-e'', commit @ ''^{commit}''])
       (case rn_secret_changes rn of None \<Rightarrow> [] | Some changes \<Rightarrow> [cr_base changes, cr_head changes]))"

definition fill_gitleaks_sources ::
  "gate_kit \<Rightarrow> runner \<Rightarrow> security_limits \<Rightarrow> string list option \<Rightarrow> string \<Rightarrow> gitleaks_sources \<Rightarrow> unit act" where
  "fill_gitleaks_sources kit rn limits selected workspace s =
     (let bundle = path_join [gs_root s, ''history.bundle'']
      in in_order
        [and_do (on_world (os_mkdir (gk_os kit) (gs_ignore_root s)))
           (succeed_io (\<lambda>e. Because ''create gitleaks ignore root'' (By_io e))),
         create_bundle kit rn limits workspace bundle,
         fetch_history kit rn workspace bundle (gs_history s),
         check_commits kit rn workspace (gs_history s),
         and_do (copy_tree_selected kit (rn_root rn) (gs_current s) limits selected) (\<lambda>_. give ())])"

text \<open>On every failure behind the creation of the workspace it is removed again.\<close>

definition create_gitleaks_sources :: "gate_kit \<Rightarrow> runner \<Rightarrow> gitleaks_sources act" where
  "create_gitleaks_sources kit rn =
     (let limits = source_security_limits; selected = map_option cr_paths (rn_secret_changes rn)
      in and_do check_ctx (\<lambda>_.
           and_do (workspace_or (Refused ''gitleaks sources require an absolute task-owned temporary directory'') rn) (\<lambda>workspace.
             and_do (preflight_gitleaks_history kit rn limits) (\<lambda>_.
               and_do (inspect_tree kit (rn_root rn) limits selected no_visit ()) (\<lambda>_.
                 and_do (make_temporary_directory kit workspace ''gitleaks-sources-'') (\<lambda>x.
                   case x of
                     Inl e \<Rightarrow> fail (Because ''create gitleaks source workspace'' (By_io e))
                   | Inr base \<Rightarrow>
                       (let s = \<lparr>gs_root = base, gs_history = path_join [base, ''history''],
                                 gs_current = path_join [base, ''current''], gs_ignore_root = path_join [base, ''ignore'']\<rparr>
                        in and_do (attempt (fill_gitleaks_sources kit rn limits selected workspace s)) (\<lambda>y.
                             case y of
                               Inr _ \<Rightarrow> give s
                             | Inl e \<Rightarrow>
                                 and_do (remove_temporary_directory kit base) (\<lambda>kept.
                                   fail_joined [Some e, map_option By_io kept])))))))))"

end
