(* ===== verification/Gate_Security.thy ===== *)
theory Gate_Security
  imports Gate_Snapshot
begin

text \<open>
  internal/gates: the security phase (runner.go, compiler\_tools.go, gosec\_packages.go, sbom.go,
  secrets\_changes.go): the policies and tools that a pass owns, the scanners with their bounded
  output, and the order in which the selected modules are scanned before anything else runs.

  Every temporary file or directory is made and removed through the steps of Gate\_Run, so that
  the events of a run show both. The embedded gitleaks policy is an argument.
\<close>

section \<open>Versions of the pinned tools\<close>

definition golangci_lint_version :: string where "golangci_lint_version = ''v2.14.0''"
definition staticcheck_version :: string where "staticcheck_version = ''v0.8.1''"
definition nilaway_version :: string where "nilaway_version = ''v0.0.0-20260720194628-9fd1b8d7bac8''"
definition govulncheck_version :: string where "govulncheck_version = ''v1.6.0''"
definition gosec_version :: string where "gosec_version = ''v2.29.0''"
definition go_analysis_version :: string where "go_analysis_version = ''v1.0.0''"
definition gitleaks_version :: string where "gitleaks_version = ''v8.30.1''"
definition go_licenses_version :: string where "go_licenses_version = ''v2.0.1''"
definition cyclonedx_version :: string where "cyclonedx_version = ''v1.12.0''"

definition gosec_tool :: string where
  "gosec_tool = ''github.com/securego/gosec/v2/cmd/gosec@'' @ gosec_version"
definition gitleaks_tool :: string where
  "gitleaks_tool = ''github.com/zricethezav/gitleaks/v8@'' @ gitleaks_version"
definition analysis_tool :: string where
  "analysis_tool = ''github.com/faustbrian/go-analysis/cmd/golib-analysis@'' @ go_analysis_version"
definition staticcheck_tool :: string where
  "staticcheck_tool = ''honnef.co/go/tools/cmd/staticcheck@'' @ staticcheck_version"

section \<open>Owned policies (runner.go)\<close>

definition text_of_lines :: "string list \<Rightarrow> string" where
  "text_of_lines rows = concat (map (\<lambda>row. row @ [CHR 0x0A]) rows)"

definition analysis_security_policy :: string where
  "analysis_security_policy = text_of_lines
     [''version: 1'', ''rules:'', ''  security/no-unsafe:'', ''    status: blocking'', ''    promotion:'',
      ''      version: 1.0.0'',
      ''      evidence: ecosystem security policy prohibits unsafe, cgo, and go:linkname bypasses'']"

definition secret_metadata_template :: string where
  "secret_metadata_template = text_of_lines
     [''{{range .}}{{sha256sum .File}} {{sha256sum .RuleID}} {{.StartLine}} {{if .Commit}}{{.Commit}}{{else}}-{{end}}'']
     @ ''{{end}}''"

definition owned_message :: "string \<Rightarrow> string \<Rightarrow> string" where
  "owned_message verb name = verb @ '' temporary '' @ name @ '' config''"

definition create_owned_policy :: "gate_kit \<Rightarrow> runner \<Rightarrow> string \<Rightarrow> string \<Rightarrow> string \<Rightarrow> string act" where
  "create_owned_policy kit rn name pattern policy =
     and_do (workspace_or (Refused ''security policy requires an absolute task-owned temporary directory'') rn) (\<lambda>workspace.
       and_do (make_temporary kit workspace pattern) (\<lambda>x.
         case x of
           Inl e \<Rightarrow> fail (Because (owned_message ''create'' name) (By_io e))
         | Inr path \<Rightarrow>
             and_do (on_world (os_write (gk_os kit) path policy)) (\<lambda>written.
               case written of
                 Some e \<Rightarrow>
                   and_do (on_world (os_close (gk_os kit) path)) (\<lambda>closed.
                     and_do (remove_temporary kit path) (\<lambda>removed.
                       fail_joined [Some (Because (owned_message ''write'' name) (By_io e)),
                         map_option By_io closed, map_option By_io removed]))
               | None \<Rightarrow>
                   and_do (on_world (os_close (gk_os kit) path)) (\<lambda>closed.
                     case closed of
                       Some e \<Rightarrow>
                         and_do (remove_temporary kit path) (\<lambda>removed.
                           fail_joined [Some (Because (owned_message ''close'' name) (By_io e)), map_option By_io removed])
                     | None \<Rightarrow> give path))))"

text \<open>A step with a cleanup that also runs when the step fails. The error of the step stays, joined
  with the error of the cleanup; an error of the cleanup alone is wrapped.\<close>

definition joining_cleanup :: "io_error option act \<Rightarrow> string \<Rightarrow> unit act \<Rightarrow> unit act" where
  "joining_cleanup cleanup message m =
     and_do (attempt m) (\<lambda>x.
       and_do cleanup (\<lambda>kept.
         case x of
           Inl e \<Rightarrow> fail_joined [Some e, map_option By_io kept]
         | Inr _ \<Rightarrow> succeed_io (\<lambda>e. Because message (By_io e)) kept))"

text \<open>\<open>defer func() { result = errors.Join(result, cleanup()) }\<close>\<close>

definition deferred_join :: "io_error option act \<Rightarrow> unit act \<Rightarrow> unit act" where
  "deferred_join cleanup m =
     and_do (attempt m) (\<lambda>x.
       and_do cleanup (\<lambda>kept. from_option (join_errors [error_of x, map_option By_io kept])))"

section \<open>Compiler tools (compiler\_tools.go)\<close>

definition staticcheck_compiler_tool :: compiler_tool where
  "staticcheck_compiler_tool =
     \<lparr>ct_name = ''staticcheck'', ct_module = ''honnef.co/go/tools'', ct_version = staticcheck_version,
      ct_command = ''honnef.co/go/tools/cmd/staticcheck''\<rparr>"

definition security_compiler_tool :: "string \<Rightarrow> compiler_tool option" where
  "security_compiler_tool identity =
     (if identity = gosec_tool
      then Some \<lparr>ct_name = ''gosec'', ct_module = ''github.com/securego/gosec/v2'', ct_version = gosec_version,
                 ct_command = ''github.com/securego/gosec/v2/cmd/gosec''\<rparr>
      else if identity = analysis_tool
      then Some \<lparr>ct_name = ''golib-analysis'', ct_module = ''github.com/faustbrian/go-analysis'',
                 ct_version = go_analysis_version, ct_command = ''github.com/faustbrian/go-analysis/cmd/golib-analysis''\<rparr>
      else None)"

definition tool_manifest :: "compiler_tool \<Rightarrow> string" where
  "tool_manifest tool = text_of_lines
     [''module golib.invalid/'' @ ct_name tool @ ''-build'', [], ''go 1.27.0'', [], ''require ('',
      '' '' @ ct_module tool @ '' '' @ ct_version tool, '' golang.org/x/tools v0.50.0'', '')'']"

definition overflow_error :: "string \<Rightarrow> process_outcome \<Rightarrow> gate_error option" where
  "overflow_error message outcome =
     (if bo_overflow (process_output [] None Stdout outcome) \<or> bo_overflow (process_output [] None Stderr outcome)
      then Some (Refused message) else None)"

definition build_compiler_tool :: "gate_kit \<Rightarrow> runner \<Rightarrow> compiler_tool \<Rightarrow> string \<Rightarrow> unit act" where
  "build_compiler_tool kit rn tool base =
     and_do (on_world (os_write_file (gk_os kit) (path_join [base, ''go.mod'']) (tool_manifest tool))) (\<lambda>written.
       case written of
         Some e \<Rightarrow> fail (Because ''prepare compiler tool'' (By_io e))
       | None \<Rightarrow>
           and_do (execute kit rn (gate_command_of Verifier_cache True ''go''
               [''build'', ''-mod=mod'', ''-o'', path_join [base, ct_name tool], ct_command tool] base
               [(''GOWORK'', ''off''), (''GOFLAGS'', []), (''GOTOOLCHAIN'', ''go1.27.3'')])) (\<lambda>outcome.
             case join_errors [map_option By_process (po_error outcome),
                    overflow_error ''compiler tool build output exceeded 4194304 bytes'' outcome] of
               Some e \<Rightarrow> fail (Because ''compiler tool build'' e)
             | None \<Rightarrow> check_ctx))"

definition known_binary :: "compiler_tool \<Rightarrow> string option act" where
  "known_binary tool r = (r, Inr (Option.bind (rn_binaries r) (\<lambda>m. map_of m tool)))"

text \<open>\<open>runner.compilerToolBinaries[tool] = binary\<close>, when the pass keeps binaries: whether it did.\<close>

definition keep_binary :: "compiler_tool \<Rightarrow> string \<Rightarrow> bool act" where
  "keep_binary tool binary r =
     (case rn_binaries r of
        None \<Rightarrow> (r, Inr False)
      | Some m \<Rightarrow> (r\<lparr>rn_binaries := Some (map_set tool binary m)\<rparr>, Inr True))"

definition remove_tool_directory :: "gate_kit \<Rightarrow> string \<Rightarrow> (gate_error + unit) \<Rightarrow> unit act" where
  "remove_tool_directory kit base x =
     and_do (remove_temporary_directory kit base) (\<lambda>kept.
       case kept of
         None \<Rightarrow> from_option (error_of x)
       | Some e \<Rightarrow> from_option (join_errors [error_of x, Some (Because ''compiler tool cleanup'' (By_io e))]))"

definition with_compiler_tool :: "gate_kit \<Rightarrow> runner \<Rightarrow> compiler_tool \<Rightarrow> (string \<Rightarrow> unit act) \<Rightarrow> unit act" where
  "with_compiler_tool kit rn tool analyze =
     and_do check_ctx (\<lambda>_.
       and_do (workspace_or (Refused ''task-owned workspace required'') rn) (\<lambda>workspace.
         and_do (known_binary tool) (\<lambda>known.
           case known of
             Some binary \<Rightarrow> analyze binary
           | None \<Rightarrow>
               and_do (make_temporary_directory kit workspace (ct_name tool @ ''-'')) (\<lambda>x.
                 case x of
                   Inl e \<Rightarrow> fail (Because ''prepare compiler tool'' (By_io e))
                 | Inr base \<Rightarrow>
                     and_do (attempt (build_compiler_tool kit rn tool base)) (\<lambda>built.
                       case built of
                         Inl e \<Rightarrow> remove_tool_directory kit base (Inl e)
                       | Inr _ \<Rightarrow>
                           (let binary = path_join [base, ct_name tool]
                            in and_do (keep_binary tool binary) (\<lambda>kept.
                                 if kept then analyze binary
                                 else and_do (attempt (analyze binary)) (remove_tool_directory kit base))))))))"

section \<open>One scanner (runner.go)\<close>

definition scan_environment :: "bool \<Rightarrow> env_map" where
  "scan_environment gosec =
     gowork_off @ (if gosec then [(''GOSEC_AI_PROVIDER'', []), (''GOSEC_AI_API_KEY'', []), (''GOSEC_AI_BASE_URL'', [])] else [])"

text \<open>What the outcome of a scanner is reported as. The text of its streams is never part of it.\<close>

definition scan_classification ::
  "gate_kit \<Rightarrow> bool \<Rightarrow> bool \<Rightarrow> string \<Rightarrow> process_outcome \<Rightarrow> bool \<Rightarrow> gate_error option" where
  "scan_classification kit gitleaks gosec directory outcome overflow =
     (if po_error outcome = None \<or> overflow \<or> po_cancelled outcome then None
      else if gitleaks \<and> matched_terminal_line (process_output ''exit status 42'' None Stderr outcome)
      then Some (Refused (''secret-findings'' @ finding_metadata (process_output [] (Some no_metadata) Stdout outcome)))
      else if gosec
      then Some (Refused
             (if po_error outcome = Some (Exit_code 1)
              then gosec_failure_metadata (gk_gosec kit) (gk_abs kit directory) (so_data (inventory_output Stdout outcome))
              else gosec_unusable))
      else None)"

definition scan_failure :: "gate_kit \<Rightarrow> bool \<Rightarrow> bool \<Rightarrow> string \<Rightarrow> process_outcome \<Rightarrow> gate_error option" where
  "scan_failure kit gitleaks gosec directory outcome =
     (let overflow = overflow_error ''security scanner output exceeded 4194304 bytes'' outcome
      in join_errors [overflow, map_option By_process (po_error outcome),
           scan_classification kit gitleaks gosec directory outcome (overflow \<noteq> None)])"

definition run_scanner ::
  "gate_kit \<Rightarrow> runner \<Rightarrow> string \<Rightarrow> string \<Rightarrow> string \<Rightarrow> string \<Rightarrow> string list \<Rightarrow> string \<Rightarrow> unit act" where
  "run_scanner kit rn md gate directory tool arguments binary =
     and_do (execute kit rn
         (if binary = []
          then gate_command_of Verifier_cache True ''go'' ([''run'', tool] @ arguments) directory (scan_environment (tool = gosec_tool))
          else gate_command_of Verifier_cache True binary arguments directory (scan_environment (tool = gosec_tool)))) (\<lambda>outcome.
       case scan_failure kit (tool = gitleaks_tool) (tool = gosec_tool) directory outcome of
         None \<Rightarrow> give ()
       | Some e \<Rightarrow> fail (Because (md @ '' '' @ gate) e))"

definition wrapped :: "string \<Rightarrow> unit act \<Rightarrow> unit act" where
  "wrapped message m r = (case m r of (r, Inl e) \<Rightarrow> (r, Inl (Because message e)) | (r, Inr x) \<Rightarrow> (r, Inr x))"

definition announced_scan ::
  "gate_kit \<Rightarrow> runner \<Rightarrow> string \<Rightarrow> string \<Rightarrow> string \<Rightarrow> string \<Rightarrow> string list \<Rightarrow> unit act" where
  "announced_scan kit rn md gate directory tool arguments =
     announce md gate
       (case security_compiler_tool tool of
          Some t \<Rightarrow> wrapped (md @ '' '' @ gate)
            (with_compiler_tool kit rn t (run_scanner kit rn md gate directory tool arguments))
        | None \<Rightarrow> run_scanner kit rn md gate directory tool arguments [])"

definition security_tool ::
  "gate_kit \<Rightarrow> runner \<Rightarrow> string \<Rightarrow> string \<Rightarrow> string \<Rightarrow> string \<Rightarrow> string list \<Rightarrow> unit act" where
  "security_tool kit rn md gate directory tool arguments =
     (let arguments = (if tool = gosec_tool then ''-fmt=json'' # arguments else arguments)
      in if tool = gitleaks_tool
         then and_do (create_owned_policy kit rn ''gitleaks metadata'' ''gitleaks-metadata-*.tmpl'' secret_metadata_template) (\<lambda>path.
                deferred_join (remove_temporary kit path)
                  (announced_scan kit rn md gate directory tool
                     (arguments @ [''--exit-code=42'', ''--report-format=template'', ''--report-path=-'', ''--report-template'', path])))
         else announced_scan kit rn md gate directory tool arguments)"

section \<open>The packages of the source scanner (gosec\_packages.go)\<close>

definition maximum_gosec_packages :: nat where "maximum_gosec_packages = 4096"
definition maximum_gosec_arguments :: int where "maximum_gosec_arguments = 131072"

definition gosec_argument :: "string \<Rightarrow> string \<Rightarrow> string option" where
  "gosec_argument base directory =
     (if \<not> is_abs directory \<or> path_clean directory \<noteq> directory \<or>
         contains_any directory [CHR 0x00, CHR 0x0D, CHR 0x0A] then None
      else (case path_rel base directory of
              None \<Rightarrow> None
            | Some relative \<Rightarrow>
                if relative = ''..'' \<or> has_prefix relative ''../'' \<or> has_suffix relative ''...'' then None
                else Some (''./'' @ (if relative = ''.'' then [] else relative))))"

text \<open>The loop over the decoded values; the end of the list is the end of the input.\<close>

fun gosec_directories :: "string \<Rightarrow> string list \<Rightarrow> int \<Rightarrow> string json_next list \<Rightarrow> string list act" where
  "gosec_directories base packages bytes values =
     and_do check_ctx (\<lambda>_.
       case values of
         [] \<Rightarrow> give packages
       | Json_eof # rest \<Rightarrow> give packages
       | Json_failure # rest \<Rightarrow> fail (Refused ''gosec package discovery returned malformed output'')
       | Json_value directory # rest \<Rightarrow>
           (case gosec_argument base directory of
              None \<Rightarrow> fail (Refused ''gosec package discovery returned an invalid directory'')
            | Some argument \<Rightarrow>
                (let bytes = bytes + int (length argument) + 1
                 in if List.member packages argument \<or> maximum_gosec_packages \<le> length packages \<or>
                       4096 < length argument \<or> maximum_gosec_arguments < bytes
                    then fail (Refused ''gosec package discovery returned duplicate or excessive directories'')
                    else gosec_directories base (packages @ [argument]) bytes rest)))"

definition gosec_packages :: "gate_kit \<Rightarrow> runner \<Rightarrow> string \<Rightarrow> string list act" where
  "gosec_packages kit rn directory =
     and_do check_ctx (\<lambda>_.
       case gk_abs kit directory of
         None \<Rightarrow> fail (Refused ''gosec package discovery requires an absolute module root'')
       | Some base \<Rightarrow>
           and_do (execute kit rn (gate_command_of Verifier_cache True ''go'' [''list'', ''-json=Dir'', ''./...''] directory gowork_off)) (\<lambda>outcome.
             and_do ctx_error (\<lambda>stopped.
               let stdout = inventory_output Stdout outcome
               in if po_error outcome \<noteq> None \<or> bo_overflow stdout \<or> bo_overflow (process_output [] None Stderr outcome) \<or> stopped \<noteq> None
                  then source_command_error ''gosec package discovery failed or exceeded output limit'' (po_error outcome)
                  else and_do (gosec_directories base [] 0 (gk_listed kit (so_data stdout))) (\<lambda>packages.
                         if packages = [] then fail (Refused ''gosec package discovery returned no packages'')
                         else give (sort packages)))))"

end
