(* ===== verification/Gate_Checks.thy ===== *)
theory Gate_Checks
  imports Gate_Security
begin

text \<open>
  internal/gates: the gates that run inside a module (runner.go, local\_tests.go, staticcheck.go,
  fuzz\_smoke.go for the captured command): operations of the policy, focused local tests,
  formatting, safety and coverage.
\<close>

section \<open>Operations of the policy\<close>

definition find_operation :: "runner \<Rightarrow> string \<Rightarrow> string \<Rightarrow> operation option" where
  "find_operation rn md gate =
     find (\<lambda>op. op_module op = md \<and> op_gate op = gate) (cf_operations (rn_policy rn))"

definition maximum_makefile_size :: int where "maximum_makefile_size = 4194304"

definition tags_argument :: "string list \<Rightarrow> string list" where
  "tags_argument tags = (if tags = [] then [] else [''-tags='' @ join_with '','' tags])"

definition go_test_arguments :: "module_policy \<Rightarrow> step \<Rightarrow> string list" where
  "go_test_arguments md s =
     [''test''] @ (if st_race s then [''-race''] else []) @ tags_argument (md_test_tags md) @ st_packages s @
     [''-count='' @ dec_int (st_count s), ''-timeout='' @ st_timeout s] @
     (if st_run s \<noteq> [] then [''-run='' @ st_run s] else []) @
     (if st_benchmark s \<noteq> []
      then [''-run=^$'', ''-bench='' @ st_benchmark s, ''-benchmem'', ''-benchtime='' @ st_budget s] else []) @
     (if st_fuzz s \<noteq> [] then [''-run=^$'', ''-fuzz='' @ st_fuzz s, ''-fuzztime='' @ st_budget s] else [])"

definition operation_command :: "gate_kit \<Rightarrow> string \<Rightarrow> module_policy \<Rightarrow> step \<Rightarrow> gate_command act" where
  "operation_command kit directory md s =
     (if st_type s = ''go-test''
      then give (gate_command_of Native_repository_cache False ''go'' (go_test_arguments md s) directory gowork_off)
      else if st_type s = ''make''
      then and_do (see_world (\<lambda>w. read_repository_file (sv_lstat (gk_view kit w)) (sv_open (gk_view kit w)) directory
               (st_makefile s) maximum_makefile_size)) (\<lambda>makefile.
             case makefile of
               Inl e \<Rightarrow> fail (Because ''read makefile'' (By_repository e))
             | Inr content \<Rightarrow>
                 give ((gate_command_of Repository_runtime_cache False ''make''
                   [''--no-print-directory'', ''-f'', ''-'', st_target s] directory gowork_off)\<lparr>gc_stdin := Some content\<rparr>))
      else fail (Refused (''unsupported operation type: '' @ st_type s)))"

definition step_message :: "module_policy \<Rightarrow> string \<Rightarrow> nat \<Rightarrow> string" where
  "step_message md gate i = md_directory md @ '' '' @ gate @ '' step '' @ dec_nat i"

text \<open>Each step runs under a context of its own, whose end is not the end of the run.\<close>

fun run_operation_steps :: "gate_kit \<Rightarrow> runner \<Rightarrow> string \<Rightarrow> module_policy \<Rightarrow> string \<Rightarrow> nat \<Rightarrow> step list \<Rightarrow> unit act" where
  "run_operation_steps kit rn directory md gate i [] = give ()"
| "run_operation_steps kit rn directory md gate i (s # ss) =
     (if gk_duration kit (st_timeout s) = None
      then fail (Refused (step_message md gate i @ '' timeout''))
      else and_do (attempt (and_do (operation_command kit directory md s) (\<lambda>c.
                    and_do (execute_within kit rn c) (succeed_or By_process)))) (\<lambda>x.
             case x of
               Inl e \<Rightarrow> fail (Because (step_message md gate i) e)
             | Inr _ \<Rightarrow> run_operation_steps kit rn directory md gate (Suc i) ss))"

definition run_operation :: "gate_kit \<Rightarrow> runner \<Rightarrow> string \<Rightarrow> module_policy \<Rightarrow> operation \<Rightarrow> unit act" where
  "run_operation kit rn directory md op = run_operation_steps kit rn directory md (op_gate op) 0 (op_steps op)"

section \<open>Focused local tests (local\_tests.go)\<close>

fun preflight_local_budget :: "gate_kit \<Rightarrow> runner \<Rightarrow> int \<Rightarrow> module_policy list \<Rightarrow> gate_error option" where
  "preflight_local_budget kit rn budget [] = None"
| "preflight_local_budget kit rn budget (md # mds) =
     (case find_operation rn (md_directory md) ''local-test'' of
        None \<Rightarrow> preflight_local_budget kit rn budget mds
      | Some op \<Rightarrow>
          (case local_test_budget (gk_duration kit) (gk_selector_syntax kit) op of
             Inl e \<Rightarrow> Some (By_operation e)
           | Inr duration \<Rightarrow>
               if maximum_local_test_budget - budget < duration
               then Some (Refused ''local-test budget across selected modules exceeds three minutes'')
               else preflight_local_budget kit rn (budget + duration) mds))"

definition preflight_local_tests :: "gate_kit \<Rightarrow> runner \<Rightarrow> module_policy list \<Rightarrow> unit act" where
  "preflight_local_tests kit rn mds = from_option (preflight_local_budget kit rn 0 mds)"

text \<open>\<open>capturedTestCommand\<close> under a context of its own: \<open>ended\<close> is whether it has ended before, the
  outcome says whether it has behind the process.\<close>

definition captured_test_command ::
  "gate_kit \<Rightarrow> runner \<Rightarrow> gate_command \<Rightarrow> int \<Rightarrow> string \<Rightarrow> (string \<times> bool) act" where
  "captured_test_command kit rn c limit failure_class =
     and_do (execute_within kit rn (c\<lparr>gc_scanner := True\<rparr>)) (\<lambda>outcome.
       let stdout = fold source_write (stream_writes Stdout outcome) (source_output_of limit)
       in if po_error outcome \<noteq> None \<or> bo_overflow stdout \<or> bo_overflow (process_output [] None Stderr outcome)
          then fail_joined [Some (command_error failure_class (po_error outcome)),
                 if po_cancelled outcome then Some Stopped else None]
          else give (so_data stdout, po_cancelled outcome))"

definition selected_test_exists :: "(string \<Rightarrow> bool) \<Rightarrow> string \<Rightarrow> bool" where
  "selected_test_exists selector names \<longleftrightarrow>
     list_ex (\<lambda>name. has_prefix name ''Test'' \<and> selector name) (split_on CHR 0x0A names)"

text \<open>The context of the step is polled before each of the two commands and behind each of them;
  a context that has ended stays so, and the second poll sees the end of the first process.\<close>

definition run_local_test :: "gate_kit \<Rightarrow> runner \<Rightarrow> module_policy \<Rightarrow> step \<Rightarrow> unit act" where
  "run_local_test kit rn md s =
     and_do (operation_command kit (path_join [rn_root rn, md_directory md]) md s) (\<lambda>c.
       and_do check_ctx (\<lambda>_.
         and_do (captured_test_command kit rn (c\<lparr>cm_arguments := cm_arguments c @ [''-list='' @ st_run s]\<rparr>) 65536
             ''local-test discovery failed or exceeded its output budget'') (\<lambda>(names, ended).
           if ended then fail Stopped
           else (case gk_selector kit (st_run s) of
                   None \<Rightarrow> fail (Refused ''local-test selector is invalid'')
                 | Some selector \<Rightarrow>
                     if \<not> selected_test_exists selector names
                     then fail (Refused ''local-test selector has no matching tests'')
                     else and_do check_ctx (\<lambda>_.
                       and_do (captured_test_command kit rn c maximum_security_process_output
                           ''local-test execution failed or exceeded its output budget'') (\<lambda>(out, ended).
                         if ended then fail Stopped else give ()))))))"

fun run_local_steps :: "gate_kit \<Rightarrow> runner \<Rightarrow> module_policy \<Rightarrow> nat \<Rightarrow> step list \<Rightarrow> unit act" where
  "run_local_steps kit rn md i [] = give ()"
| "run_local_steps kit rn md i (s # ss) =
     and_do (wrapped (step_message md ''local-test'' i) (run_local_test kit rn md s)) (\<lambda>_.
       run_local_steps kit rn md (Suc i) ss)"

definition run_local_tests :: "gate_kit \<Rightarrow> runner \<Rightarrow> module_policy \<Rightarrow> unit act" where
  "run_local_tests kit rn md =
     (case find_operation rn (md_directory md) ''local-test'' of
        None \<Rightarrow> give ()
      | Some op \<Rightarrow>
          (case local_test_budget (gk_duration kit) (gk_selector_syntax kit) op of
             Inl e \<Rightarrow> fail (By_operation e)
           | Inr _ \<Rightarrow> announce (md_directory md) ''local-test'' (run_local_steps kit rn md 0 (op_steps op))))"

section \<open>Formatting and safety\<close>

text \<open>\<open>walkModuleFiles\<close>: the Go files in the order of the walk, and the error that ends it.\<close>

definition skipped_directory_name :: "string \<Rightarrow> bool" where
  "skipped_directory_name name \<longleftrightarrow>
     name = ''testdata'' \<or> name = ''vendor'' \<or> has_prefix name ''.'' \<or> has_prefix name ''_''"

fun walk_module_tree ::
  "(string \<Rightarrow> io_error option) \<Rightarrow> bool \<Rightarrow> string \<Rightarrow> file_tree \<Rightarrow> string list \<times> gate_error option"
  and walk_module_trees ::
  "(string \<Rightarrow> io_error option) \<Rightarrow> string \<Rightarrow> file_tree list \<Rightarrow> string list \<times> gate_error option" where
  "walk_module_tree stat outermost path (Tree_leaf name kind) =
     (if path_ext path = ''.go'' then [path] else [], None)"
| "walk_module_tree stat outermost path (Tree_directory name entries failed) =
     (if \<not> outermost \<and> skipped_directory_name name then ([], None)
      else (case (if outermost then Some Err_not_exist else stat (path_join [path, ''go.mod''])) of
              None \<Rightarrow> ([], None)
            | Some Err_not_exist \<Rightarrow>
                if failed then ([], Some (By_io Err_other)) else walk_module_trees stat path entries
            | Some e \<Rightarrow> ([], Some (By_io e))))"
| "walk_module_trees stat path [] = ([], None)"
| "walk_module_trees stat path (t # ts) =
     (let name = (case t of Tree_leaf n k \<Rightarrow> n | Tree_directory n es f \<Rightarrow> n)
      in case walk_module_tree stat False (path_join [path, name]) t of
           (files, Some e) \<Rightarrow> (files, Some e)
         | (files, None) \<Rightarrow> (case walk_module_trees stat path ts of (rest, e) \<Rightarrow> (files @ rest, e)))"

definition walk_module_files :: "gate_kit \<Rightarrow> world \<Rightarrow> string \<Rightarrow> string list \<times> gate_error option" where
  "walk_module_files kit w base =
     (case gk_tree kit w base of
        None \<Rightarrow> ([], Some (By_io Err_not_exist))
      | Some t \<Rightarrow> walk_module_tree (gk_stat kit w) True base t)"

text \<open>The visitor runs file by file: its first error comes before the error that ends the walk.\<close>

definition visit_module_files :: "(string \<Rightarrow> gate_error option) \<Rightarrow> string list \<times> gate_error option \<Rightarrow> gate_error + string list" where
  "visit_module_files visit walked =
     (case first_error (map visit (fst walked) @ [snd walked]) of None \<Rightarrow> Inr (fst walked) | Some e \<Rightarrow> Inl e)"

definition relative_source :: "string \<Rightarrow> string \<Rightarrow> string" where
  "relative_source base path = trim_prefix path (base @ ''/'')"

definition check_formatting :: "gate_kit \<Rightarrow> runner \<Rightarrow> string \<Rightarrow> unit act" where
  "check_formatting kit rn base =
     and_do (see_world (\<lambda>w. visit_module_files
         (\<lambda>path. refuse (contains_any (relative_source base path) [CHR 0x0D, CHR 0x0A])
            (Refused ''go source path contains a line break'')) (walk_module_files kit w base))) (\<lambda>x.
       case x of
         Inl e \<Rightarrow> fail e
       | Inr [] \<Rightarrow> give ()
       | Inr files \<Rightarrow>
           and_do (execute kit rn (gate_command_of Repository_runtime_cache False ''gofmt''
               ([''-l'', ''--''] @ sort (map (relative_source base) files)) base [])) (\<lambda>outcome.
             case po_error outcome of
               Some e \<Rightarrow> fail (Because ''run gofmt'' (By_process e))
             | None \<Rightarrow>
                 (let output = buffer_output Stdout outcome; unformatted = trim_space (bb_data output)
                  in if bb_overflow output then fail (Refused ''gofmt output exceeds limit'')
                     else if unformatted = [] then give ()
                     else fail (Refused (''unformatted Go file: '' @ hd (split_on CHR 0x0A unformatted))))))"

definition quoted_import :: "string \<Rightarrow> string" where
  "quoted_import name = CHR 0x22 # name @ [CHR 0x22]"

definition safety_error :: "gate_kit \<Rightarrow> world \<Rightarrow> string \<Rightarrow> gate_error option" where
  "safety_error kit w path =
     (if has_suffix path ''_test.go'' then None
      else (case gk_imports kit w path of
              None \<Rightarrow> Some (Refused (''parse '' @ path))
            | Some parsed \<Rightarrow> first_error
                (map (\<lambda>imported. refuse (imported = quoted_import ''unsafe'' \<or> imported = quoted_import ''C'')
                   (Refused (''forbidden production import '' @ imported @ '' in '' @ path))) (gi_imports parsed) @
                 map (\<lambda>text. refuse (has_prefix text ''//go:linkname'')
                   (Refused (''forbidden go:linkname directive in '' @ path))) (concat (gi_comments parsed)))))"

definition check_safety :: "gate_kit \<Rightarrow> string \<Rightarrow> unit act" where
  "check_safety kit base =
     and_do (see_world (\<lambda>w. visit_module_files (safety_error kit w) (walk_module_files kit w base))) (\<lambda>x.
       case x of Inl e \<Rightarrow> fail e | Inr files \<Rightarrow> give ())"

section \<open>Tests, tools and coverage\<close>

definition test_arguments :: "string list \<Rightarrow> bool \<Rightarrow> string list" where
  "test_arguments tags race =
     [''test''] @ (if race then [''-race''] else []) @ tags_argument tags @ [''./...'', ''-count=1'', ''-timeout=20m'']"

definition run_staticcheck :: "gate_kit \<Rightarrow> runner \<Rightarrow> string \<Rightarrow> string \<Rightarrow> string \<Rightarrow> string list \<Rightarrow> unit act" where
  "run_staticcheck kit rn md gate directory arguments =
     announce md gate (wrapped (md @ '' '' @ gate)
       (with_compiler_tool kit rn staticcheck_compiler_tool (\<lambda>binary.
          and_do (execute kit rn (gate_command_of Verifier_cache False binary arguments directory gowork_off))
            (succeed_or (\<lambda>e. Because ''analysis'' (By_process e))))))"

definition go_tool :: "gate_kit \<Rightarrow> runner \<Rightarrow> string \<Rightarrow> string \<Rightarrow> string \<Rightarrow> string \<Rightarrow> string list \<Rightarrow> unit act" where
  "go_tool kit rn md gate directory tool arguments =
     (if tool = staticcheck_tool then run_staticcheck kit rn md gate directory arguments
      else go_command kit rn md gate directory ([''run'', tool] @ arguments))"

definition coverage_targets :: "module_policy \<Rightarrow> string list" where
  "coverage_targets md = sort (map pk_import_path (filter pk_coverage_required (md_packages md)))"

definition acceptance_mode :: "runner \<Rightarrow> module_policy \<Rightarrow> string" where
  "acceptance_mode rn md =
     (case find (\<lambda>a. cm_module a = md_directory md) (cf_coverage (rn_policy rn)) of
        None \<Rightarrow> ''exact'' | Some a \<Rightarrow> cm_mode a)"

definition coverage_arguments :: "module_policy \<Rightarrow> string \<Rightarrow> string list" where
  "coverage_arguments md profile =
     [''test''] @ tags_argument (md_test_tags md) @
     [''./...'', ''-count=1'', ''-timeout=20m'', ''-covermode=atomic'',
      ''-coverpkg='' @ join_with '','' (coverage_targets md), ''-coverprofile='' @ profile]"

definition verify_profile :: "gate_kit \<Rightarrow> runner \<Rightarrow> string \<Rightarrow> module_policy \<Rightarrow> string \<Rightarrow> unit act" where
  "verify_profile kit rn directory md profile =
     and_do (execute kit rn (gate_command_of Native_repository_cache False ''go'' (coverage_arguments md profile)
         directory gowork_off)) (\<lambda>outcome.
       case po_error outcome of
         Some e \<Rightarrow> fail (By_process e)
       | None \<Rightarrow>
           and_do (on_world (os_read (gk_os kit) profile)) (\<lambda>x.
             case x of
               Inl e \<Rightarrow> fail (Because ''open coverage profile'' (By_io e))
             | Inr (data, failed) \<Rightarrow>
                 (case verify_with_mode (gk_block_order kit) (gk_block_order2 kit) data failed (coverage_targets md)
                         (acceptance_mode rn md) of
                    (report, e) \<Rightarrow>
                      and_do (emit (Printed report)) (\<lambda>_.
                        case e of
                          Some f \<Rightarrow> fail (By_coverage f)
                        | None \<Rightarrow> emit (Printed
                            (if acceptance_mode rn md = ''evidence''
                             then ''coverage evidence collected; adequacy and release readiness are not certified'' @ [CHR 0x0A]
                             else ''all production packages have exact 100% statement coverage'' @ [CHR 0x0A]))))))"

definition run_coverage :: "gate_kit \<Rightarrow> runner \<Rightarrow> string \<Rightarrow> module_policy \<Rightarrow> unit act" where
  "run_coverage kit rn directory md =
     (if coverage_targets md = [] then fail (Refused ''coverage gate has no coverage-required packages'')
      else and_do (make_temporary kit (case rn_workspace rn of None \<Rightarrow> [] | Some d \<Rightarrow> d) ''golib-coverage-*.out'') (\<lambda>x.
        case x of
          Inl e \<Rightarrow> fail (Because ''create coverage profile'' (By_io e))
        | Inr profile \<Rightarrow>
            and_do (on_world (os_close (gk_os kit) profile)) (\<lambda>closed.
              case closed of
                Some e \<Rightarrow> and_do (remove_temporary kit profile) (\<lambda>_. fail (Because ''close coverage profile'' (By_io e)))
              | None \<Rightarrow>
                  and_do (attempt (verify_profile kit rn directory md profile)) (\<lambda>y.
                    and_do (remove_temporary kit profile) (\<lambda>_. from_option (error_of y))))))"

end
