(* ===== verification/Gate_Docs.thy ===== *)
theory Gate_Docs
  imports Gate_Checks
begin

text \<open>
  internal/gates: the documentation gate (documentation.go) and the API baselines (api.go).

  The checks of internal/docscheck are in the kit. The write of a snapshot is complete or an error,
  as \<open>os.File.Write\<close> documents, so that the branch for a short write has no counterpart.
\<close>

section \<open>Documentation (documentation.go)\<close>

definition maximum_spelling_config_size :: int where "maximum_spelling_config_size = 1048576"

definition read_file_act ::
  "gate_kit \<Rightarrow> string \<Rightarrow> string \<Rightarrow> int \<Rightarrow> (repository_error + string) act" where
  "read_file_act kit base relative maximum =
     see_world (\<lambda>w. read_repository_file (sv_lstat (gk_view kit w)) (sv_open (gk_view kit w)) base relative maximum)"

definition execute_or :: "gate_kit \<Rightarrow> runner \<Rightarrow> string \<Rightarrow> gate_command \<Rightarrow> unit act" where
  "execute_or kit rn message c =
     and_do (execute kit rn c) (succeed_or (\<lambda>e. Because message (By_process e)))"

fun write_assets :: "gate_kit \<Rightarrow> string \<Rightarrow> (string \<times> string) list \<Rightarrow> unit act" where
  "write_assets kit base [] = give ()"
| "write_assets kit base ((name, data) # rest) =
     and_do (on_world (os_write_file (gk_os kit) (path_join [base, name]) data)) (\<lambda>written.
       and_do (succeed_io (\<lambda>e. Because (''write spelling tool '' @ name) (By_io e)) written) (\<lambda>_.
         write_assets kit base rest))"

definition spelling_environment :: "string \<Rightarrow> env_map" where
  "spelling_environment cache =
     [(''NPM_CONFIG_CACHE'', cache), (''NPM_CONFIG_AUDIT'', ''false''), (''NPM_CONFIG_FUND'', ''false'')]"

definition run_documentation_spelling :: "gate_kit \<Rightarrow> runner \<Rightarrow> string \<Rightarrow> unit act" where
  "run_documentation_spelling kit rn directory =
     and_do (workspace_or (Refused ''documentation spelling requires a task-owned workspace'') rn) (\<lambda>workspace.
       and_do (read_file_act kit directory ''cspell.json'' maximum_spelling_config_size) (\<lambda>configuration.
         case configuration of
           Inl e \<Rightarrow> fail (Because ''read cspell configuration'' (By_repository e))
         | Inr _ \<Rightarrow>
             (let tool_root = path_join [workspace, ''documentation'', ''spelling''];
                  cache = path_join [workspace, ''documentation'', ''npm-cache'']
              in and_do (on_world (os_mkdir_all (gk_os kit) tool_root)) (\<lambda>made. in_order
                   [succeed_io (\<lambda>e. Because ''create spelling tool root'' (By_io e)) made,
                    write_assets kit tool_root (dk_assets (gk_docs kit)),
                    execute_or kit rn ''install pinned spelling tool''
                      (gate_command_of Verifier_cache False ''npm''
                        [''ci'', ''--ignore-scripts'', ''--no-audit'', ''--no-fund'', ''--silent'']
                        tool_root (spelling_environment cache)),
                    execute_or kit rn ''check documentation spelling''
                      (gate_command_of Verifier_cache False
                        (path_join [tool_root, ''node_modules'', ''.bin'', ''cspell''])
                        [''lint'', ''--config'', path_join [directory, ''cspell.json''], ''--no-config-search'',
                         ''--validate-directives'', ''--no-progress'', ''--no-summary'', ''README.md'', ''docs/**/*.md'']
                        directory [])]))))"

definition escaped_dots :: "string list \<Rightarrow> string" where
  "escaped_dots parts = join_with [CHR 0x5C, CHR 0x2E] parts"

definition link_check_arguments :: "string list" where
  "link_check_arguments =
     [''--cache=false'',
      ''--exclude'', escaped_dots [''^https://pkg'', ''go'', ''dev/(badge/)?github'', ''com/faustbrian/go-''],
      ''--exclude'', escaped_dots [''^https://doi'', ''org/10'', ''1145/190314'', ''190317$''],
      ''--exclude'', escaped_dots [''^https://service'', ''unece'', ''org/trade/''],
      ''--exclude-private'', ''--exclude-loopback'',
      ''--exclude'', escaped_dots [''^https://www'', ''iso'', ''org/standard/''],
      ''--max-concurrency'', ''16'', ''--max-retries'', ''3'', ''--no-progress'', ''README.md'', ''docs/**/*.md'']"

definition run_documentation_links :: "gate_kit \<Rightarrow> runner \<Rightarrow> string \<Rightarrow> unit act" where
  "run_documentation_links kit rn directory =
     and_do (workspace_or (Refused ''documentation links require a task-owned workspace'') rn) (\<lambda>workspace.
       case dk_release_url (gk_docs kit) of
         Inl e \<Rightarrow> fail e
       | Inr url \<Rightarrow>
           (let tool_root = path_join [workspace, ''documentation'', ''links''];
                archive = path_join [tool_root, ''lychee.tar.gz''];
                lychee = path_join [tool_root, ''lychee'']
            in and_do (on_world (os_mkdir_all (gk_os kit) tool_root)) (\<lambda>made. in_order
                 [succeed_io (\<lambda>e. Because ''create link tool root'' (By_io e)) made,
                  execute_or kit rn ''download pinned link checker''
                    (gate_command_of Verifier_cache False ''curl''
                      [''--fail'', ''--silent'', ''--show-error'', ''--location'', ''--proto'', ''=https'', ''--tlsv1.2'',
                       url, ''--output'', archive] tool_root []),
                  and_do (see_world (\<lambda>w. dk_extract (gk_docs kit) w archive)) (\<lambda>binary.
                    case binary of
                      Inl e \<Rightarrow> fail e
                    | Inr data \<Rightarrow>
                        and_do (on_world (os_write_file (gk_os kit) lychee data))
                          (succeed_io (\<lambda>e. Because ''write link checker'' (By_io e)))),
                  execute_or kit rn ''check documentation links''
                    (gate_command_of Verifier_cache False lychee link_check_arguments directory [])])))"

definition check_documentation :: "gate_kit \<Rightarrow> runner \<Rightarrow> string \<Rightarrow> module_policy \<Rightarrow> unit act" where
  "check_documentation kit rn directory md =
     (if md_directory md \<noteq> ''.''
      then (case find_operation rn (md_directory md) ''docs'' of
              Some op \<Rightarrow> run_operation kit rn directory md op
            | None \<Rightarrow> execute_or kit rn ''check documentation examples''
                (gate_command_of Native_repository_cache False ''go''
                  [''test'', ''./...'', ''-run=^Example'', ''-count=1'', ''-timeout=20m''] directory gowork_off))
      else in_order
        [and_do (see_world (\<lambda>w. dk_check (gk_docs kit) w directory)) from_option,
         run_documentation_spelling kit rn directory,
         run_documentation_links kit rn directory,
         (case find_operation rn (md_directory md) ''docs'' of
            Some op \<Rightarrow> run_operation kit rn directory md op
          | None \<Rightarrow> give ())])"

section \<open>API baselines (api.go)\<close>

definition api_tool :: string where
  "api_tool = ''golang.org/x/exp/cmd/apidiff@v0.0.0-20260718201538-764159d718ef''"

definition api_tool_environment :: "runner \<Rightarrow> env_map" where
  "api_tool_environment rn = [(''GOTOOLCHAIN'', ''go'' @ iv_go_version (rn_catalog rn)), (''GOWORK'', ''off'')]"

definition api_baseline_of :: "runner \<Rightarrow> module_policy \<Rightarrow> api_baseline" where
  "api_baseline_of rn md =
     (case find (\<lambda>b. ab_module b = md_directory md) (cf_api (rn_policy rn)) of
        Some b \<Rightarrow> b
      | None \<Rightarrow> \<lparr>ab_module = md_directory md, ab_mode = ''apidiff'',
                 ab_path = path_join [md_directory md, ''api'', ''baseline.txt''], ab_packages = []\<rparr>)"

definition lstat_act :: "gate_kit \<Rightarrow> string \<Rightarrow> (io_error + file_info option) act" where
  "lstat_act kit path = see_world (\<lambda>w. sv_lstat (gk_view kit w) path)"

definition real_api_directory :: "io_error + file_info option \<Rightarrow> bool" where
  "real_api_directory x = (case x of Inr (Some info) \<Rightarrow> fi_kind info = Kind_directory | _ \<Rightarrow> False)"

text \<open>One component: it is made when it is missing and may be made; then it must be a directory.\<close>

definition ensure_api_component :: "gate_kit \<Rightarrow> bool \<Rightarrow> string \<Rightarrow> unit act" where
  "ensure_api_component kit create current =
     (let checked = (\<lambda>x. refuse_if (\<not> real_api_directory x)
            (Refused (''API baseline directory is not a real directory: '' @ current)))
      in and_do (lstat_act kit current) (\<lambda>info.
           if info = Inl Err_not_exist \<and> create
           then and_do (on_world (os_mkdir_all (gk_os kit) current)) (\<lambda>made.
                  case made of
                    Some e \<Rightarrow> fail (Because ''create API baseline directory'' (By_io e))
                  | None \<Rightarrow> and_do (lstat_act kit current) checked)
           else checked info))"

fun ensure_api_components :: "gate_kit \<Rightarrow> bool \<Rightarrow> string \<Rightarrow> string list \<Rightarrow> unit act" where
  "ensure_api_components kit create current [] = give ()"
| "ensure_api_components kit create current (c # cs) =
     and_do (ensure_api_component kit create (path_join [current, c])) (\<lambda>_.
       ensure_api_components kit create (path_join [current, c]) cs)"

definition ensure_api_baseline_directory :: "gate_kit \<Rightarrow> string \<Rightarrow> string \<Rightarrow> bool \<Rightarrow> unit act" where
  "ensure_api_baseline_directory kit base relative create =
     (let relative = path_clean relative
      in if is_abs relative \<or> relative = ''..'' \<or> has_prefix relative ''../''
         then fail (Refused (''API baseline directory is not below repository root: '' @ relative))
         else if relative = ''.'' then give ()
         else ensure_api_components kit create base (split_on CHR 0x2F relative))"

definition trim_newlines :: "string \<Rightarrow> string" where
  "trim_newlines s = rev (dropWhile (\<lambda>c. c = CHR 0x0A) (rev s))"

text \<open>The documentation of each package is appended to one bounded buffer.\<close>

fun snapshot_packages ::
  "gate_kit \<Rightarrow> runner \<Rightarrow> string \<Rightarrow> module_policy \<Rightarrow> string list \<Rightarrow> bounded_buffer \<Rightarrow> bounded_buffer act" where
  "snapshot_packages kit rn directory md [] snapshot = give snapshot"
| "snapshot_packages kit rn directory md (p # ps) snapshot =
     and_do (execute kit rn (gate_command_of Verifier_cache False ''go'' [''doc'', ''-all'', p] directory
         (api_tool_environment rn))) (\<lambda>outcome.
       let snapshot = fold buffer_bounded_write (stream_writes Stdout outcome) snapshot
       in case po_error outcome of
            Some e \<Rightarrow> fail (Because (''generate API documentation for '' @ p) (By_process e))
          | None \<Rightarrow>
              if bb_overflow snapshot
              then fail (Refused (''API documentation exceeded 4194304 bytes for '' @ md_module_path md))
              else snapshot_packages kit rn directory md ps snapshot)"

definition close_snapshot :: "gate_kit \<Rightarrow> string \<Rightarrow> unit act" where
  "close_snapshot kit path =
     and_do (on_world (os_close (gk_os kit) path)) (succeed_io (\<lambda>e. Because ''close API snapshot'' (By_io e)))"

text \<open>The file is closed on every path; an error in the way hides the error of closing.\<close>

definition closing_snapshot :: "gate_kit \<Rightarrow> string \<Rightarrow> string act \<Rightarrow> string act" where
  "closing_snapshot kit path m =
     and_do (attempt m) (\<lambda>x.
       case x of
         Inl e \<Rightarrow> and_do (on_world (os_close (gk_os kit) path)) (\<lambda>_. fail e)
       | Inr data \<Rightarrow> and_do (close_snapshot kit path) (\<lambda>_. give data))"

definition generate_api_snapshot ::
  "gate_kit \<Rightarrow> runner \<Rightarrow> string \<Rightarrow> string \<Rightarrow> module_policy \<Rightarrow> api_baseline \<Rightarrow> string act" where
  "generate_api_snapshot kit rn directory path md policy =
     (if ab_mode policy = ''apidiff''
      then and_do (close_snapshot kit path) (\<lambda>_.
        and_do (execute_or kit rn (''generate API snapshot for '' @ md_directory md)
            (gate_command_of Verifier_cache False ''go'' [''run'', api_tool, ''-m'', ''-w'', path, md_module_path md]
              directory (api_tool_environment rn))) (\<lambda>_. give []))
      else closing_snapshot kit path
        (and_do (snapshot_packages kit rn directory md (ab_packages policy) empty_buffer) (\<lambda>snapshot.
           if bb_data snapshot = [] then fail (Refused (''API documentation for '' @ md_module_path md @ '' is empty''))
           else (let documentation = trim_newlines (bb_data snapshot) @ [CHR 0x0A]
                 in and_do (on_world (os_write (gk_os kit) path documentation)) (\<lambda>written.
                      case written of
                        Some e \<Rightarrow> fail (Because ''write API documentation snapshot'' (By_io e))
                      | None \<Rightarrow> give documentation)))))"

definition api_baseline_error :: "io_error + file_info option \<Rightarrow> string \<Rightarrow> gate_error option" where
  "api_baseline_error x baseline =
     (case x of
        Inr (Some info) \<Rightarrow> first_error
          [refuse (fi_kind info \<noteq> Kind_regular \<or> fi_size info = 0) (Refused (''missing API baseline: '' @ baseline)),
           refuse (maximum_api_output < fi_size info) (Refused (''API baseline exceeds 4194304 bytes: '' @ baseline))]
      | _ \<Rightarrow> Some (Refused (''missing API baseline: '' @ baseline)))"

definition snapshot_empty :: "io_error + file_info option \<Rightarrow> bool" where
  "snapshot_empty x = (case x of Inr (Some info) \<Rightarrow> fi_size info = 0 | _ \<Rightarrow> True)"

definition api_passed :: "module_policy \<Rightarrow> unit act" where
  "api_passed md = emit (Printed (CHR 0x5B # md_directory md @ ''] API compatibility passed'' @ [CHR 0x0A]))"

definition compare_documentation :: "gate_kit \<Rightarrow> runner \<Rightarrow> module_policy \<Rightarrow> api_baseline \<Rightarrow> string \<Rightarrow> unit act" where
  "compare_documentation kit rn md policy documentation =
     and_do (read_file_act kit (rn_root rn) (ab_path policy) maximum_api_output) (\<lambda>expected.
       case expected of
         Inl e \<Rightarrow> fail (Because (''read API baseline for '' @ md_directory md) (By_repository e))
       | Inr data \<Rightarrow>
           if data \<noteq> documentation
           then fail (Refused (''exported API documentation differs from '' @ ab_path policy))
           else api_passed md)"

text \<open>The verdict on one run of the comparison tool: overflow, then a report, then its failure.\<close>

definition apidiff_error :: "module_policy \<Rightarrow> process_outcome \<Rightarrow> gate_error option" where
  "apidiff_error md outcome =
     (let report = buffer_output Stdout outcome; diagnostics = buffer_output Stderr outcome
      in if bb_overflow report \<or> bb_overflow diagnostics
         then Some (Refused (''API compatibility output exceeded 4194304 bytes for '' @ md_module_path md))
         else if bb_data report \<noteq> []
         then Some (Refused (''incompatible exported API changes in '' @ md_module_path md @ '':'' @ [CHR 0x0A] @
                trim_space (bb_data report)))
         else (case po_error outcome of
                 None \<Rightarrow> None
               | Some e \<Rightarrow> Some (Because (''API compatibility tool failed for '' @ md_module_path md) (By_process e))))"

definition compare_apidiff :: "gate_kit \<Rightarrow> runner \<Rightarrow> string \<Rightarrow> module_policy \<Rightarrow> string \<Rightarrow> string \<Rightarrow> unit act" where
  "compare_apidiff kit rn directory md baseline path =
     and_do (execute kit rn (gate_command_of Verifier_cache False ''go''
         [''run'', api_tool, ''-m'', ''-incompatible'', baseline, path] directory (api_tool_environment rn))) (\<lambda>outcome.
       case apidiff_error md outcome of Some e \<Rightarrow> fail e | None \<Rightarrow> api_passed md)"

definition publish_baseline :: "gate_kit \<Rightarrow> module_policy \<Rightarrow> string \<Rightarrow> string \<Rightarrow> unit act" where
  "publish_baseline kit md path baseline =
     and_do (on_world (os_rename (gk_os kit) path baseline)) (\<lambda>renamed. in_order
       [succeed_io (\<lambda>e. Because (''publish API baseline for '' @ md_directory md) (By_io e)) renamed,
        emit (Printed (CHR 0x5B # md_directory md @ ''] API baseline updated'' @ [CHR 0x0A]))])"

definition compare_api :: "gate_kit \<Rightarrow> runner \<Rightarrow> module_policy \<Rightarrow> bool \<Rightarrow> api_baseline \<Rightarrow> string \<Rightarrow> unit act" where
  "compare_api kit rn md update policy path =
     (let directory = path_join [rn_root rn, md_directory md]; baseline = path_join [rn_root rn, ab_path policy]
      in and_do (generate_api_snapshot kit rn directory path md policy) (\<lambda>documentation.
           and_do (lstat_act kit path) (\<lambda>info.
             if snapshot_empty info then fail (Refused (''API snapshot for '' @ md_directory md @ '' is empty''))
             else if update then publish_baseline kit md path baseline
             else if ab_mode policy = ''go-doc'' then compare_documentation kit rn md policy documentation
             else compare_apidiff kit rn directory md baseline path)))"

definition api_module :: "gate_kit \<Rightarrow> runner \<Rightarrow> module_policy \<Rightarrow> bool \<Rightarrow> unit act" where
  "api_module kit rn md update =
     (let policy = api_baseline_of rn md; baseline = path_join [rn_root rn, ab_path policy];
          workspace = (case rn_workspace rn of None \<Rightarrow> [] | Some d \<Rightarrow> d)
      in in_order
        [when_gate (\<not> update) (and_do (lstat_act kit baseline) (\<lambda>info. from_option (api_baseline_error info baseline))),
         ensure_api_baseline_directory kit (rn_root rn) (path_dir (ab_path policy)) update,
         and_do (make_temporary kit (if update then path_dir baseline else workspace) ''.golib-api-*'') (\<lambda>x.
           case x of
             Inl e \<Rightarrow> fail (Because ''create API snapshot'' (By_io e))
           | Inr path \<Rightarrow>
               and_do (attempt (compare_api kit rn md update policy path)) (\<lambda>y.
                 and_do (remove_temporary kit path) (\<lambda>_. from_option (error_of y))))])"

end
