(* ===== verification/Gate_Mutation.thy ===== *)
theory Gate_Mutation
  imports Gate_Docs
begin

text \<open>
  internal/gates: the services around a module (services.go) and the mutation gate (mutation.go),
  which prepares the campaign of internal/mutation and runs it or imports a legacy archive.

  The commands of a campaign go through its own process, so they are not among the events of a run.
\<close>

section \<open>Services (services.go)\<close>

definition with_lease ::
  "module_policy \<Rightarrow> runner \<Rightarrow> service_lease \<Rightarrow> (runner \<Rightarrow> unit act) \<Rightarrow> unit act" where
  "with_lease md rn lease operation =
     and_do (emit (Printed (CHR 0x5B # md_directory md @ ''] services: '' @
         join_with '','' (md_required_services md) @ [CHR 0x0A]))) (\<lambda>_.
       and_do (attempt (operation (rn\<lparr>rn_service_env := Some (merge_maps
             (case rn_service_env rn of None \<Rightarrow> [] | Some environment \<Rightarrow> environment) (sl_environment lease)),
           rn_service_identities := sl_identities lease\<rparr>))) (\<lambda>x.
         and_do (on_world (sl_close lease)) (\<lambda>closed. from_option (join_errors [error_of x, closed]))))"

definition open_search_image_lock :: string where "open_search_image_lock = ''scripts/opensearch-images.env''"

definition load_open_search_images :: "gate_kit \<Rightarrow> runner \<Rightarrow> module_policy \<Rightarrow> string list act" where
  "load_open_search_images kit rn md =
     and_do (read_file_act kit (rn_root rn) (path_join [md_directory md, open_search_image_lock]) 16384) (\<lambda>x.
       case x of
         Inl e \<Rightarrow> fail (Because (''read OpenSearch image policy for '' @ md_directory md) (By_repository e))
       | Inr data \<Rightarrow>
           (case sk_images (gk_services kit) data of
              None \<Rightarrow> fail (Refused (''parse OpenSearch image policy for '' @ md_directory md))
            | Some images \<Rightarrow> give images))"

definition default_service_starter :: "gate_kit \<Rightarrow> runner \<Rightarrow> module_policy \<Rightarrow> service_lease act" where
  "default_service_starter kit rn md =
     and_do (if List.member (md_required_services md) ''opensearch''
             then and_do (load_open_search_images kit rn md) (\<lambda>images. give (Some images)) else give None) (\<lambda>images.
       and_do (on_world (sk_start (gk_services kit) (md_required_services md) images)) (\<lambda>x.
         case x of Inl e \<Rightarrow> fail e | Inr lease \<Rightarrow> give lease))"

definition with_module_services ::
  "gate_kit \<Rightarrow> runner \<Rightarrow> module_policy \<Rightarrow> (runner \<Rightarrow> unit act) \<Rightarrow> unit act" where
  "with_module_services kit rn md operation =
     (if md_required_services md = [] then operation rn
      else and_do (attempt (default_service_starter kit rn md)) (\<lambda>x.
        case x of
          Inl e \<Rightarrow> fail (Because (''start services for '' @ md_directory md) e)
        | Inr lease \<Rightarrow> with_lease md rn lease operation))"

section \<open>The inventories and the runtime (mutation.go)\<close>

definition maximum_module_file_size :: int where "maximum_module_file_size = 16777216"

text \<open>\<open>errors.Is(err, os.ErrNotExist)\<close>\<close>

definition repository_missing :: "repository_error \<Rightarrow> bool" where
  "repository_missing e \<longleftrightarrow> e = Inspect_error Err_not_exist \<or> e = Open_error Err_not_exist \<or> e = Stat_error Err_not_exist"

definition load_zero_inventory :: "gate_kit \<Rightarrow> string \<Rightarrow> string \<Rightarrow> zero_inventory act" where
  "load_zero_inventory kit base path =
     and_do (read_file_act kit base path maximum_module_file_size) (\<lambda>x.
       case x of
         Inl e \<Rightarrow> fail (Because ''read zero-mutant inventory'' (By_repository e))
       | Inr data \<Rightarrow>
           (case parse_zero_inventory (mk_zero (gk_mutation kit)) data False of
              Inl e \<Rightarrow> fail (Because ''parse zero-mutant inventory'' (By_review e))
            | Inr reviews \<Rightarrow> give reviews))"

definition load_equivalent_inventory :: "gate_kit \<Rightarrow> string \<Rightarrow> string \<Rightarrow> equivalent_inventory act" where
  "load_equivalent_inventory kit base path =
     and_do (read_file_act kit base path maximum_module_file_size) (\<lambda>x.
       case x of
         Inl e \<Rightarrow>
           if repository_missing e then give \<lparr>ei_schema_version = 0, ei_packages = None\<rparr>
           else fail (Because ''read equivalent-mutant inventory'' (By_repository e))
       | Inr data \<Rightarrow>
           (case parse_equivalent_inventory (mk_equivalent (gk_mutation kit)) data False of
              Inl e \<Rightarrow> fail (Because ''parse equivalent-mutant inventory'' (By_review e))
            | Inr parsed \<Rightarrow> give parsed))"

definition runtime_identity_act :: "gate_kit \<Rightarrow> runner \<Rightarrow> string \<Rightarrow> runtime_identity act" where
  "runtime_identity_act kit rn md =
     and_do (execute kit rn (gate_command_of Repository_runtime_cache False ''go''
         [''env'', ''-json'', ''GOVERSION'', ''GOOS'', ''GOARCH'', ''CGO_ENABLED''] (path_join [rn_root rn, md]) gowork_off))
       (\<lambda>outcome.
         case po_error outcome of
           Some e \<Rightarrow> fail (Because ''read Go runtime identity'' (By_process e))
         | None \<Rightarrow>
             (case parse_runtime_identity (mk_runtime (gk_mutation kit)) (bb_data (buffer_output Stdout outcome)) False of
                Inl e \<Rightarrow> fail (Because ''parse Go runtime identity'' (By_runtime e))
              | Inr identity \<Rightarrow> give identity))"

section \<open>Owned modules, environment and workers\<close>

definition local_owned_modules :: "runner \<Rightarrow> module_policy \<Rightarrow> owned_module list" where
  "local_owned_modules rn md =
     sort_key om_module_path
       (map (\<lambda>m. \<lparr>om_module_path = md_module_path m, om_directory = md_directory m\<rparr>)
         (filter (\<lambda>m. List.member (md_owned_dependencies md) (md_module_path m) \<and>
                      md_module_path m \<noteq> md_module_path md \<and> md_kind m \<noteq> ''fixture'')
           (case iv_modules (rn_catalog rn) of None \<Rightarrow> [] | Some mds \<Rightarrow> mds)))"

definition mutation_module_slug :: "gate_kit \<Rightarrow> string \<Rightarrow> string" where
  "mutation_module_slug kit path = lib_sha256 (mk_libraries (gk_mutation kit)) path"

fun replace_owned :: "gate_kit \<Rightarrow> runner \<Rightarrow> module_policy \<Rightarrow> string \<Rightarrow> owned_module list \<Rightarrow> unit act" where
  "replace_owned kit rn md modfile [] = give ()"
| "replace_owned kit rn md modfile (d # ds) =
     and_do (execute_or kit rn (''configure mutation owned module '' @ om_module_path d)
         (gate_command_of Repository_runtime_cache False ''go''
           [''mod'', ''edit'', ''-modfile='' @ modfile,
            ''-replace='' @ om_module_path d @ ''='' @ path_join [rn_root rn, om_directory d]]
           (path_join [rn_root rn, md_directory md]) gowork_off)) (\<lambda>_.
       replace_owned kit rn md modfile ds)"

definition write_sumfile :: "gate_kit \<Rightarrow> runner \<Rightarrow> module_policy \<Rightarrow> string \<Rightarrow> unit act" where
  "write_sumfile kit rn md modfile =
     and_do (read_file_act kit (rn_root rn) (path_join [md_directory md, ''go.sum'']) maximum_module_file_size) (\<lambda>x.
       case x of
         Inl e \<Rightarrow>
           if repository_missing e then give () else fail (Because ''read mutation go.sum'' (By_repository e))
       | Inr data \<Rightarrow>
           and_do (on_world (os_write_file (gk_os kit) (trim_suffix modfile ''.mod'' @ ''.sum'') data))
             (succeed_io (\<lambda>e. Because ''write mutation sumfile'' (By_io e))))"

definition mutation_environment ::
  "gate_kit \<Rightarrow> runner \<Rightarrow> string \<Rightarrow> module_policy \<Rightarrow> owned_module list \<Rightarrow> env_map act" where
  "mutation_environment kit rn workspace md owned =
     (if owned = [] then give []
      else and_do (read_file_act kit (rn_root rn) (path_join [md_directory md, ''go.mod'']) maximum_module_file_size) (\<lambda>x.
        case x of
          Inl e \<Rightarrow> fail (Because ''read mutation go.mod'' (By_repository e))
        | Inr module_file \<Rightarrow>
            (let directory = path_join [workspace, ''mutation-modfiles''];
                 modfile = path_join [directory, mutation_module_slug kit (md_module_path md) @ ''.mod'']
             in and_do (on_world (os_mkdir_all (gk_os kit) directory)) (\<lambda>made.
                  and_do (succeed_io (\<lambda>e. Because ''create mutation modfile directory'' (By_io e)) made) (\<lambda>_.
                    and_do (on_world (os_write_file (gk_os kit) modfile module_file)) (\<lambda>written.
                      and_do (in_order
                         [succeed_io (\<lambda>e. Because ''write mutation modfile'' (By_io e)) written,
                          write_sumfile kit rn md modfile,
                          replace_owned kit rn md modfile owned]) (\<lambda>_.
                        give [(''GOFLAGS'', ''-modfile='' @ modfile @ '' -mod=mod'')])))))))"

definition mutation_workers :: "gate_kit \<Rightarrow> runner \<Rightarrow> module_policy \<Rightarrow> int act" where
  "mutation_workers kit rn md =
     and_do (read_file_act kit (rn_root rn) (path_join [md_directory md, ''go.mod'']) maximum_module_file_size) (\<lambda>x.
       case x of
         Inl e \<Rightarrow> fail (Because ''read mutation worker policy'' (By_repository e))
       | Inr module_file \<Rightarrow>
           (let maximum = mp_max_workers (cf_mutation (rn_policy rn))
            in give (if contains_str module_file ''github.com/testcontainers/testcontainers-go'' then 1
                     else if 0 < maximum \<and> maximum < 4 then maximum else 4)))"

section \<open>The process of a campaign\<close>

definition hex_decodes :: "string \<Rightarrow> bool" where
  "hex_decodes s \<longleftrightarrow> even (length s) \<and>
     list_all (\<lambda>c. CHR ''0'' \<le> c \<and> c \<le> CHR ''9'' \<or> CHR ''a'' \<le> c \<and> c \<le> CHR ''f'' \<or> CHR ''A'' \<le> c \<and> c \<le> CHR ''F'') s"

definition owned_package_cache :: "gate_kit \<Rightarrow> string \<Rightarrow> string \<Rightarrow> world \<Rightarrow> bool" where
  "owned_package_cache kit workspace cache w \<longleftrightarrow>
     (path_base cache = ''root'' \<or> hex_decodes (path_base cache) \<and> length (path_base cache) = 64) \<and>
     path_dir cache = path_join [workspace, ''mutation-cache''] \<and>
     mk_owner_only (gk_mutation kit) w cache \<and>
     (case (mk_symlinks (gk_mutation kit) w cache, mk_symlinks (gk_mutation kit) w (path_join [workspace, ''mutation-cache''])) of
        (Some canonical, Some owned) \<Rightarrow> canonical = path_join [owned, path_base cache]
      | _ \<Rightarrow> False)"

definition gremlins_download :: "string list" where
  "gremlins_download = [''mod'', ''download'', ''-json'', ''github.com/go-gremlins/gremlins@'' @ gremlins_version]"

definition gremlins_build :: "string \<Rightarrow> string list" where
  "gremlins_build workspace =
     [''build'', ''-trimpath'', ''-buildvcs=false'', ''-o'', path_join [workspace, ''golib-gremlins''], ''./cmd/gremlins'']"

definition campaign_class :: "string \<Rightarrow> command \<Rightarrow> cache_class" where
  "campaign_class workspace c =
     (if cm_program c \<noteq> ''go'' then Repository_runtime_cache
      else (case cm_arguments c of
              [] \<Rightarrow> Repository_runtime_cache
            | verb # rest \<Rightarrow>
                if verb = ''list'' \<or> verb = ''test'' then Native_repository_cache
                else if cm_arguments c = gremlins_download then Verifier_cache
                else if cm_directory c = path_join [workspace, ''gremlins-source''] \<and>
                        cm_arguments c = gremlins_build workspace then Verifier_cache
                else Repository_runtime_cache))"

definition executes_mutants :: "string \<Rightarrow> command \<Rightarrow> bool" where
  "executes_mutants workspace c \<longleftrightarrow>
     cm_program c = path_join [workspace, ''golib-gremlins''] \<and>
     (case cm_arguments c of [] \<Rightarrow> False | verb # rest \<Rightarrow> verb = ''unleash'')"

definition campaign_command :: "string \<Rightarrow> command \<Rightarrow> gate_command" where
  "campaign_command workspace c =
     (let g = gate_command_of (campaign_class workspace c) False (cm_program c) (cm_arguments c) (cm_directory c)
                (cm_environment c)
      in if executes_mutants workspace c
         then g\<lparr>gc_class := Native_repository_cache, gc_build_cache := env_get (cm_environment c) ''GOCACHE''\<rparr> else g)"

definition mutation_process :: "gate_kit \<Rightarrow> runner \<Rightarrow> string \<Rightarrow> process" where
  "mutation_process kit rn workspace c w =
     (if executes_mutants workspace c \<and> \<not> owned_package_cache kit workspace (env_get (cm_environment c) ''GOCACHE'') w
      then (w, \<lparr>po_writes = [], po_error = Some Process_failed, po_cancelled = False\<rparr>)
      else gk_executor kit (service_command rn (campaign_command workspace c)) w)"

section \<open>The campaign\<close>

definition identities_error :: "runner \<Rightarrow> module_policy \<Rightarrow> gate_error option" where
  "identities_error rn md = first_error
     (refuse (length (md_required_services md) \<noteq> length (rn_service_identities rn))
        (Refused (''mutation service identities are incomplete for '' @ md_directory md)) #
      map (\<lambda>s. refuse (env_get (rn_service_identities rn) s = [])
             (Refused (''mutation service identity for '' @ s @ '' is missing''))) (md_required_services md))"

definition campaign_of ::
  "gate_kit \<Rightarrow> runner \<Rightarrow> module_policy \<Rightarrow> string \<Rightarrow> zero_inventory \<Rightarrow> equivalent_inventory \<Rightarrow> runtime_identity
    \<Rightarrow> env_map \<Rightarrow> int \<Rightarrow> campaign" where
  "campaign_of kit rn md workspace reviews equivalents identity environment workers =
     \<lparr>cg_root = rn_root rn,
      cg_evidence_root = path_join [rn_root rn, cf_evidence_root (rn_policy rn)],
      cg_mutation_root = path_join [rn_root rn, mp_root (cf_mutation (rn_policy rn))],
      cg_workspace = workspace,
      cg_policy =
        \<lparr>cy_repository = iv_repository (rn_catalog rn), cy_module_directory = md_directory md,
         cy_module_path = md_module_path md, cy_go_version = md_go_version md,
         cy_packages = sort (map pk_directory (filter pk_coverage_required (md_packages md))),
         cy_test_tags = filter (\<lambda>tag. tag \<noteq> ''interoperability'') (md_test_tags md),
         cy_build_tags = md_build_tags md, cy_required_services = md_required_services md,
         cy_service_identities = merge_maps (rn_service_identities rn) [],
         cy_owned_modules = local_owned_modules rn md, cy_workers = workers\<rparr>,
      cg_zero_reviews = reviews, cg_equivalent_reviews = equivalents, cg_environment = environment,
      cg_runtime = identity, cg_process = Some (mutation_process kit rn workspace),
      cg_now = mk_now (gk_mutation kit)\<rparr>"

definition prepare_mutation_campaign :: "gate_kit \<Rightarrow> runner \<Rightarrow> module_policy \<Rightarrow> campaign act" where
  "prepare_mutation_campaign kit rn md =
     and_do (workspace_or (Refused ''mutation requires a task-owned workspace'') rn) (\<lambda>task.
       and_do (from_option (identities_error rn md)) (\<lambda>_.
         and_do (load_zero_inventory kit (rn_root rn)
             (path_join [mp_root (cf_mutation (rn_policy rn)), ''zero-inventory.json''])) (\<lambda>reviews.
           and_do (load_equivalent_inventory kit (rn_root rn)
               (path_join [mp_root (cf_mutation (rn_policy rn)), ''equivalent-inventory.json''])) (\<lambda>equivalents.
             and_do (runtime_identity_act kit rn (md_directory md)) (\<lambda>identity.
               let workspace = path_join [task, ''mutation-campaigns'', mutation_module_slug kit (md_module_path md)]
               in and_do (mutation_environment kit rn workspace md (local_owned_modules rn md)) (\<lambda>environment.
                    and_do (mutation_workers kit rn md) (\<lambda>workers.
                      give (campaign_of kit rn md workspace reviews equivalents identity environment workers))))))))"

definition run_mutation :: "gate_kit \<Rightarrow> runner \<Rightarrow> module_policy \<Rightarrow> unit act" where
  "run_mutation kit rn md =
     and_do (prepare_mutation_campaign kit rn md) (\<lambda>c.
       and_do (on_world (run_campaign (mk_libraries (gk_mutation kit)) c)) (\<lambda>e.
         from_option (map_option By_campaign e)))"

text \<open>The result lists the packages whose checkpoint was skipped, for which \<open>Import\<close> returns
  \<open>ErrInputChanged\<close>.\<close>

definition run_mutation_import :: "gate_kit \<Rightarrow> runner \<Rightarrow> module_policy \<Rightarrow> string \<Rightarrow> string \<Rightarrow> string list act" where
  "run_mutation_import kit rn md archive_path ledger_path =
     and_do (read_file_act kit (rn_root rn) archive_path maximum_archive_size) (\<lambda>x.
       case x of
         Inl e \<Rightarrow> fail (Because ''read mutation checkpoint archive'' (By_repository e))
       | Inr archive \<Rightarrow>
           (case read_bootstrap (lib_codec (mk_libraries (gk_mutation kit))) (mk_checkpoint (gk_mutation kit))
                   (int (length archive)) (mk_archive (gk_mutation kit) archive) of
              Inl e \<Rightarrow> fail (Because ''parse mutation checkpoint archive'' (By_archive e))
            | Inr checkpoints \<Rightarrow>
                and_do (read_file_act kit (rn_root rn) ledger_path maximum_ledger_size) (\<lambda>y.
                  case y of
                    Inl e \<Rightarrow> fail (Because ''read mutation migration ledger'' (By_repository e))
                  | Inr data \<Rightarrow>
                      (case parse_migration_ledger (mk_ledger (gk_mutation kit)) data False of
                         Inl e \<Rightarrow> fail (Because ''parse mutation migration ledger'' (By_ledger e))
                       | Inr ledger \<Rightarrow>
                           and_do (prepare_mutation_campaign kit rn md) (\<lambda>c.
                             and_do (on_world (import_campaign (mk_libraries (gk_mutation kit)) c checkpoints ledger)) (\<lambda>z.
                               case z of Inl e \<Rightarrow> fail (By_campaign e) | Inr changed \<Rightarrow> give changed))))))"

text \<open>An announced gate with a result.\<close>

definition announced :: "string \<Rightarrow> string \<Rightarrow> 'a act \<Rightarrow> 'a act" where
  "announced md gate operation = and_do (emit (Announced md gate)) (\<lambda>_. operation)"

definition configured_mutation_import :: "runner \<Rightarrow> string \<Rightarrow> mutation_import option" where
  "configured_mutation_import rn md = find (\<lambda>m. mi_module m = md) (mp_imports (cf_mutation (rn_policy rn)))"

definition verify_mutation :: "gate_kit \<Rightarrow> runner \<Rightarrow> module_policy \<Rightarrow> unit act" where
  "verify_mutation kit rn md = in_order
     [(case configured_mutation_import rn (md_directory md) of
         None \<Rightarrow> give ()
       | Some migration \<Rightarrow>
           and_do (announced (md_directory md) ''mutation-import''
               (run_mutation_import kit rn md (mi_archive migration) (mi_ledger migration))) (\<lambda>changed.
             when_gate (changed \<noteq> []) (emit (Printed (CHR 0x5B # md_directory md @
               ''] mutation-import: changed packages require current verification'' @ [CHR 0x0A]))))),
      announce (md_directory md) ''mutation'' (run_mutation kit rn md)]"

end
