(* ===== verification/Gate_Process_Facts.thy ===== *)
theory Gate_Process_Facts
  imports Gate_Mutation
begin

text \<open>
  The environment of a gate's command: whatever the repository or a command sets, the caches are
  those of the task or of the admitted session, and no cache that repository code can write is
  one that a verifier reads.
\<close>

section \<open>Maps\<close>

lemma map_of_map_copy: "map_of (map_copy m s) = map_of m ++ map_of (rev s)"
  unfolding map_copy_def by (induction s arbitrary: m) auto

lemma distinct_map_copy: "distinct (map fst m) \<Longrightarrow> distinct (map fst (map_copy m s))"
  unfolding map_copy_def by (induction s arbitrary: m) auto

lemma dom_map_copy: "fst ` set (map_copy m s) = fst ` set m \<union> fst ` set s"
  unfolding map_copy_def
proof (induction s arbitrary: m)
  case (Cons kv s)
  then show ?case by (cases kv) (simp only: foldl_Cons prod.case set_keys_map_set, simp)
qed simp

lemma map_of_rev_distinct: "distinct (map fst s) \<Longrightarrow> map_of (rev s) = map_of s"
proof (induction s)
  case (Cons kv s)
  have "map_of s (fst kv) = None" using Cons.prems by (simp add: map_of_eq_None_iff)
  with Cons show ?case by (auto simp: map_add_def fun_eq_iff split: option.splits)
qed simp

lemma map_of_map_copy_distinct: "distinct (map fst s) \<Longrightarrow> map_of (map_copy m s) = map_of m ++ map_of s"
  by (simp add: map_of_map_copy map_of_rev_distinct)

lemma cut_at_key: "cut_at e ''='' = Some (k, v) \<Longrightarrow> CHR ''='' \<notin> set k"
  by (induction e arbitrary: k) (auto simp: has_prefix_def split: if_splits)

lemma environment_entries_ok:
  "distinct (map fst (environment_entries current))"
  "k \<in> fst ` set (environment_entries current) \<Longrightarrow> CHR ''='' \<notin> set k"
proof -
  have "distinct (map fst (environment_entries current)) \<and>
      (\<forall>k \<in> fst ` set (environment_entries current). CHR ''='' \<notin> set k)"
  proof (induction current rule: rev_induct)
    case (snoc e es)
    have step: "environment_entries (es @ [e]) =
        (case cut_at e ''='' of None \<Rightarrow> environment_entries es | Some (k, v) \<Rightarrow> map_set k v (environment_entries es))"
      by (cases "cut_at e ''=''") (auto simp: environment_entries_def)
    show ?case
    proof (cases "cut_at e ''=''")
      case (Some kv)
      then obtain k v where "cut_at e ''='' = Some (k, v)" by (cases kv) auto
      with snoc cut_at_key show ?thesis by (simp only: step option.case prod.case distinct_map_set set_keys_map_set) simp
    qed (use snoc in \<open>simp add: step\<close>)
  qed (simp add: environment_entries_def)
  then show "distinct (map fst (environment_entries current))"
    and "k \<in> fst ` set (environment_entries current) \<Longrightarrow> CHR ''='' \<notin> set k" by auto
qed

lemma filter_one: "distinct xs \<Longrightarrow> x \<in> set xs \<Longrightarrow> filter (\<lambda>y. y = x) xs = [x]"
proof (induction xs)
  case (Cons a xs)
  then show ?case by (cases "a = x") (auto simp: filter_empty_conv)
qed simp

text \<open>The entries of one key in an environment.\<close>

definition entries_of :: "string \<Rightarrow> string list \<Rightarrow> string list" where
  "entries_of k environment = filter (\<lambda>e. has_prefix e (k @ ''='')) environment"

definition plain_keys :: "env_map \<Rightarrow> bool" where
  "plain_keys m \<longleftrightarrow> list_all (\<lambda>(k, v). CHR ''='' \<notin> set k) m"

lemma merged_entry:
  assumes "list_all plain_keys sets" and "CHR ''='' \<notin> set k" and "map_of (last sets) k = Some v"
    and "distinct (map fst (last sets))" and "sets \<noteq> []"
  shows "entries_of k (merge_environment current sets) = [k @ ''='' @ v]"
proof -
  define merged where "merged = foldl map_copy (environment_entries current) sets"
  obtain init l where sets: "sets = init @ [l]" using assms(5) by (metis rev_exhaust)
  have d: "distinct (map fst (foldl map_copy (environment_entries current) ss))" for ss
    by (induction ss rule: rev_induct) (simp_all add: environment_entries_ok distinct_map_copy)
  have plain: "\<forall>k \<in> fst ` set (foldl map_copy (environment_entries current) ss). CHR ''='' \<notin> set k"
    if "list_all plain_keys ss" for ss
    using that
    by (induction ss rule: rev_induct)
      (use environment_entries_ok(2) in \<open>auto simp: dom_map_copy plain_keys_def list_all_iff\<close>)
  have v: "map_of merged k = Some v"
    using assms(3,4) by (simp add: merged_def sets map_of_map_copy_distinct)
  have key: "has_prefix (x @ ''='' @ y) (k @ ''='') \<longleftrightarrow> x = k" if "CHR ''='' \<notin> set x" for x y :: string
  proof
    assume "has_prefix (x @ ''='' @ y) (k @ ''='')"
    then obtain t where "x @ CHR ''='' # y = k @ CHR ''='' # t" by (auto simp: has_prefix_iff)
    then show "x = k" using sep_pair_inj_left[OF _ that assms(2)] by blast
  qed (auto simp: has_prefix_iff)
  have "filter (\<lambda>e. has_prefix e (k @ ''='')) (map (\<lambda>x. x @ ''='' @ the (map_of merged x)) (sort (map fst merged))) =
      map (\<lambda>x. x @ ''='' @ the (map_of merged x)) (filter (\<lambda>x. x = k) (sort (map fst merged)))"
    unfolding filter_map comp_def
    using plain[OF assms(1)] key by (intro arg_cong[where f = "map _"] filter_cong) (auto simp: merged_def)
  moreover have "filter (\<lambda>x. x = k) (sort (map fst merged)) = [k]"
    using d[of sets] v by (intro filter_one) (force simp: merged_def dest: map_of_SomeD)+
  ultimately show ?thesis using v by (simp add: entries_of_def merge_environment_def merged_def[symmetric] Let_def)
qed

section \<open>The caches of a command\<close>

lemma path_join_distinct:
  assumes "plain_elem x" "plain_elem y" "CHR ''/'' \<notin> set x" "CHR ''/'' \<notin> set y" "x \<noteq> y"
  shows "path_join [d, x] \<noteq> path_join [e, y]"
proof -
  have below: "path_join [d, z] = path_clean ((if d = [] then [] else d @ ''/'') @ z)" if "z \<noteq> []" for d z
    using that by (simp add: path_join_def)
  have "x \<noteq> []" "y \<noteq> []" using assms(1,2) by (simp_all add: plain_elem_def)
  then show ?thesis using path_clean_distinct[OF assms] by (simp add: below)
qed

text \<open>The last element of a joined path.\<close>

lemma path_base_snoc:
  assumes "x \<noteq> []" and "CHR ''/'' \<notin> set x" and "a = [] \<or> last a = CHR ''/''"
  shows "path_base (a @ x) = x"
proof -
  have plain: "cut_last CHR ''/'' x = None" using assms(2) by (induction x) auto
  have "cut_last CHR ''/'' (c @ CHR ''/'' # x) = Some (c, x)" for c by (induction c) (simp_all add: plain)
  then have "a \<noteq> [] \<Longrightarrow> cut_last CHR ''/'' (a @ x) = Some (butlast a, x)"
    using assms(3) by (metis append.assoc append_Cons append_Nil append_butlast_last_id)
  moreover have "dropWhile (\<lambda>c. c = CHR ''/'') (rev x @ b) = rev x @ b" for b
    using assms(1,2) by (cases x rule: rev_cases) auto
  moreover note this this [of "[]"]
  ultimately show ?thesis using assms(1) plain by (cases "a = []") (simp_all add: path_base_def)
qed

lemma path_base_join:
  assumes "plain_elem x" and "CHR ''/'' \<notin> set x"
  shows "path_base (path_join [d, x]) = x"
proof -
  have x: "x \<noteq> []" using assms(1) by (simp add: plain_elem_def)
  define p where "p = (if d = [] then [] else d @ ''/'') @ x"
  have p: "path_join [d, x] = path_clean p" using x by (simp add: path_join_def p_def)
  have "split_on CHR ''/'' p = (if d = [] then [] else split_on CHR ''/'' d) @ [x]"
    using assms(2) by (simp add: p_def split_on_append split_on_plain)
  then obtain es where es: "clean_elems (is_abs p) (split_on CHR ''/'' p) = es @ [x]"
    using assms(1) by (simp add: clean_elems_snoc)
  have "\<exists>a. path_clean p = a @ x \<and> (a = [] \<or> last a = CHR ''/'')"
  proof -
    let ?a = "(if is_abs p then ''/'' else []) @ (if es = [] then [] else join_with ''/'' es @ ''/'')"
    have "join_with ''/'' (es @ [x]) \<noteq> []" using x by (simp add: join_snoc)
    moreover have "p \<noteq> []" using x by (simp add: p_def)
    ultimately have "path_clean p = ?a @ x" unfolding path_clean_def Let_def es by (simp add: join_snoc)
    moreover have "?a = [] \<or> last ?a = CHR ''/''" by simp
    ultimately show ?thesis by blast
  qed
  then obtain a where a: "path_clean p = a @ x" "a = [] \<or> last a = CHR ''/''" by blast
  show ?thesis unfolding p a(1) by (rule path_base_snoc [OF x assms(2) a(2)])
qed

definition cache_keys :: "string list" where
  "cache_keys = [''GOCACHE'', ''GOMODCACHE'', ''GOLANGCI_LINT_CACHE'']"

text \<open>The directory of a cache, by the cls of the command and the session.\<close>

definition cache_directory :: "process_executor \<Rightarrow> cache_class \<Rightarrow> string \<Rightarrow> string" where
  "cache_directory x cls k =
     (let own = (if cls = Verifier_cache then task_environment (pe_task x) else task_runtime_caches (pe_task x));
          borrowed = (case cls of Verifier_cache \<Rightarrow> pe_borrowed_verifier x
                      | Native_repository_cache \<Rightarrow> pe_borrowed x | Repository_runtime_cache \<Rightarrow> [])
      in case map_of borrowed k of Some d \<Rightarrow> d | None \<Rightarrow> the (map_of own k))"

text \<open>A command of the native class may name the build cache of its campaign.\<close>

definition command_cache :: "process_executor \<Rightarrow> gate_command \<Rightarrow> string \<Rightarrow> string" where
  "command_cache x c k =
     (if k = ''GOCACHE'' \<and> gc_class c = Native_repository_cache \<and> gc_build_cache c \<noteq> [] then gc_build_cache c
      else cache_directory x (gc_class c) k)"

text \<open>An executor as the two constructors make it.\<close>

definition executor_made :: "process_executor \<Rightarrow> bool" where
  "executor_made x \<longleftrightarrow>
     (\<exists>task base. x = executor_of task \<or>
        x = (executor_of task)\<lparr>pe_borrowed := session_caches base, pe_borrowed_verifier := []\<rparr> \<or>
        x = (executor_of task)\<lparr>pe_borrowed := session_caches base,
              pe_borrowed_verifier := session_verifier_caches base\<rparr>)"

lemma new_executor_made: "new_process_executor files order repository w = (w', Inr x) \<Longrightarrow> executor_made x"
  by (auto simp: new_process_executor_def executor_made_def split: prod.splits sum.splits option.splits)

lemma session_executor_made:
  assumes "new_process_executor_with_task_cache view files order repository base w = (w', Inr x)"
  shows "executor_made x"
proof -
  obtain ds vs y where t: "task_cache_directories view order repository base = Some (ds, vs)"
    and y: "new_process_executor files order repository w = (w', Inr y)"
    and x: "x = y\<lparr>pe_borrowed := ds, pe_borrowed_verifier := vs\<rparr>"
    using assms by (auto simp: new_process_executor_with_task_cache_def split: option.splits prod.splits sum.splits)
  from y obtain task where "y = executor_of task"
    by (auto simp: new_process_executor_def split: prod.splits sum.splits option.splits)
  moreover from t have "ds = session_caches base" and "vs = [] \<or> vs = session_verifier_caches base"
    by (auto simp: task_cache_directories_def split: if_splits option.splits)
  ultimately show ?thesis using x unfolding executor_made_def
    by (elim disjE) (force simp: executor_of_def)+
qed

lemmas environment_parts =
  executor_of_def task_environment_def task_runtime_caches_def session_caches_def session_verifier_caches_def

definition owned_environment :: "string \<Rightarrow> env_map" where
  "owned_environment task = task_environment task @
     [(''GOLANGCI_LINT_CACHEPROG'', []), (''GOCACHEPROG'', []), (''GOLIB_TASK_CACHE_ROOT'', [])]"

lemma executor_fields:
  assumes "executor_made x"
  obtains "pe_environment x = owned_environment (pe_task x)" "pe_runtime_caches x = task_runtime_caches (pe_task x)"
    "pe_borrowed x = [] \<or> (\<exists>base. pe_borrowed x = session_caches base)"
    "pe_borrowed_verifier x = [] \<or> (\<exists>base. pe_borrowed_verifier x = session_verifier_caches base)"
proof -
  have "pe_environment (executor_of task) = owned_environment task" for task
    by (simp add: executor_of_def owned_environment_def task_environment_def)
  with assms that show ?thesis unfolding executor_made_def
    by (elim exE disjE) (auto simp: executor_of_def)
qed

lemma plain_owned: "plain_keys (owned_environment task)" "plain_keys (task_runtime_caches task)"
    "plain_keys (session_caches base)" "plain_keys (session_verifier_caches base)" "plain_keys []"
  by (simp_all add: plain_keys_def owned_environment_def environment_parts)

lemma plain_executor:
  assumes "executor_made x"
  shows "plain_keys (pe_environment x)" "plain_keys (pe_runtime_caches x)" "plain_keys (pe_borrowed x)"
    "plain_keys (pe_borrowed_verifier x)"
  by (rule executor_fields[OF assms]; auto simp: plain_owned)+

lemma plain_keys_iff: "plain_keys m \<longleftrightarrow> (\<forall>k \<in> fst ` set m. CHR ''='' \<notin> set k)"
  by (auto simp: plain_keys_def list_all_iff)

lemma plain_keys_copy: "plain_keys m \<Longrightarrow> plain_keys s \<Longrightarrow> plain_keys (map_copy m s)"
  unfolding plain_keys_iff dom_map_copy by blast

lemma plain_keys_set: "plain_keys m \<Longrightarrow> CHR ''='' \<notin> set k \<Longrightarrow> plain_keys (map_set k v m)"
  unfolding plain_keys_iff set_keys_map_set by blast

lemma protected_distinct:
  assumes "executor_made x"
  shows "distinct (map fst (protected_environment x c))" and "plain_keys (protected_environment x c)"
proof -
  have "distinct (map fst (pe_environment x))"
    by (rule executor_fields[OF assms]) (simp add: owned_environment_def task_environment_def)
  then have d: "distinct (map fst (map_delete ''GOBIN'' (pe_environment x)))"
    by (simp add: map_delete_def distinct_map_filter case_prod_unfold)
  have p: "plain_keys (map_delete ''GOBIN'' (pe_environment x))"
    using plain_executor(1)[OF assms] by (auto simp: plain_keys_def map_delete_def list_all_iff)
  have "CHR ''='' \<notin> set ''GOCACHE''" by simp
  then show "distinct (map fst (protected_environment x c))" and "plain_keys (protected_environment x c)"
    using d p plain_executor[OF assms]
    by (simp_all add: protected_environment_def Let_def distinct_map_copy plain_keys_copy plain_keys_set)
qed

lemma owned_cache:
  assumes "k \<in> set cache_keys"
  shows "map_of (map_delete ''GOBIN'' (owned_environment task)) k = map_of (task_environment task) k"
    "map_of (task_environment task) k \<noteq> None" "map_of (task_runtime_caches task) k \<noteq> None"
  using assms by (auto simp: cache_keys_def owned_environment_def map_delete_def environment_parts)

lemma borrowed_distinct:
  "distinct (map fst (task_runtime_caches task))" "distinct (map fst (session_caches base))"
  "distinct (map fst (session_verifier_caches base))"
  by (simp_all add: environment_parts)

lemma protected_cache:
  assumes "executor_made x" and "k \<in> set cache_keys"
  shows "map_of (protected_environment x c) k = Some (command_cache x c k)"
proof -
  have copy: "map_of (map_copy m s) q = (case map_of s q of None \<Rightarrow> map_of m q | Some v \<Rightarrow> Some v)"
    if "distinct (map fst s)" for m s q
    using that by (simp add: map_of_map_copy_distinct map_add_def)
  have fields: "pe_environment x = owned_environment (pe_task x)" "pe_runtime_caches x = task_runtime_caches (pe_task x)"
    and d: "distinct (map fst (pe_borrowed x))" "distinct (map fst (pe_borrowed_verifier x))"
    by (rule executor_fields[OF assms(1)]; auto simp: borrowed_distinct)+
  note owned = owned_cache[OF assms(2), of "pe_task x"]
  show ?thesis
    using owned d
    by (cases "gc_class c")
      (auto simp: protected_environment_def Let_def command_cache_def cache_directory_def fields copy borrowed_distinct
        split: option.splits)
qed

lemma cache_directories_apart:
  assumes "executor_made x" and "k \<in> set cache_keys" and "cls \<noteq> Verifier_cache"
  shows "cache_directory x Verifier_cache k \<noteq> cache_directory x cls k"
proof -
  have "path_join [d, ''go-build''] \<noteq> path_join [e, ''runtime-go-build'']"
    "path_join [d, ''go-build''] \<noteq> path_join [e, ''cache'']"
    "path_join [d, ''verifier-cache''] \<noteq> path_join [e, ''runtime-go-build'']"
    "path_join [d, ''verifier-cache''] \<noteq> path_join [e, ''cache'']"
    "path_join [d, ''go-mod''] \<noteq> path_join [e, ''runtime-go-mod'']"
    "path_join [d, ''go-mod''] \<noteq> path_join [e, ''mod'']"
    "path_join [d, ''verifier-mod''] \<noteq> path_join [e, ''runtime-go-mod'']"
    "path_join [d, ''verifier-mod''] \<noteq> path_join [e, ''mod'']"
    "path_join [d, ''golangci-lint''] \<noteq> path_join [e, ''runtime-lint'']" for d e
    by (rule path_join_distinct; simp add: plain_elem_def)+
  note apart = this
  have "pe_borrowed x = [] \<or> (\<exists>base. pe_borrowed x = session_caches base)"
    and "pe_borrowed_verifier x = [] \<or> (\<exists>base. pe_borrowed_verifier x = session_verifier_caches base)"
    by (rule executor_fields[OF assms(1)]; blast)+
  then show ?thesis
    using assms(2,3) apart unfolding cache_keys_def
    by (cases cls; elim disjE exE) (auto simp: cache_directory_def environment_parts)
qed

lemma cache_entry:
  assumes "executor_made x" and "k \<in> set cache_keys" and "plain_keys (cm_environment c)"
  shows "entries_of k (command_process_environment os_environ x c) = [k @ ''='' @ command_cache x c k]"
proof -
  have "plain_keys (pe_environment x)" using plain_executor[OF assms(1)] by simp
  moreover have "CHR ''='' \<notin> set k" using assms(2) by (auto simp: cache_keys_def)
  ultimately show ?thesis
    unfolding command_process_environment_def
    using merged_entry[of "[pe_environment x, cm_environment c, protected_environment x c]"]
      assms protected_distinct[OF assms(1)] protected_cache[OF assms(1,2)] by simp
qed

text \<open>The package cache of a campaign is the directory \<open>root\<close> or is named by a digest.\<close>

lemma verifier_build_cache:
  assumes "executor_made x"
  shows "path_base (cache_directory x Verifier_cache ''GOCACHE'') \<in> {''go-build'', ''verifier-cache''}"
proof -
  have "path_base (path_join [d, ''go-build'']) = ''go-build''" "path_base (path_join [d, ''verifier-cache'']) = ''verifier-cache''" for d
    by (rule path_base_join; simp add: plain_elem_def)+
  note bases = this
  have "pe_borrowed_verifier x = [] \<or> (\<exists>base. pe_borrowed_verifier x = session_verifier_caches base)"
    by (rule executor_fields[OF assms]; blast)
  then show ?thesis using bases by (elim disjE exE) (auto simp: cache_directory_def environment_parts)
qed

lemma package_cache_apart:
  assumes "executor_made x" and "owned_package_cache kit workspace cache w"
  shows "cache_directory x Verifier_cache ''GOCACHE'' \<noteq> cache"
  using verifier_build_cache[OF assms(1)] assms(2) by (auto simp: owned_package_cache_def)

text \<open>C19: 
  The caches of verifiers are isolated: in the environment of every command the directories
  of the Go build, module and lint caches are sealed, whatever the process environment or the
  command sets (under names without an equals sign), and the one a verifier reads is never the one that a command which can run
  repository code writes. A command with a build cache of its own is one that executes the mutants of
  a campaign, for which \<open>mutationProcess\<close> runs it only when the cache is an owned package cache.
\<close>

theorem caches_isolated:
  assumes "new_process_executor_with_task_cache view files order repository base w = (w', Inr x)
      \<or> new_process_executor files order repository w = (w', Inr x)"
    and "gc_class verifier = Verifier_cache" and "gc_class other \<noteq> Verifier_cache"
    and "gc_build_cache other = [] \<or> owned_package_cache kit workspace (gc_build_cache other) v"
    and "plain_keys (cm_environment verifier)" and "plain_keys (cm_environment other)"
    and "k \<in> {''GOCACHE'', ''GOMODCACHE'', ''GOLANGCI_LINT_CACHE''}"
  shows "\<exists>a b. entries_of k (command_process_environment os_environ x verifier) = [k @ ''='' @ a] \<and>
               entries_of k (command_process_environment os_environ x other) = [k @ ''='' @ b] \<and> a \<noteq> b"
proof -
  have x: "executor_made x" using assms(1) new_executor_made session_executor_made by blast
  have k: "k \<in> set cache_keys" using assms(7) by (auto simp: cache_keys_def)
  have "command_cache x verifier k \<noteq> command_cache x other k"
    using cache_directories_apart[OF x k assms(3)] package_cache_apart[OF x, of kit workspace "gc_build_cache other" v] assms(2,4)
    by (auto simp: command_cache_def)
  then show ?thesis
    using cache_entry[OF x k assms(5), of os_environ] cache_entry[OF x k assms(6), of os_environ] by simp
qed

definition sample_task_files :: task_files where
  "sample_task_files =
     \<lparr>tf_mkdir_temp = (\<lambda>d p w. (w, Inr (''/tmp/'' @ p @ ''1''))), tf_mkdir_all = (\<lambda>p w. (w, None)),
      tf_walk = (\<lambda>p visit w. (w, None)), tf_chmod = (\<lambda>p mode w. (w, None)), tf_remove_all = (\<lambda>p w. (w, None))\<rparr>"

lemma caches_isolated_witness:
  "\<exists>a b. entries_of ''GOCACHE'' (command_process_environment [''GOCACHE=/home''] (executor_of ''/tmp/golib-repo-1'')
            (gate_command_of Verifier_cache True ''go'' [''run''] ''/repo'' [(''GOWORK'', ''off'')])) = [''GOCACHE='' @ a] \<and>
         entries_of ''GOCACHE'' (command_process_environment [''GOCACHE=/home''] (executor_of ''/tmp/golib-repo-1'')
            (gate_command_of Native_repository_cache False ''go'' [''test''] ''/repo'' [(''GOCACHE'', ''/evil'')])) = [''GOCACHE='' @ b] \<and>
         a \<noteq> b"
proof -
  have made: "new_process_executor sample_task_files id ''/repo'' \<lparr>w_nodes = [], w_script = []\<rparr> =
      (\<lparr>w_nodes = [], w_script = []\<rparr>, Inr (executor_of ''/tmp/golib-repo-1''))"
    unfolding sample_task_files_def by code_simp
  show ?thesis
    using caches_isolated[OF disjI2[OF made], where k = "''GOCACHE''"
        and verifier = "gate_command_of Verifier_cache True ''go'' [''run''] ''/repo'' [(''GOWORK'', ''off'')]"
        and other = "gate_command_of Native_repository_cache False ''go'' [''test''] ''/repo'' [(''GOCACHE'', ''/evil'')]"]
    by (simp add: gate_command_of_def plain_keys_def)
qed

end
