(* ===== verification/Gate_Source_Facts.thy ===== *)
theory Gate_Source_Facts
  imports Gate_Source
begin

text \<open>
  The walk over a source tree visits everything it reaches or fails, within its entry limit
  whatever the tree is; and a module whose suppressions are admitted has none without exact
  rules and a reason.
\<close>

section \<open>A successful walk misses nothing\<close>

text \<open>What every visit keeps holds from one state of the visitor on.\<close>

definition stable :: "('s, 'e) visitor \<Rightarrow> ('s \<Rightarrow> bool) \<Rightarrow> bool" where
  "stable visit Q \<longleftrightarrow> (\<forall>relative e c s. Q s \<longrightarrow> Q (fst (snd (visit relative e c s))))"

definition leads :: "('s, 'e) visitor \<Rightarrow> 's \<Rightarrow> 's \<Rightarrow> bool" where
  "leads visit s t \<longleftrightarrow> (\<forall>Q. stable visit Q \<longrightarrow> Q s \<longrightarrow> Q t)"

lemma leads_refl [simp]: "leads visit s s"
  by (simp add: leads_def)

lemma leads_trans: "leads visit s t \<Longrightarrow> leads visit t u \<Longrightarrow> leads visit s u"
  by (auto simp: leads_def)

lemma leads_visit: "visit relative e c s = (c', s', v) \<Longrightarrow> leads visit s s'"
  unfolding leads_def stable_def by (metis fst_conv snd_conv)

lemma walk_entry_cases:
  assumes "walk_entry visit sub limit relative e st = (st', x)"
  obtains (unvisited) "x \<noteq> None" "wk_visitor st' = wk_visitor st"
    | (visited) c c' s' v where "visit (path_join [relative, de_name e]) e c (wk_visitor st) = (c', s', v)"
        "wk_visitor st' = s'" "v = Visit_on \<longrightarrow> de_kind e \<noteq> Kind_directory" "x = None \<longleftrightarrow> (\<forall>f. v \<noteq> Visit_failed f)"
    | (walked) c c' s' st1 where "visit (path_join [relative, de_name e]) e c (wk_visitor st) = (c', s', Visit_on)"
        "de_kind e = Kind_directory" "wk_visitor st1 = s'" "sub (path_join [relative, de_name e]) st1 = (st', x)"
proof -
  obtain stop c where c: "poll_ctx (wk_ctx st) = (stop, c)" by fastforce
  define st1 where "st1 = st\<lparr>wk_ctx := c, wk_entries := wk_entries st + 1\<rparr>"
  obtain c' s' v where v: "visit (path_join [relative, de_name e]) e c (wk_visitor st) = (c', s', v)" by (metis prod_cases3)
  define st2 where "st2 = st1\<lparr>wk_ctx := c', wk_visitor := s'\<rparr>"
  show thesis
  proof (cases "stop \<or> limit < wk_entries st1")
    case True
    then have "x \<noteq> None \<and> wk_visitor st' = wk_visitor st"
      using assms by (auto simp: walk_entry_def c Let_def st1_def split: if_splits)
    then show thesis using unvisited by blast
  next
    case False
    then have "walk_entry visit sub limit relative e st =
        (case v of Visit_failed f \<Rightarrow> (st2, Some (Walk_visit f)) | Visit_skip \<Rightarrow> (st2, None)
         | Visit_on \<Rightarrow> if de_kind e = Kind_directory then sub (path_join [relative, de_name e]) st2 else (st2, None))"
      by (cases v) (simp_all add: walk_entry_def c Let_def st1_def v st2_def)
    moreover have "wk_visitor st2 = s'" by (simp add: st2_def)
    ultimately show thesis
      using assms v visited[OF v] walked[of c c' s' st2] by (cases v) (auto split: if_splits)
  qed
qed

lemma walk_entry_leads:
  assumes "\<And>name st. leads visit (wk_visitor st) (wk_visitor (fst (sub name st)))"
  shows "leads visit (wk_visitor st) (wk_visitor (fst (walk_entry visit sub limit relative e st)))"
proof -
  obtain st' x where w: "walk_entry visit sub limit relative e st = (st', x)" by fastforce
  then show ?thesis
  proof (cases rule: walk_entry_cases)
    case (walked c c' s' st1)
    have "leads visit (wk_visitor st1) (wk_visitor st')" using assms[of st1 "path_join [relative, de_name e]"] walked(4) by simp
    moreover have "leads visit (wk_visitor st) s'" using walked(1) by (rule leads_visit)
    ultimately show ?thesis using leads_trans walked(3) w by fastforce
  next
    case (visited c c' s' v)
    have "leads visit (wk_visitor st) s'" using visited(1) by (rule leads_visit)
    then show ?thesis using visited(2) w by simp
  qed (simp add: w)
qed

lemma walk_entries_leads:
  assumes "\<And>name st. leads visit (wk_visitor st) (wk_visitor (fst (sub name st)))"
  shows "leads visit (wk_visitor st) (wk_visitor (fst (walk_entries visit sub limit relative failed es st)))"
proof (induction es arbitrary: st)
  case (Cons e es)
  then show ?case using walk_entry_leads[where visit = visit and sub = sub and st = st and limit = limit and relative = relative and e = e, OF assms]
    by (auto split: prod.splits option.splits intro: leads_trans)
qed simp

lemma walk_directory_leads:
  "leads visit (wk_visitor st) (wk_visitor (fst (walk_directory view visit limit source n relative st)))"
proof (induction n arbitrary: relative st)
  case (Suc n)
  have "leads visit (wk_visitor st) (wk_visitor (fst (walk_entries visit (walk_directory view visit limit source n)
      limit relative failed es st)))" for st failed es
    by (rule walk_entries_leads) (rule Suc.IH)
  from this[of "st\<lparr>wk_ctx := c\<rparr>" for c] show ?case
    by (subst walk_directory.simps) (auto split: prod.splits sum.splits)
qed (subst walk_directory.simps, auto split: prod.splits)

text \<open>An entry that the walk passed: it was visited without an error, and walked when it is an
  entered directory.\<close>

lemma walk_entry_ok:
  assumes "walk_entry visit sub limit relative e st = (st', None)"
    and "\<And>name st. leads visit (wk_visitor st) (wk_visitor (fst (sub name st)))"
  shows "\<exists>c s c' s' v. visit (path_join [relative, de_name e]) e c s = (c', s', v) \<and> leads visit s' (wk_visitor st') \<and>
       (v = Visit_skip \<or> v = Visit_on \<and>
          (de_kind e = Kind_directory \<longrightarrow> (\<exists>st1. sub (path_join [relative, de_name e]) st1 = (st', None))))"
  using assms(1)
proof (cases rule: walk_entry_cases)
  case (walked c c' s' st1)
  have "leads visit (wk_visitor st1) (wk_visitor st')"
    using assms(2)[of st1 "path_join [relative, de_name e]"] walked(4) by simp
  then show ?thesis using walked by blast
next
  case (visited c c' s' v)
  then show ?thesis
    by (intro exI[of _ c] exI[of _ "wk_visitor st"] exI[of _ c'] exI[of _ s'] exI[of _ v]) (cases v; simp)
qed simp

lemma walk_entries_all:
  assumes "\<And>name st. leads visit (wk_visitor st) (wk_visitor (fst (sub name st)))"
  shows "walk_entries visit sub limit relative failed es st = (st', None) \<Longrightarrow>
     \<not> failed \<and> (\<forall>e \<in> set es. \<exists>st1 st2. walk_entry visit sub limit relative e st1 = (st2, None) \<and>
       leads visit (wk_visitor st2) (wk_visitor st'))"
proof (induction es arbitrary: st)
  case (Cons e es)
  then obtain st2 where e: "walk_entry visit sub limit relative e st = (st2, None)"
    and es: "walk_entries visit sub limit relative failed es st2 = (st', None)"
    by (auto split: prod.splits option.splits)
  have "leads visit (wk_visitor st2) (wk_visitor st')"
    using walk_entries_leads[where visit = visit and sub = sub and st = st2 and limit = limit and relative = relative and failed = failed and es = es, OF assms] es by simp
  with e Cons.IH[OF es] show ?case by auto
qed (simp split: if_splits)

lemma walk_directory_entries:
  assumes "walk_directory view visit limit source n relative st = (st', None)"
  shows "\<exists>m es. sv_directory view (path_join [source, relative]) = Inr (es, False) \<and>
    (\<forall>e \<in> set es. \<exists>st1 st2. walk_entry visit (walk_directory view visit limit source m) limit relative e st1 = (st2, None) \<and>
       leads visit (wk_visitor st2) (wk_visitor st'))"
  using assms
  by (subst (asm) walk_directory.simps)
    (auto split: prod.splits if_splits nat.splits sum.splits dest!: walk_entries_all[where sub = "walk_directory view visit limit source m" for m, OF walk_directory_leads])

text \<open>The entries below a source when the walk descends into the directories \<open>enters\<close> names.\<close>

inductive source_entry :: "walk_view \<Rightarrow> (string \<Rightarrow> dir_entry \<Rightarrow> bool) \<Rightarrow> string \<Rightarrow> string \<Rightarrow> dir_entry \<Rightarrow> bool"
  for view enters source where
  at_top: "sv_directory view (path_join [source, ''.'']) = Inr (es, failed) \<Longrightarrow> e \<in> set es
    \<Longrightarrow> source_entry view enters source (path_join [''.'', de_name e]) e"
| below: "source_entry view enters source relative d \<Longrightarrow> enters relative d
    \<Longrightarrow> sv_directory view (path_join [source, relative]) = Inr (es, failed) \<Longrightarrow> e \<in> set es
    \<Longrightarrow> source_entry view enters source (path_join [relative, de_name e]) e"

lemma walk_visits_all:
  assumes walk: "walk_security_source view visit limit source c s = (st', None)"
    and verdict: "\<And>relative d c s c' s' v. visit relative d c s = (c', s', v) \<Longrightarrow> enters relative d
      \<Longrightarrow> v \<noteq> Visit_skip \<and> de_kind d = Kind_directory"
    and entry: "source_entry view enters source relative e"
  shows "\<exists>c s c' s' v. visit relative e c s = (c', s', v) \<and> (\<forall>f. v \<noteq> Visit_failed f) \<and>
    leads visit s' (wk_visitor st')"
proof -
  have top: "walk_directory view visit limit source 129 ''.'' \<lparr>wk_ctx = c, wk_entries = 0, wk_visitor = s\<rparr> = (st', None)"
    using walk by (auto simp: walk_security_source_def Let_def split: if_splits)
  have passed: "\<exists>c s c' s' v st2. visit (path_join [relative, de_name e]) e c s = (c', s', v) \<and>
      leads visit s' (wk_visitor st') \<and> leads visit (wk_visitor st2) (wk_visitor st') \<and>
      (v = Visit_skip \<or> v = Visit_on \<and>
        (de_kind e = Kind_directory \<longrightarrow>
          (\<exists>n st1. walk_directory view visit limit source n (path_join [relative, de_name e]) st1 = (st2, None))))"
    if w: "walk_directory view visit limit source n relative st = (st3, None)"
      and l: "leads visit (wk_visitor st3) (wk_visitor st')"
      and d: "sv_directory view (path_join [source, relative]) = Inr (es, failed)" and e: "e \<in> set es"
    for n relative st st3 es failed e
  proof -
    obtain m st1 st2 where "walk_entry visit (walk_directory view visit limit source m) limit relative e st1 = (st2, None)"
      and "leads visit (wk_visitor st2) (wk_visitor st3)"
      using walk_directory_entries[OF w] d e by auto
    with walk_entry_ok[where sub = "walk_directory view visit limit source m", OF _ walk_directory_leads] l
    show ?thesis by (meson leads_trans)
  qed
  from entry have "\<exists>c s c' s' v st2. visit relative e c s = (c', s', v) \<and>
      leads visit s' (wk_visitor st') \<and> leads visit (wk_visitor st2) (wk_visitor st') \<and>
      (v = Visit_skip \<or> v = Visit_on \<and>
        (de_kind e = Kind_directory \<longrightarrow> (\<exists>n st1. walk_directory view visit limit source n relative st1 = (st2, None))))"
  proof induction
    case (at_top es failed e)
    then show ?case using passed[OF top leads_refl] by blast
  next
    case (below relative d es failed e)
    then obtain n st1 st2 where "walk_directory view visit limit source n relative st1 = (st2, None)"
      and "leads visit (wk_visitor st2) (wk_visitor st')"
      using verdict by blast
    then show ?case using passed below by blast
  qed
  then show ?thesis by (metis visit.distinct(3,5))
qed

section \<open>Suppressions have rules and a reason\<close>

definition justified :: "string \<Rightarrow> bool" where
  "justified arguments \<longleftrightarrow>
     (\<exists>rules reason. arguments = rules @ ''--'' @ reason \<and> security_rule_list_re (trim_space rules) \<and>
        trim_space (trim_left_in ''-'' reason) \<noteq> [])"

lemma cut_at_Some: "cut_at s sep = Some (a, b) \<Longrightarrow> s = a @ sep @ b"
proof (induction s arbitrary: a)
  case (Cons c s)
  show ?case
  proof (cases "has_prefix (c # s) sep")
    case True
    with Cons.prems have "a = []" "b = drop (length sep) (c # s)" by auto
    with True show ?thesis by (metis append_Nil append_take_drop_id has_prefix_iff append_eq_conv_conj)
  next
    case False
    with Cons show ?thesis by (cases "cut_at s sep") auto
  qed
qed (simp split: if_splits)

lemma directive_ok: "validate_native_security_directive d = None \<Longrightarrow> justified d"
  unfolding justified_def
  by (auto simp: validate_native_security_directive_def Let_def split: option.splits if_splits dest!: cut_at_Some)
    blast

lemma comments_ok:
  assumes "group_error path comments = None" and "comment \<in> set comments"
  shows "\<forall>(d, number) \<in> set (comment_directives comment). justified d"
    and "gosec_disable_directive (gt_text comment) = Some d \<Longrightarrow> justified d"
    and "nolint_gosec_directive (gt_text comment) = Some reason \<Longrightarrow> trim_space reason \<noteq> []"
proof -
  have "comment_error path comment = None"
    and "\<forall>(d, number) \<in> set (comment_directives comment). validate_native_security_directive d = None"
    using assms by (auto simp: group_error_def native_nosec_group_directives_def)
  then show "\<forall>(d, number) \<in> set (comment_directives comment). justified d"
    and "gosec_disable_directive (gt_text comment) = Some d \<Longrightarrow> justified d"
    and "nolint_gosec_directive (gt_text comment) = Some reason \<Longrightarrow> trim_space reason \<noteq> []"
    using directive_ok by (auto simp: comment_error_def)
qed

text \<open>C38: 
  Every suppression is justified: after the check has passed, each Go file the walk reaches
  below the module was read whole and parsed, and every native suppression in its comments
  (\<open>#nosec\<close>, \<open>gosec:disable\<close>) names exact rules and gives a reason. A \<open>nolint:gosec\<close> gives a reason; it
  need not name a rule.
\<close>

theorem suppressions_justified:
  assumes "check_security_suppressions view parse source limit c = (c', None)"
    and "source_entry view (\<lambda>relative d. de_kind d = Kind_directory \<and> de_name d \<notin> set skipped_source_directories)
           source relative entry"
    and "de_kind entry \<noteq> Kind_directory" and "path_ext (de_name entry) = ''.go''"
  shows "\<exists>content groups. read_security_suppression_source view source relative entry maximum_security_source_size = Inr content \<and>
           parse (path_join [source, relative]) content = Some groups \<and>
           (\<forall>comments \<in> set groups. \<forall>comment \<in> set comments.
              (\<forall>(d, number) \<in> set (comment_directives comment). justified d) \<and>
              (\<forall>d. gosec_disable_directive (gt_text comment) = Some d \<longrightarrow> justified d) \<and>
              (\<forall>reason. nolint_gosec_directive (gt_text comment) = Some reason \<longrightarrow> trim_space reason \<noteq> []))"
proof -
  let ?path = "path_join [source, relative]"
  have "\<exists>st. walk_security_source view (suppression_visit view parse source) limit source c () = (st, None)"
    using assms(1) by (auto simp: check_security_suppressions_def split: if_splits prod.splits)
  then obtain st where walk: "walk_security_source view (suppression_visit view parse source) limit source c () = (st, None)" ..
  have "\<exists>c s c' s' v. suppression_visit view parse source relative entry c s = (c', s', v) \<and> (\<forall>f. v \<noteq> Visit_failed f)"
    using walk_visits_all[OF walk _ assms(2)] by (auto simp: suppression_visit_def split: if_splits)
  then obtain content groups where "read_security_suppression_source view source relative entry maximum_security_source_size = Inr content"
    and "parse ?path content = Some groups" and ok: "first_error (map (group_error ?path) groups) = None"
    using assms(3,4) by (auto simp: suppression_visit_def Let_def split: sum.splits option.splits)
  moreover have "\<forall>comments \<in> set groups. group_error ?path comments = None" using ok by simp
  ultimately show ?thesis using comments_ok by blast
qed

definition sample_comment :: go_comment where
  "sample_comment = \<lparr>gt_text = ''// #nosec G304 -- fixed path'', gt_line = 3\<rparr>"

definition sample_walk_view :: walk_view where
  "sample_walk_view =
     \<lparr>sv_lstat = (\<lambda>p. Inr (Some \<lparr>fi_kind = Kind_regular, fi_size = 4, fi_identity = 1\<rparr>)),
      sv_open = (\<lambda>p. Inr (Some \<lparr>of_stat = Inl Err_other, of_content = ''code'', of_failed = False\<rparr>)),
      sv_directory = (\<lambda>p. if p = ''/repo'' then Inr ([\<lparr>de_name = ''a.go'', de_kind = Kind_regular\<rparr>], False) else Inl Err_not_exist),
      sv_eval_symlinks = (\<lambda>p. Some p), sv_readlink = (\<lambda>p. None), wv_root = (\<lambda>p. True), wv_close = (\<lambda>p. True)\<rparr>"

definition sample_comment_parser :: comment_parser where
  "sample_comment_parser path content = Some [[sample_comment]]"

lemma suppressions_justified_witness:
  "justified ''G304 -- fixed path''"
proof -
  let ?e = "\<lparr>de_name = ''a.go'', de_kind = Kind_regular\<rparr>"
  have "check_security_suppressions sample_walk_view sample_comment_parser ''/repo'' 10 None = (None, None)"
    by code_simp
  moreover have "sv_directory sample_walk_view (path_join [''/repo'', ''.'']) = Inr ([?e], False)"
    by code_simp
  then have "source_entry sample_walk_view (\<lambda>relative d. de_kind d = Kind_directory \<and> de_name d \<notin> set skipped_source_directories)
      ''/repo'' (path_join [''.'', de_name ?e]) ?e"
    by (rule source_entry.at_top) simp
  moreover have "path_ext ''a.go'' = ''.go''" by code_simp
  ultimately have "\<forall>(d, number) \<in> set (comment_directives sample_comment). justified d"
    using suppressions_justified[of sample_walk_view sample_comment_parser "''/repo''" 10 None None _ ?e]
    by (auto simp: sample_comment_parser_def)
  moreover have "(''G304 -- fixed path'', 3) \<in> set (comment_directives sample_comment)" by code_simp
  ultimately show ?thesis by blast
qed

section \<open>The walk is bounded\<close>

definition counted_within :: "int \<Rightarrow> nat walk_state \<Rightarrow> bool" where
  "counted_within limit st \<longleftrightarrow> int (wk_visitor st) \<le> wk_entries st \<and> int (wk_visitor st) \<le> limit"

lemma walk_entry_counted:
  assumes "\<And>name st. counted_within limit st \<Longrightarrow> counted_within limit (fst (sub name st))"
    and "counted_within limit st"
  shows "counted_within limit (fst (walk_entry (\<lambda>name e c n. (c, Suc n, verdict name e)) sub limit relative e st))"
  using assms(2)
  by (auto simp: walk_entry_def Let_def split: prod.splits visit.splits intro!: assms(1)) (auto simp: counted_within_def)

lemma walk_entries_counted:
  assumes "\<And>name st. counted_within limit st \<Longrightarrow> counted_within limit (fst (sub name st))"
  shows "counted_within limit st \<Longrightarrow>
     counted_within limit (fst (walk_entries (\<lambda>name e c n. (c, Suc n, verdict name e)) sub limit relative failed es st))"
proof (induction es arbitrary: st)
  case (Cons e es)
  have "counted_within limit (fst (walk_entry (\<lambda>name e c n. (c, Suc n, verdict name e)) sub limit relative e st))"
    by (rule walk_entry_counted[OF assms Cons.prems])
  with Cons.IH show ?case by (auto split: prod.splits option.splits)
qed simp

lemma walk_directory_counted:
  "counted_within limit st \<Longrightarrow> counted_within limit
     (fst (walk_directory view (\<lambda>name e c n. (c, Suc n, verdict name e)) limit source levels relative st))"
proof (induction levels arbitrary: relative st)
  case (Suc n)
  then show ?case using walk_entries_counted[OF Suc.IH]
    by (subst walk_directory.simps) (auto simp: counted_within_def split: prod.splits sum.splits)
qed (subst walk_directory.simps, auto simp: counted_within_def split: prod.splits)

text \<open>
  The walk is bounded by its entry limit alone: whatever the operating system shows of the
  tree, cycles and endless directories included, the walk ends and calls its visitor at most as
  often as the limit says.
\<close>

theorem walk_visits_bounded:
  assumes "0 \<le> limit"
  shows "int (wk_visitor (fst (walk_security_source view (\<lambda>name e c n. (c, Suc n, verdict name e)) limit source c 0))) \<le> limit"
  using walk_directory_counted[of limit "\<lparr>wk_ctx = c, wk_entries = 0, wk_visitor = 0\<rparr>" view verdict source 129 "''.''"] assms
  by (simp add: walk_security_source_def Let_def counted_within_def)

lemma walk_visits_bounded_witness:
  "int (wk_visitor (fst (walk_security_source
     (sample_walk_view\<lparr>sv_directory := \<lambda>p. Inr ([\<lparr>de_name = ''again'', de_kind = Kind_directory\<rparr>], False)\<rparr>)
     (\<lambda>name e c n. (c, Suc n, Visit_on :: suppression_failure visit)) 7 ''/repo'' None 0))) \<le> 7"
  by (rule walk_visits_bounded) simp

end
