(* ===== verification/Cohesion_Check.thy ===== *)
theory Cohesion_Check
  imports Inventory Repository_File
begin

text \<open>
  internal/cohesion, the check: \<open>validate.go\<close> (the metadata of one module), \<open>presence.go\<close> (the
  required fields), \<open>check.go\<close> (the report) and \<open>source_lock.go\<close>. A diagnostic keeps the texts of
  the source. Arguments, gathered in \<open>check_env\<close>: \<open>url.Parse\<close>, \<open>os.Lstat\<close>, encoding/json and the
  JSON schemas; the manifests come from \<open>Inventory\<close>.
\<close>

record diagnostic =
  dg_code :: string
  dg_path :: string
  dg_message :: string

text \<open>What \<open>isHTTPS\<close> looks at of a parsed URL: scheme, host, and whether it has user information.\<close>

record parsed_url =
  pu_scheme :: string
  pu_host :: string
  pu_user :: bool

record check_env =
  ce_manifest :: manifest_env
  ce_lstat :: lstat_fun
  ce_root :: string
  ce_url :: "string \<Rightarrow> parsed_url option"
  ce_modules_schema :: "string \<Rightarrow> bool"
  ce_presence :: "string \<Rightarrow> (int \<times> json list) option"
  ce_header_version :: "string \<Rightarrow> int option"

definition diagnostic_of :: "string \<Rightarrow> string \<Rightarrow> string \<Rightarrow> diagnostic" where
  "diagnostic_of code path message = \<lparr>dg_code = code, dg_path = path, dg_message = message\<rparr>"

text \<open>\<open>if b { add(code, path, message) }\<close>.\<close>

definition report_if :: "bool \<Rightarrow> string \<Rightarrow> string \<Rightarrow> string \<Rightarrow> diagnostic list" where
  "report_if b code path message = (if b then [diagnostic_of code path message] else [])"

section \<open>The vocabularies\<close>

definition families :: "string list" where
  "families = [''foundations'', ''service-edge'', ''protocols-and-descriptions'',
     ''persistence-and-durability'', ''resilience'', ''observability'',
     ''integration-and-data-movement'', ''domain-utilities'', ''tooling'']"

definition capabilities :: "string list" where
  "capabilities = [''administration-and-control'', ''configuration'', ''cryptography-and-secrets'',
     ''data-encoding'', ''database-and-storage'', ''distributed-coordination'',
     ''eventing-and-messaging'', ''http-and-service-edge'', ''identity-and-access'',
     ''observability'', ''protocols-and-schemas'', ''resilience-and-admission'',
     ''scheduling-and-orchestration'', ''testing-and-conformance'', ''transport-and-networking'']"

definition construction_styles :: "string list" where
  "construction_styles = [''plain-function'', ''validated-value'', ''new-config'', ''new-options'',
     ''functional-options'', ''builder-compile'', ''builder-build'', ''open'',
     ''connect'', ''load'', ''init'', ''must-helper'']"

definition lifecycle_styles :: "string list" where
  "lifecycle_styles = [''stateless'', ''run'', ''start'', ''drain'', ''shutdown'', ''close'', ''wait'']"

definition lifecycle_statuses :: "string list" where
  "lifecycle_statuses = [''planned'', ''active'', ''deprecated'', ''retired'']"

definition maturities :: "string list" where
  "maturities = [''experimental'', ''preview'', ''stable'']"

definition configuration_owners :: "string list" where
  "configuration_owners = [''caller'', ''none'']"

definition resource_owners :: "string list" where
  "resource_owners = [''caller'', ''package'', ''shared'', ''none'']"

definition mutable_input_styles :: "string list" where
  "mutable_input_styles = [''copy'', ''borrow'', ''transfer'', ''none'']"

definition delivery_statuses :: "string list" where
  "delivery_statuses = [''not-started'', ''in-progress'', ''verified'', ''blocked'', ''not-applicable'']"

section \<open>Texts\<close>

definition is_lower_letter :: "char \<Rightarrow> bool" where
  "is_lower_letter c \<longleftrightarrow> CHR ''a'' \<le> c \<and> c \<le> CHR ''z''"

definition is_letter :: "char \<Rightarrow> bool" where
  "is_letter c \<longleftrightarrow> is_lower_letter c \<or> (CHR ''A'' \<le> c \<and> c \<le> CHR ''Z'')"

definition go_identifier :: "string \<Rightarrow> bool" where
  "go_identifier s \<longleftrightarrow> s \<noteq> [] \<and> list_all (\<lambda>c. is_letter c \<or> c = CHR ''_'' \<or> is_digit c) s \<and> \<not> is_digit (hd s)"

definition go_version_text :: "string \<Rightarrow> bool" where
  "go_version_text s \<longleftrightarrow> length (split_on CHR ''.'' s) = 3 \<and> list_all digits1 (split_on CHR ''.'' s)"

definition kebab :: "string \<Rightarrow> bool" where
  "kebab s \<longleftrightarrow> list_all (\<lambda>w. w \<noteq> [] \<and> list_all (\<lambda>c. is_lower_letter c \<or> is_digit c) w) (split_on CHR ''-'' s)"

definition sha256_hex :: "string \<Rightarrow> bool" where
  "sha256_hex s \<longleftrightarrow> length s = 64 \<and> all_in ''0123456789abcdef'' s"

definition contains_blank :: "string list \<Rightarrow> bool" where
  "contains_blank vs \<longleftrightarrow> list_ex is_blank vs"

definition safe_relative_path :: "string \<Rightarrow> bool" where
  "safe_relative_path v \<longleftrightarrow>
     \<not> is_abs v \<and> \<not> List.member v (CHR 0x5C) \<and>
     (let clean = path_clean v in clean \<noteq> ''.'' \<and> clean \<noteq> ''..'' \<and> \<not> has_prefix clean ''../'' \<and> clean = v)"

definition is_https :: "(string \<Rightarrow> parsed_url option) \<Rightarrow> string \<Rightarrow> bool" where
  "is_https parse v \<longleftrightarrow>
     (case parse v of None \<Rightarrow> False | Some u \<Rightarrow> pu_scheme u = ''https'' \<and> pu_host u \<noteq> [] \<and> \<not> pu_user u)"

fun compare_parts :: "string list \<Rightarrow> string list \<Rightarrow> int" where
  "compare_parts (l # ls) (r # rs) =
     (case (atoi l, atoi r) of
        (Some a, Some b) \<Rightarrow> if a < b then -1 else if b < a then 1 else compare_parts ls rs
      | _ \<Rightarrow> -1)"
| "compare_parts _ _ = 0"

definition compare_go_versions :: "string \<Rightarrow> string \<Rightarrow> int" where
  "compare_go_versions l r =
     (let ls = split_on CHR ''.'' l; rs = split_on CHR ''.'' r
      in if length ls \<noteq> 3 \<or> length rs \<noteq> 3 then -1 else compare_parts ls rs)"

section \<open>Sets kept as lists\<close>

text \<open>The loop of \<open>validateSortedUnique\<close>: \<open>previous\<close> is the entry before, if there is one.\<close>

fun sorted_unique_scan :: "string \<Rightarrow> string option \<Rightarrow> string list \<Rightarrow> diagnostic list" where
  "sorted_unique_scan path previous [] = []"
| "sorted_unique_scan path previous (v # vs) =
     (if is_blank v then [diagnostic_of ''invalid-value'' path ''set entries must be non-empty'']
      else if previous = Some v then [diagnostic_of ''duplicate-entry'' path ''set entries must be unique'']
      else if (case previous of None \<Rightarrow> False | Some p \<Rightarrow> v < p)
      then [diagnostic_of ''nondeterministic-order'' path ''set entries must be sorted'']
      else sorted_unique_scan path (Some v) vs)"

definition validate_sorted_unique :: "string list \<Rightarrow> bool \<Rightarrow> string \<Rightarrow> diagnostic list" where
  "validate_sorted_unique vs required path =
     (if required \<and> vs = [] then [diagnostic_of ''missing-metadata'' path ''set must not be empty'']
      else sorted_unique_scan path None vs)"

definition validate_string_set :: "string list \<Rightarrow> string list \<Rightarrow> bool \<Rightarrow> string \<Rightarrow> diagnostic list" where
  "validate_string_set vs allowed required path =
     validate_sorted_unique vs required path @
     report_if (\<not> list_all (List.member allowed) vs) ''invalid-value'' path ''set contains an unsupported value''"

definition valid_identifier :: "bool \<Rightarrow> string \<Rightarrow> bool" where
  "valid_identifier platform v \<longleftrightarrow>
     (if platform then v = ''portable-go'' \<or> (kebab v \<and> List.member v CHR ''-'') else kebab v)"

definition validate_identifiers :: "string list \<Rightarrow> bool \<Rightarrow> bool \<Rightarrow> string \<Rightarrow> diagnostic list" where
  "validate_identifiers vs required platform path =
     validate_sorted_unique vs required path @
     report_if (\<not> list_all (valid_identifier platform) vs) ''invalid-value'' path ''environment identifier is invalid''"

text \<open>\<open>validateDependencySets\<close>: \<open>seen\<close> maps a dependency to the name of the set that holds it.\<close>

fun dependency_values :: "string \<Rightarrow> string \<Rightarrow> (string \<times> string) list \<Rightarrow> string list \<Rightarrow> diagnostic + (string \<times> string) list" where
  "dependency_values base name seen [] = Inr seen"
| "dependency_values base name seen (v # vs) =
     (case map_of seen v of
        Some previous \<Rightarrow> Inl (diagnostic_of ''duplicate-entry'' (base @ ''/'' @ name)
          (''dependency identity duplicates the '' @ previous @ '' set''))
      | None \<Rightarrow> dependency_values base name ((v, name) # seen) vs)"

fun dependency_sets :: "string \<Rightarrow> (string \<times> string) list \<Rightarrow> (string \<times> string list) list \<Rightarrow> diagnostic list" where
  "dependency_sets base seen [] = []"
| "dependency_sets base seen ((name, vs) # sets) =
     (case dependency_values base name seen vs of
        Inl d \<Rightarrow> [d]
      | Inr seen \<Rightarrow> dependency_sets base seen sets)"

definition validate_dependency_sets :: "string list \<Rightarrow> cohesion \<Rightarrow> string \<Rightarrow> diagnostic list" where
  "validate_dependency_sets required c base = dependency_sets base []
     [(''owned_dependencies'', required), (''optional_owned_dependencies'', co_optional_owned_dependencies c),
      (''adapters'', co_adapters c), (''companions'', co_companions c)]"

section \<open>Documentation and delivery\<close>

definition documentation_entries :: "documentation \<Rightarrow> (string \<times> string option) list" where
  "documentation_entries d =
     [(''readme'', dc_readme d), (''api'', dc_api d), (''adoption'', dc_adoption d), (''security'', dc_security d),
      (''compatibility'', dc_compatibility d), (''performance'', dc_performance d), (''examples'', dc_examples d),
      (''faq'', dc_faq d), (''changelog'', dc_changelog d), (''pkg_go_dev'', dc_pkg_go_dev d),
      (''ecosystem_index'', dc_ecosystem_index d)]"

definition entry_required :: "string \<Rightarrow> string \<Rightarrow> bool" where
  "entry_required status name \<longleftrightarrow>
     ((status = ''active'' \<or> status = ''deprecated'') \<and>
        List.member [''readme'', ''api'', ''changelog'', ''pkg_go_dev'', ''ecosystem_index''] name) \<or>
     (status = ''planned'' \<and> name = ''readme'')"

definition validate_document :: "check_env \<Rightarrow> string \<Rightarrow> string \<Rightarrow> string \<times> string option \<Rightarrow> diagnostic list" where
  "validate_document env status base entry =
     (let path = base @ ''/documentation/'' @ fst entry
      in case snd entry of
           None \<Rightarrow> report_if (entry_required status (fst entry)) ''missing-metadata'' path
             ''lifecycle documentation entry point is required''
         | Some v \<Rightarrow>
             if is_https (ce_url env) v then []
             else if \<not> safe_relative_path v
             then [diagnostic_of ''unsafe-path'' path ''documentation path must remain inside the repository'']
             else report_if (validate_regular_file (ce_lstat env) (ce_root env) v \<noteq> None) ''missing-document'' path
               ''documentation path must be an existing regular non-symlink file'')"

definition validate_documentation :: "check_env \<Rightarrow> cohesion \<Rightarrow> string \<Rightarrow> diagnostic list" where
  "validate_documentation env c base =
     concat (map (validate_document env (co_lifecycle_status c) base) (documentation_entries (co_documentation c)))"

definition attributable :: "module_policy \<Rightarrow> goal_evidence \<Rightarrow> bool" where
  "attributable md e \<longleftrightarrow>
     List.member (md_goal_files md) (ge_file e) \<and> sha256_hex (ge_requirements_sha256 e) \<and>
     ge_implementation_evidence e \<noteq> [] \<and> \<not> contains_blank (ge_implementation_evidence e) \<and>
     ge_verification_gates e \<noteq> [] \<and> \<not> contains_blank (ge_verification_gates e) \<and>
     ge_implementation_status e = ''verified''"

definition has_attributable_goal_evidence :: "module_policy \<Rightarrow> bool" where
  "has_attributable_goal_evidence md \<longleftrightarrow>
     md_goal_status md = ''complete'' \<and> list_ex (attributable md) (md_goal_evidence md)"

definition delivery_state :: "module_policy \<Rightarrow> string \<Rightarrow> string \<times> string \<Rightarrow> diagnostic list" where
  "delivery_state md base state =
     report_if (\<not> List.member delivery_statuses (snd state)) ''invalid-value'' (base @ ''/delivery/'' @ fst state)
       ''delivery status is not recognized'' @
     report_if (snd state = ''verified'' \<and> \<not> has_attributable_goal_evidence md) ''invalid-reference''
       (base @ ''/delivery/'' @ fst state) ''verified delivery status requires complete attributable goal evidence''"

definition validate_delivery :: "module_policy \<Rightarrow> cohesion \<Rightarrow> string \<Rightarrow> diagnostic list" where
  "validate_delivery md c base = concat (map (delivery_state md base)
     [(''implementation'', dl_implementation (co_delivery c)), (''hardening'', dl_hardening (co_delivery c)),
      (''release'', dl_release (co_delivery c))])"

section \<open>One module\<close>

definition package_index :: "module_policy \<Rightarrow> (string \<times> package_policy) list" where
  "package_index md = foldl (\<lambda>m p. map_set (pk_import_path p) p m) [] (md_packages md)"

definition has_root_public_package :: "module_policy \<Rightarrow> bool" where
  "has_root_public_package md \<longleftrightarrow>
     list_ex (\<lambda>p. pk_import_path p = md_module_path md \<and> pk_kind p = ''public'') (md_packages md)"

text \<open>A missing key of a Go map reads as the zero value.\<close>

definition identifier_matches :: "string \<Rightarrow> string \<Rightarrow> string list \<Rightarrow> (string \<times> package_policy) list \<Rightarrow> bool" where
  "identifier_matches identifier module_path entries packages \<longleftrightarrow>
     List.member entries module_path \<and>
     (case map_of packages module_path of None \<Rightarrow> [] | Some p \<Rightarrow> pk_name p) = identifier"

definition selection_covers :: "(string \<times> string) list \<Rightarrow> string list \<Rightarrow> bool" where
  "selection_covers selection entries \<longleftrightarrow>
     list_all (\<lambda>e. \<not> is_blank (case map_of selection e of None \<Rightarrow> [] | Some v \<Rightarrow> v)) entries"

definition validate_packages_metadata :: "module_policy \<Rightarrow> cohesion \<Rightarrow> string \<Rightarrow> diagnostic list" where
  "validate_packages_metadata md c base =
     (let packages = package_index md; identifier = co_public_package_identifier c; entries = co_primary_entry_packages c;
          exists = (\<lambda>p. map_of packages p \<noteq> None)
      in report_if (identifier \<noteq> ''none'' \<and> \<not> go_identifier identifier) ''invalid-value'' (base @ ''/public_package_identifier'')
           ''public package identifier must be a Go identifier or none'' @
         validate_sorted_unique entries True (base @ ''/primary_entry_packages'') @
         concat (map (\<lambda>p. report_if (\<not> exists p) ''invalid-reference'' (base @ ''/primary_entry_packages'')
           ''primary entry package must exist in the module package inventory'') entries) @
         (if identifier = ''none''
          then report_if (has_root_public_package md) ''invalid-reference'' (base @ ''/public_package_identifier'')
                 ''none is reserved for a module without a root public package'' @
               report_if (entries = [] \<or> \<not> selection_covers (co_package_selection c) entries) ''invalid-value''
                 (base @ ''/package_selection'') ''a rootless suite requires selection prose for every primary entry package''
          else report_if (\<not> identifier_matches identifier (md_module_path md) entries packages) ''invalid-reference''
                 (base @ ''/public_package_identifier'') ''public package identifier must match a primary entry package'') @
         report_if (list_ex (\<lambda>(p, prose). \<not> exists p \<or> is_blank prose) (co_package_selection c)) ''invalid-reference''
           (base @ ''/package_selection'') ''package selection must reference an inventoried package with non-empty prose'')"

definition validate_lifecycle :: "cohesion \<Rightarrow> string \<Rightarrow> diagnostic list" where
  "validate_lifecycle c base =
     report_if (\<not> List.member lifecycle_statuses (co_lifecycle_status c)) ''invalid-value'' (base @ ''/lifecycle_status'')
       ''lifecycle status is not recognized'' @
     report_if (\<not> List.member maturities (co_maturity c) \<or> (co_lifecycle_status c = ''planned'' \<and> co_maturity c = ''stable''))
       ''invalid-value'' (base @ ''/maturity'') ''maturity is not valid for the lifecycle status'' @
     validate_string_set (co_construction_styles c) construction_styles True (base @ ''/construction_styles'') @
     validate_string_set (co_lifecycle_styles c) lifecycle_styles True (base @ ''/lifecycle_styles'')"

definition validate_ownership :: "ownership \<Rightarrow> string \<Rightarrow> diagnostic list" where
  "validate_ownership ow base =
     report_if (\<not> List.member configuration_owners (ow_configuration ow)) ''invalid-value'' (base @ ''/ownership/configuration'')
       ''configuration ownership is not recognized'' @
     validate_string_set (ow_mutable_inputs ow) mutable_input_styles True (base @ ''/ownership/mutable_inputs'') @
     report_if (List.member (ow_mutable_inputs ow) ''none'' \<and> length (ow_mutable_inputs ow) \<noteq> 1) ''invalid-value''
       (base @ ''/ownership/mutable_inputs'') ''none must be the only mutable-input style'' @
     report_if (\<not> List.member resource_owners (ow_runtime_resources ow)) ''invalid-value'' (base @ ''/ownership/runtime_resources'')
       ''runtime resource ownership is not recognized'' @
     report_if (\<not> List.member resource_owners (ow_background_work ow)) ''invalid-value'' (base @ ''/ownership/background_work'')
       ''background work ownership is not recognized''"

definition validate_support :: "module_policy \<Rightarrow> cohesion \<Rightarrow> string \<Rightarrow> diagnostic list" where
  "validate_support md c base =
     (let minimum = sg_minimum (co_supported_go c); tested = sg_tested (co_supported_go c)
      in report_if (\<not> go_version_text minimum \<or> minimum \<noteq> md_go_version md) ''invalid-value'' (base @ ''/supported_go/minimum'')
           ''minimum Go version must match the module Go version'' @
         validate_sorted_unique tested True (base @ ''/supported_go/tested'') @
         report_if (list_ex (\<lambda>t. \<not> go_version_text t \<or> compare_go_versions t minimum < 0) tested) ''invalid-value''
           (base @ ''/supported_go/tested'') ''tested Go versions must be exact and not below the minimum'' @
         validate_identifiers (co_supported_platforms c) True True (base @ ''/supported_platforms'') @
         validate_identifiers (co_supported_backends c) False False (base @ ''/supported_backends'') @
         validate_identifiers (co_supported_protocols c) False False (base @ ''/supported_protocols''))"

definition cohesion_base :: "nat \<Rightarrow> string" where
  "cohesion_base index = ''/modules/'' @ dec_nat index @ ''/cohesion''"

definition validate_module :: "check_env \<Rightarrow> nat \<Rightarrow> module_policy \<Rightarrow> cohesion \<Rightarrow> diagnostic list" where
  "validate_module env index md c =
     (let base = cohesion_base index
      in report_if (\<not> List.member families (co_family c) \<or> md_family md \<noteq> co_family c) ''invalid-value'' (base @ ''/family'')
           ''cohesion family must be a frozen family and match the legacy family'' @
         validate_string_set (co_secondary_capabilities c) capabilities False (base @ ''/secondary_capabilities'') @
         report_if (is_blank (co_responsibility c)) ''missing-metadata'' (base @ ''/responsibility'')
           ''responsibility must be non-empty reviewed prose'' @
         report_if (co_non_goals c = [] \<or> contains_blank (co_non_goals c)) ''missing-metadata'' (base @ ''/non_goals'')
           ''non-goals must contain at least one non-empty boundary'' @
         validate_packages_metadata md c base @
         validate_lifecycle c base @
         validate_ownership (co_ownership c) base @
         validate_sorted_unique (co_optional_owned_dependencies c) False (base @ ''/optional_owned_dependencies'') @
         validate_sorted_unique (co_adapters c) False (base @ ''/adapters'') @
         validate_sorted_unique (co_companions c) False (base @ ''/companions'') @
         validate_dependency_sets (md_owned_dependencies md) c base @
         validate_support md c base @
         validate_documentation env c base @
         validate_sorted_unique (co_known_good_compatibility_sets c) False (base @ ''/known_good_compatibility_sets'') @
         validate_delivery md c base)"

section \<open>Required fields\<close>

text \<open>\<open>json.Unmarshal\<close> into a map: an object, or null, which leaves the map nil.\<close>

definition object_of :: "json \<Rightarrow> (string \<times> json) list option" where
  "object_of v = (case v of J_object m \<Rightarrow> Some m | J_null \<Rightarrow> Some [] | _ \<Rightarrow> None)"

definition required_cohesion_fields :: "string list" where
  "required_cohesion_fields =
     [''family'', ''secondary_capabilities'', ''responsibility'', ''non_goals'',
      ''public_package_identifier'', ''primary_entry_packages'', ''package_selection'',
      ''lifecycle_status'', ''maturity'', ''construction_styles'', ''lifecycle_styles'',
      ''ownership'', ''optional_owned_dependencies'', ''adapters'', ''companions'',
      ''supported_go'', ''supported_platforms'', ''supported_backends'',
      ''supported_protocols'', ''documentation'', ''known_good_compatibility_sets'', ''delivery'']"

definition missing_fields :: "(string \<times> json) list \<Rightarrow> string list \<Rightarrow> string \<Rightarrow> diagnostic list" where
  "missing_fields m names base = concat (map (\<lambda>f. report_if (map_of m f = None) ''missing-metadata'' (base @ ''/'' @ f)
     ''required cohesion metadata field is missing'') names)"

definition missing_object_fields :: "(string \<times> json) list \<Rightarrow> string \<Rightarrow> string list \<Rightarrow> string \<Rightarrow> diagnostic list" where
  "missing_object_fields parent name names base =
     (case map_of parent name of
        None \<Rightarrow> []
      | Some raw \<Rightarrow>
          (case object_of raw of
             None \<Rightarrow> []
           | Some m \<Rightarrow> missing_fields m names (base @ ''/'' @ name)))"

definition required_object_fields :: "(string \<times> string list) list" where
  "required_object_fields =
     [(''ownership'', [''configuration'', ''mutable_inputs'', ''runtime_resources'', ''background_work'']),
      (''supported_go'', [''minimum'', ''tested'']),
      (''documentation'', [''readme'', ''api'', ''adoption'', ''security'', ''compatibility'', ''performance'',
         ''examples'', ''faq'', ''changelog'', ''pkg_go_dev'', ''ecosystem_index'']),
      (''delivery'', [''implementation'', ''hardening'', ''release''])]"

definition required_of_module :: "nat \<times> json \<Rightarrow> diagnostic list" where
  "required_of_module im =
     (case object_of (snd im) of
        None \<Rightarrow> []
      | Some md \<Rightarrow>
          (case map_of md ''cohesion'' of
             None \<Rightarrow> []
           | Some raw \<Rightarrow>
               if raw = J_null then []
               else (case object_of raw of
                       None \<Rightarrow> []
                     | Some m \<Rightarrow>
                         missing_fields m required_cohesion_fields (cohesion_base (fst im)) @
                         concat (map (\<lambda>(name, names). missing_object_fields m name names (cohesion_base (fst im)))
                           required_object_fields))))"

definition required_metadata_diagnostics :: "check_env \<Rightarrow> string \<Rightarrow> diagnostic list" where
  "required_metadata_diagnostics env data =
     (case ce_presence env data of
        None \<Rightarrow> []
      | Some (version, ms) \<Rightarrow>
          if version \<noteq> 2 then [] else concat (map required_of_module (enumerate 0 ms)))"

section \<open>The report\<close>

record check_summary =
  cs_total :: "int option"
  cs_releasable :: "int option"
  cs_classified :: "int option"
  cs_errors :: int

record check_report =
  cr_schema_version :: int
  cr_repository :: "string option"
  cr_manifest_schema_version :: "int option"
  cr_valid :: bool
  cr_summary :: check_summary
  cr_diagnostics :: "diagnostic list"

definition diagnostic_key :: "diagnostic \<Rightarrow> string list" where
  "diagnostic_key d = [dg_path d, dg_code d, dg_message d]"

definition sort_diagnostics :: "diagnostic list \<Rightarrow> diagnostic list" where
  "sort_diagnostics = sort_key diagnostic_key"

definition cannot_load :: diagnostic where
  "cannot_load = diagnostic_of ''invalid-manifest'' [] ''cannot load canonical manifests''"

definition invalid_manifest :: check_report where
  "invalid_manifest = \<lparr>cr_schema_version = 1, cr_repository = None, cr_manifest_schema_version = None, cr_valid = False,
     cr_summary = \<lparr>cs_total = None, cs_releasable = None, cs_classified = None, cs_errors = 1\<rparr>,
     cr_diagnostics = [cannot_load]\<rparr>"

definition module_diagnostics :: "check_env \<Rightarrow> inventory \<Rightarrow> nat \<times> module_policy \<Rightarrow> diagnostic list" where
  "module_diagnostics env c im =
     report_if (2 \<le> iv_schema_version c \<and> md_releasable (snd im) \<and> md_cohesion (snd im) = None) ''missing-metadata''
       (cohesion_base (fst im)) ''releasable module requires cohesion metadata'' @
     (case md_cohesion (snd im) of
        None \<Rightarrow> []
      | Some metadata \<Rightarrow> if 2 \<le> iv_schema_version c then validate_module env (fst im) (snd im) metadata else [])"

definition check_diagnostics :: "check_env \<Rightarrow> inventory \<Rightarrow> string \<Rightarrow> bool \<Rightarrow> diagnostic list" where
  "check_diagnostics env c data failed =
     (if failed then [cannot_load] else []) @
     concat (map (module_diagnostics env c) (enumerate 0 (inv_modules c))) @
     report_if (iv_schema_version c = 1) ''adoption-required'' ''/schema_version''
       ''cohesion validation requires modules.json schema_version 2'' @
     required_metadata_diagnostics env data @
     report_if (iv_schema_version c = 2 \<and> \<not> ce_modules_schema env data) ''invalid-manifest'' []
       ''modules manifest violates the normative schema''"

definition check_report_of :: "check_env \<Rightarrow> inventory \<Rightarrow> string \<Rightarrow> bool \<Rightarrow> check_report" where
  "check_report_of env c data failed =
     (let ms = inv_modules c; ds = sort_diagnostics (check_diagnostics env c data failed)
      in \<lparr>cr_schema_version = 1,
          cr_repository = (if iv_repository c = [] then None else Some (iv_repository c)),
          cr_manifest_schema_version = ce_header_version env data, cr_valid = (ds = []),
          cr_summary = \<lparr>cs_total = Some (int (length ms)), cs_releasable = Some (int (length (filter md_releasable ms))),
            cs_classified = Some (int (length (filter (\<lambda>m. md_cohesion m \<noteq> None) ms))), cs_errors = int (length ds)\<rparr>,
          cr_diagnostics = ds\<rparr>)"

definition load_and_check :: "check_env \<Rightarrow> config \<Rightarrow> inventory \<times> check_report" where
  "load_and_check env policy =
     (case load_snapshot (ce_manifest env) policy of
        (c, manifest, failure) \<Rightarrow>
          (let data = (case manifest of None \<Rightarrow> [] | Some b \<Rightarrow> b)
           in if failure \<noteq> None \<and> data = [] then (no_inventory, invalid_manifest)
              else (c, check_report_of env c data (failure \<noteq> None))))"

section \<open>The source lock\<close>

record lock_tooling =
  lt_version :: string
  lt_checksums :: string

record lock_repository =
  lr_repository :: string
  lr_kind :: string
  lr_commit :: string
  lr_tooling :: "lock_tooling option"

record source_lock =
  sl_schema_version :: int
  sl_repository_count :: int
  sl_repositories :: "lock_repository list"

datatype lock_error =
    Lock_unread | Lock_schema | Lock_undecodable | Lock_count | Lock_unsorted | Lock_release_sources nat
  | Policy_differs string | Repository_unlocked string

text \<open>The loop keeps the previous repository; an empty one does not count as previous.\<close>

fun lock_sorted :: "string \<Rightarrow> lock_repository list \<Rightarrow> bool" where
  "lock_sorted previous [] = True"
| "lock_sorted previous (r # rs) =
     (if previous \<noteq> [] \<and> lr_repository r \<le> previous then False else lock_sorted (lr_repository r) rs)"

definition validate_source_lock_order :: "source_lock \<Rightarrow> lock_error option" where
  "validate_source_lock_order lock = first_error
     [refuse (sl_repository_count lock \<noteq> int (length (sl_repositories lock))) Lock_count,
      refuse (\<not> lock_sorted [] (sl_repositories lock)) Lock_unsorted,
      (let n = length (filter (\<lambda>r. lr_kind r = ''release-source'') (sl_repositories lock))
       in refuse (n \<noteq> 1) (Lock_release_sources n))]"

definition load_source_lock ::
  "(string \<Rightarrow> string option) \<Rightarrow> (string \<Rightarrow> bool) \<Rightarrow> (string \<Rightarrow> source_lock option) \<Rightarrow> string \<Rightarrow> lock_error + source_lock" where
  "load_source_lock read schema_ok decode path =
     (case read path of
        None \<Rightarrow> Inl Lock_unread
      | Some data \<Rightarrow>
          if \<not> schema_ok data then Inl Lock_schema
          else (case decode data of
                  None \<Rightarrow> Inl Lock_undecodable
                | Some lock \<Rightarrow> with_check (validate_source_lock_order lock) (Inr lock)))"

definition entry_policy :: "string \<Rightarrow> string \<Rightarrow> string \<Rightarrow> lock_repository \<Rightarrow> lock_error option" where
  "entry_policy repository version checksums r =
     (if lr_kind r = ''release-source'' then None
      else (case lr_tooling r of
              None \<Rightarrow> Some (Policy_differs repository)
            | Some t \<Rightarrow> refuse (lt_version t \<noteq> version \<or> lt_checksums t \<noteq> checksums) (Policy_differs repository)))"

definition verify_policy :: "source_lock \<Rightarrow> string \<Rightarrow> string \<Rightarrow> string \<Rightarrow> lock_error option" where
  "verify_policy lock repository version checksums =
     (case find (\<lambda>r. lr_repository r = repository) (sl_repositories lock) of
        None \<Rightarrow> Some (Repository_unlocked repository)
      | Some r \<Rightarrow> entry_policy repository version checksums r)"

end
