(* ===== verification/Cohesion_Facts.thy ===== *)
theory Cohesion_Facts
  imports Cohesion_Check
begin

text \<open>
  The cohesion check against a specification: \<open>metadata_accepted\<close> says when the metadata of a
  module is right, without any diagnostic; a module gets no diagnostic exactly then, and a
  report is valid exactly when every module of the inventory is right.
\<close>

section \<open>Sets kept as lists\<close>

lemma report_if_Nil [simp]: "report_if b code path message = [] \<longleftrightarrow> \<not> b"
  by (simp add: report_if_def)

definition strict_set :: "bool \<Rightarrow> string list \<Rightarrow> bool" where
  "strict_set required vs \<longleftrightarrow> (required \<longrightarrow> vs \<noteq> []) \<and> (\<forall>v \<in> set vs. \<not> is_blank v) \<and> sorted_wrt (<) vs"

lemma sorted_unique_scan_Nil:
  "sorted_unique_scan path previous vs = [] \<longleftrightarrow>
     (\<forall>v \<in> set vs. \<not> is_blank v) \<and> sorted_wrt (<) (case previous of None \<Rightarrow> vs | Some p \<Rightarrow> p # vs)"
proof (induction vs arbitrary: previous)
  case (Cons v vs)
  have "sorted_wrt (<) (p # v # vs) \<longleftrightarrow> p < v \<and> sorted_wrt (<) (v # vs)" for p
    by (auto intro: less_trans)
  then show ?case by (cases previous) (auto simp: Cons.IH simp del: sorted_wrt.simps(2))
qed (simp split: option.split)

lemma validate_sorted_unique_Nil [simp]: "validate_sorted_unique vs required path = [] \<longleftrightarrow> strict_set required vs"
  by (simp add: validate_sorted_unique_def sorted_unique_scan_Nil strict_set_def)

lemma validate_string_set_Nil [simp]:
  "validate_string_set vs allowed required path = [] \<longleftrightarrow> strict_set required vs \<and> set vs \<subseteq> set allowed"
  by (auto simp: validate_string_set_def list_all_iff)

lemma validate_identifiers_Nil [simp]:
  "validate_identifiers vs required platform path = [] \<longleftrightarrow> strict_set required vs \<and> (\<forall>v \<in> set vs. valid_identifier platform v)"
  by (simp add: validate_identifiers_def list_all_iff)

lemma dependency_values_Inr:
  "(\<exists>seen'. dependency_values base name seen vs = Inr seen') \<longleftrightarrow> distinct vs \<and> set vs \<inter> fst ` set seen = {}"
proof (induction vs arbitrary: seen)
  case (Cons v vs)
  have "v \<in> fst ` set seen" if "map_of seen v = Some n" for n using that by (force dest: map_of_SomeD)
  moreover have "v \<notin> fst ` set seen" if "map_of seen v = None" using that by (simp add: map_of_eq_None_iff)
  ultimately show ?case using Cons by (cases "map_of seen v") auto
qed simp

lemma dependency_values_keys:
  "dependency_values base name seen vs = Inr seen' \<Longrightarrow> fst ` set seen' = fst ` set seen \<union> set vs"
  by (induction vs arbitrary: seen) (auto split: option.splits)

lemma dependency_sets_Nil:
  "dependency_sets base seen sets = [] \<longleftrightarrow>
     distinct (concat (map snd sets)) \<and> set (concat (map snd sets)) \<inter> fst ` set seen = {}"
proof (induction base seen sets rule: dependency_sets.induct)
  case (2 base seen name vs sets)
  show ?case
  proof (cases "dependency_values base name seen vs")
    case (Inl d)
    then have "\<not> (distinct vs \<and> set vs \<inter> fst ` set seen = {})"
      using dependency_values_Inr [of base name seen vs] by simp
    with Inl show ?thesis by auto
  next
    case (Inr s)
    then have "distinct vs" "set vs \<inter> fst ` set seen = {}"
      using dependency_values_Inr [of base name seen vs] by auto
    with 2 [OF Inr] Inr dependency_values_keys [OF Inr] show ?thesis by auto
  qed
qed simp

lemma validate_dependency_sets_Nil [simp]:
  "validate_dependency_sets required c base = [] \<longleftrightarrow>
     distinct (required @ co_optional_owned_dependencies c @ co_adapters c @ co_companions c)"
  unfolding validate_dependency_sets_def dependency_sets_Nil by auto

section \<open>The specification of accepted metadata\<close>

lemma map_of_package_index: "map_of (package_index md) p = None \<longleftrightarrow> p \<notin> pk_import_path ` set (md_packages md)"
proof -
  have "map_of (foldl (\<lambda>m p. map_set (pk_import_path p) p m) m ps) p = None \<longleftrightarrow>
      map_of m p = None \<and> p \<notin> pk_import_path ` set ps" for m and ps :: "package_policy list"
    by (induction ps arbitrary: m) auto
  then show ?thesis by (simp add: package_index_def)
qed

lemma in_package_index: "(\<exists>y. map_of (package_index md) p = Some y) \<longleftrightarrow> p \<in> pk_import_path ` set (md_packages md)"
  using map_of_package_index [of md p] by (cases "map_of (package_index md) p") simp_all

definition inventoried :: "module_policy \<Rightarrow> string set" where
  "inventoried md = pk_import_path ` set (md_packages md)"

definition packages_accepted :: "module_policy \<Rightarrow> cohesion \<Rightarrow> bool" where
  "packages_accepted md c \<longleftrightarrow>
     (let identifier = co_public_package_identifier c; entries = co_primary_entry_packages c; selection = co_package_selection c
      in strict_set True entries \<and> set entries \<subseteq> inventoried md \<and>
         (\<forall>(p, prose) \<in> set selection. p \<in> inventoried md \<and> \<not> is_blank prose) \<and>
         (if identifier = ''none''
          then \<not> has_root_public_package md \<and> entries \<noteq> [] \<and> selection_covers selection entries
          else go_identifier identifier \<and> identifier_matches identifier (md_module_path md) entries (package_index md)))"

definition document_accepted :: "check_env \<Rightarrow> string \<Rightarrow> string \<times> string option \<Rightarrow> bool" where
  "document_accepted env status entry \<longleftrightarrow>
     (case snd entry of
        None \<Rightarrow> \<not> entry_required status (fst entry)
      | Some v \<Rightarrow> is_https (ce_url env) v \<or>
          (safe_relative_path v \<and> validate_regular_file (ce_lstat env) (ce_root env) v = None))"

definition delivery_accepted :: "module_policy \<Rightarrow> string \<Rightarrow> bool" where
  "delivery_accepted md state \<longleftrightarrow>
     state \<in> set delivery_statuses \<and> (state = ''verified'' \<longrightarrow> has_attributable_goal_evidence md)"

definition ownership_accepted :: "ownership \<Rightarrow> bool" where
  "ownership_accepted ow \<longleftrightarrow>
     ow_configuration ow \<in> set configuration_owners \<and>
     strict_set True (ow_mutable_inputs ow) \<and> set (ow_mutable_inputs ow) \<subseteq> set mutable_input_styles \<and>
     (''none'' \<in> set (ow_mutable_inputs ow) \<longrightarrow> length (ow_mutable_inputs ow) = 1) \<and>
     ow_runtime_resources ow \<in> set resource_owners \<and> ow_background_work ow \<in> set resource_owners"

definition support_accepted :: "module_policy \<Rightarrow> cohesion \<Rightarrow> bool" where
  "support_accepted md c \<longleftrightarrow>
     (let minimum = sg_minimum (co_supported_go c); tested = sg_tested (co_supported_go c)
      in go_version_text minimum \<and> minimum = md_go_version md \<and> strict_set True tested \<and>
         (\<forall>t \<in> set tested. go_version_text t \<and> 0 \<le> compare_go_versions t minimum) \<and>
         strict_set True (co_supported_platforms c) \<and> (\<forall>v \<in> set (co_supported_platforms c). valid_identifier True v) \<and>
         strict_set False (co_supported_backends c) \<and> (\<forall>v \<in> set (co_supported_backends c). kebab v) \<and>
         strict_set False (co_supported_protocols c) \<and> (\<forall>v \<in> set (co_supported_protocols c). kebab v))"

definition lifecycle_accepted :: "cohesion \<Rightarrow> bool" where
  "lifecycle_accepted c \<longleftrightarrow>
     co_lifecycle_status c \<in> set lifecycle_statuses \<and> co_maturity c \<in> set maturities \<and>
     \<not> (co_lifecycle_status c = ''planned'' \<and> co_maturity c = ''stable'') \<and>
     strict_set True (co_construction_styles c) \<and> set (co_construction_styles c) \<subseteq> set construction_styles \<and>
     strict_set True (co_lifecycle_styles c) \<and> set (co_lifecycle_styles c) \<subseteq> set lifecycle_styles"

definition metadata_accepted :: "check_env \<Rightarrow> module_policy \<Rightarrow> cohesion \<Rightarrow> bool" where
  "metadata_accepted env md c \<longleftrightarrow>
     co_family c \<in> set families \<and> md_family md = co_family c \<and>
     strict_set False (co_secondary_capabilities c) \<and> set (co_secondary_capabilities c) \<subseteq> set capabilities \<and>
     \<not> is_blank (co_responsibility c) \<and> co_non_goals c \<noteq> [] \<and> (\<forall>g \<in> set (co_non_goals c). \<not> is_blank g) \<and>
     packages_accepted md c \<and> lifecycle_accepted c \<and> ownership_accepted (co_ownership c) \<and>
     strict_set False (co_optional_owned_dependencies c) \<and> strict_set False (co_adapters c) \<and> strict_set False (co_companions c) \<and>
     distinct (md_owned_dependencies md @ co_optional_owned_dependencies c @ co_adapters c @ co_companions c) \<and>
     support_accepted md c \<and>
     (\<forall>e \<in> set (documentation_entries (co_documentation c)). document_accepted env (co_lifecycle_status c) e) \<and>
     strict_set False (co_known_good_compatibility_sets c) \<and>
     delivery_accepted md (dl_implementation (co_delivery c)) \<and> delivery_accepted md (dl_hardening (co_delivery c)) \<and>
     delivery_accepted md (dl_release (co_delivery c))"

lemma packages_metadata_Nil [simp]: "validate_packages_metadata md c base = [] \<longleftrightarrow> packages_accepted md c"
  by (auto simp: validate_packages_metadata_def packages_accepted_def Let_def map_of_package_index in_package_index inventoried_def
      list_ex_iff)

lemma document_Nil [simp]: "validate_document env status base e = [] \<longleftrightarrow> document_accepted env status e"
  by (auto simp: validate_document_def document_accepted_def Let_def split: option.splits)

lemma documentation_Nil [simp]:
  "validate_documentation env c base = [] \<longleftrightarrow>
     (\<forall>e \<in> set (documentation_entries (co_documentation c)). document_accepted env (co_lifecycle_status c) e)"
  by (simp add: validate_documentation_def)

lemma delivery_Nil [simp]:
  "validate_delivery md c base = [] \<longleftrightarrow>
     delivery_accepted md (dl_implementation (co_delivery c)) \<and> delivery_accepted md (dl_hardening (co_delivery c)) \<and>
     delivery_accepted md (dl_release (co_delivery c))"
  by (auto simp: validate_delivery_def delivery_state_def delivery_accepted_def)

lemma ownership_Nil [simp]: "validate_ownership ow base = [] \<longleftrightarrow> ownership_accepted ow"
  by (auto simp: validate_ownership_def ownership_accepted_def)

lemma support_Nil [simp]: "validate_support md c base = [] \<longleftrightarrow> support_accepted md c"
  by (auto simp: validate_support_def support_accepted_def Let_def list_ex_iff valid_identifier_def not_less)

lemma lifecycle_Nil [simp]: "validate_lifecycle c base = [] \<longleftrightarrow> lifecycle_accepted c"
  by (auto simp: validate_lifecycle_def lifecycle_accepted_def)

lemma validate_module_Nil: "validate_module env index md c = [] \<longleftrightarrow> metadata_accepted env md c"
  by (auto simp: validate_module_def metadata_accepted_def Let_def contains_blank_def list_ex_iff)

section \<open>Required fields\<close>

definition cohesion_object :: "json \<Rightarrow> (string \<times> json) list option" where
  "cohesion_object raw = Option.bind (object_of raw) (\<lambda>md. Option.bind (map_of md ''cohesion'')
     (\<lambda>v. if v = J_null then None else object_of v))"

definition object_complete :: "(string \<times> json) list \<Rightarrow> string \<times> string list \<Rightarrow> bool" where
  "object_complete m entry \<longleftrightarrow>
     (case Option.bind (map_of m (fst entry)) object_of of None \<Rightarrow> True | Some v \<Rightarrow> set (snd entry) \<subseteq> dom (map_of v))"

definition fields_complete :: "json \<Rightarrow> bool" where
  "fields_complete raw \<longleftrightarrow>
     (case cohesion_object raw of
        None \<Rightarrow> True
      | Some m \<Rightarrow> set required_cohesion_fields \<subseteq> dom (map_of m) \<and> list_all (object_complete m) required_object_fields)"

lemma missing_fields_Nil [simp]: "missing_fields m names base = [] \<longleftrightarrow> set names \<subseteq> dom (map_of m)"
  by (auto simp: missing_fields_def)

lemma missing_object_fields_Nil [simp]:
  "missing_object_fields m name names base = [] \<longleftrightarrow> object_complete m (name, names)"
  by (simp add: missing_object_fields_def object_complete_def split: option.split)

lemma required_of_module_Nil [simp]: "required_of_module (i, raw) = [] \<longleftrightarrow> fields_complete raw"
proof (cases "cohesion_object raw")
  case None
  then show ?thesis
    by (auto simp: required_of_module_def fields_complete_def cohesion_object_def split: option.splits if_splits)
next
  case (Some m)
  then obtain md v where v: "object_of raw = Some md" "map_of md ''cohesion'' = Some v" "v \<noteq> J_null" "object_of v = Some m"
    by (auto simp: cohesion_object_def bind_eq_Some_conv split: if_splits)
  have "required_of_module (i, raw) =
      missing_fields m required_cohesion_fields (cohesion_base i) @
      concat (map (\<lambda>(name, names). missing_object_fields m name names (cohesion_base i)) required_object_fields)"
    by (simp add: required_of_module_def v)
  moreover have "concat (map (\<lambda>(name, names). missing_object_fields m name names (cohesion_base i)) required_object_fields) = [] \<longleftrightarrow>
      list_all (object_complete m) required_object_fields"
    by (auto simp: list_all_iff)
  ultimately show ?thesis using Some by (simp add: fields_complete_def del: concat_eq_Nil_conv)
qed

lemma concat_enumerate_Nil:
  assumes "\<And>i x. f (i, x) = [] \<longleftrightarrow> P x"
  shows "concat (map f (enumerate k xs)) = [] \<longleftrightarrow> list_all P xs"
  by (induction xs arbitrary: k) (auto simp: assms)

definition required_fields_present :: "check_env \<Rightarrow> string \<Rightarrow> bool" where
  "required_fields_present env data \<longleftrightarrow>
     (case ce_presence env data of
        None \<Rightarrow> True
      | Some (version, ms) \<Rightarrow> version \<noteq> 2 \<or> list_all fields_complete ms)"

lemma required_metadata_Nil [simp]: "required_metadata_diagnostics env data = [] \<longleftrightarrow> required_fields_present env data"
  using concat_enumerate_Nil [of required_of_module fields_complete]
  by (simp add: required_metadata_diagnostics_def required_fields_present_def del: concat_eq_Nil_conv split: option.split)

section \<open>The report\<close>

definition module_accepted :: "check_env \<Rightarrow> inventory \<Rightarrow> module_policy \<Rightarrow> bool" where
  "module_accepted env c md \<longleftrightarrow>
     iv_schema_version c < 2 \<or>
     (case md_cohesion md of None \<Rightarrow> \<not> md_releasable md | Some m \<Rightarrow> metadata_accepted env md m)"

definition inventory_accepted :: "check_env \<Rightarrow> inventory \<Rightarrow> string \<Rightarrow> bool" where
  "inventory_accepted env c data \<longleftrightarrow>
     iv_schema_version c \<noteq> 1 \<and> list_all (module_accepted env c) (inv_modules c) \<and>
     required_fields_present env data \<and> (iv_schema_version c = 2 \<longrightarrow> ce_modules_schema env data)"

lemma module_diagnostics_Nil [simp]: "module_diagnostics env c (i, md) = [] \<longleftrightarrow> module_accepted env c md"
  by (auto simp: module_diagnostics_def module_accepted_def validate_module_Nil split: option.split)

lemma check_diagnostics_Nil:
  "check_diagnostics env c data failed = [] \<longleftrightarrow> \<not> failed \<and> inventory_accepted env c data"
  using concat_enumerate_Nil [of "module_diagnostics env c" "module_accepted env c"]
  by (auto simp add: check_diagnostics_def inventory_accepted_def simp del: concat_eq_Nil_conv)

lemma sort_diagnostics_Nil [simp]: "sort_diagnostics ds = [] \<longleftrightarrow> ds = []"
  by (metis sort_diagnostics_def set_empty set_sort)

lemma sort_diagnostics_sorted: "sorted (map diagnostic_key (sort_diagnostics ds))"
  by (simp add: sort_diagnostics_def)

text \<open>C34: The cohesion report is exact: it is valid exactly when the manifests were admitted, the
  schema is not the old one, every releasable module has metadata, all metadata is right (the
  vocabularies, strictly sorted sets, references into the package inventory, disjoint dependency
  sets, existing documents, evidence behind every verified status) and no required field is
  missing. Its diagnostics are ordered, and their number is the error count.\<close>

theorem cohesion_report_exact:
  "cr_valid (snd (load_and_check env policy)) =
      (case load_snapshot (ce_manifest env) policy of
         (c, manifest, failure) \<Rightarrow> failure = None \<and> inventory_accepted env c (case manifest of None \<Rightarrow> [] | Some b \<Rightarrow> b)) \<and>
   sorted (map diagnostic_key (cr_diagnostics (snd (load_and_check env policy)))) \<and>
   cs_errors (cr_summary (snd (load_and_check env policy))) = int (length (cr_diagnostics (snd (load_and_check env policy))))"
  by (auto simp: load_and_check_def check_report_of_def invalid_manifest_def Let_def check_diagnostics_Nil
      sort_diagnostics_sorted split: prod.splits)

section \<open>The source lock\<close>

lemma lock_sorted_iff:
  "\<forall>r \<in> set rs. lr_repository r \<noteq> [] \<Longrightarrow> lock_sorted previous rs \<longleftrightarrow>
     sorted_wrt (<) (map lr_repository rs) \<and> (previous = [] \<or> (\<forall>r \<in> set rs. previous < lr_repository r))"
  by (induction rs arbitrary: previous) (auto intro: less_trans simp: not_le)

end
