(* ===== verification/Cohesion_Catalog.thy ===== *)
theory Cohesion_Catalog
  imports Cohesion_Check "HOL-Library.Product_Lexorder"
begin

text \<open>
  internal/cohesion, the catalogs: \<open>catalog.go\<close> (the projection of one repository and its Markdown)
  and the first half of \<open>aggregate.go\<close> (the ecosystem catalog from locked projections). An
  engineering module has the fields of an inventory module and a repository, so its record
  extends the inventory's. Arguments, gathered in \<open>aggregate_env\<close>: reading, the JSON schemas,
  encoding/json and SHA-256, the same operations \<open>aggregateOperations\<close> holds.
\<close>

section \<open>Identities and envelopes\<close>

record catalog_identity =
  id_language_version :: string
  id_language_sha256 :: string
  id_source :: string
  id_tooling_version :: string
  id_publication :: string

record design_language_identity =
  dli_version :: string
  dli_sha256 :: string
  dli_source :: string

record tooling_identity =
  ti_version :: string
  ti_publication :: string

record engineering_module = module_policy +
  em_repository :: string

record consumer_module =
  cm_repository :: string
  cm_directory :: string
  cm_module_path :: string
  cm_go_version :: string
  cm_kind :: string
  cm_releasable :: bool
  cm_version :: string
  cm_specifications :: "string list"
  cm_owned_dependencies :: "string list"
  cm_cohesion :: "cohesion option"

text \<open>The field \<open>Modules any\<close> holds a slice of one of two types.\<close>

datatype catalog_modules = Consumer_modules "consumer_module list" | Engineering_modules "engineering_module list"

record envelope =
  ep_schema_version :: int
  ep_view :: string
  ep_scope :: string
  ep_repository :: "string option"
  ep_design_language :: design_language_identity
  ep_tooling :: tooling_identity
  ep_modules :: catalog_modules

datatype catalog_error =
    Bad_view | Bad_language_identity | Bad_publication_identity | Nil_cohesion
  | Inputs_unread | Inputs_schema | Inputs_undecodable | Inputs_version | Language_differs
  | No_repositories | Too_many_repositories | Empty_repository | Repositories_unsorted
  | Unsafe_projection string | Projection_unread string | Projections_too_large | Projection_digest string
  | Projection_schema string | Projection_undecodable string | Projection_identity string | Generator_differs string
  | Projection_empty string | Too_many_catalog_modules | Module_repository string | Module_path_differs string
  | Duplicate_catalog_module string | Marshal_failed | Artifact_too_large string

definition semver_part :: "string \<Rightarrow> bool" where
  "semver_part w \<longleftrightarrow> digits1 w \<and> \<not> (1 < length w \<and> hd w = CHR ''0'')"

definition semver_tag :: "string \<Rightarrow> bool" where
  "semver_tag v \<longleftrightarrow>
     6 \<le> length v \<and> hd v = CHR ''v'' \<and> length (split_on CHR ''.'' (tl v)) = 3 \<and>
     list_all semver_part (split_on CHR ''.'' (tl v))"

definition validate_identity :: "catalog_identity \<Rightarrow> catalog_error option" where
  "validate_identity i =
     (if id_language_version i \<noteq> ''1.0'' \<or> length (id_language_sha256 i) \<noteq> 64 \<or>
         \<not> all_in ''0123456789abcdef'' (id_language_sha256 i) then Some Bad_language_identity
      else if id_publication i = ''unpublished'' \<and> id_source i = ''unpublished'' \<and> id_tooling_version i = ''dev'' then None
      else if id_publication i = ''published'' \<and> semver_tag (id_source i) \<and> semver_tag (id_tooling_version i) then None
      else Some Bad_publication_identity)"

section \<open>Order and visibility\<close>

definition family_order :: "(string \<times> nat) list" where
  "family_order =
     [(''foundations'', 0), (''service-edge'', 1), (''protocols-and-descriptions'', 2),
      (''persistence-and-durability'', 3), (''resilience'', 4), (''observability'', 5),
      (''integration-and-data-movement'', 6), (''domain-utilities'', 7), (''tooling'', 8)]"

definition module_family_order :: "'a module_policy_scheme \<Rightarrow> nat" where
  "module_family_order md =
     (case md_cohesion md of
        None \<Rightarrow> length family_order
      | Some c \<Rightarrow> (case map_of family_order (co_family c) of Some k \<Rightarrow> k | None \<Rightarrow> length family_order))"

text \<open>The comparison of \<open>Project\<close> and \<open>compareEngineeringModules\<close>, as a key. The sort of the source
  is not stable; the order is determined because module paths are unique where it matters.\<close>

definition module_order :: "'a module_policy_scheme \<Rightarrow> nat \<times> string" where
  "module_order md = (module_family_order md, md_module_path md)"

definition consumer_visible :: "'a module_policy_scheme \<Rightarrow> bool" where
  "consumer_visible md \<longleftrightarrow>
     md_releasable md \<and> (md_kind md = ''public library'' \<or> md_kind md = ''adapter'') \<and>
     (case md_cohesion md of
        None \<Rightarrow> False
      | Some c \<Rightarrow> co_lifecycle_status c = ''active'' \<or> co_lifecycle_status c = ''deprecated'')"

definition consumer_projection :: "string \<Rightarrow> 'a module_policy_scheme \<Rightarrow> consumer_module" where
  "consumer_projection repository md =
     \<lparr>cm_repository = repository, cm_directory = md_directory md, cm_module_path = md_module_path md,
      cm_go_version = md_go_version md, cm_kind = md_kind md, cm_releasable = md_releasable md,
      cm_version = md_version md, cm_specifications = md_specifications md,
      cm_owned_dependencies = md_owned_dependencies md, cm_cohesion = md_cohesion md\<rparr>"

definition engineering_projection :: "string \<Rightarrow> module_policy \<Rightarrow> engineering_module" where
  "engineering_projection repository md = module_policy.extend md (engineering_module.fields repository)"

definition identity_language :: "catalog_identity \<Rightarrow> design_language_identity" where
  "identity_language i = \<lparr>dli_version = id_language_version i, dli_sha256 = id_language_sha256 i, dli_source = id_source i\<rparr>"

definition identity_tooling :: "catalog_identity \<Rightarrow> tooling_identity" where
  "identity_tooling i = \<lparr>ti_version = id_tooling_version i, ti_publication = id_publication i\<rparr>"

definition project :: "inventory \<Rightarrow> string \<Rightarrow> catalog_identity \<Rightarrow> catalog_error + envelope" where
  "project c view i =
     (if view \<noteq> ''consumer'' \<and> view \<noteq> ''engineering'' then Inl Bad_view
      else with_check (validate_identity i)
        (let ms = sort_key module_order (inv_modules c)
         in Inr \<lparr>ep_schema_version = 1, ep_view = view, ep_scope = ''repository'', ep_repository = Some (iv_repository c),
                 ep_design_language = identity_language i, ep_tooling = identity_tooling i,
                 ep_modules =
                   (if view = ''consumer'' then Consumer_modules (map (consumer_projection (iv_repository c)) (filter consumer_visible ms))
                    else Engineering_modules (map (engineering_projection (iv_repository c)) ms))\<rparr>))"

section \<open>Markdown\<close>

definition line_end :: string where
  "line_end = [CHR 0x0A]"

definition em_dash :: string where
  "em_dash = [CHR 0xE2, CHR 0x80, CHR 0x94]"

text \<open>\<open>strings.Trim(s, "/")\<close>.\<close>

definition trim_slashes :: "string \<Rightarrow> string" where
  "trim_slashes s = rev (dropWhile (\<lambda>c. c = CHR ''/'') (rev (dropWhile (\<lambda>c. c = CHR ''/'') s)))"

definition documentation_url :: "string \<Rightarrow> string \<Rightarrow> string \<Rightarrow> string \<Rightarrow> string" where
  "documentation_url repository directory version reference =
     (if has_prefix reference ''https://'' then reference
      else (let tag = (if directory \<noteq> ''.'' then trim_slashes directory @ ''/'' @ version else version)
            in ''https://'' @ repository @ ''/blob/'' @ tag @ ''/'' @ trim_prefix reference ''/''))"

definition family_heading :: "string \<Rightarrow> string \<Rightarrow> string" where
  "family_heading last_family family =
     (if family \<noteq> last_family then line_end @ ''## '' @ family @ line_end else [])"

definition consumer_entry :: "consumer_module \<Rightarrow> cohesion \<Rightarrow> string" where
  "consumer_entry m c =
     (let version = ''v'' @ trim_prefix (cm_version m) ''v'';
          link = (\<lambda>label reference. '' (['' @ label @ ''](''  @ documentation_url (cm_repository m) (cm_directory m) version reference @ ''))'')
      in line_end @ ''- ['' @ cm_module_path m @ ''](https://pkg.go.dev/'' @ cm_module_path m @ ''@'' @ version @ '') '' @ em_dash @
         '' **'' @ co_lifecycle_status c @ ''**, `'' @ version @ ''`: '' @ co_responsibility c @
         (case dc_readme (co_documentation c) of None \<Rightarrow> [] | Some r \<Rightarrow> link ''README'' r) @
         (case dc_adoption (co_documentation c) of
            None \<Rightarrow> []
          | Some r \<Rightarrow> if co_lifecycle_status c = ''deprecated'' then link ''migration'' r else []) @ line_end)"

fun consumer_markdown :: "string \<Rightarrow> consumer_module list \<Rightarrow> catalog_error + string" where
  "consumer_markdown last_family [] = Inr []"
| "consumer_markdown last_family (m # ms) =
     (case cm_cohesion m of
        None \<Rightarrow> Inl Nil_cohesion
      | Some c \<Rightarrow> and_then (consumer_markdown (co_family c) ms) (\<lambda>rest.
          Inr (family_heading last_family (co_family c) @ consumer_entry m c @ rest)))"

fun engineering_markdown :: "string \<Rightarrow> engineering_module list \<Rightarrow> string" where
  "engineering_markdown last_family [] = []"
| "engineering_markdown last_family (m # ms) =
     (let family = (case md_cohesion m of None \<Rightarrow> ''unclassified-internal'' | Some c \<Rightarrow> co_family c);
          responsibility = (case md_cohesion m of None \<Rightarrow> md_purpose m | Some c \<Rightarrow> co_responsibility c)
      in family_heading last_family family @
         line_end @ ''- `'' @ md_module_path m @ ''` ('' @ md_kind m @ ''): '' @ responsibility @ line_end @
         engineering_markdown family ms)"

text \<open>A nil metadata pointer of a consumer module would panic: the error \<open>Nil_cohesion\<close>.\<close>

definition render_markdown :: "envelope \<Rightarrow> catalog_error + string" where
  "render_markdown e =
     (let title = (if ep_view e = ''engineering'' then ''Engineering'' else ''Consumer'');
          head = ''# Golib '' @ title @ '' Catalog'' @ line_end @ line_end @ ''Design language `'' @ dli_version (ep_design_language e) @
            ''` (`'' @ dli_source (ep_design_language e) @ ''`); tooling `'' @ ti_version (ep_tooling e) @ ''`.'' @ line_end
      in case ep_modules e of
           Consumer_modules ms \<Rightarrow> and_then (consumer_markdown [] ms) (\<lambda>body. Inr (head @ body))
         | Engineering_modules ms \<Rightarrow> Inr (head @ engineering_markdown [] ms))"

section \<open>Aggregation\<close>

record aggregate_limits =
  al_repositories :: int
  al_projection_bytes :: int
  al_modules :: int
  al_artifact_bytes :: int

definition default_aggregate_limits :: aggregate_limits where
  "default_aggregate_limits =
     \<lparr>al_repositories = 256, al_projection_bytes = 268435456, al_modules = 4096, al_artifact_bytes = 536870912\<rparr>"

record aggregate_input =
  ai_repository :: string
  ai_projection :: string
  ai_sha256 :: string

record aggregate_manifest =
  am_schema_version :: int
  am_language_version :: string
  am_language_sha256 :: string
  am_repositories :: "aggregate_input list"

record projection_envelope =
  pe_schema_version :: int
  pe_view :: string
  pe_scope :: string
  pe_repository :: "string option"
  pe_design_language :: design_language_identity
  pe_tooling :: tooling_identity
  pe_modules :: "engineering_module list"

record artifacts =
  ar_consumer_json :: string
  ar_consumer_markdown :: string
  ar_engineering_json :: string
  ar_engineering_markdown :: string

record aggregate_env =
  ag_limits :: aggregate_limits
  ag_read :: "string \<Rightarrow> string option"
  ag_read_projection :: "string \<Rightarrow> string \<Rightarrow> string option"
  ag_inputs_schema :: "string \<Rightarrow> bool"
  ag_decode_inputs :: "string \<Rightarrow> aggregate_manifest option"
  ag_catalog_schema :: "string \<Rightarrow> bool"
  ag_decode_projection :: "string \<Rightarrow> projection_envelope option"
  ag_sha256 :: "string \<Rightarrow> string"
  ag_marshal :: "envelope \<Rightarrow> string option"

fun inputs_sorted :: "string option \<Rightarrow> aggregate_input list \<Rightarrow> catalog_error option" where
  "inputs_sorted previous [] = None"
| "inputs_sorted previous (i # is) =
     (if ai_repository i = [] then Some Empty_repository
      else if (case previous of None \<Rightarrow> False | Some p \<Rightarrow> ai_repository i \<le> p) then Some Repositories_unsorted
      else inputs_sorted (Some (ai_repository i)) is)"

definition check_inputs :: "aggregate_limits \<Rightarrow> catalog_identity \<Rightarrow> aggregate_manifest \<Rightarrow> catalog_error option" where
  "check_inputs limits i m = first_error
     [refuse (am_schema_version m \<noteq> 1) Inputs_version,
      refuse (am_language_version m \<noteq> id_language_version i \<or> am_language_sha256 m \<noteq> id_language_sha256 i) Language_differs,
      refuse (am_repositories m = []) No_repositories,
      refuse (al_repositories limits < int (length (am_repositories m))) Too_many_repositories,
      inputs_sorted None (am_repositories m)]"

definition validate_aggregate_projection ::
  "aggregate_input \<Rightarrow> projection_envelope \<Rightarrow> catalog_identity \<Rightarrow> catalog_error option" where
  "validate_aggregate_projection input p i = first_error
     [refuse (pe_schema_version p \<noteq> 1 \<or> pe_view p \<noteq> ''engineering'' \<or> pe_scope p \<noteq> ''repository'' \<or>
              pe_repository p \<noteq> Some (ai_repository input)) (Projection_identity (ai_repository input)),
      refuse (pe_design_language p \<noteq> identity_language i \<or> pe_tooling p \<noteq> identity_tooling i)
        (Generator_differs (ai_repository input))]"

text \<open>The module loop; \<open>ms\<close> are the modules so far, and \<open>seenModules\<close> holds their paths.\<close>

fun add_modules :: "string \<Rightarrow> engineering_module list \<Rightarrow> engineering_module list \<Rightarrow> catalog_error + engineering_module list" where
  "add_modules repository ms [] = Inr ms"
| "add_modules repository ms (m # rest) =
     (if em_repository m \<noteq> repository then Inl (Module_repository (md_module_path m))
      else if md_releasable m \<and> md_module_path m \<noteq> repository \<and> \<not> has_prefix (md_module_path m) (repository @ ''/'')
      then Inl (Module_path_differs repository)
      else if List.member (map md_module_path ms) (md_module_path m) then Inl (Duplicate_catalog_module (md_module_path m))
      else add_modules repository (ms @ [m]) rest)"

definition add_projection ::
  "aggregate_env \<Rightarrow> catalog_identity \<Rightarrow> string \<Rightarrow> int \<Rightarrow> engineering_module list \<Rightarrow> aggregate_input
    \<Rightarrow> catalog_error + int \<times> engineering_module list" where
  "add_projection env i directory bytes ms input =
     (let repository = ai_repository input
      in if \<not> safe_relative_path (ai_projection input) then Inl (Unsafe_projection repository)
         else (case ag_read_projection env directory (ai_projection input) of
                 None \<Rightarrow> Inl (Projection_unread repository)
               | Some data \<Rightarrow>
                   if al_projection_bytes (ag_limits env) - bytes < int (length data) then Inl Projections_too_large
                   else if ag_sha256 env data \<noteq> ai_sha256 input then Inl (Projection_digest repository)
                   else if \<not> ag_catalog_schema env data then Inl (Projection_schema repository)
                   else (case ag_decode_projection env data of
                           None \<Rightarrow> Inl (Projection_undecodable repository)
                         | Some p \<Rightarrow>
                             with_check (validate_aggregate_projection input p i)
                               (if pe_modules p = [] then Inl (Projection_empty repository)
                                else if al_modules (ag_limits env) - int (length ms) < int (length (pe_modules p))
                                then Inl Too_many_catalog_modules
                                else and_then (add_modules repository ms (pe_modules p)) (\<lambda>ms.
                                       Inr (bytes + int (length data), ms))))))"

fun add_projections ::
  "aggregate_env \<Rightarrow> catalog_identity \<Rightarrow> string \<Rightarrow> int \<Rightarrow> engineering_module list \<Rightarrow> aggregate_input list
    \<Rightarrow> catalog_error + engineering_module list" where
  "add_projections env i directory bytes ms [] = Inr ms"
| "add_projections env i directory bytes ms (input # inputs) =
     and_then (add_projection env i directory bytes ms input) (\<lambda>(bytes, ms).
       add_projections env i directory bytes ms inputs)"

text \<open>\<open>indices\<close> maps a module path to its last index; a dependency outside is skipped.\<close>

definition module_indices :: "engineering_module list \<Rightarrow> (string \<times> nat) list" where
  "module_indices ms = foldl (\<lambda>idx (k, m). map_set (md_module_path m) k idx) [] (enumerate 0 ms)"

definition reverse_entries :: "engineering_module list \<Rightarrow> nat \<Rightarrow> string list" where
  "reverse_entries ms k =
     concat (map (\<lambda>m. map (\<lambda>_. md_module_path m)
       (filter (\<lambda>d. map_of (module_indices ms) d = Some k) (md_owned_dependencies m))) ms)"

definition derive_reverse_owned_dependencies :: "engineering_module list \<Rightarrow> engineering_module list" where
  "derive_reverse_owned_dependencies ms =
     map (\<lambda>(k, m). m\<lparr>md_reverse_owned_dependencies := sort (reverse_entries ms k)\<rparr>) (enumerate 0 ms)"

definition aggregate_consumer_modules :: "engineering_module list \<Rightarrow> consumer_module list" where
  "aggregate_consumer_modules ms = map (\<lambda>m. consumer_projection (em_repository m) m) (filter consumer_visible ms)"

definition ecosystem_envelope :: "catalog_identity \<Rightarrow> string \<Rightarrow> catalog_modules \<Rightarrow> envelope" where
  "ecosystem_envelope i view ms =
     \<lparr>ep_schema_version = 1, ep_view = view, ep_scope = ''ecosystem'', ep_repository = None,
      ep_design_language = identity_language i, ep_tooling = identity_tooling i, ep_modules = ms\<rparr>"

definition artifact_contents :: "artifacts \<Rightarrow> (string \<times> string) list" where
  "artifact_contents a =
     [(''catalog-consumer.json'', ar_consumer_json a), (''catalog-consumer.md'', ar_consumer_markdown a),
      (''catalog-engineering.json'', ar_engineering_json a), (''catalog-engineering.md'', ar_engineering_markdown a)]"

definition marshal_catalog :: "aggregate_env \<Rightarrow> envelope \<Rightarrow> catalog_error + string" where
  "marshal_catalog env e =
     (case ag_marshal env e of None \<Rightarrow> Inl Marshal_failed | Some data \<Rightarrow> Inr (data @ line_end))"

definition render_artifacts :: "aggregate_env \<Rightarrow> envelope \<Rightarrow> envelope \<Rightarrow> catalog_error + artifacts" where
  "render_artifacts env consumer engineering =
     and_then (marshal_catalog env consumer) (\<lambda>cj.
     and_then (marshal_catalog env engineering) (\<lambda>ej.
     and_then (render_markdown consumer) (\<lambda>cm.
     and_then (render_markdown engineering) (\<lambda>em.
       let a = \<lparr>ar_consumer_json = cj, ar_consumer_markdown = cm, ar_engineering_json = ej, ar_engineering_markdown = em\<rparr>
       in with_check
            (first_error (map (\<lambda>(name, content). refuse (al_artifact_bytes (ag_limits env) < int (length content)) (Artifact_too_large name))
              (artifact_contents a))) (Inr a)))))"

definition aggregate :: "aggregate_env \<Rightarrow> string \<Rightarrow> catalog_identity \<Rightarrow> catalog_error + artifacts" where
  "aggregate env inputs_path i =
     with_check (validate_identity i)
       (case ag_read env inputs_path of
          None \<Rightarrow> Inl Inputs_unread
        | Some data \<Rightarrow>
            if \<not> ag_inputs_schema env data then Inl Inputs_schema
            else (case ag_decode_inputs env data of
                    None \<Rightarrow> Inl Inputs_undecodable
                  | Some m \<Rightarrow>
                      with_check (check_inputs (ag_limits env) i m)
                        (and_then (add_projections env i (path_dir inputs_path) 0 [] (am_repositories m)) (\<lambda>ms.
                           let ms = sort_key module_order (derive_reverse_owned_dependencies ms)
                           in render_artifacts env
                                (ecosystem_envelope i ''consumer'' (Consumer_modules (aggregate_consumer_modules ms)))
                                (ecosystem_envelope i ''engineering'' (Engineering_modules ms))))))"

text \<open>\<open>checkAggregateArtifacts\<close>: the names that cannot be read or differ.\<close>

definition stale_artifacts :: "(string \<Rightarrow> string option) \<Rightarrow> string \<Rightarrow> artifacts \<Rightarrow> string list" where
  "stale_artifacts read directory a =
     map fst (filter (\<lambda>(name, content). read (path_join [directory, name]) \<noteq> Some content) (artifact_contents a))"

section \<open>Bounded input files\<close>

text \<open>\<open>readBoundedAggregateFileWithFiles\<close>; \<open>open_file\<close> and \<open>lstat\<close> as in \<open>Repository_File\<close>. A nil
  file information without an error would be a nil dereference: \<open>Nil_file_info\<close>.\<close>

datatype bounded_error = Bounded_io io_error | Bounded_irregular | Bounded_too_large | Bounded_changed | Bounded_read
  | Nil_file_info

definition read_bounded :: "(string \<Rightarrow> io_error + file_info) \<Rightarrow> (string \<Rightarrow> io_error + opened_file) \<Rightarrow> int \<Rightarrow> string \<Rightarrow> bounded_error + string" where
  "read_bounded lstat open_file maximum path =
     (case lstat path of
        Inl e \<Rightarrow> Inl (Bounded_io e)
      | Inr info \<Rightarrow>
          if fi_kind info \<noteq> Kind_regular then Inl Bounded_irregular
          else if maximum < fi_size info then Inl Bounded_too_large
          else (case open_file path of
                  Inl e \<Rightarrow> Inl (Bounded_io e)
                | Inr f \<Rightarrow>
                    (case of_stat f of
                       Inl e \<Rightarrow> Inl (Bounded_io e)
                     | Inr None \<Rightarrow> Inl Nil_file_info
                     | Inr (Some opened) \<Rightarrow>
                         if fi_kind opened \<noteq> Kind_regular \<or> fi_identity info \<noteq> fi_identity opened then Inl Bounded_changed
                         else if maximum < fi_size opened then Inl Bounded_too_large
                         else if of_failed f \<and> int (length (of_content f)) \<le> maximum then Inl Bounded_read
                         else if maximum < int (length (of_content f)) then Inl Bounded_too_large
                         else Inr (of_content f))))"

text \<open>
  internal/cohesion, the second half of \<open>aggregate.go\<close>: the four catalog artifacts are staged in
  temporary files, the existing ones moved to backups, the staged ones renamed into place, and a
  failure rolls back. The files are those of \<open>Go_Files\<close>; \<open>catalogFiles\<close> is implemented on a
  directory handle, whose operations these are (its test that a path lies directly in the output
  directory holds for the paths built here).
\<close>

record staged_catalog =
  sc_target :: string
  sc_temporary :: string
  sc_backup :: string
  sc_existed :: bool
  sc_published :: bool

datatype publish_step = Step_reserve | Step_close | Step_prepare | Step_back_up | Step_publish

datatype rollback_error = Remove_published | Restore_backup

datatype catalog_publish_error =
    Artifact_irregular string | Artifact_unread | Stage_failed
  | Set_failed publish_step "rollback_error list" | Backup_kept
  | Output_uncreated | Output_unopened | Identity_unread | Output_protected | Protected_unopened

definition stage_prefix :: string where
  "stage_prefix = ''.golib-cohesion-''"

definition backup_prefix :: string where
  "backup_prefix = ''.golib-cohesion-backup-''"

section \<open>Staging\<close>

definition stage_catalog :: "string \<Rightarrow> string \<Rightarrow> bool \<Rightarrow> world \<Rightarrow> world \<times> (io_error + staged_catalog)" where
  "stage_catalog target content existed w =
     (case sys_create_temp (path_dir target) stage_prefix w of
        (w, Inl e) \<Rightarrow> (w, Inl e)
      | (w, Inr temporary) \<Rightarrow>
          (case write_temporary temporary content w of
             (w, Some e) \<Rightarrow> (sys_remove temporary w, Inl e)
           | (w, None) \<Rightarrow>
               (w, Inr \<lparr>sc_target = target, sc_temporary = temporary, sc_backup = [], sc_existed = existed,
                        sc_published = False\<rparr>)))"

fun cleanup_staged :: "staged_catalog list \<Rightarrow> world \<Rightarrow> world" where
  "cleanup_staged [] w = w"
| "cleanup_staged (s # ss) w =
     cleanup_staged ss (if sc_temporary s \<noteq> [] then sys_remove (sc_temporary s) w else w)"

section \<open>Backup, publication, rollback\<close>

definition back_up :: "string \<Rightarrow> world \<Rightarrow> world \<times> (publish_step + string)" where
  "back_up target w =
     (case sys_create_temp (path_dir target) backup_prefix w of
        (w, Inl e) \<Rightarrow> (w, Inl Step_reserve)
      | (w, Inr backup) \<Rightarrow>
          (case sys_flush w of
             (w, Some e) \<Rightarrow> (sys_remove backup w, Inl Step_close)
           | (w, None) \<Rightarrow>
               (case sys_unlink backup w of
                  (w, Some e) \<Rightarrow> (w, Inl Step_prepare)
                | (w, None) \<Rightarrow>
                    (case sys_rename target backup w of
                       (w, Some e) \<Rightarrow> (w, Inl Step_back_up)
                     | (w, None) \<Rightarrow> (w, Inr backup)))))"

fun back_up_all :: "staged_catalog list \<Rightarrow> world \<Rightarrow> world \<times> staged_catalog list \<times> publish_step option" where
  "back_up_all [] w = (w, [], None)"
| "back_up_all (s # ss) w =
     (if \<not> sc_existed s then (let (w, ss, e) = back_up_all ss w in (w, s # ss, e))
      else (case back_up (sc_target s) w of
              (w, Inl e) \<Rightarrow> (w, s # ss, Some e)
            | (w, Inr b) \<Rightarrow> (let (w, ss, e) = back_up_all ss w in (w, s\<lparr>sc_backup := b\<rparr> # ss, e))))"

fun publish_all :: "staged_catalog list \<Rightarrow> world \<Rightarrow> world \<times> staged_catalog list \<times> publish_step option" where
  "publish_all [] w = (w, [], None)"
| "publish_all (s # ss) w =
     (case sys_rename (sc_temporary s) (sc_target s) w of
        (w, Some e) \<Rightarrow> (w, s # ss, Some Step_publish)
      | (w, None) \<Rightarrow>
          (let (w, ss, e) = publish_all ss w in (w, s\<lparr>sc_temporary := [], sc_published := True\<rparr> # ss, e)))"

fun remove_backups :: "staged_catalog list \<Rightarrow> world \<Rightarrow> world \<times> io_error option" where
  "remove_backups [] w = (w, None)"
| "remove_backups (s # ss) w =
     (if sc_backup s = [] then remove_backups ss w
      else (case sys_unlink (sc_backup s) w of
              (w, Some e) \<Rightarrow> (w, Some e)
            | (w, None) \<Rightarrow> remove_backups ss w))"

definition restore_one :: "staged_catalog \<Rightarrow> world \<Rightarrow> world \<times> staged_catalog \<times> rollback_error list" where
  "restore_one s w =
     (let (w, removed) = (if sc_published s then sys_unlink (sc_target s) w else (w, None));
          errors = (if removed = None \<or> removed = Some Err_not_exist then [] else [Remove_published])
      in if sc_backup s = [] then (w, s, errors)
         else (case sys_rename (sc_backup s) (sc_target s) w of
                 (w, Some e) \<Rightarrow> (w, s, errors @ [Restore_backup])
               | (w, None) \<Rightarrow> (w, s\<lparr>sc_backup := []\<rparr>, errors)))"

text \<open>From the last entry to the first.\<close>

fun restore_all :: "staged_catalog list \<Rightarrow> world \<Rightarrow> world \<times> staged_catalog list \<times> rollback_error list" where
  "restore_all [] w = (w, [], [])"
| "restore_all (s # ss) w =
     (let (w, ss, errors) = restore_all ss w; (w, s, more) = restore_one s w in (w, s # ss, errors @ more))"

definition rollback_catalog_set :: "staged_catalog list \<Rightarrow> publish_step \<Rightarrow> world \<Rightarrow> world \<times> catalog_publish_error option" where
  "rollback_catalog_set staged cause w =
     (let (w, staged, errors) = restore_all staged w in (cleanup_staged staged w, Some (Set_failed cause errors)))"

definition publish_catalog_set :: "staged_catalog list \<Rightarrow> world \<Rightarrow> world \<times> catalog_publish_error option" where
  "publish_catalog_set staged w =
     (case back_up_all staged w of
        (w, staged, Some e) \<Rightarrow> rollback_catalog_set staged e w
      | (w, staged, None) \<Rightarrow>
          (case publish_all staged w of
             (w, staged, Some e) \<Rightarrow> rollback_catalog_set staged e w
           | (w, staged, None) \<Rightarrow>
               (case remove_backups staged w of
                  (w, Some e) \<Rightarrow> (w, Some Backup_kept)
                | (w, None) \<Rightarrow> (w, None))))"

section \<open>The artifacts\<close>

fun stage_all ::
  "string \<Rightarrow> staged_catalog list \<Rightarrow> (string \<times> string) list \<Rightarrow> world
    \<Rightarrow> world \<times> (catalog_publish_error + staged_catalog list)" where
  "stage_all directory staged [] w = (w, Inr staged)"
| "stage_all directory staged ((name, content) # rest) w =
     (case sys_lstat (path_join [directory, name]) w of
        (w, Inr (File _)) \<Rightarrow>
          (case stage_catalog (path_join [directory, name]) content True w of
             (w, Inl e) \<Rightarrow> (cleanup_staged staged w, Inl Stage_failed)
           | (w, Inr s) \<Rightarrow> stage_all directory (staged @ [s]) rest w)
      | (w, Inr _) \<Rightarrow> (cleanup_staged staged w, Inl (Artifact_irregular name))
      | (w, Inl Err_not_exist) \<Rightarrow>
          (case stage_catalog (path_join [directory, name]) content False w of
             (w, Inl e) \<Rightarrow> (cleanup_staged staged w, Inl Stage_failed)
           | (w, Inr s) \<Rightarrow> stage_all directory (staged @ [s]) rest w)
      | (w, Inl _) \<Rightarrow> (cleanup_staged staged w, Inl Artifact_unread))"

definition publish_aggregate_artifacts ::
  "string \<Rightarrow> artifacts \<Rightarrow> world \<Rightarrow> world \<times> catalog_publish_error option" where
  "publish_aggregate_artifacts directory a w =
     (case stage_all directory [] (artifact_contents a) w of
        (w, Inl e) \<Rightarrow> (w, Some e)
      | (w, Inr staged) \<Rightarrow> publish_catalog_set staged w)"

text \<open>\<open>generateAggregateProtectedWithOperations\<close> after \<open>Aggregate\<close> has succeeded. \<open>identity\<close> is what the
  handle of an opened directory and its \<open>Stat\<close> deliver: the open may fail, then the \<open>Stat\<close> may.\<close>

definition generate_protected ::
  "(string \<Rightarrow> io_error + nat option) \<Rightarrow> string \<Rightarrow> string \<Rightarrow> artifacts \<Rightarrow> world \<Rightarrow> world \<times> catalog_publish_error option" where
  "generate_protected identity directory protected a w =
     (case sys_mkdir_all 40 directory w of
        (w, Some e) \<Rightarrow> (w, Some Output_uncreated)
      | (w, None) \<Rightarrow>
          (case identity directory of
             Inl e \<Rightarrow> (w, Some Output_unopened)
           | Inr output \<Rightarrow>
               (if protected = [] then publish_aggregate_artifacts directory a w
                else (case identity protected of
                        Inl Err_not_exist \<Rightarrow> publish_aggregate_artifacts directory a w
                      | Inl _ \<Rightarrow> (w, Some Protected_unopened)
                      | Inr other \<Rightarrow>
                          if output = None \<or> other = None then (w, Some Identity_unread)
                          else if output = other then (w, Some Output_protected)
                          else publish_aggregate_artifacts directory a w))))"

definition generate_aggregate ::
  "aggregate_env \<Rightarrow> (string \<Rightarrow> io_error + nat option) \<Rightarrow> string \<Rightarrow> string \<Rightarrow> string \<Rightarrow> catalog_identity \<Rightarrow> world
    \<Rightarrow> world \<times> (catalog_error option \<times> catalog_publish_error option)" where
  "generate_aggregate env identity inputs_path directory protected i w =
     (case aggregate env inputs_path i of
        Inl e \<Rightarrow> (w, Some e, None)
      | Inr a \<Rightarrow> (let (w, e) = generate_protected identity directory protected a w in (w, None, e)))"

end
