(* ===== verification/Catalog_Facts.thy ===== *)
theory Catalog_Facts
  imports Cohesion_Catalog Inventory_Facts
begin

text \<open>
  The catalogs: a projection depends on the set of modules only, and the aggregate is the union of
  the projections its inputs lock, with the reverse dependencies of that union.
\<close>

section \<open>The projection of one repository\<close>

text \<open>The catalog of a repository does not depend on the order of its modules: two inventories of
  one repository with the same modules, whose paths are unique, have the same projection in either
  view.\<close>

theorem projection_order_free:
  assumes "iv_repository c = iv_repository c'" and "mset (inv_modules c) = mset (inv_modules c')"
    and "distinct (map md_module_path (inv_modules c))"
  shows "project c view i = project c' view i"
proof -
  have "distinct (map module_order (inv_modules c))"
    using assms(3) by (rule distinct_map_finer) (simp add: module_order_def)
  then have "sort_key module_order (inv_modules c) = sort_key module_order (inv_modules c')"
    using assms(2) by (intro sort_key_inj_key_eq) (auto simp: distinct_map)
  then show ?thesis by (simp add: project_def assms(1))
qed

definition other_module :: module_policy where
  "other_module = sample_module\<lparr>md_module_path := ''example.org/lib/b'', md_directory := ''b'', md_owned_dependencies := [''example.org/lib'']\<rparr>"

definition sample_identity :: catalog_identity where
  "sample_identity = \<lparr>id_language_version = ''1.0'', id_language_sha256 = replicate 64 CHR ''0'',
     id_source = ''unpublished'', id_tooling_version = ''dev'', id_publication = ''unpublished''\<rparr>"

definition catalog_of :: "module_policy list \<Rightarrow> inventory" where
  "catalog_of ms = no_inventory\<lparr>iv_repository := ''example.org/lib'', iv_schema_version := 2, iv_modules := Some ms\<rparr>"

theorem projection_order_free_witness:
  "project (catalog_of [sample_module, other_module]) ''engineering'' sample_identity =
     project (catalog_of [other_module, sample_module]) ''engineering'' sample_identity"
  by (rule projection_order_free) (simp_all add: catalog_of_def inv_modules_def sample_module_def other_module_def)

section \<open>Reverse dependencies\<close>

lemma module_indices_fold:
  "distinct (map md_module_path ms) \<Longrightarrow>
   map_of (foldl (\<lambda>idx (k, m). map_set (md_module_path m) k idx) acc (enumerate n ms)) p = Some k \<longleftrightarrow>
     (\<exists>j < length ms. k = n + j \<and> md_module_path (ms ! j) = p) \<or>
     (p \<notin> md_module_path ` set ms \<and> map_of acc p = Some k)"
proof (induction ms arbitrary: acc n)
  case (Cons m ms)
  have "(\<exists>j < length (m # ms). k = n + j \<and> md_module_path ((m # ms) ! j) = p) \<longleftrightarrow>
      (k = n \<and> md_module_path m = p) \<or> (\<exists>j < length ms. k = Suc n + j \<and> md_module_path (ms ! j) = p)"
    by (auto simp: less_Suc_eq_0_disj)
  with Cons show ?case by auto
qed simp

lemma module_index:
  assumes "distinct (map md_module_path ms)"
  shows "map_of (module_indices ms) p = Some k \<longleftrightarrow> k < length ms \<and> md_module_path (ms ! k) = p"
  using module_indices_fold [OF assms, of "[]" 0 p k] by (auto simp: module_indices_def)

definition closed_reverse :: "engineering_module list \<Rightarrow> bool" where
  "closed_reverse ms \<longleftrightarrow>
     (\<forall>x \<in> set ms. sorted (md_reverse_owned_dependencies x) \<and>
        set (md_reverse_owned_dependencies x) =
          {md_module_path y | y. y \<in> set ms \<and> md_module_path x \<in> set (md_owned_dependencies y)})"

definition forget_reverse :: "engineering_module \<Rightarrow> engineering_module" where
  "forget_reverse m = m\<lparr>md_reverse_owned_dependencies := []\<rparr>"

lemma derive_nth:
  "k < length ms \<Longrightarrow> derive_reverse_owned_dependencies ms ! k =
     (ms ! k)\<lparr>md_reverse_owned_dependencies := sort (reverse_entries ms k)\<rparr>"
  by (simp add: derive_reverse_owned_dependencies_def nth_enumerate_eq)

lemma derive_length [simp]: "length (derive_reverse_owned_dependencies ms) = length ms"
  by (simp add: derive_reverse_owned_dependencies_def)

lemma derive_forget: "map forget_reverse (derive_reverse_owned_dependencies ms) = map forget_reverse ms"
  by (rule nth_equalityI) (simp_all add: derive_nth forget_reverse_def)

lemma derive_path: "map md_module_path (derive_reverse_owned_dependencies ms) = map md_module_path ms"
  by (rule nth_equalityI) (simp_all add: derive_nth)

lemma derive_owned: "map md_owned_dependencies (derive_reverse_owned_dependencies ms) = map md_owned_dependencies ms"
  by (rule nth_equalityI) (simp_all add: derive_nth)

lemma derive_closed:
  assumes "distinct (map md_module_path ms)"
  shows "closed_reverse (derive_reverse_owned_dependencies ms)"
  unfolding closed_reverse_def
proof
  let ?ds = "derive_reverse_owned_dependencies ms"
  fix x assume "x \<in> set ?ds"
  then obtain k where k: "k < length ms" "x = ?ds ! k" by (auto simp: in_set_conv_nth)
  have nth: "md_module_path (?ds ! j) = md_module_path (ms ! j) \<and> md_owned_dependencies (?ds ! j) = md_owned_dependencies (ms ! j)"
    if "j < length ms" for j using that by (simp add: derive_nth)
  have "set (reverse_entries ms k) = {md_module_path y | y. y \<in> set ms \<and> md_module_path (ms ! k) \<in> set (md_owned_dependencies y)}"
    using k(1) by (auto simp: reverse_entries_def module_index [OF assms])
  also have "\<dots> = {md_module_path y | y. y \<in> set ?ds \<and> md_module_path x \<in> set (md_owned_dependencies y)}"
    using nth k by (auto simp: in_set_conv_nth) metis+
  finally show "sorted (md_reverse_owned_dependencies x) \<and> set (md_reverse_owned_dependencies x) =
      {md_module_path y | y. y \<in> set ?ds \<and> md_module_path x \<in> set (md_owned_dependencies y)}"
    using k by (simp add: derive_nth)
qed

lemma closed_reverse_set: "set ms = set ms' \<Longrightarrow> closed_reverse ms = closed_reverse ms'"
  by (simp add: closed_reverse_def)

section \<open>The union of the projections\<close>

lemma add_modules_ok:
  "add_modules repository ms new = Inr ms' \<longleftrightarrow>
     ms' = ms @ new \<and> distinct (map md_module_path new) \<and>
     set (map md_module_path new) \<inter> set (map md_module_path ms) = {} \<and>
     (\<forall>m \<in> set new. em_repository m = repository \<and>
        (md_releasable m \<longrightarrow> md_module_path m = repository \<or> has_prefix (md_module_path m) (repository @ ''/'')))"
  by (induction repository ms new rule: add_modules.induct) auto

definition admitted_projection ::
  "aggregate_env \<Rightarrow> catalog_identity \<Rightarrow> string \<Rightarrow> aggregate_input \<Rightarrow> string \<times> projection_envelope \<Rightarrow> bool" where
  "admitted_projection env i directory input p \<longleftrightarrow>
     safe_relative_path (ai_projection input) \<and>
     ag_read_projection env directory (ai_projection input) = Some (fst p) \<and>
     ag_sha256 env (fst p) = ai_sha256 input \<and> ag_catalog_schema env (fst p) \<and>
     ag_decode_projection env (fst p) = Some (snd p) \<and>
     validate_aggregate_projection input (snd p) i = None \<and> pe_modules (snd p) \<noteq> [] \<and>
     (\<forall>m \<in> set (pe_modules (snd p)). em_repository m = ai_repository input \<and>
        (md_releasable m \<longrightarrow> md_module_path m = ai_repository input \<or>
           has_prefix (md_module_path m) (ai_repository input @ ''/'')))"

lemma add_projection_ok:
  assumes "add_projection env i directory bytes ms input = Inr (bytes', ms')"
  obtains p where "admitted_projection env i directory input p" and "bytes' = bytes + int (length (fst p))"
    and "bytes' \<le> al_projection_bytes (ag_limits env)" and "ms' = ms @ pe_modules (snd p)"
    and "int (length ms') \<le> al_modules (ag_limits env)"
    and "distinct (map md_module_path ms) \<longrightarrow> distinct (map md_module_path ms')"
proof -
  from assms obtain data p where p: "safe_relative_path (ai_projection input)"
    "ag_read_projection env directory (ai_projection input) = Some data" "ag_sha256 env data = ai_sha256 input"
    "ag_catalog_schema env data" "ag_decode_projection env data = Some p"
    "validate_aggregate_projection input p i = None" "pe_modules p \<noteq> []"
    "int (length data) \<le> al_projection_bytes (ag_limits env) - bytes"
    "int (length (pe_modules p)) \<le> al_modules (ag_limits env) - int (length ms)"
    "add_modules (ai_repository input) ms (pe_modules p) = Inr ms'" "bytes' = bytes + int (length data)"
    by (auto simp: add_projection_def Let_def split: option.splits if_splits)
  then show thesis
    using that [of "(data, p)"] by (auto simp: add_modules_ok admitted_projection_def)
qed

definition union_modules :: "(string \<times> projection_envelope) list \<Rightarrow> engineering_module list" where
  "union_modules ps = concat (map (pe_modules \<circ> snd) ps)"

lemma add_projections_ok:
  assumes "add_projections env i directory bytes ms inputs = Inr ms'"
    and "bytes \<le> al_projection_bytes (ag_limits env)" and "int (length ms) \<le> al_modules (ag_limits env)"
    and "distinct (map md_module_path ms)"
  shows "\<exists>ps. list_all2 (admitted_projection env i directory) inputs ps \<and> ms' = ms @ union_modules ps \<and>
    bytes + int (\<Sum>p \<leftarrow> ps. length (fst p)) \<le> al_projection_bytes (ag_limits env) \<and>
    int (length ms') \<le> al_modules (ag_limits env) \<and> distinct (map md_module_path ms')"
  using assms
proof (induction inputs arbitrary: bytes ms)
  case Nil
  then show ?case by (intro exI [of _ "[]"]) (simp add: union_modules_def)
next
  case (Cons input inputs)
  from Cons.prems(1) obtain b ms1 where s: "add_projection env i directory bytes ms input = Inr (b, ms1)"
    and r: "add_projections env i directory b ms1 inputs = Inr ms'" by auto
  from s obtain p where p: "admitted_projection env i directory input p" "b = bytes + int (length (fst p))"
    "b \<le> al_projection_bytes (ag_limits env)" "ms1 = ms @ pe_modules (snd p)"
    "int (length ms1) \<le> al_modules (ag_limits env)" "distinct (map md_module_path ms) \<longrightarrow> distinct (map md_module_path ms1)"
    by (rule add_projection_ok)
  from Cons.IH [OF r p(3,5)] p(6) Cons.prems(4) obtain ps where ps: "list_all2 (admitted_projection env i directory) inputs ps"
    "ms' = ms1 @ union_modules ps" "b + int (\<Sum>p \<leftarrow> ps. length (fst p)) \<le> al_projection_bytes (ag_limits env)"
    "int (length ms') \<le> al_modules (ag_limits env)" "distinct (map md_module_path ms')" by blast
  then show ?case using p by (intro exI [of _ "p # ps"]) (simp add: union_modules_def)
qed

section \<open>The aggregate\<close>

definition ecosystem_modules ::
  "aggregate_env \<Rightarrow> catalog_identity \<Rightarrow> string \<Rightarrow> aggregate_input list \<Rightarrow> engineering_module list \<Rightarrow> bool" where
  "ecosystem_modules env i directory inputs ms \<longleftrightarrow>
     (\<exists>ps. list_all2 (admitted_projection env i directory) inputs ps \<and>
        mset (map forget_reverse ms) = mset (map forget_reverse (union_modules ps)) \<and>
        int (\<Sum>p \<leftarrow> ps. length (fst p)) \<le> al_projection_bytes (ag_limits env)) \<and>
     int (length ms) \<le> al_modules (ag_limits env) \<and> distinct (map md_module_path ms) \<and>
     sorted (map module_order ms) \<and> closed_reverse ms"

lemma sorted_union:
  assumes "add_projections env i directory 0 [] inputs = Inr ms0"
    and "0 \<le> al_projection_bytes (ag_limits env)" and "0 \<le> al_modules (ag_limits env)"
    and "ms = sort_key module_order (derive_reverse_owned_dependencies ms0)"
  shows "ecosystem_modules env i directory inputs ms"
proof -
  from add_projections_ok [OF assms(1)] assms(2,3) obtain ps where
    ps: "list_all2 (admitted_projection env i directory) inputs ps" "ms0 = union_modules ps"
      "int (\<Sum>p \<leftarrow> ps. length (fst p)) \<le> al_projection_bytes (ag_limits env)"
      "int (length ms0) \<le> al_modules (ag_limits env)" "distinct (map md_module_path ms0)" by auto
  let ?ds = "derive_reverse_owned_dependencies ms0"
  have m: "mset ms = mset ?ds" by (simp add: assms(4))
  have "mset (map forget_reverse ms) = mset (map forget_reverse ms0)"
    by (simp add: m flip: derive_forget [of ms0])
  moreover have "distinct (map md_module_path ms)"
  proof -
    have "mset (map md_module_path ms) = mset (map md_module_path ms0)"
      by (simp add: m flip: derive_path [of ms0])
    with ps(5) show ?thesis by (metis mset_eq_imp_distinct_iff)
  qed
  moreover have "closed_reverse ms"
    using derive_closed [OF ps(5)] closed_reverse_set mset_eq_setD [OF m] by blast
  moreover have "sorted (map module_order ms)" by (simp add: assms(4))
  moreover have "length ms = length ms0" using assms(4) by simp
  ultimately show ?thesis unfolding ecosystem_modules_def using ps by auto
qed

text \<open>C21: An ecosystem catalog is exactly the union of the projections its inputs lock: every
  repository is locked once and in order, every projection was read within the byte limit, has the
  locked digest and the identities of the generator; the engineering view has all their modules,
  at most the module limit, with unique paths, in catalog order, and with precisely the reverse
  dependencies of the union; the consumer view has the visible ones of these modules.\<close>

theorem aggregate_exact:
  assumes "aggregate env path i = Inr a"
    and "0 \<le> al_projection_bytes (ag_limits env)" and "0 \<le> al_modules (ag_limits env)"
  shows "\<exists>data m ms. ag_read env path = Some data \<and> ag_decode_inputs env data = Some m \<and>
    validate_identity i = None \<and> sorted_wrt (<) (map ai_repository (am_repositories m)) \<and>
    ecosystem_modules env i (path_dir path) (am_repositories m) ms \<and>
    render_artifacts env
      (ecosystem_envelope i ''consumer'' (Consumer_modules (map (\<lambda>x. consumer_projection (em_repository x) x) (filter consumer_visible ms))))
      (ecosystem_envelope i ''engineering'' (Engineering_modules ms)) = Inr a"
proof -
  from assms(1) obtain data m ms0 where d: "validate_identity i = None" "ag_read env path = Some data"
    "ag_decode_inputs env data = Some m" "check_inputs (ag_limits env) i m = None"
    "add_projections env i (path_dir path) 0 [] (am_repositories m) = Inr ms0"
    and r: "render_artifacts env
      (ecosystem_envelope i ''consumer'' (Consumer_modules (aggregate_consumer_modules (sort_key module_order (derive_reverse_owned_dependencies ms0)))))
      (ecosystem_envelope i ''engineering'' (Engineering_modules (sort_key module_order (derive_reverse_owned_dependencies ms0)))) = Inr a"
    by (auto simp: aggregate_def Let_def split: option.splits if_splits)
  have "inputs_sorted previous is = None \<Longrightarrow>
      sorted_wrt (<) (map ai_repository is) \<and> (\<forall>p. previous = Some p \<longrightarrow> (\<forall>x \<in> set is. p < ai_repository x))" for previous "is"
    by (induction previous "is" rule: inputs_sorted.induct) (auto split: if_splits option.splits intro: less_trans)
  then have "sorted_wrt (<) (map ai_repository (am_repositories m))"
    using d(4) by (auto simp: check_inputs_def)
  then show ?thesis
    using d(1-3) r sorted_union [OF d(5) assms(2,3) refl] unfolding aggregate_consumer_modules_def by blast
qed

definition sample_input :: "string \<Rightarrow> aggregate_input" where
  "sample_input r = \<lparr>ai_repository = r, ai_projection = r @ ''.json'', ai_sha256 = r\<rparr>"

text \<open>Two repositories, the second of which depends on the first.\<close>

definition sample_projection :: "string \<Rightarrow> projection_envelope" where
  "sample_projection r =
     \<lparr>pe_schema_version = 1, pe_view = ''engineering'', pe_scope = ''repository'', pe_repository = Some r,
      pe_design_language = identity_language sample_identity, pe_tooling = identity_tooling sample_identity,
      pe_modules = [engineering_projection r (sample_module\<lparr>md_module_path := r,
        md_owned_dependencies := (if r = ''b'' then [''a''] else [])\<rparr>)]\<rparr>"

definition sample_aggregate :: aggregate_env where
  "sample_aggregate =
     \<lparr>ag_limits = default_aggregate_limits, ag_read = (\<lambda>_. Some ''inputs''),
      ag_read_projection = (\<lambda>_ p. Some (take 1 p)), ag_inputs_schema = (\<lambda>_. True),
      ag_decode_inputs = (\<lambda>_. Some \<lparr>am_schema_version = 1, am_language_version = ''1.0'',
        am_language_sha256 = replicate 64 CHR ''0'', am_repositories = [sample_input ''a'', sample_input ''b'']\<rparr>),
      ag_catalog_schema = (\<lambda>_. True), ag_decode_projection = (\<lambda>data. Some (sample_projection data)),
      ag_sha256 = (\<lambda>data. data), ag_marshal = (\<lambda>_. Some [])\<rparr>"

theorem aggregate_exact_witness:
  "\<exists>ms. ecosystem_modules sample_aggregate sample_identity ''/x'' [sample_input ''a'', sample_input ''b''] ms"
proof -
  have "\<not> isl (aggregate sample_aggregate ''/x/inputs.json'' sample_identity)"
    by code_simp
  then obtain a where a: "aggregate sample_aggregate ''/x/inputs.json'' sample_identity = Inr a"
    by (metis isl_def sum.exhaust)
  have d: "path_dir ''/x/inputs.json'' = ''/x''" by code_simp
  from aggregate_exact [OF a] obtain m ms where "ag_decode_inputs sample_aggregate ''inputs'' = Some m"
    "ecosystem_modules sample_aggregate sample_identity ''/x'' (am_repositories m) ms"
    by (auto simp: sample_aggregate_def default_aggregate_limits_def d)
  then show ?thesis by (auto simp: sample_aggregate_def)
qed

end
