(* ===== verification/Catalog_Publish_Facts.thy ===== *)
theory Catalog_Publish_Facts
  imports Cohesion_Catalog
begin

text \<open>
  The publication of the four artifacts as steps on one entry each. \<open>publication\<close> is the invariant:
  the original content of every target is at the target or in its backup, and nothing else that
  existed has changed. Each step keeps it, so every loop does.
\<close>

section \<open>Names\<close>

definition made_name :: "string \<Rightarrow> string \<Rightarrow> bool" where
  "made_name prefix p \<longleftrightarrow> (\<exists>d k. p = temporary_name d prefix k)"

lemma digits_tail:
  assumes "u @ dec_nat k = v @ dec_nat l" and "\<not> is_digit (last u)" and "\<not> is_digit (last v)"
    and "u \<noteq> []" and "v \<noteq> []"
  shows "u = v"
proof -
  have "takeWhile is_digit (rev (w @ dec_nat n)) = rev (dec_nat n)" if "w \<noteq> []" "\<not> is_digit (last w)" for w n
  proof -
    from that obtain x c where "w = x @ [c]" "\<not> is_digit c" by (cases w rule: rev_cases) auto
    moreover have "takeWhile is_digit (rev (dec_nat n) @ c # rev x) = rev (dec_nat n) @ takeWhile is_digit (c # rev x)"
      by (rule takeWhile_append2) (use dec_nat_digits in simp)
    ultimately show ?thesis by simp
  qed
  then have "rev (dec_nat k) = rev (dec_nat l)" using assms by metis
  then show ?thesis using assms(1) by simp
qed

lemma stage_not_backup: "made_name stage_prefix p \<Longrightarrow> made_name backup_prefix q \<Longrightarrow> p \<noteq> q"
proof
  assume p: "made_name stage_prefix p" and q: "made_name backup_prefix q" and "p = q"
  then obtain d k e l where "temporary_name d stage_prefix k = temporary_name e backup_prefix l"
    by (auto simp: made_name_def)
  then have "(d @ ''/'' @ stage_prefix) @ dec_nat k = (e @ ''/'' @ backup_prefix) @ dec_nat l"
    by (simp add: temporary_name_def)
  then have "d @ ''/'' @ stage_prefix = e @ ''/'' @ backup_prefix"
    by (rule digits_tail) (simp_all add: stage_prefix_def backup_prefix_def is_digit_def less_eq_char_def)
  then have "take 8 (rev (d @ ''/'' @ stage_prefix)) = take 8 (rev (e @ ''/'' @ backup_prefix))" by simp
  then show False by (simp add: stage_prefix_def backup_prefix_def)
qed

lemma made_last: "made_name prefix p \<Longrightarrow> p \<noteq> [] \<and> is_digit (last p)"
proof -
  assume "made_name prefix p"
  then obtain d k where "p = (d @ ''/'' @ prefix) @ dec_nat k" by (auto simp: made_name_def temporary_name_def)
  then show ?thesis using dec_nat_digits [OF last_in_set [OF dec_nat_nonempty]] by simp
qed

section \<open>The invariant\<close>

definition entry_ok :: "world \<Rightarrow> world \<Rightarrow> staged_catalog \<Rightarrow> bool" where
  "entry_ok w0 w s \<longleftrightarrow>
     sc_target s \<noteq> [] \<and> \<not> is_digit (last (sc_target s)) \<and>
     (sc_temporary s \<noteq> [] \<longrightarrow> made_name stage_prefix (sc_temporary s) \<and> node_at w0 (sc_temporary s) = None) \<and>
     (sc_backup s \<noteq> [] \<longrightarrow> made_name backup_prefix (sc_backup s) \<and> node_at w0 (sc_backup s) = None \<and>
        node_at w (sc_backup s) \<noteq> None) \<and>
     (\<forall>c. node_at w0 (sc_target s) = Some (File c) \<longrightarrow> sc_existed s \<and>
        node_at w (if sc_backup s = [] then sc_target s else sc_backup s) = Some (File c))"

definition apart_entries :: "staged_catalog \<Rightarrow> staged_catalog \<Rightarrow> bool" where
  "apart_entries s t \<longleftrightarrow> sc_target s \<noteq> sc_target t \<and> (sc_backup s \<noteq> [] \<longrightarrow> sc_backup s \<noteq> sc_backup t)"

definition publication :: "world \<Rightarrow> world \<Rightarrow> staged_catalog list \<Rightarrow> bool" where
  "publication w0 w ss \<longleftrightarrow>
     keeps (sc_target ` set ss) w0 w \<and> list_all (entry_ok w0 w) ss \<and> sorted_wrt apart_entries ss"

lemma apart_sym: "apart_entries s t = apart_entries t s"
  by (auto simp: apart_entries_def)

lemma entry_frame:
  assumes "entry_ok w0 w t" and "keeps S w w'" and "sc_target t \<notin> S" and "sc_backup t \<notin> S"
  shows "entry_ok w0 w' t"
proof -
  have "node_at w' (sc_backup t) \<noteq> None" if "node_at w (sc_backup t) \<noteq> None"
    using that keepsD [OF assms(2)] assms(4) by auto
  then show ?thesis using assms keepsD [OF assms(2)] unfolding entry_ok_def by auto
qed

text \<open>One entry makes a step that touches its own names only.\<close>

lemma publication_step:
  assumes "publication w0 w (xs @ s # ys)" and "keeps S w w'"
    and "S \<subseteq> {sc_target s} \<union> {p. made_name stage_prefix p \<and> node_at w0 p = None} \<union> {sc_backup s}"
    and "[] \<notin> S" and "entry_ok w0 w' s'" and "sc_target s' = sc_target s"
    and "sc_backup s' \<noteq> [] \<Longrightarrow> \<forall>t \<in> set xs \<union> set ys. sc_backup s' \<noteq> sc_backup t"
  shows "publication w0 w' (xs @ s' # ys)"
proof -
  let ?T = "sc_target ` set (xs @ s # ys)"
  have eo: "entry_ok w0 w t" if "t \<in> set (xs @ s # ys)" for t
    using assms(1) that by (auto simp: publication_def list_all_iff)
  have ap: "apart_entries s t" if "t \<in> set xs \<union> set ys" for t
    using assms(1) that by (auto simp: publication_def sorted_wrt_append apart_sym)
  have own: "node_at w0 p = None" if "p \<in> S" "p \<noteq> sc_target s" for p
    using that assms(3,4) eo [of s] by (auto simp: entry_ok_def)
  have "keeps ?T w0 w'"
    unfolding keeps_def
  proof (intro allI impI)
    fix p n assume p: "p \<notin> ?T" "node_at w0 p = Some n"
    then have "node_at w p = Some n" using assms(1) by (auto simp: publication_def keeps_def)
    moreover have "p \<notin> S" using own [of p] p by auto
    ultimately show "node_at w' p = Some n" using assms(2) keepsD by blast
  qed
  moreover have "entry_ok w0 w' t" if "t \<in> set xs \<union> set ys" for t
  proof (rule entry_frame [OF _ assms(2)])
    show t: "entry_ok w0 w t" using eo that by auto
    have tm: "\<not> made_name stage_prefix (sc_target t)"
      using t made_last by (auto simp: entry_ok_def)
    have sb: "sc_backup s \<noteq> [] \<Longrightarrow> sc_target t \<noteq> sc_backup s"
      using t eo [of s] made_last by (fastforce simp: entry_ok_def)
    have tt: "sc_target t \<noteq> sc_target s" "sc_target t \<noteq> []" using ap [OF that] t by (auto simp: apart_entries_def entry_ok_def)
    show "sc_target t \<notin> S" using assms(3,4) tm sb tt by auto
    show "sc_backup t \<notin> S"
    proof (cases "sc_backup t = []")
      case False
      then have b: "made_name backup_prefix (sc_backup t)" using t by (simp add: entry_ok_def)
      have "sc_backup t \<noteq> sc_target s" using made_last [OF b] eo [of s] by (auto simp: entry_ok_def)
      moreover have "sc_backup t \<noteq> sc_backup s" using ap [OF that] False by (auto simp: apart_entries_def)
      ultimately show ?thesis using assms(3) stage_not_backup b by blast
    qed (use assms(4) in simp)
  qed
  moreover have "apart_entries s' t" if "t \<in> set xs \<union> set ys" for t
    using ap [OF that] assms(6) assms(7) that by (auto simp: apart_entries_def)
  moreover have "sc_target ` set (xs @ s' # ys) = ?T" using assms(6) by simp
  ultimately show ?thesis
    using assms(1,5) by (auto simp: publication_def list_all_iff sorted_wrt_append apart_sym)
qed

lemma held_not_staged:
  assumes "entry_ok w0 w s" and "made_name stage_prefix x"
  shows "x \<noteq> (if sc_backup s = [] then sc_target s else sc_backup s)"
proof (cases "sc_backup s = []")
  case True
  then show ?thesis using assms(1) made_last [OF assms(2)] by (auto simp: entry_ok_def)
next
  case False
  then show ?thesis using assms(1) stage_not_backup [OF assms(2)] by (simp add: entry_ok_def)
qed

section \<open>Backup\<close>

lemma create_temp_fresh:
  assumes "sys_create_temp d prefix w = (w1, Inr b)"
  shows "keeps {} w w1 \<and> node_at w b = None \<and> made_name prefix b \<and> node_at w1 b = Some (File [])"
  using sys_create_temp_keeps [OF assms] sys_create_temp_ok [OF assms] by (metis made_name_def)

lemma keeps_without: "keeps {b} w w' \<Longrightarrow> node_at w b = None \<Longrightarrow> keeps T w w'"
  using keeps_fresh [of b "{}" w w'] keeps_mono by blast

lemma back_up_spec:
  assumes "back_up t w = (w', r)"
  shows "case r of
     Inl e \<Rightarrow> keeps {} w w'
   | Inr b \<Rightarrow> made_name backup_prefix b \<and> node_at w b = None \<and> keeps {t} w w' \<and> node_at w' b \<noteq> None \<and>
       (\<forall>n. node_at w t = Some n \<longrightarrow> node_at w' b = Some n)"
proof -
  obtain w1 c where 1: "sys_create_temp (path_dir t) backup_prefix w = (w1, c)" by fastforce
  show ?thesis
  proof (cases c)
    case (Inl e)
    then show ?thesis using assms 1 sys_create_temp_keeps [OF 1] by (auto simp: back_up_def)
  next
    case (Inr b)
    note f = create_temp_fresh [OF 1 [unfolded Inr]]
    obtain w2 e2 where 2: "sys_flush w1 = (w2, e2)" by fastforce
    obtain w3 e3 where 3: "sys_unlink b w2 = (w3, e3)" by fastforce
    obtain w4 e4 where 4: "sys_rename t b w3 = (w4, e4)" by fastforce
    have k2: "keeps {b} w w2" using f flush_within [OF 2] keeps_trans keeps_mono by (metis empty_subsetI)
    have k3: "keeps {b} w w3" using keeps_trans [OF k2 sys_unlink_keeps [OF 3]] .
    have k2': "keeps {b} w (sys_remove b w2)" using keeps_trans [OF k2 sys_remove_keeps] .
    have a: "(e2 \<noteq> None \<and> w' = sys_remove b w2 \<and> r = Inl Step_close) \<or> (e2 = None \<and> e3 \<noteq> None \<and> w' = w3 \<and> r = Inl Step_prepare) \<or>
        (e4 \<noteq> None \<and> w' = w4 \<and> r = Inl Step_back_up) \<or> (e4 = None \<and> w' = w4 \<and> r = Inr b)"
      using assms by (cases e2; cases e3; cases e4) (auto simp: back_up_def 1 Inr 2 3 4)
    have k4: "keeps {b} w w4" if "e4 \<noteq> None"
      using that 4 sys_rename_failed keeps_mono [of "{}" w3 w4 "{b}"] keeps_trans [OF k3] by (metis empty_subsetI not_None_eq)
    have "keeps {t, b} w w4"
      using keeps_mono [OF k3, of "{t, b}"] keeps_trans [OF _ sys_rename_keeps [OF 4]] by simp
    then have k5: "keeps {t} w w4" using f keeps_fresh [of b "{t}"] by (simp add: insert_commute)
    have n: "node_at w4 b = Some n" if "e4 = None" "node_at w t = Some n" for n
    proof -
      have "t \<noteq> b" using f that(2) by auto
      then have "node_at w3 t = Some n" using keepsD [OF k3 that(2)] by simp
      then show ?thesis using sys_rename_ok 4 that(1) by blast
    qed
    have p: "node_at w4 b \<noteq> None" if "e4 = None"
      using 4 that by (auto simp: sys_rename_def Let_def split: if_splits prod.splits option.splits)
    show ?thesis
      using a keeps_without [OF k2'] keeps_without [OF k3] keeps_without [OF k4] k5 n p f by auto
  qed
qed

lemma back_up_step:
  assumes "publication w0 w (xs @ s # ys)" and "back_up (sc_target s) w = (w', Inr b)"
    and "sc_backup s = []" and "sc_existed s"
  shows "publication w0 w' (xs @ s\<lparr>sc_backup := b\<rparr> # ys)"
proof (rule publication_step [OF assms(1)])
  have b: "made_name backup_prefix b" "node_at w b = None" "keeps {sc_target s} w w'" "node_at w' b \<noteq> None"
    "\<forall>n. node_at w (sc_target s) = Some n \<longrightarrow> node_at w' b = Some n"
    using back_up_spec [OF assms(2)] by auto
  have eo: "entry_ok w0 w t" if "t \<in> set (xs @ s # ys)" for t
    using assms(1) that by (auto simp: publication_def list_all_iff)
  then have s: "entry_ok w0 w s" by simp
  show "keeps {sc_target s} w w'" by (rule b(3))
  show "[] \<notin> {sc_target s}" using s by (auto simp: entry_ok_def)
  have "b \<notin> sc_target ` set (xs @ s # ys)" using eo made_last [OF b(1)] by (auto simp: entry_ok_def)
  then have "node_at w0 b = None"
    using assms(1) b(2) keepsD by (cases "node_at w0 b") (fastforce simp: publication_def)+
  then show "entry_ok w0 w' (s\<lparr>sc_backup := b\<rparr>)"
    using s b assms(3,4) made_last [OF b(1)] by (auto simp: entry_ok_def)
  show "\<forall>t \<in> set xs \<union> set ys. sc_backup (s\<lparr>sc_backup := b\<rparr>) \<noteq> sc_backup t"
    using eo b(2) made_last [OF b(1)] by (fastforce simp: entry_ok_def)
qed simp_all

lemma publication_keeps:
  assumes "publication w0 w ss" and "keeps {} w w'"
  shows "publication w0 w' ss"
  using assms entry_frame [OF _ assms(2)] keeps_trans [OF _ keeps_mono [OF assms(2)]]
  by (auto simp: publication_def list_all_iff)

text \<open>The loop: entries not reached yet have no backup.\<close>

lemma back_up_all_publication:
  assumes "publication w0 w (xs @ ss)" and "back_up_all ss w = (w', ss', e)" and "\<forall>s \<in> set ss. sc_backup s = []"
  shows "publication w0 w' (xs @ ss') \<and> (e = None \<longrightarrow> (\<forall>s \<in> set ss'. sc_existed s \<longrightarrow> sc_backup s \<noteq> []))"
  using assms
proof (induction ss arbitrary: xs w w' ss' e)
  case (Cons s ss)
  show ?case
  proof (cases "sc_existed s")
    case False
    then obtain tt where t: "back_up_all ss w = (w', tt, e)" "ss' = s # tt"
      using Cons.prems(2) by (auto split: prod.splits)
    then show ?thesis using Cons.IH [where xs = "xs @ [s]" and w = w] Cons.prems False by simp
  next
    case True
    obtain w1 r where 1: "back_up (sc_target s) w = (w1, r)" by fastforce
    show ?thesis
    proof (cases r)
      case (Inl f)
      then have "keeps {} w w1" using back_up_spec [OF 1] by simp
      with Cons.prems True 1 Inl publication_keeps show ?thesis by auto
    next
      case (Inr b)
      then obtain tt where t: "back_up_all ss w1 = (w', tt, e)" "ss' = s\<lparr>sc_backup := b\<rparr> # tt"
        using Cons.prems(2) True 1 by (auto split: prod.splits)
      have "made_name backup_prefix b" using back_up_spec [OF 1] Inr by simp
      then have "b \<noteq> []" using made_last by blast
      moreover have "publication w0 w1 (xs @ s\<lparr>sc_backup := b\<rparr> # ss)"
        using back_up_step Cons.prems(1,3) 1 [unfolded Inr] True by simp
      ultimately show ?thesis using Cons.IH [where xs = "xs @ [s\<lparr>sc_backup := b\<rparr>]" and w = w1] t Cons.prems(3) by simp
    qed
  qed
qed simp

section \<open>Publication\<close>

lemma publish_step:
  assumes "publication w0 w (xs @ s # ys)" and "sys_rename (sc_temporary s) (sc_target s) w = (w', None)"
    and "sc_existed s \<longrightarrow> sc_backup s \<noteq> []" and "sc_temporary s \<noteq> []"
  shows "publication w0 w' (xs @ s\<lparr>sc_temporary := [], sc_published := True\<rparr> # ys)"
proof (rule publication_step [OF assms(1) sys_rename_keeps [OF assms(2)]])
  have s: "entry_ok w0 w s" and ap: "\<forall>t \<in> set xs \<union> set ys. apart_entries s t"
    using assms(1) by (auto simp: publication_def sorted_wrt_append apart_sym)
  show "{sc_temporary s, sc_target s} \<subseteq> {sc_target s} \<union> {p. made_name stage_prefix p \<and> node_at w0 p = None} \<union> {sc_backup s}"
    using s assms(4) by (auto simp: entry_ok_def)
  show "[] \<notin> {sc_temporary s, sc_target s}" using s assms(4) by (auto simp: entry_ok_def)
  have k: "node_at w' (sc_backup s) = node_at w (sc_backup s) \<or> node_at w (sc_backup s) = None" if "sc_backup s \<noteq> []"
  proof -
    have "sc_backup s \<noteq> sc_temporary s" "sc_backup s \<noteq> sc_target s"
      using s that assms(4) stage_not_backup made_last by (fastforce simp: entry_ok_def)+
    then show ?thesis using keepsD [OF sys_rename_keeps [OF assms(2)]] by (cases "node_at w (sc_backup s)") auto
  qed
  then show "entry_ok w0 w' (s\<lparr>sc_temporary := [], sc_published := True\<rparr>)"
    using s assms(3) by (auto simp: entry_ok_def)
  show "\<forall>t \<in> set xs \<union> set ys. sc_backup (s\<lparr>sc_temporary := [], sc_published := True\<rparr>) \<noteq> sc_backup t"
    if "sc_backup (s\<lparr>sc_temporary := [], sc_published := True\<rparr>) \<noteq> []"
    using ap that by (simp add: apart_entries_def)
qed simp_all

lemma publish_all_publication:
  assumes "publication w0 w (xs @ ss)" and "publish_all ss w = (w', ss', e)"
    and "\<forall>s \<in> set ss. (sc_existed s \<longrightarrow> sc_backup s \<noteq> []) \<and> sc_temporary s \<noteq> []"
  shows "publication w0 w' (xs @ ss') \<and> (\<forall>s \<in> set ss'. sc_existed s \<longrightarrow> sc_backup s \<noteq> [])"
  using assms
proof (induction ss arbitrary: xs w w' ss' e)
  case (Cons s ss)
  obtain w1 r where 1: "sys_rename (sc_temporary s) (sc_target s) w = (w1, r)" by fastforce
  show ?case
  proof (cases r)
    case (Some f)
    have "publication w0 w1 (xs @ s # ss)" using publication_keeps Cons.prems(1) sys_rename_failed 1 [unfolded Some] by blast
    then show ?thesis using Cons.prems(2,3) 1 Some by auto
  next
    case None
    let ?s = "s\<lparr>sc_temporary := [], sc_published := True\<rparr>"
    obtain tt where t: "publish_all ss w1 = (w', tt, e)" "ss' = ?s # tt"
      using Cons.prems(2) 1 None by (auto split: prod.splits)
    have "publication w0 w1 (xs @ ?s # ss)" using publish_step Cons.prems(1,3) 1 [unfolded None] by simp
    then show ?thesis using Cons.IH [where xs = "xs @ [?s]" and w = w1] t Cons.prems(3) by simp
  qed
qed simp

section \<open>What the loops leave alone\<close>

lemma back_up_all_keeps:
  assumes "back_up_all ss w = (w', ss', e)"
  shows "keeps (sc_target ` set ss) w w' \<and> map sc_target ss' = map sc_target ss \<and>
    map sc_temporary ss' = map sc_temporary ss \<and> map sc_published ss' = map sc_published ss"
  using assms
proof (induction ss arbitrary: w w' ss' e)
  case (Cons s ss)
  let ?T = "sc_target ` set (s # ss)"
  show ?case
  proof (cases "sc_existed s")
    case False
    then obtain tt where t: "back_up_all ss w = (w', tt, e)" "ss' = s # tt"
      using Cons.prems by (auto split: prod.splits)
    then show ?thesis using Cons.IH [OF t(1)] keeps_mono [of "sc_target ` set ss" w w' ?T] by auto
  next
    case True
    obtain w1 r where 1: "back_up (sc_target s) w = (w1, r)" by fastforce
    show ?thesis
    proof (cases r)
      case (Inl f)
      then have "keeps {} w w1" using back_up_spec [OF 1] by simp
      then show ?thesis using Cons.prems True 1 Inl keeps_mono [of "{}" w w1 ?T] by auto
    next
      case (Inr b)
      then obtain tt where t: "back_up_all ss w1 = (w', tt, e)" "ss' = s\<lparr>sc_backup := b\<rparr> # tt"
        using Cons.prems True 1 by (auto split: prod.splits)
      have "keeps {sc_target s} w w1" using back_up_spec [OF 1] Inr by simp
      then have "keeps ?T w w1" by (rule keeps_mono) simp
      also have "keeps ?T w1 w'" using Cons.IH [OF t(1)] by (auto elim: keeps_mono)
      finally show ?thesis using Cons.IH [OF t(1)] t(2) by simp
    qed
  qed
qed simp

lemma publish_all_keeps:
  "publish_all ss w = (w', ss', e) \<Longrightarrow> keeps (sc_target ` set ss \<union> sc_temporary ` set ss) w w' \<and> map sc_target ss' = map sc_target ss"
proof (induction ss arbitrary: w w' ss' e)
  case (Cons s ss)
  let ?T = "sc_target ` set (s # ss) \<union> sc_temporary ` set (s # ss)"
  obtain w1 r where 1: "sys_rename (sc_temporary s) (sc_target s) w = (w1, r)" by fastforce
  have k: "keeps ?T w w1" by (rule keeps_mono [OF sys_rename_keeps [OF 1]]) auto
  show ?case
  proof (cases r)
    case (Some f)
    then show ?thesis using Cons.prems 1 k by auto
  next
    case None
    obtain tt where t: "publish_all ss w1 = (w', tt, e)" "ss' = s\<lparr>sc_temporary := [], sc_published := True\<rparr> # tt"
      using Cons.prems 1 None by (auto split: prod.splits)
    have "keeps ?T w1 w'" using Cons.IH [OF t(1)] by (auto elim: keeps_mono)
    then show ?thesis using keeps_trans [OF k] Cons.IH [OF t(1)] t(2) by auto
  qed
qed simp

lemma publish_all_content:
  assumes "publish_all ss w = (w', ss', None)"
    and "\<forall>s \<in> set ss. node_at w (sc_temporary s) = Some (File (content (sc_target s)))"
    and "distinct (map sc_target ss)" and "distinct (map sc_temporary ss)"
    and "sc_target ` set ss \<inter> sc_temporary ` set ss = {}"
  shows "\<forall>s \<in> set ss. node_at w' (sc_target s) = Some (File (content (sc_target s)))"
  using assms
proof (induction ss arbitrary: w w' ss')
  case (Cons s ss)
  obtain w1 r where 1: "sys_rename (sc_temporary s) (sc_target s) w = (w1, r)" by fastforce
  with Cons.prems(1) obtain tt where r: "r = None" and t: "publish_all ss w1 = (w', tt, None)"
    by (cases r) (auto split: prod.splits)
  have n: "node_at w1 (sc_target s) = Some (File (content (sc_target s)))"
    using sys_rename_ok [OF 1 [unfolded r]] Cons.prems(2) by simp
  have "node_at w1 (sc_temporary x) = Some (File (content (sc_target x)))" if "x \<in> set ss" for x
  proof -
    have "sc_temporary x \<notin> {sc_temporary s, sc_target s}" using that Cons.prems(4,5) by (auto simp: image_iff)
    then show ?thesis using keepsD [OF sys_rename_keeps [OF 1]] Cons.prems(2) that by simp
  qed
  then have "\<forall>x \<in> set ss. node_at w' (sc_target x) = Some (File (content (sc_target x)))"
    using Cons.IH [OF t] Cons.prems(3-5) by auto
  moreover have "node_at w' (sc_target s) = Some (File (content (sc_target s)))"
  proof -
    have "sc_target s \<notin> sc_target ` set ss \<union> sc_temporary ` set ss" using Cons.prems(3,5) by auto
    then show ?thesis using keepsD [OF _ n] publish_all_keeps [OF t] by blast
  qed
  ultimately show ?case by simp
qed simp

lemma remove_backups_keeps: "remove_backups ss w = (w', e) \<Longrightarrow> keeps ({sc_backup s |s. s \<in> set ss} - {[]}) w w'"
proof (induction ss arbitrary: w)
  case (Cons s ss)
  let ?T = "{sc_backup t |t. t \<in> set (s # ss)} - {[]}"
  show ?case
  proof (cases "sc_backup s = []")
    case True
    then show ?thesis using Cons keeps_mono [of "{sc_backup t |t. t \<in> set ss} - {[]}" w w' ?T] by auto
  next
    case False
    obtain w1 r where 1: "sys_unlink (sc_backup s) w = (w1, r)" by fastforce
    have k: "keeps ?T w w1" by (rule keeps_mono [OF sys_unlink_keeps [OF 1]]) (use False in auto)
    show ?thesis
    proof (cases r)
      case None
      then have "keeps ?T w1 w'" using Cons 1 False keeps_mono [of "{sc_backup t |t. t \<in> set ss} - {[]}" w1 w' ?T] by auto
      then show ?thesis using keeps_trans [OF k] by blast
    qed (use Cons.prems 1 False k in auto)
  qed
qed simp

lemma cleanup_keeps: "keeps (sc_temporary ` set ss - {[]}) w (cleanup_staged ss w)"
proof (induction ss arbitrary: w)
  case (Cons s ss)
  let ?T = "sc_temporary ` set (s # ss) - {[]}"
  let ?w = "if sc_temporary s \<noteq> [] then sys_remove (sc_temporary s) w else w"
  have "keeps ?T w ?w" using keeps_mono [OF sys_remove_keeps, of "sc_temporary s" ?T w] by simp
  also have "keeps ?T ?w (cleanup_staged ss ?w)" by (rule keeps_mono [OF Cons.IH]) auto
  finally show ?case by (simp only: cleanup_staged.simps)
qed simp

section \<open>Rollback\<close>

lemma restore_step:
  assumes "publication w0 w (xs @ s # ys)" and "restore_one s w = (w', s', errors)"
    and "sc_published s \<longrightarrow> sc_existed s \<longrightarrow> sc_backup s \<noteq> []"
  shows "publication w0 w' (xs @ s' # ys) \<and> sc_temporary s' = sc_temporary s \<and> sc_target s' = sc_target s \<and>
    (errors = [] \<longrightarrow> sc_backup s' = [])"
proof -
  have s: "entry_ok w0 w s" and ap: "\<forall>t \<in> set xs \<union> set ys. apart_entries s t"
    using assms(1) by (auto simp: publication_def sorted_wrt_append apart_sym)
  obtain w1 r where 1: "(if sc_published s then sys_unlink (sc_target s) w else (w, None)) = (w1, r)" by fastforce
  have k1: "keeps {sc_target s} w w1" using 1 sys_unlink_keeps [of "sc_target s" w w1 r] by (auto split: if_splits)
  have p1: "publication w0 w1 (xs @ s # ys)"
  proof (cases "sc_published s")
    case False
    with 1 assms(1) show ?thesis by simp
  next
    case True
    show ?thesis
    proof (rule publication_step [OF assms(1) k1])
      show "entry_ok w0 w1 s"
      proof -
        have b: "node_at w1 (sc_backup s) = node_at w (sc_backup s)" if "sc_backup s \<noteq> []"
        proof -
          have m: "made_name backup_prefix (sc_backup s)" and n: "node_at w (sc_backup s) \<noteq> None"
            using s that by (simp_all add: entry_ok_def)
          have "sc_backup s \<notin> {sc_target s}" using made_last [OF m] s by (auto simp: entry_ok_def)
          then show ?thesis using n keepsD [OF k1] by auto
        qed
        have "sc_backup s \<noteq> []" if "node_at w0 (sc_target s) = Some (File c)" for c
          using s True assms(3) that by (simp add: entry_ok_def)
        then show ?thesis using s b by (auto simp: entry_ok_def)
      qed
      show "\<forall>t \<in> set xs \<union> set ys. sc_backup s \<noteq> sc_backup t" if "sc_backup s \<noteq> []"
        using ap that by (simp add: apart_entries_def)
    qed (use s in \<open>auto simp: entry_ok_def\<close>)
  qed
  show ?thesis
  proof (cases "sc_backup s = []")
    case True
    then show ?thesis using assms(2) 1 p1 by (simp add: restore_one_def split: if_splits)
  next
    case False
    obtain w2 q where 2: "sys_rename (sc_backup s) (sc_target s) w1 = (w2, q)" by fastforce
    show ?thesis
    proof (cases q)
      case (Some e)
      have "publication w0 w2 (xs @ s # ys)" using publication_keeps [OF p1] sys_rename_failed 2 [unfolded Some] by blast
      moreover have "w' = w2 \<and> s' = s \<and> errors \<noteq> []" using assms(2) 1 2 False Some by (auto simp: restore_one_def Let_def)
      ultimately show ?thesis by simp
    next
      case None
      have s1: "entry_ok w0 w1 s" using p1 by (simp add: publication_def)
      have r: "w' = w2 \<and> s' = s\<lparr>sc_backup := []\<rparr>" using assms(2) 1 2 False None by (simp add: restore_one_def Let_def)
      have "publication w0 w2 (xs @ s\<lparr>sc_backup := []\<rparr> # ys)"
      proof (rule publication_step [OF p1 sys_rename_keeps [OF 2]])
        show "entry_ok w0 w2 (s\<lparr>sc_backup := []\<rparr>)"
          using s1 False sys_rename_ok [OF 2 [unfolded None]] by (auto simp: entry_ok_def)
      qed (use s1 False in \<open>auto simp: entry_ok_def\<close>)
      with r show ?thesis by simp
    qed
  qed
qed

lemma restore_all_publication:
  assumes "publication w0 w (xs @ ss)" and "restore_all ss w = (w', ss', errors)"
    and "\<forall>s \<in> set ss. sc_published s \<longrightarrow> sc_existed s \<longrightarrow> sc_backup s \<noteq> []"
  shows "publication w0 w' (xs @ ss') \<and> map sc_temporary ss' = map sc_temporary ss \<and> map sc_target ss' = map sc_target ss \<and>
    (errors = [] \<longrightarrow> (\<forall>s \<in> set ss'. sc_backup s = []))"
  using assms
proof (induction ss arbitrary: xs w w' ss' errors)
  case (Cons s ss)
  obtain w1 tt es where 1: "restore_all ss w = (w1, tt, es)" using prod_cases3 by blast
  obtain w2 t fs where 2: "restore_one s w1 = (w2, t, fs)" using prod_cases3 by blast
  have r: "w' = w2" "ss' = t # tt" "errors = es @ fs" using Cons.prems(2) 1 2 by auto
  have i: "publication w0 w1 (xs @ s # tt) \<and> map sc_temporary tt = map sc_temporary ss \<and> map sc_target tt = map sc_target ss \<and>
      (es = [] \<longrightarrow> (\<forall>s \<in> set tt. sc_backup s = []))"
    using Cons.IH [where xs = "xs @ [s]" and w = w] Cons.prems(1,3) 1 by simp
  then show ?case using restore_step [of w0 w1 xs s tt w2 t fs] 2 Cons.prems(3) r by auto
qed simp

definition artifact_kept :: "world \<Rightarrow> world \<Rightarrow> string \<Rightarrow> bool" where
  "artifact_kept w0 w t \<longleftrightarrow>
     (\<forall>c. node_at w0 t = Some (File c) \<longrightarrow>
        (\<exists>p. (p = t \<or> made_name backup_prefix p) \<and> node_at w p = Some (File c)))"

definition artifact_restored :: "world \<Rightarrow> world \<Rightarrow> string \<Rightarrow> bool" where
  "artifact_restored w0 w t \<longleftrightarrow> (\<forall>c. node_at w0 t = Some (File c) \<longrightarrow> node_at w t = Some (File c))"

lemma rollback_ok:
  assumes "publication w0 w ss" and "rollback_catalog_set ss cause w = (w', r)"
    and "\<forall>s \<in> set ss. sc_published s \<longrightarrow> sc_existed s \<longrightarrow> sc_backup s \<noteq> []"
  shows "\<exists>errors. r = Some (Set_failed cause errors) \<and> keeps (sc_target ` set ss) w0 w' \<and>
    (\<forall>s \<in> set ss. artifact_kept w0 w' (sc_target s) \<and> (errors = [] \<longrightarrow> artifact_restored w0 w' (sc_target s)))"
proof -
  obtain w1 tt es where 1: "restore_all ss w = (w1, tt, es)" using prod_cases3 by blast
  have r: "w' = cleanup_staged tt w1" "r = Some (Set_failed cause es)" using assms(2) 1 by (auto simp: rollback_catalog_set_def)
  have p: "publication w0 w1 tt" "map sc_target tt = map sc_target ss" "es = [] \<Longrightarrow> \<forall>s \<in> set tt. sc_backup s = []"
    using restore_all_publication [of w0 w "[]" ss w1 tt es] assms(1,3) 1 by simp_all
  have T: "sc_target ` set tt = sc_target ` set ss" using p(2) by (metis list.set_map)
  have eo: "entry_ok w0 w1 s" if "s \<in> set tt" for s using p(1) that by (simp add: publication_def list_all_iff)
  have fresh: "node_at w0 x = None" "made_name stage_prefix x" if "x \<in> sc_temporary ` set tt - {[]}" for x
    using that eo by (auto simp: entry_ok_def)
  have k: "keeps (sc_temporary ` set tt - {[]}) w1 w'" unfolding r(1) by (rule cleanup_keeps)
  have "keeps (sc_target ` set ss) w0 w'"
    unfolding keeps_def
  proof (intro allI impI)
    fix x n assume x: "x \<notin> sc_target ` set ss" "node_at w0 x = Some n"
    then have "node_at w1 x = Some n" using p(1) T by (auto simp: publication_def keeps_def)
    then show "node_at w' x = Some n" using keepsD [OF k] fresh(1) x(2) by force
  qed
  moreover have "\<forall>x \<in> sc_target ` set tt. artifact_kept w0 w' x \<and> (es = [] \<longrightarrow> artifact_restored w0 w' x)"
  proof -
  have "artifact_kept w0 w' (sc_target s) \<and> (es = [] \<longrightarrow> artifact_restored w0 w' (sc_target s))" if "s \<in> set tt" for s
  proof -
    have h: "node_at w' (if sc_backup s = [] then sc_target s else sc_backup s) = Some (File c)"
      if "node_at w0 (sc_target s) = Some (File c)" for c
    proof -
      have "node_at w1 (if sc_backup s = [] then sc_target s else sc_backup s) = Some (File c)"
        using eo [OF \<open>s \<in> set tt\<close>] that by (simp add: entry_ok_def)
      moreover have "(if sc_backup s = [] then sc_target s else sc_backup s) \<notin> sc_temporary ` set tt - {[]}"
        using held_not_staged [OF eo [OF \<open>s \<in> set tt\<close>]] fresh(2) by metis
      ultimately show ?thesis using keepsD [OF k] by blast
    qed
    have q: "sc_backup s \<noteq> [] \<longrightarrow> made_name backup_prefix (sc_backup s)" using eo [OF that] by (simp add: entry_ok_def)
    have "artifact_kept w0 w' (sc_target s)"
      unfolding artifact_kept_def
    proof (intro allI impI)
      fix c assume "node_at w0 (sc_target s) = Some (File c)"
      from h [OF this] q show "\<exists>p. (p = sc_target s \<or> made_name backup_prefix p) \<and> node_at w' p = Some (File c)"
        by (cases "sc_backup s = []") auto
    qed
    moreover have "artifact_restored w0 w' (sc_target s)" if "es = []"
      using h p(3) that \<open>s \<in> set tt\<close> by (simp add: artifact_restored_def)
    ultimately show ?thesis by blast
  qed
  then show ?thesis by blast
  qed
  ultimately show ?thesis using r(2) unfolding T by simp
qed

section \<open>Staging\<close>

definition staging :: "(string \<Rightarrow> string) \<Rightarrow> world \<Rightarrow> world \<Rightarrow> staged_catalog list \<Rightarrow> bool" where
  "staging content w0 w ss \<longleftrightarrow> keeps {} w0 w \<and> distinct (map sc_temporary ss) \<and>
     (\<forall>s \<in> set ss. made_name stage_prefix (sc_temporary s) \<and> node_at w0 (sc_temporary s) = None \<and>
        node_at w (sc_temporary s) = Some (File (content (sc_target s))) \<and> \<not> sc_published s \<and> sc_backup s = [] \<and>
        (node_at w0 (sc_target s) \<noteq> None \<longrightarrow> sc_existed s))"

lemma stage_catalog_spec:
  assumes "stage_catalog target content existed w = (w', r)"
  shows "keeps {} w w' \<and>
    (\<forall>s. r = Inr s \<longrightarrow> sc_target s = target \<and> sc_existed s = existed \<and> sc_backup s = [] \<and> \<not> sc_published s \<and>
       made_name stage_prefix (sc_temporary s) \<and> node_at w (sc_temporary s) = None \<and>
       node_at w' (sc_temporary s) = Some (File content))"
proof -
  obtain w1 c where 1: "sys_create_temp (path_dir target) stage_prefix w = (w1, c)" by fastforce
  show ?thesis
  proof (cases c)
    case (Inl e)
    then show ?thesis using assms 1 sys_create_temp_keeps [OF 1] by (auto simp: stage_catalog_def)
  next
    case (Inr t)
    note f = create_temp_fresh [OF 1 [unfolded Inr]]
    obtain w2 e where 2: "write_temporary t content w1 = (w2, e)" by fastforce
    have k: "keeps {t} w w2"
      using keeps_trans [OF keeps_mono [of "{}" w w1 "{t}"]] f write_temporary_spec [OF 2] by blast
    have k': "keeps {t} w (sys_remove t w2)" using keeps_trans [OF k sys_remove_keeps] .
    show ?thesis
      using assms f write_temporary_spec [OF 2] keeps_without [OF k] keeps_without [OF k']
      by (cases e) (auto simp: stage_catalog_def 1 Inr 2)
  qed
qed

lemma cleanup_staging:
  assumes "staging content w0 w ss"
  shows "keeps {} w0 (cleanup_staged ss w)"
  unfolding keeps_def
proof (intro allI impI)
  fix p n assume n: "node_at w0 p = Some n"
  then have "node_at w p = Some n" using assms by (auto simp: staging_def keeps_def)
  moreover have "p \<notin> sc_temporary ` set ss - {[]}" using assms n by (auto simp: staging_def)
  ultimately show "node_at (cleanup_staged ss w) p = Some n" using keepsD [OF cleanup_keeps] by blast
qed

lemma staging_keeps: "staging content w0 w ss \<Longrightarrow> keeps {} w w' \<Longrightarrow> staging content w0 w' ss"
  using keepsD [of "{}" w w'] keeps_trans [of "{}" w0 w w'] by (auto simp: staging_def)

lemma staging_snoc:
  assumes "staging content w0 w ss" and "stage_catalog t (content t) existed w = (w', Inr s)"
    and "node_at w0 t \<noteq> None \<longrightarrow> existed"
  shows "staging content w0 w' (ss @ [s])"
proof -
  have k: "keeps {} w w'" and s: "sc_target s = t" "sc_existed s = existed" "sc_backup s = []" "\<not> sc_published s"
    "made_name stage_prefix (sc_temporary s)" "node_at w (sc_temporary s) = None"
    "node_at w' (sc_temporary s) = Some (File (content t))"
    using stage_catalog_spec [OF assms(2)] by auto
  have "node_at w0 (sc_temporary s) = None"
    using s(6) assms(1) keepsD [of "{}" w0 w] by (cases "node_at w0 (sc_temporary s)") (auto simp: staging_def)
  moreover have "sc_temporary s \<notin> sc_temporary ` set ss" using assms(1) s(6) by (auto simp: staging_def)
  ultimately show ?thesis using staging_keeps [OF assms(1) k] s assms(3) by (auto simp: staging_def)
qed

lemma lstat_absent: "sys_lstat p w = (w', Inl Err_not_exist) \<Longrightarrow> node_at w' p = None"
  by (auto simp: sys_lstat_def Let_def split: if_splits prod.splits option.splits)

lemma stage_all_spec:
  assumes "stage_all directory staged rest w = (w', r)" and "staging content w0 w staged"
    and "\<forall>(name, c) \<in> set rest. content (path_join [directory, name]) = c"
  shows "case r of
     Inl e \<Rightarrow> keeps {} w0 w' \<and> (e = Artifact_unread \<or> e = Stage_failed \<or> (\<exists>name. e = Artifact_irregular name))
   | Inr ss \<Rightarrow> staging content w0 w' ss \<and>
       map sc_target ss = map sc_target staged @ map (\<lambda>(name, c). path_join [directory, name]) rest"
  using assms
proof (induction rest arbitrary: staged w)
  case (Cons nc rest)
  obtain name c where nc: "nc = (name, c)" by (cases nc)
  let ?t = "path_join [directory, name]"
  have c: "content ?t = c" using Cons.prems(3) nc by simp
  obtain w1 l where 1: "sys_lstat ?t w = (w1, l)" by fastforce
  note g = staging_keeps [OF Cons.prems(2) sys_lstat_keeps [OF 1]]
  have step: ?case if "existed = (case l of Inr _ \<Rightarrow> True | Inl _ \<Rightarrow> False)"
    "l = Inl Err_not_exist \<or> (\<exists>x. l = Inr (File x))" for existed
  proof -
    obtain w2 q where 2: "stage_catalog ?t c existed w1 = (w2, q)" by fastforce
    have g2: "staging content w0 w2 staged" using staging_keeps [OF g] stage_catalog_spec [OF 2] by blast
    show ?thesis
    proof (cases q)
      case (Inl e)
      then have "w' = cleanup_staged staged w2 \<and> r = Inl Stage_failed"
        using Cons.prems(1) nc 1 2 that by auto
      then show ?thesis using cleanup_staging [OF g2] by simp
    next
      case (Inr s)
      have "existed" if "node_at w0 ?t \<noteq> None"
      proof -
        have "node_at w1 ?t \<noteq> None" using that g keepsD [of "{}" w0 w1] by (auto simp: staging_def)
        then have "l \<noteq> Inl Err_not_exist" using lstat_absent [of ?t w w1] 1 by (cases "l = Inl Err_not_exist") simp_all
        with \<open>l = Inl Err_not_exist \<or> (\<exists>x. l = Inr (File x))\<close> \<open>existed = _\<close> show ?thesis by auto
      qed
      then have g3: "staging content w0 w2 (staged @ [s])" using staging_snoc [OF g] 2 [unfolded Inr] c by blast
      have "stage_all directory (staged @ [s]) rest w2 = (w', r)" using Cons.prems(1) nc 1 2 Inr that by auto
      moreover have "sc_target s = ?t" using stage_catalog_spec [OF 2] Inr by simp
      ultimately show ?thesis
        using Cons.IH [of "staged @ [s]" w2] g3 Cons.prems(3) nc by (simp split: sum.splits)
    qed
  qed
  consider "l = Inl Err_not_exist" | e where "l = Inl e" "e \<noteq> Err_not_exist" | x where "l = Inr (File x)" | x where "l = Inr x" "\<forall>y. x \<noteq> File y"
    by (cases l) auto
  then show ?case
  proof cases
    case 2
    then have "w' = cleanup_staged staged w1 \<and> r = Inl Artifact_unread"
      using Cons.prems(1) nc 1 by (cases e) auto
    then show ?thesis using cleanup_staging [OF g] by simp
  next
    case 4
    then have "w' = cleanup_staged staged w1 \<and> r = Inl (Artifact_irregular name)"
      using Cons.prems(1) nc 1 by (cases x) auto
    then show ?thesis using cleanup_staging [OF g] by simp
  qed (use step [of False] step [of True] in auto)
qed auto

section \<open>The publication of the four artifacts\<close>

definition artifact_targets :: "string \<Rightarrow> artifacts \<Rightarrow> (string \<times> string) list" where
  "artifact_targets directory a = map (\<lambda>(name, c). (path_join [directory, name], c)) (artifact_contents a)"

lemma join_below: "p \<noteq> [] \<Longrightarrow> path_join [directory, p] = path_clean ((if directory = [] then [] else directory @ ''/'') @ p)"
  by (simp add: path_join_def)

lemma path_clean_last:
  assumes "plain_elem x" and "CHR ''/'' \<notin> set x" and "d = [] \<or> last d = CHR ''/''"
  shows "path_clean (d @ x) \<noteq> [] \<and> last (path_clean (d @ x)) = last x"
proof -
  have x: "x \<noteq> []" using assms(1) by (simp add: plain_elem_def)
  obtain es where "clean_elems (is_abs (d @ x)) (split_on CHR ''/'' (d @ x)) = es @ [x]"
  proof (cases "d = []")
    case True
    then show thesis using that [of "[]"] clean_elems_snoc [OF assms(1), of _ "[]"] assms(2)
      by (simp add: split_on_plain clean_elems_def)
  next
    case False
    then obtain c where "d = c @ [CHR ''/'']" using assms(3) by (cases d rule: rev_cases) auto
    then show thesis using that clean_elems_snoc [OF assms(1)] assms(2) by (simp add: split_on_append split_on_plain)
  qed
  then show ?thesis using x by (simp add: path_clean_def Let_def join_snoc)
qed

lemma targets_plain:
  assumes "name \<in> fst ` set (artifact_contents a)"
  shows "path_join [directory, name] \<noteq> [] \<and> \<not> is_digit (last (path_join [directory, name]))"
proof -
  have n: "plain_elem name \<and> CHR ''/'' \<notin> set name \<and> \<not> is_digit (last name)"
    using assms by (auto simp: artifact_contents_def plain_elem_def is_digit_def less_eq_char_def)
  then have "name \<noteq> []" by (auto simp: plain_elem_def)
  then show ?thesis using path_clean_last [of name "if directory = [] then [] else directory @ ''/''"] n
    by (simp add: join_below)
qed

lemma targets_distinct_names: "distinct (map fst (artifact_targets directory a))"
proof -
  have d: "path_join [directory, x] \<noteq> path_join [directory, y]"
    if "x \<in> fst ` set (artifact_contents a)" "y \<in> fst ` set (artifact_contents a)" "x \<noteq> y" for x y
  proof -
    have "plain_elem x \<and> CHR ''/'' \<notin> set x \<and> plain_elem y \<and> CHR ''/'' \<notin> set y \<and> x \<noteq> [] \<and> y \<noteq> []"
      using that by (auto simp: artifact_contents_def plain_elem_def)
    then show ?thesis using path_clean_distinct [OF _ _ _ _ that(3)] by (simp add: join_below)
  qed
  have "map fst (artifact_targets directory a) = map (\<lambda>n. path_join [directory, n]) (map fst (artifact_contents a))"
    by (simp add: artifact_targets_def case_prod_beta)
  moreover have "distinct (map fst (artifact_contents a))" by (simp add: artifact_contents_def)
  moreover have "inj_on (\<lambda>n. path_join [directory, n]) (set (map fst (artifact_contents a)))"
    using d by (fastforce simp: inj_on_def)
  ultimately show ?thesis by (simp only: distinct_map)
qed

definition published_world :: "(string \<times> string) list \<Rightarrow> catalog_publish_error option \<Rightarrow> world \<Rightarrow> world \<Rightarrow> bool" where
  "published_world targets r w w' \<longleftrightarrow> keeps (fst ` set targets) w w' \<and>
     (case r of
        Some (Set_failed cause errors) \<Rightarrow>
          (\<forall>(t, c) \<in> set targets. artifact_kept w w' t \<and> (errors = [] \<longrightarrow> artifact_restored w w' t))
      | Some Artifact_unread \<Rightarrow> keeps {} w w'
      | Some Stage_failed \<Rightarrow> keeps {} w w'
      | Some (Artifact_irregular _) \<Rightarrow> keeps {} w w'
      | Some Backup_kept \<Rightarrow> (\<forall>(t, c) \<in> set targets. node_at w' t = Some (File c))
      | None \<Rightarrow> (\<forall>(t, c) \<in> set targets. node_at w' t = Some (File c))
      | Some _ \<Rightarrow> False)"

lemma distinct_pairwise: "distinct (map f xs) \<Longrightarrow> sorted_wrt (\<lambda>x y. f x \<noteq> f y) xs"
  by (induction xs) auto

lemma set_published:
  assumes "staging content w0 w ss" and "map sc_target ss = map fst targets"
    and "\<forall>(t, c) \<in> set targets. content t = c \<and> t \<noteq> [] \<and> \<not> is_digit (last t)" and "distinct (map fst targets)"
    and "publish_catalog_set ss w = (w', r)"
  shows "published_world targets r w0 w'"
proof -
  have T: "sc_target ` set ss = fst ` set targets" using assms(2) by (metis list.set_map)
  have st: "made_name stage_prefix (sc_temporary s)" "node_at w0 (sc_temporary s) = None" "sc_temporary s \<noteq> []"
    "node_at w (sc_temporary s) = Some (File (content (sc_target s)))" "\<not> sc_published s" "sc_backup s = []"
    "node_at w0 (sc_target s) \<noteq> None \<longrightarrow> sc_existed s" if "s \<in> set ss" for s
    using assms(1) that made_last by (auto simp: staging_def)
  have tg: "sc_target s \<noteq> []" "\<not> is_digit (last (sc_target s))" if "s \<in> set ss" for s
  proof -
    have "sc_target s \<in> fst ` set targets" using T that by blast
    then obtain c where "(sc_target s, c) \<in> set targets" by auto
    then show "sc_target s \<noteq> []" "\<not> is_digit (last (sc_target s))" using assms(3) by auto
  qed
  have "entry_ok w0 w s" if "s \<in> set ss" for s
    using st [OF that] tg [OF that] keepsD [of "{}" w0 w] assms(1) by (auto simp: entry_ok_def staging_def)
  moreover have "sorted_wrt apart_entries ss"
  proof -
    have "distinct (map sc_target ss)" using assms(2,4) by simp
    then have "sorted_wrt (\<lambda>s t. sc_target s \<noteq> sc_target t) ss" by (rule distinct_pairwise)
    then show ?thesis by (rule sorted_wrt_mono_rel [rotated]) (use st(6) in \<open>auto simp: apart_entries_def\<close>)
  qed
  ultimately have pub: "publication w0 w ss"
    using assms(1) keeps_mono [of "{}"] by (auto simp: publication_def staging_def list_all_iff)
  obtain w1 s1 e1 where 1: "back_up_all ss w = (w1, s1, e1)" using prod_cases3 by blast
  have pub1: "publication w0 w1 s1" and b1: "e1 = None \<Longrightarrow> \<forall>s \<in> set s1. sc_existed s \<longrightarrow> sc_backup s \<noteq> []"
    using back_up_all_publication [of w0 w "[]" ss w1 s1 e1] pub 1 st(6) by simp_all
  note k1 = back_up_all_keeps [OF 1]
  have T1: "sc_target ` set s1 = fst ` set targets" using k1 T by (metis list.set_map)
  have up: "\<forall>s \<in> set s1. \<not> sc_published s"
  proof -
    have "set (map sc_published s1) = set (map sc_published ss)" using k1 by simp
    then show ?thesis using st(5) by fastforce
  qed
  have tm1: "sc_temporary ` set s1 = sc_temporary ` set ss" using k1 by (metis list.set_map)
  have tn: "x \<noteq> []" "made_name stage_prefix x" if "x \<in> sc_temporary ` set s1" for x
    using that st(1,3) tm1 by auto
  have failed: ?thesis if "rollback_catalog_set s c v = (w', r)" "publication w0 v s" "sc_target ` set s = fst ` set targets"
    "\<forall>x \<in> set s. sc_published x \<longrightarrow> sc_existed x \<longrightarrow> sc_backup x \<noteq> []" for s c v
  proof -
    from rollback_ok [OF that(2,1,4)] obtain errors where e: "r = Some (Set_failed c errors)"
      "keeps (sc_target ` set s) w0 w'"
      "\<forall>x \<in> sc_target ` set s. artifact_kept w0 w' x \<and> (errors = [] \<longrightarrow> artifact_restored w0 w' x)" by blast
    then show ?thesis unfolding that(3) by (auto simp: published_world_def)
  qed
  show ?thesis
  proof (cases e1)
    case (Some c)
    show ?thesis by (rule failed [of s1 c w1]) (use assms(5) 1 Some pub1 T1 up in \<open>simp_all add: publish_catalog_set_def\<close>)
  next
    case None
    obtain w2 s2 e2 where 2: "publish_all s1 w1 = (w2, s2, e2)" using prod_cases3 by blast
    have pub2: "publication w0 w2 s2" and b2: "\<forall>s \<in> set s2. sc_existed s \<longrightarrow> sc_backup s \<noteq> []"
      using publish_all_publication [of w0 w1 "[]" s1 w2 s2 e2] pub1 2 b1 [OF None] tn by auto
    have T2: "sc_target ` set s2 = fst ` set targets" using publish_all_keeps [OF 2] T1 by (metis list.set_map)
    show ?thesis
    proof (cases e2)
      case (Some c)
      show ?thesis by (rule failed [of s2 c w2]) (use assms(5) 1 None 2 Some pub2 T2 b2 in \<open>auto simp: publish_catalog_set_def\<close>)
    next
      case e2: None
      have dis: "sc_target ` set s1 \<inter> sc_temporary ` set s1 = {}"
      proof (rule equals0I)
        fix x assume x: "x \<in> sc_target ` set s1 \<inter> sc_temporary ` set s1"
        then have "is_digit (last x)" using made_last [OF tn(2)] by blast
        moreover have "x \<in> fst ` set targets" using x T1 by blast
        ultimately show False using assms(3) by auto
      qed
      have "\<forall>s \<in> set s1. node_at w1 (sc_temporary s) = Some (File (content (sc_target s)))"
      proof
        fix x assume "x \<in> set s1"
        then obtain k where k: "k < length s1" "x = s1 ! k" by (auto simp: in_set_conv_nth)
        have len: "length s1 = length ss" using k1 by (metis length_map)
        have eq: "sc_target x = sc_target (ss ! k)" "sc_temporary x = sc_temporary (ss ! k)"
          using k1 k len by (metis nth_map)+
        have "node_at w (sc_temporary x) = Some (File (content (sc_target x)))"
          using st(4) [of "ss ! k"] k(1) len eq by simp
        moreover have "sc_temporary x \<notin> sc_target ` set ss"
          using dis \<open>x \<in> set s1\<close> T T1 by auto
        ultimately show "node_at w1 (sc_temporary x) = Some (File (content (sc_target x)))"
          using keepsD [of "sc_target ` set ss" w w1] k1 by blast
      qed
      then have n2: "\<forall>s \<in> set s1. node_at w2 (sc_target s) = Some (File (content (sc_target s)))"
        using publish_all_content [OF 2 [unfolded e2]] dis k1 assms(1,2,4) by (simp add: staging_def)
      obtain w3 e3 where 3: "remove_backups s2 w2 = (w3, e3)" by fastforce
      let ?B = "{sc_backup s |s. s \<in> set s2} - {[]}"
      have B: "node_at w0 x = None \<and> is_digit (last x)" if "x \<in> ?B" for x
        using that pub2 made_last by (auto simp: publication_def list_all_iff entry_ok_def)
      have new: "\<forall>(t, c) \<in> set targets. node_at w3 t = Some (File c)"
      proof (intro ballI, clarify)
        fix t c assume tc: "(t, c) \<in> set targets"
        then have "t \<in> sc_target ` set s1" using T1 by force
        then have "node_at w2 t = Some (File c)" using n2 tc assms(3) by auto
        moreover have "t \<notin> ?B" using B tc assms(3) by blast
        ultimately show "node_at w3 t = Some (File c)" using keepsD [OF remove_backups_keeps [OF 3]] by blast
      qed
      have "keeps (fst ` set targets) w0 w3"
        unfolding keeps_def
      proof (intro allI impI)
        fix x n assume x: "x \<notin> fst ` set targets" "node_at w0 x = Some n"
        then have "node_at w2 x = Some n" using pub2 T2 by (auto simp: publication_def keeps_def)
        moreover have "x \<notin> ?B" using B [of x] x(2) by auto
        ultimately show "node_at w3 x = Some n" using keepsD [OF remove_backups_keeps [OF 3]] by blast
      qed
      moreover have "w' = w3 \<and> r = map_option (\<lambda>_. Backup_kept) e3"
        using assms(5) 1 None 2 e2 3 by (cases e3) (simp_all add: publish_catalog_set_def)
      ultimately show ?thesis using new by (cases e3) (simp_all add: published_world_def)
    qed
  qed
qed

text \<open>C20: Publishing the four catalog artifacts never loses one, whatever system calls fail and
  whatever files other processes create meanwhile. Success (and a failure to remove a backup
  afterwards) leaves exactly the new contents at the four paths. A failure while staging changes
  no existing file. A failure later leaves every artifact that was there at its path or in a
  backup beside it, and at its path when the rollback reports no error. No other file changes.\<close>

theorem artifacts_published_or_kept:
  assumes "publish_aggregate_artifacts directory a w = (w', r)"
  shows "published_world (artifact_targets directory a) r w w'"
proof -
  let ?content = "\<lambda>t. the (map_of (artifact_targets directory a) t)"
  obtain w1 q where 1: "stage_all directory [] (artifact_contents a) w = (w1, q)" by fastforce
  have c: "?content t = c" if "(t, c) \<in> set (artifact_targets directory a)" for t c
    using map_of_is_SomeI [OF targets_distinct_names that] by simp
  have g: "staging ?content w w []" by (simp add: staging_def)
  have m: "\<forall>(name, c) \<in> set (artifact_contents a). ?content (path_join [directory, name]) = c"
    using c by (force simp: artifact_targets_def)
  have s: "case q of
     Inl e \<Rightarrow> keeps {} w w1 \<and> (e = Artifact_unread \<or> e = Stage_failed \<or> (\<exists>name. e = Artifact_irregular name))
   | Inr ss \<Rightarrow> staging ?content w w1 ss \<and>
       map sc_target ss = map (\<lambda>(name, c). path_join [directory, name]) (artifact_contents a)"
    using stage_all_spec [OF 1 g m] by (cases q) simp_all
  show ?thesis
  proof (cases q)
    case (Inl e)
    then have "w' = w1 \<and> r = Some e" using assms 1 by (simp add: publish_aggregate_artifacts_def)
    then show ?thesis using s Inl keeps_mono [of "{}" w w1] by (auto simp: published_world_def)
  next
    case (Inr ss)
    have t: "map sc_target ss = map fst (artifact_targets directory a)"
      using s Inr by (simp add: artifact_targets_def case_prod_beta)
    have d: "\<forall>(t, c) \<in> set (artifact_targets directory a). ?content t = c \<and> t \<noteq> [] \<and> \<not> is_digit (last t)"
    proof (intro ballI, unfold split_paired_all, unfold prod.case)
      fix t c' assume tc: "(t, c') \<in> set (artifact_targets directory a)"
      then obtain name where n: "name \<in> fst ` set (artifact_contents a)" "t = path_join [directory, name]"
        unfolding artifact_targets_def by force
      show "?content t = c' \<and> t \<noteq> [] \<and> \<not> is_digit (last t)"
        using c [OF tc] targets_plain [OF n(1), of directory] unfolding n(2) by simp
    qed
    have p: "publish_catalog_set ss w1 = (w', r)" using assms 1 Inr by (simp add: publish_aggregate_artifacts_def)
    have g: "staging ?content w w1 ss" using s Inr by simp
    show ?thesis by (rule set_published [OF g t d targets_distinct_names p])
  qed
qed

text \<open>An output directory with one old artifact, where the third rename into place fails.\<close>

definition sample_artifacts :: artifacts where
  "sample_artifacts = \<lparr>ar_consumer_json = ''c'', ar_consumer_markdown = ''m'', ar_engineering_json = ''e'',
     ar_engineering_markdown = ''n''\<rparr>"

definition sample_output :: world where
  "sample_output = \<lparr>w_nodes = [(''/o'', Directory), (''/o/catalog-consumer.json'', File ''old'')],
     w_script = replicate 30 no_event @ [\<lparr>ev_fault = True, ev_partial = 0, ev_others = []\<rparr>]\<rparr>"

theorem artifacts_published_or_kept_witness:
  "published_world (artifact_targets ''/o'' sample_artifacts) (Some (Set_failed Step_publish [])) sample_output
     (fst (publish_aggregate_artifacts ''/o'' sample_artifacts sample_output))"
proof -
  have "snd (publish_aggregate_artifacts ''/o'' sample_artifacts sample_output) = Some (Set_failed Step_publish [])"
    by code_simp
  then have "publish_aggregate_artifacts ''/o'' sample_artifacts sample_output =
      (fst (publish_aggregate_artifacts ''/o'' sample_artifacts sample_output), Some (Set_failed Step_publish []))"
    by (simp add: prod_eq_iff)
  from artifacts_published_or_kept [OF this] show ?thesis .
qed

end
