(* ===== verification/Gate_Scan.thy ===== *)
theory Gate_Scan
  imports Gate_Security Affected
begin

text \<open>
  internal/gates: the security phase of a selection (runner.go, sbom.go, secrets\_changes.go and
  the committed changes of affected.go). The security policies of all modules are checked first,
  then the repository is scanned for secrets once, then each module by every scanner.

  \<open>errors.Join\<close> of several cleanups is nested here where the code joins flatly. A deadline of
  its own only shortens the budget of the context and is not modelled.
\<close>

section \<open>The bill of materials (sbom.go)\<close>

definition sbom_output :: "stream \<Rightarrow> process_outcome \<Rightarrow> sbom_buffer" where
  "sbom_output s outcome = fold sbom_write (stream_writes s outcome) empty_sbom_buffer"

definition sbom_document_error :: "gate_kit \<Rightarrow> string \<Rightarrow> gate_error option" where
  "sbom_document_error kit data =
     (if trim_space data = [] then Some (Refused ''CycloneDX SBOM is empty'')
      else (case gk_sbom kit data of
              None \<Rightarrow> Some (Refused ''CycloneDX SBOM is not valid JSON'')
            | Some (format, version) \<Rightarrow>
                first_error
                  [refuse (format \<noteq> ''CycloneDX'') (Refused ''CycloneDX SBOM has invalid bomFormat''),
                   refuse (trim_space version = []) (Refused ''CycloneDX SBOM has no specVersion''),
                   refuse (version \<noteq> ''1.6'') (Refused ''CycloneDX SBOM has unsupported specVersion'')]))"

definition run_sbom :: "gate_kit \<Rightarrow> runner \<Rightarrow> string \<Rightarrow> unit act" where
  "run_sbom kit rn directory =
     and_do (execute kit rn (gate_command_of Verifier_cache True ''go''
         [''run'', ''github.com/CycloneDX/cyclonedx-gomod/cmd/cyclonedx-gomod@'' @ cyclonedx_version, ''mod'', ''-json'',
          ''-licenses'', ''-type'', ''library'', ''-noserial'', ''-notimestamp'', ''-output'', ''-'', ''.'']
         directory gowork_off)) (\<lambda>outcome.
       let document = sbom_output Stdout outcome; diagnostics = sbom_output Stderr outcome;
           overflow = (if sb_overflow document \<or> sb_overflow diagnostics
                       then Some (Refused ''CycloneDX SBOM output exceeded 16777216 bytes'') else None)
       in case join_errors [overflow, map_option By_process (po_error outcome)] of
            Some e \<Rightarrow> fail (Because ''generate CycloneDX SBOM'' e)
          | None \<Rightarrow> from_option (sbom_document_error kit (sb_data document)))"

section \<open>Secrets of the repository\<close>

definition reject_ignore :: "gate_kit \<Rightarrow> runner \<Rightarrow> unit act" where
  "reject_ignore kit rn =
     and_do (see_world (\<lambda>w. reject_repository_gitleaks_ignore (gk_view kit w) (rn_root rn))) (\<lambda>e.
       from_option (map_option By_ignore e))"

definition history_log_options :: "runner \<Rightarrow> string" where
  "history_log_options rn =
     (case rn_secret_changes rn of
        None \<Rightarrow> ''--all''
      | Some changes \<Rightarrow> ''--full-history --diff-merges=first-parent --no-renames --no-ext-diff --no-textconv '' @
          cr_base changes @ ''..'' @ cr_head changes)"

definition scan_secrets :: "gate_kit \<Rightarrow> runner \<Rightarrow> string \<Rightarrow> string \<Rightarrow> gitleaks_sources \<Rightarrow> unit act" where
  "scan_secrets kit rn attribution config s = in_order
     [security_tool kit rn attribution ''secrets-history'' (gs_history s) gitleaks_tool
        [''git'', ''.'', ''--config'', config, ''--log-opts='' @ history_log_options rn, ''--ignore-gitleaks-allow'',
         ''--gitleaks-ignore-path'', gs_ignore_root s, ''--no-banner'', ''--redact''],
      security_tool kit rn attribution ''secrets-current-tree'' (gs_current s) gitleaks_tool
        [''dir'', ''.'', ''--config'', config, ''--ignore-gitleaks-allow'',
         ''--gitleaks-ignore-path'', gs_ignore_root s, ''--no-banner'', ''--redact'']]"

definition run_repository_secrets :: "gate_kit \<Rightarrow> runner \<Rightarrow> string \<Rightarrow> unit act" where
  "run_repository_secrets kit rn attribution =
     and_do (create_owned_policy kit rn ''gitleaks'' ''gitleaks-config-*.toml'' (gk_gitleaks_policy kit)) (\<lambda>config.
       joining_cleanup (remove_temporary kit config) ''remove temporary gitleaks config''
         (and_do (reject_ignore kit rn) (\<lambda>_.
            and_do (create_gitleaks_sources kit rn) (\<lambda>s.
              joining_cleanup (remove_temporary_directory kit (gs_root s)) ''remove temporary gitleaks sources''
                (scan_secrets kit rn attribution config s)))))"

definition secrets :: "gate_kit \<Rightarrow> runner \<Rightarrow> unit act" where
  "secrets kit rn = and_do check_ctx (\<lambda>_. run_repository_secrets kit rn ''.'')"

section \<open>Secrets of committed changes (secrets\_changes.go, affected.go)\<close>

definition run_change_git :: "gate_kit \<Rightarrow> runner \<Rightarrow> string list \<Rightarrow> string act" where
  "run_change_git kit rn arguments =
     and_do check_ctx (\<lambda>_.
       and_do (execute kit rn (gate_command_of Repository_runtime_cache True ''git''
           ([''--no-replace-objects'', ''-c'', ''core.fsmonitor=false''] @ arguments) (rn_root rn)
           [(''GIT_CONFIG_GLOBAL'', ''/dev/null''), (''GIT_CONFIG_NOSYSTEM'', ''1'')])) (\<lambda>outcome.
         let stdout = inventory_output Stdout outcome
         in if po_error outcome \<noteq> None \<or> bo_overflow stdout \<or> bo_overflow (process_output [] None Stderr outcome)
            then source_command_error ''affected inventory Git comparison failed or exceeded output limit'' (po_error outcome)
            else and_do check_ctx (\<lambda>_. give (so_data stdout))))"

definition parse_changes :: "string \<Rightarrow> string list option" where
  "parse_changes diff =
     (if \<not> has_suffix diff [CHR 0x00] then None
      else (let changes = split_on CHR 0x00 (trim_suffix diff [CHR 0x00])
            in if list_all change_path_ok changes then Some changes else None))"

definition committed_changes_act :: "gate_kit \<Rightarrow> runner \<Rightarrow> string \<Rightarrow> string \<Rightarrow> string list act" where
  "committed_changes_act kit rn base head =
     (if \<not> is_commit_sha base then fail (Refused ''affected inventory requires a full lowercase Git commit SHA'')
      else and_do (run_change_git kit rn [''cat-file'', ''-e'', base @ ''^{commit}'']) (\<lambda>_.
        and_do (run_change_git kit rn [''diff'', ''--no-ext-diff'', ''--no-textconv'', ''--no-renames'', ''--name-only'',
            ''-z'', base, head, ''--'']) (\<lambda>diff.
          if diff = [] then give []
          else (case parse_changes diff of
                  None \<Rightarrow> fail (Refused ''affected inventory Git paths are malformed'')
                | Some changes \<Rightarrow> and_do check_ctx (\<lambda>_. give changes)))))"

definition prepare_secret_changes :: "gate_kit \<Rightarrow> runner \<Rightarrow> string \<Rightarrow> string list \<Rightarrow> runner act" where
  "prepare_secret_changes kit rn base changes =
     and_do (run_change_git kit rn [''rev-parse'', ''--verify'', ''HEAD^{commit}'']) (\<lambda>head.
       let head = trim_suffix head [CHR 0x0A]
       in if \<not> is_commit_sha head then fail (Refused ''changed secret scan requires an immutable HEAD commit'')
          else and_do (run_change_git kit rn [''merge-base'', ''--is-ancestor'', base, head]) (\<lambda>_.
            and_do (committed_changes_act kit rn base head) (\<lambda>bound.
              if changes \<noteq> bound then fail (Refused ''changed secret scan source moved during selection'')
              else give (rn\<lparr>rn_secret_changes := Some \<lparr>cr_base = base, cr_head = head, cr_paths = changes\<rparr>\<rparr>))))"

definition secrets_changes :: "gate_kit \<Rightarrow> runner \<Rightarrow> string \<Rightarrow> unit act" where
  "secrets_changes kit rn base =
     and_do (committed_changes_act kit rn base ''HEAD'') (\<lambda>changes.
       and_do (prepare_secret_changes kit rn base changes) (\<lambda>rn. secrets kit rn))"

section \<open>The scans of a module\<close>

definition license_owner :: "runner \<Rightarrow> module_policy \<Rightarrow> string" where
  "license_owner rn md =
     (let repository = trim_suffix (iv_repository (rn_catalog rn)) ''/''
      in if repository \<noteq> [] \<and> (md_module_path md = repository \<or> has_prefix (md_module_path md) (repository @ ''/''))
         then repository else md_module_path md)"

definition analysis_scan :: "gate_kit \<Rightarrow> runner \<Rightarrow> string \<Rightarrow> module_policy \<Rightarrow> unit act" where
  "analysis_scan kit rn directory md =
     and_do (create_owned_policy kit rn ''analysis'' ''analysis-security-*.yaml'' analysis_security_policy) (\<lambda>path.
       joining_cleanup (remove_temporary kit path) ''remove temporary analysis config''
         (security_tool kit rn (md_directory md) ''owned-security-analysis'' directory analysis_tool
            [''check'', ''-config'', path, ''-root'', directory, ''./...'']))"

definition run_security_scans :: "gate_kit \<Rightarrow> runner \<Rightarrow> string \<Rightarrow> module_policy \<Rightarrow> unit act" where
  "run_security_scans kit rn directory md = in_order
     [security_tool kit rn (md_directory md) ''vulnerability'' directory
        (''golang.org/x/vuln/cmd/govulncheck@'' @ govulncheck_version) [''./...''],
      and_do (gosec_packages kit rn directory) (\<lambda>packages.
        security_tool kit rn (md_directory md) ''gosec'' directory gosec_tool
          ([''-nosec-require-rules'', ''-nosec-require-justification''] @ packages)),
      analysis_scan kit rn directory md,
      when_gate (\<not> rn_secrets_scanned rn) (run_repository_secrets kit rn (md_directory md)),
      security_tool kit rn (md_directory md) ''licenses'' directory
        (''github.com/google/go-licenses/v2@'' @ go_licenses_version)
        [''check'', ''./...'', ''--ignore'', license_owner rn md]]"

definition run_security :: "gate_kit \<Rightarrow> runner \<Rightarrow> string \<Rightarrow> module_policy \<Rightarrow> unit act" where
  "run_security kit rn directory md = in_order
     [run_security_scans kit rn directory md, announce (md_directory md) ''SBOM'' (run_sbom kit rn directory)]"

definition module_root :: "runner \<Rightarrow> module_policy \<Rightarrow> string" where
  "module_root rn md = path_join [rn_root rn, md_directory md]"

section \<open>The phase\<close>

definition check_security_policy :: "gate_kit \<Rightarrow> runner \<Rightarrow> string \<Rightarrow> string \<Rightarrow> unit act" where
  "check_security_policy kit rn directory md =
     announce md ''security-suppressions'' (\<lambda>r.
       case check_security_suppressions (gk_view kit (rn_world r)) (gk_comments kit) directory
              (ql_entries source_security_limits) (rn_ctx r) of
         (c, e) \<Rightarrow> from_option (map_option By_walk e) (r\<lparr>rn_ctx := c\<rparr>))"

definition preflight_security_policies :: "gate_kit \<Rightarrow> runner \<Rightarrow> module_policy list \<Rightarrow> unit act" where
  "preflight_security_policies kit rn mds = in_order
     (when_gate (list_ex (\<lambda>md. gate_on md ''security'') mds) (reject_ignore kit rn) #
      map (\<lambda>md. check_security_policy kit rn (module_root rn md) (md_directory md))
        (filter (\<lambda>md. gate_on md ''security'') mds))"

text \<open>The secrets are scanned on behalf of the first module with the gate, unless they already were.\<close>

definition scan_selected_secrets :: "gate_kit \<Rightarrow> runner \<Rightarrow> module_policy list \<Rightarrow> runner act" where
  "scan_selected_secrets kit rn mds =
     (case filter (\<lambda>md. gate_on md ''security'') mds of
        [] \<Rightarrow> give rn
      | md # rest \<Rightarrow>
          if rn_secrets_scanned rn then give rn
          else and_do (run_repository_secrets kit rn (md_directory md)) (\<lambda>_. give (rn\<lparr>rn_secrets_scanned := True\<rparr>)))"

definition scan_modules :: "gate_kit \<Rightarrow> runner \<Rightarrow> module_policy list \<Rightarrow> bool \<Rightarrow> unit act" where
  "scan_modules kit rn mds include_sbom = in_order
     (map (\<lambda>md. (if include_sbom then run_security else run_security_scans) kit rn (module_root rn md) md)
        (filter (\<lambda>md. gate_on md ''security'') mds))"

text \<open>The cleanup of the pass: every retained tool, whatever the result; its errors are joined.\<close>

fun remove_binaries :: "gate_kit \<Rightarrow> (compiler_tool \<times> string) list \<Rightarrow> (gate_error + 'a) \<Rightarrow> 'a act" where
  "remove_binaries kit [] x = (\<lambda>r. (r\<lparr>rn_binaries := None\<rparr>, x))"
| "remove_binaries kit ((tool, binary) # rest) x =
     and_do (remove_temporary_directory kit (path_dir binary)) (\<lambda>kept.
       remove_binaries kit rest
         (case kept of
            None \<Rightarrow> x
          | Some e \<Rightarrow> Inl (Joined_errors
              ((case x of Inl f \<Rightarrow> [f] | Inr _ \<Rightarrow> []) @ [Because ''compiler tool cleanup'' (By_io e)]))))"

definition begin_binaries :: "unit act" where
  "begin_binaries r = (r\<lparr>rn_binaries := Some []\<rparr>, Inr ())"

definition current_binaries :: "(compiler_tool \<times> string) list act" where
  "current_binaries r = (r, Inr (case rn_binaries r of None \<Rightarrow> [] | Some m \<Rightarrow> m))"

definition scan_selected_security :: "gate_kit \<Rightarrow> runner \<Rightarrow> module_policy list \<Rightarrow> bool \<Rightarrow> runner act" where
  "scan_selected_security kit rn mds include_sbom =
     and_do begin_binaries (\<lambda>_.
       and_do (attempt (and_do (scan_selected_secrets kit rn mds) (\<lambda>rn.
                 and_do (scan_modules kit rn mds include_sbom) (\<lambda>_. give rn)))) (\<lambda>x.
         and_do current_binaries (\<lambda>binaries. remove_binaries kit binaries x)))"

definition security_phase :: "gate_kit \<Rightarrow> runner \<Rightarrow> module_policy list \<Rightarrow> bool \<Rightarrow> runner act" where
  "security_phase kit rn mds include_sbom =
     and_do (preflight_security_policies kit rn mds) (\<lambda>_. scan_selected_security kit rn mds include_sbom)"

end
