(* ===== verification/Gate_Runner.thy ===== *)
theory Gate_Runner
  imports Gate_Scan Gate_Mutation
begin

text \<open>
  internal/gates: the commands of the runner (runner.go, services.go, mutation.go, api.go) and the
  rehearsal of a release (release.go). Each selects its modules and runs their gates in order, up
  to the first error.
\<close>

section \<open>Selection\<close>

definition runner_modules :: "runner \<Rightarrow> module_policy list" where
  "runner_modules rn = (case iv_modules (rn_catalog rn) of None \<Rightarrow> [] | Some mds \<Rightarrow> mds)"

text \<open>A later module with the same directory replaces an earlier one.\<close>

definition available_module :: "runner \<Rightarrow> string \<Rightarrow> module_policy option" where
  "available_module rn directory = find (\<lambda>md. md_directory md = directory) (rev (runner_modules rn))"

definition select_modules :: "runner \<Rightarrow> string list \<Rightarrow> gate_error + module_policy list" where
  "select_modules rn selection =
     (if maximum_modules < int (length (runner_modules rn)) then Inl (Refused ''module cardinality limit exceeded'')
      else (case find (\<lambda>d. available_module rn d = None) selection of
              Some d \<Rightarrow> Inl (Refused (''unknown module: '' @ d))
            | None \<Rightarrow> Inr (List.map_filter (available_module rn) (sort (remdups selection)))))"

definition chosen_modules :: "runner \<Rightarrow> string list \<Rightarrow> module_policy list act" where
  "chosen_modules rn selection = (case select_modules rn selection of Inl e \<Rightarrow> fail e | Inr mds \<Rightarrow> give mds)"

section \<open>The contract of one module\<close>

definition golangci_lint_tool :: string where
  "golangci_lint_tool = ''github.com/golangci/golangci-lint/v2/cmd/golangci-lint@'' @ golangci_lint_version"

definition check_basics :: "gate_kit \<Rightarrow> runner \<Rightarrow> module_policy \<Rightarrow> string \<Rightarrow> unit act list" where
  "check_basics kit rn md directory =
     [announce (md_directory md) ''format-check'' (check_formatting kit rn directory),
      go_command kit rn (md_directory md) ''tidy-check'' directory [''mod'', ''tidy'', ''-diff''],
      announce (md_directory md) ''safety'' (check_safety kit directory),
      when_gate (gate_on md ''lint'') (go_command kit rn (md_directory md) ''vet'' directory [''vet'', ''./...'']),
      when_gate (gate_on md ''tests'')
        (go_command kit rn (md_directory md) ''test'' directory (test_arguments (md_test_tags md) False))]"

definition check_linters :: "gate_kit \<Rightarrow> runner \<Rightarrow> module_policy \<Rightarrow> string \<Rightarrow> unit act list" where
  "check_linters kit rn md directory =
     [when_gate (gate_on md ''lint'') (go_tool kit rn (md_directory md) ''lint'' directory golangci_lint_tool
        [''run'', ''--allow-parallel-runners'', ''--timeout=10m'', ''./...'']),
      when_gate (gate_on md ''lint'') (go_tool kit rn (md_directory md) ''staticcheck'' directory staticcheck_tool [''./...''])]"

definition announced_operation :: "gate_kit \<Rightarrow> runner \<Rightarrow> module_policy \<Rightarrow> string \<Rightarrow> string \<Rightarrow> unit act" where
  "announced_operation kit rn md directory gate =
     (case find_operation rn (md_directory md) gate of
        None \<Rightarrow> give ()
      | Some op \<Rightarrow> announce (md_directory md) gate (run_operation kit rn directory md op))"

text \<open>The text of the error in the advice is left out.\<close>

definition run_nilaway :: "gate_kit \<Rightarrow> runner \<Rightarrow> module_policy \<Rightarrow> string \<Rightarrow> unit act" where
  "run_nilaway kit rn md directory =
     announce (md_directory md) ''nilaway''
       (and_do (execute kit rn (gate_command_of Verifier_cache False ''go''
           [''run'', ''go.uber.org/nilaway/cmd/nilaway@'' @ nilaway_version,
            ''-include-pkgs='' @ md_module_path md, ''./...''] directory gowork_off)) (\<lambda>outcome.
          when_gate (po_error outcome \<noteq> None)
            (emit (Printed (CHR 0x5B # md_directory md @ ''] NilAway advisory''))))) "

definition check_module :: "gate_kit \<Rightarrow> runner \<Rightarrow> module_policy \<Rightarrow> unit act" where
  "check_module kit rn md =
     (let directory = module_root rn md
      in in_order
        (check_basics kit rn md directory @
         [when_gate (gate_on md ''tests'') (case find_operation rn (md_directory md) ''test'' of
            None \<Rightarrow> give () | Some op \<Rightarrow> run_operation kit rn directory md op),
          run_local_tests kit rn md,
          when_gate (gate_on md ''race'')
            (go_command kit rn (md_directory md) ''race'' directory (test_arguments (md_test_tags md) True)),
          when_gate (gate_on md ''coverage'')
            (announce (md_directory md) ''coverage'' (run_coverage kit rn directory md)),
          when_gate (gate_on md ''mutation'') (verify_mutation kit rn md)] @
         check_linters kit rn md directory @
         [announced_operation kit rn md directory ''fuzz'',
          when_gate (gate_on md ''documentation'')
            (announce (md_directory md) ''docs'' (check_documentation kit rn directory md)),
          when_gate (gate_on md ''api_compatibility'') (announce (md_directory md) ''api''
            (case find_operation rn (md_directory md) ''api'' of
               Some op \<Rightarrow> run_operation kit rn directory md op
             | None \<Rightarrow> api_module kit rn md False)),
          when_gate (gate_on md ''lint'') (run_nilaway kit rn md directory)] @
         map (announced_operation kit rn md directory) [''conformance'', ''interoperability'', ''benchmark'']))"

definition check_module_local :: "gate_kit \<Rightarrow> runner \<Rightarrow> module_policy \<Rightarrow> unit act" where
  "check_module_local kit rn md =
     (let directory = module_root rn md
      in in_order
        (check_basics kit rn md directory @ [run_local_tests kit rn md] @ check_linters kit rn md directory @
         [when_gate (gate_on md ''documentation'') (announce (md_directory md) ''docs-local''
            (and_do (see_world (\<lambda>w. dk_check_within (gk_docs kit) w (rn_root rn) directory)) from_option)),
          when_gate (gate_on md ''api_compatibility'')
            (announce (md_directory md) ''api'' (api_module kit rn md False))]))"

section \<open>Commands\<close>

definition with_services_each ::
  "gate_kit \<Rightarrow> runner \<Rightarrow> (runner \<Rightarrow> module_policy \<Rightarrow> unit act) \<Rightarrow> module_policy list \<Rightarrow> unit act" where
  "with_services_each kit rn operation mds =
     in_order (map (\<lambda>md. with_module_services kit rn md (\<lambda>scoped. operation scoped md)) mds)"

definition check :: "gate_kit \<Rightarrow> runner \<Rightarrow> string list \<Rightarrow> unit act" where
  "check kit rn selection =
     and_do (chosen_modules rn selection) (\<lambda>mds.
       and_do (security_phase kit rn mds True) (\<lambda>rn.
         with_services_each kit rn (check_module kit) mds))"

definition local :: "gate_kit \<Rightarrow> runner \<Rightarrow> string list \<Rightarrow> unit act" where
  "local kit rn selection =
     and_do (chosen_modules rn selection) (\<lambda>mds.
       and_do (preflight_local_tests kit rn mds) (\<lambda>_.
         and_do (security_phase kit rn mds False) (\<lambda>rn.
           with_services_each kit rn (check_module_local kit) mds)))"

text \<open>A command for one gate: it tells which modules it does not apply to.\<close>

definition not_applicable :: "string \<Rightarrow> module_policy \<Rightarrow> unit act" where
  "not_applicable gate md =
     emit (Printed (CHR 0x5B # md_directory md @ ''] '' @ gate @ '': not applicable'' @ [CHR 0x0A]))"

definition each_applicable ::
  "runner \<Rightarrow> string list \<Rightarrow> string \<Rightarrow> (module_policy \<Rightarrow> bool) \<Rightarrow> (module_policy \<Rightarrow> unit act) \<Rightarrow> unit act" where
  "each_applicable rn selection gate applies operation =
     and_do (chosen_modules rn selection) (\<lambda>mds.
       in_order (map (\<lambda>md. if applies md then operation md else not_applicable gate md) mds))"

definition coverage_gate :: "gate_kit \<Rightarrow> runner \<Rightarrow> string list \<Rightarrow> unit act" where
  "coverage_gate kit rn selection =
     each_applicable rn selection ''coverage'' (\<lambda>md. gate_on md ''coverage'') (\<lambda>md.
       with_module_services kit rn md (\<lambda>scoped.
         announce (md_directory md) ''coverage'' (run_coverage kit scoped (module_root scoped md) md)))"

definition docs :: "gate_kit \<Rightarrow> runner \<Rightarrow> string list \<Rightarrow> unit act" where
  "docs kit rn selection =
     each_applicable rn selection ''docs'' (\<lambda>md. gate_on md ''documentation'') (\<lambda>md.
       announce (md_directory md) ''docs'' (check_documentation kit rn (module_root rn md) md))"

definition api :: "gate_kit \<Rightarrow> runner \<Rightarrow> string list \<Rightarrow> bool \<Rightarrow> unit act" where
  "api kit rn selection update =
     each_applicable rn selection ''API compatibility'' (\<lambda>md. gate_on md ''api_compatibility'') (\<lambda>md.
       api_module kit rn md update)"

definition service_cycle :: "gate_kit \<Rightarrow> runner \<Rightarrow> string list \<Rightarrow> unit act" where
  "service_cycle kit rn selection =
     each_applicable rn selection ''services'' (\<lambda>md. md_required_services md \<noteq> []) (\<lambda>md.
       with_module_services kit rn md (\<lambda>_.
         emit (Printed (CHR 0x5B # md_directory md @ ''] services: ready'' @ [CHR 0x0A]))))"

definition mutation :: "gate_kit \<Rightarrow> runner \<Rightarrow> string list \<Rightarrow> unit act" where
  "mutation kit rn selection =
     each_applicable rn selection ''mutation'' (\<lambda>md. gate_on md ''mutation'') (\<lambda>md.
       with_module_services kit rn md (\<lambda>scoped. verify_mutation kit scoped md))"

section \<open>One package and one import\<close>

definition selected_mutation_module :: "runner \<Rightarrow> string \<Rightarrow> module_policy act" where
  "selected_mutation_module rn directory =
     (case find (\<lambda>md. md_directory md = directory) (runner_modules rn) of
        None \<Rightarrow> fail (Refused (''unknown module '' @ directory))
      | Some md \<Rightarrow>
          if gate_on md ''mutation'' then give md
          else fail (Refused (''module '' @ directory @ '' does not enable mutation verification'')))"

text \<open>\<open>errors.Join(err, ctx.Err())\<close>\<close>

definition joined_with_ctx :: "gate_error + unit \<Rightarrow> unit act" where
  "joined_with_ctx x =
     and_do (attempt check_ctx) (\<lambda>y. from_option (join_errors [error_of x, error_of y]))"

definition one_worker :: "runner \<Rightarrow> runner" where
  "one_worker rn =
     rn\<lparr>rn_policy := (rn_policy rn)\<lparr>cf_mutation := (cf_mutation (rn_policy rn))\<lparr>mp_max_workers := 1\<rparr>\<rparr>\<rparr>"

text \<open>The deadline of twenty minutes only shortens the budget of the context and is not modelled.\<close>

definition mutation_package :: "gate_kit \<Rightarrow> runner \<Rightarrow> string \<Rightarrow> string \<Rightarrow> unit act" where
  "mutation_package kit rn module_directory package_directory =
     and_do check_ctx (\<lambda>_.
       and_do (selected_mutation_module rn module_directory) (\<lambda>md.
         case find (\<lambda>p. pk_directory p = package_directory \<and> pk_production p \<and> pk_coverage_required p) (md_packages md) of
           None \<Rightarrow> fail (Refused (''package '' @ package_directory @ '' is not mutation-enabled in module '' @ md_directory md))
         | Some p \<Rightarrow>
             (let md = md\<lparr>md_packages := [p]\<rparr>
              in and_do (emit (Printed (CHR 0x5B # md_directory md @ ''] mutation scope: package '' @ package_directory @
                     '' only; one worker, 20-minute execution budget'' @ [CHR 0x0A]))) (\<lambda>_.
                   and_do (attempt (with_module_services kit rn md (\<lambda>scoped.
                       and_do check_ctx (\<lambda>_.
                         announce (md_directory md) ''mutation-package'' (run_mutation kit (one_worker scoped) md)))))
                     joined_with_ctx))))"

definition mutation_import_gate :: "gate_kit \<Rightarrow> runner \<Rightarrow> string \<Rightarrow> string \<Rightarrow> string \<Rightarrow> unit act" where
  "mutation_import_gate kit rn module_directory archive_path ledger_path =
     and_do (selected_mutation_module rn module_directory) (\<lambda>md.
       with_module_services kit rn md (\<lambda>scoped.
         announce (md_directory md) ''mutation-import''
           (and_do (run_mutation_import kit scoped md archive_path ledger_path) (\<lambda>changed.
              refuse_if (changed \<noteq> []) (Refused ''changed mutation inputs'')))))"

section \<open>Rehearsal of a release (release.go)\<close>

definition release_tag :: "module_policy \<Rightarrow> string" where
  "release_tag md = md_tag_prefix md @ md_version md"

definition release_version :: "module_policy \<Rightarrow> string" where
  "release_version md = CHR ''v'' # md_version md"

fun check_release_tags :: "gate_kit \<Rightarrow> runner \<Rightarrow> module_policy list \<Rightarrow> unit act" where
  "check_release_tags kit rn [] = give ()"
| "check_release_tags kit rn (md # mds) =
     and_do (execute kit rn (gate_command_of Repository_runtime_cache False ''git''
         [''tag'', ''--list'', release_tag md] (rn_root rn) [])) (\<lambda>outcome.
       case po_error outcome of
         Some e \<Rightarrow> fail (Because (''inspect release tag '' @ release_tag md) (By_process e))
       | None \<Rightarrow>
           if trim_space (concat (stream_writes Stdout outcome)) \<noteq> []
           then fail (Refused (''release tag already exists: '' @ release_tag md))
           else check_release_tags kit rn mds)"

text \<open>The metadata of one module in the file proxy. The version is quoted as \<open>%q\<close> quotes text
  without special characters. \<open>rk_escape_path\<close> and \<open>rk_escape_version\<close> are golang.org/x/mod/module,
  \<open>rk_archive\<close> is the creation of the archive by golang.org/x/mod/zip and its closing.\<close>

definition version_information :: "module_policy \<Rightarrow> string" where
  "version_information md =
     CHR 0x7B # CHR 0x22 # ''Version'' @ CHR 0x22 # CHR 0x3A # CHR 0x22 # release_version md @ CHR 0x22 # CHR 0x2C #
     CHR 0x22 # ''Time'' @ CHR 0x22 # CHR 0x3A # CHR 0x22 # ''2000-01-01T00:00:00Z'' @ [CHR 0x22, CHR 0x7D, CHR 0x0A]"

definition write_proxy_file :: "gate_kit \<Rightarrow> string \<Rightarrow> string \<Rightarrow> string \<Rightarrow> unit act" where
  "write_proxy_file kit message path data =
     and_do (on_world (os_write_file (gk_os kit) path data)) (succeed_io (\<lambda>e. Because message (By_io e)))"

definition build_proxy_module :: "gate_kit \<Rightarrow> runner \<Rightarrow> string \<Rightarrow> module_policy \<Rightarrow> unit act" where
  "build_proxy_module kit rn proxy md =
     (case rk_escape_path (gk_release kit) (md_module_path md) of
        None \<Rightarrow> fail (Refused (''escape release module path '' @ md_module_path md))
      | Some escaped_path \<Rightarrow>
          (case rk_escape_version (gk_release kit) (release_version md) of
             None \<Rightarrow> fail (Refused (''escape release module version '' @ release_version md))
           | Some escaped_version \<Rightarrow>
               (let directory = path_join [proxy, escaped_path, ''@v''];
                    prefix = path_join [directory, escaped_version];
                    module_file = path_join [md_directory md, ''go.mod'']
                in and_do (on_world (os_mkdir_all (gk_os kit) directory)) (\<lambda>made.
                     and_do (succeed_io (\<lambda>e. Because ''create release module proxy'' (By_io e)) made) (\<lambda>_.
                       and_do (read_file_act kit (rn_root rn) module_file maximum_module_file_size) (\<lambda>x.
                         case x of
                           Inl e \<Rightarrow> fail (Because (''read release '' @ module_file) (By_repository e))
                         | Inr data \<Rightarrow> in_order
                             [write_proxy_file kit ''write release module metadata'' (prefix @ ''.mod'') data,
                              write_proxy_file kit ''write release module information'' (prefix @ ''.info'') (version_information md),
                              write_proxy_file kit ''write release module version list'' (path_join [directory, ''list''])
                                (release_version md @ [CHR 0x0A]),
                              and_do (on_world (rk_archive (gk_release kit) (prefix @ ''.zip'') (md_module_path md) (release_version md)
                                (path_join [rn_root rn, md_directory md]))) from_option]))))))"

definition build_release_proxy :: "gate_kit \<Rightarrow> runner \<Rightarrow> string \<Rightarrow> module_policy list \<Rightarrow> string act" where
  "build_release_proxy kit rn workspace mds =
     and_do (on_world (os_mkdir_temp (gk_os kit) workspace ''release-proxy-'')) (\<lambda>x.
       case x of
         Inl e \<Rightarrow> fail (Because ''create release proxy'' (By_io e))
       | Inr proxy \<Rightarrow> and_do (in_order (map (build_proxy_module kit rn proxy) mds)) (\<lambda>_. give proxy))"

definition consume_release :: "gate_kit \<Rightarrow> runner \<Rightarrow> string \<Rightarrow> string \<Rightarrow> module_policy \<Rightarrow> unit act" where
  "consume_release kit rn workspace proxy md =
     execute_or kit rn (''consume release module '' @ md_module_path md @ ''@'' @ release_version md)
       (gate_command_of Verifier_cache False ''go''
         [''list'', ''-m'', md_module_path md @ ''@'' @ release_version md] workspace
         [(''GOPROXY'', ''file://'' @ proxy), (''GOSUMDB'', ''off''), (''GOWORK'', ''off'')])"

definition release_rehearsal :: "gate_kit \<Rightarrow> runner \<Rightarrow> module_policy list \<Rightarrow> unit act" where
  "release_rehearsal kit rn mds =
     and_do (workspace_or (Refused ''release rehearsal requires a task-owned workspace'') rn) (\<lambda>workspace.
       and_do (check_release_tags kit rn mds) (\<lambda>_.
         and_do (build_release_proxy kit rn workspace mds) (\<lambda>proxy.
           in_order (map (consume_release kit rn workspace proxy) mds))))"

definition release_dry_run :: "gate_kit \<Rightarrow> runner \<Rightarrow> string list \<Rightarrow> unit act" where
  "release_dry_run kit rn selection =
     and_do (chosen_modules rn selection) (\<lambda>mds.
       and_do (security_phase kit rn mds True) (\<lambda>rn.
         and_do (release_rehearsal kit rn mds) (\<lambda>_.
           emit (Printed (''release candidate rehearsal passed; runtime qualification and published public consumption are not certified''
             @ [CHR 0x0A])))))"

end
