(* ===== verification/Gate_Fuzz.thy ===== *)
theory Gate_Fuzz
  imports Gate_Runner
begin

text \<open>
  internal/gates: the fuzz smoke of committed changes (fuzz\_smoke.go). The targets whose packages,
  dependencies or policy a change touches are selected over the package graph of the go command,
  compiled once per context, and run briefly behind the local verification.

  The deadlines only shorten the budget of the context. The texts of durations come from the kit,
  and so do \<open>path.Match\<close> and the decoder of the package graph.
\<close>

section \<open>Data\<close>

record fuzz_package =
  fp_import_path :: string
  fp_dir :: string
  fp_imports :: "string list"
  fp_test_imports :: "string list"
  fp_xtest_imports :: "string list"
  fp_cgo_files :: "string list"
  fp_native_files :: "string list list"
  fp_embed_files :: "string list"
  fp_test_embed_files :: "string list"
  fp_xtest_embed_files :: "string list"
  fp_embed_patterns :: "string list"
  fp_test_embed_patterns :: "string list"
  fp_xtest_embed_patterns :: "string list"
  fp_module :: "string option"
  fp_error :: string
  fp_deps_errors :: "string list"

type_synonym fuzz_graph = "(string \<times> fuzz_package) list"

record fuzz_target =
  ft_module :: module_policy
  ft_step :: step
  ft_directory :: string
  ft_compiler :: string

record prepared_fuzz =
  pf_binary :: string
  pf_directory :: string
  pf_cache :: string
  pf_compiler :: string
  pf_names :: "string option"

text \<open>\<open>fk_match\<close> is \<open>path.Match\<close> (\<open>None\<close>: a bad pattern), \<open>fk_elapsed\<close> the text of a duration,
  \<open>fk_executable\<close> says whether the operating system lets a file be run.\<close>

record fuzz_kit =
  fk_yaml :: "string \<Rightarrow> config yaml_next \<times> unit yaml_next"
  fk_manifests :: manifest_env
  fk_packages :: "string \<Rightarrow> fuzz_package json_next list"
  fk_match :: "string \<Rightarrow> string \<Rightarrow> bool option"
  fk_executable :: "world \<Rightarrow> string \<Rightarrow> bool"
  fk_search_path :: string
  fk_elapsed :: "world \<Rightarrow> string"

definition maximum_fuzz_candidates :: nat where "maximum_fuzz_candidates = 128"
definition maximum_fuzz_targets :: nat where "maximum_fuzz_targets = 32"
definition maximum_fuzz_package_bytes :: int where "maximum_fuzz_package_bytes = 16777216"
definition maximum_fuzz_packages :: nat where "maximum_fuzz_packages = 10000"

definition fuzz_command :: "gate_kit \<Rightarrow> runner \<Rightarrow> gate_command \<Rightarrow> int \<Rightarrow> string act" where
  "fuzz_command kit rn c limit =
     and_do check_ctx (\<lambda>_.
       and_do (captured_test_command kit rn c limit ''fuzz smoke command failed or exceeded its output budget'') (\<lambda>(out, ended).
         if ended then fail Stopped else give out))"

section \<open>The package graph\<close>

definition fuzz_package_ok :: "fuzz_package \<Rightarrow> bool" where
  "fuzz_package_ok p \<longleftrightarrow>
     \<not> (fp_import_path p = [] \<or> 4096 < length (fp_import_path p) \<or>
        \<not> is_abs (fp_dir p) \<or> path_clean (fp_dir p) \<noteq> fp_dir p \<or>
        fp_error p \<noteq> [] \<and> fp_error p \<noteq> ''null'' \<or> fp_deps_errors p \<noteq> [])"

text \<open>The loop over the decoded packages; the end of the list is the end of the input.\<close>

fun fuzz_packages :: "fuzz_graph \<Rightarrow> nat \<Rightarrow> fuzz_package json_next list \<Rightarrow> fuzz_graph act" where
  "fuzz_packages graph count [] = and_do check_ctx (\<lambda>_. give graph)"
| "fuzz_packages graph count (Json_eof # vs) = and_do check_ctx (\<lambda>_. give graph)"
| "fuzz_packages graph count (Json_failure # vs) =
     and_do check_ctx (\<lambda>_. fail (Refused ''fuzz smoke package discovery is invalid or incomplete''))"
| "fuzz_packages graph count (Json_value p # vs) =
     and_do check_ctx (\<lambda>_.
       if maximum_fuzz_packages \<le> count \<or> \<not> fuzz_package_ok p
       then fail (Refused ''fuzz smoke package discovery is invalid or incomplete'')
       else if map_of graph (fp_import_path p) \<noteq> None
       then fail (Refused ''fuzz smoke package discovery contains duplicate identities'')
       else fuzz_packages (graph @ [(fp_import_path p, p)]) (Suc count) vs)"

definition fuzz_package_graph ::
  "gate_kit \<Rightarrow> fuzz_kit \<Rightarrow> runner \<Rightarrow> module_policy \<Rightarrow> string list \<Rightarrow> fuzz_graph act" where
  "fuzz_package_graph kit fk rn md packages =
     and_do (fuzz_command kit rn (gate_command_of Native_repository_cache False ''go''
         ([''list'', ''-deps'', ''-test'', ''-json''] @ tags_argument (md_test_tags md) @ packages)
         (module_root rn md) gowork_off) maximum_fuzz_package_bytes) (\<lambda>data.
       and_do (fuzz_packages [] 0 (fk_packages fk data)) (\<lambda>graph.
         if graph = [] then fail (Refused ''fuzz smoke package discovery is empty'') else give graph))"

section \<open>What a change touches\<close>

definition fuzz_source_input :: "string \<Rightarrow> bool \<Rightarrow> bool" where
  "fuzz_source_input name include_tests =
     (if has_suffix name ''_test.go'' then include_tests
      else List.member [''.go'', ''.c'', ''.cc'', ''.cpp'', ''.cxx'', ''.m'', ''.h'', ''.hh'', ''.hpp'', ''.hxx'', ''.f'', ''.F'',
             ''.for'', ''.f90'', ''.s'', ''.S'', ''.sx'', ''.swig'', ''.swigcxx'', ''.syso''] (path_ext name))"

text \<open>The candidate and its directories, up to the dot; a path has at most as many as it has bytes.\<close>

fun candidate_directories :: "nat \<Rightarrow> string \<Rightarrow> string list" where
  "candidate_directories 0 candidate = []"
| "candidate_directories (Suc n) candidate =
     (if candidate = ''.'' then [] else candidate # candidate_directories n (path_dir candidate))"

definition pattern_touched :: "fuzz_kit \<Rightarrow> string \<Rightarrow> string \<Rightarrow> string \<Rightarrow> bool" where
  "pattern_touched fk directory change pattern =
     (let pattern = trim_prefix pattern ''all:''
      in if directory \<noteq> ''.'' \<and> \<not> has_prefix change (directory @ ''/'') then False
         else (let candidate = (if directory = ''.'' then change else trim_prefix change (directory @ ''/''))
               in list_ex (\<lambda>c. fk_match fk pattern c = Some True) (candidate_directories (length candidate) candidate)))"

definition fuzz_embeds :: "bool \<Rightarrow> fuzz_package \<Rightarrow> string list \<times> string list" where
  "fuzz_embeds selected p =
     (fp_embed_files p @ (if selected then fp_test_embed_files p @ fp_xtest_embed_files p else []),
      fp_embed_patterns p @ (if selected then fp_test_embed_patterns p @ fp_xtest_embed_patterns p else []))"

definition change_touches :: "fuzz_kit \<Rightarrow> bool \<Rightarrow> fuzz_package \<Rightarrow> string \<Rightarrow> string \<Rightarrow> bool" where
  "change_touches fk selected p directory change \<longleftrightarrow>
     path_dir change = directory \<and>
       (fuzz_source_input change selected \<or> List.member (concat (fp_native_files p)) (path_base change)) \<or>
     has_prefix change (path_join [directory, ''testdata''] @ ''/'') \<or>
     list_ex (\<lambda>f. change = path_join [directory, f]) (fst (fuzz_embeds selected p)) \<or>
     list_ex (pattern_touched fk directory change) (snd (fuzz_embeds selected p))"

fun changes_touch ::
  "fuzz_kit \<Rightarrow> bool \<Rightarrow> fuzz_package \<Rightarrow> string \<Rightarrow> bool \<Rightarrow> string list \<Rightarrow> bool act" where
  "changes_touch fk selected p directory affected [] = give affected"
| "changes_touch fk selected p directory affected (change # changes) =
     and_do check_ctx (\<lambda>_.
       if list_ex (\<lambda>pattern. fk_match fk (trim_prefix pattern ''all:'') [] = None) (snd (fuzz_embeds selected p))
       then fail (Refused ''fuzz smoke embed pattern is invalid'')
       else changes_touch fk selected p directory (affected \<or> change_touches fk selected p directory change) changes)"

text \<open>The directory of a package below the root, or below the resolved root.\<close>

definition inside :: "string option \<Rightarrow> string option" where
  "inside relative =
     (case relative of None \<Rightarrow> None | Some r \<Rightarrow> if r = ''..'' \<or> has_prefix r ''../'' then None else Some r)"

definition fuzz_directory :: "string \<Rightarrow> string \<Rightarrow> fuzz_package \<Rightarrow> string option" where
  "fuzz_directory base canonical p =
     (case inside (path_rel base (fp_dir p)) of Some r \<Rightarrow> Some r | None \<Rightarrow> inside (path_rel canonical (fp_dir p)))"

definition module_file_changed :: "string \<Rightarrow> string list \<Rightarrow> bool" where
  "module_file_changed directory changes \<longleftrightarrow>
     list_ex (\<lambda>change. change = path_join [directory, ''go.mod''] \<or> change = path_join [directory, ''go.sum'']) changes"

definition owner_changed :: "runner \<Rightarrow> string list \<Rightarrow> fuzz_package \<Rightarrow> bool" where
  "owner_changed rn changes p \<longleftrightarrow>
     (case fp_module p of
        None \<Rightarrow> False
      | Some path \<Rightarrow> list_ex (\<lambda>owner. md_module_path owner = path \<and> module_file_changed (md_directory owner) changes)
          (runner_modules rn))"

section \<open>The packages a target is built from\<close>

definition fuzz_dependencies :: "fuzz_graph \<Rightarrow> string \<Rightarrow> string \<Rightarrow> fuzz_package \<Rightarrow> string list" where
  "fuzz_dependencies graph target current p =
     filter (\<lambda>d. \<not> (d = ''C'' \<and> fp_cgo_files p \<noteq> [])) (fp_imports p) @
     (if current \<noteq> target then []
      else (case map_of graph (target @ ''.test'') of
              Some test \<Rightarrow> fp_imports test
            | None \<Rightarrow> fp_test_imports p @ fp_xtest_imports p))"

text \<open>What the queue delivers, one by one: it ends when it is empty, or behind a package that the graph
  does not have.\<close>

function fuzz_queue :: "fuzz_graph \<Rightarrow> string \<Rightarrow> string list \<Rightarrow> string list \<Rightarrow> string list" where
  "fuzz_queue graph target seen [] = []"
| "fuzz_queue graph target seen (current # queue) =
     current #
     (if current \<in> set seen then fuzz_queue graph target seen queue
      else (case map_of graph current of
              None \<Rightarrow> []
            | Some p \<Rightarrow> fuzz_queue graph target (current # seen) (queue @ fuzz_dependencies graph target current p)))"
  by pat_completeness auto

termination
proof (relation "measures [\<lambda>(graph, target, seen, queue). card (fst ` set graph - set seen), \<lambda>(graph, target, seen, queue). length queue]")
  fix graph :: fuzz_graph and target current :: string and seen queue :: "string list" and p :: fuzz_package
  assume "current \<notin> set seen" and "map_of graph current = Some p"
  then have "current \<in> fst ` set graph - set seen" by (auto dest: map_of_SomeD intro: rev_image_eqI)
  then have "card (fst ` set graph - set (current # seen)) < card (fst ` set graph - set seen)"
    by (intro psubset_card_mono) auto
  then show "((graph, target, current # seen, queue @ fuzz_dependencies graph target current p), graph, target, seen, current # queue)
    \<in> measures [\<lambda>(graph, target, seen, queue). card (fst ` set graph - set seen), \<lambda>(graph, target, seen, queue). length queue]"
    by simp
qed simp_all

definition package_step ::
  "fuzz_kit \<Rightarrow> runner \<Rightarrow> string \<Rightarrow> string list \<Rightarrow> bool \<Rightarrow> bool \<Rightarrow> fuzz_package \<Rightarrow> bool act" where
  "package_step fk rn canonical changes affected selected p =
     (case fuzz_directory (rn_root rn) canonical p of
        None \<Rightarrow> give (affected \<or> owner_changed rn changes p)
      | Some directory \<Rightarrow> changes_touch fk selected p directory (affected \<or> owner_changed rn changes p) changes)"

text \<open>The body of the loop over what the queue delivers.\<close>

fun visit_packages ::
  "fuzz_kit \<Rightarrow> runner \<Rightarrow> string \<Rightarrow> string \<Rightarrow> fuzz_graph \<Rightarrow> string list \<Rightarrow> string list \<Rightarrow> bool \<Rightarrow> string list \<Rightarrow> bool act" where
  "visit_packages fk rn canonical target graph changes seen affected [] = give affected"
| "visit_packages fk rn canonical target graph changes seen affected (current # rest) =
     and_do check_ctx (\<lambda>_.
       if current \<in> set seen then visit_packages fk rn canonical target graph changes seen affected rest
       else (case map_of graph current of
               None \<Rightarrow> fail (Refused ''fuzz smoke package dependency is missing'')
             | Some p \<Rightarrow>
                 and_do (package_step fk rn canonical changes affected (current = target) p) (\<lambda>affected.
                   visit_packages fk rn canonical target graph changes (current # seen) affected rest)))"

definition fuzz_target_affected ::
  "gate_kit \<Rightarrow> fuzz_kit \<Rightarrow> runner \<Rightarrow> module_policy \<Rightarrow> string \<Rightarrow> fuzz_graph \<Rightarrow> string list \<Rightarrow> bool act" where
  "fuzz_target_affected kit fk rn md target graph changes =
     and_do (see_world (\<lambda>w. mk_symlinks (gk_mutation kit) w (rn_root rn))) (\<lambda>canonical.
       case canonical of
         None \<Rightarrow> fail (Refused ''fuzz smoke repository root cannot be resolved'')
       | Some canonical \<Rightarrow>
           visit_packages fk rn canonical target graph changes []
             (List.member changes ''.go-version'' \<or> module_file_changed (md_directory md) changes)
             (fuzz_queue graph target [] [target]))"

section \<open>Changes of the policy\<close>

definition fuzz_policy_identity :: "string \<Rightarrow> step \<Rightarrow> string" where
  "fuzz_policy_identity md s = md @ [CHR 0x00] @ path_clean (hd (st_packages s)) @ [CHR 0x00] @ st_fuzz s"

definition normalized_fuzz_step :: "step \<Rightarrow> step" where
  "normalized_fuzz_step s =
     s\<lparr>st_packages := [path_clean (hd (st_packages s))], st_budget := ''2s'', st_timeout := ''15s'', st_count := 1\<rparr>"

definition fuzz_package_inputs :: "module_policy \<Rightarrow> (string \<times> string \<times> string \<times> string list option) list" where
  "fuzz_package_inputs md =
     fold (\<lambda>p. map_set (pk_directory p) (pk_module_directory p, pk_import_path p, pk_build_tags p)) (md_packages md) []"

definition same_map :: "('k \<times> 'v) list \<Rightarrow> ('k \<times> 'v) list \<Rightarrow> bool" where
  "same_map m n \<longleftrightarrow>
     list_all (\<lambda>(k, v). map_of n k = map_of m k) m \<and> list_all (\<lambda>(k, v). map_of m k = map_of n k) n"

definition same_fuzz_inputs :: "module_policy \<Rightarrow> module_policy \<Rightarrow> bool" where
  "same_fuzz_inputs before after \<longleftrightarrow>
     md_module_path before = md_module_path after \<and> md_go_version before = md_go_version after \<and>
     gate_on before ''fuzz'' = gate_on after ''fuzz'' \<and>
     md_test_tags before = md_test_tags after \<and> md_build_tags before = md_build_tags after \<and>
     md_required_services before = md_required_services after \<and>
     md_owned_dependencies before = md_owned_dependencies after \<and>
     same_map (fuzz_package_inputs before) (fuzz_package_inputs after)"

definition read_policy :: "gate_kit \<Rightarrow> fuzz_kit \<Rightarrow> runner \<Rightarrow> string \<Rightarrow> config act" where
  "read_policy kit fk rn commit =
     and_do (run_change_git kit rn [''show'', commit @ '':.golib.yaml'']) (\<lambda>data.
       case decode_config (fk_yaml fk) (gk_duration kit) (gk_selector_syntax kit) data of
         Inl e \<Rightarrow> fail (Refused ''fuzz smoke historical policy is invalid or exceeds its size budget'')
       | Inr policy \<Rightarrow> give policy)"

definition read_catalog :: "gate_kit \<Rightarrow> fuzz_kit \<Rightarrow> runner \<Rightarrow> string \<Rightarrow> config \<Rightarrow> inventory act" where
  "read_catalog kit fk rn commit policy =
     and_do (run_change_git kit rn [''show'', commit @ '':'' @ m_modules (cf_manifests policy)]) (\<lambda>modules.
       and_do (run_change_git kit rn [''show'', commit @ '':'' @ m_packages (cf_manifests policy)]) (\<lambda>packages.
         case decode_inventory (fk_manifests fk) policy modules packages of
           (catalog, Some e) \<Rightarrow> fail (Refused ''fuzz smoke historical inventory is invalid or exceeds its size budget'')
         | (catalog, None) \<Rightarrow> give catalog))"

definition material_modules :: "inventory \<Rightarrow> inventory \<Rightarrow> (string \<times> bool) list" where
  "material_modules old_catalog new_catalog =
     fold (\<lambda>md. map_set (md_directory md)
         (case find (\<lambda>o'. md_directory o' = md_directory md) (rev (inv_modules old_catalog)) of
            None \<Rightarrow> True
          | Some old \<Rightarrow> iv_go_version old_catalog \<noteq> iv_go_version new_catalog \<or> \<not> same_fuzz_inputs old md))
       (inv_modules new_catalog) []"

definition changed_catalog ::
  "gate_kit \<Rightarrow> fuzz_kit \<Rightarrow> runner \<Rightarrow> change_range \<Rightarrow> config \<Rightarrow> config \<Rightarrow> (string \<times> bool) list act" where
  "changed_catalog kit fk rn bounds before after =
     and_do (read_catalog kit fk rn (cr_base bounds) before) (\<lambda>old_catalog.
       and_do (read_catalog kit fk rn (cr_head bounds) after) (\<lambda>new_catalog.
         if new_catalog \<noteq> rn_catalog rn then fail (Refused ''fuzz smoke inventory differs from immutable HEAD'')
         else give (material_modules old_catalog new_catalog)))"

text \<open>The steps of the fuzz operations, with their modules.\<close>

definition fuzz_policy_steps :: "config \<Rightarrow> (string \<times> step) list" where
  "fuzz_policy_steps policy =
     concat (map (\<lambda>op. map (Pair (op_module op))
         (filter (\<lambda>s. st_type s = ''go-test'' \<and> st_fuzz s \<noteq> [] \<and> length (st_packages s) = 1) (op_steps op)))
       (filter (\<lambda>op. op_gate op = ''fuzz'') (cf_operations policy)))"

definition selected_by_policy :: "config \<Rightarrow> config \<Rightarrow> (string \<times> bool) list \<Rightarrow> (string \<times> bool) list" where
  "selected_by_policy before after material =
     (let previous = fold (\<lambda>(md, s). map_set (fuzz_policy_identity md s) (normalized_fuzz_step s)) (fuzz_policy_steps before) []
      in fold (\<lambda>(md, s). map_set (fuzz_policy_identity md s)
             (map_of material md = Some True \<or> cf_runtimes before \<noteq> cf_runtimes after \<or>
              map_of previous (fuzz_policy_identity md s) \<noteq> Some (normalized_fuzz_step s)))
           (fuzz_policy_steps after) [])"

definition changed_fuzz_policy ::
  "gate_kit \<Rightarrow> fuzz_kit \<Rightarrow> runner \<Rightarrow> string list \<Rightarrow> (string \<times> bool) list act" where
  "changed_fuzz_policy kit fk rn changes =
     (let policy_changed = List.member changes ''.golib.yaml'';
          catalog_changed = List.member changes (m_modules (cf_manifests (rn_policy rn))) \<or>
                            List.member changes (m_packages (cf_manifests (rn_policy rn)))
      in if \<not> policy_changed \<and> \<not> catalog_changed then give []
         else (case rn_secret_changes rn of
                 None \<Rightarrow> fail (Refused ''fuzz smoke policy requires an immutable Git range'')
               | Some bounds \<Rightarrow>
                   and_do (if policy_changed then read_policy kit fk rn (cr_base bounds) else give (rn_policy rn)) (\<lambda>before.
                     and_do (if policy_changed then read_policy kit fk rn (cr_head bounds) else give (rn_policy rn)) (\<lambda>after.
                       if after \<noteq> rn_policy rn then fail (Refused ''fuzz smoke policy differs from immutable HEAD'')
                       else and_do (if catalog_changed \<or> cf_manifests before \<noteq> cf_manifests after
                                    then changed_catalog kit fk rn bounds before after else give []) (\<lambda>material.
                              and_do check_ctx (\<lambda>_. give (selected_by_policy before after material)))))))"

text \<open>
  internal/gates: the selection of the targets, their compilation and their run (fuzz\_smoke.go,
  \<open>LocalChanges\<close>).
\<close>

section \<open>The targets\<close>

text \<open>The steps of one module: their count and their packages, once each.\<close>

fun fuzz_candidates :: "nat \<Rightarrow> string list \<Rightarrow> step list \<Rightarrow> gate_error + nat \<times> string list" where
  "fuzz_candidates candidates packages [] = Inr (candidates, packages)"
| "fuzz_candidates candidates packages (s # ss) =
     (if st_type s \<noteq> ''go-test'' \<or> st_fuzz s = [] \<or> length (st_packages s) \<noteq> 1 \<or> has_suffix (hd (st_packages s)) ''/...''
      then Inl (Refused ''fuzz smoke requires configured single-package Go fuzz targets'')
      else if maximum_fuzz_candidates < Suc candidates then Inl (Refused ''fuzz smoke candidate limit exceeded'')
      else fuzz_candidates (Suc candidates)
             (if List.member packages (hd (st_packages s)) then packages else packages @ [hd (st_packages s)]) ss)"

definition fuzz_import_path :: "module_policy \<Rightarrow> step \<Rightarrow> string" where
  "fuzz_import_path md s =
     (let suffix = trim_prefix (hd (st_packages s)) ''./''
      in if suffix = ''.'' then md_module_path md else md_module_path md @ ''/'' @ suffix)"

text \<open>\<open>graph[importPath].Dir\<close>: a missing entry has an empty directory.\<close>

definition graph_directory :: "fuzz_graph \<Rightarrow> string \<Rightarrow> string" where
  "graph_directory graph path = (case map_of graph path of None \<Rightarrow> [] | Some p \<Rightarrow> fp_dir p)"

definition fuzz_compiler :: "fuzz_graph \<Rightarrow> string" where
  "fuzz_compiler graph =
     (case map_of graph ''runtime'' of None \<Rightarrow> [] | Some p \<Rightarrow> path_join [path_dir (path_dir (fp_dir p)), ''bin''])"

definition fuzz_target_identity :: "module_policy \<Rightarrow> step \<Rightarrow> string" where
  "fuzz_target_identity md s = md_directory md @ [CHR 0x00] @ hd (st_packages s) @ [CHR 0x00] @ st_fuzz s"

definition identity_of :: "fuzz_target \<Rightarrow> string" where
  "identity_of t = fuzz_target_identity (ft_module t) (ft_step t)"

fun fuzz_step_targets ::
  "gate_kit \<Rightarrow> fuzz_kit \<Rightarrow> runner \<Rightarrow> string list \<Rightarrow> (string \<times> bool) list \<Rightarrow> module_policy \<Rightarrow> fuzz_graph
    \<Rightarrow> fuzz_target list \<Rightarrow> step list \<Rightarrow> fuzz_target list act" where
  "fuzz_step_targets kit fk rn changes policy md graph targets [] = give targets"
| "fuzz_step_targets kit fk rn changes policy md graph targets (s # ss) =
     and_do (fuzz_target_affected kit fk rn md (fuzz_import_path md s) graph changes) (\<lambda>affected.
       if (affected \<or> map_of policy (fuzz_policy_identity (md_directory md) s) = Some True) \<and>
          \<not> List.member (map identity_of targets) (fuzz_target_identity md s)
       then (let t = \<lparr>ft_module = md, ft_step = s, ft_directory = graph_directory graph (fuzz_import_path md s),
                      ft_compiler = fuzz_compiler graph\<rparr>
             in if maximum_fuzz_targets < Suc (length targets)
                then fail (Refused ''fuzz smoke target limit exceeded; review the affected target scope'')
                else fuzz_step_targets kit fk rn changes policy md graph (targets @ [t]) ss)
       else fuzz_step_targets kit fk rn changes policy md graph targets ss)"

fun fuzz_module_targets ::
  "gate_kit \<Rightarrow> fuzz_kit \<Rightarrow> runner \<Rightarrow> string list \<Rightarrow> (string \<times> bool) list \<Rightarrow> nat \<Rightarrow> fuzz_target list
    \<Rightarrow> module_policy list \<Rightarrow> fuzz_target list act" where
  "fuzz_module_targets kit fk rn changes policy candidates targets [] = give targets"
| "fuzz_module_targets kit fk rn changes policy candidates targets (md # mds) =
     (case find_operation rn (md_directory md) ''fuzz'' of
        None \<Rightarrow> fuzz_module_targets kit fk rn changes policy candidates targets mds
      | Some op \<Rightarrow>
          (case fuzz_candidates candidates [] (op_steps op) of
             Inl e \<Rightarrow> fail e
           | Inr (candidates, packages) \<Rightarrow>
               and_do (fuzz_package_graph kit fk rn md packages) (\<lambda>graph.
                 and_do (fuzz_step_targets kit fk rn changes policy md graph targets (op_steps op)) (\<lambda>targets.
                   fuzz_module_targets kit fk rn changes policy candidates targets mds))))"

definition fuzz_targets ::
  "gate_kit \<Rightarrow> fuzz_kit \<Rightarrow> runner \<Rightarrow> string list \<Rightarrow> module_policy list \<Rightarrow> fuzz_target list act" where
  "fuzz_targets kit fk rn changes mds =
     and_do (changed_fuzz_policy kit fk rn changes) (\<lambda>policy.
       fuzz_module_targets kit fk rn changes policy 0 [] mds)"

section \<open>Compilation\<close>

definition fuzz_context_identity :: "module_policy \<Rightarrow> step \<Rightarrow> string" where
  "fuzz_context_identity md s =
     md_directory md @ [CHR 0x00] @ path_clean (hd (st_packages s)) @ [CHR 0x00] @ join_with '','' (md_test_tags md) @
     [CHR 0x00] @ (if st_race s then ''true'' else ''false'')"

definition prepare_fuzz_smoke ::
  "gate_kit \<Rightarrow> fuzz_kit \<Rightarrow> runner \<Rightarrow> string \<Rightarrow> fuzz_target \<Rightarrow> prepared_fuzz act" where
  "prepare_fuzz_smoke kit fk rn scratch t =
     and_do check_ctx (\<lambda>_.
       and_do (make_directory_inside kit scratch ''context-'') (\<lambda>made.
         case made of
           Inl e \<Rightarrow> fail (Refused ''fuzz smoke compilation workspace cannot be created'')
         | Inr directory \<Rightarrow>
             (let prepared = \<lparr>pf_binary = path_join [directory, ''smoke.test.exe''], pf_directory = ft_directory t,
                              pf_cache = path_join [directory, ''corpus''], pf_compiler = ft_compiler t, pf_names = None\<rparr>
              in and_do (on_world (os_mkdir (gk_os kit) (pf_cache prepared))) (\<lambda>made.
                   if made \<noteq> None then fail (Refused ''fuzz smoke corpus workspace cannot be created'')
                   else and_do (fuzz_command kit rn (gate_command_of Native_repository_cache False ''go''
                          ([''test'', ''-c'', ''-fuzz=^Fuzz'', ''-o'', pf_binary prepared, ''-p=1''] @
                           (if st_race (ft_step t) then [''-race''] else []) @ tags_argument (md_test_tags (ft_module t)) @
                           [hd (st_packages (ft_step t))]) (module_root rn (ft_module t)) gowork_off)
                          maximum_security_process_output) (\<lambda>_.
                     and_do (lstat_act kit (pf_binary prepared)) (\<lambda>info.
                       and_do (see_world (\<lambda>w. fk_executable fk w (pf_binary prepared))) (\<lambda>executable.
                         if (case info of Inr (Some i) \<Rightarrow> fi_kind i = Kind_regular | _ \<Rightarrow> False) \<and> executable \<and>
                            is_abs (pf_directory prepared)
                         then give prepared
                         else fail (Refused ''fuzz smoke compiled binary or package directory is invalid''))))))))"

text \<open>Each context is prepared once, for its first target.\<close>

fun prepare_contexts ::
  "gate_kit \<Rightarrow> fuzz_kit \<Rightarrow> runner \<Rightarrow> string \<Rightarrow> (string \<times> prepared_fuzz) list \<Rightarrow> fuzz_target list
    \<Rightarrow> (string \<times> prepared_fuzz) list act" where
  "prepare_contexts kit fk rn scratch prepared [] = and_do check_ctx (\<lambda>_. give prepared)"
| "prepare_contexts kit fk rn scratch prepared (t # ts) =
     (if map_of prepared (fuzz_context_identity (ft_module t) (ft_step t)) \<noteq> None
      then prepare_contexts kit fk rn scratch prepared ts
      else and_do (prepare_fuzz_smoke kit fk rn scratch t) (\<lambda>p.
             prepare_contexts kit fk rn scratch (map_set (fuzz_context_identity (ft_module t) (ft_step t)) p prepared) ts))"

section \<open>The run\<close>

definition prepared_command :: "fuzz_kit \<Rightarrow> prepared_fuzz \<Rightarrow> string list \<Rightarrow> gate_command" where
  "prepared_command fk p arguments =
     gate_command_of Native_repository_cache False (pf_binary p) arguments (pf_directory p)
       (gowork_off @ [(''PWD'', pf_directory p)] @
        (if pf_compiler p = [] then [] else [(''PATH'', pf_compiler p @ '':'' @ fk_search_path fk)]))"

definition list_fuzz_names :: "gate_kit \<Rightarrow> fuzz_kit \<Rightarrow> runner \<Rightarrow> prepared_fuzz \<Rightarrow> string act" where
  "list_fuzz_names kit fk rn p =
     (case pf_names p of
        Some names \<Rightarrow> give names
      | None \<Rightarrow> fuzz_command kit rn (prepared_command fk p
          [''-test.run=^$'', ''-test.list=^Fuzz'', ''-test.count=1'', ''-test.timeout=15s'', ''-test.paniconexit0''])
          maximum_security_process_output)"

definition fuzz_arguments :: "prepared_fuzz \<Rightarrow> step \<Rightarrow> string list" where
  "fuzz_arguments p s =
     [''-test.run=^$'', ''-test.fuzz='' @ st_fuzz s, ''-test.fuzztime=2s'', ''-test.timeout=15s'', ''-test.count=1'',
      ''-test.parallel=2'', ''-test.fuzzcachedir='' @ pf_cache p, ''-test.paniconexit0'']"

definition fuzz_matches :: "(string \<Rightarrow> bool) \<Rightarrow> string \<Rightarrow> nat" where
  "fuzz_matches selector names =
     length (filter (\<lambda>line. has_prefix line ''Fuzz'' \<and> selector line) (split_on CHR 0x0A names))"

definition fuzz_smoke_step ::
  "gate_kit \<Rightarrow> fuzz_kit \<Rightarrow> runner \<Rightarrow> prepared_fuzz \<Rightarrow> step \<Rightarrow> prepared_fuzz act" where
  "fuzz_smoke_step kit fk rn p s =
     and_do (list_fuzz_names kit fk rn p) (\<lambda>names.
       case gk_selector kit (st_fuzz s) of
         None \<Rightarrow> fail (Refused ''fuzz smoke target selector is invalid'')
       | Some selector \<Rightarrow>
           if fuzz_matches selector names \<noteq> 1
           then fail (Refused ''fuzz smoke target must resolve to exactly one test'')
           else and_do (fuzz_command kit rn (prepared_command fk p (fuzz_arguments p s)) maximum_security_process_output)
                  (\<lambda>_. give (p\<lparr>pf_names := Some names\<rparr>)))"

text \<open>The steps of one module. A context is of one module, so that the names it has listed are of no use
  to another.\<close>

fun fuzz_smoke_steps ::
  "gate_kit \<Rightarrow> fuzz_kit \<Rightarrow> runner \<Rightarrow> (string \<times> prepared_fuzz) list \<Rightarrow> module_policy \<Rightarrow> step list \<Rightarrow> unit act" where
  "fuzz_smoke_steps kit fk rn prepared md [] = give ()"
| "fuzz_smoke_steps kit fk rn prepared md (s # ss) =
     (case map_of prepared (fuzz_context_identity md s) of
        None \<Rightarrow> fail (Refused ''invalid memory address or nil pointer dereference'')
      | Some p \<Rightarrow>
          and_do (fuzz_smoke_step kit fk rn p s) (\<lambda>p.
            fuzz_smoke_steps kit fk rn (map_set (fuzz_context_identity md s) p prepared) md ss))"

definition module_steps :: "fuzz_target list \<Rightarrow> module_policy \<Rightarrow> step list" where
  "module_steps targets md = map ft_step (filter (\<lambda>t. md_directory (ft_module t) = md_directory md) targets)"

definition smoke_module ::
  "gate_kit \<Rightarrow> fuzz_kit \<Rightarrow> runner \<Rightarrow> fuzz_target list \<Rightarrow> (string \<times> prepared_fuzz) list \<Rightarrow> module_policy \<Rightarrow> unit act" where
  "smoke_module kit fk rn targets prepared md =
     (if module_steps targets md = [] then give ()
      else in_order
        [with_module_services kit rn md (\<lambda>scoped. fuzz_smoke_steps kit fk scoped prepared md (module_steps targets md)),
         emit (Printed (CHR 0x5B # md_directory md @ ''] fuzz-smoke: '' @ dec_nat (length (module_steps targets md)) @
           '' affected configured targets passed'' @ [CHR 0x0A]))])"

definition smoke_modules ::
  "gate_kit \<Rightarrow> fuzz_kit \<Rightarrow> runner \<Rightarrow> fuzz_target list \<Rightarrow> (string \<times> prepared_fuzz) list \<Rightarrow> module_policy list \<Rightarrow> unit act" where
  "smoke_modules kit fk rn targets prepared mds =
     and_do (in_order (map (smoke_module kit fk rn targets prepared) mds)) (\<lambda>_. check_ctx)"

section \<open>Changed inputs\<close>

definition timed_line :: "fuzz_kit \<Rightarrow> string \<Rightarrow> string \<Rightarrow> unit act" where
  "timed_line fk before after = and_do (see_world (fk_elapsed fk)) (\<lambda>elapsed.
     emit (Printed (before @ elapsed @ after @ [CHR 0x0A])))"

text \<open>A step that ends the preparation before the execution has started.\<close>

definition not_started :: "fuzz_kit \<Rightarrow> unit act \<Rightarrow> unit act" where
  "not_started fk m =
     and_do (attempt m) (\<lambda>x.
       and_do (timed_line fk ''fuzz-smoke preparation: '' '' (5m ceiling; execution not started)'') (\<lambda>_.
         from_option (error_of x)))"

definition remove_scratch :: "gate_kit \<Rightarrow> string \<Rightarrow> gate_error + unit \<Rightarrow> unit act" where
  "remove_scratch kit scratch x =
     and_do (remove_temporary_directory kit scratch) (\<lambda>kept.
       from_option (case kept of
         None \<Rightarrow> error_of x
       | Some _ \<Rightarrow> join_errors [error_of x, Some (Refused ''fuzz smoke temporary workspace cleanup failed'')]))"

definition smoke_prepared ::
  "gate_kit \<Rightarrow> fuzz_kit \<Rightarrow> runner \<Rightarrow> fuzz_target list \<Rightarrow> module_policy list \<Rightarrow> string
    \<Rightarrow> gate_error + (string \<times> prepared_fuzz) list \<Rightarrow> unit act" where
  "smoke_prepared kit fk rn targets mds scratch x =
     (case x of
        Inl e \<Rightarrow> not_started fk (remove_scratch kit scratch (Inl e))
      | Inr prepared \<Rightarrow>
          and_do (timed_line fk (''fuzz-smoke preparation: '' @ dec_nat (length prepared) @ '' instrumented contexts for '' @
              dec_nat (length targets) @ '' selected targets in '') '' (5m ceiling)'') (\<lambda>_.
            and_do (attempt (smoke_modules kit fk rn targets prepared mds)) (\<lambda>y.
              and_do (timed_line fk ''fuzz-smoke execution and cleanup: '' '' (3m execution ceiling)'') (\<lambda>_.
                remove_scratch kit scratch y))))"

definition smoke_targets ::
  "gate_kit \<Rightarrow> fuzz_kit \<Rightarrow> runner \<Rightarrow> fuzz_target list \<Rightarrow> module_policy list \<Rightarrow> unit act" where
  "smoke_targets kit fk rn targets mds =
     and_do (attempt (workspace_or (Refused ''fuzz smoke requires an owned temporary workspace'') rn)) (\<lambda>x.
       case x of
         Inl e \<Rightarrow> not_started fk (fail e)
       | Inr workspace \<Rightarrow>
           and_do (make_temporary_directory kit workspace ''fuzz-smoke-'') (\<lambda>made.
             case made of
               Inl e \<Rightarrow> not_started fk (fail (Refused ''fuzz smoke temporary workspace cannot be created''))
             | Inr scratch \<Rightarrow>
                 and_do (attempt (prepare_contexts kit fk rn scratch [] targets)) (smoke_prepared kit fk rn targets mds scratch)))"

definition fuzz_smoke ::
  "gate_kit \<Rightarrow> fuzz_kit \<Rightarrow> runner \<Rightarrow> string list \<Rightarrow> module_policy list \<Rightarrow> unit act" where
  "fuzz_smoke kit fk rn changes mds =
     and_do (attempt (fuzz_targets kit fk rn changes mds)) (\<lambda>x.
       case x of
         Inl e \<Rightarrow> not_started fk (fail e)
       | Inr targets \<Rightarrow> if targets = [] then not_started fk check_ctx else smoke_targets kit fk rn targets mds)"

definition local_changes :: "gate_kit \<Rightarrow> fuzz_kit \<Rightarrow> runner \<Rightarrow> string list \<Rightarrow> string \<Rightarrow> unit act" where
  "local_changes kit fk rn selection base =
     and_do (committed_changes_act kit rn base ''HEAD'') (\<lambda>changes.
       and_do (chosen_modules rn selection) (\<lambda>mds.
         and_do (prepare_secret_changes kit rn base changes) (\<lambda>rn.
           and_do (secrets kit rn) (\<lambda>_.
             and_do (local kit (rn\<lparr>rn_secrets_scanned := True\<rparr>) selection) (\<lambda>_.
               when_gate (changes \<noteq> []) (fuzz_smoke kit fk (rn\<lparr>rn_secrets_scanned := True\<rparr>) changes mds))))))"

end
