(* ===== verification/Gate_Laws.thy ===== *)
theory Gate_Laws
  imports Gate_Runner
begin

text \<open>
  Laws of the steps of a run.

  A law is a relation between the state before and behind a step that a step may be shown to obey
  whatever it returns. The locale \<open>run_law\<close> states what a relation must satisfy so that the
  composition of obeying steps obeys; its lemmas are the rules that the proofs about the gates
  are made of. Three laws are interpreted: a step announces nothing, a step executes scanners
  only, and a step removes what it makes.
\<close>

section \<open>Obeying a law\<close>

definition obeys :: "(run \<Rightarrow> run \<Rightarrow> bool) \<Rightarrow> 'a act \<Rightarrow> bool" where
  "obeys R m \<longleftrightarrow> (\<forall>r. R r (fst (m r)))"

lemma obeysI: "(\<And>r. R r (fst (m r))) \<Longrightarrow> obeys R m"
  by (simp add: obeys_def)

lemma obeysD: "obeys R m \<Longrightarrow> m r = (r', x) \<Longrightarrow> R r r'"
  by (metis fst_conv obeys_def)

named_theorems law_steps

locale run_law =
  fixes R :: "run \<Rightarrow> run \<Rightarrow> bool"
  assumes law_refl: "R r r"
    and law_trans: "R r s \<Longrightarrow> R s t \<Longrightarrow> R r t"
    and law_world: "R r (r\<lparr>rn_world := w\<rparr>)"
    and law_ctx: "R r (r\<lparr>rn_ctx := c\<rparr>)"
begin

lemma give: "obeys R (give x)"
  by (simp add: obeys_def give_def law_refl)

lemma fail: "obeys R (fail e)"
  by (simp add: obeys_def fail_def law_refl)

lemma and_do:
  assumes "obeys R m" and "\<And>x. obeys R (f x)"
  shows "obeys R (and_do m f)"
proof (rule obeysI)
  fix r
  show "R r (fst (and_do m f r))"
  proof (cases "m r")
    case (Pair s x)
    have "R r s" using assms(1) Pair by (rule obeysD)
    moreover have "R s (fst (f y s))" for y using assms(2) by (simp add: obeys_def)
    ultimately show ?thesis using Pair by (auto simp: and_do_def intro: law_trans split: sum.splits)
  qed
qed

lemma attempt: "obeys R m \<Longrightarrow> obeys R (attempt m)"
  by (auto simp: obeys_def attempt_def split: prod.splits) (metis fst_conv)

lemma wrapped: "obeys R m \<Longrightarrow> obeys R (wrapped message m)"
  by (auto simp: obeys_def wrapped_def split: prod.splits sum.splits) (metis fst_conv)+

lemma refuse_if: "obeys R (refuse_if b e)"
  by (simp add: refuse_if_def give fail)

lemma when_gate: "(b \<Longrightarrow> obeys R m) \<Longrightarrow> obeys R (when_gate b m)"
  by (simp add: when_gate_def give)

lemma in_order: "(\<And>m. m \<in> set ms \<Longrightarrow> obeys R m) \<Longrightarrow> obeys R (in_order ms)"
  by (induction ms) (auto intro: give and_do)

lemma from_option: "obeys R (from_option e)"
  by (auto simp: from_option_def intro: give fail split: option.splits)

lemma on_world: "obeys R (on_world f)"
  by (auto simp: obeys_def on_world_def intro: law_world split: prod.splits)

lemma see_world: "obeys R (see_world f)"
  by (simp add: obeys_def see_world_def law_refl)

lemma check_ctx: "obeys R check_ctx"
  by (auto simp: obeys_def check_ctx_def intro: law_ctx split: prod.splits)

lemma ctx_error: "obeys R ctx_error"
  unfolding ctx_error_def by (intro and_do attempt check_ctx give)

lemma succeed_or: "obeys R (succeed_or wrap outcome)"
  by (auto simp: succeed_or_def intro: give fail split: option.splits)

lemma succeed_io: "obeys R (succeed_io wrap e)"
  by (auto simp: succeed_io_def intro: give fail split: option.splits)

lemma fail_joined: "obeys R (fail_joined es)"
  by (auto simp: fail_joined_def intro: fail split: option.splits)

lemma source_command_error: "obeys R (source_command_error message e)"
  unfolding source_command_error_def by (auto intro!: and_do ctx_error fail_joined)

lemma workspace_or: "obeys R (workspace_or e rn)"
  by (auto simp: workspace_or_def intro: give fail split: option.splits)

lemma chosen_modules: "obeys R (chosen_modules rn selection)"
  by (auto simp: chosen_modules_def intro: give fail split: sum.splits)

lemma known_binary: "obeys R (known_binary tool)"
  by (simp add: obeys_def known_binary_def law_refl)

lemma current_binaries: "obeys R current_binaries"
  by (simp add: obeys_def current_binaries_def law_refl)

lemmas steps [law_steps] = give fail and_do attempt wrapped refuse_if when_gate from_option on_world see_world
  check_ctx ctx_error succeed_or succeed_io fail_joined source_command_error workspace_or chosen_modules
  known_binary current_binaries

lemma all_in_order [law_steps]: "list_all (obeys R) ms \<Longrightarrow> obeys R (in_order ms)"
  by (auto simp: list_all_iff intro: in_order)

end

section \<open>Laws of events\<close>

text \<open>A step appends events, and all of them are of one kind.\<close>

definition appends :: "(event \<Rightarrow> bool) \<Rightarrow> run \<Rightarrow> run \<Rightarrow> bool" where
  "appends ok r r' \<longleftrightarrow> (\<exists>es. rn_events r' = rn_events r @ es \<and> list_all ok es)"

interpretation events: run_law "appends ok" for ok
proof unfold_locales
  fix r s t
  assume "appends ok r s" and "appends ok s t"
  then obtain as bs where "rn_events s = rn_events r @ as" "list_all ok as" "rn_events t = rn_events s @ bs" "list_all ok bs"
    by (auto simp: appends_def)
  then show "appends ok r t" by (auto simp: appends_def)
qed (simp_all add: appends_def)

lemma events_emit: "ok e \<Longrightarrow> obeys (appends ok) (emit e)"
  by (simp add: obeys_def appends_def emit_def)

lemma events_execute: "ok (Ran (service_command rn c)) \<Longrightarrow> obeys (appends ok) (execute kit rn c)"
  by (auto simp: obeys_def appends_def execute_def split: prod.splits)

lemma events_execute_within: "ok (Ran (service_command rn c)) \<Longrightarrow> obeys (appends ok) (execute_within kit rn c)"
  by (auto simp: obeys_def appends_def execute_within_def split: prod.splits)

lemma events_keep_binary: "obeys (appends ok) (keep_binary tool binary)"
  by (auto simp: obeys_def appends_def keep_binary_def split: option.splits)

lemma events_begin_binaries: "obeys (appends ok) begin_binaries"
  by (simp add: obeys_def appends_def begin_binaries_def)

lemmas event_steps = events_emit events_execute events_execute_within events_keep_binary events_begin_binaries

text \<open>The temporary files announce themselves as made and removed.\<close>

lemma events_temporary:
  assumes "\<And>p. ok (Made p)"
  shows "obeys (appends ok) (make_temporary kit directory pattern)"
    and "obeys (appends ok) (make_temporary_directory kit directory pattern)"
  unfolding make_temporary_def make_temporary_directory_def
  by (auto intro!: law_steps event_steps assms split: sum.splits)

lemma events_removed:
  assumes "\<And>p. ok (Removed p)"
  shows "obeys (appends ok) (remove_temporary kit p)" and "obeys (appends ok) (remove_temporary_directory kit p)"
  unfolding remove_temporary_def remove_temporary_directory_def
  by (auto intro!: law_steps event_steps assms)

text \<open>
  The parts of the security phase and the gates of a module under any law of steps: a law that
  allows the commands and announcements of a part, and the use of temporary files, holds for the
  part. Three laws rest on these lemmas: of the commands of the phase, of the announcements, and
  of the temporary files.
\<close>

section \<open>The commands of the security phase\<close>

text \<open>A command under the process-group owner that is git or uses the caches of verifiers.\<close>

definition phase_command :: "gate_command \<Rightarrow> bool" where
  "phase_command c \<longleftrightarrow> gc_scanner c \<and> (gc_class c = Verifier_cache \<or> cm_program c = ''git'')"

definition phase_event :: "event \<Rightarrow> bool" where
  "phase_event e = (case e of Ran c \<Rightarrow> phase_command c | _ \<Rightarrow> True)"

lemma phase_event_simps [simp]:
  "phase_event (Announced md g)" "phase_event (Printed s)" "phase_event (Made p)" "phase_event (Made_inside q p)" "phase_event (Removed p)"
  "phase_event (Ran c) = phase_command c"
  by (simp_all add: phase_event_def)

lemma phase_service_command [simp]: "phase_command (service_command rn c) = phase_command c"
  by (simp add: phase_command_def service_command_def split: option.splits)

lemma phase_command_of [simp]:
  "phase_command (gate_command_of cls scanner program arguments directory environment)
     \<longleftrightarrow> scanner \<and> (cls = Verifier_cache \<or> program = ''git'')"
  by (simp add: phase_command_def gate_command_of_def)

section \<open>Sources and tools\<close>

declare gosec_directories.simps [simp del]

lemma fetch_history_wrapped:
  "fetch_history kit rn workspace bundle history =
     in_order (map (\<lambda>arguments. wrapped ''create gitleaks history snapshot'' (gitleaks_source_command kit rn workspace arguments))
       [[''init'', ''--quiet'', ''--'', history],
        [''-C'', history, ''fetch'', ''--quiet'', ''--force'', ''--no-recurse-submodules'', bundle, fetch_reference rn]])"
  unfolding fetch_history_def wrapped_def ..

locale source_law = run_law R for R +
  assumes phase_execute: "phase_command c \<Longrightarrow> obeys R (execute kit rn c)"
begin

lemma verifier_execute [law_steps]:
  "obeys R (execute kit rn (gate_command_of Verifier_cache True program arguments directory environment))"
  by (rule phase_execute) simp

lemma git_execute [law_steps]:
  "obeys R (execute kit rn (gate_command_of cls True ''git'' arguments directory environment))"
  by (rule phase_execute) simp

lemma ctx_law: "(\<And>r. \<exists>c. fst (m r) = r\<lparr>rn_ctx := c\<rparr>) \<Longrightarrow> obeys R m"
  by (rule obeysI) (metis law_ctx)

lemma gosec_directories [law_steps]: "obeys R (gosec_directories base packages bytes vs)"
proof (induction vs arbitrary: packages bytes)
  case Nil
  show ?case by (subst gosec_directories.simps) (auto intro!: law_steps)
next
  case (Cons v vs)
  then show ?case
    by (subst gosec_directories.simps)
      (auto simp: Let_def intro!: law_steps split: json_next.splits option.splits)
qed

lemma gosec_packages [law_steps]: "obeys R (gosec_packages kit rn directory)"
  unfolding gosec_packages_def Let_def by (auto intro!: law_steps split: option.splits)

section \<open>The sources\<close>

lemma history_lines [law_steps]: "obeys R (history_lines objects limits count used rows)"
  by (induction rows arbitrary: count used) (auto intro!: law_steps split: option.splits)

lemma preflight_inventory [law_steps]: "obeys R (preflight_inventory kit rn limits objects)"
  unfolding preflight_inventory_def Let_def by (auto intro!: law_steps)

lemma preflight_history [law_steps]: "obeys R (preflight_gitleaks_history kit rn limits)"
  unfolding preflight_gitleaks_history_def by (auto intro!: law_steps)

lemma path_ancestors [law_steps]: "obeys R (path_ancestors fuel parent)"
  by (induction fuel parent rule: path_ancestors.induct) (auto intro!: law_steps)

lemma selected_ancestors [law_steps]: "obeys R (selected_ancestors names)"
  by (induction names) (auto intro!: law_steps)

lemma inspect_tree [law_steps]: "obeys R (inspect_tree kit source limits selected inner s)"
  unfolding inspect_tree_def
  by (intro law_steps ctx_law) (auto split: prod.splits option.splits)

lemma copied:
  assumes "\<And>x. obeys R (f x)"
  shows "obeys R (\<lambda>r. and_do (attempt (inspect_tree kit source limits selected
    (copy_visit (gk_copy kit) (gk_view kit (rn_world r)) source limits) s)) f r)"
proof (rule obeysI)
  fix r :: run
  have "obeys R (and_do (attempt (inspect_tree kit source limits selected
    (copy_visit (gk_copy kit) (gk_view kit (rn_world r)) source limits) s)) f)"
    using assms by (auto intro!: law_steps)
  then show "R r (fst (and_do (attempt (inspect_tree kit source limits selected
    (copy_visit (gk_copy kit) (gk_view kit (rn_world r)) source limits) s)) f r))"
    by (simp add: obeys_def)
qed

lemma copy_tree [law_steps]: "obeys R (copy_tree_selected kit source destination limits selected)"
  unfolding copy_tree_selected_def
  by (auto intro!: law_steps copied split: sum.splits)

lemma source_command [law_steps]: "obeys R (gitleaks_source_command kit rn directory arguments)"
  unfolding gitleaks_source_command_def by (auto intro!: law_steps)

lemma create_bundle [law_steps]: "obeys R (create_bundle kit rn limits workspace bundle)"
  unfolding create_bundle_def Let_def by (auto intro!: law_steps)

lemma fetch_history [law_steps]: "obeys R (fetch_history kit rn workspace bundle history)"
  unfolding fetch_history_wrapped by (auto intro!: law_steps)

lemma check_commits [law_steps]: "obeys R (check_commits kit rn workspace history)"
  unfolding check_commits_def by (auto intro!: law_steps simp: list_all_iff split: option.splits)

lemma fill_sources [law_steps]: "obeys R (fill_gitleaks_sources kit rn limits selected workspace s)"
  unfolding fill_gitleaks_sources_def Let_def by (auto intro!: law_steps)

lemma run_sbom [law_steps]: "obeys R (run_sbom kit rn directory)"
  unfolding run_sbom_def Let_def by (auto intro!: law_steps split: option.splits)

lemma reject_ignore [law_steps]: "obeys R (reject_ignore kit rn)"
  unfolding reject_ignore_def by (auto intro!: law_steps)

lemma build_compiler_tool [law_steps]: "obeys R (build_compiler_tool kit rn tool base)"
  unfolding build_compiler_tool_def by (auto intro!: law_steps split: option.splits)

lemma run_scanner [law_steps]: "obeys R (run_scanner kit rn md gate directory tool arguments binary)"
  unfolding run_scanner_def Let_def by (auto intro!: law_steps split: option.splits)

end

locale scan_law = source_law R for R +
  assumes phase_announced: "obeys R (emit (Announced md g))"
    and phase_tool: "security_compiler_tool identity = Some tool \<Longrightarrow> (\<And>binary. obeys R (analyze binary)) \<Longrightarrow>
      obeys R (with_compiler_tool kit rn tool analyze)"
    and phase_policy_file: "(\<And>p. obeys R (m p)) \<Longrightarrow>
      obeys R (and_do (create_owned_policy kit rn name pattern policy) (\<lambda>p. joining_cleanup (remove_temporary kit p) message (m p)))"
    and phase_template: "(\<And>p. obeys R (m p)) \<Longrightarrow>
      obeys R (and_do (create_owned_policy kit rn name pattern policy) (\<lambda>p. deferred_join (remove_temporary kit p) (m p)))"
    and phase_sources: "(\<And>s. obeys R (n s)) \<Longrightarrow>
      obeys R (and_do (create_gitleaks_sources kit rn) (\<lambda>s.
        joining_cleanup (remove_temporary_directory kit (gs_root s)) message (n s)))"
begin

lemmas [law_steps] = phase_announced phase_policy_file phase_template phase_sources

lemma announce_scan [law_steps]: "obeys R m \<Longrightarrow> obeys R (announce md g m)"
  unfolding announce_def by (auto intro!: law_steps)

lemma announced_scan [law_steps]: "obeys R (announced_scan kit rn md gate directory tool arguments)"
  unfolding announced_scan_def by (auto intro!: law_steps intro: phase_tool split: option.splits)

lemma security_tool [law_steps]: "obeys R (security_tool kit rn md gate directory tool arguments)"
  unfolding security_tool_def Let_def by (auto intro!: law_steps)

lemma scan_secrets [law_steps]: "obeys R (scan_secrets kit rn attribution config s)"
  unfolding scan_secrets_def by (auto intro!: law_steps)

lemma run_repository_secrets [law_steps]: "obeys R (run_repository_secrets kit rn attribution)"
  unfolding run_repository_secrets_def by (auto intro!: law_steps)

lemma analysis_scan [law_steps]: "obeys R (analysis_scan kit rn directory md)"
  unfolding analysis_scan_def by (auto intro!: law_steps)

lemma run_security_scans [law_steps]: "obeys R (run_security_scans kit rn directory md)"
  unfolding run_security_scans_def by (auto intro!: law_steps)

lemma run_security [law_steps]: "obeys R (run_security kit rn directory md)"
  unfolding run_security_def by (auto intro!: law_steps)

lemma check_security_policy [law_steps]: "obeys R (check_security_policy kit rn directory md)"
  unfolding check_security_policy_def
  by (intro law_steps ctx_law) (auto simp: from_option_def give_def fail_def split: prod.splits option.splits)

lemma preflight [law_steps]: "obeys R (preflight_security_policies kit rn mds)"
  unfolding preflight_security_policies_def by (auto intro!: law_steps simp: list_all_iff)

lemma scan_selected_secrets [law_steps]: "obeys R (scan_selected_secrets kit rn mds)"
  unfolding scan_selected_secrets_def by (auto intro!: law_steps split: list.splits)

lemma scan_modules [law_steps]: "obeys R (scan_modules kit rn mds include_sbom)"
  unfolding scan_modules_def by (auto intro!: law_steps simp: list_all_iff)

end

section \<open>The gates of a module\<close>

text \<open>A law that allows every command and every printed line. The gates with temporary files are
  laws of their own.\<close>

locale gate_law = run_law R for R +
  assumes any_execute: "obeys R (execute kit rn c)" and any_execute_within: "obeys R (execute_within kit rn c)"
    and any_printed: "obeys R (emit (Printed s))"
begin

lemmas [law_steps] = any_execute any_execute_within any_printed

lemma execute_or [law_steps]: "obeys R (execute_or kit rn message c)"
  unfolding execute_or_def by (auto intro!: law_steps)

lemma read_file [law_steps]: "obeys R (read_file_act kit base relative maximum)"
  unfolding read_file_act_def by (auto intro!: law_steps)

lemma lstat [law_steps]: "obeys R (lstat_act kit path)"
  unfolding lstat_act_def by (auto intro!: law_steps)

lemma operation_command [law_steps]: "obeys R (operation_command kit directory md s)"
  unfolding operation_command_def by (auto intro!: law_steps split: sum.splits)

lemma run_operation_steps [law_steps]: "obeys R (run_operation_steps kit rn directory md gate i ss)"
  by (induction ss arbitrary: i) (auto intro!: law_steps split: sum.splits)

lemma run_operation [law_steps]: "obeys R (run_operation kit rn directory md op)"
  unfolding run_operation_def by (rule run_operation_steps)

lemma captured_test [law_steps]: "obeys R (captured_test_command kit rn c limit failure_class)"
  unfolding captured_test_command_def Let_def by (auto intro!: law_steps)

lemma run_local_test [law_steps]: "obeys R (run_local_test kit rn md s)"
  unfolding run_local_test_def by (auto intro!: law_steps split: option.splits)

lemma run_local_steps [law_steps]: "obeys R (run_local_steps kit rn md i ss)"
  by (induction ss arbitrary: i) (auto intro!: law_steps)

lemma check_formatting [law_steps]: "obeys R (check_formatting kit rn base)"
  unfolding check_formatting_def Let_def by (auto intro!: law_steps split: sum.splits list.splits option.splits)

lemma check_safety [law_steps]: "obeys R (check_safety kit base)"
  unfolding check_safety_def by (auto intro!: law_steps split: sum.splits)

lemma build_compiler_tool [law_steps]: "obeys R (build_compiler_tool kit rn tool base)"
  unfolding build_compiler_tool_def by (auto intro!: law_steps split: option.splits)

lemma verify_profile [law_steps]: "obeys R (verify_profile kit rn directory md profile)"
  unfolding verify_profile_def by (auto intro!: law_steps split: option.splits sum.splits prod.splits)

lemma write_assets [law_steps]: "obeys R (write_assets kit base assets)"
  by (induction kit base assets rule: write_assets.induct) (auto intro!: law_steps)

lemma spelling [law_steps]: "obeys R (run_documentation_spelling kit rn directory)"
  unfolding run_documentation_spelling_def Let_def by (auto intro!: law_steps split: sum.splits)

lemma links [law_steps]: "obeys R (run_documentation_links kit rn directory)"
  unfolding run_documentation_links_def Let_def by (auto intro!: law_steps split: sum.splits)

lemma check_documentation [law_steps]: "obeys R (check_documentation kit rn directory md)"
  unfolding check_documentation_def by (auto intro!: law_steps split: option.splits)

lemma ensure_api_component [law_steps]: "obeys R (ensure_api_component kit create current)"
  unfolding ensure_api_component_def Let_def by (auto intro!: law_steps split: option.splits)

lemma ensure_api_components [law_steps]: "obeys R (ensure_api_components kit create current cs)"
  by (induction cs arbitrary: current) (auto intro!: law_steps)

lemma ensure_api_directory [law_steps]: "obeys R (ensure_api_baseline_directory kit base relative create)"
  unfolding ensure_api_baseline_directory_def Let_def by (auto intro!: law_steps)

lemma snapshot_packages [law_steps]: "obeys R (snapshot_packages kit rn directory md ps snapshot)"
  by (induction ps arbitrary: snapshot) (auto simp: Let_def intro!: law_steps split: option.splits)

lemma close_snapshot [law_steps]: "obeys R (close_snapshot kit path)"
  unfolding close_snapshot_def by (auto intro!: law_steps)

lemma closing_snapshot [law_steps]: "obeys R m \<Longrightarrow> obeys R (closing_snapshot kit path m)"
  unfolding closing_snapshot_def by (auto intro!: law_steps split: sum.splits)

lemma generate_api_snapshot [law_steps]: "obeys R (generate_api_snapshot kit rn directory path md policy)"
  unfolding generate_api_snapshot_def Let_def by (auto intro!: law_steps split: option.splits)

lemma compare_api [law_steps]: "obeys R (compare_api kit rn md update policy path)"
  unfolding compare_api_def compare_documentation_def compare_apidiff_def publish_baseline_def api_passed_def Let_def
  by (auto intro!: law_steps split: sum.splits option.splits)

lemma replace_owned [law_steps]: "obeys R (replace_owned kit rn md modfile ds)"
  by (induction ds) (auto intro!: law_steps)

lemma prepare_campaign [law_steps]: "obeys R (prepare_mutation_campaign kit rn md)"
  unfolding prepare_mutation_campaign_def load_zero_inventory_def load_equivalent_inventory_def
    runtime_identity_act_def mutation_environment_def write_sumfile_def mutation_workers_def Let_def
  by (auto intro!: law_steps split: sum.splits option.splits)

lemma run_mutation [law_steps]: "obeys R (run_mutation kit rn md)"
  unfolding run_mutation_def by (auto intro!: law_steps)

lemma run_mutation_import [law_steps]: "obeys R (run_mutation_import kit rn md archive_path ledger_path)"
  unfolding run_mutation_import_def by (auto intro!: law_steps split: sum.splits)

lemma service_starter [law_steps]: "obeys R (default_service_starter kit rn md)"
  unfolding default_service_starter_def load_open_search_images_def
  by (auto intro!: law_steps split: sum.splits option.splits)

end

end
