(* ===== verification/Gate_Runner_Facts.thy ===== *)
theory Gate_Runner_Facts
  imports Gate_Laws "HOL-Library.Sublist"
begin

text \<open>
  The security phase runs bounded verifiers and git only, and Check runs nothing else before the
  phase has passed.
\<close>

abbreviation in_phase :: "'a act \<Rightarrow> bool" where
  "in_phase m \<equiv> obeys (appends phase_event) m"

interpretation phase_sources: source_law "appends phase_event"
  by unfold_locales (simp add: events_execute)

lemmas [law_steps] = event_steps events_temporary events_removed

lemma phase_joining_cleanup [law_steps]: "in_phase cleanup \<Longrightarrow> in_phase m \<Longrightarrow> in_phase (joining_cleanup cleanup message m)"
  unfolding joining_cleanup_def by (auto intro!: law_steps split: sum.splits)

lemma phase_deferred_join [law_steps]: "in_phase cleanup \<Longrightarrow> in_phase m \<Longrightarrow> in_phase (deferred_join cleanup m)"
  unfolding deferred_join_def by (auto intro!: law_steps)

lemma phase_create_owned_policy [law_steps]: "in_phase (create_owned_policy kit rn name pattern policy)"
  unfolding create_owned_policy_def by (auto intro!: law_steps split: sum.splits option.splits)

lemma phase_remove_tool_directory [law_steps]: "in_phase (remove_tool_directory kit base x)"
  unfolding remove_tool_directory_def by (auto intro!: law_steps split: option.splits)

lemma phase_with_compiler_tool [law_steps]:
  "(\<And>binary. in_phase (analyze binary)) \<Longrightarrow> in_phase (with_compiler_tool kit rn tool analyze)"
  unfolding with_compiler_tool_def Let_def
  by (intro law_steps allI conjI impI | simp split: option.splits sum.splits)+

lemma phase_create_sources [law_steps]: "in_phase (create_gitleaks_sources kit rn)"
  unfolding create_gitleaks_sources_def Let_def by (auto intro!: law_steps split: sum.splits)

interpretation phase_scan: scan_law "appends phase_event"
  by unfold_locales (auto intro!: law_steps)

section \<open>The phase\<close>

lemma phase_remove_binaries [law_steps]: "in_phase (remove_binaries kit binaries x)"
proof (induction kit binaries x rule: remove_binaries.induct)
  case (1 kit x)
  show ?case by (simp add: obeys_def appends_def)
qed (auto intro!: law_steps)

lemma phase_scan_selected_security [law_steps]: "in_phase (scan_selected_security kit rn mds include_sbom)"
  unfolding scan_selected_security_def by (auto intro!: law_steps)

lemma phase_security_phase [law_steps]: "in_phase (security_phase kit rn mds include_sbom)"
  unfolding security_phase_def by (auto intro!: law_steps)

text \<open>
  The order of the gates: what Check announces is the contract of the selected modules, in order
  and complete when it succeeds, and nothing but the security phase runs before it has passed.
\<close>

section \<open>Steps that announce nothing\<close>

definition unannounced :: "event \<Rightarrow> bool" where
  "unannounced e = (case e of Announced md g \<Rightarrow> False | _ \<Rightarrow> True)"

lemma unannounced_simps [simp]:
  "unannounced (Printed s)" "unannounced (Ran c)" "unannounced (Made p)" "unannounced (Made_inside q p)" "unannounced (Removed p)"
  by (simp_all add: unannounced_def)

abbreviation quiet :: "'a act \<Rightarrow> bool" where
  "quiet m \<equiv> obeys (appends unannounced) m"

interpretation quiet: gate_law "appends unannounced"
  by unfold_locales (simp_all add: events_execute events_execute_within events_emit)

interpretation quiet_sources: source_law "appends unannounced"
  by unfold_locales (simp add: events_execute)

lemma quiet_remove_tool_directory [law_steps]: "quiet (remove_tool_directory kit base x)"
  unfolding remove_tool_directory_def by (auto intro!: law_steps split: option.splits)

lemma quiet_with_compiler_tool [law_steps]:
  "(\<And>binary. quiet (analyze binary)) \<Longrightarrow> quiet (with_compiler_tool kit rn tool analyze)"
  unfolding with_compiler_tool_def Let_def
  by (intro law_steps allI conjI impI | simp split: option.splits sum.splits)+

lemma quiet_run_coverage [law_steps]: "quiet (run_coverage kit rn directory md)"
  unfolding run_coverage_def by (auto intro!: law_steps split: option.splits sum.splits)

lemma quiet_api_module [law_steps]: "quiet (api_module kit rn md update)"
  unfolding api_module_def Let_def by (auto intro!: law_steps split: sum.splits)

section \<open>Announcements in order\<close>

definition announcements :: "event list \<Rightarrow> (string \<times> string) list" where
  "announcements es = List.map_filter (\<lambda>e. case e of Announced md g \<Rightarrow> Some (md, g) | _ \<Rightarrow> None) es"

lemma announcements_append [simp]: "announcements (as @ bs) = announcements as @ announcements bs"
  by (induction as) (auto simp: announcements_def List.map_filter_simps split: option.splits)

lemma announcements_none: "list_all unannounced es \<Longrightarrow> announcements es = []"
  by (induction es)
    (auto simp: announcements_def List.map_filter_simps unannounced_def split: event.splits)

text \<open>The step announces the gates in order: all of them when it succeeds, and the first of them
  up to the one that failed otherwise.\<close>

definition announces :: "(string \<times> string) list \<Rightarrow> 'a act \<Rightarrow> bool" where
  "announces gs m \<longleftrightarrow>
     (\<forall>r. \<exists>es. rn_events (fst (m r)) = rn_events r @ es \<and>
        (case snd (m r) of Inl e \<Rightarrow> prefix (announcements es) gs | Inr x \<Rightarrow> announcements es = gs))"

lemma announces_quiet: "quiet m \<Longrightarrow> announces [] m"
  unfolding announces_def obeys_def appends_def
proof
  fix r
  assume "\<forall>r. \<exists>es. rn_events (fst (m r)) = rn_events r @ es \<and> list_all unannounced es"
  then obtain es where "rn_events (fst (m r)) = rn_events r @ es" "list_all unannounced es" by blast
  then show "\<exists>es. rn_events (fst (m r)) = rn_events r @ es \<and>
      (case snd (m r) of Inl e \<Rightarrow> prefix (announcements es) [] | Inr x \<Rightarrow> announcements es = [])"
    by (intro exI [of _ es]) (simp add: announcements_none split: sum.splits)
qed

lemma announces_give: "announces [] (give x)"
  by (intro announces_quiet law_steps)

lemma announces_and_do:
  assumes "announces gs m" and "\<And>x. announces hs (f x)"
  shows "announces (gs @ hs) (and_do m f)"
  unfolding announces_def
proof
  fix r
  obtain s x where m: "m r = (s, x)" by fastforce
  from assms(1) m obtain as where as: "rn_events s = rn_events r @ as"
    "case x of Inl e \<Rightarrow> prefix (announcements as) gs | Inr x \<Rightarrow> announcements as = gs"
    unfolding announces_def by (metis fst_conv snd_conv)
  show "\<exists>es. rn_events (fst (and_do m f r)) = rn_events r @ es \<and>
    (case snd (and_do m f r) of Inl e \<Rightarrow> prefix (announcements es) (gs @ hs) | Inr x \<Rightarrow> announcements es = gs @ hs)"
  proof (cases x)
    case (Inl e)
    with as m show ?thesis by (auto simp: and_do_def intro: prefix_prefix)
  next
    case (Inr y)
    from assms(2) [of y] obtain bs where bs: "rn_events (fst (f y s)) = rn_events s @ bs"
      "case snd (f y s) of Inl e \<Rightarrow> prefix (announcements bs) hs | Inr x \<Rightarrow> announcements bs = hs"
      unfolding announces_def by blast
    with as m Inr show ?thesis
      by (intro exI [of _ "as @ bs"]) (auto simp: and_do_def split: sum.splits)
  qed
qed

lemma announces_quietly: "quiet m \<Longrightarrow> (\<And>x. announces gs (f x)) \<Longrightarrow> announces gs (and_do m f)"
  using announces_and_do [of "[]" m gs f] announces_quiet [of m] by simp

lemma announces_in_order: "list_all2 announces gss ms \<Longrightarrow> announces (concat gss) (in_order ms)"
  by (induction gss ms rule: list_all2_induct) (auto intro: announces_give announces_and_do)

lemma announces_emit: "announces [(md, g)] (emit (Announced md g))"
  by (auto simp: announces_def emit_def announcements_def List.map_filter_simps)

lemma announces_announce: "quiet m \<Longrightarrow> announces [(md, g)] (announce md g m)"
  using announces_and_do [OF announces_emit [of md g] announces_quiet] by (fastforce simp: announce_def)

lemma announces_when: "announces gs m \<Longrightarrow> announces (if b then gs else []) (when_gate b m)"
  by (simp add: when_gate_def announces_give)

lemma announces_attempt:
  assumes "announces gs m" and "\<And>x. quiet (f x)" and "\<And>e r. \<exists>e'. snd (f (Inl e) r) = Inl e'"
  shows "announces gs (and_do (attempt m) f)"
  unfolding announces_def
proof
  fix r
  obtain s x where m: "m r = (s, x)" by fastforce
  from assms(1) m obtain as where as: "rn_events s = rn_events r @ as"
    "case x of Inl e \<Rightarrow> prefix (announcements as) gs | Inr x \<Rightarrow> announcements as = gs"
    unfolding announces_def by (metis fst_conv snd_conv)
  from assms(2) [of x] obtain bs where bs: "rn_events (fst (f x s)) = rn_events s @ bs" "announcements bs = []"
    unfolding obeys_def appends_def by (metis announcements_none)
  have run: "and_do (attempt m) f r = f x s" using m by (simp add: and_do_def attempt_def)
  from as bs assms(3) [of _ s] show "\<exists>es. rn_events (fst (and_do (attempt m) f r)) = rn_events r @ es \<and>
    (case snd (and_do (attempt m) f r) of Inl e \<Rightarrow> prefix (announcements es) gs | Inr x \<Rightarrow> announcements es = gs)"
    unfolding run
    by (intro exI [of _ "as @ bs"], cases x) (auto split: sum.splits, metis Inl_Inr_False)
qed

section \<open>The contract of a module\<close>

definition has_operation :: "config \<Rightarrow> module_policy \<Rightarrow> string \<Rightarrow> bool" where
  "has_operation policy md gate \<longleftrightarrow>
     list_ex (\<lambda>op. op_module op = md_directory md \<and> op_gate op = gate) (cf_operations policy)"

definition has_import :: "config \<Rightarrow> module_policy \<Rightarrow> bool" where
  "has_import policy md \<longleftrightarrow> list_ex (\<lambda>m. mi_module m = md_directory md) (mp_imports (cf_mutation policy))"

text \<open>The gates of one module in the order of README and documentation, as the catalog and the policy
  enable them.\<close>

definition contract :: "config \<Rightarrow> module_policy \<Rightarrow> string list" where
  "contract policy md = concat
     [[''format-check''], [''tidy-check''], [''safety''],
      if gate_on md ''lint'' then [''vet''] else [],
      if gate_on md ''tests'' then [''test''] else [],
      [],
      if has_operation policy md ''local-test'' then [''local-test''] else [],
      if gate_on md ''race'' then [''race''] else [],
      if gate_on md ''coverage'' then [''coverage''] else [],
      if gate_on md ''mutation'' then (if has_import policy md then [''mutation-import''] else []) @ [''mutation''] else [],
      if gate_on md ''lint'' then [''lint''] else [],
      if gate_on md ''lint'' then [''staticcheck''] else [],
      if has_operation policy md ''fuzz'' then [''fuzz''] else [],
      if gate_on md ''documentation'' then [''docs''] else [],
      if gate_on md ''api_compatibility'' then [''api''] else [],
      if gate_on md ''lint'' then [''nilaway''] else [],
      if has_operation policy md ''conformance'' then [''conformance''] else [],
      if has_operation policy md ''interoperability'' then [''interoperability''] else [],
      if has_operation policy md ''benchmark'' then [''benchmark''] else []]"

definition tagged :: "module_policy \<Rightarrow> string list \<Rightarrow> (string \<times> string) list" where
  "tagged md gates = map (Pair (md_directory md)) gates"

lemma tagged_simps [simp]:
  "tagged md [] = []" "tagged md (g # gs) = (md_directory md, g) # tagged md gs"
  "tagged md (gs @ hs) = tagged md gs @ tagged md hs"
  by (simp_all add: tagged_def)

lemma tagged_concat: "tagged md (concat gss) = concat (map (tagged md) gss)"
  by (simp add: tagged_def [abs_def] map_concat)

lemma tagged_if: "tagged md (if b then gs else hs) = (if b then tagged md gs else tagged md hs)"
  by simp

lemma find_operation_has: "find_operation rn (md_directory md) gate = None \<longleftrightarrow> \<not> has_operation (rn_policy rn) md gate"
  by (auto simp: find_operation_def has_operation_def find_None_iff list_ex_iff)

lemma import_has: "configured_mutation_import rn (md_directory md) = None \<longleftrightarrow> \<not> has_import (rn_policy rn) md"
  by (auto simp: configured_mutation_import_def has_import_def find_None_iff list_ex_iff)

lemma announces_go_command: "announces (tagged md [g]) (go_command kit rn (md_directory md) g directory arguments)"
  unfolding go_command_def by (auto intro!: announces_announce law_steps)

lemma announces_go_tool: "announces (tagged md [g]) (go_tool kit rn (md_directory md) g directory tool arguments)"
  using announces_go_command unfolding go_tool_def run_staticcheck_def
  by (auto intro!: announces_announce law_steps)

lemma announces_operation:
  "announces (tagged md (if has_operation (rn_policy rn) md g then [g] else [])) (announced_operation kit rn md directory g)"
  using find_operation_has [of rn md g]
  by (auto simp: announced_operation_def intro!: announces_give announces_announce law_steps split: option.splits)

lemma announces_local_tests:
  "announces (tagged md (if has_operation (rn_policy rn) md ''local-test'' then [''local-test''] else [])) (run_local_tests kit rn md)"
proof -
  have "announces gs (fail e :: unit act)" for gs e by (simp add: announces_def fail_def announcements_def List.map_filter_simps)
  then show ?thesis
    using find_operation_has [of rn md "''local-test''"]
    by (auto simp: run_local_tests_def intro!: announces_give announces_announce law_steps split: option.splits sum.splits)
qed

lemma announces_verify_mutation:
  "announces (tagged md ((if has_import (rn_policy rn) md then [''mutation-import''] else []) @ [''mutation'']))
     (verify_mutation kit rn md)"
proof -
  have "announces (tagged md (if has_import (rn_policy rn) md then [''mutation-import''] else []))
      (case configured_mutation_import rn (md_directory md) of
         None \<Rightarrow> give ()
       | Some migration \<Rightarrow>
           and_do (announced (md_directory md) ''mutation-import''
               (run_mutation_import kit rn md (mi_archive migration) (mi_ledger migration))) (\<lambda>changed.
             when_gate (changed \<noteq> []) (emit (Printed (CHR 0x5B # md_directory md @
               ''] mutation-import: changed packages require current verification'' @ [CHR 0x0A])))))"
  proof (cases "configured_mutation_import rn (md_directory md)")
    case None
    then show ?thesis using import_has [of rn md] by (simp add: announces_give)
  next
    case (Some migration)
    have "announces ([(md_directory md, ''mutation-import'')] @ []) (and_do (announced (md_directory md) ''mutation-import''
               (run_mutation_import kit rn md (mi_archive migration) (mi_ledger migration))) (\<lambda>changed.
             when_gate (changed \<noteq> []) (emit (Printed (CHR 0x5B # md_directory md @
               ''] mutation-import: changed packages require current verification'' @ [CHR 0x0A])))))"
    proof (rule announces_and_do)
      show "announces [(md_directory md, ''mutation-import'')] (announced (md_directory md) ''mutation-import''
               (run_mutation_import kit rn md (mi_archive migration) (mi_ledger migration)))"
        using announces_and_do [OF announces_emit announces_quiet] quiet.run_mutation_import
        by (fastforce simp: announced_def)
    qed (auto intro!: announces_quiet law_steps)
    with Some show ?thesis using import_has [of rn md] by simp
  qed
  then have "announces (concat [tagged md (if has_import (rn_policy rn) md then [''mutation-import''] else []),
      tagged md [''mutation'']]) (verify_mutation kit rn md)"
    unfolding verify_mutation_def
    by (intro announces_in_order) (auto intro!: announces_announce law_steps)
  then show ?thesis by simp
qed

lemma announces_nilaway: "announces (tagged md [''nilaway'']) (run_nilaway kit rn md directory)"
  unfolding run_nilaway_def by (auto intro!: announces_announce law_steps)

lemma announces_gate:
  "quiet m \<Longrightarrow> announces (tagged md (if b then [g] else [])) (when_gate b (announce (md_directory md) g m))"
  by (cases b) (auto simp: when_gate_def announces_give announces_announce)

lemma announces_check_module: "announces (tagged md (contract (rn_policy rn) md)) (check_module kit rn md)"
proof -
  let ?d = "module_root rn md"
  have gated: "announces (tagged md (if b then gs else [])) (when_gate b m)" if "announces (tagged md gs) m"
    for b gs and m :: "unit act"
    by (cases b) (auto simp: when_gate_def announces_give that)
  note parts = announces_gate gated announces_go_command announces_go_tool announces_operation announces_local_tests
    announces_verify_mutation announces_nilaway announces_announce
  have op: "quiet (when_gate b (case x of None \<Rightarrow> give () | Some op \<Rightarrow> run_operation kit rn ?d md op))" for b x
    by (auto intro!: law_steps split: option.splits)
  have api: "quiet (case x of Some op \<Rightarrow> run_operation kit rn ?d md op | None \<Rightarrow> api_module kit rn md False)" for x
    by (auto intro!: law_steps split: option.splits)
  show ?thesis
    unfolding check_module_def check_basics_def check_linters_def contract_def Let_def tagged_concat
    by (rule announces_in_order, simp only: list.map append.simps list_all2_Cons list_all2_Nil,
      intro conjI parts law_steps op api announces_quiet TrueI)
      (auto intro!: announces_announce announces_quiet op law_steps)
qed

section \<open>Check\<close>

lemma with_lease_scopes:
  assumes "\<And>scoped. rn_policy scoped = rn_policy rn \<Longrightarrow> announces gs (operation scoped)"
  shows "announces gs (with_lease md rn lease operation)"
  unfolding with_lease_def
proof (rule announces_quietly)
  show "quiet (emit (Printed (CHR 0x5B # md_directory md @ ''] services: '' @ join_with '','' (md_required_services md) @ [CHR 0x0A])))"
    by (auto intro!: law_steps)
  show "announces gs (and_do (attempt (operation (rn\<lparr>rn_service_env := e, rn_service_identities := i\<rparr>))) (\<lambda>x.
      and_do (on_world (sl_close lease)) (\<lambda>closed. from_option (join_errors [error_of x, closed]))))" for e i
  proof (rule announces_attempt)
    show "\<exists>e'. snd (and_do (on_world (sl_close lease)) (\<lambda>closed. from_option (join_errors [error_of (Inl e), closed])) r) = Inl e'"
      for e :: gate_error and r
      by (auto simp: and_do_def on_world_def from_option_def join_errors_def error_of_def fail_def List.map_filter_simps
          split: prod.splits option.splits)
  qed (auto intro!: assms law_steps)
qed

lemma with_services_scopes:
  assumes "\<And>scoped. rn_policy scoped = rn_policy rn \<Longrightarrow> announces gs (operation scoped)"
  shows "announces gs (with_module_services kit rn md operation)"
proof (cases "md_required_services md = []")
  case True
  then show ?thesis using assms by (simp add: with_module_services_def)
next
  case False
  have stopped: "announces gs (fail e :: unit act)" for e
    by (simp add: announces_def fail_def announcements_def List.map_filter_simps)
  have "announces gs (and_do (attempt (default_service_starter kit rn md)) (\<lambda>x.
      case x of Inl e \<Rightarrow> fail (Because (''start services for '' @ md_directory md) e)
      | Inr lease \<Rightarrow> with_lease md rn lease operation))"
  proof (rule announces_quietly)
    show "quiet (attempt (default_service_starter kit rn md))" by (intro law_steps)
    show "announces gs (case x of Inl e \<Rightarrow> fail (Because (''start services for '' @ md_directory md) e)
      | Inr lease \<Rightarrow> with_lease md rn lease operation)" for x
      using assms by (cases x) (auto intro: stopped with_lease_scopes)
  qed
  with False show ?thesis by (simp only: with_module_services_def if_False)
qed

definition check_plan :: "config \<Rightarrow> module_policy list \<Rightarrow> (string \<times> string) list" where
  "check_plan policy mds = concat (map (\<lambda>md. tagged md (contract policy md)) mds)"

lemma announces_modules:
  "announces (check_plan (rn_policy rn) mds) (with_services_each kit rn (check_module kit) mds)"
  unfolding with_services_each_def check_plan_def
proof (rule announces_in_order)
  have "announces (tagged md (contract (rn_policy rn) md))
      (with_module_services kit rn md (\<lambda>scoped. check_module kit scoped md))" for md
    using announces_check_module by (intro with_services_scopes) metis
  then show "list_all2 announces (map (\<lambda>md. tagged md (contract (rn_policy rn) md)) mds)
      (map (\<lambda>md. with_module_services kit rn md (\<lambda>scoped. check_module kit scoped md)) mds)"
    by (induction mds) auto
qed

lemma and_do_result: "and_do m f r = (s, Inr y) \<Longrightarrow> \<exists>t x. m r = (t, Inr x) \<and> f x t = (s, Inr y)"
  by (auto simp: and_do_def split: prod.splits sum.splits)

lemma remove_binaries_result: "remove_binaries kit binaries x r = (s, Inr y) \<Longrightarrow> x = Inr y"
proof (induction kit binaries x arbitrary: r rule: remove_binaries.induct)
  case (2 kit tool binary rest x)
  from and_do_result [OF 2(2) [unfolded remove_binaries.simps]] obtain t kept where
    "remove_binaries kit rest (case kept of None \<Rightarrow> x
       | Some e \<Rightarrow> Inl (Joined_errors ((case x of Inl f \<Rightarrow> [f] | Inr _ \<Rightarrow> []) @ [Because ''compiler tool cleanup'' (By_io e)]))) t
       = (s, Inr y)" by blast
  from 2(1) [OF this] show ?case by (auto split: option.splits)
qed auto

lemma scan_secrets_policy: "scan_selected_secrets kit rn mds r = (s, Inr rn') \<Longrightarrow> rn_policy rn' = rn_policy rn"
  by (auto simp: scan_selected_secrets_def give_def split: list.splits if_splits dest!: and_do_result)

lemma phase_policy: "security_phase kit rn mds include_sbom r = (s, Inr rn') \<Longrightarrow> rn_policy rn' = rn_policy rn"
  by (auto simp: security_phase_def scan_selected_security_def give_def attempt_def scan_secrets_policy
      split: prod.splits dest!: and_do_result remove_binaries_result)

lemma check_cases:
  obtains (refused) "appends phase_event r (fst (check kit rn selection r))" and "\<exists>e. snd (check kit rn selection r) = Inl e"
  | (passed) mds s rn' where "select_modules rn selection = Inr mds" and "security_phase kit rn mds True r = (s, Inr rn')"
      and "check kit rn selection r = with_services_each kit rn' (check_module kit) mds s"
proof (cases "select_modules rn selection")
  case (Inl e)
  then show ?thesis by (intro refused) (auto simp: check_def chosen_modules_def and_do_def fail_def appends_def)
next
  case (Inr mds)
  then have run: "check kit rn selection r =
      and_do (security_phase kit rn mds True) (\<lambda>rn. with_services_each kit rn (check_module kit) mds) r"
    by (simp add: check_def chosen_modules_def and_do_def give_def)
  obtain s x where phase: "security_phase kit rn mds True r = (s, x)" by fastforce
  show ?thesis
  proof (cases x)
    case (Inl e)
    moreover have "appends phase_event r s" using phase_security_phase phase by (rule obeysD)
    ultimately show ?thesis using phase by (intro refused) (auto simp: run and_do_def)
  qed (use phase Inr run passed in \<open>auto simp: and_do_def\<close>)
qed

text \<open>C3: Whatever the executor, the files and the parsers do, Check runs nothing but git and verifiers,
  each bounded and under the owner of its process group, until the security phase of the whole
  selection has passed: what it did is a part of such commands and a rest, and the rest is empty
  unless the phase returned without an error right behind the first part.\<close>

theorem scans_first:
  "\<exists>as bs. rn_events (fst (check kit rn selection r)) = rn_events r @ as @ bs \<and> list_all phase_event as \<and>
     (bs = [] \<or>
      (\<exists>mds s rn'. select_modules rn selection = Inr mds \<and> security_phase kit rn mds True r = (s, Inr rn') \<and>
         rn_events s = rn_events r @ as))"
proof (cases rule: check_cases [of r kit rn selection])
  case refused
  then obtain as where "rn_events (fst (check kit rn selection r)) = rn_events r @ as" "list_all phase_event as"
    by (auto simp: appends_def)
  then show ?thesis by (intro exI [of _ as] exI [of _ "[]"]) simp
next
  case (passed mds s rn')
  have "appends phase_event r s" using phase_security_phase passed(2) by (rule obeysD)
  then obtain as where "rn_events s = rn_events r @ as" "list_all phase_event as" by (auto simp: appends_def)
  moreover obtain bs where "rn_events (fst (check kit rn selection r)) = rn_events s @ bs"
    using announces_modules [of rn' mds kit] passed(3) unfolding announces_def by metis
  ultimately show ?thesis using passed by auto
qed

text \<open>C2: The gates that Check announces behind the security phase are the contracts of the selected
  modules in the order of the selection, and each contract in its fixed order: all of them when
  Check succeeds, and otherwise the first of them up to the gate that failed.\<close>

theorem contract_in_order:
  "\<exists>as bs. rn_events (fst (check kit rn selection r)) = rn_events r @ as @ bs \<and> list_all phase_event as \<and>
     (case select_modules rn selection of
        Inl e \<Rightarrow> bs = []
      | Inr mds \<Rightarrow>
          (case snd (check kit rn selection r) of
             Inl e \<Rightarrow> prefix (announcements bs) (check_plan (rn_policy rn) mds)
           | Inr x \<Rightarrow> announcements bs = check_plan (rn_policy rn) mds))"
proof (cases rule: check_cases [of r kit rn selection])
  case refused
  then obtain as where "rn_events (fst (check kit rn selection r)) = rn_events r @ as" "list_all phase_event as"
    by (auto simp: appends_def)
  with refused(2) show ?thesis
    by (intro exI [of _ as] exI [of _ "[]"]) (auto simp: announcements_def List.map_filter_simps split: sum.splits)
next
  case (passed mds s rn')
  have "appends phase_event r s" using phase_security_phase passed(2) by (rule obeysD)
  then obtain as where "rn_events s = rn_events r @ as" "list_all phase_event as" by (auto simp: appends_def)
  moreover obtain bs where "rn_events (fst (check kit rn selection r)) = rn_events s @ bs"
    "case snd (check kit rn selection r) of
       Inl e \<Rightarrow> prefix (announcements bs) (check_plan (rn_policy rn) mds)
     | Inr x \<Rightarrow> announcements bs = check_plan (rn_policy rn) mds"
    using announces_modules [of rn' mds kit] passed(3) phase_policy [OF passed(2)] unfolding announces_def by metis
  ultimately show ?thesis using passed(1) by (intro exI [of _ as] exI [of _ bs]) simp
qed

end
