(* ===== verification/Gate_Cleanup_Facts.thy ===== *)
theory Gate_Cleanup_Facts
  imports Gate_Runner_Facts "HOL-Library.Multiset"
begin

text \<open>
  Every temporary file and directory that a command makes is removed again, on every path: what is
  made is what is removed plus the tools a security pass keeps, and the pass ends without any.
\<close>

section \<open>The directory of a joined path\<close>

lemma cut_last_plain: "CHR ''/'' \<notin> set x \<Longrightarrow> cut_last CHR ''/'' x = None"
  by (induction x) auto

lemma cut_last_snoc: "CHR ''/'' \<notin> set x \<Longrightarrow> cut_last CHR ''/'' (a @ CHR ''/'' # x) = Some (a, x)"
  by (induction a) (simp_all add: cut_last_plain)

lemma is_abs_append: "p \<noteq> [] \<Longrightarrow> is_abs (p @ q) = is_abs p"
  by (cases p) (auto simp: is_abs_def has_prefix_Cons)

lemma path_clean_slash: "p \<noteq> [] \<Longrightarrow> path_clean (p @ ''/'') = path_clean p"
  by (simp add: path_clean_def is_abs_append split_on_append clean_elems_def clean_step_def)

lemma path_clean_nonempty: "path_clean p \<noteq> []"
proof -
  have "join_with ''/'' es \<noteq> []" if "es \<noteq> []" "\<forall>e \<in> set es. e \<noteq> []" for es
    using that by (cases es) (auto simp: join_Cons_eq)
  then show ?thesis using clean_elems_nonempty [of "is_abs p" "split_on CHR ''/'' p"]
    by (auto simp: path_clean_def Let_def)
qed

lemma dir_of_join:
  assumes x: "plain_elem x" "CHR ''/'' \<notin> set x"
  shows "path_dir (path_join [p, x]) = path_clean p"
proof -
  let ?es = "clean_elems (is_abs p) (split_on CHR ''/'' p)"
  have nx: "x \<noteq> []" using x by (simp add: plain_elem_def)
  have rel: "\<not> is_abs x" using x by (cases x) (auto simp: is_abs_def has_prefix_Cons)
  have empty: "path_clean [] = ''.''" by (simp add: path_clean_def is_abs_def clean_elems_def clean_step_def)
  have single: "path_dir x = ''.''" using x empty by (simp add: path_dir_def cut_last_plain)
  show ?thesis
  proof (cases "p = []")
    case True
    have "path_clean x = x"
      using clean_elems_snoc [OF x(1), of False "[]"] x rel nx
      by (simp add: path_clean_def split_on_plain clean_elems_def)
    with True nx show ?thesis by (simp add: path_join_def single empty)
  next
    case False
    have q: "path_join [p, x] = path_clean (p @ CHR ''/'' # x)" using False nx by (simp add: path_join_def)
    have es: "clean_elems b (split_on CHR ''/'' (p @ CHR ''/'' # x)) = clean_elems b (split_on CHR ''/'' p) @ [x]" for b
      by (simp add: split_on_append split_on_plain x clean_elems_snoc)
    show ?thesis
    proof (cases "?es = []")
      case True
      then show ?thesis
        using False x nx rel
        by (simp add: q path_clean_def is_abs_append es path_dir_def cut_last_plain)
          (auto simp: cut_last_plain is_abs_def clean_elems_def clean_step_def)
    next
      case other: False
      then have "path_clean (p @ CHR ''/'' # x) = path_clean p @ CHR ''/'' # x"
        using False by (cases "is_abs p") (simp_all add: path_clean_def is_abs_append es join_snoc Let_def)
      then show ?thesis
        by (simp add: q path_dir_def cut_last_snoc x path_clean_slash path_clean_nonempty path_clean_idem)
    qed
  qed
qed

section \<open>What is made, removed and kept\<close>

definition made :: "event list \<Rightarrow> string multiset" where
  "made es = mset (List.map_filter (\<lambda>e. case e of Made p \<Rightarrow> Some (path_clean p) | _ \<Rightarrow> None) es)"

definition removed :: "event list \<Rightarrow> string multiset" where
  "removed es = mset (List.map_filter (\<lambda>e. case e of Removed p \<Rightarrow> Some (path_clean p) | _ \<Rightarrow> None) es)"

definition kept :: "run \<Rightarrow> string multiset" where
  "kept r = (case rn_binaries r of None \<Rightarrow> {#} | Some m \<Rightarrow> mset (map (\<lambda>(tool, binary). path_dir binary) m))"

lemma made_simps [simp]:
  "made [] = {#}" "made (es @ fs) = made es + made fs" "removed [] = {#}" "removed (es @ fs) = removed es + removed fs"
  by (simp_all add: made_def removed_def List.map_filter_def)

text \<open>What is made inside a directory goes with it: the directory is removed afterwards, or is of \<open>D\<close>.\<close>

fun goes_with :: "string multiset \<Rightarrow> event list \<Rightarrow> bool" where
  "goes_with D [] = True"
| "goes_with D (e # es) =
     ((case e of Made_inside q p \<Rightarrow> path_clean q \<in># removed es + D | _ \<Rightarrow> True) \<and> goes_with D es)"

lemma goes_with_append:
  assumes "goes_with D as" and "goes_with E bs" and "\<And>q. q \<in># D \<Longrightarrow> q \<in># removed bs + E"
  shows "goes_with E (as @ bs)"
  using assms by (induction as) (auto split: event.splits)

lemma goes_with_more: "goes_with {#} es \<Longrightarrow> goes_with D es"
  by (induction es) (auto split: event.splits)

text \<open>Between the states what was owed or made is removed, kept or still owed.\<close>

definition owes :: "string multiset \<Rightarrow> string multiset \<Rightarrow> run \<Rightarrow> run \<Rightarrow> bool" where
  "owes D E r r' \<longleftrightarrow>
     (\<exists>es. rn_events r' = rn_events r @ es \<and> made es + kept r + D = removed es + kept r' + E \<and>
        goes_with (kept r' + E) es) \<and>
     (rn_binaries r' = None \<longleftrightarrow> rn_binaries r = None)"

lemma owes_refl: "owes D D r r"
  by (simp add: owes_def)

lemma owes_trans:
  assumes "owes D E r s" and "owes E F s t"
  shows "owes D F r t"
proof -
  from assms obtain as bs where
    ev: "rn_events s = rn_events r @ as" "rn_events t = rn_events s @ bs" and
    eq: "made as + kept r + D = removed as + kept s + E" "made bs + kept s + E = removed bs + kept t + F" and
    inside: "goes_with (kept s + E) as" "goes_with (kept t + F) bs"
    by (auto simp: owes_def)
  have "q \<in># removed bs + (kept t + F)" if "q \<in># kept s + E" for q
  proof -
    have "q \<in># made bs + kept s + E" using that by simp
    then show ?thesis unfolding eq(2) by (simp add: ac_simps)
  qed
  with inside have "goes_with (kept t + F) (as @ bs)" by (rule goes_with_append)
  have "made bs + (made as + kept r + D) = made bs + (removed as + kept s + E)" using eq(1) by simp
  also have "\<dots> = removed as + (made bs + kept s + E)" by (simp add: ac_simps)
  also have "\<dots> = removed as + (removed bs + kept t + F)" using eq(2) by simp
  finally have "made (as @ bs) + kept r + D = removed (as @ bs) + kept t + F" by (simp add: ac_simps)
  with ev inside \<open>goes_with (kept t + F) (as @ bs)\<close> assms show ?thesis by (auto simp: owes_def)
qed

lemma owes_binaries: "owes D E r r' \<Longrightarrow> rn_binaries r' = None \<longleftrightarrow> rn_binaries r = None"
  by (simp add: owes_def)

lemma owes_more:
  assumes "owes {#} {#} r r'"
  shows "owes D D r r'"
proof -
  from assms obtain es where "rn_events r' = rn_events r @ es" "made es + kept r = removed es + kept r'"
    "goes_with (kept r') es"
    by (auto simp: owes_def)
  moreover from this(3) have "goes_with (kept r' + D) es"
    using goes_with_append [of "kept r'" es "kept r' + D" "[]"] by simp
  ultimately show ?thesis using assms by (auto simp: owes_def intro!: exI [of _ es])
qed

interpretation balance: run_law "owes {#} {#}"
proof unfold_locales
  show "owes {#} {#} r s \<Longrightarrow> owes {#} {#} s t \<Longrightarrow> owes {#} {#} r t" for r s t by (rule owes_trans)
qed (simp_all add: owes_def kept_def)

abbreviation balanced :: "'a act \<Rightarrow> bool" where
  "balanced m \<equiv> obeys (owes {#} {#}) m"

text \<open>What a step makes is owed; the step that removes it pays.\<close>

abbreviation pays :: "string \<Rightarrow> 'a act \<Rightarrow> bool" where
  "pays p m \<equiv> obeys (owes {#path_clean p#} {#}) m"

lemma owes_event:
  "owes D E r (r\<lparr>rn_events := rn_events r @ [e]\<rparr>) \<longleftrightarrow> made [e] + D = removed [e] + E \<and>
     (case e of Made_inside q p \<Rightarrow> path_clean q \<in># kept r + E | _ \<Rightarrow> True)"
  by (auto simp: owes_def kept_def split: event.splits)

lemma made_event [simp]:
  "made [Announced md g] = {#}" "made [Printed s] = {#}" "made [Ran c] = {#}" "made [Removed p] = {#}"
  "made [Made p] = {#path_clean p#}" "made [Made_inside q p] = {#}" "removed [Made_inside q p] = {#}"
  "removed [Announced md g] = {#}" "removed [Printed s] = {#}" "removed [Ran c] = {#}" "removed [Made p] = {#}"
  "removed [Removed p] = {#path_clean p#}"
  by (simp_all add: made_def removed_def List.map_filter_simps)

lemma balanced_emit: "balanced (emit (Announced md g))" "balanced (emit (Printed s))"
  by (simp_all add: obeys_def emit_def owes_event)

lemma balanced_execute: "balanced (execute kit rn c)" "balanced (execute_within kit rn c)"
proof -
  have "owes {#} {#} r (r\<lparr>rn_world := w, rn_events := rn_events r @ [Ran d], rn_ctx := c\<rparr>)"
    "owes {#} {#} r (r\<lparr>rn_world := w, rn_events := rn_events r @ [Ran d]\<rparr>)" for r w d c
    by (auto simp: owes_def kept_def)
  then show "balanced (execute kit rn c)" "balanced (execute_within kit rn c)"
    by (auto simp: obeys_def execute_def execute_within_def split: prod.splits)
qed

interpretation balance_gates: gate_law "owes {#} {#}"
  by unfold_locales (rule balanced_execute balanced_emit)+

interpretation balance_sources: source_law "owes {#} {#}"
  by unfold_locales (rule balanced_execute)

lemmas [law_steps] = balanced_emit

section \<open>Temporary files\<close>

text \<open>A step that never fails.\<close>

definition certain :: "'a act \<Rightarrow> bool" where
  "certain m \<longleftrightarrow> (\<forall>r. \<exists>x. snd (m r) = Inr x)"

named_theorems certain_steps

lemma certain_basic [certain_steps]:
  "certain (give x)" "certain (on_world f)" "certain (see_world f)" "certain (emit e)" "certain (attempt m)"
  "certain (keep_binary tool binary)" "certain (known_binary tool)"
  by (auto simp: certain_def give_def on_world_def see_world_def emit_def attempt_def keep_binary_def known_binary_def
      split: prod.splits option.splits)

lemma certain_and_do: "certain m \<Longrightarrow> (\<And>x. certain (f x)) \<Longrightarrow> certain (and_do m f)"
  unfolding certain_def and_do_def by (auto split: prod.splits) (metis snd_conv sum.simps(6))

lemma certain_removal [certain_steps]: "certain (remove_temporary kit p)" "certain (remove_temporary_directory kit p)"
  unfolding remove_temporary_def remove_temporary_directory_def by (auto intro!: certain_and_do certain_steps)

lemma and_do_certain:
  assumes "certain m" and "m r = (s, x)"
  obtains y where "and_do m f r = f y s"
proof (cases x)
  case (Inl e)
  with assms show ?thesis by (auto simp: certain_def dest: spec [of _ r])
next
  case (Inr y)
  with assms(2) show ?thesis by (intro that) (simp add: and_do_def)
qed

text \<open>Under a debt a balanced step leaves the debt as it is.\<close>

lemma owing: "balanced m \<Longrightarrow> obeys (owes D D) m"
  unfolding obeys_def by (blast intro: owes_more)

text \<open>Under a debt only certain steps may come before the step that pays.\<close>

lemma debt_step:
  assumes "certain m" and "obeys (owes D D) m" and "\<And>x. obeys (owes D E) (f x)"
  shows "obeys (owes D E) (and_do m f)"
proof (rule obeysI)
  fix r
  obtain s x where m: "m r = (s, x)" by fastforce
  obtain y where "and_do m f r = f y s" using assms(1) m by (rule and_do_certain)
  moreover have "owes D D r s" using assms(2) m by (rule obeysD)
  from owes_trans [OF this] have "owes D E r (fst (f y s))" using assms(3) by (simp add: obeys_def)
  ultimately show "owes D E r (fst (and_do m f r))" by simp
qed

lemmas owing_step = debt_step [OF _ owing]

lemma removal_pays: "pays p (remove_temporary kit p)" "pays p (remove_temporary_directory kit p)"
proof -
  have "owes {#path_clean p#} {#} r (r\<lparr>rn_events := rn_events r @ [Removed p], rn_world := w\<rparr>)" for r w
    by (auto simp: owes_def kept_def)
  then show "pays p (remove_temporary kit p)" "pays p (remove_temporary_directory kit p)"
    by (auto simp: obeys_def remove_temporary_def remove_temporary_directory_def and_do_def emit_def on_world_def split: prod.splits)
qed

lemma paying_step:
  assumes "certain m" and "pays p m" and "\<And>x. balanced (f x)"
  shows "pays p (and_do m f)"
proof (rule obeysI)
  fix r
  obtain s x where m: "m r = (s, x)" by fastforce
  obtain y where "and_do m f r = f y s" using assms(1) m by (rule and_do_certain)
  moreover have "owes {#path_clean p#} {#} r s" using assms(2) m by (rule obeysD)
  from owes_trans [OF this] have "owes {#path_clean p#} {#} r (fst (f y s))" using assms(3) by (simp add: obeys_def)
  ultimately show "owes {#path_clean p#} {#} r (fst (and_do m f r))" by simp
qed

lemmas removing = paying_step [OF certain_removal(1) removal_pays(1)] paying_step [OF certain_removal(2) removal_pays(2)]

lemma making_result:
  assumes "make_temporary kit directory pattern r = (s, x) \<or> make_temporary_directory kit directory pattern r = (s, x)"
  obtains e where "x = Inr (Inl e)" and "owes {#} {#} r s" | p where "x = Inr (Inr p)" and "owes {#} {#path_clean p#} r s"
proof -
  have "owes {#} {#} r (r\<lparr>rn_world := w\<rparr>)"
    "owes {#} {#path_clean p#} r (r\<lparr>rn_world := w, rn_events := rn_events r @ [Made p]\<rparr>)" for w p
    by (auto simp: owes_def kept_def)
  then show thesis using assms that
    by (auto simp: make_temporary_def make_temporary_directory_def and_do_def on_world_def emit_def give_def
        split: prod.splits sum.splits)
qed

lemma making_step:
  assumes "\<And>e. balanced (f (Inl e))" and "\<And>p. pays p (f (Inr p))"
  shows "balanced (and_do (make_temporary kit directory pattern) f)" (is "balanced (and_do ?m f)")
    and "balanced (and_do (make_temporary_directory kit directory pattern) f)" (is "balanced (and_do ?d f)")
proof -
  have step: "owes {#} {#} r (fst (and_do m f r))"
    if m: "m r = (s, x)" and x: "?m r = (s, x) \<or> ?d r = (s, x)" for m r s x
    using x
  proof (cases rule: making_result)
    case (1 e)
    have "owes {#} {#} s (fst (f (Inl e) s))" using assms(1) by (simp add: obeys_def)
    with 1(2) have "owes {#} {#} r (fst (f (Inl e) s))" by (rule owes_trans)
    with 1 m show ?thesis by (simp add: and_do_def)
  next
    case (2 p)
    have "owes {#path_clean p#} {#} s (fst (f (Inr p) s))" using assms(2) by (simp add: obeys_def)
    with 2(2) have "owes {#} {#} r (fst (f (Inr p) s))" by (rule owes_trans)
    with 2 m show ?thesis by (simp add: and_do_def)
  qed
  show "balanced (and_do ?m f)"
  proof (rule obeysI)
    fix r :: run
    obtain s x where "?m r = (s, x)" by fastforce
    then show "owes {#} {#} r (fst (and_do ?m f r))" using step by blast
  qed
  show "balanced (and_do ?d f)"
  proof (rule obeysI)
    fix r :: run
    obtain s x where "?d r = (s, x)" by fastforce
    then show "owes {#} {#} r (fst (and_do ?d f r))" using step by blast
  qed
qed

lemmas [law_steps] = making_step

text \<open>A step that returns what it made: nothing is owed behind a failure.\<close>

definition opens :: "('a \<Rightarrow> string) \<Rightarrow> string \<Rightarrow> 'a act \<Rightarrow> bool" where
  "opens path p m \<longleftrightarrow>
     (\<forall>r. case m r of (s, Inl e) \<Rightarrow> owes {#path_clean p#} {#} r s
        | (s, Inr x) \<Rightarrow> path x = p \<and> owes {#path_clean p#} {#path_clean p#} r s)"

definition makes :: "('a \<Rightarrow> string) \<Rightarrow> 'a act \<Rightarrow> bool" where
  "makes path m \<longleftrightarrow>
     (\<forall>r. case m r of (s, Inl e) \<Rightarrow> owes {#} {#} r s | (s, Inr x) \<Rightarrow> owes {#} {#path_clean (path x)#} r s)"

lemma opensI:
  assumes "\<And>r s e. m r = (s, Inl e) \<Longrightarrow> owes {#path_clean p#} {#} r s"
    and "\<And>r s x. m r = (s, Inr x) \<Longrightarrow> path x = p \<and> owes {#path_clean p#} {#path_clean p#} r s"
  shows "opens path p m"
  using assms by (auto simp: opens_def split: prod.splits sum.splits)

lemma opensD:
  "opens path p m \<Longrightarrow> m r = (s, Inl e) \<Longrightarrow> owes {#path_clean p#} {#} r s"
  "opens path p m \<Longrightarrow> m r = (s, Inr x) \<Longrightarrow> path x = p \<and> owes {#path_clean p#} {#path_clean p#} r s"
  unfolding opens_def by (drule spec [of _ r]; simp)+

lemma makesI:
  assumes "\<And>r s e. m r = (s, Inl e) \<Longrightarrow> owes {#} {#} r s"
    and "\<And>r s x. m r = (s, Inr x) \<Longrightarrow> owes {#} {#path_clean (path x)#} r s"
  shows "makes path m"
  using assms by (auto simp: makes_def split: prod.splits sum.splits)

lemma makesD:
  "makes path m \<Longrightarrow> m r = (s, Inl e) \<Longrightarrow> owes {#} {#} r s"
  "makes path m \<Longrightarrow> m r = (s, Inr x) \<Longrightarrow> owes {#} {#path_clean (path x)#} r s"
  unfolding makes_def by (drule spec [of _ r]; simp)+

lemma opens_give: "path x = p \<Longrightarrow> opens path p (give x)"
  by (rule opensI) (auto simp: give_def owes_refl)

lemma opens_step:
  assumes "certain m" and "balanced m" and "\<And>x. opens path p (f x)"
  shows "opens path p (and_do m f)"
proof -
  have run: "\<exists>y t. owes {#path_clean p#} {#path_clean p#} r t \<and> and_do m f r = f y t" for r
  proof -
    obtain s x where m: "m r = (s, x)" by fastforce
    obtain y where "and_do m f r = f y s" using assms(1) m by (rule and_do_certain)
    moreover have "owes {#path_clean p#} {#path_clean p#} r s" by (rule owes_more [OF obeysD [OF assms(2) m]])
    ultimately show ?thesis by auto
  qed
  show ?thesis
  proof (rule opensI)
    fix r s e
    assume "and_do m f r = (s, Inl e)"
    with run [of r] obtain y t where "owes {#path_clean p#} {#path_clean p#} r t" "f y t = (s, Inl e)" by auto
    then show "owes {#path_clean p#} {#} r s" using opensD(1) [OF assms(3)] by (auto intro: owes_trans)
  next
    fix r s x
    assume "and_do m f r = (s, Inr x)"
    with run [of r] obtain y t where "owes {#path_clean p#} {#path_clean p#} r t" "f y t = (s, Inr x)" by auto
    then show "path x = p \<and> owes {#path_clean p#} {#path_clean p#} r s"
      using opensD(2) [OF assms(3)] by (auto intro: owes_trans)
  qed
qed

text \<open>A step that has to pay before it fails.\<close>

definition fails :: "'a act \<Rightarrow> bool" where
  "fails m \<longleftrightarrow> (\<forall>r. \<exists>e. snd (m r) = Inl e)"

lemma fails_fail: "fails (fail e)" "fails (fail_joined es)"
  by (auto simp: fails_def fail_def fail_joined_def split: option.splits)

lemma fails_and_do: "(\<And>x. fails (f x)) \<Longrightarrow> fails (and_do m f)"
  by (auto simp: fails_def and_do_def split: prod.splits sum.splits)

lemma opens_failing:
  assumes "pays p m" and "fails m"
  shows "opens path p m"
proof (rule opensI)
  show "m r = (s, Inl e) \<Longrightarrow> owes {#path_clean p#} {#} r s" for r s e using assms(1) by (rule obeysD)
  show "path x = p \<and> owes {#path_clean p#} {#path_clean p#} r s" if "m r = (s, Inr x)" for r s x
    using assms(2) that by (auto simp: fails_def dest: spec [of _ r])
qed

lemma makes_then:
  assumes "makes path m" and "\<And>x. pays (path x) (f x)"
  shows "balanced (and_do m f)"
proof (rule obeysI)
  fix r
  obtain s x where m: "m r = (s, x)" by fastforce
  show "owes {#} {#} r (fst (and_do m f r))"
  proof (cases x)
    case (Inl e)
    with makesD(1) [OF assms(1)] m show ?thesis by (simp add: and_do_def)
  next
    case (Inr y)
    have "owes {#path_clean (path y)#} {#} s (fst (f y s))" using assms(2) by (simp add: obeys_def)
    with makesD(2) [OF assms(1)] m Inr show ?thesis by (auto simp: and_do_def intro: owes_trans)
  qed
qed

lemma makes_after:
  assumes "balanced m" and "\<And>x. makes path (f x)"
  shows "makes path (and_do m f)"
proof (rule makesI)
  fix r s e
  assume run: "and_do m f r = (s, Inl e)"
  obtain t x where m: "m r = (t, x)" by fastforce
  have "owes {#} {#} r t" using assms(1) m by (rule obeysD)
  with run m makesD(1) [OF assms(2)] show "owes {#} {#} r s"
    by (cases x) (auto simp: and_do_def intro: owes_trans)
next
  fix r s y
  assume run: "and_do m f r = (s, Inr y)"
  obtain t x where m: "m r = (t, x)" by fastforce
  have "owes {#} {#} r t" using assms(1) m by (rule obeysD)
  with run m makesD(2) [OF assms(2)] show "owes {#} {#path_clean (path y)#} r s"
    by (cases x) (auto simp: and_do_def intro: owes_trans)
qed

lemma makes_fail: "makes path (fail e)"
  by (rule makesI) (simp_all add: fail_def owes_refl)

lemma making_opens:
  assumes "\<And>e. makes path (f (Inl e))" and "\<And>p. opens path p (f (Inr p))"
  shows "makes path (and_do (make_temporary kit directory pattern) f)" (is "makes path (and_do ?m f)")
    and "makes path (and_do (make_temporary_directory kit directory pattern) f)" (is "makes path (and_do ?d f)")
proof -
  have failed: "owes {#} {#} r s" if m: "m r = (t, x)" "?m r = (t, x) \<or> ?d r = (t, x)" "and_do m f r = (s, Inl e)" for m r t x s e
    using m(2)
  proof (cases rule: making_result)
    case (1 e')
    with m(1,3) have "f (Inl e') t = (s, Inl e)" by (simp add: and_do_def)
    from makesD(1) [OF assms(1) this] 1 show ?thesis by (blast intro: owes_trans)
  next
    case (2 p)
    with m(1,3) have "f (Inr p) t = (s, Inl e)" by (simp add: and_do_def)
    from opensD(1) [OF assms(2) this] 2 show ?thesis by (blast intro: owes_trans)
  qed
  have finished: "owes {#} {#path_clean (path y)#} r s"
    if m: "m r = (t, x)" "?m r = (t, x) \<or> ?d r = (t, x)" "and_do m f r = (s, Inr y)" for m r t x s y
    using m(2)
  proof (cases rule: making_result)
    case (1 e')
    with m(1,3) have "f (Inl e') t = (s, Inr y)" by (simp add: and_do_def)
    from makesD(2) [OF assms(1) this] 1 show ?thesis by (blast intro: owes_trans)
  next
    case (2 p)
    with m(1,3) have "f (Inr p) t = (s, Inr y)" by (simp add: and_do_def)
    from opensD(2) [OF assms(2) this] 2 show ?thesis by (auto intro: owes_trans)
  qed
  show "makes path (and_do ?m f)"
  proof (rule makesI)
    show "owes {#} {#} r s" if "and_do ?m f r = (s, Inl e)" for r s e
      using failed [of ?m r "fst (?m r)" "snd (?m r)"] that by simp
    show "owes {#} {#path_clean (path y)#} r s" if "and_do ?m f r = (s, Inr y)" for r s y
      using finished [of ?m r "fst (?m r)" "snd (?m r)"] that by simp
  qed
  show "makes path (and_do ?d f)"
  proof (rule makesI)
    show "owes {#} {#} r s" if "and_do ?d f r = (s, Inl e)" for r s e
      using failed [of ?d r "fst (?d r)" "snd (?d r)"] that by simp
    show "owes {#} {#path_clean (path y)#} r s" if "and_do ?d f r = (s, Inr y)" for r s y
      using finished [of ?d r "fst (?d r)" "snd (?d r)"] that by simp
  qed
qed

section \<open>The steps of a security pass\<close>

lemma opens_removed:
  assumes "\<And>x. balanced (f x)" and "\<And>x. fails (f x)"
  shows "opens path p (and_do (remove_temporary kit p) f)" and "opens path p (and_do (remove_temporary_directory kit p) f)"
  using assms by (auto intro!: opens_failing removing fails_and_do)

lemma makes_owned_policy: "makes (\<lambda>p. p) (create_owned_policy kit rn name pattern policy)"
  unfolding create_owned_policy_def
proof (rule makes_after [OF balance.workspace_or], rule making_opens)
  show "makes (\<lambda>p. p) (case Inl e of Inl e \<Rightarrow> fail (Because (owned_message ''create'' name) (By_io e)) | Inr path \<Rightarrow> f path)"
    for e :: io_error and f by (simp add: makes_fail)
  have written: "opens (\<lambda>p. p) p
      (and_do (on_world (os_close (gk_os kit) p)) (\<lambda>closed.
         and_do (remove_temporary kit p) (\<lambda>removed. fail_joined (es closed removed))))" for p es
    by (intro opens_step opens_removed certain_steps law_steps fails_fail)
  have closed: "opens (\<lambda>p. p) p
      (and_do (on_world (os_close (gk_os kit) p)) (\<lambda>closed.
         case closed of Some e \<Rightarrow> and_do (remove_temporary kit p) (\<lambda>removed. fail_joined (es e removed)) | None \<Rightarrow> give p))" for p es
    by (intro opens_step certain_steps law_steps)
      (auto intro!: opens_removed opens_give law_steps fails_fail split: option.splits)
  show "opens (\<lambda>p. p) p (case Inr p of Inl e \<Rightarrow> fail (Because (owned_message ''create'' name) (By_io e))
      | Inr path \<Rightarrow>
          and_do (on_world (os_write (gk_os kit) path policy)) (\<lambda>written.
            case written of
              None \<Rightarrow>
                and_do (on_world (os_close (gk_os kit) path)) (\<lambda>closed.
                  case closed of
                    None \<Rightarrow> give path
                  | Some e \<Rightarrow>
                      and_do (remove_temporary kit path) (\<lambda>removed.
                        fail_joined [Some (Because (owned_message ''close'' name) (By_io e)), map_option By_io removed]))
            | Some e \<Rightarrow>
                and_do (on_world (os_close (gk_os kit) path)) (\<lambda>closed.
                  and_do (remove_temporary kit path) (\<lambda>removed.
                    fail_joined [Some (Because (owned_message ''write'' name) (By_io e)), map_option By_io closed,
                      map_option By_io removed]))))" for p
    unfolding sum.case
    by (intro opens_step certain_steps law_steps) (auto intro: written closed split: option.split)
qed

lemma pays_joining_cleanup:
  assumes "certain cleanup" and "pays p cleanup" and "balanced m"
  shows "pays p (joining_cleanup cleanup message m)"
  unfolding joining_cleanup_def
  by (intro owing_step certain_steps balance.attempt assms paying_step)
    (auto intro!: law_steps split: sum.splits)

lemma pays_deferred_join:
  assumes "certain cleanup" and "pays p cleanup" and "balanced m"
  shows "pays p (deferred_join cleanup m)"
  unfolding deferred_join_def
  by (intro owing_step certain_steps balance.attempt assms paying_step) (auto intro!: law_steps)

lemmas pays_cleanups =
  pays_joining_cleanup [OF certain_removal(1) removal_pays(1)] pays_joining_cleanup [OF certain_removal(2) removal_pays(2)]
  pays_deferred_join [OF certain_removal(1) removal_pays(1)]

lemma balanced_announce [law_steps]: "balanced m \<Longrightarrow> balanced (announce md g m)"
  unfolding announce_def by (auto intro!: law_steps)

lemma balanced_announced [law_steps]: "balanced m \<Longrightarrow> balanced (announced md g m)"
  unfolding announced_def by (auto intro!: law_steps)

section \<open>Compiler tools\<close>

definition same_tools :: "run \<Rightarrow> run \<Rightarrow> bool" where
  "same_tools r r' \<longleftrightarrow> rn_binaries r' = rn_binaries r"

interpretation tools: run_law same_tools
  by unfold_locales (simp_all add: same_tools_def)

lemma tools_build: "obeys same_tools (build_compiler_tool kit rn tool base)"
proof -
  have "obeys same_tools (execute kit rn c)" for c
    by (auto simp: obeys_def same_tools_def execute_def split: prod.splits)
  then show ?thesis
    unfolding build_compiler_tool_def by (auto intro!: tools.steps split: option.splits)
qed

lemma tools_making: "obeys same_tools (make_temporary_directory kit directory pattern)"
  by (auto simp: obeys_def same_tools_def make_temporary_directory_def and_do_def on_world_def emit_def give_def
      split: prod.splits sum.splits)

lemma pays_remove_tool: "pays base (remove_tool_directory kit base x)"
  unfolding remove_tool_directory_def by (intro removing) (auto intro!: law_steps split: option.splits)

definition tool_name_ok :: "compiler_tool \<Rightarrow> bool" where
  "tool_name_ok tool \<longleftrightarrow> plain_elem (ct_name tool) \<and> CHR ''/'' \<notin> set (ct_name tool)"

lemma kept_map_set: "map_of m tool = None \<Longrightarrow>
    {#path_dir binary. (tool, binary) \<in># mset (map_set tool b m)#} = add_mset (path_dir b) {#path_dir binary. (tool, binary) \<in># mset m#}"
  by (induction tool b m rule: map_set.induct) (auto split: if_splits)

lemma keep_binary_pays:
  assumes "rn_binaries r = Some m" and "map_of m tool = None" and "tool_name_ok tool"
  shows "owes {#path_clean base#} {#} r (fst (keep_binary tool (path_join [base, ct_name tool]) r))"
    and "snd (keep_binary tool (path_join [base, ct_name tool]) r) = Inr True"
  using assms dir_of_join [of "ct_name tool" base]
  by (auto simp: keep_binary_def owes_def kept_def kept_map_set tool_name_ok_def)

lemma keep_binary_idle:
  "rn_binaries r = None \<Longrightarrow> keep_binary tool binary r = (r, Inr False)"
  by (simp add: keep_binary_def)

lemma balanced_with_compiler_tool:
  assumes tool: "tool_name_ok tool" and analyze: "\<And>binary. balanced (analyze binary)"
  shows "balanced (with_compiler_tool kit rn tool analyze)"
proof -
  let ?body = "\<lambda>base. and_do (attempt (build_compiler_tool kit rn tool base)) (\<lambda>built.
      case built of
        Inl e \<Rightarrow> remove_tool_directory kit base (Inl e)
      | Inr _ \<Rightarrow>
          and_do (keep_binary tool (path_join [base, ct_name tool])) (\<lambda>kept.
            if kept then analyze (path_join [base, ct_name tool])
            else and_do (attempt (analyze (path_join [base, ct_name tool]))) (remove_tool_directory kit base)))"
  have body: "owes {#path_clean base#} {#} r (fst (?body base r))"
    if new: "\<And>m. rn_binaries r = Some m \<Longrightarrow> map_of m tool = None" for base r
  proof -
    obtain s x where build: "build_compiler_tool kit rn tool base r = (s, x)" by fastforce
    have bs: "owes {#} {#} r s" using balance_sources.build_compiler_tool build by (rule obeysD)
    have same: "rn_binaries s = rn_binaries r" using obeysD [OF tools_build build] by (simp add: same_tools_def)
    show ?thesis
    proof (cases x)
      case (Inl e)
      have "owes {#path_clean base#} {#} s (fst (remove_tool_directory kit base (Inl e) s))"
        using pays_remove_tool by (simp add: obeys_def)
      with owes_more [OF bs] show ?thesis
        using Inl build by (auto simp: and_do_def attempt_def intro: owes_trans)
    next
      case (Inr u)
      let ?b = "path_join [base, ct_name tool]"
      have "owes {#path_clean base#} {#} s
          (fst (and_do (keep_binary tool ?b) (\<lambda>kept. if kept then analyze ?b
             else and_do (attempt (analyze ?b)) (remove_tool_directory kit base)) s))"
      proof (cases "rn_binaries s")
        case None
        have "pays base (and_do (attempt (analyze ?b)) (remove_tool_directory kit base))"
          by (intro owing_step certain_steps balance.attempt analyze pays_remove_tool)
        with None show ?thesis by (simp add: and_do_def keep_binary_idle obeys_def)
      next
        case (Some m)
        with new same have "map_of m tool = None" by simp
        note k = keep_binary_pays [OF Some this tool, of base]
        have "owes {#} {#} (fst (keep_binary tool ?b s)) (fst (analyze ?b (fst (keep_binary tool ?b s))))"
          using analyze by (simp add: obeys_def)
        with k(1) have "owes {#path_clean base#} {#} s (fst (analyze ?b (fst (keep_binary tool ?b s))))" by (rule owes_trans)
        with k(2) show ?thesis by (auto simp: and_do_def split: prod.splits)
      qed
      with owes_more [OF bs] show ?thesis
        using Inr build by (auto simp: and_do_def attempt_def intro: owes_trans)
    qed
  qed
  have unknown: "owes {#} {#} r (fst (and_do (make_temporary_directory kit workspace pattern) (\<lambda>x.
      case x of Inl e \<Rightarrow> fail (Because ''prepare compiler tool'' (By_io e)) | Inr base \<Rightarrow> ?body base) r))"
    if new: "\<And>m. rn_binaries r = Some m \<Longrightarrow> map_of m tool = None" for r workspace pattern
  proof -
    obtain s x where make: "make_temporary_directory kit workspace pattern r = (s, x)" by fastforce
    have same: "rn_binaries s = rn_binaries r" using obeysD [OF tools_making make] by (simp add: same_tools_def)
    show ?thesis using disjI2 [OF make]
    proof (cases rule: making_result)
      case (1 e)
      with make show ?thesis by (simp add: and_do_def fail_def)
    next
      case (2 base)
      have "owes {#path_clean base#} {#} s (fst (?body base s))" using new same by (intro body) simp
      with 2(2) have "owes {#} {#} r (fst (?body base s))" by (rule owes_trans)
      with 2 make show ?thesis by (simp add: and_do_def)
    qed
  qed
  have "balanced (and_do (known_binary tool) (\<lambda>known.
      case known of
        Some binary \<Rightarrow> analyze binary
      | None \<Rightarrow> and_do (make_temporary_directory kit workspace (ct_name tool @ ''-'')) (\<lambda>x.
          case x of Inl e \<Rightarrow> fail (Because ''prepare compiler tool'' (By_io e)) | Inr base \<Rightarrow> ?body base)))" for workspace
  proof (rule obeysI)
    fix r :: run
    show "owes {#} {#} r (fst (and_do (known_binary tool) (\<lambda>known.
      case known of
        Some binary \<Rightarrow> analyze binary
      | None \<Rightarrow> and_do (make_temporary_directory kit workspace (ct_name tool @ ''-'')) (\<lambda>x.
          case x of Inl e \<Rightarrow> fail (Because ''prepare compiler tool'' (By_io e)) | Inr base \<Rightarrow> ?body base)) r))"
    proof (cases "Option.bind (rn_binaries r) (\<lambda>m. map_of m tool)")
      case None
      have "map_of m tool = None" if "rn_binaries r = Some m" for m using None that by simp
      from unknown [OF this] None show ?thesis by (simp add: and_do_def known_binary_def)
    next
      case (Some binary)
      have "owes {#} {#} r (fst (analyze binary r))" using analyze by (simp add: obeys_def)
      with Some show ?thesis by (simp add: and_do_def known_binary_def)
    qed
  qed
  then show ?thesis
    unfolding with_compiler_tool_def Let_def
    by (rule balance.and_do [OF balance.check_ctx balance.and_do [OF balance.workspace_or]])
qed

lemma tool_names: "tool_name_ok staticcheck_compiler_tool" "security_compiler_tool identity = Some tool \<Longrightarrow> tool_name_ok tool"
  by (auto simp: tool_name_ok_def plain_elem_def staticcheck_compiler_tool_def security_compiler_tool_def split: if_splits)

section \<open>The sources of the secret scan\<close>

lemma makes_sources: "makes gs_root (create_gitleaks_sources kit rn)"
proof -
  let ?rest = "\<lambda>workspace x. case x of
      Inl e \<Rightarrow> fail (Because ''create gitleaks source workspace'' (By_io e))
    | Inr base \<Rightarrow>
        (let s = \<lparr>gs_root = base, gs_history = path_join [base, ''history''],
                  gs_current = path_join [base, ''current''], gs_ignore_root = path_join [base, ''ignore'']\<rparr>
         in and_do (attempt (fill_gitleaks_sources kit rn source_security_limits (map_option cr_paths (rn_secret_changes rn)) workspace s)) (\<lambda>y.
              case y of
                Inr _ \<Rightarrow> give s
              | Inl e \<Rightarrow> and_do (remove_temporary_directory kit base) (\<lambda>kept. fail_joined [Some e, map_option By_io kept])))"
  have "makes gs_root (and_do (make_temporary_directory kit workspace ''gitleaks-sources-'') (?rest workspace))" for workspace
  proof (rule making_opens)
    show "makes gs_root (?rest workspace (Inl e))" for e by (simp add: makes_fail)
    show "opens gs_root p (?rest workspace (Inr p))" for p
      by (auto simp: Let_def intro!: opens_step certain_steps law_steps opens_removed opens_give fails_fail split: sum.split)
  qed
  then show ?thesis
    unfolding create_gitleaks_sources_def Let_def
    by (intro makes_after [OF balance.check_ctx] makes_after [OF balance.workspace_or]
        makes_after [OF balance_sources.preflight_history] makes_after [OF balance_sources.inspect_tree])
qed

interpretation balance_scan: scan_law "owes {#} {#}"
proof unfold_locales
  show "balanced (emit (Announced md g))" for md g by (rule balanced_emit)
  show "balanced (with_compiler_tool kit rn tool analyze)"
    if "security_compiler_tool identity = Some tool" "\<And>binary. balanced (analyze binary)" for identity tool kit rn analyze
    using that by (intro balanced_with_compiler_tool tool_names)
qed (auto intro!: makes_then [OF makes_owned_policy] makes_then [OF makes_sources] pays_cleanups)

section \<open>The gates of a module\<close>

lemma balanced_go_tool [law_steps]: "balanced (go_tool kit rn md gate directory tool arguments)"
proof -
  have "balanced (with_compiler_tool kit rn staticcheck_compiler_tool (\<lambda>binary.
      and_do (execute kit rn (gate_command_of Verifier_cache False binary arguments directory gowork_off))
        (succeed_or (\<lambda>e. Because ''analysis'' (By_process e)))))"
    by (intro balanced_with_compiler_tool tool_names law_steps)
  then show ?thesis
    unfolding go_tool_def run_staticcheck_def go_command_def by (auto intro!: law_steps)
qed

lemma balanced_go_command [law_steps]: "balanced (go_command kit rn md gate directory arguments)"
  unfolding go_command_def by (auto intro!: law_steps)

lemma using_temporary:
  assumes "\<And>e. balanced (f (Inl e))" and "\<And>p. pays p (f (Inr p))"
  shows "balanced (and_do (make_temporary kit directory pattern) f)"
  using assms by (rule making_step)

lemma pays_attempt: "balanced m \<Longrightarrow> (\<And>x. pays p (f x)) \<Longrightarrow> pays p (and_do (attempt m) f)"
  by (intro owing_step certain_steps balance.attempt)

lemma balanced_coverage [law_steps]: "balanced (run_coverage kit rn directory md)"
  unfolding run_coverage_def
  by (auto intro!: law_steps using_temporary owing_step [OF certain_basic(2)] pays_attempt removing split: option.splits)

lemma balanced_api_module [law_steps]: "balanced (api_module kit rn md update)"
  unfolding api_module_def Let_def by (auto intro!: law_steps using_temporary pays_attempt removing)

lemma balanced_with_services:
  assumes "\<And>scoped. balanced (operation scoped)"
  shows "balanced (with_module_services kit rn md operation)"
proof -
  have "balanced (with_lease md rn lease operation)" for lease
    unfolding with_lease_def using assms by (auto intro!: law_steps)
  with assms show ?thesis
    unfolding with_module_services_def by (auto intro!: law_steps split: sum.splits)
qed

lemma balanced_basics: "list_all balanced (check_basics kit rn md directory)" "list_all balanced (check_linters kit rn md directory)"
  unfolding check_basics_def check_linters_def by (auto intro!: law_steps)

lemma balanced_operation [law_steps]: "balanced (announced_operation kit rn md directory gate)"
  unfolding announced_operation_def by (auto intro!: law_steps split: option.splits)

lemma balanced_local_tests [law_steps]: "balanced (run_local_tests kit rn md)"
  unfolding run_local_tests_def by (auto intro!: law_steps split: option.splits sum.splits)

lemma balanced_verify_mutation [law_steps]: "balanced (verify_mutation kit rn md)"
  unfolding verify_mutation_def announced_def by (auto intro!: law_steps split: option.splits)

lemma balanced_nilaway [law_steps]: "balanced (run_nilaway kit rn md directory)"
  unfolding run_nilaway_def by (auto intro!: law_steps)

lemma balanced_check_module: "balanced (check_module kit rn md)" "balanced (check_module_local kit rn md)"
  unfolding check_module_def check_module_local_def Let_def
  by (auto intro!: law_steps balanced_basics simp: list_all_iff [symmetric] split: option.splits)

section \<open>The pass\<close>

lemma path_dir_clean: "path_clean (path_dir p) = path_dir p"
  by (simp add: path_dir_def path_clean_idem split: option.splits)

lemma remove_binaries_step:
  "rn_binaries (fst (remove_binaries kit binaries x r)) = None \<and>
   (\<exists>es. rn_events (fst (remove_binaries kit binaries x r)) = rn_events r @ es \<and> made es = {#} \<and>
      goes_with {#} es \<and> removed es = mset (map (\<lambda>(tool, binary). path_dir binary) binaries))"
proof (induction kit binaries x arbitrary: r rule: remove_binaries.induct)
  case (1 kit x)
  show ?case by simp
next
  case (2 kit tool binary rest x)
  let ?remove = "remove_temporary_directory kit (path_dir binary)"
  obtain s k where run: "?remove r = (s, Inr k)"
    using certain_removal(2) [of kit "path_dir binary"] by (metis certain_def prod.collapse)
  then have ev: "rn_events s = rn_events r @ [Removed (path_dir binary)]"
    by (auto simp: remove_temporary_directory_def and_do_def emit_def on_world_def split: prod.splits)
  let ?y = "case k of None \<Rightarrow> x | Some e \<Rightarrow> Inl (Joined_errors
      ((case x of Inl f \<Rightarrow> [f] | Inr _ \<Rightarrow> []) @ [Because ''compiler tool cleanup'' (By_io e)]))"
  have step: "remove_binaries kit ((tool, binary) # rest) x r = remove_binaries kit rest ?y s"
    using run by (simp add: and_do_def)
  from 2 [of k s] obtain es where "rn_binaries (fst (remove_binaries kit rest ?y s)) = None"
    "rn_events (fst (remove_binaries kit rest ?y s)) = rn_events s @ es" "made es = {#}"
    "goes_with {#} es" "removed es = mset (map (\<lambda>(tool, binary). path_dir binary) rest)" by blast
  then show ?case unfolding step
    by (intro conjI exI [of _ "Removed (path_dir binary) # es"])
      (simp_all add: ev made_def removed_def List.map_filter_simps path_dir_clean)
qed

text \<open>A command that ends as it began: what it made is removed, and no tool is retained.\<close>

definition tidy :: "'a act \<Rightarrow> bool" where
  "tidy m \<longleftrightarrow> (\<forall>r. rn_binaries r = None \<longrightarrow> owes {#} {#} r (fst (m r)))"

lemma tidy_balanced: "balanced m \<Longrightarrow> tidy m"
  by (simp add: tidy_def obeys_def)

lemma tidy_and_do: "tidy m \<Longrightarrow> (\<And>x. tidy (f x)) \<Longrightarrow> tidy (and_do m f)"
  unfolding tidy_def and_do_def
  by (auto split: prod.splits sum.splits) (metis fst_conv owes_binaries owes_trans)+

lemma balanced_scans:
  "balanced (and_do (scan_selected_secrets kit rn mds) (\<lambda>rn. and_do (scan_modules kit rn mds include_sbom) (\<lambda>_. give rn)))"
  by (auto intro!: law_steps)

lemma tidy_scan_selected_security: "tidy (scan_selected_security kit rn mds include_sbom)"
  unfolding tidy_def
proof (intro allI impI)
  fix r :: run
  assume none: "rn_binaries r = None"
  let ?m = "and_do (scan_selected_secrets kit rn mds) (\<lambda>rn. and_do (scan_modules kit rn mds include_sbom) (\<lambda>_. give rn))"
  let ?b = "r\<lparr>rn_binaries := Some []\<rparr>"
  obtain s x where m: "?m ?b = (s, x)" by fastforce
  have "owes {#} {#} ?b s" using balanced_scans m by (rule obeysD)
  then obtain es ms where es: "rn_events s = rn_events r @ es" "rn_binaries s = Some ms" "made es = removed es + kept s"
    "goes_with (kept s) es"
    by (auto simp: owes_def kept_def)
  have run: "scan_selected_security kit rn mds include_sbom r = remove_binaries kit ms x s"
    using m es(2) by (simp add: scan_selected_security_def begin_binaries_def current_binaries_def and_do_def attempt_def)
  from remove_binaries_step [of kit ms x s] obtain fs where "rn_binaries (fst (remove_binaries kit ms x s)) = None"
    "rn_events (fst (remove_binaries kit ms x s)) = rn_events s @ fs" "made fs = {#}" "removed fs = kept s"
    "goes_with {#} fs"
    using es(2) by (auto simp: kept_def)
  moreover from this es(4) have "goes_with {#} (es @ fs)" by (intro goes_with_append [of "kept s"]) auto
  ultimately show "owes {#} {#} r (fst (scan_selected_security kit rn mds include_sbom r))"
    using es none unfolding run by (auto simp: owes_def kept_def)
qed

lemma tidy_security_phase: "tidy (security_phase kit rn mds include_sbom)"
  unfolding security_phase_def
  by (intro tidy_and_do tidy_scan_selected_security tidy_balanced law_steps)

lemma tidy_check: "tidy (check kit rn selection)" "tidy (local kit rn selection)"
  unfolding check_def local_def with_services_each_def preflight_local_tests_def
  by (intro tidy_and_do tidy_security_phase tidy_balanced balance.chosen_modules balance.from_option;
      auto intro!: law_steps balanced_with_services balanced_check_module simp: list_all_iff)+

lemma balanced_gates: "balanced (coverage_gate kit rn selection)" "balanced (api kit rn selection update)"
  unfolding coverage_gate_def api_def each_applicable_def not_applicable_def
  by (auto intro!: law_steps balanced_with_services simp: list_all_iff)

lemma balanced_secrets: "balanced (secrets kit rn)"
  unfolding secrets_def by (auto intro!: law_steps)

definition fresh_run :: "world \<Rightarrow> ctx \<Rightarrow> run" where
  "fresh_run w c = \<lparr>rn_world = w, rn_ctx = c, rn_events = [], rn_binaries = None\<rparr>"

end
