(* ===== verification/Gate_Fuzz_Facts.thy ===== *)
theory Gate_Fuzz_Facts
  imports Gate_Fuzz Gate_Cleanup_Facts
begin

text \<open>
  The selection of fuzz targets is exact over the package graph and bounded, and the run of the
  selected targets removes its workspace.
\<close>

section \<open>Results of a composition\<close>

lemma and_do_Inr: "snd (and_do m f r) = Inr y \<Longrightarrow> \<exists>s x. m r = (s, Inr x) \<and> snd (f x s) = Inr y"
  by (auto simp: and_do_def split: prod.splits sum.splits)

lemma check_ctx_Inr: "check_ctx r = (s, Inr x) \<Longrightarrow> s = r\<lparr>rn_ctx := rn_ctx s\<rparr>"
  by (auto simp: check_ctx_def split: prod.splits if_splits)

lemma check_ctx_uncancelled: "rn_ctx r = None \<Longrightarrow> and_do check_ctx f r = f () r"
  by (cases r) (simp add: and_do_def check_ctx_def)

lemma and_do_known: "m r = (s, Inr x) \<Longrightarrow> and_do m f r = f x s"
  by (simp add: and_do_def)

section \<open>The queue\<close>

definition depends :: "fuzz_graph \<Rightarrow> string \<Rightarrow> (string \<times> string) set" where
  "depends graph target = {(a, b). \<exists>p. map_of graph a = Some p \<and> b \<in> set (fuzz_dependencies graph target a p)}"

lemma queue_subset:
  "set (fuzz_queue graph target seen queue) \<subseteq> (depends graph target)\<^sup>* `` set queue"
proof (induction graph target seen queue rule: fuzz_queue.induct)
  case (2 graph target seen current queue)
  let ?R = "depends graph target"
  show ?case
  proof (cases "current \<in> set seen")
    case True
    with 2(1) show ?thesis by auto
  next
    case False
    show ?thesis
    proof (cases "map_of graph current")
      case (Some p)
      from 2(2) [OF False Some] have "set (fuzz_queue graph target (current # seen) (queue @ fuzz_dependencies graph target current p))
        \<subseteq> ?R\<^sup>* `` (set queue \<union> set (fuzz_dependencies graph target current p))" by simp
      moreover have "?R\<^sup>* `` set (fuzz_dependencies graph target current p) \<subseteq> ?R\<^sup>* `` {current}"
        using Some by (auto simp: depends_def intro: converse_rtrancl_into_rtrancl)
      ultimately have "set (fuzz_queue graph target (current # seen) (queue @ fuzz_dependencies graph target current p))
        \<subseteq> ?R\<^sup>* `` ({current} \<union> set queue)" unfolding Image_Un by blast
      with False Some show ?thesis by (simp add: Image_def)
    qed (use False in auto)
  qed
qed simp

lemma queue_contains: "set queue \<subseteq> set seen \<union> set (fuzz_queue graph target seen queue) \<or>
    (\<exists>c \<in> set (fuzz_queue graph target seen queue) - set seen. map_of graph c = None)"
proof (induction graph target seen queue rule: fuzz_queue.induct)
  case (2 graph target seen current queue)
  show ?case
  proof (cases "current \<in> set seen \<or> map_of graph current = None")
    case True
    with 2(1) show ?thesis by auto
  next
    case False
    then obtain p where p: "map_of graph current = Some p" and new: "current \<notin> set seen" by auto
    from 2(2) [OF new p] new p show ?thesis by auto
  qed
qed simp

lemma queue_closed:
  assumes "\<And>c. c \<in> set (fuzz_queue graph target seen queue) - set seen \<Longrightarrow> map_of graph c \<noteq> None"
    and "\<And>a b. a \<in> set seen \<Longrightarrow> (a, b) \<in> depends graph target \<Longrightarrow> b \<in> set seen \<union> set queue"
    and "(a, b) \<in> depends graph target" and "a \<in> set seen \<union> set (fuzz_queue graph target seen queue)"
  shows "b \<in> set seen \<union> set (fuzz_queue graph target seen queue)"
  using assms
proof (induction graph target seen queue rule: fuzz_queue.induct)
  case (1 graph target seen)
  then show ?case by auto
next
  case (2 graph target seen current queue)
  show ?case
  proof (cases "current \<in> set seen")
    case True
    have "b \<in> set seen \<union> set (fuzz_queue graph target seen queue)"
      by (rule 2(1) [OF True]) (use 2(3-) True in auto)
    with True show ?thesis by auto
  next
    case False
    with 2(3) obtain p where p: "map_of graph current = Some p" by fastforce
    have deps: "b \<in> set (fuzz_dependencies graph target current p)" if "(current, b) \<in> depends graph target" for b
      using that p by (auto simp: depends_def)
    have "b \<in> set (current # seen) \<union> set (fuzz_queue graph target (current # seen) (queue @ fuzz_dependencies graph target current p))"
    proof (rule 2(2) [OF False p])
      show "map_of graph c \<noteq> None"
        if "c \<in> set (fuzz_queue graph target (current # seen) (queue @ fuzz_dependencies graph target current p)) - set (current # seen)" for c
        using 2(3) [of c] that False p by auto
      show "b \<in> set (current # seen) \<union> set (queue @ fuzz_dependencies graph target current p)"
        if "a \<in> set (current # seen)" "(a, b) \<in> depends graph target" for a b
        using 2(4) [of a b] that deps [of b] by auto
      show "(a, b) \<in> depends graph target" by (rule 2(5))
      show "a \<in> set (current # seen) \<union> set (fuzz_queue graph target (current # seen) (queue @ fuzz_dependencies graph target current p))"
        using 2(6) False p by auto
    qed
    with False p show ?thesis by auto
  qed
qed

lemma queue_exact:
  assumes "\<And>c. c \<in> set (fuzz_queue graph target [] [target]) \<Longrightarrow> map_of graph c \<noteq> None"
  shows "set (fuzz_queue graph target [] [target]) = (depends graph target)\<^sup>* `` {target}"
proof
  show "set (fuzz_queue graph target [] [target]) \<subseteq> (depends graph target)\<^sup>* `` {target}"
    using queue_subset [of graph target "[]" "[target]"] by simp
  have "c \<in> set (fuzz_queue graph target [] [target])" if "(target, c) \<in> (depends graph target)\<^sup>*" for c
    using that
  proof (induction rule: rtrancl_induct)
    case base
    show ?case by simp
  next
    case (step b c)
    with assms queue_closed [of graph target "[]" "[target]" b c] show ?case by simp
  qed
  then show "(depends graph target)\<^sup>* `` {target} \<subseteq> set (fuzz_queue graph target [] [target])" by auto
qed

lemma queue_missing:
  assumes "(target, c) \<in> (depends graph target)\<^sup>*" and "map_of graph c = None"
  shows "\<exists>c \<in> set (fuzz_queue graph target [] [target]). map_of graph c = None"
  using queue_exact [of graph target] assms by fastforce


section \<open>The loop\<close>

definition package_touched :: "fuzz_kit \<Rightarrow> runner \<Rightarrow> string \<Rightarrow> string list \<Rightarrow> bool \<Rightarrow> fuzz_package \<Rightarrow> bool" where
  "package_touched fk rn canonical changes selected p \<longleftrightarrow>
     owner_changed rn changes p \<or>
     (case fuzz_directory (rn_root rn) canonical p of
        None \<Rightarrow> False
      | Some directory \<Rightarrow> list_ex (change_touches fk selected p directory) changes)"

definition embeds_ok :: "fuzz_kit \<Rightarrow> bool \<Rightarrow> fuzz_package \<Rightarrow> bool" where
  "embeds_ok fk selected p \<longleftrightarrow>
     list_all (\<lambda>pattern. fk_match fk (trim_prefix pattern ''all:'') [] \<noteq> None) (snd (fuzz_embeds selected p))"

text \<open>The patterns are looked at once there is a change and the package is in the repository.\<close>

definition patterns_ok :: "fuzz_kit \<Rightarrow> runner \<Rightarrow> string \<Rightarrow> string list \<Rightarrow> bool \<Rightarrow> fuzz_package \<Rightarrow> bool" where
  "patterns_ok fk rn canonical changes selected p \<longleftrightarrow>
     changes = [] \<or> fuzz_directory (rn_root rn) canonical p = None \<or> embeds_ok fk selected p"

lemma changes_touch_result:
  "snd (changes_touch fk selected p directory affected changes r) = Inr b \<Longrightarrow>
     (changes = [] \<or> embeds_ok fk selected p) \<and>
     b = (affected \<or> list_ex (change_touches fk selected p directory) changes)"
proof (induction changes arbitrary: affected r)
  case (Cons change changes)
  let ?bad = "list_ex (\<lambda>pattern. fk_match fk (trim_prefix pattern ''all:'') [] = None) (snd (fuzz_embeds selected p))"
  from and_do_Inr [OF Cons(2) [unfolded changes_touch.simps]] obtain s
    where run: "snd ((if ?bad then fail (Refused ''fuzz smoke embed pattern is invalid'')
      else changes_touch fk selected p directory (affected \<or> change_touches fk selected p directory change) changes) s) = Inr b"
    by blast
  then have ok: "\<not> ?bad" by (auto simp: fail_def split: if_splits)
  with run have "snd (changes_touch fk selected p directory (affected \<or> change_touches fk selected p directory change) changes s) = Inr b"
    by simp
  from Cons(1) [OF this] ok show ?case by (auto simp: embeds_ok_def list_ex_iff list_all_iff)
qed (simp add: give_def)

lemma changes_touch_uncancelled:
  assumes "rn_ctx r = None"
  shows "changes_touch fk selected p directory affected changes r =
    (r, if changes = [] \<or> embeds_ok fk selected p
        then Inr (affected \<or> list_ex (change_touches fk selected p directory) changes)
        else Inl (Refused ''fuzz smoke embed pattern is invalid''))"
  using assms
proof (induction changes arbitrary: affected)
  case (Cons change changes)
  then show ?case
    by (auto simp: check_ctx_uncancelled fail_def embeds_ok_def list_ex_iff list_all_iff)
qed (simp add: give_def)

lemma package_step_result:
  "snd (package_step fk rn canonical changes affected selected p r) = Inr b \<Longrightarrow>
     patterns_ok fk rn canonical changes selected p \<and> b = (affected \<or> package_touched fk rn canonical changes selected p)"
  by (auto simp: package_step_def patterns_ok_def package_touched_def give_def split: option.splits
      dest: changes_touch_result)

lemma package_step_uncancelled:
  "rn_ctx r = None \<Longrightarrow> package_step fk rn canonical changes affected selected p r =
    (r, if patterns_ok fk rn canonical changes selected p
        then Inr (affected \<or> package_touched fk rn canonical changes selected p)
        else Inl (Refused ''fuzz smoke embed pattern is invalid''))"
  by (auto simp: package_step_def patterns_ok_def package_touched_def give_def changes_touch_uncancelled split: option.splits)

lemma package_step_passed:
  "rn_ctx r = None \<Longrightarrow> patterns_ok fk rn canonical changes selected p \<Longrightarrow>
    package_step fk rn canonical changes affected selected p r =
      (r, Inr (affected \<or> package_touched fk rn canonical changes selected p))"
  by (simp add: package_step_uncancelled)

abbreviation package_at :: "fuzz_graph \<Rightarrow> string \<Rightarrow> fuzz_package" where
  "package_at graph c \<equiv> the (map_of graph c)"

declare visit_packages.simps(2) [simp del]

lemma visit_result:
  "snd (visit_packages fk rn canonical target graph changes seen affected cs r) = Inr b \<Longrightarrow>
     (\<forall>c \<in> set cs - set seen. map_of graph c \<noteq> None \<and> patterns_ok fk rn canonical changes (c = target) (package_at graph c)) \<and>
     b = (affected \<or> (\<exists>c \<in> set cs - set seen. package_touched fk rn canonical changes (c = target) (package_at graph c)))"
proof (induction cs arbitrary: seen affected r)
  case (Cons c cs)
  let ?rest = "visit_packages fk rn canonical target graph changes"
  from and_do_Inr [OF Cons(2) [unfolded visit_packages.simps(2)]] obtain s where run:
    "snd ((if c \<in> set seen then ?rest seen affected cs
      else (case map_of graph c of None \<Rightarrow> fail (Refused ''fuzz smoke package dependency is missing'')
        | Some p \<Rightarrow> and_do (package_step fk rn canonical changes affected (c = target) p) (\<lambda>affected. ?rest (c # seen) affected cs))) s)
     = Inr b" by blast
  show ?case
  proof (cases "c \<in> set seen")
    case True
    with run have "snd (?rest seen affected cs s) = Inr b" by simp
    from Cons(1) [OF this] True show ?thesis by auto
  next
    case False
    with run obtain p where p: "map_of graph c = Some p" by (auto simp: fail_def split: option.splits)
    with run False have "snd (and_do (package_step fk rn canonical changes affected (c = target) p)
      (\<lambda>affected. ?rest (c # seen) affected cs) s) = Inr b" by simp
    from and_do_Inr [OF this] obtain t a where a: "package_step fk rn canonical changes affected (c = target) p s = (t, Inr a)"
      and rest: "snd (?rest (c # seen) a cs t) = Inr b" by blast
    from a package_step_result [of fk rn canonical changes affected "c = target" p s a]
    have "patterns_ok fk rn canonical changes (c = target) p"
      "a = (affected \<or> package_touched fk rn canonical changes (c = target) p)" by simp_all
    moreover have "set (c # cs) - set seen = insert c (set cs - set (c # seen))" using False by auto
    ultimately show ?thesis using Cons(1) [OF rest] p by (simp only:) simp
  qed
qed (simp add: give_def)

lemma visit_uncancelled:
  assumes "rn_ctx r = None"
    and "\<forall>c \<in> set cs - set seen. map_of graph c \<noteq> None \<and> patterns_ok fk rn canonical changes (c = target) (package_at graph c)"
  shows "\<exists>b. visit_packages fk rn canonical target graph changes seen affected cs r = (r, Inr b)"
  using assms(2)
proof (induction cs arbitrary: seen affected)
  case (Cons c cs)
  show ?case
  proof (cases "c \<in> set seen")
    case True
    with Cons(2) have "\<forall>c \<in> set cs - set seen. map_of graph c \<noteq> None \<and> patterns_ok fk rn canonical changes (c = target) (package_at graph c)"
      by simp
    from Cons(1) [OF this] True assms(1) show ?thesis by (simp add: visit_packages.simps(2) check_ctx_uncancelled)
  next
    case False
    with Cons(2) have "map_of graph c \<noteq> None \<and> patterns_ok fk rn canonical changes (c = target) (package_at graph c)" by simp
    then obtain p where p: "map_of graph c = Some p" "patterns_ok fk rn canonical changes (c = target) p" by auto
    have "\<forall>c \<in> set cs - set (c # seen). map_of graph c \<noteq> None \<and> patterns_ok fk rn canonical changes (c = target) (package_at graph c)"
      using Cons(2) by auto
    from Cons(1) [OF this] False p assms(1) show ?thesis
      by (simp add: visit_packages.simps(2) check_ctx_uncancelled and_do_known [OF package_step_passed])
  qed
qed (simp add: give_def)

section \<open>The selection is exact\<close>

definition built_from :: "fuzz_graph \<Rightarrow> string \<Rightarrow> string set" where
  "built_from graph target = (depends graph target)\<^sup>* `` {target}"

definition fuzz_complete :: "fuzz_kit \<Rightarrow> runner \<Rightarrow> string \<Rightarrow> string \<Rightarrow> fuzz_graph \<Rightarrow> string list \<Rightarrow> bool" where
  "fuzz_complete fk rn canonical target graph changes \<longleftrightarrow>
     (\<forall>c \<in> built_from graph target.
        map_of graph c \<noteq> None \<and> patterns_ok fk rn canonical changes (c = target) (package_at graph c))"

definition fuzz_touched :: "fuzz_kit \<Rightarrow> runner \<Rightarrow> module_policy \<Rightarrow> string \<Rightarrow> string \<Rightarrow> fuzz_graph \<Rightarrow> string list \<Rightarrow> bool" where
  "fuzz_touched fk rn md canonical target graph changes \<longleftrightarrow>
     ''.go-version'' \<in> set changes \<or> module_file_changed (md_directory md) changes \<or>
     (\<exists>c \<in> built_from graph target. package_touched fk rn canonical changes (c = target) (package_at graph c))"

lemma affected_result:
  assumes "mk_symlinks (gk_mutation kit) (rn_world r) (rn_root rn) = Some canonical"
    and "snd (fuzz_target_affected kit fk rn md target graph changes r) = Inr b"
  shows "fuzz_complete fk rn canonical target graph changes \<and> b = fuzz_touched fk rn md canonical target graph changes"
proof -
  let ?queue = "fuzz_queue graph target [] [target]"
  have "snd (visit_packages fk rn canonical target graph changes []
      (List.member changes ''.go-version'' \<or> module_file_changed (md_directory md) changes) ?queue r) = Inr b"
    using assms by (simp add: fuzz_target_affected_def and_do_def see_world_def)
  note visit = visit_result [OF this]
  then have built: "set ?queue - set [] = built_from graph target"
    unfolding built_from_def using queue_exact [of graph target] by (simp del: fuzz_queue.simps)
  from visit show ?thesis unfolding built fuzz_complete_def fuzz_touched_def by simp
qed

lemma affected_uncancelled:
  assumes "mk_symlinks (gk_mutation kit) (rn_world r) (rn_root rn) = Some canonical"
    and "fuzz_complete fk rn canonical target graph changes" and "rn_ctx r = None"
  shows "\<exists>b. snd (fuzz_target_affected kit fk rn md target graph changes r) = Inr b"
proof -
  have "set (fuzz_queue graph target [] [target]) \<subseteq> built_from graph target"
    using queue_subset [of graph target "[]" "[target]"] by (simp add: built_from_def)
  with assms(2) have "\<forall>c \<in> set (fuzz_queue graph target [] [target]) - set [].
      map_of graph c \<noteq> None \<and> patterns_ok fk rn canonical changes (c = target) (package_at graph c)"
    by (auto simp: fuzz_complete_def)
  from visit_uncancelled [OF assms(3) this,
      of "List.member changes ''.go-version'' \<or> module_file_changed (md_directory md) changes"] assms(1)
  show ?thesis by (auto simp: fuzz_target_affected_def and_do_def see_world_def)
qed

text \<open>C5: A fuzz target counts as affected exactly when a change names the Go version, a module file of its
  module, or touches a package that the target is built from, by any chain of dependencies; and when
  nothing cancels the run it decides this whenever the graph has all these packages and their embed
  patterns are well-formed.\<close>

theorem affected_targets_exact:
  "case mk_symlinks (gk_mutation kit) (rn_world r) (rn_root rn) of
     None \<Rightarrow> \<exists>e. snd (fuzz_target_affected kit fk rn md target graph changes r) = Inl e
   | Some canonical \<Rightarrow>
       (case snd (fuzz_target_affected kit fk rn md target graph changes r) of
          Inl e \<Rightarrow> \<not> (rn_ctx r = None \<and> fuzz_complete fk rn canonical target graph changes)
        | Inr b \<Rightarrow> fuzz_complete fk rn canonical target graph changes \<and>
            b = fuzz_touched fk rn md canonical target graph changes)"
proof (cases "mk_symlinks (gk_mutation kit) (rn_world r) (rn_root rn)")
  case None
  then show ?thesis by (simp add: fuzz_target_affected_def and_do_def see_world_def fail_def)
next
  case (Some canonical)
  show ?thesis
  proof (cases "snd (fuzz_target_affected kit fk rn md target graph changes r)")
    case (Inl e)
    then have "\<not> (fuzz_complete fk rn canonical target graph changes \<and> rn_ctx r = None)"
      using affected_uncancelled [OF Some] by (metis Inl_Inr_False)
    with Some Inl show ?thesis by auto
  next
    case (Inr b)
    with Some affected_result [OF Some] show ?thesis by simp
  qed
qed

section \<open>The targets are bounded\<close>

definition proper_target :: "module_policy list \<Rightarrow> fuzz_target \<Rightarrow> bool" where
  "proper_target mds t \<longleftrightarrow>
     List.member mds (ft_module t) \<and> st_type (ft_step t) = ''go-test'' \<and> st_fuzz (ft_step t) \<noteq> [] \<and>
     length (st_packages (ft_step t)) = 1 \<and> \<not> has_suffix (hd (st_packages (ft_step t))) ''/...''"

definition proper_targets :: "module_policy list \<Rightarrow> fuzz_target list \<Rightarrow> bool" where
  "proper_targets mds ts \<longleftrightarrow> length ts \<le> maximum_fuzz_targets \<and> distinct (map identity_of ts) \<and> list_all (proper_target mds) ts"

lemma candidates_ok:
  "fuzz_candidates n packages ss = Inr x \<Longrightarrow>
     list_all (\<lambda>s. st_type s = ''go-test'' \<and> st_fuzz s \<noteq> [] \<and> length (st_packages s) = 1 \<and>
       \<not> has_suffix (hd (st_packages s)) ''/...'') ss"
  by (induction n packages ss rule: fuzz_candidates.induct) (auto split: if_splits)

lemma step_targets_proper:
  assumes "snd (fuzz_step_targets kit fk rn changes policy md graph targets ss r) = Inr ts"
    and "proper_targets mds targets" and "List.member mds md"
    and "list_all (\<lambda>s. st_type s = ''go-test'' \<and> st_fuzz s \<noteq> [] \<and> length (st_packages s) = 1 \<and>
       \<not> has_suffix (hd (st_packages s)) ''/...'') ss"
  shows "proper_targets mds ts"
  using assms
proof (induction ss arbitrary: targets r)
  case (Cons s ss)
  let ?t = "\<lparr>ft_module = md, ft_step = s, ft_directory = graph_directory graph (fuzz_import_path md s),
    ft_compiler = fuzz_compiler graph\<rparr>"
  have new: "proper_targets mds (targets @ [?t])"
    if "\<not> List.member (map identity_of targets) (fuzz_target_identity md s)" "length targets < maximum_fuzz_targets"
    using that Cons(3-) by (auto simp: proper_targets_def proper_target_def identity_of_def)
  from and_do_Inr [OF Cons(2) [unfolded fuzz_step_targets.simps Let_def]] obtain u a where
    "snd ((if (a \<or> map_of policy (fuzz_policy_identity (md_directory md) s) = Some True) \<and>
          \<not> List.member (map identity_of targets) (fuzz_target_identity md s)
       then (if maximum_fuzz_targets < Suc (length targets)
                then fail (Refused ''fuzz smoke target limit exceeded; review the affected target scope'')
                else fuzz_step_targets kit fk rn changes policy md graph (targets @ [?t]) ss)
       else fuzz_step_targets kit fk rn changes policy md graph targets ss) u) = Inr ts" by blast
  then show ?case using Cons(1) [OF _ new] Cons(1) [OF _ Cons(3)] Cons(4,5)
    by (auto simp: fail_def not_less_eq split: if_splits)
qed (simp add: give_def)

lemma module_targets_proper:
  assumes "snd (fuzz_module_targets kit fk rn changes policy n targets mds r) = Inr ts"
    and "proper_targets all targets" and "list_all (List.member all) mds"
  shows "proper_targets all ts"
  using assms
proof (induction mds arbitrary: n targets r)
  case (Cons md mds)
  show ?case
  proof (cases "find_operation rn (md_directory md) ''fuzz''")
    case None
    with Cons(2) have "snd (fuzz_module_targets kit fk rn changes policy n targets mds r) = Inr ts" by simp
    from Cons(1) [OF this Cons(3)] Cons(4) show ?thesis by simp
  next
    case (Some op)
    show ?thesis
    proof (cases "fuzz_candidates n [] (op_steps op)")
      case (Inr x)
      obtain m packages where x: "x = (m, packages)" by fastforce
      from Cons(2) Some Inr x have "snd (and_do (fuzz_package_graph kit fk rn md packages) (\<lambda>graph.
          and_do (fuzz_step_targets kit fk rn changes policy md graph targets (op_steps op)) (\<lambda>targets.
            fuzz_module_targets kit fk rn changes policy m targets mds)) r) = Inr ts" by simp
      from and_do_Inr [OF this] obtain s graph where
        "snd (and_do (fuzz_step_targets kit fk rn changes policy md graph targets (op_steps op)) (\<lambda>targets.
            fuzz_module_targets kit fk rn changes policy m targets mds) s) = Inr ts" by blast
      from and_do_Inr [OF this] obtain t us where
        step: "fuzz_step_targets kit fk rn changes policy md graph targets (op_steps op) s = (t, Inr us)"
        and rest: "snd (fuzz_module_targets kit fk rn changes policy m us mds t) = Inr ts" by blast
      have "snd (fuzz_step_targets kit fk rn changes policy md graph targets (op_steps op) s) = Inr us"
        unfolding step by simp
      moreover have "List.member all md" using Cons(4) by simp
      ultimately have "proper_targets all us" using candidates_ok [OF Inr] by (rule step_targets_proper [OF _ Cons(3)])
      from Cons(1) [OF rest this] Cons(4) show ?thesis by simp
    qed (use Cons(2) Some in \<open>simp add: fail_def\<close>)
  qed
qed (simp add: give_def)

text \<open>The fuzz smoke runs at most 32 targets, no target twice, each a single-package fuzz step of a
  selected module, whatever the policy, the catalog and the changes are.\<close>

theorem fuzz_targets_bounded:
  "case snd (fuzz_targets kit fk rn changes mds r) of
     Inl e \<Rightarrow> True
   | Inr ts \<Rightarrow> length ts \<le> 32 \<and> distinct (map identity_of ts) \<and> list_all (proper_target mds) ts"
proof (cases "snd (fuzz_targets kit fk rn changes mds r)")
  case (Inr ts)
  from and_do_Inr [OF this [unfolded fuzz_targets_def]] obtain s policy where
    "snd (fuzz_module_targets kit fk rn changes policy 0 [] mds s) = Inr ts" by blast
  then have "proper_targets mds ts"
    by (rule module_targets_proper) (auto simp: proper_targets_def list_all_iff)
  with Inr show ?thesis by (simp add: proper_targets_def maximum_fuzz_targets_def)
qed simp

section \<open>The workspace is removed\<close>

lemma balanced_change_git [law_steps]: "balanced (run_change_git kit rn arguments)"
  unfolding run_change_git_def Let_def by (auto intro!: law_steps)

lemma balanced_committed_changes [law_steps]: "balanced (committed_changes_act kit rn base head)"
  unfolding committed_changes_act_def by (auto intro!: law_steps split: option.splits)

lemma balanced_prepare_changes [law_steps]: "balanced (prepare_secret_changes kit rn base changes)"
  unfolding prepare_secret_changes_def Let_def by (auto intro!: law_steps)

lemma balanced_fuzz_command [law_steps]: "balanced (fuzz_command kit rn c limit)"
  unfolding fuzz_command_def by (auto intro!: law_steps)

lemma balanced_fuzz_packages [law_steps]: "balanced (fuzz_packages graph n vs)"
  by (induction graph n vs rule: fuzz_packages.induct) (auto intro!: law_steps)

lemma balanced_package_graph [law_steps]: "balanced (fuzz_package_graph kit fk rn md packages)"
  unfolding fuzz_package_graph_def by (auto intro!: law_steps)

lemma balanced_changes_touch [law_steps]: "balanced (changes_touch fk selected p directory affected changes)"
  by (induction changes arbitrary: affected) (auto intro!: law_steps)

lemma balanced_package_step [law_steps]: "balanced (package_step fk rn canonical changes affected selected p)"
  unfolding package_step_def by (auto intro!: law_steps split: option.splits)

lemma balanced_visit [law_steps]: "balanced (visit_packages fk rn canonical target graph changes seen affected cs)"
  by (induction cs arbitrary: seen affected) (auto simp: visit_packages.simps(2) intro!: law_steps split: option.splits)

lemma balanced_affected [law_steps]: "balanced (fuzz_target_affected kit fk rn md target graph changes)"
  unfolding fuzz_target_affected_def by (auto intro!: law_steps split: option.splits)

lemma balanced_policy [law_steps]: "balanced (changed_fuzz_policy kit fk rn changes)"
  unfolding changed_fuzz_policy_def changed_catalog_def read_policy_def read_catalog_def Let_def
  by (auto intro!: law_steps split: option.splits sum.splits prod.splits)

lemma balanced_step_targets [law_steps]: "balanced (fuzz_step_targets kit fk rn changes policy md graph targets ss)"
  by (induction ss arbitrary: targets) (auto simp: Let_def intro!: law_steps)

lemma balanced_module_targets [law_steps]: "balanced (fuzz_module_targets kit fk rn changes policy n targets mds)"
  by (induction mds arbitrary: n targets) (auto intro!: law_steps split: option.splits sum.splits prod.splits)

text \<open>A context is made inside the directory whose removal is owed.\<close>

interpretation owing: run_law "owes D D" for D
  by unfold_locales (auto intro: owes_trans owes_more balance.law_world balance.law_ctx owes_refl)

declare owing.steps [law_steps del] owing.all_in_order [law_steps del]

lemma owing_inside: "obeys (owes {#path_clean scratch#} {#path_clean scratch#}) (make_directory_inside kit scratch pattern)"
proof -
  have "owes {#path_clean scratch#} {#path_clean scratch#} r (r\<lparr>rn_events := rn_events r @ [Made_inside scratch p]\<rparr>)" for r p
    by (simp add: owes_event)
  then have "obeys (owes {#path_clean scratch#} {#path_clean scratch#}) (emit (Made_inside scratch p))" for p
    by (simp add: obeys_def emit_def)
  then show ?thesis
    unfolding make_directory_inside_def
    by (intro owing.and_do owing.on_world) (auto intro!: owing.and_do owing.give split: sum.splits)
qed

lemma owing_context:
  "obeys (owes {#path_clean scratch#} {#path_clean scratch#}) (prepare_fuzz_smoke kit fk rn scratch t)"
  unfolding prepare_fuzz_smoke_def Let_def
  by (intro owing.and_do owing.check_ctx owing_inside; rule owing; auto intro!: law_steps split: sum.splits)

lemma owing_contexts:
  "obeys (owes {#path_clean scratch#} {#path_clean scratch#}) (prepare_contexts kit fk rn scratch prepared ts)"
proof (induction ts arbitrary: prepared)
  case Nil
  show ?case by (simp add: owing.and_do owing.check_ctx owing.give)
next
  case (Cons t ts)
  then show ?case by (auto intro!: owing.and_do owing_context)
qed

lemma balanced_smoke_steps [law_steps]: "balanced (fuzz_smoke_steps kit fk rn prepared md ss)"
  by (induction ss arbitrary: prepared)
    (auto simp: fuzz_smoke_step_def list_fuzz_names_def intro!: law_steps split: option.splits)

lemma balanced_smoke_modules [law_steps]: "balanced (smoke_modules kit fk rn targets prepared mds)"
  unfolding smoke_modules_def smoke_module_def
  by (auto simp: list_all_iff intro!: law_steps balanced_with_services)

lemma balanced_timed_line [law_steps]: "balanced (timed_line fk before after)"
  unfolding timed_line_def by (auto intro!: law_steps)

lemma balanced_not_started [law_steps]: "balanced m \<Longrightarrow> balanced (not_started fk m)"
  unfolding not_started_def by (auto intro!: law_steps)

lemma pays_remove_scratch: "pays scratch (remove_scratch kit scratch x)"
  unfolding remove_scratch_def by (intro removing law_steps)

lemma pays_not_started: "pays p m \<Longrightarrow> pays p (not_started fk m)"
proof -
  assume "pays p m"
  then have "pays p (attempt m)" by (auto simp: obeys_def attempt_def split: prod.splits) (metis fst_conv)
  then show ?thesis unfolding not_started_def by (intro paying_step certain_steps law_steps)
qed

lemma certain_see_world [certain_steps]: "certain (see_world f)"
  by (simp add: certain_def see_world_def)

lemma certain_timed_line [certain_steps]: "certain (timed_line fk before after)"
  unfolding timed_line_def by (intro certain_and_do certain_steps)

lemma balanced_smoke_targets [law_steps]: "balanced (smoke_targets kit fk rn targets mds)"
proof -
  have "pays scratch (smoke_prepared kit fk rn targets mds scratch x)" for scratch x
    unfolding smoke_prepared_def
    by (auto intro!: owing_step [OF certain_timed_line balanced_timed_line] pays_attempt pays_not_started pays_remove_scratch
        law_steps split: sum.splits)
  then have "pays scratch (and_do (attempt (prepare_contexts kit fk rn scratch [] targets))
      (smoke_prepared kit fk rn targets mds scratch))" for scratch
    by (intro debt_step [OF certain_basic(5)] owing.attempt owing_contexts)
  then show ?thesis
    unfolding smoke_targets_def by (auto intro!: law_steps split: sum.splits)
qed

lemma balanced_fuzz_smoke [law_steps]: "balanced (fuzz_smoke kit fk rn changes mds)"
  unfolding fuzz_smoke_def fuzz_targets_def by (auto intro!: law_steps split: sum.splits)

lemma tidy_local_changes: "tidy (local_changes kit fk rn selection base)"
  unfolding local_changes_def
  by (intro tidy_and_do tidy_check tidy_balanced law_steps balanced_secrets)

text \<open>C4: Whatever fails, and wherever the run is cancelled, the commands ask to remove every file that the code
  of internal/gates made with \<open>CreateTemp\<close> and every directory it made with \<open>MkdirTemp\<close>, as often as it made it. A compilation
  context of the fuzz smoke has no removal of its own: it is made inside such a directory, whose removal
  comes after it. No compiler tool of a security pass is retained at the end. The failure of a removal is
  joined to the error of the command. What is not counted: directories of fixed names below the task workspace,
  which goes with its executor, and what other packages make for themselves: the temporary files of the
  evidence and report stores under the mutation gate of Check, and the fixtures of services.\<close>

theorem cleanup_balanced:
  "list_all (\<lambda>m. made (rn_events (fst (m (fresh_run w c)))) = removed (rn_events (fst (m (fresh_run w c)))) \<and>
       goes_with {#} (rn_events (fst (m (fresh_run w c)))) \<and>
       rn_binaries (fst (m (fresh_run w c))) = None)
     [check kit rn selection, local kit rn selection, local_changes kit fk rn selection base,
      coverage_gate kit rn selection, api kit rn selection update, secrets kit rn, secrets_changes kit rn base]"
proof -
  have "made (rn_events (fst (m (fresh_run w c)))) = removed (rn_events (fst (m (fresh_run w c)))) \<and>
      goes_with {#} (rn_events (fst (m (fresh_run w c)))) \<and>
      rn_binaries (fst (m (fresh_run w c))) = None" if "tidy m" for m :: "unit act"
  proof -
    have "owes {#} {#} (fresh_run w c) (fst (m (fresh_run w c)))"
      using that by (simp add: tidy_def fresh_run_def)
    then show ?thesis by (auto simp: owes_def fresh_run_def kept_def)
  qed
  moreover have "balanced (secrets_changes kit rn base)"
    unfolding secrets_changes_def by (auto intro!: law_steps balanced_secrets)
  ultimately show ?thesis
    by (simp add: tidy_check tidy_local_changes tidy_balanced balanced_gates balanced_secrets)
qed

end
