(* ===== verification/Services_Output.thy ===== *)
theory Services_Output
  imports Go_Path Gate_Process
begin

text \<open>
  internal/services: the bounded captures of a service process, the diagnostic text without the
  fixture's secrets, the published port (services.go), and the image lock of OpenSearch
  (opensearch.go).
\<close>

section \<open>Bounded output (services.go)\<close>

definition maximum_port_output :: nat where "maximum_port_output = 4096"
definition maximum_service_diagnostic :: nat where "maximum_service_diagnostic = 4096"
definition diagnostic_truncated :: string where
  "diagnostic_truncated = ''[diagnostic truncated]'' @ [CHR 0x0A]"

text \<open>A write that does not fit is refused as a whole.\<close>

definition port_write :: "string \<Rightarrow> string \<Rightarrow> string" where
  "port_write v value = (if maximum_port_output < length value + length v then value else value @ v)"

record diagnostic_writer =
  dw_value :: string
  dw_limit :: nat
  dw_secrets :: "string list"
  dw_truncated :: bool

definition new_diagnostic_writer :: "string list \<Rightarrow> diagnostic_writer" where
  "new_diagnostic_writer secrets =
     (let retained = filter (\<lambda>s. s \<noteq> []) secrets
      in \<lparr>dw_value = [], dw_limit = maximum_service_diagnostic + sum_list (map length retained),
          dw_secrets = retained, dw_truncated = False\<rparr>)"

definition diagnostic_write :: "string \<Rightarrow> diagnostic_writer \<Rightarrow> diagnostic_writer" where
  "diagnostic_write v w =
     (if dw_limit w < length v
      then w\<lparr>dw_value := drop (length v - dw_limit w) v, dw_truncated := True\<rparr>
      else (let excess = length (dw_value w) + length v - dw_limit w;
                w = (if 0 < excess then w\<lparr>dw_value := drop excess (dw_value w), dw_truncated := True\<rparr> else w)
            in w\<lparr>dw_value := dw_value w @ v\<rparr>))"

section \<open>Redaction\<close>

text \<open>The ranges (start, width) that one secret masks: its occurrences, a proper suffix at the start of
  the text, and a proper prefix at its end.\<close>

definition occurrence_ranges :: "string \<Rightarrow> string \<Rightarrow> (nat \<times> nat) list" where
  "occurrence_ranges value secret =
     (if length secret \<le> length value
      then map (\<lambda>start. (start, length secret))
             (filter (\<lambda>start. has_prefix (drop start value) secret) [0..<length value - length secret + 1])
      else [])"

definition boundary_ranges :: "string \<Rightarrow> string \<Rightarrow> (nat \<times> nat) list" where
  "boundary_ranges value secret =
     concat (map (\<lambda>boundary.
         let width = boundary + 1
         in (if take width value = drop (length secret - width) secret then [(0, width)] else []) @
            (if drop (length value - width) value = take width secret then [(length value - width, width)] else []))
       [0..<min (length secret - 1) (length value)])"

definition mark_range :: "nat \<times> nat \<Rightarrow> bool list \<Rightarrow> bool list" where
  "mark_range r masked = (case r of (start, width) \<Rightarrow> take start masked @ replicate width True @ drop (start + width) masked)"

definition redaction_mask :: "string \<Rightarrow> string list \<Rightarrow> bool list" where
  "redaction_mask value secrets =
     fold mark_range (concat (map (\<lambda>s. occurrence_ranges value s @ boundary_ranges value s) secrets))
       (replicate (length value) False)"

definition redact_secrets :: "string \<Rightarrow> string list \<Rightarrow> string" where
  "redact_secrets value secrets =
     map2 (\<lambda>hidden c. if hidden then CHR ''*'' else c) (redaction_mask value secrets) value"

section \<open>The diagnostic text\<close>

text \<open>\<open>strings.ToValidUTF8\<close>: each run of invalid bytes becomes one replacement.\<close>

definition invalid_rune :: "int \<times> string \<Rightarrow> bool" where
  "invalid_rune r \<longleftrightarrow> fst r = 65533 \<and> length (snd r) = 1"

fun replace_invalid :: "string \<Rightarrow> bool \<Rightarrow> (int \<times> string) list \<Rightarrow> string" where
  "replace_invalid replacement invalid [] = []"
| "replace_invalid replacement invalid (r # rs) =
     (if invalid_rune r
      then (if invalid then [] else replacement) @ replace_invalid replacement True rs
      else snd r @ replace_invalid replacement False rs)"

definition to_valid_utf8 :: "string \<Rightarrow> string \<Rightarrow> string" where
  "to_valid_utf8 s replacement = replace_invalid replacement False (runes s)"

text \<open>\<open>strings.Map\<close>: an invalid byte is written as the replacement rune.\<close>

definition printable_rune :: "int \<times> string \<Rightarrow> string" where
  "printable_rune r =
     (if fst r = 13 then [CHR 0x0A]
      else if is_control_rune (fst r) \<and> fst r \<noteq> 10 \<and> fst r \<noteq> 9 then ''?''
      else if invalid_rune r then [CHR 0xEF, CHR 0xBF, CHR 0xBD]
      else snd r)"

definition printable_text :: "string \<Rightarrow> string" where
  "printable_text s = concat (map printable_rune (runes s))"

text \<open>The loop that drops bytes until the text is valid.\<close>

fun drop_invalid_start :: "string \<Rightarrow> string" where
  "drop_invalid_start [] = []"
| "drop_invalid_start (c # s) = (if valid_utf8 (c # s) then c # s else drop_invalid_start s)"

definition diagnostic_string :: "diagnostic_writer \<Rightarrow> string \<times> diagnostic_writer" where
  "diagnostic_string w =
     (let result = trim_space (printable_text (redact_secrets (to_valid_utf8 (dw_value w) ''?'') (dw_secrets w)))
      in if result = [] then ([], w)
         else (let truncated = dw_truncated w \<or> maximum_service_diagnostic < length result;
                   limit = (if truncated then maximum_service_diagnostic - length diagnostic_truncated
                            else maximum_service_diagnostic);
                   result = drop_invalid_start (drop (length result - limit) result)
               in (if truncated then diagnostic_truncated @ result else result, w\<lparr>dw_truncated := truncated\<rparr>)))"

section \<open>The published port\<close>

text \<open>\<open>bufio.Scanner\<close> with its default split, on a text within its buffer: the lines without their
  ends. An empty last line is none.\<close>

definition scan_lines :: "string \<Rightarrow> string list" where
  "scan_lines s =
     (let rows = split_on CHR 0x0A s; rows = (if last rows = [] then butlast rows else rows)
      in map (\<lambda>row. trim_suffix row [CHR 0x0D]) rows)"

datatype port_error = Port_empty | Port_ambiguous | Port_exposed | Port_invalid | Port_limit

text \<open>\<open>net.SplitHostPort\<close>: the host may stand in brackets.\<close>

definition split_host_port :: "string \<Rightarrow> (string \<times> string) option" where
  "split_host_port s =
     (case cut_last CHR '':'' s of
        None \<Rightarrow> None
      | Some (front, port) \<Rightarrow>
          if has_prefix s ''[''
          then (case cut_at s '']'' of
                  None \<Rightarrow> None
                | Some (opened, rest) \<Rightarrow>
                    if length opened + 1 = length front \<and> \<not> contains_any (drop 1 s) ''['' \<and> \<not> contains_any rest '']''
                    then Some (drop 1 opened, port) else None)
          else if contains_any front '':'' \<or> contains_any s ''[]'' then None
          else Some (front, port))"

definition published_port :: "string \<Rightarrow> port_error + string" where
  "published_port data =
     (if maximum_port_output < length data then Inl Port_limit
      else (case scan_lines (trim_space data) of
              [] \<Rightarrow> Inl Port_empty
            | [line] \<Rightarrow>
                (case split_host_port line of
                   None \<Rightarrow> Inl Port_exposed
                 | Some (host, port) \<Rightarrow>
                     if host \<noteq> ''127.0.0.1'' then Inl Port_exposed
                     else (case atoi port of
                             None \<Rightarrow> Inl Port_invalid
                           | Some number \<Rightarrow> if number < 1 \<or> 65535 < number then Inl Port_invalid else Inr port))
            | _ \<Rightarrow> Inl Port_ambiguous))"

section \<open>The image lock (opensearch.go)\<close>

record search_images =
  si_repository :: string
  si_old_version :: string
  si_old_digest :: string
  si_new_version :: string
  si_new_digest :: string

definition maximum_search_lock :: nat where "maximum_search_lock = 16384"

definition in_range :: "char \<Rightarrow> char \<Rightarrow> char \<Rightarrow> bool" where
  "in_range a b c \<longleftrightarrow> a \<le> c \<and> c \<le> b"

text \<open>The line \<open>name='value'\<close>: the name of small letters and underscores, the value without quotes.\<close>

definition search_line :: "string \<Rightarrow> (string \<times> string) option" where
  "search_line line =
     (case cut_at line ''='' of
        None \<Rightarrow> None
      | Some (name, rest) \<Rightarrow>
          (let value = trim_suffix (trim_prefix rest [CHR 0x27]) [CHR 0x27]
           in if name \<noteq> [] \<and> list_all (\<lambda>c. in_range CHR ''a'' CHR ''z'' c \<or> c = CHR ''_'') name \<and>
                 rest = CHR 0x27 # value @ [CHR 0x27] \<and> value \<noteq> [] \<and> CHR 0x27 \<notin> set value
              then Some (name, value) else None))"

definition repository_char :: "char \<Rightarrow> bool" where
  "repository_char c \<longleftrightarrow> in_range CHR ''a'' CHR ''z'' c \<or> in_range CHR ''0'' CHR ''9'' c \<or> c \<in> set ''._/-''"

definition search_repository_re :: "string \<Rightarrow> bool" where
  "search_repository_re s \<longleftrightarrow>
     s \<noteq> [] \<and> (in_range CHR ''a'' CHR ''z'' (hd s) \<or> in_range CHR ''0'' CHR ''9'' (hd s)) \<and> list_all repository_char (tl s)"

definition search_version_re :: "string \<Rightarrow> bool" where
  "search_version_re s \<longleftrightarrow> length (split_on CHR ''.'' s) = 3 \<and> list_all digits1 (split_on CHR ''.'' s)"

definition search_digest_re :: "string \<Rightarrow> bool" where
  "search_digest_re s \<longleftrightarrow>
     has_prefix s ''sha256:'' \<and> length s = 71 \<and>
     list_all (\<lambda>c. in_range CHR ''0'' CHR ''9'' c \<or> in_range CHR ''a'' CHR ''f'' c) (drop 7 s)"

datatype search_lock_error = Lock_limit | Lock_line | Lock_repeats string | Lock_unknown string
  | Lock_repository | Lock_version | Lock_digest | Lock_same

definition search_images_error :: "search_images \<Rightarrow> search_lock_error option" where
  "search_images_error i = first_error
     [refuse (\<not> search_repository_re (si_repository i) \<or> contains_str (si_repository i) ''..'' \<or>
              contains_str (si_repository i) ''//'') Lock_repository,
      refuse (\<not> search_version_re (si_old_version i) \<or> \<not> search_version_re (si_new_version i)) Lock_version,
      refuse (\<not> search_digest_re (si_old_digest i) \<or> \<not> search_digest_re (si_new_digest i)) Lock_digest,
      refuse (si_old_version i = si_new_version i \<or> si_old_digest i = si_new_digest i) Lock_same]"

fun search_values :: "(string \<times> string) list \<Rightarrow> string list \<Rightarrow> search_lock_error + (string \<times> string) list" where
  "search_values found [] = Inr found"
| "search_values found (line # rest) =
     (case search_line line of
        None \<Rightarrow> Inl Lock_line
      | Some (name, value) \<Rightarrow>
          if map_of found name \<noteq> None then Inl (Lock_repeats name)
          else search_values (found @ [(name, value)]) rest)"

text \<open>The index expression on a map of strings: the empty string where the key is absent.\<close>

definition string_at :: "('k \<times> string) list \<Rightarrow> 'k \<Rightarrow> string" where
  "string_at found key = (case map_of found key of None \<Rightarrow> [] | Some v \<Rightarrow> v)"

definition search_keys :: "string list" where
  "search_keys = [''opensearch_image_repository'', ''opensearch_old_version'', ''opensearch_old_digest'',
     ''opensearch_new_version'', ''opensearch_new_digest'']"

text \<open>The unknown key is the first of the lines; the code takes any.\<close>

definition parse_search_images :: "string \<Rightarrow> search_lock_error + search_images" where
  "parse_search_images data =
     (if maximum_search_lock < length data then Inl Lock_limit
      else (case search_values [] (split_on CHR 0x0A (trim_suffix data [CHR 0x0A])) of
              Inl e \<Rightarrow> Inl e
            | Inr found \<Rightarrow>
                (case find (\<lambda>(k, v). \<not> List.member search_keys k) found of
                   Some (k, v) \<Rightarrow> Inl (Lock_unknown k)
                 | None \<Rightarrow>
                     (let images = \<lparr>si_repository = string_at found ''opensearch_image_repository'',
                            si_old_version = string_at found ''opensearch_old_version'',
                            si_old_digest = string_at found ''opensearch_old_digest'',
                            si_new_version = string_at found ''opensearch_new_version'',
                            si_new_digest = string_at found ''opensearch_new_digest''\<rparr>
                      in case search_images_error images of Some e \<Rightarrow> Inl e | None \<Rightarrow> Inr images))))"

definition old_image :: "search_images \<Rightarrow> string" where
  "old_image i = si_repository i @ ''@'' @ si_old_digest i"

definition new_image :: "search_images \<Rightarrow> string" where
  "new_image i = si_repository i @ ''@'' @ si_new_digest i"

end
