(* ===== verification/Services_Stream.thy ===== *)
theory Services_Stream
  imports Services
begin

text \<open>
  internal/services/rabbitstream.go and rabbitstream_full.go: the RabbitMQ Streams fixtures, the
  standalone broker behind a proxy and the cluster with its TLS node, and \<open>Manager.Start\<close>, which
  starts the selection and closes the lease when a part of it fails.
\<close>

section \<open>Images and requests\<close>

definition rabbit_stream_image :: string where
  "rabbit_stream_image = ''rabbitmq@sha256:397fde82bc04522d88680b57cbf5d70caae715a76c957404e52e3f0fa056b8f3''"

definition rabbit_stream_old_image :: string where
  "rabbit_stream_old_image = ''rabbitmq@sha256:eb5295d083325da5929a5ade766684d4019ffd2bce8bc7e43d6f9a05cafc8646''"

definition toxiproxy_image :: string where
  "toxiproxy_image = ''ghcr.io/shopify/toxiproxy@sha256:9378ed52a28bc50edc1350f936f518f31fa95f0d15917d6eb40b8e376d1a214e''"

definition configure_toxiproxy :: "'w manager \<Rightarrow> string \<Rightarrow> string \<Rightarrow> (unit, 'w) task" where
  "configure_toxiproxy m url payload =
     with_attempts m ''wait for RabbitMQ Streams proxy'' ''configure RabbitMQ Streams proxy''
       (then_task (effect (mg_request m ''POST'' url payload)) (\<lambda>answer.
          succeed (case answer of
             Inl e \<Rightarrow> Some (Message e)
           | Inr status \<Rightarrow> if status = 201 \<or> status = 409 then None
                           else Some (Message (''unexpected HTTP '' @ dec_int status)))))"

definition proxy_payload :: "string \<Rightarrow> nat \<Rightarrow> string \<Rightarrow> string" where
  "proxy_payload name listen upstream =
     ''{\"name\":\"'' @ name @ ''\",\"listen\":\"0.0.0.0:'' @ dec_nat listen @ ''\",\"upstream\":\"'' @ upstream @ ''\"}''"

definition absolute_workspace :: "'w manager \<Rightarrow> bool" where
  "absolute_workspace m \<longleftrightarrow> mg_workspace m \<noteq> [] \<and> is_abs (mg_workspace m)"

definition workspace_error :: service_error where
  "workspace_error = Message ''RabbitMQ Streams requires an absolute task workspace''"

definition enabled_plugins :: string where
  "enabled_plugins = ''[rabbitmq_management,rabbitmq_stream].'' @ [CHR 0x0A]"

section \<open>The standalone broker\<close>

definition start_stream_broker ::
  "'w manager \<Rightarrow> string \<Rightarrow> string \<Rightarrow> string \<times> string \<times> string \<Rightarrow> string \<Rightarrow> (string, 'w) task" where
  "start_stream_broker m token network credentials proxy_port =
     (case credentials of (username, password, cookie) \<Rightarrow>
       let rabbit = network @ ''-rabbit'';
           directory = path_join [mg_workspace m, ''rabbitstream-standalone-'' @ token];
           plugins = path_join [directory, ''enabled_plugins''];
           configuration = path_join [directory, ''rabbitmq.conf'']
       in then_task (under_message ''create RabbitMQ Streams standalone workspace'' (acting (mg_mkdir m directory))) (\<lambda>_.
          then_task (under_message ''write RabbitMQ Streams standalone plugins'' (acting (mg_write m plugins enabled_plugins 420))) (\<lambda>_.
          then_task (under_message ''write RabbitMQ Streams standalone configuration'' (acting (mg_write m configuration
              (''stream.listeners.tcp.1 = 5552'' @ [CHR 0x0A] @ ''stream.advertised_host = localhost'' @ [CHR 0x0A] @
               ''stream.advertised_port = '' @ proxy_port @ [CHR 0x0A]) 420))) (\<lambda>_.
          then_task (under_message ''start RabbitMQ Streams broker'' (docker_quiet m
              [''run'', ''--detach'', ''--name'', rabbit, ''--hostname'', ''rabbit'', ''--network'', network, ''--network-alias'', ''rabbit'',
               ''-e'', ''RABBITMQ_DEFAULT_USER'', ''-e'', ''RABBITMQ_DEFAULT_PASS'', ''-e'', ''RABBITMQ_ERLANG_COOKIE'',
               ''--mount'', ''type=bind,source='' @ plugins @ '',target=/etc/rabbitmq/enabled_plugins,readonly'',
               ''--mount'', ''type=bind,source='' @ configuration @ '',target=/etc/rabbitmq/rabbitmq.conf,readonly'',
               rabbit_stream_image]
              [(''RABBITMQ_DEFAULT_USER'', username), (''RABBITMQ_DEFAULT_PASS'', password), (''RABBITMQ_ERLANG_COOKIE'', cookie)])) (\<lambda>_.
          then_task (track_container rabbit) (\<lambda>_.
          then_task (under_message ''read RabbitMQ Streams broker image identity'' (image_identity m rabbit rabbit_stream_image)) (\<lambda>identity.
          then_task (wait_ready m ((service_of ''rabbitstream-standalone'' [] 0)
              \<lparr>sv_ready_command := [''gosu'', ''rabbitmq'', ''rabbitmq-diagnostics'', ''-q'', ''check_running'']\<rparr>) rabbit []) (\<lambda>_.
            succeed identity))))))))"

definition start_stream_standalone :: "'w manager \<Rightarrow> string \<Rightarrow> (unit, 'w) task" where
  "start_stream_standalone m token =
     (if \<not> absolute_workspace m then refused workspace_error
      else
        then_task (under_message ''create RabbitMQ Streams username'' (obtaining (mg_secret m 8))) (\<lambda>user_secret.
        then_task (under_message ''create RabbitMQ Streams password'' (obtaining (mg_secret m 24))) (\<lambda>password.
        then_task (under_message ''create RabbitMQ Streams cookie'' (obtaining (mg_secret m 32))) (\<lambda>cookie.
          if \<not> list_all (\<lambda>(v, n). length v = n * 2 \<and> hex_secret v) [(user_secret, 8), (password, 24), (cookie, 32)]
          then refused (Message ''RabbitMQ Streams secret generator returned malformed data'')
          else
            (let network = ''codex-rabbitstream-'' @ token; proxy = network @ ''-proxy''; username = ''rabbitstream-'' @ user_secret
             in then_task (under_message ''create RabbitMQ Streams network'' (docker_quiet m
                   [''network'', ''create'', ''--label'', ''golib.task='' @ token, network] [])) (\<lambda>_.
                then_task (track_network network) (\<lambda>_.
                then_task (under_message ''start RabbitMQ Streams proxy'' (docker_quiet m
                   [''run'', ''--detach'', ''--name'', proxy, ''--network'', network, ''--network-alias'', ''proxy'',
                    ''-p'', ''127.0.0.1::15552'', ''-p'', ''127.0.0.1::8474'', toxiproxy_image, ''-host=0.0.0.0''] [])) (\<lambda>_.
                then_task (track_container proxy) (\<lambda>_.
                then_task (under_message ''read RabbitMQ Streams proxy image identity'' (image_identity m proxy toxiproxy_image)) (\<lambda>proxy_identity.
                then_task (under_message ''read RabbitMQ Streams proxy port'' (container_port m proxy 15552)) (\<lambda>proxy_port.
                then_task (under_message ''read RabbitMQ Streams control port'' (container_port m proxy 8474)) (\<lambda>control_port.
                then_task (start_stream_broker m token network (username, password, cookie) proxy_port) (\<lambda>rabbit_identity.
                  let control_url = ''http://127.0.0.1:'' @ control_port
                  in then_task (configure_toxiproxy m (control_url @ ''/proxies'') (proxy_payload ''rabbitstream'' 15552 ''rabbit:5552'')) (\<lambda>_.
                     then_task (lease_environment
                        [(''RABBITSTREAM_TEST_HOST'', ''localhost''), (''RABBITSTREAM_TEST_PORT'', proxy_port),
                         (''RABBITSTREAM_TEST_USER'', username), (''RABBITSTREAM_TEST_PASSWORD'', password),
                         (''RABBITSTREAM_TEST_RESTART_CONTAINER'', network @ ''-rabbit''), (''RABBITSTREAM_TEST_PROXY_API'', control_url),
                         (''RABBITSTREAM_TEST_PROXY_NAME'', ''rabbitstream'')]) (\<lambda>_.
                       lease_identity ''rabbitstream-standalone'' (rabbit_identity @ '';'' @ proxy_identity))))))))))))))))"

section \<open>The cluster: its credentials and names\<close>

record stream_credentials =
  sc_user :: string
  sc_password :: string
  sc_cookie :: string
  sc_restricted_user :: string
  sc_restricted_password :: string

fun stream_secrets :: "'w manager \<Rightarrow> (nat \<times> string) list \<Rightarrow> (string list, 'w) task" where
  "stream_secrets m [] = succeed []"
| "stream_secrets m ((wanted, label) # rest) =
     then_task (under_message (''create RabbitMQ Streams '' @ label) (obtaining (mg_secret m wanted))) (\<lambda>v.
       if length v \<noteq> wanted * 2 \<or> \<not> hex_secret v
       then refused (Message ''RabbitMQ Streams secret generator returned malformed data'')
       else then_task (stream_secrets m rest) (\<lambda>vs. succeed (v # vs)))"

definition new_stream_credentials :: "'w manager \<Rightarrow> string \<Rightarrow> string \<Rightarrow> (stream_credentials, 'w) task" where
  "new_stream_credentials m user password =
     (let user_secret = trim_prefix user ''rabbitstream-''
      in if \<not> (user_secret \<noteq> user \<and> length user_secret = 16 \<and> hex_secret user_secret \<and> length password = 48 \<and> hex_secret password)
         then refused (Message ''RabbitMQ Streams shared credentials are malformed'')
         else then_task (stream_secrets m [(32, ''cookie''), (8, ''restricted username''), (24, ''restricted password'')]) (\<lambda>vs.
                succeed \<lparr>sc_user = user, sc_password = password, sc_cookie = vs ! 0,
                   sc_restricted_user = ''restricted-'' @ vs ! 1, sc_restricted_password = vs ! 2\<rparr>))"

record stream_topology =
  tp_base :: string
  tp_project :: string
  tp_network :: string
  tp_proxy :: string
  tp_directory :: string
  tp_compose :: string
  tp_runtime :: string
  tp_ports :: "(nat \<times> string) list"
  tp_containers :: "(string \<times> string) list"
  tp_volumes :: "(string \<times> string) list"

definition new_stream_topology :: "string \<Rightarrow> string \<Rightarrow> stream_topology" where
  "new_stream_topology workspace token =
     (let base = ''codex-rabbitstream-'' @ token;
          project = base @ ''-cluster'';
          directory = path_join [workspace, ''rabbitstream-'' @ token]
      in \<lparr>tp_base = base, tp_project = project, tp_network = base @ ''-network'', tp_proxy = base @ ''-proxy'',
          tp_directory = directory, tp_compose = path_join [directory, ''compose.yaml''], tp_runtime = path_join [directory, ''tls''],
          tp_ports = [],
          tp_containers =
            [(''rabbit1'', project @ ''-rabbit1-1''), (''rabbit2'', project @ ''-rabbit2-1''), (''rabbit3'', project @ ''-rabbit3-1''),
             (''certgen'', project @ ''-certgen-1''), (''rabbit-tls'', project @ ''-rabbit-tls-1'')],
          tp_volumes =
            [(''rabbit1'', base @ ''-rabbit1-data''), (''rabbit2'', base @ ''-rabbit2-data''), (''rabbit3'', base @ ''-rabbit3-data''),
             (''tls-certs'', base @ ''-tls-certs''), (''tls-data'', base @ ''-tls-data'')]\<rparr>)"

definition topology_ports :: "nat list" where "topology_ports = [15561, 15562, 15563, 15571, 8474]"

definition cluster_names :: "string list" where
  "cluster_names = [''rabbit1'', ''rabbit2'', ''rabbit3'', ''certgen'', ''rabbit-tls'']"

definition stream_volume_names :: "stream_topology \<Rightarrow> string list" where
  "stream_volume_names t =
     map (string_at (tp_volumes t)) [''rabbit1'', ''rabbit2'', ''rabbit3'', ''tls-certs'', ''tls-data'']"

definition create_stream_volume :: "'w manager \<Rightarrow> stream_topology \<Rightarrow> string \<Rightarrow> (unit, 'w) task" where
  "create_stream_volume m t name =
     then_task (under_message (''create RabbitMQ Streams topology volume '' @ name)
        (docker_quiet m [''volume'', ''create'', ''--label'', ''golib.task='' @ tp_base t, name] []))
       (\<lambda>_. track_volume name)"

definition create_stream_resources :: "'w manager \<Rightarrow> stream_topology \<Rightarrow> (unit, 'w) task" where
  "create_stream_resources m t =
     then_task (under_message ''create RabbitMQ Streams topology network'' (docker_quiet m
        [''network'', ''create'', ''--label'', ''golib.task='' @ tp_base t, tp_network t] [])) (\<lambda>_.
     then_task (track_network (tp_network t)) (\<lambda>_.
     then_task (all_tasks (map (create_stream_volume m t) (stream_volume_names t))) (\<lambda>_.
     then_task (under_message ''start RabbitMQ Streams topology proxy'' (docker_quiet m
        ([''run'', ''--detach'', ''--name'', tp_proxy t, ''--network'', tp_network t, ''--network-alias'', ''proxy''] @
         concat (map (\<lambda>port. [''-p'', ''127.0.0.1::'' @ dec_nat port]) topology_ports) @
         [toxiproxy_image, ''-host=0.0.0.0'']) [])) (\<lambda>_.
       track_container (tp_proxy t)))))"

definition read_topology_ports :: "'w manager \<Rightarrow> stream_topology \<Rightarrow> (stream_topology, 'w) task" where
  "read_topology_ports m t =
     then_task (collect_tasks (map (\<lambda>port. under_message (''read RabbitMQ Streams topology port '' @ dec_nat port)
        (container_port m (tp_proxy t) port)) topology_ports)) (\<lambda>published.
       succeed (t\<lparr>tp_ports := zip topology_ports published\<rparr>))"

section \<open>The cluster: its files\<close>

definition with_lines :: "string list \<Rightarrow> string" where
  "with_lines rows = concat (map (\<lambda>row. row @ [CHR 0x0A]) rows)"

definition stream_cluster_config :: "string \<Rightarrow> string" where
  "stream_cluster_config port = with_lines
     [''cluster_formation.peer_discovery_backend = classic_config'',
      ''cluster_formation.classic_config.nodes.1 = rabbit@rabbit1'',
      ''cluster_formation.classic_config.nodes.2 = rabbit@rabbit2'',
      ''cluster_formation.classic_config.nodes.3 = rabbit@rabbit3'',
      ''cluster_formation.target_cluster_size_hint = 3'',
      ''stream.advertised_host = localhost'',
      ''stream.advertised_port = '' @ port]"

definition stream_tls_config :: "string \<Rightarrow> string" where
  "stream_tls_config port = with_lines
     [''stream.listeners.tcp = none'', ''stream.listeners.ssl.1 = 5551'',
      ''ssl_options.cacertfile = /certs/ca.pem'', ''ssl_options.certfile = /certs/server.pem'',
      ''ssl_options.keyfile = /certs/server-key.pem'', ''ssl_options.verify = verify_peer'',
      ''ssl_options.fail_if_no_peer_cert = true'', ''ssl_options.versions.1 = tlsv1.3'',
      ''ssl_options.versions.2 = tlsv1.2'', ''stream.advertised_tls_host = localhost'',
      ''stream.advertised_tls_port = '' @ port]"

definition stream_fixture_files :: "stream_topology \<Rightarrow> (string \<times> string) list" where
  "stream_fixture_files t =
     [(''enabled_plugins'', enabled_plugins),
      (''rabbit1.conf'', stream_cluster_config (string_at (tp_ports t) 15561)),
      (''rabbit2.conf'', stream_cluster_config (string_at (tp_ports t) 15562)),
      (''rabbit3.conf'', stream_cluster_config (string_at (tp_ports t) 15563)),
      (''tls-rabbitmq.conf'', stream_tls_config (string_at (tp_ports t) 15571))]"

definition write_stream_fixture_files :: "'w manager \<Rightarrow> stream_topology \<Rightarrow> (unit, 'w) task" where
  "write_stream_fixture_files m t = all_tasks (map (\<lambda>(name, content).
     under_message (''write RabbitMQ Streams fixture file '' @ name)
       (acting (mg_write m (path_join [tp_directory t, name]) content 420))) (stream_fixture_files t))"

definition stream_compose_rows :: "string \<Rightarrow> string \<Rightarrow> string list" where
  "stream_compose_rows old current =
     [''services:'',
      ''  rabbit1:'',
      ''    image: ${RABBITSTREAM_IMAGE:-'' @ old @ ''}'',
      ''    hostname: rabbit1'',
      ''    environment: &rabbit-environment'',
      ''      RABBITMQ_DEFAULT_USER: ${RABBITSTREAM_USER:?required}'',
      ''      RABBITMQ_DEFAULT_PASS: ${RABBITSTREAM_PASSWORD:?required}'',
      ''      RABBITMQ_ERLANG_COOKIE: ${RABBITSTREAM_ERLANG_COOKIE:?required}'',
      ''      RABBITMQ_SERVER_ADDITIONAL_ERL_ARGS: -rabbitmq_stream initial_cluster_size 3'',
      ''    networks: {rabbitstream: {aliases: [rabbit1]}}'',
      ''    volumes:'',
      ''      - \"./enabled_plugins:/etc/rabbitmq/enabled_plugins:ro\"'',
      ''      - \"./rabbit1.conf:/etc/rabbitmq/rabbitmq.conf:ro\"'',
      ''      - {type: volume, source: rabbit1-data, target: /var/lib/rabbitmq/mnesia, volume: {nocopy: true}}'',
      ''    healthcheck: &rabbit-health'',
      ''      test: [\"CMD\", \"gosu\", \"rabbitmq\", \"rabbitmq-diagnostics\", \"-q\", \"check_running\"]'',
      ''      interval: 1s'',
      ''      timeout: 5s'',
      ''      retries: 90'',
      ''  rabbit2:'',
      ''    image: ${RABBITSTREAM_IMAGE:-'' @ old @ ''}'',
      ''    hostname: rabbit2'',
      ''    environment: *rabbit-environment'',
      ''    networks: {rabbitstream: {aliases: [rabbit2]}}'',
      ''    volumes:'',
      ''      - \"./enabled_plugins:/etc/rabbitmq/enabled_plugins:ro\"'',
      ''      - \"./rabbit2.conf:/etc/rabbitmq/rabbitmq.conf:ro\"'',
      ''      - {type: volume, source: rabbit2-data, target: /var/lib/rabbitmq/mnesia, volume: {nocopy: true}}'',
      ''    healthcheck: *rabbit-health'',
      ''  rabbit3:'',
      ''    image: ${RABBITSTREAM_IMAGE:-'' @ old @ ''}'',
      ''    hostname: rabbit3'',
      ''    environment: *rabbit-environment'',
      ''    networks: {rabbitstream: {aliases: [rabbit3]}}'',
      ''    volumes:'',
      ''      - \"./enabled_plugins:/etc/rabbitmq/enabled_plugins:ro\"'',
      ''      - \"./rabbit3.conf:/etc/rabbitmq/rabbitmq.conf:ro\"'',
      ''      - {type: volume, source: rabbit3-data, target: /var/lib/rabbitmq/mnesia, volume: {nocopy: true}}'',
      ''    healthcheck: *rabbit-health'',
      ''  certgen:'',
      ''    image: '' @ current,
      ''    entrypoint: [\"/bin/sh\", \"-ec\"]'',
      ''    command: [\"openssl req -x509 -newkey rsa:2048 -nodes -days 2 -sha256 -subj /CN=rabbitstream-test-ca -keyout /certs/ca-key.pem -out /certs/ca.pem; openssl req -newkey rsa:2048 -nodes -sha256 -subj /CN=localhost -addext subjectAltName=DNS:localhost,IP:127.0.0.1 -keyout /certs/server-key.pem -out /certs/server.csr; openssl x509 -req -days 2 -sha256 -copy_extensions copy -in /certs/server.csr -CA /certs/ca.pem -CAkey /certs/ca-key.pem -CAcreateserial -out /certs/server.pem; openssl req -newkey rsa:2048 -nodes -sha256 -subj /CN=rabbitstream-client -keyout /certs/client-key.pem -out /certs/client.csr; openssl x509 -req -days 2 -sha256 -in /certs/client.csr -CA /certs/ca.pem -CAkey /certs/ca-key.pem -CAcreateserial -out /certs/client.pem; openssl req -x509 -newkey rsa:2048 -nodes -days 2 -sha256 -subj /CN=untrusted-rabbitstream-client -keyout /certs/untrusted-client-key.pem -out /certs/untrusted-client.pem; chown -R 999:999 /certs; chmod 600 /certs/*-key.pem\"]'',
      ''    volumes: [\"tls-certs:/certs\"]'',
      ''  rabbit-tls:'',
      ''    image: '' @ current,
      ''    hostname: rabbit-tls'',
      ''    depends_on: {certgen: {condition: service_completed_successfully}}'',
      ''    environment:'',
      ''      RABBITMQ_DEFAULT_USER: ${RABBITSTREAM_USER:?required}'',
      ''      RABBITMQ_DEFAULT_PASS: ${RABBITSTREAM_PASSWORD:?required}'',
      ''      RABBITMQ_ERLANG_COOKIE: ${RABBITSTREAM_ERLANG_COOKIE:?required}'',
      ''    networks: {rabbitstream: {aliases: [rabbit-tls]}}'',
      ''    volumes:'',
      ''      - \"./enabled_plugins:/etc/rabbitmq/enabled_plugins:ro\"'',
      ''      - \"./tls-rabbitmq.conf:/etc/rabbitmq/rabbitmq.conf:ro\"'',
      ''      - \"tls-certs:/certs:ro\"'',
      ''      - {type: volume, source: tls-data, target: /var/lib/rabbitmq/mnesia, volume: {nocopy: true}}'',
      ''    healthcheck: *rabbit-health'',
      ''networks:'',
      ''  rabbitstream:'',
      ''    external: true'',
      ''    name: ${RABBITSTREAM_NETWORK:?required}'',
      ''volumes:'',
      ''  rabbit1-data: {external: true, name: \"${RABBITSTREAM_VOLUME_RABBIT1:?required}\"}'',
      ''  rabbit2-data: {external: true, name: \"${RABBITSTREAM_VOLUME_RABBIT2:?required}\"}'',
      ''  rabbit3-data: {external: true, name: \"${RABBITSTREAM_VOLUME_RABBIT3:?required}\"}'',
      ''  tls-certs: {external: true, name: \"${RABBITSTREAM_VOLUME_TLS_CERTS:?required}\"}'',
      ''  tls-data: {external: true, name: \"${RABBITSTREAM_VOLUME_TLS_DATA:?required}\"}'']"

definition render_stream_compose :: string where
  "render_stream_compose = with_lines (stream_compose_rows rabbit_stream_old_image rabbit_stream_image)"

section \<open>The cluster: its environments\<close>

definition stream_compose_environment :: "stream_topology \<Rightarrow> stream_credentials \<Rightarrow> env_map" where
  "stream_compose_environment t c =
     [(''RABBITSTREAM_USER'', sc_user c), (''RABBITSTREAM_PASSWORD'', sc_password c),
      (''RABBITSTREAM_ERLANG_COOKIE'', sc_cookie c), (''RABBITSTREAM_NETWORK'', tp_network t),
      (''RABBITSTREAM_VOLUME_RABBIT1'', string_at (tp_volumes t) ''rabbit1''),
      (''RABBITSTREAM_VOLUME_RABBIT2'', string_at (tp_volumes t) ''rabbit2''),
      (''RABBITSTREAM_VOLUME_RABBIT3'', string_at (tp_volumes t) ''rabbit3''),
      (''RABBITSTREAM_VOLUME_TLS_CERTS'', string_at (tp_volumes t) ''tls-certs''),
      (''RABBITSTREAM_VOLUME_TLS_DATA'', string_at (tp_volumes t) ''tls-data'')]"

definition stream_test_environment :: "stream_topology \<Rightarrow> stream_credentials \<Rightarrow> (string \<times> string) list" where
  "stream_test_environment t c =
     (let ports = map (string_at (tp_ports t)) [15561, 15562, 15563];
          containers = map (\<lambda>(port, name). port @ ''='' @ string_at (tp_containers t) name)
            (zip ports [''rabbit1'', ''rabbit2'', ''rabbit3''])
      in [(''RABBITSTREAM_CLUSTER_PORTS'', join_with '','' ports),
          (''RABBITSTREAM_CLUSTER_CONTAINERS'', join_with '','' containers),
          (''RABBITSTREAM_CLUSTER_PROJECT'', tp_project t),
          (''RABBITSTREAM_CLUSTER_COMPOSE'', tp_compose t),
          (''RABBITSTREAM_NETWORK'', tp_network t),
          (''RABBITSTREAM_VOLUME_RABBIT1'', string_at (tp_volumes t) ''rabbit1''),
          (''RABBITSTREAM_VOLUME_RABBIT2'', string_at (tp_volumes t) ''rabbit2''),
          (''RABBITSTREAM_VOLUME_RABBIT3'', string_at (tp_volumes t) ''rabbit3''),
          (''RABBITSTREAM_VOLUME_TLS_CERTS'', string_at (tp_volumes t) ''tls-certs''),
          (''RABBITSTREAM_VOLUME_TLS_DATA'', string_at (tp_volumes t) ''tls-data''),
          (''RABBITSTREAM_ERLANG_COOKIE'', sc_cookie c),
          (''RABBITSTREAM_UPGRADE_IMAGE'', rabbit_stream_image),
          (''RABBITSTREAM_UPGRADE_FROM_VERSION'', ''4.3.4''),
          (''RABBITSTREAM_UPGRADE_TO_VERSION'', ''4.3.5''),
          (''RABBITSTREAM_TLS_HOST'', ''localhost''),
          (''RABBITSTREAM_TLS_PORT'', string_at (tp_ports t) 15571),
          (''RABBITSTREAM_TLS_USER'', sc_user c),
          (''RABBITSTREAM_TLS_PASSWORD'', sc_password c),
          (''RABBITSTREAM_TLS_RUNTIME'', tp_runtime t),
          (''RABBITSTREAM_RESTRICTED_USER'', sc_restricted_user c),
          (''RABBITSTREAM_RESTRICTED_PASSWORD'', sc_restricted_password c)])"

section \<open>The cluster: its start\<close>

definition stream_diagnostic_containers :: "stream_topology \<Rightarrow> string \<Rightarrow> string list" where
  "stream_diagnostic_containers t diagnostic =
     (case find (\<lambda>name. contains_str diagnostic (string_at (tp_containers t) name @ '' exited'')) cluster_names of
        Some name \<Rightarrow> [name]
      | None \<Rightarrow> [])"

fun append_container_logs :: "'w manager \<Rightarrow> stream_topology \<Rightarrow> string list \<Rightarrow> diagnostic_writer \<Rightarrow> (diagnostic_writer, 'w) task" where
  "append_container_logs m t [] w = succeed w"
| "append_container_logs m t (name # names) w =
     then_task (docker m [''logs'', ''--tail'', ''120'', string_at (tp_containers t) name] [] Diagnostic_sink Diagnostic_sink) (\<lambda>report.
       let empty = new_diagnostic_writer (dw_secrets w);
           text = (\<lambda>chunks. fst (diagnostic_string (fold diagnostic_write chunks empty)));
           output = trim_space (text (pr_stdout report) @ [CHR 0x0A] @ text (pr_stderr report))
       in append_container_logs m t names
            (if output = [] then w
             else diagnostic_write ([CHR 0x0A] @ ''['' @ name @ '' logs]'' @ [CHR 0x0A] @ output) w))"

definition compose_up :: "'w manager \<Rightarrow> stream_topology \<Rightarrow> stream_credentials \<Rightarrow> (unit, 'w) task" where
  "compose_up m t c =
     then_task (docker m
        [''compose'', ''--project-directory'', tp_directory t, ''-f'', tp_compose t, ''-p'', tp_project t, ''up'', ''-d'', ''--wait'']
        (stream_compose_environment t c) Discarded Diagnostic_sink) (\<lambda>report.
       case pr_error report of
         None \<Rightarrow> succeed ()
       | Some e \<Rightarrow>
           (let w = fold diagnostic_write (pr_stderr report) (new_diagnostic_writer
                  [sc_user c, sc_password c, sc_cookie c, sc_restricted_user c, sc_restricted_password c])
            in then_task (append_container_logs m t (stream_diagnostic_containers t (dw_value w)) w) (\<lambda>w.
                 refused (Wrapped ''start RabbitMQ Streams topology'' (service_process_error (Message e) w)))))"

definition stream_proxies :: "(string \<times> nat \<times> string) list" where
  "stream_proxies =
     [(''rabbit1'', 15561, ''rabbit1:5552''), (''rabbit2'', 15562, ''rabbit2:5552''),
      (''rabbit3'', 15563, ''rabbit3:5552''), (''rabbit-tls'', 15571, ''rabbit-tls:5551'')]"

definition configure_stream_proxies :: "'w manager \<Rightarrow> stream_topology \<Rightarrow> (unit, 'w) task" where
  "configure_stream_proxies m t =
     (let control_url = ''http://127.0.0.1:'' @ string_at (tp_ports t) 8474
      in all_tasks (map (\<lambda>(name, listen, upstream).
           under_message (''configure '' @ name)
             (configure_toxiproxy m (control_url @ ''/proxies'') (proxy_payload name listen upstream))) stream_proxies))"

definition tls_scripts :: "string list" where
  "tls_scripts =
     [''rabbitmqctl add_user \"$RABBITSTREAM_RESTRICTED_USER\" \"$RABBITSTREAM_RESTRICTED_PASS\"'',
      ''rabbitmqctl set_permissions -p / \"$RABBITSTREAM_RESTRICTED_USER\" '' @
      join_with '' '' (map (\<lambda>pattern. [CHR 0x27] @ pattern @ [CHR 0x27])
        [''^$'', ''^codex-rabbitstream-allowed-.*$'', ''^codex-rabbitstream-allowed-.*$''])]"

definition tls_files :: "string list" where
  "tls_files = [''ca.pem'', ''client.pem'', ''client-key.pem'', ''untrusted-client.pem'', ''untrusted-client-key.pem'']"

definition copy_tls_file :: "'w manager \<Rightarrow> stream_topology \<Rightarrow> string \<Rightarrow> (unit, 'w) task" where
  "copy_tls_file m t name =
     (let target = path_join [tp_runtime t, name]
      in then_task (under_message (''copy RabbitMQ Streams TLS file '' @ name) (docker_quiet m
            [''cp'', string_at (tp_containers t) ''certgen'' @ '':/certs/'' @ name, target] [])) (\<lambda>_.
           under_message (''protect RabbitMQ Streams TLS file '' @ name)
             (acting (mg_chmod m target (if has_suffix name ''key.pem'' then 384 else 420)))))"

definition configure_stream_tls :: "'w manager \<Rightarrow> stream_topology \<Rightarrow> stream_credentials \<Rightarrow> (unit, 'w) task" where
  "configure_stream_tls m t c =
     (let environment = [(''RABBITSTREAM_RESTRICTED_USER'', sc_restricted_user c),
            (''RABBITSTREAM_RESTRICTED_PASS'', sc_restricted_password c)]
      in then_task (all_tasks (map (\<lambda>script.
            under_message ''configure RabbitMQ Streams TLS authorization'' (docker_quiet m
              [''exec'', ''-e'', ''RABBITSTREAM_RESTRICTED_USER'', ''-e'', ''RABBITSTREAM_RESTRICTED_PASS'',
               string_at (tp_containers t) ''rabbit-tls'', ''/bin/sh'', ''-ec'', script] environment)) tls_scripts)) (\<lambda>_.
           all_tasks (map (copy_tls_file m t) tls_files)))"

definition stream_identities :: "'w manager \<Rightarrow> stream_topology \<Rightarrow> (string list, 'w) task" where
  "stream_identities m t = collect_tasks (map (\<lambda>(name, container, reference).
     under_message (''read RabbitMQ Streams '' @ name @ '' image identity'') (image_identity m container reference))
     [(''proxy'', tp_proxy t, toxiproxy_image),
      (''rabbit1'', string_at (tp_containers t) ''rabbit1'', rabbit_stream_old_image),
      (''rabbit2'', string_at (tp_containers t) ''rabbit2'', rabbit_stream_old_image),
      (''rabbit3'', string_at (tp_containers t) ''rabbit3'', rabbit_stream_old_image),
      (''certgen'', string_at (tp_containers t) ''certgen'', rabbit_stream_image),
      (''rabbit-tls'', string_at (tp_containers t) ''rabbit-tls'', rabbit_stream_image)])"

definition forget_identity :: "string \<Rightarrow> (unit, 'w) task" where
  "forget_identity name = on_lease (\<lambda>le. le\<lparr>le_identities := (le_identities le)(name := None)\<rparr>)"

definition or_empty :: "string option \<Rightarrow> string" where
  "or_empty v = (case v of None \<Rightarrow> [] | Some s \<Rightarrow> s)"

text \<open>The part of the start behind the standalone broker.\<close>

definition start_stream_cluster :: "'w manager \<Rightarrow> string \<Rightarrow> stream_credentials \<Rightarrow> (string list \<times> stream_topology, 'w) task" where
  "start_stream_cluster m token c =
     (let t = new_stream_topology (mg_workspace m) token
      in then_task (under_message ''create RabbitMQ Streams workspace'' (acting (mg_mkdir m (tp_directory t)))) (\<lambda>_.
         then_task (under_message ''create RabbitMQ Streams TLS runtime'' (acting (mg_mkdir m (tp_runtime t)))) (\<lambda>_.
         then_task (create_stream_resources m t) (\<lambda>_.
         then_task (read_topology_ports m t) (\<lambda>t.
         then_task (write_stream_fixture_files m t) (\<lambda>_.
         then_task (under_message ''write RabbitMQ Streams topology'' (acting (mg_write m (tp_compose t) render_stream_compose 384))) (\<lambda>_.
         then_task (all_tasks (map (\<lambda>name. track_container (string_at (tp_containers t) name)) cluster_names)) (\<lambda>_.
         then_task (compose_up m t c) (\<lambda>_.
         then_task (under_message ''form RabbitMQ Streams cluster'' (docker_quiet m
            [''exec'', string_at (tp_containers t) ''rabbit1'', ''rabbitmqctl'', ''await_online_nodes'', ''3''] [])) (\<lambda>_.
         then_task (configure_stream_proxies m t) (\<lambda>_.
         then_task (configure_stream_tls m t c) (\<lambda>_.
         then_task (stream_identities m t) (\<lambda>identities.
           succeed (identities, t))))))))))))))"

definition start_stream_topology :: "'w manager \<Rightarrow> string \<Rightarrow> (unit, 'w) task" where
  "start_stream_topology m token =
     (if \<not> absolute_workspace m then refused workspace_error
      else
        then_task (start_stream_standalone m (token @ ''single'')) (\<lambda>_.
        then_task (seeing_lease (\<lambda>le. or_empty (le_identities le ''rabbitstream-standalone''))) (\<lambda>standalone.
        then_task (forget_identity ''rabbitstream-standalone'') (\<lambda>_.
        then_task (seeing_lease (\<lambda>le. (or_empty (le_environment le ''RABBITSTREAM_TEST_USER''),
            or_empty (le_environment le ''RABBITSTREAM_TEST_PASSWORD'')))) (\<lambda>(user, password).
        then_task (new_stream_credentials m user password) (\<lambda>c.
        then_task (start_stream_cluster m token c) (\<lambda>(identities, t).
        then_task (lease_identity ''rabbitstream'' (standalone @ '';'' @ join_with '';'' identities)) (\<lambda>_.
          lease_environment (stream_test_environment t c)))))))))"

section \<open>Manager.Start\<close>

definition start_one :: "'w manager \<Rightarrow> string \<Rightarrow> service \<Rightarrow> (unit, 'w) task" where
  "start_one m token s =
     (case sv_start s of
        None \<Rightarrow> start_service m s token
      | Some Stream_standalone \<Rightarrow> start_stream_standalone m token
      | Some Stream_topology \<Rightarrow> start_stream_topology m token)"

text \<open>A failed start closes its lease; both errors are joined.\<close>

definition start_all :: "'w manager \<Rightarrow> string \<Rightarrow> service list \<Rightarrow> (lease, 'w) task" where
  "start_all m token services fx =
     (case all_tasks (map (start_one m token) services) (fx\<lparr>fx_lease := new_lease\<rparr>) of
        (Inr _, fx) \<Rightarrow> (Inr (fx_lease fx), fx)
      | (Inl e, fx) \<Rightarrow>
          (case close_lease m fx of (cleanup, fx) \<Rightarrow>
             (Inl (Joined (e # (case cleanup of None \<Rightarrow> [] | Some c \<Rightarrow> [c]))), fx)))"

text \<open>Without a process backend, \<open>process\<close> is \<open>None\<close>.\<close>

definition start_services ::
  "(string list \<Rightarrow> env_map \<Rightarrow> sink \<Rightarrow> sink \<Rightarrow> 'w \<Rightarrow> process_report \<times> 'w) option \<Rightarrow> 'w manager \<Rightarrow> string list \<Rightarrow> (lease, 'w) task" where
  "start_services process m names =
     (case process of
        None \<Rightarrow> refused (Message ''service process backend is required'')
      | Some p \<Rightarrow>
          (let m = m\<lparr>mg_process := p\<rparr>
           in case selected_definitions m names of
                Inl e \<Rightarrow> refused e
              | Inr services \<Rightarrow>
                  then_task (under_message ''create service token'' (obtaining (mg_token m))) (\<lambda>token.
                    if valid_token token then start_all m token services
                    else refused (Message ''service token is malformed''))))"

end
