(* ===== verification/Services_Facts.thy ===== *)
theory Services_Facts
  imports Services_Stream
begin

text \<open>
  The lifecycle of a lease. The docker commands of a task tell what it created and what it asked
  to remove; the laws below are shown of every step of a start, and hold for the whole start by
  the rules of the locale \<open>task_law\<close>.
\<close>

section \<open>What the commands create and remove\<close>

datatype resource = Container string | Volume string | Network string

text \<open>The services of a compose file: the keys of two blanks below \<open>services:\<close>. Compose names the container
  of a service after the project and the service.\<close>

fun service_key :: "string \<Rightarrow> string option" where
  "service_key (a # b # c # cs) =
     (if a = CHR '' '' \<and> b = CHR '' '' \<and> c \<noteq> CHR '' '' then Some (takeWhile (\<lambda>x. x \<noteq> CHR '':'') (c # cs)) else None)"
| "service_key row = None"

fun compose_services :: "string list \<Rightarrow> string list" where
  "compose_services [] = []"
| "compose_services (row # rows) =
     (if row = ''networks:'' then []
      else case service_key row of Some s \<Rightarrow> s # compose_services rows | None \<Rightarrow> compose_services rows)"

definition composed :: "string \<Rightarrow> resource set" where
  "composed project = (\<lambda>s. Container (project @ ''-'' @ s @ ''-1'')) `
     set (compose_services (stream_compose_rows rabbit_stream_old_image rabbit_stream_image))"

definition composes :: "string list \<Rightarrow> bool" where
  "composes arguments \<longleftrightarrow> take 1 arguments = [''compose''] \<and> ''up'' \<in> set arguments"

definition created_by :: "string list \<Rightarrow> resource set" where
  "created_by arguments =
     (if take 3 arguments = [''run'', ''--detach'', ''--name''] then {Container (arguments ! 3)}
      else if take 2 arguments = [''network'', ''create''] then {Network (last arguments)}
      else if take 2 arguments = [''volume'', ''create''] then {Volume (last arguments)}
      else if composes arguments then composed (arguments ! 6)
      else {})"

definition removed_by :: "string list \<Rightarrow> resource option" where
  "removed_by arguments =
     (if take 2 arguments = [''rm'', ''--force''] then Some (Container (last arguments))
      else if take 3 arguments = [''volume'', ''rm'', ''--force''] then Some (Volume (last arguments))
      else if take 2 arguments = [''network'', ''rm''] then Some (Network (last arguments))
      else None)"

text \<open>The resources that the commands created, without a removal since. A command that failed created
  nothing, but for \<open>docker compose up\<close>, which may leave some or all of its containers.\<close>

definition unremoved_step :: "string list \<times> bool \<Rightarrow> resource set \<Rightarrow> resource set" where
  "unremoved_step call present =
     (present \<union> (if snd call \<or> composes (fst call) then created_by (fst call) else {})) - set_option (removed_by (fst call))"

definition unremoved :: "(string list \<times> bool) list \<Rightarrow> resource set" where
  "unremoved calls = fold unremoved_step calls {}"

definition owned :: "lease \<Rightarrow> resource set" where
  "owned le = Container ` set (le_containers le) \<union> Volume ` set (le_volumes le) \<union> Network ` set (le_networks le)"

definition new_fixture :: "'w \<Rightarrow> 'w fixture" where
  "new_fixture w = \<lparr>fx_world = w, fx_calls = [], fx_lease = new_lease\<rparr>"

lemma unremoved_snoc: "unremoved (calls @ [call]) = unremoved_step call (unremoved calls)"
  by (simp add: unremoved_def)

section \<open>Laws of tasks\<close>

definition task_obeys :: "('w fixture \<Rightarrow> 'w fixture \<Rightarrow> bool) \<Rightarrow> ('a, 'w) task \<Rightarrow> bool" where
  "task_obeys R m \<longleftrightarrow> (\<forall>fx. R fx (snd (m fx)))"

lemma task_obeysD: "task_obeys R m \<Longrightarrow> m fx = (x, fx') \<Longrightarrow> R fx fx'"
  unfolding task_obeys_def by (metis snd_conv)

named_theorems task_steps

locale task_law =
  fixes R :: "'w fixture \<Rightarrow> 'w fixture \<Rightarrow> bool"
  assumes law_refl: "R fx fx"
    and law_trans: "R fx fy \<Longrightarrow> R fy fz \<Longrightarrow> R fx fz"
    and law_world: "R fx (fx\<lparr>fx_world := w\<rparr>)"
begin

lemma succeed: "task_obeys R (succeed x)"
  by (simp add: task_obeys_def succeed_def law_refl)

lemma refused: "task_obeys R (refused e)"
  by (simp add: task_obeys_def refused_def law_refl)

lemma then_task: "task_obeys R m \<Longrightarrow> (\<And>x. task_obeys R (f x)) \<Longrightarrow> task_obeys R (then_task m f)"
  unfolding task_obeys_def then_task_def
  by (auto split: prod.split sum.split) (metis law_trans snd_conv)+

lemma under_message: "task_obeys R m \<Longrightarrow> task_obeys R (under_message s m)"
  unfolding task_obeys_def under_message_def by (auto split: prod.split sum.split) (metis snd_conv)+

lemma effect: "task_obeys R (effect f)"
  by (simp add: task_obeys_def effect_def law_world split: prod.split)

lemma unless_error: "task_obeys R (unless_error e)"
  unfolding unless_error_def by (simp add: succeed refused split: option.split)

lemma acting: "task_obeys R (acting f)"
  unfolding acting_def by (intro then_task effect unless_error)

lemma obtaining: "task_obeys R (obtaining f)"
  unfolding obtaining_def by (intro then_task effect) (simp add: succeed refused split: sum.split)

lemma seeing_lease: "task_obeys R (seeing_lease f)"
  by (simp add: task_obeys_def seeing_lease_def law_refl)

lemma all_tasks: "(\<And>m. m \<in> set ms \<Longrightarrow> task_obeys R m) \<Longrightarrow> task_obeys R (all_tasks ms)"
  by (induction ms) (auto intro!: succeed then_task)

lemma collect_tasks: "(\<And>m. m \<in> set ms \<Longrightarrow> task_obeys R m) \<Longrightarrow> task_obeys R (collect_tasks ms)"
  by (induction ms) (auto intro!: succeed then_task)

lemmas steps = succeed refused then_task under_message effect unless_error acting obtaining seeing_lease

lemma try_attempts:
  assumes "task_obeys R attempt"
  shows "task_obeys R (try_attempts m waiting failing attempt n e)"
proof (induction n arbitrary: e)
  case (Suc n)
  show ?case
    unfolding try_attempts.simps
    by (intro then_task assms) (auto intro!: steps Suc split: option.split)
qed (simp add: refused)

lemma with_attempts: "task_obeys R attempt \<Longrightarrow> task_obeys R (with_attempts m waiting failing attempt)"
  unfolding with_attempts_def Let_def by (auto intro: refused try_attempts)

lemma stream_secrets: "task_obeys R (stream_secrets m wanted)"
proof (induction wanted)
  case (Cons w ws)
  then show ?case by (cases w) (auto intro!: steps)
qed (simp add: succeed)

lemma new_stream_credentials: "task_obeys R (new_stream_credentials m user password)"
  unfolding new_stream_credentials_def Let_def by (auto intro!: steps stream_secrets)

lemma write_stream_fixture_files: "task_obeys R (write_stream_fixture_files m t)"
  unfolding write_stream_fixture_files_def by (auto intro!: all_tasks steps)

lemma configure_toxiproxy: "task_obeys R (configure_toxiproxy m url payload)"
  unfolding configure_toxiproxy_def by (intro with_attempts steps)

lemma configure_stream_proxies: "task_obeys R (configure_stream_proxies m t)"
  unfolding configure_stream_proxies_def Let_def
  by (auto intro!: all_tasks steps configure_toxiproxy)

end

abbreviation compose_arguments :: "stream_topology \<Rightarrow> string list" where
  "compose_arguments t \<equiv>
     [''compose'', ''--project-directory'', tp_directory t, ''-f'', tp_compose t, ''-p'', tp_project t, ''up'', ''-d'', ''--wait'']"

text \<open>A law under which the commands that create nothing may run.\<close>

locale command_law = task_law R for R :: "'w fixture \<Rightarrow> 'w fixture \<Rightarrow> bool" +
  assumes law_docker: "created_by arguments = {} \<Longrightarrow> task_obeys R (docker m arguments environment stdout stderr)"
begin

lemma docker_quiet: "created_by arguments = {} \<Longrightarrow> task_obeys R (docker_quiet m arguments environment)"
  unfolding docker_quiet_def by (intro then_task law_docker unless_error)

lemma docker_output: "created_by arguments = {} \<Longrightarrow> task_obeys R (docker_output m arguments)"
  unfolding docker_output_def by (intro steps law_docker)

lemma image_identity: "task_obeys R (image_identity m container reference)"
  unfolding image_identity_def Let_def
  by (intro then_task docker_output) (auto simp: created_by_def composes_def intro: succeed refused)

lemma container_port: "task_obeys R (container_port m container port)"
  unfolding container_port_def
  by (intro then_task docker_output) (auto simp: created_by_def composes_def intro: succeed refused split: sum.split)

lemma wait_ready: "task_obeys R (wait_ready m s name port)"
  unfolding wait_ready_def
  by (intro with_attempts) (auto simp: created_by_def composes_def intro!: steps law_docker)

lemma read_topology_ports: "task_obeys R (read_topology_ports m t)"
  unfolding read_topology_ports_def by (intro then_task collect_tasks succeed) (auto intro: under_message container_port)

lemma append_container_logs: "task_obeys R (append_container_logs m t names w)"
  by (induction names arbitrary: w) (auto simp: Let_def created_by_def composes_def intro!: steps law_docker)

lemma compose_up:
  assumes "\<And>environment stdout stderr. task_obeys R (docker m (compose_arguments t) environment stdout stderr)"
  shows "task_obeys R (compose_up m t c)"
  unfolding compose_up_def Let_def
  by (intro then_task assms) (auto intro!: steps append_container_logs split: option.split)

lemma configure_stream_tls: "task_obeys R (configure_stream_tls m t c)"
  unfolding configure_stream_tls_def copy_tls_file_def Let_def
  by (intro then_task all_tasks) (auto simp: created_by_def composes_def intro!: steps docker_quiet)

lemma stream_identities: "task_obeys R (stream_identities m t)"
  unfolding stream_identities_def by (intro collect_tasks) (auto intro: under_message image_identity)

end

text \<open>
  The properties of the lifecycle: what a failed start leaves, what a lease owns and what its close
  removes, and the identities of a started selection.
\<close>

section \<open>The commands of a start are tracked\<close>

definition all_tracked :: "resource set \<Rightarrow> 'w fixture \<Rightarrow> bool" where
  "all_tracked extra fx \<longleftrightarrow> unremoved (fx_calls fx) \<subseteq> owned (fx_lease fx) \<union> extra \<and> le_closed (fx_lease fx) = None"

definition tracking :: "'w fixture \<Rightarrow> 'w fixture \<Rightarrow> bool" where
  "tracking fx fx' \<longleftrightarrow> (all_tracked {} fx \<longrightarrow> all_tracked {} fx')"

lemma unremoved_step_none: "created_by arguments = {} \<Longrightarrow> unremoved_step (arguments, ok) S \<subseteq> S"
  by (auto simp: unremoved_step_def)

interpretation tracked: command_law "tracking :: 'w fixture \<Rightarrow> 'w fixture \<Rightarrow> bool"
proof
  fix m :: "'w manager" and arguments environment stdout stderr
  assume "created_by arguments = {}"
  note none = unremoved_step_none [OF this]
  show "task_obeys tracking (docker m arguments environment stdout stderr)"
    by (auto simp: task_obeys_def tracking_def all_tracked_def docker_def unremoved_snoc dest!: subsetD [OF none] split: prod.split)
qed (auto simp: tracking_def all_tracked_def)

lemma tracking_on_lease:
  assumes "\<And>le. owned le \<subseteq> owned (f le) \<and> le_closed (f le) = le_closed le"
  shows "task_obeys tracking (on_lease f)"
  using assms by (fastforce simp: task_obeys_def tracking_def all_tracked_def on_lease_def)

lemma tracking_leases:
  "task_obeys tracking (lease_environment entries)" "task_obeys tracking (lease_identity name identity)"
  "task_obeys tracking (forget_identity name)" "task_obeys tracking (track_container name)"
  unfolding lease_environment_def lease_identity_def forget_identity_def track_container_def
  by (auto intro!: tracking_on_lease simp: owned_def)

text \<open>A creation and the tracking behind it.\<close>

definition tracks :: "resource \<Rightarrow> (unit, 'w) task \<Rightarrow> bool" where
  "tracks r m \<longleftrightarrow> (\<forall>fx. \<exists>fx'. m fx = (Inr (), fx') \<and> fx_calls fx' = fx_calls fx \<and>
     owned (fx_lease fx') = insert r (owned (fx_lease fx)) \<and> le_closed (fx_lease fx') = le_closed (fx_lease fx))"

lemma tracks_each:
  "tracks (Container name) (track_container name)" "tracks (Network name) (track_network name)"
  "tracks (Volume name) (track_volume name)"
  by (auto simp: tracks_def track_container_def track_network_def track_volume_def on_lease_def owned_def)

definition creates :: "string list \<Rightarrow> resource \<Rightarrow> bool" where
  "creates arguments r \<longleftrightarrow> created_by arguments = {r} \<and> \<not> composes arguments"

lemma create_docker:
  assumes "creates arguments r" and "all_tracked {} fx"
    and "docker m arguments environment stdout stderr fx = (Inr report, fx')"
  shows "all_tracked (if pr_error report = None then {r} else {}) fx'"
  using assms by (auto simp: creates_def docker_def all_tracked_def unremoved_snoc unremoved_step_def split: prod.splits)

lemma docker_reports:
  obtains report fx' where "docker m arguments environment stdout stderr fx = (Inr report, fx')"
  unfolding docker_def by (cases "mg_process m arguments environment stdout stderr (fx_world fx)") simp

lemma tracking_created:
  assumes "creates arguments r" and "tracks r track" and f: "\<And>x. task_obeys tracking (f x)"
  shows "task_obeys tracking (then_task (docker m arguments environment stdout stderr) (\<lambda>report.
    case pr_error report of Some e \<Rightarrow> refused (g report e) | None \<Rightarrow> then_task track f))"
proof -
  have "tracking fx (snd (then_task (docker m arguments environment stdout stderr) (\<lambda>report.
    case pr_error report of Some e \<Rightarrow> refused (g report e) | None \<Rightarrow> then_task track f) fx))" for fx
  proof -
    obtain report fy where d: "docker m arguments environment stdout stderr fx = (Inr report, fy)"
      by (rule docker_reports)
    obtain fz where t: "track fy = (Inr (), fz)" "fx_calls fz = fx_calls fy"
      "owned (fx_lease fz) = insert r (owned (fx_lease fy))" "le_closed (fx_lease fz) = le_closed (fx_lease fy)"
      using assms(2) unfolding tracks_def by metis
    have f': "tracking fz (snd (f () fz))"
      using f by (simp add: task_obeys_def)
    show ?thesis
    proof (cases "pr_error report")
      case None
      then have "tracking fx fz"
        using create_docker [OF assms(1) _ d] t by (auto simp: tracking_def all_tracked_def)
      then show ?thesis using f' None d t by (simp add: then_task_def tracking_def)
    next
      case (Some e)
      then show ?thesis
        using create_docker [OF assms(1) _ d] d by (simp add: then_task_def tracking_def refused_def)
    qed
  qed
  then show ?thesis by (simp add: task_obeys_def)
qed

lemma quiet_created:
  "then_task (under_message s (docker_quiet m arguments environment)) f =
     then_task (docker m arguments environment Discarded Discarded) (\<lambda>report.
       case pr_error report of Some e \<Rightarrow> refused (Wrapped s (Message e)) | None \<Rightarrow> f ())"
  by (auto simp: fun_eq_iff then_task_def under_message_def docker_quiet_def docker_def unless_error_def succeed_def
      refused_def split: prod.split option.split)

lemma tracking_quiet_created:
  assumes "creates arguments r" and "tracks r track" and "\<And>x. task_obeys tracking (f x)"
  shows "task_obeys tracking (then_task (under_message s (docker_quiet m arguments environment)) (\<lambda>_. then_task track f))"
  unfolding quiet_created by (rule tracking_created [OF assms])

lemma then_succeed: "then_task m succeed = m"
  by (auto simp: fun_eq_iff then_task_def succeed_def split: prod.split sum.split)

lemma tracking_quiet_last:
  assumes "creates arguments r" and "tracks r track"
  shows "task_obeys tracking (then_task (under_message s (docker_quiet m arguments environment)) (\<lambda>_. track))"
  using tracking_quiet_created [OF assms, of "\<lambda>_. succeed ()" s m environment]
  by (simp add: then_succeed tracked.succeed)

lemmas tracking_steps = tracked.steps tracking_leases tracked.image_identity tracked.container_port
  tracked.wait_ready tracked.configure_toxiproxy

lemma tracking_start_service: "task_obeys tracking (start_service m s token)"
  unfolding start_service_def Let_def
  by (intro tracking_created [OF _ tracks_each(1)] tracking_steps)
    (simp add: creates_def created_by_def composes_def service_run_arguments_def)

lemma tracking_start_stream_broker: "task_obeys tracking (start_stream_broker m token network credentials port)"
  unfolding start_stream_broker_def Let_def
  by (cases credentials)
    (auto intro!: tracking_steps tracking_quiet_created [OF _ tracks_each(1)] simp: creates_def created_by_def composes_def)

lemma tracking_start_stream_standalone: "task_obeys tracking (start_stream_standalone m token)"
  unfolding start_stream_standalone_def Let_def
  by (auto intro!: tracking_steps tracking_start_stream_broker tracking_quiet_created [OF _ tracks_each(1)]
      tracking_quiet_created [OF _ tracks_each(2)] simp: creates_def created_by_def composes_def)

lemma tracking_create_stream_resources: "task_obeys tracking (create_stream_resources m t)"
  unfolding create_stream_resources_def create_stream_volume_def
  by (intro tracking_quiet_created [OF _ tracks_each(2)] tracking_quiet_last [OF _ tracks_each(1)]
      tracked.then_task tracked.all_tasks)
    (auto simp: creates_def created_by_def composes_def intro!: tracking_quiet_last [OF _ tracks_each(3)])

text \<open>The containers of the compose file are tracked before it is brought up.\<close>

lemma compose_services_cluster: "compose_services (stream_compose_rows old current) = cluster_names"
  by (simp add: stream_compose_rows_def cluster_names_def)

lemma tracked_names:
  "\<exists>fx'. all_tasks (map (\<lambda>name. track_container (g name)) names) fx = (Inr (), fx') \<and> fx_calls fx' = fx_calls fx \<and>
     owned (fx_lease fx') = Container ` g ` set names \<union> owned (fx_lease fx) \<and> le_closed (fx_lease fx') = le_closed (fx_lease fx)"
proof (induction names arbitrary: fx)
  case (Cons name names)
  obtain fy where "track_container (g name) fx = (Inr (), fy)" "fx_calls fy = fx_calls fx"
    "owned (fx_lease fy) = insert (Container (g name)) (owned (fx_lease fx))" "le_closed (fx_lease fy) = le_closed (fx_lease fx)"
    using tracks_each(1) unfolding tracks_def by metis
  with Cons [of fy] show ?case by (auto simp: then_task_def)
qed (simp add: succeed_def)

lemma tracking_composed:
  assumes "created_by (compose_arguments t) \<subseteq> Container ` g ` set names" and f: "\<And>x. task_obeys tracking (f x)"
  shows "task_obeys tracking (then_task (all_tasks (map (\<lambda>name. track_container (g name)) names)) (\<lambda>_.
    then_task (compose_up m t c) f))"
proof -
  have "tracking fx (snd (then_task (all_tasks (map (\<lambda>name. track_container (g name)) names)) (\<lambda>_.
    then_task (compose_up m t c) f) fx))" for fx
  proof -
    obtain fy where track: "all_tasks (map (\<lambda>name. track_container (g name)) names) fx = (Inr (), fy)"
      "fx_calls fy = fx_calls fx" "owned (fx_lease fy) = Container ` g ` set names \<union> owned (fx_lease fx)"
      "le_closed (fx_lease fy) = le_closed (fx_lease fx)"
      using tracked_names by metis
    have "\<exists>h. compose_up m t c = then_task (docker m (compose_arguments t) (stream_compose_environment t c) Discarded
        Diagnostic_sink) h \<and> (\<forall>report. task_obeys tracking (h report))"
      unfolding compose_up_def Let_def
      by (intro exI conjI, rule refl) (auto intro!: tracked.steps tracked.append_container_logs split: option.split)
    then obtain h where up: "compose_up m t c = then_task (docker m (compose_arguments t) (stream_compose_environment t c) Discarded
        Diagnostic_sink) h" and h: "\<And>report. task_obeys tracking (h report)" by blast
    obtain report fz where d: "docker m (compose_arguments t) (stream_compose_environment t c) Discarded Diagnostic_sink fy
        = (Inr report, fz)" by (rule docker_reports)
    have "tracking fx fz"
      using d track assms(1) unfolding tracking_def all_tracked_def docker_def
      by (auto simp: unremoved_snoc unremoved_step_def split: prod.splits if_splits)
    moreover have "task_obeys tracking (then_task (h report) f)" using h f by (rule tracked.then_task)
    ultimately show ?thesis
      using track(1) d by (auto simp: up then_task_def task_obeys_def tracking_def split: prod.splits sum.splits)
  qed
  then show ?thesis by (simp add: task_obeys_def)
qed

lemma composed_topology:
  "created_by (compose_arguments ((new_stream_topology workspace token)\<lparr>tp_ports := ports\<rparr>)) \<subseteq>
     Container ` string_at (tp_containers ((new_stream_topology workspace token)\<lparr>tp_ports := ports\<rparr>)) ` set cluster_names"
  by (simp add: creates_def created_by_def composes_def composed_def compose_services_cluster cluster_names_def
      new_stream_topology_def string_at_def Let_def)

lemma tracking_topology_ports:
  assumes "\<And>ports. task_obeys tracking (f (t\<lparr>tp_ports := ports\<rparr>))"
  shows "task_obeys tracking (then_task (read_topology_ports m t) f)"
proof -
  have "then_task (read_topology_ports m t) f =
      then_task (collect_tasks (map (\<lambda>port. under_message (''read RabbitMQ Streams topology port '' @ dec_nat port)
        (container_port m (tp_proxy t) port)) topology_ports)) (\<lambda>published. f (t\<lparr>tp_ports := zip topology_ports published\<rparr>))"
    by (auto simp: read_topology_ports_def fun_eq_iff then_task_def succeed_def split: prod.split sum.split)
  then show ?thesis
    using assms by (auto intro!: tracked.then_task tracked.collect_tasks tracked.under_message tracked.container_port)
qed

lemma tracking_start_stream_cluster: "task_obeys tracking (start_stream_cluster m token c)"
  unfolding start_stream_cluster_def Let_def
  by (intro tracking_topology_ports tracking_composed [OF composed_topology] tracking_steps tracking_create_stream_resources
      tracked.write_stream_fixture_files tracked.docker_quiet
      tracked.configure_stream_proxies tracked.configure_stream_tls tracked.stream_identities)
    (auto simp: creates_def created_by_def composes_def intro: tracking_leases)

lemma tracking_start_one: "task_obeys tracking (start_one m token s)"
  unfolding start_one_def start_stream_topology_def
  by (auto intro!: tracking_steps tracking_start_service tracking_start_stream_standalone
      tracking_start_stream_cluster tracked.new_stream_credentials split: option.split topology_start.split)

section \<open>The close\<close>

lemma remove_each_calls:
  assumes "remove_each m kind command names fx = (failures, fx')"
  shows "\<exists>rest. fx_calls fx' = fx_calls fx @ rest \<and> map fst rest = map command names" and "fx_lease fx' = fx_lease fx"
  using assms
  by (induction names arbitrary: fx failures) (force simp: docker_def split: prod.splits)+

lemma unremoved_fold:
  assumes "list_all (\<lambda>call. created_by (fst call) = {}) rest"
  shows "unremoved (calls @ rest) = unremoved calls - {r. \<exists>call \<in> set rest. removed_by (fst call) = Some r}"
  using assms
proof (induction rest rule: rev_induct)
  case (snoc call rest)
  then show ?case
    by (simp add: unremoved_snoc unremoved_step_def flip: append_assoc) auto
qed simp

lemma removal_commands:
  "created_by (remove_container name) = {}" "removed_by (remove_container name) = Some (Container name)"
  "created_by (remove_volume name) = {}" "removed_by (remove_volume name) = Some (Volume name)"
  "created_by (remove_network name) = {}" "removed_by (remove_network name) = Some (Network name)"
  by (simp_all add: creates_def created_by_def composes_def removed_by_def remove_container_def remove_volume_def remove_network_def)

lemma remove_each_unremoved:
  assumes "remove_each m kind command names fx = (failures, fx')"
    and "\<And>name. created_by (command name) = {}" and "\<And>name. removed_by (command name) = Some (r name)"
  shows "unremoved (fx_calls fx') = unremoved (fx_calls fx) - r ` set names"
proof -
  obtain rest where rest: "fx_calls fx' = fx_calls fx @ rest" "map fst rest = map command names"
    using remove_each_calls(1) [OF assms(1)] by blast
  have "set (map fst rest) = command ` set names" using rest(2) by simp
  then have fsts: "fst ` set rest = command ` set names" by simp
  then have "fst call \<in> command ` set names" if "call \<in> set rest" for call using that by blast
  then have "list_all (\<lambda>call. created_by (fst call) = {}) rest"
    using assms(2) by (fastforce simp: list_all_iff)
  moreover have "{x. \<exists>call \<in> set rest. removed_by (fst call) = Some x} = {x. \<exists>c \<in> fst ` set rest. removed_by c = Some x}"
    by auto
  ultimately show ?thesis
    using rest(1) fsts assms(3) by (auto simp: unremoved_fold)
qed

lemma close_unremoved:
  assumes "le_closed (fx_lease fx) = None" and "close_lease m fx = (outcome, fx')"
  shows "unremoved (fx_calls fx') = unremoved (fx_calls fx) - owned (fx_lease fx)"
    and "fx_lease fx' = (fx_lease fx)\<lparr>le_closed := Some outcome\<rparr>"
proof -
  let ?le = "fx_lease fx"
  obtain containers fa where a: "remove_each m ''container'' remove_container (rev (le_containers ?le)) fx = (containers, fa)"
    by fastforce
  obtain volumes fb where b: "remove_each m ''volume'' remove_volume (rev (le_volumes ?le)) fa = (volumes, fb)"
    by fastforce
  obtain networks fc where c: "remove_each m ''network'' remove_network (rev (le_networks ?le)) fb = (networks, fc)"
    by fastforce
  have close: "outcome = joined_failures (containers @ volumes @ networks)"
    "fx' = fc\<lparr>fx_lease := (fx_lease fc)\<lparr>le_closed := Some outcome\<rparr>\<rparr>"
    using assms a b c by (auto simp: close_lease_def Let_def)
  show "unremoved (fx_calls fx') = unremoved (fx_calls fx) - owned ?le"
    using remove_each_unremoved [OF a, of Container] remove_each_unremoved [OF b, of Volume]
      remove_each_unremoved [OF c, of Network] close(2)
    by (auto simp: removal_commands owned_def)
  show "fx_lease fx' = ?le\<lparr>le_closed := Some outcome\<rparr>"
    using remove_each_calls(2) [OF a] remove_each_calls(2) [OF b] remove_each_calls(2) [OF c] close(2) by simp
qed

lemma close_again: "le_closed (fx_lease fx) = Some outcome \<Longrightarrow> close_lease m fx = (outcome, fx)"
  by (simp add: close_lease_def)

lemma close_tracked:
  assumes "all_tracked {} fx" and "close_lease m fx = (outcome, fx')"
  shows "unremoved (fx_calls fx') = {}" and "close_lease m fx' = (outcome, fx')"
  using close_unremoved [OF _ assms(2)] assms(1) by (auto simp: all_tracked_def intro: close_again)

section \<open>The start\<close>

lemma start_all_tracked:
  assumes "fx_calls fx = []"
  shows "case start_all m token services fx of
       (Inl e, fx') \<Rightarrow> unremoved (fx_calls fx') = {}
     | (Inr le, fx') \<Rightarrow> fx_lease fx' = le \<and> all_tracked {} fx'"
proof -
  have law: "task_obeys tracking (all_tasks (map (start_one m token) services))"
    by (intro tracked.all_tasks) (auto intro: tracking_start_one)
  obtain x fy where run: "all_tasks (map (start_one m token) services) (fx\<lparr>fx_lease := new_lease\<rparr>) = (x, fy)"
    by fastforce
  have "all_tracked {} (fx\<lparr>fx_lease := new_lease\<rparr>)"
    using assms by (simp add: all_tracked_def unremoved_def new_lease_def)
  with task_obeysD [OF law run] have "all_tracked {} fy" by (simp add: tracking_def)
  then show ?thesis
    using run close_tracked(1) [of fy m] by (auto simp: start_all_def split: sum.split prod.split)
qed

lemma start_services_tracked:
  "case start_services (Some p) m names (new_fixture w) of
       (Inl e, fx') \<Rightarrow> unremoved (fx_calls fx') = {}
     | (Inr le, fx') \<Rightarrow> fx_lease fx' = le \<and> all_tracked {} fx'"
proof -
  let ?m = "m\<lparr>mg_process := p\<rparr>"
  obtain x v where token: "mg_token m w = (x, v)" by fastforce
  have no_calls: "unremoved (fx_calls (new_fixture w)) = {}"
    by (simp add: new_fixture_def unremoved_def)
  have all: "case start_all ?m token services ((new_fixture w)\<lparr>fx_world := v\<rparr>) of
       (Inl e, fx') \<Rightarrow> unremoved (fx_calls fx') = {} | (Inr le, fx') \<Rightarrow> fx_lease fx' = le \<and> all_tracked {} fx'"
    for token services
    by (rule start_all_tracked) (simp add: new_fixture_def)
  show ?thesis
  proof (cases "selected_definitions ?m names")
    case (Inl e)
    then have "start_services (Some p) m names (new_fixture w) = (Inl e, new_fixture w)"
      by (simp add: start_services_def refused_def)
    then show ?thesis using no_calls by simp
  next
    case (Inr services)
    have "effect (mg_token m) (new_fixture w) = (Inr x, (new_fixture w)\<lparr>fx_world := v\<rparr>)"
      using token by (simp add: effect_def new_fixture_def)
    then show ?thesis
      using Inr all [of _ services]
      by (cases x) (simp_all add: start_services_def refused_def then_task_def under_message_def obtaining_def succeed_def no_calls)
  qed
qed


end
