(* ===== verification/Services_Identities.thy ===== *)
theory Services_Identities
  imports Services_Facts
begin

text \<open>
  The identities of a started selection: which task adds which name, and that a lease names exactly
  the selected services.
\<close>

section \<open>The identities\<close>

definition same_identities :: "'w fixture \<Rightarrow> 'w fixture \<Rightarrow> bool" where
  "same_identities fx fx' \<longleftrightarrow> le_identities (fx_lease fx') = le_identities (fx_lease fx)"

interpretation identities: command_law "same_identities :: 'w fixture \<Rightarrow> 'w fixture \<Rightarrow> bool"
  by standard (auto simp: same_identities_def task_obeys_def docker_def split: prod.split)

lemma same_on_lease: "(\<And>le. le_identities (f le) = le_identities le) \<Longrightarrow> task_obeys same_identities (on_lease f)"
  by (simp add: task_obeys_def same_identities_def on_lease_def)

lemma same_leases:
  "task_obeys same_identities (lease_environment entries)" "task_obeys same_identities (track_container name)"
  "task_obeys same_identities (track_network name)" "task_obeys same_identities (track_volume name)"
  unfolding lease_environment_def track_container_def track_network_def track_volume_def
  by (auto intro: same_on_lease)

lemma same_docker: "task_obeys same_identities (docker m arguments environment stdout stderr)"
  by (auto simp: same_identities_def task_obeys_def docker_def split: prod.split)

lemma same_docker_quiet: "task_obeys same_identities (docker_quiet m arguments environment)"
  unfolding docker_quiet_def by (intro identities.steps same_docker)

lemmas same_steps = identities.steps same_leases same_docker same_docker_quiet identities.image_identity
  identities.container_port identities.wait_ready identities.configure_toxiproxy

text \<open>A task that changes the identities by \<open>g\<close> when it succeeds.\<close>

definition changes :: "((string \<rightharpoonup> string) \<Rightarrow> (string \<rightharpoonup> string) \<Rightarrow> bool) \<Rightarrow> ('a, 'w) task \<Rightarrow> bool" where
  "changes g m \<longleftrightarrow> (\<forall>fx. case m fx of (Inl _, _) \<Rightarrow> True
     | (Inr _, fx') \<Rightarrow> g (le_identities (fx_lease fx)) (le_identities (fx_lease fx')))"

definition adds :: "string \<Rightarrow> (string \<rightharpoonup> string) \<Rightarrow> (string \<rightharpoonup> string) \<Rightarrow> bool" where
  "adds name ids ids' \<longleftrightarrow> (\<exists>i. ids' = ids(name \<mapsto> i))"

lemma changesI:
  "(\<And>fx x fx'. m fx = (Inr x, fx') \<Longrightarrow> g (le_identities (fx_lease fx)) (le_identities (fx_lease fx'))) \<Longrightarrow> changes g m"
  by (auto simp: changes_def split: sum.split prod.split)

lemma changesD:
  "changes g m \<Longrightarrow> m fx = (Inr x, fx') \<Longrightarrow> g (le_identities (fx_lease fx)) (le_identities (fx_lease fx'))"
  by (auto simp: changes_def dest: spec [of _ fx])

lemma then_task_Inr:
  "then_task m f fx = (Inr y, fz) \<longleftrightarrow> (\<exists>x fy. m fx = (Inr x, fy) \<and> f x fy = (Inr y, fz))"
  by (auto simp: then_task_def split: prod.split sum.split)

lemma changes_refused: "changes g (refused e)"
  by (simp add: changes_def refused_def)

lemma changes_then:
  assumes "task_obeys same_identities m" and "\<And>x. changes g (f x)"
  shows "changes g (then_task m f)"
proof (rule changesI)
  fix fx y fz
  assume "then_task m f fx = (Inr y, fz)"
  then obtain x fy where m: "m fx = (Inr x, fy)" and f: "f x fy = (Inr y, fz)"
    by (auto simp: then_task_Inr)
  show "g (le_identities (fx_lease fx)) (le_identities (fx_lease fz))"
    using task_obeysD [OF assms(1) m] changesD [OF assms(2) f] by (simp add: same_identities_def)
qed

lemma adds_identity: "changes (adds name) (lease_identity name identity)"
  by (auto simp: changes_def adds_def lease_identity_def on_lease_def)

lemma adds_start_service: "changes (adds (sv_name s)) (start_service m s token)"
  unfolding start_service_def Let_def
  by (auto intro!: changes_then changes_refused same_steps adds_identity split: option.split)

lemma same_start_stream_broker: "task_obeys same_identities (start_stream_broker m token network credentials port)"
  unfolding start_stream_broker_def Let_def by (cases credentials) (auto intro!: same_steps)

lemma adds_start_stream_standalone: "changes (adds ''rabbitstream-standalone'') (start_stream_standalone m token)"
  unfolding start_stream_standalone_def Let_def
  by (auto intro!: changes_then changes_refused same_steps same_start_stream_broker adds_identity)

lemma same_start_stream_cluster: "task_obeys same_identities (start_stream_cluster m token c)"
  unfolding start_stream_cluster_def create_stream_resources_def create_stream_volume_def Let_def
  by (intro same_steps identities.read_topology_ports
      identities.write_stream_fixture_files identities.all_tasks identities.compose_up [OF same_docker]
      identities.configure_stream_proxies identities.configure_stream_tls identities.stream_identities)
    (auto intro!: same_steps)

text \<open>The topology replaces the identity of its standalone broker by its own.\<close>

definition replaces :: "(string \<rightharpoonup> string) \<Rightarrow> (string \<rightharpoonup> string) \<Rightarrow> bool" where
  "replaces ids ids' \<longleftrightarrow> dom ids' = insert ''rabbitstream'' (dom ids - {''rabbitstream-standalone''})"

lemma replaces_step:
  "adds ''rabbitstream-standalone'' ids ids' \<Longrightarrow>
   adds ''rabbitstream'' (ids'(''rabbitstream-standalone'' := None)) ids'' \<Longrightarrow> replaces ids ids''"
  unfolding adds_def replaces_def by (elim exE) simp

lemma changes_start_stream_topology: "changes replaces (start_stream_topology m token)"
proof -
  have last: "changes (adds ''rabbitstream'') (then_task (lease_identity ''rabbitstream'' i) (\<lambda>_. lease_environment e))" for i e
    by (auto simp: changes_def adds_def lease_identity_def lease_environment_def on_lease_def then_task_def)
  have rest: "changes (\<lambda>ids ids'. adds ''rabbitstream'' (ids(''rabbitstream-standalone'' := None)) ids')
      (then_task (forget_identity ''rabbitstream-standalone'') f)"
    if "\<And>x. changes (adds ''rabbitstream'') (f x)" for f :: "unit \<Rightarrow> (unit, 'a) task"
    by (rule changesI) (auto simp: then_task_Inr forget_identity_def on_lease_def dest: changesD [OF that])
  have join: "changes replaces (then_task a f)"
    if a: "changes (adds ''rabbitstream-standalone'') a"
      and f: "\<And>x. changes (\<lambda>ids ids'. adds ''rabbitstream'' (ids(''rabbitstream-standalone'' := None)) ids') (f x)"
    for a :: "(unit, 'a) task" and f :: "unit \<Rightarrow> (unit, 'a) task"
    by (rule changesI) (auto simp: then_task_Inr intro!: replaces_step dest!: changesD [OF a] changesD [OF f])
  show ?thesis
    unfolding start_stream_topology_def
    by (auto intro!: join [OF adds_start_stream_standalone] rest changes_refused last
        changes_then [OF identities.seeing_lease] changes_then [OF identities.new_stream_credentials]
        changes_then [OF same_start_stream_cluster])
qed

section \<open>The selection\<close>

lemma catalog_named:
  "catalog name = Some s \<Longrightarrow> sv_name s = name \<and>
     (sv_start s = Some Stream_topology \<longrightarrow> name = ''rabbitstream'') \<and>
     (sv_start s = Some Stream_standalone \<longrightarrow> name = ''rabbitstream-standalone'')"
  by (auto simp: catalog_def service_of_def split: if_splits)

definition well_named :: "service \<Rightarrow> bool" where
  "well_named s \<longleftrightarrow> (sv_start s = Some Stream_topology \<longrightarrow> sv_name s = ''rabbitstream'') \<and>
     (sv_start s = Some Stream_standalone \<longrightarrow> sv_name s = ''rabbitstream-standalone'')"

lemma search_service_named: "search_service i = Inr s \<Longrightarrow> sv_name s = ''opensearch'' \<and> sv_start s = None"
  by (auto simp: search_service_def service_of_def split: option.splits)

lemma map_sum_Some_iff: "map_sum id Some x = Inr (Some s) \<longleftrightarrow> x = Inr s"
  by (cases x) auto

lemma select_services_named:
  "select_services m seen names = Inr services \<Longrightarrow>
     map sv_name services = names \<and> distinct names \<and> set names \<inter> set seen = {} \<and> list_all well_named services"
proof (induction names arbitrary: seen services)
  case (Cons name names)
  let ?found = "case (name = ''opensearch'', mg_opensearch m) of
    (True, Some i) \<Rightarrow> map_sum id Some (search_service i) | _ \<Rightarrow> Inr (catalog name)"
  obtain s rest where s: "?found = Inr (Some s)" and fresh: "name \<notin> set seen"
    and rest: "select_services m (name # seen) names = Inr rest" and services: "services = s # rest"
    using Cons.prems
    by (cases "select_services m (name # seen) names") (auto split: sum.splits option.splits if_splits)
  have "sv_name s = name \<and> well_named s"
    using s catalog_named [of name s] search_service_named [of _ s]
    by (auto simp: well_named_def map_sum_Some_iff split: bool.splits option.splits sum.splits)
  with Cons.IH [OF rest] fresh services show ?case by auto
qed simp

lemma start_order: "\<not> ''rabbitstream-standalone'' \<le> ''rabbitstream''"
  by (simp add: less_eq_char_def)

lemma started_dom:
  assumes "all_tasks (map (start_one m token) services) fx = (Inr (), fx')"
    and "sorted (map sv_name services)" and "distinct (map sv_name services)" and "list_all well_named services"
    and "dom (le_identities (fx_lease fx)) \<subseteq> {name. \<forall>s \<in> set services. name \<le> sv_name s}"
  shows "dom (le_identities (fx_lease fx')) = dom (le_identities (fx_lease fx)) \<union> set (map sv_name services)"
  using assms
proof (induction services arbitrary: fx)
  case (Cons s services)
  from Cons.prems(1) obtain fy where one: "start_one m token s fx = (Inr (), fy)"
    and rest: "all_tasks (map (start_one m token) services) fy = (Inr (), fx')"
    by (auto simp: then_task_Inr)
  have dom: "dom (le_identities (fx_lease fy)) = insert (sv_name s) (dom (le_identities (fx_lease fx)))"
  proof (cases "sv_start s")
    case None
    then show ?thesis
      using one changesD [OF adds_start_service, of m s token fx "()" fy] by (auto simp: start_one_def adds_def)
  next
    case (Some k)
    show ?thesis
    proof (cases k)
      case Stream_standalone
      then show ?thesis
        using one Some Cons.prems(4) changesD [OF adds_start_stream_standalone, of m token fx "()" fy]
        by (auto simp: start_one_def adds_def well_named_def)
    next
      case Stream_topology
      with Some Cons.prems(4) have name: "sv_name s = ''rabbitstream''" by (simp add: well_named_def)
      with Cons.prems(5) have "''rabbitstream-standalone'' \<notin> dom (le_identities (fx_lease fx))"
        using start_order by auto
      then show ?thesis
        using one Some Stream_topology name changesD [OF changes_start_stream_topology, of m token fx "()" fy]
        by (simp add: start_one_def replaces_def)
    qed
  qed
  have "dom (le_identities (fx_lease fy)) \<subseteq> {name. \<forall>s \<in> set services. name \<le> sv_name s}"
    using dom Cons.prems(2,5) by auto
  with Cons.IH [OF rest] Cons.prems dom show ?case by auto
qed (simp add: succeed_def)

text \<open>C39: the lease of a started selection holds one image identity for every selected service and no
  other, in whatever order the selection names them: the topology discards the identity of the
  standalone broker it starts for itself, and is started ahead of a selected standalone broker,
  whose identity is kept.\<close>

theorem lease_identities_exact:
  "case start_services (Some p) m names (new_fixture w) of
       (Inl e, fx) \<Rightarrow> True
     | (Inr le, fx) \<Rightarrow> distinct names \<and> dom (le_identities le) = set names"
proof (cases "start_services (Some p) m names (new_fixture w)")
  case (Pair r fx)
  show ?thesis
  proof (cases r)
    case (Inr le)
    let ?m = "m\<lparr>mg_process := p\<rparr>"
    obtain services where sel: "selected_definitions ?m names = Inr services"
      using Pair Inr by (cases "selected_definitions ?m names") (auto simp: start_services_def refused_def)
    then obtain chosen where chosen: "select_services ?m [] names = Inr chosen" "services = sort_key sv_name chosen"
      by (cases "select_services ?m [] names") (auto simp: selected_definitions_def split: if_splits)
    note named = select_services_named [OF chosen(1)]
    obtain token fy where start: "start_all ?m token services fy = (Inr le, fx)"
      using Pair Inr sel by (auto simp: start_services_def then_task_Inr refused_def split: if_splits)
    then have run: "all_tasks (map (start_one ?m token) services) (fy\<lparr>fx_lease := new_lease\<rparr>) = (Inr (), fx)"
      and le: "le = fx_lease fx"
      by (auto simp: start_all_def split: prod.splits sum.splits)
    have perm: "set services = set chosen" "distinct (map sv_name services)"
      using chosen(2) named by (auto simp: distinct_map)
    have "dom (le_identities (fx_lease fx)) = set (map sv_name services)"
      using started_dom [OF run] chosen(2) perm named by (simp add: new_lease_def list_all_iff)
    moreover have "set (map sv_name services) = set (map sv_name chosen)" using perm(1) by simp
    ultimately show ?thesis using Pair Inr le named by simp
  qed (simp add: Pair)
qed

end
