(* ===== verification/Services_Redaction.thy ===== *)
theory Services_Redaction
  imports Services_Output "HOL-Library.Sublist"
begin

text \<open>
  What a service's diagnostic discloses: a secret of the fixture is in no diagnostic text, whatever
  the process writes and however the writes cut it, and the text is bounded.
\<close>

section \<open>Parts of a text\<close>

lemma has_prefix_prefix: "has_prefix s t \<longleftrightarrow> prefix t s"
  by (auto simp: has_prefix_iff prefix_def)

lemma contains_str_sublist: "contains_str s t \<longleftrightarrow> sublist t s"
  unfolding contains_str_def
  by (induction s) (auto simp: sublist_Cons_right has_prefix_prefix)

lemma sublist_nth: "sublist t s \<longleftrightarrow> (\<exists>i. i + length t \<le> length s \<and> (\<forall>j < length t. s ! (i + j) = t ! j))"
proof
  assume "\<exists>i. i + length t \<le> length s \<and> (\<forall>j < length t. s ! (i + j) = t ! j)"
  then obtain i where "i + length t \<le> length s" "\<forall>j < length t. s ! (i + j) = t ! j" by blast
  then have "take (length t) (drop i s) = t" by (auto intro: nth_equalityI)
  then show "sublist t s" by (metis sublist_drop sublist_take sublist_order.order_trans)
next
  assume "sublist t s"
  then obtain ps ss where "s = ps @ t @ ss" by (auto simp: sublist_def)
  then show "\<exists>i. i + length t \<le> length s \<and> (\<forall>j < length t. s ! (i + j) = t ! j)"
    by (intro exI [of _ "length ps"]) (simp add: nth_append)
qed

section \<open>Redaction\<close>

definition within_text :: "nat \<Rightarrow> nat \<times> nat \<Rightarrow> bool" where
  "within_text n r \<longleftrightarrow> fst r + snd r \<le> n"

lemma mark_range_nth:
  assumes "within_text (length hidden) r"
  shows "length (mark_range r hidden) = length hidden"
    and "p < length hidden \<Longrightarrow> mark_range r hidden ! p = (hidden ! p \<or> fst r \<le> p \<and> p < fst r + snd r)"
  using assms by (auto simp: mark_range_def within_text_def nth_append min_def split: prod.splits)

lemma fold_mark_range:
  assumes "list_all (within_text (length hidden)) rs"
  shows "length (fold mark_range rs hidden) = length hidden"
    and "p < length hidden \<Longrightarrow> hidden ! p \<or> (\<exists>r \<in> set rs. fst r \<le> p \<and> p < fst r + snd r) \<Longrightarrow> fold mark_range rs hidden ! p"
  using assms by (induction rs arbitrary: hidden) (auto simp: mark_range_nth)

lemma ranges_within:
  "list_all (within_text (length value)) (occurrence_ranges value s)"
  "list_all (within_text (length value)) (boundary_ranges value s)"
  by (auto simp: occurrence_ranges_def boundary_ranges_def within_text_def list_all_iff split: if_splits)

lemma redaction_mask_facts:
  "length (redaction_mask value secrets) = length value"
  "r \<in> set (occurrence_ranges value s) \<Longrightarrow> s \<in> set secrets \<Longrightarrow> p < length value \<Longrightarrow>
     fst r \<le> p \<Longrightarrow> p < fst r + snd r \<Longrightarrow> redaction_mask value secrets ! p"
proof -
  let ?rs = "concat (map (\<lambda>s. occurrence_ranges value s @ boundary_ranges value s) secrets)"
  have rs: "list_all (within_text (length (replicate (length value) False))) ?rs"
    using ranges_within [of "value"] by (auto simp: list_all_iff)
  show "length (redaction_mask value secrets) = length value"
    using fold_mark_range(1) [OF rs] by (simp add: redaction_mask_def)
  assume "r \<in> set (occurrence_ranges value s)" "s \<in> set secrets" "p < length value" "fst r \<le> p" "p < fst r + snd r"
  then show "redaction_mask value secrets ! p"
    using fold_mark_range(2) [OF rs, of p] unfolding redaction_mask_def by fastforce
qed

lemma redacted:
  assumes "s \<in> set secrets" and "s \<noteq> []" and "CHR ''*'' \<notin> set s"
  shows "\<not> sublist s (redact_secrets value secrets)"
proof
  assume "sublist s (redact_secrets value secrets)"
  then obtain i where i: "i + length s \<le> length value"
    and eq: "\<And>j. j < length s \<Longrightarrow> redact_secrets value secrets ! (i + j) = s ! j"
    by (auto simp: sublist_nth redact_secrets_def redaction_mask_facts)
  have bare: "\<not> redaction_mask value secrets ! (i + j) \<and> value ! (i + j) = s ! j" if "j < length s" for j
  proof -
    have "redact_secrets value secrets ! (i + j) = (if redaction_mask value secrets ! (i + j) then CHR ''*'' else value ! (i + j))"
      using i that by (simp add: redact_secrets_def redaction_mask_facts)
    moreover have "s ! j \<noteq> CHR ''*''" using assms(3) that by (metis nth_mem)
    ultimately show ?thesis using eq [OF that] by (auto split: if_splits)
  qed
  have "has_prefix (drop i value) s"
    unfolding has_prefix_def using i bare by (auto intro: nth_equalityI)
  then have "(i, length s) \<in> set (occurrence_ranges value s)"
    using i by (auto simp: occurrence_ranges_def image_iff le_less intro: rev_bexI)
  then have "redaction_mask value secrets ! i"
    using redaction_mask_facts(2) [of "(i, length s)" "value" s secrets i] assms i by (cases s) auto
  moreover have "\<not> redaction_mask value secrets ! (i + 0)" using bare [of 0] assms(2) by blast
  ultimately show False by simp
qed

section \<open>Printing\<close>

text \<open>The characters a secret is made of: printable, and neither of the marks a text is rewritten with.\<close>

definition visible :: "char \<Rightarrow> bool" where
  "visible c \<longleftrightarrow> 33 \<le> (of_char c :: int) \<and> (of_char c :: int) \<le> 126 \<and> c \<noteq> CHR ''*'' \<and> c \<noteq> CHR ''?''"

lemma decode_rune_bytes:
  assumes "128 \<le> b0"
  shows "snd (decode_rune (b0 # bs)) \<le> 4 \<and> (\<forall>b \<in> set (take (snd (decode_rune (b0 # bs))) (b0 # bs)). 128 \<le> b)"
  using assms by (auto simp: decode_rune.simps(2) is_cont_def eval_nat_numeral split: list.splits)

lemma rune_shape:
  "(r, b) \<in> set (runes s) \<Longrightarrow> (\<exists>c. b = [c] \<and> r = of_char c \<and> (of_char c :: int) < 128) \<or> b \<noteq> [] \<and> (\<forall>c \<in> set b. 128 \<le> (of_char c :: int))"
proof (induction s rule: runes.induct)
  case (2 c s)
  show ?case
  proof (cases "(of_char c :: int) < 128")
    case True
    with 2 show ?thesis by (auto simp: runes_ascii runes.simps(2) decode_rune.simps(2))
  next
    case False
    let ?bs = "map of_char (take 3 s) :: int list"
    have four: "map of_char (take 4 (c # s)) = (of_char c :: int) # ?bs"
      by (simp add: eval_nat_numeral)
    obtain x w where xw: "decode_rune (of_char c # ?bs) = (x, w)" by fastforce
    have w: "w \<le> 4" "\<forall>b \<in> set (take w (of_char c # ?bs)). 128 \<le> b" "0 < w"
      using decode_rune_bytes [of "of_char c" ?bs] decode_rune_width [of "of_char c" ?bs] False xw by auto
    have "map of_char (take w (c # s)) = take w (of_char c # ?bs)"
      using w(1) four by (metis min.absorb1 take_map take_take)
    then have big: "\<forall>c \<in> set (take w (c # s)). 128 \<le> (of_char c :: int)"
      using w(2) by (metis image_eqI list.set_map)
    from 2(2) xw four have "(r, b) = (x, take w (c # s)) \<or> (r, b) \<in> set (runes (drop w (c # s)))"
      by (simp add: runes.simps(2))
    then show ?thesis
      using big w(3) 2(1) xw four by auto
  qed
qed simp

definition plain_rune :: "int \<times> string \<Rightarrow> bool" where
  "plain_rune r \<longleftrightarrow> (\<exists>c. visible c \<and> snd r = [c] \<and> printable_rune r = [c])"

lemma rune_cases:
  assumes "r \<in> set (runes s)"
  shows "plain_rune r \<or> printable_rune r \<noteq> [] \<and> (\<forall>c \<in> set (printable_rune r). \<not> visible c)"
proof (cases r)
  case (Pair x b)
  from rune_shape assms Pair consider
    (ascii) c where "b = [c]" "x = of_char c" "(of_char c :: int) < 128"
    | (wide) "b \<noteq> []" "\<forall>c \<in> set b. 128 \<le> (of_char c :: int)"
    by blast
  then show ?thesis
  proof cases
    case ascii
    then show ?thesis
      using Pair by (auto simp: plain_rune_def printable_rune_def invalid_rune_def is_control_rune_def visible_def)
  next
    case wide
    then show ?thesis
      using Pair by (auto simp: printable_rune_def visible_def)
  qed
qed

lemma printable_parts:
  assumes "list_all (\<lambda>r. plain_rune r \<or> printable_rune r \<noteq> [] \<and> (\<forall>c \<in> set (printable_rune r). \<not> visible c)) rs"
    and "list_all visible t"
  shows "prefix t (concat (map printable_rune rs)) \<Longrightarrow> prefix t (concat (map snd rs))"
    and "t \<noteq> [] \<Longrightarrow> sublist t (concat (map printable_rune rs)) \<Longrightarrow> sublist t (concat (map snd rs))"
  using assms
proof (induction rs arbitrary: t)
  case (Cons r rs)
  let ?P = "concat (map printable_rune rs)" and ?R = "concat (map snd rs)"
  {
    case 1
    show ?case
    proof (cases t)
      case (Cons c u)
      with 1 have "hd (printable_rune r @ ?P) = c" "visible c" by (auto simp: prefix_def)
      then have "plain_rune r" using 1 by (cases "printable_rune r") auto
      then show ?thesis using 1 Cons Cons.IH(1) [of u] by (auto simp: plain_rune_def)
    qed simp
  next
    case 2
    show ?case
    proof (cases "plain_rune r")
      case True
      then obtain c where c: "visible c" "snd r = [c]" "printable_rune r = [c]" by (auto simp: plain_rune_def)
      show ?thesis
      proof (cases "prefix t (concat (map printable_rune (r # rs)))")
        case True
        with Cons.IH(1) [of "tl t"] 2 c show ?thesis
          by (cases t) (auto simp: sublist_Cons_right)
      next
        case False
        with 2 c Cons.IH(2) [of t] show ?thesis by (auto simp: sublist_Cons_right)
      qed
    next
      case False
      with 2 have dull: "\<forall>c \<in> set (printable_rune r). \<not> visible c" by auto
      have "sublist t ?P"
      proof (rule ccontr)
        assume not: "\<not> sublist t ?P"
        from 2(2) have "sublist t (printable_rune r @ ?P)" by simp
        with not obtain u where u: "u \<noteq> []" "set u \<subseteq> set t" "set u \<subseteq> set (printable_rune r)"
          unfolding sublist_append
          by (metis 2(1) append_Nil prefix_imp_sublist set_mono_prefix set_mono_sublist set_mono_suffix Un_upper1 set_append subset_refl)
        then obtain c where "c \<in> set u" by (cases u) auto
        with u dull 2 show False by (auto simp: list_all_iff)
      qed
      with 2 Cons.IH(2) [of t] show ?thesis by (simp add: sublist_appendI sublist_append)
    qed
  }
qed (auto simp: sublist_def)

lemma printable_sublist:
  assumes "list_all visible t" and "t \<noteq> []" and "sublist t (printable_text s)"
  shows "sublist t s"
proof -
  have "list_all (\<lambda>r. plain_rune r \<or> printable_rune r \<noteq> [] \<and> (\<forall>c \<in> set (printable_rune r). \<not> visible c)) (runes s)"
    using rune_cases by (auto simp: list_all_iff)
  from printable_parts(2) [OF this assms(1)] assms show ?thesis
    by (simp add: printable_text_def)
qed

lemma sublist_concat_snd: "sublist xs ys \<Longrightarrow> sublist (concat (map snd xs)) (concat (map snd ys))"
  unfolding sublist_def by (elim exE) (simp, blast)

lemma trim_space_sublist: "sublist (trim_space s) s"
proof -
  let ?d = "dropWhile (is_space_rune \<circ> fst)"
  have "sublist (rev (?d (rev (?d (runes s))))) (runes s)"
    by (metis rev_rev_ident sublist_dropWhile sublist_order.order_trans sublist_rev)
  from sublist_concat_snd [OF this] show ?thesis by (simp add: trim_space_def)
qed

lemma drop_invalid_start_suffix: "suffix (drop_invalid_start s) s"
  by (induction s) (auto intro: suffix_ConsI)

section \<open>The diagnostic text\<close>

lemma write_keeps_secrets: "dw_secrets (fold diagnostic_write chunks w) = dw_secrets w"
  by (induction chunks arbitrary: w) (simp_all add: diagnostic_write_def Let_def)

lemma notice_end: "\<not> list_all visible [last diagnostic_truncated]"
  by (simp add: diagnostic_truncated_def visible_def)

lemma behind_notice:
  assumes "list_all visible t" and "sublist t (diagnostic_truncated @ s)"
  shows "sublist t diagnostic_truncated \<or> sublist t s"
proof (rule ccontr)
  assume not: "\<not> ?thesis"
  with assms(2) obtain u v where t: "t = u @ v" "suffix u diagnostic_truncated" "prefix v s"
    by (auto simp: sublist_append)
  with not have "u \<noteq> []" by auto
  with t(2) have "last u = last diagnostic_truncated" by (metis last_appendR suffix_def)
  then show False using assms(1) t(1) \<open>u \<noteq> []\<close> notice_end
    by (cases u rule: rev_cases) auto
qed

lemma diagnostic_shown:
  obtains (nothing_shown) "fst (diagnostic_string w) = []"
  | (shown) shown prefix_text where "fst (diagnostic_string w) = prefix_text @ shown"
      "prefix_text = [] \<or> prefix_text = diagnostic_truncated"
      "length prefix_text + length shown \<le> maximum_service_diagnostic"
      "sublist shown (printable_text (redact_secrets (to_valid_utf8 (dw_value w) ''?'') (dw_secrets w)))"
proof -
  let ?text = "printable_text (redact_secrets (to_valid_utf8 (dw_value w) ''?'') (dw_secrets w))"
  let ?result = "trim_space ?text"
  let ?truncated = "dw_truncated w \<or> maximum_service_diagnostic < length ?result"
  let ?limit = "if ?truncated then maximum_service_diagnostic - length diagnostic_truncated else maximum_service_diagnostic"
  let ?shown = "drop_invalid_start (drop (length ?result - ?limit) ?result)"
  have shown_result: "fst (diagnostic_string w) = (if ?result = [] then [] else (if ?truncated then diagnostic_truncated else []) @ ?shown)"
    unfolding diagnostic_string_def Let_def by (simp only: if_distrib [of fst] fst_conv append_Nil split: if_split) simp
  have "sublist ?shown ?text"
    by (rule sublist_order.order_trans [OF suffix_imp_sublist [OF drop_invalid_start_suffix]
          sublist_order.order_trans [OF sublist_drop trim_space_sublist]])
  moreover have "length ?shown \<le> ?limit"
    using suffix_length_le [OF drop_invalid_start_suffix, of "drop (length ?result - ?limit) ?result"] by simp
  moreover have "length diagnostic_truncated \<le> maximum_service_diagnostic"
    by (simp add: diagnostic_truncated_def maximum_service_diagnostic_def)
  ultimately have bounded: "length (if ?truncated then diagnostic_truncated else []) + length ?shown \<le> maximum_service_diagnostic"
    and part: "sublist ?shown ?text"
    by auto
  show thesis
  proof (cases "?result = []")
    case True
    then show ?thesis using nothing_shown shown_result by simp
  next
    case False
    then have "fst (diagnostic_string w) = (if ?truncated then diagnostic_truncated else []) @ ?shown"
      using shown_result by (simp only: if_False)
    then show ?thesis by (rule shown [OF _ _ bounded part]) simp
  qed
qed

text \<open>C7: no secret of a fixture is disclosed by the diagnostic of its process: whatever bytes the
  process writes, in whatever chunks, the text that becomes part of the error contains no secret
  that the writer was given (of printable characters other than the two that replace text, and not
  a word of the truncation notice), and the text has at most 4096 bytes.\<close>

theorem diagnostics_hide_secrets:
  assumes "s \<in> set secrets" and "s \<noteq> []" and "list_all visible s" and "\<not> contains_str diagnostic_truncated s"
  shows "\<not> contains_str (fst (diagnostic_string (fold diagnostic_write chunks (new_diagnostic_writer secrets)))) s \<and>
    length (fst (diagnostic_string (fold diagnostic_write chunks (new_diagnostic_writer secrets)))) \<le> maximum_service_diagnostic"
proof -
  let ?w = "fold diagnostic_write chunks (new_diagnostic_writer secrets)"
  have secret: "s \<in> set (dw_secrets ?w)"
    using assms by (simp add: write_keeps_secrets new_diagnostic_writer_def Let_def)
  have star: "CHR ''*'' \<notin> set s"
    using assms(3) by (auto simp: list_all_iff visible_def)
  have hidden: "\<not> sublist s t" if "sublist t (printable_text (redact_secrets (to_valid_utf8 (dw_value ?w) ''?'') (dw_secrets ?w)))" for t
    using printable_sublist [OF assms(3,2)] redacted [OF secret assms(2) star] that
    by (meson sublist_order.order_trans)
  from diagnostic_shown [of ?w] show ?thesis
  proof cases
    case nothing_shown
    then show ?thesis using assms(2) by (simp add: contains_str_sublist)
  next
    case (shown t q)
    then show ?thesis
      using hidden [of t] behind_notice [OF assms(3), of t] assms(4) by (auto simp: contains_str_sublist)
  qed
qed

theorem diagnostics_hide_secrets_witness:
  "\<not> contains_str (fst (diagnostic_string (fold diagnostic_write [''user=golib pass'', ''word=gol''] (new_diagnostic_writer [''golib'', ''guest''])))) ''golib''"
  by (rule diagnostics_hide_secrets [THEN conjunct1]) (simp_all add: visible_def diagnostic_truncated_def contains_str_def has_prefix_def)

end
