(* ===== verification/Spec_Data.thy ===== *)
theory Spec_Data
  imports Inventory Repository_File Strict_Json
begin

text \<open>
  internal/specification/check.go: the documents of a specification-backed module. The decoders of
  encoding/json, \<open>url.Parse\<close>, dates, SHA-256, case mapping and the parser of Go files are the
  fields of \<open>spec_kit\<close>.
\<close>

section \<open>Documents\<close>

record authority =
  au_id :: string
  au_kind :: string
  au_version :: string
  au_url :: string
  au_sha256 :: string
  au_access :: string
  au_expected_status :: int
  au_unavailable_reason :: string
  au_specifications :: "string list"

record monitoring =
  mo_schema_version :: int
  mo_reviewed_at :: string
  mo_review_interval_days :: int
  mo_authorities :: "authority list"

record change_control =
  cc_readme :: string
  cc_conformance :: string
  cc_compatibility :: string
  cc_contribution :: string
  cc_changelog :: string
  cc_pull_request_template :: string

record decision =
  de_id :: string
  de_title :: string
  de_status :: string
  de_owner :: string
  de_classification :: string
  de_scope :: string
  de_specification :: string
  de_version :: string
  de_source_authority :: string
  de_section :: string
  de_requirement_strength :: string
  de_issue :: string
  de_interpretations :: "string list"
  de_peer_behavior :: string
  de_selected_behavior :: string
  de_rationale :: string
  de_security :: string
  de_resource :: string
  de_compatibility :: string
  de_wire :: string
  de_executable_evidence :: "string list"
  de_fixture_evidence :: "string list"
  de_fuzz_evidence :: "string list"
  de_interoperability_evidence :: "string list"
  de_differential_evidence :: "string list"
  de_public_apis :: "string list"
  de_documentation :: "string list"
  de_upstream_status :: string
  de_reconsider_when :: string
  de_replacement :: string

record decision_manifest =
  dm_schema_version :: int
  dm_change_control :: change_control
  dm_decisions :: "decision list"

record conformance_decision =
  co_id :: string
  co_authoritative_sources :: "string list"
  co_executable_evidence :: "string list"
  co_fixtures :: "string list"
  co_fuzz :: "string list"
  co_interoperability_evidence :: "string list"
  co_interoperability_classification :: string
  co_differential_evidence :: "string list"
  co_differential_classification :: string
  co_public_behavior :: "string list"

record conformance_manifest =
  cm_schema_version :: int
  cm_decisions :: "conformance_decision list"

record history_entry =
  hi_id :: string
  hi_digests :: "string list"

record decision_history =
  dh_schema_version :: int
  dh_entries :: "history_entry list"

record spec_report =
  sr_modules :: nat
  sr_decisions :: nat
  sr_unresolved :: nat

section \<open>Go test files\<close>

datatype go_type = Go_star go_type | Go_ident string | Go_selector go_type string | Go_other

record go_function =
  gf_name :: string
  gf_receiver :: bool
  gf_type_parameters :: bool
  gf_results :: bool
  gf_parameters :: "(nat \<times> go_type) list"

text \<open>The import paths as \<open>strconv.Unquote\<close> reads them, with the local name.\<close>

record go_file =
  gi_imports :: "(string option \<times> string option) list"
  gi_functions :: "go_function list"

datatype evidence_tree = Tree_file | Tree_link | Tree_dir "(string \<times> evidence_tree) list option"

section \<open>What the checks rely on\<close>

record authority_url =
  ul_scheme :: string
  ul_host :: string
  ul_hostname :: string
  ul_user :: bool
  ul_path :: string
  ul_fragment :: string

record spec_kit =
  sk_lstat :: lstat_fun
  sk_open :: open_fun
  sk_monitoring :: "monitoring strict_decoder"
  sk_decisions :: "decision_manifest strict_decoder"
  sk_conformance :: "conformance_manifest strict_decoder"
  sk_history :: "decision_history strict_decoder"
  sk_paths :: "string \<Rightarrow> string list option"
  sk_json :: "string \<Rightarrow> json_token list \<times> json"
  sk_url :: "string \<Rightarrow> authority_url option"
  sk_date :: "string \<Rightarrow> int option"
  sk_digest :: "decision \<Rightarrow> string"
  sk_authority_record :: "authority \<Rightarrow> string"
  sk_lower :: "string \<Rightarrow> string"
  sk_equal_fold :: "string \<Rightarrow> string \<Rightarrow> bool"
  sk_letter_or_digit :: "int \<Rightarrow> bool"
  sk_is_lower :: "int \<Rightarrow> bool"
  sk_tree :: "string \<Rightarrow> evidence_tree option"
  sk_match_file :: "string list \<Rightarrow> string \<Rightarrow> string \<Rightarrow> bool option"
  sk_parse_go :: "string \<Rightarrow> go_file option"

datatype spec_error = Spec_refused string "string list" | Spec_file repository_error
  | Spec_json strict_error | Spec_in string spec_error

definition maximum_document_size :: int where "maximum_document_size = 8388608"
definition maximum_evidence_size :: int where "maximum_evidence_size = 8388608"
definition maximum_authorities :: nat where "maximum_authorities = 64"

definition read_document :: "spec_kit \<Rightarrow> string \<Rightarrow> string \<Rightarrow> spec_error + string" where
  "read_document kit base path =
     map_sum Spec_file id (read_repository_file (sk_lstat kit) (sk_open kit) base path maximum_document_size)"

definition spec_in :: "string \<Rightarrow> spec_error + 'a \<Rightarrow> spec_error + 'a" where
  "spec_in message x = map_sum (Spec_in message) id x"

definition refuse_when :: "bool \<Rightarrow> string \<Rightarrow> string list \<Rightarrow> spec_error option" where
  "refuse_when b message subjects = (if b then Some (Spec_refused message subjects) else None)"

text \<open>
  internal/specification/check.go: the regular expressions over registers, matrices and changelogs,
  Markdown links, and the ownership of paths.
\<close>

section \<open>Decision identifiers\<close>

definition upper_char :: "char \<Rightarrow> bool" where
  "upper_char c \<longleftrightarrow> CHR ''A'' \<le> c \<and> c \<le> CHR ''Z''"

definition lower_char :: "char \<Rightarrow> bool" where
  "lower_char c \<longleftrightarrow> CHR ''a'' \<le> c \<and> c \<le> CHR ''z''"

definition word_char :: "char \<Rightarrow> bool" where
  "word_char c \<longleftrightarrow> upper_char c \<or> lower_char c \<or> is_digit c \<or> c = CHR ''_''"

definition id_char :: "char \<Rightarrow> bool" where
  "id_char c \<longleftrightarrow> upper_char c \<or> is_digit c \<or> c = CHR ''-''"

text \<open>\<open>[A-Z][A-Z0-9-]*-DEC-[0-9]{3}\<close> at the start of a text: its length with \<open>k\<close> characters before
  the marker. The star is greedy, so the largest \<open>k\<close> counts.\<close>

definition id_with :: "string \<Rightarrow> nat \<Rightarrow> bool" where
  "id_with s k \<longleftrightarrow> has_prefix (drop k s) ''-DEC-'' \<and> length s \<ge> k + 8 \<and> list_all is_digit (take 3 (drop (k + 5) s))"

definition id_lengths :: "string \<Rightarrow> nat list" where
  "id_lengths s =
     (if s \<noteq> [] \<and> upper_char (hd s)
      then map (\<lambda>k. k + 8) (filter (id_with s) (rev [1..<Suc (length (takeWhile id_char s))]))
      else [])"

text \<open>With a word boundary on both sides: \<open>before\<close> is the character before the text.\<close>

definition starts_word :: "char option \<Rightarrow> bool" where
  "starts_word before = (case before of None \<Rightarrow> True | Some c \<Rightarrow> \<not> word_char c)"

definition bounded_id_length :: "char option \<Rightarrow> string \<Rightarrow> nat option" where
  "bounded_id_length before s =
     (if starts_word before
      then find (\<lambda>n. case drop n s of [] \<Rightarrow> True | c # _ \<Rightarrow> \<not> word_char c) (id_lengths s)
      else None)"

definition plain_id_length :: "char option \<Rightarrow> string \<Rightarrow> nat option" where
  "plain_id_length before s = (case id_lengths s of [] \<Rightarrow> None | n # _ \<Rightarrow> Some n)"

text \<open>\<open>FindAllStringIndex\<close>: the leftmost matches, each behind the one before. A match is not empty;
  the text is scanned with as much fuel as it has characters.\<close>

fun find_all :: "(char option \<Rightarrow> string \<Rightarrow> nat option) \<Rightarrow> nat \<Rightarrow> nat \<Rightarrow> char option \<Rightarrow> string \<Rightarrow> (nat \<times> nat) list" where
  "find_all re 0 start before s = []"
| "find_all re (Suc fuel) start before [] = []"
| "find_all re (Suc fuel) start before (c # s) =
     (case re before (c # s) of
        None \<Rightarrow> find_all re fuel (Suc start) (Some c) s
      | Some n \<Rightarrow> (start, start + n) # find_all re fuel (start + n) (Some (last (take n (c # s)))) (drop n (c # s)))"

definition slice :: "string \<Rightarrow> nat \<times> nat \<Rightarrow> string" where
  "slice s r = take (snd r - fst r) (drop (fst r) s)"

definition decision_ids :: "string \<Rightarrow> string list" where
  "decision_ids s = map (slice s) (find_all bounded_id_length (length s) 0 None s)"

text \<open>\<open>decisionID.MatchString(id) && decisionID.FindString(id) == id\<close>\<close>

definition valid_decision_id :: "string \<Rightarrow> bool" where
  "valid_decision_id s = (case decision_ids s of [] \<Rightarrow> False | i # _ \<Rightarrow> i = s)"

definition changelog_ids :: "string \<Rightarrow> (nat \<times> nat) list" where
  "changelog_ids s = find_all plain_id_length (length s) 0 None s"

section \<open>The headings of a register\<close>

definition level_two_heading :: "string \<Rightarrow> bool" where
  "level_two_heading line \<longleftrightarrow> has_prefix line ''## '' \<and> 3 < length line"

text \<open>The identifier and the title of a decision heading. No character of an identifier is the colon
  behind it, so the identifier is the whole run.\<close>

definition decision_heading :: "string \<Rightarrow> (string \<times> string) option" where
  "decision_heading line =
     (if has_prefix line ''## ''
      then (let text = drop 3 line; identifier = takeWhile id_char text; rest = drop (length identifier) text
            in if List.member (id_lengths identifier) (length identifier) \<and> has_prefix rest '': '' \<and> 2 < length rest
               then Some (identifier, drop 2 rest) else None)
      else None)"

record register_entry =
  re_id :: string
  re_title :: string
  re_body :: string

text \<open>The body of an entry reaches to the next heading of the second level.\<close>

definition entry_body :: "string \<Rightarrow> string list \<Rightarrow> string" where
  "entry_body line rows =
     (let own = takeWhile (\<lambda>row. \<not> level_two_heading row) rows
      in join_with [CHR 0x0A] (line # own) @ (if length own < length rows then [CHR 0x0A] else []))"

fun register_entries :: "string list \<Rightarrow> register_entry list" where
  "register_entries [] = []"
| "register_entries (line # rows) =
     (case decision_heading line of
        Some (identifier, title) \<Rightarrow>
          \<lparr>re_id = identifier, re_title = trim_space title, re_body = entry_body line rows\<rparr> # register_entries rows
      | None \<Rightarrow> register_entries rows)"

definition register_of :: "string \<Rightarrow> register_entry list" where
  "register_of text = register_entries (split_on CHR 0x0A text)"

section \<open>Markdown links\<close>

definition space_char :: "char \<Rightarrow> bool" where
  "space_char c \<longleftrightarrow> c = CHR '' '' \<or> (9 \<le> (of_char c :: nat) \<and> (of_char c :: nat) \<le> 13)"

definition skip_spaces :: "string \<Rightarrow> string" where
  "skip_spaces s = dropWhile space_char s"

text \<open>A title between two marks, without the closing mark and line ends.\<close>

definition link_title :: "string \<Rightarrow> string option" where
  "link_title s =
     (case s of
        [] \<Rightarrow> None
      | c # rest \<Rightarrow>
          (let closing = (if c = CHR ''('' then CHR '')'' else c);
               behind = dropWhile (\<lambda>x. x \<noteq> closing \<and> x \<noteq> CHR 0x0A) rest
           in if (c = CHR 0x22 \<or> c = CHR 0x27 \<or> c = CHR ''('') \<and> behind \<noteq> [] \<and> hd behind = closing
              then Some (tl behind) else None))"

text \<open>The end of a link behind its destination: an optional title, and the parenthesis.\<close>

definition link_end :: "string \<Rightarrow> string option" where
  "link_end s =
     (let closed = (\<lambda>t. case skip_spaces t of CHR '')'' # rest \<Rightarrow> Some rest | _ \<Rightarrow> None);
          titled = (if s \<noteq> [] \<and> space_char (hd s)
                    then (case link_title (skip_spaces s) of None \<Rightarrow> None | Some t \<Rightarrow> closed t) else None)
      in case titled of Some rest \<Rightarrow> Some rest | None \<Rightarrow> closed s)"

definition angle_destination :: "string \<Rightarrow> (string \<times> string) option" where
  "angle_destination s =
     (case s of
        CHR ''<'' # t \<Rightarrow>
          (let d = takeWhile (\<lambda>c. c \<noteq> CHR ''>'' \<and> c \<noteq> CHR 0x0A) t; behind = drop (length d) t
           in if d \<noteq> [] \<and> behind \<noteq> [] \<and> hd behind = CHR ''>''
              then map_option (Pair d) (link_end (tl behind)) else None)
      | _ \<Rightarrow> None)"

definition bare_destination :: "string \<Rightarrow> (string \<times> string) option" where
  "bare_destination s =
     (let d = takeWhile (\<lambda>c. \<not> space_char c \<and> c \<noteq> CHR '')'') s
      in if d \<noteq> [] then map_option (Pair d) (link_end (drop (length d) s)) else None)"

text \<open>A link at the start of the text: its destination and what follows it.\<close>

definition markdown_link :: "string \<Rightarrow> (string \<times> string) option" where
  "markdown_link s =
     (if has_prefix s ''](''
      then (let t = skip_spaces (drop 2 s)
            in case angle_destination t of Some r \<Rightarrow> Some r | None \<Rightarrow> bare_destination t)
      else None)"

fun markdown_links :: "nat \<Rightarrow> string \<Rightarrow> string list" where
  "markdown_links 0 s = []"
| "markdown_links (Suc fuel) [] = []"
| "markdown_links (Suc fuel) (c # s) =
     (case markdown_link (c # s) of
        Some (destination, rest) \<Rightarrow> destination # markdown_links fuel rest
      | None \<Rightarrow> markdown_links fuel s)"

definition link_destinations :: "string \<Rightarrow> string list" where
  "link_destinations s = markdown_links (length s) s"

definition local_url :: "authority_url \<Rightarrow> bool" where
  "local_url u \<longleftrightarrow> ul_scheme u = [] \<and> ul_host u = []"

definition document_links_to :: "spec_kit \<Rightarrow> string \<Rightarrow> string \<Rightarrow> string \<Rightarrow> bool" where
  "document_links_to kit document_path data target_path =
     list_ex (\<lambda>d. case sk_url kit d of
         None \<Rightarrow> False
       | Some u \<Rightarrow> local_url u \<and> ul_path u \<noteq> [] \<and>
           path_clean (path_join [path_dir document_path, ul_path u]) = path_clean target_path)
       (link_destinations data)"

definition anchor_rune :: "spec_kit \<Rightarrow> int \<times> string \<Rightarrow> string" where
  "anchor_rune kit r =
     (if sk_letter_or_digit kit (fst r) \<or> fst r = 45 \<or> fst r = 95 then snd r
      else if is_space_rune (fst r) then ''-'' else [])"

definition decision_heading_anchor :: "spec_kit \<Rightarrow> string \<Rightarrow> string \<Rightarrow> string" where
  "decision_heading_anchor kit identifier title =
     concat (map (anchor_rune kit) (runes (sk_lower kit (identifier @ '' '' @ title))))"

definition document_links_to_decision :: "spec_kit \<Rightarrow> string \<Rightarrow> string \<Rightarrow> string \<Rightarrow> bool" where
  "document_links_to_decision kit data identifier title =
     list_ex (\<lambda>d. case sk_url kit d of
         None \<Rightarrow> False
       | Some u \<Rightarrow> local_url u \<and> ul_path u = [] \<and>
           sk_equal_fold kit (ul_fragment u) (decision_heading_anchor kit identifier title))
       (link_destinations data)"

section \<open>Owned paths\<close>

definition module_path :: "string \<Rightarrow> string \<Rightarrow> string" where
  "module_path directory relative = (if directory = ''.'' \<or> directory = [] then relative else path_join [directory, relative])"

definition repository_path :: "string \<Rightarrow> bool" where
  "repository_path path =
     (let clean = path_clean path
      in \<not> is_abs clean \<and> clean \<noteq> ''.'' \<and> clean \<noteq> ''..'' \<and> \<not> has_prefix clean ''../'')"

definition root_module :: "string \<Rightarrow> bool" where
  "root_module directory \<longleftrightarrow> directory = ''.'' \<or> directory = []"

definition outside_nested :: "string \<Rightarrow> module_policy list \<Rightarrow> bool" where
  "outside_nested clean modules =
     list_all (\<lambda>md. root_module (md_directory md) \<or>
        (let nested = path_clean (md_directory md) in clean \<noteq> nested \<and> \<not> has_prefix clean (nested @ ''/''))) modules"

definition module_owns_path :: "string \<Rightarrow> string \<Rightarrow> module_policy list \<Rightarrow> bool" where
  "module_owns_path directory path modules =
     (let clean = path_clean path
      in if is_abs clean \<or> clean = ''.'' \<or> clean = ''..'' \<or> has_prefix clean ''../'' then False
         else if \<not> root_module directory
         then (let base = path_clean directory in clean \<noteq> base \<and> has_prefix clean (base @ ''/''))
         else outside_nested clean modules)"

definition module_owns_or_shares_path :: "string \<Rightarrow> string \<Rightarrow> module_policy list \<Rightarrow> bool" where
  "module_owns_or_shares_path directory path modules =
     (if module_owns_path directory path modules then True
      else if \<not> repository_path path then False
      else outside_nested (path_clean path) modules)"

end
