(* ===== verification/Spec_Decisions.thy ===== *)
theory Spec_Decisions
  imports Spec_Data
begin

text \<open>
  internal/specification/check.go: the monitored authorities of a module (\<open>loadMonitoring\<close>) and the
  manifests of its sources (\<open>validateProvenance\<close>). A date is a number of days. Where the code
  ranges over a map, the model takes one order: which of several errors is returned may differ.
\<close>

section \<open>Authorities\<close>

definition sha256_value :: "string \<Rightarrow> bool" where
  "sha256_value s \<longleftrightarrow> length s = 64 \<and> all_in ''0123456789abcdef'' s"

definition restricted_authority_status :: "int \<Rightarrow> bool" where
  "restricted_authority_status status \<longleftrightarrow> status = 401 \<or> status = 403 \<or> status = 451"

definition valid_pinned_https_url :: "authority_url option \<Rightarrow> bool" where
  "valid_pinned_https_url u =
     (case u of None \<Rightarrow> False
      | Some u \<Rightarrow> ul_scheme u = ''https'' \<and> ul_host u \<noteq> [] \<and> \<not> ul_user u \<and> ul_fragment u = [])"

definition change_kind :: "string \<Rightarrow> bool" where
  "change_kind kind \<longleftrightarrow> kind = ''errata'' \<or> kind = ''releases''"

definition source_kind :: "string \<Rightarrow> bool" where
  "source_kind kind \<longleftrightarrow> kind = ''specification'' \<or> kind = ''registry'' \<or> kind = ''extension'' \<or> kind = ''recommendation''"

definition authority_access_error :: "authority \<Rightarrow> spec_error option" where
  "authority_access_error a =
     (if au_access a = [] \<or> au_access a = ''public''
      then refuse_when (\<not> sha256_value (au_sha256 a) \<or> au_expected_status a \<noteq> 0 \<or> trim_space (au_unavailable_reason a) \<noteq> [])
             ''public specification authority is not an exact content pin'' [au_id a]
      else if au_access a = ''restricted''
      then refuse_when (\<not> source_kind (au_kind a) \<or> au_sha256 a \<noteq> [] \<or> \<not> restricted_authority_status (au_expected_status a) \<or>
               trim_space (au_unavailable_reason a) = [])
             ''restricted specification authority is malformed'' [au_id a]
      else if au_access a = ''conditional''
      then refuse_when (\<not> source_kind (au_kind a) \<or> \<not> sha256_value (au_sha256 a) \<or>
               \<not> restricted_authority_status (au_expected_status a) \<or> trim_space (au_unavailable_reason a) = [])
             ''conditional specification authority is malformed'' [au_id a]
      else Some (Spec_refused ''specification authority has unsupported access'' [au_id a]))"

text \<open>The bindings of an authority, with the ones before.\<close>

fun bindings_error :: "string list \<Rightarrow> string \<Rightarrow> string list \<Rightarrow> string list \<Rightarrow> spec_error option" where
  "bindings_error declared authority_id seen [] = None"
| "bindings_error declared authority_id seen (s # ss) =
     (if List.member seen s then Some (Spec_refused ''specification authority repeats specification'' [authority_id, s])
      else if \<not> List.member declared s
      then Some (Spec_refused ''specification authority references undeclared specification'' [authority_id, s])
      else bindings_error declared authority_id (s # seen) ss)"

definition authority_error :: "spec_kit \<Rightarrow> string list \<Rightarrow> string list \<Rightarrow> authority \<Rightarrow> spec_error option" where
  "authority_error kit declared seen a = first_error
     [refuse_when (au_id a = [] \<or> List.member seen (au_id a)) ''specification authority has an empty or duplicate identifier'' [au_id a],
      refuse_when (\<not> valid_pinned_https_url (sk_url kit (au_url a))) ''specification authority is not an exact HTTPS authority'' [au_id a],
      refuse_when (\<not> change_kind (au_kind a) \<and> \<not> source_kind (au_kind a)) ''specification authority has unsupported kind'' [au_id a],
      authority_access_error a,
      refuse_when (source_kind (au_kind a) \<and> trim_space (au_version a) = []) ''specification source authority has no exact version'' [au_id a],
      refuse_when (au_specifications a = []) ''specification authority has no specification bindings'' [au_id a],
      bindings_error declared (au_id a) [] (au_specifications a)]"

fun authorities_error :: "spec_kit \<Rightarrow> string list \<Rightarrow> string list \<Rightarrow> authority list \<Rightarrow> spec_error option" where
  "authorities_error kit declared seen [] = None"
| "authorities_error kit declared seen (a # rest) =
     (case authority_error kit declared seen a of
        Some e \<Rightarrow> Some e
      | None \<Rightarrow> authorities_error kit declared (au_id a # seen) rest)"

fun declared_error :: "string list \<Rightarrow> string list \<Rightarrow> spec_error option" where
  "declared_error seen [] = None"
| "declared_error seen (s # ss) =
     (if s = [] then Some (Spec_refused ''specification authority monitoring received an empty specification declaration'' [])
      else if List.member seen s then Some (Spec_refused ''duplicate declared specification'' [s])
      else declared_error (s # seen) ss)"

definition covered :: "(string \<Rightarrow> bool) \<Rightarrow> authority list \<Rightarrow> string \<Rightarrow> bool" where
  "covered kind authorities s \<longleftrightarrow> list_ex (\<lambda>a. kind (au_kind a) \<and> List.member (au_specifications a) s) authorities"

definition monitoring_error :: "spec_kit \<Rightarrow> string list \<Rightarrow> int \<Rightarrow> monitoring \<Rightarrow> spec_error option" where
  "monitoring_error kit specifications today policy =
     (if mo_schema_version policy \<noteq> 1 then Some (Spec_refused ''specification authority monitoring schema_version must be 1'' [])
      else (case sk_date kit (mo_reviewed_at policy) of
              None \<Rightarrow> Some (Spec_refused ''specification authority monitoring reviewed_at must be an ISO date'' [])
            | Some reviewed \<Rightarrow> first_error
                ([refuse_when (today < reviewed) ''specification authority monitoring reviewed_at is in the future'' [],
                  refuse_when (mo_review_interval_days policy < 1 \<or> 90 < mo_review_interval_days policy)
                    ''specification authority review interval must be between 1 and 90 days'' [],
                  refuse_when (reviewed + mo_review_interval_days policy < today) ''specification authority review is stale'' [],
                  refuse_when (mo_authorities policy = []) ''specification authority monitoring contains no authorities'' [],
                  refuse_when (maximum_authorities < length (mo_authorities policy)) ''specification authority monitoring contains too many authorities'' [],
                  declared_error [] specifications,
                  authorities_error kit specifications [] (mo_authorities policy)] @
                 map (\<lambda>s. refuse_when (\<not> covered source_kind (mo_authorities policy) s \<or> \<not> covered change_kind (mo_authorities policy) s)
                   ''declared specification lacks source and change authorities'' [s]) specifications)))"

definition load_monitoring :: "spec_kit \<Rightarrow> string \<Rightarrow> string \<Rightarrow> string list \<Rightarrow> int \<Rightarrow> spec_error + monitoring" where
  "load_monitoring kit base relative specifications today =
     (case spec_in ''read specification authority monitoring'' (read_document kit base relative) of
        Inl e \<Rightarrow> Inl e
      | Inr data \<Rightarrow>
          (case decode_strict (sk_monitoring kit) data of
             Inl e \<Rightarrow> Inl (Spec_in ''decode specification authority monitoring'' (Spec_json e))
           | Inr policy \<Rightarrow>
               (case monitoring_error kit specifications today policy of
                  Some e \<Rightarrow> Inl e
                | None \<Rightarrow> Inr policy)))"

section \<open>Source manifests\<close>

definition tsv_required :: "string list" where
  "tsv_required = [''id'', ''version'', ''url'', ''sha256'', ''status'']"

definition column :: "string list \<Rightarrow> string list \<Rightarrow> string \<Rightarrow> string" where
  "column headings cells name =
     (case map_of (zip headings cells) name of None \<Rightarrow> [] | Some v \<Rightarrow> v)"

definition source_row_error :: "spec_kit \<Rightarrow> string list \<Rightarrow> string \<Rightarrow> spec_error option" where
  "source_row_error kit headings line =
     (let cells = split_on CHR 0x09 line; cell = column headings cells
      in if length cells \<noteq> length headings then Some (Spec_refused ''source row has another number of fields'' [line])
         else refuse_when (cell ''id'' = [] \<or> cell ''version'' = [] \<or> \<not> valid_pinned_https_url (sk_url kit (cell ''url'')) \<or>
                \<not> sha256_value (cell ''sha256'') \<or> cell ''status'' \<noteq> ''pinned'')
                ''source row is not an exact HTTPS pin'' [line])"

fun headings_error :: "string list \<Rightarrow> string list \<Rightarrow> spec_error option" where
  "headings_error seen [] = None"
| "headings_error seen (h # hs) =
     (if List.member seen h then Some (Spec_refused ''source manifest has duplicate column'' [h]) else headings_error (h # seen) hs)"

definition tsv_manifest_error :: "spec_kit \<Rightarrow> string \<Rightarrow> spec_error option" where
  "tsv_manifest_error kit data =
     (case split_on CHR 0x0A (trim_space data) of
        first # second # rest \<Rightarrow>
          (let headings = split_on CHR 0x09 first
           in first_error ([headings_error [] headings] @
                map (\<lambda>name. refuse_when (\<not> List.member headings name) ''source manifest is missing a column'' [name]) tsv_required @
                map (source_row_error kit headings) (second # rest)))
      | _ \<Rightarrow> Some (Spec_refused ''source manifest contains no pinned sources'' []))"

definition pin_suffixes :: "string list" where
  "pin_suffixes = [''id'', ''name'', ''version'', ''url'', ''path'', ''source'', ''commit'', ''tag'']"

definition json_pin_has_identity :: "spec_kit \<Rightarrow> (string \<times> json) list \<Rightarrow> string \<Rightarrow> bool" where
  "json_pin_has_identity kit ms digest_key =
     (let stem = trim_suffix (trim_suffix (sk_lower kit digest_key) ''sha256'') ''_''
      in list_ex (\<lambda>(key, v).
           (case v of
              J_string text \<Rightarrow> trim_space text \<noteq> [] \<and>
                list_ex (\<lambda>suffix. sk_lower kit key = suffix \<or> sk_lower kit key = stem @ ''_'' @ suffix) pin_suffixes
            | _ \<Rightarrow> False)) ms)"

definition pin_key :: "spec_kit \<Rightarrow> string \<Rightarrow> bool" where
  "pin_key kit key \<longleftrightarrow> has_suffix (sk_lower kit key) ''sha256''"

definition pin_error :: "spec_kit \<Rightarrow> (string \<times> json) list \<Rightarrow> string \<Rightarrow> json \<Rightarrow> spec_error option" where
  "pin_error kit ms key v =
     (if \<not> pin_key kit key then None
      else if (case v of J_string digest \<Rightarrow> \<not> sha256_value digest | _ \<Rightarrow> True)
      then Some (Spec_refused ''JSON source manifest has invalid integrity pin'' [key])
      else refuse_when (\<not> json_pin_has_identity kit ms key) ''JSON source manifest integrity pin has no source identity'' [key])"

text \<open>The number of pins of a value; the members of an object are read against the whole object.\<close>

fun json_pins :: "spec_kit \<Rightarrow> json \<Rightarrow> spec_error + nat"
  and member_pins :: "spec_kit \<Rightarrow> (string \<times> json) list \<Rightarrow> (string \<times> json) list \<Rightarrow> spec_error + nat"
  and element_pins :: "spec_kit \<Rightarrow> json list \<Rightarrow> spec_error + nat" where
  "json_pins kit (J_object ms) = member_pins kit ms ms"
| "json_pins kit (J_array vs) = element_pins kit vs"
| "json_pins kit (J_string s) = Inr 0"
| "json_pins kit (J_number n) = Inr 0"
| "json_pins kit (J_bool b) = Inr 0"
| "json_pins kit J_null = Inr 0"
| "member_pins kit whole [] = Inr 0"
| "member_pins kit whole ((key, v) # ms) =
     (case pin_error kit whole key v of
        Some e \<Rightarrow> Inl e
      | None \<Rightarrow>
          (case json_pins kit v of
             Inl e \<Rightarrow> Inl e
           | Inr n \<Rightarrow> map_sum id (\<lambda>k. (if pin_key kit key then 1 else 0) + n + k) (member_pins kit whole ms)))"
| "element_pins kit [] = Inr 0"
| "element_pins kit (v # vs) =
     (case json_pins kit v of Inl e \<Rightarrow> Inl e | Inr n \<Rightarrow> map_sum id (\<lambda>k. n + k) (element_pins kit vs))"

definition validate_source_manifest :: "spec_kit \<Rightarrow> string \<Rightarrow> string \<Rightarrow> spec_error option" where
  "validate_source_manifest kit path data =
     (if path_ext path = ''.tsv'' then tsv_manifest_error kit data
      else if path_ext path = ''.json''
      then (case sk_json kit data of (tokens, v) \<Rightarrow>
              (case reject_duplicate_keys tokens of
                 Some e \<Rightarrow> Some (Spec_in ''decode JSON source manifest'' (Spec_json e))
               | None \<Rightarrow>
                   (case json_pins kit v of
                      Inl e \<Rightarrow> Some e
                    | Inr pins \<Rightarrow> refuse_when (pins = 0) ''JSON source manifest contains no integrity pins'' [])))
      else Some (Spec_refused ''unsupported source manifest format'' [path_ext path]))"

fun provenance_paths_error :: "spec_kit \<Rightarrow> string \<Rightarrow> module_policy \<Rightarrow> module_policy list \<Rightarrow> string list \<Rightarrow> spec_error option" where
  "provenance_paths_error kit base md modules [] = None"
| "provenance_paths_error kit base md modules (path # paths) =
     (if \<not> module_owns_path (md_directory md) path modules
      then Some (Spec_refused ''source manifest is outside module'' [path, md_directory md])
      else (case spec_in (''read '' @ path) (read_document kit base path) of
              Inl e \<Rightarrow> Some e
            | Inr data \<Rightarrow>
                (case validate_source_manifest kit path data of
                   Some e \<Rightarrow> Some (Spec_in (''validate '' @ path) e)
                 | None \<Rightarrow> provenance_paths_error kit base md modules paths)))"

definition validate_provenance :: "spec_kit \<Rightarrow> string \<Rightarrow> module_policy \<Rightarrow> module_policy list \<Rightarrow> spec_error option" where
  "validate_provenance kit base md modules =
     (if md_provenance md = [] \<or> md_provenance md = ''null'' then Some (Spec_refused ''source manifest is not declared'' [])
      else (case sk_paths kit (md_provenance md) of
              None \<Rightarrow> Some (Spec_refused ''decode source manifests'' [])
            | Some paths \<Rightarrow>
                if paths = [] then Some (Spec_refused ''source manifest is not declared'' [])
                else provenance_paths_error kit base md modules paths))"

text \<open>
  internal/specification/check.go: the contract of a module's decisions, between the Markdown
  register, the conformance matrix, decisions.json and conformance.json, and their history.
\<close>

section \<open>Lists of texts\<close>

fun optional_text_list_error :: "string \<Rightarrow> string \<Rightarrow> string list \<Rightarrow> string list \<Rightarrow> spec_error option" where
  "optional_text_list_error identifier name seen [] = None"
| "optional_text_list_error identifier name seen (v # vs) =
     (let v = trim_space v
      in if v = [] then Some (Spec_refused ''specification decision has a blank entry'' [identifier, name])
         else if List.member seen v then Some (Spec_refused ''specification decision repeats an entry'' [identifier, name, v])
         else optional_text_list_error identifier name (v # seen) vs)"

definition text_list_error :: "string \<Rightarrow> string \<Rightarrow> string list \<Rightarrow> spec_error option" where
  "text_list_error identifier name vs =
     (if vs = [] then Some (Spec_refused ''specification decision has an empty list'' [identifier, name])
      else optional_text_list_error identifier name [] vs)"

definition same_string_set :: "string list \<Rightarrow> string list \<Rightarrow> bool" where
  "same_string_set left right \<longleftrightarrow> length left = length right \<and> list_all (List.member left) right"

section \<open>One decision\<close>

definition allowed_classifications :: "string list" where
  "allowed_classifications =
     [''ambiguity'', ''contradiction'', ''omission'', ''erratum'', ''implementation-defined behavior'',
      ''optional behavior'', ''interoperability policy'']"

definition allowed_decision_scopes :: "string list" where
  "allowed_decision_scopes =
     [''normative'', ''recommended'', ''defensive'', ''extension-specific'', ''transport-specific'', ''application-policy'']"

definition allowed_requirement_strengths :: "string list" where
  "allowed_requirement_strengths =
     [''MUST'', ''MUST NOT'', ''REQUIRED'', ''SHALL'', ''SHALL NOT'', ''SHOULD'', ''SHOULD NOT'', ''RECOMMENDED'',
      ''NOT RECOMMENDED'', ''MAY'', ''OPTIONAL'', ''not specified'', ''informative'']"

definition allowed_differential_classifications :: "string list" where
  "allowed_differential_classifications =
     [''local defect'', ''peer defect'', ''fixture defect'', ''harness defect'', ''specification ambiguity'',
      ''deliberate policy difference'', ''maintained peer agreement'']"

definition allowed_interoperability_classifications :: "string list" where
  "allowed_interoperability_classifications = [''official fixture agreement'', ''provider agreement'']"

definition decision_texts :: "decision \<Rightarrow> (string \<times> string) list" where
  "decision_texts d =
     [(''title'', de_title d), (''owner'', de_owner d), (''specification'', de_specification d), (''version'', de_version d),
      (''source_authority'', de_source_authority d), (''section'', de_section d), (''requirement_strength'', de_requirement_strength d),
      (''issue'', de_issue d), (''peer_behavior'', de_peer_behavior d), (''selected_behavior'', de_selected_behavior d),
      (''rationale'', de_rationale d), (''security_consequences'', de_security d), (''resource_consequences'', de_resource d),
      (''compatibility_consequences'', de_compatibility d), (''wire_consequences'', de_wire d),
      (''upstream_status'', de_upstream_status d), (''reconsider_when'', de_reconsider_when d)]"

definition mandatory_strength :: "string \<Rightarrow> bool" where
  "mandatory_strength s \<longleftrightarrow> s = ''REQUIRED'' \<or> contains_str s ''MUST'' \<or> contains_str s ''SHALL''"

definition authority_of :: "authority list \<Rightarrow> string \<Rightarrow> authority option" where
  "authority_of authorities identifier = find (\<lambda>a. au_id a = identifier) (rev authorities)"

definition decision_source_error :: "authority list \<Rightarrow> decision \<Rightarrow> spec_error option" where
  "decision_source_error authorities d =
     (case authority_of authorities (de_source_authority d) of
        None \<Rightarrow> Some (Spec_refused ''specification decision references unknown source authority'' [de_id d, de_source_authority d])
      | Some a \<Rightarrow> first_error
          [refuse_when (\<not> source_kind (au_kind a)) ''specification decision references unknown source authority'' [de_id d, de_source_authority d],
           refuse_when (mandatory_strength (de_requirement_strength d) \<and> de_scope d \<noteq> ''normative'' \<or>
               au_kind a = ''recommendation'' \<and> de_scope d = ''normative'')
             ''specification decision has inconsistent authority, scope, and requirement_strength'' [de_id d],
           refuse_when (\<not> List.member (au_specifications a) (de_specification d))
             ''specification decision source authority does not cover'' [de_id d, de_specification d],
           refuse_when (de_version d \<noteq> au_version a) ''specification decision version does not match authority version'' [de_id d]])"

definition owned_paths_error :: "module_policy \<Rightarrow> module_policy list \<Rightarrow> string \<Rightarrow> string \<Rightarrow> string list \<Rightarrow> spec_error option" where
  "owned_paths_error md modules identifier name paths = first_error
     (map (\<lambda>path. refuse_when (\<not> module_owns_path (md_directory md) path modules)
        ''specification decision path is outside its module'' [identifier, name, path]) paths)"

definition read_error :: "spec_kit \<Rightarrow> string \<Rightarrow> string \<Rightarrow> spec_error option" where
  "read_error kit base path = (case read_document kit base path of Inl e \<Rightarrow> Some (Spec_in path e) | Inr _ \<Rightarrow> None)"

definition owned_files_error :: "spec_kit \<Rightarrow> string \<Rightarrow> module_policy \<Rightarrow> module_policy list \<Rightarrow> string \<Rightarrow> string \<Rightarrow> string list \<Rightarrow> spec_error option" where
  "owned_files_error kit base md modules identifier name paths = first_error
     (owned_paths_error md modules identifier name paths # map (read_error kit base) paths)"

definition missing_evidence :: "string list \<Rightarrow> decision \<Rightarrow> string \<Rightarrow> bool" where
  "missing_evidence evidence d name \<longleftrightarrow> \<not> List.member evidence name \<and> de_status d \<noteq> ''superseded''"

definition decision_evidence_error :: "string list \<Rightarrow> decision \<Rightarrow> spec_error option" where
  "decision_evidence_error evidence d = first_error
     ([refuse_when (de_status d = ''resolved'' \<and> de_executable_evidence d = []) ''resolved specification decision has no executable evidence'' [de_id d],
       refuse_when (de_status d = ''resolved'' \<and> \<not> list_ex (\<lambda>v. has_prefix v ''Test'') (de_executable_evidence d))
         ''resolved specification decision has no Go test evidence'' [de_id d]] @
      map (\<lambda>name. refuse_when (missing_evidence evidence d name) ''specification decision references missing executable evidence'' [de_id d, name])
        (de_executable_evidence d) @
      concat (map (\<lambda>name. [refuse_when (\<not> has_prefix name ''Fuzz'') ''fuzz evidence is not a Go fuzz target'' [de_id d, name],
           refuse_when (missing_evidence evidence d name) ''specification decision references missing fuzz evidence'' [de_id d, name]])
        (de_fuzz_evidence d)))"

definition decision_paths_error :: "spec_kit \<Rightarrow> string \<Rightarrow> module_policy \<Rightarrow> module_policy list \<Rightarrow> decision \<Rightarrow> spec_error option" where
  "decision_paths_error kit base md modules d = first_error
     (map (\<lambda>(name, paths). if de_status d = ''superseded'' then owned_paths_error md modules (de_id d) name paths
                           else owned_files_error kit base md modules (de_id d) name paths)
        [(''fixture evidence'', de_fixture_evidence d), (''interoperability evidence'', de_interoperability_evidence d),
         (''differential evidence'', de_differential_evidence d)] @
      [owned_files_error kit base md modules (de_id d) ''documentation'' (de_documentation d)])"

definition validate_decision ::
  "spec_kit \<Rightarrow> string \<Rightarrow> module_policy \<Rightarrow> module_policy list \<Rightarrow> authority list \<Rightarrow> string list \<Rightarrow> decision \<Rightarrow> spec_error option" where
  "validate_decision kit base md modules authorities evidence d = first_error
     ([refuse_when (\<not> valid_decision_id (de_id d)) ''specification decision has invalid identifier'' [de_id d]] @
      map (\<lambda>(name, v). refuse_when (trim_space v = []) ''specification decision has an empty text'' [de_id d, name]) (decision_texts d) @
      [refuse_when (\<not> List.member [''resolved'', ''unresolved'', ''superseded''] (de_status d)) ''specification decision has invalid status'' [de_id d],
       refuse_when (\<not> List.member allowed_classifications (de_classification d)) ''specification decision has invalid classification'' [de_id d],
       refuse_when (\<not> List.member allowed_decision_scopes (de_scope d)) ''specification decision has invalid decision_scope'' [de_id d],
       refuse_when (\<not> List.member allowed_requirement_strengths (de_requirement_strength d)) ''specification decision has invalid requirement_strength'' [de_id d],
       decision_source_error authorities d,
       text_list_error (de_id d) ''interpretations'' (de_interpretations d),
       text_list_error (de_id d) ''public_apis'' (de_public_apis d),
       text_list_error (de_id d) ''documentation'' (de_documentation d),
       optional_text_list_error (de_id d) ''executable_evidence'' [] (de_executable_evidence d),
       optional_text_list_error (de_id d) ''fixture_evidence'' [] (de_fixture_evidence d),
       optional_text_list_error (de_id d) ''fuzz_evidence'' [] (de_fuzz_evidence d),
       optional_text_list_error (de_id d) ''interoperability_evidence'' [] (de_interoperability_evidence d),
       optional_text_list_error (de_id d) ''differential_evidence'' [] (de_differential_evidence d),
       decision_evidence_error evidence d,
       decision_paths_error kit base md modules d])"

section \<open>The row of the conformance manifest\<close>

definition interoperability_class_error :: "conformance_decision \<Rightarrow> spec_error option" where
  "interoperability_class_error row =
     (let class = co_interoperability_classification row; open_class = class = [] \<or> class = ''not assessed''
      in if co_interoperability_evidence row = []
         then refuse_when (\<not> open_class) ''conformance decision without interoperability evidence must be not assessed'' [co_id row]
         else if open_class
         then Some (Spec_refused ''conformance decision with interoperability evidence must have an assessed classification'' [co_id row])
         else refuse_when (\<not> List.member allowed_interoperability_classifications class)
                ''conformance decision has invalid interoperability classification'' [co_id row])"

definition differential_class_error :: "conformance_decision \<Rightarrow> spec_error option" where
  "differential_class_error row =
     (let class = co_differential_classification row
      in if co_differential_evidence row = []
         then refuse_when (class \<noteq> ''not assessed'') ''conformance decision without differential evidence must be not assessed'' [co_id row]
         else if class = ''not assessed''
         then Some (Spec_refused ''conformance decision with differential evidence must have an assessed classification'' [co_id row])
         else refuse_when (\<not> List.member allowed_differential_classifications class)
                ''conformance decision has invalid differential classification'' [co_id row])"

text \<open>A record of the first schema kept its differential evidence in the interoperability field.\<close>

definition expected_evidence :: "decision \<Rightarrow> conformance_decision \<Rightarrow> string list \<times> string list" where
  "expected_evidence d row =
     (if co_interoperability_evidence row = [] \<and> de_differential_evidence d = []
      then ([], de_interoperability_evidence d)
      else (de_interoperability_evidence d, de_differential_evidence d))"

definition conformance_source_error :: "authority list \<Rightarrow> decision \<Rightarrow> string \<Rightarrow> spec_error option" where
  "conformance_source_error authorities d identifier =
     (case authority_of authorities identifier of
        None \<Rightarrow> Some (Spec_refused ''conformance decision references unknown authoritative source'' [de_id d, identifier])
      | Some a \<Rightarrow>
          if \<not> source_kind (au_kind a)
          then Some (Spec_refused ''conformance decision references unknown authoritative source'' [de_id d, identifier])
          else refuse_when (identifier = de_source_authority d \<and> \<not> List.member (au_specifications a) (de_specification d))
                 ''conformance decision primary authoritative source does not cover the specification'' [de_id d, identifier])"

definition validate_conformance :: "authority list \<Rightarrow> string list \<Rightarrow> decision \<Rightarrow> conformance_decision \<Rightarrow> spec_error option" where
  "validate_conformance authorities evidence d row = first_error
     ([text_list_error (de_id d) ''conformance authoritative_sources'' (co_authoritative_sources row),
       text_list_error (de_id d) ''conformance public_behavior'' (co_public_behavior row),
       optional_text_list_error (de_id d) ''conformance executable_evidence'' [] (co_executable_evidence row),
       optional_text_list_error (de_id d) ''conformance fixtures'' [] (co_fixtures row),
       optional_text_list_error (de_id d) ''conformance fuzz'' [] (co_fuzz row),
       optional_text_list_error (de_id d) ''conformance interoperability_evidence'' [] (co_interoperability_evidence row),
       optional_text_list_error (de_id d) ''conformance differential_evidence'' [] (co_differential_evidence row),
       refuse_when (\<not> List.member (co_authoritative_sources row) (de_source_authority d)) ''conformance decision omits source authority'' [de_id d]] @
      map (conformance_source_error authorities d) (co_authoritative_sources row) @
      map (\<lambda>(name, expected, actual). refuse_when (\<not> same_string_set expected actual) ''conformance decision differs from decisions.json'' [de_id d, name])
        [(''executable evidence'', de_executable_evidence d, co_executable_evidence row),
         (''fixtures'', de_fixture_evidence d, co_fixtures row),
         (''fuzz evidence'', de_fuzz_evidence d, co_fuzz row),
         (''interoperability evidence'', fst (expected_evidence d row), co_interoperability_evidence row),
         (''differential evidence'', snd (expected_evidence d row), co_differential_evidence row)] @
      [interoperability_class_error row, differential_class_error row] @
      map (\<lambda>name. refuse_when (missing_evidence evidence d name) ''conformance decision references missing executable evidence'' [de_id d, name])
        (co_executable_evidence row))"

section \<open>Markdown\<close>

definition markdown_values :: "decision \<Rightarrow> string \<Rightarrow> string list" where
  "markdown_values d url =
     [de_status d, de_owner d, de_classification d, de_scope d, de_specification d, de_version d, de_source_authority d, url,
      de_section d, de_requirement_strength d, de_issue d, de_peer_behavior d, de_selected_behavior d, de_rationale d,
      de_security d, de_resource d, de_compatibility d, de_wire d, de_upstream_status d, de_reconsider_when d] @
     de_interpretations d @ de_executable_evidence d @ de_fixture_evidence d @ de_fuzz_evidence d @
     de_interoperability_evidence d @ de_differential_evidence d @ de_public_apis d @ de_documentation d"

definition validate_markdown_decision :: "decision \<Rightarrow> string \<Rightarrow> string \<Rightarrow> spec_error option" where
  "validate_markdown_decision d url body = first_error
     (map (\<lambda>v. refuse_when (\<not> contains_str body v) ''Markdown entry omits exact value'' [de_id d, v]) (markdown_values d url))"

definition additional_source_error :: "spec_kit \<Rightarrow> authority list \<Rightarrow> decision \<Rightarrow> string \<Rightarrow> string \<Rightarrow> spec_error option" where
  "additional_source_error kit authorities d body identifier =
     (if identifier = de_source_authority d then None
      else (case authority_of authorities identifier of
              None \<Rightarrow> Some (Spec_refused ''specification decision references unknown authoritative source'' [de_id d, identifier])
            | Some a \<Rightarrow> refuse_when (\<not> contains_str body (CHR 0x60 # sk_authority_record kit a @ [CHR 0x60]))
                ''Markdown entry omits additional authoritative source'' [de_id d, identifier]))"

section \<open>Change control\<close>

definition control_paths :: "change_control \<Rightarrow> (string \<times> string) list" where
  "control_paths c =
     [(''readme'', cc_readme c), (''conformance'', cc_conformance c), (''compatibility'', cc_compatibility c),
      (''contribution'', cc_contribution c), (''changelog'', cc_changelog c), (''pull_request_template'', cc_pull_request_template c)]"

definition control_link_error :: "spec_kit \<Rightarrow> string \<Rightarrow> string \<Rightarrow> string \<times> string \<Rightarrow> spec_error option" where
  "control_link_error kit base register_path control =
     (case control of (name, path) \<Rightarrow>
        (case read_document kit base path of
           Inl e \<Rightarrow> Some (Spec_in (''read specification change control '' @ name) e)
         | Inr data \<Rightarrow> refuse_when (\<not> document_links_to kit path data register_path)
             ''specification change control does not link the decision register'' [name, path]))"

definition template_error :: "spec_kit \<Rightarrow> string \<Rightarrow> string \<Rightarrow> spec_error option" where
  "template_error kit base path =
     (case read_document kit base path of
        Inl e \<Rightarrow> Some (Spec_in ''read specification pull request template'' e)
      | Inr data \<Rightarrow>
          refuse_when (\<not> list_all (contains_str (sk_lower kit data))
              [''## specification decisions'', ''decision identifier'', ''compatibility'', ''changelog'', ''superseded''])
            ''specification pull request template lacks the required decision review section'' [path])"

definition validate_change_control ::
  "spec_kit \<Rightarrow> string \<Rightarrow> module_policy \<Rightarrow> module_policy list \<Rightarrow> change_control \<Rightarrow> string \<Rightarrow> spec_error option" where
  "validate_change_control kit base md modules c register_path = first_error
     (concat (map (\<lambda>(name, path). [refuse_when (trim_space path = []) ''specification change control has empty path'' [name],
          refuse_when (\<not> repository_path path) ''specification change control path is invalid'' [name, path]]) (control_paths c)) @
      map (\<lambda>(name, path). refuse_when (\<not> module_owns_path (md_directory md) path modules)
          ''specification change control is outside its module'' [name, path])
        [(''readme'', cc_readme c), (''conformance'', cc_conformance c), (''compatibility'', cc_compatibility c), (''changelog'', cc_changelog c)] @
      map (\<lambda>(name, path). refuse_when (\<not> module_owns_or_shares_path (md_directory md) path modules)
          ''specification change control is outside its module and repository-shared paths'' [name, path])
        [(''contribution'', cc_contribution c), (''pull_request_template'', cc_pull_request_template c)] @
      map (control_link_error kit base register_path)
        [(''readme'', cc_readme c), (''conformance'', cc_conformance c), (''compatibility'', cc_compatibility c),
         (''contribution'', cc_contribution c), (''changelog'', cc_changelog c)] @
      [template_error kit base (cc_pull_request_template c)])"

section \<open>Histories\<close>

fun ledger_entries_error :: "string list \<Rightarrow> history_entry list \<Rightarrow> spec_error option" where
  "ledger_entries_error seen [] = None"
| "ledger_entries_error seen (e # es) =
     (if hi_id e = [] \<or> hi_digests e = [] then Some (Spec_refused ''specification decision history has an incomplete entry'' [])
      else if List.member seen (hi_id e) then Some (Spec_refused ''specification decision history repeats an entry'' [hi_id e])
      else if \<not> list_all sha256_value (hi_digests e) then Some (Spec_refused ''specification decision history has an invalid digest'' [hi_id e])
      else ledger_entries_error (hi_id e # seen) es)"

definition ledger_holds :: "spec_kit \<Rightarrow> decision_history \<Rightarrow> decision \<Rightarrow> bool" where
  "ledger_holds kit history d \<longleftrightarrow>
     list_ex (\<lambda>e. hi_id e = de_id d \<and> List.member (hi_digests e) (sk_digest kit d)) (dh_entries history)"

definition validate_decision_ledger :: "spec_kit \<Rightarrow> decision_history \<Rightarrow> decision list \<Rightarrow> spec_error option" where
  "validate_decision_ledger kit history current = first_error
     ([ledger_entries_error [] (dh_entries history)] @
      map (\<lambda>d. refuse_when (\<not> ledger_holds kit history d) ''specification decision history does not contain current decision'' [de_id d]) current @
      map (\<lambda>e. refuse_when (\<not> List.member (map de_id current) (hi_id e))
        ''specification decision history preserves an entry but the current register does not'' [hi_id e]) (dh_entries history))"

definition continues_identifier :: "char \<Rightarrow> bool" where
  "continues_identifier c \<longleftrightarrow> c = CHR ''-'' \<or> upper_char c \<or> lower_char c \<or> is_digit c"

text \<open>A match that an identifier character precedes or follows is a part of a longer word.\<close>

definition partial_match :: "string \<Rightarrow> nat \<times> nat \<Rightarrow> bool" where
  "partial_match text r \<longleftrightarrow>
     (0 < fst r \<and> continues_identifier (text ! (fst r - 1))) \<or> (snd r < length text \<and> continues_identifier (text ! snd r))"

definition changelog_error :: "decision list \<Rightarrow> string \<Rightarrow> spec_error option" where
  "changelog_error decisions text =
     (let matches = changelog_ids text;
          recorded = map (slice text) (filter (\<lambda>r. \<not> partial_match text r) matches);
          unknown = filter (\<lambda>i. \<not> List.member (map de_id decisions) i) (map (slice text) matches)
      in first_error
          (map (\<lambda>d. refuse_when (\<not> List.member recorded (de_id d)) ''specification decision has no changelog record'' [de_id d]) decisions @
           [case unknown of [] \<Rightarrow> None
            | i # _ \<Rightarrow> Some (Spec_refused ''specification changelog preserves a decision but the current register does not'' [i])]))"

definition validate_decision_history :: "spec_kit \<Rightarrow> string \<Rightarrow> string \<Rightarrow> decision list \<Rightarrow> spec_error option" where
  "validate_decision_history kit base path decisions =
     (case read_document kit base path of Inl e \<Rightarrow> Some e | Inr data \<Rightarrow> changelog_error decisions data)"

end
