(* ===== verification/Spec_Address.thy ===== *)
theory Spec_Address
  imports Services_Output "HOL-Library.Word"
begin

unbundle bit_operations_syntax

text \<open>
  internal/specification/check.go: the addresses an authority may resolve to, and the dialer that
  connects only to them. An address is a \<open>netip.Addr\<close>: 32 or 128 bits, the latter with a zone.
  The resolver and the dialer are arguments; they act on a world, so that two lookups of one name
  may differ.
\<close>

section \<open>Addresses and prefixes\<close>

datatype net_addr = Invalid_addr | Addr4 "32 word" | Addr6 "128 word" string

datatype net_prefix = Prefix4 "32 word" nat | Prefix6 "128 word" nat

definition ip4 :: "nat \<Rightarrow> nat \<Rightarrow> nat \<Rightarrow> nat \<Rightarrow> 32 word" where
  "ip4 a b c d = word_of_nat (((a * 256 + b) * 256 + c) * 256 + d)"

text \<open>The groups of an address up to its trailing zeros.\<close>

definition ip6 :: "nat list \<Rightarrow> 128 word" where
  "ip6 groups = word_of_nat (foldl (\<lambda>v g. v * 65536 + g) 0 (take 8 (groups @ [0, 0, 0, 0, 0, 0, 0, 0])))"

text \<open>\<open>Prefix.Contains\<close>: the leading bits agree; an address with a zone is in no prefix.\<close>

fun prefix_contains :: "net_prefix \<Rightarrow> net_addr \<Rightarrow> bool" where
  "prefix_contains (Prefix4 p n) (Addr4 w) \<longleftrightarrow> drop_bit (32 - n) (w XOR p) = 0"
| "prefix_contains (Prefix6 p n) (Addr6 w zone) \<longleftrightarrow> zone = [] \<and> drop_bit (128 - n) (w XOR p) = 0"
| "prefix_contains _ _ \<longleftrightarrow> False"

text \<open>\<open>Addr.Unmap\<close>: an IPv4 address mapped into IPv6 becomes the IPv4 address.\<close>

fun unmap_addr :: "net_addr \<Rightarrow> net_addr" where
  "unmap_addr (Addr6 w zone) = (if drop_bit 32 w = 0xFFFF then Addr4 (ucast w) else Addr6 w zone)"
| "unmap_addr a = a"

text \<open>The classes of \<open>netip\<close>: each of them first unmaps an IPv4 address that is mapped into IPv6.\<close>

definition is_loopback :: "net_addr \<Rightarrow> bool" where
  "is_loopback a = (case unmap_addr a of
     Addr4 w \<Rightarrow> drop_bit 24 w = 127
   | Addr6 w zone \<Rightarrow> w = 1
   | Invalid_addr \<Rightarrow> False)"

definition is_multicast :: "net_addr \<Rightarrow> bool" where
  "is_multicast a = (case unmap_addr a of
     Addr4 w \<Rightarrow> drop_bit 28 w = 0xE
   | Addr6 w zone \<Rightarrow> drop_bit 120 w = 0xFF
   | Invalid_addr \<Rightarrow> False)"

definition is_link_local :: "net_addr \<Rightarrow> bool" where
  "is_link_local a = (case unmap_addr a of
     Addr4 w \<Rightarrow> drop_bit 16 w = 0xA9FE
   | Addr6 w zone \<Rightarrow> drop_bit 118 w = 0x3FA
   | Invalid_addr \<Rightarrow> False)"

definition is_private :: "net_addr \<Rightarrow> bool" where
  "is_private a = (case unmap_addr a of
     Addr4 w \<Rightarrow> drop_bit 24 w = 10 \<or> drop_bit 20 w = 0xAC1 \<or> drop_bit 16 w = 0xC0A8
   | Addr6 w zone \<Rightarrow> drop_bit 121 w = 0x7E
   | Invalid_addr \<Rightarrow> False)"

definition is_global_unicast :: "net_addr \<Rightarrow> bool" where
  "is_global_unicast a = (case unmap_addr a of
     Addr4 w \<Rightarrow>
       w \<noteq> 0 \<and> w \<noteq> 0xFFFFFFFF \<and> \<not> is_loopback (Addr4 w) \<and> \<not> is_multicast (Addr4 w) \<and> \<not> is_link_local (Addr4 w)
   | Addr6 w zone \<Rightarrow>
       \<not> (w = 0 \<and> zone = []) \<and> \<not> is_loopback (Addr6 w zone) \<and> \<not> is_multicast (Addr6 w zone) \<and>
       \<not> is_link_local (Addr6 w zone)
   | Invalid_addr \<Rightarrow> False)"

fun addr_zone :: "net_addr \<Rightarrow> string" where
  "addr_zone (Addr6 w zone) = zone"
| "addr_zone _ = []"

section \<open>Public destinations\<close>

definition public_authority_exceptions :: "net_prefix list" where
  "public_authority_exceptions =
     [Prefix4 (ip4 192 0 0 9) 32, Prefix4 (ip4 192 0 0 10) 32,
      Prefix6 (ip6 [0x2001, 1, 0, 0, 0, 0, 0, 1]) 128, Prefix6 (ip6 [0x2001, 1, 0, 0, 0, 0, 0, 2]) 128,
      Prefix6 (ip6 [0x2001, 1, 0, 0, 0, 0, 0, 3]) 128, Prefix6 (ip6 [0x2001, 3]) 32,
      Prefix6 (ip6 [0x2001, 4, 0x112]) 48, Prefix6 (ip6 [0x2001, 0x20]) 28, Prefix6 (ip6 [0x2001, 0x30]) 28]"

definition non_public_authority_prefixes :: "net_prefix list" where
  "non_public_authority_prefixes =
     [Prefix4 (ip4 0 0 0 0) 8, Prefix4 (ip4 100 64 0 0) 10, Prefix4 (ip4 192 0 0 0) 24, Prefix4 (ip4 192 0 2 0) 24,
      Prefix4 (ip4 192 88 99 0) 24, Prefix4 (ip4 198 18 0 0) 15, Prefix4 (ip4 198 51 100 0) 24,
      Prefix4 (ip4 203 0 113 0) 24, Prefix4 (ip4 240 0 0 0) 4,
      Prefix6 (ip6 [0x64, 0xFF9B, 1]) 48, Prefix6 (ip6 [0x100]) 64, Prefix6 (ip6 [0x100, 0, 0, 1]) 64,
      Prefix6 (ip6 [0x2001]) 23, Prefix6 (ip6 [0x2001, 0xDB8]) 32, Prefix6 (ip6 [0x2002]) 16,
      Prefix6 (ip6 [0x3FFF]) 20, Prefix6 (ip6 [0x5F00]) 16, Prefix6 (ip6 [0xFEC0]) 10]"

definition is_public_authority_address :: "net_addr \<Rightarrow> bool" where
  "is_public_authority_address a =
     (if a = Invalid_addr \<or> \<not> is_global_unicast a \<or> is_private a \<or> is_loopback a \<or> is_link_local a \<or> addr_zone a \<noteq> []
      then False
      else if list_ex (\<lambda>p. prefix_contains p a) public_authority_exceptions then True
      else \<not> list_ex (\<lambda>p. prefix_contains p a) non_public_authority_prefixes)"

datatype online_error =
    Destination_missing | Resolve_failed | No_addresses | Not_public net_addr
  | Split_failed | Dial_failed "string list"
  | Request_failed string | Redirects_exhausted | Redirect_escaped | Body_unread | Body_unclosed
  | Authority_oversized | Restricted_status int | Conditional_status int | Authority_status int | Authority_changed
  | Client_missing | Transport_unsupported

type_synonym 'w resolver = "string \<Rightarrow> 'w \<Rightarrow> net_addr list option \<times> 'w"

text \<open>The loop over the addresses: the first that is not public ends it.\<close>

definition admit_addresses :: "net_addr list \<Rightarrow> online_error + net_addr list" where
  "admit_addresses addresses =
     (case find (\<lambda>a. \<not> is_public_authority_address a) (map unmap_addr addresses) of
        Some a \<Rightarrow> Inl (Not_public a)
      | None \<Rightarrow> Inr (map unmap_addr addresses))"

definition resolve_authority_destination :: "'w resolver option \<Rightarrow> string \<Rightarrow> 'w \<Rightarrow> (online_error + net_addr list) \<times> 'w" where
  "resolve_authority_destination resolver host w =
     (case resolver of
        None \<Rightarrow> (Inl Destination_missing, w)
      | Some lookup \<Rightarrow>
          if host = [] then (Inl Destination_missing, w)
          else (case lookup host w of
                  (None, w) \<Rightarrow> (Inl Resolve_failed, w)
                | (Some addresses, w) \<Rightarrow>
                    (if addresses = [] then Inl No_addresses else admit_addresses addresses, w)))"

section \<open>The dialer\<close>

text \<open>One connection attempt; the addresses attempted are the second component of the result.\<close>

type_synonym ('c, 'w) dialer = "net_addr \<Rightarrow> string \<Rightarrow> 'w \<Rightarrow> (string + 'c) \<times> 'w"

fun dial_addresses :: "('c, 'w) dialer \<Rightarrow> string \<Rightarrow> string list \<Rightarrow> net_addr list \<Rightarrow> 'w \<Rightarrow> (online_error + 'c) \<times> net_addr list \<times> 'w" where
  "dial_addresses dial port failures [] w = (Inl (Dial_failed failures), [], w)"
| "dial_addresses dial port failures (a # rest) w =
     (case dial a port w of
        (Inr connection, w) \<Rightarrow> (Inr connection, [a], w)
      | (Inl e, w) \<Rightarrow>
          (case dial_addresses dial port (failures @ [e]) rest w of
             (x, dialed, w) \<Rightarrow> (x, a # dialed, w)))"

text \<open>\<open>url.URL.Hostname\<close> of a host joined from parts is the host.\<close>

definition dial_resolved_authority ::
  "'w resolver option \<Rightarrow> ('c, 'w) dialer \<Rightarrow> string \<Rightarrow> 'w \<Rightarrow> (online_error + 'c) \<times> net_addr list \<times> 'w" where
  "dial_resolved_authority resolver dial target w =
     (case split_host_port target of
        None \<Rightarrow> (Inl Split_failed, [], w)
      | Some (host, port) \<Rightarrow>
          (case resolve_authority_destination resolver host w of
             (Inl e, w) \<Rightarrow> (Inl e, [], w)
           | (Inr addresses, w) \<Rightarrow> dial_addresses dial port [] addresses w))"

end
