(* ===== verification/Spec_Check.thy ===== *)
theory Spec_Check
  imports Spec_Decisions Spec_Address
begin

text \<open>
  internal/specification/check.go: the contract of a module, the executable evidence of its tests,
  the check of a catalog, and the online check of its authorities.
\<close>

section \<open>The contract\<close>

definition load_decisions :: "spec_kit \<Rightarrow> string \<Rightarrow> spec_error + decision_manifest" where
  "load_decisions kit data =
     (case decode_strict (sk_decisions kit) data of
        Inl e \<Rightarrow> Inl (Spec_in ''decode specification decisions.json'' (Spec_json e))
      | Inr m \<Rightarrow>
          if dm_schema_version m \<noteq> 1 then Inl (Spec_refused ''specification decisions.json schema_version must be 1'' [])
          else if dm_decisions m = [] then Inl (Spec_refused ''specification decisions.json contains no decisions'' [])
          else Inr m)"

definition load_conformance :: "spec_kit \<Rightarrow> string \<Rightarrow> spec_error + conformance_manifest" where
  "load_conformance kit data =
     (case decode_strict (sk_conformance kit) data of
        Inl e \<Rightarrow> Inl (Spec_in ''decode specification conformance.json'' (Spec_json e))
      | Inr m \<Rightarrow>
          if cm_schema_version m \<noteq> 1 then Inl (Spec_refused ''specification conformance.json schema_version must be 1'' [])
          else if cm_decisions m = [] then Inl (Spec_refused ''specification conformance.json contains no decisions'' [])
          else Inr m)"

definition load_history :: "spec_kit \<Rightarrow> string \<Rightarrow> spec_error + decision_history" where
  "load_history kit data =
     (case decode_strict (sk_history kit) data of
        Inl e \<Rightarrow> Inl (Spec_in ''decode specification decision-history.json'' (Spec_json e))
      | Inr h \<Rightarrow>
          if dh_schema_version h \<noteq> 1 then Inl (Spec_refused ''specification decision-history.json schema_version must be 1'' [])
          else Inr h)"

fun matrix_seen :: "string list \<Rightarrow> string list \<Rightarrow> spec_error + string list" where
  "matrix_seen seen [] = Inr seen"
| "matrix_seen seen (i # is) =
     (if List.member seen i then Inl (Spec_refused ''conformance matrix contains duplicate specification decision'' [i])
      else matrix_seen (seen @ [i]) is)"

definition matrix_decisions :: "string \<Rightarrow> spec_error + string list" where
  "matrix_decisions matrix =
     (case matrix_seen [] (decision_ids matrix) of
        Inl e \<Rightarrow> Inl e
      | Inr seen \<Rightarrow>
          if seen = [] then Inl (Spec_refused ''specification conformance matrix contains no decision identifiers'' []) else Inr seen)"

fun register_error :: "string list \<Rightarrow> register_entry list \<Rightarrow> spec_error option" where
  "register_error seen [] = None"
| "register_error seen (e # es) =
     (if List.member seen (re_id e) then Some (Spec_refused ''duplicate specification decision identifier'' [re_id e])
      else register_error (re_id e # seen) es)"

fun conformance_rows_error :: "string list \<Rightarrow> conformance_decision list \<Rightarrow> spec_error option" where
  "conformance_rows_error seen [] = None"
| "conformance_rows_error seen (row # rows) =
     (if \<not> valid_decision_id (co_id row) then Some (Spec_refused ''conformance decision has invalid identifier'' [co_id row])
      else if List.member seen (co_id row) then Some (Spec_refused ''duplicate conformance decision'' [co_id row])
      else conformance_rows_error (co_id row # seen) rows)"

record spec_contract =
  ct_kit :: spec_kit
  ct_root :: string
  ct_module :: module_policy
  ct_modules :: "module_policy list"
  ct_authorities :: "authority list"
  ct_evidence :: "string list"
  ct_register :: "register_entry list"
  ct_matrix :: "string list"
  ct_rows :: "conformance_decision list"

definition register_at :: "register_entry list \<Rightarrow> string \<Rightarrow> register_entry option" where
  "register_at register identifier = find (\<lambda>e. re_id e = identifier) register"

definition row_at :: "conformance_decision list \<Rightarrow> string \<Rightarrow> conformance_decision option" where
  "row_at rows identifier = find (\<lambda>row. co_id row = identifier) rows"

definition source_url :: "authority list \<Rightarrow> string \<Rightarrow> string" where
  "source_url authorities identifier =
     (case authority_of authorities identifier of None \<Rightarrow> [] | Some a \<Rightarrow> au_url a)"

text \<open>One decision behind its own validation: register, Markdown, matrix and conformance row.\<close>

definition decision_entry_error :: "spec_contract \<Rightarrow> string list \<Rightarrow> decision \<Rightarrow> spec_error option" where
  "decision_entry_error c seen d =
     (if List.member seen (de_id d) then Some (Spec_refused ''duplicate specification decision'' [de_id d])
      else (case register_at (ct_register c) (de_id d) of
              None \<Rightarrow> Some (Spec_refused ''specification decision is missing from the Markdown register'' [de_id d])
            | Some entry \<Rightarrow>
                if re_title entry \<noteq> de_title d then Some (Spec_refused ''specification decision title differs between JSON and Markdown'' [de_id d])
                else (case validate_markdown_decision d (source_url (ct_authorities c) (de_source_authority d)) (re_body entry) of
                        Some e \<Rightarrow> Some e
                      | None \<Rightarrow>
                          if \<not> List.member (ct_matrix c) (de_id d)
                          then Some (Spec_refused ''specification decision is missing from the conformance matrix'' [de_id d])
                          else (case row_at (ct_rows c) (de_id d) of
                                  None \<Rightarrow> Some (Spec_refused ''specification decision is missing from conformance.json'' [de_id d])
                                | Some row \<Rightarrow> first_error
                                    (map (additional_source_error (ct_kit c) (ct_authorities c) d (re_body entry)) (co_authoritative_sources row) @
                                     [validate_conformance (ct_authorities c) (ct_evidence c) d row])))))"

fun decisions_error :: "spec_contract \<Rightarrow> string list \<Rightarrow> decision list \<Rightarrow> spec_error option" where
  "decisions_error c seen [] = None"
| "decisions_error c seen (d # ds) =
     (case validate_decision (ct_kit c) (ct_root c) (ct_module c) (ct_modules c) (ct_authorities c) (ct_evidence c) d of
        Some e \<Rightarrow> Some e
      | None \<Rightarrow>
          (case decision_entry_error c seen d of
             Some e \<Rightarrow> Some e
           | None \<Rightarrow> decisions_error c (de_id d # seen) ds))"

definition register_body :: "spec_contract \<Rightarrow> string \<Rightarrow> string" where
  "register_body c identifier = (case register_at (ct_register c) identifier of None \<Rightarrow> [] | Some e \<Rightarrow> re_body e)"

definition superseded_error :: "spec_contract \<Rightarrow> decision list \<Rightarrow> decision \<Rightarrow> spec_error option" where
  "superseded_error c ds d =
     (if de_status d \<noteq> ''superseded'' then None
      else if de_replacement d = [] \<or> de_replacement d = de_id d
      then Some (Spec_refused ''superseded specification decision has no replacement'' [de_id d])
      else (case find (\<lambda>r. de_id r = de_replacement d) ds of
              None \<Rightarrow> Some (Spec_refused ''superseded specification decision references unknown replacement'' [de_id d, de_replacement d])
            | Some r \<Rightarrow>
                refuse_when (\<not> document_links_to_decision (ct_kit c) (register_body c (de_id d)) (de_replacement d) (de_title r))
                  ''superseded specification decision has no Markdown replacement link'' [de_id d, de_replacement d]))"

definition unknown_error :: "string \<Rightarrow> decision list \<Rightarrow> string \<Rightarrow> spec_error option" where
  "unknown_error message ds identifier = refuse_when (\<not> List.member (map de_id ds) identifier) message [identifier]"

definition contract_error :: "spec_contract \<Rightarrow> decision_manifest \<Rightarrow> spec_error option" where
  "contract_error c m = first_error
     ([register_error [] (ct_register c),
       validate_change_control (ct_kit c) (ct_root c) (ct_module c) (ct_modules c) (dm_change_control m)
         (module_path (md_directory (ct_module c)) ''docs/specification-decisions.md''),
       conformance_rows_error [] (ct_rows c),
       decisions_error c [] (dm_decisions m)] @
      map (superseded_error c (dm_decisions m)) (dm_decisions m) @
      map (\<lambda>e. unknown_error ''markdown register contains unknown specification decision'' (dm_decisions m) (re_id e)) (ct_register c) @
      map (unknown_error ''conformance matrix references unknown specification decision'' (dm_decisions m)) (ct_matrix c) @
      map (\<lambda>row. unknown_error ''conformance.json references unknown specification decision'' (dm_decisions m) (co_id row)) (ct_rows c) @
      [validate_decision_history (ct_kit c) (ct_root c) (cc_changelog (dm_change_control m)) (dm_decisions m)])"

definition contract_report :: "decision list \<Rightarrow> spec_report" where
  "contract_report ds =
     \<lparr>sr_modules = 1, sr_decisions = length ds, sr_unresolved = length (filter (\<lambda>d. de_status d = ''unresolved'') ds)\<rparr>"

definition validate_decision_contract :: "spec_contract \<Rightarrow> decision_manifest \<Rightarrow> spec_error + spec_report \<times> string list" where
  "validate_decision_contract c m =
     (case contract_error c m of
        Some e \<Rightarrow> Inl e
      | None \<Rightarrow> Inr (contract_report (dm_decisions m), map de_id (dm_decisions m)))"

section \<open>Executable evidence\<close>

definition executable_name :: "spec_kit \<Rightarrow> string \<Rightarrow> string \<Rightarrow> bool" where
  "executable_name kit name prefix_text \<longleftrightarrow>
     has_prefix name prefix_text \<and>
     (case runes (drop (length prefix_text) name) of [] \<Rightarrow> True | (r, b) # _ \<Rightarrow> \<not> sk_is_lower kit r)"

definition expected_parameter :: "spec_kit \<Rightarrow> string \<Rightarrow> string option" where
  "expected_parameter kit name =
     (if executable_name kit name ''Test'' then Some ''T''
      else if executable_name kit name ''Fuzz'' then Some ''F''
      else if executable_name kit name ''Benchmark'' then Some ''B''
      else None)"

definition testing_names :: "go_file \<Rightarrow> string option list" where
  "testing_names f = map snd (filter (\<lambda>(path, name). path = Some ''testing'') (gi_imports f))"

definition dot_import :: "go_file \<Rightarrow> bool" where
  "dot_import f \<longleftrightarrow> List.member (testing_names f) (Some ''.'')"

definition testing_alias :: "go_file \<Rightarrow> string \<Rightarrow> bool" where
  "testing_alias f name \<longleftrightarrow>
     list_ex (\<lambda>n. case n of None \<Rightarrow> name = ''testing'' | Some local_name \<Rightarrow>
        local_name \<noteq> ''.'' \<and> local_name \<noteq> ''_'' \<and> name = local_name) (testing_names f)"

definition is_executable_evidence :: "spec_kit \<Rightarrow> go_file \<Rightarrow> go_function \<Rightarrow> bool" where
  "is_executable_evidence kit f g =
     (if gf_receiver g \<or> gf_type_parameters g \<or> gf_results g then False
      else (case gf_parameters g of
              [(names, t)] \<Rightarrow>
                if 1 < names then False
                else (case expected_parameter kit (gf_name g) of
                        None \<Rightarrow> False
                      | Some expected \<Rightarrow>
                          (case t of
                             Go_star (Go_ident name) \<Rightarrow> dot_import f \<and> name = expected
                           | Go_star (Go_selector (Go_ident package) name) \<Rightarrow> name = expected \<and> testing_alias f package
                           | _ \<Rightarrow> False))
            | _ \<Rightarrow> False))"

definition file_evidence :: "spec_kit \<Rightarrow> go_file \<Rightarrow> string list" where
  "file_evidence kit f = map gf_name (filter (is_executable_evidence kit f) (gi_functions f))"

definition skipped_directory :: "string list \<Rightarrow> string \<Rightarrow> string \<Rightarrow> bool" where
  "skipped_directory excluded path name \<longleftrightarrow>
     List.member excluded path \<or> name = ''vendor'' \<or> name = ''testdata'' \<or> has_prefix name ''.'' \<or> has_prefix name ''_''"

definition evidence_file :: "spec_kit \<Rightarrow> string \<Rightarrow> string list \<Rightarrow> string \<Rightarrow> string \<Rightarrow> nat \<times> string list \<Rightarrow> spec_error + nat \<times> string list" where
  "evidence_file kit base tags directory name st =
     (let path = path_join [directory, name]
      in if \<not> has_suffix name ''_test.go'' then Inr st
         else (case sk_match_file kit tags directory name of
                 None \<Rightarrow> Inl (Spec_refused ''match executable specification evidence'' [path])
               | Some False \<Rightarrow> Inr st
               | Some True \<Rightarrow>
                   (case map_sum Spec_file id (read_repository_file (sk_lstat kit) (sk_open kit) base
                           (trim_prefix path (path_clean base @ ''/'')) maximum_evidence_size) of
                      Inl e \<Rightarrow> Inl e
                    | Inr data \<Rightarrow>
                        if maximum_evidence_size < int (fst st + length data)
                        then Inl (Spec_refused ''executable specification evidence exceeds maximum size'' [])
                        else (case sk_parse_go kit data of
                                None \<Rightarrow> Inl (Spec_refused ''parse executable specification evidence'' [path])
                              | Some f \<Rightarrow> Inr (fst st + length data, snd st @ file_evidence kit f)))))"

text \<open>\<open>filepath.WalkDir\<close> below a directory: its entries in their order; a directory that cannot be read
  is an error. The root of a module is a directory.\<close>

fun walk_evidence :: "spec_kit \<Rightarrow> string \<Rightarrow> string list \<Rightarrow> string list \<Rightarrow> string \<Rightarrow> evidence_tree \<Rightarrow> nat \<times> string list \<Rightarrow> spec_error + nat \<times> string list"
  and walk_entries :: "spec_kit \<Rightarrow> string \<Rightarrow> string list \<Rightarrow> string list \<Rightarrow> string \<Rightarrow> (string \<times> evidence_tree) list \<Rightarrow> nat \<times> string list \<Rightarrow> spec_error + nat \<times> string list" where
  "walk_evidence kit base excluded tags path Tree_file st = Inr st"
| "walk_evidence kit base excluded tags path Tree_link st = Inl (Spec_refused ''symlink is not allowed'' [path])"
| "walk_evidence kit base excluded tags path (Tree_dir None) st = Inl (Spec_refused ''inspect executable evidence'' [path])"
| "walk_evidence kit base excluded tags path (Tree_dir (Some entries)) st = walk_entries kit base excluded tags path entries st"
| "walk_entries kit base excluded tags path [] st = Inr st"
| "walk_entries kit base excluded tags path ((name, t) # entries) st =
     (case (case t of
              Tree_file \<Rightarrow> evidence_file kit base tags path name st
            | Tree_link \<Rightarrow> Inl (Spec_refused ''symlink is not allowed'' [path_join [path, name]])
            | Tree_dir _ \<Rightarrow>
                if skipped_directory excluded (path_join [path, name]) name then Inr st
                else walk_evidence kit base excluded tags (path_join [path, name]) t st) of
        Inl e \<Rightarrow> Inl e
      | Inr st \<Rightarrow> walk_entries kit base excluded tags path entries st)"

definition excluded_modules :: "string \<Rightarrow> string \<Rightarrow> module_policy list \<Rightarrow> string list" where
  "excluded_modules base directory modules =
     filter (\<lambda>candidate. has_prefix (candidate @ ''/'') (path_join [base, path_clean directory] @ ''/''))
       (map (\<lambda>md. path_join [base, path_clean (md_directory md)])
         (filter (\<lambda>md. \<not> root_module (md_directory md) \<and> md_directory md \<noteq> directory) modules))"

text \<open>The test tags of the module: of the last entry of its directory.\<close>

definition evidence_tags :: "string \<Rightarrow> module_policy list \<Rightarrow> string list" where
  "evidence_tags directory modules =
     (case find (\<lambda>md. md_directory md = directory) (rev modules) of None \<Rightarrow> [] | Some md \<Rightarrow> md_test_tags md)"

definition test_evidence :: "spec_kit \<Rightarrow> string \<Rightarrow> string \<Rightarrow> module_policy list \<Rightarrow> spec_error + string list" where
  "test_evidence kit base directory modules =
     (let module_root = path_join [base, path_clean directory]
      in spec_in ''collect executable specification evidence''
          (case sk_tree kit module_root of
             None \<Rightarrow> Inl (Spec_refused ''inspect executable evidence'' [module_root])
           | Some t \<Rightarrow>
               if List.member (excluded_modules base directory modules) module_root then Inr []
               else map_sum id snd
                 (walk_evidence kit base (excluded_modules base directory modules) (evidence_tags directory modules) module_root t (0, []))))"

section \<open>The check of a module and of the catalog\<close>

definition check_specification_module ::
  "spec_kit \<Rightarrow> string \<Rightarrow> int \<Rightarrow> module_policy list \<Rightarrow> module_policy \<Rightarrow> spec_error + spec_report \<times> monitoring \<times> string list" where
  "check_specification_module kit base today modules md =
     (let doc = module_path (md_directory md)
      in and_then (load_monitoring kit base (doc ''specification/monitoring.json'') (md_specifications md) today) (\<lambda>policy.
         and_then (spec_in ''read specification decision register'' (read_document kit base (doc ''docs/specification-decisions.md''))) (\<lambda>register.
         and_then (spec_in ''read specification conformance matrix'' (read_document kit base (doc ''specification/README.md''))) (\<lambda>matrix.
         and_then (test_evidence kit base (md_directory md) modules) (\<lambda>evidence.
         and_then (spec_in ''read specification decisions.json'' (read_document kit base (doc ''specification/decisions.json''))) (\<lambda>decision_data.
         and_then (spec_in ''read specification conformance.json'' (read_document kit base (doc ''specification/conformance.json''))) (\<lambda>conformance_data.
         and_then (load_decisions kit decision_data) (\<lambda>decisions.
         and_then (load_conformance kit conformance_data) (\<lambda>conformance.
         and_then (spec_in ''read specification decision-history.json'' (read_document kit base (doc ''specification/decision-history.json''))) (\<lambda>history_data.
         and_then (load_history kit history_data) (\<lambda>history.
         and_then (matrix_decisions matrix) (\<lambda>matrix_ids.
           if register_of register = [] then Inl (Spec_refused ''specification decision register contains no stable decision entries'' [])
           else and_then (validate_decision_contract
                  \<lparr>ct_kit = kit, ct_root = base, ct_module = md, ct_modules = modules, ct_authorities = mo_authorities policy,
                   ct_evidence = evidence, ct_register = register_of register, ct_matrix = matrix_ids, ct_rows = cm_decisions conformance\<rparr>
                  decisions) (\<lambda>(report, identifiers).
                (case validate_decision_ledger kit history (dm_decisions decisions) of
                   Some e \<Rightarrow> Inl e
                 | None \<Rightarrow> Inr (report, policy, identifiers)))))))))))))))"

definition has_specification_artifacts :: "spec_kit \<Rightarrow> string \<Rightarrow> string \<Rightarrow> spec_error + bool" where
  "has_specification_artifacts kit base directory =
     (case sk_lstat kit (path_join [base, module_path directory ''specification'']) of
        Inl e \<Rightarrow> Inl (Spec_refused ''specification discovery'' [directory])
      | Inr None \<Rightarrow> Inr False
      | Inr (Some _) \<Rightarrow> Inr True)"

record catalog_state =
  cs_report :: spec_report
  cs_policies :: "monitoring list"
  cs_owners :: "(string \<times> string) list"

definition shared_error :: "(string \<times> string) list \<Rightarrow> string \<Rightarrow> string list \<Rightarrow> spec_error option" where
  "shared_error owners directory identifiers = first_error
     (map (\<lambda>i. case map_of owners i of None \<Rightarrow> None
         | Some owner \<Rightarrow> Some (Spec_refused ''specification decision identifier is shared by modules'' [i, owner, directory])) identifiers)"

definition undeclared_error :: "spec_kit \<Rightarrow> string \<Rightarrow> module_policy \<Rightarrow> spec_error option" where
  "undeclared_error kit base md =
     (let provenance = trim_space (md_provenance md)
      in if provenance \<noteq> [] \<and> provenance \<noteq> ''null'' \<and> provenance \<noteq> ''[]''
         then Some (Spec_refused ''module has specification provenance but does not declare specifications'' [md_directory md])
         else (case has_specification_artifacts kit base (md_directory md) of
                 Inl e \<Rightarrow> Some (Spec_in (md_directory md) e)
               | Inr artifacts \<Rightarrow> refuse_when artifacts
                   ''module has specification artifacts but does not declare specifications'' [md_directory md]))"

definition add_reports :: "spec_report \<Rightarrow> spec_report \<Rightarrow> spec_report" where
  "add_reports r s = \<lparr>sr_modules = sr_modules r + sr_modules s, sr_decisions = sr_decisions r + sr_decisions s,
     sr_unresolved = sr_unresolved r + sr_unresolved s\<rparr>"

definition check_catalog_module ::
  "spec_kit \<Rightarrow> string \<Rightarrow> int \<Rightarrow> module_policy list \<Rightarrow> module_policy \<Rightarrow> catalog_state \<Rightarrow> spec_error + catalog_state" where
  "check_catalog_module kit base today modules md st =
     (if md_specifications md = []
      then (case undeclared_error kit base md of Some e \<Rightarrow> Inl e | None \<Rightarrow> Inr st)
      else (case validate_provenance kit base md modules of
              Some e \<Rightarrow> Inl (Spec_in (md_directory md) e)
            | None \<Rightarrow>
                and_then (spec_in (md_directory md) (check_specification_module kit base today modules md)) (\<lambda>(report, policy, identifiers).
                  case shared_error (cs_owners st) (md_directory md) identifiers of
                    Some e \<Rightarrow> Inl e
                  | None \<Rightarrow> Inr \<lparr>cs_report = add_reports (cs_report st) report, cs_policies = cs_policies st @ [policy],
                       cs_owners = cs_owners st @ map (\<lambda>i. (i, md_directory md)) identifiers\<rparr>)))"

fun check_spec_catalog :: "spec_kit \<Rightarrow> string \<Rightarrow> int \<Rightarrow> module_policy list \<Rightarrow> module_policy list \<Rightarrow> catalog_state \<Rightarrow> spec_error + catalog_state" where
  "check_spec_catalog kit base today modules [] st = Inr st"
| "check_spec_catalog kit base today modules (md # mds) st =
     and_then (check_catalog_module kit base today modules md st) (check_spec_catalog kit base today modules mds)"

definition empty_catalog_state :: catalog_state where
  "empty_catalog_state = \<lparr>cs_report = \<lparr>sr_modules = 0, sr_decisions = 0, sr_unresolved = 0\<rparr>, cs_policies = [], cs_owners = []\<rparr>"

definition unresolved_error :: "spec_report \<Rightarrow> spec_error option" where
  "unresolved_error report = refuse_when (0 < sr_unresolved report) ''specification decisions require review'' []"

definition check_specifications :: "spec_kit \<Rightarrow> string \<Rightarrow> int \<Rightarrow> inventory \<Rightarrow> spec_error + spec_report" where
  "check_specifications kit base today catalog =
     and_then (check_spec_catalog kit base today (inv_modules catalog) (inv_modules catalog) empty_catalog_state) (\<lambda>st.
       case unresolved_error (cs_report st) of Some e \<Rightarrow> Inl e | None \<Rightarrow> Inr (cs_report st))"

text \<open>
  internal/specification/check.go: the online check. Every monitored authority is fetched under its
  pinned host, through the dialer that admits public addresses only, and compared with its digest.
  The HTTP client is an argument: it answers one request of one URL, with a redirect, an answer, or
  an error. The second component of a result is the list of the URLs requested.
\<close>

definition maximum_authority_size :: nat where "maximum_authority_size = 16777216"

record http_answer =
  ha_status :: int
  ha_body :: string
  ha_read_failed :: bool
  ha_close_failed :: bool

datatype http_step = Http_failed | Http_redirect authority_url | Http_answer http_answer

type_synonym 'w http_client = "authority_url \<Rightarrow> 'w \<Rightarrow> http_step \<times> 'w"

definition pinned_redirect :: "spec_kit \<Rightarrow> authority_url \<Rightarrow> authority_url \<Rightarrow> bool" where
  "pinned_redirect kit first candidate \<longleftrightarrow>
     ul_scheme candidate = ''https'' \<and> sk_equal_fold kit (ul_host candidate) (ul_host first)"

text \<open>The requests of \<open>Client.Do\<close>: \<open>remaining\<close> redirects may still be followed.\<close>

fun follow_redirects ::
  "spec_kit \<Rightarrow> 'w resolver option \<Rightarrow> 'w http_client \<Rightarrow> authority_url \<Rightarrow> nat \<Rightarrow> authority_url \<Rightarrow> 'w
    \<Rightarrow> (online_error + http_answer) \<times> authority_url list \<times> 'w" where
  "follow_redirects kit resolver client first remaining url w =
     (case client url w of
        (Http_failed, w) \<Rightarrow> (Inl (Request_failed (ul_host url)), [url], w)
      | (Http_answer a, w) \<Rightarrow> (Inr a, [url], w)
      | (Http_redirect candidate, w) \<Rightarrow>
          (case remaining of
             0 \<Rightarrow> (Inl Redirects_exhausted, [url], w)
           | Suc remaining \<Rightarrow>
               if \<not> pinned_redirect kit first candidate then (Inl Redirect_escaped, [url], w)
               else (case resolve_authority_destination resolver (ul_hostname candidate) w of
                       (Inl e, w) \<Rightarrow> (Inl e, [url], w)
                     | (Inr _, w) \<Rightarrow>
                         (case follow_redirects kit resolver client first remaining candidate w of
                            (x, urls, w) \<Rightarrow> (x, url # urls, w)))))"

declare follow_redirects.simps [simp del]

definition authority_answer_error :: "(string \<Rightarrow> string) \<Rightarrow> authority \<Rightarrow> http_answer \<Rightarrow> online_error option" where
  "authority_answer_error sha a answer =
     (if ha_read_failed answer then Some Body_unread
      else if ha_close_failed answer then Some Body_unclosed
      else if maximum_authority_size < length (ha_body answer) then Some Authority_oversized
      else if au_access a = ''restricted''
      then (if ha_status answer \<noteq> au_expected_status a then Some (Restricted_status (ha_status answer)) else None)
      else if au_access a = ''conditional'' \<and> ha_status answer = au_expected_status a then None
      else if ha_status answer < 200 \<or> 300 \<le> ha_status answer
      then Some (if au_access a = ''conditional'' then Conditional_status (ha_status answer) else Authority_status (ha_status answer))
      else if sha (ha_body answer) \<noteq> au_sha256 a then Some Authority_changed
      else None)"

definition fetch_authority ::
  "spec_kit \<Rightarrow> (string \<Rightarrow> string) \<Rightarrow> 'w resolver option \<Rightarrow> 'w http_client \<Rightarrow> authority \<Rightarrow> 'w \<Rightarrow> online_error option \<times> authority_url list \<times> 'w" where
  "fetch_authority kit sha resolver client a w =
     (case sk_url kit (au_url a) of
        None \<Rightarrow> (Some (Request_failed (au_url a)), [], w)
      | Some url \<Rightarrow>
          (case resolve_authority_destination resolver (ul_hostname url) w of
             (Inl e, w) \<Rightarrow> (Some e, [], w)
           | (Inr _, w) \<Rightarrow>
               (case follow_redirects kit resolver client url 9 url w of
                  (Inl e, urls, w) \<Rightarrow> (Some e, urls, w)
                | (Inr answer, urls, w) \<Rightarrow> (authority_answer_error sha a answer, urls, w))))"

fun fetch_authorities ::
  "spec_kit \<Rightarrow> (string \<Rightarrow> string) \<Rightarrow> 'w resolver option \<Rightarrow> 'w http_client \<Rightarrow> authority list \<Rightarrow> 'w \<Rightarrow> online_error option \<times> authority_url list \<times> 'w" where
  "fetch_authorities kit sha resolver client [] w = (None, [], w)"
| "fetch_authorities kit sha resolver client (a # rest) w =
     (case fetch_authority kit sha resolver client a w of
        (Some e, urls, w) \<Rightarrow> (Some e, urls, w)
      | (None, urls, w) \<Rightarrow>
          (case fetch_authorities kit sha resolver client rest w of
             (e, further, w) \<Rightarrow> (e, urls @ further, w)))"

text \<open>The transport of a client: none, the one of net/http with its dialer, or another.\<close>

datatype ('c, 'w) transport = No_transport | Http_transport "('c, 'w) dialer option" | Other_transport

definition secure_dialer ::
  "('c, 'w) transport \<Rightarrow> ('c, 'w) dialer \<Rightarrow> 'w resolver option \<Rightarrow> online_error + (string \<Rightarrow> 'w \<Rightarrow> (online_error + 'c) \<times> net_addr list \<times> 'w)" where
  "secure_dialer t default_dialer resolver =
     (case t of
        No_transport \<Rightarrow> Inr (dial_resolved_authority resolver default_dialer)
      | Http_transport None \<Rightarrow> Inr (dial_resolved_authority resolver default_dialer)
      | Http_transport (Some dial) \<Rightarrow> Inr (dial_resolved_authority resolver dial)
      | Other_transport \<Rightarrow> Inl Transport_unsupported)"

datatype check_online_error = Offline spec_error | Online online_error

text \<open>\<open>client\<close> is what the secured transport answers; \<open>None\<close> stands for no client or no transport that
  can be secured.\<close>

definition check_online ::
  "spec_kit \<Rightarrow> (string \<Rightarrow> string) \<Rightarrow> string \<Rightarrow> int \<Rightarrow> inventory \<Rightarrow> 'w resolver option \<Rightarrow> 'w http_client option \<Rightarrow> 'w
    \<Rightarrow> (check_online_error + spec_report) \<times> authority_url list \<times> 'w" where
  "check_online kit sha base today catalog resolver client w =
     (case check_spec_catalog kit base today (inv_modules catalog) (inv_modules catalog) empty_catalog_state of
        Inl e \<Rightarrow> (Inl (Offline e), [], w)
      | Inr st \<Rightarrow>
          if sr_modules (cs_report st) = 0 then (Inr (cs_report st), [], w)
          else (case unresolved_error (cs_report st) of
                  Some e \<Rightarrow> (Inl (Offline e), [], w)
                | None \<Rightarrow>
                    (case client of
                       None \<Rightarrow> (Inl (Online Client_missing), [], w)
                     | Some client \<Rightarrow>
                         (case fetch_authorities kit sha resolver client (concat (map mo_authorities (cs_policies st))) w of
                            (Some e, urls, w) \<Rightarrow> (Inl (Online e), urls, w)
                          | (None, urls, w) \<Rightarrow> (Inr (cs_report st), urls, w)))))"

end
