(* ===== verification/Spec_Facts.thy ===== *)
theory Spec_Facts
  imports Spec_Check
begin

text \<open>
  What an accepted contract of decisions shows: the four documents hold the same decisions, each
  once, and the decisions of a checked catalog are distinct.
\<close>

lemma refuse_when_None [simp]: "refuse_when b message subjects = None \<longleftrightarrow> \<not> b"
  by (simp add: refuse_when_def)

lemma spec_in_Inr: "spec_in message x = Inr y \<longleftrightarrow> x = Inr y"
  by (cases x) (auto simp: spec_in_def)

lemma first_error_concat: "first_error (concat (map f xs)) = None \<longleftrightarrow> (\<forall>x \<in> set xs. first_error (f x) = None)"
  by (induction xs) auto

section \<open>The documents\<close>

lemma register_distinct:
  "register_error seen entries = None \<longleftrightarrow> distinct (map re_id entries) \<and> set (map re_id entries) \<inter> set seen = {}"
  by (induction entries arbitrary: seen) auto

lemma rows_distinct:
  "conformance_rows_error seen rows = None \<Longrightarrow>
     distinct (map co_id rows) \<and> set (map co_id rows) \<inter> set seen = {} \<and> list_all (\<lambda>row. valid_decision_id (co_id row)) rows"
proof (induction rows arbitrary: seen)
  case (Cons a rows)
  have step: "valid_decision_id (co_id a)" "co_id a \<notin> set seen" "conformance_rows_error (co_id a # seen) rows = None"
    using Cons.prems by (auto split: if_splits)
  show ?case using Cons.IH [OF step(3)] step(1,2) by auto
qed simp

definition agrees :: "spec_contract \<Rightarrow> decision \<Rightarrow> bool" where
  "agrees c d \<longleftrightarrow>
     validate_decision (ct_kit c) (ct_root c) (ct_module c) (ct_modules c) (ct_authorities c) (ct_evidence c) d = None \<and>
     (\<exists>entry row. register_at (ct_register c) (de_id d) = Some entry \<and> re_title entry = de_title d \<and>
        validate_markdown_decision d (source_url (ct_authorities c) (de_source_authority d)) (re_body entry) = None \<and>
        List.member (ct_matrix c) (de_id d) \<and> row_at (ct_rows c) (de_id d) = Some row \<and>
        validate_conformance (ct_authorities c) (ct_evidence c) d row = None)"

lemma entry_agrees:
  assumes "validate_decision (ct_kit c) (ct_root c) (ct_module c) (ct_modules c) (ct_authorities c) (ct_evidence c) d = None"
    and "decision_entry_error c seen d = None"
  shows "de_id d \<notin> set seen \<and> agrees c d"
  using assms by (auto simp: decision_entry_error_def agrees_def split: if_splits option.splits)

lemma decisions_agree:
  "decisions_error c seen ds = None \<Longrightarrow>
     distinct (map de_id ds) \<and> set (map de_id ds) \<inter> set seen = {} \<and> list_all (agrees c) ds"
proof (induction ds arbitrary: seen)
  case (Cons d ds)
  then show ?case
    using entry_agrees [of c d seen] Cons.IH [of "de_id d # seen"] by (auto split: option.splits)
qed simp

lemma find_member: "find P xs = Some x \<Longrightarrow> x \<in> set xs \<and> P x"
  by (metis find_Some_iff nth_mem)

lemma agrees_listed:
  assumes "agrees c d"
  shows "de_id d \<in> set (map re_id (ct_register c))" and "de_id d \<in> set (ct_matrix c)" and "de_id d \<in> set (map co_id (ct_rows c))"
proof -
  obtain entry row where found: "register_at (ct_register c) (de_id d) = Some entry" "List.member (ct_matrix c) (de_id d)"
      "row_at (ct_rows c) (de_id d) = Some row"
    using assms by (auto simp: agrees_def)
  show "de_id d \<in> set (map re_id (ct_register c))" and "de_id d \<in> set (map co_id (ct_rows c))"
    using find_member [OF found(1) [unfolded register_at_def]] find_member [OF found(3) [unfolded row_at_def]]
    by (metis image_eqI image_set)+
  show "de_id d \<in> set (ct_matrix c)" using found(2) by simp
qed

text \<open>The evidence of an accepted decision that is resolved.\<close>

definition evident :: "string list \<Rightarrow> decision \<Rightarrow> bool" where
  "evident evidence d \<longleftrightarrow>
     (if de_status d = ''resolved''
      then list_ex (\<lambda>v. has_prefix v ''Test'' \<and> List.member evidence v) (de_executable_evidence d) \<and>
           list_all (List.member evidence) (de_executable_evidence d @ de_fuzz_evidence d)
      else True)"

lemma accepted_evident:
  assumes "agrees c d"
  shows "evident (ct_evidence c) d"
proof -
  have "decision_evidence_error (ct_evidence c) d = None"
    using assms by (simp add: agrees_def validate_decision_def)
  then show ?thesis
    by (auto simp: decision_evidence_error_def evident_def missing_evidence_def list_all_iff list_ex_iff first_error_concat)
qed

section \<open>The contract\<close>

lemma contract_accepted:
  assumes "contract_error c m = None"
  shows "distinct (map de_id (dm_decisions m))" and "distinct (map re_id (ct_register c))" and "distinct (map co_id (ct_rows c))"
    and "set (map re_id (ct_register c)) = set (map de_id (dm_decisions m))"
    and "set (ct_matrix c) = set (map de_id (dm_decisions m))"
    and "set (map co_id (ct_rows c)) = set (map de_id (dm_decisions m))"
    and "list_all (evident (ct_evidence c)) (dm_decisions m)"
proof -
  let ?ds = "dm_decisions m"
  have register: "register_error [] (ct_register c) = None" and rows: "conformance_rows_error [] (ct_rows c) = None"
    and decisions: "decisions_error c [] ?ds = None"
    and unknown: "set (map re_id (ct_register c)) \<subseteq> set (map de_id ?ds)" "set (ct_matrix c) \<subseteq> set (map de_id ?ds)"
      "set (map co_id (ct_rows c)) \<subseteq> set (map de_id ?ds)"
    using assms by (auto simp: contract_error_def unknown_error_def)
  show "distinct (map de_id ?ds)" using decisions_agree [OF decisions] by simp
  show "distinct (map re_id (ct_register c))" using register_distinct [of "[]" "ct_register c"] register by simp
  show "distinct (map co_id (ct_rows c))" using rows_distinct [OF rows] by simp
  have agree: "agrees c d" if "d \<in> set ?ds" for d
    using decisions_agree [OF decisions] that by (simp add: list_all_iff)
  have listed: "set (map de_id ?ds) \<subseteq> set (map re_id (ct_register c))" "set (map de_id ?ds) \<subseteq> set (ct_matrix c)"
      "set (map de_id ?ds) \<subseteq> set (map co_id (ct_rows c))"
    using agrees_listed [OF agree] by auto
  show "set (map re_id (ct_register c)) = set (map de_id ?ds)" "set (ct_matrix c) = set (map de_id ?ds)"
      "set (map co_id (ct_rows c)) = set (map de_id ?ds)"
    using unknown listed by (simp_all only: subset_antisym)
  show "list_all (evident (ct_evidence c)) ?ds" using accepted_evident [OF agree] by (simp add: list_all_iff)
qed

text \<open>C11: when a contract is accepted, the Markdown register, the conformance matrix, conformance.json and
  decisions.json hold the same decisions, none of them twice in the register, the manifest or the
  conformance rows; the report counts them and the unresolved ones; and every resolved decision
  names an existing Go test, and no evidence that does not exist.\<close>

theorem accepted_contract_agrees:
  "case validate_decision_contract c m of
     Inl e \<Rightarrow> True
   | Inr (report, ids) \<Rightarrow>
       distinct ids \<and> distinct (map re_id (ct_register c)) \<and> distinct (map co_id (ct_rows c)) \<and>
       set (map re_id (ct_register c)) = set ids \<and> set (ct_matrix c) = set ids \<and> set (map co_id (ct_rows c)) = set ids \<and>
       sr_decisions report = length ids \<and> ids = map de_id (dm_decisions m) \<and>
       sr_unresolved report = length (filter (\<lambda>d. de_status d = ''unresolved'') (dm_decisions m)) \<and>
       list_all (evident (ct_evidence c)) (dm_decisions m)"
proof (cases "contract_error c m")
  case (Some e)
  then show ?thesis by (simp add: validate_decision_contract_def)
next
  case None
  show ?thesis
    using contract_accepted [OF None] None by (simp add: validate_decision_contract_def contract_report_def)
qed

section \<open>The catalog\<close>

lemma module_report:
  assumes "check_specification_module kit base today modules md = Inr (report, policy, ids)"
  shows "distinct ids \<and> sr_decisions report = length ids \<and> sr_modules report = 1"
proof -
  from assms obtain c m where accepted: "validate_decision_contract c m = Inr (report, ids)"
    by (auto simp: check_specification_module_def Let_def split: if_splits option.splits)
  then have "contract_error c m = None" by (auto simp: validate_decision_contract_def split: option.splits)
  from contract_accepted(1) [OF this] accepted this show ?thesis
    by (auto simp: validate_decision_contract_def contract_report_def)
qed

text \<open>The owners of a catalog: no identifier twice, as many as the report counts, and for every
  declared module one policy.\<close>

definition owners_ok :: "catalog_state \<Rightarrow> bool" where
  "owners_ok st \<longleftrightarrow> distinct (map fst (cs_owners st)) \<and> sr_decisions (cs_report st) = length (cs_owners st) \<and>
     sr_modules (cs_report st) = length (cs_policies st)"

lemma shared_none:
  "shared_error owners directory ids = None \<longleftrightarrow> set ids \<inter> fst ` set owners = {}"
  by (auto simp: shared_error_def map_of_eq_None_iff split: option.splits)

lemma checked_module:
  assumes "check_catalog_module kit base today modules md st = Inr st'" and "owners_ok st"
  shows "owners_ok st' \<and> length (cs_policies st') = length (cs_policies st) + (if md_specifications md = [] then 0 else 1)"
proof (cases "md_specifications md = []")
  case True
  then show ?thesis using assms by (auto simp: check_catalog_module_def split: option.splits)
next
  case False
  then obtain report policy ids where checked: "check_specification_module kit base today modules md = Inr (report, policy, ids)"
      and fresh: "shared_error (cs_owners st) (md_directory md) ids = None"
      and st': "st' = \<lparr>cs_report = add_reports (cs_report st) report, cs_policies = cs_policies st @ [policy],
                       cs_owners = cs_owners st @ map (\<lambda>i. (i, md_directory md)) ids\<rparr>"
    using assms(1) by (auto simp: check_catalog_module_def spec_in_Inr split: option.splits)
  have keys: "map fst (map (\<lambda>i. (i, md_directory md)) ids) = ids" by (simp add: comp_def)
  show ?thesis
    using assms(2) module_report [OF checked] fresh False
    by (auto simp: owners_ok_def st' add_reports_def shared_none keys distinct_map inj_on_def)
qed

lemma catalog_owners:
  assumes "check_spec_catalog kit base today modules mds st = Inr st'" and "owners_ok st"
  shows "owners_ok st' \<and> length (cs_policies st') = length (cs_policies st) + length (filter (\<lambda>md. md_specifications md \<noteq> []) mds)"
  using assms
proof (induction mds arbitrary: st)
  case (Cons md mds)
  then obtain mid where mid: "check_catalog_module kit base today modules md st = Inr mid"
      "check_spec_catalog kit base today modules mds mid = Inr st'"
    by auto
  show ?case using checked_module [OF mid(1) Cons.prems(2)] Cons.IH [OF mid(2)] by auto
qed simp

text \<open>the specifications of a repository are accepted exactly when the catalog is checked without an error
  and no decision of it is unresolved; a checked catalog has a contract for every module that
  declares specifications, no decision identifier of two modules, and as many decisions as its
  report counts.\<close>

theorem accepted_catalog_resolved:
  "case check_spec_catalog kit base today (inv_modules catalog) (inv_modules catalog) empty_catalog_state of
     Inl e \<Rightarrow> check_specifications kit base today catalog = Inl e
   | Inr st \<Rightarrow>
       distinct (map fst (cs_owners st)) \<and> sr_decisions (cs_report st) = length (cs_owners st) \<and>
       sr_modules (cs_report st) = length (filter (\<lambda>md. md_specifications md \<noteq> []) (inv_modules catalog)) \<and>
       (case check_specifications kit base today catalog of
          Inl e \<Rightarrow> 0 < sr_unresolved (cs_report st)
        | Inr report \<Rightarrow> report = cs_report st \<and> sr_unresolved report = 0)"
proof (cases "check_spec_catalog kit base today (inv_modules catalog) (inv_modules catalog) empty_catalog_state")
  case (Inl e)
  then show ?thesis by (simp add: check_specifications_def)
next
  case (Inr st)
  have "owners_ok st \<and> length (cs_policies st) = length (filter (\<lambda>md. md_specifications md \<noteq> []) (inv_modules catalog))"
    using catalog_owners [OF Inr] by (simp add: owners_ok_def empty_catalog_state_def)
  then show ?thesis
    by (simp add: Inr owners_ok_def check_specifications_def unresolved_error_def refuse_when_def)
qed

end
