(* ===== verification/Spec_Address_Facts.thy ===== *)
theory Spec_Address_Facts
  imports Spec_Check
begin

unbundle bit_operations_syntax

text \<open>
  Which addresses an authority may have, as ranges of numbers, and where the online check connects:
  to public addresses only, within the pinned host, in a bounded number of requests.
\<close>

section \<open>Prefixes as ranges\<close>

definition within_range :: "nat \<Rightarrow> nat \<times> nat \<Rightarrow> bool" where
  "within_range n r \<longleftrightarrow> fst r \<le> n \<and> n < snd r"

lemma drop_bit_range:
  fixes w :: "'a::len word"
  shows "drop_bit k w = q \<longleftrightarrow> within_range (unat w) (unat q * 2 ^ k, (unat q + 1) * 2 ^ k)"
proof -
  have "drop_bit k w = q \<longleftrightarrow> unat w div 2 ^ k = unat q"
    by (metis drop_bit_eq_div unat_drop_bit_eq word_unat_eq_iff)
  also have "\<dots> \<longleftrightarrow> unat q * 2 ^ k \<le> unat w \<and> unat w < (unat q + 1) * 2 ^ k"
    by (metis div_nat_eqI div_times_less_eq_dividend dividend_less_div_times mult.commute add.commute mult_Suc_right plus_1_eq_Suc zero_less_numeral zero_less_power)
  finally show ?thesis by (simp add: within_range_def)
qed

lemma xor_zero_iff: "x XOR y = 0 \<longleftrightarrow> x = (y :: 'a::len word)"
  by (metis xor.assoc xor.right_neutral xor_self_eq xor.left_neutral)

lemma drop_bit_xor_range:
  fixes w p :: "'a::len word"
  shows "drop_bit k (w XOR p) = 0 \<longleftrightarrow> within_range (unat w) (unat p div 2 ^ k * 2 ^ k, (unat p div 2 ^ k + 1) * 2 ^ k)"
proof -
  have "drop_bit k (w XOR p) = 0 \<longleftrightarrow> drop_bit k w = drop_bit k p"
    by (simp add: drop_bit_xor xor_zero_iff)
  also have "\<dots> \<longleftrightarrow> within_range (unat w) (unat (drop_bit k p) * 2 ^ k, (unat (drop_bit k p) + 1) * 2 ^ k)"
    by (rule drop_bit_range)
  also have "unat (drop_bit k p) = unat p div 2 ^ k"
    by (simp only: unat_drop_bit_eq) (rule drop_bit_eq_div)
  finally show ?thesis .
qed

section \<open>Public addresses\<close>

text \<open>The number of an IPv4 address, and the ranges of addresses that are not public: the first address
  and the one behind the last.\<close>

definition number4 :: "nat \<Rightarrow> nat \<Rightarrow> nat \<Rightarrow> nat \<Rightarrow> nat" where
  "number4 a b c d = ((a * 256 + b) * 256 + c) * 256 + d"

definition reserved4 :: "(nat \<times> nat) list" where
  "reserved4 =
     [(0, number4 1 0 0 0), (number4 10 0 0 0, number4 11 0 0 0), (number4 100 64 0 0, number4 100 128 0 0),
      (number4 127 0 0 0, number4 128 0 0 0), (number4 169 254 0 0, number4 169 255 0 0),
      (number4 172 16 0 0, number4 172 32 0 0), (number4 192 0 0 0, number4 192 0 0 9),
      (number4 192 0 0 11, number4 192 0 1 0), (number4 192 0 2 0, number4 192 0 3 0),
      (number4 192 88 99 0, number4 192 88 100 0), (number4 192 168 0 0, number4 192 169 0 0),
      (number4 198 18 0 0, number4 198 20 0 0), (number4 198 51 100 0, number4 198 51 101 0),
      (number4 203 0 113 0, number4 203 0 114 0), (number4 224 0 0 0, number4 256 0 0 0)]"

lemma unat_ip4: "unat (ip4 a b c d) = number4 a b c d mod 2 ^ 32"
  unfolding ip4_def number4_def unat_of_nat by (simp only: len_num0 len_num1 len_bit0 len_bit1) simp

lemma word_range: "w = q \<longleftrightarrow> within_range (unat w) (unat q, unat q + 1)"
  for w q :: "'a::len word"
  by (auto simp: within_range_def word_unat_eq_iff)

lemma special4:
  "w = (0 :: 32 word) \<longleftrightarrow> within_range (unat w) (0, 1)"
  "w = (0xFFFFFFFF :: 32 word) \<longleftrightarrow> within_range (unat w) (4294967295, 4294967296)"
  by (subst word_range, simp)+

lemma prefix4_range:
  "prefix_contains (Prefix4 (ip4 a b c d) n) (Addr4 w) \<longleftrightarrow>
     within_range (unat w) (number4 a b c d mod 2 ^ 32 div 2 ^ (32 - n) * 2 ^ (32 - n),
       (number4 a b c d mod 2 ^ 32 div 2 ^ (32 - n) + 1) * 2 ^ (32 - n))"
  by (simp only: prefix_contains.simps drop_bit_xor_range unat_ip4)

lemma prefix_families [simp]:
  "prefix_contains (Prefix6 p n) (Addr4 w) \<longleftrightarrow> False" "prefix_contains (Prefix4 q n) (Addr6 v zone) \<longleftrightarrow> False"
  by simp_all

declare prefix_contains.simps [simp del]

lemma ranges4:
  "within_range n (0, 1) \<Longrightarrow> within_range n (0, 16777216)"
  "within_range n (4294967295, 4294967296) \<Longrightarrow> within_range n (4026531840, 4294967296)"
  "within_range n (3758096384, 4294967296) \<longleftrightarrow> within_range n (3758096384, 4026531840) \<or> within_range n (4026531840, 4294967296)"
  "within_range n (3221225472, 3221225728) \<longleftrightarrow> within_range n (3221225472, 3221225481) \<or>
     within_range n (3221225481, 3221225482) \<or> within_range n (3221225482, 3221225483) \<or> within_range n (3221225483, 3221225728)"
  by (auto simp: within_range_def)

lemma classes4:
  "is_loopback (Addr4 w) \<longleftrightarrow> within_range (unat w) (2130706432, 2147483648)"
  "is_multicast (Addr4 w) \<longleftrightarrow> within_range (unat w) (3758096384, 4026531840)"
  "is_link_local (Addr4 w) \<longleftrightarrow> within_range (unat w) (2851995648, 2852061184)"
  "is_private (Addr4 w) \<longleftrightarrow> within_range (unat w) (167772160, 184549376) \<or> within_range (unat w) (2886729728, 2887778304) \<or>
     within_range (unat w) (3232235520, 3232301056)"
  by (simp_all add: drop_bit_range is_loopback_def is_multicast_def is_link_local_def is_private_def)

lemma global4:
  "is_global_unicast (Addr4 w) \<longleftrightarrow> \<not> list_ex (within_range (unat w))
     [(0, 1), (4294967295, 4294967296), (2130706432, 2147483648), (3758096384, 4026531840), (2851995648, 2852061184)]"
  by (simp add: is_global_unicast_def classes4 special4 del: One_nat_def)

lemma exceptions4:
  "list_ex (\<lambda>p. prefix_contains p (Addr4 w)) public_authority_exceptions \<longleftrightarrow>
     within_range (unat w) (3221225481, 3221225482) \<or> within_range (unat w) (3221225482, 3221225483)"
  by (simp add: public_authority_exceptions_def prefix4_range number4_def)

lemma prefixes4:
  "list_ex (\<lambda>p. prefix_contains p (Addr4 w)) non_public_authority_prefixes \<longleftrightarrow>
     list_ex (within_range (unat w))
       [(0, 16777216), (1681915904, 1686110208), (3221225472, 3221225728), (3221225984, 3221226240), (3227017984, 3227018240),
        (3323068416, 3323199488), (3325256704, 3325256960), (3405803776, 3405804032), (4026531840, 4294967296)]"
  by (simp add: non_public_authority_prefixes_def prefix4_range number4_def)

lemma reserved4_numbers:
  "reserved4 =
     [(0, 16777216), (167772160, 184549376), (1681915904, 1686110208), (2130706432, 2147483648), (2851995648, 2852061184),
      (2886729728, 2887778304), (3221225472, 3221225481), (3221225483, 3221225728), (3221225984, 3221226240),
      (3227017984, 3227018240), (3232235520, 3232301056), (3323068416, 3323199488), (3325256704, 3325256960),
      (3405803776, 3405804032), (3758096384, 4294967296)]"
  by (simp add: reserved4_def number4_def)

lemma public4_ranges:
  "is_public_authority_address (Addr4 w) \<longleftrightarrow> \<not> list_ex (within_range (unat w)) reserved4"
proof (cases "list_ex (\<lambda>p. prefix_contains p (Addr4 w)) public_authority_exceptions")
  case True
  then have "unat w = 3221225481 \<or> unat w = 3221225482"
    by (auto simp: exceptions4 within_range_def)
  then have "\<not> list_ex (within_range (unat w)) reserved4" "is_global_unicast (Addr4 w)"
    "\<not> is_private (Addr4 w)" "\<not> is_loopback (Addr4 w)" "\<not> is_link_local (Addr4 w)"
    by (auto simp: reserved4_numbers classes4 global4 within_range_def)
  with True show ?thesis by (simp add: is_public_authority_address_def)
next
  case False
  then show ?thesis
    using ranges4 [of "unat w"]
    by (simp add: is_public_authority_address_def exceptions4 prefixes4 reserved4_numbers classes4 global4
        del: One_nat_def)
qed

text \<open>The same for IPv6: the ranges that are not public, and those among them that are.\<close>

definition number6 :: "nat list \<Rightarrow> nat" where
  "number6 groups = foldl (\<lambda>v g. v * 65536 + g) 0 (take 8 (groups @ [0, 0, 0, 0, 0, 0, 0, 0]))"

definition reserved6 :: "(nat \<times> nat) list" where
  "reserved6 =
     [(0, 2), (number6 [0x64, 0xFF9B, 1], number6 [0x64, 0xFF9B, 2]), (number6 [0x100], number6 [0x100, 0, 0, 2]),
      (number6 [0x2001], number6 [0x2001, 0x200]), (number6 [0x2001, 0xDB8], number6 [0x2001, 0xDB9]),
      (number6 [0x2002], number6 [0x2003]), (number6 [0x3FFF], number6 [0x3FFF, 0x1000]),
      (number6 [0x5F00], number6 [0x5F01]), (number6 [0xFC00], number6 [0xFE00]), (number6 [0xFE80], 2 ^ 128)]"

definition assigned6 :: "(nat \<times> nat) list" where
  "assigned6 =
     [(number6 [0x2001, 1, 0, 0, 0, 0, 0, 1], number6 [0x2001, 1, 0, 0, 0, 0, 0, 4]), (number6 [0x2001, 3], number6 [0x2001, 4]),
      (number6 [0x2001, 4, 0x112], number6 [0x2001, 4, 0x113]), (number6 [0x2001, 0x20], number6 [0x2001, 0x40])]"

lemma unat_ip6: "unat (ip6 groups) = number6 groups mod 2 ^ 128"
  unfolding ip6_def number6_def unat_of_nat by (simp only: len_num0 len_num1 len_bit0 len_bit1) simp

lemma prefix6_range:
  "prefix_contains (Prefix6 (ip6 groups) n) (Addr6 w zone) \<longleftrightarrow> zone = [] \<and>
     within_range (unat w) (number6 groups mod 2 ^ 128 div 2 ^ (128 - n) * 2 ^ (128 - n),
       (number6 groups mod 2 ^ 128 div 2 ^ (128 - n) + 1) * 2 ^ (128 - n))"
  by (simp only: prefix_contains.simps drop_bit_xor_range unat_ip6)

text \<open>The IPv6 addresses that are IPv4 addresses.\<close>

definition mapped4 :: "nat \<times> nat" where
  "mapped4 = (number6 [0, 0, 0, 0, 0, 0xFFFF], number6 [0, 0, 0, 0, 0, 0xFFFF, 0xFFFF, 0xFFFF] + 1)"

lemma mapped_range: "drop_bit 32 w = (0xFFFF :: 128 word) \<longleftrightarrow> within_range (unat w) mapped4"
  by (simp add: drop_bit_range mapped4_def number6_def)

lemma mapped_number:
  assumes "drop_bit 32 w = (0xFFFF :: 128 word)"
  shows "unat (ucast w :: 32 word) = unat w - number6 [0, 0, 0, 0, 0, 0xFFFF]"
proof -
  have "unat w div 2 ^ 32 = 0xFFFF"
    using arg_cong [OF assms, of unat] by (simp add: unat_drop_bit_eq) (simp add: drop_bit_eq_div)
  then have "unat w = 0xFFFF * 2 ^ 32 + unat w mod 2 ^ 32"
    by (metis div_mult_mod_eq)
  then show ?thesis by (simp add: unsigned_ucast_eq take_bit_eq_mod number6_def)
qed

lemma classes6:
  assumes "drop_bit 32 w \<noteq> 0xFFFF"
  shows
  "is_loopback (Addr6 w zone) \<longleftrightarrow> within_range (unat w) (1, 2)"
  "is_multicast (Addr6 w zone) \<longleftrightarrow> within_range (unat w) (338953138925153547590470800371487866880, 340282366920938463463374607431768211456)"
  "is_link_local (Addr6 w zone) \<longleftrightarrow> within_range (unat w) (338288524927261089654018896841347694592, 338620831926207318622244848606417780736)"
  "is_private (Addr6 w zone) \<longleftrightarrow> within_range (unat w) (334965454937798799971759379190646833152, 337623910929368631717566993311207522304)"
  unfolding is_multicast_def is_link_local_def is_private_def is_loopback_def
  by (simp_all add: assms) (simp_all add: drop_bit_range, subst word_range, simp add: numeral_2_eq_2)

lemma unspecified6: "w = (0 :: 128 word) \<longleftrightarrow> within_range (unat w) (0, 1)"
  by (subst word_range, simp)

lemma global6:
  assumes "drop_bit 32 w \<noteq> 0xFFFF"
  shows "is_global_unicast (Addr6 w zone) \<longleftrightarrow> \<not> (within_range (unat w) (0, 1) \<and> zone = []) \<and>
    \<not> is_loopback (Addr6 w zone) \<and> \<not> is_multicast (Addr6 w zone) \<and> \<not> is_link_local (Addr6 w zone)"
  unfolding is_global_unicast_def unspecified6 [symmetric] using assms by simp

lemma exceptions6:
  "list_ex (\<lambda>p. prefix_contains p (Addr6 w zone)) public_authority_exceptions \<longleftrightarrow>
     zone = [] \<and> list_ex (within_range (unat w)) [(42540488241204005274814694018844196865, 42540488241204005274814694018844196866), (42540488241204005274814694018844196866, 42540488241204005274814694018844196867), (42540488241204005274814694018844196867, 42540488241204005274814694018844196868), (42540488399660330303343369205932097536, 42540488478888492817607706799476047872), (42540488479219738492182115193345540096, 42540488479220947418001729822520246272), (42540490697277043217009159418706657280, 42540491964927643445238560915409862656), (42540491964927643445238560915409862656, 42540493232578243673467962412113068032)]"
  by (cases "zone = []") (simp_all add: public_authority_exceptions_def prefix6_range number6_def)

lemma prefixes6:
  "list_ex (\<lambda>p. prefix_contains p (Addr6 w zone)) non_public_authority_prefixes \<longleftrightarrow>
     zone = [] \<and> list_ex (within_range (unat w)) [(524413980668812575603097810486951936, 524413980670021501422712439661658112), (1329227995784915872903807060280344576, 1329227995784915891350551133989896192), (1329227995784915891350551133989896192, 1329227995784915909797295207699447808), (42540488161975842760550356425300246528, 42540528726795050063891204319802818560), (42540766411282592856903984951653826560, 42540766490510755371168322545197776896), (42545680458834377588178886921629466624, 42550872755692912415807417417958686720), (85065399433376081038215121361612832768, 85065723951929739464941904517633409024), (126276659599567007925861670726632734720, 126281851896425542753490201222961954816), (338620831926207318622244848606417780736, 338953138925153547590470800371487866880)]"
  by (cases "zone = []") (simp_all add: non_public_authority_prefixes_def prefix6_range number6_def)

lemma numbers6:
  "reserved6 = [(0, 2), (524413980668812575603097810486951936, 524413980670021501422712439661658112), (1329227995784915872903807060280344576, 1329227995784915909797295207699447808), (42540488161975842760550356425300246528, 42540528726795050063891204319802818560), (42540766411282592856903984951653826560, 42540766490510755371168322545197776896), (42545680458834377588178886921629466624, 42550872755692912415807417417958686720), (85065399433376081038215121361612832768, 85065723951929739464941904517633409024), (126276659599567007925861670726632734720, 126281851896425542753490201222961954816), (334965454937798799971759379190646833152, 337623910929368631717566993311207522304), (338288524927261089654018896841347694592, 340282366920938463463374607431768211456)]"
  "assigned6 = [(42540488241204005274814694018844196865, 42540488241204005274814694018844196868), (42540488399660330303343369205932097536, 42540488478888492817607706799476047872), (42540488479219738492182115193345540096, 42540488479220947418001729822520246272), (42540490697277043217009159418706657280, 42540493232578243673467962412113068032)]"
  by (simp_all add: reserved6_def assigned6_def number6_def)

lemma range_join: "a \<le> b \<Longrightarrow> b \<le> c \<Longrightarrow> within_range n (a, c) \<longleftrightarrow> within_range n (a, b) \<or> within_range n (b, c)"
  by (auto simp: within_range_def)

lemma public6_ranges:
  assumes "drop_bit 32 w \<noteq> 0xFFFF"
  shows "is_public_authority_address (Addr6 w zone) \<longleftrightarrow>
     zone = [] \<and> (list_ex (within_range (unat w)) assigned6 \<or> \<not> list_ex (within_range (unat w)) reserved6)"
proof -
  let ?n = "unat w"
  have assigned: "list_ex (within_range ?n) assigned6 \<longleftrightarrow> list_ex (within_range ?n) [(42540488241204005274814694018844196865, 42540488241204005274814694018844196866), (42540488241204005274814694018844196866, 42540488241204005274814694018844196867), (42540488241204005274814694018844196867, 42540488241204005274814694018844196868), (42540488399660330303343369205932097536, 42540488478888492817607706799476047872), (42540488479219738492182115193345540096, 42540488479220947418001729822520246272), (42540490697277043217009159418706657280, 42540491964927643445238560915409862656), (42540491964927643445238560915409862656, 42540493232578243673467962412113068032)]"
    using range_join [of 42540488241204005274814694018844196865 42540488241204005274814694018844196866 42540488241204005274814694018844196868 ?n]
      range_join [of 42540488241204005274814694018844196866 42540488241204005274814694018844196867 42540488241204005274814694018844196868 ?n]
      range_join [of 42540490697277043217009159418706657280 42540491964927643445238560915409862656 42540493232578243673467962412113068032 ?n]
    by (auto simp: numbers6)
  have reserved: "list_ex (within_range ?n) reserved6 \<longleftrightarrow>
      list_ex (within_range ?n) ([(0, 1), (1, 2), (338953138925153547590470800371487866880, 340282366920938463463374607431768211456), (338288524927261089654018896841347694592, 338620831926207318622244848606417780736), (334965454937798799971759379190646833152, 337623910929368631717566993311207522304)] @ [(524413980668812575603097810486951936, 524413980670021501422712439661658112), (1329227995784915872903807060280344576, 1329227995784915891350551133989896192), (1329227995784915891350551133989896192, 1329227995784915909797295207699447808), (42540488161975842760550356425300246528, 42540528726795050063891204319802818560), (42540766411282592856903984951653826560, 42540766490510755371168322545197776896), (42545680458834377588178886921629466624, 42550872755692912415807417417958686720), (85065399433376081038215121361612832768, 85065723951929739464941904517633409024), (126276659599567007925861670726632734720, 126281851896425542753490201222961954816), (338620831926207318622244848606417780736, 338953138925153547590470800371487866880)])"
    using range_join [of 0 1 2 ?n]
      range_join [of 1329227995784915872903807060280344576 1329227995784915891350551133989896192 1329227995784915909797295207699447808 ?n]
      range_join [of 338288524927261089654018896841347694592 338620831926207318622244848606417780736 340282366920938463463374607431768211456 ?n]
      range_join [of 338620831926207318622244848606417780736 338953138925153547590470800371487866880 340282366920938463463374607431768211456 ?n]
    by (auto simp: numbers6 simp del: One_nat_def)
  have apart: "list_ex (within_range ?n) [(42540488241204005274814694018844196865, 42540488241204005274814694018844196866), (42540488241204005274814694018844196866, 42540488241204005274814694018844196867), (42540488241204005274814694018844196867, 42540488241204005274814694018844196868), (42540488399660330303343369205932097536, 42540488478888492817607706799476047872), (42540488479219738492182115193345540096, 42540488479220947418001729822520246272), (42540490697277043217009159418706657280, 42540491964927643445238560915409862656), (42540491964927643445238560915409862656, 42540493232578243673467962412113068032)] \<Longrightarrow> \<not> list_ex (within_range ?n) [(0, 1), (1, 2), (338953138925153547590470800371487866880, 340282366920938463463374607431768211456), (338288524927261089654018896841347694592, 338620831926207318622244848606417780736), (334965454937798799971759379190646833152, 337623910929368631717566993311207522304)]"
    by (auto simp: within_range_def)
  have "is_public_authority_address (Addr6 w zone) \<longleftrightarrow>
      \<not> list_ex (within_range ?n) [(0, 1), (1, 2), (338953138925153547590470800371487866880, 340282366920938463463374607431768211456), (338288524927261089654018896841347694592, 338620831926207318622244848606417780736), (334965454937798799971759379190646833152, 337623910929368631717566993311207522304)] \<and> zone = [] \<and>
      (list_ex (within_range ?n) [(42540488241204005274814694018844196865, 42540488241204005274814694018844196866), (42540488241204005274814694018844196866, 42540488241204005274814694018844196867), (42540488241204005274814694018844196867, 42540488241204005274814694018844196868), (42540488399660330303343369205932097536, 42540488478888492817607706799476047872), (42540488479219738492182115193345540096, 42540488479220947418001729822520246272), (42540490697277043217009159418706657280, 42540491964927643445238560915409862656), (42540491964927643445238560915409862656, 42540493232578243673467962412113068032)] \<or> \<not> list_ex (within_range ?n) [(524413980668812575603097810486951936, 524413980670021501422712439661658112), (1329227995784915872903807060280344576, 1329227995784915891350551133989896192), (1329227995784915891350551133989896192, 1329227995784915909797295207699447808), (42540488161975842760550356425300246528, 42540528726795050063891204319802818560), (42540766411282592856903984951653826560, 42540766490510755371168322545197776896), (42545680458834377588178886921629466624, 42550872755692912415807417417958686720), (85065399433376081038215121361612832768, 85065723951929739464941904517633409024), (126276659599567007925861670726632734720, 126281851896425542753490201222961954816), (338620831926207318622244848606417780736, 338953138925153547590470800371487866880)])"
    unfolding is_public_authority_address_def exceptions6 prefixes6 global6 [OF assms] classes6 [OF assms] addr_zone.simps
    by auto
  then show ?thesis
    using apart unfolding assigned reserved list_ex_append by blast
qed

text \<open>A mapped address is of the classes of its IPv4 address and in no prefix of either family.\<close>

definition special_classes4 :: "(nat \<times> nat) list" where
  "special_classes4 =
     [(0, 1), (number4 10 0 0 0, number4 11 0 0 0), (number4 127 0 0 0, number4 128 0 0 0),
      (number4 169 254 0 0, number4 169 255 0 0), (number4 172 16 0 0, number4 172 32 0 0),
      (number4 192 168 0 0, number4 192 169 0 0), (number4 224 0 0 0, number4 240 0 0 0),
      (number4 255 255 255 255, number4 256 0 0 0)]"

lemma special_classes4_numbers:
  "special_classes4 = [(0, 1), (167772160, 184549376), (2130706432, 2147483648), (2851995648, 2852061184),
     (2886729728, 2887778304), (3232235520, 3232301056), (3758096384, 4026531840), (4294967295, 4294967296)]"
  by (simp add: special_classes4_def number4_def)

lemma mapped_classes:
  assumes "drop_bit 32 w = (0xFFFF :: 128 word)"
  shows "is_loopback (Addr6 w zone) = is_loopback (Addr4 (ucast w))" "is_private (Addr6 w zone) = is_private (Addr4 (ucast w))"
    "is_link_local (Addr6 w zone) = is_link_local (Addr4 (ucast w))"
    "is_global_unicast (Addr6 w zone) = is_global_unicast (Addr4 (ucast w))"
  using assms by (simp_all add: is_loopback_def is_private_def is_link_local_def is_global_unicast_def)

lemma public_mapped:
  assumes "drop_bit 32 w = (0xFFFF :: 128 word)"
  shows "is_public_authority_address (Addr6 w zone) \<longleftrightarrow>
    zone = [] \<and> \<not> list_ex (within_range (unat w - number6 [0, 0, 0, 0, 0, 0xFFFF])) special_classes4"
proof -
  have number: "unat (ucast w :: 32 word) = unat w - number6 [0, 0, 0, 0, 0, 0xFFFF]"
    using assms by (rule mapped_number)
  have "within_range (unat w) (281470681743360, 281474976710656)"
    using assms by (simp add: drop_bit_range)
  then have none: "\<not> list_ex (\<lambda>p. prefix_contains p (Addr6 w zone)) public_authority_exceptions"
    "\<not> list_ex (\<lambda>p. prefix_contains p (Addr6 w zone)) non_public_authority_prefixes"
    unfolding exceptions6 prefixes6 by (auto simp: within_range_def)
  show ?thesis
    unfolding is_public_authority_address_def mapped_classes [OF assms] global4 classes4 number special_classes4_numbers
    using none by auto
qed

text \<open>C18: an authority may resolve to an IPv4 address exactly when its number is in none of the reserved
  ranges, and to an IPv6 address exactly when it has no zone and its number is in a globally
  assigned range or in no reserved one. An IPv4 address mapped into IPv6 is judged by the classes
  of its IPv4 number alone: it is refused when that is unspecified, private, loopback, link-local,
  multicast or the broadcast address. (The resolver's answers are unmapped before they are judged,
  so that the ranges of IPv4 apply to them.) An invalid address is never admitted.\<close>

theorem public_addresses_exact:
  "is_public_authority_address a \<longleftrightarrow>
     (case a of
        Invalid_addr \<Rightarrow> False
      | Addr4 w \<Rightarrow> \<not> list_ex (within_range (unat w)) reserved4
      | Addr6 w zone \<Rightarrow> zone = [] \<and>
          (if within_range (unat w) mapped4
           then \<not> list_ex (within_range (unat w - fst mapped4)) special_classes4
           else \<not> (list_ex (within_range (unat w)) reserved6 \<and> \<not> list_ex (within_range (unat w)) assigned6)))"
proof (cases a)
  case Invalid_addr
  then show ?thesis by (simp add: is_public_authority_address_def)
next
  case (Addr4 w)
  then show ?thesis by (simp add: public4_ranges)
next
  case (Addr6 w zone)
  then show ?thesis
    using public_mapped [of w zone] public6_ranges [of w zone] mapped_range [of w] by (auto simp: mapped4_def)
qed

section \<open>The dialer and the requests\<close>

lemma admitted_public: "admit_addresses addresses = Inr admitted \<Longrightarrow> list_all is_public_authority_address admitted"
  by (auto simp: admit_addresses_def find_None_iff list_all_iff split: option.splits)

lemma resolved_public:
  "resolve_authority_destination resolver host w = (Inr addresses, w') \<Longrightarrow> list_all is_public_authority_address addresses"
  by (auto simp: resolve_authority_destination_def dest: admitted_public split: option.splits prod.splits if_splits)

lemma dialed_addresses:
  "dial_addresses dial port failures addresses w = (x, dialed, w') \<Longrightarrow> set dialed \<subseteq> set addresses"
  by (induction addresses arbitrary: failures w x dialed) (fastforce split: prod.splits sum.splits)+

text \<open>C12: whatever names and addresses the resolver answers, and however its answers change between two
  lookups, the dialer attempts connections to public addresses only.\<close>

theorem dials_public_only:
  "case dial_resolved_authority resolver dial target w of (x, dialed, w') \<Rightarrow> list_all is_public_authority_address dialed"
proof -
  have dialed: "list_all is_public_authority_address dialed"
    if "dial_addresses dial port [] addresses v = (x, dialed, w')" "list_all is_public_authority_address addresses"
    for port addresses v x dialed w'
    using dialed_addresses [OF that(1)] that(2) by (auto simp: list_all_iff)
  then show ?thesis
    by (auto simp: dial_resolved_authority_def dest: resolved_public split: option.split prod.split sum.split)
qed

lemma followed_urls:
  assumes "follow_redirects kit resolver client first remaining url w = (x, urls, w')"
  shows "length urls \<le> Suc remaining \<and> urls \<noteq> [] \<and> hd urls = url \<and> list_all (pinned_redirect kit first) (tl urls)"
  using assms
proof (induction remaining arbitrary: url w x urls w')
  case 0
  then show ?case
    by (subst (asm) follow_redirects.simps) (auto split: prod.splits http_step.splits)
next
  case (Suc remaining)
  obtain a v where step: "client url w = (a, v)" by fastforce
  show ?case
  proof (cases "\<exists>candidate. a = Http_redirect candidate \<and> pinned_redirect kit first candidate \<and>
      (\<exists>addresses u. resolve_authority_destination resolver (ul_hostname candidate) v = (Inr addresses, u))")
    case True
    then obtain candidate addresses u where c: "a = Http_redirect candidate" "pinned_redirect kit first candidate"
      "resolve_authority_destination resolver (ul_hostname candidate) v = (Inr addresses, u)" by blast
    obtain y more_urls t where rest: "follow_redirects kit resolver client first remaining candidate u = (y, more_urls, t)"
      by (cases "follow_redirects kit resolver client first remaining candidate u") auto
    have "urls = url # more_urls"
      using Suc.prems step c rest by (subst (asm) follow_redirects.simps) simp
    moreover have "list_all (pinned_redirect kit first) more_urls"
      using Suc.IH [OF rest] c(2) by (cases more_urls) auto
    ultimately show ?thesis using Suc.IH [OF rest] by simp
  next
    case False
    then have "urls = [url]"
      using Suc.prems step
      by (subst (asm) follow_redirects.simps) (auto split: http_step.splits prod.splits sum.splits if_splits)
    then show ?thesis by simp
  qed
qed

text \<open>fetching an authority makes at most ten requests: the first to its pinned URL, every
  further one a redirect to the same host over HTTPS.\<close>

theorem requests_pinned:
  "case fetch_authority kit sha resolver client a w of (e, urls, w') \<Rightarrow>
     length urls \<le> 10 \<and>
     (urls = [] \<or> (\<exists>first. sk_url kit (au_url a) = Some first \<and> hd urls = first \<and>
        list_all (pinned_redirect kit first) (tl urls)))"
proof (cases "sk_url kit (au_url a)")
  case None
  then show ?thesis by (simp add: fetch_authority_def)
next
  case (Some first)
  have "length urls \<le> 10 \<and> hd urls = first \<and> list_all (pinned_redirect kit first) (tl urls)"
    if "follow_redirects kit resolver client first 9 first v = (x, urls, w')" for v x urls w'
    using followed_urls [OF that] by simp
  then show ?thesis
    using Some by (auto simp: fetch_authority_def split: prod.splits sum.splits)
qed

end
