(* ===== verification/Security_Docs.thy ===== *)
theory Security_Docs
  imports Strict_Json Repository_File Gate_Source
begin

text \<open>
  internal/securitydocs/security.go: the risk register and the security matrix of a repository.

  The decoder of encoding/json, the schema validator, the clock and the digest are arguments
  (\<open>security_kit\<close>); so is the reader of the two documents, as it is in the code, and
  \<open>read_security_document\<close> is the reader of an opened root. An instant is a number; where the code
  ranges over a map, the model takes the order of the records.
\<close>

section \<open>Documents\<close>

record risk =
  ri_id :: string
  ri_module :: string
  ri_severity :: string
  ri_status :: string
  ri_owner :: string
  ri_rationale :: string
  ri_mitigation :: string
  ri_review_condition :: string
  ri_evidence :: string
  ri_expires_at :: string

record scanner =
  sc_name :: string
  sc_tool_version :: string
  sc_command :: string
  sc_status :: string
  sc_completed_at :: string
  sc_result :: string
  sc_result_sha256 :: string

record verdict =
  ve_status :: string
  ve_owner :: string
  ve_decided_at :: string
  ve_rationale :: string
  ve_residual_risks :: "string list"

record module_record =
  mr_module :: string
  mr_revision :: string
  mr_scanners :: "scanner list"
  mr_verdict :: verdict

datatype security_error =
    Security_stopped
  | Security_root_unopened
  | Document_unopened repository_error
  | Document_unread
  | Document_oversized
  | Json_ambiguous
  | Json_not_single
  | Schema_unusable string
  | Schema_violated
  | Undecodable
  | Security_refused string

text \<open>What the libraries say of one document: the decoder's tokens and what follows the value they
  form, the outcome of each use of the published schema, and the decoded value.\<close>

record 'a document_decoder =
  dd_tokens :: "string \<Rightarrow> json_token list \<times> unit json_next"
  dd_schema_fault :: "string option"
  dd_instance :: "string \<Rightarrow> bool"
  dd_conforms :: "string \<Rightarrow> bool"
  dd_decode :: "string \<Rightarrow> 'a option"

record security_kit =
  sy_risks :: "risk list document_decoder"
  sy_modules :: "module_record list document_decoder"
  sy_time :: "string \<Rightarrow> int option"
  sy_digest :: "string \<Rightarrow> string"

definition maximum_security_document :: int where "maximum_security_document = 4194304"

definition hex_of_length :: "nat \<Rightarrow> string \<Rightarrow> bool" where
  "hex_of_length n s \<longleftrightarrow> length s = n \<and> list_all (\<lambda>c. is_digit c \<or> (CHR ''a'' \<le> c \<and> c \<le> CHR ''f'')) s"

definition revision_pattern :: "string \<Rightarrow> bool" where "revision_pattern = hex_of_length 40"
definition digest_pattern :: "string \<Rightarrow> bool" where "digest_pattern = hex_of_length 64"

definition required_scanners :: "string list" where
  "required_scanners =
     [''codeql'', ''dependency-review'', ''go-vet'', ''gosec'', ''govulncheck'', ''license'', ''owned-analysis'',
      ''secret-current-tree'', ''secret-history'', ''staticcheck'', ''workflow-analysis'']"

section \<open>Decoding\<close>

text \<open>\<open>walkJSONValue\<close>: \<open>levels\<close> is 129 at the outermost value, which has depth 0, so that a depth above
  128 has none left. Every error is the same to the caller. \<open>fuel\<close> bounds the calls; twice the
  tokens suffices, a value or its end being read at every second call (lemma \<open>walk_of_value\<close>).\<close>

fun walk_value :: "nat \<Rightarrow> nat \<Rightarrow> json_token list \<Rightarrow> json_token list option"
  and walk_members :: "nat \<Rightarrow> nat \<Rightarrow> string list \<Rightarrow> json_token list \<Rightarrow> json_token list option"
  and walk_elements :: "nat \<Rightarrow> nat \<Rightarrow> json_token list \<Rightarrow> json_token list option" where
  "walk_value 0 levels ts = None"
| "walk_value (Suc fuel) levels ts =
     (case levels of
        0 \<Rightarrow> None
      | Suc levels \<Rightarrow>
          (case ts of
             [] \<Rightarrow> None
           | Tok_string _ # ts \<Rightarrow> Some ts
           | Tok_scalar # ts \<Rightarrow> Some ts
           | Tok_open_object # ts \<Rightarrow> map_option tl (walk_members fuel levels [] ts)
           | Tok_open_array # ts \<Rightarrow> map_option tl (walk_elements fuel levels ts)
           | _ # ts \<Rightarrow> None))"
| "walk_members 0 levels seen ts = None"
| "walk_members (Suc fuel) levels seen ts =
     (if \<not> tokens_more ts then (if ts = [] then None else Some ts)
      else (case ts of
              Tok_string key # ts \<Rightarrow>
                if List.member seen key then None
                else (case walk_value fuel levels ts of
                        None \<Rightarrow> None
                      | Some ts \<Rightarrow> walk_members fuel levels (key # seen) ts)
            | _ \<Rightarrow> None))"
| "walk_elements 0 levels ts = None"
| "walk_elements (Suc fuel) levels ts =
     (if \<not> tokens_more ts then (if ts = [] then None else Some ts)
      else (case walk_value fuel levels ts of
              None \<Rightarrow> None
            | Some ts \<Rightarrow> walk_elements fuel levels ts))"

definition reject_ambiguous_json :: "json_token list \<times> unit json_next \<Rightarrow> security_error option" where
  "reject_ambiguous_json input =
     (case input of (tokens, extra) \<Rightarrow>
        if walk_value (scan_fuel tokens) 129 tokens = None then Some Json_ambiguous
        else refuse (extra \<noteq> Json_eof) Json_not_single)"

definition decode_document :: "'a document_decoder \<Rightarrow> string \<Rightarrow> security_error + 'a" where
  "decode_document d data =
     with_check (reject_ambiguous_json (dd_tokens d data))
       (case dd_schema_fault d of
          Some fault \<Rightarrow> Inl (Schema_unusable fault)
        | None \<Rightarrow>
            if \<not> dd_instance d data then Inl Json_not_single
            else if \<not> dd_conforms d data then Inl Schema_violated
            else (case dd_decode d data of None \<Rightarrow> Inl Undecodable | Some v \<Rightarrow> Inr v))"

section \<open>The risk register\<close>

definition risk_texts :: "risk \<Rightarrow> (string \<times> string) list" where
  "risk_texts r =
     [(''id'', ri_id r), (''module'', ri_module r), (''owner'', ri_owner r), (''rationale'', ri_rationale r),
      (''mitigation'', ri_mitigation r), (''review_condition'', ri_review_condition r)]"

definition blank :: "string \<Rightarrow> bool" where "blank s \<longleftrightarrow> trim_space s = []"

definition accepted_risk_error :: "security_kit \<Rightarrow> int \<Rightarrow> risk \<Rightarrow> security_error option" where
  "accepted_risk_error kit now r =
     (if ri_status r \<noteq> ''accepted'' then None
      else if blank (ri_evidence r) \<or> blank (ri_expires_at r)
      then Some (Security_refused ''accepted risk requires evidence and expires_at'')
      else (case sy_time kit (ri_expires_at r) of
              None \<Rightarrow> Some (Security_refused ''accepted risk has invalid expires_at'')
            | Some expires \<Rightarrow> refuse (expires \<le> now) (Security_refused ''accepted risk has expired'')))"

definition risk_error :: "security_kit \<Rightarrow> int \<Rightarrow> risk list \<Rightarrow> risk \<Rightarrow> security_error option" where
  "risk_error kit now admitted r = first_error
     (map (\<lambda>(name, v). refuse (blank v) (Security_refused (''risk record requires '' @ name))) (risk_texts r) @
      [refuse (List.member (map ri_id admitted) (ri_id r)) (Security_refused ''duplicate risk id''),
       refuse (\<not> List.member [''critical'', ''high'', ''medium'', ''low''] (ri_severity r) \<or>
               \<not> List.member [''open'', ''mitigated'', ''accepted'', ''closed''] (ri_status r))
         (Security_refused ''risk record has invalid severity or status''),
       accepted_risk_error kit now r])"

fun admit_risks :: "security_kit \<Rightarrow> int \<Rightarrow> risk list \<Rightarrow> risk list \<Rightarrow> security_error + risk list" where
  "admit_risks kit now admitted [] = Inr admitted"
| "admit_risks kit now admitted (r # rs) =
     with_check (risk_error kit now admitted r) (admit_risks kit now (admitted @ [r]) rs)"

section \<open>The matrix\<close>

fun scanners_error :: "security_kit \<Rightarrow> string list \<Rightarrow> scanner list \<Rightarrow> security_error option" where
  "scanners_error kit seen [] = None"
| "scanners_error kit seen (s # ss) = first_error
     [refuse (\<not> List.member required_scanners (sc_name s) \<or> blank (sc_tool_version s) \<or> blank (sc_command s) \<or>
              blank (sc_result s) \<or> \<not> digest_pattern (sc_result_sha256 s) \<or>
              \<not> List.member [''passed'', ''failed'', ''not-applicable''] (sc_status s))
        (Security_refused ''module record has invalid scanner result''),
      refuse (List.member seen (sc_name s)) (Security_refused ''module record has duplicate scanner''),
      refuse (sy_time kit (sc_completed_at s) = None) (Security_refused ''module record has invalid scanner completion''),
      scanners_error kit (sc_name s # seen) ss]"

definition verdict_error :: "security_kit \<Rightarrow> verdict \<Rightarrow> security_error option" where
  "verdict_error kit v = first_error
     [refuse (\<not> List.member [''pass'', ''fail'', ''blocked''] (ve_status v) \<or> blank (ve_owner v) \<or> blank (ve_rationale v))
        (Security_refused ''module record has invalid release verdict''),
      refuse (sy_time kit (ve_decided_at v) = None) (Security_refused ''module record has invalid release verdict time'')]"

definition passing :: "module_record \<Rightarrow> bool" where
  "passing m \<longleftrightarrow> ve_status (mr_verdict m) = ''pass''"

definition passing_scanners_error :: "module_record \<Rightarrow> security_error option" where
  "passing_scanners_error m =
     (if \<not> passing m then None
      else first_error
        [refuse (list_ex (\<lambda>s. sc_status s = ''failed'') (mr_scanners m)) (Security_refused ''passing verdict has failed scanner''),
         refuse (\<not> list_all (List.member (map sc_name (mr_scanners m))) required_scanners)
           (Security_refused ''passing verdict lacks a required scanner''),
         refuse (\<not> list_all (\<lambda>s. sc_status s = ''passed'') (mr_scanners m))
           (Security_refused ''passing verdict requires passed scanners'')])"

fun residual_error :: "risk list \<Rightarrow> string \<Rightarrow> string list \<Rightarrow> string list \<Rightarrow> security_error option" where
  "residual_error risks owner seen [] = None"
| "residual_error risks owner seen (i # is) =
     (case find (\<lambda>r. ri_id r = i) risks of
        None \<Rightarrow> Some (Security_refused ''module record references unknown residual risk'')
      | Some r \<Rightarrow>
          if ri_module r \<noteq> owner \<or> ri_status r \<noteq> ''accepted''
          then Some (Security_refused ''residual risk must be accepted and module-owned'')
          else if List.member seen i then Some (Security_refused ''module record duplicates residual risk'')
          else residual_error risks owner (i # seen) is)"

definition registered_error :: "module_record \<Rightarrow> risk \<Rightarrow> security_error option" where
  "registered_error m r =
     (if ri_module r \<noteq> mr_module m then None
      else first_error
        [refuse (List.member [''critical'', ''high''] (ri_severity r) \<and> \<not> List.member [''mitigated'', ''closed''] (ri_status r))
           (Security_refused ''passing verdict has unresolved critical or high risk''),
         refuse (ri_severity r = ''medium'' \<and> ri_status r = ''open'') (Security_refused ''passing verdict has open medium risk''),
         refuse (ri_status r = ''accepted'' \<and> \<not> List.member (ve_residual_risks (mr_verdict m)) (ri_id r))
           (Security_refused ''passing verdict omits an accepted risk'')])"

definition module_error :: "security_kit \<Rightarrow> risk list \<Rightarrow> string list \<Rightarrow> module_record \<Rightarrow> security_error option" where
  "module_error kit risks seen m = first_error
     ([refuse (blank (mr_module m) \<or> \<not> revision_pattern (mr_revision m))
         (Security_refused ''module record requires module and immutable revision''),
       refuse (List.member seen (mr_module m)) (Security_refused ''duplicate module record''),
       scanners_error kit [] (mr_scanners m),
       verdict_error kit (mr_verdict m),
       passing_scanners_error m,
       residual_error risks (mr_module m) [] (ve_residual_risks (mr_verdict m))] @
      (if passing m then map (registered_error m) risks else []))"

fun modules_error :: "security_kit \<Rightarrow> risk list \<Rightarrow> string list \<Rightarrow> module_record list \<Rightarrow> security_error option" where
  "modules_error kit risks seen [] = None"
| "modules_error kit risks seen (m # ms) =
     first_error [module_error kit risks seen m, modules_error kit risks (mr_module m # seen) ms]"

definition matrix_evidence_error :: "string list \<Rightarrow> string \<Rightarrow> risk \<Rightarrow> security_error option" where
  "matrix_evidence_error passing_modules digest r =
     (if \<not> List.member passing_modules (ri_module r) \<or> \<not> List.member [''accepted'', ''mitigated'', ''closed''] (ri_status r) then None
      else refuse (ri_evidence r \<noteq> ''sha256:'' @ digest @ '':security-matrix.json'')
        (Security_refused ''resolved risk requires exact security matrix evidence''))"

definition admit_modules :: "security_kit \<Rightarrow> module_record list \<Rightarrow> risk list \<Rightarrow> string \<Rightarrow> security_error option" where
  "admit_modules kit records risks digest = first_error
     (modules_error kit risks [] records #
      map (matrix_evidence_error (map mr_module (filter passing records)) digest) risks)"

section \<open>The validation\<close>

text \<open>A context is a budget of polls. A reader polls it as well.\<close>

type_synonym security_reader = "string \<Rightarrow> ctx \<Rightarrow> ctx \<times> (security_error + string)"

definition unless_stopped :: "ctx \<Rightarrow> (ctx \<Rightarrow> ctx \<times> (security_error + 'a)) \<Rightarrow> ctx \<times> (security_error + 'a)" where
  "unless_stopped c f = (case poll_ctx c of (stop, c) \<Rightarrow> if stop then (c, Inl Security_stopped) else f c)"

definition then_read :: "ctx \<times> (security_error + 'a) \<Rightarrow> ('a \<Rightarrow> ctx \<Rightarrow> ctx \<times> (security_error + 'b)) \<Rightarrow> ctx \<times> (security_error + 'b)" where
  "then_read x f = (case x of (c, Inl e) \<Rightarrow> (c, Inl e) | (c, Inr v) \<Rightarrow> f v c)"

definition validate_decoded_risks :: "security_kit \<Rightarrow> int \<Rightarrow> risk list \<Rightarrow> ctx \<Rightarrow> ctx \<times> (security_error + risk list)" where
  "validate_decoded_risks kit now records c = unless_stopped c (\<lambda>c. (c, admit_risks kit now [] records))"

definition validate_decoded_matrix :: "security_kit \<Rightarrow> module_record list \<Rightarrow> risk list \<Rightarrow> string \<Rightarrow> ctx \<Rightarrow> ctx \<times> (security_error + unit)" where
  "validate_decoded_matrix kit modules risks digest c =
     unless_stopped c (\<lambda>c. (c, case admit_modules kit modules risks digest of Some e \<Rightarrow> Inl e | None \<Rightarrow> Inr ()))"

definition validate_admitted_risks :: "security_kit \<Rightarrow> security_reader \<Rightarrow> risk list \<Rightarrow> ctx \<Rightarrow> ctx \<times> (security_error + unit)" where
  "validate_admitted_risks kit read risks c =
     unless_stopped c (\<lambda>c. then_read (read ''security-matrix.json'' c) (\<lambda>data c.
       unless_stopped c (\<lambda>c. then_read (c, decode_document (sy_modules kit) data) (\<lambda>modules c.
         then_read (validate_decoded_matrix kit modules risks (sy_digest kit data) c) (\<lambda>_ c.
           unless_stopped c (\<lambda>c. (c, Inr ())))))))"

definition validate_root :: "security_kit \<Rightarrow> int \<Rightarrow> security_reader \<Rightarrow> ctx \<Rightarrow> ctx \<times> (security_error + unit)" where
  "validate_root kit now read c =
     unless_stopped c (\<lambda>c. then_read (read ''risk-register.json'' c) (\<lambda>data c.
       unless_stopped c (\<lambda>c. then_read (c, decode_document (sy_risks kit) data) (\<lambda>records c.
         then_read (validate_decoded_risks kit now records c) (validate_admitted_risks kit read)))))"

text \<open>\<open>opened\<close>: the directory opens as an \<open>os.Root\<close>.\<close>

definition validate_at :: "security_kit \<Rightarrow> bool \<Rightarrow> int \<Rightarrow> security_reader \<Rightarrow> ctx \<Rightarrow> ctx \<times> (security_error + unit)" where
  "validate_at kit opened now read c =
     unless_stopped c (\<lambda>c. if \<not> opened then (c, Inl Security_root_unopened) else validate_root kit now read c)"

section \<open>The reader of a root\<close>

definition stops_at :: "ctx \<Rightarrow> nat \<Rightarrow> bool" where
  "stops_at c k = (case c of None \<Rightarrow> False | Some n \<Rightarrow> n \<le> k)"

definition after_polls :: "nat \<Rightarrow> ctx \<Rightarrow> ctx" where
  "after_polls k = map_option (\<lambda>n. n - k)"

text \<open>The reads of an opened file poll the context \<open>polls\<close> times; if it ends at one of them, the read
  fails.\<close>

definition consume_security_document :: "int \<Rightarrow> nat \<Rightarrow> opened_file \<Rightarrow> ctx \<Rightarrow> ctx \<times> (security_error + string)" where
  "consume_security_document maximum polls f c =
     (if polls \<noteq> 0 \<and> stops_at c (polls - 1) then (c, Inl Document_unread)
      else if maximum < int (length (of_content f)) then (after_polls polls c, Inl Document_oversized)
      else if of_failed f then (after_polls polls c, Inl Document_unread)
      else unless_stopped (after_polls polls c) (\<lambda>c. (c, Inr (of_content f))))"

text \<open>\<open>repositoryfile.OpenRootContext\<close> polls four times on its way to an opened file.\<close>

definition read_security_document :: "lstat_fun \<Rightarrow> open_fun \<Rightarrow> (string \<Rightarrow> nat) \<Rightarrow> security_reader" where
  "read_security_document stat open_file polls path c =
     (case open_context (stops_at c) maximum_security_document stat open_file path of
        Inl e \<Rightarrow> (c, Inl (Document_unopened e))
      | Inr f \<Rightarrow> consume_security_document maximum_security_document (polls path) f (after_polls 4 c))"

definition validate_context :: "security_kit \<Rightarrow> bool \<Rightarrow> int \<Rightarrow> lstat_fun \<Rightarrow> open_fun \<Rightarrow> (string \<Rightarrow> nat) \<Rightarrow> ctx \<Rightarrow> ctx \<times> (security_error + unit)" where
  "validate_context kit opened now stat open_file polls =
     validate_at kit opened now (read_security_document stat open_file polls)"

text \<open>
  What validated security documents show: which tokens the walk over a document accepts, and what a
  passing verdict of the matrix implies for the scanners and the registered risks of its module.
\<close>

section \<open>The walk over a document\<close>

fun json_depth :: "json \<Rightarrow> nat"
  and members_depth :: "(string \<times> json) list \<Rightarrow> nat"
  and elements_depth :: "json list \<Rightarrow> nat" where
  "json_depth (J_object ms) = Suc (members_depth ms)"
| "json_depth (J_array vs) = Suc (elements_depth vs)"
| "json_depth (J_string s) = 1"
| "json_depth J_null = 1"
| "json_depth (J_bool b) = 1"
| "json_depth (J_number n) = 1"
| "members_depth [] = 0"
| "members_depth ((k, v) # ms) = max (json_depth v) (members_depth ms)"
| "elements_depth [] = 0"
| "elements_depth (v # vs) = max (json_depth v) (elements_depth vs)"

lemma json_depth_pos [simp]: "0 < json_depth v"
  by (cases v) simp_all

lemma walk_leaf:
  "0 < fuel \<Longrightarrow> walk_value fuel levels (Tok_string s # ts) = (if levels = 0 then None else Some ts)"
  "0 < fuel \<Longrightarrow> walk_value fuel levels (Tok_scalar # ts) = (if levels = 0 then None else Some ts)"
  by (cases fuel; cases levels; simp)+

lemma walk_of_value:
  "2 * length (json_tokens v) \<le> fuel \<Longrightarrow>
     walk_value fuel levels (json_tokens v @ rest) = (if unique_keys v \<and> json_depth v \<le> levels then Some rest else None)"
  "2 * length (member_tokens ms) < fuel \<Longrightarrow>
     walk_members fuel levels seen (member_tokens ms @ Tok_close_object # rest) =
       (if unique_members seen ms \<and> members_depth ms \<le> levels then Some (Tok_close_object # rest) else None)"
  "2 * length (element_tokens vs) < fuel \<Longrightarrow>
     walk_elements fuel levels (element_tokens vs @ Tok_close_array # rest) =
       (if unique_elements vs \<and> elements_depth vs \<le> levels then Some (Tok_close_array # rest) else None)"
proof (induction v and ms and vs arbitrary: fuel levels rest and fuel levels seen rest and fuel levels rest
    rule: json_tokens_member_tokens_element_tokens.induct)
  case (2 vs)
  then obtain f where "fuel = Suc f" by (cases fuel) auto
  with 2 show ?case by (cases levels) simp_all
next
  case (3 ms)
  then obtain f where "fuel = Suc f" by (cases fuel) auto
  with 3 show ?case by (cases levels) simp_all
next
  case (7)
  then show ?case by (cases fuel) auto
next
  case (8 k v ms)
  then obtain f where f: "fuel = Suc f" by (cases fuel) auto
  have "2 * length (json_tokens v) \<le> f" "2 * length (member_tokens ms) < f"
    using 8(3) f by simp_all
  then show ?case using 8(1,2) by (simp add: f)
next
  case 9
  then show ?case by (cases fuel) auto
next
  case (10 v vs)
  then obtain f where f: "fuel = Suc f" by (cases fuel) auto
  have l: "0 < length (json_tokens v)" by (rule json_tokens_length)
  have "2 * length (json_tokens v) \<le> f" "2 * length (element_tokens vs) < f"
    using 10(3) f l by (simp_all del: length_greater_0_conv)
  then show ?case using 10(1,2) by (simp add: f)
qed (auto simp: walk_leaf)

lemma document_accepted:
  "reject_ambiguous_json (json_tokens v, Json_eof) = None \<longleftrightarrow> unique_keys v \<and> json_depth v \<le> 129"
proof -
  have "walk_value (scan_fuel (json_tokens v)) 129 (json_tokens v @ []) =
      (if unique_keys v \<and> json_depth v \<le> 129 then Some [] else None)"
    by (rule walk_of_value(1)) (simp add: scan_fuel_def)
  then show ?thesis by (simp add: reject_ambiguous_json_def)
qed

section \<open>Admitted documents\<close>

lemma risks_admitted:
  assumes "admit_risks kit now admitted rs = Inr risks" and "distinct (map ri_id admitted)"
    and "\<forall>r \<in> set admitted. accepted_risk_error kit now r = None"
  shows "risks = admitted @ rs \<and> distinct (map ri_id risks) \<and> (\<forall>r \<in> set risks. accepted_risk_error kit now r = None)"
  using assms
proof (induction rs arbitrary: admitted)
  case (Cons r rs)
  have step: "ri_id r \<notin> ri_id ` set admitted" "accepted_risk_error kit now r = None"
      "admit_risks kit now (admitted @ [r]) rs = Inr risks"
    using Cons.prems(1) by (auto simp: risk_error_def)
  have "distinct (map ri_id (admitted @ [r]))" "\<forall>r \<in> set (admitted @ [r]). accepted_risk_error kit now r = None"
    using step(1,2) Cons.prems(2,3) by auto
  from Cons.IH [OF step(3) this] show ?case by (elim conjE, intro conjI) simp_all
qed simp

lemma scanners_listed:
  "scanners_error kit seen ss = None \<Longrightarrow>
     distinct (map sc_name ss) \<and> set (map sc_name ss) \<inter> set seen = {} \<and> set (map sc_name ss) \<subseteq> set required_scanners"
proof (induction ss arbitrary: seen)
  case (Cons s ss)
  have step: "sc_name s \<in> set required_scanners" "sc_name s \<notin> set seen" "scanners_error kit (sc_name s # seen) ss = None"
    using Cons.prems by auto
  show ?case using Cons.IH [OF step(3)] step(1,2) by auto
qed simp

lemma found_member: "find P xs = Some x \<Longrightarrow> x \<in> set xs \<and> P x"
  by (induction xs) (auto split: if_splits)

lemma residual_listed:
  "residual_error risks owner seen is = None \<Longrightarrow>
     list_all (\<lambda>i. list_ex (\<lambda>r. ri_id r = i \<and> ri_module r = owner \<and> ri_status r = ''accepted'') risks) is"
proof (induction "is" arbitrary: seen)
  case (Cons i "is")
  obtain r where r: "find (\<lambda>r. ri_id r = i) risks = Some r" "ri_module r = owner" "ri_status r = ''accepted''"
      "residual_error risks owner (i # seen) is = None"
  proof (cases "find (\<lambda>r. ri_id r = i) risks")
    case (Some r)
    then show thesis using Cons.prems that [of r] by (simp split: if_splits)
  qed (use Cons.prems in simp)
  have "r \<in> set risks \<and> ri_id r = i" using found_member [OF r(1)] by simp
  then have "list_ex (\<lambda>r. ri_id r = i \<and> ri_module r = owner \<and> ri_status r = ''accepted'') risks"
    unfolding list_ex_iff using r(2,3) by blast
  then show ?case using Cons.IH [OF r(4)] by (simp only: list.pred_inject HOL.simp_thms)
qed simp

text \<open>A released module: every required scanner passed and nothing else was run, no critical or high risk
  of the module is left, no medium one is open, and an accepted risk is listed by the verdict; the
  risks that are accepted, mitigated or closed name the matrix itself as their evidence.\<close>

definition settled_risk :: "security_kit \<Rightarrow> int \<Rightarrow> string \<Rightarrow> module_record \<Rightarrow> risk \<Rightarrow> bool" where
  "settled_risk kit now digest m r \<longleftrightarrow>
     (case ri_status r of s \<Rightarrow>
        (if List.member [''critical'', ''high''] (ri_severity r) then s = ''mitigated'' \<or> s = ''closed''
         else if s = ''open'' then ri_severity r \<noteq> ''medium''
         else True) \<and>
        (if s = ''accepted''
         then List.member (ve_residual_risks (mr_verdict m)) (ri_id r) \<and>
              (case sy_time kit (ri_expires_at r) of None \<Rightarrow> False | Some t \<Rightarrow> now < t)
         else True) \<and>
        (if List.member [''accepted'', ''mitigated'', ''closed''] s
         then ri_evidence r = ''sha256:'' @ digest @ '':security-matrix.json'' else True))"

definition released :: "security_kit \<Rightarrow> int \<Rightarrow> string \<Rightarrow> risk list \<Rightarrow> module_record \<Rightarrow> bool" where
  "released kit now digest risks m \<longleftrightarrow>
     distinct (map sc_name (mr_scanners m)) \<and> set (map sc_name (mr_scanners m)) = set required_scanners \<and>
     list_all (\<lambda>s. sc_status s = ''passed'') (mr_scanners m) \<and>
     list_all (settled_risk kit now digest m) (filter (\<lambda>r. ri_module r = mr_module m) risks) \<and>
     list_all (\<lambda>i. list_ex (\<lambda>r. ri_id r = i \<and> ri_module r = mr_module m \<and> ri_status r = ''accepted'') risks)
       (ve_residual_risks (mr_verdict m))"

lemma passing_module:
  assumes "module_error kit risks seen m = None" and "passing m"
    and "\<forall>r \<in> set risks. accepted_risk_error kit now r = None"
    and "\<forall>r \<in> set risks. ri_module r = mr_module m \<longrightarrow> matrix_evidence_error [mr_module m] digest r = None"
  shows "released kit now digest risks m"
proof -
  have scanners: "scanners_error kit [] (mr_scanners m) = None" and passed: "passing_scanners_error m = None"
    and residual: "residual_error risks (mr_module m) [] (ve_residual_risks (mr_verdict m)) = None"
    and registered: "\<forall>r \<in> set risks. registered_error m r = None"
    using assms(1,2) by (auto simp: module_error_def)
  have "settled_risk kit now digest m r" if "r \<in> set risks" "ri_module r = mr_module m" for r
    using registered [rule_format, OF that(1)] assms(3) [rule_format, OF that(1)] assms(4) [rule_format, OF that] that(2)
    by (auto simp: settled_risk_def registered_error_def accepted_risk_error_def matrix_evidence_error_def split: if_splits option.splits)
  then show ?thesis
    using scanners_listed [OF scanners] passed assms(2) residual_listed [OF residual]
    by (auto simp: released_def passing_scanners_error_def list_all_iff)
qed

lemma modules_passed:
  "modules_error kit risks seen ms = None \<Longrightarrow> m \<in> set ms \<Longrightarrow> \<exists>seen. module_error kit risks seen m = None"
  by (induction ms arbitrary: seen) auto

lemma modules_distinct:
  "modules_error kit risks seen ms = None \<Longrightarrow> distinct (map mr_module ms) \<and> set (map mr_module ms) \<inter> set seen = {}"
proof (induction ms arbitrary: seen)
  case (Cons m ms)
  have step: "mr_module m \<notin> set seen" "modules_error kit risks (mr_module m # seen) ms = None"
    using Cons.prems by (auto simp: module_error_def)
  show ?case using Cons.IH [OF step(2)] step(1) by auto
qed simp

lemma admitted_released:
  assumes "admit_risks kit now [] records = Inr risks" and "admit_modules kit modules risks digest = None"
  shows "distinct (map ri_id risks) \<and> distinct (map mr_module modules) \<and> list_all (released kit now digest risks) (filter passing modules)"
proof -
  have admitted: "distinct (map ri_id risks)" "\<forall>r \<in> set risks. accepted_risk_error kit now r = None"
    using risks_admitted [OF assms(1)] by auto
  have modules: "modules_error kit risks [] modules = None"
    and evidence: "\<forall>r \<in> set risks. matrix_evidence_error (map mr_module (filter passing modules)) digest r = None"
    using assms(2) by (auto simp: admit_modules_def)
  have "released kit now digest risks m" if m: "m \<in> set modules" "passing m" for m
  proof -
    obtain seen where seen: "module_error kit risks seen m = None" using modules_passed [OF modules m(1)] by blast
    have "matrix_evidence_error [mr_module m] digest r = None" if "r \<in> set risks" "ri_module r = mr_module m" for r
      using evidence [rule_format, OF that(1)] that(2) m by (auto simp: matrix_evidence_error_def split: if_splits)
    then show ?thesis using passing_module [OF seen m(2) admitted(2)] by blast
  qed
  then show ?thesis using admitted(1) modules_distinct [OF modules] by (auto simp: list_all_iff)
qed

text \<open>C10: when the security documents are valid, both were read and decoded, the risks have distinct
  identifiers and the matrix distinct modules, and every module with a passing verdict ran exactly
  the required scanners, all of them passed, and its registered risks are settled: no critical or
  high risk that is not mitigated or closed, no open medium risk, no accepted risk that has expired
  or that the verdict does not list, and none without the matrix itself as its evidence.\<close>

theorem passing_verdicts_released:
  "case validate_at kit opened now read c of
     (c', Inl e) \<Rightarrow> True
   | (c', Inr u) \<Rightarrow>
       \<exists>c1 data1 c2 c3 data2 c4 risks modules.
         read ''risk-register.json'' c1 = (c2, Inr data1) \<and> read ''security-matrix.json'' c3 = (c4, Inr data2) \<and>
         decode_document (sy_risks kit) data1 = Inr risks \<and> decode_document (sy_modules kit) data2 = Inr modules \<and>
         distinct (map ri_id risks) \<and> distinct (map mr_module modules) \<and>
         list_all (released kit now (sy_digest kit data2) risks) (filter passing modules)"
proof (cases "validate_at kit opened now read c")
  case (Pair c' x)
  show ?thesis
  proof (cases x)
    case (Inr u)
    have "validate_at kit opened now read c = (c', Inr u)" using Pair Inr by simp
    then obtain c1 data1 c2 c3 data2 c4 risks admitted modules where steps:
        "read ''risk-register.json'' c1 = (c2, Inr data1)" "decode_document (sy_risks kit) data1 = Inr risks"
        "admit_risks kit now [] risks = Inr admitted" "read ''security-matrix.json'' c3 = (c4, Inr data2)"
        "decode_document (sy_modules kit) data2 = Inr modules" "admit_modules kit modules admitted (sy_digest kit data2) = None"
      by (auto simp: validate_at_def validate_root_def validate_admitted_risks_def validate_decoded_risks_def
          validate_decoded_matrix_def unless_stopped_def then_read_def split: prod.splits sum.splits if_splits option.splits)
    have "admitted = risks" using risks_admitted [OF steps(3)] by simp
    then show ?thesis using steps admitted_released [OF steps(3,6)] Pair Inr by simp blast
  qed (simp add: Pair)
qed

end
