(* ===== verification/Workflow_Yaml.thy ===== *)
theory Workflow_Yaml
  imports Gate_Source
begin

text \<open>
  internal/gates/workflows.go: the policy of one workflow document.

  The YAML parser is an argument. A parsed document is a graph of nodes, as the parser delivers it:
  a node is a number, and an alias points at the node of its anchor, so that the graph may be
  cyclic.
\<close>

section \<open>Nodes\<close>

datatype yaml_kind = Y_document | Y_sequence | Y_mapping | Y_scalar | Y_alias

record yaml_node =
  yn_kind :: yaml_kind
  yn_value :: string
  yn_content :: "nat list"
  yn_alias :: nat

type_synonym yaml_graph = "nat \<Rightarrow> yaml_node"

datatype workflow_error =
    Workflow_undecoded | Several_documents | Structure_limit | Duplicate_key string

text \<open>\<open>for index := 0; index+1 < len(node.Content); index += 2\<close>: a last single entry is not seen.\<close>

fun pairs_of :: "nat list \<Rightarrow> (nat \<times> nat) list" where
  "pairs_of (k # v # rest) = (k, v) # pairs_of rest"
| "pairs_of _ = []"

definition resolve_alias :: "yaml_graph \<Rightarrow> nat \<Rightarrow> nat" where
  "resolve_alias g n = (if yn_kind (g n) = Y_alias then yn_alias (g n) else n)"

definition explicit_value :: "yaml_graph \<Rightarrow> string \<Rightarrow> nat option \<Rightarrow> nat option" where
  "explicit_value g key node =
     (case node of
        None \<Rightarrow> None
      | Some n \<Rightarrow>
          (let n = resolve_alias g n
           in if yn_kind (g n) \<noteq> Y_mapping then None
              else map_option snd (find (\<lambda>(k, v). yn_value (g k) = key) (pairs_of (yn_content (g n))))))"

text \<open>The first result of a search through alternatives.\<close>

fun first_some :: "('a \<Rightarrow> 'b option) \<Rightarrow> 'a list \<Rightarrow> 'b option" where
  "first_some f [] = None"
| "first_some f (x # xs) = (case f x of None \<Rightarrow> first_some f xs | Some y \<Rightarrow> Some y)"

lemma first_some_cong [fundef_cong]:
  "xs = ys \<Longrightarrow> (\<And>x. x \<in> set ys \<Longrightarrow> f x = g x) \<Longrightarrow> first_some f xs = first_some g ys"
  by (induction ys arbitrary: xs) (auto split: option.splits)

text \<open>\<open>workflowMappingValue\<close>: \<open>levels\<close> is 101 at depth 0, so that a depth above 100 has none left.\<close>

fun mapping_value :: "yaml_graph \<Rightarrow> string \<Rightarrow> nat \<Rightarrow> nat option \<Rightarrow> nat option" where
  "mapping_value g key levels None = None"
| "mapping_value g key 0 (Some n) = None"
| "mapping_value g key (Suc levels) (Some n) =
     (case yn_kind (g n) of
        Y_alias \<Rightarrow> mapping_value g key levels (Some (yn_alias (g n)))
      | Y_mapping \<Rightarrow>
          (case find (\<lambda>(k, v). yn_value (g k) = key) (pairs_of (yn_content (g n))) of
             Some (k, v) \<Rightarrow> Some v
           | None \<Rightarrow>
               first_some (\<lambda>(k, merged).
                   if yn_kind (g merged) = Y_sequence
                   then first_some (\<lambda>candidate. mapping_value g key levels (Some candidate)) (yn_content (g merged))
                   else mapping_value g key levels (Some merged))
                 (filter (\<lambda>(k, v). yn_value (g k) = ''<<'') (pairs_of (yn_content (g n)))))
      | _ \<Rightarrow> None)"

section \<open>References\<close>

definition lower_hex :: "char \<Rightarrow> bool" where
  "lower_hex c \<longleftrightarrow> is_digit c \<or> CHR ''a'' \<le> c \<and> c \<le> CHR ''f''"

definition immutable_workflow_ref :: "string \<Rightarrow> bool" where
  "immutable_workflow_ref s \<longleftrightarrow> length s = 40 \<and> list_all lower_hex s"

text \<open>\<open>^[^@\s]+@sha256:[0-9a-f]{64}$\<close>: the first at sign ends the name.\<close>

definition immutable_container_image :: "string \<Rightarrow> bool" where
  "immutable_container_image s \<longleftrightarrow>
     (let name = takeWhile (\<lambda>c. c \<noteq> CHR ''@'') s; rest = drop (length name) s
      in name \<noteq> [] \<and> list_all (\<lambda>c. \<not> regex_space c) name \<and> has_prefix rest ''@sha256:'' \<and>
         length rest = 72 \<and> list_all lower_hex (drop 8 rest))"

definition immutable_workflow_image :: "string \<Rightarrow> bool" where
  "immutable_workflow_image s \<longleftrightarrow> has_prefix s ''docker://'' \<and> immutable_container_image (drop 9 s)"

definition immutable_action_reference :: "string \<Rightarrow> bool" where
  "immutable_action_reference s =
     (if has_prefix s ''./'' then True
      else if has_prefix s ''docker://'' then immutable_workflow_image s
      else (let revision = rev (takeWhile (\<lambda>c. c \<noteq> CHR ''@'') (rev s))
            in length revision + 1 < length s \<and> immutable_workflow_ref revision))"

definition name_start :: "char \<Rightarrow> bool" where
  "name_start c \<longleftrightarrow> (CHR ''A'' \<le> c \<and> c \<le> CHR ''Z'') \<or> (CHR ''a'' \<le> c \<and> c \<le> CHR ''z'') \<or> c = CHR ''_''"

text \<open>\<open>^\$\{\{\s*matrix\.([A-Za-z_][A-Za-z0-9_]*)\s*\}\}$\<close>: the name.\<close>

definition static_matrix_reference :: "string \<Rightarrow> string option" where
  "static_matrix_reference s =
     (if \<not> has_prefix s ''${{'' then None
      else (let body = dropWhile regex_space (drop 3 s)
            in if \<not> has_prefix body ''matrix.'' then None
               else (let tail_text = drop 7 body;
                         name = takeWhile (\<lambda>c. name_start c \<or> is_digit c) tail_text;
                         rest = dropWhile regex_space (drop (length name) tail_text)
                     in if name \<noteq> [] \<and> name_start (hd name) \<and> rest = ''}}'' then Some name else None)))"

section \<open>Paths of a document\<close>

definition permissions_path :: "string list \<Rightarrow> bool" where
  "permissions_path path \<longleftrightarrow> path = [] \<or> length path = 2 \<and> path ! 0 = ''jobs''"

definition step_path :: "string list \<Rightarrow> bool" where
  "step_path path \<longleftrightarrow>
     length path = 4 \<and> path ! 0 = ''jobs'' \<and> path ! 2 = ''steps'' \<and> path ! 3 = ''[]'' \<or> path = [''runs'', ''steps'', ''[]'']"

definition job_path :: "string list \<Rightarrow> bool" where
  "job_path path \<longleftrightarrow> length path = 2 \<and> path ! 0 = ''jobs''"

definition uses_path :: "string list \<Rightarrow> bool" where
  "uses_path path \<longleftrightarrow> job_path path \<or> step_path path"

definition container_image_path :: "string list \<Rightarrow> bool" where
  "container_image_path path \<longleftrightarrow>
     length path = 3 \<and> path ! 0 = ''jobs'' \<and> path ! 2 = ''container'' \<or>
     length path = 4 \<and> path ! 0 = ''jobs'' \<and> path ! 2 = ''services''"

section \<open>Rules\<close>

definition matrix_row_pinned :: "yaml_graph \<Rightarrow> string \<Rightarrow> nat \<Rightarrow> bool" where
  "matrix_row_pinned g name row =
     (case explicit_value g name (Some row) of
        None \<Rightarrow> False
      | Some v \<Rightarrow>
          (let v = g (resolve_alias g v)
           in yn_kind v = Y_scalar \<and> \<not> contains_str (yn_value v) ''${{'' \<and> immutable_container_image (yn_value v)))"

definition matrix_includes :: "yaml_graph \<Rightarrow> nat \<Rightarrow> string \<Rightarrow> nat list option" where
  "matrix_includes g document job =
     (let top_node = (if yn_kind (g document) = Y_document
                      then (case yn_content (g document) of [n] \<Rightarrow> Some n | _ \<Rightarrow> None) else Some document)
      in case top_node of
           None \<Rightarrow> None
         | Some n \<Rightarrow>
             (case explicit_value g ''matrix'' (explicit_value g ''strategy''
                    (explicit_value g job (explicit_value g ''jobs'' (Some n)))) of
                None \<Rightarrow> None
              | Some matrix \<Rightarrow>
                  (let m = g (resolve_alias g matrix)
                   in case yn_content m of
                        [k, v] \<Rightarrow>
                          (let include_node = g (resolve_alias g v)
                           in if yn_kind m = Y_mapping \<and> yn_value (g k) = ''include'' \<and> yn_kind include_node = Y_sequence
                              then Some (yn_content include_node) else None)
                      | _ \<Rightarrow> None)))"

definition pinned_container_image :: "yaml_graph \<Rightarrow> nat \<Rightarrow> string list \<Rightarrow> nat \<Rightarrow> bool" where
  "pinned_container_image g document path img =
     (if yn_kind (g img) \<noteq> Y_scalar then False
      else if immutable_container_image (yn_value (g img)) then True
      else (case static_matrix_reference (yn_value (g img)) of
              None \<Rightarrow> False
            | Some name \<Rightarrow>
                if length path < 2 \<or> path ! 0 \<noteq> ''jobs'' then False
                else (case matrix_includes g document (path ! 1) of
                        None \<Rightarrow> False
                      | Some rows \<Rightarrow> rows \<noteq> [] \<and> length rows \<le> 256 \<and> list_all (matrix_row_pinned g name) rows)))"

text \<open>\<open>strings.EqualFold\<close> with \<open>actions/checkout\<close>: of its letters \<open>s\<close> and \<open>k\<close> have a further fold.\<close>

definition fold_checkout_rune :: "int \<Rightarrow> int" where
  "fold_checkout_rune r = (if r = 8490 then 107 else fold_rune r)"

definition equal_fold_checkout :: "string \<Rightarrow> bool" where
  "equal_fold_checkout s \<longleftrightarrow> map (fold_checkout_rune \<circ> fst) (runes s) = map fst (runes ''actions/checkout'')"

definition checkout_credentials_persist :: "yaml_graph \<Rightarrow> nat \<Rightarrow> bool" where
  "checkout_credentials_persist g step =
     (case mapping_value g ''uses'' 101 (Some step) of
        None \<Rightarrow> False
      | Some uses \<Rightarrow>
          (let used = g (resolve_alias g uses)
           in if yn_kind used \<noteq> Y_scalar \<or> \<not> equal_fold_checkout (takeWhile (\<lambda>c. c \<noteq> CHR ''@'') (yn_value used)) then False
              else (case mapping_value g ''persist-credentials'' 101 (mapping_value g ''with'' 101 (Some step)) of
                      None \<Rightarrow> True
                    | Some persist \<Rightarrow>
                        (let p = g (resolve_alias g persist) in yn_kind p \<noteq> Y_scalar \<or> yn_value p \<noteq> ''false''))))"

function event_present_from :: "yaml_graph \<Rightarrow> string \<Rightarrow> nat \<Rightarrow> nat list \<Rightarrow> bool" where
  "event_present_from g event visited [] = False"
| "event_present_from g event visited (n # stack) =
     (if 100000 \<le> visited then False
      else (case yn_kind (g n) of
              Y_alias \<Rightarrow> event_present_from g event (Suc visited) (yn_alias (g n) # stack)
            | Y_scalar \<Rightarrow> if yn_value (g n) = event then True else event_present_from g event (Suc visited) stack
            | Y_sequence \<Rightarrow> event_present_from g event (Suc visited) (rev (yn_content (g n)) @ stack)
            | Y_mapping \<Rightarrow>
                if list_ex (\<lambda>(k, v). yn_value (g k) = event) (pairs_of (yn_content (g n))) then True
                else event_present_from g event (Suc visited) stack
            | Y_document \<Rightarrow> event_present_from g event (Suc visited) stack))"
  by pat_completeness auto
termination by (relation "measure (\<lambda>(g, event, visited, stack). 100000 - visited)") auto

definition workflow_event_present :: "yaml_graph \<Rightarrow> nat \<Rightarrow> string \<Rightarrow> bool" where
  "workflow_event_present g n event = event_present_from g event 0 [n]"

definition entry_findings :: "yaml_graph \<Rightarrow> nat \<Rightarrow> string list \<Rightarrow> string \<Rightarrow> nat \<Rightarrow> string list" where
  "entry_findings g document path key v =
     (let r = resolve_alias g v; node = g r
      in if key = ''on''
         then (if path = [] \<and> workflow_event_present g r ''pull_request_target'' then [''pull_request_target is forbidden''] else [])
         else if key = ''permissions''
         then (if permissions_path path \<and> yn_kind node = Y_scalar \<and> yn_value node = ''write-all''
               then [''permissions write-all is forbidden''] else [])
         else if key = ''uses''
         then (if uses_path path \<and> (yn_kind node \<noteq> Y_scalar \<or> \<not> immutable_action_reference (yn_value node))
               then [''remote actions require immutable SHA references''] else [])
         else if key = ''container''
         then (if job_path path \<and> yn_kind node = Y_scalar \<and> \<not> pinned_container_image g document path r
               then [''job container images require immutable digest references''] else [])
         else if key = ''image''
         then (if container_image_path path \<and> \<not> pinned_container_image g document path r
               then [''container images require immutable digest references''] else [])
         else [])"

section \<open>The traversal\<close>

type_synonym yaml_item = "nat \<times> string list \<times> nat"

definition child_path :: "string list \<Rightarrow> string \<Rightarrow> string list" where
  "child_path path key = (if key = ''<<'' then path else path @ [key])"

text \<open>The entries of a mapping: the items below it and the findings, or the first repeated key.\<close>

fun visit_entries ::
  "yaml_graph \<Rightarrow> nat \<Rightarrow> string list \<Rightarrow> nat \<Rightarrow> string list \<Rightarrow> (nat \<times> nat) list \<Rightarrow> workflow_error + yaml_item list \<times> string list" where
  "visit_entries g document path depth keys [] = Inr ([], [])"
| "visit_entries g document path depth keys ((k, v) # rest) =
     (let key = yn_value (g k)
      in if List.member keys key then Inl (Duplicate_key key)
         else (case visit_entries g document path depth (key # keys) rest of
                 Inl e \<Rightarrow> Inl e
               | Inr (items, findings) \<Rightarrow>
                   Inr ((v, child_path path key, Suc depth) # items, entry_findings g document path key v @ findings)))"

definition step_findings :: "yaml_graph \<Rightarrow> string list \<Rightarrow> nat \<Rightarrow> string list" where
  "step_findings g path n =
     (if step_path path \<and> checkout_credentials_persist g n
      then [''actions/checkout requires literal persist-credentials: false''] else [])"

definition visit_node :: "yaml_graph \<Rightarrow> nat \<Rightarrow> yaml_item \<Rightarrow> workflow_error + yaml_item list \<times> string list" where
  "visit_node g document item =
     (case item of (n, path, depth) \<Rightarrow>
        (case yn_kind (g n) of
           Y_alias \<Rightarrow> Inr ([(yn_alias (g n), path, Suc depth)], [])
         | Y_document \<Rightarrow> Inr (map (\<lambda>child. (child, path, Suc depth)) (yn_content (g n)), [])
         | Y_sequence \<Rightarrow> Inr (map (\<lambda>child. (child, path @ [''[]''], Suc depth)) (yn_content (g n)), [])
         | Y_scalar \<Rightarrow> Inr ([], [])
         | Y_mapping \<Rightarrow>
             map_sum id (\<lambda>(items, findings). (items, step_findings g path n @ findings))
               (visit_entries g document path depth [] (pairs_of (yn_content (g n))))))"

text \<open>The loop: the top of the stack is the head of the list.\<close>

function inspect_nodes :: "yaml_graph \<Rightarrow> nat \<Rightarrow> nat \<Rightarrow> yaml_item list \<Rightarrow> string list \<Rightarrow> workflow_error + string list" where
  "inspect_nodes g document visited [] findings = Inr findings"
| "inspect_nodes g document visited (item # stack) findings =
     (if 100000 < Suc visited \<or> 100 < snd (snd item) then Inl Structure_limit
      else (case visit_node g document item of
              Inl e \<Rightarrow> Inl e
            | Inr (items, more_findings) \<Rightarrow>
                inspect_nodes g document (Suc visited) (rev items @ stack) (findings @ more_findings)))"
  by pat_completeness auto
termination by (relation "measure (\<lambda>(g, document, visited, stack, findings). 100000 - visited)") auto

declare inspect_nodes.simps [simp del] event_present_from.simps [simp del]

definition inspect_workflow_node :: "yaml_graph \<Rightarrow> nat \<Rightarrow> workflow_error + string list" where
  "inspect_workflow_node g document = inspect_nodes g document 0 [(document, [], 0)] []"

text \<open>What the decoder delivers of one input: its first document and what follows it.\<close>

datatype yaml_next = Yaml_document yaml_graph nat | Yaml_end | Yaml_failure

type_synonym yaml_decoder = "string \<Rightarrow> yaml_next \<times> yaml_next"

definition inspect_workflow_document :: "yaml_decoder \<Rightarrow> string \<Rightarrow> workflow_error + (yaml_graph \<times> nat) \<times> string list" where
  "inspect_workflow_document decoder content =
     (case decoder content of
        (Yaml_document g document, extra) \<Rightarrow>
          (case extra of
             Yaml_end \<Rightarrow> map_sum id (Pair (g, document)) (inspect_workflow_node g document)
           | Yaml_document _ _ \<Rightarrow> Inl Several_documents
           | Yaml_failure \<Rightarrow> Inl Workflow_undecoded)
      | _ \<Rightarrow> Inl Workflow_undecoded)"

definition inspect_workflow :: "yaml_decoder \<Rightarrow> string \<Rightarrow> workflow_error + string list" where
  "inspect_workflow decoder content = map_sum id snd (inspect_workflow_document decoder content)"

text \<open>
  The traversal of a workflow document against the policy of each of its nodes: what it accepts is
  bounded, has no repeated key, and has a finding exactly when some node that the document reaches
  breaks the policy.
\<close>

section \<open>The nodes of a document\<close>

text \<open>The items directly below an item, without the traversal.\<close>

definition node_items :: "yaml_graph \<Rightarrow> yaml_item \<Rightarrow> yaml_item list" where
  "node_items g item =
     (case item of (n, path, depth) \<Rightarrow>
        (case yn_kind (g n) of
           Y_alias \<Rightarrow> [(yn_alias (g n), path, Suc depth)]
         | Y_document \<Rightarrow> map (\<lambda>child. (child, path, Suc depth)) (yn_content (g n))
         | Y_sequence \<Rightarrow> map (\<lambda>child. (child, path @ [''[]''], Suc depth)) (yn_content (g n))
         | Y_scalar \<Rightarrow> []
         | Y_mapping \<Rightarrow> map (\<lambda>(k, v). (v, child_path path (yn_value (g k)), Suc depth)) (pairs_of (yn_content (g n)))))"

definition reaches :: "yaml_graph \<Rightarrow> yaml_item \<Rightarrow> yaml_item \<Rightarrow> bool" where
  "reaches g = rtranclp (\<lambda>i j. j \<in> set (node_items g i))"

definition reached :: "yaml_graph \<Rightarrow> nat \<Rightarrow> yaml_item set" where
  "reached g document = {j. reaches g (document, [], 0) j}"

lemma reaches_refl [simp]: "reaches g i i"
  by (simp add: reaches_def)

lemma reaches_first: "reaches g i j \<longleftrightarrow> j = i \<or> (\<exists>k \<in> set (node_items g i). reaches g k j)"
  unfolding reaches_def by (metis (no_types, lifting) converse_rtranclpE converse_rtranclp_into_rtranclp rtranclp.rtrancl_refl)

lemma reaches_trans: "reaches g i j \<Longrightarrow> reaches g j k \<Longrightarrow> reaches g i k"
  by (simp add: reaches_def)

definition entry_keys :: "yaml_graph \<Rightarrow> nat \<Rightarrow> string list" where
  "entry_keys g n = map (\<lambda>(k, v). yn_value (g k)) (pairs_of (yn_content (g n)))"

definition unique_entries :: "yaml_graph \<Rightarrow> yaml_item \<Rightarrow> bool" where
  "unique_entries g item \<longleftrightarrow> (if yn_kind (g (fst item)) = Y_mapping then distinct (entry_keys g (fst item)) else True)"

lemma map_sum_Inr: "map_sum id f x = Inr y \<longleftrightarrow> (\<exists>z. x = Inr z \<and> y = f z)"
  by (cases x) auto

section \<open>The policy of one node\<close>

text \<open>The value of an entry: what it must be below its key and path.\<close>

definition workflow_entry_policy :: "yaml_graph \<Rightarrow> nat \<Rightarrow> string list \<Rightarrow> nat \<times> nat \<Rightarrow> bool" where
  "workflow_entry_policy g document path entry \<longleftrightarrow>
     (case entry of (k, v) \<Rightarrow>
        (let key = yn_value (g k); r = resolve_alias g v
         in (if key = ''uses'' \<and> uses_path path
             then yn_kind (g r) = Y_scalar \<and> immutable_action_reference (yn_value (g r)) else True) \<and>
            (if key = ''image'' \<and> container_image_path path then pinned_container_image g document path r else True) \<and>
            (if key = ''container'' \<and> job_path path \<and> yn_kind (g r) = Y_scalar then pinned_container_image g document path r else True) \<and>
            (if key = ''permissions'' \<and> permissions_path path \<and> yn_kind (g r) = Y_scalar then yn_value (g r) \<noteq> ''write-all'' else True) \<and>
            (if key = ''on'' \<and> path = [] then \<not> workflow_event_present g r ''pull_request_target'' else True)))"

definition node_policy :: "yaml_graph \<Rightarrow> nat \<Rightarrow> yaml_item \<Rightarrow> bool" where
  "node_policy g document item \<longleftrightarrow>
     (case item of (n, path, depth) \<Rightarrow>
        if yn_kind (g n) = Y_mapping
        then \<not> (step_path path \<and> checkout_credentials_persist g n) \<and>
             list_all (workflow_entry_policy g document path) (pairs_of (yn_content (g n)))
        else True)"

lemma entry_findings_empty:
  "entry_findings g document path (yn_value (g k)) v = [] \<longleftrightarrow> workflow_entry_policy g document path (k, v)"
  by (simp add: entry_findings_def workflow_entry_policy_def Let_def)

lemma visited_entries:
  assumes "visit_entries g document path depth keys entries = Inr (items, findings)"
  shows "items = map (\<lambda>(k, v). (v, child_path path (yn_value (g k)), Suc depth)) entries \<and>
     distinct (map (\<lambda>(k, v). yn_value (g k)) entries) \<and> set (map (\<lambda>(k, v). yn_value (g k)) entries) \<inter> set keys = {} \<and>
     (findings = [] \<longleftrightarrow> list_all (workflow_entry_policy g document path) entries)"
  using assms
proof (induction entries arbitrary: keys items findings)
  case (Cons entry entries)
  obtain k v where entry: "entry = (k, v)" by (cases entry)
  obtain items' findings' where step: "yn_value (g k) \<notin> set keys"
      "visit_entries g document path depth (yn_value (g k) # keys) entries = Inr (items', findings')"
      "items = (v, child_path path (yn_value (g k)), Suc depth) # items'"
      "findings = entry_findings g document path (yn_value (g k)) v @ findings'"
    using Cons.prems by (auto simp: entry Let_def split: if_splits sum.splits)
  show ?case using Cons.IH [OF step(2)] step(1,3,4) by (auto simp: entry entry_findings_empty)
qed simp

lemma visited_node:
  assumes "visit_node g document item = Inr (items, findings)"
  shows "items = node_items g item" and "unique_entries g item" and "findings = [] \<longleftrightarrow> node_policy g document item"
proof -
  obtain n path depth where item: "item = (n, path, depth)" by (cases item)
  show "items = node_items g item" "unique_entries g item" "findings = [] \<longleftrightarrow> node_policy g document item"
    using assms visited_entries [of g document path depth "[]" "pairs_of (yn_content (g n))"]
    by (auto simp: visit_node_def item node_items_def unique_entries_def entry_keys_def node_policy_def step_findings_def
        map_sum_Inr split: yaml_kind.splits)
qed

section \<open>The traversal\<close>

definition below_stack :: "yaml_graph \<Rightarrow> yaml_item list \<Rightarrow> yaml_item set" where
  "below_stack g stack = {j. \<exists>i \<in> set stack. reaches g i j}"

lemma below_stack_step: "below_stack g (item # stack) = insert item (below_stack g (rev (node_items g item) @ stack))"
  by (auto simp: below_stack_def intro: reaches_first [THEN iffD2] dest: reaches_first [THEN iffD1])

lemma traversed:
  "inspect_nodes g document visited stack findings = Inr out \<Longrightarrow>
     below_stack g stack \<subseteq> {item. snd (snd item) \<le> 100 \<and> unique_entries g item} \<and>
     (out = [] \<longleftrightarrow> findings = [] \<and> below_stack g stack \<subseteq> {item. node_policy g document item})"
proof (induction g document visited stack findings rule: inspect_nodes.induct)
  case (1 g document visited findings)
  then show ?case by (simp add: inspect_nodes.simps below_stack_def)
next
  case (2 g document visited item stack findings)
  then obtain items more_findings where step: "snd (snd item) \<le> 100" "visit_node g document item = Inr (items, more_findings)"
      "inspect_nodes g document (Suc visited) (rev items @ stack) (findings @ more_findings) = Inr out"
      "\<not> (100000 < Suc visited \<or> 100 < snd (snd item))"
    by (auto simp: inspect_nodes.simps(2) split: if_splits sum.splits)
  note node = visited_node [OF step(2)]
  have rest: "below_stack g (rev items @ stack) \<subseteq> {item. snd (snd item) \<le> 100 \<and> unique_entries g item} \<and>
     (out = [] \<longleftrightarrow> findings @ more_findings = [] \<and> below_stack g (rev items @ stack) \<subseteq> {item. node_policy g document item})"
    by (rule "2.IH") (use step in simp_all)
  have below: "below_stack g (item # stack) = insert item (below_stack g (rev items @ stack))"
    using below_stack_step node(1) by simp
  show ?case
    unfolding below insert_subset using rest node(2,3) step(1) by auto
qed

lemma document_traversed:
  assumes "inspect_workflow_node g document = Inr findings"
  shows "reached g document \<subseteq> {item. snd (snd item) \<le> 100 \<and> unique_entries g item}"
    and "findings = [] \<longleftrightarrow> reached g document \<subseteq> {item. node_policy g document item}"
  using traversed [of g document 0 "[(document, [], 0)]" "[]" findings] assms
  by (simp_all add: inspect_workflow_node_def below_stack_def reached_def)

lemma inspected_document:
  assumes "inspect_workflow_document decoder content = Inr ((g, document), findings)"
  shows "inspect_workflow_node g document = Inr findings"
  using assms by (auto simp: inspect_workflow_document_def map_sum_Inr split: prod.splits yaml_next.splits)

text \<open>C9: a workflow document that the inspection accepts reaches only nodes of depth 100 at most, all without a
  repeated key, so that its aliases form no cycle; and it has no finding exactly when every node that
  it reaches has the policy: remote actions and images are immutable, no write-all permission, no
  pull\_request\_target, and no checkout that persists its credentials.\<close>

theorem workflow_policy_exact:
  "case inspect_workflow_document decoder content of
     Inl e \<Rightarrow> True
   | Inr ((g, document), findings) \<Rightarrow>
       reached g document \<subseteq> {item. snd (snd item) \<le> 100 \<and> unique_entries g item} \<and>
       (findings = [] \<longleftrightarrow> reached g document \<subseteq> {item. node_policy g document item})"
proof (cases "inspect_workflow_document decoder content")
  case (Inr x)
  obtain g document findings where x: "x = ((g, document), findings)" by (cases x) auto
  then show ?thesis using document_traversed [OF inspected_document [of decoder content g document findings]] Inr by simp
qed simp

section \<open>A merge through a sequence\<close>

text \<open>A step that merges a sequence of mappings: the traversal visits the merged mapping below
  \<open>[]\<close>, which is not the path of a step, and does not see its mutable action, although
  \<open>mapping_value\<close> resolves it as the action of the step.\<close>

definition merging_nodes :: "yaml_node list" where
  "merging_nodes =
     (let scalar = (\<lambda>v. \<lparr>yn_kind = Y_scalar, yn_value = v, yn_content = [], yn_alias = 0\<rparr>);
          node = (\<lambda>kind content. \<lparr>yn_kind = kind, yn_value = [], yn_content = content, yn_alias = 0\<rparr>)
      in [node Y_document [1], node Y_mapping [2, 3], scalar ''jobs'', node Y_mapping [4, 5], scalar ''build'',
          node Y_mapping [6, 7], scalar ''steps'', node Y_sequence [8], node Y_mapping [9, 10], scalar ''<<'',
          node Y_sequence [11], node Y_mapping [12, 13], scalar ''uses'', scalar ''other/action@main''])"

definition merging_workflow :: yaml_graph where
  "merging_workflow n = (if n < length merging_nodes then merging_nodes ! n else merging_nodes ! 0)"

lemma merging_workflow_at:
  "merging_workflow 0 = \<lparr>yn_kind = Y_document, yn_value = [], yn_content = [1], yn_alias = 0\<rparr>"
  "merging_workflow (Suc 0) = \<lparr>yn_kind = Y_mapping, yn_value = [], yn_content = [2, 3], yn_alias = 0\<rparr>"
  "merging_workflow 2 = \<lparr>yn_kind = Y_scalar, yn_value = ''jobs'', yn_content = [], yn_alias = 0\<rparr>"
  "merging_workflow 3 = \<lparr>yn_kind = Y_mapping, yn_value = [], yn_content = [4, 5], yn_alias = 0\<rparr>"
  "merging_workflow 4 = \<lparr>yn_kind = Y_scalar, yn_value = ''build'', yn_content = [], yn_alias = 0\<rparr>"
  "merging_workflow 5 = \<lparr>yn_kind = Y_mapping, yn_value = [], yn_content = [6, 7], yn_alias = 0\<rparr>"
  "merging_workflow 6 = \<lparr>yn_kind = Y_scalar, yn_value = ''steps'', yn_content = [], yn_alias = 0\<rparr>"
  "merging_workflow 7 = \<lparr>yn_kind = Y_sequence, yn_value = [], yn_content = [8], yn_alias = 0\<rparr>"
  "merging_workflow 8 = \<lparr>yn_kind = Y_mapping, yn_value = [], yn_content = [9, 10], yn_alias = 0\<rparr>"
  "merging_workflow 9 = \<lparr>yn_kind = Y_scalar, yn_value = ''<<'', yn_content = [], yn_alias = 0\<rparr>"
  "merging_workflow 10 = \<lparr>yn_kind = Y_sequence, yn_value = [], yn_content = [11], yn_alias = 0\<rparr>"
  "merging_workflow 11 = \<lparr>yn_kind = Y_mapping, yn_value = [], yn_content = [12, 13], yn_alias = 0\<rparr>"
  "merging_workflow 12 = \<lparr>yn_kind = Y_scalar, yn_value = ''uses'', yn_content = [], yn_alias = 0\<rparr>"
  "merging_workflow 13 = \<lparr>yn_kind = Y_scalar, yn_value = ''other/action@main'', yn_content = [], yn_alias = 0\<rparr>"
  by (simp_all add: merging_workflow_def merging_nodes_def Let_def)

lemma merging_action: "mapping_value merging_workflow ''uses'' 101 (Some 8) = Some 13"
proof -
  have "mapping_value merging_workflow ''uses'' (Suc (Suc n)) (Some 8) = Some 13" for n
    by (simp add: merging_workflow_at)
  from this [of 99] show ?thesis by simp
qed

lemma merging_not_checkout: "\<not> checkout_credentials_persist merging_workflow 8"
  by (simp add: checkout_credentials_persist_def merging_action resolve_alias_def merging_workflow_at equal_fold_checkout_def) code_simp

text \<open>the workflow whose step merges a sequence with a mutable action is inspected without a finding, although
  the value of \<open>uses\<close> that the merge gives the step is not an immutable reference.\<close>

theorem sequence_merge_unseen:
  "inspect_workflow_node merging_workflow 0 = Inr [] \<and>
     (case mapping_value merging_workflow ''uses'' 101 (Some 8) of
        None \<Rightarrow> False
      | Some n \<Rightarrow> \<not> immutable_action_reference (yn_value (merging_workflow n)))"
proof -
  have "inspect_workflow_node merging_workflow 0 = Inr []"
    by (simp add: inspect_workflow_node_def inspect_nodes.simps visit_node_def merging_workflow_at child_path_def
        entry_findings_def step_findings_def step_path_def uses_path_def job_path_def merging_not_checkout Let_def)
  moreover have "\<not> immutable_action_reference (yn_value (merging_workflow 13))"
    by (simp add: merging_workflow_at immutable_action_reference_def immutable_workflow_ref_def has_prefix_def Let_def)
  ultimately show ?thesis by (simp add: merging_action)
qed

end
