(* ===== verification/Workflow_Actions.thy ===== *)
theory Workflow_Actions
  imports Workflow_Yaml Gate_Run
begin

text \<open>
  internal/gates/workflows.go and local\_actions.go: the inspection of the workflows of a repository
  and of the local actions they use, and the run of the pinned verifier behind it.

  \<open>workflow_view\<close> is what the operating system shows: a walk view, whether the directory of the
  workflows and the root open as an \<open>os.Root\<close>, \<open>os.Stat\<close> (a directory or not), and the decoder.
\<close>

definition maximum_workflow_output :: int where "maximum_workflow_output = 4194304"
definition maximum_workflow_files :: int where "maximum_workflow_files = 512"
definition maximum_local_action_depth :: nat where "maximum_local_action_depth = 32"
definition maximum_workflow_bytes :: int where "maximum_workflow_bytes = 33554432"

record workflow_view = walk_view +
  wf_stat :: "string \<Rightarrow> io_error + bool"
  wf_open_root :: "string \<Rightarrow> io_error option"
  wf_decode :: yaml_decoder

datatype inspection_error =
    Inspection_stopped
  | Action_path_bad | Action_too_deep | Action_cycle | Action_path_symbolic | Action_unavailable
  | Action_descriptor_bad | Action_count | Action_root_unavailable | Action_unopened | Action_unread
  | Workflow_bytes_exceeded
  | Action_invalid | Action_policy_failed | Action_image_mutable
  | Walk_unbounded
  | Workflow_link string | Workflow_count | Workflow_file_type | Workflow_oversized string | Workflow_unread
  | Workflow_document string workflow_error
  | Workflow_directory | Workflow_root
  | Workflow_walk "inspection_error walk_error"
  | Workflow_findings "string list"

record inspection =
  in_ctx :: ctx
  in_active :: "string list"
  in_complete :: "string list"
  in_files :: int
  in_bytes :: int

type_synonym inspector = "inspection \<Rightarrow> inspection \<times> inspection_error option"

definition inspect_then :: "inspector \<Rightarrow> inspector \<Rightarrow> inspector" where
  "inspect_then a b st = (case a st of (st, None) \<Rightarrow> b st | (st, Some e) \<Rightarrow> (st, Some e))"

definition inspect_refuse :: "bool \<Rightarrow> inspection_error \<Rightarrow> inspector" where
  "inspect_refuse b e st = (st, if b then Some e else None)"

fun inspect_all :: "inspector list \<Rightarrow> inspector" where
  "inspect_all [] st = (st, None)"
| "inspect_all (f # fs) st = inspect_then f (inspect_all fs) st"

definition poll_inspection :: inspector where
  "poll_inspection st =
     (case poll_ctx (in_ctx st) of (stop, c) \<Rightarrow> (st\<lparr>in_ctx := c\<rparr>, if stop then Some Inspection_stopped else None))"

section \<open>The walk over a validated document (local\_actions.go)\<close>

text \<open>One entry of a mapping; \<open>local_action\<close> inspects a local action, \<open>below\<close> walks a node below.\<close>

definition action_entry ::
  "yaml_graph \<Rightarrow> (string \<Rightarrow> inspector) \<Rightarrow> bool \<Rightarrow> (string list \<Rightarrow> nat \<Rightarrow> inspector) \<Rightarrow> string list \<Rightarrow> nat \<times> nat \<Rightarrow> inspector" where
  "action_entry g local_action action below path entry =
     (case entry of (k, v) \<Rightarrow>
        (let key = yn_value (g k); node = g (resolve_alias g v)
         in inspect_then
              (if key = ''uses'' \<and> uses_path path \<and> has_prefix (yn_value node) ''./'' then local_action (yn_value node)
               else inspect_refuse False Action_invalid)
              (inspect_then
                (inspect_refuse (action \<and> key = ''image'' \<and> path = [''runs''] \<and>
                     (yn_kind node \<noteq> Y_scalar \<or> \<not> immutable_container_image (yn_value node))) Action_image_mutable)
                (below (child_path path key) v))))"

text \<open>The recursion of the code has no bound of its own: it walks documents whose traversal has ended,
  and \<open>levels\<close> is one more than the depth of such a document. A scalar has no content.\<close>

fun walk_node ::
  "yaml_graph \<Rightarrow> (string \<Rightarrow> inspector) \<Rightarrow> bool \<Rightarrow> nat \<Rightarrow> string list \<Rightarrow> nat \<Rightarrow> inspector" where
  "walk_node g local_action action 0 path n st = (st, Some Walk_unbounded)"
| "walk_node g local_action action (Suc levels) path n st =
     (case yn_kind (g n) of
        Y_alias \<Rightarrow> walk_node g local_action action levels path (yn_alias (g n)) st
      | Y_mapping \<Rightarrow>
          inspect_all (map (action_entry g local_action action (walk_node g local_action action levels) path)
            (pairs_of (yn_content (g n)))) st
      | Y_sequence \<Rightarrow> inspect_all (map (walk_node g local_action action levels (path @ [''[]''])) (yn_content (g n))) st
      | Y_document \<Rightarrow> inspect_all (map (walk_node g local_action action levels path) (yn_content (g n))) st
      | Y_scalar \<Rightarrow> (st, None))"

declare walk_node.simps [simp del]

definition walk_document :: "yaml_graph \<times> nat \<Rightarrow> (string \<Rightarrow> inspector) \<Rightarrow> bool \<Rightarrow> inspector" where
  "walk_document document local_action action = walk_node (fst document) local_action action 101 [] (snd document)"

definition inspect_validated :: "yaml_graph \<times> nat \<Rightarrow> (string \<Rightarrow> inspector) \<Rightarrow> bool \<Rightarrow> inspector" where
  "inspect_validated document local_action action =
     inspect_then poll_inspection (walk_document document local_action action)"

definition inspect_content :: "yaml_decoder \<Rightarrow> (string \<Rightarrow> inspector) \<Rightarrow> bool \<Rightarrow> string \<Rightarrow> inspector" where
  "inspect_content decoder local_action action content =
     inspect_then poll_inspection
       (case inspect_workflow_document decoder content of
          Inl e \<Rightarrow> inspect_refuse True Action_invalid
        | Inr (document, findings) \<Rightarrow>
            inspect_then (inspect_refuse (action \<and> findings \<noteq> []) Action_policy_failed)
              (walk_document document local_action action))"

section \<open>Local actions\<close>

text \<open>\<open>filepath.IsLocal\<close> of a clean path: it is relative and does not start above its directory.\<close>

definition canonical_local :: "string \<Rightarrow> bool" where
  "canonical_local name \<longleftrightarrow>
     name \<noteq> [] \<and> \<not> is_abs name \<and> name \<noteq> ''..'' \<and> \<not> has_prefix name ''../'' \<and> path_clean name = name \<and>
     \<not> List.member name CHR 0x5C"

fun local_parts :: "workflow_view \<Rightarrow> string \<Rightarrow> string list \<Rightarrow> string option" where
  "local_parts view current [] = Some current"
| "local_parts view current (part # parts) =
     (let current = path_join [current, part]
      in case sv_lstat view current of
           Inr (Some info) \<Rightarrow> if fi_kind info = Kind_symlink then None else local_parts view current parts
         | _ \<Rightarrow> None)"

text \<open>The descriptor of an action: the file itself, or \<open>action.yml\<close> or \<open>action.yaml\<close> in a directory.\<close>

definition descriptor_name :: "workflow_view \<Rightarrow> string \<Rightarrow> string \<Rightarrow> bool \<Rightarrow> string" where
  "descriptor_name view base name directory =
     (if \<not> directory then name
      else (let yml = path_join [name, ''action.yml'']
            in if sv_lstat view (path_join [base, yml]) = Inl Err_not_exist then trim_suffix yml ''.yml'' @ ''.yaml'' else yml))"

definition descriptor_error :: "workflow_view \<Rightarrow> string \<Rightarrow> inspection_error option" where
  "descriptor_error view path =
     (case sv_lstat view path of
        Inr (Some info) \<Rightarrow> refuse (fi_kind info \<noteq> Kind_regular \<or> maximum_workflow_output < fi_size info) Action_descriptor_bad
      | _ \<Rightarrow> Some Action_descriptor_bad)"

definition read_descriptor :: "workflow_view \<Rightarrow> string \<Rightarrow> string \<Rightarrow> inspection_error + string" where
  "read_descriptor view base name =
     (if wf_open_root view base \<noteq> None then Inl Action_root_unavailable
      else (let path = path_join [base, name]
            in case sv_open view path of
                 Inr (Some f) \<Rightarrow>
                   if of_failed f \<or> \<not> wv_close view path \<or> maximum_workflow_output < int (length (of_content f))
                   then Inl Action_unread else Inr (of_content f)
               | _ \<Rightarrow> Inl Action_unopened))"

definition count_file :: "inspection_error \<Rightarrow> inspector" where
  "count_file e st = (st\<lparr>in_files := in_files st + 1\<rparr>, if maximum_workflow_files < in_files st + 1 then Some e else None)"

definition count_bytes :: "int \<Rightarrow> string \<Rightarrow> inspector" where
  "count_bytes limit content st =
     (st\<lparr>in_bytes := in_bytes st + int (length content)\<rparr>,
      if limit < in_bytes st + int (length content) then Some Workflow_bytes_exceeded else None)"

text \<open>The inspection of an action under its mark.\<close>

definition under_mark :: "string \<Rightarrow> inspector \<Rightarrow> inspector" where
  "under_mark key f st =
     (case f (st\<lparr>in_active := key # in_active st\<rparr>) of
        (st, e) \<Rightarrow>
          (let st = st\<lparr>in_active := filter (\<lambda>k. k \<noteq> key) (in_active st)\<rparr>
           in case e of None \<Rightarrow> (st\<lparr>in_complete := key # in_complete st\<rparr>, None) | Some e \<Rightarrow> (st, Some e)))"

definition open_action :: "workflow_view \<Rightarrow> string \<Rightarrow> string \<Rightarrow> (string \<Rightarrow> inspector) \<Rightarrow> inspector" where
  "open_action view base name inspect_below =
     (case local_parts view base (split_on CHR ''/'' name) of
        None \<Rightarrow> inspect_refuse True Action_path_symbolic
      | Some current \<Rightarrow>
          (case wf_stat view current of
             Inl e \<Rightarrow> inspect_refuse True Action_unavailable
           | Inr directory \<Rightarrow>
               (let file = descriptor_name view base name directory
                in case descriptor_error view (path_join [base, file]) of
                     Some e \<Rightarrow> inspect_refuse True e
                   | None \<Rightarrow>
                       inspect_then (count_file Action_count)
                         (case read_descriptor view base file of
                            Inl e \<Rightarrow> inspect_refuse True e
                          | Inr content \<Rightarrow>
                              inspect_then (count_bytes maximum_workflow_bytes content) (under_mark name (inspect_below content))))))"

text \<open>\<open>levels\<close> counts the depths that are left below the caller.\<close>

fun local_action :: "workflow_view \<Rightarrow> string \<Rightarrow> nat \<Rightarrow> string \<Rightarrow> inspector" where
  "local_action view base levels reference st =
     (let name = trim_prefix reference ''./''
      in if \<not> canonical_local name then (st, Some Action_path_bad)
         else (case levels of
                 0 \<Rightarrow> (st, Some Action_too_deep)
               | Suc levels \<Rightarrow>
                   if List.member (in_active st) name then (st, Some Action_cycle)
                   else if List.member (in_complete st) name then (st, None)
                   else open_action view base name (inspect_content (wf_decode view) (local_action view base levels) True) st))"

declare local_action.simps [simp del]

section \<open>The workflows of a repository\<close>

record workflow_state =
  ws_inspection :: inspection
  ws_findings :: "string list"

definition read_workflow_descriptor :: "workflow_view \<Rightarrow> string \<Rightarrow> string \<Rightarrow> dir_entry \<Rightarrow> int \<Rightarrow> inspection_error + string" where
  "read_workflow_descriptor view directory relative entry limit =
     (let path = path_join [directory, relative]
      in case sv_lstat view path of
           Inr (Some info) \<Rightarrow>
             if fi_kind info \<noteq> Kind_regular then Inl Workflow_file_type
             else if limit < fi_size info then Inl (Workflow_oversized (de_name entry))
             else (case sv_open view path of
                     Inr (Some f) \<Rightarrow>
                       if (of_failed f \<and> int (length (of_content f)) \<le> limit) \<or> \<not> wv_close view path then Inl Workflow_unread
                       else if limit < int (length (of_content f)) then Inl (Workflow_oversized (de_name entry))
                       else Inr (of_content f)
                   | _ \<Rightarrow> Inl Workflow_unread)
         | _ \<Rightarrow> Inl Workflow_unread)"

definition inspect_workflow_file :: "workflow_view \<Rightarrow> string \<Rightarrow> string \<Rightarrow> dir_entry \<Rightarrow> workflow_state \<Rightarrow> workflow_state \<times> inspection_error option" where
  "inspect_workflow_file view base relative entry ws =
     (case count_file Workflow_count (ws_inspection ws) of
        (st, Some e) \<Rightarrow> (ws\<lparr>ws_inspection := st\<rparr>, Some e)
      | (st, None) \<Rightarrow>
          (case read_workflow_descriptor view (path_join [base, ''.github'', ''workflows'']) relative entry maximum_workflow_output of
             Inl e \<Rightarrow> (ws\<lparr>ws_inspection := st\<rparr>, Some e)
           | Inr content \<Rightarrow>
               (case count_bytes maximum_workflow_bytes content st of
                  (st, Some e) \<Rightarrow> (ws\<lparr>ws_inspection := st\<rparr>, Some e)
                | (st, None) \<Rightarrow>
                    (case inspect_workflow_document (wf_decode view) content of
                       Inl e \<Rightarrow> (ws\<lparr>ws_inspection := st\<rparr>, Some (Workflow_document (de_name entry) e))
                     | Inr (document, findings) \<Rightarrow>
                         (case inspect_validated document (local_action view base maximum_local_action_depth) False st of
                            (st, e) \<Rightarrow>
                              (ws\<lparr>ws_inspection := st,
                                 ws_findings := ws_findings ws @ map (\<lambda>f. de_name entry @ '': '' @ f) findings\<rparr>, e))))))"

definition workflow_visit :: "workflow_view \<Rightarrow> string \<Rightarrow> (workflow_state, inspection_error) visitor" where
  "workflow_visit view base relative entry c ws =
     (if de_kind entry = Kind_directory then (c, ws, Visit_on)
      else if de_kind entry = Kind_symlink then (c, ws, Visit_failed (Workflow_link (de_name entry)))
      else if path_ext (de_name entry) \<noteq> ''.yml'' \<and> path_ext (de_name entry) \<noteq> ''.yaml'' then (c, ws, Visit_on)
      else (case inspect_workflow_file view base relative entry (ws\<lparr>ws_inspection := (ws_inspection ws)\<lparr>in_ctx := c\<rparr>\<rparr>) of
              (ws, e) \<Rightarrow> (in_ctx (ws_inspection ws), ws, case e of None \<Rightarrow> Visit_on | Some e \<Rightarrow> Visit_failed e)))"

text \<open>The directories that must exist: \<open>Some None\<close> ends the check without an error.\<close>

fun workflow_directories :: "workflow_view \<Rightarrow> string list \<Rightarrow> inspection_error option option" where
  "workflow_directories view [] = None"
| "workflow_directories view (name # names) =
     (case sv_lstat view name of
        Inl Err_not_exist \<Rightarrow> Some None
      | Inr (Some info) \<Rightarrow>
          if fi_kind info \<noteq> Kind_directory then Some (Some Workflow_directory) else workflow_directories view names
      | _ \<Rightarrow> Some (Some Workflow_directory))"

definition empty_workflow_state :: "ctx \<Rightarrow> workflow_state" where
  "empty_workflow_state c =
     \<lparr>ws_inspection = \<lparr>in_ctx = c, in_active = [], in_complete = [], in_files = 0, in_bytes = 0\<rparr>, ws_findings = []\<rparr>"

definition check_workflow_security :: "workflow_view \<Rightarrow> string \<Rightarrow> ctx \<Rightarrow> ctx \<times> inspection_error option" where
  "check_workflow_security view base c =
     (let directory = path_join [base, ''.github'', ''workflows'']
      in case workflow_directories view [path_join [base, ''.github''], directory] of
           Some e \<Rightarrow> (c, e)
         | None \<Rightarrow>
             (case wf_open_root view directory of
                Some Err_not_exist \<Rightarrow> (c, None)
              | Some e \<Rightarrow> (c, Some Workflow_root)
              | None \<Rightarrow>
                  (case walk_security_source (walk_view.truncate view) (workflow_visit view base) maximum_security_source_files directory c
                          (empty_workflow_state c) of
                     (st, Some e) \<Rightarrow> (wk_ctx st, Some (Workflow_walk e))
                   | (st, None) \<Rightarrow>
                       (wk_ctx st,
                        if ws_findings (wk_visitor st) = [] then None
                        else Some (Workflow_findings (sort (ws_findings (wk_visitor st))))))))"

section \<open>The verifier\<close>

record workflow_buffer =
  wb_data :: string
  wb_overflow :: bool

definition workflow_write :: "string \<Rightarrow> workflow_buffer \<Rightarrow> workflow_buffer" where
  "workflow_write v b =
     (let remaining = maximum_workflow_output - int (length (wb_data b))
      in if int (length v) \<le> remaining then b\<lparr>wb_data := wb_data b @ v\<rparr>
         else b\<lparr>wb_data := wb_data b @ take (nat remaining) v, wb_overflow := True\<rparr>)"

definition workflow_output :: "stream \<Rightarrow> process_outcome \<Rightarrow> workflow_buffer" where
  "workflow_output s outcome = fold workflow_write (stream_writes s outcome) \<lparr>wb_data = [], wb_overflow = False\<rparr>"

definition actionlint_command :: "runner \<Rightarrow> gate_command" where
  "actionlint_command rn =
     gate_command_of Verifier_cache False ''go''
       [''run'', ''github.com/rhysd/actionlint/cmd/actionlint@v1.7.12'', ''-no-color'', ''-oneline'', ''-shellcheck='', ''-pyflakes='']
       (rn_root rn) gowork_off"

datatype workflows_error = Workflow_refused inspection_error | Actionlint_overflow | Actionlint_failed process_error string

definition actionlint_verdict :: "process_outcome \<Rightarrow> workflows_error option" where
  "actionlint_verdict outcome =
     (let out = workflow_output Stdout outcome; diagnostics = workflow_output Stderr outcome
      in if wb_overflow out \<or> wb_overflow diagnostics then Some Actionlint_overflow
         else map_option (\<lambda>e. Actionlint_failed e (trim_space (wb_data out @ [CHR 0x0A] @ wb_data diagnostics))) (po_error outcome))"

definition workflows :: "gate_kit \<Rightarrow> workflow_view \<Rightarrow> runner \<Rightarrow> run \<Rightarrow> run \<times> workflows_error option" where
  "workflows kit view rn r =
     (case check_workflow_security view (rn_root rn) (rn_ctx r) of
        (c, Some e) \<Rightarrow> (r\<lparr>rn_ctx := c\<rparr>, Some (Workflow_refused e))
      | (c, None) \<Rightarrow>
          (case gk_executor kit (service_command rn (actionlint_command rn)) (rn_world r) of
             (w, outcome) \<Rightarrow>
               (let ran = rn_events r @ [Ran (service_command rn (actionlint_command rn))];
                    r = r\<lparr>rn_ctx := (if po_cancelled outcome then Some 0 else c), rn_world := w, rn_events := ran\<rparr>
                in case actionlint_verdict outcome of
                     Some e \<Rightarrow> (r, Some e)
                   | None \<Rightarrow> (r\<lparr>rn_events := ran @ [Printed (''workflow contract passed'' @ [CHR 0x0A])]\<rparr>, None))))"

end
