(* ===== verification/Workflow_Facts.thy ===== *)
theory Workflow_Facts
  imports Workflow_Actions Workflow_Yaml Gate_Source_Facts
begin

text \<open>
  What accepted workflows show: the local actions that the documents name, directly or through other
  actions, were all inspected and have no finding; and the recursion over documents and actions,
  which the code does not bound itself, always ends.
\<close>

section \<open>What a document names\<close>

definition item_uses :: "yaml_graph \<Rightarrow> yaml_item \<Rightarrow> string list" where
  "item_uses g item =
     (case item of (n, path, depth) \<Rightarrow>
        if yn_kind (g n) = Y_mapping \<and> uses_path path
        then filter (\<lambda>s. has_prefix s ''./'')
               (map (\<lambda>(k, v). yn_value (g (resolve_alias g v))) (filter (\<lambda>(k, v). yn_value (g k) = ''uses'') (pairs_of (yn_content (g n)))))
        else [])"

definition item_images_pinned :: "yaml_graph \<Rightarrow> yaml_item \<Rightarrow> bool" where
  "item_images_pinned g item \<longleftrightarrow>
     (case item of (n, path, depth) \<Rightarrow>
        if yn_kind (g n) = Y_mapping \<and> path = [''runs'']
        then list_all (\<lambda>(k, v). yn_kind (g (resolve_alias g v)) = Y_scalar \<and> immutable_container_image (yn_value (g (resolve_alias g v))))
               (filter (\<lambda>(k, v). yn_value (g k) = ''image'') (pairs_of (yn_content (g n))))
        else True)"

text \<open>The local actions that items name, without the leading \<open>./\<close>.\<close>

definition names_of :: "yaml_graph \<Rightarrow> yaml_item set \<Rightarrow> string set" where
  "names_of g items = (\<Union>item \<in> items. set (map (\<lambda>s. trim_prefix s ''./'') (item_uses g item)))"

definition below_item :: "yaml_graph \<Rightarrow> yaml_item \<Rightarrow> yaml_item set" where
  "below_item g item = {j. reaches g item j}"

lemma below_item_step: "below_item g item = insert item (\<Union>k \<in> set (node_items g item). below_item g k)"
  by (auto simp: below_item_def intro: reaches_first [THEN iffD2] dest: reaches_first [THEN iffD1])

section \<open>Admitted actions\<close>

text \<open>An admitted action has a descriptor without a finding, whose images are pinned and whose local
  actions are all among \<open>known\<close>.\<close>

definition action_admitted :: "workflow_view \<Rightarrow> string \<Rightarrow> string set \<Rightarrow> string \<Rightarrow> bool" where
  "action_admitted view base known name \<longleftrightarrow>
     (\<exists>file content g document.
        file \<in> {name, path_join [name, ''action.yml''], trim_suffix (path_join [name, ''action.yml'']) ''.yml'' @ ''.yaml''} \<and>
        read_descriptor view base file = Inr content \<and>
        inspect_workflow_document (wf_decode view) content = Inr ((g, document), []) \<and>
        reached g document \<subseteq> {item. item_images_pinned g item} \<and> names_of g (reached g document) \<subseteq> known)"

lemma action_admitted_mono: "action_admitted view base known name \<Longrightarrow> known \<subseteq> known' \<Longrightarrow> action_admitted view base known' name"
  unfolding action_admitted_def by blast

definition admitted :: "workflow_view \<Rightarrow> string \<Rightarrow> inspection \<Rightarrow> bool" where
  "admitted view base st \<longleftrightarrow> set (in_complete st) \<subseteq> {name. action_admitted view base (set (in_complete st)) name}"

text \<open>What every step of an inspection keeps: it forgets no complete action, it completes admitted
  actions only, and it does not run out of levels.\<close>

definition sound_step :: "workflow_view \<Rightarrow> string \<Rightarrow> inspector \<Rightarrow> bool" where
  "sound_step view base f \<longleftrightarrow>
     (\<forall>st. set (in_complete st) \<subseteq> set (in_complete (fst (f st))) \<and>
        (admitted view base st \<longrightarrow> admitted view base (fst (f st))) \<and> snd (f st) \<noteq> Some Walk_unbounded)"

named_theorems sound_steps \<open>steps of an inspection that keep what it has completed\<close>

lemma sound_stepD:
  assumes "sound_step view base f" and "f st = (st', e)"
  shows "set (in_complete st) \<subseteq> set (in_complete st')" and "admitted view base st \<Longrightarrow> admitted view base st'"
    and "e \<noteq> Some Walk_unbounded"
  using assms(1) [unfolded sound_step_def, rule_format, of st] assms(2) by simp_all

lemma sound_unchanged:
  assumes "\<And>st. in_complete (fst (f st)) = in_complete st" and "\<And>st. snd (f st) \<noteq> Some Walk_unbounded"
  shows "sound_step view base f"
  using assms by (simp add: sound_step_def admitted_def)

lemma sound_refuse [sound_steps]: "e \<noteq> Walk_unbounded \<Longrightarrow> sound_step view base (inspect_refuse b e)"
  by (rule sound_unchanged) (simp_all add: inspect_refuse_def)

lemma sound_poll [sound_steps]: "sound_step view base poll_inspection"
  by (rule sound_unchanged) (simp_all add: poll_inspection_def split: prod.splits)

lemma sound_count_file [sound_steps]: "e \<noteq> Walk_unbounded \<Longrightarrow> sound_step view base (count_file e)"
  by (rule sound_unchanged) (simp_all add: count_file_def)

lemma sound_count_bytes [sound_steps]: "sound_step view base (count_bytes limit content)"
  by (rule sound_unchanged) (simp_all add: count_bytes_def)

lemma sound_then [sound_steps]:
  assumes "sound_step view base a" and "sound_step view base b"
  shows "sound_step view base (inspect_then a b)"
  unfolding sound_step_def
proof
  fix st
  obtain st1 e where a: "a st = (st1, e)" by (cases "a st")
  obtain st2 e' where b: "b st1 = (st2, e')" by (cases "b st1")
  show "set (in_complete st) \<subseteq> set (in_complete (fst (inspect_then a b st))) \<and>
      (admitted view base st \<longrightarrow> admitted view base (fst (inspect_then a b st))) \<and> snd (inspect_then a b st) \<noteq> Some Walk_unbounded"
    using sound_stepD [OF assms(1) a] sound_stepD [OF assms(2) b] a b by (cases e) (auto simp: inspect_then_def)
qed

lemma sound_all [sound_steps]: "(\<And>f. f \<in> set fs \<Longrightarrow> sound_step view base f) \<Longrightarrow> sound_step view base (inspect_all fs)"
proof (induction fs)
  case Nil
  show ?case by (rule sound_unchanged) simp_all
next
  case (Cons f fs)
  have "sound_step view base (inspect_then f (inspect_all fs))" using Cons by (intro sound_then) simp_all
  then show ?case by (simp add: sound_step_def)
qed

lemma sound_if [sound_steps]: "sound_step view base a \<Longrightarrow> sound_step view base b \<Longrightarrow> sound_step view base (if p then a else b)"
  by simp

section \<open>The walk\<close>

text \<open>An inspection of local actions: every one is sound, and completes its action when it succeeds.\<close>

definition sound_caller :: "workflow_view \<Rightarrow> string \<Rightarrow> (string \<Rightarrow> inspector) \<Rightarrow> bool" where
  "sound_caller view base la \<longleftrightarrow>
     (\<forall>reference. sound_step view base (la reference)) \<and>
     (\<forall>reference st st'. la reference st = (st', None) \<longrightarrow> trim_prefix reference ''./'' \<in> set (in_complete st'))"

lemma sound_callerD:
  assumes "sound_caller view base la"
  shows "sound_step view base (la reference)"
    and "la reference st = (st', None) \<Longrightarrow> trim_prefix reference ''./'' \<in> set (in_complete st')"
  using assms by (simp_all add: sound_caller_def)

lemma sound_entry:
  assumes "\<And>reference. sound_step view base (la reference)" and "\<And>path n. (n, path) = (snd entry, child_path p (yn_value (g (fst entry)))) \<Longrightarrow> sound_step view base (below path n)"
  shows "sound_step view base (action_entry g la action below p entry)"
  using assms by (cases entry) (auto simp: action_entry_def Let_def intro!: sound_steps)

lemma sound_walk:
  assumes "\<And>reference. sound_step view base (la reference)"
  shows "below_item g (n, path, depth) \<subseteq> {item. snd (snd item) \<le> 100} \<Longrightarrow> depth + levels = 101 \<Longrightarrow>
     sound_step view base (walk_node g la action levels path n)"
proof (induction levels arbitrary: n path depth)
  case 0
  then show ?case by (auto simp: below_item_step [of g "(n, path, depth)"])
next
  case (Suc levels)
  have next_sound: "sound_step view base (walk_node g la action levels p m)" if "(m, p, Suc depth) \<in> set (node_items g (n, path, depth))" for m p
  proof (rule Suc.IH)
    show "below_item g (m, p, Suc depth) \<subseteq> {item. snd (snd item) \<le> 100}"
      using Suc.prems(1) that unfolding below_item_step [of g "(n, path, depth)"] by blast
  qed (use Suc.prems(2) in simp)
  show ?case
  proof (cases "yn_kind (g n)")
    case Y_document
    have "sound_step view base (inspect_all (map (walk_node g la action levels path) (yn_content (g n))))"
      by (rule sound_all) (auto simp: Y_document node_items_def intro!: next_sound)
    then show ?thesis by (simp add: sound_step_def walk_node.simps(2) Y_document)
  next
    case Y_sequence
    have "sound_step view base (inspect_all (map (walk_node g la action levels (path @ [''[]''])) (yn_content (g n))))"
      by (rule sound_all) (auto simp: Y_sequence node_items_def intro!: next_sound)
    then show ?thesis by (simp add: sound_step_def walk_node.simps(2) Y_sequence)
  next
    case Y_mapping
    have "sound_step view base (inspect_all (map (action_entry g la action (walk_node g la action levels) path) (pairs_of (yn_content (g n)))))"
    proof (rule sound_all)
      fix f
      assume "f \<in> set (map (action_entry g la action (walk_node g la action levels) path) (pairs_of (yn_content (g n))))"
      then obtain k v where kv: "(k, v) \<in> set (pairs_of (yn_content (g n)))"
          and f: "f = action_entry g la action (walk_node g la action levels) path (k, v)" by auto
      have item: "(v, child_path path (yn_value (g k)), Suc depth) \<in> set (node_items g (n, path, depth))"
        using kv by (force simp: Y_mapping node_items_def)
      show "sound_step view base f" unfolding f by (rule sound_entry [OF assms]) (use next_sound [OF item] in simp)
    qed
    then show ?thesis by (simp add: sound_step_def walk_node.simps(2) Y_mapping)
  next
    case Y_scalar
    show ?thesis by (rule sound_unchanged) (simp_all add: walk_node.simps(2) Y_scalar)
  next
    case Y_alias
    have "sound_step view base (walk_node g la action levels path (yn_alias (g n)))"
      by (rule next_sound) (simp add: Y_alias node_items_def)
    then show ?thesis by (simp add: sound_step_def walk_node.simps(2) Y_alias)
  qed
qed

lemma then_success: "inspect_then a b st = (st', None) \<longleftrightarrow> (\<exists>mid. a st = (mid, None) \<and> b mid = (st', None))"
  by (auto simp: inspect_then_def split: prod.splits option.splits)

lemma refuse_success: "inspect_refuse b e st = (st', None) \<longleftrightarrow> \<not> b \<and> st' = st"
  by (auto simp: inspect_refuse_def)

lemma all_success:
  "inspect_all fs st = (st', None) \<Longrightarrow> (\<And>f. f \<in> set fs \<Longrightarrow> sound_step view base f) \<Longrightarrow> f \<in> set fs \<Longrightarrow>
     \<exists>s1 s2. f s1 = (s2, None) \<and> set (in_complete s2) \<subseteq> set (in_complete st')"
proof (induction fs arbitrary: st)
  case (Cons f' fs)
  obtain mid where mid: "f' st = (mid, None)" "inspect_all fs mid = (st', None)"
    using Cons.prems(1) by (auto simp: then_success)
  have "sound_step view base (inspect_all fs)" using Cons.prems(2) by (intro sound_all) simp
  then have "set (in_complete mid) \<subseteq> set (in_complete st')" using sound_stepD(1) mid(2) by blast
  then show ?case using Cons.IH [OF mid(2)] Cons.prems(2,3) mid(1) by auto
qed simp

lemma names_of_insert: "names_of g (insert item items) = set (map (\<lambda>s. trim_prefix s ''./'') (item_uses g item)) \<union> names_of g items"
  by (simp add: names_of_def)

lemma names_of_UN: "names_of g (\<Union>k \<in> ks. f k) = (\<Union>k \<in> ks. names_of g (f k))"
  by (simp add: names_of_def)

text \<open>What a walk without an error leaves: the names below are complete, and the images below are pinned
  when the document is an action.\<close>

definition covered_below :: "yaml_graph \<Rightarrow> bool \<Rightarrow> inspection \<Rightarrow> yaml_item set \<Rightarrow> bool" where
  "covered_below g action st items \<longleftrightarrow>
     names_of g items \<subseteq> set (in_complete st) \<and> (action \<longrightarrow> items \<subseteq> {item. item_images_pinned g item})"

lemma covered_mono:
  "covered_below g action st items \<Longrightarrow> set (in_complete st) \<subseteq> set (in_complete st') \<Longrightarrow> covered_below g action st' items"
  unfolding covered_below_def by blast

lemma covered_step:
  assumes "\<And>k. k \<in> set (node_items g item) \<Longrightarrow> covered_below g action st (below_item g k)"
    and "set (map (\<lambda>s. trim_prefix s ''./'') (item_uses g item)) \<subseteq> set (in_complete st)" and "action \<Longrightarrow> item_images_pinned g item"
  shows "covered_below g action st (below_item g item)"
  unfolding covered_below_def below_item_step [of g item] names_of_insert names_of_UN
  using assms unfolding covered_below_def by blast

lemma plain_item:
  "yn_kind (g n) \<noteq> Y_mapping \<Longrightarrow> item_uses g (n, path, depth) = [] \<and> item_images_pinned g (n, path, depth)"
  by (simp add: item_uses_def item_images_pinned_def)

lemma walk_success:
  assumes caller: "sound_caller view base la"
  shows "below_item g (n, path, depth) \<subseteq> {item. snd (snd item) \<le> 100} \<Longrightarrow> depth + levels = 101 \<Longrightarrow>
     walk_node g la action levels path n st = (st', None) \<Longrightarrow> covered_below g action st' (below_item g (n, path, depth))"
proof (induction levels arbitrary: n path depth st st')
  case 0
  then show ?case by (auto simp: below_item_step [of g "(n, path, depth)"])
next
  case (Suc levels)
  note la = sound_callerD(1) [OF caller] and named = sound_callerD(2) [OF caller]
  have depth: "below_item g (m, p, Suc depth) \<subseteq> {item. snd (snd item) \<le> 100}" if "(m, p, Suc depth) \<in> set (node_items g (n, path, depth))" for m p
    using Suc.prems(1) that unfolding below_item_step [of g "(n, path, depth)"] by blast
  have sound: "sound_step view base (walk_node g la action levels p m)" if "(m, p, Suc depth) \<in> set (node_items g (n, path, depth))" for m p
    using sound_walk [OF la depth [OF that]] Suc.prems(2) by simp
  have covered: "covered_below g action st' (below_item g (m, p, Suc depth))"
    if "(m, p, Suc depth) \<in> set (node_items g (n, path, depth))" "walk_node g la action levels p m s1 = (s2, None)"
      "set (in_complete s2) \<subseteq> set (in_complete st')" for m p s1 s2
    using covered_mono [OF Suc.IH [OF depth [OF that(1)] _ that(2)] that(3)] Suc.prems(2) by simp
  have each: ?case
    if "yn_kind (g n) \<noteq> Y_mapping" and children: "node_items g (n, path, depth) = map (\<lambda>m. (m, p, Suc depth)) ms"
      and walked: "inspect_all (map (walk_node g la action levels p) ms) st = (st', None)" for p ms
  proof (rule covered_step)
    fix k
    assume k: "k \<in> set (node_items g (n, path, depth))"
    then obtain m where m: "k = (m, p, Suc depth)" "m \<in> set ms" by (auto simp: children)
    have "\<exists>s1 s2. walk_node g la action levels p m s1 = (s2, None) \<and> set (in_complete s2) \<subseteq> set (in_complete st')"
      by (rule all_success [OF walked]) (use m(2) sound children in auto)
    then show "covered_below g action st' (below_item g k)" using covered k m(1) by blast
  qed (use plain_item [of g n path depth] that(1) in simp_all)
  show ?case
  proof (cases "yn_kind (g n)")
    case Y_document
    show ?thesis by (rule each [of path "yn_content (g n)"]) (use Suc.prems(3) in \<open>simp_all add: Y_document node_items_def walk_node.simps(2)\<close>)
  next
    case Y_sequence
    show ?thesis by (rule each [of "path @ [''[]'']" "yn_content (g n)"]) (use Suc.prems(3) in \<open>simp_all add: Y_sequence node_items_def walk_node.simps(2)\<close>)
  next
    case Y_scalar
    show ?thesis using plain_item [of g n path depth] by - (rule covered_step, simp_all add: Y_scalar node_items_def)
  next
    case Y_alias
    have child: "(yn_alias (g n), path, Suc depth) \<in> set (node_items g (n, path, depth))" by (simp add: Y_alias node_items_def)
    have "covered_below g action st' (below_item g (yn_alias (g n), path, Suc depth))"
      using covered [OF child, of st st'] Suc.prems(3) by (simp add: Y_alias walk_node.simps(2))
    then show ?thesis using plain_item [of g n path depth] by - (rule covered_step, simp_all add: Y_alias node_items_def)
  next
    case Y_mapping
    let ?entries = "pairs_of (yn_content (g n))" and ?f = "action_entry g la action (walk_node g la action levels) path"
    have walked: "inspect_all (map ?f ?entries) st = (st', None)" using Suc.prems(3) by (simp add: Y_mapping walk_node.simps(2))
    have item: "(v, child_path path (yn_value (g k)), Suc depth) \<in> set (node_items g (n, path, depth))" if "(k, v) \<in> set ?entries" for k v
      using that by (force simp: Y_mapping node_items_def)
    have entry_sound: "sound_step view base f" if member: "f \<in> set (map ?f ?entries)" for f
    proof -
      from member obtain kv' where kv': "kv' \<in> set ?entries" "f = ?f kv'" by (metis imageE list.set_map)
      obtain k v where "kv' = (k, v)" by (cases kv')
      with kv' have kv: "(k, v) \<in> set ?entries" "f = ?f (k, v)" by simp_all
      show ?thesis unfolding kv(2) by (rule sound_entry [OF la]) (use sound [OF item [OF kv(1)]] in simp)
    qed
    have entry: "\<exists>s1 s2. ?f (k, v) s1 = (s2, None) \<and> set (in_complete s2) \<subseteq> set (in_complete st')" if "(k, v) \<in> set ?entries" for k v
      by (rule all_success [OF walked entry_sound]) (use that in auto)
    have passed: "covered_below g action st' (below_item g (v, child_path path (yn_value (g k)), Suc depth)) \<and>
        (yn_value (g k) = ''uses'' \<and> uses_path path \<and> has_prefix (yn_value (g (resolve_alias g v))) ''./'' \<longrightarrow>
           trim_prefix (yn_value (g (resolve_alias g v))) ''./'' \<in> set (in_complete st')) \<and>
        (action \<and> yn_value (g k) = ''image'' \<and> path = [''runs''] \<longrightarrow>
           yn_kind (g (resolve_alias g v)) = Y_scalar \<and> immutable_container_image (yn_value (g (resolve_alias g v))))"
      if kv: "(k, v) \<in> set ?entries" for k v
    proof -
      obtain s1 s2 where f: "?f (k, v) s1 = (s2, None)" "set (in_complete s2) \<subseteq> set (in_complete st')" using entry [OF kv] by blast
      let ?node = "g (resolve_alias g v)"
      let ?local = "if yn_value (g k) = ''uses'' \<and> uses_path path \<and> has_prefix (yn_value ?node) ''./'' then la (yn_value ?node) else inspect_refuse False Action_invalid"
      obtain mid where mid: "?local s1 = (mid, None)"
          "\<not> (action \<and> yn_value (g k) = ''image'' \<and> path = [''runs''] \<and> (yn_kind ?node \<noteq> Y_scalar \<or> \<not> immutable_container_image (yn_value ?node)))"
          "walk_node g la action levels (child_path path (yn_value (g k))) v mid = (s2, None)"
        using f(1) unfolding action_entry_def Let_def prod.case then_success refuse_success by blast
      have grows: "set (in_complete mid) \<subseteq> set (in_complete st')"
        using sound_stepD(1) [OF sound [OF item [OF kv]] mid(3)] f(2) by blast
      show ?thesis
        using covered [OF item [OF kv] mid(3) f(2)] mid(1,2) named grows by (auto split: if_splits)
    qed
    show ?thesis
    proof (rule covered_step)
      fix j
      assume "j \<in> set (node_items g (n, path, depth))"
      then obtain k v where "(k, v) \<in> set ?entries" "j = (v, child_path path (yn_value (g k)), Suc depth)"
        by (auto simp: Y_mapping node_items_def)
      then show "covered_below g action st' (below_item g j)" using passed by blast
    next
      show "set (map (\<lambda>s. trim_prefix s ''./'') (item_uses g (n, path, depth))) \<subseteq> set (in_complete st')"
        using passed by (auto simp: item_uses_def Y_mapping)
    next
      show "action \<Longrightarrow> item_images_pinned g (n, path, depth)"
        using passed by (auto simp: item_images_pinned_def Y_mapping list_all_iff)
    qed
  qed
qed

section \<open>Local actions\<close>

lemma walked_document:
  assumes caller: "sound_caller view base la"
    and document: "inspect_workflow_document decoder content = Inr ((g, document), findings)"
  shows "sound_step view base (walk_document (g, document) la action)"
    and "walk_document (g, document) la action st = (st', None) \<Longrightarrow> covered_below g action st' (reached g document)"
proof -
  have depth: "below_item g (document, [], 0) \<subseteq> {item. snd (snd item) \<le> 100}"
    using document_traversed(1) [OF inspected_document [OF document]] by (auto simp: reached_def below_item_def)
  show "sound_step view base (walk_document (g, document) la action)"
    using sound_walk [OF sound_callerD(1) [OF caller] depth] by (simp add: walk_document_def)
  show "covered_below g action st' (reached g document)" if "walk_document (g, document) la action st = (st', None)"
    using walk_success [OF caller depth] that by (simp add: walk_document_def below_item_def reached_def)
qed

lemma sound_content:
  assumes caller: "sound_caller view base la"
  shows "sound_step view base (inspect_content decoder la action content)"
  using walked_document(1) [OF caller]
  by (auto simp: inspect_content_def split: sum.splits prod.splits intro!: sound_steps)

lemma content_success:
  assumes caller: "sound_caller view base la"
    and success: "inspect_content decoder la True content st = (st', None)"
  shows "\<exists>g document. inspect_workflow_document decoder content = Inr ((g, document), []) \<and> covered_below g True st' (reached g document)"
proof (cases "inspect_workflow_document decoder content")
  case (Inl e)
  then show ?thesis using success by (simp add: inspect_content_def then_success refuse_success)
next
  case (Inr x)
  obtain g document findings where x: "x = ((g, document), findings)" by (cases x) auto
  obtain mid where "findings = []" "walk_document (g, document) la True mid = (st', None)"
    using success by (auto simp: inspect_content_def Inr x then_success refuse_success)
  then show ?thesis using walked_document(2) [OF caller Inr [unfolded x]] by (auto simp: Inr x)
qed

lemma mark_success: "under_mark key f st = (st', None) \<Longrightarrow> key \<in> set (in_complete st')"
  by (auto simp: under_mark_def Let_def split: prod.splits option.splits)

lemma sound_mark:
  assumes sound: "sound_step view base f"
    and success: "\<And>st st'. f st = (st', None) \<Longrightarrow> action_admitted view base (set (in_complete st')) key"
  shows "sound_step view base (under_mark key f)"
  unfolding sound_step_def
proof
  fix st :: inspection
  define st1 where "st1 = st\<lparr>in_active := key # in_active st\<rparr>"
  obtain st2 e where f: "f st1 = (st2, e)" by (cases "f st1")
  have same: "in_complete st1 = in_complete st" "admitted view base st1 = admitted view base st" by (simp_all add: st1_def admitted_def)
  have step: "set (in_complete st) \<subseteq> set (in_complete st2)" "admitted view base st \<Longrightarrow> admitted view base st2" "e \<noteq> Some Walk_unbounded"
    using sound_stepD [OF sound f] same by simp_all
  have marked: "admitted view base (st2\<lparr>in_complete := key # in_complete st2\<rparr>)"
    if "admitted view base st2" "action_admitted view base (set (in_complete st2)) key"
    using that unfolding admitted_def by (auto intro: action_admitted_mono)
  show "set (in_complete st) \<subseteq> set (in_complete (fst (under_mark key f st))) \<and>
      (admitted view base st \<longrightarrow> admitted view base (fst (under_mark key f st))) \<and> snd (under_mark key f st) \<noteq> Some Walk_unbounded"
  proof (cases e)
    case None
    have "action_admitted view base (set (in_complete st2)) key" using success f None by simp
    then show ?thesis using step marked f None
      by (auto simp: under_mark_def st1_def [symmetric] Let_def admitted_def)
  next
    case (Some a)
    then show ?thesis using step f by (auto simp: under_mark_def st1_def [symmetric] Let_def admitted_def)
  qed
qed

lemma descriptor_names:
  "descriptor_name view base name directory \<in> {name, path_join [name, ''action.yml''], trim_suffix (path_join [name, ''action.yml'']) ''.yml'' @ ''.yaml''}"
  by (simp add: descriptor_name_def Let_def)

lemma sound_action:
  assumes caller: "sound_caller view base la"
  shows "sound_step view base (open_action view base name (inspect_content (wf_decode view) la True))"
proof -
  let ?below = "inspect_content (wf_decode view) la True"
  have mark: "sound_step view base (under_mark name (?below content))"
    if "read_descriptor view base (descriptor_name view base name directory) = Inr content" for content directory
  proof (rule sound_mark)
    fix st st'
    assume "?below content st = (st', None)"
    then obtain g document where "inspect_workflow_document (wf_decode view) content = Inr ((g, document), [])"
        "covered_below g True st' (reached g document)"
      using content_success [OF caller] by blast
    then show "action_admitted view base (set (in_complete st')) name"
      unfolding action_admitted_def covered_below_def using that descriptor_names [of view base name directory] by blast
  qed (rule sound_content [OF caller])
  have error: "descriptor_error view path = Some e \<Longrightarrow> e \<noteq> Walk_unbounded" "read_descriptor view base path = Inl e \<Longrightarrow> e \<noteq> Walk_unbounded" for path e
    by (auto simp: descriptor_error_def read_descriptor_def Let_def refuse_def split: sum.splits option.splits if_splits)
  show ?thesis
    unfolding open_action_def Let_def
    by (auto split: option.splits sum.splits intro!: sound_steps mark dest: error)
qed

lemma action_success: "open_action view base name below st = (st', None) \<Longrightarrow> name \<in> set (in_complete st')"
  by (auto simp: open_action_def Let_def then_success refuse_success dest: mark_success split: option.splits sum.splits)

lemma sound_local: "sound_caller view base (local_action view base levels)"
proof (induction levels)
  case 0
  have "sound_step view base (local_action view base 0 reference)" for reference
    by (rule sound_unchanged) (simp_all add: local_action.simps Let_def)
  moreover have "local_action view base 0 reference st \<noteq> (st', None)" for reference st st'
    by (simp add: local_action.simps Let_def)
  ultimately show ?case unfolding sound_caller_def by blast
next
  case (Suc levels)
  let ?open = "\<lambda>name. open_action view base name (inspect_content (wf_decode view) (local_action view base levels) True)"
  have opened: "sound_step view base (?open name)" for name by (rule sound_action [OF Suc])
  have "sound_step view base (local_action view base (Suc levels) reference)" for reference
    using opened [of "trim_prefix reference ''./''"] by (simp add: sound_step_def local_action.simps Let_def)
  moreover have "trim_prefix reference ''./'' \<in> set (in_complete st')" if "local_action view base (Suc levels) reference st = (st', None)" for reference st st'
    using that action_success by (auto simp: local_action.simps Let_def split: if_splits)
  ultimately show ?case unfolding sound_caller_def by blast
qed

text \<open>
  The check of the workflows of a repository: what it accepts, that it always ends, and that the
  verifier runs only behind it.
\<close>

section \<open>One workflow file\<close>

lemma inspect_validated_sound:
  assumes "inspect_workflow_document decoder content = Inr ((g, document), findings)"
  shows "sound_step view base (inspect_validated (g, document) (local_action view base levels) False)"
  unfolding inspect_validated_def by (intro sound_then sound_poll walked_document(1) [OF sound_local assms])

lemma inspect_validated_names:
  assumes "inspect_workflow_document decoder content = Inr ((g, document), findings)"
    and "inspect_validated (g, document) (local_action view base levels) False st = (st', None)"
  shows "names_of g (reached g document) \<subseteq> set (in_complete st')"
proof -
  obtain mid where "walk_document (g, document) (local_action view base levels) False mid = (st', None)"
    using assms(2) by (auto simp: inspect_validated_def then_success)
  from walked_document(2) [OF sound_local assms(1) this] show ?thesis by (simp add: covered_below_def)
qed

text \<open>What a visit keeps.\<close>

definition kept :: "workflow_view \<Rightarrow> string \<Rightarrow> workflow_state \<Rightarrow> workflow_state \<Rightarrow> bool" where
  "kept view base ws ws' \<longleftrightarrow>
     set (in_complete (ws_inspection ws)) \<subseteq> set (in_complete (ws_inspection ws')) \<and>
     (admitted view base (ws_inspection ws) \<longrightarrow> admitted view base (ws_inspection ws')) \<and>
     (ws_findings ws' = [] \<longrightarrow> ws_findings ws = [])"

definition file_admitted :: "workflow_view \<Rightarrow> string \<Rightarrow> string set \<Rightarrow> string \<Rightarrow> dir_entry \<Rightarrow> bool" where
  "file_admitted view base known relative entry \<longleftrightarrow>
     (\<exists>content g document.
        read_workflow_descriptor view (path_join [base, ''.github'', ''workflows'']) relative entry maximum_workflow_output = Inr content \<and>
        inspect_workflow_document (wf_decode view) content = Inr ((g, document), []) \<and>
        names_of g (reached g document) \<subseteq> known)"

lemma file_admitted_mono: "file_admitted view base known relative entry \<Longrightarrow> known \<subseteq> known' \<Longrightarrow> file_admitted view base known' relative entry"
  unfolding file_admitted_def by blast

lemma read_error_named: "read_workflow_descriptor view directory relative entry limit = Inl e \<Longrightarrow> e \<noteq> Walk_unbounded"
  by (auto simp: read_workflow_descriptor_def Let_def split: sum.splits option.splits if_splits)

lemma file_inspected:
  assumes "inspect_workflow_file view base relative entry ws = (ws', e)"
  shows "kept view base ws ws' \<and> e \<noteq> Some Walk_unbounded \<and>
    (e = None \<and> ws_findings ws' = [] \<longrightarrow> file_admitted view base (set (in_complete (ws_inspection ws'))) relative entry)"
proof -
  let ?base = "path_join [base, ''.github'', ''workflows'']"
  obtain s1 e1 where count: "count_file Workflow_count (ws_inspection ws) = (s1, e1)" by fastforce
  have s1: "in_complete s1 = in_complete (ws_inspection ws)" "e1 \<noteq> Some Walk_unbounded" using count by (auto simp: count_file_def split: if_splits)
  have unchanged: "kept view base ws (ws\<lparr>ws_inspection := s\<rparr>)" if "in_complete s = in_complete (ws_inspection ws)" for s
    using that by (simp add: kept_def admitted_def)
  show ?thesis
  proof (cases e1)
    case (Some e)
    then show ?thesis using assms count s1 unchanged by (auto simp: inspect_workflow_file_def)
  next
    case e1: None
    show ?thesis
    proof (cases "read_workflow_descriptor view ?base relative entry maximum_workflow_output")
      case (Inl e)
      then show ?thesis using assms count s1 unchanged e1 read_error_named [OF Inl] by (auto simp: inspect_workflow_file_def)
    next
      case content: (Inr content)
      obtain s2 e2 where bytes: "count_bytes maximum_workflow_bytes content s1 = (s2, e2)" by fastforce
      have s2: "in_complete s2 = in_complete (ws_inspection ws)" "e2 \<noteq> Some Walk_unbounded" using bytes s1 by (auto simp: count_bytes_def split: if_splits)
      show ?thesis
      proof (cases e2)
        case (Some e)
        then show ?thesis using assms count s2 unchanged e1 content bytes by (auto simp: inspect_workflow_file_def)
      next
        case e2: None
        show ?thesis
        proof (cases "inspect_workflow_document (wf_decode view) content")
          case (Inl e)
          then show ?thesis using assms count s2 unchanged e1 content bytes e2 by (auto simp: inspect_workflow_file_def)
        next
          case (Inr x)
          obtain g document findings where x: "x = ((g, document), findings)" by (cases x) auto
          obtain s3 where s3: "inspect_validated (g, document) (local_action view base maximum_local_action_depth) False s2 = (s3, e)"
              "ws' = ws\<lparr>ws_inspection := s3, ws_findings := ws_findings ws @ map (\<lambda>f. de_name entry @ '': '' @ f) findings\<rparr>"
            using assms by (auto simp: inspect_workflow_file_def count e1 content bytes e2 Inr x split: prod.splits)
          note document = Inr [unfolded x]
          have "kept view base ws ws'"
            using sound_stepD(1,2) [OF inspect_validated_sound [OF document] s3(1)] s2(1) by (auto simp: kept_def s3(2) admitted_def)
          moreover have "e \<noteq> Some Walk_unbounded"
            by (rule sound_stepD(3) [OF inspect_validated_sound [OF document, of view base] s3(1)])
          moreover have "file_admitted view base (set (in_complete (ws_inspection ws'))) relative entry"
            if "e = None" "ws_findings ws' = []"
          proof -
            have "findings = []" using that(2) by (simp add: s3(2))
            moreover have "names_of g (reached g document) \<subseteq> set (in_complete s3)"
              using inspect_validated_names [OF document] s3(1) that(1) by simp
            ultimately show ?thesis using content document by (auto simp: file_admitted_def s3(2))
          qed
          ultimately show ?thesis by blast
        qed
      qed
    qed
  qed
qed

section \<open>The walk\<close>

lemma workflow_visited:
  assumes "workflow_visit view base relative entry c ws = (c', ws', v)"
  shows "kept view base ws ws'" and "v \<noteq> Visit_failed Walk_unbounded" and "v \<noteq> Visit_skip"
    and "de_kind entry \<noteq> Kind_directory \<Longrightarrow> List.member [''.yml'', ''.yaml''] (path_ext (de_name entry)) \<Longrightarrow>
      \<forall>f. v \<noteq> Visit_failed f \<Longrightarrow> ws_findings ws' = [] \<Longrightarrow> file_admitted view base (set (in_complete (ws_inspection ws'))) relative entry"
proof -
  let ?ws = "ws\<lparr>ws_inspection := (ws_inspection ws)\<lparr>in_ctx := c\<rparr>\<rparr>"
  have same: "kept view base ws ws" "kept view base ?ws ws'' = kept view base ws ws''" for ws'' by (simp_all add: kept_def admitted_def)
  obtain ws1 e where f: "inspect_workflow_file view base relative entry ?ws = (ws1, e)" by fastforce
  note inspected = file_inspected [OF f, unfolded same]
  show "kept view base ws ws'" and "v \<noteq> Visit_failed Walk_unbounded" and "v \<noteq> Visit_skip"
    using assms inspected f same(1) by (auto simp: workflow_visit_def split: if_splits option.splits)
  show "file_admitted view base (set (in_complete (ws_inspection ws'))) relative entry"
    if "de_kind entry \<noteq> Kind_directory" "List.member [''.yml'', ''.yaml''] (path_ext (de_name entry))" "\<forall>f. v \<noteq> Visit_failed f" "ws_findings ws' = []"
    using assms that inspected f by (auto simp: workflow_visit_def split: if_splits option.splits)
qed

text \<open>A walk fails with an error of its visitor only when a visit does.\<close>

lemma walk_entry_visit_error:
  assumes "\<And>relative d c s. snd (snd (visit relative d c s)) \<noteq> Visit_failed e"
    and "\<And>name st. snd (sub name st) \<noteq> Some (Walk_visit e)"
  shows "snd (walk_entry visit sub limit relative entry st) \<noteq> Some (Walk_visit e)"
  using assms(1) [of "path_join [relative, de_name entry]" entry] assms(2)
  by (auto simp: walk_entry_def Let_def split: prod.splits visit.splits) (metis snd_conv)+

lemma walk_entries_visit_error:
  assumes "\<And>relative d c s. snd (snd (visit relative d c s)) \<noteq> Visit_failed e"
    and "\<And>name st. snd (sub name st) \<noteq> Some (Walk_visit e)"
  shows "snd (walk_entries visit sub limit relative failed es st) \<noteq> Some (Walk_visit e)"
proof (induction es arbitrary: st)
  case (Cons entry es)
  show ?case
    using Cons.IH walk_entry_visit_error [where visit = visit and sub = sub and e = e, OF assms, of limit relative entry st]
    by (auto split: prod.splits option.splits)
qed simp

lemma walk_directory_visit_error:
  assumes "\<And>relative d c s. snd (snd (visit relative d c s)) \<noteq> Visit_failed e"
  shows "snd (walk_directory view visit limit source levels relative st) \<noteq> Some (Walk_visit e)"
proof (induction levels arbitrary: relative st)
  case 0
  show ?case by (subst walk_directory.simps) (auto split: prod.splits)
next
  case (Suc levels)
  have "snd (walk_entries visit (walk_directory view visit limit source levels) limit relative failed es st) \<noteq> Some (Walk_visit e)" for failed es st
    by (rule walk_entries_visit_error [OF assms Suc.IH])
  then show ?case by (subst walk_directory.simps) (auto split: prod.splits sum.splits)
qed

lemma walk_visit_error:
  assumes "\<And>relative d c s. snd (snd (visit relative d c s)) \<noteq> Visit_failed e"
  shows "snd (walk_security_source view visit limit source c s) \<noteq> Some (Walk_visit e)"
  using walk_directory_visit_error [OF assms] by (simp add: walk_security_source_def Let_def)

section \<open>The check\<close>

definition workflows_absent :: "workflow_view \<Rightarrow> string \<Rightarrow> bool" where
  "workflows_absent view base \<longleftrightarrow>
     workflow_directories view [path_join [base, ''.github''], path_join [base, ''.github'', ''workflows'']] = Some None \<or>
     wf_open_root view (path_join [base, ''.github'', ''workflows'']) = Some Err_not_exist"

text \<open>The workflow files of a repository: the YAML files below the directory of the workflows.\<close>

definition workflow_file :: "workflow_view \<Rightarrow> string \<Rightarrow> string \<Rightarrow> dir_entry \<Rightarrow> bool" where
  "workflow_file view base relative entry \<longleftrightarrow>
     source_entry (walk_view.truncate view) (\<lambda>r d. de_kind d = Kind_directory) (path_join [base, ''.github'', ''workflows'']) relative entry \<and>
     de_kind entry \<noteq> Kind_directory \<and> List.member [''.yml'', ''.yaml''] (path_ext (de_name entry))"

lemma workflow_directories_error: "workflow_directories view names = Some (Some e) \<Longrightarrow> e = Workflow_directory"
  by (induction names) (auto split: sum.splits io_error.splits option.splits if_splits)

declare workflow_directories.simps [simp del]

lemma walk_admits:
  assumes walk: "walk_security_source v (workflow_visit view base) limit directory c (empty_workflow_state c) = (st, None)"
    and none: "ws_findings (wk_visitor st) = []"
    and v: "v = walk_view.truncate view" and directory: "directory = path_join [base, ''.github'', ''workflows'']"
  shows "admitted view base (ws_inspection (wk_visitor st))"
    and "workflow_file view base relative entry \<Longrightarrow>
      file_admitted view base (set (in_complete (ws_inspection (wk_visitor st)))) relative entry"
proof -
  let ?visit = "workflow_visit view base"
  have visit_kept: "kept view base s (fst (snd (?visit r d c s)))" for r d c s
    using workflow_visited(1) [of view base r d c s] by (cases "?visit r d c s") auto
  have stable: "stable ?visit (\<lambda>ws. admitted view base (ws_inspection ws))"
      "stable ?visit (\<lambda>ws. name \<in> set (in_complete (ws_inspection ws)))" "stable ?visit (\<lambda>ws. ws_findings ws \<noteq> [])" for name
    using visit_kept unfolding stable_def kept_def by blast+
  obtain levels where "walk_directory v ?visit limit directory levels ''.'' \<lparr>wk_ctx = c, wk_entries = 0, wk_visitor = empty_workflow_state c\<rparr> = (st, None)"
    using walk by (auto simp: walk_security_source_def Let_def split: if_splits)
  then have "leads ?visit (empty_workflow_state c) (wk_visitor st)"
    using walk_directory_leads [of ?visit "\<lparr>wk_ctx = c, wk_entries = 0, wk_visitor = empty_workflow_state c\<rparr>"
        v limit directory levels "''.''"] by simp
  moreover have "admitted view base (ws_inspection (empty_workflow_state c))" by (simp add: admitted_def empty_workflow_state_def)
  ultimately show "admitted view base (ws_inspection (wk_visitor st))" using stable(1) by (auto simp: leads_def)
  show "file_admitted view base (set (in_complete (ws_inspection (wk_visitor st)))) relative entry" if listed: "workflow_file view base relative entry"
  proof -
    have "source_entry v (\<lambda>r d. de_kind d = Kind_directory) directory relative entry" using listed by (simp add: workflow_file_def v directory)
    then have "\<exists>c s c' s' w. ?visit relative entry c s = (c', s', w) \<and> (\<forall>f. w \<noteq> Visit_failed f) \<and> leads ?visit s' (wk_visitor st)"
      by (rule walk_visits_all [OF walk, rotated]) (use workflow_visited(3) in blast)
    then obtain c1 s1 c2 s2 w where visited: "?visit relative entry c1 s1 = (c2, s2, w)" "\<forall>f. w \<noteq> Visit_failed f"
        "leads ?visit s2 (wk_visitor st)"
      by blast
    have "ws_findings s2 = []" using visited(3) stable(3) none by (auto simp: leads_def)
    then have "file_admitted view base (set (in_complete (ws_inspection s2))) relative entry"
      using workflow_visited(4) [OF visited(1)] listed visited(2) by (simp add: workflow_file_def)
    moreover have "set (in_complete (ws_inspection s2)) \<subseteq> set (in_complete (ws_inspection (wk_visitor st)))"
      using visited(3) stable(2) by (auto simp: leads_def)
    ultimately show ?thesis by (rule file_admitted_mono)
  qed
qed

text \<open>C8: the check of the workflows ends: it never runs out of the levels of its recursion. When it accepts,
  there are no workflows, or every workflow file was read and has no finding, and the local actions
  that the files name are among a set of actions each of which was read, has no finding and pinned
  images, and names only actions of the set.\<close>

theorem accepted_workflows_admitted:
  "case snd (check_workflow_security view base c) of
     Some e \<Rightarrow> e \<noteq> Workflow_walk (Walk_visit Walk_unbounded)
   | None \<Rightarrow>
       workflows_absent view base \<or>
       (\<exists>known. known \<subseteq> {name. action_admitted view base known name} \<and>
          {(relative, entry). workflow_file view base relative entry} \<subseteq> {(relative, entry). file_admitted view base known relative entry})"
proof -
  let ?directory = "path_join [base, ''.github'', ''workflows'']"
  obtain st e where walk: "walk_security_source (walk_view.truncate view) (workflow_visit view base) maximum_security_source_files
      ?directory c (empty_workflow_state c) = (st, e)" by fastforce
  have ends: "e \<noteq> Some (Walk_visit Walk_unbounded)"
  proof -
    have "snd (snd (workflow_visit view base r d c s)) \<noteq> Visit_failed Walk_unbounded" for r d c s
      using workflow_visited(2) [of view base r d c s] by (cases "workflow_visit view base r d c s") auto
    from walk_visit_error [of "workflow_visit view base", OF this, of "walk_view.truncate view" maximum_security_source_files ?directory c "empty_workflow_state c"]
    show ?thesis using walk by simp
  qed
  have admits: "\<exists>known. known \<subseteq> {name. action_admitted view base known name} \<and>
      {(relative, entry). workflow_file view base relative entry} \<subseteq> {(relative, entry). file_admitted view base known relative entry}"
    if "e = None" "ws_findings (wk_visitor st) = []"
    using walk_admits [OF walk [unfolded that(1)] that(2) refl refl] unfolding admitted_def by blast
  show ?thesis
  proof (cases "workflow_directories view [path_join [base, ''.github''], ?directory]")
    case (Some x)
    then have "snd (check_workflow_security view base c) = x" by (simp add: check_workflow_security_def Let_def)
    then show ?thesis using Some workflow_directories_error [of view "[path_join [base, ''.github''], ?directory]"]
      by (cases x) (auto simp: workflows_absent_def)
  next
    case found: None
    show ?thesis
    proof (cases "wf_open_root view ?directory")
      case (Some x)
      then show ?thesis by (cases x) (simp_all add: check_workflow_security_def workflows_absent_def Let_def found)
    next
      case None
      then have "snd (check_workflow_security view base c) =
          (case e of Some e \<Rightarrow> Some (Workflow_walk e)
           | None \<Rightarrow> if ws_findings (wk_visitor st) = [] then None else Some (Workflow_findings (sort (ws_findings (wk_visitor st)))))"
        by (cases e) (simp_all add: check_workflow_security_def found walk Let_def)
      then show ?thesis using ends admits by (cases e) (simp_all del: Collect_case_prod split: if_splits)
    qed
  qed
qed

section \<open>The verifier\<close>

definition ran :: "run \<Rightarrow> nat" where
  "ran r = length (filter (\<lambda>e. case e of Ran c \<Rightarrow> True | _ \<Rightarrow> False) (rn_events r))"

lemma ran_simps:
  "ran (r\<lparr>rn_ctx := c\<rparr>) = ran r"
  "ran (r\<lparr>rn_ctx := c, rn_world := w, rn_events := rn_events r @ [Ran command]\<rparr>) = Suc (ran r)"
  "ran (r\<lparr>rn_ctx := c, rn_world := w, rn_events := rn_events r @ [Ran command, Printed s]\<rparr>) = Suc (ran r)"
  by (simp_all add: ran_def)

text \<open>The verifier of the workflows runs exactly once behind an accepted check, and never behind a refused
  one; what it wrote is within its bound, or the run fails.\<close>

theorem admission_before_verifier:
  "case workflows kit view rn r of
     (r', e) \<Rightarrow>
       (case snd (check_workflow_security view (rn_root rn) (rn_ctx r)) of
          Some refused \<Rightarrow> e = Some (Workflow_refused refused) \<and> ran r' = ran r
        | None \<Rightarrow> ran r' = Suc (ran r) \<and> (\<forall>refused. e \<noteq> Some (Workflow_refused refused)))"
  by (auto simp: workflows_def actionlint_verdict_def Let_def ran_simps split: prod.splits option.splits if_splits)

end
