(* ===== verification/Release_Archive.thy ===== *)
theory Release_Archive
  imports Security_Docs Services_Redaction
begin

text \<open>
  internal/archivecheck/archive.go and internal/releasecheck/binary.go: the admission of an archive
  before it is extracted, and the binary distribution with its reviewed license material.

  gzip, tar, the build information of a Go binary and the digest are arguments: a stream is the
  sequence of what the readers deliver, with the moments at which a limited reader is exhausted.
\<close>

section \<open>Archives (archivecheck/archive.go)\<close>

record archive_limits =
  al_entries :: int
  al_bytes :: int
  al_compressed_bytes :: int

record tar_header =
  th_name :: string
  th_type :: nat
  th_mode :: int
  th_size :: int

text \<open>One read behind the end of the tar: its bytes, whether the expanded and the compressed limits are
  exhausted behind it, and how it ends.\<close>

datatype read_status = Read_more_follows | Read_finished | Read_broken

record trailing_read =
  tr_data :: string
  tr_exhausted :: bool
  tr_compressed_exhausted :: bool
  tr_status :: read_status

datatype tar_stream =
    Tar_entry tar_header tar_stream
  | Tar_end "trailing_read list"
  | Tar_failure bool bool

datatype archive_stream = Gzip_failure bool | Gzip_stream tar_stream

datatype archive_refusal =
    Limits_not_positive | Compressed_exceeded | Gzip_unopened | Expanded_exceeded | Trailing_data
  | Gzip_unfinished | Tar_unread | Entries_exceeded
  | Path_unsafe | Path_not_canonical | Path_duplicate | Entry_unsupported | Mode_unsafe

text \<open>The reads behind the last entry. The sequence of a reader ends with an end or an error.\<close>

fun trailing_error :: "bool \<Rightarrow> trailing_read list \<Rightarrow> archive_refusal option" where
  "trailing_error limited [] = Some Gzip_unfinished"
| "trailing_error limited (r # rs) =
     (if tr_exhausted r then Some Expanded_exceeded
      else if \<not> list_all (\<lambda>c. c = CHR 0x00) (tr_data r) then Some Trailing_data
      else (case tr_status r of
              Read_more_follows \<Rightarrow> trailing_error limited rs
            | Read_broken \<Rightarrow> Some (if limited \<and> tr_compressed_exhausted r then Compressed_exceeded else Gzip_unfinished)
            | Read_finished \<Rightarrow> refuse (limited \<and> tr_compressed_exhausted r) Compressed_exceeded))"

definition archive_name :: "string \<Rightarrow> string" where
  "archive_name name = map (\<lambda>c. if c = CHR 0x5C then CHR ''/'' else c) name"

record archive_state =
  as_entries :: int
  as_expanded :: int
  as_seen :: "string list"

text \<open>\<open>header.Mode & 0o7000\<close>: the three bits above the permissions.\<close>

definition special_mode :: "int \<Rightarrow> bool" where
  "special_mode mode \<longleftrightarrow> mode div 512 mod 8 \<noteq> 0"

definition header_error :: "archive_limits \<Rightarrow> archive_state \<Rightarrow> tar_header \<Rightarrow> archive_refusal option" where
  "header_error limits st h =
     (let normalized = archive_name (th_name h); clean = path_clean normalized
      in first_error
        [refuse (al_entries limits < as_entries st + 1) Entries_exceeded,
         refuse (clean = ''.'' \<or> has_prefix clean ''/'' \<or> clean = ''..'' \<or> has_prefix clean ''../'') Path_unsafe,
         refuse (trim_suffix normalized ''/'' \<noteq> clean) Path_not_canonical,
         refuse (List.member (as_seen st) clean) Path_duplicate,
         refuse (th_type h \<noteq> 48 \<and> th_type h \<noteq> 0 \<and> th_type h \<noteq> 53) Entry_unsupported,
         refuse (special_mode (th_mode h)) Mode_unsafe,
         refuse (th_size h < 0 \<or> al_bytes limits - as_expanded st < th_size h) Expanded_exceeded])"

definition next_archive_state :: "archive_state \<Rightarrow> tar_header \<Rightarrow> archive_state" where
  "next_archive_state st h =
     \<lparr>as_entries = as_entries st + 1, as_expanded = as_expanded st + th_size h,
      as_seen = path_clean (archive_name (th_name h)) # as_seen st\<rparr>"

fun validate_entries :: "archive_limits \<Rightarrow> archive_state \<Rightarrow> tar_stream \<Rightarrow> archive_refusal option" where
  "validate_entries limits st (Tar_end reads) = trailing_error (0 < al_compressed_bytes limits) reads"
| "validate_entries limits st (Tar_failure exhausted compressed_exhausted) =
     Some (if exhausted then Expanded_exceeded
           else if 0 < al_compressed_bytes limits \<and> compressed_exhausted then Compressed_exceeded else Tar_unread)"
| "validate_entries limits st (Tar_entry h rest) =
     (case header_error limits st h of Some e \<Rightarrow> Some e | None \<Rightarrow> validate_entries limits (next_archive_state st h) rest)"

definition validate_archive :: "archive_limits \<Rightarrow> archive_stream \<Rightarrow> archive_refusal option" where
  "validate_archive limits s =
     (if al_entries limits \<le> 0 \<or> al_bytes limits \<le> 0 then Some Limits_not_positive
      else (case s of
              Gzip_failure exhausted \<Rightarrow> Some (if 0 < al_compressed_bytes limits \<and> exhausted then Compressed_exceeded else Gzip_unopened)
            | Gzip_stream t \<Rightarrow> validate_entries limits \<lparr>as_entries = 0, as_expanded = 0, as_seen = []\<rparr> t))"

section \<open>Reviewed license material (releasecheck/binary.go)\<close>

record license_file =
  lf_path :: string
  lf_name :: string
  lf_sha256 :: string
  lf_source :: string

record licensed_module =
  lc_path :: string
  lc_version :: string
  lc_sum :: string
  lc_license :: string
  lc_files :: "license_file list"

record license_manifest =
  bm_schema_version :: int
  bm_binary_path :: string
  bm_product_license :: license_file
  bm_runtime_version :: string
  bm_runtime_license :: string
  bm_runtime_files :: "license_file list"
  bm_modules :: "licensed_module list"

record build_module =
  bd_path :: string
  bd_version :: string
  bd_sum :: string
  bd_replaced :: bool

record build_info =
  bi_path :: string
  bi_go_version :: string
  bi_settings :: "(string \<times> string) list"
  bi_dependencies :: "build_module option list"

datatype license_error =
    Manifest_missing | Manifest_invalid | Identity_unsupported | Cgo_unreviewed | Experiment_unsupported
  | Mapping_incomplete | Mapping_duplicate | Dependency_missing | Dependency_unsupported
  | Material_missing | License_unsupported | Material_duplicate | Material_omitted
  | Source_invalid | Material_oversized | Material_changed

text \<open>The embedded corpus, the decoder of its manifest, and the digest.\<close>

record license_kit =
  lk_corpus :: "string \<Rightarrow> string option"
  lk_manifest :: "string \<Rightarrow> license_manifest json_next \<times> unit json_next"
  lk_digest :: "string \<Rightarrow> string"

definition maximum_material :: nat where "maximum_material = 2097152"

definition read_license_file :: "license_kit \<Rightarrow> license_file \<Rightarrow> license_error + string" where
  "read_license_file kit f =
     (if \<not> valid_path (lf_path f) \<or> \<not> has_prefix (lf_path f) ''licenses/'' \<or> path_base (lf_path f) \<noteq> lf_name f \<or>
         \<not> has_prefix (lf_source f) ''https://''
      then Inl Source_invalid
      else (case lk_corpus kit (lf_path f) of
              None \<Rightarrow> Inl Material_oversized
            | Some body \<Rightarrow>
                if body = [] \<or> maximum_material < length body then Inl Material_oversized
                else if lk_digest kit body \<noteq> lf_sha256 f then Inl Material_changed
                else Inr body))"

definition line_break :: string where "line_break = [CHR 0x0A]"

definition material_text :: "license_file \<Rightarrow> string \<Rightarrow> string" where
  "material_text f body =
     line_break @ ''--- '' @ lf_name f @ '' ---'' @ line_break @ ''Source: '' @ lf_source f @ line_break @ ''SHA-256: '' @ lf_sha256 f @
     line_break @ line_break @ body @ line_break @ ''--- end ---'' @ line_break"

fun license_texts :: "license_kit \<Rightarrow> string list \<Rightarrow> license_file list \<Rightarrow> license_error + string" where
  "license_texts kit seen [] = Inr []"
| "license_texts kit seen (f # fs) =
     (if List.member seen (lf_name f) then Inl Material_duplicate
      else (case read_license_file kit f of
              Inl e \<Rightarrow> Inl e
            | Inr body \<Rightarrow> map_sum id (\<lambda>rest. material_text f body @ rest) (license_texts kit (lf_name f # seen) fs)))"

definition reviewed_licenses :: "string list" where
  "reviewed_licenses = [''MIT'', ''Apache-2.0'', ''MIT AND Apache-2.0'', ''BSD-3-Clause'']"

definition append_license_files :: "license_kit \<Rightarrow> string \<Rightarrow> license_file list \<Rightarrow> license_error + string" where
  "append_license_files kit license files =
     (if license = [] \<or> files = [] then Inl Material_missing
      else if \<not> List.member reviewed_licenses license then Inl License_unsupported
      else and_then (license_texts kit [] files) (\<lambda>text.
        if \<not> List.member (map lf_name files) ''LICENSE'' \<or>
           (license = ''MIT AND Apache-2.0'' \<and>
            (\<not> List.member (map lf_name files) ''NOTICE'' \<or> \<not> List.member (map lf_name files) ''APACHE-2.0''))
        then Inl Material_omitted else Inr text))"

text \<open>The settings in their order, then the number of those of cgo.\<close>

fun settings_error :: "nat \<Rightarrow> (string \<times> string) list \<Rightarrow> license_error option" where
  "settings_error cgo [] = refuse (cgo \<noteq> 1) Cgo_unreviewed"
| "settings_error cgo ((key, v) # settings) =
     (if key = ''CGO_ENABLED'' \<and> v \<noteq> ''0'' then Some Cgo_unreviewed
      else if key = ''GOEXPERIMENT'' \<and> v \<noteq> [] then Some Experiment_unsupported
      else settings_error (if key = ''CGO_ENABLED'' then Suc cgo else cgo) settings)"

definition identity_error :: "license_manifest \<Rightarrow> unit json_next \<Rightarrow> build_info \<Rightarrow> license_error option" where
  "identity_error m extra info = first_error
     [refuse (extra \<noteq> Json_eof \<or> bm_schema_version m \<noteq> 1 \<or> bm_binary_path m = [] \<or> bi_path info \<noteq> bm_binary_path m \<or>
              bi_go_version info \<noteq> bm_runtime_version m) Identity_unsupported,
      settings_error 0 (bi_settings info)]"

fun mappings_error :: "string list \<Rightarrow> licensed_module list \<Rightarrow> license_error option" where
  "mappings_error seen [] = None"
| "mappings_error seen (m # ms) =
     (if lc_path m = [] \<or> lc_version m = [] \<or> \<not> has_prefix (lc_sum m) ''h1:'' then Some Mapping_incomplete
      else if List.member seen (lc_path m) then Some Mapping_duplicate
      else mappings_error (lc_path m # seen) ms)"

definition module_text :: "licensed_module \<Rightarrow> string" where
  "module_text m =
     line_break @ ''Module: '' @ lc_path m @ ''@'' @ lc_version m @ line_break @ ''Module checksum: '' @ lc_sum m @ line_break @
     ''License: '' @ lc_license m @ line_break"

fun dependency_texts :: "license_kit \<Rightarrow> licensed_module list \<Rightarrow> string list \<Rightarrow> build_module list \<Rightarrow> license_error + string" where
  "dependency_texts kit mappings seen [] = Inr []"
| "dependency_texts kit mappings seen (d # ds) =
     (case find (\<lambda>m. lc_path m = bd_path d) mappings of
        None \<Rightarrow> Inl Dependency_unsupported
      | Some m \<Rightarrow>
          if bd_replaced d \<or> bd_version d \<noteq> lc_version m \<or> bd_sum d \<noteq> lc_sum m \<or> List.member seen (bd_path d)
          then Inl Dependency_unsupported
          else (case append_license_files kit (lc_license m) (lc_files m) of
                  Inl e \<Rightarrow> Inl e
                | Inr text \<Rightarrow>
                    map_sum id (\<lambda>rest. module_text m @ text @ rest) (dependency_texts kit mappings (bd_path d # seen) ds)))"

definition notices_header :: "license_manifest \<Rightarrow> string" where
  "notices_header m =
     ''Third-party material for '' @ bm_binary_path m @ line_break @ line_break @ ''Runtime: '' @ bm_runtime_version m @ line_break @
     ''License: '' @ bm_runtime_license m @ line_break"

text \<open>The license of the product and the notices of the dependencies that were compiled in.\<close>

definition license_payload :: "license_kit \<Rightarrow> license_manifest \<Rightarrow> build_info \<Rightarrow> license_error + string \<times> string" where
  "license_payload kit m info =
     and_then (read_license_file kit (bm_product_license m)) (\<lambda>license.
       and_then (append_license_files kit (bm_runtime_license m) (bm_runtime_files m)) (\<lambda>runtime_text.
         with_check (mappings_error [] (bm_modules m))
           (if List.member (bi_dependencies info) None then Inl Dependency_missing
            else and_then (dependency_texts kit (bm_modules m) []
                     (sort_key bd_path (List.map_filter id (bi_dependencies info)))) (\<lambda>text.
              Inr (license, notices_header m @ runtime_text @ text)))))"

definition binary_license_payload :: "license_kit \<Rightarrow> build_info \<Rightarrow> license_error + string \<times> string" where
  "binary_license_payload kit info =
     (case lk_corpus kit ''licenses.json'' of
        None \<Rightarrow> Inl Manifest_missing
      | Some data \<Rightarrow>
          if maximum_material < length data then Inl Manifest_missing
          else (case lk_manifest kit data of
                  (Json_value m, extra) \<Rightarrow> with_check (identity_error m extra info) (license_payload kit m info)
                | _ \<Rightarrow> Inl Manifest_invalid))"

section \<open>The distribution (releasecheck/binary.go)\<close>

datatype distribution_error =
    Release_stopped | Release_file repository_error | Release_unread | Release_oversized
  | Build_identity_missing | License_refused license_error | Product_license_differs
  | Pack_failed string | Directory_unopened | Output_exists | Output_failed "distribution_error list"
  | Archive_refused archive_refusal | Distribution_unopened | Distribution_unread
  | Member_unexpected | Member_invalid | Member_oversized | Members_incomplete | Material_differs

definition maximum_binary_archive :: int where "maximum_binary_archive = 268435456"

text \<open>\<open>polls path\<close> is the number of polls of the context that the reads of the file make.\<close>

definition read_binary_release_file ::
  "lstat_fun \<Rightarrow> open_fun \<Rightarrow> (string \<Rightarrow> nat) \<Rightarrow> string \<Rightarrow> int \<Rightarrow> ctx \<Rightarrow> ctx \<times> (distribution_error + string)" where
  "read_binary_release_file stat open_file polls path maximum c =
     (case open_context (stops_at c) maximum stat open_file path of
        Inl e \<Rightarrow> (c, Inl (Release_file e))
      | Inr f \<Rightarrow>
          (let c' = after_polls (4 + polls path) c
           in if (polls path \<noteq> 0 \<and> stops_at c (4 + polls path - 1)) \<or> (of_failed f \<and> int (length (of_content f)) \<le> maximum)
              then (c', Inl Release_unread)
              else if maximum < int (length (of_content f)) then (c', Inl Release_oversized)
              else (c', Inr (of_content f))))"

text \<open>A tar member as the second reading sees it: its header, its content, and whether reading it fails.\<close>

record tar_member =
  tm_header :: tar_header
  tm_body :: string
  tm_failed :: bool

record distribution_kit =
  bk_stream :: "string \<Rightarrow> archive_stream"
  bk_members :: "string \<Rightarrow> (tar_member list \<times> bool) option"
  bk_build :: "string \<Rightarrow> build_info option"
  bk_license :: license_kit
  bk_pack_member :: "string \<times> int \<times> string \<Rightarrow> string option"
  bk_pack :: "(string \<times> int \<times> string) list \<Rightarrow> string + string"

definition member_mode :: "string \<Rightarrow> int" where "member_mode name = (if name = ''golib'' then 493 else 420)"
definition member_maximum :: "string \<Rightarrow> nat" where "member_maximum name = (if name = ''golib'' then 134217728 else maximum_material)"

definition member_error :: "tar_member \<Rightarrow> distribution_error option" where
  "member_error m =
     (let h = tm_header m; name = th_name h
      in first_error
        [refuse (\<not> List.member [''golib'', ''LICENSE'', ''THIRD_PARTY_NOTICES''] name) Member_unexpected,
         refuse (th_type h \<noteq> 48 \<or> th_mode h \<noteq> member_mode name \<or> int (member_maximum name) < th_size h) Member_invalid,
         refuse (tm_failed m \<or> member_maximum name < length (tm_body m)) Member_oversized])"

fun collect_members :: "(string \<times> string) list \<Rightarrow> tar_member list \<Rightarrow> distribution_error + (string \<times> string) list" where
  "collect_members found [] = Inr found"
| "collect_members found (m # ms) =
     with_check (member_error m) (collect_members (map_set (th_name (tm_header m)) (tm_body m) found) ms)"

definition distribution_limits :: archive_limits where
  "distribution_limits = \<lparr>al_entries = 3, al_bytes = maximum_binary_archive, al_compressed_bytes = maximum_binary_archive\<rparr>"

definition reviewed_material :: "distribution_kit \<Rightarrow> string \<Rightarrow> distribution_error + string \<times> string" where
  "reviewed_material kit binary =
     (case bk_build kit binary of
        None \<Rightarrow> Inl Build_identity_missing
      | Some info \<Rightarrow> map_sum License_refused id (binary_license_payload (bk_license kit) info))"

text \<open>A missing key of the members reads as no bytes.\<close>

definition member_body :: "(string \<times> string) list \<Rightarrow> string \<Rightarrow> string" where
  "member_body found name = (case map_of found name of None \<Rightarrow> [] | Some body \<Rightarrow> body)"

definition verify_members :: "distribution_kit \<Rightarrow> (string \<times> string) list \<Rightarrow> distribution_error option" where
  "verify_members kit found =
     (if length found \<noteq> 3 then Some Members_incomplete
      else (case reviewed_material kit (member_body found ''golib'') of
              Inl e \<Rightarrow> Some e
            | Inr (license, notices) \<Rightarrow>
                refuse (member_body found ''LICENSE'' \<noteq> license \<or> member_body found ''THIRD_PARTY_NOTICES'' \<noteq> notices) Material_differs))"

definition verify_archive_data :: "distribution_kit \<Rightarrow> string \<Rightarrow> distribution_error option" where
  "verify_archive_data kit data =
     (case validate_archive distribution_limits (bk_stream kit data) of
        Some e \<Rightarrow> Some (Archive_refused e)
      | None \<Rightarrow>
          (case bk_members kit data of
             None \<Rightarrow> Some Distribution_unopened
           | Some (members, failed) \<Rightarrow>
               (case collect_members [] members of
                  Inl e \<Rightarrow> Some e
                | Inr found \<Rightarrow> if failed then Some Distribution_unread else verify_members kit found)))"

definition verify_binary_archive ::
  "distribution_kit \<Rightarrow> lstat_fun \<Rightarrow> open_fun \<Rightarrow> (string \<Rightarrow> nat) \<Rightarrow> string \<Rightarrow> ctx \<Rightarrow> ctx \<times> distribution_error list" where
  "verify_binary_archive kit stat open_file polls path c =
     (case read_binary_release_file stat open_file polls path maximum_binary_archive c of
        (c, Inl e) \<Rightarrow> (c, [e])
      | (c, Inr data) \<Rightarrow>
          (case poll_ctx c of
             (stop, c) \<Rightarrow>
               (c, (case verify_archive_data kit data of None \<Rightarrow> [] | Some e \<Rightarrow> [e]) @ (if stop then [Release_stopped] else []))))"

section \<open>The packaging\<close>

text \<open>The directory of the output: whether it opens, and the creation, the write, the close and the
  removal of a file in it. A file that exists is not created.\<close>

record 'w output_files =
  ou_open :: "string \<Rightarrow> 'w \<Rightarrow> bool"
  ou_create :: "string \<Rightarrow> 'w \<Rightarrow> 'w \<times> bool"
  ou_write :: "string \<Rightarrow> string \<Rightarrow> 'w \<Rightarrow> 'w \<times> bool"
  ou_close :: "string \<Rightarrow> 'w \<Rightarrow> 'w \<times> bool"
  ou_remove :: "string \<Rightarrow> 'w \<Rightarrow> 'w \<times> bool"

fun pack_members :: "distribution_kit \<Rightarrow> (string \<times> int \<times> string) list \<Rightarrow> ctx \<Rightarrow> ctx \<times> distribution_error option" where
  "pack_members kit [] c = (c, None)"
| "pack_members kit (m # ms) c =
     (case poll_ctx c of
        (stop, c) \<Rightarrow>
          if stop then (c, Some Release_stopped)
          else (case bk_pack_member kit m of Some e \<Rightarrow> (c, Some (Pack_failed e)) | None \<Rightarrow> pack_members kit ms c))"

definition failure_unless :: "bool \<Rightarrow> string \<Rightarrow> distribution_error list" where
  "failure_unless ok what = (if ok then [] else [Pack_failed what])"

definition publish_distribution :: "'w output_files \<Rightarrow> string \<Rightarrow> string \<Rightarrow> ctx \<Rightarrow> 'w \<Rightarrow> 'w \<times> ctx \<times> distribution_error option" where
  "publish_distribution files path archive c w =
     (if \<not> ou_open files path w then (w, c, Some Directory_unopened)
      else (case ou_create files path w of
              (w, False) \<Rightarrow> (w, c, Some Output_exists)
            | (w, True) \<Rightarrow>
                (case ou_write files path archive w of (w, written) \<Rightarrow>
                 case ou_close files path w of (w, shut) \<Rightarrow>
                 case poll_ctx c of (stop, c) \<Rightarrow>
                   if written \<and> shut \<and> \<not> stop then (w, c, None)
                   else (case ou_remove files path w of (w, removed) \<Rightarrow>
                     (w, c, Some (Output_failed (failure_unless written ''write'' @ failure_unless shut ''close'' @
                        (if stop then [Release_stopped] else []) @ failure_unless removed ''remove'')))))))"

definition distribution_members :: "string \<Rightarrow> string \<Rightarrow> string \<Rightarrow> (string \<times> int \<times> string) list" where
  "distribution_members license notices binary =
     [(''LICENSE'', 420, license), (''THIRD_PARTY_NOTICES'', 420, notices), (''golib'', 493, binary)]"

definition pack_distribution :: "distribution_kit \<Rightarrow> (string \<times> int \<times> string) list \<Rightarrow> ctx \<Rightarrow> ctx \<times> (distribution_error + string)" where
  "pack_distribution kit members c =
     (case pack_members kit members c of
        (c, Some e) \<Rightarrow> (c, Inl e)
      | (c, None) \<Rightarrow>
          (case bk_pack kit members of
             Inl e \<Rightarrow> (c, Inl (Pack_failed e))
           | Inr archive \<Rightarrow> (case poll_ctx c of (stop, c) \<Rightarrow> (c, if stop then Inl Release_stopped else Inr archive))))"

definition prepare_distribution ::
  "distribution_kit \<Rightarrow> lstat_fun \<Rightarrow> open_fun \<Rightarrow> (string \<Rightarrow> nat) \<Rightarrow> string \<Rightarrow> string \<Rightarrow> ctx \<Rightarrow> ctx \<times> (distribution_error + string)" where
  "prepare_distribution kit stat open_file polls binary_path license_path c =
     (case read_binary_release_file stat open_file polls binary_path 134217728 c of
        (c, Inl e) \<Rightarrow> (c, Inl e)
      | (c, Inr binary) \<Rightarrow>
          (case reviewed_material kit binary of
             Inl e \<Rightarrow> (c, Inl e)
           | Inr (license, notices) \<Rightarrow>
               (case read_binary_release_file stat open_file polls license_path (int maximum_material) c of
                  (c, Inl e) \<Rightarrow> (c, Inl e)
                | (c, Inr product_license) \<Rightarrow>
                    if product_license \<noteq> license then (c, Inl Product_license_differs)
                    else pack_distribution kit (distribution_members license notices binary) c)))"

definition package_binary ::
  "distribution_kit \<Rightarrow> lstat_fun \<Rightarrow> open_fun \<Rightarrow> (string \<Rightarrow> nat) \<Rightarrow> 'w output_files \<Rightarrow> string \<Rightarrow> string \<Rightarrow> string \<Rightarrow> ctx \<Rightarrow> 'w
    \<Rightarrow> 'w \<times> ctx \<times> distribution_error option" where
  "package_binary kit stat open_file polls files binary_path license_path output_path c w =
     (case prepare_distribution kit stat open_file polls binary_path license_path c of
        (c, Inl e) \<Rightarrow> (w, c, Some e)
      | (c, Inr archive) \<Rightarrow> publish_distribution files output_path archive c w)"

section \<open>What an accepted archive holds\<close>

fun headers_of :: "tar_stream \<Rightarrow> tar_header list" where
  "headers_of (Tar_entry h rest) = h # headers_of rest"
| "headers_of _ = []"

definition entry_plain :: "tar_header \<Rightarrow> bool" where
  "entry_plain h \<longleftrightarrow>
     confined (archive_name (th_name h)) \<and> trim_suffix (archive_name (th_name h)) ''/'' = path_clean (archive_name (th_name h)) \<and>
     List.member [0, 48, 53] (th_type h) \<and> \<not> special_mode (th_mode h) \<and> 0 \<le> th_size h"

lemma clean_nil: "path_clean [] = ''.''"
  by code_simp

lemma header_admitted:
  assumes "header_error limits st h = None"
  shows "entry_plain h" and "path_clean (archive_name (th_name h)) \<notin> set (as_seen st)"
    and "as_entries st + 1 \<le> al_entries limits" and "as_expanded st + th_size h \<le> al_bytes limits"
proof -
  let ?n = "archive_name (th_name h)"
  have checks: "path_clean ?n \<noteq> ''.''" "\<not> has_prefix (path_clean ?n) ''/''" "path_clean ?n \<noteq> ''..''" "\<not> has_prefix (path_clean ?n) ''../''"
      "trim_suffix ?n ''/'' = path_clean ?n" "path_clean ?n \<notin> set (as_seen st)" "th_type h = 48 \<or> th_type h = 0 \<or> th_type h = 53"
      "\<not> special_mode (th_mode h)" "0 \<le> th_size h" "as_expanded st + th_size h \<le> al_bytes limits" "as_entries st + 1 \<le> al_entries limits"
    using assms by (auto simp: header_error_def Let_def)
  have "\<not> is_abs ?n"
    using checks(2) path_clean_split(2) [of ?n] by (auto simp: is_abs_def has_prefix_def split: list.splits)
  moreover have "?n \<noteq> []" using checks(1) by (auto simp: clean_nil)
  ultimately have "confined ?n" using clean_dotdot_iff [of ?n] checks(3,4) by (simp add: confined_def)
  then show "entry_plain h" using checks by (auto simp: entry_plain_def)
  show "path_clean ?n \<notin> set (as_seen st)" and "as_entries st + 1 \<le> al_entries limits" and "as_expanded st + th_size h \<le> al_bytes limits"
    using checks by simp_all
qed

lemma entries_admitted:
  "validate_entries limits st s = None \<Longrightarrow> as_entries st \<le> al_entries limits \<Longrightarrow> as_expanded st \<le> al_bytes limits \<Longrightarrow>
     list_all entry_plain (headers_of s) \<and>
     distinct (map (\<lambda>h. path_clean (archive_name (th_name h))) (headers_of s)) \<and>
     set (map (\<lambda>h. path_clean (archive_name (th_name h))) (headers_of s)) \<inter> set (as_seen st) = {} \<and>
     as_entries st + int (length (headers_of s)) \<le> al_entries limits \<and>
     as_expanded st + sum_list (map th_size (headers_of s)) \<le> al_bytes limits"
proof (induction limits st s rule: validate_entries.induct)
  case (3 limits st h rest)
  have none: "header_error limits st h = None" and rest: "validate_entries limits (next_archive_state st h) rest = None"
    using "3.prems"(1) by (auto split: option.splits)
  note h = header_admitted [OF none]
  have state: "as_entries (next_archive_state st h) = as_entries st + 1" "as_expanded (next_archive_state st h) = as_expanded st + th_size h"
      "as_seen (next_archive_state st h) = path_clean (archive_name (th_name h)) # as_seen st"
    by (simp_all add: next_archive_state_def)
  show ?case using "3.IH" [OF none rest] h unfolding state by auto
qed simp_all

text \<open>C17: an archive that is admitted has at most as many entries as the limit, all regular files or
  directories without special mode bits, under canonical names that stay below the directory of
  the extraction and are distinct, and their sizes sum up to at most the limit.\<close>

theorem admitted_archive_confined:
  "case validate_archive limits (Gzip_stream s) of
     Some e \<Rightarrow> True
   | None \<Rightarrow>
       list_all entry_plain (headers_of s) \<and> distinct (map (\<lambda>h. path_clean (archive_name (th_name h))) (headers_of s)) \<and>
       int (length (headers_of s)) \<le> al_entries limits \<and> sum_list (map th_size (headers_of s)) \<le> al_bytes limits"
  using entries_admitted [of limits "\<lparr>as_entries = 0, as_expanded = 0, as_seen = []\<rparr>" s]
  by (auto simp: validate_archive_def split: option.splits)

section \<open>What the notices cover\<close>

definition material_reviewed :: "license_kit \<Rightarrow> string \<Rightarrow> license_file \<Rightarrow> bool" where
  "material_reviewed kit out f \<longleftrightarrow>
     (case lk_corpus kit (lf_path f) of
        None \<Rightarrow> False
      | Some body \<Rightarrow> body \<noteq> [] \<and> lk_digest kit body = lf_sha256 f \<and> contains_str out (material_text f body))"

definition mapping_covers :: "license_kit \<Rightarrow> string \<Rightarrow> build_module \<Rightarrow> licensed_module \<Rightarrow> bool" where
  "mapping_covers kit out d m \<longleftrightarrow>
     lc_path m = bd_path d \<and> lc_version m = bd_version d \<and> lc_sum m = bd_sum d \<and>
     List.member reviewed_licenses (lc_license m) \<and> List.member (map lf_name (lc_files m)) ''LICENSE'' \<and>
     list_all (material_reviewed kit out) (lc_files m)"

definition dependency_covered :: "license_kit \<Rightarrow> licensed_module list \<Rightarrow> string \<Rightarrow> build_module \<Rightarrow> bool" where
  "dependency_covered kit mappings out d \<longleftrightarrow> \<not> bd_replaced d \<and> list_ex (mapping_covers kit out d) mappings"

lemma material_reviewed_mono: "material_reviewed kit t f \<Longrightarrow> sublist t t' \<Longrightarrow> material_reviewed kit t' f"
  by (auto simp: material_reviewed_def contains_str_sublist split: option.splits intro: sublist_order.order.trans)

lemma dependency_covered_mono: "dependency_covered kit ms t d \<Longrightarrow> sublist t t' \<Longrightarrow> dependency_covered kit ms t' d"
  by (auto simp: dependency_covered_def mapping_covers_def list_ex_iff list_all_iff intro: material_reviewed_mono)

lemma read_license_reviewed:
  assumes "read_license_file kit f = Inr body"
  shows "material_reviewed kit (material_text f body @ rest) f"
  using assms by (auto simp: read_license_file_def material_reviewed_def contains_str_sublist split: if_splits option.splits)

lemma map_sum_id_Inr: "map_sum id f x = Inr y \<longleftrightarrow> (\<exists>z. x = Inr z \<and> y = f z)"
  by (cases x) auto

lemma license_texts_reviewed:
  "license_texts kit seen fs = Inr out \<Longrightarrow> list_all (material_reviewed kit out) fs"
proof (induction fs arbitrary: seen out)
  case (Cons f fs)
  obtain body rest where f: "read_license_file kit f = Inr body" and fs: "license_texts kit (lf_name f # seen) fs = Inr rest"
      and whole: "out = material_text f body @ rest"
    using Cons.prems by (auto split: if_splits sum.splits simp: map_sum_id_Inr)
  have "list_all (material_reviewed kit out) fs"
    using Cons.IH [OF fs] by (auto simp: list_all_iff whole intro: material_reviewed_mono)
  then show ?case using read_license_reviewed [OF f] by (simp add: whole)
qed simp

lemma append_license_reviewed:
  assumes "append_license_files kit license files = Inr out"
  shows "List.member reviewed_licenses license" and "List.member (map lf_name files) ''LICENSE''"
    and "list_all (material_reviewed kit out) files"
  using assms by (auto simp: append_license_files_def split: if_splits sum.splits dest: license_texts_reviewed)

lemma dependency_texts_covered:
  "dependency_texts kit mappings seen ds = Inr out \<Longrightarrow>
     list_all (dependency_covered kit mappings out) ds \<and> distinct (map bd_path ds) \<and> set (map bd_path ds) \<inter> set seen = {}"
proof (induction ds arbitrary: seen out)
  case (Cons d ds)
  obtain m t rest where m: "find (\<lambda>m. lc_path m = bd_path d) mappings = Some m"
      and ok: "\<not> bd_replaced d" "bd_version d = lc_version m" "bd_sum d = lc_sum m" "bd_path d \<notin> set seen"
      and t: "append_license_files kit (lc_license m) (lc_files m) = Inr t"
      and ds: "dependency_texts kit mappings (bd_path d # seen) ds = Inr rest" and whole: "out = module_text m @ t @ rest"
    using Cons.prems by (auto split: if_splits sum.splits option.splits simp: map_sum_id_Inr)
  note found = find_Some_iff [THEN iffD1, OF m]
  have member: "m \<in> set mappings" "lc_path m = bd_path d" using found by auto
  have subs: "sublist t out" "sublist rest out" unfolding whole by (metis append.assoc append_Nil2 sublist_appendI)+
  have "mapping_covers kit out d m"
    using append_license_reviewed [OF t] member(2) ok subs(1)
    by (auto simp: mapping_covers_def list_all_iff intro: material_reviewed_mono)
  then have "dependency_covered kit mappings out d" using member(1) ok(1) by (auto simp: dependency_covered_def list_ex_iff)
  moreover have "list_all (dependency_covered kit mappings out) ds"
    using Cons.IH [OF ds] subs(2) by (auto simp: list_all_iff intro: dependency_covered_mono)
  ultimately show ?case using Cons.IH [OF ds] ok(4) by auto
qed simp

definition reviewed_build :: "license_kit \<Rightarrow> license_manifest \<Rightarrow> string \<Rightarrow> build_info \<Rightarrow> bool" where
  "reviewed_build kit m notices info \<longleftrightarrow>
     bi_path info = bm_binary_path m \<and> bi_go_version info = bm_runtime_version m \<and>
     List.member (bi_settings info) (''CGO_ENABLED'', ''0'') \<and>
     list_all (\<lambda>d. case d of None \<Rightarrow> False | Some d \<Rightarrow> dependency_covered kit (bm_modules m) notices d) (bi_dependencies info)"

lemma settings_reviewed:
  "settings_error k settings = None \<Longrightarrow> k = 0 \<Longrightarrow> List.member settings (''CGO_ENABLED'', ''0'')"
  by (induction k settings rule: settings_error.induct) (auto split: if_splits)

lemma license_payload_covers:
  assumes "license_payload kit m info = Inr (license, notices)"
  shows "list_all (\<lambda>d. case d of None \<Rightarrow> False | Some d \<Rightarrow> dependency_covered kit (bm_modules m) notices d) (bi_dependencies info)"
proof -
  obtain runtime_text out where no_gap: "None \<notin> set (bi_dependencies info)"
      and deps: "dependency_texts kit (bm_modules m) [] (sort_key bd_path (List.map_filter id (bi_dependencies info))) = Inr out"
      and notices: "notices = notices_header m @ runtime_text @ out"
    using assms by (auto simp: license_payload_def split: sum.splits option.splits if_splits)
  have "sublist out notices" unfolding notices by (metis append.assoc append_Nil2 sublist_appendI)
  then have "dependency_covered kit (bm_modules m) notices d" if "Some d \<in> set (bi_dependencies info)" for d
    using dependency_texts_covered [OF deps] that dependency_covered_mono
    by (force simp: list_all_iff map_filter_def)
  then have "case d of None \<Rightarrow> False | Some d \<Rightarrow> dependency_covered kit (bm_modules m) notices d" if "d \<in> set (bi_dependencies info)" for d
    using no_gap that by (cases d) auto
  then show ?thesis by (simp add: list_all_iff)
qed

text \<open>C13: license material is released for a binary only if it is the reviewed product, built with the
  reviewed toolchain and without cgo, and every dependency compiled into it is an unreplaced module of the
  manifest in its exact version and sum, under a reviewed license, whose license texts were found
  under their digests and stand in the notices.\<close>

theorem notices_cover_dependencies:
  "case binary_license_payload kit info of
     Inl e \<Rightarrow> True
   | Inr (license, notices) \<Rightarrow>
       (case lk_corpus kit ''licenses.json'' of
          None \<Rightarrow> False
        | Some data \<Rightarrow> (case fst (lk_manifest kit data) of Json_value m \<Rightarrow> reviewed_build kit m notices info | _ \<Rightarrow> False))"
proof (cases "binary_license_payload kit info")
  case (Inr payload)
  obtain license notices where payload: "payload = (license, notices)" by fastforce
  obtain data m extra where data: "lk_corpus kit ''licenses.json'' = Some data" and m: "lk_manifest kit data = (Json_value m, extra)"
      and ok: "identity_error m extra info = None" and pay: "license_payload kit m info = Inr (license, notices)"
    using Inr by (auto simp: binary_license_payload_def payload split: option.splits if_splits prod.splits json_next.splits)
  show ?thesis using license_payload_covers [OF pay] ok settings_reviewed
    by (auto simp: Inr payload data m reviewed_build_def identity_error_def)
qed simp

end
