(* ===== verification/Document_Check.thy ===== *)
theory Document_Check
  imports Release_Archive
begin

text \<open>
  internal/docscheck: the bounded reading of a documentation tree (admission.go), the checks of one
  Markdown document and its local links (check.go, operations.go), the navigation between documents
  (navigation.go), and the pinned link checker (lychee.go).

  goldmark, \<open>url.Parse\<close>, the Unicode tables and the operating system are arguments: a parsed document is the
  sequence of the visits that \<open>ast.Walk\<close> makes. The context is a budget of polls, as in Gate\_Source.
\<close>

section \<open>What the checks rely on\<close>

text \<open>The pieces of a heading: text that is kept raw, text that is rendered, with a line break behind it
  or not, the label of a link that is its own text, and anything else.\<close>

datatype heading_piece = Raw_text string bool | Rendered_text string bool | Auto_link string | Other_piece

datatype document_node =
    Heading_node "(bool \<times> heading_piece) list"
  | Link_node string nat
  | Image_node string nat
  | Other_node

text \<open>A visit enters a node or leaves it.\<close>

type_synonym document_visits = "(bool \<times> document_node) list"

record link_url =
  lu_scheme :: string
  lu_host :: string
  lu_path :: string
  lu_fragment :: string

text \<open>The reads of an open directory in their order: the entries of one batch, and how it ends.\<close>

datatype batch_end = Batch_more | Batch_last | Batch_failed

record document_entry =
  ne_name :: string
  ne_kind :: file_kind
  ne_info :: "io_error + file_info option"

record document_directory =
  dd_stat :: "io_error + file_info option"
  dd_readable :: bool
  dd_batches :: "(document_entry list \<times> batch_end) list"
  dd_closes :: bool

record document_kit =
  mk_lstat :: "string \<Rightarrow> io_error + file_info"
  mk_stat :: lstat_fun
  mk_open :: open_fun
  mk_polls :: "string \<Rightarrow> nat"
  mk_resolve :: "string \<Rightarrow> string option"
  mk_tree :: "string \<Rightarrow> string \<Rightarrow> io_error + document_directory"
  mk_parse :: "string \<Rightarrow> document_visits"
  mk_render :: "string \<Rightarrow> string"
  mk_url :: "string \<Rightarrow> link_url option"
  mk_lower :: "string \<Rightarrow> string"
  mk_word_rune :: "int \<Rightarrow> bool"
  mk_lower_rune :: "int \<Rightarrow> string"

definition mk_inspect :: "document_kit \<Rightarrow> lstat_fun" where
  "mk_inspect kit p = map_sum id Some (mk_lstat kit p)"

datatype document_error =
    Docs_stopped | Docs_relative | Docs_unresolved | Tree_relative | Tree_unresolved | Tree_outside
  | Tree_depth | Tree_unopened io_error | Tree_unstated io_error | Tree_not_directory | Tree_unread | Tree_unbounded
  | Tree_entries | Tree_symlink string | Readme_not_regular | Entry_uninspected io_error | Entry_not_regular string
  | Entry_oversized string | Tree_documents | Tree_unclosed | Readme_missing
  | Document_relative | Document_file string repository_error | Document_oversize string | Document_unreadable string
  | Trailing_space string nat | Bad_link string nat document_error
  | Link_invalid string | Link_scheme string | Link_absolute string | Link_outside string
  | Link_broken string io_error | Link_symlink string
  | Navigation_documents | Navigation_readme | Navigation_url | Private_path string | Broken_fragment string
  | Unreachable_document string

text \<open>Every poll of the context may end the check.\<close>

definition docs_poll :: "ctx \<Rightarrow> (ctx \<Rightarrow> ctx \<times> (document_error + 'a)) \<Rightarrow> ctx \<times> (document_error + 'a)" where
  "docs_poll c k = (case poll_ctx c of (True, c) \<Rightarrow> (c, Inl Docs_stopped) | (False, c) \<Rightarrow> k c)"

definition docs_bind ::
  "ctx \<times> (document_error + 'a) \<Rightarrow> (ctx \<Rightarrow> 'a \<Rightarrow> ctx \<times> (document_error + 'b)) \<Rightarrow> ctx \<times> (document_error + 'b)" where
  "docs_bind x k = (case x of (c, Inl e) \<Rightarrow> (c, Inl e) | (c, Inr a) \<Rightarrow> k c a)"

definition docs_require :: "bool \<Rightarrow> document_error \<Rightarrow> ctx \<Rightarrow> (ctx \<Rightarrow> ctx \<times> (document_error + 'a)) \<Rightarrow> ctx \<times> (document_error + 'a)" where
  "docs_require ok e c k = (if ok then k c else (c, Inl e))"

section \<open>The documentation tree (admission.go)\<close>

record document_limits =
  ol_bytes :: int
  ol_documents :: nat
  ol_entries :: nat
  ol_depth :: nat

definition maximum_markdown_size :: int where "maximum_markdown_size = 4194304"
definition maximum_documents :: nat where "maximum_documents = 4096"

definition default_document_limits :: document_limits where
  "default_document_limits =
     \<lparr>ol_bytes = maximum_markdown_size, ol_documents = maximum_documents, ol_entries = 100000, ol_depth = 128\<rparr>"

text \<open>The entries that were counted and the documents that were found.\<close>

record tree_state =
  ts_entries :: nat
  ts_paths :: "string list"

type_synonym tree_step = "ctx \<times> (document_error + tree_state)"

definition markdown_entry :: "document_limits \<Rightarrow> string \<Rightarrow> document_entry \<Rightarrow> tree_state \<Rightarrow> document_error + tree_state" where
  "markdown_entry limits name entry st =
     (case ne_info entry of
        Inl e \<Rightarrow> Inl (Entry_uninspected e)
      | Inr None \<Rightarrow> Inl (Entry_not_regular name)
      | Inr (Some info) \<Rightarrow>
          if fi_kind info \<noteq> Kind_regular then Inl (Entry_not_regular name)
          else if ol_bytes limits < fi_size info then Inl (Entry_oversized name)
          else if ol_documents limits \<le> length (ts_paths st) then Inl Tree_documents
          else Inr (st\<lparr>ts_paths := ts_paths st @ [name]\<rparr>))"

definition in_docs :: "string \<Rightarrow> bool" where
  "in_docs relative \<longleftrightarrow> relative = ''docs'' \<or> has_prefix relative ''docs/''"

definition document_visit ::
  "(string \<Rightarrow> ctx \<Rightarrow> tree_state \<Rightarrow> tree_step) \<Rightarrow> document_limits \<Rightarrow> string \<Rightarrow> string \<Rightarrow> document_entry \<Rightarrow> ctx \<Rightarrow> tree_state \<Rightarrow> tree_step" where
  "document_visit sub limits base directory entry c st =
     docs_poll c (\<lambda>c. docs_require (ts_entries st < ol_entries limits) Tree_entries c (\<lambda>c.
       let st = st\<lparr>ts_entries := Suc (ts_entries st)\<rparr>;
           relative = path_join [directory, ne_name entry]; name = path_join [base, relative]
       in if ne_kind entry = Kind_symlink
          then (c, if in_docs relative \<or> path_ext name = ''.md'' then Inl (Tree_symlink name) else Inr st)
          else if ne_kind entry = Kind_directory
          then (if in_docs relative then sub relative c st
                else (c, if relative = ''README.md'' then Inl Readme_not_regular else Inr st))
          else (c, if path_ext name \<noteq> ''.md'' then Inr st else markdown_entry limits name entry st)))"

fun document_batch ::
  "(string \<Rightarrow> ctx \<Rightarrow> tree_state \<Rightarrow> tree_step) \<Rightarrow> document_limits \<Rightarrow> string \<Rightarrow> string \<Rightarrow> document_entry list \<Rightarrow> ctx \<Rightarrow> tree_state \<Rightarrow> tree_step" where
  "document_batch sub limits base directory [] c st = (c, Inr st)"
| "document_batch sub limits base directory (entry # rest) c st =
     docs_bind (document_visit sub limits base directory entry c st) (document_batch sub limits base directory rest)"

text \<open>How many entries the next read asks for: one more than are left, when these are fewer than 128.\<close>

definition batch_request :: "document_limits \<Rightarrow> tree_state \<Rightarrow> nat" where
  "batch_request limits st =
     (if ol_entries limits - ts_entries st < 128 then ol_entries limits - ts_entries st + 1 else 128)"

text \<open>A directory that delivers nothing and does not end violates the bound of the enumeration.\<close>

fun document_batches ::
  "(string \<Rightarrow> ctx \<Rightarrow> tree_state \<Rightarrow> tree_step) \<Rightarrow> document_limits \<Rightarrow> string \<Rightarrow> string \<Rightarrow> (document_entry list \<times> batch_end) list
    \<Rightarrow> ctx \<Rightarrow> tree_state \<Rightarrow> tree_step" where
  "document_batches sub limits base directory [] c st =
     docs_poll c (\<lambda>c. docs_poll c (\<lambda>c. (c, Inl Tree_unbounded)))"
| "document_batches sub limits base directory ((batch, ending) # rest) c st =
     docs_poll c (\<lambda>c. docs_poll c (\<lambda>c.
       docs_require (ending \<noteq> Batch_failed) Tree_unread c (\<lambda>c.
       docs_require (length batch \<le> batch_request limits st \<and> (batch \<noteq> [] \<or> ending = Batch_last)) Tree_unbounded c (\<lambda>c.
         docs_bind (document_batch sub limits base directory batch c st) (\<lambda>c st.
           if ending = Batch_last then (c, Inr st) else document_batches sub limits base directory rest c st)))))"

definition read_document_directory ::
  "(string \<Rightarrow> ctx \<Rightarrow> tree_state \<Rightarrow> tree_step) \<Rightarrow> document_limits \<Rightarrow> string \<Rightarrow> string \<Rightarrow> document_directory \<Rightarrow> ctx \<Rightarrow> tree_state \<Rightarrow> tree_step" where
  "read_document_directory sub limits base directory d c st =
     docs_poll c (\<lambda>c.
       case dd_stat d of
         Inl e \<Rightarrow> (c, Inl (Tree_unstated e))
       | Inr info \<Rightarrow>
           if (case info of None \<Rightarrow> True | Some i \<Rightarrow> fi_kind i \<noteq> Kind_directory) \<or> \<not> dd_readable d
           then (c, Inl Tree_not_directory)
           else document_batches sub limits base directory (dd_batches d) c st)"

text \<open>\<open>levels\<close> is one more than the depth that is left, so that a depth above the limit has none.\<close>

fun document_walk :: "document_kit \<Rightarrow> document_limits \<Rightarrow> string \<Rightarrow> nat \<Rightarrow> string \<Rightarrow> ctx \<Rightarrow> tree_state \<Rightarrow> tree_step" where
  "document_walk kit limits base levels directory c st =
     docs_poll c (\<lambda>c.
       case levels of
         0 \<Rightarrow> (c, Inl Tree_depth)
       | Suc n \<Rightarrow>
           (case mk_tree kit base directory of
              Inl e \<Rightarrow> (c, Inl (Tree_unopened e))
            | Inr d \<Rightarrow>
                docs_bind (read_document_directory (document_walk kit limits base n) limits base directory d c st) (\<lambda>c st.
                  (c, if dd_closes d then Inr st else Inl Tree_unclosed))))"

declare document_walk.simps [simp del]

definition documents_fs :: "document_kit \<Rightarrow> document_limits \<Rightarrow> string \<Rightarrow> ctx \<Rightarrow> ctx \<times> (document_error + string list)" where
  "documents_fs kit limits base c =
     docs_bind (document_walk kit limits base (Suc (ol_depth limits)) ''.'' c \<lparr>ts_entries = 0, ts_paths = []\<rparr>) (\<lambda>c st.
       (c, if List.member (ts_paths st) (path_join [base, ''README.md'']) then Inr (sort (ts_paths st)) else Inl Readme_missing))"

section \<open>Links (check.go, operations.go)\<close>

text \<open>The elements of a link below the root: every one exists and none is a symbolic link.\<close>

fun validate_components :: "document_kit \<Rightarrow> string \<Rightarrow> string \<Rightarrow> string list \<Rightarrow> ctx \<Rightarrow> ctx \<times> (document_error + unit)" where
  "validate_components kit target current [] c = (c, Inr ())"
| "validate_components kit target current (e # es) c =
     docs_poll c (\<lambda>c.
       if e = [] then validate_components kit target current es c
       else (let current = path_join [current, e]
             in case mk_lstat kit current of
                  Inl err \<Rightarrow> (c, Inl (Link_broken target err))
                | Inr info \<Rightarrow> docs_poll c (\<lambda>c.
                    docs_require (fi_kind info \<noteq> Kind_symlink) (Link_symlink target) c
                      (validate_components kit target current es))))"

definition leaves_root :: "string option \<Rightarrow> bool" where
  "leaves_root relative = (case relative of None \<Rightarrow> True | Some r \<Rightarrow> r = ''..'' \<or> has_prefix r ''../'')"

definition link_resolved :: "string \<Rightarrow> string \<Rightarrow> string" where
  "link_resolved document path = path_clean (path_join [path_dir document, path])"

definition check_link :: "document_kit \<Rightarrow> string \<Rightarrow> string \<Rightarrow> string \<Rightarrow> ctx \<Rightarrow> ctx \<times> (document_error + unit)" where
  "check_link kit base document target c =
     docs_poll c (\<lambda>c.
       let target = trim_space target
       in case mk_url kit target of
            None \<Rightarrow> (c, Inl (Link_invalid target))
          | Some u \<Rightarrow>
              if lu_scheme u \<noteq> []
              then (c, if List.member [''https'', ''http'', ''mailto''] (mk_lower kit (lu_scheme u)) then Inr () else Inl (Link_scheme (lu_scheme u)))
              else if lu_host u \<noteq> [] \<or> is_abs (lu_path u) then (c, Inl (Link_absolute target))
              else if lu_path u = [] then (c, Inr ())
              else (let relative = path_rel base (link_resolved document (lu_path u))
                    in if leaves_root relative then (c, Inl (Link_outside target))
                       else (let r = the relative
                             in validate_components kit target base (split_on CHR ''/'' (if r = ''.'' then [] else r)) c)))"

text \<open>The roots: both absolute, resolved, and the tree inside the repository.\<close>

definition admit_roots :: "document_kit \<Rightarrow> string \<Rightarrow> string \<Rightarrow> ctx \<Rightarrow> ctx \<times> (document_error + string \<times> string)" where
  "admit_roots kit repository documentation c =
     docs_poll c (\<lambda>c. docs_require (is_abs repository) Docs_relative c (\<lambda>c.
       case mk_resolve kit repository of
         None \<Rightarrow> (c, Inl Docs_unresolved)
       | Some base \<Rightarrow> docs_poll c (\<lambda>c. docs_require (is_abs documentation) Tree_relative c (\<lambda>c.
           case mk_resolve kit documentation of
             None \<Rightarrow> (c, Inl Tree_unresolved)
           | Some tree \<Rightarrow> docs_poll c (\<lambda>c.
               docs_require (\<not> leaves_root (path_rel base tree)) Tree_outside c (\<lambda>c. (c, Inr (base, tree))))))))"

fun validate_lines :: "string \<Rightarrow> nat \<Rightarrow> string list \<Rightarrow> ctx \<Rightarrow> ctx \<times> (document_error + unit)" where
  "validate_lines document n [] c = (c, Inr ())"
| "validate_lines document n (l # ls) c =
     docs_poll c (\<lambda>c.
       docs_require (\<not> has_suffix l '' '' \<and> \<not> has_suffix l [CHR 0x09]) (Trailing_space document n) c
         (validate_lines document (Suc n) ls))"

definition node_destination :: "document_node \<Rightarrow> (string \<times> nat) option" where
  "node_destination n = (case n of Link_node d p \<Rightarrow> Some (d, p) | Image_node d p \<Rightarrow> Some (d, p) | _ \<Rightarrow> None)"

text \<open>Links and images are checked when they are entered and when they are left.\<close>

fun validate_visits :: "document_kit \<Rightarrow> string \<Rightarrow> string \<Rightarrow> document_visits \<Rightarrow> ctx \<Rightarrow> ctx \<times> (document_error + unit)" where
  "validate_visits kit base document [] c = (c, Inr ())"
| "validate_visits kit base document ((entering, n) # rest) c =
     docs_poll c (\<lambda>c.
       case node_destination n of
         None \<Rightarrow> validate_visits kit base document rest c
       | Some (destination, line) \<Rightarrow>
           (case check_link kit base document destination c of
              (c, Inl e) \<Rightarrow> (c, Inl (Bad_link document line e))
            | (c, Inr _) \<Rightarrow> validate_visits kit base document rest c))"

definition validate_markdown :: "document_kit \<Rightarrow> string \<Rightarrow> string \<Rightarrow> string \<Rightarrow> ctx \<Rightarrow> ctx \<times> (document_error + unit)" where
  "validate_markdown kit base document data c =
     docs_bind (validate_lines document 1 (split_on CHR 0x0A data) c) (\<lambda>c _.
       docs_poll c (validate_visits kit base document (mk_parse kit data)))"

text \<open>\<open>repositoryfile.OpenContext\<close> polls four times on its way to an opened file.\<close>

definition read_markdown :: "document_kit \<Rightarrow> string \<Rightarrow> int \<Rightarrow> ctx \<Rightarrow> ctx \<times> (document_error + string)" where
  "read_markdown kit document maximum c =
     (case open_context (stops_at c) maximum (mk_stat kit) (mk_open kit) document of
        Inl e \<Rightarrow> (c, Inl (Document_file document e))
      | Inr f \<Rightarrow> docs_poll (after_polls 4 c) (\<lambda>c.
          let k = mk_polls kit document; body = of_content f
          in if (k \<noteq> 0 \<and> stops_at c (k - 1)) \<or> (of_failed f \<and> int (length body) \<le> maximum)
             then (after_polls k c, Inl (Document_unreadable document))
             else docs_poll (after_polls k c) (\<lambda>c.
               docs_require (int (length body) \<le> maximum) (Document_oversize document) c (\<lambda>c. (c, Inr body)))))"

definition check_document :: "document_kit \<Rightarrow> string \<Rightarrow> int \<Rightarrow> string \<Rightarrow> ctx \<Rightarrow> ctx \<times> (document_error + unit)" where
  "check_document kit base maximum document c =
     docs_poll c (\<lambda>c. docs_require (0 < maximum \<and> maximum \<le> maximum_markdown_size) (Document_oversize document) c (\<lambda>c.
       case path_rel base document of
         None \<Rightarrow> (c, Inl Document_relative)
       | Some relative \<Rightarrow>
           (case inspect_regular_file (mk_inspect kit) base relative of
              Inl e \<Rightarrow> (c, Inl (Document_file document e))
            | Inr info \<Rightarrow> docs_poll c (\<lambda>c. docs_require (fi_size info \<le> maximum) (Document_oversize document) c (\<lambda>c.
                docs_bind (read_markdown kit document maximum c) (\<lambda>c data. validate_markdown kit base document data c))))))"

fun check_documents :: "document_kit \<Rightarrow> string \<Rightarrow> int \<Rightarrow> string list \<Rightarrow> ctx \<Rightarrow> ctx \<times> (document_error + unit)" where
  "check_documents kit base maximum [] c = docs_poll c (\<lambda>c. (c, Inr ()))"
| "check_documents kit base maximum (d # ds) c =
     docs_bind (check_document kit base maximum d c) (\<lambda>c _. check_documents kit base maximum ds c)"

definition check_within_context :: "document_kit \<Rightarrow> string \<Rightarrow> string \<Rightarrow> ctx \<Rightarrow> ctx \<times> (document_error + unit)" where
  "check_within_context kit repository documentation c =
     docs_bind (admit_roots kit repository documentation c) (\<lambda>c (base, tree).
       docs_bind (documents_fs kit default_document_limits tree c) (\<lambda>c paths.
         check_documents kit base (ol_bytes default_document_limits) paths c))"

section \<open>The pinned link checker (lychee.go)\<close>

record lychee_release =
  ly_version :: string
  ly_target :: string
  ly_url :: string
  ly_sha256 :: string

datatype lychee_error =
    Platform_unsupported string string | Checksum_malformed | Archive_uninspected io_error | Archive_irregular
  | Archive_oversized | Archive_unread | Checksum_differs | Archive_not_gzip | Binary_missing | Header_unread
  | Members_exceeded | Member_path_unsafe string | Member_type_unsupported string | Members_oversized
  | Binary_twice | Binary_irregular | Binary_oversized | Binary_unread | Member_unread string

definition lychee_platforms :: "(string \<times> string \<times> string) list" where
  "lychee_platforms =
     [(''darwin/arm64'', ''aarch64-apple-darwin'', ''c9d3740ea2d891854d37116c9fba840f37b6e7c89d330e7db84ac333631c4977''),
      (''darwin/amd64'', ''x86_64-apple-darwin'', ''887503a9cff667d322b8d0892b40bf49976eb9507af8483220a3706cdad55978''),
      (''linux/arm64'', ''aarch64-unknown-linux-gnu'', ''91a7bd65685da41b90ccb9bc867a3d649a7818042dae04ff405e55a25bddee4c''),
      (''linux/amd64'', ''x86_64-unknown-linux-gnu'', ''1f4e0ef7f6554a6ed33dd7ac144fb2e1bbed98598e7af973042fc5cd43951c9a'')]"

definition lychee_release_for :: "string \<Rightarrow> string \<Rightarrow> lychee_error + lychee_release" where
  "lychee_release_for goos goarch =
     (case map_of lychee_platforms (goos @ ''/'' @ goarch) of
        None \<Rightarrow> Inl (Platform_unsupported goos goarch)
      | Some (target, checksum) \<Rightarrow>
          Inr \<lparr>ly_version = ''0.24.2'', ly_target = target,
               ly_url = ''https://github.com/lycheeverse/lychee/releases/download/lychee-v'' @ ''0.24.2'' @ ''/'' @ ''lychee-'' @ target @ ''.tar.gz'',
               ly_sha256 = checksum\<rparr>)"

text \<open>The checks of the header of entry \<open>n\<close>, after \<open>used\<close> bytes.\<close>

definition lychee_header_error :: "nat \<Rightarrow> int \<Rightarrow> tar_header \<Rightarrow> lychee_error option" where
  "lychee_header_error n used h =
     (let clean = path_clean (th_name h)
      in first_error
        [refuse (256 < n) Members_exceeded,
         refuse (is_abs (th_name h) \<or> clean = ''..'' \<or> has_prefix clean ''../'' \<or> contains_str (th_name h) [CHR 0x5C])
           (Member_path_unsafe (th_name h)),
         refuse (th_type h \<noteq> 53 \<and> th_type h \<noteq> 48) (Member_type_unsupported (th_name h)),
         refuse (th_size h < 0 \<or> 268435456 - used < th_size h) Members_oversized])"

definition lychee_binary_error :: "string option \<Rightarrow> tar_member \<Rightarrow> lychee_error option" where
  "lychee_binary_error binary m = first_error
     [refuse (binary \<noteq> None) Binary_twice, refuse (th_type (tm_header m) \<noteq> 48) Binary_irregular,
      refuse (67108864 < th_size (tm_header m)) Binary_oversized, refuse (tm_failed m) Binary_unread]"

text \<open>\<open>failed\<close>: reading the next header fails behind the last member.\<close>

fun lychee_members :: "string \<Rightarrow> bool \<Rightarrow> nat \<Rightarrow> int \<Rightarrow> string option \<Rightarrow> tar_member list \<Rightarrow> lychee_error + string" where
  "lychee_members expected failed n used binary [] =
     (if failed then Inl Header_unread else (case binary of None \<Rightarrow> Inl Binary_missing | Some b \<Rightarrow> Inr b))"
| "lychee_members expected failed n used binary (m # ms) =
     (case lychee_header_error n used (tm_header m) of
        Some e \<Rightarrow> Inl e
      | None \<Rightarrow>
          (let used = used + th_size (tm_header m)
           in if path_clean (th_name (tm_header m)) = expected
              then with_check (lychee_binary_error binary m) (lychee_members expected failed (Suc n) used (Some (tm_body m)) ms)
              else if tm_failed m then Inl (Member_unread (th_name (tm_header m)))
              else lychee_members expected failed (Suc n) used binary ms))"

record lychee_kit =
  yk_lstat :: "string \<Rightarrow> io_error + file_info"
  yk_read :: "string \<Rightarrow> string option"
  yk_digest :: "string \<Rightarrow> string"
  yk_members :: "string \<Rightarrow> (tar_member list \<times> bool) option"

definition lychee_archive :: "lychee_kit \<Rightarrow> string \<Rightarrow> lychee_error + string" where
  "lychee_archive kit archive =
     (case yk_lstat kit archive of
        Inl e \<Rightarrow> Inl (Archive_uninspected e)
      | Inr info \<Rightarrow>
          if fi_kind info \<noteq> Kind_regular then Inl Archive_irregular
          else if 134217728 < fi_size info then Inl Archive_oversized
          else (case yk_read kit archive of None \<Rightarrow> Inl Archive_unread | Some data \<Rightarrow> Inr data))"

definition extract_lychee :: "lychee_kit \<Rightarrow> string \<Rightarrow> lychee_release \<Rightarrow> lychee_error + string" where
  "extract_lychee kit archive release =
     (if length (ly_sha256 release) \<noteq> 64 \<or> \<not> all_in ''0123456789abcdef'' (ly_sha256 release) then Inl Checksum_malformed
      else and_then (lychee_archive kit archive) (\<lambda>data.
        if yk_digest kit data \<noteq> ly_sha256 release then Inl Checksum_differs
        else (case yk_members kit data of
                None \<Rightarrow> Inl Archive_not_gzip
              | Some (ms, failed) \<Rightarrow> lychee_members (''lychee-'' @ ly_target release @ ''/lychee'') failed 1 0 None ms)))"

text \<open>What is extracted is the body of the only member under the expected path.\<close>

lemma lychee_members_only:
  "lychee_members expected failed n used binary ms = Inr b \<Longrightarrow>
     (case binary of
        None \<Rightarrow> \<exists>m. filter (\<lambda>m. path_clean (th_name (tm_header m)) = expected) ms = [m] \<and> tm_body m = b \<and>
          th_type (tm_header m) = 48 \<and> th_size (tm_header m) \<le> 67108864
      | Some b' \<Rightarrow> b = b' \<and> filter (\<lambda>m. path_clean (th_name (tm_header m)) = expected) ms = [])"
proof (induction ms arbitrary: n used binary)
  case (Cons m ms)
  then show ?case
    by (cases "path_clean (th_name (tm_header m)) = expected"; cases binary)
       (fastforce simp: Let_def lychee_binary_error_def split: option.splits if_splits)+
qed (auto split: option.splits if_splits)

lemma lychee_verified:
  assumes "extract_lychee kit archive release = Inr b"
  shows "\<exists>data ms failed m. yk_read kit archive = Some data \<and> yk_digest kit data = ly_sha256 release \<and>
    yk_members kit data = Some (ms, failed) \<and>
    filter (\<lambda>m. path_clean (th_name (tm_header m)) = ''lychee-'' @ ly_target release @ ''/lychee'') ms = [m] \<and> tm_body m = b"
proof -
  obtain data ms failed where data: "yk_read kit archive = Some data" "yk_digest kit data = ly_sha256 release"
      and ms: "yk_members kit data = Some (ms, failed)"
      and b: "lychee_members (''lychee-'' @ ly_target release @ ''/lychee'') failed 1 0 None ms = Inr b"
    using assms by (auto simp: extract_lychee_def lychee_archive_def split: if_splits option.splits sum.splits)
  show ?thesis using data ms lychee_members_only [OF b] by auto
qed

end
