(* ===== verification/Repository_Contract.thy ===== *)
theory Repository_Contract
  imports Spec_Check "HOL-Library.Multiset"
begin

text \<open>
  internal/repository/check.go, internal/releasecheck/release.go, internal/buildinfo/version.go and
  internal/consumers/consumers.go: the identity of a repository with its modules and workspace, the
  modules that may be released, the identity of the binary, and the inventory of the consumers.

  The parsers of golang.org/x/mod (modfile, semver, module) and the JSON decoder are arguments.
\<close>

section \<open>Module files and workspace (repository/check.go)\<close>

text \<open>What the check reads of a parsed go.mod and go.work.\<close>

record module_file =
  mf_module :: "string option"
  mf_go :: "string option"
  mf_replaces :: nat

record workspace_file =
  wf_go :: "string option"
  wf_uses :: "string list"

record contract_kit =
  ck_lstat :: lstat_fun
  ck_open :: open_fun
  ck_parse_module :: "string \<Rightarrow> string \<Rightarrow> module_file option"
  ck_parse_work :: "string \<Rightarrow> workspace_file option"

datatype contract_refusal =
    Root_relative | Contract_file string repository_error | Go_version_differs
  | Directory_invalid string | Outside_namespace string | Module_file_unparsed string | Module_identity_differs string
  | Module_go_differs string | Module_replaced string | Module_twice string
  | Workspace_required | Workspace_unparsed | Workspace_go_differs | Workspace_outside string | Workspace_root_only
  | Workspace_differs | Legacy_remains | Legacy_uninspected io_error | Specification_refused spec_error

definition read_contract_file :: "contract_kit \<Rightarrow> string \<Rightarrow> string \<Rightarrow> repository_error + string" where
  "read_contract_file kit base path = read_repository_file (ck_lstat kit) (ck_open kit) base path 1048576"

definition directory_refused :: "string \<Rightarrow> bool" where
  "directory_refused d \<longleftrightarrow>
     d = [] \<or> is_abs d \<or> contains_str d [CHR 0x5C] \<or> path_clean d \<noteq> d \<or> path_clean d = ''..'' \<or> has_prefix (path_clean d) ''../''"

definition in_namespace :: "string \<Rightarrow> string \<Rightarrow> bool" where
  "in_namespace repository path \<longleftrightarrow> path = repository \<or> has_prefix path (repository @ ''/'')"

definition module_file_error :: "module_policy \<Rightarrow> string \<Rightarrow> module_file \<Rightarrow> contract_refusal option" where
  "module_file_error md relative f = first_error
     [refuse (mf_module f \<noteq> Some (md_module_path md)) (Module_identity_differs relative),
      refuse (mf_go f \<noteq> Some (md_go_version md) \<or> md_go_version md \<noteq> trim_space (md_go_version md)) (Module_go_differs relative),
      refuse (0 < mf_replaces f) (Module_replaced relative)]"

definition check_module_file :: "contract_kit \<Rightarrow> string \<Rightarrow> string \<Rightarrow> module_policy \<Rightarrow> contract_refusal option" where
  "check_module_file kit base repository md =
     (let relative = path_join [md_directory md, ''go.mod'']
      in if directory_refused (md_directory md) then Some (Directory_invalid (md_directory md))
         else if md_releasable md \<and> \<not> in_namespace repository (md_module_path md) then Some (Outside_namespace (md_module_path md))
         else (case read_contract_file kit base relative of
                 Inl e \<Rightarrow> Some (Contract_file relative e)
               | Inr data \<Rightarrow>
                   (case ck_parse_module kit relative data of
                      None \<Rightarrow> Some (Module_file_unparsed relative)
                    | Some f \<Rightarrow> module_file_error md relative f)))"

fun check_module_files :: "contract_kit \<Rightarrow> string \<Rightarrow> string \<Rightarrow> string list \<Rightarrow> module_policy list \<Rightarrow> contract_refusal option" where
  "check_module_files kit base repository seen [] = None"
| "check_module_files kit base repository seen (md # mds) =
     (case check_module_file kit base repository md of
        Some e \<Rightarrow> Some e
      | None \<Rightarrow>
          if List.member seen (md_directory md) then Some (Module_twice (md_directory md))
          else check_module_files kit base repository (md_directory md # seen) mds)"

definition absent_file :: "repository_error \<Rightarrow> bool" where
  "absent_file e \<longleftrightarrow> e = Inspect_error Err_not_exist \<or> e = Open_error Err_not_exist \<or> e = Stat_error Err_not_exist"

fun workspace_paths :: "string list \<Rightarrow> contract_refusal + string list" where
  "workspace_paths [] = Inr []"
| "workspace_paths (u # us) =
     (let path = path_clean u
      in if is_abs path \<or> path = ''..'' \<or> has_prefix path ''../'' then Inl (Workspace_outside u)
         else map_sum id (\<lambda>ps. path # ps) (workspace_paths us))"

definition work_file_error :: "string \<Rightarrow> string list \<Rightarrow> workspace_file \<Rightarrow> contract_refusal option" where
  "work_file_error go_version expected f =
     (if wf_go f \<noteq> Some go_version then Some Workspace_go_differs
      else (case workspace_paths (wf_uses f) of
              Inl e \<Rightarrow> Some e
            | Inr actual \<Rightarrow> first_error
                [refuse (sort actual = [''.'']) Workspace_root_only, refuse (sort actual \<noteq> expected) Workspace_differs]))"

definition check_workspace :: "contract_kit \<Rightarrow> string \<Rightarrow> string \<Rightarrow> string list \<Rightarrow> contract_refusal option" where
  "check_workspace kit base go_version expected =
     (case read_contract_file kit base ''go.work'' of
        Inl e \<Rightarrow> (if absent_file e then refuse (1 < length expected) Workspace_required else Some (Contract_file ''go.work'' e))
      | Inr data \<Rightarrow>
          (case ck_parse_work kit data of
             None \<Rightarrow> Some Workspace_unparsed
           | Some f \<Rightarrow> work_file_error go_version expected f))"

definition check_legacy :: "contract_kit \<Rightarrow> string \<Rightarrow> contract_refusal option" where
  "check_legacy kit base =
     (case ck_lstat kit (path_join [base, ''.golib'']) of
        Inr _ \<Rightarrow> Some Legacy_remains
      | Inl e \<Rightarrow> refuse (e \<noteq> Err_not_exist) (Legacy_uninspected e))"

definition check_repository :: "contract_kit \<Rightarrow> spec_kit \<Rightarrow> string \<Rightarrow> int \<Rightarrow> inventory \<Rightarrow> contract_refusal option" where
  "check_repository kit spec base today catalog =
     (if \<not> is_abs base then Some Root_relative
      else (case read_contract_file kit base ''.go-version'' of
              Inl e \<Rightarrow> Some (Contract_file ''.go-version'' e)
            | Inr version \<Rightarrow> first_error
                [refuse (trim_space version \<noteq> iv_go_version catalog) Go_version_differs,
                 check_module_files kit base (iv_repository catalog) [] (inv_modules catalog),
                 check_workspace kit base (iv_go_version catalog) (sort (map md_directory (inv_modules catalog))),
                 check_legacy kit base,
                 (case check_specifications spec base today catalog of
                    Inl e \<Rightarrow> Some (Specification_refused e) | Inr _ \<Rightarrow> None)]))"

section \<open>Releases (releasecheck/release.go)\<close>

text \<open>\<open>semver\<close> and \<open>module\<close> of golang.org/x/mod: validity, the major version, the split of a module path,
  and the agreement of a version with the major of its path.\<close>

record version_library =
  vl_valid :: "string \<Rightarrow> bool"
  vl_major :: "string \<Rightarrow> string"
  vl_split_path :: "string \<Rightarrow> (string \<times> string) option"
  vl_path_major :: "string \<Rightarrow> string \<Rightarrow> bool"

datatype release_error =
    Tool_unstable | Too_many_selected | Selected_unknown string | Selected_unreleasable string
  | Version_unstable string | Version_path_major string | Tag_prefix_differs string string | Gate_disabled string string
  | Nothing_releasable

definition required_gates :: "string list" where
  "required_gates = [''documentation'', ''lint'', ''security'', ''tests'']"

definition stable_version :: "version_library \<Rightarrow> string \<Rightarrow> bool" where
  "stable_version lib v \<longleftrightarrow> vl_valid lib v \<and> vl_major lib v \<noteq> ''v0''"

definition module_tag_prefix :: "string \<Rightarrow> string" where
  "module_tag_prefix d = (if d \<noteq> ''.'' then d @ ''/v'' else ''v'')"

definition path_major_agrees :: "version_library \<Rightarrow> string \<Rightarrow> string \<Rightarrow> bool" where
  "path_major_agrees lib version path \<longleftrightarrow>
     (case vl_split_path lib path of None \<Rightarrow> False | Some (_, major) \<Rightarrow> vl_path_major lib version major)"

definition release_module_error :: "version_library \<Rightarrow> module_policy \<Rightarrow> release_error option" where
  "release_module_error lib md =
     (let version = CHR ''v'' # trim_prefix (md_version md) ''v''; d = md_directory md
      in first_error
        ([refuse (\<not> stable_version lib version \<or> md_version md \<noteq> trim_prefix version ''v'') (Version_unstable d),
          refuse (\<not> path_major_agrees lib version (md_module_path md)) (Version_path_major d),
          refuse (md_tag_prefix md \<noteq> module_tag_prefix d) (Tag_prefix_differs d (module_tag_prefix d))] @
         map (\<lambda>gate. refuse (\<not> gate_on md gate) (Gate_disabled d gate)) required_gates))"

fun release_directories :: "version_library \<Rightarrow> module_policy list \<Rightarrow> release_error + string list" where
  "release_directories lib [] = Inr []"
| "release_directories lib (md # mds) =
     (if \<not> md_releasable md then release_directories lib mds
      else with_check (release_module_error lib md) (map_sum id (\<lambda>ds. md_directory md # ds) (release_directories lib mds)))"

definition selected_modules :: "module_policy list \<Rightarrow> string list \<Rightarrow> release_error + module_policy list" where
  "selected_modules mds selected =
     (case selected of
        [] \<Rightarrow> Inr mds
      | [d] \<Rightarrow>
          (case find (\<lambda>md. md_directory md = d) mds of
             None \<Rightarrow> Inl (Selected_unknown d)
           | Some md \<Rightarrow> if md_releasable md then Inr [md] else Inl (Selected_unreleasable d))
      | _ \<Rightarrow> Inl Too_many_selected)"

definition validate_release :: "version_library \<Rightarrow> inventory \<Rightarrow> config \<Rightarrow> string list \<Rightarrow> release_error + string list" where
  "validate_release lib catalog policy selected =
     (if \<not> stable_version lib (cf_tool_version policy) then Inl Tool_unstable
      else and_then (selected_modules (inv_modules catalog) selected) (\<lambda>mds.
        and_then (release_directories lib mds) (\<lambda>ds. if ds = [] then Inl Nothing_releasable else Inr (sort ds))))"

section \<open>The identity of the binary (buildinfo/version.go)\<close>

datatype identity_failure = Identity_malformed | Identity_differs

definition release_re :: "string \<Rightarrow> bool" where
  "release_re v \<longleftrightarrow>
     has_prefix v ''v'' \<and> length (split_on CHR ''.'' (drop 1 v)) = 3 \<and> list_all digits1 (split_on CHR ''.'' (drop 1 v))"

definition validate_required :: "string \<Rightarrow> string \<Rightarrow> identity_failure option" where
  "validate_required version required =
     (if version = ''dev'' then None
      else first_error [refuse (\<not> release_re version) Identity_malformed, refuse (version \<noteq> required) Identity_differs])"

section \<open>Consumers (consumers/consumers.go)\<close>

record consumer_repository =
  cr_name :: string
  cr_classification :: string
  cr_default_branch :: string
  cr_reason :: string

record consumer_manifest =
  ct_schema_version :: int
  ct_owner :: string
  ct_repositories :: "consumer_repository list"

record consumer_summary =
  cy_schema_version :: int
  cy_owner :: string
  cy_total :: nat
  cy_active :: nat
  cy_deferred :: nat
  cy_tooling :: nat
  cy_repositories :: "consumer_repository list"

datatype consumer_error =
    Consumers_file repository_error | Consumers_oversized | Consumers_undecoded | Consumers_second | Consumers_schema
  | Consumers_owner | Consumers_number | Name_invalid nat | Name_unsorted nat | Branch_invalid nat
  | Reason_unexpected nat | Reason_missing nat | Classification_invalid nat | No_active | Not_one_tooling

definition lower_alnum :: string where "lower_alnum = ''abcdefghijklmnopqrstuvwxyz0123456789''"
definition any_alnum :: string where "any_alnum = lower_alnum @ ''ABCDEFGHIJKLMNOPQRSTUVWXYZ''"

definition consumer_name_re :: "string \<Rightarrow> bool" where
  "consumer_name_re s \<longleftrightarrow>
     has_prefix s ''go-'' \<and> list_all (\<lambda>w. w \<noteq> [] \<and> all_in lower_alnum w) (split_on CHR ''-'' (drop 3 s))"

definition owner_re :: "string \<Rightarrow> bool" where
  "owner_re s \<longleftrightarrow>
     s \<noteq> [] \<and> length s \<le> 39 \<and> all_in (any_alnum @ ''-'') s \<and> all_in any_alnum [hd s] \<and> all_in any_alnum [last s]"

definition valid_branch :: "string \<Rightarrow> bool" where
  "valid_branch s \<longleftrightarrow>
     s \<noteq> [] \<and> \<not> has_prefix s ''.'' \<and> \<not> has_suffix s ''.'' \<and> \<not> has_prefix s ''/'' \<and> \<not> has_suffix s ''/'' \<and>
     \<not> contains_str s ''..'' \<and> \<not> contains_str s [CHR ''@'', CHR 0x7B] \<and>
     \<not> contains_any s ([CHR 0x5C] @ '' ~^:?*['' @ [CHR 0x09, CHR 0x0D, CHR 0x0A])"

text \<open>The classification of one repository, and the number of active and of tooling ones so far.\<close>

definition classification_error :: "nat \<Rightarrow> consumer_repository \<Rightarrow> consumer_error option" where
  "classification_error k r =
     (if cr_classification r = ''active'' then refuse (cr_reason r \<noteq> []) (Reason_unexpected k)
      else if cr_classification r = ''deferred'' \<or> cr_classification r = ''tooling''
      then refuse (is_blank (cr_reason r)) (Reason_missing k)
      else Some (Classification_invalid k))"

definition consumer_row_error :: "nat \<Rightarrow> string \<Rightarrow> consumer_repository \<Rightarrow> consumer_error option" where
  "consumer_row_error k previous r = first_error
     [refuse (\<not> consumer_name_re (cr_name r)) (Name_invalid k),
      refuse (previous \<noteq> [] \<and> cr_name r \<le> previous) (Name_unsorted k),
      refuse (\<not> valid_branch (cr_default_branch r)) (Branch_invalid k),
      classification_error k r]"

fun consumers_error :: "nat \<Rightarrow> string \<Rightarrow> nat \<Rightarrow> nat \<Rightarrow> consumer_repository list \<Rightarrow> consumer_error option" where
  "consumers_error k previous active tooling [] =
     first_error [refuse (active < 1) No_active, refuse (tooling \<noteq> 1) Not_one_tooling]"
| "consumers_error k previous active tooling (r # rs) =
     (case consumer_row_error k previous r of
        Some e \<Rightarrow> Some e
      | None \<Rightarrow> consumers_error (Suc k) (cr_name r)
          (if cr_classification r = ''active'' then Suc active else active)
          (if cr_classification r = ''tooling'' then Suc tooling else tooling) rs)"

definition validate_consumers :: "consumer_manifest \<Rightarrow> consumer_error option" where
  "validate_consumers m = first_error
     [refuse (ct_schema_version m \<noteq> 1) Consumers_schema, refuse (\<not> owner_re (ct_owner m)) Consumers_owner,
      refuse (ct_repositories m = [] \<or> 256 < length (ct_repositories m)) Consumers_number,
      consumers_error 0 [] 0 0 (ct_repositories m)]"

definition parse_consumers ::
  "(string \<Rightarrow> consumer_manifest json_next \<times> unit json_next) \<Rightarrow> string \<Rightarrow> consumer_error + consumer_manifest" where
  "parse_consumers decode data =
     (if 1048576 < length data then Inl Consumers_oversized
      else (case decode data of
              (Json_value m, rest) \<Rightarrow>
                if rest \<noteq> Json_eof then Inl Consumers_second
                else with_check (validate_consumers m) (Inr m)
            | _ \<Rightarrow> Inl Consumers_undecoded))"

definition load_consumers ::
  "contract_kit \<Rightarrow> (string \<Rightarrow> consumer_manifest json_next \<times> unit json_next) \<Rightarrow> string \<Rightarrow> string \<Rightarrow> consumer_error + consumer_manifest" where
  "load_consumers kit decode base relative =
     and_then (map_sum Consumers_file id (read_contract_file kit base relative)) (parse_consumers decode)"

definition classified :: "string \<Rightarrow> consumer_repository list \<Rightarrow> nat" where
  "classified c rs = length (filter (\<lambda>r. cr_classification r = c) rs)"

definition summarize_consumers :: "consumer_manifest \<Rightarrow> consumer_summary" where
  "summarize_consumers m =
     \<lparr>cy_schema_version = ct_schema_version m, cy_owner = ct_owner m, cy_total = length (ct_repositories m),
      cy_active = classified ''active'' (ct_repositories m), cy_deferred = classified ''deferred'' (ct_repositories m),
      cy_tooling = classified ''tooling'' (ct_repositories m), cy_repositories = ct_repositories m\<rparr>"

section \<open>What an accepted repository holds\<close>

definition module_agrees :: "contract_kit \<Rightarrow> string \<Rightarrow> string \<Rightarrow> module_policy \<Rightarrow> bool" where
  "module_agrees kit base repository md \<longleftrightarrow>
     confined (md_directory md) \<and> path_clean (md_directory md) = md_directory md \<and>
     (md_releasable md \<longrightarrow> in_namespace repository (md_module_path md)) \<and>
     (case read_contract_file kit base (path_join [md_directory md, ''go.mod'']) of
        Inl e \<Rightarrow> False
      | Inr data \<Rightarrow>
          (case ck_parse_module kit (path_join [md_directory md, ''go.mod'']) data of
             None \<Rightarrow> False
           | Some f \<Rightarrow> mf_module f = Some (md_module_path md) \<and> mf_go f = Some (md_go_version md) \<and> mf_replaces f = 0))"

lemma module_file_agrees:
  assumes "check_module_file kit base repository md = None"
  shows "module_agrees kit base repository md"
  using assms clean_dotdot_iff [of "md_directory md"]
  by (auto simp: check_module_file_def module_agrees_def module_file_error_def directory_refused_def confined_def Let_def
      split: if_splits sum.splits option.splits)

lemma module_files_agree:
  "check_module_files kit base repository seen mds = None \<Longrightarrow>
     list_all (module_agrees kit base repository) mds \<and> distinct (map md_directory mds) \<and>
     set (map md_directory mds) \<inter> set seen = {}"
proof (induction mds arbitrary: seen)
  case (Cons md mds)
  have md: "check_module_file kit base repository md = None" and new: "md_directory md \<notin> set seen"
      and mds: "check_module_files kit base repository (md_directory md # seen) mds = None"
    using Cons.prems by (auto split: option.splits if_splits)
  show ?case using Cons.IH [OF mds] module_file_agrees [OF md] new by auto
qed simp

text \<open>The directories of the workspace, one by one.\<close>

definition workspace_agrees :: "contract_kit \<Rightarrow> string \<Rightarrow> inventory \<Rightarrow> bool" where
  "workspace_agrees kit base catalog \<longleftrightarrow>
     (case read_contract_file kit base ''go.work'' of
        Inl e \<Rightarrow> absent_file e \<and> length (inv_modules catalog) \<le> 1
      | Inr data \<Rightarrow>
          (case ck_parse_work kit data of
             None \<Rightarrow> False
           | Some f \<Rightarrow>
               wf_go f = Some (iv_go_version catalog) \<and>
               distinct (map path_clean (wf_uses f)) \<and>
               set (map path_clean (wf_uses f)) = set (map md_directory (inv_modules catalog))))"

lemma workspace_paths_clean: "workspace_paths us = Inr ps \<Longrightarrow> ps = map path_clean us"
proof (induction us arbitrary: ps)
  case (Cons u us)
  then show ?case by (cases "workspace_paths us") (auto simp: Let_def split: if_splits)
qed simp

lemma workspace_checked:
  assumes "check_workspace kit base (iv_go_version catalog) (sort (map md_directory (inv_modules catalog))) = None"
    and "distinct (map md_directory (inv_modules catalog))"
  shows "workspace_agrees kit base catalog"
proof (cases "read_contract_file kit base ''go.work''")
  case (Inl e)
  then show ?thesis using assms(1) by (auto simp: check_workspace_def workspace_agrees_def split: if_splits)
next
  case (Inr data)
  obtain f actual where f: "ck_parse_work kit data = Some f" "wf_go f = Some (iv_go_version catalog)"
      and actual: "workspace_paths (wf_uses f) = Inr actual" "sort actual = sort (map md_directory (inv_modules catalog))"
    using assms(1) Inr by (auto simp: check_workspace_def work_file_error_def split: option.splits if_splits sum.splits)
  have same: "mset actual = mset (map md_directory (inv_modules catalog))" using actual(2) by (metis mset_sort)
  have "distinct actual" "set actual = set (map md_directory (inv_modules catalog))"
    using mset_eq_imp_distinct_iff [OF same] mset_eq_setD [OF same] assms(2) by auto
  then show ?thesis using Inr f workspace_paths_clean [OF actual(1)] by (simp add: workspace_agrees_def)
qed

text \<open>C16: when the check of a repository succeeds, every module of the catalog has a directory below the
  root of its own and a go.mod that declares its module path and Go version and replaces nothing, a
  releasable module lies in the namespace of the repository, the workspace lists exactly these
  directories, each once, with the Go version of the catalog (or is absent with at most one module), no
  copy of the legacy implementation is left, and the specifications of the catalog are accepted.\<close>

theorem checked_repository_agrees:
  "case check_repository kit spec base today catalog of
     Some e \<Rightarrow> True
   | None \<Rightarrow>
       list_all (module_agrees kit base (iv_repository catalog)) (inv_modules catalog) \<and>
       distinct (map md_directory (inv_modules catalog)) \<and> workspace_agrees kit base catalog \<and>
       ck_lstat kit (path_join [base, ''.golib'']) = Inl Err_not_exist \<and>
       (case check_specifications spec base today catalog of Inl _ \<Rightarrow> False | Inr _ \<Rightarrow> True)"
proof (cases "check_repository kit spec base today catalog")
  case None
  have modules: "check_module_files kit base (iv_repository catalog) [] (inv_modules catalog) = None"
    and work: "check_workspace kit base (iv_go_version catalog) (sort (map md_directory (inv_modules catalog))) = None"
    and legacy: "check_legacy kit base = None"
    and accepted: "case check_specifications spec base today catalog of Inl _ \<Rightarrow> False | Inr _ \<Rightarrow> True"
    using None by (auto simp: check_repository_def split: if_splits sum.splits)
  have "ck_lstat kit (path_join [base, ''.golib'']) = Inl Err_not_exist"
    using legacy by (auto simp: check_legacy_def split: sum.splits)
  then show ?thesis
    using None module_files_agree [OF modules] workspace_checked [OF work] accepted by simp
qed simp

section \<open>What may be released\<close>

definition releasable_module :: "version_library \<Rightarrow> module_policy \<Rightarrow> bool" where
  "releasable_module lib md \<longleftrightarrow>
     stable_version lib (CHR ''v'' # md_version md) \<and> path_major_agrees lib (CHR ''v'' # md_version md) (md_module_path md) \<and>
     md_tag_prefix md = module_tag_prefix (md_directory md) \<and> list_all (gate_on md) required_gates"

lemma first_error_append: "first_error (xs @ ys) = (case first_error xs of None \<Rightarrow> first_error ys | Some e \<Rightarrow> Some e)"
  by (induction xs rule: first_error.induct) simp_all

lemma release_module_admitted:
  assumes "release_module_error lib md = None"
  shows "releasable_module lib md"
proof -
  have plain: "trim_prefix (md_version md) ''v'' = md_version md"
    using assms by (auto simp: release_module_error_def Let_def trim_prefix_def has_prefix_def split: if_splits)
  show ?thesis using assms unfolding release_module_error_def Let_def plain
    by (auto simp: releasable_module_def required_gates_def)
qed

lemma release_directories_admitted:
  "release_directories lib mds = Inr ds \<Longrightarrow>
     ds = map md_directory (filter md_releasable mds) \<and> list_all (releasable_module lib) (filter md_releasable mds)"
proof (induction mds arbitrary: ds)
  case (Cons md mds)
  then show ?case
    by (cases "release_directories lib mds")
       (auto split: if_splits dest: release_module_admitted)
qed simp

text \<open>the directories that may be released are sorted, at least one, and exactly those of the
  releasable modules of the catalog (of the selected one, if one is selected), each of which declares
  a stable version without a v that agrees with the major version of its path, has the tag prefix
  of its directory and every mandatory gate.\<close>

theorem released_modules_admitted:
  "case validate_release lib catalog policy selected of
     Inl e \<Rightarrow> True
   | Inr ds \<Rightarrow>
       (case selected_modules (inv_modules catalog) selected of
          Inl e \<Rightarrow> False
        | Inr mds \<Rightarrow>
            ds \<noteq> [] \<and> ds = sort (map md_directory (filter md_releasable mds)) \<and>
            list_all (releasable_module lib) (filter md_releasable mds) \<and> set mds \<subseteq> set (inv_modules catalog))"
proof (cases "validate_release lib catalog policy selected")
  case (Inr ds)
  obtain mds rs where mds: "selected_modules (inv_modules catalog) selected = Inr mds"
      and rs: "release_directories lib mds = Inr rs" "rs \<noteq> []" "ds = sort rs"
    using Inr by (auto simp: validate_release_def split: if_splits sum.splits)
  have "set mds \<subseteq> set (inv_modules catalog)"
    using mds by (auto simp: selected_modules_def find_Some_iff split: list.splits option.splits if_splits)
  moreover have "ds \<noteq> []" using rs(2,3) by (metis set_empty set_sort)
  ultimately show ?thesis using Inr mds rs(3) release_directories_admitted [OF rs(1)] by simp
qed simp

section \<open>The inventory of the consumers\<close>

lemma consumers_admitted:
  "consumers_error k previous active tooling rs = None \<Longrightarrow>
     (previous \<noteq> [] \<longrightarrow> list_all (\<lambda>r. previous < cr_name r) rs) \<and> sorted_wrt (<) (map cr_name rs) \<and>
     0 < active + classified ''active'' rs \<and> tooling + classified ''tooling'' rs = 1 \<and>
     length rs = classified ''active'' rs + classified ''deferred'' rs + classified ''tooling'' rs"
proof (induction k previous active tooling rs rule: consumers_error.induct)
  case (2 k previous active tooling r rs)
  have ok: "consumer_row_error k previous r = None" using "2.prems" by (auto split: option.splits)
  have name: "cr_name r \<noteq> []" and later: "previous \<noteq> [] \<longrightarrow> previous < cr_name r"
      and cls: "cr_classification r = ''active'' \<or> cr_classification r = ''deferred'' \<or> cr_classification r = ''tooling''"
    using ok by (auto simp: consumer_row_error_def classification_error_def consumer_name_re_def has_prefix_def split: if_splits)
  have ih: "list_all (\<lambda>x. cr_name r < cr_name x) rs" "sorted_wrt (<) (map cr_name rs)"
      "0 < (if cr_classification r = ''active'' then Suc active else active) + classified ''active'' rs"
      "(if cr_classification r = ''tooling'' then Suc tooling else tooling) + classified ''tooling'' rs = 1"
      "length rs = classified ''active'' rs + classified ''deferred'' rs + classified ''tooling'' rs"
    using "2.IH" [OF ok] "2.prems" ok name by simp_all
  have "previous \<noteq> [] \<longrightarrow> list_all (\<lambda>r. previous < cr_name r) (r # rs)"
    using ih(1) later by (auto simp: list_all_iff intro: less_trans)
  moreover have "sorted_wrt (<) (map cr_name (r # rs))" using ih(1,2) by (auto simp: list_all_iff)
  ultimately show ?case using ih(3-5) cls by (auto simp: classified_def)
qed (auto simp: classified_def)

text \<open>an accepted manifest of consumers names between one and 256 repositories in strict order, so
  without duplicates, and in its summary the active, deferred and tooling repositories add up to
  all of them, at least one active and exactly one of the tooling.\<close>

theorem consumers_classified:
  "case parse_consumers decode data of
     Inl e \<Rightarrow> True
   | Inr m \<Rightarrow>
       (let s = summarize_consumers m
        in sorted_wrt (<) (map cr_name (cy_repositories s)) \<and> distinct (map cr_name (cy_repositories s)) \<and>
           cy_total s \<le> 256 \<and> 0 < cy_active s \<and> cy_tooling s = 1 \<and> cy_total s = cy_active s + cy_deferred s + cy_tooling s)"
proof (cases "parse_consumers decode data")
  case (Inr m)
  have ok: "validate_consumers m = None"
    using Inr by (auto simp: parse_consumers_def split: if_splits prod.splits json_next.splits option.splits)
  have few: "length (ct_repositories m) \<le> 256" and checked: "consumers_error 0 [] 0 0 (ct_repositories m) = None"
    using ok by (auto simp: validate_consumers_def)
  show ?thesis
    using Inr few consumers_admitted [OF checked] strict_sorted_iff [of "map cr_name (ct_repositories m)"]
    by (simp add: summarize_consumers_def)
qed simp

end
