(* ===== verification/Document_Navigation.thy ===== *)
theory Document_Navigation
  imports Document_Check Repository_Contract
begin

text \<open>
  internal/docscheck/navigation.go: the anchors and links of the Markdown documents of a repository, and
  which documents are reached from its README. An accepted navigation has every anchor it links
  to and reaches every documentation page. lychee.go: the pinned link checker and its extraction.
\<close>

section \<open>Anchors (navigation.go)\<close>

record navigation_document =
  nd_anchors :: "string list"
  nd_links :: "string list"

fun heading_title :: "document_kit \<Rightarrow> (bool \<times> heading_piece) list \<Rightarrow> string \<Rightarrow> ctx \<Rightarrow> ctx \<times> (document_error + string)" where
  "heading_title kit [] title c = (c, Inr title)"
| "heading_title kit ((entering, piece) # rest) title c =
     docs_poll c (heading_title kit rest
       (if \<not> entering then title
        else (case piece of
                Raw_text s broken \<Rightarrow> title @ s @ (if broken then '' '' else [])
              | Rendered_text s broken \<Rightarrow> title @ mk_render kit s @ (if broken then '' '' else [])
              | Auto_link s \<Rightarrow> title @ s
              | Other_piece \<Rightarrow> title)))"

definition navigation_slug :: "document_kit \<Rightarrow> string \<Rightarrow> string" where
  "navigation_slug kit title =
     concat (map (\<lambda>(r, _). if is_space_rune r then ''-''
                            else if mk_word_rune kit r \<or> r = 45 \<or> r = 95 then mk_lower_rune kit r else []) (runes title))"

definition suffixed :: "string \<Rightarrow> nat \<Rightarrow> string" where
  "suffixed base k = base @ ''-'' @ dec_nat k"

text \<open>The first free suffix behind \<open>count\<close>. \<open>fuel\<close> is one more than the number of anchors: as many
  different candidates cannot all be taken.\<close>

fun free_anchor :: "nat \<Rightarrow> string list \<Rightarrow> string \<Rightarrow> nat \<Rightarrow> string \<Rightarrow> ctx \<Rightarrow> ctx \<times> (document_error + nat \<times> string)" where
  "free_anchor 0 anchors base k anchor c = (c, Inr (k, anchor))"
| "free_anchor (Suc fuel) anchors base k anchor c =
     (if List.member anchors anchor
      then docs_poll c (free_anchor fuel anchors base (Suc k) (suffixed base (Suc k)))
      else (c, Inr (k, anchor)))"

record anchor_state =
  as_document :: navigation_document
  as_suffixes :: "(string \<times> nat) list"

definition next_suffix :: "anchor_state \<Rightarrow> string \<Rightarrow> nat" where
  "next_suffix st base = (case map_of (as_suffixes st) base of None \<Rightarrow> 0 | Some k \<Rightarrow> k)"

definition add_heading :: "string \<Rightarrow> anchor_state \<Rightarrow> ctx \<Rightarrow> ctx \<times> (document_error + anchor_state)" where
  "add_heading base st c =
     (let k = next_suffix st base; anchors = nd_anchors (as_document st)
      in docs_bind (free_anchor (Suc (length anchors)) anchors base k (if k \<noteq> 0 then suffixed base k else base) c) (\<lambda>c (k, anchor).
           (c, Inr (st\<lparr>as_document := (as_document st)\<lparr>nd_anchors := anchor # anchors\<rparr>,
                       as_suffixes := (base, Suc k) # as_suffixes st\<rparr>))))"

definition navigation_node :: "document_kit \<Rightarrow> document_node \<Rightarrow> anchor_state \<Rightarrow> ctx \<Rightarrow> ctx \<times> (document_error + anchor_state)" where
  "navigation_node kit n st c =
     (case n of
        Heading_node pieces \<Rightarrow>
          docs_bind (heading_title kit pieces [] c) (\<lambda>c title. add_heading (navigation_slug kit title) st c)
      | Link_node d line \<Rightarrow>
          (c, Inr (st\<lparr>as_document := (as_document st)\<lparr>nd_links := nd_links (as_document st) @ [d]\<rparr>\<rparr>))
      | _ \<Rightarrow> (c, Inr st))"

fun navigation_visits :: "document_kit \<Rightarrow> document_visits \<Rightarrow> anchor_state \<Rightarrow> ctx \<Rightarrow> ctx \<times> (document_error + navigation_document)" where
  "navigation_visits kit [] st c = (c, Inr (as_document st))"
| "navigation_visits kit ((entering, n) # rest) st c =
     docs_poll c (\<lambda>c.
       if entering then docs_bind (navigation_node kit n st c) (\<lambda>c st. navigation_visits kit rest st c)
       else navigation_visits kit rest st c)"

definition parse_navigation :: "document_kit \<Rightarrow> string \<Rightarrow> ctx \<Rightarrow> ctx \<times> (document_error + navigation_document)" where
  "parse_navigation kit data c =
     navigation_visits kit (mk_parse kit data) \<lparr>as_document = \<lparr>nd_anchors = [], nd_links = []\<rparr>, as_suffixes = []\<rparr> c"

section \<open>Targets\<close>

type_synonym documents = "(string \<times> navigation_document) list"

text \<open>A directory stands for the first of its two index documents that is a regular file.\<close>

fun index_document :: "document_kit \<Rightarrow> string \<Rightarrow> string \<Rightarrow> string list \<Rightarrow> document_error + string" where
  "index_document kit base target [] = Inr target"
| "index_document kit base target (name # names) =
     (case path_rel base (path_join [target, name]) of
        None \<Rightarrow> Inl Document_relative
      | Some relative \<Rightarrow>
          (case inspect_regular_file (mk_inspect kit) base relative of
             Inr _ \<Rightarrow> Inr (path_join [target, name])
           | Inl _ \<Rightarrow> index_document kit base target names))"

definition document_target :: "document_kit \<Rightarrow> documents \<Rightarrow> string \<Rightarrow> string \<Rightarrow> link_url \<Rightarrow> document_error + string" where
  "document_target kit known base source u =
     (let target = (if lu_path u \<noteq> [] then link_resolved source (lu_path u) else source)
      in if map_of known target \<noteq> None then Inr target else index_document kit base target [''README.md'', ''index.md''])"

text \<open>\<open>None\<close>: the link is not local.\<close>

definition navigation_target ::
  "document_kit \<Rightarrow> documents \<Rightarrow> string \<Rightarrow> string \<Rightarrow> string \<Rightarrow> ctx \<Rightarrow> ctx \<times> (document_error + (string \<times> string) option)" where
  "navigation_target kit known base source destination c =
     (case mk_url kit destination of
        None \<Rightarrow> (c, Inl Navigation_url)
      | Some u \<Rightarrow>
          if lu_scheme u \<noteq> [] \<or> lu_host u \<noteq> [] then (c, Inr None)
          else docs_bind (check_link kit base source destination c) (\<lambda>c _.
            (c, map_sum id (\<lambda>target. Some (target, lu_fragment u)) (document_target kit known base source u))))"

section \<open>Reading the graph\<close>

definition markdown_extension :: "string \<Rightarrow> bool" where
  "markdown_extension target \<longleftrightarrow>
     List.member [''.md'', ''.MD'', ''.Md'', ''.mD''] (path_ext target)"

text \<open>The documents that are known to exist and the queue of those that are still to be read.\<close>

record queue_state =
  qs_paths :: "string list"
  qs_queue :: "string list"

fun queue_links ::
  "document_kit \<Rightarrow> documents \<Rightarrow> string \<Rightarrow> string \<Rightarrow> string list \<Rightarrow> queue_state \<Rightarrow> ctx \<Rightarrow> ctx \<times> (document_error + queue_state)" where
  "queue_links kit known base source [] q c = (c, Inr q)"
| "queue_links kit known base source (l # ls) q c =
     docs_bind (navigation_target kit known base source l c) (\<lambda>c t.
       case t of
         Some (target, _) \<Rightarrow>
           if markdown_extension target \<and> \<not> List.member (qs_paths q) target
           then (if maximum_documents < Suc (length (qs_paths q)) then (c, Inl Navigation_documents)
                 else queue_links kit known base source ls \<lparr>qs_paths = qs_paths q @ [target], qs_queue = qs_queue q @ [target]\<rparr> c)
           else queue_links kit known base source ls q c
       | None \<Rightarrow> queue_links kit known base source ls q c)"

text \<open>\<open>(?:/Users/|/home/)[^\s/]+/|[A-Za-z]:\\Users\\[^\s\\]+\\\<close>: at some position, a home directory with a
  name and the separator behind it.\<close>

definition regexp_space :: "char \<Rightarrow> bool" where
  "regexp_space ch \<longleftrightarrow> List.member [CHR 0x09, CHR 0x0A, CHR 0x0C, CHR 0x0D, CHR 0x20] ch"

definition named_directory :: "char \<Rightarrow> string \<Rightarrow> bool" where
  "named_directory sep s \<longleftrightarrow>
     (let name = takeWhile (\<lambda>ch. \<not> regexp_space ch \<and> ch \<noteq> sep) s
      in name \<noteq> [] \<and> has_prefix (drop (length name) s) [sep])"

definition private_prefix :: "string \<Rightarrow> bool" where
  "private_prefix s \<longleftrightarrow>
     has_prefix s ''/Users/'' \<and> named_directory CHR ''/'' (drop 7 s) \<or>
     has_prefix s ''/home/'' \<and> named_directory CHR ''/'' (drop 6 s) \<or>
     s \<noteq> [] \<and> all_in any_alnum [hd s] \<and> \<not> is_digit (hd s) \<and>
       has_prefix (tl s) ('':'' @ [CHR 0x5C] @ ''Users'' @ [CHR 0x5C]) \<and> named_directory (CHR 0x5C) (drop 9 s)"

fun private_machine_path :: "string \<Rightarrow> bool" where
  "private_machine_path [] = False"
| "private_machine_path (ch # s) = (private_prefix (ch # s) \<or> private_machine_path s)"

definition maximum_navigation_bytes :: int where "maximum_navigation_bytes = 33554432"

text \<open>One document of the queue: its bytes count against the \<open>remaining\<close> ones.\<close>

definition read_navigation :: "document_kit \<Rightarrow> string \<Rightarrow> int \<Rightarrow> string \<Rightarrow> ctx \<Rightarrow> ctx \<times> (document_error + int \<times> navigation_document)" where
  "read_navigation kit base remaining path c =
     docs_poll c (\<lambda>c.
       case path_rel base path of
         None \<Rightarrow> (c, Inl Document_relative)
       | Some relative \<Rightarrow>
           (case read_repository_file (mk_inspect kit) (mk_open kit) base relative (min remaining maximum_markdown_size) of
              Inl e \<Rightarrow> (c, Inl (Document_file relative e))
            | Inr data \<Rightarrow> docs_bind (validate_markdown kit base path data c) (\<lambda>c _.
                docs_require (\<not> private_machine_path data) (Private_path relative) c (\<lambda>c.
                  docs_bind (parse_navigation kit data c) (\<lambda>c d. (c, Inr (remaining - int (length data), d)))))))"

lemma docs_bind_Inr: "docs_bind x k = (c', Inr b) \<longleftrightarrow> (\<exists>c a. x = (c, Inr a) \<and> k c a = (c', Inr b))"
  by (auto simp: docs_bind_def split: prod.splits sum.splits)

lemma queue_links_progress:
  "queue_links kit known base source ls q c = (c', Inr q') \<Longrightarrow>
     q' = q \<or> (length (qs_paths q) < length (qs_paths q') \<and> length (qs_paths q') \<le> maximum_documents)"
proof (induction ls arbitrary: q c)
  case (Cons l ls)
  obtain c1 t where t: "navigation_target kit known base source l c = (c1, Inr t)"
    using Cons.prems by (auto simp: docs_bind_Inr)
  have same: ?case if "queue_links kit known base source ls q c1 = (c', Inr q')"
    using Cons.IH [OF that] .
  show ?case
  proof (cases t)
    case None
    then show ?thesis using same Cons.prems t by (simp add: docs_bind_def)
  next
    case (Some p)
    obtain target fragment where p: "p = (target, fragment)" by fastforce
    show ?thesis
    proof (cases "markdown_extension target \<and> \<not> List.member (qs_paths q) target")
      case True
      then show ?thesis
        using Cons.IH [of "\<lparr>qs_paths = qs_paths q @ [target], qs_queue = qs_queue q @ [target]\<rparr>" c1] Cons.prems t Some p
        by (auto simp: docs_bind_def split: if_splits)
    next
      case False
      then show ?thesis using same Cons.prems t Some p by (simp add: docs_bind_def split: if_splits)
    qed
  qed
qed simp

text \<open>Every turn reads the head of the queue. It ends: a turn that puts documents into the queue raises the
  number of known ones, which is bounded, and every other turn shortens the queue.\<close>

function navigation_loop ::
  "document_kit \<Rightarrow> string \<Rightarrow> int \<Rightarrow> documents \<Rightarrow> queue_state \<Rightarrow> ctx \<Rightarrow> ctx \<times> (document_error + documents)" where
  "navigation_loop kit base remaining known q c =
     (case qs_queue q of
        [] \<Rightarrow> (c, Inr known)
      | path # queue \<Rightarrow>
          (case read_navigation kit base remaining path c of
             (c, Inl e) \<Rightarrow> (c, Inl e)
           | (c, Inr (remaining, d)) \<Rightarrow>
               (case queue_links kit (known @ [(path, d)]) base path (nd_links d) (q\<lparr>qs_queue := queue\<rparr>) c of
                  (c, Inl e) \<Rightarrow> (c, Inl e)
                | (c, Inr q) \<Rightarrow> navigation_loop kit base remaining (known @ [(path, d)]) q c)))"
  by pat_completeness auto
termination
proof (relation "measures [\<lambda>(kit, base, remaining, known, q, c). maximum_documents - length (qs_paths q),
    \<lambda>(kit, base, remaining, known, q, c). length (qs_queue q)]", goal_cases)
  case 1
  show ?case by simp
next
  case 2
  then show ?case by (auto dest!: queue_links_progress [OF sym])
qed

declare navigation_loop.simps [simp del]

section \<open>Reachability\<close>

text \<open>The local links of one document to known documents, in the order of its links.\<close>

fun document_edges ::
  "document_kit \<Rightarrow> documents \<Rightarrow> string \<Rightarrow> string \<Rightarrow> string list \<Rightarrow> ctx \<Rightarrow> ctx \<times> (document_error + string list)" where
  "document_edges kit known base source [] c = (c, Inr [])"
| "document_edges kit known base source (l # ls) c =
     docs_poll c (\<lambda>c. docs_bind (navigation_target kit known base source l c) (\<lambda>c t.
       case t of
         None \<Rightarrow> document_edges kit known base source ls c
       | Some (target, fragment) \<Rightarrow>
           (case map_of known target of
              None \<Rightarrow> document_edges kit known base source ls c
            | Some d \<Rightarrow>
                docs_require (fragment = [] \<or> List.member (nd_anchors d) fragment) (Broken_fragment source) c (\<lambda>c.
                  docs_bind (document_edges kit known base source ls c) (\<lambda>c ts. (c, Inr (target # ts)))))))"

text \<open>The documents in the order in which they were read; Go leaves the order open.\<close>

fun navigation_edges ::
  "document_kit \<Rightarrow> documents \<Rightarrow> string \<Rightarrow> documents \<Rightarrow> ctx \<Rightarrow> ctx \<times> (document_error + (string \<times> string list) list)" where
  "navigation_edges kit known base [] c = (c, Inr [])"
| "navigation_edges kit known base ((path, d) # rest) c =
     docs_bind (document_edges kit known base path (nd_links d) c) (\<lambda>c ts.
       docs_bind (navigation_edges kit known base rest c) (\<lambda>c es. (c, Inr ((path, ts) # es))))"

definition targets_of :: "(string \<times> string list) list \<Rightarrow> string \<Rightarrow> string list" where
  "targets_of edges path = (case map_of edges path of None \<Rightarrow> [] | Some ts \<Rightarrow> ts)"

fun mark_targets :: "string list \<Rightarrow> string list \<Rightarrow> string list \<Rightarrow> string list \<times> string list" where
  "mark_targets [] reached pending = (reached, pending)"
| "mark_targets (t # ts) reached pending =
     (if List.member reached t then mark_targets ts reached pending else mark_targets ts (t # reached) (t # pending))"

text \<open>\<open>pending\<close> is a stack. Every turn marks at least one more of the targets or shortens it.\<close>

lemma mark_targets_result:
  "mark_targets ts reached pending = (reached', pending') \<Longrightarrow>
     set reached' = set reached \<union> set ts \<and> set pending \<subseteq> set pending' \<and> set pending' \<subseteq> set pending \<union> set ts \<and>
     set reached' - set reached \<subseteq> set pending' \<and> (set ts \<subseteq> set reached \<longrightarrow> pending' = pending)"
  by (induction ts reached pending rule: mark_targets.induct) (auto split: if_splits)

definition edge_targets :: "(string \<times> string list) list \<Rightarrow> string set" where
  "edge_targets edges = \<Union> (set ` snd ` set edges)"

lemma targets_of_edges: "set (targets_of edges path) \<subseteq> edge_targets edges"
proof (cases "map_of edges path")
  case (Some ts)
  then show ?thesis using map_of_SomeD [OF Some] by (force simp: targets_of_def edge_targets_def)
qed (simp add: targets_of_def)

lemma finite_edge_targets [simp]: "finite (edge_targets edges)"
  by (simp add: edge_targets_def)

lemma mark_targets_measure:
  assumes "mark_targets (targets_of edges p) reached pending = (reached', pending')"
  shows "card (edge_targets edges - set reached') < card (edge_targets edges - set reached) \<or>
    (set reached' = set reached \<and> pending' = pending)"
proof (cases "set (targets_of edges p) \<subseteq> set reached")
  case True
  then show ?thesis using mark_targets_result [OF assms] by auto
next
  case False
  then obtain t where t: "t \<in> set (targets_of edges p)" "t \<notin> set reached" by blast
  have grown: "set reached' = set reached \<union> set (targets_of edges p)" using mark_targets_result [OF assms] by simp
  have "edge_targets edges - set reached' \<subset> edge_targets edges - set reached"
  proof (rule psubsetI)
    show "edge_targets edges - set reached' \<subseteq> edge_targets edges - set reached" using grown by auto
    have "t \<in> edge_targets edges - set reached" using t targets_of_edges [of edges p] by auto
    moreover have "t \<notin> edge_targets edges - set reached'" using t(1) grown by simp
    ultimately show "edge_targets edges - set reached' \<noteq> edge_targets edges - set reached" by metis
  qed
  then show ?thesis by (simp add: psubset_card_mono)
qed

function reach_documents ::
  "(string \<times> string list) list \<Rightarrow> string list \<Rightarrow> string list \<Rightarrow> ctx \<Rightarrow> ctx \<times> (document_error + string list)" where
  "reach_documents edges reached [] c = (c, Inr reached)"
| "reach_documents edges reached (p # pending) c =
     (case poll_ctx c of
        (True, c) \<Rightarrow> (c, Inl Docs_stopped)
      | (False, c) \<Rightarrow>
          (case mark_targets (targets_of edges p) reached pending of (reached, pending) \<Rightarrow> reach_documents edges reached pending c))"
  by pat_completeness auto
termination
proof (relation "measures [\<lambda>(edges, reached, pending, c). card (edge_targets edges - set reached),
    \<lambda>(edges, reached, pending, c). length pending]", goal_cases)
  case 1
  show ?case by simp
next
  case 2
  then show ?case by (auto dest!: mark_targets_measure [OF sym])
qed

definition documentation_page :: "string \<Rightarrow> bool" where
  "documentation_page relative \<longleftrightarrow> contains_str (''/'' @ relative) ''/docs/''"

fun unreached_page :: "string \<Rightarrow> string list \<Rightarrow> documents \<Rightarrow> document_error option" where
  "unreached_page base reached [] = None"
| "unreached_page base reached ((path, d) # rest) =
     (case path_rel base path of
        None \<Rightarrow> Some Document_relative
      | Some relative \<Rightarrow>
          if \<not> List.member reached path \<and> documentation_page relative then Some (Unreachable_document path)
          else unreached_page base reached rest)"

section \<open>The check\<close>

fun add_paths :: "string list \<Rightarrow> string list \<Rightarrow> document_error + string list" where
  "add_paths paths [] = Inr paths"
| "add_paths paths (p # ps) =
     (let paths = (if List.member paths p then paths else paths @ [p])
      in if maximum_documents < length paths then Inl Navigation_documents else add_paths paths ps)"

fun navigation_trees :: "document_kit \<Rightarrow> string \<Rightarrow> string list \<Rightarrow> string list \<Rightarrow> ctx \<Rightarrow> ctx \<times> (document_error + string list)" where
  "navigation_trees kit base paths [] c = (c, Inr paths)"
| "navigation_trees kit base paths (m # ms) c =
     (case validate_directory (mk_inspect kit) base m of
        Some e \<Rightarrow> (c, Inl (Document_file m e))
      | None \<Rightarrow> docs_bind (documents_fs kit default_document_limits (path_join [base, m]) c) (\<lambda>c found.
          case add_paths paths found of Inl e \<Rightarrow> (c, Inl e) | Inr paths \<Rightarrow> navigation_trees kit base paths ms c))"

definition navigation_documents :: "document_kit \<Rightarrow> string \<Rightarrow> string list \<Rightarrow> ctx \<Rightarrow> ctx \<times> (document_error + documents)" where
  "navigation_documents kit base modules c =
     docs_bind (navigation_trees kit base [] modules c) (\<lambda>c paths.
       docs_require (List.member paths (path_join [base, ''README.md''])) Navigation_readme c
         (navigation_loop kit base maximum_navigation_bytes [] \<lparr>qs_paths = paths, qs_queue = sort paths\<rparr>))"

definition check_reachability :: "document_kit \<Rightarrow> string \<Rightarrow> documents \<Rightarrow> ctx \<Rightarrow> ctx \<times> (document_error + unit)" where
  "check_reachability kit base known c =
     docs_bind (navigation_edges kit known base known c) (\<lambda>c edges.
       docs_bind (reach_documents edges [path_join [base, ''README.md'']] [path_join [base, ''README.md'']] c) (\<lambda>c reached.
         case unreached_page base reached known of
           Some e \<Rightarrow> (c, Inl e)
         | None \<Rightarrow> docs_poll c (\<lambda>c. (c, Inr ()))))"

definition check_navigation :: "document_kit \<Rightarrow> string \<Rightarrow> string list \<Rightarrow> ctx \<Rightarrow> ctx \<times> (document_error + unit)" where
  "check_navigation kit root_path modules c =
     docs_bind (admit_roots kit root_path root_path c) (\<lambda>c (base, _).
       docs_bind (navigation_documents kit base modules c) (\<lambda>c known. check_reachability kit base known c))"

section \<open>Anchors are distinct\<close>

lemma docs_poll_Inr: "docs_poll c k = (c', Inr b) \<Longrightarrow> \<exists>c1. k c1 = (c', Inr b)"
  by (auto simp: docs_poll_def split: prod.splits bool.splits)

lemma docs_poll_None [simp]: "docs_poll None k = k None"
  by (simp add: docs_poll_def)

lemma docs_require_Inr: "docs_require ok e c k = (c', Inr b) \<longleftrightarrow> ok \<and> k c = (c', Inr b)"
  by (simp add: docs_require_def)

lemma suffixed_inject: "suffixed base j = suffixed base k \<Longrightarrow> j = k"
  by (simp add: suffixed_def)

lemma free_anchor_taken:
  "free_anchor fuel anchors base k anchor c = (c', Inr (k', a)) \<Longrightarrow> a \<in> set anchors \<Longrightarrow>
     (\<lambda>i. suffixed base (k + i)) ` {1..fuel} \<subseteq> set anchors"
proof (induction fuel arbitrary: k anchor c)
  case (Suc fuel)
  have "List.member anchors anchor" using Suc.prems by (auto split: if_splits)
  then obtain c1 where next_one: "free_anchor fuel anchors base (Suc k) (suffixed base (Suc k)) c1 = (c', Inr (k', a))"
    using Suc.prems(1) by (auto dest: docs_poll_Inr)
  have first: "suffixed base (Suc k) \<in> set anchors"
    using next_one Suc.prems(2) by (cases fuel) (auto split: if_splits)
  have later: "(\<lambda>i. suffixed base (Suc k + i)) ` {1..fuel} \<subseteq> set anchors" using Suc.IH [OF next_one Suc.prems(2)] .
  show ?case
  proof (rule image_subsetI)
    fix i
    assume i: "i \<in> {1..Suc fuel}"
    show "suffixed base (k + i) \<in> set anchors"
    proof (cases "i = 1")
      case True
      then show ?thesis using first by simp
    next
      case False
      then have "i - 1 \<in> {1..fuel}" "k + i = Suc k + (i - 1)" using i by auto
      then show ?thesis using later by (metis image_subset_iff)
    qed
  qed
qed simp

lemma free_anchor_free:
  assumes "free_anchor (Suc (length anchors)) anchors base k anchor c = (c', Inr (k', a))"
  shows "a \<notin> set anchors"
proof
  assume "a \<in> set anchors"
  then have taken: "(\<lambda>i. suffixed base (k + i)) ` {1..Suc (length anchors)} \<subseteq> set anchors"
    using free_anchor_taken [OF assms] by blast
  have "inj_on (\<lambda>i. suffixed base (k + i)) {1..Suc (length anchors)}" by (auto intro!: inj_onI dest: suffixed_inject)
  then have "card ((\<lambda>i. suffixed base (k + i)) ` {1..Suc (length anchors)}) = Suc (length anchors)" by (simp add: card_image)
  then show False using card_mono [OF _ taken] card_length [of anchors] by simp
qed

lemma navigation_node_distinct:
  assumes "navigation_node kit n st c = (c', Inr st')" and "distinct (nd_anchors (as_document st))"
  shows "distinct (nd_anchors (as_document st'))"
  using assms
  by (auto simp: navigation_node_def add_heading_def Let_def docs_bind_Inr split: document_node.splits dest: free_anchor_free
      simp del: free_anchor.simps)

lemma navigation_anchors_distinct:
  "navigation_visits kit visits st c = (c', Inr d) \<Longrightarrow> distinct (nd_anchors (as_document st)) \<Longrightarrow> distinct (nd_anchors d)"
proof (induction visits arbitrary: st c)
  case (Cons v visits)
  obtain entering n where v: "v = (entering, n)" by fastforce
  obtain c1 where step: "(if entering then docs_bind (navigation_node kit n st c1) (\<lambda>c st. navigation_visits kit visits st c)
      else navigation_visits kit visits st c1) = (c', Inr d)"
    using Cons.prems(1) by (auto simp: v dest: docs_poll_Inr)
  show ?case
  proof (cases entering)
    case True
    then obtain c2 st2 where "navigation_node kit n st c1 = (c2, Inr st2)" "navigation_visits kit visits st2 c2 = (c', Inr d)"
      using step by (auto simp: docs_bind_Inr)
    then show ?thesis using Cons.IH navigation_node_distinct [OF _ Cons.prems(2)] by metis
  next
    case False
    then show ?thesis using step Cons.IH Cons.prems(2) by simp
  qed
qed simp

lemma parsed_anchors_distinct: "parse_navigation kit data c = (c', Inr d) \<Longrightarrow> distinct (nd_anchors d)"
  by (auto simp: parse_navigation_def dest: navigation_anchors_distinct)

section \<open>What an accepted navigation shows\<close>

text \<open>A link that was followed under a budget of polls is followed without one.\<close>

lemma components_unpolled:
  "validate_components kit target current es c = (c', Inr u) \<Longrightarrow> validate_components kit target current es None = (None, Inr ())"
proof (induction es arbitrary: current c)
  case (Cons e es)
  then show ?case
    by (auto simp: Let_def docs_require_Inr docs_require_def dest!: docs_poll_Inr split: sum.splits if_splits)
qed simp

lemma check_link_unpolled:
  assumes "check_link kit base document target c = (c', Inr u)"
  shows "check_link kit base document target None = (None, Inr ())"
  using assms unfolding check_link_def
  by (auto simp: Let_def dest!: docs_poll_Inr components_unpolled split: option.splits if_splits)

lemma target_unpolled:
  assumes "navigation_target kit known base source l c = (c', Inr t)"
  shows "snd (navigation_target kit known base source l None) = Inr t"
proof (cases "mk_url kit l")
  case (Some u)
  show ?thesis
  proof (cases "lu_scheme u \<noteq> [] \<or> lu_host u \<noteq> []")
    case True
    then show ?thesis using assms by (simp add: navigation_target_def Some)
  next
    case False
    then obtain c1 x where link: "check_link kit base source l c = (c1, Inr x)"
        and t: "map_sum id (\<lambda>target. Some (target, lu_fragment u)) (document_target kit known base source u) = Inr t"
      using assms by (auto simp: navigation_target_def Some docs_bind_Inr)
    show ?thesis using False t check_link_unpolled [OF link] by (simp add: navigation_target_def Some docs_bind_def)
  qed
qed (use assms in \<open>simp add: navigation_target_def\<close>)

definition page_links :: "document_kit \<Rightarrow> documents \<Rightarrow> string \<Rightarrow> (string \<times> string) set" where
  "page_links kit known base =
     {(p, q). map_of known q \<noteq> None \<and>
        (\<exists>d l f. map_of known p = Some d \<and> l \<in> set (nd_links d) \<and> snd (navigation_target kit known base p l None) = Inr (Some (q, f)))}"

text \<open>Every link of a document is admitted, and a fragment of a known document is one of its anchors.\<close>

definition sound_link :: "document_kit \<Rightarrow> documents \<Rightarrow> string \<Rightarrow> string \<Rightarrow> string \<Rightarrow> bool" where
  "sound_link kit known base path l \<longleftrightarrow>
     (case snd (navigation_target kit known base path l None) of
        Inl e \<Rightarrow> False
      | Inr None \<Rightarrow> True
      | Inr (Some (q, fragment)) \<Rightarrow>
          (case map_of known q of None \<Rightarrow> True | Some d \<Rightarrow> fragment = [] \<or> List.member (nd_anchors d) fragment))"

lemma document_edges_sound:
  "document_edges kit known base source ls c = (c', Inr ts) \<Longrightarrow>
     list_all (sound_link kit known base source) ls \<and>
     set ts = {q. map_of known q \<noteq> None \<and> (\<exists>l f. l \<in> set ls \<and> snd (navigation_target kit known base source l None) = Inr (Some (q, f)))}"
proof (induction ls arbitrary: c c' ts)
  case (Cons l ls)
  obtain c1 c2 t where t: "navigation_target kit known base source l c1 = (c2, Inr t)"
      and rest: "(case t of
         None \<Rightarrow> document_edges kit known base source ls c2
       | Some (target, fragment) \<Rightarrow>
           (case map_of known target of
              None \<Rightarrow> document_edges kit known base source ls c2
            | Some d \<Rightarrow>
                docs_require (fragment = [] \<or> List.member (nd_anchors d) fragment) (Broken_fragment source) c2 (\<lambda>c.
                  docs_bind (document_edges kit known base source ls c) (\<lambda>c ts. (c, Inr (target # ts)))))) = (c', Inr ts)"
    using Cons.prems by (auto simp: docs_bind_Inr dest!: docs_poll_Inr)
  note resolved = target_unpolled [OF t]
  show ?case
  proof (cases t)
    case None
    then show ?thesis using Cons.IH [of c2 c' ts] rest resolved by (auto simp: sound_link_def)
  next
    case (Some p)
    obtain q f where p: "p = (q, f)" by fastforce
    show ?thesis
    proof (cases "map_of known q")
      case None
      then show ?thesis using Cons.IH [of c2 c' ts] rest resolved Some p by (auto simp: sound_link_def)
    next
      case known: (Some d)
      obtain c3 ts' where ts': "document_edges kit known base source ls c2 = (c3, Inr ts')" "ts = q # ts'"
          and f: "f = [] \<or> List.member (nd_anchors d) f"
        using rest Some p known by (auto simp: docs_require_Inr docs_bind_Inr)
      show ?thesis using Cons.IH [OF ts'(1)] ts'(2) f resolved Some p known by (auto simp: sound_link_def)
    qed
  qed
qed simp

lemma navigation_edges_sound:
  "navigation_edges kit known base rest c = (c', Inr es) \<Longrightarrow>
     list_all (\<lambda>(path, d). list_all (sound_link kit known base path) (nd_links d)) rest \<and>
     set (targets_of es p) =
       {q. map_of known q \<noteq> None \<and>
          (\<exists>d l f. map_of rest p = Some d \<and> l \<in> set (nd_links d) \<and> snd (navigation_target kit known base p l None) = Inr (Some (q, f)))}"
proof (induction rest arbitrary: c es)
  case (Cons x rest)
  obtain path d where x: "x = (path, d)" by fastforce
  obtain c1 ts es' where ts: "document_edges kit known base path (nd_links d) c = (c1, Inr ts)"
      and rest: "navigation_edges kit known base rest c1 = (c', Inr es')" and es: "es = (path, ts) # es'"
    using Cons.prems by (auto simp: x docs_bind_Inr)
  show ?case using document_edges_sound [OF ts] Cons.IH [OF rest] by (auto simp: x es targets_of_def)
qed (simp add: targets_of_def)

lemma reached_from_links:
  "reach_documents edges reached pending c = (c', Inr r) \<Longrightarrow> set pending \<subseteq> set reached \<Longrightarrow>
     set reached \<subseteq> {x. (entry, x) \<in> {(p, q). q \<in> set (targets_of edges p)}\<^sup>*} \<Longrightarrow>
     set r \<subseteq> {x. (entry, x) \<in> {(p, q). q \<in> set (targets_of edges p)}\<^sup>*}"
proof (induction edges reached pending c rule: reach_documents.induct)
  case (2 edges reached p pending c)
  obtain c1 where poll: "poll_ctx c = (False, c1)" using "2.prems"(1) by (auto split: prod.splits bool.splits)
  obtain reached' pending' where mark: "mark_targets (targets_of edges p) reached pending = (reached', pending')" by fastforce
  note m = mark_targets_result [OF mark]
  have "(entry, p) \<in> {(p, q). q \<in> set (targets_of edges p)}\<^sup>*" using "2.prems"(2,3) by auto
  then have new: "set (targets_of edges p) \<subseteq> {x. (entry, x) \<in> {(p, q). q \<in> set (targets_of edges p)}\<^sup>*}"
    by (auto intro: rtrancl_into_rtrancl)
  have sub: "set pending' \<subseteq> set reached'" using m "2.prems"(2) by auto
  have all: "set reached' \<subseteq> {x. (entry, x) \<in> {(p, q). q \<in> set (targets_of edges p)}\<^sup>*}" using m new "2.prems"(3) by auto
  have go: "reach_documents edges reached' pending' c1 = (c', Inr r)" using "2.prems"(1) by (simp add: poll mark)
  show ?case using "2.IH" [of False c1 reached' pending'] poll mark go sub all by simp
qed simp

definition page_reached :: "document_kit \<Rightarrow> documents \<Rightarrow> string \<Rightarrow> string \<Rightarrow> bool" where
  "page_reached kit known base path \<longleftrightarrow>
     (case path_rel base path of
        None \<Rightarrow> False
      | Some relative \<Rightarrow>
          if documentation_page relative then (path_join [base, ''README.md''], path) \<in> (page_links kit known base)\<^sup>* else True)"

lemma unreached_none:
  "unreached_page base reached known = None \<Longrightarrow>
     list_all (\<lambda>(path, d). case path_rel base path of None \<Rightarrow> False | Some relative \<Rightarrow> documentation_page relative \<longrightarrow> path \<in> set reached) known"
  by (induction base reached known rule: unreached_page.induct) (auto split: option.splits if_splits)

lemma reachability_checked:
  assumes "check_reachability kit base known c = (c', Inr u)"
  shows "list_all (\<lambda>(path, d). list_all (sound_link kit known base path) (nd_links d) \<and> page_reached kit known base path) known"
proof -
  let ?entry = "path_join [base, ''README.md'']"
  obtain c1 edges c2 reached where edges: "navigation_edges kit known base known c = (c1, Inr edges)"
      and reached: "reach_documents edges [?entry] [?entry] c1 = (c2, Inr reached)"
      and pages: "unreached_page base reached known = None"
    using assms by (auto simp: check_reachability_def docs_bind_Inr split: option.splits)
  have links: "{(p, q). q \<in> set (targets_of edges p)} = page_links kit known base"
    using navigation_edges_sound [OF edges] by (auto simp: page_links_def)
  have "set reached \<subseteq> {x. (?entry, x) \<in> (page_links kit known base)\<^sup>*}"
    using reached_from_links [OF reached, of ?entry] by (simp add: links)
  then have "page_reached kit known base path" if "(path, d) \<in> set known" for path d
  proof -
    have "case path_rel base path of None \<Rightarrow> False | Some relative \<Rightarrow> documentation_page relative \<longrightarrow> path \<in> set reached"
      using unreached_none [OF pages] that unfolding list_all_iff by blast
    then show ?thesis using \<open>set reached \<subseteq> _\<close> by (auto simp: page_reached_def split: option.splits)
  qed
  then show ?thesis using navigation_edges_sound [OF edges] by (force simp: list_all_iff)
qed

text \<open>C14: when the navigation of a repository is accepted, every link of every document that was read is
  admitted, a fragment that is linked in a document is one of its anchors, and every documentation page is
  reached from the README of the repository along such links.\<close>

theorem accepted_navigation_reaches:
  "case check_navigation kit root_path modules c of
     (c', Inl e) \<Rightarrow> True
   | (c', Inr u) \<Rightarrow>
       (\<exists>base tree c1 c2 known.
          admit_roots kit root_path root_path c = (c1, Inr (base, tree)) \<and>
          navigation_documents kit base modules c1 = (c2, Inr known) \<and>
          list_all (\<lambda>(path, d). list_all (sound_link kit known base path) (nd_links d) \<and> page_reached kit known base path) known)"
proof (cases "check_navigation kit root_path modules c")
  case (Pair c' x)
  show ?thesis
  proof (cases x)
    case (Inr u)
    obtain c1 base tree c2 known where roots: "admit_roots kit root_path root_path c = (c1, Inr (base, tree))"
        and known: "navigation_documents kit base modules c1 = (c2, Inr known)"
        and checked: "check_reachability kit base known c2 = (c', Inr u)"
      using Pair Inr by (auto simp: check_navigation_def docs_bind_Inr)
    show ?thesis using roots known reachability_checked [OF checked] by (auto simp: Pair Inr)
  qed (simp add: Pair)
qed

end
