(* ===== verification/Command_Line.thy ===== *)
theory Command_Line
  imports Repository_Contract Cohesion_Catalog Upgrade Go_Rel
begin

text \<open>
  internal/cli: which operation a command line names, and what is established before it runs. The
  arguments are parsed as the code does, in the order in which the root, the policy, the identity of the
  binary and the catalog are established; what remains is an operation of another component. The
  printing of reports and of usage messages is left out: a usage refusal has the exit code 2, a failure 1.
\<close>

section \<open>Operations\<close>

text \<open>The operations that run commands, through the executor of the gates.\<close>

datatype gate_operation =
    Gate_secrets | Gate_secrets_changes string
  | Gate_check "string list" | Gate_local "string list" | Gate_local_changes "string list" string
  | Gate_workflows | Gate_changed_modules string
  | Gate_api "string list" bool | Gate_coverage "string list"
  | Gate_mutation_import string string string | Gate_mutation_package string string | Gate_mutation "string list"
  | Gate_docs "string list" | Gate_service_cycle "string list" | Gate_release "string list"

text \<open>The other operations. A flag tells whether the report is JSON.\<close>

datatype cli_operation =
    Do_upgrade bool upgrade_request bool
  | Do_package string string string | Do_verify_archive string
  | Do_source_docs bool bool
  | Do_sources_check string | Do_sources_verify string string
  | Do_aggregate_generate string string "string option" catalog_identity | Do_aggregate_check string string catalog_identity
  | Do_catalog string bool catalog_identity | Do_cohesion_check bool
  | Do_security string | Do_archive string
  | Do_config_validate | Do_config_show | Do_repository_check | Do_specification_check bool
  | Do_inventory bool | Do_consumers bool
  | Do_navigation "string list" | Do_local_docs | Do_release_check "string list"
  | Do_evidence "string list" bool
  | Do_gate gate_operation

section \<open>Arguments\<close>

text \<open>Pairs of a flag and its value: known flags, each at most once, no empty values.\<close>

fun flag_values :: "string list \<Rightarrow> (string \<times> string) list \<Rightarrow> string list \<Rightarrow> (string \<times> string) list option" where
  "flag_values flags found [] = Some found"
| "flag_values flags found [f] = None"
| "flag_values flags found (f # v # rest) =
     (if v = [] \<or> \<not> List.member flags f \<or> List.member (map fst found) f then None
      else flag_values flags (found @ [(f, v)]) rest)"

definition flag_value :: "(string \<times> string) list \<Rightarrow> string \<Rightarrow> string" where
  "flag_value found f = (case map_of found f of None \<Rightarrow> [] | Some v \<Rightarrow> v)"

definition mutation_package_arguments :: "string list \<Rightarrow> (string \<times> string) option" where
  "mutation_package_arguments args =
     (if length args \<noteq> 4 then None
      else map_option (\<lambda>vs. (flag_value vs ''--module'', flag_value vs ''--package''))
        (flag_values [''--module'', ''--package''] [] args))"

definition mutation_import_arguments :: "string list \<Rightarrow> (string \<times> string \<times> string) option" where
  "mutation_import_arguments args =
     (if length args \<noteq> 6 then None
      else map_option (\<lambda>vs. (flag_value vs ''--module'', flag_value vs ''--archive'', flag_value vs ''--ledger''))
        (flag_values [''--module'', ''--archive'', ''--ledger''] [] args))"

definition aggregate_arguments :: "string list \<Rightarrow> (string \<times> string \<times> string) option" where
  "aggregate_arguments args =
     (if length args \<noteq> 5 \<or> \<not> List.member [''generate'', ''check''] (hd args) then None
      else map_option (\<lambda>vs. (hd args, flag_value vs ''--inputs'', flag_value vs ''--output''))
        (flag_values [''--inputs'', ''--output''] [] (tl args)))"

datatype upgrade_argument_error =
    Action_required | Action_unknown | Json_duplicated | Flag_without_value | Arguments_malformed
  | Argument_duplicated | Identity_incomplete

definition upgrade_flags :: "string list" where
  "upgrade_flags = [''--version'', ''--workflow-sha'', ''--checksums-sha256'']"

fun upgrade_values ::
  "bool \<Rightarrow> (string \<times> string) list \<Rightarrow> string list \<Rightarrow> upgrade_argument_error + bool \<times> (string \<times> string) list" where
  "upgrade_values json found [] = Inr (json, found)"
| "upgrade_values json found [a] =
     (if a = ''--json'' then (if json then Inl Json_duplicated else Inr (True, found)) else Inl Flag_without_value)"
| "upgrade_values json found (a # v # rest) =
     (if a = ''--json'' then (if json then Inl Json_duplicated else upgrade_values True found (v # rest))
      else if v = [] \<or> \<not> List.member upgrade_flags a then Inl Arguments_malformed
      else if List.member (map fst found) a then Inl Argument_duplicated
      else upgrade_values json (found @ [(a, v)]) rest)"

definition parse_upgrade_arguments :: "string list \<Rightarrow> upgrade_argument_error + bool \<times> upgrade_request \<times> bool" where
  "parse_upgrade_arguments args =
     (case args of
        [] \<Rightarrow> Inl Action_required
      | action # rest \<Rightarrow>
          if \<not> List.member [''plan'', ''apply''] action then Inl Action_unknown
          else and_then (upgrade_values False [] rest) (\<lambda>(json, found).
            if length found \<noteq> 3 then Inl Identity_incomplete
            else Inr (action = ''apply'',
              \<lparr>uq_version = flag_value found ''--version'', uq_workflow_sha = flag_value found ''--workflow-sha'',
               uq_checksums = flag_value found ''--checksums-sha256''\<rparr>, json)))"

definition module_selection :: "string list \<Rightarrow> module_policy list \<Rightarrow> string list option" where
  "module_selection args mds =
     (if args = [] \<or> args = [''--all''] then Some (map md_directory mds)
      else (case args of [f, d] \<Rightarrow> if f = ''--module'' \<and> d \<noteq> [] then Some [d] else None | _ \<Rightarrow> None))"

fun module_flags :: "string list \<Rightarrow> string list option" where
  "module_flags [] = Some []"
| "module_flags [f] = None"
| "module_flags (f # d # rest) =
     (if f \<noteq> ''--module'' \<or> d = [] then None else map_option (\<lambda>ds. d # ds) (module_flags rest))"

definition repeated_module_selection :: "string list \<Rightarrow> string list option" where
  "repeated_module_selection args = (if 2 * maximum_modules < int (length args) then None else module_flags args)"

text \<open>\<open>Some []\<close> is the selection of all modules.\<close>

definition release_module_selection :: "string list \<Rightarrow> string option" where
  "release_module_selection args =
     (if args = [] \<or> args = [''--all''] then Some []
      else (case args of [f, d] \<Rightarrow> if f = ''--module'' \<and> d \<noteq> [] then Some d else None | _ \<Rightarrow> None))"

section \<open>The root of the repository\<close>

record command_kit =
  cl_version :: string
  cl_language :: "string \<times> string \<times> string"
  cl_stat :: "string \<Rightarrow> io_error + bool"
  cl_absolute :: "string \<Rightarrow> string option"
  cl_resolve :: "string \<Rightarrow> io_error + string"
  cl_policy :: "string \<Rightarrow> config option"
  cl_catalog :: "string \<Rightarrow> config \<Rightarrow> inventory option"
  cl_lock :: "string \<Rightarrow> source_lock option"
  cl_valid_cohesion :: "string \<Rightarrow> config \<Rightarrow> bool"
  cl_versions :: version_library
  cl_contract :: contract_kit
  cl_spec :: spec_kit
  cl_today :: int

text \<open>\<open>cl_stat\<close> tells of an existing path whether it is a directory. \<open>fuel\<close> is one more than the number of
  elements of the path.\<close>

fun find_root_up :: "command_kit \<Rightarrow> nat \<Rightarrow> string \<Rightarrow> string option" where
  "find_root_up kit 0 current = None"
| "find_root_up kit (Suc fuel) current =
     (case cl_stat kit (path_join [current, ''.golib.yaml'']) of
        Inr False \<Rightarrow> Some current
      | Inl Err_exist \<Rightarrow> None
      | Inl Err_other \<Rightarrow> None
      | _ \<Rightarrow> if path_dir current = current then None else find_root_up kit fuel (path_dir current))"

definition find_root :: "command_kit \<Rightarrow> string \<Rightarrow> string option" where
  "find_root kit start =
     (if \<not> is_abs start then None
      else find_root_up kit (Suc (length (abs_elems start))) (path_clean start))"

section \<open>Cohesion\<close>

text \<open>\<open>canonicalCohesionPath\<close>: the longest existing ancestor is resolved, and what is missing below it is
  put back.\<close>

fun canonical_up :: "command_kit \<Rightarrow> nat \<Rightarrow> string list \<Rightarrow> string \<Rightarrow> string option" where
  "canonical_up kit 0 missing current = None"
| "canonical_up kit (Suc fuel) missing current =
     (case cl_resolve kit current of
        Inr resolved \<Rightarrow> Some (path_clean (foldl (\<lambda>p e. path_join [p, e]) resolved missing))
      | Inl Err_not_exist \<Rightarrow>
          if path_dir current = current then None else canonical_up kit fuel (path_base current # missing) (path_dir current)
      | Inl _ \<Rightarrow> None)"

definition canonical_cohesion_path :: "command_kit \<Rightarrow> string \<Rightarrow> string option" where
  "canonical_cohesion_path kit p =
     (case cl_absolute kit p of
        None \<Rightarrow> None
      | Some a \<Rightarrow> canonical_up kit (Suc (length (abs_elems a))) [] (path_clean a))"

definition same_cohesion_path :: "command_kit \<Rightarrow> string \<Rightarrow> string \<Rightarrow> bool option" where
  "same_cohesion_path kit p q =
     (case canonical_cohesion_path kit p of
        None \<Rightarrow> None
      | Some a \<Rightarrow> map_option (\<lambda>b. a = b) (canonical_cohesion_path kit q))"

definition resolve_cohesion_path :: "string \<Rightarrow> string \<Rightarrow> string" where
  "resolve_cohesion_path base p = (if is_abs p then path_clean p else path_join [base, p])"

definition current_cohesion_identity :: "command_kit \<Rightarrow> catalog_identity" where
  "current_cohesion_identity kit =
     (case cl_language kit of (version, digest, source) \<Rightarrow>
        \<lparr>id_language_version = version, id_language_sha256 = digest, id_source = source, id_tooling_version = cl_version kit,
         id_publication = (if cl_version kit \<noteq> ''dev'' then ''published'' else ''unpublished'')\<rparr>)"

text \<open>What a command line leads to: an exit code, or an operation in a directory.\<close>

datatype plan = Refused_usage | Refused | Shown | Planned string cli_operation

definition plan_option :: "string \<Rightarrow> plan \<Rightarrow> cli_operation option \<Rightarrow> plan" where
  "plan_option base otherwise op = (case op of None \<Rightarrow> otherwise | Some op \<Rightarrow> Planned base op)"

definition cohesion_sources :: "command_kit \<Rightarrow> string \<Rightarrow> config \<Rightarrow> string list \<Rightarrow> plan" where
  "cohesion_sources kit base policy args =
     (if \<not> List.member [4, 6] (length args) \<or> args ! 2 \<noteq> ''--inputs'' \<or> args ! 3 = [] then Refused_usage
      else (let inputs = resolve_cohesion_path base (args ! 3)
            in case cl_lock kit inputs of
                 None \<Rightarrow> Refused
               | Some lock \<Rightarrow>
                   if length args = 4 \<and> args ! 1 = ''check'' then Planned base (Do_sources_check inputs)
                   else if length args = 6 \<and> args ! 1 = ''verify'' \<and> args ! 4 = ''--repository'' \<and> args ! 5 \<noteq> []
                   then (case cl_catalog kit base policy of
                           None \<Rightarrow> Refused
                         | Some catalog \<Rightarrow>
                             if iv_repository catalog \<noteq> args ! 5 \<or>
                                verify_policy lock (args ! 5) (cf_tool_version policy) (cf_tool_checksums policy) \<noteq> None then Refused
                             else Planned base (Do_sources_verify inputs (args ! 5)))
                   else Refused_usage))"

text \<open>A source build publishes nowhere into docs/ecosystem: not under its name, and with that directory
  protected, not under another one.\<close>

definition cohesion_aggregate :: "command_kit \<Rightarrow> string \<Rightarrow> string list \<Rightarrow> plan" where
  "cohesion_aggregate kit base args =
     (case aggregate_arguments args of
        None \<Rightarrow> Refused_usage
      | Some (action, inputs, out) \<Rightarrow>
          (let inputs = resolve_cohesion_path base inputs; out = resolve_cohesion_path base out;
               ecosystem = path_join [base, ''docs'', ''ecosystem'']; i = current_cohesion_identity kit
           in if action = ''check'' then Planned base (Do_aggregate_check inputs out i)
              else if cl_version kit = ''dev''
              then (if same_cohesion_path kit out ecosystem = Some False
                    then Planned base (Do_aggregate_generate inputs out (Some ecosystem) i) else Refused)
              else Planned base (Do_aggregate_generate inputs out None i)))"

definition json_flag :: "string list \<Rightarrow> bool option" where
  "json_flag rest = (if rest = [] then Some False else if rest = [''--json''] then Some True else None)"

definition cohesion_plan :: "command_kit \<Rightarrow> string \<Rightarrow> config \<Rightarrow> string list \<Rightarrow> plan" where
  "cohesion_plan kit base policy args =
     (case args of
        [] \<Rightarrow> Refused_usage
      | word # rest \<Rightarrow>
          if word = ''sources'' then cohesion_sources kit base policy args
          else if word = ''aggregate'' then cohesion_aggregate kit base rest
          else if word = ''catalog''
          then (if rest = [] \<or> \<not> List.member [''consumer'', ''engineering''] (hd rest) then Refused_usage
                else (case json_flag (tl rest) of
                        None \<Rightarrow> Refused_usage
                      | Some json \<Rightarrow>
                          if \<not> cl_valid_cohesion kit base policy then Refused
                          else Planned base (Do_catalog (hd rest) json (current_cohesion_identity kit))))
          else if word = ''check'' then plan_option base Refused_usage (map_option Do_cohesion_check (json_flag rest))
          else Refused_usage)"

section \<open>Commands\<close>

definition gate_plan :: "string \<Rightarrow> gate_operation option \<Rightarrow> plan" where
  "gate_plan base op = plan_option base Refused_usage (map_option Do_gate op)"

definition check_command :: "string \<Rightarrow> module_policy list \<Rightarrow> string list \<Rightarrow> plan" where
  "check_command base mds args =
     (if args = [] \<or> hd args \<noteq> ''--local'' then gate_plan base (map_option Gate_check (module_selection args mds))
      else (let rest = tl args; changed = rest \<noteq> [] \<and> hd rest = ''--base-sha''
            in if changed \<and> (length rest < 2 \<or> rest ! 1 = []) then Refused_usage
               else (let commit = (if changed then rest ! 1 else []); words = (if changed then drop 2 rest else rest);
                         selection = (if 2 < length words then repeated_module_selection words else module_selection words mds)
                     in gate_plan base (map_option (\<lambda>ds. if commit \<noteq> [] then Gate_local_changes ds commit else Gate_local ds) selection))))"

definition mutation_plan :: "string \<Rightarrow> module_policy list \<Rightarrow> string list \<Rightarrow> plan" where
  "mutation_plan base mds args =
     (if args \<noteq> [] \<and> hd args = ''import''
      then gate_plan base (map_option (\<lambda>(m, a, l). Gate_mutation_import m a l) (mutation_import_arguments (tl args)))
      else if List.member args ''--package''
      then gate_plan base (map_option (\<lambda>(m, d). Gate_mutation_package m d) (mutation_package_arguments args))
      else gate_plan base (map_option Gate_mutation (module_selection args mds)))"

definition docs_plan :: "string \<Rightarrow> module_policy list \<Rightarrow> string list \<Rightarrow> plan" where
  "docs_plan base mds args =
     (if args = [''check'', ''--navigation'']
      then Planned base (Do_navigation (map md_directory (filter (\<lambda>md. md_directory md = ''.'' \<or> gate_on md ''documentation'') mds)))
      else if args = [''check'', ''--local''] then Planned base Do_local_docs
      else if args = [] \<or> hd args \<noteq> ''check'' then Refused_usage
      else gate_plan base (map_option Gate_docs (module_selection (tl args) mds)))"

text \<open>A release is checked against the policy and the repository before anything is rehearsed.\<close>

definition release_plan :: "command_kit \<Rightarrow> string \<Rightarrow> config \<Rightarrow> inventory \<Rightarrow> string list \<Rightarrow> plan" where
  "release_plan kit base policy catalog args =
     (if args = [] \<or> \<not> List.member [''check'', ''dry-run''] (hd args) then Refused_usage
      else (case release_module_selection (tl args) of
              None \<Rightarrow> Refused_usage
            | Some d \<Rightarrow>
                (case validate_release (cl_versions kit) catalog policy (if d = [] then [] else [d]) of
                   Inl e \<Rightarrow> Refused
                 | Inr selection \<Rightarrow>
                     if check_repository (cl_contract kit) (cl_spec kit) base (cl_today kit) catalog \<noteq> None then Refused
                     else Planned base (if hd args = ''check'' then Do_release_check selection else Do_gate (Gate_release selection)))))"

definition secrets_plan :: "string \<Rightarrow> string list \<Rightarrow> plan" where
  "secrets_plan base args =
     (case args of
        [w] \<Rightarrow> gate_plan base (if w = ''check'' then Some Gate_secrets else None)
      | [w, f, commit] \<Rightarrow> gate_plan base (if w = ''check'' \<and> f = ''--base-sha'' \<and> commit \<noteq> [] then Some (Gate_secrets_changes commit) else None)
      | _ \<Rightarrow> Refused_usage)"

text \<open>One word and one flag with a value: \<open>security validate --directory\<close>, \<open>archive validate --file\<close>.\<close>

definition validate_plan :: "string \<Rightarrow> (string \<Rightarrow> cli_operation) \<Rightarrow> string \<Rightarrow> string list \<Rightarrow> plan" where
  "validate_plan base op flag args =
     (case args of
        [w, f, v] \<Rightarrow> if w = ''validate'' \<and> f = flag \<and> v \<noteq> [] then Planned base (op v) else Refused_usage
      | _ \<Rightarrow> Refused_usage)"

definition inventory_plan :: "string \<Rightarrow> string list \<Rightarrow> plan" where
  "inventory_plan base args =
     (case args of
        [j, f, commit] \<Rightarrow> gate_plan base (if j = ''--json'' \<and> f = ''--base-sha'' then Some (Gate_changed_modules commit) else None)
      | _ \<Rightarrow> plan_option base Refused_usage (map_option Do_inventory (json_flag args)))"

text \<open>A command whose only word takes a JSON flag, and one that takes a selection of modules.\<close>

definition word_json_plan :: "string \<Rightarrow> string \<Rightarrow> (bool \<Rightarrow> cli_operation) \<Rightarrow> string list \<Rightarrow> plan" where
  "word_json_plan base word op args =
     (if args = [] \<or> hd args \<noteq> word then Refused_usage else plan_option base Refused_usage (map_option op (json_flag (tl args))))"

definition word_selection_plan ::
  "string \<Rightarrow> module_policy list \<Rightarrow> string list \<Rightarrow> (string \<Rightarrow> string list \<Rightarrow> gate_operation) \<Rightarrow> string list \<Rightarrow> plan" where
  "word_selection_plan base mds admitted op args =
     (if args = [] \<or> \<not> List.member admitted (hd args) then Refused_usage
      else gate_plan base (map_option (op (hd args)) (module_selection (tl args) mds)))"

definition command_plan :: "command_kit \<Rightarrow> string \<Rightarrow> config \<Rightarrow> inventory \<Rightarrow> string \<Rightarrow> string list \<Rightarrow> plan" where
  "command_plan kit base policy catalog command args =
     (let mds = inv_modules catalog
      in if command = ''security'' then validate_plan base Do_security ''--directory'' args
         else if command = ''archive'' then validate_plan base Do_archive ''--file'' args
         else if command = ''secrets'' then secrets_plan base args
         else if command = ''check'' then check_command base mds args
         else if command = ''config''
         then (if args = [''validate''] then Planned base Do_config_validate
               else if args = [''show'', ''--json''] then Planned base Do_config_show else Refused_usage)
         else if command = ''repository'' then (if args = [''check''] then Planned base Do_repository_check else Refused_usage)
         else if command = ''specification''
         then (if args = [''check''] then Planned base (Do_specification_check False)
               else if args = [''check'', ''--online''] then Planned base (Do_specification_check True) else Refused_usage)
         else if command = ''workflows'' then gate_plan base (if args = [''check''] then Some Gate_workflows else None)
         else if command = ''inventory'' then inventory_plan base args
         else if command = ''consumers'' then word_json_plan base ''validate'' Do_consumers args
         else if command = ''api''
         then word_selection_plan base mds [''check'', ''update''] (\<lambda>w ds. Gate_api ds (w = ''update'')) args
         else if command = ''coverage'' then gate_plan base (map_option Gate_coverage (module_selection args mds))
         else if command = ''mutation'' then mutation_plan base mds args
         else if command = ''docs'' then docs_plan base mds args
         else if command = ''services'' then word_selection_plan base mds [''cycle''] (\<lambda>w. Gate_service_cycle) args
         else if command = ''release'' then release_plan kit base policy catalog args
         else if command = ''evidence'' then word_json_plan base ''inspect'' (Do_evidence (map md_directory mds)) args
         else Refused_usage)"

text \<open>The commands that need no policy: they are planned before the root is looked for.\<close>

definition binary_release_plan :: "string \<Rightarrow> string list \<Rightarrow> plan" where
  "binary_release_plan directory args =
     (if hd args = ''archive-check''
      then (if length args = 3 \<and> args ! 1 = ''--file'' \<and> args ! 2 \<noteq> [] then Planned directory (Do_verify_archive (args ! 2)) else Refused_usage)
      else if length args = 7 \<and> args ! 1 = ''--binary'' \<and> args ! 2 \<noteq> [] \<and> args ! 3 = ''--license'' \<and> args ! 4 \<noteq> [] \<and>
        args ! 5 = ''--output'' \<and> args ! 6 \<noteq> []
      then Planned directory (Do_package (args ! 2) (args ! 4) (args ! 6)) else Refused_usage)"

definition source_docs_plan :: "string \<Rightarrow> string list \<Rightarrow> plan" where
  "source_docs_plan directory args =
     (if args = [] \<or> \<not> List.member [''inventory'', ''check''] (hd args) then Refused_usage
      else plan_option directory Refused_usage (map_option (Do_source_docs (hd args = ''check'')) (json_flag (tl args))))"

definition upgrade_plan :: "command_kit \<Rightarrow> string \<Rightarrow> string list \<Rightarrow> plan" where
  "upgrade_plan kit directory args =
     (case parse_upgrade_arguments args of
        Inl e \<Rightarrow> Refused_usage
      | Inr (apply_it, q, json) \<Rightarrow>
          (case find_root kit directory of None \<Rightarrow> Refused | Some base \<Rightarrow> Planned base (Do_upgrade apply_it q json)))"

definition uses_cohesion_generator_identity :: "string list \<Rightarrow> bool" where
  "uses_cohesion_generator_identity args \<longleftrightarrow>
     2 \<le> length args \<and> hd args = ''cohesion'' \<and> List.member [''catalog'', ''aggregate'', ''sources''] (args ! 1)"

definition governed_plan :: "command_kit \<Rightarrow> string list \<Rightarrow> string \<Rightarrow> plan" where
  "governed_plan kit args directory =
     (case find_root kit directory of
        None \<Rightarrow> Refused
      | Some base \<Rightarrow>
          (case cl_policy kit base of
             None \<Rightarrow> Refused
           | Some policy \<Rightarrow>
               if \<not> uses_cohesion_generator_identity args \<and> validate_required (cl_version kit) (cf_tool_version policy) \<noteq> None then Refused
               else if hd args = ''cohesion'' then cohesion_plan kit base policy (tl args)
               else (case cl_catalog kit base policy of
                       None \<Rightarrow> Refused
                     | Some catalog \<Rightarrow> command_plan kit base policy catalog (hd args) (tl args))))"

definition execute_plan :: "command_kit \<Rightarrow> string list \<Rightarrow> string \<Rightarrow> plan" where
  "execute_plan kit args directory =
     (if args = [''--version''] \<or> args = [''--help''] \<or> args = [''-h''] then Shown
      else if args = [] then Refused_usage
      else if hd args = ''upgrade'' then upgrade_plan kit directory (tl args)
      else if 2 \<le> length args \<and> hd args = ''release'' \<and> List.member [''package'', ''archive-check''] (args ! 1)
      then binary_release_plan directory (tl args)
      else if hd args = ''source-docs'' then source_docs_plan directory (tl args)
      else governed_plan kit args directory)"

section \<open>Execution\<close>

text \<open>\<open>ru_create\<close> makes an executor, \<open>ru_gate\<close> runs an operation with it and \<open>ru_cleanup\<close> removes it; the
  others run as they are. Each tells whether it succeeded.\<close>

record 'w cli_runner =
  ru_create :: "string \<Rightarrow> 'w \<Rightarrow> 'w \<times> bool"
  ru_gate :: "string \<Rightarrow> gate_operation \<Rightarrow> 'w \<Rightarrow> 'w \<times> bool"
  ru_cleanup :: "'w \<Rightarrow> 'w \<times> bool"
  ru_other :: "string \<Rightarrow> cli_operation \<Rightarrow> 'w \<Rightarrow> 'w \<times> bool"

definition with_executor :: "'w cli_runner \<Rightarrow> string \<Rightarrow> gate_operation \<Rightarrow> 'w \<Rightarrow> 'w \<times> bool" where
  "with_executor ru base op w =
     (case ru_create ru base w of
        (w, False) \<Rightarrow> (w, False)
      | (w, True) \<Rightarrow>
          (case ru_gate ru base op w of (w, succeeded) \<Rightarrow> (case ru_cleanup ru w of (w, cleaned) \<Rightarrow> (w, succeeded \<and> cleaned))))"

definition run_command :: "'w cli_runner \<Rightarrow> string \<Rightarrow> cli_operation \<Rightarrow> 'w \<Rightarrow> 'w \<times> bool" where
  "run_command ru base op w = (case op of Do_gate g \<Rightarrow> with_executor ru base g w | _ \<Rightarrow> ru_other ru base op w)"

definition execute :: "'w cli_runner \<Rightarrow> command_kit \<Rightarrow> string list \<Rightarrow> string \<Rightarrow> 'w \<Rightarrow> 'w \<times> nat" where
  "execute ru kit args directory w =
     (case execute_plan kit args directory of
        Refused_usage \<Rightarrow> (w, 2)
      | Refused \<Rightarrow> (w, 1)
      | Shown \<Rightarrow> (w, 0)
      | Planned base op \<Rightarrow> (case run_command ru base op w of (w, ok) \<Rightarrow> (w, if ok then 0 else 1)))"

section \<open>The root is the nearest\<close>

definition abs_path :: "string list \<Rightarrow> string" where
  "abs_path es = CHR ''/'' # join_with ''/'' es"

definition slash_free :: "string list \<Rightarrow> bool" where
  "slash_free es \<longleftrightarrow> list_all (\<lambda>e. plain_elem e \<and> CHR ''/'' \<notin> set e) es"

lemma cut_last_append: "c \<notin> set b \<Longrightarrow> cut_last c (a @ c # b) = Some (a, b)"
proof (induction a)
  case Nil
  have "cut_last c b = None" using Nil by (induction b) auto
  then show ?case by simp
qed simp

lemma clean_plain: "slash_free es \<Longrightarrow> clean_elems True es = es"
  by (induction es rule: rev_induct) (simp_all add: slash_free_def clean_elems_snoc, simp add: clean_elems_def)

lemma split_abs:
  assumes "slash_free es"
  shows "split_on CHR ''/'' (abs_path es) = [] # (if es = [] then [[]] else es)"
proof (cases "es = []")
  case False
  then show ?thesis using assms split_join [of es "CHR ''/''"] by (auto simp: abs_path_def slash_free_def list_all_iff)
qed (simp add: abs_path_def)

lemma clean_abs:
  assumes "slash_free es"
  shows "path_clean (abs_path es) = abs_path es"
proof -
  have "clean_elems True (split_on CHR ''/'' (abs_path es)) = es"
    using split_abs [OF assms] clean_plain [OF assms] by (simp add: clean_elems_skip) (simp add: clean_elems_def)
  then show ?thesis by (simp add: path_clean_def is_abs_def abs_path_def has_prefix_def)
qed

lemma dir_root: "path_dir (abs_path []) = abs_path []"
  by code_simp

lemma dir_child:
  assumes "slash_free (es @ [x])"
  shows "path_dir (abs_path (es @ [x])) = abs_path es"
proof -
  have x: "CHR ''/'' \<notin> set x" and es: "slash_free es" using assms by (auto simp: slash_free_def)
  show ?thesis
  proof (cases "es = []")
    case True
    have "cut_last CHR ''/'' (abs_path [x]) = Some ([], x)" using cut_last_append [OF x, of "[]"] by (simp add: abs_path_def)
    then show ?thesis using clean_abs [of "[]"] True by (simp add: path_dir_def abs_path_def slash_free_def)
  next
    case False
    have "abs_path (es @ [x]) = abs_path es @ CHR ''/'' # x" using False by (simp add: abs_path_def join_snoc)
    then have cut: "cut_last CHR ''/'' (abs_path (es @ [x])) = Some (abs_path es, x)" using cut_last_append [OF x] by simp
    have "split_on CHR ''/'' (abs_path es @ ''/'') = split_on CHR ''/'' (abs_path es) @ [[]]"
      using split_on_append [of "CHR ''/''" "abs_path es" "[]"] by simp
    then have "clean_elems True (split_on CHR ''/'' (abs_path es @ ''/'')) = es"
      using split_abs [OF es] False clean_plain [OF es] by (simp add: clean_elems_skip) (simp add: clean_elems_def clean_step_def)
    then have "path_clean (abs_path es @ ''/'') = abs_path es"
      by (simp add: path_clean_def is_abs_def abs_path_def has_prefix_def)
    then show ?thesis by (simp add: path_dir_def cut)
  qed
qed

text \<open>What the policy file in a directory decides: this is the root, the search fails, or it goes on.\<close>

definition root_decision :: "command_kit \<Rightarrow> string \<Rightarrow> string option option" where
  "root_decision kit p =
     (case cl_stat kit (path_join [p, ''.golib.yaml'']) of
        Inr False \<Rightarrow> Some (Some p)
      | Inr True \<Rightarrow> None
      | Inl e \<Rightarrow> if e = Err_not_exist then None else Some None)"

fun first_decision :: "command_kit \<Rightarrow> string list list \<Rightarrow> string option" where
  "first_decision kit [] = None"
| "first_decision kit (es # rest) = (case root_decision kit (abs_path es) of Some d \<Rightarrow> d | None \<Rightarrow> first_decision kit rest)"

text \<open>A directory and its ancestors, the nearest first.\<close>

definition ancestors :: "string list \<Rightarrow> string list list" where
  "ancestors es = map (\<lambda>k. take k es) (rev [0..<Suc (length es)])"

lemma ancestors_snoc: "ancestors (es @ [x]) = (es @ [x]) # ancestors es"
  by (simp add: ancestors_def)

lemma find_root_up_first:
  "slash_free es \<Longrightarrow> find_root_up kit (Suc (length es)) (abs_path es) = first_decision kit (ancestors es)"
proof (induction es rule: rev_induct)
  case Nil
  show ?case
    by (auto simp: ancestors_def root_decision_def dir_root split: sum.splits bool.splits io_error.splits)
next
  case (snoc x es)
  have es: "slash_free es" using snoc.prems by (simp add: slash_free_def)
  have "abs_path es \<noteq> abs_path (es @ [x])"
    using snoc.prems by (auto simp: abs_path_def join_snoc slash_free_def plain_elem_def)
  then show ?case
    using snoc.IH [OF es] dir_child [OF snoc.prems]
    by (auto simp: ancestors_snoc root_decision_def split: sum.splits bool.splits io_error.splits)
qed

lemma find_root_nearest:
  "find_root kit start = (if is_abs start then first_decision kit (ancestors (abs_elems start)) else None)"
proof (cases "is_abs start")
  case True
  have "slash_free (abs_elems start)" using abs_elems_plain [of start] by (simp add: slash_free_def)
  from find_root_up_first [OF this] True show ?thesis by (simp add: find_root_def path_clean_abs abs_path_def)
qed (simp add: find_root_def)

text \<open>The nearest root of a directory: it holds the policy as a file, and neither the directory nor an
  ancestor below the root has anything but a missing policy or a directory of that name.\<close>

definition nearest_root :: "command_kit \<Rightarrow> string \<Rightarrow> string \<Rightarrow> bool" where
  "nearest_root kit directory base \<longleftrightarrow> is_abs directory \<and>
     (\<exists>k \<le> length (abs_elems directory).
        base = abs_path (take k (abs_elems directory)) \<and>
        cl_stat kit (path_join [base, ''.golib.yaml'']) = Inr False \<and>
        (\<forall>j \<in> {k<..length (abs_elems directory)}.
           cl_stat kit (path_join [abs_path (take j (abs_elems directory)), ''.golib.yaml'']) \<in> {Inr True, Inl Err_not_exist}))"

lemma first_decision_nearest:
  "first_decision kit (map f (rev [0..<Suc n])) = Some base \<Longrightarrow>
     \<exists>k \<le> n. base = abs_path (f k) \<and> cl_stat kit (path_join [base, ''.golib.yaml'']) = Inr False \<and>
       (\<forall>j \<in> {k<..n}. cl_stat kit (path_join [abs_path (f j), ''.golib.yaml'']) \<in> {Inr True, Inl Err_not_exist})"
proof (induction n)
  case 0
  then show ?case by (auto simp: root_decision_def split: sum.splits bool.splits if_splits)
next
  case (Suc n)
  show ?case
  proof (cases "root_decision kit (abs_path (f (Suc n)))")
    case (Some d)
    with Suc.prems have "d = Some base" by simp
    with Some show ?thesis
      by (intro exI [of _ "Suc n"]) (auto simp: root_decision_def split: sum.splits bool.splits if_splits)
  next
    case None
    with Suc.prems have "first_decision kit (map f (rev [0..<Suc n])) = Some base" by simp
    from Suc.IH [OF this] obtain k where k: "k \<le> n" "base = abs_path (f k)"
      "cl_stat kit (path_join [base, ''.golib.yaml'']) = Inr False"
      "\<forall>j \<in> {k<..n}. cl_stat kit (path_join [abs_path (f j), ''.golib.yaml'']) \<in> {Inr True, Inl Err_not_exist}" by blast
    moreover have "cl_stat kit (path_join [abs_path (f (Suc n)), ''.golib.yaml'']) \<in> {Inr True, Inl Err_not_exist}"
      using None by (auto simp: root_decision_def split: sum.splits bool.splits if_splits)
    ultimately show ?thesis by (intro exI [of _ k]) (auto simp: le_Suc_eq)
  qed
qed

lemma find_root_root [simp]: "find_root kit directory = Some base \<Longrightarrow> nearest_root kit directory base"
  using first_decision_nearest [of kit "\<lambda>k. take k (abs_elems directory)" "length (abs_elems directory)" base]
  unfolding find_root_nearest nearest_root_def ancestors_def by (auto split: if_splits)

section \<open>What is established before an operation runs\<close>

definition ungoverned :: "cli_operation \<Rightarrow> bool" where
  "ungoverned op \<longleftrightarrow> (case op of Do_package a b c \<Rightarrow> True | Do_verify_archive a \<Rightarrow> True | Do_source_docs a b \<Rightarrow> True | _ \<Rightarrow> False)"

definition generator_operation :: "cli_operation \<Rightarrow> bool" where
  "generator_operation op \<longleftrightarrow>
     (case op of Do_upgrade a b c \<Rightarrow> True | Do_sources_check a \<Rightarrow> True | Do_sources_verify a b \<Rightarrow> True
      | Do_aggregate_generate a b c d \<Rightarrow> True | Do_aggregate_check a b c \<Rightarrow> True | Do_catalog a b c \<Rightarrow> True | _ \<Rightarrow> False)"

definition release_of :: "cli_operation \<Rightarrow> string list option" where
  "release_of op = (case op of Do_release_check s \<Rightarrow> Some s | Do_gate (Gate_release s) \<Rightarrow> Some s | _ \<Rightarrow> None)"

text \<open>The modules of a release were admitted and the repository checked.\<close>

definition release_admitted :: "command_kit \<Rightarrow> string \<Rightarrow> config \<Rightarrow> inventory \<Rightarrow> string list option \<Rightarrow> bool" where
  "release_admitted kit base policy catalog s \<longleftrightarrow>
     (case s of
        None \<Rightarrow> True
      | Some ds \<Rightarrow>
          check_repository (cl_contract kit) (cl_spec kit) base (cl_today kit) catalog = None \<and>
          (\<exists>selected. validate_release (cl_versions kit) catalog policy selected = Inr ds))"

text \<open>A source build generates outside docs/ecosystem and protects it.\<close>

definition publication_admitted :: "command_kit \<Rightarrow> string \<Rightarrow> cli_operation \<Rightarrow> bool" where
  "publication_admitted kit base op \<longleftrightarrow>
     (case op of
        Do_aggregate_generate inputs out protected i \<Rightarrow>
          if cl_version kit = ''dev''
          then protected = Some (path_join [base, ''docs'', ''ecosystem'']) \<and>
            same_cohesion_path kit out (path_join [base, ''docs'', ''ecosystem'']) = Some False
          else protected = None
      | _ \<Rightarrow> True)"

definition operation_admitted :: "command_kit \<Rightarrow> string \<Rightarrow> string \<Rightarrow> cli_operation \<Rightarrow> bool" where
  "operation_admitted kit directory base op \<longleftrightarrow>
     (if ungoverned op then base = directory
      else nearest_root kit directory base \<and>
        (if generator_operation op then publication_admitted kit base op
         else (\<exists>policy. cl_policy kit base = Some policy \<and> validate_required (cl_version kit) (cf_tool_version policy) = None \<and>
           ((\<exists>json. op = Do_cohesion_check json) \<or>
            (\<exists>catalog. cl_catalog kit base policy = Some catalog \<and> release_admitted kit base policy catalog (release_of op))))))"

lemmas operation_classes = ungoverned_def generator_operation_def release_of_def release_admitted_def publication_admitted_def

lemma plan_option_Planned: "plan_option base x op = Planned b o' \<longleftrightarrow> (op = None \<and> x = Planned b o') \<or> (op = Some o' \<and> b = base)"
  by (auto simp: plan_option_def split: option.splits)

lemma gate_plan_Planned: "gate_plan base op = Planned b o' \<longleftrightarrow> (\<exists>g. op = Some g \<and> o' = Do_gate g \<and> b = base)"
  by (auto simp: gate_plan_def plan_option_Planned)

text \<open>A command of the catalog stays in the root, is governed by the policy, and rehearses no release.\<close>

definition plain_command :: "string \<Rightarrow> plan \<Rightarrow> bool" where
  "plain_command base p \<longleftrightarrow>
     (case p of Planned b op \<Rightarrow> b = base \<and> \<not> ungoverned op \<and> \<not> generator_operation op \<and> release_of op = None
     | Shown \<Rightarrow> False | _ \<Rightarrow> True)"

lemma not_shown [simp]: "plan_option base Refused_usage op \<noteq> Shown" "gate_plan base g \<noteq> Shown"
  by (simp_all add: gate_plan_def plan_option_def split: option.splits)

lemma plain_gate:
  "\<forall>g. op = Some g \<longrightarrow> release_of (Do_gate g) = None \<Longrightarrow> plain_command base (gate_plan base op)"
  by (auto simp: plain_command_def gate_plan_Planned ungoverned_def generator_operation_def split: plan.splits)

lemma plain_gate_map:
  "\<forall>x. release_of (Do_gate (f x)) = None \<Longrightarrow> plain_command base (gate_plan base (map_option f selection))"
  by (auto intro!: plain_gate)

lemma plain_option:
  "\<forall>o'. op = Some o' \<longrightarrow> \<not> ungoverned o' \<and> \<not> generator_operation o' \<and> release_of o' = None \<Longrightarrow>
     plain_command base (plan_option base Refused_usage op)"
  by (auto simp: plain_command_def plan_option_Planned split: plan.splits)

lemma plain_cases [simp]:
  "plain_command base Refused_usage" "plain_command base Refused" "plain_command base Shown \<longleftrightarrow> False"
  "plain_command base (Planned base op) \<longleftrightarrow> \<not> ungoverned op \<and> \<not> generator_operation op \<and> release_of op = None"
  by (simp_all add: plain_command_def)

lemma check_plain: "plain_command base (check_command base mds args)"
  by (auto simp: check_command_def Let_def release_of_def intro!: plain_gate split: if_splits)

lemma mutation_plain: "plain_command base (mutation_plan base mds args)"
  by (auto simp: mutation_plan_def release_of_def intro!: plain_gate)

lemma docs_plain: "plain_command base (docs_plan base mds args)"
  by (auto simp: docs_plan_def release_of_def ungoverned_def generator_operation_def intro!: plain_gate)

lemma secrets_plain: "plain_command base (secrets_plan base args)"
  by (auto simp: secrets_plan_def release_of_def intro!: plain_gate split: list.splits)

lemma inventory_plain: "plain_command base (inventory_plan base args)"
  by (auto simp: inventory_plan_def release_of_def ungoverned_def generator_operation_def intro!: plain_gate plain_option split: list.splits)

lemma selection_plain:
  "\<forall>w ds. release_of (Do_gate (op w ds)) = None \<Longrightarrow> plain_command base (word_selection_plan base mds admitted op args)"
  by (auto simp: word_selection_plan_def intro!: plain_gate)

lemma word_json_plain:
  "\<forall>j. \<not> ungoverned (op j) \<and> \<not> generator_operation (op j) \<and> release_of (op j) = None \<Longrightarrow> plain_command base (word_json_plan base word op args)"
  by (auto simp: word_json_plan_def intro!: plain_option)

lemma validate_plain:
  "\<forall>v. \<not> ungoverned (op v) \<and> \<not> generator_operation (op v) \<and> release_of (op v) = None \<Longrightarrow> plain_command base (validate_plan base op flag args)"
  by (auto simp: validate_plan_def split: list.splits)

lemma command_plain:
  assumes "command \<noteq> ''release''"
  shows "plain_command base (command_plan kit base policy catalog command args)"
  using assms unfolding command_plan_def Let_def
  by (simp add: validate_plain secrets_plain check_plain inventory_plain word_json_plain selection_plain mutation_plain docs_plain
      plain_gate plain_gate_map release_of_def ungoverned_def generator_operation_def)

lemma release_planned:
  assumes "release_plan kit base policy catalog args = Planned b op"
  shows "b = base \<and> \<not> ungoverned op \<and> \<not> generator_operation op \<and> release_admitted kit base policy catalog (release_of op)"
  using assms
  by (auto simp: release_plan_def operation_classes split: if_splits option.splits sum.splits)

lemma command_planned:
  assumes "command_plan kit base policy catalog command args = Planned b op"
  shows "b = base \<and> \<not> ungoverned op \<and> \<not> generator_operation op \<and> release_admitted kit base policy catalog (release_of op)"
proof (cases "command = ''release''")
  case True
  then show ?thesis using assms release_planned by (simp add: command_plan_def)
next
  case False
  show ?thesis using command_plain [OF False, of base kit policy catalog args] by (simp add: assms plain_command_def release_admitted_def)
qed

lemma cohesion_planned:
  assumes "cohesion_plan kit base policy args = Planned b op"
  shows "b = base \<and> \<not> ungoverned op \<and>
    (if generator_operation op then uses_cohesion_generator_identity (''cohesion'' # args) \<and> publication_admitted kit base op
     else \<not> uses_cohesion_generator_identity (''cohesion'' # args) \<and> (\<exists>json. op = Do_cohesion_check json))"
proof -
  obtain word rest where args: "args = word # rest" using assms by (cases args) (auto simp: cohesion_plan_def)
  consider (sources) "word = ''sources''" | (aggregate) "word = ''aggregate''" | (catalog) "word = ''catalog''" | (check) "word = ''check''"
    using assms by (auto simp: cohesion_plan_def args split: if_splits)
  then show ?thesis
  proof cases
    case sources
    then show ?thesis using assms
      by (auto simp: cohesion_plan_def args cohesion_sources_def Let_def operation_classes uses_cohesion_generator_identity_def
          split: if_splits option.splits)
  next
    case aggregate
    then show ?thesis using assms
      by (auto simp: cohesion_plan_def args cohesion_aggregate_def Let_def operation_classes uses_cohesion_generator_identity_def
          split: if_splits option.splits)
  next
    case catalog
    then show ?thesis using assms
      by (auto simp: cohesion_plan_def args operation_classes uses_cohesion_generator_identity_def split: if_splits option.splits)
  next
    case check
    then show ?thesis using assms
      by (auto simp: cohesion_plan_def args operation_classes plan_option_Planned uses_cohesion_generator_identity_def)
  qed
qed

lemma governed_planned:
  assumes "governed_plan kit args directory = Planned base op" and "args \<noteq> []"
  shows "operation_admitted kit directory base op"
proof -
  obtain b policy where b: "find_root kit directory = Some b" "cl_policy kit b = Some policy"
      and rest: "(if \<not> uses_cohesion_generator_identity args \<and> validate_required (cl_version kit) (cf_tool_version policy) \<noteq> None then Refused
        else if hd args = ''cohesion'' then cohesion_plan kit b policy (tl args)
        else (case cl_catalog kit b policy of
                None \<Rightarrow> Refused | Some catalog \<Rightarrow> command_plan kit b policy catalog (hd args) (tl args))) = Planned base op"
    using assms(1) by (auto simp: governed_plan_def split: option.splits)
  show ?thesis
  proof (cases "hd args = ''cohesion''")
    case True
    then have args: "args = ''cohesion'' # tl args" using assms(2) by (cases args) auto
    have plan: "cohesion_plan kit b policy (tl args) = Planned base op" using rest True by (auto split: if_splits)
    have version: "uses_cohesion_generator_identity args \<or> validate_required (cl_version kit) (cf_tool_version policy) = None"
      using rest by (auto split: if_splits)
    show ?thesis
    proof (cases "generator_operation op")
      case True
      then show ?thesis using cohesion_planned [OF plan] b by (simp add: operation_admitted_def)
    next
      case False
      then show ?thesis using cohesion_planned [OF plan, folded args] b version by (auto simp: operation_admitted_def)
    qed
  next
    case False
    then obtain catalog where catalog: "cl_catalog kit b policy = Some catalog"
        and plan: "command_plan kit b policy catalog (hd args) (tl args) = Planned base op"
      using rest by (auto split: if_splits option.splits)
    have "validate_required (cl_version kit) (cf_tool_version policy) = None"
      using rest False by (auto simp: uses_cohesion_generator_identity_def split: if_splits)
    then show ?thesis using command_planned [OF plan] b catalog by (auto simp: operation_admitted_def)
  qed
qed

lemma plan_admitted:
  assumes "execute_plan kit args directory = Planned base op"
  shows "operation_admitted kit directory base op"
proof -
  consider (upgrade) "upgrade_plan kit directory (tl args) = Planned base op" | (binary) "binary_release_plan directory (tl args) = Planned base op"
    | (docs) "source_docs_plan directory (tl args) = Planned base op" | (governed) "governed_plan kit args directory = Planned base op" "args \<noteq> []"
    using assms by (auto simp: execute_plan_def split: if_splits)
  then show ?thesis
  proof cases
    case upgrade
    then show ?thesis by (auto simp: upgrade_plan_def operation_admitted_def operation_classes split: sum.splits option.splits prod.splits)
  next
    case binary
    then show ?thesis by (auto simp: binary_release_plan_def operation_admitted_def operation_classes split: if_splits)
  next
    case docs
    then show ?thesis by (auto simp: source_docs_plan_def operation_admitted_def operation_classes plan_option_Planned split: if_splits)
  next
    case governed
    then show ?thesis by (rule governed_planned)
  qed
qed

text \<open>An operation of the gates runs with an executor of its own, which is cleaned up whatever the operation does.\<close>

definition ends_with :: "'w cli_runner \<Rightarrow> string \<Rightarrow> cli_operation \<Rightarrow> 'w \<Rightarrow> 'w \<Rightarrow> nat \<Rightarrow> bool" where
  "ends_with ru base op w w' code \<longleftrightarrow>
     (case op of
        Do_gate g \<Rightarrow>
          (\<exists>w1 created. ru_create ru base w = (w1, created) \<and>
             (if created
              then \<exists>w2 succeeded cleaned. ru_gate ru base g w1 = (w2, succeeded) \<and> ru_cleanup ru w2 = (w', cleaned) \<and>
                code = (if succeeded \<and> cleaned then 0 else 1)
              else w' = w1 \<and> code = 1))
      | _ \<Rightarrow> (\<exists>succeeded. ru_other ru base op w = (w', succeeded) \<and> code = (if succeeded then 0 else 1)))"

lemma run_ends: "run_command ru base op w = (w', succeeded) \<Longrightarrow> ends_with ru base op w w' (if succeeded then 0 else 1)"
proof (cases "\<exists>g. op = Do_gate g")
  case True
  then obtain g where op: "op = Do_gate g" ..
  assume run: "run_command ru base op w = (w', succeeded)"
  obtain w1 created where c: "ru_create ru base w = (w1, created)" by fastforce
  obtain w2 ok where g: "ru_gate ru base g w1 = (w2, ok)" by fastforce
  obtain w3 cleaned where k: "ru_cleanup ru w2 = (w3, cleaned)" by fastforce
  show ?thesis using run by (cases created) (auto simp: op c g k run_command_def with_executor_def ends_with_def)
next
  case False
  assume "run_command ru base op w = (w', succeeded)"
  with False show ?thesis by (cases op) (simp_all add: run_command_def ends_with_def)
qed

text \<open>Only the version and the help are shown.\<close>

lemma shown_plan:
  assumes "execute_plan kit args directory = Shown"
  shows "args \<in> {[''--version''], [''--help''], [''-h'']}"
proof -
  have release: "release_plan kit base policy catalog rest \<noteq> Shown" for base policy catalog rest
    by (auto simp: release_plan_def split: option.splits sum.splits if_splits)
  have commands: "command_plan kit base policy catalog command rest \<noteq> Shown" for base policy catalog command rest
  proof (cases "command = ''release''")
    case True
    then show ?thesis using release by (simp add: command_plan_def)
  next
    case False
    then show ?thesis using command_plain [OF False, of base kit policy catalog rest] by auto
  qed
  have cohesion: "cohesion_plan kit base policy rest \<noteq> Shown" for base policy rest
    by (auto simp: cohesion_plan_def cohesion_sources_def cohesion_aggregate_def Let_def split: list.splits option.splits if_splits)
  have governed: "governed_plan kit args directory \<noteq> Shown"
    using commands cohesion by (auto simp: governed_plan_def split: option.splits)
  have others: "upgrade_plan kit directory rest \<noteq> Shown" "binary_release_plan directory rest \<noteq> Shown"
    "source_docs_plan directory rest \<noteq> Shown" for rest
    by (auto simp: upgrade_plan_def binary_release_plan_def source_docs_plan_def split: sum.splits option.splits prod.splits if_splits)
  show ?thesis using assms governed others by (auto simp: execute_plan_def split: if_splits)
qed


end
