(* ===== verification/Spec2Isabelle.thy ===== *)
theory Spec2Isabelle
  imports
    Config_Facts Inventory_Facts Coverage_Facts Affected_Facts Evidence_Facts
    Mutation_Archive_Facts Mutation_Store_Facts Mutation_Campaign_Facts Upgrade_Facts Bounded_Output_Facts
    Gate_Process_Facts Gate_Source_Facts Cohesion_Facts Catalog_Facts Catalog_Publish_Facts
    Gate_Fuzz_Facts Services_Identities Services_Redaction Spec_Facts Spec_Address_Facts
    Security_Docs Workflow_Facts Release_Archive Document_Navigation Command_Line
begin

text \<open>
  go-library-tools is the command \<open>golib\<close> with which a family of Go repositories checks, measures, releases and
  upgrades itself. This library models its Go packages below src/internal and proves what they
  promise to each other. The Go code reads files and JSON, runs processes and writes files; the model has
  the decisions it takes on what it reads, the order of its effects, and every error path.

  \<^bold>\<open>Parts and how they interact.\<close> The command line (cli) reads the policy (config), the catalog (inventory)
  and runs the gates of the selected modules (gates). The gates take files through repositoryfile, accounts
  through coverage, the change of a range of commits through affected.go, the campaign and the evidence
  through mutation and evidence, the fixtures of tests through services, the documents through
  specification, securitydocs and cohesion. A release checks repository identity and packages a binary
  (repository, releasecheck, archivecheck); upgrade moves the pins of the tooling to a new release.

  \<^bold>\<open>Conventions.\<close> A Go string is a list of bytes; a struct is a record; a nil slice that the code can tell
  from an empty one is an option; a Go map is an association list or a list of pairs; \<open>(T, error)\<close> is
  a sum with the error left, a plain \<open>error\<close> an option; a sequence of early returns is \<open>first_error\<close>. State that is
  mutated is passed explicitly. Integers that cannot wrap are \<open>int\<close> or \<open>nat\<close>; where the width matters
  (archive sizes, addresses, digests of task names) they are words or the wrap-around is written out; float64
  is modelled with its rounding. Most errors are constructors and not message texts; a fixed text is kept where one
  error type serves many messages.

  \<^bold>\<open>What is an argument.\<close> Code outside src/ never gets an invented definition. The operating system, git,
  docker and the go command are the executor and file records of the kits (\<open>gate_kit\<close>, \<open>fuzz_kit\<close>, \<open>manager\<close>,
  \<open>os_files\<close>, \<open>walk_view\<close>, \<open>workflow_view\<close>, \<open>contract_kit\<close>, \<open>distribution_kit\<close>, \<open>output_files\<close>, \<open>document_kit\<close>,
  \<open>command_kit\<close>); the parsers of
  golang.org/x/mod, encoding/json, Markdown, YAML, regexp/syntax, URLs, times, tar, gzip and Go sources, the schema
  validator, SHA-256, the clock, and the polls of a context are functions in \<open>manifest_env\<close>, \<open>spec_kit\<close>, \<open>security_kit\<close>,
  \<open>license_kit\<close>, \<open>version_library\<close> or in the arguments of a definition. The theorems hold for all of them,
  so no behaviour of theirs is assumed unless a statement names it as a hypothesis.

  \<^bold>\<open>Shared theories.\<close>
  Go_Prelude: results, early returns, duplicate scans, and the list facts.
  Go_Strings: package strings, strconv and the decoding of UTF-8.
  Go_Path and Go_Rel: lexical paths, with \<open>confined\<close>: a relative path that a walk never takes outside its root.
  Go_Files: a file system of nodes with a script of faults and of interfering processes, so a
    theorem over all scripts covers every failure and every interleaving of the system calls.
  Go_Float: float64 arithmetic.
  Strict_Json: JSON values and tokens, the scan that refuses repeated keys, and the decoding of one value.

  \<^bold>\<open>Theories and sources.\<close>
  Config_Policy, Config_Facts: config/config.go.
  Inventory, Inventory_Facts: inventory/inventory.go.
  Coverage, Coverage_Facts: coverage/profile.go.
  Affected, Affected_Facts: gates/affected.go, against an inductive reachability.
  Repository_File: repositoryfile/open.go and read.go.
  Immutable_Store, Evidence, Evidence_Facts: evidence/evidence.go and inspect.go.
  Mutation_Review, Mutation_Report, Mutation_Store with Mutation_Report_Facts, Mutation_Archive_Facts and
    Mutation_Store_Facts: mutation/equivalent.go, zero.go, migration.go, bootstrap.go, report_store.go,
    reuse.go, verifier.go, runtime.go.
  Mutation_Source, Mutation_Input, Mutation_Tool, Mutation_Campaign with Mutation_Input_Facts and
    Mutation_Campaign_Facts: mutation/source.go, source_admission.go, selection.go, verifier_compatibility.go,
    input.go, tool.go, campaign.go, campaign_diagnostic.go.
  Upgrade, Upgrade_Facts: upgrade/upgrade.go.
  Cohesion_Check, Cohesion_Facts: cohesion/validate.go, check.go, presence.go, source_lock.go.
  Cohesion_Catalog, Catalog_Facts, Catalog_Publish_Facts: cohesion/catalog.go and aggregate.go.
  Bounded_Output, Bounded_Output_Facts: the bounded writers of gates/runner.go, api.go, sbom.go,
    secret_metadata.go and gitleaks_sources.go.
  Gate_Process, Gate_Process_Facts: gates/process.go and the environments of gates/runner.go.
  Gate_Source, Gate_Source_Facts: gates/source_walk.go and the suppressions of gates/runner.go.
  Gate_Gosec: gates/gosec_reporting.go.
  Gate_Run: the state of a run and its steps (gates/runner.go, process.go, services.go).
  Gate_Snapshot: gates/gitleaks_sources.go.
  Gate_Security, Gate_Scan: the security phase (gates/runner.go, compiler_tools.go, gosec_packages.go,
    sbom.go, secrets_changes.go).
  Gate_Checks, Gate_Docs: the gates inside a module (gates/runner.go, local_tests.go, staticcheck.go,
    documentation.go, api.go).
  Gate_Mutation: gates/mutation.go and services.go.
  Gate_Runner: the commands of gates/runner.go and release.go.
  Gate_Fuzz, Gate_Fuzz_Facts: gates/fuzz_smoke.go.
  Gate_Laws, Gate_Runner_Facts, Gate_Cleanup_Facts: what the commands of a run guarantee.
  Workflow_Yaml, Workflow_Actions, Workflow_Facts: gates/workflows.go and local_actions.go.
  Services_Output, Services, Services_Stream with Services_Facts, Services_Identities and Services_Redaction:
    services/services.go, opensearch.go, rabbitstream.go, rabbitstream_full.go, http_client.go.
  Spec_Address, Spec_Data, Spec_Decisions, Spec_Check with Spec_Facts and Spec_Address_Facts:
    specification/check.go; the classes of net/netip are those of the Go version of go.mod, which unmap IPv4
    addresses that are mapped into IPv6.
  Security_Docs: securitydocs/security.go.
  Release_Archive: archivecheck/archive.go and releasecheck/binary.go.
  Repository_Contract: repository/check.go, releasecheck/release.go, buildinfo/version.go, consumers/consumers.go.
  Document_Check, Document_Navigation: docscheck/admission.go, check.go, operations.go, navigation.go, lychee.go.
  Command_Line: cli/cli.go and binary_release.go.
  \<^bold>\<open>Contracts.\<close> The locales state what one part relies on in another, and are interpreted on the model.
  \<open>immutable_store\<close> and \<open>competing_stores\<close>: a path is published once, whatever fails or interferes; interpreted on
    the evidence store and on the report store.
  \<open>bounded_capture\<close>: a writer that receives a stream in any pieces keeps a prefix and tells of an overflow;
    interpreted on the writers of the source capture, the buffers and the bill of materials.
  \<open>pin\<close>: a rewrite replaces exactly one pin; interpreted on the four pins of a plan.
  \<open>run_law\<close> with \<open>source_law\<close>, \<open>scan_law\<close> and \<open>gate_law\<close>: a relation that every small step of a run obeys is obeyed
    by every gate; interpreted on the order of the events, the phase of the scanners, the owed
    temporary files with the directories made inside them, and the kept tools.
  \<open>task_law\<close> with \<open>command_law\<close>: the same for the tasks of a fixture; interpreted on the tracking of what a task
    created and on the identities of a selection.

  \<^bold>\<open>What the lemmas show.\<close> Admission: what decoded policies, catalogs, contracts, matrices, workflows, archives and
  reviews guarantee, often as equivalence with a specification. Publication: all new, all old or
  restored, for stores, artifacts and rewrites, under every fault script. Ordering: bounded verifiers run before
  any code of the repository, and the contracts run in their order. Ownership: what is created is
  removed, for runs (what internal/gates made with CreateTemp and MkdirTemp; directories of fixed names go with the task workspace) and
  for leases (the containers of docker compose included). Disclosure and isolation: no secret in a diagnostic, no cache that
  repository code writes is read by a verifier, no dial to a private address, no read outside the root.
  Reuse: evidence is found again by the next campaign and only for the same inputs.

  \<^bold>\<open>Bounds and fuel.\<close> Where the code recurses without a structural argument the model has fuel, and enough of it.
  Linked paths are resolved at most 40 times, as the system does. Directories are made with the length of the
  path plus one, ancestors of a path and the directories of a candidate with the length of the path: each
  step shortens it. Scans of JSON tokens take twice their number plus one. The searches for
  matches in a text take its length. The walk of a source tree has 129 levels and the walk over a JSON
  document as many, one more than the code admits. The private report of gosec stops below level 65,
  as the code. A YAML document is visited at most 100000 times below level 101, and local actions are
  followed 32 deep: the bounds of the code; Workflow_Facts proves that the check ends within them.
  An online fetch follows nine redirects. The search for the root of a repository has one step more than its path has
  elements, and Command_Line proves that it finds the nearest one; the search for a free anchor has one more than
  there are anchors, and Document_Navigation proves that it finds one. The queue of the navigation
  and the search for reachable documents are total functions with their own termination proofs.

  \<^bold>\<open>Not modelled.\<close>
  cli: the texts of usage messages and reports; cmd/golib passes the arguments on. sourcedocs: an audit of Go
  comments over the syntax trees of go/ast. cohesion/schema.go, the generated schema files and their
  generators: data of a JSON Schema library. gates/process_unix.go, process_other.go and gitleaks_policy.go,
  docscheck/assets.go: process groups and embedded files. The Python and shell tools, the workflows of the
  repository, its documents and its tests.
  Not in the model of any part: the memory and the time a computation takes, the goroutines of process groups
  (a process is one step with its captured output; writes are serialized by the code), file modes,
  message texts of errors, and deadlines beyond the fact that a context may be stopped at each of its polls.
\<close>

end
